(* ===== verification/Prelude.thy ===== *)
theory Prelude
  imports Main "HOL-Library.Char_ord" "HOL-Library.Word"
begin

text \<open>
  What every component shares: bytes, C strings, machine integers, result codes, and the generic
  facts about them.

  A byte (\<open>u_char\<close>, \<open>char\<close>) is a HOL \<^typ>\<open>char\<close>, which has exactly the 256 byte values;
  a buffer given by a pointer and a length is the list of its bytes.  \<open>ord\<close> reads a byte as an
  unsigned number and \<open>char_of\<close> truncates a number to a byte, as the C casts do.  The comparisons
  \<open>c >= '0'\<close> of the code are comparisons of \<^typ>\<open>char\<close> (theory \<open>Char_ord\<close>), which
  compare these numbers.

  A signed 64-bit integer (\<open>ngx_int_t\<close>, \<open>ssize_t\<close>, \<open>off_t\<close>, \<open>time_t\<close> on the
  platforms the program is built for) is an \<^typ>\<open>int\<close>, and every arithmetic operation of the
  code on it is followed by \<open>s64\<close>, which reduces to two's complement.  A theorem that gives the
  exact mathematical result therefore also shows that nothing overflows.
\<close>

named_theorems code_const "the numerical constants of the code"
named_theorems byte_simps "byte predicates as conditions on the byte's number"

section \<open>Bytes\<close>

type_synonym bytes = string

abbreviation ord :: "char \<Rightarrow> nat" where
  "ord c \<equiv> of_char c"

abbreviation CR :: char where "CR \<equiv> CHR 0x0D"
abbreviation LF :: char where "LF \<equiv> CHR 0x0A"
abbreviation NUL :: char where "NUL \<equiv> CHR 0x00"
abbreviation HT :: char where "HT \<equiv> CHR 0x09"

lemma ord_less_256: "ord c < 256"
  by (rule nat_of_char_less_256)

lemma ord_le_255: "ord c \<le> 255"
  using ord_less_256 [of c] by linarith

lemma ord_char_of_small: "n < 256 \<Longrightarrow> ord (char_of n) = n"
  by simp

lemma char_le_ord [byte_simps]: "c \<le> d \<longleftrightarrow> ord c \<le> ord d"
  by (simp add: less_eq_char_def)

lemma char_less_ord [byte_simps]: "c < d \<longleftrightarrow> ord c < ord d"
  by (simp add: less_char_def)

lemma char_eq_ord: "c = d \<longleftrightarrow> ord c = ord d"
  by (simp only: of_char_eq_iff)

lemma ord_eq_num [byte_simps]: "n < 256 \<Longrightarrow> c = char_of n \<longleftrightarrow> ord c = n"
  by (metis char_of_char ord_char_of_small)

definition is_digit :: "char \<Rightarrow> bool" where
  "is_digit c \<longleftrightarrow> CHR ''0'' \<le> c \<and> c \<le> CHR ''9''"

lemma is_digit_ord [byte_simps]: "is_digit c \<longleftrightarrow> 48 \<le> ord c \<and> ord c \<le> 57"
  by (simp add: is_digit_def less_eq_char_def)

text \<open>\<open>(u_char) (ch | 0x20)\<close>: lower case for letters.\<close>

definition or_0x20 :: "char \<Rightarrow> char" where
  "or_0x20 ch = char_of (or (ord ch) 0x20)"

lemma or_32_nat: "or x 32 = (if odd (x div 32) then x else x + 32)" for x :: nat
proof -
  have b: "bit x 5 \<longleftrightarrow> odd (x div 32)"
    by (simp add: bit_iff_odd)
  have "or x 32 = set_bit 5 x"
    by (simp add: set_bit_eq_or)
  also have "\<dots> = x + of_bool (\<not> bit x 5) * 2 ^ 5"
    by (simp add: set_bit_eq)
  finally show ?thesis
    by (simp add: b)
qed

lemma odd_div_32:
  "n < 256 \<Longrightarrow> odd (n div 32)
    \<longleftrightarrow> 32 \<le> n \<and> n < 64 \<or> 96 \<le> n \<and> n < 128 \<or> 160 \<le> n \<and> n < 192 \<or> 224 \<le> n" for n :: nat
proof -
  assume "n < 256"
  define k where "k = n div 32"
  have n: "32 * k \<le> n" "n < 32 * k + 32" and k: "k < 8"
    using \<open>n < 256\<close> by (auto simp: k_def)
  from k consider "k = 0" | "k = 1" | "k = 2" | "k = 3" | "k = 4" | "k = 5" | "k = 6" | "k = 7"
    by linarith
  then show ?thesis
    unfolding k_def [symmetric] using n by cases auto
qed

lemma ord_or_0x20: "ord (or_0x20 c) = (if odd (ord c div 32) then ord c else ord c + 32)"
proof -
  have "odd (ord c div 32) \<or> ord c + 32 < 256"
    using ord_less_256 [of c] odd_div_32 [of "ord c"] by auto
  then show ?thesis
    by (auto simp: or_0x20_def or_32_nat)
qed

text \<open>The test \<open>c >= 'a' && c <= 'f'\<close> on \<open>c = ch | 0x20\<close>.\<close>

definition is_hex_letter :: "char \<Rightarrow> bool" where
  "is_hex_letter ch \<longleftrightarrow> CHR ''a'' \<le> or_0x20 ch \<and> or_0x20 ch \<le> CHR ''f''"

lemma is_hex_letter_ord [byte_simps]:
  "is_hex_letter c \<longleftrightarrow> 65 \<le> ord c \<and> ord c \<le> 70 \<or> 97 \<le> ord c \<and> ord c \<le> 102"
  unfolding is_hex_letter_def less_eq_char_def ord_or_0x20
  using ord_less_256 [of c] by (simp add: odd_div_32) linarith

definition is_letter :: "char \<Rightarrow> bool" where
  "is_letter ch \<longleftrightarrow> CHR ''a'' \<le> or_0x20 ch \<and> or_0x20 ch \<le> CHR ''z''"

lemma is_letter_ord [byte_simps]:
  "is_letter c \<longleftrightarrow> 65 \<le> ord c \<and> ord c \<le> 90 \<or> 97 \<le> ord c \<and> ord c \<le> 122"
  unfolding is_letter_def less_eq_char_def ord_or_0x20
  using ord_less_256 [of c] by (simp add: odd_div_32) linarith

text \<open>\<open>ch - '0'\<close> and \<open>(ch | 0x20) - 'a' + 10\<close>.\<close>

definition digit_of :: "char \<Rightarrow> int" where
  "digit_of c = int (ord c) - 48"

definition hex_letter_of :: "char \<Rightarrow> int" where
  "hex_letter_of c = int (ord (or_0x20 c)) - 97 + 10"

lemma digit_of_range: "is_digit c \<Longrightarrow> 0 \<le> digit_of c \<and> digit_of c \<le> 9"
  by (auto simp: digit_of_def is_digit_ord)

lemma hex_letter_of_range: "is_hex_letter c \<Longrightarrow> 10 \<le> hex_letter_of c \<and> hex_letter_of c \<le> 15"
  by (auto simp: hex_letter_of_def is_hex_letter_def less_eq_char_def)

section \<open>Machine integers\<close>

definition s64 :: "int \<Rightarrow> int" where
  "s64 x = (x + 9223372036854775808) mod 18446744073709551616 - 9223372036854775808"

definition u64 :: "int \<Rightarrow> int" where
  "u64 x = x mod 18446744073709551616"

definition u32 :: "int \<Rightarrow> int" where
  "u32 x = x mod 4294967296"

lemma s64_id: "-9223372036854775808 \<le> x \<Longrightarrow> x \<le> 9223372036854775807 \<Longrightarrow> s64 x = x"
  by (simp add: s64_def)

lemma u64_id: "0 \<le> x \<Longrightarrow> x \<le> 18446744073709551615 \<Longrightarrow> u64 x = x"
  by (simp add: u64_def)

lemma u32_id: "0 \<le> x \<Longrightarrow> x \<le> 4294967295 \<Longrightarrow> u32 x = x"
  by (simp add: u32_def)

lemma s64_range: "-9223372036854775808 \<le> s64 x \<and> s64 x \<le> 9223372036854775807"
proof -
  have "0 \<le> (x + 9223372036854775808) mod 18446744073709551616
    \<and> (x + 9223372036854775808) mod 18446744073709551616 < 18446744073709551616"
    by simp
  then show ?thesis by (simp add: s64_def)
qed

definition NGX_MAX_INT_T_VALUE :: int where
  [code_const]: "NGX_MAX_INT_T_VALUE = 9223372036854775807"

definition NGX_MAX_SIZE_T_VALUE :: int where
  [code_const]: "NGX_MAX_SIZE_T_VALUE = 9223372036854775807"

definition NGX_MAX_OFF_T_VALUE :: int where
  [code_const]: "NGX_MAX_OFF_T_VALUE = 9223372036854775807"

definition NGX_MAX_TIME_T_VALUE :: int where
  [code_const]: "NGX_MAX_TIME_T_VALUE = 9223372036854775807"

definition NGX_OK :: int where [code_const]: "NGX_OK = 0"
definition NGX_ERROR :: int where [code_const]: "NGX_ERROR = -1"
definition NGX_AGAIN :: int where [code_const]: "NGX_AGAIN = -2"
definition NGX_BUSY :: int where [code_const]: "NGX_BUSY = -3"
definition NGX_DONE :: int where [code_const]: "NGX_DONE = -4"
definition NGX_DECLINED :: int where [code_const]: "NGX_DECLINED = -5"

section \<open>Lists\<close>

lemma takeWhile_all: "(\<forall>x\<in>set xs. P x) \<Longrightarrow> takeWhile P xs = xs"
  by (induction xs) auto

lemma dropWhile_all: "(\<forall>x\<in>set xs. P x) \<Longrightarrow> dropWhile P xs = []"
  by (induction xs) auto

text \<open>Induction in groups of three.\<close>

lemma list_induct_by3 [case_names Nil One Two Three]:
  assumes "P []" and "\<And>a. P [a]" and "\<And>a b. P [a, b]" and "\<And>a b c s. P s \<Longrightarrow> P (a # b # c # s)"
  shows "P s"
  using assms
  by induction_schema (pat_completeness, lexicographic_order)

text \<open>The value of a list of digits in a base, most significant digit first.\<close>

fun horner :: "int \<Rightarrow> int \<Rightarrow> int list \<Rightarrow> int" where
  "horner b v [] = v"
| "horner b v (d # ds) = horner b (v * b + d) ds"

lemma horner_append: "horner b v (xs @ ys) = horner b (horner b v xs) ys"
  by (induction xs arbitrary: v) auto

lemma horner_ge:
  assumes "1 \<le> b" and "0 \<le> v" and "\<forall>d\<in>set ds. 0 \<le> d"
  shows "v \<le> horner b v ds"
  using assms
proof (induction ds arbitrary: v)
  case Nil
  then show ?case by simp
next
  case (Cons d ds)
  have "v * 1 \<le> v * b" using Cons.prems by (intro mult_left_mono) auto
  then have le: "v \<le> v * b + d" using Cons.prems(3) by (simp add: add_increasing2)
  also have "\<dots> \<le> horner b (v * b + d) ds"
    using Cons.prems le by (intro Cons.IH) auto
  finally show ?case by simp
qed

lemma horner_nonneg:
  "1 \<le> b \<Longrightarrow> 0 \<le> v \<Longrightarrow> \<forall>d\<in>set ds. 0 \<le> d \<Longrightarrow> 0 \<le> horner b v ds"
  using horner_ge [of b v ds] by linarith

section \<open>Bits\<close>

text \<open>The masks and shifts of the code as remainders, quotients and sums.\<close>

named_theorems bit_arith "bit operations as arithmetic"

lemma and_low_bits: "and x (2 ^ n - 1) = x mod 2 ^ n" for x :: nat
  by (simp only: take_bit_eq_mod [symmetric] take_bit_eq_mask mask_eq_exp_minus_1)

lemma and_masks [bit_arith]:
  "and x 3 = x mod 4" "and x 7 = x mod 8" "and x 15 = x mod 16" "and x 31 = x mod 32"
  "and x 63 = x mod 64" "and x 255 = x mod 256" for x :: nat
  using and_low_bits [of x 2] and_low_bits [of x 3] and_low_bits [of x 4] and_low_bits [of x 5]
    and_low_bits [of x 6] and_low_bits [of x 8] by simp_all

lemma or_shift_add [bit_arith]: "b < 2 ^ n \<Longrightarrow> or (push_bit n a) b = a * 2 ^ n + b" for a b :: nat
proof -
  assume "b < 2 ^ n"
  then have "take_bit n b = b" by (simp add: take_bit_nat_eq_self)
  then have "\<not> bit b i" if "n \<le> i" for i
    using that by (metis bit_take_bit_iff not_less)
  then have "push_bit n a + b = or (push_bit n a) b"
    by (intro disjunctive_add_eq_or bit_eqI) (auto simp: bit_simps)
  then show ?thesis by (simp add: push_bit_eq_mult)
qed

end
