(* ===== verification/NgxNumber.thy ===== *)
theory NgxNumber
  imports Prelude
begin

text \<open>
  The number readers of \<open>src/core/ngx_string.c\<close> of nginx: \<open>ngx_atoi\<close>, \<open>ngx_atofp\<close>,
  \<open>ngx_atosz\<close>, \<open>ngx_atoof\<close>, \<open>ngx_atotm\<close> and \<open>ngx_hextoi\<close>.  Each is a loop with an overflow
  guard (\<open>cutoff\<close>, \<open>cutlim\<close>); the theorems say that each returns the exact value of the digits
  when that value fits, and \<open>NGX_ERROR\<close> in every other case.

  The locale \<open>decimal_reader\<close> is the interface the four decimal readers share: a maximum and the
  loop they run.  It is interpreted for each of them.
\<close>

section \<open>The readers\<close>

fun ngx_atoi_loop :: "int \<Rightarrow> int \<Rightarrow> int \<Rightarrow> bytes \<Rightarrow> int" where
  "ngx_atoi_loop cutoff cutlim value [] = value"
| "ngx_atoi_loop cutoff cutlim value (c # line) =
     (if c < CHR ''0'' \<or> c > CHR ''9'' then NGX_ERROR
      else if value \<ge> cutoff \<and> (value > cutoff \<or> digit_of c > cutlim) then NGX_ERROR
      else ngx_atoi_loop cutoff cutlim (s64 (value * 10 + digit_of c)) line)"

definition ngx_atoi :: "bytes \<Rightarrow> int" where
  "ngx_atoi line =
     (if length line = 0 then NGX_ERROR
      else ngx_atoi_loop (NGX_MAX_INT_T_VALUE div 10) (NGX_MAX_INT_T_VALUE mod 10) 0 line)"

definition ngx_atosz :: "bytes \<Rightarrow> int" where
  "ngx_atosz line =
     (if length line = 0 then NGX_ERROR
      else ngx_atoi_loop (NGX_MAX_SIZE_T_VALUE div 10) (NGX_MAX_SIZE_T_VALUE mod 10) 0 line)"

definition ngx_atoof :: "bytes \<Rightarrow> int" where
  "ngx_atoof line =
     (if length line = 0 then NGX_ERROR
      else ngx_atoi_loop (NGX_MAX_OFF_T_VALUE div 10) (NGX_MAX_OFF_T_VALUE mod 10) 0 line)"

definition ngx_atotm :: "bytes \<Rightarrow> int" where
  "ngx_atotm line =
     (if length line = 0 then NGX_ERROR
      else ngx_atoi_loop (NGX_MAX_TIME_T_VALUE div 10) (NGX_MAX_TIME_T_VALUE mod 10) 0 line)"

text \<open>\<open>while (point--)\<close> at the end of \<open>ngx_atofp\<close>.\<close>

fun ngx_atofp_scale :: "int \<Rightarrow> int \<Rightarrow> nat \<Rightarrow> int" where
  "ngx_atofp_scale cutoff value 0 = value"
| "ngx_atofp_scale cutoff value (Suc point) =
     (if value > cutoff then NGX_ERROR else ngx_atofp_scale cutoff (s64 (value * 10)) point)"

text \<open>The reading loop; \<open>point -= dot\<close> is not reached with \<open>point = 0\<close>.\<close>

fun ngx_atofp_loop :: "int \<Rightarrow> int \<Rightarrow> int \<Rightarrow> nat \<Rightarrow> nat \<Rightarrow> bytes \<Rightarrow> int" where
  "ngx_atofp_loop cutoff cutlim value point dot [] = ngx_atofp_scale cutoff value point"
| "ngx_atofp_loop cutoff cutlim value point dot (c # line) =
     (if point = 0 then NGX_ERROR
      else if c = CHR ''.'' then
        (if dot \<noteq> 0 then NGX_ERROR else ngx_atofp_loop cutoff cutlim value point 1 line)
      else if c < CHR ''0'' \<or> c > CHR ''9'' then NGX_ERROR
      else if value \<ge> cutoff \<and> (value > cutoff \<or> digit_of c > cutlim) then NGX_ERROR
      else ngx_atofp_loop cutoff cutlim (s64 (value * 10 + digit_of c)) (point - dot) dot line)"

definition ngx_atofp :: "bytes \<Rightarrow> nat \<Rightarrow> int" where
  "ngx_atofp line point =
     (if length line = 0 then NGX_ERROR
      else ngx_atofp_loop (NGX_MAX_INT_T_VALUE div 10) (NGX_MAX_INT_T_VALUE mod 10) 0 point 0 line)"

fun ngx_hextoi_loop :: "int \<Rightarrow> int \<Rightarrow> bytes \<Rightarrow> int" where
  "ngx_hextoi_loop cutoff value [] = value"
| "ngx_hextoi_loop cutoff value (ch # line) =
     (if value > cutoff then NGX_ERROR
      else if CHR ''0'' \<le> ch \<and> ch \<le> CHR ''9''
      then ngx_hextoi_loop cutoff (s64 (value * 16 + digit_of ch)) line
      else if is_hex_letter ch
      then ngx_hextoi_loop cutoff (s64 (value * 16 + hex_letter_of ch)) line
      else NGX_ERROR)"

definition ngx_hextoi :: "bytes \<Rightarrow> int" where
  "ngx_hextoi line =
     (if length line = 0 then NGX_ERROR
      else ngx_hextoi_loop (NGX_MAX_INT_T_VALUE div 16) 0 line)"

section \<open>What they are to compute\<close>

definition dec_value :: "bytes \<Rightarrow> int" where
  "dec_value s = horner 10 0 (map digit_of s)"

definition all_digits :: "bytes \<Rightarrow> bool" where
  "all_digits s \<longleftrightarrow> (\<forall>c\<in>set s. is_digit c)"

definition is_hex :: "char \<Rightarrow> bool" where
  "is_hex c \<longleftrightarrow> is_digit c \<or> is_hex_letter c"

definition hex_digit :: "char \<Rightarrow> int" where
  "hex_digit c = (if is_digit c then digit_of c else hex_letter_of c)"

definition hex_value :: "bytes \<Rightarrow> int" where
  "hex_value s = horner 16 0 (map hex_digit s)"

lemma all_digits_simps [simp]:
  "all_digits []" "all_digits (c # s) \<longleftrightarrow> is_digit c \<and> all_digits s"
  "all_digits (s @ t) \<longleftrightarrow> all_digits s \<and> all_digits t"
  by (auto simp: all_digits_def)

lemma not_digit_test: "c < CHR ''0'' \<or> c > CHR ''9'' \<longleftrightarrow> \<not> is_digit c"
  by (auto simp: is_digit_def not_le)

lemma digit_of_nonneg: "all_digits s \<Longrightarrow> \<forall>d\<in>set (map digit_of s). 0 \<le> d"
  by (auto simp: all_digits_def dest: digit_of_range)

lemma hex_digit_range: "is_hex c \<Longrightarrow> 0 \<le> hex_digit c \<and> hex_digit c \<le> 15"
  unfolding is_hex_def hex_digit_def by (auto dest: digit_of_range hex_letter_of_range)

lemma hex_digit_nonneg: "\<forall>c\<in>set s. is_hex c \<Longrightarrow> \<forall>d\<in>set (map hex_digit s). 0 \<le> d"
  by (auto dest: hex_digit_range)

lemma dec_value_nonneg: "all_digits s \<Longrightarrow> 0 \<le> dec_value s"
  unfolding dec_value_def by (intro horner_nonneg digit_of_nonneg) auto

section \<open>The decimal readers\<close>

text \<open>
  What a decimal reader relies on: a maximum that a 64-bit integer can hold, and the loop started
  with its quotient and remainder by ten.
\<close>

locale decimal_reader =
  fixes maxv :: int and reader :: "bytes \<Rightarrow> int"
  assumes maxv_range: "0 \<le> maxv" "maxv \<le> 9223372036854775807"
    and reader_loop: "reader line = (if length line = 0 then NGX_ERROR
      else ngx_atoi_loop (maxv div 10) (maxv mod 10) 0 line)"
begin

lemma guard_iff:
  assumes "0 \<le> d" and "d \<le> 9"
  shows "(v \<ge> maxv div 10 \<and> (v > maxv div 10 \<or> d > maxv mod 10)) \<longleftrightarrow> v * 10 + d > maxv"
proof -
  have "maxv = maxv div 10 * 10 + maxv mod 10" and "0 \<le> maxv mod 10" and "maxv mod 10 < 10"
    by simp_all
  then show ?thesis using assms by linarith
qed

lemma loop_step:
  assumes "0 \<le> v" and "v \<le> maxv"
  shows "ngx_atoi_loop (maxv div 10) (maxv mod 10) v (c # s) =
    (if is_digit c \<and> v * 10 + digit_of c \<le> maxv
     then ngx_atoi_loop (maxv div 10) (maxv mod 10) (v * 10 + digit_of c) s else NGX_ERROR)"
proof (cases "is_digit c")
  case False
  then show ?thesis using not_digit_test [of c] by simp
next
  case True
  note rng = digit_of_range [OF True]
  have g: "(v \<ge> maxv div 10 \<and> (v > maxv div 10 \<or> digit_of c > maxv mod 10))
      \<longleftrightarrow> v * 10 + digit_of c > maxv"
    using rng by (intro guard_iff) auto
  have s: "s64 (v * 10 + digit_of c) = v * 10 + digit_of c" if "v * 10 + digit_of c \<le> maxv"
    using that assms rng maxv_range by (intro s64_id) auto
  from True have "\<not> (c < CHR ''0'' \<or> c > CHR ''9'')" by (simp only: not_digit_test) simp
  then show ?thesis using True s by (simp only: ngx_atoi_loop.simps g not_less if_False) auto
qed

lemma loop_exact:
  assumes "0 \<le> v" and "v \<le> maxv"
  shows "ngx_atoi_loop (maxv div 10) (maxv mod 10) v s =
    (if all_digits s \<and> horner 10 v (map digit_of s) \<le> maxv
     then horner 10 v (map digit_of s) else NGX_ERROR)"
  using assms
proof (induction s arbitrary: v)
  case Nil
  then show ?case by simp
next
  case (Cons c s)
  show ?case
  proof (cases "is_digit c \<and> v * 10 + digit_of c \<le> maxv")
    case True
    with Cons.prems have "0 \<le> v * 10 + digit_of c" using digit_of_range [of c] by auto
    with True Cons show ?thesis by (simp only: loop_step) simp
  next
    case False
    have "v * 10 + digit_of c \<le> horner 10 (v * 10 + digit_of c) (map digit_of s)"
      if "is_digit c" "all_digits s"
      using that Cons.prems digit_of_range [of c] by (intro horner_ge digit_of_nonneg) auto
    with False Cons.prems show ?thesis by (simp only: loop_step) auto
  qed
qed

lemma exact:
  "reader s = (if s \<noteq> [] \<and> all_digits s \<and> dec_value s \<le> maxv then dec_value s else NGX_ERROR)"
  using loop_exact [of 0 s] maxv_range by (auto simp: reader_loop dec_value_def)

lemma range: "reader s = NGX_ERROR \<or> 0 \<le> reader s \<and> reader s \<le> maxv"
  using dec_value_nonneg [of s] by (auto simp: exact)

lemma error_iff: "reader s = NGX_ERROR \<longleftrightarrow> s = [] \<or> \<not> all_digits s \<or> dec_value s > maxv"
  using dec_value_nonneg [of s] by (auto simp: exact NGX_ERROR_def)

end

interpretation atoi: decimal_reader NGX_MAX_INT_T_VALUE ngx_atoi
  by unfold_locales (simp_all add: code_const ngx_atoi_def)

interpretation atosz: decimal_reader NGX_MAX_SIZE_T_VALUE ngx_atosz
  by unfold_locales (simp_all add: code_const ngx_atosz_def)

interpretation atoof: decimal_reader NGX_MAX_OFF_T_VALUE ngx_atoof
  by unfold_locales (simp_all add: code_const ngx_atoof_def)

interpretation atotm: decimal_reader NGX_MAX_TIME_T_VALUE ngx_atotm
  by unfold_locales (simp_all add: code_const ngx_atotm_def)

section \<open>The fixed-point reader\<close>

text \<open>
  A fixed-point number is an integer part and, after a dot, a fraction of at most \<open>point\<close> digits;
  its value is scaled by \<open>10 ^ point\<close>.
\<close>

definition fp_int :: "bytes \<Rightarrow> bytes" where
  "fp_int s = takeWhile (\<lambda>c. c \<noteq> CHR ''.'') s"

definition fp_frac :: "bytes \<Rightarrow> bytes" where
  "fp_frac s = tl (dropWhile (\<lambda>c. c \<noteq> CHR ''.'') s)"

definition fp_value :: "bytes \<Rightarrow> nat \<Rightarrow> int" where
  "fp_value s point =
     horner 10 0 (map digit_of (fp_int s @ fp_frac s)) * 10 ^ (point - length (fp_frac s))"

abbreviation fp_loop :: "int \<Rightarrow> nat \<Rightarrow> nat \<Rightarrow> bytes \<Rightarrow> int" where
  "fp_loop \<equiv> ngx_atofp_loop (NGX_MAX_INT_T_VALUE div 10) (NGX_MAX_INT_T_VALUE mod 10)"

lemma atofp_scale_exact:
  "0 \<le> v \<Longrightarrow> v \<le> NGX_MAX_INT_T_VALUE \<Longrightarrow>
   ngx_atofp_scale (NGX_MAX_INT_T_VALUE div 10) v p =
     (if v * 10 ^ p \<le> NGX_MAX_INT_T_VALUE then v * 10 ^ p else NGX_ERROR)"
proof (induction p arbitrary: v)
  case 0
  then show ?case by simp
next
  case (Suc p)
  show ?case
  proof (cases "v > NGX_MAX_INT_T_VALUE div 10")
    case True
    then have "NGX_MAX_INT_T_VALUE < v * 10" by (simp add: code_const)
    also have "v * 10 * 1 \<le> v * 10 * 10 ^ p"
      using Suc.prems by (intro mult_left_mono) auto
    finally show ?thesis using True by (simp add: mult.assoc)
  next
    case False
    then have "v * 10 \<le> NGX_MAX_INT_T_VALUE" "s64 (v * 10) = v * 10"
      using Suc.prems by (auto simp: code_const intro!: s64_id)
    then show ?thesis using False Suc.prems Suc.IH [of "v * 10"] by (simp add: mult.assoc)
  qed
qed

lemma atofp_digit_step:
  assumes "0 \<le> v" and "v \<le> NGX_MAX_INT_T_VALUE" and "point \<noteq> 0" and "c \<noteq> CHR ''.''"
  shows "fp_loop v point dot (c # s) =
    (if is_digit c \<and> v * 10 + digit_of c \<le> NGX_MAX_INT_T_VALUE
     then fp_loop (v * 10 + digit_of c) (point - dot) dot s else NGX_ERROR)"
proof (cases "is_digit c")
  case False
  then show ?thesis using assms not_digit_test [of c] by simp
next
  case True
  note rng = digit_of_range [OF True]
  note g = atoi.guard_iff [OF rng [THEN conjunct1] rng [THEN conjunct2]]
  have s: "s64 (v * 10 + digit_of c) = v * 10 + digit_of c"
    if "v * 10 + digit_of c \<le> NGX_MAX_INT_T_VALUE"
    using that assms rng by (intro s64_id) (auto simp: code_const)
  from True have "\<not> (c < CHR ''0'' \<or> c > CHR ''9'')" by (simp only: not_digit_test) simp
  then show ?thesis
    using True s assms(3,4) by (simp only: ngx_atofp_loop.simps g not_less if_False) auto
qed

lemma horner_scaled_ge:
  assumes "0 \<le> w" and "all_digits s"
  shows "w \<le> horner 10 w (map digit_of s) * 10 ^ k"
proof -
  have h: "w \<le> horner 10 w (map digit_of s)"
    using assms by (intro horner_ge digit_of_nonneg) auto
  also have "\<dots> * 1 \<le> horner 10 w (map digit_of s) * 10 ^ k"
    using assms h by (intro mult_left_mono) auto
  finally show ?thesis by simp
qed

lemma atofp_frac_exact:
  "0 \<le> v \<Longrightarrow> v \<le> NGX_MAX_INT_T_VALUE \<Longrightarrow>
   fp_loop v point 1 s =
     (if all_digits s \<and> length s \<le> point
         \<and> horner 10 v (map digit_of s) * 10 ^ (point - length s) \<le> NGX_MAX_INT_T_VALUE
      then horner 10 v (map digit_of s) * 10 ^ (point - length s) else NGX_ERROR)"
proof (induction s arbitrary: v point)
  case Nil
  then show ?case by (simp add: atofp_scale_exact)
next
  case (Cons c s)
  consider "point = 0" | "point \<noteq> 0" "c = CHR ''.''" | "point \<noteq> 0" "c \<noteq> CHR ''.''" by blast
  then show ?case
  proof cases
    case 1
    then show ?thesis by simp
  next
    case 2
    then show ?thesis by (simp add: is_digit_ord)
  next
    case 3
    define w where "w = v * 10 + digit_of c"
    show ?thesis
    proof (cases "is_digit c \<and> w \<le> NGX_MAX_INT_T_VALUE")
      case True
      then have "0 \<le> w" using Cons.prems digit_of_range [of c] by (auto simp: w_def)
      then have IH: "fp_loop w (point - 1) 1 s =
        (if all_digits s \<and> length s \<le> point - 1
            \<and> horner 10 w (map digit_of s) * 10 ^ (point - 1 - length s) \<le> NGX_MAX_INT_T_VALUE
         then horner 10 w (map digit_of s) * 10 ^ (point - 1 - length s) else NGX_ERROR)"
        using True by (intro Cons.IH) auto
      have len: "length s \<le> point - 1 \<longleftrightarrow> length (c # s) \<le> point"
        "point - 1 - length s = point - length (c # s)"
        using 3 by auto
      have "fp_loop v point 1 (c # s) = fp_loop w (point - 1) 1 s"
        using True 3 Cons.prems atofp_digit_step [of v point c 1 s]
        by (simp only: w_def if_True) simp
      then show ?thesis
        unfolding IH len using True by (simp add: w_def)
    next
      case False
      have "w \<le> horner 10 w (map digit_of s) * 10 ^ (point - length (c # s))"
        if "is_digit c" "all_digits s"
        using that Cons.prems digit_of_range [of c] by (intro horner_scaled_ge) (auto simp: w_def)
      moreover have "fp_loop v point 1 (c # s) = NGX_ERROR"
        using False 3 Cons.prems atofp_digit_step [of v point c 1 s]
        by (simp only: w_def if_False) simp
      moreover have "horner 10 v (map digit_of (c # s)) = horner 10 w (map digit_of s)"
        by (simp add: w_def)
      ultimately show ?thesis using False by auto
    qed
  qed
qed

lemma atofp_loop_exact:
  "0 \<le> v \<Longrightarrow> v \<le> NGX_MAX_INT_T_VALUE \<Longrightarrow> 0 < point \<Longrightarrow>
   fp_loop v point 0 s =
     (if all_digits (fp_int s) \<and> all_digits (fp_frac s) \<and> length (fp_frac s) \<le> point
         \<and> horner 10 v (map digit_of (fp_int s @ fp_frac s)) * 10 ^ (point - length (fp_frac s))
             \<le> NGX_MAX_INT_T_VALUE
      then horner 10 v (map digit_of (fp_int s @ fp_frac s)) * 10 ^ (point - length (fp_frac s))
      else NGX_ERROR)"
proof (induction s arbitrary: v)
  case Nil
  then show ?case by (simp add: atofp_scale_exact fp_int_def fp_frac_def)
next
  case (Cons c s)
  show ?case
  proof (cases "c = CHR ''.''")
    case True
    then show ?thesis
      using Cons.prems atofp_frac_exact [of v point s] by (simp add: fp_int_def fp_frac_def)
  next
    case False
    define w where "w = v * 10 + digit_of c"
    have parts: "fp_int (c # s) = c # fp_int s" "fp_frac (c # s) = fp_frac s"
      using False by (simp_all add: fp_int_def fp_frac_def)
    show ?thesis
    proof (cases "is_digit c \<and> w \<le> NGX_MAX_INT_T_VALUE")
      case True
      then have "0 \<le> w" using Cons.prems digit_of_range [of c] by (auto simp: w_def)
      then have IH: "fp_loop w point 0 s =
        (if all_digits (fp_int s) \<and> all_digits (fp_frac s) \<and> length (fp_frac s) \<le> point
            \<and> horner 10 w (map digit_of (fp_int s @ fp_frac s)) * 10 ^ (point - length (fp_frac s))
                \<le> NGX_MAX_INT_T_VALUE
         then horner 10 w (map digit_of (fp_int s @ fp_frac s)) * 10 ^ (point - length (fp_frac s))
         else NGX_ERROR)"
        using True Cons.prems by (intro Cons.IH) auto
      have "fp_loop v point 0 (c # s) = fp_loop w point 0 s"
        using True False Cons.prems atofp_digit_step [of v point c 0 s]
        by (simp only: w_def if_True) simp
      then show ?thesis
        unfolding IH parts using True by (simp add: w_def)
    next
      case no: False
      have "w \<le> horner 10 w (map digit_of (fp_int s @ fp_frac s)) * 10 ^ (point - length (fp_frac s))"
        if "is_digit c" "all_digits (fp_int s)" "all_digits (fp_frac s)"
        using that Cons.prems digit_of_range [of c] by (intro horner_scaled_ge) (auto simp: w_def)
      moreover have "fp_loop v point 0 (c # s) = NGX_ERROR"
        using no False Cons.prems atofp_digit_step [of v point c 0 s]
        by (simp only: w_def if_False) simp
      moreover have "horner 10 v (map digit_of (fp_int (c # s) @ fp_frac (c # s)))
          = horner 10 w (map digit_of (fp_int s @ fp_frac s))"
        by (simp add: w_def parts)
      ultimately show ?thesis unfolding parts using no by auto
    qed
  qed
qed

section \<open>The hexadecimal reader\<close>

abbreviation hex_loop :: "int \<Rightarrow> bytes \<Rightarrow> int" where
  "hex_loop \<equiv> ngx_hextoi_loop (NGX_MAX_INT_T_VALUE div 16)"

lemma hextoi_step:
  assumes "0 \<le> v" and "v \<le> NGX_MAX_INT_T_VALUE"
  shows "hex_loop v (c # s) =
    (if is_hex c \<and> v * 16 + hex_digit c \<le> NGX_MAX_INT_T_VALUE
     then hex_loop (v * 16 + hex_digit c) s else NGX_ERROR)"
proof (cases "is_hex c")
  case False
  then show ?thesis by (auto simp: is_hex_def is_digit_def)
next
  case True
  note rng = hex_digit_range [OF True]
  have g: "v > NGX_MAX_INT_T_VALUE div 16 \<longleftrightarrow> v * 16 + hex_digit c > NGX_MAX_INT_T_VALUE"
    using rng by (auto simp: code_const)
  have s: "s64 (v * 16 + hex_digit c) = v * 16 + hex_digit c"
    if "v * 16 + hex_digit c \<le> NGX_MAX_INT_T_VALUE"
    using that assms rng by (intro s64_id) (auto simp: code_const)
  show ?thesis
    using True s unfolding ngx_hextoi_loop.simps g is_digit_def [symmetric]
    by (auto simp: is_hex_def hex_digit_def not_less)
qed

lemma hextoi_loop_exact:
  "0 \<le> v \<Longrightarrow> v \<le> NGX_MAX_INT_T_VALUE \<Longrightarrow>
   hex_loop v s =
     (if (\<forall>c\<in>set s. is_hex c) \<and> horner 16 v (map hex_digit s) \<le> NGX_MAX_INT_T_VALUE
      then horner 16 v (map hex_digit s) else NGX_ERROR)"
proof (induction s arbitrary: v)
  case Nil
  then show ?case by simp
next
  case (Cons c s)
  show ?case
  proof (cases "is_hex c \<and> v * 16 + hex_digit c \<le> NGX_MAX_INT_T_VALUE")
    case True
    with Cons.prems have "0 \<le> v * 16 + hex_digit c" using hex_digit_range [of c] by auto
    with True Cons show ?thesis by (simp only: hextoi_step) simp
  next
    case False
    have "v * 16 + hex_digit c \<le> horner 16 (v * 16 + hex_digit c) (map hex_digit s)"
      if "is_hex c" "\<forall>c\<in>set s. is_hex c"
      using that Cons.prems hex_digit_range [of c] by (intro horner_ge hex_digit_nonneg) auto
    with False Cons.prems show ?thesis by (simp only: hextoi_step) auto
  qed
qed

section \<open>The properties\<close>

text \<open>\<open>ngx_atoi\<close> returns the value of a non-empty string of digits exactly when it is at most
  \<open>NGX_MAX_INT_T_VALUE\<close>, and \<open>NGX_ERROR\<close> for every other input; no step of it overflows.\<close>

lemma ngx_atoi_exact:
  "ngx_atoi s =
     (if s \<noteq> [] \<and> all_digits s \<and> dec_value s \<le> NGX_MAX_INT_T_VALUE
      then dec_value s else NGX_ERROR)"
  by (rule atoi.exact)

text \<open>\<open>ngx_atofp\<close> reads an integer part and a fraction of at most \<open>point\<close> digits and returns
  the number scaled by \<open>10 ^ point\<close> when it fits, and \<open>NGX_ERROR\<close> in every other case (an empty
  string, \<open>point = 0\<close>, another character or a second dot, too long a fraction, too large a value).\<close>

lemma ngx_atofp_exact:
  "ngx_atofp s point =
     (if s \<noteq> [] \<and> point \<noteq> 0 \<and> all_digits (fp_int s) \<and> all_digits (fp_frac s)
         \<and> length (fp_frac s) \<le> point \<and> fp_value s point \<le> NGX_MAX_INT_T_VALUE
      then fp_value s point else NGX_ERROR)"
proof (cases "s = [] \<or> point = 0")
  case True
  then show ?thesis by (cases s) (auto simp: ngx_atofp_def)
next
  case False
  then show ?thesis
    using atofp_loop_exact [of 0 point s] by (simp add: ngx_atofp_def fp_value_def code_const)
qed

lemma hextoi_exact:
  "ngx_hextoi s =
     (if s \<noteq> [] \<and> (\<forall>c\<in>set s. is_hex c) \<and> hex_value s \<le> NGX_MAX_INT_T_VALUE
      then hex_value s else NGX_ERROR)"
  using hextoi_loop_exact [of 0 s] by (simp add: ngx_hextoi_def hex_value_def code_const)

text \<open>\<open>ngx_hextoi\<close> returns the exact value of a non-empty string of hexadecimal digits of
  either case when it fits, and \<open>NGX_ERROR\<close> otherwise.\<close>

lemma ngx_hextoi_exact:
  "ngx_hextoi s =
     (if s \<noteq> [] \<and> list_all is_hex s \<and> hex_value s \<le> NGX_MAX_INT_T_VALUE
      then hex_value s else NGX_ERROR)"
  unfolding list_all_iff by (rule hextoi_exact)

end
