(* ===== verification/NgxBase64.thy ===== *)
theory NgxBase64
  imports NgxNumber
begin

text \<open>
  Base64 and hexadecimal output of \<open>src/core/ngx_string.c\<close> of nginx: \<open>ngx_hex_dump\<close>,
  \<open>ngx_encode_base64\<close>, \<open>ngx_encode_base64url\<close>, \<open>ngx_decode_base64\<close>,
  \<open>ngx_decode_base64url\<close>, with the tables of the code.  The locale \<open>base64_tables\<close> is what
  the decoder relies on in the encoder's table: it is interpreted for both alphabets, and the
  round trip is proved once inside it.
\<close>

section \<open>The alphabets and the decoding tables\<close>

definition basis64 :: bytes where
  "basis64 = ''ABCDEFGHIJKLMNOPQRSTUVWXYZabcdefghijklmnopqrstuvwxyz0123456789+/''"

definition basis64url :: bytes where
  "basis64url = ''ABCDEFGHIJKLMNOPQRSTUVWXYZabcdefghijklmnopqrstuvwxyz0123456789-_''"

definition decode64 :: "nat list" where
  "decode64 =
    [77, 77, 77, 77, 77, 77, 77, 77, 77, 77, 77, 77, 77, 77, 77, 77,
     77, 77, 77, 77, 77, 77, 77, 77, 77, 77, 77, 77, 77, 77, 77, 77,
     77, 77, 77, 77, 77, 77, 77, 77, 77, 77, 77, 62, 77, 77, 77, 63,
     52, 53, 54, 55, 56, 57, 58, 59, 60, 61, 77, 77, 77, 77, 77, 77,
     77,  0,  1,  2,  3,  4,  5,  6,  7,  8,  9, 10, 11, 12, 13, 14,
     15, 16, 17, 18, 19, 20, 21, 22, 23, 24, 25, 77, 77, 77, 77, 77,
     77, 26, 27, 28, 29, 30, 31, 32, 33, 34, 35, 36, 37, 38, 39, 40,
     41, 42, 43, 44, 45, 46, 47, 48, 49, 50, 51, 77, 77, 77, 77, 77]
    @ replicate 128 77"

definition decode64url :: "nat list" where
  "decode64url =
    [77, 77, 77, 77, 77, 77, 77, 77, 77, 77, 77, 77, 77, 77, 77, 77,
     77, 77, 77, 77, 77, 77, 77, 77, 77, 77, 77, 77, 77, 77, 77, 77,
     77, 77, 77, 77, 77, 77, 77, 77, 77, 77, 77, 77, 77, 62, 77, 77,
     52, 53, 54, 55, 56, 57, 58, 59, 60, 61, 77, 77, 77, 77, 77, 77,
     77,  0,  1,  2,  3,  4,  5,  6,  7,  8,  9, 10, 11, 12, 13, 14,
     15, 16, 17, 18, 19, 20, 21, 22, 23, 24, 25, 77, 77, 77, 77, 63,
     77, 26, 27, 28, 29, 30, 31, 32, 33, 34, 35, 36, 37, 38, 39, 40,
     41, 42, 43, 44, 45, 46, 47, 48, 49, 50, 51, 77, 77, 77, 77, 77]
    @ replicate 128 77"

section \<open>Encoding\<close>

fun ngx_encode_base64_internal :: "bytes \<Rightarrow> bool \<Rightarrow> bytes \<Rightarrow> bytes" where
  "ngx_encode_base64_internal basis padding (s0 # s1 # s2 # s) =
     basis ! and (drop_bit 2 (ord s0)) 0x3f
     # basis ! or (push_bit 4 (and (ord s0) 3)) (drop_bit 4 (ord s1))
     # basis ! or (push_bit 2 (and (ord s1) 0x0f)) (drop_bit 6 (ord s2))
     # basis ! and (ord s2) 0x3f
     # ngx_encode_base64_internal basis padding s"
| "ngx_encode_base64_internal basis padding [s0, s1] =
     [basis ! and (drop_bit 2 (ord s0)) 0x3f,
      basis ! or (push_bit 4 (and (ord s0) 3)) (drop_bit 4 (ord s1)),
      basis ! push_bit 2 (and (ord s1) 0x0f)]
     @ (if padding then ''='' else [])"
| "ngx_encode_base64_internal basis padding [s0] =
     [basis ! and (drop_bit 2 (ord s0)) 0x3f,
      basis ! push_bit 4 (and (ord s0) 3)]
     @ (if padding then ''='' else [])
     @ (if padding then ''='' else [])"
| "ngx_encode_base64_internal basis padding [] = []"

definition ngx_encode_base64 :: "bytes \<Rightarrow> bytes" where
  "ngx_encode_base64 src = ngx_encode_base64_internal basis64 True src"

definition ngx_encode_base64url :: "bytes \<Rightarrow> bytes" where
  "ngx_encode_base64url src = ngx_encode_base64_internal basis64url False src"

section \<open>Decoding\<close>

text \<open>The first loop: the length up to an \<open>=\<close>, or an error at a byte outside the alphabet.\<close>

fun base64_len :: "nat list \<Rightarrow> bytes \<Rightarrow> nat option" where
  "base64_len basis [] = Some 0"
| "base64_len basis (c # s) =
     (if c = CHR ''='' then Some 0
      else if basis ! ord c = 77 then None
      else map_option Suc (base64_len basis s))"

text \<open>The groups; the list is the first \<open>len\<close> bytes of the source.\<close>

fun base64_groups :: "nat list \<Rightarrow> bytes \<Rightarrow> bytes" where
  "base64_groups basis (s0 # s1 # s2 # s3 # s) =
     char_of (or (push_bit 2 (basis ! ord s0)) (drop_bit 4 (basis ! ord s1)))
     # char_of (or (push_bit 4 (basis ! ord s1)) (drop_bit 2 (basis ! ord s2)))
     # char_of (or (push_bit 6 (basis ! ord s2)) (basis ! ord s3))
     # base64_groups basis s"
| "base64_groups basis [s0, s1, s2] =
     [char_of (or (push_bit 2 (basis ! ord s0)) (drop_bit 4 (basis ! ord s1))),
      char_of (or (push_bit 4 (basis ! ord s1)) (drop_bit 2 (basis ! ord s2)))]"
| "base64_groups basis [s0, s1] =
     [char_of (or (push_bit 2 (basis ! ord s0)) (drop_bit 4 (basis ! ord s1)))]"
| "base64_groups basis [s0] = []"
| "base64_groups basis [] = []"

definition ngx_decode_base64_internal :: "nat list \<Rightarrow> bytes \<Rightarrow> bytes option" where
  "ngx_decode_base64_internal basis src =
     (case base64_len basis src of
        None \<Rightarrow> None
      | Some len \<Rightarrow>
          if len mod 4 = 1 then None else Some (base64_groups basis (take len src)))"

definition ngx_decode_base64 :: "bytes \<Rightarrow> bytes option" where
  "ngx_decode_base64 src = ngx_decode_base64_internal decode64 src"

definition ngx_decode_base64url :: "bytes \<Rightarrow> bytes option" where
  "ngx_decode_base64url src = ngx_decode_base64_internal decode64url src"

text \<open>The sizes the callers reserve (macros of \<open>ngx_string.h\<close>).\<close>

definition ngx_base64_encoded_length :: "nat \<Rightarrow> nat" where
  "ngx_base64_encoded_length len = ((len + 2) div 3) * 4"

definition ngx_base64_decoded_length :: "nat \<Rightarrow> nat" where
  "ngx_base64_decoded_length len = ((len + 3) div 4) * 3"

section \<open>Hexadecimal dump\<close>

definition hex_lower :: bytes where
  "hex_lower = ''0123456789abcdef''"

fun ngx_hex_dump :: "bytes \<Rightarrow> bytes" where
  "ngx_hex_dump [] = []"
| "ngx_hex_dump (c # src) =
     hex_lower ! drop_bit 4 (ord c) # hex_lower ! and (ord c) 0xf # ngx_hex_dump src"

section \<open>The bit operations as arithmetic\<close>

lemma ord_div [simp]: "ord c div 4 < 64" "ord c div 16 < 16" "ord c div 64 < 4"
  using ord_less_256 [of c] by (auto intro!: less_mult_imp_div_less)

lemma encode_idx:
  "and (drop_bit 2 (ord a)) 0x3f = ord a div 4"
  "or (push_bit 4 (and (ord a) 3)) (drop_bit 4 (ord b)) = ord a mod 4 * 16 + ord b div 16"
  "or (push_bit 2 (and (ord b) 0x0f)) (drop_bit 6 (ord c)) = ord b mod 16 * 4 + ord c div 64"
  "and (ord c) 0x3f = ord c mod 64"
  "push_bit 4 (and (ord a) 3) = ord a mod 4 * 16"
  "push_bit 2 (and (ord b) 0x0f) = ord b mod 16 * 4"
  "or (ord a mod 4 * 16) (drop_bit 4 (ord b)) = ord a mod 4 * 16 + ord b div 16"
  "or (ord b mod 16 * 4) (drop_bit 6 (ord c)) = ord b mod 16 * 4 + ord c div 64"
proof -
  show "and (drop_bit 2 (ord a)) 0x3f = ord a div 4"
    by (simp add: and_masks drop_bit_eq_div)
  show "or (push_bit 4 (and (ord a) 3)) (drop_bit 4 (ord b)) = ord a mod 4 * 16 + ord b div 16"
    using or_shift_add [of "ord b div 16" 4 "ord a mod 4"]
    by (simp only: and_masks drop_bit_eq_div) simp
  show "or (push_bit 2 (and (ord b) 0x0f)) (drop_bit 6 (ord c)) = ord b mod 16 * 4 + ord c div 64"
    using or_shift_add [of "ord c div 64" 2 "ord b mod 16"]
    by (simp only: and_masks drop_bit_eq_div) simp
  then show "or (ord b mod 16 * 4) (drop_bit 6 (ord c)) = ord b mod 16 * 4 + ord c div 64"
    by (simp only: and_masks push_bit_eq_mult) simp
  show "or (ord a mod 4 * 16) (drop_bit 4 (ord b)) = ord a mod 4 * 16 + ord b div 16"
    using or_shift_add [of "ord b div 16" 4 "ord a mod 4"]
    by (simp only: push_bit_eq_mult drop_bit_eq_div) simp
qed (simp_all only: and_masks push_bit_eq_mult, simp_all)

lemma encode_idx_less [simp]:
  "ord a mod 4 * 16 + ord b div 16 < 64" "ord b mod 16 * 4 + ord c div 64 < 64"
  "ord a mod 4 * 16 < 64" "ord b mod 16 * 4 < 64"
  using ord_div(2) [of b] ord_div(3) [of c] mod_less_divisor [of 4 "ord a"]
    mod_less_divisor [of 16 "ord b"] by linarith+

lemma decode_idx:
  "y < 64 \<Longrightarrow> or (push_bit 2 x) (drop_bit 4 y) = x * 4 + y div 16"
  "z < 64 \<Longrightarrow> or (push_bit 4 y) (drop_bit 2 z) = y * 16 + z div 4"
  "w < 64 \<Longrightarrow> or (push_bit 6 z) w = z * 64 + w" for x y z w :: nat
  using or_shift_add [of "y div 16" 2 x] or_shift_add [of "z div 4" 4 y] or_shift_add [of w 6 z]
  by (simp_all add: drop_bit_eq_div)

lemma char_of_shifted: "char_of (k * 256 + ord c) = c" for k :: nat
  by (rule of_char_eqI [where ?'a = nat]) simp

lemma sextets_first: "char_of (ord a div 4 * 4 + (ord a mod 4 * 16 + ord b div 16) div 16) = a"
proof -
  have "(ord a mod 4 * 16 + ord b div 16) div 16 = ord a mod 4" by simp
  then show ?thesis by (simp add: div_mult_mod_eq)
qed

lemma sextets_second:
  "char_of ((ord a mod 4 * 16 + ord b div 16) * 16 + (ord b mod 16 * 4 + ord c div 64) div 4) = b"
proof -
  have "(ord b mod 16 * 4 + ord c div 64) div 4 = ord b mod 16" by simp
  then have "(ord a mod 4 * 16 + ord b div 16) * 16 + (ord b mod 16 * 4 + ord c div 64) div 4
      = ord a mod 4 * 256 + ord b"
    using div_mult_mod_eq [of "ord b" 16] by simp
  then show ?thesis by (simp only: char_of_shifted)
qed

lemma sextets_third: "char_of ((ord b mod 16 * 4 + ord c div 64) * 64 + ord c mod 64) = c"
proof -
  have "(ord b mod 16 * 4 + ord c div 64) * 64 + ord c mod 64 = ord b mod 16 * 256 + ord c"
    using div_mult_mod_eq [of "ord c" 64] by simp
  then show ?thesis by (simp only: char_of_shifted)
qed

text \<open>With one or two bytes left, the last sextet ends in zero bits.\<close>

lemma sextets_end:
  "char_of (ord a div 4 * 4 + ord a mod 4 * 16 div 16) = a"
  "char_of ((ord a mod 4 * 16 + ord b div 16) * 16 + ord b mod 16 * 4 div 4) = b"
proof -
  show "char_of (ord a div 4 * 4 + ord a mod 4 * 16 div 16) = a"
    by (simp add: div_mult_mod_eq)
  have "(ord a mod 4 * 16 + ord b div 16) * 16 + ord b mod 16 * 4 div 4 = ord a mod 4 * 256 + ord b"
    using div_mult_mod_eq [of "ord b" 16] by simp
  then show "char_of ((ord a mod 4 * 16 + ord b div 16) * 16 + ord b mod 16 * 4 div 4) = b"
    by (simp only: char_of_shifted)
qed

section \<open>The two alphabets\<close>

text \<open>What decoding relies on: the decoding table inverts the alphabet, which has no \<open>=\<close>.\<close>

locale base64_tables =
  fixes enc :: bytes and dec :: "nat list"
  assumes dec_enc: "i < 64 \<Longrightarrow> dec ! ord (enc ! i) = i"
    and enc_no_pad: "i < 64 \<Longrightarrow> enc ! i \<noteq> CHR ''=''"
begin

text \<open>The encoder and the decoder's groups over arithmetic indices.\<close>

abbreviation body :: "bytes \<Rightarrow> bytes" where
  "body \<equiv> ngx_encode_base64_internal enc False"

lemma body_simps:
  "body [] = []"
  "body [a] = [enc ! (ord a div 4), enc ! (ord a mod 4 * 16)]"
  "body [a, b] = [enc ! (ord a div 4), enc ! (ord a mod 4 * 16 + ord b div 16), enc ! (ord b mod 16 * 4)]"
  "body (a # b # c # s) = enc ! (ord a div 4) # enc ! (ord a mod 4 * 16 + ord b div 16)
     # enc ! (ord b mod 16 * 4 + ord c div 64) # enc ! (ord c mod 64) # body s"
  by (simp_all only: ngx_encode_base64_internal.simps encode_idx if_False append_Nil2)

lemma dec_enc_not_77: "i < 64 \<Longrightarrow> dec ! ord (enc ! i) \<noteq> 77"
  by (simp add: dec_enc)

text \<open>The output is its unpadded form and at most two \<open>=\<close>.\<close>

lemma padding_only:
  "\<exists>k. ngx_encode_base64_internal enc padding s = body s @ replicate k (CHR ''='')"
proof (induction s rule: list_induct_by3)
  case (Two a b)
  show ?case by (rule exI [of _ "if padding then 1 else 0"]) simp
next
  case (One a)
  show ?case by (rule exI [of _ "if padding then 2 else 0"]) (simp add: numeral_2_eq_2)
qed auto

lemma scan_body: "base64_len dec (body s @ replicate k (CHR ''='')) = Some (length (body s))"
proof (induction s rule: list_induct_by3)
  case Nil
  then show ?case by (cases k) auto
qed (cases k; simp add: body_simps dec_enc_not_77 enc_no_pad
    del: ngx_encode_base64_internal.simps)+

lemma body_length: "length (body s) mod 4 \<noteq> 1"
  by (induction s rule: list_induct_by3) auto

lemma groups_body: "base64_groups dec (body s) = s"
  by (induction s rule: list_induct_by3)
    (simp_all only: body_simps base64_groups.simps dec_enc ord_div encode_idx_less
      decode_idx sextets_first sextets_second sextets_third sextets_end mod_less_divisor
      zero_less_numeral)

lemma decode_encode:
  "ngx_decode_base64_internal dec (ngx_encode_base64_internal enc padding s) = Some s"
proof -
  obtain k where k: "ngx_encode_base64_internal enc padding s = body s @ replicate k (CHR ''='')"
    using padding_only by blast
  show ?thesis
    unfolding k ngx_decode_base64_internal_def scan_body
    using body_length [of s] groups_body [of s] by simp
qed

end

lemma decode64_inverts: "map (\<lambda>c. decode64 ! ord c) basis64 = [0..<64]" by code_simp
lemma decode64url_inverts: "map (\<lambda>c. decode64url ! ord c) basis64url = [0..<64]" by code_simp
lemma basis64_no_pad: "CHR ''='' \<notin> set basis64" "CHR ''='' \<notin> set basis64url"
  by (simp_all add: basis64_def basis64url_def)
lemma basis64_length: "length basis64 = 64" "length basis64url = 64"
  by (simp_all add: basis64_def basis64url_def)

lemma table_nth:
  assumes "map (\<lambda>c. d ! ord c) e = [0..<64]" and "i < 64"
  shows "d ! ord (e ! i) = i"
proof -
  have "length e = 64" using arg_cong [OF assms(1), of length] by simp
  then have "map (\<lambda>c. d ! ord c) e ! i = d ! ord (e ! i)" using assms(2) by simp
  then show ?thesis using assms by simp
qed

interpretation std64: base64_tables basis64 decode64
  using table_nth [OF decode64_inverts] basis64_no_pad basis64_length
  by unfold_locales (auto simp: in_set_conv_nth)

interpretation url64: base64_tables basis64url decode64url
  using table_nth [OF decode64url_inverts] basis64_no_pad basis64_length
  by unfold_locales (auto simp: in_set_conv_nth)

section \<open>The properties\<close>

text \<open>C40: decoding the output of either encoder, with or without padding, gives back the bytes
  that were encoded; no byte string is refused.\<close>

theorem base64_roundtrip:
  "ngx_decode_base64 (ngx_encode_base64 s) = Some s
   \<and> ngx_decode_base64url (ngx_encode_base64url s) = Some s"
  by (simp add: ngx_decode_base64_def ngx_encode_base64_def ngx_decode_base64url_def
      ngx_encode_base64url_def std64.decode_encode url64.decode_encode)

lemma base64_groups_length: "length (base64_groups d s) \<le> length s * 3 div 4"
  by (induction d s rule: base64_groups.induct) auto

lemma base64_len_le: "base64_len d s = Some n \<Longrightarrow> n \<le> length s"
  by (induction s arbitrary: n) (auto split: if_splits)

lemma padded_length:
  "length (ngx_encode_base64_internal e True s) = (length s + 2) div 3 * 4"
proof (induction s rule: list_induct_by3)
  case (Three a b c s)
  have "(length (a # b # c # s) + 2) div 3 = Suc ((length s + 2) div 3)" by simp
  with Three show ?case by simp
qed auto

lemma unpadded_length: "length (ngx_encode_base64_internal e False s) = (length s * 4 + 2) div 3"
  by (induction s rule: list_induct_by3) auto

text \<open>The encoders and decoders stay in the buffers their callers reserve with
  \<open>ngx_base64_encoded_length\<close> and \<open>ngx_base64_decoded_length\<close>; the padded encoder fills its
  buffer exactly.\<close>

lemma base64_buffer_bounds:
  "length (ngx_encode_base64 s) = ngx_base64_encoded_length (length s)
   \<and> length (ngx_encode_base64url s) \<le> ngx_base64_encoded_length (length s)
   \<and> (case ngx_decode_base64 s of None \<Rightarrow> True
      | Some d \<Rightarrow> length d \<le> ngx_base64_decoded_length (length s))
   \<and> (case ngx_decode_base64url s of None \<Rightarrow> True
      | Some d \<Rightarrow> length d \<le> ngx_base64_decoded_length (length s))"
proof -
  have dec: "case ngx_decode_base64_internal t s of None \<Rightarrow> True
      | Some d \<Rightarrow> length d \<le> ngx_base64_decoded_length (length s)" for t
  proof (cases "base64_len t s")
    case None
    then show ?thesis by (simp add: ngx_decode_base64_internal_def)
  next
    case (Some n)
    have "length (base64_groups t (take n s)) \<le> length (take n s) * 3 div 4"
      by (rule base64_groups_length)
    also have "\<dots> \<le> length s * 3 div 4"
      by (intro div_le_mono mult_right_mono) auto
    also have "\<dots> \<le> (length s + 3) div 4 * 3" by linarith
    finally show ?thesis
      using Some by (simp add: ngx_decode_base64_internal_def ngx_base64_decoded_length_def)
  qed
  show ?thesis
    using dec [of decode64] dec [of decode64url]
    by (auto simp: ngx_encode_base64_def ngx_encode_base64url_def padded_length unpadded_length
        ngx_base64_encoded_length_def ngx_decode_base64_def ngx_decode_base64url_def)
qed

lemma base64_len_char:
  "base64_len d s =
    (if \<exists>c\<in>set (takeWhile (\<lambda>c. c \<noteq> CHR ''='') s). d ! ord c = 77 then None
     else Some (length (takeWhile (\<lambda>c. c \<noteq> CHR ''='') s)))"
  by (induction s) auto

lemma decode64_inverse:
  "list_all (\<lambda>(n, d). d = 77 \<or> d < 64 \<and> ord (basis64 ! d) = n) (zip [0..<256] decode64)"
  by code_simp

lemma decode64_length: "length decode64 = 256"
  by (simp add: decode64_def)

lemma decode64_outside: "decode64 ! ord c = 77 \<longleftrightarrow> c \<notin> set basis64"
proof
  assume "decode64 ! ord c = 77"
  then show "c \<notin> set basis64"
    using table_nth [OF decode64_inverts] basis64_length by (auto simp: in_set_conv_nth)
next
  assume c: "c \<notin> set basis64"
  have "(ord c, decode64 ! ord c) \<in> set (zip [0..<256] decode64)"
    using ord_less_256 [of c] decode64_length
    by (auto simp: set_zip intro!: exI [of _ "ord c"])
  with decode64_inverse have "decode64 ! ord c = 77
      \<or> decode64 ! ord c < 64 \<and> ord (basis64 ! (decode64 ! ord c)) = ord c"
    by (auto simp: list_all_iff)
  then show "decode64 ! ord c = 77"
    using c basis64_length by (metis nth_mem of_char_eq_iff)
qed

text \<open>\<open>ngx_decode_base64\<close> refuses exactly the strings whose part before the first \<open>=\<close> has a
  byte outside the alphabet or a length that is 1 modulo 4.\<close>

lemma ngx_decode_base64_refuses:
  "ngx_decode_base64 s = None \<longleftrightarrow>
     (let p = takeWhile (\<lambda>c. c \<noteq> CHR ''='') s
      in (\<exists>c\<in>set p. c \<notin> set basis64) \<or> length p mod 4 = 1)"
  by (simp add: ngx_decode_base64_def ngx_decode_base64_internal_def base64_len_char Let_def
      decode64_outside)

lemma hex_lower_digits:
  "list_all (\<lambda>i. is_hex (hex_lower ! i) \<and> hex_digit (hex_lower ! i) = int i) [0..<16]"
  by (simp add: upt_rec hex_lower_def is_hex_def hex_digit_def is_digit_ord is_hex_letter_ord
      digit_of_def hex_letter_of_def ord_or_0x20)

lemma hex_lower_nth: "i < 16 \<Longrightarrow> is_hex (hex_lower ! i) \<and> hex_digit (hex_lower ! i) = int i"
  using hex_lower_digits by (auto simp: list_all_iff)

lemma ord_halves: "ord c div 16 < 16" "ord c mod 16 < 16"
  by auto

text \<open>The big-endian number whose bytes are \<open>s\<close>.\<close>

definition be_value :: "bytes \<Rightarrow> int" where
  "be_value s = horner 256 0 (map (\<lambda>c. int (ord c)) s)"

lemma hex_dump_value:
  "horner 16 v (map hex_digit (ngx_hex_dump s)) = horner 256 v (map (\<lambda>c. int (ord c)) s)"
proof (induction s arbitrary: v)
  case Nil
  then show ?case by simp
next
  case (Cons c s)
  have "int (ord c div 16) * 16 + int (ord c mod 16) = int (ord c)"
    using div_mult_mod_eq [of "ord c" 16] by (metis of_nat_add of_nat_mult of_nat_numeral)
  then have e: "(v * 16 + int (ord c div 16)) * 16 + int (ord c mod 16) = v * 256 + int (ord c)"
    by (simp add: algebra_simps)
  have "horner 16 v (map hex_digit (ngx_hex_dump (c # s)))
      = horner 16 ((v * 16 + int (ord c div 16)) * 16 + int (ord c mod 16))
          (map hex_digit (ngx_hex_dump s))"
    using hex_lower_nth [OF ord_halves(1) [of c]] hex_lower_nth [OF ord_halves(2) [of c]]
    by (simp add: drop_bit_eq_div and_masks)
  then show ?case unfolding e Cons by simp
qed

lemma hex_dump_is_hex: "c \<in> set (ngx_hex_dump s) \<Longrightarrow> is_hex c"
  using hex_lower_nth [OF ord_halves(1)] hex_lower_nth [OF ord_halves(2)]
  by (induction s) (auto simp: drop_bit_eq_div and_masks)

text \<open>\<open>ngx_hex_dump\<close> writes two hexadecimal digits per byte, and \<open>ngx_hextoi\<close> reads the
  dump back as the number the bytes spell, most significant byte first, when it fits.\<close>

lemma ngx_hex_dump_roundtrip:
  "length (ngx_hex_dump s) = 2 * length s
   \<and> ngx_hextoi (ngx_hex_dump s) =
       (if s \<noteq> [] \<and> be_value s \<le> NGX_MAX_INT_T_VALUE then be_value s else NGX_ERROR)"
proof
  show len: "length (ngx_hex_dump s) = 2 * length s"
    by (induction s) auto
  have "ngx_hex_dump s = [] \<longleftrightarrow> s = []" by (cases s) auto
  moreover have "hex_value (ngx_hex_dump s) = be_value s"
    by (simp add: hex_value_def be_value_def hex_dump_value)
  ultimately show "ngx_hextoi (ngx_hex_dump s) =
      (if s \<noteq> [] \<and> be_value s \<le> NGX_MAX_INT_T_VALUE then be_value s else NGX_ERROR)"
    using hex_dump_is_hex [of _ s] by (simp add: hextoi_exact)
qed

end
