(* ===== verification/NgxParse.thy ===== *)
theory NgxParse
  imports NgxNumber
begin

text \<open>
  \<open>src/core/ngx_parse.c\<close> of nginx: the readers of sizes (\<open>10k\<close>), offsets (\<open>4g\<close>) and times
  (\<open>1h 30m\<close>, \<open>250ms\<close>) that every directive of the configuration goes through.  The unit
  switch, the overflow guards and the order of the units are those of the code.
\<close>

section \<open>Sizes and offsets\<close>

definition ngx_parse_size :: "bytes \<Rightarrow> int" where
  "ngx_parse_size line =
     (if length line = 0 then NGX_ERROR
      else
        let unit = last line;
            (digits, max, scale) =
              (if unit = CHR ''K'' \<or> unit = CHR ''k''
               then (butlast line, NGX_MAX_SIZE_T_VALUE div 1024, 1024)
               else if unit = CHR ''M'' \<or> unit = CHR ''m''
               then (butlast line, NGX_MAX_SIZE_T_VALUE div (1024 * 1024), 1024 * 1024)
               else (line, NGX_MAX_SIZE_T_VALUE, 1));
            size = ngx_atosz digits
        in if size = NGX_ERROR \<or> size > max then NGX_ERROR else s64 (size * scale))"

definition ngx_parse_offset :: "bytes \<Rightarrow> int" where
  "ngx_parse_offset line =
     (if length line = 0 then NGX_ERROR
      else
        let unit = last line;
            (digits, max, scale) =
              (if unit = CHR ''K'' \<or> unit = CHR ''k''
               then (butlast line, NGX_MAX_OFF_T_VALUE div 1024, 1024)
               else if unit = CHR ''M'' \<or> unit = CHR ''m''
               then (butlast line, NGX_MAX_OFF_T_VALUE div (1024 * 1024), 1024 * 1024)
               else if unit = CHR ''G'' \<or> unit = CHR ''g''
               then (butlast line, NGX_MAX_OFF_T_VALUE div (1024 * 1024 * 1024), 1024 * 1024 * 1024)
               else (line, NGX_MAX_OFF_T_VALUE, 1));
            offset = ngx_atoof digits
        in if offset = NGX_ERROR \<or> offset > max then NGX_ERROR else s64 (offset * scale))"

text \<open>The scale a size or offset suffix stands for.\<close>

definition size_scale :: "char \<Rightarrow> int" where
  "size_scale u = (if u \<in> {CHR ''K'', CHR ''k''} then 2 ^ 10
     else if u \<in> {CHR ''M'', CHR ''m''} then 2 ^ 20
     else if u \<in> {CHR ''G'', CHR ''g''} then 2 ^ 30 else 1)"

lemma div_guard: "0 < k \<Longrightarrow> v > m div k \<longleftrightarrow> v * k > m" for v m k :: int
proof -
  assume k: "0 < k"
  have m: "m = m div k * k + m mod k" "0 \<le> m mod k" "m mod k < k"
    using k by simp_all
  show ?thesis
  proof (cases "v > m div k")
    case True
    then have "(m div k + 1) * k \<le> v * k"
      using k by (intro mult_right_mono) auto
    then have "m div k * k + k \<le> v * k" by (simp add: distrib_right)
    with m True show ?thesis by linarith
  next
    case False
    then have "v * k \<le> m div k * k"
      using k by (intro mult_right_mono) auto
    with m False show ?thesis by linarith
  qed
qed

text \<open>Reading digits and scaling them, with the guard of the code, is exact.\<close>

lemma scaled_reader_exact:
  assumes "decimal_reader m reader" and "0 < k"
  shows "(if reader s = NGX_ERROR \<or> reader s > m div k then NGX_ERROR else s64 (reader s * k))
    = (if s \<noteq> [] \<and> all_digits s \<and> dec_value s * k \<le> m then dec_value s * k else NGX_ERROR)"
proof -
  note ex = decimal_reader.exact [OF assms(1), of s]
  note rng = decimal_reader.maxv_range [OF assms(1)]
  show ?thesis
  proof (cases "s \<noteq> [] \<and> all_digits s \<and> dec_value s \<le> m")
    case True
    then have v: "reader s = dec_value s" "0 \<le> dec_value s"
      using ex dec_value_nonneg by auto
    then have "s64 (dec_value s * k) = dec_value s * k" if "dec_value s * k \<le> m"
      using that rng assms(2) by (intro s64_id) (auto intro: order_trans [of _ 0])
    then show ?thesis
      using True v div_guard [OF assms(2), of m "dec_value s"] by (auto simp: NGX_ERROR_def)
  next
    case False
    moreover have "dec_value s \<le> dec_value s * k" if "all_digits s"
      using dec_value_nonneg [OF that] assms(2) mult_left_mono [of 1 k "dec_value s"] by simp
    ultimately show ?thesis using ex by auto
  qed
qed

lemmas size_reader = scaled_reader_exact [OF atosz.decimal_reader_axioms]
lemmas offset_reader = scaled_reader_exact [OF atoof.decimal_reader_axioms]

lemmas size_readers = size_reader [of 1, simplified] size_reader [of 1024, simplified]
  size_reader [of 1048576, simplified]
lemmas offset_readers = offset_reader [of 1, simplified] offset_reader [of 1024, simplified]
  offset_reader [of 1048576, simplified] offset_reader [of 1073741824, simplified]

definition has_suffix :: "bytes \<Rightarrow> char set \<Rightarrow> bool" where
  "has_suffix s us \<longleftrightarrow> s \<noteq> [] \<and> last s \<in> us"

text \<open>The number and the scale of a line whose suffixes are \<open>us\<close>.\<close>

definition scaled_value :: "char set \<Rightarrow> bytes \<Rightarrow> (bytes \<times> int)" where
  "scaled_value us s = (if has_suffix s us then (butlast s, size_scale (last s)) else (s, 1))"

text \<open>\<open>ngx_parse_size\<close> returns the number times 1024 (suffix \<open>k\<close> or \<open>K\<close>) or
  1048576 (\<open>m\<close> or \<open>M\<close>) exactly when that product fits, and \<open>NGX_ERROR\<close> for everything else.\<close>

lemma ngx_parse_size_exact:
  "ngx_parse_size s =
     (let (digits, k) = scaled_value (set ''KkMm'') s
      in if digits \<noteq> [] \<and> all_digits digits \<and> dec_value digits * k \<le> NGX_MAX_SIZE_T_VALUE
         then dec_value digits * k else NGX_ERROR)"
  by (cases "s = []")
    (simp_all add: ngx_parse_size_def scaled_value_def has_suffix_def size_scale_def Let_def
      size_readers)

text \<open>\<open>ngx_parse_offset\<close> does the same with the further suffix \<open>g\<close> or \<open>G\<close>.\<close>

lemma ngx_parse_offset_exact:
  "ngx_parse_offset s =
     (let (digits, k) = scaled_value (set ''KkMmGg'') s
      in if digits \<noteq> [] \<and> all_digits digits \<and> dec_value digits * k \<le> NGX_MAX_OFF_T_VALUE
         then dec_value digits * k else NGX_ERROR)"
  by (cases "s = []")
    (simp_all add: ngx_parse_offset_def scaled_value_def has_suffix_def size_scale_def Let_def
      offset_readers)

section \<open>Times\<close>

text \<open>The enumeration \<open>step\<close>, in the order of the code.\<close>

abbreviation st_start :: nat where "st_start \<equiv> 0"
abbreviation st_year :: nat where "st_year \<equiv> 1"
abbreviation st_month :: nat where "st_month \<equiv> 2"
abbreviation st_week :: nat where "st_week \<equiv> 3"
abbreviation st_day :: nat where "st_day \<equiv> 4"
abbreviation st_hour :: nat where "st_hour \<equiv> 5"
abbreviation st_min :: nat where "st_min \<equiv> 6"
abbreviation st_sec :: nat where "st_sec \<equiv> 7"
abbreviation st_msec :: nat where "st_msec \<equiv> 8"
abbreviation st_last :: nat where "st_last \<equiv> 9"

text \<open>
  The switch on the unit \<open>c\<close> (the character before \<open>p\<close>): the new step, the maximum and the
  scale, and where the pointer stands after the unit.
\<close>

definition ngx_parse_time_unit ::
    "bool \<Rightarrow> nat \<Rightarrow> char \<Rightarrow> bytes \<Rightarrow> (nat \<times> int \<times> int \<times> bytes) option" where
  "ngx_parse_time_unit is_sec step c p =
    (if c = CHR ''y'' then
       (if step > st_start then None
        else Some (st_year, NGX_MAX_INT_T_VALUE div (60 * 60 * 24 * 365), 60 * 60 * 24 * 365, p))
     else if c = CHR ''M'' then
       (if step \<ge> st_month then None
        else Some (st_month, NGX_MAX_INT_T_VALUE div (60 * 60 * 24 * 30), 60 * 60 * 24 * 30, p))
     else if c = CHR ''w'' then
       (if step \<ge> st_week then None
        else Some (st_week, NGX_MAX_INT_T_VALUE div (60 * 60 * 24 * 7), 60 * 60 * 24 * 7, p))
     else if c = CHR ''d'' then
       (if step \<ge> st_day then None
        else Some (st_day, NGX_MAX_INT_T_VALUE div (60 * 60 * 24), 60 * 60 * 24, p))
     else if c = CHR ''h'' then
       (if step \<ge> st_hour then None
        else Some (st_hour, NGX_MAX_INT_T_VALUE div (60 * 60), 60 * 60, p))
     else if c = CHR ''m'' then
       (if p \<noteq> [] \<and> hd p = CHR ''s'' then
          (if is_sec \<or> step \<ge> st_msec then None
           else Some (st_msec, NGX_MAX_INT_T_VALUE, 1, tl p))
        else if step \<ge> st_min then None
        else Some (st_min, NGX_MAX_INT_T_VALUE div 60, 60, p))
     else if c = CHR ''s'' then
       (if step \<ge> st_sec then None else Some (st_sec, NGX_MAX_INT_T_VALUE, 1, p))
     else if c = CHR '' '' then
       (if step \<ge> st_sec then None else Some (st_last, NGX_MAX_INT_T_VALUE, 1, p))
     else None)"

lemma ngx_parse_time_unit_length:
  "ngx_parse_time_unit is_sec step c p = Some (st, mx, sc, q) \<Longrightarrow> length q \<le> length p"
  by (auto simp: ngx_parse_time_unit_def split: if_splits)

text \<open>The loop; \<open>Inl\<close> is a \<open>return NGX_ERROR\<close>, \<open>Inr\<close> the state at its end.\<close>

function ngx_parse_time_loop ::
    "bool \<Rightarrow> int \<Rightarrow> int \<Rightarrow> bool \<Rightarrow> nat \<Rightarrow> bytes \<Rightarrow> int + (int \<times> int \<times> bool)" where
  "ngx_parse_time_loop is_sec value tot valid step [] = Inr (value, tot, valid)"
| "ngx_parse_time_loop is_sec value tot valid step (c # p) =
    (if CHR ''0'' \<le> c \<and> c \<le> CHR ''9'' then
       (if value \<ge> NGX_MAX_INT_T_VALUE div 10
           \<and> (value > NGX_MAX_INT_T_VALUE div 10 \<or> digit_of c > NGX_MAX_INT_T_VALUE mod 10)
        then Inl NGX_ERROR
        else ngx_parse_time_loop is_sec (s64 (value * 10 + digit_of c)) tot True step p)
     else
       (case ngx_parse_time_unit is_sec step c p of
          None \<Rightarrow> Inl NGX_ERROR
        | Some (step', max0, scale0, q) \<Rightarrow>
            let (scale, max) =
                  (if step' \<noteq> st_msec \<and> \<not> is_sec then (scale0 * 1000, max0 div 1000)
                   else (scale0, max0))
            in if value > max then Inl NGX_ERROR
               else
                 let value' = s64 (value * scale)
                 in if tot > s64 (NGX_MAX_INT_T_VALUE - value') then Inl NGX_ERROR
                    else ngx_parse_time_loop is_sec 0 (s64 (tot + value')) valid step'
                           (dropWhile (\<lambda>x. x = CHR '' '') q)))"
  by pat_completeness auto
termination
  by (relation "measure (\<lambda>(_, _, _, _, _, p). length p)")
    (auto dest!: ngx_parse_time_unit_length intro: le_less_trans [OF length_dropWhile_le])

definition ngx_parse_time :: "bytes \<Rightarrow> bool \<Rightarrow> int" where
  "ngx_parse_time line is_sec =
    (case ngx_parse_time_loop is_sec 0 0 False (if is_sec then st_start else st_month) line of
       Inl e \<Rightarrow> e
     | Inr (value, tot, valid) \<Rightarrow>
         if \<not> valid then NGX_ERROR
         else if \<not> is_sec \<and> value > NGX_MAX_INT_T_VALUE div 1000 then NGX_ERROR
         else
           let value' = (if \<not> is_sec then s64 (value * 1000) else value)
           in if tot > s64 (NGX_MAX_INT_T_VALUE - value') then NGX_ERROR
              else s64 (tot + value'))"

section \<open>Times as they are written\<close>

datatype time_unit = U_year | U_month | U_week | U_day | U_hour | U_min | U_sec | U_msec

fun unit_str :: "time_unit \<Rightarrow> bytes" where
  "unit_str U_year = ''y''"
| "unit_str U_month = ''M''"
| "unit_str U_week = ''w''"
| "unit_str U_day = ''d''"
| "unit_str U_hour = ''h''"
| "unit_str U_min = ''m''"
| "unit_str U_sec = ''s''"
| "unit_str U_msec = ''ms''"

fun unit_step :: "time_unit \<Rightarrow> nat" where
  "unit_step U_year = st_year"
| "unit_step U_month = st_month"
| "unit_step U_week = st_week"
| "unit_step U_day = st_day"
| "unit_step U_hour = st_hour"
| "unit_step U_min = st_min"
| "unit_step U_sec = st_sec"
| "unit_step U_msec = st_msec"

text \<open>Seconds in a unit, and the scale of a unit in the result (seconds or milliseconds).\<close>

fun unit_seconds :: "time_unit \<Rightarrow> int" where
  "unit_seconds U_year = 31536000"
| "unit_seconds U_month = 2592000"
| "unit_seconds U_week = 604800"
| "unit_seconds U_day = 86400"
| "unit_seconds U_hour = 3600"
| "unit_seconds U_min = 60"
| "unit_seconds U_sec = 1"
| "unit_seconds U_msec = 1"

definition unit_scale :: "bool \<Rightarrow> time_unit \<Rightarrow> int" where
  "unit_scale is_sec u = (if is_sec \<or> u = U_msec then unit_seconds u else unit_seconds u * 1000)"

text \<open>A part of a time: its digits, its unit and the number of spaces after it.\<close>

type_synonym time_part = "bytes \<times> time_unit \<times> nat"

fun show_part :: "time_part \<Rightarrow> bytes" where
  "show_part (ds, u, k) = ds @ unit_str u @ replicate k (CHR '' '')"

fun part_value :: "bool \<Rightarrow> time_part \<Rightarrow> int" where
  "part_value is_sec (ds, u, k) = dec_value ds * unit_scale is_sec u"

text \<open>The units come in descending order, milliseconds only in a time in milliseconds.\<close>

fun parts_ok :: "bool \<Rightarrow> nat \<Rightarrow> time_part list \<Rightarrow> bool" where
  "parts_ok is_sec st [] = True"
| "parts_ok is_sec st ((ds, u, k) # ps) =
     (ds \<noteq> [] \<and> all_digits ds \<and> st < unit_step u \<and> (u = U_msec \<longrightarrow> \<not> is_sec)
      \<and> parts_ok is_sec (unit_step u) ps)"

lemma unit_seconds_pos: "0 < unit_seconds u"
  by (cases u) auto

lemma unit_scale_pos: "0 < unit_scale is_sec u"
  using unit_seconds_pos [of u] by (simp add: unit_scale_def)

lemma time_unit_parsed:
  assumes "st < unit_step u" and "u = U_msec \<Longrightarrow> \<not> is_sec" and "p = [] \<or> hd p \<noteq> CHR ''s''"
  shows "ngx_parse_time_unit is_sec st (hd (unit_str u)) (tl (unit_str u) @ p)
    = Some (unit_step u, NGX_MAX_INT_T_VALUE div unit_seconds u, unit_seconds u, p)"
  using assms by (cases u) (auto simp: ngx_parse_time_unit_def)

lemma time_loop_digits:
  "0 \<le> v \<Longrightarrow> v \<le> NGX_MAX_INT_T_VALUE \<Longrightarrow> all_digits ds \<Longrightarrow>
   ngx_parse_time_loop is_sec v tot valid st (ds @ p) =
     (if horner 10 v (map digit_of ds) \<le> NGX_MAX_INT_T_VALUE
      then ngx_parse_time_loop is_sec (horner 10 v (map digit_of ds)) tot (valid \<or> ds \<noteq> []) st p
      else Inl NGX_ERROR)"
proof (induction ds arbitrary: v valid)
  case Nil
  then show ?case by simp
next
  case (Cons c ds)
  define w where "w = v * 10 + digit_of c"
  have c: "is_digit c" "all_digits ds" using Cons.prems by auto
  note rng = digit_of_range [OF c(1)]
  have w0: "0 \<le> w" using Cons.prems rng by (simp add: w_def)
  note g = atoi.guard_iff [OF rng [THEN conjunct1] rng [THEN conjunct2], of v, folded w_def]
  have step: "ngx_parse_time_loop is_sec v tot valid st ((c # ds) @ p) =
      (if w > NGX_MAX_INT_T_VALUE then Inl NGX_ERROR
       else ngx_parse_time_loop is_sec (s64 w) tot True st (ds @ p))"
    using c(1) by (simp only: append_Cons ngx_parse_time_loop.simps is_digit_def [symmetric] g
        if_True w_def [symmetric])
  show ?case
  proof (cases "w > NGX_MAX_INT_T_VALUE")
    case True
    moreover have "w \<le> horner 10 w (map digit_of ds)"
      using w0 c by (intro horner_ge digit_of_nonneg) auto
    ultimately show ?thesis unfolding step by (simp add: w_def)
  next
    case False
    then have "s64 w = w" using w0 by (intro s64_id) (auto simp: code_const)
    then show ?thesis
      unfolding step using False w0 c(2) Cons.IH [of w True] by (simp add: w_def)
  qed
qed

lemma time_loop_unit:
  assumes "0 \<le> v" and "0 \<le> tot" and "tot \<le> NGX_MAX_INT_T_VALUE"
    and "st < unit_step u" and "u = U_msec \<Longrightarrow> \<not> is_sec"
    and p: "p = [] \<or> is_digit (hd p)"
  shows "ngx_parse_time_loop is_sec v tot valid st (unit_str u @ replicate k (CHR '' '') @ p) =
    (if tot + v * unit_scale is_sec u \<le> NGX_MAX_INT_T_VALUE
     then ngx_parse_time_loop is_sec 0 (tot + v * unit_scale is_sec u) valid (unit_step u) p
     else Inl NGX_ERROR)"
proof -
  obtain c r where u: "unit_str u = c # r" by (cases u) auto
  have nd: "\<not> (CHR ''0'' \<le> c \<and> c \<le> CHR ''9'')"
    using u by (cases u) (auto simp: byte_simps)
  let ?sp = "replicate k (CHR '' '')"
  have hdp: "?sp @ p = [] \<or> hd (?sp @ p) \<noteq> CHR ''s''"
    using p by (cases k) (auto simp: is_digit_ord)
  have tu: "ngx_parse_time_unit is_sec st c (r @ ?sp @ p)
      = Some (unit_step u, NGX_MAX_INT_T_VALUE div unit_seconds u, unit_seconds u, ?sp @ p)"
    using time_unit_parsed [OF assms(4,5) hdp] u by simp
  have drop: "dropWhile (\<lambda>x. x = CHR '' '') (?sp @ p) = p"
    using p by (cases p) (auto simp: dropWhile_append is_digit_ord)
  have ms: "unit_step u \<noteq> st_msec \<longleftrightarrow> u \<noteq> U_msec" by (cases u) auto
  define k where "k = unit_scale is_sec u"
  have k: "0 < k" by (simp add: k_def unit_scale_pos)
  have sm: "(if unit_step u \<noteq> st_msec \<and> \<not> is_sec
      then (unit_seconds u * 1000, NGX_MAX_INT_T_VALUE div unit_seconds u div 1000)
      else (unit_seconds u, NGX_MAX_INT_T_VALUE div unit_seconds u))
      = (k, NGX_MAX_INT_T_VALUE div k)"
    using unit_seconds_pos [of u] by (simp add: ms k_def unit_scale_def zdiv_zmult2_eq)
  have step: "ngx_parse_time_loop is_sec v tot valid st (unit_str u @ ?sp @ p) =
      (if v > NGX_MAX_INT_T_VALUE div k then Inl NGX_ERROR
       else if tot > s64 (NGX_MAX_INT_T_VALUE - s64 (v * k)) then Inl NGX_ERROR
       else ngx_parse_time_loop is_sec 0 (s64 (tot + s64 (v * k))) valid (unit_step u) p)"
    unfolding u append_Cons ngx_parse_time_loop.simps
    by (simp only: nd if_False tu option.case prod.case sm Let_def drop)
  have guard: "v > NGX_MAX_INT_T_VALUE div k \<longleftrightarrow> v * k > NGX_MAX_INT_T_VALUE"
    using k by (rule div_guard)
  have vk: "0 \<le> v * k" using assms(1) k by simp
  show ?thesis
  proof (cases "v * k > NGX_MAX_INT_T_VALUE")
    case True
    then show ?thesis
      unfolding step guard using assms(2) by (simp add: k_def)
  next
    case False
    then have s1: "s64 (v * k) = v * k" "s64 (NGX_MAX_INT_T_VALUE - v * k) = NGX_MAX_INT_T_VALUE - v * k"
      using vk by (auto intro!: s64_id simp: code_const)
    have s2: "s64 (tot + v * k) = tot + v * k" if "tot + v * k \<le> NGX_MAX_INT_T_VALUE"
      using that vk assms(2) by (intro s64_id) (auto simp: code_const)
    show ?thesis
      unfolding step guard s1 using False s2 by (auto simp: k_def)
  qed
qed

definition time_text :: "time_part list \<Rightarrow> bytes \<Rightarrow> bytes" where
  "time_text ps tail = concat (map show_part ps) @ tail"

definition time_value :: "bool \<Rightarrow> time_part list \<Rightarrow> bytes \<Rightarrow> int" where
  "time_value is_sec ps tail =
     sum_list (map (part_value is_sec) ps) + dec_value tail * (if is_sec then 1 else 1000)"

lemma time_text_start:
  "parts_ok is_sec st ps \<Longrightarrow> all_digits tail \<Longrightarrow>
   time_text ps tail = [] \<or> is_digit (hd (time_text ps tail))"
  by (cases ps; cases tail) (auto simp: time_text_def hd_append neq_Nil_conv)

lemma part_value_nonneg: "all_digits ds \<Longrightarrow> 0 \<le> part_value is_sec (ds, u, k)"
  using dec_value_nonneg [of ds] unit_scale_pos [of is_sec u] by simp

lemma parts_value_nonneg: "parts_ok is_sec st ps \<Longrightarrow> 0 \<le> sum_list (map (part_value is_sec) ps)"
proof (induction ps arbitrary: st)
  case Nil
  then show ?case by simp
next
  case (Cons a ps)
  obtain ds u k where a: "a = (ds, u, k)" by (cases a)
  show ?case using Cons part_value_nonneg [of ds is_sec u k] by (auto simp: a)
qed

text \<open>The loop over the parts, ending in the digits of a bare number.\<close>

lemma time_loop_parts:
  "parts_ok is_sec st ps \<Longrightarrow> all_digits tail \<Longrightarrow> 0 \<le> tot \<Longrightarrow> tot \<le> NGX_MAX_INT_T_VALUE \<Longrightarrow>
   ngx_parse_time_loop is_sec 0 tot valid st (time_text ps tail) =
     (if tot + sum_list (map (part_value is_sec) ps) \<le> NGX_MAX_INT_T_VALUE
         \<and> dec_value tail \<le> NGX_MAX_INT_T_VALUE
      then Inr (dec_value tail, tot + sum_list (map (part_value is_sec) ps),
                valid \<or> ps \<noteq> [] \<or> tail \<noteq> [])
      else Inl NGX_ERROR)"
proof (induction ps arbitrary: st tot valid)
  case Nil
  then show ?case
    using time_loop_digits [of 0 tail is_sec tot valid st "[]"]
    by (simp add: time_text_def dec_value_def code_const)
next
  case (Cons a ps)
  obtain ds u k where a: "a = (ds, u, k)" by (cases a)
  from Cons.prems(1) have ok: "ds \<noteq> []" "all_digits ds" "st < unit_step u"
      "u = U_msec \<Longrightarrow> \<not> is_sec" "parts_ok is_sec (unit_step u) ps"
    by (auto simp: a)
  define v where "v = dec_value ds"
  define t' where "t' = tot + part_value is_sec (ds, u, k)"
  have v0: "0 \<le> v" using dec_value_nonneg [OF ok(2)] by (simp add: v_def)
  have t0: "0 \<le> t'" using part_value_nonneg [OF ok(2)] Cons.prems(3) by (simp add: t'_def)
  have shown: "time_text (a # ps) tail
      = ds @ unit_str u @ replicate k (CHR '' '') @ time_text ps tail"
    by (simp add: time_text_def a)
  have split: "ngx_parse_time_loop is_sec 0 tot valid st (time_text (a # ps) tail) =
      (if v \<le> NGX_MAX_INT_T_VALUE \<and> t' \<le> NGX_MAX_INT_T_VALUE
       then ngx_parse_time_loop is_sec 0 t' True (unit_step u) (time_text ps tail)
       else Inl NGX_ERROR)"
    using time_loop_digits [of 0 ds is_sec tot valid st] ok(1,2)
      time_loop_unit [OF v0 Cons.prems(3,4) ok(3,4) time_text_start [OF ok(5) Cons.prems(2)],
        where valid = True and k = k]
    by (simp add: shown v_def t'_def dec_value_def code_const)
  have le: "v \<le> t'"
    using v0 unit_scale_pos [of is_sec u] mult_left_mono [of 1 "unit_scale is_sec u" v] Cons.prems(3)
    by (simp add: t'_def v_def)
  have tot: "tot + sum_list (map (part_value is_sec) (a # ps))
      = t' + sum_list (map (part_value is_sec) ps)"
    by (simp add: t'_def a)
  show ?case
    using Cons.IH [OF ok(5) Cons.prems(2) t0] parts_value_nonneg [OF ok(5)] le
    unfolding split tot by auto
qed

section \<open>The property of times\<close>

text \<open>A time written as numbers with units in descending order (each followed by any number
  of spaces), then perhaps a bare number of seconds, is read as the exact sum of its parts, in
  seconds or in milliseconds; \<open>NGX_ERROR\<close> exactly when that sum is larger than
  \<open>NGX_MAX_INT_T_VALUE\<close>.\<close>

lemma ngx_parse_time_exact:
  assumes ok: "parts_ok is_sec (if is_sec then st_start else st_month) ps"
    and tail: "all_digits tail" and nonempty: "ps \<noteq> [] \<or> tail \<noteq> []"
  shows "ngx_parse_time (time_text ps tail) is_sec =
    (if time_value is_sec ps tail \<le> NGX_MAX_INT_T_VALUE then time_value is_sec ps tail
     else NGX_ERROR)"
proof -
  define t where "t = sum_list (map (part_value is_sec) ps)"
  define v where "v = dec_value tail"
  define k where "k = (if is_sec then 1 else 1000 :: int)"
  have t0: "0 \<le> t" using parts_value_nonneg [OF ok] by (simp add: t_def)
  have v0: "0 \<le> v" using dec_value_nonneg [OF tail] by (simp add: v_def)
  have val: "time_value is_sec ps tail = t + v * k"
    by (simp add: time_value_def t_def v_def k_def)
  have loop: "ngx_parse_time_loop is_sec 0 0 False (if is_sec then st_start else st_month)
        (time_text ps tail) =
      (if t \<le> NGX_MAX_INT_T_VALUE \<and> v \<le> NGX_MAX_INT_T_VALUE then Inr (v, t, True)
       else Inl NGX_ERROR)"
    using time_loop_parts [OF ok tail, of 0 False] nonempty
    by (simp add: t_def v_def code_const)
  have s: "s64 (v * k) = v * k" "s64 (NGX_MAX_INT_T_VALUE - v * k) = NGX_MAX_INT_T_VALUE - v * k"
    if "v * k \<le> NGX_MAX_INT_T_VALUE"
    using that v0 by (auto simp: k_def code_const intro!: s64_id)
  have s2: "s64 (t + v * k) = t + v * k" if "t + v * k \<le> NGX_MAX_INT_T_VALUE"
    using that t0 v0 by (intro s64_id) (auto simp: k_def code_const)
  show ?thesis
  proof (cases "v * k \<le> NGX_MAX_INT_T_VALUE")
    case True
    then show ?thesis
      using s [OF True] s2 v0 t0 unfolding val ngx_parse_time_def loop
      by (auto simp: k_def code_const split: if_splits)
  next
    case False
    then show ?thesis
      using v0 t0 unfolding val ngx_parse_time_def loop
      by (auto simp: k_def code_const)
  qed
qed

theorem ngx_parse_time_exact_witness:
  "ngx_parse_time ''1h 30m15'' True = 5415"
proof -
  have "ngx_parse_time (time_text [(''1'', U_hour, 1), (''30'', U_min, 0)] ''15'') True =
    (if time_value True [(''1'', U_hour, 1), (''30'', U_min, 0)] ''15'' \<le> NGX_MAX_INT_T_VALUE
     then time_value True [(''1'', U_hour, 1), (''30'', U_min, 0)] ''15'' else NGX_ERROR)"
    by (rule ngx_parse_time_exact) (simp_all add: is_digit_ord)
  then show ?thesis
    by (simp add: time_text_def time_value_def dec_value_def digit_of_def unit_scale_def code_const)
qed

end
