(* ===== verification/ParseLoop.thy ===== *)
theory ParseLoop
  imports Prelude
begin

text \<open>
  The loop that every incremental parser of nginx is built on:

    \<open>for (p = b->pos; p < b->last; p++) { ch = *p; switch (state) { ... } }\<close>

  A parser is its body \<open>step buf p ch r\<close>: the buffer, the index of the byte, the byte, and the
  request record with the state in it.  The body ends with \<open>break\<close> (\<open>Next\<close>: go on with
  the next byte), \<open>goto done\<close> (\<open>Done\<close>) or \<open>return rc\<close> (\<open>Return\<close>).  When the bytes run
  out the code stores the position and the state and returns \<open>NGX_AGAIN\<close>; it is called again when
  more bytes have arrived behind those it has seen.

  A pointer into the buffer is an index, and a pointer that may be \<open>NULL\<close> is an optional index.
\<close>

datatype 'r outcome = Next 'r | Done 'r | Return int 'r

datatype 'r loop_end = Exhausted nat 'r | GotoDone nat 'r | Returned int 'r

fun parse_loop :: "(nat \<Rightarrow> char \<Rightarrow> 'r \<Rightarrow> 'r outcome) \<Rightarrow> nat \<Rightarrow> bytes \<Rightarrow> 'r \<Rightarrow> 'r loop_end" where
  "parse_loop step p [] r = Exhausted p r"
| "parse_loop step p (ch # s) r =
     (case step p ch r of
        Next r' \<Rightarrow> parse_loop step (Suc p) s r'
      | Done r' \<Rightarrow> GotoDone p r'
      | Return rc r' \<Rightarrow> Returned rc r')"

text \<open>The whole call: the loop from \<open>b->pos = pos\<close> to \<open>b->last = length buf\<close> and the code at the label
  \<open>done\<close>.  It gives the result code, the request, and the value stored in \<open>b->pos\<close>, \<open>None\<close> where
  the code returns without storing one.\<close>

definition run_parser ::
  "(bytes \<Rightarrow> nat \<Rightarrow> char \<Rightarrow> 'r \<Rightarrow> 'r outcome) \<Rightarrow> (nat \<Rightarrow> 'r \<Rightarrow> int \<times> 'r)
    \<Rightarrow> bytes \<Rightarrow> nat \<Rightarrow> 'r \<Rightarrow> int \<times> 'r \<times> nat option" where
  "run_parser step finish buf pos r =
     (case parse_loop (step buf) pos (drop pos buf) r of
        Exhausted p r' \<Rightarrow> (NGX_AGAIN, r', Some p)
      | GotoDone p r' \<Rightarrow> (case finish p r' of (rc, r'') \<Rightarrow> (rc, r'', Some (Suc p)))
      | Returned rc r' \<Rightarrow> (rc, r', None))"

text \<open>The bytes from index \<open>a\<close> up to index \<open>b\<close> (exclusive).\<close>

definition slice :: "bytes \<Rightarrow> nat \<Rightarrow> nat \<Rightarrow> bytes" where
  "slice buf a b = take (b - a) (drop a buf)"

lemma slice_append: "b \<le> length buf \<Longrightarrow> slice (buf @ more) a b = slice buf a b"
  by (simp add: slice_def)

lemma slice_empty [simp]: "slice buf a a = []"
  by (simp add: slice_def)

lemma slice_length: "b \<le> length buf \<Longrightarrow> length (slice buf a b) = b - a"
  by (auto simp: slice_def)

lemma slice_Suc:
  assumes "a \<le> b" and "b < length buf"
  shows "slice buf a (Suc b) = slice buf a b @ [buf ! b]"
proof -
  have "Suc b - a = Suc (b - a)" and "b - a < length (drop a buf)" and "drop a buf ! (b - a) = buf ! b"
    using assms by auto
  then show ?thesis by (simp add: slice_def take_Suc_conv_app_nth)
qed

lemma slice_middle: "slice (xs @ ys @ zs) (length xs) (length xs + length ys) = ys"
  by (simp add: slice_def)

lemma slice_prefix: "slice (xs @ ys) 0 (length xs) = xs"
  by (simp add: slice_def)

text \<open>Pointer arithmetic on a pointer that may be \<open>NULL\<close>.\<close>

definition ptr_add :: "nat option \<Rightarrow> nat \<Rightarrow> nat option" where
  "ptr_add q n = map_option (\<lambda>p. p + n) q"

lemma ptr_add_Some [simp]: "ptr_add (Some p) n = Some (p + n)"
  by (simp add: ptr_add_def)

section \<open>Facts about the loop\<close>

lemma parse_loop_append:
  "parse_loop step p (xs @ ys) r =
     (case parse_loop step p xs r of
        Exhausted q r' \<Rightarrow> parse_loop step q ys r'
      | e \<Rightarrow> e)"
  by (induction xs arbitrary: p r) (auto split: outcome.splits)

lemma parse_loop_cong:
  assumes "\<And>q ch r. q < p + length s \<Longrightarrow> f q ch r = g q ch r"
  shows "parse_loop f p s r = parse_loop g p s r"
  using assms
proof (induction s arbitrary: p r)
  case (Cons ch s)
  have "f p ch r = g p ch r" by (rule Cons.prems) simp
  moreover have "parse_loop f (Suc p) s r' = parse_loop g (Suc p) s r'" for r'
    by (rule Cons.IH) (simp add: Cons.prems)
  ultimately show ?case by (simp split: outcome.split)
qed simp

lemma parse_loop_position: "parse_loop step p s r = Exhausted q r' \<Longrightarrow> q = p + length s"
  by (induction s arbitrary: p r) (fastforce split: outcome.splits)+

text \<open>An invariant of the body holds wherever the loop ends.\<close>

definition ends_in ::
  "(nat \<Rightarrow> 'r \<Rightarrow> bool) \<Rightarrow> (nat \<Rightarrow> char \<Rightarrow> 'r \<Rightarrow> 'r outcome) \<Rightarrow> nat \<Rightarrow> bytes \<Rightarrow> 'r loop_end \<Rightarrow> bool" where
  "ends_in I step p s e \<longleftrightarrow>
     (case e of
        Exhausted q r' \<Rightarrow> q = p + length s \<and> I q r'
      | GotoDone q r' \<Rightarrow>
          p \<le> q \<and> q < p + length s \<and> (\<exists>r0. I q r0 \<and> step q (s ! (q - p)) r0 = Done r')
      | Returned rc r' \<Rightarrow>
          (\<exists>q r0. p \<le> q \<and> q < p + length s \<and> I q r0 \<and> step q (s ! (q - p)) r0 = Return rc r'))"

lemma parse_loop_invariant:
  assumes "I p r"
    and "\<And>q r r'. p \<le> q \<Longrightarrow> q < p + length s \<Longrightarrow> I q r \<Longrightarrow> step q (s ! (q - p)) r = Next r' \<Longrightarrow> I (Suc q) r'"
  shows "ends_in I step p s (parse_loop step p s r)"
  using assms
proof (induction s arbitrary: p r)
  case (Cons ch s)
  show ?case
  proof (cases "step p ch r")
    case (Next r1)
    have I1: "I (Suc p) r1"
      using Cons.prems(2) [of p r r1] Cons.prems(1) Next by simp
    have step1: "I (Suc q) r'" if "Suc p \<le> q" "q < Suc p + length s" "I q r0"
      "step q (s ! (q - Suc p)) r0 = Next r'" for q r0 r'
      using Cons.prems(2) [of q r0 r'] that by (simp add: nth_Cons')
    have shift: "(ch # s) ! (q - p) = s ! (q - Suc p)" if "Suc p \<le> q" for q
      using that by (simp add: nth_Cons')
    have IH: "ends_in I step (Suc p) s (parse_loop step (Suc p) s r1)"
      by (rule Cons.IH [OF I1]) (rule step1)
    show ?thesis
    proof (cases "parse_loop step (Suc p) s r1")
      case (Exhausted q r')
      then show ?thesis using IH Next by (auto simp: ends_in_def)
    next
      case (GotoDone q r')
      then show ?thesis using IH Next shift [of q] by (auto simp: ends_in_def)
    next
      case (Returned rc r')
      with IH obtain q r0 where q: "Suc p \<le> q" "q < Suc p + length s" "I q r0"
        "step q (s ! (q - Suc p)) r0 = Return rc r'"
        by (auto simp: ends_in_def)
      then have "p \<le> q \<and> q < p + length (ch # s) \<and> I q r0
          \<and> step q ((ch # s) ! (q - p)) r0 = Return rc r'"
        using shift [of q] by auto
      with Returned Next show ?thesis by (auto simp: ends_in_def)
    qed
  next
    case (Done r1)
    then show ?thesis using Cons.prems(1) by (auto simp: ends_in_def)
  next
    case (Return rc r1)
    then show ?thesis using Cons.prems(1) by (auto simp: ends_in_def intro!: exI [of _ p])
  qed
qed (simp add: ends_in_def)

section \<open>Interfaces\<close>

text \<open>What makes a parser incremental: its body looks only at bytes that have arrived, and neither the
  body nor the code at \<open>done\<close> returns \<open>NGX_AGAIN\<close>.\<close>

locale incremental_parser =
  fixes step :: "bytes \<Rightarrow> nat \<Rightarrow> char \<Rightarrow> 'r \<Rightarrow> 'r outcome"
    and finish :: "nat \<Rightarrow> 'r \<Rightarrow> int \<times> 'r"
  assumes step_prefix: "p < length buf \<Longrightarrow> step (buf @ more) p ch r = step buf p ch r"
    and step_not_again: "step buf p ch r = Return rc r' \<Longrightarrow> rc \<noteq> NGX_AGAIN"
    and finish_not_again: "fst (finish p r) \<noteq> NGX_AGAIN"
begin

lemma returned_not_again: "parse_loop (step buf) p s r = Returned rc r' \<Longrightarrow> rc \<noteq> NGX_AGAIN"
  by (induction s arbitrary: p r) (auto split: outcome.splits dest: step_not_again)

lemma resumes:
  "(case run_parser step finish (pre @ s) (length pre) r of (rc, r', pos) \<Rightarrow>
      run_parser step finish (pre @ s @ more) (length pre) r =
        (if rc = NGX_AGAIN then run_parser step finish (pre @ s @ more) (the pos) r'
         else (rc, r', pos)))"
proof -
  have same: "parse_loop (step (pre @ s @ more)) (length pre) s r = parse_loop (step (pre @ s)) (length pre) s r"
    using step_prefix [of _ "pre @ s" more] by (intro parse_loop_cong) simp
  show ?thesis
  proof (cases "parse_loop (step (pre @ s)) (length pre) s r")
    case (Exhausted p r')
    then have "p = length pre + length s" by (rule parse_loop_position)
    then have rest: "drop p (pre @ s @ more) = more" by simp
    have first: "run_parser step finish (pre @ s) (length pre) r = (NGX_AGAIN, r', Some p)"
      using Exhausted by (simp add: run_parser_def)
    have "parse_loop (step (pre @ s @ more)) (length pre) (s @ more) r
        = parse_loop (step (pre @ s @ more)) p more r'"
      using Exhausted same by (simp only: parse_loop_append) simp
    moreover have "drop (length pre) (pre @ s @ more) = s @ more" by simp
    moreover have "(case parse_loop (step (pre @ s @ more)) p more r' of
          Exhausted p r' \<Rightarrow> (NGX_AGAIN, r', Some p)
        | GotoDone p r' \<Rightarrow> (case finish p r' of (rc, r'') \<Rightarrow> (rc, r'', Some (Suc p)))
        | Returned rc r' \<Rightarrow> (rc, r', None)) = run_parser step finish (pre @ s @ more) p r'"
      by (simp only: run_parser_def rest)
    ultimately have "run_parser step finish (pre @ s @ more) (length pre) r
        = run_parser step finish (pre @ s @ more) p r'"
      by (simp only: run_parser_def)
    with first show ?thesis by simp
  next
    case (GotoDone p r')
    then show ?thesis
      using same finish_not_again [of p r']
      by (simp add: run_parser_def parse_loop_append case_prod_beta)
  next
    case (Returned rc r')
    then show ?thesis
      using same returned_not_again [OF Returned]
      by (simp add: run_parser_def parse_loop_append)
  qed
qed

end

text \<open>A parser with an invariant that every iteration keeps.\<close>

locale parser_with_invariant = incremental_parser +
  fixes inv :: "bytes \<Rightarrow> nat \<Rightarrow> 'a \<Rightarrow> bool"
  assumes inv_step:
    "p < length buf \<Longrightarrow> inv buf p r \<Longrightarrow> step buf p (buf ! p) r = Next r' \<Longrightarrow> inv buf (Suc p) r'"
begin

lemma loop_inv:
  assumes "pos \<le> length buf" and "inv buf pos r"
  shows "ends_in (inv buf) (step buf) pos (drop pos buf) (parse_loop (step buf) pos (drop pos buf) r)"
  using assms inv_step by (intro parse_loop_invariant) auto

lemma again_inv:
  assumes "pos \<le> length buf" and "inv buf pos r"
    and "run_parser step finish buf pos r = (NGX_AGAIN, r', pos')"
  shows "pos' = Some (length buf) \<and> inv buf (length buf) r'"
proof (cases "parse_loop (step buf) pos (drop pos buf) r")
  case (Exhausted p r1)
  then show ?thesis
    using loop_inv [OF assms(1,2)] assms(1,3) by (auto simp: run_parser_def ends_in_def)
next
  case (GotoDone p r1)
  then show ?thesis
    using assms(3) finish_not_again [of p r1] by (simp add: run_parser_def split: prod.splits)
next
  case (Returned rc r1)
  then show ?thesis
    using assms(3) returned_not_again [OF Returned] by (simp add: run_parser_def)
qed

lemma done_inv:
  assumes "pos \<le> length buf" and "inv buf pos r"
    and "parse_loop (step buf) pos (drop pos buf) r = GotoDone q r'"
  obtains r0 where "pos \<le> q" and "q < length buf" and "inv buf q r0" and "step buf q (buf ! q) r0 = Done r'"
  using loop_inv [OF assms(1,2)] assms(1,3) by (auto simp: ends_in_def)

end

end
