(* ===== verification/HttpChunked.thy ===== *)
theory HttpChunked
  imports NgxNumber ParseLoop
begin

text \<open>
  \<open>ngx_http_parse_chunked\<close> of \<open>src/http/ngx_http_parse.c\<close>, the state machine of the chunked transfer
  coding, and \<open>ngx_http_request_body_chunked_filter\<close> of \<open>src/http/ngx_http_request_body.c\<close>, which
  takes the data of the chunks out of the client's bytes and enforces \<open>client_max_body_size\<close>.
\<close>

section \<open>Data\<close>

datatype ck_sw =
    ck_chunk_start | ck_chunk_size | ck_chunk_extension | ck_chunk_extension_almost_done
  | ck_chunk_data | ck_after_data | ck_after_data_almost_done | ck_last_chunk_extension
  | ck_last_chunk_extension_almost_done | ck_trailer | ck_trailer_almost_done | ck_trailer_header
  | ck_trailer_header_almost_done

datatype ck_label = L_data | L_done

text \<open>\<open>ngx_http_chunked_t\<close>; \<open>ck_goto\<close> is the label the loop was left to.\<close>

record chunked =
  ck_state :: ck_sw
  ck_size :: int
  ck_length :: int
  ck_goto :: ck_label

section \<open>The states\<close>

definition ck_invalid :: "chunked \<Rightarrow> chunked outcome" where
  "ck_invalid r = Return NGX_ERROR r"

definition ck_do_chunk_start :: "char \<Rightarrow> chunked \<Rightarrow> chunked outcome" where
  "ck_do_chunk_start ch r =
     (if is_digit ch then Next (r\<lparr>ck_state := ck_chunk_size, ck_size := digit_of ch\<rparr>)
      else if is_hex_letter ch
      then Next (r\<lparr>ck_state := ck_chunk_size, ck_size := hex_letter_of ch\<rparr>)
      else ck_invalid r)"

definition ck_do_chunk_size :: "char \<Rightarrow> chunked \<Rightarrow> chunked outcome" where
  "ck_do_chunk_size ch r =
     (if ck_size r > NGX_MAX_OFF_T_VALUE div 16 then ck_invalid r
      else if is_digit ch then Next (r\<lparr>ck_size := s64 (ck_size r * 16 + digit_of ch)\<rparr>)
      else if is_hex_letter ch then Next (r\<lparr>ck_size := s64 (ck_size r * 16 + hex_letter_of ch)\<rparr>)
      else if ck_size r = 0 then
        (if ch = CR then Next (r\<lparr>ck_state := ck_last_chunk_extension_almost_done\<rparr>)
         else if ch = CHR '';'' \<or> ch = CHR '' '' \<or> ch = HT
         then Next (r\<lparr>ck_state := ck_last_chunk_extension\<rparr>)
         else ck_invalid r)
      else if ch = CR then Next (r\<lparr>ck_state := ck_chunk_extension_almost_done\<rparr>)
      else if ch = CHR '';'' \<or> ch = CHR '' '' \<or> ch = HT then Next (r\<lparr>ck_state := ck_chunk_extension\<rparr>)
      else ck_invalid r)"

text \<open>The states that skip to a line end, and those that wait for its line feed.\<close>

definition ck_skip_line :: "ck_sw \<Rightarrow> char \<Rightarrow> chunked \<Rightarrow> chunked outcome" where
  "ck_skip_line st ch r =
     (if ch = CR then Next (r\<lparr>ck_state := st\<rparr>) else if ch = LF then ck_invalid r else Next r)"

definition ck_line_feed :: "ck_sw \<Rightarrow> char \<Rightarrow> chunked \<Rightarrow> chunked outcome" where
  "ck_line_feed st ch r = (if ch = LF then Next (r\<lparr>ck_state := st\<rparr>) else ck_invalid r)"

definition ck_do_after_data :: "char \<Rightarrow> chunked \<Rightarrow> chunked outcome" where
  "ck_do_after_data ch r =
     (if ch = CR then Next (r\<lparr>ck_state := ck_after_data_almost_done\<rparr>) else ck_invalid r)"

definition ck_do_last_almost_done :: "bool \<Rightarrow> char \<Rightarrow> chunked \<Rightarrow> chunked outcome" where
  "ck_do_last_almost_done keep_trailers ch r =
     (if ch = LF then
        (if keep_trailers then Done (r\<lparr>ck_goto := L_done\<rparr>) else Next (r\<lparr>ck_state := ck_trailer\<rparr>))
      else ck_invalid r)"

definition ck_do_trailer :: "char \<Rightarrow> chunked \<Rightarrow> chunked outcome" where
  "ck_do_trailer ch r =
     (if ch = CR then Next (r\<lparr>ck_state := ck_trailer_almost_done\<rparr>)
      else if ch = LF then ck_invalid r
      else Next (r\<lparr>ck_state := ck_trailer_header\<rparr>))"

definition ck_do_trailer_almost_done :: "char \<Rightarrow> chunked \<Rightarrow> chunked outcome" where
  "ck_do_trailer_almost_done ch r =
     (if ch = LF then Done (r\<lparr>ck_goto := L_done\<rparr>) else ck_invalid r)"

definition ck_step :: "bool \<Rightarrow> nat \<Rightarrow> char \<Rightarrow> chunked \<Rightarrow> chunked outcome" where
  "ck_step keep_trailers p ch r =
     (case ck_state r of
        ck_chunk_start \<Rightarrow> ck_do_chunk_start ch r
      | ck_chunk_size \<Rightarrow> ck_do_chunk_size ch r
      | ck_chunk_extension \<Rightarrow> ck_skip_line ck_chunk_extension_almost_done ch r
      | ck_chunk_extension_almost_done \<Rightarrow> ck_line_feed ck_chunk_data ch r
      | ck_chunk_data \<Rightarrow> Done (r\<lparr>ck_goto := L_data\<rparr>)
      | ck_after_data \<Rightarrow> ck_do_after_data ch r
      | ck_after_data_almost_done \<Rightarrow> ck_line_feed ck_chunk_start ch r
      | ck_last_chunk_extension \<Rightarrow> ck_skip_line ck_last_chunk_extension_almost_done ch r
      | ck_last_chunk_extension_almost_done \<Rightarrow> ck_do_last_almost_done keep_trailers ch r
      | ck_trailer \<Rightarrow> ck_do_trailer ch r
      | ck_trailer_almost_done \<Rightarrow> ck_do_trailer_almost_done ch r
      | ck_trailer_header \<Rightarrow> ck_skip_line ck_trailer_header_almost_done ch r
      | ck_trailer_header_almost_done \<Rightarrow> ck_line_feed ck_trailer ch r)"

text \<open>The amount of data that is still to come, at label \<open>data\<close>.\<close>

definition ck_rest :: "chunked \<Rightarrow> int" where
  "ck_rest r =
     (case ck_state r of
        ck_chunk_start \<Rightarrow> 5
      | ck_chunk_size \<Rightarrow> s64 (2 + (if ck_size r \<noteq> 0 then s64 (ck_size r + 7) else 2))
      | ck_chunk_extension \<Rightarrow> s64 (s64 (2 + ck_size r) + 7)
      | ck_chunk_extension_almost_done \<Rightarrow> s64 (s64 (1 + ck_size r) + 7)
      | ck_chunk_data \<Rightarrow> s64 (ck_size r + 7)
      | ck_after_data \<Rightarrow> 7
      | ck_after_data_almost_done \<Rightarrow> 6
      | ck_last_chunk_extension \<Rightarrow> 4
      | ck_last_chunk_extension_almost_done \<Rightarrow> 3
      | ck_trailer \<Rightarrow> 2
      | ck_trailer_almost_done \<Rightarrow> 1
      | ck_trailer_header \<Rightarrow> 4
      | ck_trailer_header_almost_done \<Rightarrow> 3)"

definition ck_data :: "int \<Rightarrow> nat \<Rightarrow> chunked \<Rightarrow> int \<times> chunked \<times> nat option" where
  "ck_data rc p r =
     (if ck_size r > NGX_MAX_OFF_T_VALUE - 5 then (NGX_ERROR, r, Some p)
      else (rc, r\<lparr>ck_length := ck_rest r\<rparr>, Some p))"

definition ck_enter :: "chunked \<Rightarrow> chunked" where
  "ck_enter r =
     (if ck_state r = ck_chunk_data \<and> ck_size r = 0 then r\<lparr>ck_state := ck_after_data\<rparr> else r)"

definition ngx_http_parse_chunked ::
  "bytes \<Rightarrow> nat \<Rightarrow> chunked \<Rightarrow> bool \<Rightarrow> int \<times> chunked \<times> nat option" where
  "ngx_http_parse_chunked buf pos ctx keep_trailers =
     (case parse_loop (ck_step keep_trailers) pos (drop pos buf) (ck_enter ctx) of
        Exhausted p r \<Rightarrow> ck_data NGX_AGAIN p r
      | GotoDone p r \<Rightarrow>
          (case ck_goto r of
             L_data \<Rightarrow> ck_data NGX_OK p r
           | L_done \<Rightarrow> (NGX_DONE, r\<lparr>ck_state := ck_chunk_start\<rparr>, Some (Suc p)))
      | Returned rc r \<Rightarrow> (rc, r, None))"

section \<open>The request body filter\<close>

definition NGX_HTTP_BAD_REQUEST :: int where
  [code_const]: "NGX_HTTP_BAD_REQUEST = 400"
definition NGX_HTTP_REQUEST_ENTITY_TOO_LARGE :: int where
  [code_const]: "NGX_HTTP_REQUEST_ENTITY_TOO_LARGE = 413"

text \<open>What the filter keeps of the request: the parser's context, the length of the body so far
  (\<open>content_length_n\<close>), the amount it wants to see next (\<open>rest\<close>), the bytes in the buffers
  it hands on, and whether it has a buffer \<open>b\<close> to append to.\<close>

record request_body =
  rb_chunked :: chunked
  content_length_n :: int
  rb_rest :: int
  rb_out :: bytes
  rb_b :: bool

text \<open>One chunk, or the part of it that has arrived: the bytes at \<open>pos\<close>, the request body and the new
  position.  A small chunk is copied behind the last buffer; others get a buffer of their own.\<close>

definition take_chunk :: "bytes \<Rightarrow> nat \<Rightarrow> request_body \<Rightarrow> request_body \<times> nat" where
  "take_chunk buf pos rb =
     (let size = ck_size (rb_chunked rb); avail = length buf - pos
      in if rb_b rb \<and> size \<le> 128 \<and> int avail \<ge> size then
           (rb\<lparr>content_length_n := s64 (content_length_n rb + size),
               rb_out := rb_out rb @ take (nat size) (drop pos buf),
               rb_chunked := (rb_chunked rb)\<lparr>ck_size := 0\<rparr>\<rparr>,
            pos + nat size)
         else if int avail > size then
           (rb\<lparr>rb_b := True, content_length_n := s64 (content_length_n rb + size),
               rb_out := rb_out rb @ take (nat size) (drop pos buf),
               rb_chunked := (rb_chunked rb)\<lparr>ck_size := 0\<rparr>\<rparr>,
            pos + nat size)
         else
           (rb\<lparr>rb_b := True, content_length_n := s64 (content_length_n rb + int avail),
               rb_out := rb_out rb @ drop pos buf,
               rb_chunked := (rb_chunked rb)\<lparr>ck_size := size - int avail\<rparr>\<rparr>,
            length buf))"

text \<open>The loop over one buffer.  The fuel bounds the iterations; \<open>None\<close> when it runs out.  The
  parameters are \<open>client_max_body_size\<close> and the size of the large header buffers.\<close>

fun chunked_filter ::
  "nat \<Rightarrow> int \<Rightarrow> int \<Rightarrow> bytes \<Rightarrow> nat \<Rightarrow> request_body \<Rightarrow> (int \<times> request_body \<times> nat) option" where
  "chunked_filter 0 max_size large buf pos rb = None"
| "chunked_filter (Suc fuel) max_size large buf pos rb =
     (case ngx_http_parse_chunked buf pos (rb_chunked rb) False of
        (rc, ctx, q) \<Rightarrow>
          let rb = rb\<lparr>rb_chunked := ctx\<rparr>; pos = (case q of None \<Rightarrow> pos | Some p \<Rightarrow> p)
          in if rc = NGX_OK then
               (if max_size \<noteq> 0 \<and> s64 (max_size - content_length_n rb) < ck_size ctx
                then Some (NGX_HTTP_REQUEST_ENTITY_TOO_LARGE, rb, pos)
                else
                  (case take_chunk buf pos rb of
                     (rb', pos') \<Rightarrow> chunked_filter fuel max_size large buf pos' rb'))
             else if rc = NGX_DONE then Some (NGX_OK, rb\<lparr>rb_rest := 0, rb_b := True\<rparr>, pos)
             else if rc = NGX_AGAIN
             then Some (NGX_OK, rb\<lparr>rb_rest := max (ck_length ctx) large\<rparr>, pos)
             else Some (NGX_HTTP_BAD_REQUEST, rb, pos))"

section \<open>The parser's context\<close>

text \<open>In the loop: the size is an offset, small enough to take another digit unless it has just been read,
  and positive between its line and its data.\<close>

definition ck_wf :: "chunked \<Rightarrow> bool" where
  "ck_wf r \<longleftrightarrow> 0 \<le> ck_size r \<and> ck_size r \<le> NGX_MAX_OFF_T_VALUE
     \<and> (ck_state r \<noteq> ck_chunk_size \<longrightarrow> ck_size r \<le> NGX_MAX_OFF_T_VALUE div 16)
     \<and> (ck_state r \<in> {ck_chunk_extension, ck_chunk_extension_almost_done, ck_chunk_data}
        \<longrightarrow> 0 < ck_size r)"

lemma size_digit:
  assumes "0 \<le> n" and "n \<le> NGX_MAX_OFF_T_VALUE div 16" and "0 \<le> d" and "d \<le> 15"
  shows "s64 (n * 16 + d) = n * 16 + d \<and> 0 \<le> n * 16 + d \<and> n * 16 + d \<le> NGX_MAX_OFF_T_VALUE"
  using assms by (auto simp: NGX_MAX_OFF_T_VALUE_def intro!: s64_id)

lemma ck_step_wf:
  assumes "ck_wf r" and "ck_step k p ch r = Next r'"
  shows "ck_wf r'"
proof -
  have d: "is_digit ch \<Longrightarrow> 0 \<le> digit_of ch \<and> digit_of ch \<le> 9"
    "is_hex_letter ch \<Longrightarrow> 10 \<le> hex_letter_of ch \<and> hex_letter_of ch \<le> 15"
    using digit_of_range [of ch] hex_letter_of_range [of ch] by auto
  show ?thesis
  proof (cases "ck_state r = ck_chunk_size")
    case True
    show ?thesis
    proof (cases "ck_size r \<le> NGX_MAX_OFF_T_VALUE div 16")
      case small: True
      have digit: "s64 (ck_size r * 16 + x) = ck_size r * 16 + x \<and> 0 \<le> ck_size r * 16 + x
          \<and> ck_size r * 16 + x \<le> NGX_MAX_OFF_T_VALUE" if "0 \<le> x" "x \<le> 15" for x
        using size_digit [OF _ small that] assms(1) by (simp add: ck_wf_def)
      show ?thesis
        using assms True small d digit [of "digit_of ch"] digit [of "hex_letter_of ch"]
        by (auto simp: ck_step_def ck_do_chunk_size_def ck_invalid_def ck_wf_def split: if_splits)
    next
      case False
      then show ?thesis
        using assms True by (simp add: ck_step_def ck_do_chunk_size_def ck_invalid_def)
    qed
  next
    case False
    then show ?thesis
      using assms d
      by (cases "ck_state r")
        (auto simp: ck_step_def ck_wf_def ck_invalid_def ck_do_chunk_start_def ck_skip_line_def
          ck_line_feed_def ck_do_after_data_def ck_do_last_almost_done_def ck_do_trailer_def
          ck_do_trailer_almost_done_def NGX_MAX_OFF_T_VALUE_def split: if_splits)
  qed
qed

lemma ck_step_done:
  "ck_step k p ch r = Done r' \<Longrightarrow>
     (if ck_state r = ck_chunk_data then r' = r\<lparr>ck_goto := L_data\<rparr>
      else r' = r\<lparr>ck_goto := L_done\<rparr>)"
  by (cases "ck_state r")
    (auto simp: ck_step_def ck_invalid_def ck_do_chunk_start_def ck_do_chunk_size_def ck_skip_line_def
      ck_line_feed_def ck_do_after_data_def ck_do_last_almost_done_def ck_do_trailer_def
      ck_do_trailer_almost_done_def split: if_splits)

lemma ck_step_return: "ck_step k p ch r = Return rc r' \<Longrightarrow> rc = NGX_ERROR"
  by (cases "ck_state r")
    (auto simp: ck_step_def ck_invalid_def ck_do_chunk_start_def ck_do_chunk_size_def ck_skip_line_def
      ck_line_feed_def ck_do_after_data_def ck_do_last_almost_done_def ck_do_trailer_def
      ck_do_trailer_almost_done_def split: if_splits)

text \<open>What a call gives.\<close>

definition parse_post :: "bytes \<Rightarrow> nat \<Rightarrow> int \<Rightarrow> chunked \<Rightarrow> nat option \<Rightarrow> bool" where
  "parse_post buf pos rc r q \<longleftrightarrow>
     rc = NGX_OK \<and> ck_state r = ck_chunk_data \<and> 0 < ck_size r \<and> ck_size r \<le> NGX_MAX_OFF_T_VALUE div 16
       \<and> (\<exists>p. q = Some p \<and> pos \<le> p \<and> p < length buf)
     \<or> rc = NGX_AGAIN \<and> ck_wf r \<and> ck_size r \<le> NGX_MAX_OFF_T_VALUE - 5 \<and> ck_length r = ck_rest r
       \<and> q = Some (length buf)
     \<or> rc = NGX_DONE \<and> ck_state r = ck_chunk_start \<and> 0 \<le> ck_size r
       \<and> ck_size r \<le> NGX_MAX_OFF_T_VALUE div 16 \<and> (\<exists>p. q = Some p \<and> pos < p \<and> p \<le> length buf)
     \<or> rc = NGX_ERROR"

lemma ck_rest_frame: "ck_rest (r\<lparr>ck_length := n\<rparr>) = ck_rest r" "ck_wf (r\<lparr>ck_length := n\<rparr>) = ck_wf r"
    "ck_wf (r\<lparr>ck_goto := l\<rparr>) = ck_wf r"
  by (simp_all add: ck_rest_def ck_wf_def cong: ck_sw.case_cong)

lemma parse_chunked_post:
  assumes "pos \<le> length buf" and "ck_wf (ck_enter ctx)"
  shows "case ngx_http_parse_chunked buf pos ctx k of (rc, r, q) \<Rightarrow> parse_post buf pos rc r q"
proof -
  have inv: "ends_in (\<lambda>q. ck_wf) (ck_step k) pos (drop pos buf)
      (parse_loop (ck_step k) pos (drop pos buf) (ck_enter ctx))"
    using assms(2) ck_step_wf by (intro parse_loop_invariant) auto
  show ?thesis
  proof (cases "parse_loop (ck_step k) pos (drop pos buf) (ck_enter ctx)")
    case (Exhausted p r)
    then have "ck_wf r" "p = length buf" using inv assms(1) by (auto simp: ends_in_def)
    then show ?thesis
      using Exhausted
      by (auto simp: ngx_http_parse_chunked_def ck_data_def parse_post_def ck_rest_frame)
  next
    case (GotoDone p r)
    then obtain r0 where r0: "ck_wf r0" "ck_step k p (drop pos buf ! (p - pos)) r0 = Done r"
      and p: "pos \<le> p" "p < length buf"
      using inv assms(1) by (auto simp: ends_in_def)
    note d = ck_step_done [OF r0(2)]
    have not_size: "ck_state r0 \<noteq> ck_chunk_size"
      using r0(2) by (auto simp: ck_step_def ck_do_chunk_size_def ck_invalid_def split: if_splits)
    show ?thesis
    proof (cases "ck_state r0 = ck_chunk_data")
      case True
      then show ?thesis
        using GotoDone d r0(1) p
        by (auto simp: ngx_http_parse_chunked_def ck_data_def parse_post_def ck_wf_def code_const)
    next
      case False
      then show ?thesis
        using GotoDone d r0(1) p not_size
        by (auto simp: ngx_http_parse_chunked_def parse_post_def ck_wf_def)
    qed
  next
    case (Returned rc r)
    then have "rc = NGX_ERROR" using inv by (auto simp: ends_in_def dest: ck_step_return)
    then show ?thesis
      using Returned by (simp add: ngx_http_parse_chunked_def parse_post_def)
  qed
qed

section \<open>The body filter\<close>

text \<open>The parser's context is one the parser left, the length is that of the data handed on, and the limit
  is respected.\<close>

definition body_ok :: "int \<Rightarrow> request_body \<Rightarrow> bool" where
  "body_ok max_size rb \<longleftrightarrow>
     ck_wf (ck_enter (rb_chunked rb)) \<and> content_length_n rb = int (length (rb_out rb))
     \<and> content_length_n rb \<le> max_size"

lemma take_chunk_ok:
  assumes rb: "body_ok max_size rb" and p: "p < length buf" and max: "max_size \<le> NGX_MAX_OFF_T_VALUE"
    and s: "0 < ck_size (rb_chunked rb)" "ck_size (rb_chunked rb) \<le> max_size - content_length_n rb"
      "ck_size (rb_chunked rb) \<le> NGX_MAX_OFF_T_VALUE div 16" "ck_state (rb_chunked rb) = ck_chunk_data"
  shows "case take_chunk buf p rb of (rb', p') \<Rightarrow> body_ok max_size rb' \<and> p < p' \<and> p' \<le> length buf"
proof -
  let ?size = "ck_size (rb_chunked rb)" and ?avail = "int (length buf - p)"
  have cl: "content_length_n rb = int (length (rb_out rb))" using rb by (simp add: body_ok_def)
  have add: "s64 (content_length_n rb + x) = content_length_n rb + x" if "0 \<le> x" "x \<le> ?size" for x
    using that s(2) max cl by (intro s64_id) (auto simp: NGX_MAX_OFF_T_VALUE_def)
  have ctx: "ck_wf (ck_enter ((rb_chunked rb)\<lparr>ck_size := x\<rparr>))" if "0 \<le> x" "x \<le> ?size" for x
    using that s by (auto simp: ck_wf_def ck_enter_def NGX_MAX_OFF_T_VALUE_def)
  show ?thesis
  proof (cases "?avail \<ge> ?size \<and> (rb_b rb \<and> ?size \<le> 128 \<or> ?avail > ?size)")
    case True
    have n: "nat ?size \<le> length buf - p" using True s(1) by linarith
    have body: "body_ok max_size (rb\<lparr>rb_b := b, content_length_n := s64 (content_length_n rb + ?size),
        rb_out := rb_out rb @ take (nat ?size) (drop p buf), rb_chunked := (rb_chunked rb)\<lparr>ck_size := 0\<rparr>\<rparr>)" for b
      using add [of ?size] ctx [of 0] s(1,2) cl n by (simp add: body_ok_def)
    have "take_chunk buf p rb = (rb\<lparr>rb_b := True, content_length_n := s64 (content_length_n rb + ?size),
        rb_out := rb_out rb @ take (nat ?size) (drop p buf), rb_chunked := (rb_chunked rb)\<lparr>ck_size := 0\<rparr>\<rparr>,
        p + nat ?size)"
      using True by (cases "rb_b rb") (auto simp: take_chunk_def Let_def)
    moreover have "p < p + nat ?size" "p + nat ?size \<le> length buf" using s(1) n p by linarith+
    ultimately show ?thesis using body [of True] by simp
  next
    case False
    then have small: "?avail \<le> ?size" and neither: "\<not> (rb_b rb \<and> ?size \<le> 128 \<and> ?size \<le> ?avail)" "\<not> ?size < ?avail"
      by auto
    have "take_chunk buf p rb = (rb\<lparr>rb_b := True, content_length_n := s64 (content_length_n rb + ?avail),
        rb_out := rb_out rb @ drop p buf, rb_chunked := (rb_chunked rb)\<lparr>ck_size := ?size - ?avail\<rparr>\<rparr>, length buf)"
      unfolding take_chunk_def Let_def by (simp only: neither if_False)
    then show ?thesis
      using add [of ?avail] ctx [of "?size - ?avail"] small s(2) cl p by (simp add: body_ok_def)
  qed
qed

lemma chunked_filter_ok:
  assumes "body_ok max_size rb" and "0 < max_size" and "max_size \<le> NGX_MAX_OFF_T_VALUE" and "pos \<le> length buf"
    and "length buf - pos < fuel"
  shows "case chunked_filter fuel max_size large buf pos rb of
      None \<Rightarrow> False
    | Some (rc, rb', pos') \<Rightarrow>
        rc \<in> {NGX_OK, NGX_HTTP_REQUEST_ENTITY_TOO_LARGE, NGX_HTTP_BAD_REQUEST}
        \<and> content_length_n rb' = int (length (rb_out rb')) \<and> content_length_n rb' \<le> max_size
        \<and> (rc = NGX_OK \<longrightarrow> body_ok max_size rb')"
  using assms
proof (induction fuel arbitrary: pos rb)
  case (Suc fuel)
  obtain rc ctx q where parse: "ngx_http_parse_chunked buf pos (rb_chunked rb) False = (rc, ctx, q)"
    by (metis prod_cases3)
  have cl: "content_length_n rb = int (length (rb_out rb))" "content_length_n rb \<le> max_size"
    using Suc.prems(1) by (simp_all add: body_ok_def)
  have post: "parse_post buf pos rc ctx q"
    using parse_chunked_post [of pos buf "rb_chunked rb" False] parse Suc.prems(1,4) by (simp add: body_ok_def)
  let ?rb = "rb\<lparr>rb_chunked := ctx\<rparr>"
  from post consider (ok) "rc = NGX_OK" | (again) "rc = NGX_AGAIN" | (finished) "rc = NGX_DONE" | (err) "rc = NGX_ERROR"
    by (auto simp: parse_post_def)
  then show ?case
  proof cases
    case ok
    then obtain p where p: "q = Some p" "pos \<le> p" "p < length buf" and ctx: "ck_state ctx = ck_chunk_data"
      "0 < ck_size ctx" "ck_size ctx \<le> NGX_MAX_OFF_T_VALUE div 16"
      using post by (auto simp: parse_post_def code_const)
    have sub: "s64 (max_size - content_length_n rb) = max_size - content_length_n rb"
      using cl Suc.prems(3) by (intro s64_id) (auto simp: NGX_MAX_OFF_T_VALUE_def)
    show ?thesis
    proof (cases "max_size - content_length_n rb < ck_size ctx")
      case True
      then show ?thesis
        using parse ok p sub cl Suc.prems(2) by (simp add: code_const)
    next
      case False
      have wf: "body_ok max_size ?rb"
        using cl ctx by (auto simp: body_ok_def ck_wf_def ck_enter_def NGX_MAX_OFF_T_VALUE_def)
      obtain rb' p' where t: "take_chunk buf p ?rb = (rb', p')" by fastforce
      with take_chunk_ok [OF wf p(3) Suc.prems(3)] ctx False
      have "body_ok max_size rb'" "p < p'" "p' \<le> length buf" by simp_all
      then have "case chunked_filter fuel max_size large buf p' rb' of
          None \<Rightarrow> False
        | Some (rc, rb', pos') \<Rightarrow>
            rc \<in> {NGX_OK, NGX_HTTP_REQUEST_ENTITY_TOO_LARGE, NGX_HTTP_BAD_REQUEST}
            \<and> content_length_n rb' = int (length (rb_out rb')) \<and> content_length_n rb' \<le> max_size
            \<and> (rc = NGX_OK \<longrightarrow> body_ok max_size rb')"
        using Suc.prems p by (intro Suc.IH) auto
      moreover have "chunked_filter (Suc fuel) max_size large buf pos rb
          = chunked_filter fuel max_size large buf p' rb'"
        using parse ok p sub False t Suc.prems(2) by simp
      ultimately show ?thesis by simp
    qed
  next
    case again
    then have "ck_wf ctx" "ck_size ctx \<le> NGX_MAX_OFF_T_VALUE - 5" using post by (auto simp: parse_post_def code_const)
    then have "ck_wf (ck_enter ctx)" by (auto simp: ck_enter_def ck_wf_def)
    then show ?thesis using parse again cl by (auto simp: code_const body_ok_def)
  next
    case finished
    then have "ck_state ctx = ck_chunk_start" "0 \<le> ck_size ctx" "ck_size ctx \<le> NGX_MAX_OFF_T_VALUE div 16"
      using post by (auto simp: parse_post_def code_const)
    then have "ck_wf (ck_enter ctx)" by (auto simp: ck_enter_def ck_wf_def NGX_MAX_OFF_T_VALUE_def)
    then show ?thesis using parse finished cl by (auto simp: code_const body_ok_def)
  next
    case err
    then show ?thesis using parse cl by (auto simp: code_const)
  qed
qed simp

text \<open>The context of a request whose body begins.\<close>

definition chunked_init :: chunked where
  "chunked_init = \<lparr>ck_state = ck_chunk_start, ck_size = 0, ck_length = 0, ck_goto = L_data\<rparr>"

definition body_init :: request_body where
  "body_init = \<lparr>rb_chunked = chunked_init, content_length_n = 0, rb_rest = -1, rb_out = [], rb_b = False\<rparr>"

lemma body_init_ok: "0 \<le> max_size \<Longrightarrow> body_ok max_size body_init"
  by (simp add: body_ok_def body_init_def chunked_init_def ck_enter_def ck_wf_def NGX_MAX_OFF_T_VALUE_def)

text \<open>The filter over the buffers of a body, in the order in which they arrive.\<close>

fun chunked_filters :: "int \<Rightarrow> int \<Rightarrow> bytes list \<Rightarrow> request_body \<Rightarrow> (int \<times> request_body) option" where
  "chunked_filters max_size large [] rb = Some (NGX_OK, rb)"
| "chunked_filters max_size large (buf # bufs) rb =
     (case chunked_filter (Suc (length buf)) max_size large buf 0 (rb\<lparr>rb_b := False\<rparr>) of
        None \<Rightarrow> None
      | Some (rc, rb', pos) \<Rightarrow>
          if rc = NGX_OK then chunked_filters max_size large bufs rb' else Some (rc, rb'))"

lemma chunked_filters_ok:
  assumes "body_ok max_size rb" and "0 < max_size" and "max_size \<le> NGX_MAX_OFF_T_VALUE"
  shows "case chunked_filters max_size large bufs rb of
      None \<Rightarrow> False
    | Some (rc, rb') \<Rightarrow>
        rc \<in> {NGX_OK, NGX_HTTP_REQUEST_ENTITY_TOO_LARGE, NGX_HTTP_BAD_REQUEST}
        \<and> content_length_n rb' = int (length (rb_out rb')) \<and> content_length_n rb' \<le> max_size"
  using assms
proof (induction bufs arbitrary: rb)
  case Nil
  then show ?case by (simp add: body_ok_def)
next
  case (Cons buf bufs)
  have "body_ok max_size (rb\<lparr>rb_b := False\<rparr>)" using Cons.prems(1) by (simp add: body_ok_def)
  from chunked_filter_ok [OF this Cons.prems(2,3), of 0 buf "Suc (length buf)" large]
  obtain rc rb' q where f: "chunked_filter (Suc (length buf)) max_size large buf 0 (rb\<lparr>rb_b := False\<rparr>) = Some (rc, rb', q)"
    and ok: "rc \<in> {NGX_OK, NGX_HTTP_REQUEST_ENTITY_TOO_LARGE, NGX_HTTP_BAD_REQUEST}"
      "content_length_n rb' = int (length (rb_out rb'))" "content_length_n rb' \<le> max_size"
      "rc = NGX_OK \<Longrightarrow> body_ok max_size rb'"
    by (auto split: option.splits simp del: chunked_filter.simps)
  show ?case
  proof (cases "rc = NGX_OK")
    case True
    then show ?thesis
      using Cons.IH [OF ok(4) Cons.prems(2,3)] f by (simp del: chunked_filter.simps)
  next
    case False
    then show ?thesis using f ok(1-3) by (simp del: chunked_filter.simps)
  qed
qed

text \<open>C12: a chunked body cannot get around \<open>client_max_body_size\<close>.  However the body is cut into buffers
  and chunks, the filter comes to an end on each of them with \<open>NGX_OK\<close>, 413 or 400, has counted exactly
  the bytes it handed on, and has never handed on more than the limit.\<close>

theorem chunked_body_limit:
  assumes "0 < max_size" and "max_size \<le> NGX_MAX_OFF_T_VALUE"
  shows "case chunked_filters max_size large bufs body_init of
      None \<Rightarrow> False
    | Some (rc, rb) \<Rightarrow>
        rc \<in> {NGX_OK, NGX_HTTP_REQUEST_ENTITY_TOO_LARGE, NGX_HTTP_BAD_REQUEST}
        \<and> content_length_n rb = int (length (rb_out rb)) \<and> int (length (rb_out rb)) \<le> max_size"
  using chunked_filters_ok [OF body_init_ok assms] assms by (fastforce split: option.splits)

theorem chunked_body_limit_witness:
  "case chunked_filters 4 1024 [''3'' @ [CR, LF] @ ''abc'' @ [CR, LF], ''2'' @ [CR, LF] @ ''de''] body_init of
      None \<Rightarrow> False
    | Some (rc, rb) \<Rightarrow>
        rc \<in> {NGX_OK, NGX_HTTP_REQUEST_ENTITY_TOO_LARGE, NGX_HTTP_BAD_REQUEST}
        \<and> content_length_n rb = int (length (rb_out rb)) \<and> int (length (rb_out rb)) \<le> 4"
  by (rule chunked_body_limit) (simp_all add: NGX_MAX_OFF_T_VALUE_def)

section \<open>The amount still to come\<close>

text \<open>After \<open>NGX_AGAIN\<close> and after \<open>NGX_OK\<close> the amount that the parser asks for is at least 1 and covers
  the size of the chunk, as long as the size leaves room for the 9 bytes of the chunk's end and the last
  chunk.\<close>

lemma chunked_length_bounds:
  assumes "pos \<le> length buf" and "ck_wf (ck_enter ctx)"
  shows "case ngx_http_parse_chunked buf pos ctx k of (rc, r, q) \<Rightarrow>
    if rc = NGX_AGAIN \<and> ck_size r \<le> NGX_MAX_OFF_T_VALUE - 9
    then 1 \<le> ck_length r
      \<and> (if ck_state r \<in> {ck_chunk_extension, ck_chunk_extension_almost_done, ck_chunk_data}
         then ck_size r + 7 \<le> ck_length r else True)
    else True"
proof -
  have *: "1 \<le> ck_rest r \<and> (ck_state r \<in> {ck_chunk_extension, ck_chunk_extension_almost_done, ck_chunk_data}
      \<longrightarrow> ck_size r + 7 \<le> ck_rest r)"
    if "0 \<le> ck_size r" "ck_size r \<le> NGX_MAX_OFF_T_VALUE - 9" for r
    using that by (auto simp: ck_rest_def NGX_MAX_OFF_T_VALUE_def s64_id split: ck_sw.split)
  have post: "case ngx_http_parse_chunked buf pos ctx k of (rc, r, q) \<Rightarrow> parse_post buf pos rc r q"
    by (rule parse_chunked_post [OF assms])
  show ?thesis
    using post * by (fastforce simp: parse_post_def ck_wf_def code_const split: prod.splits)
qed

theorem chunked_length_bounds_witness:
  "case ngx_http_parse_chunked ''1f'' 0 chunked_init False of (rc, r, q) \<Rightarrow>
    if rc = NGX_AGAIN \<and> ck_size r \<le> NGX_MAX_OFF_T_VALUE - 9
    then 1 \<le> ck_length r
      \<and> (if ck_state r \<in> {ck_chunk_extension, ck_chunk_extension_almost_done, ck_chunk_data}
         then ck_size r + 7 \<le> ck_length r else True)
    else True"
  by (rule chunked_length_bounds)
    (simp_all add: chunked_init_def ck_enter_def ck_wf_def NGX_MAX_OFF_T_VALUE_def)

text \<open>The guard before it leaves room for 5 bytes only.  A size of \<open>7ffffffffffffffa\<close> at the end of a
  buffer passes it, and the amount that is asked for overflows to a negative number.\<close>

lemma chunked_length_overflows:
  "case ngx_http_parse_chunked ''7ffffffffffffffa'' 0 chunked_init False of (rc, r, q) \<Rightarrow>
     rc = NGX_AGAIN \<and> ck_size r = NGX_MAX_OFF_T_VALUE - 5 \<and> ck_length r = -9223372036854775805"
  by code_simp

section \<open>A coded body is decoded\<close>

text \<open>A chunk is its size in hexadecimal digits of any case and its data.  A body in the chunked coding, from
  the byte behind its first size line's beginning, and the end of it from the end of a chunk's data.\<close>

type_synonym chunk = "bytes \<times> bytes"

fun chunk_ok :: "chunk \<Rightarrow> bool" where
  "chunk_ok (sz, dat) \<longleftrightarrow>
     sz \<noteq> [] \<and> list_all is_hex sz \<and> hex_value sz = int (length dat) \<and> dat \<noteq> []
     \<and> int (length dat) \<le> NGX_MAX_OFF_T_VALUE div 16"

fun code_chunks :: "chunk list \<Rightarrow> bytes" where
  "code_chunks [] = ''0'' @ [CR, LF, CR, LF]"
| "code_chunks ((sz, dat) # cs) = sz @ [CR, LF] @ dat @ [CR, LF] @ code_chunks cs"

definition chunks_data :: "chunk list \<Rightarrow> bytes" where
  "chunks_data cs = concat (map snd cs)"

lemma hex_horner_ge: "list_all is_hex s \<Longrightarrow> 0 \<le> v \<Longrightarrow> v \<le> horner 16 v (map hex_digit s)"
  by (intro horner_ge hex_digit_nonneg) (auto simp: list_all_iff)

text \<open>The digits of a size.\<close>

lemma size_digits_loop:
  assumes "ck_state r = ck_chunk_size" and "0 \<le> ck_size r" and "list_all is_hex s"
    and "horner 16 (ck_size r) (map hex_digit s) \<le> NGX_MAX_OFF_T_VALUE div 16"
  shows "parse_loop (ck_step k) p s r
    = Exhausted (p + length s) (r\<lparr>ck_size := horner 16 (ck_size r) (map hex_digit s)\<rparr>)"
  using assms
proof (induction s arbitrary: p r)
  case (Cons c s)
  let ?v = "ck_size r * 16 + hex_digit c"
  have c: "is_hex c" using Cons.prems(3) by simp
  have d: "0 \<le> hex_digit c" "hex_digit c \<le> 15" using hex_digit_range [OF c] by auto
  have le: "?v \<le> NGX_MAX_OFF_T_VALUE div 16"
    using hex_horner_ge [of s ?v] Cons.prems d by simp
  have small: "ck_size r \<le> NGX_MAX_OFF_T_VALUE div 16"
    using le d Cons.prems(2) by linarith
  have s64: "s64 ?v = ?v" using size_digit [OF Cons.prems(2) small d] by simp
  have "ck_step k p c r = Next (r\<lparr>ck_size := ?v\<rparr>)"
    using Cons.prems(1) small c s64
    by (auto simp: ck_step_def ck_do_chunk_size_def is_hex_def hex_digit_def)
  then show ?case
    using Cons.IH [of "r\<lparr>ck_size := ?v\<rparr>" "Suc p"] Cons.prems d by simp
qed simp

lemma size_line_loop:
  assumes "ck_state r = ck_chunk_start" and "s \<noteq> []" and "list_all is_hex s"
    and "hex_value s \<le> NGX_MAX_OFF_T_VALUE div 16" and "0 < hex_value s"
  shows "parse_loop (ck_step k) p (s @ [CR, LF]) r
    = Exhausted (p + length s + 2) (r\<lparr>ck_state := ck_chunk_data, ck_size := hex_value s\<rparr>)"
proof -
  obtain c cs where s: "s = c # cs" using assms(2) by (cases s) auto
  have c: "is_hex c" using assms(3) s by simp
  let ?r1 = "r\<lparr>ck_state := ck_chunk_size, ck_size := hex_digit c\<rparr>"
  have s1: "ck_step k p c r = Next ?r1"
    using assms(1) c by (auto simp: ck_step_def ck_do_chunk_start_def is_hex_def hex_digit_def)
  have v: "horner 16 (hex_digit c) (map hex_digit cs) = hex_value s"
    using s by (simp add: hex_value_def)
  have l: "parse_loop (ck_step k) (Suc p) cs ?r1 = Exhausted (p + length s) (?r1\<lparr>ck_size := hex_value s\<rparr>)"
    using size_digits_loop [of ?r1 cs k "Suc p"] assms(3,4) s v hex_digit_range [OF c] by simp
  have e: "\<not> is_digit CR" "\<not> is_hex_letter CR" by (simp_all add: is_digit_ord is_hex_letter_ord)
  have "parse_loop (ck_step k) p s r = Exhausted (p + length s) (?r1\<lparr>ck_size := hex_value s\<rparr>)"
    using s s1 l by simp
  moreover have "parse_loop (ck_step k) q [CR, LF] (?r1\<lparr>ck_size := hex_value s\<rparr>)
      = Exhausted (q + 2) (?r1\<lparr>ck_size := hex_value s, ck_state := ck_chunk_data\<rparr>)" for q
    using e assms(4,5) by (simp add: ck_step_def ck_do_chunk_size_def ck_line_feed_def)
  ultimately show ?thesis by (simp only: parse_loop_append loop_end.case) simp
qed

text \<open>Before the first chunk, or after the data of a chunk.\<close>

definition at_chunk :: "bytes \<Rightarrow> nat \<Rightarrow> chunked \<Rightarrow> bytes \<Rightarrow> bool" where
  "at_chunk buf pos ctx rest \<longleftrightarrow> pos \<le> length buf
     \<and> (ck_state ctx = ck_chunk_start \<and> drop pos buf = rest
        \<or> ck_state ctx = ck_chunk_data \<and> ck_size ctx = 0 \<and> drop pos buf = [CR, LF] @ rest)"

lemma at_chunk_loop:
  assumes "at_chunk buf pos ctx rest"
  shows "\<exists>p r. parse_loop (ck_step k) pos (drop pos buf) (ck_enter ctx) = parse_loop (ck_step k) p rest r
    \<and> ck_state r = ck_chunk_start \<and> ck_goto r = ck_goto ctx \<and> drop p buf = rest \<and> p \<le> length buf"
proof (cases "ck_state ctx = ck_chunk_start")
  case True
  then show ?thesis
    using assms by (intro exI [of _ pos] exI [of _ ctx]) (auto simp: at_chunk_def ck_enter_def)
next
  case False
  then have c: "ck_state ctx = ck_chunk_data" "ck_size ctx = 0" "drop pos buf = [CR, LF] @ rest"
    using assms by (auto simp: at_chunk_def)
  have "parse_loop (ck_step k) pos [CR, LF] (ck_enter ctx) = Exhausted (pos + 2) (ctx\<lparr>ck_state := ck_chunk_start\<rparr>)"
    using c by (simp add: ck_enter_def ck_step_def ck_do_after_data_def ck_line_feed_def)
  then have "parse_loop (ck_step k) pos (drop pos buf) (ck_enter ctx)
      = parse_loop (ck_step k) (pos + 2) rest (ctx\<lparr>ck_state := ck_chunk_start\<rparr>)"
    unfolding c(3) by (simp only: parse_loop_append loop_end.case)
  moreover have "drop (pos + 2) buf = rest"
    using c(3) by (metis add.commute append_eq_conv_conj drop_drop length_Cons list.size(3) numeral_2_eq_2)
  moreover have "pos + 2 \<le> length buf"
    using arg_cong [OF c(3), of length] by simp
  ultimately show ?thesis by (intro exI) auto
qed

lemma parse_chunk:
  assumes at: "at_chunk buf pos ctx (sz @ [CR, LF] @ dat @ rest)" and ok: "chunk_ok (sz, dat)"
  shows "\<exists>p r. ngx_http_parse_chunked buf pos ctx False = (NGX_OK, r, Some p)
    \<and> ck_state r = ck_chunk_data \<and> ck_size r = int (length dat) \<and> drop p buf = dat @ rest \<and> p \<le> length buf"
proof -
  obtain p r where l: "parse_loop (ck_step False) pos (drop pos buf) (ck_enter ctx)
      = parse_loop (ck_step False) p ((sz @ [CR, LF]) @ dat @ rest) r"
    and r: "ck_state r = ck_chunk_start" and d: "drop p buf = (sz @ [CR, LF]) @ dat @ rest"
    using at_chunk_loop [OF at, of False] by auto
  obtain x xs where dat: "dat = x # xs" using ok by (cases dat) auto
  let ?r1 = "r\<lparr>ck_state := ck_chunk_data, ck_size := int (length dat)\<rparr>"
  have v: "hex_value sz = int (length dat)" "0 < int (length dat)" using ok dat by auto
  have "parse_loop (ck_step False) p (sz @ [CR, LF]) r = Exhausted (p + length sz + 2) ?r1"
    using size_line_loop [OF r, of sz False p] ok v by simp
  then have "parse_loop (ck_step False) pos (drop pos buf) (ck_enter ctx)
      = parse_loop (ck_step False) (p + length sz + 2) (dat @ rest) ?r1"
    using l by (simp only: parse_loop_append loop_end.case)
  also have "\<dots> = GotoDone (p + length sz + 2) (?r1\<lparr>ck_goto := L_data\<rparr>)"
    using dat by (simp add: ck_step_def)
  finally have "ngx_http_parse_chunked buf pos ctx False
      = ck_data NGX_OK (p + length sz + 2) (?r1\<lparr>ck_goto := L_data\<rparr>)"
    by (simp add: ngx_http_parse_chunked_def)
  moreover have "drop (length (sz @ [CR, LF]) + p) buf = dat @ rest"
    using d by (metis append_eq_conv_conj drop_drop)
  then have "drop (p + length sz + 2) buf = dat @ rest" by (simp add: add.commute add.left_commute)
  moreover have "p + length sz + 2 \<le> length buf"
    using arg_cong [OF d, of length] dat by simp
  moreover have "int (length dat) \<le> NGX_MAX_OFF_T_VALUE - 5"
    using ok by (auto simp: NGX_MAX_OFF_T_VALUE_def)
  ultimately show ?thesis by (simp add: ck_data_def)
qed

lemma parse_last_chunk:
  assumes at: "at_chunk buf pos ctx (''0'' @ [CR, LF, CR, LF] @ rest)"
  shows "\<exists>p r. ngx_http_parse_chunked buf pos ctx False = (NGX_DONE, r, Some p) \<and> drop p buf = rest"
proof -
  let ?s = "''0'' @ [CR, LF, CR, LF]"
  obtain p r where l: "parse_loop (ck_step False) pos (drop pos buf) (ck_enter ctx)
      = parse_loop (ck_step False) p (?s @ rest) r"
    and r: "ck_state r = ck_chunk_start" and d: "drop p buf = ?s @ rest"
    using at_chunk_loop [OF at, of False] by auto
  have e: "\<not> is_digit CR" "\<not> is_hex_letter CR" "is_digit (CHR ''0'')" "digit_of (CHR ''0'') = 0"
    by (simp_all add: is_digit_ord is_hex_letter_ord digit_of_def)
  let ?r1 = "r\<lparr>ck_state := ck_trailer_almost_done, ck_size := 0, ck_goto := L_done\<rparr>"
  have "parse_loop (ck_step False) p ?s r = GotoDone (p + 4) ?r1"
    using r e by (simp add: ck_step_def ck_do_chunk_start_def ck_do_chunk_size_def
        ck_do_last_almost_done_def ck_do_trailer_def ck_do_trailer_almost_done_def NGX_MAX_OFF_T_VALUE_def)
  then have "parse_loop (ck_step False) pos (drop pos buf) (ck_enter ctx) = GotoDone (p + 4) ?r1"
    using l by (simp only: parse_loop_append loop_end.case)
  then have parsed: "ngx_http_parse_chunked buf pos ctx False = (NGX_DONE, ?r1\<lparr>ck_state := ck_chunk_start\<rparr>, Some (p + 5))"
    by (simp add: ngx_http_parse_chunked_def)
  have "drop (length ?s + p) buf = rest"
    using d by (metis append_eq_conv_conj drop_drop)
  moreover have "length ?s + p = p + 5" by simp
  ultimately have "drop (p + 5) buf = rest" by metis
  with parsed show ?thesis by blast
qed

lemma filter_chunks:
  assumes "at_chunk buf pos (rb_chunked rb) (code_chunks cs @ rest)" and "list_all chunk_ok cs"
    and "content_length_n rb = int (length (rb_out rb))"
    and "int (length (rb_out rb) + length (chunks_data cs)) \<le> NGX_MAX_OFF_T_VALUE"
    and "max_size = 0 \<or> int (length (rb_out rb) + length (chunks_data cs)) \<le> max_size \<and> max_size \<le> NGX_MAX_OFF_T_VALUE"
    and "length cs < fuel"
  shows "\<exists>rb' p. chunked_filter fuel max_size large buf pos rb = Some (NGX_OK, rb', p)
    \<and> rb_out rb' = rb_out rb @ chunks_data cs \<and> rb_rest rb' = 0 \<and> drop p buf = rest
    \<and> content_length_n rb' = int (length (rb_out rb'))"
  using assms
proof (induction cs arbitrary: fuel pos rb)
  case Nil
  then obtain n where fuel: "fuel = Suc n" by (cases fuel) auto
  obtain p r where "ngx_http_parse_chunked buf pos (rb_chunked rb) False = (NGX_DONE, r, Some p)" "drop p buf = rest"
    using parse_last_chunk [of buf pos "rb_chunked rb" rest] Nil.prems(1) by auto
  then show ?case
    using fuel Nil.prems(3) by (simp add: code_const chunks_data_def)
next
  case (Cons c cs)
  obtain n where fuel: "fuel = Suc n" using Cons.prems(6) by (cases fuel) auto
  obtain sz dat where c: "c = (sz, dat)" by (cases c)
  have ok: "chunk_ok (sz, dat)" using Cons.prems(2) c by simp
  let ?tail = "[CR, LF] @ code_chunks cs @ rest"
  obtain p r where parse: "ngx_http_parse_chunked buf pos (rb_chunked rb) False = (NGX_OK, r, Some p)"
    and r: "ck_state r = ck_chunk_data" "ck_size r = int (length dat)" and d: "drop p buf = dat @ ?tail" and p: "p \<le> length buf"
    using parse_chunk [OF _ ok, of buf pos "rb_chunked rb" ?tail] Cons.prems(1) c by auto
  have dt: "length (chunks_data (c # cs)) = length dat + length (chunks_data cs)"
    by (simp add: chunks_data_def c)
  have avail: "int (length buf - p) > int (length dat)"
    using arg_cong [OF d, of length] by simp
  have add: "s64 (content_length_n rb + int (length dat)) = int (length (rb_out rb @ dat))"
    using Cons.prems(3,4) dt by (subst s64_id) (auto simp: NGX_MAX_OFF_T_VALUE_def)
  have sub: "s64 (max_size - content_length_n rb) = max_size - content_length_n rb" if "max_size \<noteq> 0"
    using that Cons.prems(3,5) by (intro s64_id) (auto simp: NGX_MAX_OFF_T_VALUE_def)
  let ?rb = "rb\<lparr>rb_chunked := r\<rparr>"
  have t: "take_chunk buf p ?rb = (rb\<lparr>rb_b := True, content_length_n := int (length (rb_out rb @ dat)),
      rb_out := rb_out rb @ dat, rb_chunked := r\<lparr>ck_size := 0\<rparr>\<rparr>, p + length dat)"
    using r(2) avail d add by (cases "rb_b rb") (auto simp: take_chunk_def Let_def)
  let ?rb' = "rb\<lparr>rb_b := True, content_length_n := int (length (rb_out rb @ dat)),
      rb_out := rb_out rb @ dat, rb_chunked := r\<lparr>ck_size := 0\<rparr>\<rparr>"
  have step: "chunked_filter fuel max_size large buf pos rb = chunked_filter n max_size large buf (p + length dat) ?rb'"
    using fuel parse t r(2) sub Cons.prems(3,5) dt by (auto simp: Let_def)
  have rest: "drop (p + length dat) buf = ?tail"
    using d by (metis add.commute append_eq_conv_conj drop_drop)
  have at: "at_chunk buf (p + length dat) (rb_chunked ?rb') (code_chunks cs @ rest)"
    using r(1) rest avail by (auto simp: at_chunk_def)
  have "\<exists>rb' q. chunked_filter n max_size large buf (p + length dat) ?rb' = Some (NGX_OK, rb', q)
    \<and> rb_out rb' = rb_out ?rb' @ chunks_data cs \<and> rb_rest rb' = 0 \<and> drop q buf = rest
    \<and> content_length_n rb' = int (length (rb_out rb'))"
    using Cons.prems dt fuel by (intro Cons.IH [OF at]) auto
  then show ?case using step by (auto simp: chunks_data_def c)
qed

text \<open>C36: a body in the chunked coding, of any number of chunks that together respect the limit, is
  decoded to exactly its data, and the bytes behind it are left for the next request.\<close>

theorem chunked_roundtrip:
  assumes "list_all chunk_ok cs" and "int (length (chunks_data cs)) \<le> NGX_MAX_OFF_T_VALUE"
    and "max_size = 0 \<or> int (length (chunks_data cs)) \<le> max_size \<and> max_size \<le> NGX_MAX_OFF_T_VALUE"
  shows "case chunked_filter (Suc (length cs)) max_size large (code_chunks cs @ rest) 0 body_init of
      None \<Rightarrow> False
    | Some (rc, rb, p) \<Rightarrow> rc = NGX_OK \<and> rb_out rb = chunks_data cs \<and> rb_rest rb = 0
        \<and> content_length_n rb = int (length (chunks_data cs)) \<and> drop p (code_chunks cs @ rest) = rest"
proof -
  have "at_chunk (code_chunks cs @ rest) 0 (rb_chunked body_init) (code_chunks cs @ rest)"
    by (simp add: at_chunk_def body_init_def chunked_init_def)
  from filter_chunks [OF this assms(1), of max_size "Suc (length cs)" large] assms(2,3)
  show ?thesis by (auto simp: body_init_def)
qed

theorem chunked_roundtrip_witness:
  "case chunked_filter 3 100 1024 (code_chunks [(''5'', ''hello''), (''00A'', '', chunked!'')] @ ''GET'') 0 body_init of
      None \<Rightarrow> False
    | Some (rc, rb, p) \<Rightarrow> rc = NGX_OK \<and> rb_out rb = ''hello, chunked!''"
proof -
  have ok: "list_all chunk_ok [(''5'', ''hello''), (''00A'', '', chunked!'')]"
    by (simp add: hex_value_def hex_digit_def is_hex_def is_digit_ord is_hex_letter_ord digit_of_def
        hex_letter_of_def ord_or_0x20 NGX_MAX_OFF_T_VALUE_def)
  have d: "chunks_data [(''5'', ''hello''), (''00A'', '', chunked!'')] = ''hello, chunked!''"
    by (simp add: chunks_data_def)
  show ?thesis
    using chunked_roundtrip [OF ok, where max_size = 100 and large = 1024 and rest = "''GET''"]
    by (simp add: d NGX_MAX_OFF_T_VALUE_def numeral_3_eq_3 split: option.splits prod.splits
        del: chunked_filter.simps)
qed

end
