(* ===== verification/HttpRequestLine.thy ===== *)
theory HttpRequestLine
  imports ParseLoop
begin

text \<open>
  \<open>ngx_http_parse_request_line\<close> of \<open>src/http/ngx_http_parse.c\<close>: the state machine that reads
  \<open>GET /index.html?a=b HTTP/1.1\<close> from the client, one definition for the body of each
  \<open>case\<close> of its switch.  The record holds the fields of \<open>ngx_http_request_t\<close> that it uses; pointers
  into the buffer are indices.  The local variable \<open>state\<close> is the field \<open>rl_state\<close> throughout.
\<close>

section \<open>Data\<close>

datatype rl_sw =
    sw_start | sw_method | sw_spaces_before_uri | sw_schema | sw_schema_slash
  | sw_schema_slash_slash | sw_spaces_before_host | sw_host_start | sw_host | sw_host_end
  | sw_host_ip_literal | sw_port | sw_after_slash_in_uri | sw_check_uri | sw_uri | sw_http_09
  | sw_http_H | sw_http_HT | sw_http_HTT | sw_http_HTTP | sw_first_major_digit | sw_major_digit
  | sw_first_minor_digit | sw_minor_digit | sw_spaces_after_digit | sw_almost_done

record request_line =
  rl_state :: rl_sw
  meth :: int
  request_start :: "nat option"
  method_end :: "nat option"
  schema_start :: "nat option"
  schema_end :: "nat option"
  host_start :: "nat option"
  host_end :: "nat option"
  uri_start :: "nat option"
  uri_end :: "nat option"
  uri_ext :: "nat option"
  args_start :: "nat option"
  http_protocol :: "nat option"
  request_end :: "nat option"
  http_major :: nat
  http_minor :: nat
  http_version :: nat
  complex_uri :: bool
  quoted_uri :: bool
  plus_in_uri :: bool
  empty_path_in_uri :: bool

definition NGX_HTTP_UNKNOWN :: int where "NGX_HTTP_UNKNOWN = 0x00000001"
definition NGX_HTTP_GET :: int where "NGX_HTTP_GET = 0x00000002"
definition NGX_HTTP_HEAD :: int where "NGX_HTTP_HEAD = 0x00000004"
definition NGX_HTTP_POST :: int where "NGX_HTTP_POST = 0x00000008"
definition NGX_HTTP_PUT :: int where "NGX_HTTP_PUT = 0x00000010"
definition NGX_HTTP_DELETE :: int where "NGX_HTTP_DELETE = 0x00000020"
definition NGX_HTTP_MKCOL :: int where "NGX_HTTP_MKCOL = 0x00000040"
definition NGX_HTTP_COPY :: int where "NGX_HTTP_COPY = 0x00000080"
definition NGX_HTTP_MOVE :: int where "NGX_HTTP_MOVE = 0x00000100"
definition NGX_HTTP_OPTIONS :: int where "NGX_HTTP_OPTIONS = 0x00000200"
definition NGX_HTTP_PROPFIND :: int where "NGX_HTTP_PROPFIND = 0x00000400"
definition NGX_HTTP_PROPPATCH :: int where "NGX_HTTP_PROPPATCH = 0x00000800"
definition NGX_HTTP_LOCK :: int where "NGX_HTTP_LOCK = 0x00001000"
definition NGX_HTTP_UNLOCK :: int where "NGX_HTTP_UNLOCK = 0x00002000"
definition NGX_HTTP_PATCH :: int where "NGX_HTTP_PATCH = 0x00004000"
definition NGX_HTTP_TRACE :: int where "NGX_HTTP_TRACE = 0x00008000"
definition NGX_HTTP_CONNECT :: int where "NGX_HTTP_CONNECT = 0x00010000"

lemmas http_methods =
  NGX_HTTP_UNKNOWN_def NGX_HTTP_GET_def NGX_HTTP_HEAD_def NGX_HTTP_POST_def NGX_HTTP_PUT_def
  NGX_HTTP_DELETE_def NGX_HTTP_MKCOL_def NGX_HTTP_COPY_def NGX_HTTP_MOVE_def NGX_HTTP_OPTIONS_def
  NGX_HTTP_PROPFIND_def NGX_HTTP_PROPPATCH_def NGX_HTTP_LOCK_def NGX_HTTP_UNLOCK_def
  NGX_HTTP_PATCH_def NGX_HTTP_TRACE_def NGX_HTTP_CONNECT_def

definition NGX_HTTP_PARSE_INVALID_METHOD :: int where
  [code_const]: "NGX_HTTP_PARSE_INVALID_METHOD = 10"
definition NGX_HTTP_PARSE_INVALID_REQUEST :: int where
  [code_const]: "NGX_HTTP_PARSE_INVALID_REQUEST = 11"
definition NGX_HTTP_PARSE_INVALID_VERSION :: int where
  [code_const]: "NGX_HTTP_PARSE_INVALID_VERSION = 12"
definition NGX_HTTP_PARSE_INVALID_09_METHOD :: int where
  [code_const]: "NGX_HTTP_PARSE_INVALID_09_METHOD = 13"

text \<open>The request before its first byte (\<open>ngx_http_alloc_request\<close> clears it; \<open>method\<close> and
  \<open>http_version\<close> are set there).\<close>

definition request_init :: request_line where
  "request_init =
     \<lparr>rl_state = sw_start, meth = NGX_HTTP_UNKNOWN, request_start = None, method_end = None,
      schema_start = None, schema_end = None, host_start = None, host_end = None, uri_start = None,
      uri_end = None, uri_ext = None, args_start = None, http_protocol = None, request_end = None,
      http_major = 0, http_minor = 0, http_version = 1000, complex_uri = False, quoted_uri = False,
      plus_in_uri = False, empty_path_in_uri = False\<rparr>"

text \<open>The bitmap \<open>usual\<close> and the test \<open>usual[ch >> 5] & (1U << (ch & 0x1f))\<close>.\<close>

definition usual :: "int list" where
  "usual = [0x00000000, 0x7fff37d6, 0xffffffff, 0x7fffffff,
            0xffffffff, 0xffffffff, 0xffffffff, 0xffffffff]"

definition is_usual :: "char \<Rightarrow> bool" where
  "is_usual ch = bit (usual ! drop_bit 5 (ord ch)) (and (ord ch) 0x1f)"

section \<open>The states\<close>

definition bad_request :: "request_line \<Rightarrow> request_line outcome" where
  "bad_request r = Return NGX_HTTP_PARSE_INVALID_REQUEST r"

definition not_method_char :: "char \<Rightarrow> bool" where
  "not_method_char ch \<longleftrightarrow> (ch < CHR ''A'' \<or> ch > CHR ''Z'') \<and> ch \<noteq> CHR ''_'' \<and> ch \<noteq> CHR ''-''"

definition rl_start :: "nat \<Rightarrow> char \<Rightarrow> request_line \<Rightarrow> request_line outcome" where
  "rl_start p ch r =
     (let r = r\<lparr>request_start := Some p\<rparr>
      in if ch = CR \<or> ch = LF then Next r
         else if not_method_char ch then Return NGX_HTTP_PARSE_INVALID_METHOD r
         else Next (r\<lparr>rl_state := sw_method\<rparr>))"

text \<open>\<open>switch (p - m)\<close>: the known methods, by length; \<open>m\<close> is the method's bytes.\<close>

definition method_switch :: "bytes \<Rightarrow> request_line \<Rightarrow> request_line" where
  "method_switch m r =
     (if length m = 3 then
        (if m = ''GET'' then r\<lparr>meth := NGX_HTTP_GET\<rparr>
         else if m = ''PUT'' then r\<lparr>meth := NGX_HTTP_PUT\<rparr>
         else r)
      else if length m = 4 then
        (if m ! 1 = CHR ''O'' then
           (if m = ''POST'' then r\<lparr>meth := NGX_HTTP_POST\<rparr>
            else if m = ''COPY'' then r\<lparr>meth := NGX_HTTP_COPY\<rparr>
            else if m = ''MOVE'' then r\<lparr>meth := NGX_HTTP_MOVE\<rparr>
            else if m = ''LOCK'' then r\<lparr>meth := NGX_HTTP_LOCK\<rparr>
            else r)
         else if m = ''HEAD'' then r\<lparr>meth := NGX_HTTP_HEAD\<rparr>
         else r)
      else if length m = 5 then
        (if m = ''MKCOL'' then r\<lparr>meth := NGX_HTTP_MKCOL\<rparr>
         else if m = ''PATCH'' then r\<lparr>meth := NGX_HTTP_PATCH\<rparr>
         else if m = ''TRACE'' then r\<lparr>meth := NGX_HTTP_TRACE\<rparr>
         else r)
      else if length m = 6 then
        (if m = ''DELETE'' then r\<lparr>meth := NGX_HTTP_DELETE\<rparr>
         else if m = ''UNLOCK'' then r\<lparr>meth := NGX_HTTP_UNLOCK\<rparr>
         else r)
      else if length m = 7 then
        (if m = ''OPTIONS'' then r\<lparr>meth := NGX_HTTP_OPTIONS\<rparr>
         else if m = ''CONNECT''
         then r\<lparr>meth := NGX_HTTP_CONNECT, rl_state := sw_spaces_before_host\<rparr>
         else r)
      else if length m = 8 then
        (if m = ''PROPFIND'' then r\<lparr>meth := NGX_HTTP_PROPFIND\<rparr> else r)
      else if length m = 9 then
        (if m = ''PROPPATCH'' then r\<lparr>meth := NGX_HTTP_PROPPATCH\<rparr> else r)
      else r)"

definition rl_method :: "bytes \<Rightarrow> nat \<Rightarrow> char \<Rightarrow> request_line \<Rightarrow> request_line outcome" where
  "rl_method buf p ch r =
     (if ch = CHR '' '' then
        Next (method_switch (slice buf (the (request_start r)) p)
          (r\<lparr>method_end := Some (p - 1), rl_state := sw_spaces_before_uri\<rparr>))
      else if not_method_char ch then Return NGX_HTTP_PARSE_INVALID_METHOD r
      else Next r)"

definition rl_spaces_before_uri :: "nat \<Rightarrow> char \<Rightarrow> request_line \<Rightarrow> request_line outcome" where
  "rl_spaces_before_uri p ch r =
     (if ch = CHR ''/'' then Next (r\<lparr>uri_start := Some p, rl_state := sw_after_slash_in_uri\<rparr>)
      else if is_letter ch then Next (r\<lparr>schema_start := Some p, rl_state := sw_schema\<rparr>)
      else if ch = CHR '' '' then Next r
      else bad_request r)"

definition rl_schema :: "nat \<Rightarrow> char \<Rightarrow> request_line \<Rightarrow> request_line outcome" where
  "rl_schema p ch r =
     (if is_letter ch then Next r
      else if is_digit ch \<or> ch = CHR ''+'' \<or> ch = CHR ''-'' \<or> ch = CHR ''.'' then Next r
      else if ch = CHR '':'' then Next (r\<lparr>schema_end := Some p, rl_state := sw_schema_slash\<rparr>)
      else bad_request r)"

definition rl_schema_slash :: "char \<Rightarrow> request_line \<Rightarrow> request_line outcome" where
  "rl_schema_slash ch r =
     (if ch = CHR ''/'' then Next (r\<lparr>rl_state := sw_schema_slash_slash\<rparr>) else bad_request r)"

definition rl_schema_slash_slash :: "char \<Rightarrow> request_line \<Rightarrow> request_line outcome" where
  "rl_schema_slash_slash ch r =
     (if ch = CHR ''/'' then Next (r\<lparr>rl_state := sw_host_start\<rparr>) else bad_request r)"

text \<open>What follows the host, in \<open>sw_host_end\<close> and in \<open>sw_port\<close>.\<close>

definition rl_after_host :: "nat \<Rightarrow> char \<Rightarrow> request_line \<Rightarrow> request_line outcome" where
  "rl_after_host p ch r =
     (if ch = CHR ''/'' then Next (r\<lparr>uri_start := Some p, rl_state := sw_after_slash_in_uri\<rparr>)
      else if ch = CHR ''?''
      then Next (r\<lparr>uri_start := Some p, args_start := Some (p + 1), empty_path_in_uri := True,
                   rl_state := sw_uri\<rparr>)
      else if ch = CHR '' ''
      then Next (r\<lparr>uri_start := ptr_add (schema_end r) 1, uri_end := ptr_add (schema_end r) 2,
                   rl_state := sw_http_09\<rparr>)
      else bad_request r)"

definition rl_host_end :: "nat \<Rightarrow> char \<Rightarrow> request_line \<Rightarrow> request_line outcome" where
  "rl_host_end p ch r =
     (if ch = CHR '':'' then Next (r\<lparr>rl_state := sw_port\<rparr>)
      else
        let r = r\<lparr>host_end := Some p\<rparr>
        in if meth r = NGX_HTTP_CONNECT then bad_request r else rl_after_host p ch r)"

text \<open>The \<open>fall through\<close> of the cases \<open>sw_host\<close> and \<open>sw_host_start\<close>; \<open>state\<close> stays what it
  was when \<open>sw_host\<close> falls through.\<close>

definition rl_host :: "nat \<Rightarrow> char \<Rightarrow> request_line \<Rightarrow> request_line outcome" where
  "rl_host p ch r =
     (if is_letter ch then Next r
      else if is_digit ch \<or> ch = CHR ''.'' \<or> ch = CHR ''-'' then Next r
      else rl_host_end p ch r)"

definition rl_host_start :: "nat \<Rightarrow> char \<Rightarrow> request_line \<Rightarrow> request_line outcome" where
  "rl_host_start p ch r =
     (let r = r\<lparr>host_start := Some p\<rparr>
      in if ch = CHR ''['' then Next (r\<lparr>rl_state := sw_host_ip_literal\<rparr>)
         else rl_host p ch (r\<lparr>rl_state := sw_host\<rparr>))"

definition rl_spaces_before_host :: "nat \<Rightarrow> char \<Rightarrow> request_line \<Rightarrow> request_line outcome" where
  "rl_spaces_before_host p ch r = (if ch = CHR '' '' then Next r else rl_host_start p ch r)"

definition rl_host_ip_literal :: "char \<Rightarrow> request_line \<Rightarrow> request_line outcome" where
  "rl_host_ip_literal ch r =
     (if is_digit ch then Next r
      else if is_letter ch then Next r
      else if ch = CHR '':'' then Next r
      else if ch = CHR '']'' then Next (r\<lparr>rl_state := sw_host_end\<rparr>)
      else if ch = CHR ''-'' \<or> ch = CHR ''.'' \<or> ch = CHR ''_'' \<or> ch = CHR ''~'' then Next r
      else if ch = CHR ''!'' \<or> ch = CHR ''$'' \<or> ch = CHR ''&'' \<or> ch = CHR 0x27 \<or> ch = CHR ''(''
        \<or> ch = CHR '')'' \<or> ch = CHR ''*'' \<or> ch = CHR ''+'' \<or> ch = CHR '','' \<or> ch = CHR '';''
        \<or> ch = CHR ''='' then Next r
      else bad_request r)"

definition rl_port :: "nat \<Rightarrow> char \<Rightarrow> request_line \<Rightarrow> request_line outcome" where
  "rl_port p ch r =
     (if is_digit ch then Next r
      else
        let r = r\<lparr>host_end := Some p\<rparr>
        in if meth r = NGX_HTTP_CONNECT
           then (if ch = CHR '' '' then Next (r\<lparr>rl_state := sw_http_09\<rparr>) else bad_request r)
           else rl_after_host p ch r)"

text \<open>The bytes that end the URI, in the three states that read it.\<close>

definition is_ctl :: "char \<Rightarrow> bool" where
  "is_ctl ch \<longleftrightarrow> ord ch < 0x20 \<or> ord ch = 0x7f"

definition rl_after_slash_in_uri :: "nat \<Rightarrow> char \<Rightarrow> request_line \<Rightarrow> request_line outcome" where
  "rl_after_slash_in_uri p ch r =
     (if is_usual ch then Next (r\<lparr>rl_state := sw_check_uri\<rparr>)
      else if ch = CHR '' '' then Next (r\<lparr>uri_end := Some p, rl_state := sw_http_09\<rparr>)
      else if ch = CR then Next (r\<lparr>uri_end := Some p, http_minor := 9, rl_state := sw_almost_done\<rparr>)
      else if ch = LF then Done (r\<lparr>uri_end := Some p, http_minor := 9\<rparr>)
      else if ch = CHR ''.'' then Next (r\<lparr>complex_uri := True, rl_state := sw_uri\<rparr>)
      else if ch = CHR ''%'' then Next (r\<lparr>quoted_uri := True, rl_state := sw_uri\<rparr>)
      else if ch = CHR ''/'' then Next (r\<lparr>complex_uri := True, rl_state := sw_uri\<rparr>)
      else if ch = CHR ''?'' then Next (r\<lparr>args_start := Some (p + 1), rl_state := sw_uri\<rparr>)
      else if ch = CHR ''#'' then Next (r\<lparr>complex_uri := True, rl_state := sw_uri\<rparr>)
      else if ch = CHR ''+'' then Next (r\<lparr>plus_in_uri := True\<rparr>)
      else if is_ctl ch then bad_request r
      else Next (r\<lparr>rl_state := sw_check_uri\<rparr>))"

definition rl_check_uri :: "nat \<Rightarrow> char \<Rightarrow> request_line \<Rightarrow> request_line outcome" where
  "rl_check_uri p ch r =
     (if is_usual ch then Next r
      else if ch = CHR ''/'' then Next (r\<lparr>uri_ext := None, rl_state := sw_after_slash_in_uri\<rparr>)
      else if ch = CHR ''.'' then Next (r\<lparr>uri_ext := Some (p + 1)\<rparr>)
      else if ch = CHR '' '' then Next (r\<lparr>uri_end := Some p, rl_state := sw_http_09\<rparr>)
      else if ch = CR then Next (r\<lparr>uri_end := Some p, http_minor := 9, rl_state := sw_almost_done\<rparr>)
      else if ch = LF then Done (r\<lparr>uri_end := Some p, http_minor := 9\<rparr>)
      else if ch = CHR ''%'' then Next (r\<lparr>quoted_uri := True, rl_state := sw_uri\<rparr>)
      else if ch = CHR ''?'' then Next (r\<lparr>args_start := Some (p + 1), rl_state := sw_uri\<rparr>)
      else if ch = CHR ''#'' then Next (r\<lparr>complex_uri := True, rl_state := sw_uri\<rparr>)
      else if ch = CHR ''+'' then Next (r\<lparr>plus_in_uri := True\<rparr>)
      else if is_ctl ch then bad_request r
      else Next r)"

definition rl_uri :: "nat \<Rightarrow> char \<Rightarrow> request_line \<Rightarrow> request_line outcome" where
  "rl_uri p ch r =
     (if is_usual ch then Next r
      else if ch = CHR '' '' then Next (r\<lparr>uri_end := Some p, rl_state := sw_http_09\<rparr>)
      else if ch = CR then Next (r\<lparr>uri_end := Some p, http_minor := 9, rl_state := sw_almost_done\<rparr>)
      else if ch = LF then Done (r\<lparr>uri_end := Some p, http_minor := 9\<rparr>)
      else if ch = CHR ''#'' then Next (r\<lparr>complex_uri := True\<rparr>)
      else if is_ctl ch then bad_request r
      else Next r)"

definition rl_http_09 :: "nat \<Rightarrow> char \<Rightarrow> request_line \<Rightarrow> request_line outcome" where
  "rl_http_09 p ch r =
     (if ch = CHR '' '' then Next r
      else if ch = CR then Next (r\<lparr>http_minor := 9, rl_state := sw_almost_done\<rparr>)
      else if ch = LF then Done (r\<lparr>http_minor := 9\<rparr>)
      else if ch = CHR ''H'' then Next (r\<lparr>http_protocol := Some p, rl_state := sw_http_H\<rparr>)
      else bad_request r)"

definition rl_http_H :: "char \<Rightarrow> request_line \<Rightarrow> request_line outcome" where
  "rl_http_H ch r = (if ch = CHR ''T'' then Next (r\<lparr>rl_state := sw_http_HT\<rparr>) else bad_request r)"

definition rl_http_HT :: "char \<Rightarrow> request_line \<Rightarrow> request_line outcome" where
  "rl_http_HT ch r = (if ch = CHR ''T'' then Next (r\<lparr>rl_state := sw_http_HTT\<rparr>) else bad_request r)"

definition rl_http_HTT :: "char \<Rightarrow> request_line \<Rightarrow> request_line outcome" where
  "rl_http_HTT ch r = (if ch = CHR ''P'' then Next (r\<lparr>rl_state := sw_http_HTTP\<rparr>) else bad_request r)"

definition rl_http_HTTP :: "nat \<Rightarrow> char \<Rightarrow> request_line \<Rightarrow> request_line outcome" where
  "rl_http_HTTP p ch r =
     (if ch = CHR ''/'' then
        (let r = (if meth r = NGX_HTTP_CONNECT
                  then r\<lparr>uri_start := Some p, uri_end := Some (p + 1)\<rparr> else r)
         in Next (r\<lparr>rl_state := sw_first_major_digit\<rparr>))
      else bad_request r)"

text \<open>The versions are bit fields of 16 bits.\<close>

definition rl_first_major_digit :: "char \<Rightarrow> request_line \<Rightarrow> request_line outcome" where
  "rl_first_major_digit ch r =
     (if ch < CHR ''1'' \<or> ch > CHR ''9'' then bad_request r
      else
        let r = r\<lparr>http_major := ord ch - 48\<rparr>
        in if http_major r > 1 then Return NGX_HTTP_PARSE_INVALID_VERSION r
           else Next (r\<lparr>rl_state := sw_major_digit\<rparr>))"

definition rl_major_digit :: "char \<Rightarrow> request_line \<Rightarrow> request_line outcome" where
  "rl_major_digit ch r =
     (if ch = CHR ''.'' then Next (r\<lparr>rl_state := sw_first_minor_digit\<rparr>)
      else if ch < CHR ''0'' \<or> ch > CHR ''9'' then bad_request r
      else
        let r = r\<lparr>http_major := (http_major r * 10 + (ord ch - 48)) mod 65536\<rparr>
        in if http_major r > 1 then Return NGX_HTTP_PARSE_INVALID_VERSION r else Next r)"

definition rl_first_minor_digit :: "char \<Rightarrow> request_line \<Rightarrow> request_line outcome" where
  "rl_first_minor_digit ch r =
     (if ch < CHR ''0'' \<or> ch > CHR ''9'' then bad_request r
      else Next (r\<lparr>http_minor := ord ch - 48, rl_state := sw_minor_digit\<rparr>))"

definition rl_minor_digit :: "char \<Rightarrow> request_line \<Rightarrow> request_line outcome" where
  "rl_minor_digit ch r =
     (if ch = CR then Next (r\<lparr>rl_state := sw_almost_done\<rparr>)
      else if ch = LF then Done r
      else if ch = CHR '' '' then Next (r\<lparr>rl_state := sw_spaces_after_digit\<rparr>)
      else if ch < CHR ''0'' \<or> ch > CHR ''9'' then bad_request r
      else if http_minor r > 99 then bad_request r
      else Next (r\<lparr>http_minor := (http_minor r * 10 + (ord ch - 48)) mod 65536\<rparr>))"

definition rl_spaces_after_digit :: "char \<Rightarrow> request_line \<Rightarrow> request_line outcome" where
  "rl_spaces_after_digit ch r =
     (if ch = CHR '' '' then Next r
      else if ch = CR then Next (r\<lparr>rl_state := sw_almost_done\<rparr>)
      else if ch = LF then Done r
      else bad_request r)"

definition rl_almost_done :: "nat \<Rightarrow> char \<Rightarrow> request_line \<Rightarrow> request_line outcome" where
  "rl_almost_done p ch r =
     (let r = r\<lparr>request_end := Some (p - 1)\<rparr>
      in if ch = LF then Done r else bad_request r)"

section \<open>The parser\<close>

fun rl_step :: "bytes \<Rightarrow> nat \<Rightarrow> char \<Rightarrow> request_line \<Rightarrow> request_line outcome" where
  "rl_step buf p ch r =
     (case rl_state r of
        sw_start \<Rightarrow> rl_start p ch r
      | sw_method \<Rightarrow> rl_method buf p ch r
      | sw_spaces_before_uri \<Rightarrow> rl_spaces_before_uri p ch r
      | sw_schema \<Rightarrow> rl_schema p ch r
      | sw_schema_slash \<Rightarrow> rl_schema_slash ch r
      | sw_schema_slash_slash \<Rightarrow> rl_schema_slash_slash ch r
      | sw_spaces_before_host \<Rightarrow> rl_spaces_before_host p ch r
      | sw_host_start \<Rightarrow> rl_host_start p ch r
      | sw_host \<Rightarrow> rl_host p ch r
      | sw_host_end \<Rightarrow> rl_host_end p ch r
      | sw_host_ip_literal \<Rightarrow> rl_host_ip_literal ch r
      | sw_port \<Rightarrow> rl_port p ch r
      | sw_after_slash_in_uri \<Rightarrow> rl_after_slash_in_uri p ch r
      | sw_check_uri \<Rightarrow> rl_check_uri p ch r
      | sw_uri \<Rightarrow> rl_uri p ch r
      | sw_http_09 \<Rightarrow> rl_http_09 p ch r
      | sw_http_H \<Rightarrow> rl_http_H ch r
      | sw_http_HT \<Rightarrow> rl_http_HT ch r
      | sw_http_HTT \<Rightarrow> rl_http_HTT ch r
      | sw_http_HTTP \<Rightarrow> rl_http_HTTP p ch r
      | sw_first_major_digit \<Rightarrow> rl_first_major_digit ch r
      | sw_major_digit \<Rightarrow> rl_major_digit ch r
      | sw_first_minor_digit \<Rightarrow> rl_first_minor_digit ch r
      | sw_minor_digit \<Rightarrow> rl_minor_digit ch r
      | sw_spaces_after_digit \<Rightarrow> rl_spaces_after_digit ch r
      | sw_almost_done \<Rightarrow> rl_almost_done p ch r)"

definition rl_done :: "nat \<Rightarrow> request_line \<Rightarrow> int \<times> request_line" where
  "rl_done p r =
     (let r = (if request_end r = None then r\<lparr>request_end := Some p\<rparr> else r);
          r = r\<lparr>http_version := http_major r * 1000 + http_minor r, rl_state := sw_start\<rparr>
      in if http_version r = 9 \<and> meth r \<noteq> NGX_HTTP_GET
         then (NGX_HTTP_PARSE_INVALID_09_METHOD, r) else (NGX_OK, r))"

definition ngx_http_parse_request_line ::
  "bytes \<Rightarrow> nat \<Rightarrow> request_line \<Rightarrow> int \<times> request_line \<times> nat option" where
  "ngx_http_parse_request_line buf pos r = run_parser rl_step rl_done buf pos r"

lemmas rl_state_defs =
  rl_start_def rl_method_def rl_spaces_before_uri_def rl_schema_def rl_schema_slash_def
  rl_schema_slash_slash_def rl_spaces_before_host_def rl_host_start_def rl_host_def rl_host_end_def
  rl_after_host_def rl_host_ip_literal_def rl_port_def rl_after_slash_in_uri_def rl_check_uri_def
  rl_uri_def rl_http_09_def rl_http_H_def rl_http_HT_def rl_http_HTT_def rl_http_HTTP_def
  rl_first_major_digit_def rl_major_digit_def rl_first_minor_digit_def rl_minor_digit_def
  rl_spaces_after_digit_def rl_almost_done_def bad_request_def Let_def

section \<open>The parser is incremental\<close>

lemma rl_step_prefix: "p < length buf \<Longrightarrow> rl_step (buf @ later) p ch r = rl_step buf p ch r"
  by (simp add: rl_method_def slice_append cong: rl_sw.case_cong)

lemma rl_step_not_again: "rl_step buf p ch r = Return rc r' \<Longrightarrow> rc \<noteq> NGX_AGAIN"
  by (cases "rl_state r") (auto simp: rl_state_defs code_const split: if_splits)

lemma rl_done_not_again: "fst (rl_done p r) \<noteq> NGX_AGAIN"
  by (simp add: rl_done_def Let_def code_const)

interpretation request_line_feed: incremental_parser rl_step rl_done
  by unfold_locales (use rl_step_prefix rl_step_not_again rl_done_not_again in blast)+

text \<open>C33: the request line may arrive in any pieces.  A call on a longer buffer gives what the call on
  its beginning gave, and when that was \<open>NGX_AGAIN\<close>, what the next call gives from where it stopped.\<close>

theorem request_line_resumes:
  "case ngx_http_parse_request_line (pre @ s) (length pre) r of (rc, r', pos) \<Rightarrow>
     ngx_http_parse_request_line (pre @ s @ later) (length pre) r =
       (if rc = NGX_AGAIN then ngx_http_parse_request_line (pre @ s @ later) (the pos) r'
        else (rc, r', pos))"
  unfolding ngx_http_parse_request_line_def by (rule request_line_feed.resumes)

section \<open>What the accepted fields are\<close>

definition method_char :: "char \<Rightarrow> bool" where
  "method_char c \<longleftrightarrow> 65 \<le> ord c \<and> ord c \<le> 90 \<or> c = CHR ''_'' \<or> c = CHR ''-''"

definition uri_char :: "char \<Rightarrow> bool" where
  "uri_char c \<longleftrightarrow> 0x20 < ord c \<and> ord c \<noteq> 0x7f"

lemma not_method_char_iff: "not_method_char c \<longleftrightarrow> \<not> method_char c"
  by (auto simp: not_method_char_def method_char_def byte_simps)

text \<open>The bitmap \<open>usual\<close> has only bytes that are allowed in a URI.\<close>

lemma is_usual_uri_char: "is_usual c \<Longrightarrow> uri_char c"
proof (rule ccontr)
  assume usual: "is_usual c" and "\<not> uri_char c"
  then consider "ord c div 32 = 0" | "ord c = 32" | "ord c = 127"
    by (fastforce simp: uri_char_def)
  then show False
    using usual by cases (simp_all add: is_usual_def usual_def bit_arith drop_bit_eq_div)
qed

definition method_ok :: "bytes \<Rightarrow> nat \<Rightarrow> request_line \<Rightarrow> bool" where
  "method_ok buf p r \<longleftrightarrow>
     (\<exists>m e. request_start r = Some m \<and> method_end r = Some e \<and> m \<le> e \<and> e < p
        \<and> list_all method_char (slice buf m (Suc e)))"

definition uri_begin :: "bytes \<Rightarrow> nat \<Rightarrow> request_line \<Rightarrow> bool" where
  "uri_begin buf a r \<longleftrightarrow>
     (\<exists>e. method_end r = Some e \<and> e < a)
     \<and> (buf ! a = CHR ''/'' \<or> buf ! a = CHR ''?'' \<and> empty_path_in_uri r)"

definition uri_open :: "bytes \<Rightarrow> nat \<Rightarrow> request_line \<Rightarrow> bool" where
  "uri_open buf p r \<longleftrightarrow>
     (\<exists>a. uri_start r = Some a \<and> a < p \<and> uri_begin buf a r \<and> list_all uri_char (slice buf a p))"

definition uri_ok :: "bytes \<Rightarrow> nat \<Rightarrow> request_line \<Rightarrow> bool" where
  "uri_ok buf p r \<longleftrightarrow>
     (\<exists>a b. uri_start r = Some a \<and> uri_end r = Some b \<and> a < b \<and> b \<le> p \<and> uri_begin buf a r
        \<and> list_all uri_char (slice buf a b))"

definition schema_ok :: "bytes \<Rightarrow> nat \<Rightarrow> nat \<Rightarrow> request_line \<Rightarrow> bool" where
  "schema_ok buf k p r \<longleftrightarrow>
     (\<exists>e s. method_end r = Some e \<and> schema_end r = Some s \<and> e < s \<and> s + k \<le> p
        \<and> (2 \<le> k \<longrightarrow> buf ! Suc s = CHR ''/''))"

definition version_ok :: "request_line \<Rightarrow> bool" where
  "version_ok r \<longleftrightarrow> http_major r = 1 \<and> http_minor r \<le> 999"

definition no_version :: "request_line \<Rightarrow> bool" where
  "no_version r \<longleftrightarrow> http_major r = 0 \<and> http_minor r = 0"

abbreviation is_connect :: "request_line \<Rightarrow> bool" where
  "is_connect r \<equiv> meth r = NGX_HTTP_CONNECT"

definition target_known :: "bytes \<Rightarrow> nat \<Rightarrow> request_line \<Rightarrow> bool" where
  "target_known buf p r \<longleftrightarrow> is_connect r \<or> schema_ok buf 3 p r"

definition rl_inv :: "bytes \<Rightarrow> nat \<Rightarrow> request_line \<Rightarrow> bool" where
  "rl_inv buf p r \<longleftrightarrow>
     (case rl_state r of
        sw_start \<Rightarrow> no_version r \<and> \<not> is_connect r
      | sw_method \<Rightarrow> no_version r \<and> \<not> is_connect r
          \<and> (\<exists>m. request_start r = Some m \<and> m < p \<and> list_all method_char (slice buf m p))
      | sw_spaces_before_uri \<Rightarrow> no_version r \<and> \<not> is_connect r \<and> method_ok buf p r
      | sw_schema \<Rightarrow> no_version r \<and> \<not> is_connect r \<and> method_ok buf p r
      | sw_schema_slash \<Rightarrow> no_version r \<and> \<not> is_connect r \<and> method_ok buf p r
          \<and> (\<exists>e s. method_end r = Some e \<and> schema_end r = Some s \<and> e < s \<and> Suc s = p)
      | sw_schema_slash_slash \<Rightarrow> no_version r \<and> \<not> is_connect r \<and> method_ok buf p r
          \<and> (\<exists>e s. method_end r = Some e \<and> schema_end r = Some s \<and> e < s \<and> Suc (Suc s) = p
               \<and> buf ! Suc s = CHR ''/'')
      | sw_spaces_before_host \<Rightarrow> no_version r \<and> is_connect r \<and> method_ok buf p r
      | sw_host_start \<Rightarrow> no_version r \<and> method_ok buf p r \<and> target_known buf p r
      | sw_host \<Rightarrow> no_version r \<and> method_ok buf p r \<and> target_known buf p r
      | sw_host_end \<Rightarrow> no_version r \<and> method_ok buf p r \<and> target_known buf p r
      | sw_host_ip_literal \<Rightarrow> no_version r \<and> method_ok buf p r \<and> target_known buf p r
      | sw_port \<Rightarrow> no_version r \<and> method_ok buf p r \<and> target_known buf p r
      | sw_after_slash_in_uri \<Rightarrow> no_version r \<and> method_ok buf p r \<and> uri_open buf p r
      | sw_check_uri \<Rightarrow> no_version r \<and> method_ok buf p r \<and> uri_open buf p r
      | sw_uri \<Rightarrow> no_version r \<and> method_ok buf p r \<and> uri_open buf p r
      | sw_almost_done \<Rightarrow> method_ok buf p r
          \<and> (version_ok r \<and> uri_ok buf p r
             \<or> http_major r = 0 \<and> http_minor r = 9 \<and> (is_connect r \<or> uri_ok buf p r))
      | st \<Rightarrow>
          (if st \<in> {sw_http_09, sw_http_H, sw_http_HT, sw_http_HTT, sw_http_HTTP}
           then no_version r \<and> method_ok buf p r \<and> (is_connect r \<or> uri_ok buf p r)
           else if st = sw_first_major_digit then no_version r \<and> method_ok buf p r \<and> uri_ok buf p r
           else version_ok r \<and> method_ok buf p r \<and> uri_ok buf p r))"

text \<open>The predicates do not depend on the fields they do not name.\<close>

lemma rl_frame [simp]:
  "method_ok buf p (r\<lparr>rl_state := st\<rparr>) = method_ok buf p r"
  "method_ok buf p (r\<lparr>meth := x\<rparr>) = method_ok buf p r"
  "method_ok buf p (r\<lparr>schema_start := q\<rparr>) = method_ok buf p r"
  "method_ok buf p (r\<lparr>schema_end := q\<rparr>) = method_ok buf p r"
  "method_ok buf p (r\<lparr>host_start := q\<rparr>) = method_ok buf p r"
  "method_ok buf p (r\<lparr>host_end := q\<rparr>) = method_ok buf p r"
  "method_ok buf p (r\<lparr>uri_start := q\<rparr>) = method_ok buf p r"
  "method_ok buf p (r\<lparr>uri_end := q\<rparr>) = method_ok buf p r"
  "method_ok buf p (r\<lparr>uri_ext := q\<rparr>) = method_ok buf p r"
  "method_ok buf p (r\<lparr>args_start := q\<rparr>) = method_ok buf p r"
  "method_ok buf p (r\<lparr>http_protocol := q\<rparr>) = method_ok buf p r"
  "method_ok buf p (r\<lparr>request_end := q\<rparr>) = method_ok buf p r"
  "method_ok buf p (r\<lparr>http_major := n\<rparr>) = method_ok buf p r"
  "method_ok buf p (r\<lparr>http_minor := n\<rparr>) = method_ok buf p r"
  "method_ok buf p (r\<lparr>complex_uri := b\<rparr>) = method_ok buf p r"
  "method_ok buf p (r\<lparr>quoted_uri := b\<rparr>) = method_ok buf p r"
  "method_ok buf p (r\<lparr>plus_in_uri := b\<rparr>) = method_ok buf p r"
  "method_ok buf p (r\<lparr>empty_path_in_uri := b\<rparr>) = method_ok buf p r"
  "uri_open buf p (r\<lparr>rl_state := st\<rparr>) = uri_open buf p r"
  "uri_open buf p (r\<lparr>uri_end := q\<rparr>) = uri_open buf p r"
  "uri_open buf p (r\<lparr>uri_ext := q\<rparr>) = uri_open buf p r"
  "uri_open buf p (r\<lparr>args_start := q\<rparr>) = uri_open buf p r"
  "uri_open buf p (r\<lparr>complex_uri := b\<rparr>) = uri_open buf p r"
  "uri_open buf p (r\<lparr>quoted_uri := b\<rparr>) = uri_open buf p r"
  "uri_open buf p (r\<lparr>plus_in_uri := b\<rparr>) = uri_open buf p r"
  "uri_ok buf p (r\<lparr>rl_state := st\<rparr>) = uri_ok buf p r"
  "uri_ok buf p (r\<lparr>http_protocol := q\<rparr>) = uri_ok buf p r"
  "uri_ok buf p (r\<lparr>request_end := q\<rparr>) = uri_ok buf p r"
  "uri_ok buf p (r\<lparr>http_major := n\<rparr>) = uri_ok buf p r"
  "uri_ok buf p (r\<lparr>http_minor := n\<rparr>) = uri_ok buf p r"
  "target_known buf p (r\<lparr>rl_state := st\<rparr>) = target_known buf p r"
  "target_known buf p (r\<lparr>host_start := q\<rparr>) = target_known buf p r"
  "target_known buf p (r\<lparr>host_end := q\<rparr>) = target_known buf p r"
  by (simp_all add: method_ok_def uri_open_def uri_ok_def target_known_def schema_ok_def uri_begin_def)

lemma rl_mono:
  "method_ok buf p r \<Longrightarrow> method_ok buf (Suc p) r"
  "uri_ok buf p r \<Longrightarrow> uri_ok buf (Suc p) r"
  "target_known buf p r \<Longrightarrow> target_known buf (Suc p) r"
  by (fastforce simp: method_ok_def uri_ok_def target_known_def schema_ok_def)+

lemma uri_open_Suc:
  assumes "p < length buf" and "uri_open buf p r" and "uri_char (buf ! p)"
  shows "uri_open buf (Suc p) r"
  using assms by (auto simp: uri_open_def slice_Suc less_imp_le)

lemma uri_open_begin:
  assumes "p < length buf" and "method_ok buf p r" and "buf ! p = CHR ''/''"
  shows "uri_open buf (Suc p) (r\<lparr>uri_start := Some p\<rparr>)"
  using assms by (auto simp: uri_open_def uri_begin_def slice_Suc method_ok_def uri_char_def)

lemma uri_open_args:
  assumes "p < length buf" and "method_ok buf p r" and "buf ! p = CHR ''?''"
  shows "uri_open buf (Suc p) (r\<lparr>uri_start := Some p, args_start := q, empty_path_in_uri := True\<rparr>)"
  using assms by (auto simp: uri_open_def uri_begin_def slice_Suc method_ok_def uri_char_def)

lemma uri_ok_from_schema:
  assumes "schema_ok buf 3 p r" and "p < length buf"
  shows "uri_ok buf (Suc p)
    (r\<lparr>uri_start := ptr_add (schema_end r) 1, uri_end := ptr_add (schema_end r) 2\<rparr>)"
proof -
  from assms(1) obtain e s where s: "method_end r = Some e" "schema_end r = Some s" "e < s"
    "s + 3 \<le> p" "buf ! Suc s = CHR ''/''"
    by (auto simp: schema_ok_def)
  have "slice buf (Suc s) (Suc (Suc s)) = [buf ! Suc s]"
    using s(4) assms(2) by (simp add: slice_Suc)
  with s show ?thesis
    by (auto simp: uri_ok_def uri_begin_def uri_char_def)
qed

lemma uri_ok_end:
  assumes "uri_open buf p r"
  shows "uri_ok buf (Suc p) (r\<lparr>uri_end := Some p\<rparr>)"
  using assms by (auto simp: uri_open_def uri_ok_def uri_begin_def)

lemma uri_ok_connect:
  assumes "p < length buf" and "method_ok buf p r" and "buf ! p = CHR ''/''"
  shows "uri_ok buf (Suc p) (r\<lparr>uri_start := Some p, uri_end := Some (Suc p)\<rparr>)"
  using assms by (auto simp: uri_ok_def uri_begin_def slice_Suc method_ok_def uri_char_def)

lemma method_switch_cases:
  obtains x where "method_switch m r = r\<lparr>meth := x\<rparr>" and "x \<noteq> NGX_HTTP_CONNECT \<or> x = meth r"
  | "method_switch m r = r\<lparr>meth := NGX_HTTP_CONNECT, rl_state := sw_spaces_before_host\<rparr>"
proof -
  define P where "P r' \<longleftrightarrow>
      (\<exists>x. r' = r\<lparr>meth := x\<rparr> \<and> (x \<noteq> NGX_HTTP_CONNECT \<or> x = meth r))
      \<or> r' = r\<lparr>meth := NGX_HTTP_CONNECT, rl_state := sw_spaces_before_host\<rparr>" for r'
  have P: "P r" "x \<noteq> 65536 \<Longrightarrow> P (r\<lparr>meth := x\<rparr>)"
    "P (r\<lparr>meth := 65536, rl_state := sw_spaces_before_host\<rparr>)" for x
    unfolding P_def NGX_HTTP_CONNECT_def by (force intro: exI [of _ "meth r"])+
  have "P (method_switch m r)"
    unfolding method_switch_def by (simp add: P http_methods)
  with that show ?thesis unfolding P_def by blast
qed

lemma uri_char_punct [simp]:
  "uri_char (CHR ''.'')" "uri_char (CHR ''%'')" "uri_char (CHR ''/'')" "uri_char (CHR ''?'')"
  "uri_char (CHR ''#'')" "uri_char (CHR ''+'')"
  by (simp_all add: uri_char_def)

lemma not_ctl_uri_char: "\<not> is_ctl c \<Longrightarrow> c \<noteq> CHR '' '' \<Longrightarrow> uri_char c"
  using char_eq_ord [of c "CHR '' ''"] by (auto simp: is_ctl_def uri_char_def)

lemma method_ok_end:
  assumes "p < length buf" and "m < p" and "list_all method_char (slice buf m p)"
    and "request_start r = Some m"
  shows "method_ok buf (Suc p) (r\<lparr>method_end := Some (p - 1)\<rparr>)"
  using assms by (auto simp: method_ok_def)

lemma after_host_inv:
  assumes p: "p < length buf" and r: "no_version r" "method_ok buf p r" "target_known buf p r"
    "\<not> is_connect r" and step: "rl_after_host p (buf ! p) r = Next r'"
  shows "rl_inv buf (Suc p) r'"
proof -
  have s: "schema_ok buf 3 p r" using r by (simp add: target_known_def)
  show ?thesis
    using step r uri_open_begin [OF p r(2)] uri_open_args [OF p r(2)] uri_ok_from_schema [OF s p]
    by (auto simp: rl_after_host_def rl_inv_def rl_mono no_version_def bad_request_def split: if_splits)
qed

lemma host_frame:
  "no_version (r\<lparr>host_end := q\<rparr>) = no_version r"
  "no_version (r\<lparr>host_start := q\<rparr>) = no_version r"
  "no_version (r\<lparr>rl_state := st\<rparr>) = no_version r"
  by (simp_all add: no_version_def)

lemma host_end_inv:
  assumes p: "p < length buf" and r: "no_version r" "method_ok buf p r" "target_known buf p r"
    and step: "rl_host_end p (buf ! p) r = Next r'"
  shows "rl_inv buf (Suc p) r'"
proof (cases "buf ! p = CHR '':''")
  case True
  then show ?thesis
    using step r by (auto simp: rl_host_end_def rl_inv_def rl_mono host_frame)
next
  case False
  then have "\<not> is_connect r" "rl_after_host p (buf ! p) (r\<lparr>host_end := Some p\<rparr>) = Next r'"
    using step by (auto simp: rl_host_end_def Let_def bad_request_def split: if_splits)
  then show ?thesis
    using after_host_inv [OF p, of "r\<lparr>host_end := Some p\<rparr>"] r by (simp add: host_frame)
qed

lemma host_inv:
  assumes p: "p < length buf" and r: "no_version r" "method_ok buf p r" "target_known buf p r"
    and st: "rl_state r = sw_host" and step: "rl_host p (buf ! p) r = Next r'"
  shows "rl_inv buf (Suc p) r'"
proof -
  from step have "r' = r \<or> rl_host_end p (buf ! p) r = Next r'"
    by (auto simp: rl_host_def split: if_splits)
  then show ?thesis
  proof
    assume "r' = r"
    then show ?thesis using r st by (simp add: rl_inv_def rl_mono)
  next
    assume "rl_host_end p (buf ! p) r = Next r'"
    then show ?thesis by (rule host_end_inv [OF p r])
  qed
qed

lemma host_start_inv:
  assumes p: "p < length buf" and r: "no_version r" "method_ok buf p r" "target_known buf p r"
    and step: "rl_host_start p (buf ! p) r = Next r'"
  shows "rl_inv buf (Suc p) r'"
proof (cases "buf ! p = CHR ''[''")
  case True
  then show ?thesis
    using step r by (auto simp: rl_host_start_def rl_inv_def rl_mono host_frame Let_def)
next
  case False
  then have "rl_host p (buf ! p) (r\<lparr>host_start := Some p, rl_state := sw_host\<rparr>) = Next r'"
    using step by (simp add: rl_host_start_def Let_def)
  then show ?thesis
    using host_inv [OF p, of "r\<lparr>host_start := Some p, rl_state := sw_host\<rparr>"] r
    by (simp add: host_frame)
qed

lemma port_inv:
  assumes p: "p < length buf" and r: "no_version r" "method_ok buf p r" "target_known buf p r"
    and st: "rl_state r = sw_port" and step: "rl_port p (buf ! p) r = Next r'"
  shows "rl_inv buf (Suc p) r'"
proof (cases "is_digit (buf ! p) \<or> is_connect r")
  case True
  then show ?thesis
    using step r st
    by (auto simp: rl_port_def rl_inv_def rl_mono host_frame bad_request_def Let_def split: if_splits)
next
  case False
  then have "rl_after_host p (buf ! p) (r\<lparr>host_end := Some p\<rparr>) = Next r'"
    using step by (simp add: rl_port_def Let_def)
  then show ?thesis
    using after_host_inv [OF p, of "r\<lparr>host_end := Some p\<rparr>"] r False by (simp add: host_frame)
qed

text \<open>Every iteration keeps the invariant.\<close>

lemma rl_inv_step:
  assumes p: "p < length buf" and inv: "rl_inv buf p r"
    and step: "rl_step buf p (buf ! p) r = Next r'"
  shows "rl_inv buf (Suc p) r'"
proof (cases "rl_state r")
  case sw_start
  then show ?thesis
    using assms by (auto simp: rl_inv_def rl_start_def not_method_char_iff slice_Suc no_version_def
        Let_def split: if_splits)
next
  case sw_method
  then show ?thesis
  proof (cases "buf ! p = CHR '' ''")
    case True
    let ?r = "r\<lparr>method_end := Some (p - 1), rl_state := sw_spaces_before_uri\<rparr>"
    from sw_method inv obtain m where m: "request_start r = Some m" "m < p"
      "list_all method_char (slice buf m p)" and r: "no_version r" "\<not> is_connect r"
      by (auto simp: rl_inv_def)
    have ok: "method_ok buf (Suc p) (r\<lparr>method_end := Some (p - 1)\<rparr>)"
      by (rule method_ok_end [OF p m(2,3,1)])
    have r': "r' = method_switch (slice buf (the (request_start r)) p) ?r"
      using step sw_method True by (simp add: rl_method_def)
    show ?thesis
      by (rule method_switch_cases [of "slice buf (the (request_start r)) p" ?r])
        (use ok r r' in \<open>auto simp: rl_inv_def no_version_def\<close>)
  next
    case False
    then show ?thesis
      using sw_method assms
      by (auto simp: rl_inv_def rl_method_def not_method_char_iff slice_Suc no_version_def split: if_splits)
  qed
next
  case sw_spaces_before_uri
  then show ?thesis
    using assms by (auto simp: rl_inv_def rl_spaces_before_uri_def no_version_def bad_request_def
        rl_mono uri_open_begin split: if_splits)
next
  case sw_schema
  then show ?thesis
    using assms by (auto simp: rl_inv_def rl_schema_def no_version_def bad_request_def method_ok_def
         split: if_splits)
next
  case sw_schema_slash
  then show ?thesis
    using assms by (auto simp: rl_inv_def rl_schema_slash_def no_version_def bad_request_def
        rl_mono split: if_splits)
next
  case sw_schema_slash_slash
  then show ?thesis
    using assms by (auto simp: rl_inv_def rl_schema_slash_slash_def no_version_def bad_request_def
        rl_mono target_known_def schema_ok_def split: if_splits)
next
  case sw_host_ip_literal
  then show ?thesis
    using assms by (auto simp: rl_inv_def rl_host_ip_literal_def no_version_def bad_request_def
        rl_mono split: if_splits)
next
  case sw_spaces_before_host
  then have r: "no_version r" "method_ok buf p r" "target_known buf p r" "is_connect r"
    using inv by (simp_all add: rl_inv_def target_known_def)
  show ?thesis
    proof (cases "buf ! p = CHR '' ''")
    case True
    then show ?thesis
      using step sw_spaces_before_host r by (auto simp: rl_spaces_before_host_def rl_inv_def rl_mono)
  next
    case False
    then have "rl_host_start p (buf ! p) r = Next r'"
      using step sw_spaces_before_host by (simp add: rl_spaces_before_host_def)
    then show ?thesis by (rule host_start_inv [OF p r(1-3)])
  qed
next
  case sw_host_start
  then have r: "no_version r" "method_ok buf p r" "target_known buf p r"
    and s: "rl_host_start p (buf ! p) r = Next r'"
    using inv step by (simp_all add: rl_inv_def)
  show ?thesis
    by (rule host_start_inv [OF p r s])
next
  case sw_host
  then have r: "no_version r" "method_ok buf p r" "target_known buf p r"
    and s: "rl_host p (buf ! p) r = Next r'"
    using inv step by (simp_all add: rl_inv_def)
  show ?thesis
    by (rule host_inv [OF p r sw_host s])
next
  case sw_host_end
  then have r: "no_version r" "method_ok buf p r" "target_known buf p r"
    and s: "rl_host_end p (buf ! p) r = Next r'"
    using inv step by (simp_all add: rl_inv_def)
  show ?thesis
    by (rule host_end_inv [OF p r s])
next
  case sw_port
  then have r: "no_version r" "method_ok buf p r" "target_known buf p r"
    and s: "rl_port p (buf ! p) r = Next r'"
    using inv step by (simp_all add: rl_inv_def)
  show ?thesis
    by (rule port_inv [OF p r sw_port s])
next
  case sw_after_slash_in_uri
  then have i: "no_version r" "method_ok buf p r" "uri_open buf p r"
    using inv by (simp_all add: rl_inv_def)
  show ?thesis
    using sw_after_slash_in_uri step i
    by (auto simp: rl_inv_def rl_after_slash_in_uri_def no_version_def bad_request_def
        rl_mono uri_ok_end is_usual_uri_char not_ctl_uri_char
        intro!: uri_open_Suc [OF p] split: if_splits)
next
  case sw_check_uri
  then have i: "no_version r" "method_ok buf p r" "uri_open buf p r"
    using inv by (simp_all add: rl_inv_def)
  show ?thesis
    using sw_check_uri step i
    by (auto simp: rl_inv_def rl_check_uri_def no_version_def bad_request_def
        rl_mono uri_ok_end is_usual_uri_char not_ctl_uri_char
        intro!: uri_open_Suc [OF p] split: if_splits)
next
  case sw_uri
  then have i: "no_version r" "method_ok buf p r" "uri_open buf p r"
    using inv by (simp_all add: rl_inv_def)
  show ?thesis
    using sw_uri step i
    by (auto simp: rl_inv_def rl_uri_def no_version_def bad_request_def
        rl_mono uri_ok_end is_usual_uri_char not_ctl_uri_char
        intro!: uri_open_Suc [OF p] split: if_splits)
next
  case sw_http_09
  then show ?thesis
    using assms by (auto simp: rl_inv_def rl_http_09_def no_version_def bad_request_def
        rl_mono split: if_splits)
next
  case sw_http_H
  then show ?thesis
    using assms by (auto simp: rl_inv_def rl_http_H_def no_version_def bad_request_def
        rl_mono split: if_splits)
next
  case sw_http_HT
  then show ?thesis
    using assms by (auto simp: rl_inv_def rl_http_HT_def no_version_def bad_request_def
        rl_mono split: if_splits)
next
  case sw_http_HTT
  then show ?thesis
    using assms by (auto simp: rl_inv_def rl_http_HTT_def no_version_def bad_request_def
        rl_mono split: if_splits)
next
  case sw_http_HTTP
  then show ?thesis
    using assms uri_ok_connect [of p buf r] by (auto simp: rl_inv_def rl_http_HTTP_def no_version_def
        bad_request_def rl_mono Let_def split: if_splits)
next
  case sw_first_major_digit
  then show ?thesis
    using assms by (auto simp: rl_inv_def rl_first_major_digit_def no_version_def version_ok_def
        bad_request_def rl_mono Let_def byte_simps split: if_splits)
next
  case sw_major_digit
  then show ?thesis
    using assms by (auto simp: rl_inv_def rl_major_digit_def version_ok_def
        bad_request_def rl_mono Let_def byte_simps split: if_splits)
next
  case sw_first_minor_digit
  then show ?thesis
    using assms by (auto simp: rl_inv_def rl_first_minor_digit_def version_ok_def
        bad_request_def rl_mono Let_def byte_simps split: if_splits)
next
  case sw_minor_digit
  then show ?thesis
    using assms by (auto simp: rl_inv_def rl_minor_digit_def version_ok_def
        bad_request_def rl_mono byte_simps split: if_splits)
next
  case sw_spaces_after_digit
  then show ?thesis
    using assms by (auto simp: rl_inv_def rl_spaces_after_digit_def version_ok_def
        bad_request_def rl_mono split: if_splits)
next
  case sw_almost_done
  then show ?thesis
    using step by (simp add: rl_almost_done_def bad_request_def Let_def split: if_splits)
qed

interpretation request_line_inv: parser_with_invariant rl_step rl_done rl_inv
  by unfold_locales (rule rl_inv_step)

lemma rl_done_step:
  assumes inv: "rl_inv buf p r" and step: "rl_step buf p (buf ! p) r = Done r'"
  shows "method_ok buf p r'
    \<and> (version_ok r' \<and> uri_ok buf p r'
       \<or> http_major r' = 0 \<and> http_minor r' = 9 \<and> (is_connect r' \<or> uri_ok buf p r'))"
proof -
  have uri: "uri_ok buf p (s\<lparr>uri_end := Some p\<rparr>)" if "uri_open buf p s" for s
    using that by (auto simp: uri_open_def uri_ok_def uri_begin_def)
  have "rl_state r \<in> {sw_after_slash_in_uri, sw_check_uri, sw_uri, sw_http_09, sw_minor_digit,
      sw_spaces_after_digit, sw_almost_done}"
    using step by (cases "rl_state r") (simp_all add: rl_state_defs split: if_splits)
  then show ?thesis
    using inv step uri [of r]
    by (elim insertE) (auto simp: rl_inv_def rl_state_defs no_version_def version_ok_def split: if_splits)
qed

text \<open>What an accepted request line is: the method is a non-empty run of method characters, the URI
  follows it, lies before the end of the line, begins with \<open>/\<close> (or with the \<open>?\<close> of an absolute URI
  without a path) and has no space, control character or DEL, and the version is 0.9 for a \<open>GET\<close> or 1.x.\<close>

definition accepted_line :: "bytes \<Rightarrow> nat \<Rightarrow> request_line \<Rightarrow> bool" where
  "accepted_line buf q r \<longleftrightarrow>
     (\<exists>m e a b. request_start r = Some m \<and> method_end r = Some e \<and> uri_start r = Some a
        \<and> uri_end r = Some b \<and> m \<le> e \<and> e < a \<and> a < b \<and> b < q \<and> q \<le> length buf
        \<and> list_all method_char (slice buf m (Suc e)) \<and> list_all uri_char (slice buf a b)
        \<and> (buf ! a = CHR ''/'' \<or> buf ! a = CHR ''?'' \<and> empty_path_in_uri r))
     \<and> (http_version r = 9 \<and> meth r = NGX_HTTP_GET \<or> 1000 \<le> http_version r \<and> http_version r \<le> 1999)"

lemma request_line_accepted:
  assumes "ngx_http_parse_request_line buf 0 request_init = (NGX_OK, r, pos)"
  shows "accepted_line buf (the pos) r"
proof -
  have init: "rl_inv buf 0 request_init"
    by (simp add: rl_inv_def request_init_def no_version_def http_methods)
  show ?thesis
  proof (cases "parse_loop (rl_step buf) 0 (drop 0 buf) request_init")
    case (Exhausted p r1)
    then show ?thesis
      using assms by (simp add: ngx_http_parse_request_line_def run_parser_def code_const)
  next
    case (GotoDone q r1)
    obtain r0 where q: "q < length buf" "rl_inv buf q r0" "rl_step buf q (buf ! q) r0 = Done r1"
      using request_line_inv.done_inv [OF _ init GotoDone] by auto
    note ok = rl_done_step [OF q(2,3)]
    have d: "rl_done q r1 = (NGX_OK, r)" and pos: "pos = Some (Suc q)"
      using assms GotoDone
      by (auto simp: ngx_http_parse_request_line_def run_parser_def split: prod.splits)
    from d have r: "http_version r = http_major r1 * 1000 + http_minor r1" "meth r = meth r1"
      "request_start r = request_start r1" "method_end r = method_end r1"
      "uri_start r = uri_start r1" "uri_end r = uri_end r1"
      "empty_path_in_uri r = empty_path_in_uri r1"
      "http_version r = 9 \<Longrightarrow> meth r = NGX_HTTP_GET"
      by (auto simp: rl_done_def Let_def code_const split: if_splits)
    have "NGX_HTTP_GET \<noteq> NGX_HTTP_CONNECT" by (simp add: http_methods)
    with ok r have uri: "uri_ok buf q r1" and m: "method_ok buf q r1"
      and v: "http_version r = 9 \<and> meth r = NGX_HTTP_GET \<or> 1000 \<le> http_version r \<and> http_version r \<le> 1999"
      by (auto simp: version_ok_def)
    show ?thesis
      using uri m v q(1) pos r(3-7)
      by (auto simp: accepted_line_def uri_ok_def method_ok_def uri_begin_def)
  next
    case (Returned rc r1)
    have "rc \<noteq> NGX_OK" if "rl_step buf p ch s = Return rc s'" for p ch s s'
      using that by (cases "rl_state s") (auto simp: rl_state_defs code_const split: if_splits)
    moreover have "ends_in (rl_inv buf) (rl_step buf) 0 (drop 0 buf) (Returned rc r1)"
      using request_line_inv.loop_inv [OF _ init] Returned by simp
    ultimately have "rc \<noteq> NGX_OK" by (auto simp: ends_in_def)
    then show ?thesis
      using assms Returned by (simp add: ngx_http_parse_request_line_def run_parser_def)
  qed
qed

text \<open>C6: every request line that the parser accepts is well formed: the method and the URI lie where the
  record says, in this order and inside the consumed bytes, and the URI has no space or control byte.\<close>

theorem request_line_well_formed:
  "case ngx_http_parse_request_line buf 0 request_init of (rc, r, pos) \<Rightarrow>
     if rc = NGX_OK then accepted_line buf (the pos) r else True"
  using request_line_accepted by (auto split: prod.splits)

section \<open>Every well-formed request line is accepted\<close>

definition uri_states :: "rl_sw set" where
  "uri_states = {sw_after_slash_in_uri, sw_check_uri, sw_uri}"

text \<open>The fields that reading the URI leaves alone.\<close>

definition rl_core :: "request_line \<Rightarrow>
    nat option \<times> nat option \<times> int \<times> nat option \<times> nat option \<times> nat \<times> nat" where
  "rl_core r = (request_start r, method_end r, meth r, uri_start r, request_end r, http_major r, http_minor r)"

lemma uri_char_step:
  assumes "rl_state r \<in> uri_states" and "uri_char c"
  shows "\<exists>r'. rl_step buf p c r = Next r' \<and> rl_state r' \<in> uri_states \<and> rl_core r' = rl_core r"
proof -
  have "c \<noteq> CHR '' ''" "c \<noteq> CR" "c \<noteq> LF" "\<not> is_ctl c"
    using assms(2) by (auto simp: uri_char_def is_ctl_def)
  then show ?thesis
    using assms(1) unfolding uri_states_def
    by (elim insertE) (auto simp: rl_after_slash_in_uri_def rl_check_uri_def rl_uri_def rl_core_def)
qed

lemma uri_chars_loop:
  assumes "rl_state r \<in> uri_states" and "list_all uri_char cs"
  shows "\<exists>r'. parse_loop (rl_step buf) p cs r = Exhausted (p + length cs) r'
    \<and> rl_state r' \<in> uri_states \<and> rl_core r' = rl_core r"
  using assms
proof (induction cs arbitrary: p r)
  case (Cons c cs)
  then obtain r1 where r1: "rl_step buf p c r = Next r1" "rl_state r1 \<in> uri_states"
    "rl_core r1 = rl_core r"
    using uri_char_step [of r c buf p] by auto
  from Cons.IH [OF r1(2), of "Suc p"] Cons.prems(2) r1 show ?case by (auto simp del: rl_step.simps)
qed auto

lemma method_loop:
  assumes "rl_state r = sw_method" and "list_all method_char cs"
  shows "parse_loop (rl_step buf) p cs r = Exhausted (p + length cs) r"
  using assms
proof (induction cs arbitrary: p)
  case (Cons c cs)
  then have "rl_step buf p c r = Next r"
    by (auto simp: rl_method_def not_method_char_iff method_char_def)
  with Cons show ?case by (simp del: rl_step.simps)
qed simp

text \<open>The value of \<open>method\<close> for a method's name.\<close>

definition method_id :: "bytes \<Rightarrow> int" where
  "method_id m = meth (method_switch m request_init)"

lemma method_switch_id:
  assumes "m \<noteq> ''CONNECT''" and "meth r = NGX_HTTP_UNKNOWN"
  shows "method_switch m r = r\<lparr>meth := method_id m\<rparr> \<and> method_id m \<noteq> NGX_HTTP_CONNECT"
proof (cases "m \<in> {''GET'', ''PUT'', ''POST'', ''COPY'', ''MOVE'', ''LOCK'', ''HEAD'', ''MKCOL'', ''PATCH'',
    ''TRACE'', ''DELETE'', ''UNLOCK'', ''OPTIONS'', ''PROPFIND'', ''PROPPATCH''}")
  case True
  then show ?thesis
    by (elim insertE) (simp_all add: method_switch_def method_id_def request_init_def http_methods)
next
  case False
  then have same: "method_switch m s = s" for s
    using assms(1) by (simp add: method_switch_def)
  show ?thesis
    using assms(2) by (simp add: same method_id_def request_init_def http_methods)
qed

lemma not_usual: "\<not> is_usual (CHR '' '')"
  by code_simp

lemma version_loop:
  assumes r: "rl_state r \<in> uri_states" "meth r \<noteq> NGX_HTTP_CONNECT" and d: "is_digit d"
  shows "\<exists>r'. parse_loop (rl_step buf) p ('' HTTP/1.'' @ [d, CR, LF]) r = GotoDone (p + 10) r'
    \<and> request_start r' = request_start r \<and> method_end r' = method_end r \<and> meth r' = meth r
    \<and> uri_start r' = uri_start r \<and> uri_end r' = Some p \<and> request_end r' = Some (p + 9)
    \<and> http_major r' = 1 \<and> http_minor r' = ord d - 48"
proof -
  have space: "rl_step buf p (CHR '' '') r = Next (r\<lparr>uri_end := Some p, rl_state := sw_http_09\<rparr>)"
    using r(1) not_usual unfolding uri_states_def
    by (elim insertE) (auto simp: rl_after_slash_in_uri_def rl_check_uri_def rl_uri_def)
  have digit: "\<not> d < CHR ''0''" "\<not> CHR ''9'' < d"
    using d by (auto simp: byte_simps)
  show ?thesis
    using r(2) digit
    by (simp add: space del: rl_step.simps)
      (simp add: rl_state_defs less_char_def)
qed

text \<open>C35: a method other than \<open>CONNECT\<close>, an absolute path of URI characters and a version \<open>HTTP/1.d\<close>
  are accepted, with exactly these fields, wherever the line lies in what the client sent.\<close>

theorem request_line_roundtrip:
  assumes "m \<noteq> []" and "list_all method_char m" and "m \<noteq> ''CONNECT''"
    and "list_all uri_char u" and "is_digit d"
  shows "let line = m @ '' '' @ (CHR ''/'' # u) @ '' HTTP/1.'' @ [d, CR, LF]
    in case ngx_http_parse_request_line (line @ later) 0 request_init of (rc, r, pos) \<Rightarrow>
      rc = NGX_OK \<and> pos = Some (length line) \<and> meth r = method_id m
      \<and> http_version r = 1000 + (ord d - 48)
      \<and> slice line (the (request_start r)) (the (method_end r) + 1) = m
      \<and> slice line (the (uri_start r)) (the (uri_end r)) = CHR ''/'' # u
      \<and> slice line (the (request_start r)) (the (request_end r))
          = m @ '' '' @ (CHR ''/'' # u) @ '' HTTP/1.'' @ [d]"
proof -
  let ?v = "'' HTTP/1.'' @ [d, CR, LF]"
  let ?buf = "m @ '' '' @ (CHR ''/'' # u) @ ?v @ later"
  let ?loop = "parse_loop (rl_step ?buf)"
  obtain c cs where m: "m = c # cs" using assms(1) by (cases m) auto
  let ?r1 = "request_init\<lparr>request_start := Some 0, rl_state := sw_method\<rparr>"
  have c: "\<not> not_method_char c" "c \<noteq> CR" "c \<noteq> LF"
    using assms(2) m by (auto simp: not_method_char_iff method_char_def)
  have l1: "?loop 0 m request_init = Exhausted (length m) ?r1"
    using c method_loop [of ?r1 cs ?buf 1] assms(2) m
    by (simp add: rl_start_def request_init_def)
  let ?r2 = "?r1\<lparr>method_end := Some (length m - 1), rl_state := sw_spaces_before_uri, meth := method_id m\<rparr>"
  have id: "method_switch m s = s\<lparr>meth := method_id m\<rparr>" "method_id m \<noteq> NGX_HTTP_CONNECT"
    if "meth s = NGX_HTTP_UNKNOWN" for s
    using method_switch_id [OF assms(3) that] by auto
  have l2: "?loop (length m) '' '' ?r1 = Exhausted (Suc (length m)) ?r2"
    using id by (simp add: rl_method_def slice_def request_init_def)
  let ?r3 = "?r2\<lparr>uri_start := Some (Suc (length m)), rl_state := sw_after_slash_in_uri\<rparr>"
  have l3: "?loop (Suc (length m)) ''/'' ?r2 = Exhausted (Suc (Suc (length m))) ?r3"
    by (simp add: rl_spaces_before_uri_def)
  have "rl_state ?r3 \<in> uri_states" by (simp add: uri_states_def)
  from uri_chars_loop [OF this assms(4)] obtain r4 where l4:
    "?loop (Suc (Suc (length m))) u ?r3 = Exhausted (Suc (Suc (length m)) + length u) r4"
    "rl_state r4 \<in> uri_states" "rl_core r4 = rl_core ?r3"
    by metis
  have r4: "meth r4 = method_id m" "request_start r4 = Some 0" "method_end r4 = Some (length m - 1)"
    "uri_start r4 = Some (Suc (length m))"
    using l4(3) by (simp_all add: rl_core_def)
  have "meth r4 \<noteq> NGX_HTTP_CONNECT" using r4 id(2) [of request_init] by (simp add: request_init_def)
  from version_loop [OF l4(2) this assms(5)] obtain r5 where l5:
    "?loop (Suc (Suc (length m)) + length u) ?v r4 = GotoDone (Suc (Suc (length m)) + length u + 10) r5"
    and r5: "request_start r5 = Some 0" "method_end r5 = Some (length m - 1)" "meth r5 = method_id m"
    "uri_start r5 = Some (Suc (length m))" "uri_end r5 = Some (Suc (Suc (length m)) + length u)"
    "request_end r5 = Some (Suc (Suc (length m)) + length u + 9)"
    "http_major r5 = 1" "http_minor r5 = ord d - 48"
    using r4 by metis
  have "?loop 0 (m @ ('' '' @ (''/'' @ (u @ (?v @ later))))) request_init
      = GotoDone (Suc (Suc (length m)) + length u + 10) r5"
    by (simp only: parse_loop_append [where xs = m] parse_loop_append [where xs = "'' ''"]
        parse_loop_append [where xs = "''/''"] parse_loop_append [where xs = u]
        parse_loop_append [where xs = ?v] l1 l2 l3 l4(1) l5 loop_end.case)
  then have run: "ngx_http_parse_request_line ?buf 0 request_init
      = (NGX_OK, r5\<lparr>http_version := 1000 + (ord d - 48), rl_state := sw_start\<rparr>,
         Some (length m + length u + 13))"
    using r5(6-8) by (simp add: ngx_http_parse_request_line_def run_parser_def rl_done_def)
  have fields: "slice (m @ '' '' @ (CHR ''/'' # u) @ ?v) 0 (length m) = m"
    "slice (m @ '' '' @ (CHR ''/'' # u) @ ?v) (Suc (length m)) (Suc (Suc (length m)) + length u) = CHR ''/'' # u"
    by (simp_all add: slice_def)
  have full: "slice (m @ '' '' @ (CHR ''/'' # u) @ ?v) 0 (Suc (Suc (length m)) + length u + 9)
      = m @ '' '' @ (CHR ''/'' # u) @ '' HTTP/1.'' @ [d]"
  proof -
    let ?x = "m @ '' '' @ (CHR ''/'' # u) @ '' HTTP/1.'' @ [d]"
    have x: "m @ '' '' @ (CHR ''/'' # u) @ ?v = ?x @ [CR, LF]" by simp
    have len: "Suc (Suc (length m)) + length u + 9 = length ?x" by simp
    show ?thesis unfolding x len by (rule slice_prefix)
  qed
  have "Suc (length m - 1) = length m" using m by simp
  then show ?thesis
    using run fields full r5 unfolding Let_def by simp
qed

theorem request_line_roundtrip_witness:
  "let line = ''GET /index.html?a=%20b HTTP/1.1'' @ [CR, LF]
   in case ngx_http_parse_request_line (line @ ''Host: x'') 0 request_init of (rc, r, pos) \<Rightarrow>
     rc = NGX_OK \<and> pos = Some 33 \<and> meth r = NGX_HTTP_GET \<and> http_version r = 1001
     \<and> slice line (the (uri_start r)) (the (uri_end r)) = ''/index.html?a=%20b''"
proof -
  have m: "list_all method_char ''GET''" by (simp add: method_char_def)
  have u: "list_all uri_char ''index.html?a=%20b''" by (simp add: uri_char_def)
  have d: "is_digit (CHR ''1'')" by (simp add: is_digit_ord)
  have id: "method_id ''GET'' = NGX_HTTP_GET"
    by (simp add: method_id_def method_switch_def request_init_def)
  show ?thesis
    using request_line_roundtrip [OF _ m _ u d, of "''Host: x''"]
    unfolding Let_def id by (simp split: prod.splits)
qed

section \<open>Where the arguments begin\<close>

text \<open>\<open>args_start\<close> is the place after a question mark of the URI.\<close>

definition args_at :: "bytes \<Rightarrow> nat \<Rightarrow> request_line \<Rightarrow> bool" where
  "args_at buf p r \<longleftrightarrow>
     (case args_start r of
        None \<Rightarrow> True
      | Some q \<Rightarrow> \<not> is_connect r \<and> (\<exists>a. uri_start r = Some a \<and> a < q) \<and> q \<le> p \<and> buf ! (q - 1) = CHR ''?'')"

definition post_states :: "rl_sw set" where
  "post_states = {sw_http_09, sw_http_H, sw_http_HT, sw_http_HTT, sw_http_HTTP,
     sw_first_major_digit, sw_major_digit, sw_first_minor_digit, sw_minor_digit,
     sw_spaces_after_digit, sw_almost_done}"

definition args_inv :: "bytes \<Rightarrow> nat \<Rightarrow> request_line \<Rightarrow> bool" where
  "args_inv buf p r \<longleftrightarrow>
     (if rl_state r \<in> uri_states
      then args_at buf p r \<and> (\<exists>a. uri_start r = Some a \<and> a < p) \<and> \<not> is_connect r
      else if rl_state r \<in> post_states
      then args_start r = None \<or> (\<exists>b. uri_end r = Some b \<and> args_at buf b r)
      else args_start r = None \<and> (rl_state r \<in> {sw_start, sw_method, sw_spaces_before_uri} \<longrightarrow> \<not> is_connect r))"

lemma args_at_more: "args_at buf p r \<Longrightarrow> p \<le> q \<Longrightarrow> args_at buf q r"
  by (auto simp: args_at_def split: option.splits)

lemma args_at_frame:
  "args_start r' = args_start r \<Longrightarrow> uri_start r' = uri_start r \<Longrightarrow> meth r' = meth r
    \<Longrightarrow> args_at buf p r' = args_at buf p r"
  by (simp add: args_at_def split: option.split)

text \<open>Behind the URI only the version is read; \<open>CONNECT\<close> moves the URI, and has no arguments.\<close>

lemma post_step:
  assumes "rl_state r \<in> post_states" and "rl_step buf p ch r = Next r'"
  shows "rl_state r' \<in> post_states \<and> args_start r' = args_start r \<and> meth r' = meth r
    \<and> (uri_start r' = uri_start r \<and> uri_end r' = uri_end r \<or> is_connect r)"
  using assms unfolding post_states_def
  by (elim insertE) (auto simp: rl_state_defs split: if_splits)

lemma args_inv_post_step:
  assumes "args_inv buf p r" and "rl_state r \<in> post_states" and "rl_step buf p ch r = Next r'"
  shows "args_inv buf (Suc p) r'"
proof -
  have disjoint: "rl_state s \<notin> uri_states" if "rl_state s \<in> post_states" for s
    using that by (auto simp: post_states_def uri_states_def)
  note s = post_step [OF assms(2,3)]
  from assms(1,2) disjoint [of r] consider "args_start r = None"
    | b where "uri_end r = Some b" "args_at buf b r" "args_start r \<noteq> None"
    by (auto simp: args_inv_def)
  then show ?thesis
  proof cases
    case 1
    then show ?thesis using s disjoint [of r'] by (simp add: args_inv_def)
  next
    case 2
    then have "\<not> is_connect r" by (auto simp: args_at_def)
    then have "uri_end r' = Some b" "args_at buf b r'"
      using s 2 args_at_frame [of r' r buf b] by auto
    then show ?thesis using s disjoint [of r'] by (simp add: args_inv_def)
  qed
qed

text \<open>Before the URI there are no arguments.\<close>

lemma args_inv_pre: "args_start r = None \<Longrightarrow> rl_state r \<in> uri_states \<Longrightarrow> \<not> is_connect r
    \<Longrightarrow> \<exists>a. uri_start r = Some a \<and> a < p \<Longrightarrow> args_inv buf p r"
  "args_start r = None \<Longrightarrow> rl_state r \<notin> uri_states
    \<Longrightarrow> rl_state r \<in> {sw_start, sw_method, sw_spaces_before_uri} \<longrightarrow> \<not> is_connect r \<Longrightarrow> args_inv buf p r"
  by (simp_all add: args_inv_def args_at_def)

lemma after_host_args:
  assumes "args_start r = None" and "\<not> is_connect r" and "rl_after_host p (buf ! p) r = Next r'"
  shows "args_inv buf (Suc p) r'"
  using assms
  by (auto simp: rl_after_host_def args_inv_def uri_states_def post_states_def args_at_def bad_request_def
      split: if_splits)

lemma host_end_args:
  assumes "args_start r = None" and "rl_host_end p (buf ! p) r = Next r'"
  shows "args_inv buf (Suc p) r'"
  using assms after_host_args [of "r\<lparr>host_end := Some p\<rparr>" p buf r']
  by (auto simp: rl_host_end_def Let_def bad_request_def args_inv_def uri_states_def post_states_def
      split: if_splits)

lemma host_args:
  assumes "args_start r = None" and "rl_state r = sw_host" and "rl_host p (buf ! p) r = Next r'"
  shows "args_inv buf (Suc p) r'"
proof -
  from assms(3) have "r' = r \<or> rl_host_end p (buf ! p) r = Next r'"
    by (auto simp: rl_host_def split: if_splits)
  then show ?thesis
  proof
    assume "r' = r"
    then show ?thesis using assms(1,2) by (simp add: args_inv_def uri_states_def post_states_def)
  next
    assume "rl_host_end p (buf ! p) r = Next r'"
    then show ?thesis by (rule host_end_args [OF assms(1)])
  qed
qed

lemma host_start_args:
  assumes "args_start r = None" and "rl_host_start p (buf ! p) r = Next r'"
  shows "args_inv buf (Suc p) r'"
  using assms host_args [of "r\<lparr>host_start := Some p, rl_state := sw_host\<rparr>" p buf r']
  by (auto simp: rl_host_start_def Let_def args_inv_def uri_states_def post_states_def split: if_splits)

lemma port_args:
  assumes "args_start r = None" and "rl_state r = sw_port" and "rl_port p (buf ! p) r = Next r'"
  shows "args_inv buf (Suc p) r'"
  using assms after_host_args [of "r\<lparr>host_end := Some p\<rparr>" p buf r']
  by (auto simp: rl_port_def Let_def bad_request_def args_inv_def uri_states_def post_states_def
      split: if_splits)

lemma pre_step:
  assumes "args_start r = None" and "rl_state r \<notin> uri_states" "rl_state r \<notin> post_states" "rl_state r \<noteq> sw_method"
    and c: "rl_state r \<in> {sw_start, sw_spaces_before_uri} \<longrightarrow> \<not> is_connect r"
    and step: "rl_step buf p (buf ! p) r = Next r'"
  shows "args_inv buf (Suc p) r'"
proof (cases "rl_state r")
  case sw_spaces_before_host
  then have "r' = r \<or> rl_host_start p (buf ! p) r = Next r'"
    using step by (auto simp: rl_spaces_before_host_def split: if_splits)
  then show ?thesis
  proof
    assume "r' = r"
    then show ?thesis
      using assms(1) sw_spaces_before_host by (simp add: args_inv_def uri_states_def post_states_def)
  next
    assume "rl_host_start p (buf ! p) r = Next r'"
    then show ?thesis by (rule host_start_args [OF assms(1)])
  qed
next
  case sw_host_start
  then show ?thesis using step by (auto intro: host_start_args [OF assms(1)])
next
  case sw_host
  then show ?thesis using step by (auto intro: host_args [OF assms(1)])
next
  case sw_host_end
  then show ?thesis using step by (auto intro: host_end_args [OF assms(1)])
next
  case sw_port
  then show ?thesis using step by (auto intro: port_args [OF assms(1)])
qed (use assms in \<open>auto simp: args_inv_def uri_states_def post_states_def args_at_def rl_start_def
    rl_spaces_before_uri_def rl_schema_def rl_schema_slash_def rl_schema_slash_slash_def
    rl_host_ip_literal_def bad_request_def Let_def split: if_splits\<close>)

lemma args_inv_step:
  assumes p: "p < length buf" and inv: "args_inv buf p r"
    and step: "rl_step buf p (buf ! p) r = Next r'"
  shows "args_inv buf (Suc p) r'"
proof -
  have q: "args_at buf (Suc p) (r\<lparr>args_start := Some (p + 1), rl_state := s\<rparr>)"
    if "\<exists>a. uri_start r = Some a \<and> a < p" "\<not> is_connect r" "buf ! p = CHR ''?''" for s
    using that by (auto simp: args_at_def)
  show ?thesis
  proof (cases "rl_state r = sw_method")
    case True
    then show ?thesis
    proof (cases "buf ! p = CHR '' ''")
      case True
      let ?m = "slice buf (the (request_start r)) p"
      let ?r = "r\<lparr>method_end := Some (p - 1), rl_state := sw_spaces_before_uri\<rparr>"
      have "r' = method_switch ?m ?r"
        using step \<open>rl_state r = sw_method\<close> True by (simp add: rl_method_def)
      then show ?thesis
        using inv \<open>rl_state r = sw_method\<close>
        by (cases rule: method_switch_cases [of ?m ?r]) (auto simp: args_inv_def uri_states_def post_states_def)
    next
      case False
      then show ?thesis
        using inv step \<open>rl_state r = sw_method\<close>
        by (auto simp: args_inv_def uri_states_def post_states_def rl_method_def split: if_splits)
    qed
  next
    case other: False
    show ?thesis
    proof (cases "rl_state r \<in> uri_states")
      case True
      then have i: "args_at buf p r" "\<exists>a. uri_start r = Some a \<and> a < p" "\<not> is_connect r"
        using inv by (simp_all add: args_inv_def)
      have f: "args_at buf (Suc p) r'' \<and> (\<exists>a. uri_start r'' = Some a \<and> a < Suc p) \<and> \<not> is_connect r''"
        if "args_start r'' = args_start r" "uri_start r'' = uri_start r" "meth r'' = meth r" for r''
        using i args_at_frame [OF that] args_at_more [OF i(1), of "Suc p"] that by auto
      have g: "args_at buf p r''" if "args_start r'' = args_start r" "uri_start r'' = uri_start r" "meth r'' = meth r" for r''
        using i args_at_frame [OF that] by simp
      have keep: "args_inv buf (Suc p) r''" if "args_start r'' = args_start r" "uri_start r'' = uri_start r"
        "meth r'' = meth r" "rl_state r'' \<in> uri_states" for r''
        using f [OF that(1-3)] that(4) by (simp add: args_inv_def)
      have fin: "args_inv buf (Suc p) r''" if "args_start r'' = args_start r" "uri_start r'' = uri_start r"
        "meth r'' = meth r" "rl_state r'' \<in> {sw_http_09, sw_almost_done}" "uri_end r'' = Some p" for r''
        using g [OF that(1-3)] that(4,5) by (auto simp: args_inv_def uri_states_def post_states_def)
      have new: "args_inv buf (Suc p) (r\<lparr>args_start := Some (Suc p), rl_state := sw_uri\<rparr>)" if "buf ! p = CHR ''?''"
        using q [of sw_uri] that i by (auto simp: args_inv_def uri_states_def)
      from True consider "rl_state r = sw_after_slash_in_uri" | "rl_state r = sw_check_uri" | "rl_state r = sw_uri"
        by (auto simp: uri_states_def)
      then show ?thesis
      proof cases
        case 1
        then show ?thesis using step
          by (auto simp: rl_after_slash_in_uri_def bad_request_def uri_states_def new split: if_splits
              intro: keep fin)
      next
        case 2
        then show ?thesis using step
          by (auto simp: rl_check_uri_def bad_request_def uri_states_def new split: if_splits intro: keep fin)
      next
        case 3
        then show ?thesis using step
          by (auto simp: rl_uri_def bad_request_def uri_states_def split: if_splits intro: keep fin)
      qed
    next
      case notin: False
      show ?thesis
      proof (cases "rl_state r \<in> post_states")
        case True
        then show ?thesis by (rule args_inv_post_step [OF inv _ step])
      next
        case False
        then show ?thesis
          using pre_step [OF _ notin False other _ step] inv notin
          by (simp add: args_inv_def)
      qed
    qed
  qed
qed

interpretation request_line_args: parser_with_invariant rl_step rl_done args_inv
  by unfold_locales (rule args_inv_step)

text \<open>Of an accepted line that is not a \<open>CONNECT\<close>, the arguments lie in the URI.\<close>

lemma request_line_args:
  assumes "ngx_http_parse_request_line buf 0 request_init = (NGX_OK, r, pos)"
  shows "case args_start r of None \<Rightarrow> True
    | Some q \<Rightarrow> the (uri_start r) < q \<and> q \<le> the (uri_end r) \<and> buf ! (q - 1) = CHR ''?''"
proof -
  have init: "args_inv buf 0 request_init"
    by (simp add: args_inv_def request_init_def uri_states_def post_states_def http_methods)
  show ?thesis
  proof (cases "parse_loop (rl_step buf) 0 (drop 0 buf) request_init")
    case (Exhausted p r1)
    then show ?thesis
      using assms by (simp add: ngx_http_parse_request_line_def run_parser_def code_const)
  next
    case (GotoDone q r1)
    obtain r0 where q: "q < length buf" "args_inv buf q r0" "rl_step buf q (buf ! q) r0 = Done r1"
      using request_line_args.done_inv [OF _ init GotoDone] by auto
    have st: "rl_state r0 \<in> uri_states \<and> uri_end r1 = Some q
          \<and> args_start r1 = args_start r0 \<and> uri_start r1 = uri_start r0
        \<or> rl_state r0 \<in> post_states \<and> uri_end r1 = uri_end r0 \<and> args_start r1 = args_start r0
          \<and> uri_start r1 = uri_start r0"
      using q(3) by (cases "rl_state r0")
        (auto simp: rl_state_defs uri_states_def post_states_def split: if_splits)
    have "case args_start r1 of None \<Rightarrow> True
      | Some n \<Rightarrow> the (uri_start r1) < n \<and> n \<le> the (uri_end r1) \<and> buf ! (n - 1) = CHR ''?''"
    proof (cases "rl_state r0 \<in> uri_states")
      case True
      then have "rl_state r0 \<notin> post_states" by (auto simp: uri_states_def post_states_def)
      then show ?thesis
        using st q(2) True by (auto simp: args_inv_def args_at_def split: option.splits)
    next
      case False
      then have p: "rl_state r0 \<in> post_states" using st by blast
      then have "args_start r0 = None \<or> (\<exists>b. uri_end r0 = Some b \<and> args_at buf b r0)"
        using q(2) False by (simp add: args_inv_def)
      then show ?thesis
        using st False by (auto simp: args_at_def split: option.splits)
    qed
    moreover have "args_start r = args_start r1" "uri_start r = uri_start r1" "uri_end r = uri_end r1"
      using assms GotoDone
      by (auto simp: ngx_http_parse_request_line_def run_parser_def rl_done_def Let_def
          split: prod.splits if_splits)
    ultimately show ?thesis by (simp split: option.splits)
  next
    case (Returned rc r1)
    have "rc \<noteq> NGX_OK" if "rl_step buf p ch s = Return rc s'" for p ch s s'
      using that by (cases "rl_state s") (auto simp: rl_state_defs code_const split: if_splits)
    moreover have "ends_in (args_inv buf) (rl_step buf) 0 (drop 0 buf) (Returned rc r1)"
      using request_line_args.loop_inv [OF _ init] Returned by simp
    ultimately have "rc \<noteq> NGX_OK" by (auto simp: ends_in_def)
    then show ?thesis
      using assms Returned by (simp add: ngx_http_parse_request_line_def run_parser_def)
  qed
qed

end
