(* ===== verification/HttpHeaderLine.thy ===== *)
theory HttpHeaderLine
  imports HttpRequestLine
begin

text \<open>
  \<open>ngx_http_parse_header_line\<close> of \<open>src/http/ngx_http_parse.c\<close>: one header line of a request, of an
  upstream's response, or the empty line that ends the header.  The name is lower-cased into a ring of
  32 bytes and hashed on the way, because header handlers are found by that hash.
\<close>

section \<open>Data\<close>

datatype hl_sw =
    hl_start | hl_name | hl_space_before_value | hl_value | hl_space_after_value | hl_ignore_line
  | hl_almost_done | hl_header_almost_done

text \<open>The label a \<open>goto\<close> of the loop goes to.\<close>

datatype hl_label = L_done | L_header_done

record header_line =
  hl_state :: hl_sw
  hl_goto :: hl_label
  header_hash :: nat
  lowcase_index :: nat
  lowcase_header :: bytes
  header_name_start :: "nat option"
  header_name_end :: "nat option"
  header_start :: "nat option"
  header_end :: "nat option"
  invalid_header :: bool
  upstream :: bool

definition NGX_HTTP_LC_HEADER_LEN :: nat where "NGX_HTTP_LC_HEADER_LEN = 32"
definition NGX_HTTP_PARSE_HEADER_DONE :: int where
  [code_const]: "NGX_HTTP_PARSE_HEADER_DONE = 1"
definition NGX_HTTP_PARSE_INVALID_HEADER :: int where
  [code_const]: "NGX_HTTP_PARSE_INVALID_HEADER = 14"

text \<open>\<open>ngx_hash(key, c)\<close> of \<open>src/core/ngx_hash.h\<close>, on a 64-bit \<open>ngx_uint_t\<close>.\<close>

definition ngx_hash :: "nat \<Rightarrow> char \<Rightarrow> nat" where
  "ngx_hash key c = (key * 31 + ord c) mod 18446744073709551616"

text \<open>The table \<open>lowcase\<close>: letters in lower case, digits and \<open>-\<close>; zero for every other byte.\<close>

definition lowcase :: bytes where
  "lowcase =
     replicate 32 NUL
     @ replicate 13 NUL @ ''-'' @ replicate 2 NUL @ ''0123456789'' @ replicate 6 NUL
     @ replicate 1 NUL @ ''abcdefghijklmnopqrstuvwxyz'' @ replicate 5 NUL
     @ replicate 1 NUL @ ''abcdefghijklmnopqrstuvwxyz'' @ replicate 5 NUL
     @ replicate 32 NUL @ replicate 32 NUL @ replicate 32 NUL @ replicate 32 NUL"

definition invalid_header_at :: "nat \<Rightarrow> header_line \<Rightarrow> header_line outcome" where
  "invalid_header_at p r = Return NGX_HTTP_PARSE_INVALID_HEADER (r\<lparr>header_end := Some p\<rparr>)"

section \<open>The states\<close>

definition first_lowcase :: "char \<Rightarrow> header_line \<Rightarrow> header_line" where
  "first_lowcase c r =
     r\<lparr>header_hash := ngx_hash 0 c, lowcase_header := (lowcase_header r)[0 := c], lowcase_index := 1\<rparr>"

definition first_invalid :: "header_line \<Rightarrow> header_line" where
  "first_invalid r = r\<lparr>header_hash := 0, lowcase_index := 0, invalid_header := True\<rparr>"

definition hl_do_start :: "bool \<Rightarrow> nat \<Rightarrow> char \<Rightarrow> header_line \<Rightarrow> header_line outcome" where
  "hl_do_start allow_underscores p ch r =
     (let r = r\<lparr>header_name_start := Some p, invalid_header := False\<rparr>
      in if ch = CR then Next (r\<lparr>header_end := Some p, hl_state := hl_header_almost_done\<rparr>)
         else if ch = LF then Done (r\<lparr>header_end := Some p, hl_goto := L_header_done\<rparr>)
         else
           let r = r\<lparr>hl_state := hl_name\<rparr>;
               c = lowcase ! ord ch
           in if c \<noteq> NUL then Next (first_lowcase c r)
              else if ch = CHR ''_'' then
                Next (if allow_underscores then first_lowcase ch r else first_invalid r)
              else if ord ch \<le> 0x20 \<or> ord ch = 0x7f \<or> ch = CHR '':'' then invalid_header_at p r
              else Next (first_invalid r))"

definition next_lowcase :: "char \<Rightarrow> header_line \<Rightarrow> header_line" where
  "next_lowcase c r =
     r\<lparr>header_hash := ngx_hash (header_hash r) c,
       lowcase_header := (lowcase_header r)[lowcase_index r := c],
       lowcase_index := and (Suc (lowcase_index r)) (NGX_HTTP_LC_HEADER_LEN - 1)\<rparr>"

definition hl_do_name :: "bool \<Rightarrow> bytes \<Rightarrow> nat \<Rightarrow> char \<Rightarrow> header_line \<Rightarrow> header_line outcome" where
  "hl_do_name allow_underscores buf p ch r =
     (let c = lowcase ! ord ch
      in if c \<noteq> NUL then Next (next_lowcase c r)
         else if ch = CHR ''_'' then
           Next (if allow_underscores then next_lowcase ch r else r\<lparr>invalid_header := True\<rparr>)
         else if ch = CHR '':''
         then Next (r\<lparr>header_name_end := Some p, hl_state := hl_space_before_value\<rparr>)
         else if ch = CR
         then Next (r\<lparr>header_name_end := Some p, header_start := Some p, header_end := Some p,
                      hl_state := hl_almost_done\<rparr>)
         else if ch = LF
         then Done (r\<lparr>header_name_end := Some p, header_start := Some p, header_end := Some p,
                      hl_goto := L_done\<rparr>)
         else if ch = CHR ''/'' \<and> upstream r \<and> p - the (header_name_start r) = 4
           \<and> slice buf (the (header_name_start r)) p = ''HTTP''
         then Next (r\<lparr>hl_state := hl_ignore_line\<rparr>)
         else if ord ch \<le> 0x20 \<or> ord ch = 0x7f then invalid_header_at p r
         else Next (r\<lparr>invalid_header := True\<rparr>))"

definition hl_do_space_before_value :: "nat \<Rightarrow> char \<Rightarrow> header_line \<Rightarrow> header_line outcome" where
  "hl_do_space_before_value p ch r =
     (if ch = CHR '' '' then Next r
      else if ch = CR
      then Next (r\<lparr>header_start := Some p, header_end := Some p, hl_state := hl_almost_done\<rparr>)
      else if ch = LF
      then Done (r\<lparr>header_start := Some p, header_end := Some p, hl_goto := L_done\<rparr>)
      else if ch = NUL then invalid_header_at p r
      else Next (r\<lparr>header_start := Some p, hl_state := hl_value\<rparr>))"

definition hl_do_value :: "nat \<Rightarrow> char \<Rightarrow> header_line \<Rightarrow> header_line outcome" where
  "hl_do_value p ch r =
     (if ch = CHR '' '' then Next (r\<lparr>header_end := Some p, hl_state := hl_space_after_value\<rparr>)
      else if ch = CR then Next (r\<lparr>header_end := Some p, hl_state := hl_almost_done\<rparr>)
      else if ch = LF then Done (r\<lparr>header_end := Some p, hl_goto := L_done\<rparr>)
      else if ch = NUL then invalid_header_at p r
      else Next r)"

definition hl_do_space_after_value :: "nat \<Rightarrow> char \<Rightarrow> header_line \<Rightarrow> header_line outcome" where
  "hl_do_space_after_value p ch r =
     (if ch = CHR '' '' then Next r
      else if ch = CR then Next (r\<lparr>hl_state := hl_almost_done\<rparr>)
      else if ch = LF then Done (r\<lparr>hl_goto := L_done\<rparr>)
      else if ch = NUL then invalid_header_at p r
      else Next (r\<lparr>hl_state := hl_value\<rparr>))"

definition hl_do_ignore_line :: "char \<Rightarrow> header_line \<Rightarrow> header_line outcome" where
  "hl_do_ignore_line ch r = (if ch = LF then Next (r\<lparr>hl_state := hl_start\<rparr>) else Next r)"

definition hl_do_almost_done :: "char \<Rightarrow> header_line \<Rightarrow> header_line outcome" where
  "hl_do_almost_done ch r =
     (if ch = LF then Done (r\<lparr>hl_goto := L_done\<rparr>)
      else if ch = CR then Next r
      else Return NGX_HTTP_PARSE_INVALID_HEADER r)"

definition hl_do_header_almost_done :: "char \<Rightarrow> header_line \<Rightarrow> header_line outcome" where
  "hl_do_header_almost_done ch r =
     (if ch = LF then Done (r\<lparr>hl_goto := L_header_done\<rparr>)
      else Return NGX_HTTP_PARSE_INVALID_HEADER r)"

section \<open>The parser\<close>

definition hl_step :: "bool \<Rightarrow> bytes \<Rightarrow> nat \<Rightarrow> char \<Rightarrow> header_line \<Rightarrow> header_line outcome" where
  "hl_step allow_underscores buf p ch r =
     (case hl_state r of
        hl_start \<Rightarrow> hl_do_start allow_underscores p ch r
      | hl_name \<Rightarrow> hl_do_name allow_underscores buf p ch r
      | hl_space_before_value \<Rightarrow> hl_do_space_before_value p ch r
      | hl_value \<Rightarrow> hl_do_value p ch r
      | hl_space_after_value \<Rightarrow> hl_do_space_after_value p ch r
      | hl_ignore_line \<Rightarrow> hl_do_ignore_line ch r
      | hl_almost_done \<Rightarrow> hl_do_almost_done ch r
      | hl_header_almost_done \<Rightarrow> hl_do_header_almost_done ch r)"

text \<open>The labels \<open>done\<close> and \<open>header_done\<close>.  The local variables \<open>hash\<close> and \<open>i\<close> are the fields
  \<open>header_hash\<close> and \<open>lowcase_index\<close> throughout; at \<open>header_done\<close> the code does not store them, and
  nothing reads them after the empty line.\<close>

definition hl_finish :: "nat \<Rightarrow> header_line \<Rightarrow> int \<times> header_line" where
  "hl_finish p r =
     (case hl_goto r of
        L_done \<Rightarrow> (NGX_OK, r\<lparr>hl_state := hl_start\<rparr>)
      | L_header_done \<Rightarrow> (NGX_HTTP_PARSE_HEADER_DONE, r\<lparr>hl_state := hl_start\<rparr>))"

definition ngx_http_parse_header_line ::
  "bytes \<Rightarrow> nat \<Rightarrow> header_line \<Rightarrow> bool \<Rightarrow> int \<times> header_line \<times> nat option" where
  "ngx_http_parse_header_line buf pos r allow_underscores =
     run_parser (hl_step allow_underscores) hl_finish buf pos r"

lemmas hl_state_defs =
  hl_do_start_def hl_do_name_def hl_do_space_before_value_def hl_do_value_def
  hl_do_space_after_value_def hl_do_ignore_line_def hl_do_almost_done_def
  hl_do_header_almost_done_def invalid_header_at_def Let_def

section \<open>The parser is incremental\<close>

interpretation header_line_feed: incremental_parser "hl_step us" hl_finish
proof
  show "hl_step us (buf @ later) p ch r = hl_step us buf p ch r" if "p < length buf" for buf later p ch r
    by (simp only: hl_step_def hl_do_name_def slice_append [OF less_imp_le [OF that]])
  show "rc \<noteq> NGX_AGAIN" if "hl_step us buf p ch r = Return rc r'" for buf p ch r rc r'
    using that by (auto simp: hl_step_def hl_state_defs code_const split: hl_sw.splits if_splits)
  show "fst (hl_finish p r) \<noteq> NGX_AGAIN" for p r
    by (simp add: hl_finish_def code_const split: hl_label.split)
qed

text \<open>C34: the header may arrive in any pieces; the second call goes on where the first one stopped.\<close>

theorem header_line_resumes:
  "case ngx_http_parse_header_line (pre @ s) (length pre) r us of (rc, r', pos) \<Rightarrow>
     ngx_http_parse_header_line (pre @ s @ later) (length pre) r us =
       (if rc = NGX_AGAIN then ngx_http_parse_header_line (pre @ s @ later) (the pos) r' us
        else (rc, r', pos))"
  unfolding ngx_http_parse_header_line_def by (rule header_line_feed.resumes)

section \<open>What an accepted line is\<close>

text \<open>The bytes a name can have, the bytes a value can have, and the lower-case form of a name's byte
  (none for the bytes that are skipped).\<close>

definition name_byte :: "char \<Rightarrow> bool" where
  "name_byte c \<longleftrightarrow> 0x20 < ord c \<and> ord c \<noteq> 0x7f \<and> c \<noteq> CHR '':''"

definition value_byte :: "char \<Rightarrow> bool" where
  "value_byte c \<longleftrightarrow> c \<noteq> CR \<and> c \<noteq> LF \<and> c \<noteq> NUL"

definition low :: "bool \<Rightarrow> char \<Rightarrow> bytes" where
  "low us c = (if lowcase ! ord c \<noteq> NUL then [lowcase ! ord c]
     else if c = CHR ''_'' \<and> us then ''_'' else [])"

definition low_name :: "bool \<Rightarrow> bytes \<Rightarrow> bytes" where
  "low_name us s = concat (map (low us) s)"

definition valid_name :: "bool \<Rightarrow> bytes \<Rightarrow> bool" where
  "valid_name us s \<longleftrightarrow> list_all (\<lambda>c. low us c \<noteq> []) s"

text \<open>The name read so far, its validity, its hash and its lower-case copy.\<close>

definition name_ok :: "bool \<Rightarrow> bytes \<Rightarrow> header_line \<Rightarrow> bool" where
  "name_ok us s r \<longleftrightarrow> s \<noteq> [] \<and> list_all name_byte s \<and> (invalid_header r \<longleftrightarrow> \<not> valid_name us s)
     \<and> header_hash r = foldl ngx_hash 0 (low_name us s)
     \<and> lowcase_index r = length (low_name us s) mod 32
     \<and> (length (low_name us s) \<le> 32 \<longrightarrow> take (length (low_name us s)) (lowcase_header r) = low_name us s)"

definition name_at :: "bool \<Rightarrow> bytes \<Rightarrow> nat \<Rightarrow> header_line \<Rightarrow> bool" where
  "name_at us buf p r \<longleftrightarrow>
     (\<exists>s e. header_name_start r = Some s \<and> header_name_end r = Some e \<and> s < e \<and> e \<le> p
        \<and> name_ok us (slice buf s e) r)"

definition value_open :: "bytes \<Rightarrow> nat \<Rightarrow> header_line \<Rightarrow> bool" where
  "value_open buf p r \<longleftrightarrow>
     (\<exists>e v. header_name_end r = Some e \<and> header_start r = Some v \<and> e < v \<and> v < p
        \<and> list_all value_byte (slice buf v p) \<and> buf ! v \<noteq> CHR '' '')"

definition value_at :: "bytes \<Rightarrow> nat \<Rightarrow> header_line \<Rightarrow> bool" where
  "value_at buf p r \<longleftrightarrow>
     (\<exists>e v h. header_name_end r = Some e \<and> header_start r = Some v \<and> header_end r = Some h
        \<and> e \<le> v \<and> v \<le> h \<and> h \<le> p \<and> list_all value_byte (slice buf v h)
        \<and> (v < h \<longrightarrow> buf ! v \<noteq> CHR '' '' \<and> buf ! (h - 1) \<noteq> CHR '' ''))"

definition hl_inv :: "bool \<Rightarrow> bytes \<Rightarrow> nat \<Rightarrow> header_line \<Rightarrow> bool" where
  "hl_inv us buf p r \<longleftrightarrow> length (lowcase_header r) = 32 \<and>
     (case hl_state r of
        hl_name \<Rightarrow> (\<exists>s. header_name_start r = Some s \<and> s < p \<and> name_ok us (slice buf s p) r)
      | hl_space_before_value \<Rightarrow> name_at us buf p r \<and> (\<exists>e. header_name_end r = Some e \<and> e < p)
      | hl_value \<Rightarrow> name_at us buf p r \<and> value_open buf p r \<and> buf ! (p - 1) \<noteq> CHR '' ''
      | hl_space_after_value \<Rightarrow> name_at us buf p r \<and> value_open buf p r \<and> value_at buf p r
      | hl_almost_done \<Rightarrow> name_at us buf p r \<and> value_at buf p r
      | _ \<Rightarrow> True)"

lemma lowcase_nul: "lowcase ! ord CR = NUL" "lowcase ! ord LF = NUL" "lowcase ! ord (CHR '':'') = NUL"
    "lowcase ! ord (CHR ''_'') = NUL"
  by (simp_all add: lowcase_def nth_append)

lemma lowcase_table: "list_all (\<lambda>(n, c). c \<noteq> NUL \<longrightarrow> 32 < n \<and> n \<noteq> 127 \<and> n \<noteq> 58) (zip [0..<256] lowcase)"
  by code_simp

lemma lowcase_length: "length lowcase = 256"
  by (simp add: lowcase_def)

lemma lowcase_name_byte: "lowcase ! ord c \<noteq> NUL \<Longrightarrow> name_byte c"
proof -
  assume "lowcase ! ord c \<noteq> NUL"
  moreover have "(ord c, lowcase ! ord c) \<in> set (zip [0..<256] lowcase)"
    using ord_less_256 [of c] lowcase_length by (auto simp: set_zip intro!: exI [of _ "ord c"])
  ultimately show ?thesis
    using lowcase_table by (fastforce simp: list_all_iff name_byte_def)
qed

lemma low_name_snoc: "low_name us (s @ [c]) = low_name us s @ low us c"
  by (simp add: low_name_def)

lemma valid_name_snoc: "valid_name us (s @ [c]) \<longleftrightarrow> valid_name us s \<and> low us c \<noteq> []"
  by (simp add: valid_name_def)

lemma name_ok_frame:
  "name_ok us s (r\<lparr>hl_state := st\<rparr>) = name_ok us s r"
  "name_ok us s (r\<lparr>header_name_end := q\<rparr>) = name_ok us s r"
  "name_ok us s (r\<lparr>header_start := q\<rparr>) = name_ok us s r"
  "name_ok us s (r\<lparr>header_end := q\<rparr>) = name_ok us s r"
  "name_ok us s (r\<lparr>hl_goto := l\<rparr>) = name_ok us s r"
  by (simp_all add: name_ok_def)

text \<open>A byte of the name that is copied, and one that is not.\<close>

lemma name_ok_copied:
  assumes "name_ok us s r" and "low us c = [d]" and "name_byte c" and "length (lowcase_header r) = 32"
  shows "name_ok us (s @ [c]) (next_lowcase d r)"
proof -
  let ?l = "low_name us s"
  have m: "(a mod 32 + 1) mod 32 = (a + 1) mod 32" for a :: nat by presburger
  have "and (Suc (length ?l mod 32)) 31 = Suc (length ?l) mod 32"
    using m [of "length ?l"] by (simp add: bit_arith)
  moreover have "take (Suc (length ?l)) ((lowcase_header r)[length ?l := d]) = ?l @ [d]"
    if "Suc (length ?l) \<le> 32"
    using assms(1,4) that by (simp add: name_ok_def take_Suc_conv_app_nth)
  moreover have "length ?l mod 32 = length ?l" if "Suc (length ?l) \<le> 32"
    using that by simp
  ultimately show ?thesis
    using assms(1-3)
    by (simp add: name_ok_def next_lowcase_def low_name_snoc valid_name_snoc NGX_HTTP_LC_HEADER_LEN_def)
qed

lemma name_ok_skipped:
  assumes "name_ok us s r" and "low us c = []" and "name_byte c"
  shows "name_ok us (s @ [c]) (r\<lparr>invalid_header := True\<rparr>)"
  using assms by (simp add: name_ok_def low_name_snoc valid_name_snoc)

lemma name_ok_first_copied:
  assumes "low us c = [d]" and "name_byte c" and "length (lowcase_header r) = 32" and "\<not> invalid_header r"
  shows "name_ok us [c] (first_lowcase d r)"
  using assms
  by (cases "lowcase_header r") (auto simp: name_ok_def first_lowcase_def low_name_def valid_name_def)

lemma name_ok_first_skipped:
  assumes "low us c = []" and "name_byte c"
  shows "name_ok us [c] (first_invalid r)"
  using assms by (simp add: name_ok_def first_invalid_def low_name_def valid_name_def)

lemma hl_length: "hl_step us buf p ch r = Next r' \<Longrightarrow> length (lowcase_header r') = length (lowcase_header r)"
  by (auto simp: hl_step_def hl_state_defs first_lowcase_def first_invalid_def next_lowcase_def
      split: hl_sw.splits if_splits)

lemma low_cases: "low us c =
    (if lowcase ! ord c \<noteq> NUL then [lowcase ! ord c] else if c = CHR ''_'' \<and> us then [c] else [])"
  by (simp add: low_def)

lemma name_byte_underscore: "name_byte (CHR ''_'')"
  by (simp add: name_byte_def)

lemma start_inv:
  assumes p: "p < length buf" and len: "length (lowcase_header r) = 32"
    and step: "hl_do_start us p (buf ! p) r = Next r'" and st: "hl_state r = hl_start"
  shows "hl_inv us buf (Suc p) r'"
proof -
  let ?ch = "buf ! p"
  let ?r = "r\<lparr>header_name_start := Some p, invalid_header := False, hl_state := hl_name\<rparr>"
  have s: "slice buf p (Suc p) = [?ch]" using p by (simp add: slice_Suc)
  have name: "hl_inv us buf (Suc p) r1" if "name_ok us [?ch] r1" "hl_state r1 = hl_name"
    "header_name_start r1 = Some p" "length (lowcase_header r1) = 32" for r1
    using that s by (auto simp: hl_inv_def)
  have copied: "hl_inv us buf (Suc p) (first_lowcase d ?r)" if "low us ?ch = [d]" "name_byte ?ch" for d
    using name_ok_first_copied [OF that, of ?r] len by (intro name) (auto simp: first_lowcase_def)
  have skipped: "hl_inv us buf (Suc p) (first_invalid ?r)" if "low us ?ch = []" "name_byte ?ch"
    using name_ok_first_skipped [OF that, of ?r] len by (intro name) (auto simp: first_invalid_def)
  have byte: "name_byte ?ch" if "\<not> (ord ?ch \<le> 32 \<or> ord ?ch = 127 \<or> ?ch = CHR '':'')"
    using that by (simp add: name_byte_def)
  consider "?ch = CR" | "?ch = LF" | "?ch \<noteq> CR" "?ch \<noteq> LF" "lowcase ! ord ?ch \<noteq> NUL"
    | "?ch = CHR ''_''" "us" | "?ch = CHR ''_''" "\<not> us"
    | "?ch \<noteq> CR" "?ch \<noteq> LF" "lowcase ! ord ?ch = NUL" "?ch \<noteq> CHR ''_''" by blast
  then show ?thesis
  proof cases
    case 1
    then show ?thesis using step len by (auto simp: hl_do_start_def hl_inv_def)
  next
    case 2
    then show ?thesis using step by (simp add: hl_do_start_def Let_def)
  next
    case 3
    then have "r' = first_lowcase (lowcase ! ord ?ch) ?r"
      using step by (simp add: hl_do_start_def Let_def)
    then show ?thesis using copied [of "lowcase ! ord ?ch"] lowcase_name_byte 3 by (simp add: low_cases)
  next
    case 4
    then have "r' = first_lowcase ?ch ?r"
      using step lowcase_nul(4) by (simp add: hl_do_start_def Let_def)
    then show ?thesis
      using copied [of ?ch] name_byte_underscore lowcase_nul(4) 4 by (simp add: low_cases)
  next
    case 5
    then have "r' = first_invalid ?r"
      using step lowcase_nul(4) by (simp add: hl_do_start_def Let_def)
    then show ?thesis
      using skipped name_byte_underscore lowcase_nul(4) 5 by (simp add: low_cases)
  next
    case 6
    then have "\<not> (ord ?ch \<le> 32 \<or> ord ?ch = 127 \<or> ?ch = CHR '':'')" "r' = first_invalid ?r"
      using step by (auto simp: hl_do_start_def Let_def invalid_header_at_def split: if_splits)
    then show ?thesis using skipped byte 6 by (simp add: low_cases)
  qed
qed

lemma name_inv:
  assumes p: "p < length buf" and len: "length (lowcase_header r) = 32" and st: "hl_state r = hl_name"
    and s: "header_name_start r = Some s" "s < p" and ok: "name_ok us (slice buf s p) r"
    and step: "hl_do_name us buf p (buf ! p) r = Next r'"
  shows "hl_inv us buf (Suc p) r'"
proof -
  let ?ch = "buf ! p"
  have sl: "slice buf s (Suc p) = slice buf s p @ [?ch]"
    using p s(2) by (simp add: slice_Suc)
  have name: "hl_inv us buf (Suc p) r1" if "name_ok us (slice buf s (Suc p)) r1" "hl_state r1 = hl_name"
    "header_name_start r1 = Some s" "length (lowcase_header r1) = 32" for r1
    using that s by (auto simp: hl_inv_def)
  have copied: "hl_inv us buf (Suc p) (next_lowcase d r)" if "low us ?ch = [d]" "name_byte ?ch" for d
    using name_ok_copied [OF ok that len] len s st sl by (intro name) (auto simp: next_lowcase_def)
  have skipped: "hl_inv us buf (Suc p) (r\<lparr>invalid_header := True\<rparr>)" if "low us ?ch = []" "name_byte ?ch"
    using name_ok_skipped [OF ok that] len s st sl by (intro name) auto
  consider "lowcase ! ord ?ch \<noteq> NUL" | "?ch = CHR ''_''" "us" | "?ch = CHR ''_''" "\<not> us"
    | "?ch = CHR '':''" | "?ch = CR" | "?ch = LF"
    | "lowcase ! ord ?ch = NUL" "?ch \<noteq> CHR ''_''" "?ch \<noteq> CHR '':''" "?ch \<noteq> CR" "?ch \<noteq> LF" by blast
  then show ?thesis
  proof cases
    case 1
    then have "r' = next_lowcase (lowcase ! ord ?ch) r"
      using step by (simp add: hl_do_name_def Let_def)
    then show ?thesis using copied [of "lowcase ! ord ?ch"] lowcase_name_byte 1 by (simp add: low_cases)
  next
    case 2
    then have "r' = next_lowcase ?ch r"
      using step lowcase_nul(4) by (simp add: hl_do_name_def Let_def)
    then show ?thesis
      using copied [of ?ch] name_byte_underscore lowcase_nul(4) 2 by (simp add: low_cases)
  next
    case 3
    then have "r' = r\<lparr>invalid_header := True\<rparr>"
      using step lowcase_nul(4) by (simp add: hl_do_name_def Let_def)
    then show ?thesis
      using skipped name_byte_underscore lowcase_nul(4) 3 by (simp add: low_cases)
  next
    case 4
    then have "r' = r\<lparr>header_name_end := Some p, hl_state := hl_space_before_value\<rparr>"
      using step lowcase_nul(3) by (simp add: hl_do_name_def Let_def)
    then show ?thesis using ok s len by (auto simp: hl_inv_def name_at_def name_ok_frame)
  next
    case 5
    then have "r' = r\<lparr>header_name_end := Some p, header_start := Some p, header_end := Some p,
        hl_state := hl_almost_done\<rparr>"
      using step lowcase_nul(1) by (simp add: hl_do_name_def Let_def)
    then show ?thesis using ok s len by (auto simp: hl_inv_def name_at_def value_at_def name_ok_frame)
  next
    case 6
    then show ?thesis using step lowcase_nul(2) by (simp add: hl_do_name_def Let_def)
  next
    case 7
    then have "r' = r\<lparr>hl_state := hl_ignore_line\<rparr> \<or> r' = r\<lparr>invalid_header := True\<rparr> \<and> name_byte ?ch"
      using step by (auto simp: hl_do_name_def Let_def invalid_header_at_def name_byte_def split: if_splits)
    then show ?thesis
      using skipped 7 len by (auto simp: low_cases hl_inv_def)
  qed
qed

lemma name_at_more: "name_at us buf p r \<Longrightarrow> name_at us buf (Suc p) r"
  by (fastforce simp: name_at_def)

lemma name_at_frame:
  "name_at us buf p (r\<lparr>hl_state := st\<rparr>) = name_at us buf p r"
  "name_at us buf p (r\<lparr>header_start := q\<rparr>) = name_at us buf p r"
  "name_at us buf p (r\<lparr>header_end := q\<rparr>) = name_at us buf p r"
  "name_at us buf p (r\<lparr>hl_goto := l\<rparr>) = name_at us buf p r"
  by (simp_all add: name_at_def name_ok_frame)

lemma value_open_more:
  assumes "value_open buf p r" and "p < length buf" and "value_byte (buf ! p)"
  shows "value_open buf (Suc p) r"
  using assms by (auto simp: value_open_def slice_Suc less_imp_le)

lemma value_at_more: "value_at buf p r \<Longrightarrow> value_at buf (Suc p) r"
  by (fastforce simp: value_at_def)

lemma value_frame:
  "value_open buf p (r\<lparr>hl_state := st\<rparr>) = value_open buf p r"
  "value_open buf p (r\<lparr>header_end := q\<rparr>) = value_open buf p r"
  "value_at buf p (r\<lparr>hl_state := st\<rparr>) = value_at buf p r"
  "value_at buf p (r\<lparr>hl_goto := l\<rparr>) = value_at buf p r"
  by (simp_all add: value_open_def value_at_def)

lemma value_at_end:
  assumes "value_open buf p r" and "buf ! (p - 1) \<noteq> CHR '' ''" and "p \<le> q"
  shows "value_at buf q (r\<lparr>header_end := Some p\<rparr>)"
  using assms by (auto simp: value_open_def value_at_def)

lemma hl_inv_step:
  assumes p: "p < length buf" and inv: "hl_inv us buf p r"
    and step: "hl_step us buf p (buf ! p) r = Next r'"
  shows "hl_inv us buf (Suc p) r'"
proof -
  have len: "length (lowcase_header r) = 32" "length (lowcase_header r') = 32"
    using inv hl_length [OF step] by (simp_all add: hl_inv_def)
  show ?thesis
  proof (cases "hl_state r")
    case hl_start
    then show ?thesis using start_inv [OF p len(1) _ hl_start] step by (simp add: hl_step_def)
  next
    case hl_name
    then show ?thesis
      using name_inv [OF p len(1) hl_name] step inv by (auto simp: hl_step_def hl_inv_def)
  next
    case hl_space_before_value
    then have i: "name_at us buf (Suc p) r" "\<exists>e. header_name_end r = Some e \<and> e < p"
      using inv name_at_more by (auto simp: hl_inv_def)
    have "slice buf p (Suc p) = [buf ! p]" using p by (simp add: slice_Suc)
    then show ?thesis
      using step hl_space_before_value i len
      by (auto simp: hl_step_def hl_do_space_before_value_def invalid_header_at_def hl_inv_def
          name_at_frame value_frame value_at_def value_open_def value_byte_def split: if_splits)
  next
    case hl_value
    then have i: "name_at us buf (Suc p) r" "value_open buf p r" "buf ! (p - 1) \<noteq> CHR '' ''"
      using inv name_at_more by (auto simp: hl_inv_def)
    note at = value_at_end [OF i(2,3)]
    have more: "value_byte (buf ! p) \<Longrightarrow> value_open buf (Suc p) r"
      by (rule value_open_more [OF i(2) p])
    show ?thesis
      using step hl_value i len at [of "Suc p"] more
      by (auto simp: hl_step_def hl_do_value_def invalid_header_at_def hl_inv_def
          name_at_frame value_frame value_byte_def split: if_splits)
  next
    case hl_space_after_value
    then have i: "name_at us buf (Suc p) r" "value_open buf p r" "value_at buf (Suc p) r"
      using inv name_at_more value_at_more by (auto simp: hl_inv_def)
    have more: "value_byte (buf ! p) \<Longrightarrow> value_open buf (Suc p) r"
      by (rule value_open_more [OF i(2) p])
    show ?thesis
      using step hl_space_after_value i len more
      by (auto simp: hl_step_def hl_do_space_after_value_def invalid_header_at_def hl_inv_def
          name_at_frame value_frame value_byte_def split: if_splits)
  next
    case hl_ignore_line
    then show ?thesis
      using step len by (auto simp: hl_step_def hl_do_ignore_line_def hl_inv_def split: if_splits)
  next
    case hl_almost_done
    then show ?thesis
      using inv step len name_at_more value_at_more
      by (auto simp: hl_step_def hl_do_almost_done_def hl_inv_def split: if_splits)
  next
    case hl_header_almost_done
    then show ?thesis
      using step by (simp add: hl_step_def hl_do_header_almost_done_def split: if_splits)
  qed
qed

interpretation header_line_inv: parser_with_invariant "hl_step us" hl_finish "hl_inv us"
  by unfold_locales (rule hl_inv_step)

text \<open>An accepted line: a name of name bytes, its validity, hash and lower-case copy, and behind it a value
  without a carriage return, line feed or zero byte and without spaces around it.\<close>

definition accepted_header :: "bool \<Rightarrow> bytes \<Rightarrow> nat \<Rightarrow> header_line \<Rightarrow> bool" where
  "accepted_header us buf pos r \<longleftrightarrow>
     (\<exists>s e v h. header_name_start r = Some s \<and> header_name_end r = Some e \<and> header_start r = Some v
        \<and> header_end r = Some h \<and> s < e \<and> e \<le> v \<and> v \<le> h \<and> h < pos \<and> pos \<le> length buf
        \<and> name_ok us (slice buf s e) r \<and> list_all value_byte (slice buf v h)
        \<and> (v < h \<longrightarrow> buf ! v \<noteq> CHR '' '' \<and> buf ! (h - 1) \<noteq> CHR '' ''))"

lemma hl_done_step:
  assumes p: "p < length buf" and inv: "hl_inv us buf p r" and step: "hl_step us buf p (buf ! p) r = Done r'"
    and goto: "hl_goto r' = L_done"
  shows "name_at us buf p r' \<and> value_at buf p r'"
proof (cases "hl_state r")
  case hl_name
  then obtain s where s: "header_name_start r = Some s" "s < p" "name_ok us (slice buf s p) r"
    using inv by (auto simp: hl_inv_def)
  then show ?thesis
    using hl_name step
    by (auto simp: hl_step_def hl_do_name_def Let_def invalid_header_at_def name_at_def value_at_def
        name_ok_frame split: if_splits)
next
  case hl_space_before_value
  then show ?thesis
    using inv step by (auto simp: hl_step_def hl_do_space_before_value_def invalid_header_at_def hl_inv_def
        name_at_frame value_at_def split: if_splits)
next
  case hl_value
  then show ?thesis
    using inv step value_at_end [of buf p r p]
    by (auto simp: hl_step_def hl_do_value_def invalid_header_at_def hl_inv_def name_at_frame value_frame
        split: if_splits)
qed (use assms in \<open>auto simp: hl_step_def hl_state_defs hl_inv_def name_at_frame value_frame split: if_splits\<close>)

text \<open>C10: no header injection.  A header line that is accepted, from a fresh state, has a name of visible
  bytes without a colon and a value without CR, LF and NUL, where the record says; \<open>invalid_header\<close> says
  exactly whether the name has another byte than letters, digits, \<open>-\<close> and allowed underscores, and the
  hash and the lower-case copy that the handlers are looked up by are those of the name.\<close>

theorem header_line_well_formed:
  assumes "hl_state r = hl_start" and "length (lowcase_header r) = 32" and "pos \<le> length buf"
  shows "case ngx_http_parse_header_line buf pos r us of (rc, r', pos') \<Rightarrow>
    if rc = NGX_OK then accepted_header us buf (the pos') r' else True"
proof -
  have init: "hl_inv us buf pos r" using assms by (simp add: hl_inv_def)
  have "accepted_header us buf (the pos') r'"
    if run: "ngx_http_parse_header_line buf pos r us = (NGX_OK, r', pos')" for r' pos'
  proof (cases "parse_loop (hl_step us buf) pos (drop pos buf) r")
    case (Exhausted p r1)
    then show ?thesis
      using run by (simp add: ngx_http_parse_header_line_def run_parser_def code_const)
  next
    case (GotoDone q r1)
    from header_line_inv.done_inv [OF assms(3) init GotoDone] obtain r0 where
      q: "q < length buf" "hl_inv us buf q r0" "hl_step us buf q (buf ! q) r0 = Done r1"
      by blast
    from run GotoDone have l: "hl_goto r1 = L_done" "r' = r1\<lparr>hl_state := hl_start\<rparr>" "pos' = Some (Suc q)"
      by (auto simp: ngx_http_parse_header_line_def run_parser_def hl_finish_def code_const
          split: hl_label.splits)
    from hl_done_step [OF q l(1)] show ?thesis
      using l q(1) by (fastforce simp: accepted_header_def name_at_def value_at_def name_ok_frame)
  next
    case (Returned rc r1)
    have "rc \<noteq> NGX_OK" if "hl_step us buf p ch s = Return rc s'" for p ch s s'
      using that by (auto simp: hl_step_def hl_state_defs code_const split: hl_sw.splits if_splits)
    moreover have "ends_in (hl_inv us buf) (hl_step us buf) pos (drop pos buf) (Returned rc r1)"
      using header_line_inv.loop_inv [OF assms(3) init] Returned by simp
    ultimately have "rc \<noteq> NGX_OK" by (auto simp: ends_in_def)
    then show ?thesis
      using run Returned by (simp add: ngx_http_parse_header_line_def run_parser_def)
  qed
  then show ?thesis by (auto split: prod.splits)
qed

text \<open>The state before the first header line.\<close>

definition header_init :: header_line where
  "header_init =
     \<lparr>hl_state = hl_start, hl_goto = L_done, header_hash = 0, lowcase_index = 0,
      lowcase_header = replicate 32 NUL, header_name_start = None, header_name_end = None,
      header_start = None, header_end = None, invalid_header = False, upstream = False\<rparr>"

theorem header_line_well_formed_witness:
  "case ngx_http_parse_header_line (''Host:  a b '' @ [CR, LF]) 0 header_init False of (rc, r', pos') \<Rightarrow>
    if rc = NGX_OK then accepted_header False (''Host:  a b '' @ [CR, LF]) (the pos') r' else True"
  by (rule header_line_well_formed) (simp_all add: header_init_def)

end
