(* ===== verification/HttpUri.thy ===== *)
theory HttpUri
  imports HttpRequestLine
begin

text \<open>
  The URI parsers of \<open>src/http/ngx_http_parse.c\<close>.  \<open>ngx_http_parse_uri\<close> checks a URI and notes
  whether it needs to be rewritten; \<open>ngx_http_parse_complex_uri\<close> rewrites it: it decodes \<open>%\<close>
  escapes, resolves \<open>.\<close> and \<open>..\<close> segments, merges slashes and cuts off the fragment and the
  arguments.  Every access rule and every file name is applied to its result, so what it lets through
  decides whether a client can leave the document root.

  The output pointer \<open>u\<close> with the bytes behind it is the list \<open>uri\<close> of what has been written, so that
  \<open>*u++ = ch\<close> appends, \<open>u--\<close> drops the last byte, and \<open>r->uri_ext = u + 1\<close> is an index into it.
\<close>

section \<open>The check\<close>

datatype uri_sw = us_start | us_after_slash_in_uri | us_check_uri | us_uri

text \<open>The body of the loop: the next state and the request, or \<open>None\<close> for \<open>return NGX_ERROR\<close>.\<close>

definition pu_after_slash_in_uri :: "nat \<Rightarrow> char \<Rightarrow> request_line \<Rightarrow> (uri_sw \<times> request_line) option" where
  "pu_after_slash_in_uri p ch r =
     (if is_usual ch then Some (us_check_uri, r)
      else if ch = CHR ''.'' then Some (us_uri, r\<lparr>complex_uri := True\<rparr>)
      else if ch = CHR ''%'' then Some (us_uri, r\<lparr>quoted_uri := True\<rparr>)
      else if ch = CHR ''/'' then Some (us_uri, r\<lparr>complex_uri := True\<rparr>)
      else if ch = CHR ''?'' then Some (us_uri, r\<lparr>args_start := Some (p + 1)\<rparr>)
      else if ch = CHR ''#'' then Some (us_uri, r\<lparr>complex_uri := True\<rparr>)
      else if ch = CHR ''+'' then Some (us_after_slash_in_uri, r\<lparr>plus_in_uri := True\<rparr>)
      else if ord ch \<le> 0x20 \<or> ord ch = 0x7f then None
      else Some (us_check_uri, r))"

definition pu_check_uri :: "nat \<Rightarrow> char \<Rightarrow> request_line \<Rightarrow> (uri_sw \<times> request_line) option" where
  "pu_check_uri p ch r =
     (if is_usual ch then Some (us_check_uri, r)
      else if ch = CHR ''/'' then Some (us_after_slash_in_uri, r\<lparr>uri_ext := None\<rparr>)
      else if ch = CHR ''.'' then Some (us_check_uri, r\<lparr>uri_ext := Some (p + 1)\<rparr>)
      else if ch = CHR ''%'' then Some (us_uri, r\<lparr>quoted_uri := True\<rparr>)
      else if ch = CHR ''?'' then Some (us_uri, r\<lparr>args_start := Some (p + 1)\<rparr>)
      else if ch = CHR ''#'' then Some (us_uri, r\<lparr>complex_uri := True\<rparr>)
      else if ch = CHR ''+'' then Some (us_check_uri, r\<lparr>plus_in_uri := True\<rparr>)
      else if ord ch \<le> 0x20 \<or> ord ch = 0x7f then None
      else Some (us_check_uri, r))"

definition pu_uri :: "char \<Rightarrow> request_line \<Rightarrow> (uri_sw \<times> request_line) option" where
  "pu_uri ch r =
     (if is_usual ch then Some (us_uri, r)
      else if ch = CHR ''#'' then Some (us_uri, r\<lparr>complex_uri := True\<rparr>)
      else if ord ch \<le> 0x20 \<or> ord ch = 0x7f then None
      else Some (us_uri, r))"

fun pu_step :: "uri_sw \<Rightarrow> nat \<Rightarrow> char \<Rightarrow> request_line \<Rightarrow> (uri_sw \<times> request_line) option" where
  "pu_step us_start p ch r = (if ch \<noteq> CHR ''/'' then None else Some (us_after_slash_in_uri, r))"
| "pu_step us_after_slash_in_uri p ch r = pu_after_slash_in_uri p ch r"
| "pu_step us_check_uri p ch r = pu_check_uri p ch r"
| "pu_step us_uri p ch r = pu_uri ch r"

text \<open>The loop over the bytes from \<open>uri_start\<close> to \<open>uri_end\<close>.\<close>

fun pu_loop :: "uri_sw \<Rightarrow> nat \<Rightarrow> bytes \<Rightarrow> request_line \<Rightarrow> int \<times> request_line" where
  "pu_loop st p [] r = (NGX_OK, r)"
| "pu_loop st p (ch # s) r =
     (case pu_step st p ch r of
        None \<Rightarrow> (NGX_ERROR, r)
      | Some (st', r') \<Rightarrow> pu_loop st' (Suc p) s r')"

definition ngx_http_parse_uri :: "bytes \<Rightarrow> request_line \<Rightarrow> int \<times> request_line" where
  "ngx_http_parse_uri buf r =
     pu_loop us_start (the (uri_start r)) (slice buf (the (uri_start r)) (the (uri_end r))) r"

section \<open>The rewriting\<close>

text \<open>The state of the loop.  \<open>quoted_state\<close> only ever keeps one of the first four states of the code's
  enumeration, the state in which the \<open>%\<close> was met.\<close>

datatype path_sw = sw_usual | sw_slash | sw_dot | sw_dot_dot

datatype complex_sw = Path path_sw | sw_quoted | sw_quoted_second

record complex_request = request_line +
  cu_state :: complex_sw
  quoted_state :: path_sw
  decoded :: nat
  uri :: bytes
  exten :: "bytes option"
  args :: "bytes option"

text \<open>How the body ends: \<open>ch = *p++; break\<close> (\<open>Read\<close>), \<open>break\<close> with a decoded \<open>ch\<close>
  (\<open>Decoded\<close>), \<open>goto args\<close>, \<open>goto done\<close>, or the error.\<close>

datatype 'r cu_outcome = Read 'r | Decoded char 'r | GotoArgs 'r | GotoOk 'r | Invalid 'r

definition put :: "char \<Rightarrow> complex_request \<Rightarrow> complex_request" where
  "put ch r = r\<lparr>uri := uri r @ [ch]\<rparr>"

definition drop_last :: "complex_request \<Rightarrow> complex_request" where
  "drop_last r = r\<lparr>uri := butlast (uri r)\<rparr>"

text \<open>\<open>for ( ;; )\<close> after \<open>u -= 4\<close>: the argument is \<open>u + 1\<close> as an index, the result the final \<open>u\<close>.\<close>

fun back_to_slash :: "bytes \<Rightarrow> nat \<Rightarrow> nat option" where
  "back_to_slash out 0 = None"
| "back_to_slash out (Suc u) = (if out ! u = CHR ''/'' then Some (Suc u) else back_to_slash out u)"

definition cut_parent :: "complex_request \<Rightarrow> complex_request option" where
  "cut_parent r =
     map_option (\<lambda>u. r\<lparr>uri := take u (uri r)\<rparr>) (back_to_slash (uri r) (length (uri r) - 3))"

definition cu_usual :: "nat \<Rightarrow> char \<Rightarrow> complex_request \<Rightarrow> complex_request cu_outcome" where
  "cu_usual p ch r =
     (if is_usual ch then Read (put ch r)
      else if ch = CHR ''/'' then Read (put ch (r\<lparr>uri_ext := None, cu_state := Path sw_slash\<rparr>))
      else if ch = CHR ''%'' then Read (r\<lparr>quoted_state := sw_usual, cu_state := sw_quoted\<rparr>)
      else if ch = CHR ''?'' then GotoArgs (r\<lparr>args_start := Some p\<rparr>)
      else if ch = CHR ''#'' then GotoOk r
      else if ch = CHR ''.'' then Read (put ch (r\<lparr>uri_ext := Some (length (uri r) + 1)\<rparr>))
      else if ch = CHR ''+'' then Read (put ch (r\<lparr>plus_in_uri := True\<rparr>))
      else Read (put ch r))"

definition cu_slash :: "bool \<Rightarrow> nat \<Rightarrow> char \<Rightarrow> complex_request \<Rightarrow> complex_request cu_outcome" where
  "cu_slash merge_slashes p ch r =
     (if is_usual ch then Read (put ch (r\<lparr>cu_state := Path sw_usual\<rparr>))
      else if ch = CHR ''/'' then Read (if \<not> merge_slashes then put ch r else r)
      else if ch = CHR ''.'' then Read (put ch (r\<lparr>cu_state := Path sw_dot\<rparr>))
      else if ch = CHR ''%'' then Read (r\<lparr>quoted_state := sw_slash, cu_state := sw_quoted\<rparr>)
      else if ch = CHR ''?'' then GotoArgs (r\<lparr>args_start := Some p\<rparr>)
      else if ch = CHR ''#'' then GotoOk r
      else if ch = CHR ''+'' then Read (put ch (r\<lparr>plus_in_uri := True, cu_state := Path sw_usual\<rparr>))
      else Read (put ch (r\<lparr>cu_state := Path sw_usual\<rparr>)))"

definition cu_dot :: "nat \<Rightarrow> char \<Rightarrow> complex_request \<Rightarrow> complex_request cu_outcome" where
  "cu_dot p ch r =
     (if is_usual ch then Read (put ch (r\<lparr>cu_state := Path sw_usual\<rparr>))
      else if ch = CHR ''/'' then Read (drop_last (r\<lparr>cu_state := Path sw_slash\<rparr>))
      else if ch = CHR ''.'' then Read (put ch (r\<lparr>cu_state := Path sw_dot_dot\<rparr>))
      else if ch = CHR ''%'' then Read (r\<lparr>quoted_state := sw_dot, cu_state := sw_quoted\<rparr>)
      else if ch = CHR ''?'' then GotoArgs (drop_last (r\<lparr>args_start := Some p\<rparr>))
      else if ch = CHR ''#'' then GotoOk (drop_last r)
      else if ch = CHR ''+'' then Read (put ch (r\<lparr>plus_in_uri := True, cu_state := Path sw_usual\<rparr>))
      else Read (put ch (r\<lparr>cu_state := Path sw_usual\<rparr>)))"

definition cu_dot_dot :: "nat \<Rightarrow> char \<Rightarrow> complex_request \<Rightarrow> complex_request cu_outcome" where
  "cu_dot_dot p ch r =
     (if is_usual ch then Read (put ch (r\<lparr>cu_state := Path sw_usual\<rparr>))
      else if ch = CHR ''/'' \<or> ch = CHR ''?'' \<or> ch = CHR ''#'' then
        (case cut_parent r of
           None \<Rightarrow> Invalid r
         | Some r' \<Rightarrow>
             if ch = CHR ''?'' then GotoArgs (r'\<lparr>args_start := Some p\<rparr>)
             else if ch = CHR ''#'' then GotoOk r'
             else Read (r'\<lparr>cu_state := Path sw_slash\<rparr>))
      else if ch = CHR ''%'' then Read (r\<lparr>quoted_state := sw_dot_dot, cu_state := sw_quoted\<rparr>)
      else if ch = CHR ''+'' then Read (put ch (r\<lparr>plus_in_uri := True, cu_state := Path sw_usual\<rparr>))
      else Read (put ch (r\<lparr>cu_state := Path sw_usual\<rparr>)))"

definition cu_quoted :: "char \<Rightarrow> complex_request \<Rightarrow> complex_request cu_outcome" where
  "cu_quoted ch r =
     (let r = r\<lparr>quoted_uri := True\<rparr>
      in if is_digit ch then Read (r\<lparr>decoded := ord ch - 48, cu_state := sw_quoted_second\<rparr>)
         else if is_hex_letter ch
         then Read (r\<lparr>decoded := ord (or_0x20 ch) - 97 + 10, cu_state := sw_quoted_second\<rparr>)
         else Invalid r)"

definition cu_quoted_second :: "char \<Rightarrow> complex_request \<Rightarrow> complex_request cu_outcome" where
  "cu_quoted_second ch r =
     (if is_digit ch then
        (let ch = char_of (push_bit 4 (decoded r) + (ord ch - 48))
         in if ch = CHR ''%'' \<or> ch = CHR ''#'' then Read (put ch (r\<lparr>cu_state := Path sw_usual\<rparr>))
            else if ch = NUL then Invalid r
            else Decoded ch (r\<lparr>cu_state := Path (quoted_state r)\<rparr>))
      else if is_hex_letter ch then
        (let ch = char_of (push_bit 4 (decoded r) + (ord (or_0x20 ch) - 97) + 10)
         in if ch = CHR ''?'' then Read (put ch (r\<lparr>cu_state := Path sw_usual\<rparr>))
            else
              let r = (if ch = CHR ''+'' then r\<lparr>plus_in_uri := True\<rparr> else r)
              in Decoded ch (r\<lparr>cu_state := Path (quoted_state r)\<rparr>))
      else Invalid r)"

definition cu_step :: "bool \<Rightarrow> nat \<Rightarrow> char \<Rightarrow> complex_request \<Rightarrow> complex_request cu_outcome" where
  "cu_step merge_slashes p ch r =
     (case cu_state r of
        Path sw_usual \<Rightarrow> cu_usual p ch r
      | Path sw_slash \<Rightarrow> cu_slash merge_slashes p ch r
      | Path sw_dot \<Rightarrow> cu_dot p ch r
      | Path sw_dot_dot \<Rightarrow> cu_dot_dot p ch r
      | sw_quoted \<Rightarrow> cu_quoted ch r
      | sw_quoted_second \<Rightarrow> cu_quoted_second ch r)"

lemma cu_step_decoded:
  "cu_step ms p ch r = Decoded ch' r' \<Longrightarrow> cu_state r = sw_quoted_second \<and> cu_state r' \<noteq> sw_quoted_second"
  by (auto simp: cu_step_def cu_usual_def cu_slash_def cu_dot_def cu_dot_dot_def cu_quoted_def
      cu_quoted_second_def Let_def split: complex_sw.splits path_sw.splits if_splits option.splits)

text \<open>The loop.  \<open>ch\<close> is the byte before \<open>p\<close> or a decoded one; the byte at \<open>uri_end\<close> is read, never used.\<close>

datatype 'r cu_end = CuLast 'r | CuArgs nat 'r | CuDone 'r | CuInvalid 'r

function cu_loop :: "bool \<Rightarrow> bytes \<Rightarrow> nat \<Rightarrow> nat \<Rightarrow> char \<Rightarrow> complex_request \<Rightarrow> complex_request cu_end" where
  "cu_loop merge_slashes buf uend p ch r =
     (if p \<le> uend then
        (case cu_step merge_slashes p ch r of
           Read r' \<Rightarrow> cu_loop merge_slashes buf uend (Suc p) (buf ! p) r'
         | Decoded ch' r' \<Rightarrow> cu_loop merge_slashes buf uend p ch' r'
         | GotoArgs r' \<Rightarrow> CuArgs p r'
         | GotoOk r' \<Rightarrow> CuDone r'
         | Invalid r' \<Rightarrow> CuInvalid r')
      else CuLast r)"
  by pat_completeness auto
termination
  by (relation "measure (\<lambda>(ms, buf, uend, p, ch, r).
        2 * (Suc uend - p) + (if cu_state r = sw_quoted_second then 1 else 0))")
    (auto dest: cu_step_decoded)

declare cu_loop.simps [simp del]

text \<open>Label \<open>done\<close>, and the part that it shares with label \<open>args\<close>.\<close>

definition cu_done :: "complex_request \<Rightarrow> int \<times> complex_request" where
  "cu_done r =
     (let r = (case uri_ext r of None \<Rightarrow> r | Some e \<Rightarrow> r\<lparr>exten := Some (drop e (uri r))\<rparr>)
      in (NGX_OK, r\<lparr>uri_ext := None\<rparr>))"

text \<open>Label \<open>args\<close>: a \<open>#\<close> ends the arguments.\<close>

definition cu_args :: "bytes \<Rightarrow> nat \<Rightarrow> nat \<Rightarrow> complex_request \<Rightarrow> int \<times> complex_request" where
  "cu_args buf uend p r =
     (let rest = slice buf p uend;
          before = takeWhile (\<lambda>c. c \<noteq> CHR ''#'') rest
      in cu_done (if CHR ''#'' \<in> set rest
                  then r\<lparr>args := Some before, args_start := None\<rparr> else r))"

text \<open>After the loop.\<close>

definition cu_last :: "complex_request \<Rightarrow> int \<times> complex_request" where
  "cu_last r =
     (if cu_state r = sw_quoted \<or> cu_state r = sw_quoted_second
      then (NGX_HTTP_PARSE_INVALID_REQUEST, r)
      else if cu_state r = Path sw_dot then cu_done (drop_last r)
      else if cu_state r = Path sw_dot_dot
      then (case cut_parent r of None \<Rightarrow> (NGX_HTTP_PARSE_INVALID_REQUEST, r) | Some r' \<Rightarrow> cu_done r')
      else cu_done r)"

definition ngx_http_parse_complex_uri ::
  "bytes \<Rightarrow> complex_request \<Rightarrow> bool \<Rightarrow> int \<times> complex_request" where
  "ngx_http_parse_complex_uri buf r merge_slashes =
     (let p = the (uri_start r);
          uend = the (uri_end r);
          r = r\<lparr>cu_state := Path sw_usual, uri_ext := None, args_start := None,
                uri := (if empty_path_in_uri r then ''/'' else [])\<rparr>
      in case cu_loop merge_slashes buf uend (Suc p) (buf ! p) r of
           CuLast r' \<Rightarrow> cu_last r'
         | CuArgs p' r' \<Rightarrow> cu_args buf uend p' r'
         | CuDone r' \<Rightarrow> cu_done r'
         | CuInvalid r' \<Rightarrow> (NGX_HTTP_PARSE_INVALID_REQUEST, r'))"

section \<open>Segments\<close>

text \<open>The segments of a path between its slashes, and the paths without a \<open>.\<close> or \<open>..\<close> segment.\<close>

fun segments :: "bytes \<Rightarrow> bytes list" where
  "segments [] = [[]]"
| "segments (c # s) =
     (if c = CHR ''/'' then [] # segments s
      else (c # hd (segments s)) # tl (segments s))"

definition dot_free :: "bytes \<Rightarrow> bool" where
  "dot_free s \<longleftrightarrow> list_all (\<lambda>x. x \<noteq> ''.'' \<and> x \<noteq> ''..'') (segments s)"

lemma segments_nonempty [simp]: "segments s \<noteq> []"
  by (cases s) auto

lemma segments_snoc_slash: "segments (s @ [CHR ''/'']) = segments s @ [[]]"
  by (induction s) auto

lemma segments_snoc: "c \<noteq> CHR ''/'' \<Longrightarrow>
    segments (s @ [c]) = butlast (segments s) @ [last (segments s) @ [c]]"
proof (induction s)
  case (Cons x s)
  obtain y ys where y: "segments s = y # ys" by (meson list.exhaust segments_nonempty)
  then have "segments (s @ [c]) = butlast (y # ys) @ [last (y # ys) @ [c]]"
    using Cons by simp
  then show ?case using y by (cases ys) auto
qed simp

lemma segments_last_slash: "s \<noteq> [] \<Longrightarrow> last s = CHR ''/'' \<Longrightarrow> last (segments s) = []"
  by (metis append_butlast_last_id last_snoc segments_snoc_slash)

lemma segments_last_other: "s \<noteq> [] \<Longrightarrow> last s \<noteq> CHR ''/'' \<Longrightarrow> last (segments s) \<noteq> []"
  by (metis append_butlast_last_id last_snoc segments_snoc snoc_eq_iff_butlast)

lemma dot_free_slash: "dot_free (s @ [CHR ''/'']) \<longleftrightarrow> dot_free s"
  by (simp add: dot_free_def segments_snoc_slash)

lemma segments_prefix: "segments (x @ CHR ''/'' # y) = segments x @ segments y"
  by (induction x) auto

lemma dot_free_prefix: "dot_free (x @ CHR ''/'' # y) \<Longrightarrow> dot_free (x @ [CHR ''/''])"
  by (simp add: dot_free_def segments_prefix)

text \<open>Appending a byte: to a segment that has begun, and as the beginning of one.\<close>

lemma dot_free_snoc:
  assumes "c \<noteq> CHR ''/''" and "dot_free s" and "last (segments s) \<noteq> []"
  shows "dot_free (s @ [c])"
proof -
  obtain b l where s: "segments s = b @ [l]"
    by (metis append_butlast_last_id segments_nonempty)
  have "l \<noteq> []" "l \<noteq> ''.''" "l \<noteq> ''..''"
    using assms(2,3) s by (simp_all add: dot_free_def)
  then have "l @ [c] \<noteq> ''.'' \<and> l @ [c] \<noteq> ''..''"
    by (cases l) (auto simp: append_eq_Cons_conv)
  then show ?thesis
    using assms(2) s by (simp add: dot_free_def segments_snoc [OF assms(1)])
qed

lemma dot_free_begin:
  assumes "s \<noteq> []" and "last s = CHR ''/''" and "dot_free s" and "CHR ''/'' \<notin> set w"
    and "w \<noteq> ''.''" and "w \<noteq> ''..''"
  shows "dot_free (s @ w)"
proof -
  have "segments w = [w]" using assms(4) by (induction w) auto
  then have "segments (butlast s @ CHR ''/'' # w) = segments (butlast s) @ [w]"
    by (simp add: segments_prefix)
  moreover have "s = butlast s @ [CHR ''/'']" using assms(1,2) by (metis append_butlast_last_id)
  then have "dot_free (butlast s)" using assms(3) dot_free_slash by metis
  ultimately have "dot_free (butlast s @ CHR ''/'' # w)"
    using assms(5,6) by (simp add: dot_free_def)
  moreover have "butlast s @ CHR ''/'' # w = s @ w"
    using \<open>s = butlast s @ [CHR ''/'']\<close> by (metis append_Cons append_Nil append_assoc)
  ultimately show ?thesis by simp
qed

section \<open>The invariant of the rewriting\<close>

definition slash_out :: "bytes \<Rightarrow> bool" where
  "slash_out out \<longleftrightarrow> out \<noteq> [] \<and> hd out = CHR ''/'' \<and> last out = CHR ''/'' \<and> dot_free out"

fun path_inv :: "path_sw \<Rightarrow> bytes \<Rightarrow> bool" where
  "path_inv sw_usual out \<longleftrightarrow> out \<noteq> [] \<and> hd out = CHR ''/'' \<and> last out \<noteq> CHR ''/'' \<and> dot_free out"
| "path_inv sw_slash out \<longleftrightarrow> slash_out out"
| "path_inv sw_dot out \<longleftrightarrow> (\<exists>s. out = s @ ''.'' \<and> slash_out s)"
| "path_inv sw_dot_dot out \<longleftrightarrow> (\<exists>s. out = s @ ''..'' \<and> slash_out s)"

definition path_of :: "complex_request \<Rightarrow> path_sw" where
  "path_of r = (case cu_state r of Path s \<Rightarrow> s | _ \<Rightarrow> quoted_state r)"

text \<open>The extension of a segment: what follows its last dot.  The byte that ends the dots at its beginning does not count
  for it, and neither do the first two of these dots: \<open>.htaccess\<close> has no extension.\<close>

definition segment_extension :: "bytes \<Rightarrow> bytes option" where
  "segment_extension seg =
     (let rest = drop (Suc (min 2 (length (takeWhile (\<lambda>c. c = CHR ''.'') seg)))) seg
      in if CHR ''.'' \<in> set rest then Some (rev (takeWhile (\<lambda>c. c \<noteq> CHR ''.'') (rev rest))) else None)"

definition path_extension :: "bytes \<Rightarrow> bytes option" where
  "path_extension out = segment_extension (last (segments out))"

lemma segment_extension_dots [simp]:
  "segment_extension [] = None" "segment_extension [c] = None" "segment_extension [CHR ''.'', c] = None"
  "segment_extension [CHR ''.'', CHR ''.'', c] = None"
  by (simp_all add: segment_extension_def)

text \<open>Once the segment is none of the beginnings \<open>.\<close> and \<open>..\<close>, a dot begins an extension and another byte belongs to it.\<close>

lemma segment_extension_snoc:
  assumes "seg \<noteq> []" and "seg \<noteq> ''.''" and "seg \<noteq> ''..''"
  shows "segment_extension (seg @ [c]) =
    (if c = CHR ''.'' then Some [] else map_option (\<lambda>x. x @ [c]) (segment_extension seg))"
proof -
  let ?d = "\<lambda>s. min 2 (length (takeWhile (\<lambda>c. c = CHR ''.'') s))"
  obtain a s1 where s: "seg = a # s1" using assms(1) by (cases seg) auto
  have "?d (seg @ [c]) = ?d seg \<and> Suc (?d seg) \<le> length seg"
  proof (cases s1)
    case Nil
    then show ?thesis using s assms(2) by auto
  next
    case (Cons b s2)
    then show ?thesis using s assms(3) by (cases s2) auto
  qed
  then show ?thesis by (simp add: segment_extension_def Let_def)
qed

lemma behind_last: "c \<in> set s \<Longrightarrow> \<exists>stem. s = stem @ c # rev (takeWhile (\<lambda>x. x \<noteq> c) (rev s))"
proof -
  assume "c \<in> set s"
  then obtain ys zs where s: "s = ys @ c # zs" "c \<notin> set zs" by (meson split_list_last)
  then have "takeWhile (\<lambda>x. x \<noteq> c) (rev zs) = rev zs" by (auto simp: takeWhile_eq_all_conv)
  moreover have "takeWhile (\<lambda>x. x \<noteq> c) (rev zs @ c # rev ys) = rev zs"
    using s(2) by (subst takeWhile_append2) auto
  ultimately show ?thesis using s(1) by auto
qed

lemma segment_extension_suffix: "segment_extension seg = Some x \<Longrightarrow> \<exists>stem. seg = stem @ CHR ''.'' # x"
proof -
  assume x: "segment_extension seg = Some x"
  define n where "n = Suc (min 2 (length (takeWhile (\<lambda>c. c = CHR ''.'') seg)))"
  have r: "x = rev (takeWhile (\<lambda>c. c \<noteq> CHR ''.'') (rev (drop n seg)))" "CHR ''.'' \<in> set (drop n seg)"
    using x by (simp_all add: segment_extension_def n_def Let_def split: if_splits)
  obtain stem where "drop n seg = stem @ CHR ''.'' # x" using behind_last [OF r(2)] r(1) by blast
  then have "take n seg @ drop n seg = (take n seg @ stem) @ CHR ''.'' # x" by simp
  then show ?thesis unfolding append_take_drop_id by blast
qed

lemma last_segment_suffix: "\<exists>stem. s = stem @ last (segments s)"
proof (induction s)
  case (Cons c s)
  then obtain stem where "s = stem @ last (segments s)" by blast
  moreover obtain y ys where y: "segments s = y # ys" by (meson list.exhaust segments_nonempty)
  moreover have "\<And>y. segments s = [y] \<Longrightarrow> y = s"
  proof (induction s)
    case (Cons a s)
    then show ?case by (cases "segments s") (auto split: if_splits)
  qed simp
  ultimately show ?case by (cases ys) (auto intro: exI [of _ "c # stem"])
qed simp

lemma last_segment_no_slash: "CHR ''/'' \<notin> set (last (segments s))"
proof -
  have "x \<in> set (segments s) \<Longrightarrow> CHR ''/'' \<notin> set x" for x
  proof (induction s arbitrary: x)
    case (Cons c s)
    then show ?case by (cases "segments s") (auto split: if_splits)
  qed simp
  then show ?thesis by simp
qed

lemma path_extension_suffix:
  assumes "path_extension out = Some x"
  obtains stem where "out = stem @ ''.'' @ x" and "CHR ''/'' \<notin> set x" and "drop (length out - length x) out = x"
proof -
  obtain a b where ab: "last (segments out) = a @ CHR ''.'' # x" "out = b @ last (segments out)"
    using segment_extension_suffix last_segment_suffix assms unfolding path_extension_def by blast
  then have out: "out = (b @ a) @ ''.'' @ x" by simp
  moreover have "CHR ''/'' \<notin> set x" using last_segment_no_slash [of out] ab(1) by simp
  moreover have "drop (length out - length x) out = x" by (subst (2) out, subst out) simp
  ultimately show thesis using that by blast
qed

text \<open>The pointer \<open>uri_ext\<close> is at the extension of the path written so far.\<close>

definition ext_inv :: "complex_request \<Rightarrow> bool" where
  "ext_inv r \<longleftrightarrow> uri_ext r = map_option (\<lambda>x. length (uri r) - length x) (path_extension (uri r))"

definition cu_inv :: "complex_request \<Rightarrow> bool" where
  "cu_inv r \<longleftrightarrow> path_inv (path_of r) (uri r) \<and> ext_inv r"

lemma put_usual:
  assumes "path_inv s out" and "c \<noteq> CHR ''/''" and "s = sw_slash \<or> s = sw_dot \<Longrightarrow> c \<noteq> CHR ''.''"
  shows "path_inv sw_usual (out @ [c])"
proof (cases s)
  case sw_usual
  then show ?thesis
    using assms(1,2) segments_last_other [of out] by (auto intro!: dot_free_snoc simp: hd_append)
next
  case sw_slash
  then show ?thesis
    using assms dot_free_begin [of out "[c]"] by (auto simp: slash_out_def hd_append)
next
  case sw_dot
  then obtain b where "out = b @ ''.''" "slash_out b" using assms(1) by auto
  then show ?thesis
    using assms sw_dot dot_free_begin [of b "''.'' @ [c]"] by (auto simp: slash_out_def hd_append)
next
  case sw_dot_dot
  then obtain b where "out = b @ ''..''" "slash_out b" using assms(1) by auto
  then show ?thesis
    using assms sw_dot_dot dot_free_begin [of b "''..'' @ [c]"] by (auto simp: slash_out_def hd_append)
qed

lemma put_slash: "path_inv s out \<Longrightarrow> s = sw_usual \<or> s = sw_slash \<Longrightarrow> slash_out (out @ ''/'')"
  by (auto simp: slash_out_def dot_free_slash hd_append)

text \<open>Going back behind the parent segment.\<close>

lemma back_to_slash_Some:
  "back_to_slash out n = Some u \<Longrightarrow> 0 < u \<and> u \<le> n \<and> out ! (u - 1) = CHR ''/''"
  by (induction n) (auto split: if_splits)

lemma cut_parent_slash:
  assumes "path_inv sw_dot_dot (uri r)" and "cut_parent r = Some r'"
  shows "slash_out (uri r') \<and> length (uri r') + 3 \<le> length (uri r)
    \<and> (\<exists>out. r' = r\<lparr>uri := out\<rparr>)"
proof -
  obtain s where s: "uri r = s @ ''..''" "slash_out s" using assms(1) by auto
  obtain u where u: "back_to_slash (uri r) (length (uri r) - 3) = Some u" and r': "r' = r\<lparr>uri := take u (uri r)\<rparr>"
    using assms(2) by (auto simp: cut_parent_def)
  have ub: "0 < u" "u \<le> length s - 1" "uri r ! (u - 1) = CHR ''/''"
    using back_to_slash_Some [OF u] s(1) by auto
  have "s \<noteq> []" using s(2) by (simp add: slash_out_def)
  then have ul: "u - 1 < length s" using ub by (cases s) auto
  then have at: "s ! (u - 1) = CHR ''/''" using ub(3) s(1) by (simp add: nth_append)
  have "s = take (u - 1) s @ CHR ''/'' # drop u s"
    using id_take_nth_drop [OF ul] at ub(1) by simp
  moreover have "dot_free s" using s(2) by (simp add: slash_out_def)
  ultimately have "dot_free (take (u - 1) s @ [CHR ''/''])"
    using dot_free_prefix [of "take (u - 1) s" "drop u s"] by simp
  moreover have tk: "take u s = take (u - 1) s @ [CHR ''/'']"
    using take_Suc_conv_app_nth [OF ul] ub(1) at by simp
  moreover have "hd (take u s) = CHR ''/''"
    using s(2) ub(1) by (simp add: slash_out_def)
  moreover have "uri r' = take u s"
    using r' s(1) ub(2) by simp
  ultimately have "slash_out (uri r')" by (simp add: slash_out_def)
  moreover have "length (uri r') + 3 \<le> length (uri r)"
    using r' s(1) ub(2) \<open>s \<noteq> []\<close> by (cases s) auto
  ultimately show ?thesis using r' by auto
qed

text \<open>Every iteration keeps the invariant.\<close>

lemma not_usual_chars: "\<not> is_usual (CHR ''/'')" "\<not> is_usual (CHR ''.'')" "\<not> is_usual (CHR ''?'')"
    "\<not> is_usual (CHR ''%'')" "\<not> is_usual (CHR ''#'')" "\<not> is_usual (CHR ''+'')"
  by code_simp+

lemma usual_not: "is_usual c \<Longrightarrow> c \<noteq> CHR ''/'' \<and> c \<noteq> CHR ''.''"
  using not_usual_chars by auto

definition out_ok :: "complex_request \<Rightarrow> bool" where
  "out_ok r \<longleftrightarrow> uri r \<noteq> [] \<and> hd (uri r) = CHR ''/'' \<and> dot_free (uri r)
     \<and> ext_inv r"

lemma path_of_simps [simp]:
  "path_of (put c r) = path_of r"
  "path_of (r\<lparr>cu_state := Path s\<rparr>) = s"
  "path_of (r\<lparr>quoted_state := s, cu_state := sw_quoted\<rparr>) = s"
  "path_of (r\<lparr>uri_ext := e\<rparr>) = path_of r"
  "path_of (r\<lparr>plus_in_uri := b\<rparr>) = path_of r"
  "path_of (r\<lparr>uri := out\<rparr>) = path_of r"
  "path_of (r\<lparr>args_start := q\<rparr>) = path_of r"
  by (simp_all add: path_of_def put_def split: complex_sw.split)

lemma put_uri [simp]: "uri (put c r) = uri r @ [c]" "uri_ext (put c r) = uri_ext r"
  by (simp_all add: put_def)

lemma last_segment_snoc: "c \<noteq> CHR ''/'' \<Longrightarrow> last (segments (s @ [c])) = last (segments s) @ [c]"
  by (simp add: segments_snoc)

lemma slash_last_segment: "slash_out out \<Longrightarrow> last (segments out) = []"
  by (simp add: slash_out_def segments_last_slash)

lemma path_extension_slash: "slash_out out \<Longrightarrow> path_extension out = None"
  by (simp add: path_extension_def slash_last_segment)

lemma path_extension_slash_end [simp]: "path_extension (s @ ''/'') = None" "path_extension ''/'' = None" "path_extension ''//'' = None"
  by (simp_all add: path_extension_def segments_snoc_slash)

lemma path_extension_begin:
  assumes "slash_out s" and "CHR ''/'' \<notin> set [c, d, e]"
  shows "path_extension (s @ [c]) = None" and "path_extension (s @ [CHR ''.'', d]) = None"
    and "path_extension (s @ [CHR ''.'', CHR ''.'', e]) = None"
proof -
  have "last (segments (s @ [c])) = [c]" using slash_last_segment [OF assms(1)] assms(2) last_segment_snoc [of c s] by auto
  moreover have "last (segments (s @ [CHR ''.'', d])) = [CHR ''.'', d]"
    using slash_last_segment [OF assms(1)] assms(2) last_segment_snoc [of "CHR ''.''" s]
      last_segment_snoc [of d "s @ ''.''"] by auto
  moreover have "last (segments (s @ [CHR ''.'', CHR ''.'', e])) = [CHR ''.'', CHR ''.'', e]"
    using slash_last_segment [OF assms(1)] assms(2) last_segment_snoc [of "CHR ''.''" s]
      last_segment_snoc [of "CHR ''.''" "s @ ''.''"] last_segment_snoc [of e "s @ ''..''"] by auto
  ultimately show "path_extension (s @ [c]) = None" "path_extension (s @ [CHR ''.'', d]) = None"
    "path_extension (s @ [CHR ''.'', CHR ''.'', e]) = None"
    by (simp_all add: path_extension_def)
qed

lemma path_extension_usual:
  assumes "path_inv sw_usual out" and "c \<noteq> CHR ''/''"
  shows "path_extension (out @ [c]) = (if c = CHR ''.'' then Some [] else map_option (\<lambda>x. x @ [c]) (path_extension out))"
proof -
  have "last (segments out) \<in> set (segments out)" by simp
  then have "last (segments out) \<noteq> ''.''" "last (segments out) \<noteq> ''..''"
    using assms(1) unfolding path_inv.simps dot_free_def list_all_iff by blast+
  moreover have "last (segments out) \<noteq> []" using assms(1) segments_last_other by simp
  ultimately show ?thesis
    unfolding path_extension_def last_segment_snoc [OF assms(2)] by (intro segment_extension_snoc)
qed

lemma path_extension_dots: "slash_out s \<Longrightarrow> path_extension (s @ ''.'') = None \<and> path_extension (s @ ''..'') = None"
  using path_extension_begin(1) [of s "CHR ''.''" NUL NUL] path_extension_begin(2) [of s NUL "CHR ''.''" NUL] by simp

lemma slash_out_ok: "slash_out (uri r) \<Longrightarrow> uri_ext r = None \<Longrightarrow> ext_inv r \<and> out_ok r"
  by (simp add: ext_inv_def out_ok_def path_extension_slash) (simp add: slash_out_def)

lemma ext_None:
  assumes "cu_inv r" and "path_of r \<noteq> sw_usual"
  shows "uri_ext r = None" and "path_extension (uri r) = None"
proof -
  have p: "path_inv (path_of r) (uri r)" using assms(1) by (simp add: cu_inv_def)
  show n: "path_extension (uri r) = None"
  proof (cases "path_of r")
    case sw_usual
    then show ?thesis using assms(2) by simp
  next
    case sw_slash
    then show ?thesis using p path_extension_slash by simp
  next
    case sw_dot
    then show ?thesis using p path_extension_begin(1) [of _ "CHR ''.''" NUL NUL] by auto
  next
    case sw_dot_dot
    then show ?thesis using p path_extension_begin(2) [of _ NUL "CHR ''.''" NUL] by auto
  qed
  then show "uri_ext r = None" using assms(1) by (simp add: cu_inv_def ext_inv_def)
qed

lemma put_extension:
  assumes "cu_inv r" and "c \<noteq> CHR ''/''" and "path_of r = sw_slash \<or> path_of r = sw_dot \<Longrightarrow> c \<noteq> CHR ''.''"
  shows "path_extension (uri r @ [c]) =
    (if path_of r = sw_usual then if c = CHR ''.'' then Some [] else map_option (\<lambda>x. x @ [c]) (path_extension (uri r))
     else None)"
proof -
  have p: "path_inv (path_of r) (uri r)" using assms(1) by (simp add: cu_inv_def)
  show ?thesis
  proof (cases "path_of r")
    case sw_usual
    then show ?thesis using p path_extension_usual [of "uri r" c] assms(2) by (simp del: path_inv.simps)
  next
    case sw_slash
    then show ?thesis using p path_extension_begin(1) [of "uri r" c NUL NUL] assms(2) by simp
  next
    case sw_dot
    then obtain s where "uri r = s @ ''.''" "slash_out s" using p by auto
    then show ?thesis using sw_dot path_extension_begin(2) [of s NUL c NUL] assms(2) by simp
  next
    case sw_dot_dot
    then obtain s where "uri r = s @ ''..''" "slash_out s" using p by auto
    then show ?thesis using sw_dot_dot path_extension_begin(3) [of s NUL NUL c] assms(2) by simp
  qed
qed

text \<open>Writing a byte that leads to \<open>sw_usual\<close>.\<close>

lemma put_inv:
  assumes "cu_inv r" and "c \<noteq> CHR ''/''" and "path_of r = sw_slash \<or> path_of r = sw_dot \<Longrightarrow> c \<noteq> CHR ''.''"
    and "uri r' = uri r @ [c]" and "path_of r' = sw_usual"
    and "uri_ext r' = (if path_of r = sw_usual \<and> c = CHR ''.'' then Some (Suc (length (uri r))) else uri_ext r)"
  shows "cu_inv r'"
proof -
  have "path_inv sw_usual (uri r')"
    using put_usual [of "path_of r" "uri r" c] assms(1-4) by (simp add: cu_inv_def del: path_inv.simps)
  moreover have "ext_inv r'"
    using put_extension [OF assms(1-3)] ext_None(1) [OF assms(1)] assms(1,4,6)
    by (auto simp: cu_inv_def ext_inv_def option.map_comp o_def simp del: path_inv.simps)
  ultimately show ?thesis using assms(5) by (simp add: cu_inv_def del: path_inv.simps)
qed

definition step_ok :: "complex_request cu_outcome \<Rightarrow> bool" where
  "step_ok e \<longleftrightarrow>
     (case e of
        Read r \<Rightarrow> cu_inv r
      | Decoded ch r \<Rightarrow> cu_inv r
      | GotoArgs r \<Rightarrow> out_ok r
      | GotoOk r \<Rightarrow> out_ok r
      | Invalid r \<Rightarrow> True)"

lemma step_ok_usual:
  assumes "cu_inv r" and "cu_state r = Path sw_usual"
  shows "step_ok (cu_usual p ch r)"
proof -
  have st: "path_of r = sw_usual" using assms(2) by (simp add: path_of_def)
  have keep: "cu_inv (put c r')" if "c \<noteq> CHR ''/''" "uri r' = uri r" "path_of r' = sw_usual"
      "uri_ext r' = (if c = CHR ''.'' then Some (Suc (length (uri r))) else uri_ext r)" for r' c
    using put_inv [of r c "put c r'"] assms(1) st that by simp
  have slash: "cu_inv (put (CHR ''/'') (r\<lparr>uri_ext := None, cu_state := Path sw_slash\<rparr>))"
    using put_slash [of sw_usual "uri r"] assms(1) st by (simp add: cu_inv_def ext_inv_def)
  have fin: "out_ok r'" if "uri r' = uri r" "uri_ext r' = uri_ext r" for r'
    using assms(1) st that by (auto simp: out_ok_def cu_inv_def ext_inv_def split: option.splits)
  have quoted: "cu_inv (r\<lparr>quoted_state := sw_usual, cu_state := sw_quoted\<rparr>)"
    using assms(1) st by (auto simp: cu_inv_def ext_inv_def split: option.split)
  show ?thesis
    unfolding cu_usual_def step_ok_def
    using st slash quoted usual_not [of ch] by (auto intro!: keep fin)
qed

lemma step_ok_slash:
  assumes "cu_inv r" and "cu_state r = Path sw_slash"
  shows "step_ok (cu_slash ms p ch r)"
proof -
  have st: "path_of r = sw_slash" using assms(2) by (simp add: path_of_def)
  have ext: "uri_ext r = None" using assms(1) st by (simp add: ext_None(1))
  have keep: "cu_inv (put c r')" if "c \<noteq> CHR ''/''" "c \<noteq> CHR ''.''" "uri r' = uri r"
      "path_of r' = sw_usual" "uri_ext r' = uri_ext r" for r' c
    using put_inv [of r c "put c r'"] assms(1) st that by simp
  have slash: "cu_inv (put (CHR ''/'') r)"
    using put_slash [of sw_slash "uri r"] assms(1) st ext by (simp add: cu_inv_def ext_inv_def)
  have dot: "cu_inv (put (CHR ''.'') (r\<lparr>cu_state := Path sw_dot\<rparr>))"
    using assms(1) st ext path_extension_dots [of "uri r"] by (simp add: cu_inv_def ext_inv_def)
  have fin: "out_ok r'" if "uri r' = uri r" "uri_ext r' = uri_ext r" for r'
    using assms(1) st that ext slash_out_ok [of r'] by (simp add: cu_inv_def)
  have quoted: "cu_inv (r\<lparr>quoted_state := sw_slash, cu_state := sw_quoted\<rparr>)"
    using assms(1) st ext by (auto simp: cu_inv_def ext_inv_def)
  show ?thesis
    unfolding cu_slash_def step_ok_def
    using st slash dot quoted assms(1) usual_not [of ch] by (auto intro!: keep fin)
qed

lemma drop_dot:
  assumes "path_inv sw_dot (uri r)"
  shows "slash_out (uri (drop_last r))"
  using assms by (auto simp: drop_last_def)

lemma drop_last_simps [simp]:
  "uri_ext (drop_last r) = uri_ext r" "path_of (drop_last r) = path_of r"
  by (simp_all add: drop_last_def path_of_def split: complex_sw.split)

lemma step_ok_dot:
  assumes "cu_inv r" and "cu_state r = Path sw_dot"
  shows "step_ok (cu_dot p ch r)"
proof -
  have st: "path_of r = sw_dot" using assms(2) by (simp add: path_of_def)
  have ext: "uri_ext r = None" using assms(1) st by (simp add: ext_None(1))
  have pd: "path_inv sw_dot (uri r)" using assms(1) st by (simp add: cu_inv_def)
  have keep: "cu_inv (put c r')" if "c \<noteq> CHR ''/''" "c \<noteq> CHR ''.''" "uri r' = uri r"
      "path_of r' = sw_usual" "uri_ext r' = uri_ext r" for r' c
    using put_inv [of r c "put c r'"] assms(1) st that by simp
  have slash: "cu_inv (drop_last (r\<lparr>cu_state := Path sw_slash\<rparr>))"
    using drop_dot [of "r\<lparr>cu_state := Path sw_slash\<rparr>"] pd ext by (simp add: cu_inv_def ext_inv_def path_extension_slash)
  have dot: "cu_inv (put (CHR ''.'') (r\<lparr>cu_state := Path sw_dot_dot\<rparr>))"
    using pd ext path_extension_dots by (auto simp: cu_inv_def ext_inv_def)
  have fin: "out_ok (drop_last r')" if "uri r' = uri r" "uri_ext r' = uri_ext r" for r'
    using drop_dot [of r'] slash_out_ok [of "drop_last r'"] pd that ext by simp
  have quoted: "cu_inv (r\<lparr>quoted_state := sw_dot, cu_state := sw_quoted\<rparr>)"
    using pd ext path_extension_dots by (auto simp: cu_inv_def ext_inv_def)
  show ?thesis
    unfolding cu_dot_def step_ok_def
    using st slash dot quoted usual_not [of ch] by (auto intro!: keep fin)
qed

lemma step_ok_dot_dot:
  assumes "cu_inv r" and "cu_state r = Path sw_dot_dot"
  shows "step_ok (cu_dot_dot p ch r)"
proof -
  have st: "path_of r = sw_dot_dot" using assms(2) by (simp add: path_of_def)
  have ext: "uri_ext r = None" using assms(1) st by (simp add: ext_None(1))
  have pd: "path_inv sw_dot_dot (uri r)" using assms(1) st by (simp add: cu_inv_def)
  have keep: "cu_inv (put c r')" if "c \<noteq> CHR ''/''" "uri r' = uri r"
      "path_of r' = sw_usual" "uri_ext r' = uri_ext r" for r' c
    using put_inv [of r c "put c r'"] assms(1) st that by simp
  have quoted: "cu_inv (r\<lparr>quoted_state := sw_dot_dot, cu_state := sw_quoted\<rparr>)"
    using pd ext path_extension_dots by (auto simp: cu_inv_def ext_inv_def)
  have cut: "slash_out (uri r') \<and> uri_ext r' = None" if "cut_parent r = Some r'" for r'
    using cut_parent_slash [OF pd that] ext by auto
  have slash: "cu_inv (r'\<lparr>cu_state := Path sw_slash\<rparr>)" if "cut_parent r = Some r'" for r'
    using cut [OF that] by (simp add: cu_inv_def ext_inv_def path_extension_slash)
  have fin: "out_ok r''" if "cut_parent r = Some r'" "uri r'' = uri r'" "uri_ext r'' = uri_ext r'" for r' r''
    using cut [OF that(1)] that(2,3) slash_out_ok [of r''] by simp
  show ?thesis
    unfolding cu_dot_dot_def step_ok_def
    using st quoted usual_not [of ch]
    by (auto intro!: keep slash intro: fin split: option.splits)
qed

lemma step_ok_quoted:
  assumes "cu_inv r" and "cu_state r = sw_quoted"
  shows "step_ok (cu_quoted ch r)"
  using assms by (auto simp: cu_quoted_def step_ok_def Let_def cu_inv_def ext_inv_def path_of_def
      split: option.splits)

lemma step_ok_quoted_second:
  assumes "cu_inv r" and "cu_state r = sw_quoted_second"
  shows "step_ok (cu_quoted_second ch r)"
proof -
  have st: "path_of r = quoted_state r" using assms(2) by (simp add: path_of_def)
  have keep: "cu_inv (put c (r\<lparr>cu_state := Path sw_usual\<rparr>))" if "c \<noteq> CHR ''/''" "c \<noteq> CHR ''.''" for c
    using put_inv [of r c "put c (r\<lparr>cu_state := Path sw_usual\<rparr>)"] assms(1) that by simp
  have resume: "cu_inv (r\<lparr>cu_state := Path (quoted_state r)\<rparr>)"
    "cu_inv (r\<lparr>plus_in_uri := True, cu_state := Path (quoted_state r)\<rparr>)"
    using assms(1) st by (auto simp: cu_inv_def ext_inv_def split: option.splits)
  show ?thesis
    unfolding cu_quoted_second_def step_ok_def Let_def
    using resume by (auto intro!: keep)
qed

lemma cu_step_ok: "cu_inv r \<Longrightarrow> step_ok (cu_step ms p ch r)"
  unfolding cu_step_def
  by (auto split: complex_sw.split path_sw.split intro: step_ok_usual step_ok_slash step_ok_dot
      step_ok_dot_dot step_ok_quoted step_ok_quoted_second)

text \<open>So does the loop.\<close>

definition loop_ok :: "complex_request cu_end \<Rightarrow> bool" where
  "loop_ok e \<longleftrightarrow>
     (case e of
        CuLast r \<Rightarrow> cu_inv r
      | CuArgs p r \<Rightarrow> out_ok r
      | CuDone r \<Rightarrow> out_ok r
      | CuInvalid r \<Rightarrow> True)"

lemma cu_loop_ok: "cu_inv r \<Longrightarrow> loop_ok (cu_loop ms buf uend p ch r)"
proof (induction ms buf uend p ch r rule: cu_loop.induct)
  case (1 ms buf uend p ch r)
  show ?case
  proof (cases "p \<le> uend")
    case True
    have ok: "step_ok (cu_step ms p ch r)" by (rule cu_step_ok [OF "1.prems"])
    show ?thesis
    proof (cases "cu_step ms p ch r")
      case (Read r')
      then show ?thesis
        using ok "1.IH"(1) [OF True Read] True by (subst cu_loop.simps) (simp add: step_ok_def)
    next
      case (Decoded ch' r')
      then show ?thesis
        using ok "1.IH"(2) [OF True Decoded] True by (subst cu_loop.simps) (simp add: step_ok_def)
    qed (use ok True in \<open>subst cu_loop.simps, simp add: step_ok_def loop_ok_def\<close>)+
  next
    case False
    then show ?thesis using "1.prems" by (subst cu_loop.simps) (simp add: loop_ok_def)
  qed
qed

lemma out_ok_usual: "cu_inv r \<Longrightarrow> path_of r = sw_usual \<or> path_of r = sw_slash \<Longrightarrow> out_ok r"
  by (auto simp: cu_inv_def ext_inv_def out_ok_def slash_out_def split: option.splits)

text \<open>The outcome: a path that begins with a slash and has no dot segment, and its extension.\<close>

definition path_ok :: "complex_request \<Rightarrow> bool" where
  "path_ok r \<longleftrightarrow> uri r \<noteq> [] \<and> hd (uri r) = CHR ''/'' \<and> dot_free (uri r)
     \<and> exten r = path_extension (uri r)
     \<and> (case exten r of
          None \<Rightarrow> True
        | Some x \<Rightarrow> CHR ''/'' \<notin> set x \<and> (\<exists>stem. uri r = stem @ ''.'' @ x))"

lemma cu_done_ok:
  assumes "out_ok r" and "exten r = None"
  shows "fst (cu_done r) = NGX_OK \<and> path_ok (snd (cu_done r))"
proof (cases "path_extension (uri r)")
  case None
  then show ?thesis using assms by (simp add: cu_done_def out_ok_def ext_inv_def path_ok_def)
next
  case (Some x)
  obtain stem where x: "uri r = stem @ ''.'' @ x" "CHR ''/'' \<notin> set x" "drop (length (uri r) - length x) (uri r) = x"
    using path_extension_suffix [OF Some] .
  have "uri_ext r = Some (length (uri r) - length x)" using assms(1) Some by (simp add: out_ok_def ext_inv_def)
  then have "cu_done r = (NGX_OK, r\<lparr>exten := Some x, uri_ext := None\<rparr>)"
    unfolding cu_done_def using x(3) by (simp add: Let_def)
  moreover have "\<exists>stem. uri r = stem @ ''.'' @ x" using x(1) by blast
  ultimately show ?thesis
    using assms(1) Some x(2) by (simp add: out_ok_def path_ok_def del: append.simps)
qed

lemma step_exten: "cu_step ms p ch r \<in> {Read r', Decoded c r', GotoArgs r', GotoOk r', Invalid r'}
    \<Longrightarrow> exten r' = exten r"
  by (auto simp: cu_step_def cu_usual_def cu_slash_def cu_dot_def cu_dot_dot_def cu_quoted_def
      cu_quoted_second_def put_def drop_last_def cut_parent_def Let_def
      split: complex_sw.splits path_sw.splits if_splits option.splits)

lemma cu_loop_exten:
  "(case cu_loop ms buf uend p ch r of
      CuLast r' \<Rightarrow> exten r' = exten r
    | CuArgs q r' \<Rightarrow> exten r' = exten r
    | CuDone r' \<Rightarrow> exten r' = exten r
    | CuInvalid r' \<Rightarrow> True)"
proof (induction ms buf uend p ch r rule: cu_loop.induct)
  case (1 ms buf uend p ch r)
  show ?case
  proof (cases "p \<le> uend")
    case True
    show ?thesis
    proof (cases "cu_step ms p ch r")
      case (Read r')
      moreover have "exten r' = exten r" by (rule step_exten [of ms p ch r r']) (simp add: Read)
      ultimately show ?thesis
        using "1.IH"(1) [OF True Read] True by (subst cu_loop.simps) (simp split: cu_end.splits)
    next
      case (Decoded ch' r')
      moreover have "exten r' = exten r" by (rule step_exten [of ms p ch r r' ch']) (simp add: Decoded)
      ultimately show ?thesis
        using "1.IH"(2) [OF True Decoded] True by (subst cu_loop.simps) (simp split: cu_end.splits)
    next
      case (GotoArgs r')
      moreover have "exten r' = exten r" by (rule step_exten [of ms p ch r r']) (simp add: GotoArgs)
      ultimately show ?thesis using True by (subst cu_loop.simps) simp
    next
      case (GotoOk r')
      moreover have "exten r' = exten r" by (rule step_exten [of ms p ch r r']) (simp add: GotoOk)
      ultimately show ?thesis using True by (subst cu_loop.simps) simp
    qed (use True in \<open>subst cu_loop.simps, simp\<close>)
  next
    case False
    then show ?thesis by (subst cu_loop.simps) simp
  qed
qed

text \<open>The request as the request line parser leaves it, before its URI is rewritten.\<close>

definition complex_init :: "request_line \<Rightarrow> complex_request" where
  "complex_init rl = request_line.extend rl
     \<lparr>cu_state = Path sw_usual, quoted_state = sw_usual, decoded = 0, uri = [], exten = None, args = None\<rparr>"

lemma complex_init_simps [simp]:
  "uri_start (complex_init rl) = uri_start rl" "uri_end (complex_init rl) = uri_end rl"
  "empty_path_in_uri (complex_init rl) = empty_path_in_uri rl" "exten (complex_init rl) = None"
  by (simp_all add: complex_init_def request_line.defs)

lemma cu_last_ok:
  assumes "cu_inv r" and "exten r = None" and "cu_last r = (NGX_OK, r')"
  shows "path_ok r'"
proof (cases "cu_state r")
  case (Path s)
  then have st: "path_of r = s" by (simp add: path_of_def)
  show ?thesis
  proof (cases s)
    case sw_usual
    then show ?thesis
      using assms Path st cu_done_ok [of r] out_ok_usual [of r] by (simp add: cu_last_def)
  next
    case sw_slash
    then show ?thesis
      using assms Path st cu_done_ok [of r] out_ok_usual [of r] by (simp add: cu_last_def)
  next
    case sw_dot
    have ext: "uri_ext r = None" using assms(1) st sw_dot by (simp add: ext_None(1))
    have "slash_out (uri (drop_last r))"
      using assms(1) st sw_dot drop_dot [of r] by (simp add: cu_inv_def)
    then have "out_ok (drop_last r)" using ext slash_out_ok [of "drop_last r"] by simp
    then show ?thesis
      using assms Path sw_dot cu_done_ok [of "drop_last r"] by (simp add: cu_last_def drop_last_def)
  next
    case sw_dot_dot
    have ext: "uri_ext r = None" using assms(1) st sw_dot_dot by (simp add: ext_None(1))
    obtain r1 where r1: "cut_parent r = Some r1" "cu_done r1 = (NGX_OK, r')"
      using assms(3) Path sw_dot_dot
      by (auto simp: cu_last_def code_const NGX_HTTP_PARSE_INVALID_REQUEST_def split: option.splits)
    have "path_inv sw_dot_dot (uri r)" using assms(1) st sw_dot_dot by (simp add: cu_inv_def)
    from cut_parent_slash [OF this r1(1)] have "out_ok r1" "exten r1 = None"
      using ext assms(2) slash_out_ok [of r1] by auto
    then show ?thesis using cu_done_ok [of r1] r1(2) by simp
  qed
qed (use assms(3) in \<open>simp_all add: cu_last_def code_const\<close>)

lemma complex_uri_path_ok:
  assumes "uri_start rl = Some a" and "uri_end rl = Some b" and "a < b"
    and "buf ! a = CHR ''/'' \<or> buf ! a = CHR ''?'' \<and> empty_path_in_uri rl"
    and "ngx_http_parse_complex_uri buf (complex_init rl) ms = (NGX_OK, r)"
  shows "path_ok r"
proof -
  define r0 where "r0 = complex_init rl\<lparr>cu_state := Path sw_usual, uri_ext := None, args_start := None,
    uri := (if empty_path_in_uri rl then ''/'' else [])\<rparr>"
  have ex0: "exten r0 = None" by (simp add: r0_def)
  let ?e = "cu_loop ms buf b (Suc a) (buf ! a) r0"
  have ok: "loop_ok ?e"
  proof (cases "buf ! a = CHR ''/''")
    case True
    let ?r1 = "put (CHR ''/'') (r0\<lparr>uri_ext := None, cu_state := Path sw_slash\<rparr>)"
    have "cu_step ms (Suc a) (buf ! a) r0 = Read ?r1"
      using True not_usual_chars by (simp add: cu_step_def cu_usual_def r0_def)
    then have "?e = cu_loop ms buf b (Suc (Suc a)) (buf ! Suc a) ?r1"
      using assms(3) by (subst cu_loop.simps) simp
    moreover have "cu_inv ?r1"
      by (simp add: cu_inv_def ext_inv_def slash_out_def r0_def dot_free_def)
    ultimately show ?thesis using cu_loop_ok by simp
  next
    case False
    then have "buf ! a = CHR ''?''" and empty: "empty_path_in_uri rl" using assms(4) by auto
    then have "cu_step ms (Suc a) (buf ! a) r0 = GotoArgs (r0\<lparr>args_start := Some (Suc a)\<rparr>)"
      using not_usual_chars by (simp add: cu_step_def cu_usual_def r0_def)
    then have "?e = CuArgs (Suc a) (r0\<lparr>args_start := Some (Suc a)\<rparr>)"
      using assms(3) by (subst cu_loop.simps) simp
    then show ?thesis
      using empty by (simp add: loop_ok_def out_ok_def ext_inv_def r0_def dot_free_def)
  qed
  have run: "ngx_http_parse_complex_uri buf (complex_init rl) ms =
      (case ?e of
         CuLast r' \<Rightarrow> cu_last r'
       | CuArgs p' r' \<Rightarrow> cu_args buf b p' r'
       | CuDone r' \<Rightarrow> cu_done r'
       | CuInvalid r' \<Rightarrow> (NGX_HTTP_PARSE_INVALID_REQUEST, r'))"
    using assms(1,2) by (simp add: ngx_http_parse_complex_uri_def r0_def Let_def)
  note ex = cu_loop_exten [where ms = ms and buf = buf and uend = b and p = "Suc a" and ch = "buf ! a" and r = r0]
  show ?thesis
  proof (cases ?e)
    case (CuLast r')
    then show ?thesis
      using ok ex ex0 run assms(5) cu_last_ok [of r' r] by (simp add: loop_ok_def)
  next
    case (CuArgs p' r')
    then have "out_ok r'" "exten r' = None" using ok ex ex0 by (simp_all add: loop_ok_def)
    then have "out_ok (r'\<lparr>args := x, args_start := y\<rparr>)" "exten (r'\<lparr>args := x, args_start := y\<rparr>) = None" for x y
      by (simp_all add: out_ok_def ext_inv_def split: option.splits)
    then have "path_ok (snd (cu_args buf b p' r'))"
      using \<open>out_ok r'\<close> \<open>exten r' = None\<close> by (simp add: cu_args_def Let_def cu_done_ok)
    then show ?thesis using CuArgs run assms(5) by (metis cu_end.case(2) snd_conv)
  next
    case (CuDone r')
    then have "path_ok (snd (cu_done r'))"
      using ok ex ex0 cu_done_ok [of r'] by (simp add: loop_ok_def)
    then show ?thesis using CuDone run assms(5) by (metis cu_end.case(3) snd_conv)
  next
    case (CuInvalid r')
    then show ?thesis
      using run assms(5) by (simp add: code_const NGX_HTTP_PARSE_INVALID_REQUEST_def)
  qed
qed

text \<open>C1: Whatever bytes a client sends, when the request line is accepted and its URI is rewritten
  successfully, the path begins with a slash and has no \<open>.\<close> or \<open>..\<close> segment in it, in any encoding
  and with slashes merged or not.  The extension is that of \<open>path_extension\<close>, no other and none when it gives none:
  what follows the last dot of the last segment, where the dots at the beginning of the segment, at most two, and the
  byte behind them (the first byte, where there are none) do not count.  So it follows a dot and has no slash.\<close>

theorem complex_uri_no_traversal:
  "case ngx_http_parse_request_line buf 0 request_init of (rc, rl, pos) \<Rightarrow>
     if rc = NGX_OK then
       (case ngx_http_parse_complex_uri buf (complex_init rl) merge_slashes of (rc', r) \<Rightarrow>
          if rc' = NGX_OK then path_ok r else True)
     else True"
proof -
  have "path_ok r" if "ngx_http_parse_request_line buf 0 request_init = (NGX_OK, rl, pos)"
    "ngx_http_parse_complex_uri buf (complex_init rl) merge_slashes = (NGX_OK, r)" for rl pos r
  proof -
    from request_line_accepted [OF that(1)] obtain a b where
      "uri_start rl = Some a" "uri_end rl = Some b" "a < b"
      "buf ! a = CHR ''/'' \<or> buf ! a = CHR ''?'' \<and> empty_path_in_uri rl"
      by (auto simp: accepted_line_def)
    then show ?thesis using complex_uri_path_ok that(2) by blast
  qed
  then show ?thesis by (auto split: prod.splits)
qed

section \<open>The output fits its buffer\<close>

text \<open>\<open>ngx_http_process_request_uri\<close> in \<open>src/http/ngx_http_request.c\<close> allocates this many bytes for
  the rewritten path.\<close>

definition process_uri_len :: "request_line \<Rightarrow> nat" where
  "process_uri_len r =
     (case args_start r of
        Some q \<Rightarrow> q - 1 - the (uri_start r)
      | None \<Rightarrow> the (uri_end r) - the (uri_start r))
     + (if empty_path_in_uri r then 1 else 0)"

lemma put_length: "length (uri (put c r)) = Suc (length (uri r))" "length (uri (drop_last r)) \<le> length (uri r)"
  by (simp_all add: drop_last_def)

lemma cut_parent_length: "cut_parent r = Some r' \<Longrightarrow> length (uri r') \<le> length (uri r)"
  by (auto simp: cut_parent_def)

text \<open>One iteration writes at most one byte, and only where it reads one.\<close>

lemma cu_step_length:
  "(case cu_step ms p ch r of
      Read r' \<Rightarrow> length (uri r') \<le> Suc (length (uri r))
    | Decoded c r' \<Rightarrow> length (uri r') \<le> length (uri r)
    | GotoArgs r' \<Rightarrow> length (uri r') \<le> length (uri r)
    | GotoOk r' \<Rightarrow> length (uri r') \<le> length (uri r)
    | Invalid r' \<Rightarrow> True)"
  by (auto simp: cu_step_def cu_usual_def cu_slash_def cu_dot_def cu_dot_dot_def cu_quoted_def
      cu_quoted_second_def Let_def drop_last_def le_SucI cut_parent_def
      split: complex_sw.split path_sw.split option.split)

text \<open>A raw question mark ends the path.\<close>

lemma cu_step_question:
  "(case cu_step ms p (CHR ''?'') r of Read r' \<Rightarrow> False | Decoded c r' \<Rightarrow> False | _ \<Rightarrow> True)"
  using not_usual_chars
  by (auto simp: cu_step_def cu_usual_def cu_slash_def cu_dot_def cu_dot_dot_def cu_quoted_def
      cu_quoted_second_def Let_def is_digit_ord is_hex_letter_ord
      split: complex_sw.split path_sw.split option.split)

lemma cu_loop_length:
  assumes "p \<le> q" and "length (uri r) + a < p + k" and "q \<le> Suc uend"
    and "q \<le> uend \<Longrightarrow> buf ! (q - 1) = CHR ''?''"
    and "p = q \<and> q \<le> uend \<Longrightarrow> ch = CHR ''?''"
  shows "(case cu_loop ms buf uend p ch r of
      CuLast r' \<Rightarrow> length (uri r') + a < q + k
    | CuArgs n r' \<Rightarrow> length (uri r') + a < q + k
    | CuDone r' \<Rightarrow> length (uri r') + a < q + k
    | CuInvalid r' \<Rightarrow> True)"
  using assms
proof (induction ms buf uend p ch r rule: cu_loop.induct)
  case (1 ms buf uend p ch r)
  note len = cu_step_length [where ms = ms and p = p and ch = ch and r = r]
  show ?case
  proof (cases "p \<le> uend")
    case True
    have stop: "p < q" if "\<not> (case cu_step ms p ch r of Read r' \<Rightarrow> False | Decoded c r' \<Rightarrow> False | _ \<Rightarrow> True)"
      using that cu_step_question [where ms = ms and p = p and r = r] "1.prems"(1,5) True by (cases "p = q") auto
    show ?thesis
    proof (cases "cu_step ms p ch r")
      case (Read r')
      then have "p < q" using stop by simp
      then have "buf ! p = CHR ''?''" if "Suc p = q" "q \<le> uend"
        using "1.prems"(4) that by auto
      then show ?thesis
        using "1.IH"(1) [OF True Read] "1.prems" True Read len \<open>p < q\<close>
        by (subst cu_loop.simps) simp
    next
      case (Decoded ch' r')
      then have "p < q" using stop by simp
      then show ?thesis
        using "1.IH"(2) [OF True Decoded] "1.prems" True Decoded len by (subst cu_loop.simps) simp
    qed (use "1.prems" True len in \<open>subst cu_loop.simps, simp\<close>)+
  next
    case False
    then show ?thesis using "1.prems" by (subst cu_loop.simps) simp
  qed
qed

lemma cu_done_length: "length (uri (snd (cu_done r))) = length (uri r)"
  by (simp add: cu_done_def Let_def split: option.split)

lemma cu_last_length: "length (uri (snd (cu_last r))) \<le> length (uri r)"
  by (auto simp: cu_last_def cu_done_length put_length cut_parent_length split: option.split)

lemma cu_args_length: "length (uri (snd (cu_args buf b p r))) = length (uri r)"
  by (simp add: cu_args_def Let_def cu_done_length)

lemma complex_uri_length:
  assumes a: "uri_start rl = Some a" and b: "uri_end rl = Some b" and ab: "a < b"
    and q: "case args_start rl of None \<Rightarrow> True
      | Some q \<Rightarrow> a < q \<and> q \<le> b \<and> buf ! (q - 1) = CHR ''?''"
    and ok: "ngx_http_parse_complex_uri buf (complex_init rl) ms = (NGX_OK, r)"
  shows "length (uri r) \<le> process_uri_len rl"
proof -
  define k :: nat where "k = (if empty_path_in_uri rl then 1 else 0)"
  define q where "q = (case args_start rl of None \<Rightarrow> Suc b | Some q \<Rightarrow> q)"
  define r0 where "r0 = complex_init rl\<lparr>cu_state := Path sw_usual, uri_ext := None, args_start := None,
    uri := (if empty_path_in_uri rl then ''/'' else [])\<rparr>"
  let ?e = "cu_loop ms buf b (Suc a) (buf ! a) r0"
  have q2: "Suc a \<le> q" "q \<le> Suc b" "q \<le> b \<Longrightarrow> buf ! (q - 1) = CHR ''?''"
    using q ab by (auto simp: q_def split: option.splits)
  have len: "length (uri r0) + a < Suc a + k" by (simp add: r0_def k_def)
  have bound: "case ?e of
        CuLast r' \<Rightarrow> length (uri r') + a < q + k
      | CuArgs n r' \<Rightarrow> length (uri r') + a < q + k
      | CuDone r' \<Rightarrow> length (uri r') + a < q + k
      | CuInvalid r' \<Rightarrow> True"
    using q2 by (intro cu_loop_length len) auto
  have run: "ngx_http_parse_complex_uri buf (complex_init rl) ms =
      (case ?e of
         CuLast r' \<Rightarrow> cu_last r'
       | CuArgs p' r' \<Rightarrow> cu_args buf b p' r'
       | CuDone r' \<Rightarrow> cu_done r'
       | CuInvalid r' \<Rightarrow> (NGX_HTTP_PARSE_INVALID_REQUEST, r'))"
    using a b by (simp add: ngx_http_parse_complex_uri_def r0_def Let_def)
  have "length (uri r) + a < q + k"
  proof (cases ?e)
    case (CuLast r')
    then have "cu_last r' = (NGX_OK, r)" using run ok by simp
    then show ?thesis using cu_last_length [of r'] bound CuLast by simp
  next
    case (CuArgs n r')
    then have "cu_args buf b n r' = (NGX_OK, r)" using run ok by simp
    then show ?thesis using cu_args_length [of buf b n r'] bound CuArgs by simp
  next
    case (CuDone r')
    then have "cu_done r' = (NGX_OK, r)" using run ok by simp
    then show ?thesis using cu_done_length [of r'] bound CuDone by simp
  next
    case (CuInvalid r')
    then show ?thesis using run ok by (simp add: code_const)
  qed
  moreover have "process_uri_len rl = q - 1 - a + k"
    using a b by (simp add: process_uri_len_def q_def k_def split: option.split)
  ultimately show ?thesis using q2 by simp
qed

text \<open>C30: The path of an accepted and successfully rewritten URI is never longer than the buffer that was allocated
  for it from the positions the request line parser recorded.\<close>

theorem complex_uri_fits_buffer:
  "case ngx_http_parse_request_line buf 0 request_init of (rc, rl, pos) \<Rightarrow>
     if rc = NGX_OK then
       (case ngx_http_parse_complex_uri buf (complex_init rl) merge_slashes of (rc', r) \<Rightarrow>
          if rc' = NGX_OK then length (uri r) \<le> process_uri_len rl else True)
     else True"
proof -
  have "length (uri r) \<le> process_uri_len rl"
    if "ngx_http_parse_request_line buf 0 request_init = (NGX_OK, rl, pos)"
      "ngx_http_parse_complex_uri buf (complex_init rl) merge_slashes = (NGX_OK, r)" for rl pos r
  proof -
    from request_line_accepted [OF that(1)] obtain a b where ab:
      "uri_start rl = Some a" "uri_end rl = Some b" "a < b"
      by (auto simp: accepted_line_def)
    have "case args_start rl of None \<Rightarrow> True
      | Some q \<Rightarrow> a < q \<and> q \<le> b \<and> buf ! (q - 1) = CHR ''?''"
      using request_line_args [OF that(1)] ab by (simp split: option.splits)
    from complex_uri_length [OF ab this that(2)] show ?thesis .
  qed
  then show ?thesis by (auto split: prod.splits)
qed

section \<open>The fast path\<close>

text \<open>A URI that \<open>ngx_http_parse_uri\<close> does not mark is used as it is, without being rewritten.\<close>

lemma pu_step_flags:
  "pu_step st p ch r = Some (st', r') \<Longrightarrow> (complex_uri r \<longrightarrow> complex_uri r') \<and> (quoted_uri r \<longrightarrow> quoted_uri r')
    \<and> (st = us_uri \<longrightarrow> st' = us_uri \<and> args_start r' = args_start r)"
  by (cases st) (auto simp: pu_after_slash_in_uri_def pu_check_uri_def pu_uri_def split: if_splits)

lemma pu_loop_flags:
  "pu_loop st p s r = (NGX_OK, r') \<Longrightarrow> (complex_uri r \<longrightarrow> complex_uri r') \<and> (quoted_uri r \<longrightarrow> quoted_uri r')
    \<and> (st = us_uri \<longrightarrow> args_start r' = args_start r)"
proof (induction st p s r rule: pu_loop.induct)
  case (2 st p ch s r)
  then show ?case
    by (auto simp: code_const split: option.splits dest: pu_step_flags)
qed simp

definition plain :: "request_line \<Rightarrow> bool" where
  "plain r \<longleftrightarrow> \<not> complex_uri r \<and> \<not> quoted_uri r"

text \<open>Where the path ends.\<close>

definition path_end :: "nat \<Rightarrow> request_line \<Rightarrow> nat" where
  "path_end b r = (case args_start r of None \<Rightarrow> b | Some q \<Rightarrow> q - 1)"

definition same_state :: "uri_sw \<Rightarrow> complex_sw \<Rightarrow> bool" where
  "same_state st cs \<longleftrightarrow>
     st = us_after_slash_in_uri \<and> (cs = Path sw_slash \<or> cs = Path sw_usual)
     \<or> st = us_check_uri \<and> cs = Path sw_usual"

text \<open>One byte: both parsers go on and the byte is copied, or both see the end of the path.\<close>

lemma fast_step:
  assumes "same_state st (cu_state c)" and "pu_step st p ch r = Some (st', r')" and "plain r'"
    and "args_start r = None"
  shows "(ch = CHR ''?'' \<and> st' = us_uri \<and> args_start r' = Some (p + 1)
       \<and> cu_step ms (Suc p) ch c = GotoArgs (c\<lparr>args_start := Some (Suc p)\<rparr>))
    \<or> (\<exists>c'. cu_step ms (Suc p) ch c = Read c' \<and> uri c' = uri c @ [ch]
         \<and> same_state st' (cu_state c') \<and> args_start r' = None)"
  using assms not_usual_chars
  by (auto simp: same_state_def plain_def pu_after_slash_in_uri_def pu_check_uri_def cu_step_def
      cu_usual_def cu_slash_def put_def split: if_splits)

definition fast_end :: "nat \<Rightarrow> bytes \<Rightarrow> complex_request cu_end \<Rightarrow> bool" where
  "fast_end b path e \<longleftrightarrow>
     (\<exists>c. (e = CuLast c \<and> (cu_state c = Path sw_usual \<or> cu_state c = Path sw_slash)
           \<or> (\<exists>n. e = CuArgs n c)) \<and> uri c = path)"

lemma slice_first: "p < b \<Longrightarrow> b \<le> length buf \<Longrightarrow> slice buf p b = buf ! p # slice buf (Suc p) b"
  by (simp add: slice_def Cons_nth_drop_Suc [symmetric] Suc_diff_Suc [symmetric] del: Suc_diff_Suc)

lemma fast_loop:
  assumes "pu_loop st p s r = (NGX_OK, r')" and "plain r'" and "args_start r = None"
    and "s = slice buf p b" and "p \<le> b" and "b < length buf" and "same_state st (cu_state c)"
  shows "p \<le> path_end b r' \<and> path_end b r' \<le> b
    \<and> fast_end b (uri c @ slice buf p (path_end b r')) (cu_loop ms buf b (Suc p) (buf ! p) c)"
  using assms
proof (induction s arbitrary: st p r c)
  case Nil
  then have "p = b" using slice_length [of b buf p] by simp
  then show ?case
    using Nil by (subst cu_loop.simps) (auto simp: fast_end_def path_end_def same_state_def)
next
  case (Cons ch s)
  have pb: "p < b"
    using Cons.prems(4,5) by (cases "p = b") auto
  have ch: "ch = buf ! p" "s = slice buf (Suc p) b"
    using Cons.prems(4) slice_first [OF pb] Cons.prems(6) by simp_all
  obtain st' r1 where s1: "pu_step st p ch r = Some (st', r1)" "pu_loop st' (Suc p) s r1 = (NGX_OK, r')"
    using Cons.prems(1) by (auto simp: code_const split: option.splits)
  have "plain r1" using pu_loop_flags [OF s1(2)] Cons.prems(2) by (auto simp: plain_def)
  from fast_step [OF Cons.prems(7) s1(1) this Cons.prems(3), of ms] show ?case
  proof
    assume q: "ch = CHR ''?'' \<and> st' = us_uri \<and> args_start r1 = Some (p + 1)
      \<and> cu_step ms (Suc p) ch c = GotoArgs (c\<lparr>args_start := Some (Suc p)\<rparr>)"
    then have "path_end b r' = p" using pu_loop_flags [OF s1(2)] by (simp add: path_end_def)
    moreover from q ch(1) have "cu_step ms (Suc p) (buf ! p) c = GotoArgs (c\<lparr>args_start := Some (Suc p)\<rparr>)"
      by metis
    then have "cu_loop ms buf b (Suc p) (buf ! p) c = CuArgs (Suc p) (c\<lparr>args_start := Some (Suc p)\<rparr>)"
      using pb by (subst cu_loop.simps) simp
    ultimately show ?thesis using pb by (simp add: fast_end_def)
  next
    assume "\<exists>c'. cu_step ms (Suc p) ch c = Read c' \<and> uri c' = uri c @ [ch]
      \<and> same_state st' (cu_state c') \<and> args_start r1 = None"
    then obtain c' where c': "cu_step ms (Suc p) ch c = Read c'" "uri c' = uri c @ [ch]"
      "same_state st' (cu_state c')" "args_start r1 = None"
      by blast
    have IH: "Suc p \<le> path_end b r' \<and> path_end b r' \<le> b
      \<and> fast_end b (uri c' @ slice buf (Suc p) (path_end b r')) (cu_loop ms buf b (Suc (Suc p)) (buf ! Suc p) c')"
      using Cons.IH [OF s1(2) Cons.prems(2) c'(4) ch(2) _ Cons.prems(6) c'(3)] pb by simp
    moreover have "slice buf p (path_end b r') = ch # slice buf (Suc p) (path_end b r')"
      using IH Cons.prems(6) ch(1) by (intro slice_first [THEN trans]) auto
    moreover have "cu_loop ms buf b (Suc p) (buf ! p) c = cu_loop ms buf b (Suc (Suc p)) (buf ! Suc p) c'"
      using c'(1) ch(1) pb by (subst cu_loop.simps) simp
    ultimately show ?thesis using c'(2) by simp
  qed
qed

text \<open>C37: the fast path agrees with the rewriting.  When the check accepts a URI and marks it neither
  complex nor quoted, rewriting it would succeed and give the bytes before its \<open>?\<close> unchanged.\<close>

theorem plain_uri_needs_no_rewriting:
  assumes "uri_start rl = Some a" and "uri_end rl = Some b" and "a < b" and "b < length buf"
    and "args_start rl = None" and "\<not> empty_path_in_uri rl"
    and "ngx_http_parse_uri buf rl = (NGX_OK, rl')" and "\<not> complex_uri rl'" and "\<not> quoted_uri rl'"
  shows "case ngx_http_parse_complex_uri buf (complex_init rl) merge_slashes of (rc, r) \<Rightarrow>
    rc = NGX_OK \<and> uri r = slice buf a (case args_start rl' of None \<Rightarrow> b | Some q \<Rightarrow> q - 1)"
proof -
  define r0 where "r0 = complex_init rl\<lparr>cu_state := Path sw_usual, uri_ext := None, args_start := None, uri := []\<rparr>"
  let ?c = "put (CHR ''/'') (r0\<lparr>uri_ext := None, cu_state := Path sw_slash\<rparr>)"
  have s: "slice buf a b = buf ! a # slice buf (Suc a) b"
    using assms(3,4) by (intro slice_first) auto
  have slash: "buf ! a = CHR ''/''" and rest: "pu_loop us_after_slash_in_uri (Suc a) (slice buf (Suc a) b) rl = (NGX_OK, rl')"
    using assms(1,2,7) s by (auto simp: ngx_http_parse_uri_def code_const split: if_splits)
  have "plain rl'" using assms(8,9) by (simp add: plain_def)
  from fast_loop [OF rest this assms(5) refl _ assms(4), of ?c merge_slashes] assms(3)
  have e: "Suc a \<le> path_end b rl'"
    "fast_end b (''/'' @ slice buf (Suc a) (path_end b rl')) (cu_loop merge_slashes buf b (Suc (Suc a)) (buf ! Suc a) ?c)"
    "path_end b rl' \<le> b"
    by (simp_all add: same_state_def put_def r0_def)
  have path: "''/'' @ slice buf (Suc a) (path_end b rl') = slice buf a (path_end b rl')"
    using e assms(4) slash by (subst slice_first [of a]) auto
  have "cu_loop merge_slashes buf b (Suc a) (buf ! a) r0
      = cu_loop merge_slashes buf b (Suc (Suc a)) (buf ! Suc a) ?c"
    using assms(3) slash not_usual_chars
    by (subst cu_loop.simps) (simp add: cu_step_def cu_usual_def r0_def)
  then have run: "ngx_http_parse_complex_uri buf (complex_init rl) merge_slashes =
      (case cu_loop merge_slashes buf b (Suc (Suc a)) (buf ! Suc a) ?c of
         CuLast r' \<Rightarrow> cu_last r'
       | CuArgs p' r' \<Rightarrow> cu_args buf b p' r'
       | CuDone r' \<Rightarrow> cu_done r'
       | CuInvalid r' \<Rightarrow> (NGX_HTTP_PARSE_INVALID_REQUEST, r'))"
    using assms(1,2,6) by (simp add: ngx_http_parse_complex_uri_def r0_def Let_def)
  have fin: "fst (cu_done c) = NGX_OK \<and> uri (snd (cu_done c)) = uri c" for c
    by (simp add: cu_done_def Let_def split: option.split)
  from e(2) obtain c where c: "uri c = slice buf a (path_end b rl')"
    and "cu_loop merge_slashes buf b (Suc (Suc a)) (buf ! Suc a) ?c = CuLast c
          \<and> (cu_state c = Path sw_usual \<or> cu_state c = Path sw_slash)
       \<or> (\<exists>n. cu_loop merge_slashes buf b (Suc (Suc a)) (buf ! Suc a) ?c = CuArgs n c)"
    unfolding fast_end_def path by blast
  then consider "ngx_http_parse_complex_uri buf (complex_init rl) merge_slashes = cu_done c"
    | n where "ngx_http_parse_complex_uri buf (complex_init rl) merge_slashes = cu_args buf b n c"
    using run by (auto simp: cu_last_def)
  then show ?thesis
  proof cases
    case 1
    then show ?thesis using fin [of c] c by (simp add: case_prod_beta path_end_def)
  next
    case (2 n)
    then show ?thesis using fin c by (simp add: case_prod_beta path_end_def cu_args_def Let_def)
  qed
qed

theorem plain_uri_needs_no_rewriting_witness:
  "let buf = ''/a/b.html?x=1 HTTP''; rl = request_init\<lparr>uri_start := Some 0, uri_end := Some 13\<rparr>
   in case ngx_http_parse_complex_uri buf (complex_init rl) True of (rc, r) \<Rightarrow>
     rc = NGX_OK \<and> uri r = ''/a/b.html''"
proof -
  let ?buf = "''/a/b.html?x=1 HTTP''"
  let ?rl = "request_init\<lparr>uri_start := Some 0, uri_end := Some 13\<rparr>"
  have s: "slice ?buf 0 13 = ''/a/b.html?x=1''" "slice ?buf 0 9 = ''/a/b.html''"
    by (simp_all add: slice_def)
  have u: "is_usual (CHR ''a'')" "is_usual (CHR ''b'')" "is_usual (CHR ''h'')" "is_usual (CHR ''t'')"
    "is_usual (CHR ''m'')" "is_usual (CHR ''l'')" "is_usual (CHR ''x'')" "is_usual (CHR ''='')"
    "is_usual (CHR ''1'')"
    by code_simp+
  have "ngx_http_parse_uri ?buf ?rl = (NGX_OK, ?rl\<lparr>uri_ext := Some 5, args_start := Some 10\<rparr>)"
    using not_usual_chars u
    by (simp add: ngx_http_parse_uri_def s pu_after_slash_in_uri_def pu_check_uri_def pu_uri_def request_init_def)
  from plain_uri_needs_no_rewriting [OF _ _ _ _ _ _ this, of 0 13 True] show ?thesis
    by (simp add: request_init_def s split: prod.splits)
qed

end
