(* ===== verification/NgxEscape.thy ===== *)
theory NgxEscape
  imports Prelude
begin

text \<open>
  Escaping, \<open>src/core/ngx_string.c\<close> of nginx: \<open>ngx_escape_uri\<close> with its tables, \<open>ngx_unescape_uri\<close>,
  \<open>ngx_escape_html\<close> and \<open>ngx_escape_json\<close>.  Called with \<open>dst = NULL\<close> an escaping function only counts; that
  half has a definition of its own.  What is written is the list of the bytes.
\<close>

unbundle bit_operations_syntax

section \<open>URIs\<close>

definition NGX_ESCAPE_URI :: nat where "NGX_ESCAPE_URI = 0"
definition NGX_ESCAPE_ARGS :: nat where "NGX_ESCAPE_ARGS = 1"
definition NGX_ESCAPE_URI_COMPONENT :: nat where "NGX_ESCAPE_URI_COMPONENT = 2"
definition NGX_ESCAPE_HTML :: nat where "NGX_ESCAPE_HTML = 3"
definition NGX_ESCAPE_REFRESH :: nat where "NGX_ESCAPE_REFRESH = 4"
definition NGX_ESCAPE_MEMCACHED :: nat where "NGX_ESCAPE_MEMCACHED = 5"
definition NGX_ESCAPE_MAIL_AUTH :: nat where "NGX_ESCAPE_MAIL_AUTH = 6"
definition NGX_ESCAPE_MAIL_XTEXT :: nat where "NGX_ESCAPE_MAIL_XTEXT = 7"

definition esc_uri :: "int list" where
  "esc_uri = [0xffffffff, 0xd000002d, 0x50000000, 0xb8000001, 0xffffffff, 0xffffffff, 0xffffffff, 0xffffffff]"

definition esc_args :: "int list" where
  "esc_args = [0xffffffff, 0xd800086d, 0x50000000, 0xb8000001, 0xffffffff, 0xffffffff, 0xffffffff, 0xffffffff]"

definition esc_uri_component :: "int list" where
  "esc_uri_component =
     [0xffffffff, 0xfc009fff, 0x78000001, 0xb8000001, 0xffffffff, 0xffffffff, 0xffffffff, 0xffffffff]"

definition esc_html :: "int list" where
  "esc_html = [0xffffffff, 0x500000ad, 0x50000000, 0xb8000001, 0xffffffff, 0xffffffff, 0xffffffff, 0xffffffff]"

definition esc_refresh :: "int list" where
  "esc_refresh = [0xffffffff, 0x50000085, 0x50000000, 0xd8000001, 0xffffffff, 0xffffffff, 0xffffffff, 0xffffffff]"

definition esc_memcached :: "int list" where
  "esc_memcached = [0xffffffff, 0x00000021, 0, 0, 0, 0, 0, 0]"

definition esc_mail_xtext :: "int list" where
  "esc_mail_xtext = [0xffffffff, 0x20000801, 0, 0x80000000, 0xffffffff, 0xffffffff, 0xffffffff, 0xffffffff]"

definition escape_map :: "int list list" where
  "escape_map =
     [esc_uri, esc_args, esc_uri_component, esc_html, esc_refresh, esc_memcached, esc_memcached, esc_mail_xtext]"

definition map_char :: bytes where
  "map_char = ''%%%%%%%+''"

definition hex_upper :: bytes where
  "hex_upper = ''0123456789ABCDEF''"

text \<open>\<open>escape[*src >> 5] & (1U << (*src & 0x1f))\<close>.\<close>

definition escaped :: "nat \<Rightarrow> char \<Rightarrow> bool" where
  "escaped type ch = bit (escape_map ! type ! drop_bit 5 (ord ch)) (ord ch AND 0x1f)"

fun escape_uri_count :: "nat \<Rightarrow> bytes \<Rightarrow> nat" where
  "escape_uri_count type [] = 0"
| "escape_uri_count type (c # src) = (if escaped type c then 1 else 0) + escape_uri_count type src"

fun ngx_escape_uri :: "nat \<Rightarrow> bytes \<Rightarrow> bytes" where
  "ngx_escape_uri type [] = []"
| "ngx_escape_uri type (c # src) =
     (if escaped type c
      then [map_char ! type, hex_upper ! drop_bit 4 (ord c), hex_upper ! (ord c AND 0xf)] @ ngx_escape_uri type src
      else c # ngx_escape_uri type src)"

section \<open>Reading escapes\<close>

definition NGX_UNESCAPE_URI :: nat where "NGX_UNESCAPE_URI = 1"
definition NGX_UNESCAPE_REDIRECT :: nat where "NGX_UNESCAPE_REDIRECT = 2"

datatype unescape_state = sw_plain | sw_percent | sw_percent_second

definition write_out :: "bytes \<Rightarrow> bytes \<times> bytes \<Rightarrow> bytes \<times> bytes" where
  "write_out xs r = (xs @ fst r, snd r)"

text \<open>\<open>(u_char) ((decoded << 4) + v)\<close>.\<close>

definition second_digit :: "char \<Rightarrow> int \<Rightarrow> char" where
  "second_digit decoded v = char_of (push_bit 4 (ord decoded) + nat v)"

text \<open>A decoded byte of a redirect: kept as it is when it is printable and behind \<open>%\<close>, else as the escape it was;
  \<open>prev\<close> and \<open>ch\<close> are \<open>*(s - 2)\<close> and \<open>*(s - 1)\<close>.\<close>

definition redirect_bytes :: "char \<Rightarrow> char \<Rightarrow> char \<Rightarrow> bytes" where
  "redirect_bytes d prev ch = (if CHR ''%'' < d \<and> d < CHR 0x7F then [d] else [CHR ''%'', prev, ch])"

text \<open>What is written and the rest of the source; the loop ends early behind a \<open>?\<close>.\<close>

fun unescape_loop :: "nat \<Rightarrow> unescape_state \<Rightarrow> char \<Rightarrow> char \<Rightarrow> bytes \<Rightarrow> bytes \<times> bytes" where
  "unescape_loop type state decoded prev [] = ([], [])"
| "unescape_loop type sw_plain decoded prev (ch # src) =
     (if ch = CHR ''?'' \<and> type AND (NGX_UNESCAPE_URI OR NGX_UNESCAPE_REDIRECT) \<noteq> 0 then ([ch], src)
      else if ch = CHR ''%'' then unescape_loop type sw_percent decoded ch src
      else write_out [ch] (unescape_loop type sw_plain decoded ch src))"
| "unescape_loop type sw_percent decoded prev (ch # src) =
     (if is_digit ch then unescape_loop type sw_percent_second (char_of (nat (digit_of ch))) ch src
      else if is_hex_letter ch then unescape_loop type sw_percent_second (char_of (nat (hex_letter_of ch))) ch src
      else write_out [ch] (unescape_loop type sw_plain decoded ch src))"
| "unescape_loop type sw_percent_second decoded prev (ch # src) =
     (if is_digit ch then
        let d = second_digit decoded (digit_of ch)
        in if type AND NGX_UNESCAPE_REDIRECT \<noteq> 0
           then write_out (redirect_bytes d prev ch) (unescape_loop type sw_plain decoded ch src)
           else write_out [d] (unescape_loop type sw_plain decoded ch src)
      else if is_hex_letter ch then
        let d = second_digit decoded (hex_letter_of ch)
        in if type AND NGX_UNESCAPE_URI \<noteq> 0 then
             if d = CHR ''?'' then ([d], src) else write_out [d] (unescape_loop type sw_plain decoded ch src)
           else if type AND NGX_UNESCAPE_REDIRECT \<noteq> 0 then
             if d = CHR ''?'' then ([d], src)
             else write_out (redirect_bytes d prev ch) (unescape_loop type sw_plain decoded ch src)
           else write_out [d] (unescape_loop type sw_plain decoded ch src)
      else unescape_loop type sw_plain decoded ch src)"

declare unescape_loop.simps(2-4) [simp del]

definition ngx_unescape_uri :: "nat \<Rightarrow> bytes \<Rightarrow> bytes \<times> bytes" where
  "ngx_unescape_uri type src = unescape_loop type sw_plain NUL NUL src"

section \<open>HTML and JSON\<close>

fun escape_html_count :: "bytes \<Rightarrow> nat" where
  "escape_html_count [] = 0"
| "escape_html_count (c # src) =
     (if c = CHR ''<'' \<or> c = CHR ''>'' then 3 else if c = CHR ''&'' then 4 else if c = CHR 0x22 then 5 else 0)
     + escape_html_count src"

definition html_byte :: "char \<Rightarrow> bytes" where
  "html_byte ch =
     (if ch = CHR ''<'' then ''&lt;'' else if ch = CHR ''>'' then ''&gt;''
      else if ch = CHR ''&'' then ''&amp;'' else if ch = CHR 0x22 then ''&quot;'' else [ch])"

fun ngx_escape_html :: "bytes \<Rightarrow> bytes" where
  "ngx_escape_html [] = []"
| "ngx_escape_html (c # src) = html_byte c @ ngx_escape_html src"

definition json_short :: bytes where
  "json_short = [LF, CR, HT, CHR 0x08, CHR 0x0C]"

fun escape_json_count :: "bytes \<Rightarrow> nat" where
  "escape_json_count [] = 0"
| "escape_json_count (c # src) =
     (if c = CHR 0x5C \<or> c = CHR 0x22 then 1
      else if c \<le> CHR 0x1F then if c \<in> set json_short then 1 else 5
      else 0)
     + escape_json_count src"

definition json_byte :: "char \<Rightarrow> bytes" where
  "json_byte ch =
     (if CHR 0x1F < ch then (if ch = CHR 0x5C \<or> ch = CHR 0x22 then [CHR 0x5C, ch] else [ch])
      else
        CHR 0x5C #
          (if ch = LF then ''n'' else if ch = CR then ''r'' else if ch = HT then ''t''
           else if ch = CHR 0x08 then ''b'' else if ch = CHR 0x0C then ''f''
           else
             let low = ord ch AND 0xf
             in ''u00'' @ [char_of (48 + drop_bit 4 (ord ch)),
                  if low < 10 then char_of (48 + low) else char_of (65 + low - 10)]))"

fun ngx_escape_json :: "bytes \<Rightarrow> bytes" where
  "ngx_escape_json [] = []"
| "ngx_escape_json (c # src) = json_byte c @ ngx_escape_json src"

section \<open>The size that is counted is the size that is written\<close>

lemma escape_uri_length: "length (ngx_escape_uri type src) = length src + 2 * escape_uri_count type src"
  by (induction src) auto

lemma escape_html_length: "length (ngx_escape_html src) = length src + escape_html_count src"
  by (induction src) (auto simp: html_byte_def)

lemma escape_json_length: "length (ngx_escape_json src) = length src + escape_json_count src"
  by (induction src) (auto simp: json_byte_def json_short_def Let_def not_le[symmetric])

text \<open>Reading escapes writes at most as much as it has read, so that it may be done in place.\<close>

lemma write_out_length: "length (fst (write_out xs r)) = length xs + length (fst r)"
  by (simp add: write_out_def)

lemma redirect_length: "length (redirect_bytes d prev ch) \<le> 3"
  by (simp add: redirect_bytes_def)

lemma unescape_length: "length (fst (unescape_loop type state decoded prev src)) \<le>
    length src + (case state of sw_plain \<Rightarrow> 0 | sw_percent \<Rightarrow> 1 | sw_percent_second \<Rightarrow> 2)"
proof (induction src arbitrary: state decoded prev)
  case (Cons ch src)
  have IH: "length (fst (unescape_loop type sw_plain d p src)) \<le> length src"
    "length (fst (unescape_loop type sw_percent d p src)) \<le> length src + 1"
    "length (fst (unescape_loop type sw_percent_second d p src)) \<le> length src + 2" for d p
    using Cons [of sw_plain] Cons [of sw_percent] Cons [of sw_percent_second] by simp_all
  have write_out: "length (fst (write_out xs (unescape_loop type sw_plain d p src))) \<le> Suc (Suc (Suc (length src)))" if "length xs \<le> 3" for xs d p
    using IH(1) [of d p] that by (simp add: write_out_length)
  show ?case
  proof (cases state)
    case sw_plain
    then show ?thesis using IH by (simp add: unescape_loop.simps write_out_length le_SucI)
  next
    case sw_percent
    then show ?thesis using IH by (simp add: unescape_loop.simps write_out_length le_SucI)
  next
    case sw_percent_second
    then show ?thesis
      using IH write_out [OF redirect_length] write_out [of "[_]"]
      by (simp add: unescape_loop.simps Let_def le_SucI)
  qed
qed simp

text \<open>The table of refresh headers escapes the tilde, which need not be, and not the closing brace, which the comment in
  front of the tables asks for; the other tables of URIs do the opposite.\<close>

lemma refresh_table:
  "escaped NGX_ESCAPE_REFRESH (CHR ''~'') \<and> \<not> escaped NGX_ESCAPE_REFRESH (CHR ''}'')"
  "list_all (\<lambda>type. \<not> escaped type (CHR ''~'') \<and> escaped type (CHR ''}'')) [0, 1, 2, 3]"
  by code_simp+

section \<open>Round trips\<close>

text \<open>The tables of URIs escape what the decoder reads as an escape.\<close>

lemma escaped_percent: "list_all (\<lambda>type. escaped type (CHR ''%'')) [0, 1, 2, 3, 5, 6]"
  by code_simp

lemma map_char_percent: "type < 7 \<Longrightarrow> map_char ! type = CHR ''%''"
proof -
  assume "type < 7"
  then have "type \<in> set [0..<7]" by simp
  moreover have "list_all (\<lambda>i. map_char ! i = CHR ''%'') [0..<7]" by code_simp
  ultimately show ?thesis by (simp only: list_all_iff)
qed

lemma hex_upper_digits:
  "list_all (\<lambda>i. if is_digit (hex_upper ! i) then digit_of (hex_upper ! i) = int i
    else is_hex_letter (hex_upper ! i) \<and> hex_letter_of (hex_upper ! i) = int i) [0..<16]"
  by code_simp

lemma hex_upper_digit:
  "i < 16 \<Longrightarrow> if is_digit (hex_upper ! i) then digit_of (hex_upper ! i) = int i
    else is_hex_letter (hex_upper ! i) \<and> hex_letter_of (hex_upper ! i) = int i"
proof -
  assume "i < 16"
  then have "i \<in> set [0..<16]" by simp
  with hex_upper_digits show ?thesis unfolding list_all_iff by (rule bspec)
qed

lemma nibbles:
  "drop_bit 4 (ord c) < 16" "ord c AND 15 < 16"
  "second_digit (char_of (drop_bit 4 (ord c))) (int (ord c AND 15)) = c"
proof -
  have c: "ord c div 16 < 16" using ord_less_256 [of c] by (simp add: less_mult_imp_div_less)
  show "drop_bit 4 (ord c) < 16" using c by (simp add: drop_bit_eq_div)
  show "ord c AND 15 < 16" by (simp add: bit_arith)
  have "ord c div 16 * 16 + ord c mod 16 = ord c" by (rule div_mult_mod_eq)
  then show "second_digit (char_of (drop_bit 4 (ord c))) (int (ord c AND 15)) = c"
    using c by (simp add: second_digit_def bit_arith drop_bit_eq_div push_bit_eq_mult)
qed

lemma unescape_escaped:
  "unescape_loop 0 sw_plain decoded prev
    (CHR ''%'' # hex_upper ! drop_bit 4 (ord c) # hex_upper ! (ord c AND 15) # src) =
   write_out [c] (unescape_loop 0 sw_plain (char_of (drop_bit 4 (ord c))) (hex_upper ! (ord c AND 15)) src)"
  using hex_upper_digit [OF nibbles(1) [of c]] hex_upper_digit [OF nibbles(2) [of c]] nibbles(3) [of c]
  by (simp add: unescape_loop.simps NGX_UNESCAPE_URI_def NGX_UNESCAPE_REDIRECT_def Let_def split: if_splits)

lemma unescape_escape:
  assumes "type \<in> {0, 1, 2, 3, 5, 6}"
  shows "unescape_loop 0 sw_plain decoded prev (ngx_escape_uri type s) = (s, [])"
proof (induction s arbitrary: decoded prev)
  case (Cons c s)
  have t: "map_char ! type = CHR ''%''" "escaped type (CHR ''%'')"
    using map_char_percent [of type] escaped_percent assms by auto
  show ?case
  proof (cases "escaped type c")
    case True
    then show ?thesis using Cons t(1) by (simp add: unescape_escaped write_out_def)
  next
    case False
    then have "c \<noteq> CHR ''%''" using t(2) by auto
    then show ?thesis using Cons False by (simp add: unescape_loop.simps write_out_def NGX_UNESCAPE_URI_def NGX_UNESCAPE_REDIRECT_def)
  qed
qed simp

text \<open>What \<open>ngx_escape_uri\<close> writes in the forms that escape the percent sign, \<open>ngx_unescape_uri\<close> reads back to
  the end, and the size of it is the size of the source and two bytes for each byte that is counted.\<close>

theorem escape_uri_roundtrip:
  "list_all (\<lambda>type. ngx_unescape_uri 0 (ngx_escape_uri type s) = (s, [])
      \<and> length (ngx_escape_uri type s) = length s + 2 * escape_uri_count type s)
    [NGX_ESCAPE_URI, NGX_ESCAPE_ARGS, NGX_ESCAPE_URI_COMPONENT, NGX_ESCAPE_HTML, NGX_ESCAPE_MEMCACHED, NGX_ESCAPE_MAIL_AUTH]"
  using unescape_escape
  by (simp add: ngx_unescape_uri_def escape_uri_length NGX_ESCAPE_URI_def NGX_ESCAPE_ARGS_def NGX_ESCAPE_URI_COMPONENT_def
      NGX_ESCAPE_HTML_def NGX_ESCAPE_MEMCACHED_def NGX_ESCAPE_MAIL_AUTH_def)

text \<open>The text that an HTML reader sees, for the four names that are written.\<close>

fun html_text :: "bytes \<Rightarrow> bytes" where
  "html_text [] = []"
| "html_text (c # s) =
     (if c \<noteq> CHR ''&'' then c # html_text s
      else if take 3 s = ''lt;'' then CHR ''<'' # html_text (drop 3 s)
      else if take 3 s = ''gt;'' then CHR ''>'' # html_text (drop 3 s)
      else if take 4 s = ''amp;'' then CHR ''&'' # html_text (drop 4 s)
      else if take 5 s = ''quot;'' then CHR 0x22 # html_text (drop 5 s)
      else c # html_text s)"

text \<open>A text escaped for HTML has no bracket and no quote, is read as the text it was, and has the size that was
  counted.\<close>

theorem escape_html_safe:
  "set (ngx_escape_html s) \<inter> {CHR ''<'', CHR ''>'', CHR 0x22} = {}
    \<and> html_text (ngx_escape_html s) = s \<and> length (ngx_escape_html s) = length s + escape_html_count s"
proof (induction s)
  case (Cons c s)
  have "html_text (html_byte c @ ngx_escape_html s) = c # html_text (ngx_escape_html s)"
    by (simp add: html_byte_def)
  then show ?case using Cons by (auto simp: html_byte_def escape_html_length)
qed simp

text \<open>A string of JSON between its quotes: a reader that refuses bare control characters and quotes.\<close>

definition json_hex :: "char \<Rightarrow> nat option" where
  "json_hex c =
     (if is_digit c then Some (nat (digit_of c))
      else if is_hex_letter c then Some (nat (hex_letter_of c)) else None)"

fun json_text :: "bytes \<Rightarrow> bytes option" where
  "json_text [] = Some []"
| "json_text (c # s) =
     (if c = CHR 0x22 \<or> ord c < 32 then None
      else if c \<noteq> CHR 0x5C then map_option ((#) c) (json_text s)
      else
        case s of
          [] \<Rightarrow> None
        | d # s \<Rightarrow>
            if d = CHR 0x22 \<or> d = CHR 0x5C \<or> d = CHR ''/'' then map_option ((#) d) (json_text s)
            else if d = CHR ''n'' then map_option ((#) LF) (json_text s)
            else if d = CHR ''r'' then map_option ((#) CR) (json_text s)
            else if d = CHR ''t'' then map_option ((#) HT) (json_text s)
            else if d = CHR ''b'' then map_option ((#) (CHR 0x08)) (json_text s)
            else if d = CHR ''f'' then map_option ((#) (CHR 0x0C)) (json_text s)
            else if d = CHR ''u'' then
              case s of
                h3 # h2 # h1 # h0 # s \<Rightarrow>
                  if h3 = CHR ''0'' \<and> h2 = CHR ''0'' then
                    case (json_hex h1, json_hex h0) of
                      (Some a, Some b) \<Rightarrow> if a < 8 then map_option ((#) (char_of (16 * a + b))) (json_text s) else None
                    | _ \<Rightarrow> None
                  else None
              | _ \<Rightarrow> None
            else None)"

declare json_text.simps(2) [simp del]

lemma json_hex_digits:
  "list_all (\<lambda>i. json_hex (if i < 10 then char_of (48 + i) else char_of (65 + i - 10)) = Some i) [0..<16]"
  by code_simp

lemma json_hex_digit: "i < 16 \<Longrightarrow> json_hex (if i < 10 then char_of (48 + i) else char_of (65 + i - 10)) = Some i"
proof -
  assume "i < 16"
  then have "i \<in> set [0..<16]" by simp
  with json_hex_digits show ?thesis unfolding list_all_iff by (rule bspec)
qed

lemma json_text_byte: "json_text (json_byte c @ s) = map_option ((#) c) (json_text s)"
proof (cases "CHR 0x1F < c")
  case True
  then have "32 \<le> ord c" by (simp add: less_char_def)
  then show ?thesis using True by (simp add: json_byte_def json_text.simps(2))
next
  case False
  then have c: "ord c < 32" by (simp add: less_char_def)
  show ?thesis
  proof (cases "c \<in> set json_short")
    case True
    then show ?thesis using False by (auto simp: json_byte_def json_short_def json_text.simps(2))
  next
    case other: False
    let ?hi = "ord c div 16" and ?lo = "ord c mod 16"
    have hi: "?hi < 8" "?hi < 16" "?hi < 10" using c by simp_all
    have "json_byte c = CHR 0x5C # ''u00'' @ [char_of (48 + ?hi), if ?lo < 10 then char_of (48 + ?lo) else char_of (65 + ?lo - 10)]"
      using False other by (simp add: json_byte_def json_short_def Let_def bit_arith drop_bit_eq_div)
    moreover have "json_hex (char_of (48 + ?hi)) = Some ?hi" using json_hex_digit [OF hi(2)] hi(3) by simp
    moreover have "json_hex (if ?lo < 10 then char_of (48 + ?lo) else char_of (65 + ?lo - 10)) = Some ?lo"
      by (rule json_hex_digit) simp
    moreover have "char_of (16 * ?hi + ?lo) = c" by simp
    ultimately show ?thesis using hi by (simp add: json_text.simps(2) del: char_of_eq_iff)
  qed
qed

text \<open>A text escaped for JSON is read back as it was by a reader that refuses bare quotes and control characters,
  and has the size that was counted.\<close>

theorem escape_json_roundtrip:
  "json_text (ngx_escape_json s) = Some s \<and> length (ngx_escape_json s) = length s + escape_json_count s"
proof -
  have "json_text (ngx_escape_json s) = Some s" by (induction s) (simp_all add: json_text_byte)
  then show ?thesis by (simp add: escape_json_length)
qed

end
