(* ===== verification/UnsafeUri.thy ===== *)
theory UnsafeUri
  imports HttpUri NgxEscape
begin

text \<open>
  \<open>ngx_http_parse_unsafe_uri\<close> of \<open>src/http/ngx_http_parse.c\<close>: the check of a URI that does not come from a
  request line (a header of an upstream, a destination of DAV, an include), before it is used as a path.
  The result is the path, decoded when it has escapes, with the arguments if there are any; \<open>None\<close> is
  \<open>NGX_ERROR\<close>.  \<open>alloc\<close> is whether \<open>ngx_pnalloc\<close> succeeds.
\<close>

text \<open>\<open>..\<close> at the start, up to a slash or the end.\<close>

definition dot_dot_start :: "bytes \<Rightarrow> bool" where
  "dot_dot_start p \<longleftrightarrow> take 2 p = ''..'' \<and> (length p = 2 \<or> p ! 2 = CHR ''/'')"

text \<open>The first pass: whether there was an escape, the path and the arguments.\<close>

fun unsafe_scan :: "bool \<Rightarrow> bytes \<Rightarrow> (bool \<times> bytes \<times> bytes option) option" where
  "unsafe_scan quoted [] = Some (quoted, [], None)"
| "unsafe_scan quoted (ch # p) =
     (let on = map_option (\<lambda>(q, u, query). (q, ch # u, query))
      in if ch = CHR ''%'' then on (unsafe_scan True p)
         else if is_usual ch then on (unsafe_scan quoted p)
         else if ch = CHR ''?'' then Some (quoted, [], Some p)
         else if ch = NUL then None
         else if ch = CHR ''/'' \<and> length p \<ge> 2 \<and> dot_dot_start p then None
         else on (unsafe_scan quoted p))"

text \<open>The second pass, over the decoded path.\<close>

fun decoded_scan :: "bytes \<Rightarrow> bool" where
  "decoded_scan [] = True"
| "decoded_scan (ch # p) =
     (if ch = NUL then False
      else if ch = CHR ''/'' \<and> length p \<ge> 2 \<and> dot_dot_start p then False
      else decoded_scan p)"

definition ngx_http_parse_unsafe_uri :: "bool \<Rightarrow> bytes \<Rightarrow> (bytes \<times> bytes option) option" where
  "ngx_http_parse_unsafe_uri alloc src =
     (if src = [] \<or> hd src = CHR ''?'' then None
      else if dot_dot_start src then None
      else
        case unsafe_scan False src of
          None \<Rightarrow> None
        | Some (quoted, u, query) \<Rightarrow>
            if quoted then
              if \<not> alloc then None
              else
                let d = fst (ngx_unescape_uri 0 u)
                in if dot_dot_start d \<or> \<not> decoded_scan d then None else Some (d, query)
            else Some (u, query))"

section \<open>No segment goes up\<close>

lemma hd_segments: "hd (segments s) = takeWhile (\<lambda>c. c \<noteq> CHR ''/'') s"
  by (induction s) auto

lemma dot_dot_hd: "dot_dot_start s \<longleftrightarrow> hd (segments s) = ''..''"
proof -
  consider "length s < 3" | a b c t where "s = a # b # c # t"
    by (cases s; cases "tl s"; cases "tl (tl s)"; fastforce)
  then show ?thesis
  proof cases
    case 1
    then consider "s = []" | a where "s = [a]" | a b where "s = [a, b]"
      by (cases s; cases "tl s"; cases "tl (tl s)"; fastforce)
    then show ?thesis by cases (auto simp: dot_dot_start_def hd_segments)
  qed (auto simp: dot_dot_start_def hd_segments)
qed

definition no_dot_dot :: "bytes list \<Rightarrow> bool" where
  "no_dot_dot segs \<longleftrightarrow> list_all (\<lambda>x. x \<noteq> ''..'') segs"

lemma tl_segments: "segments (c # s) = (if c = CHR ''/'' then [] # segments s else (c # hd (segments s)) # tl (segments s))"
  by simp

lemma hd_tl_segments: "segments s = hd (segments s) # tl (segments s)"
  by simp

lemma decoded_scan_segments: "decoded_scan d \<Longrightarrow> NUL \<notin> set d \<and> no_dot_dot (tl (segments d))"
proof (induction d)
  case (Cons c d)
  then have IH: "NUL \<notin> set d" "no_dot_dot (tl (segments d))" "c \<noteq> NUL" by (auto split: if_splits)
  have "hd (segments d) \<noteq> ''..''" if "c = CHR ''/''"
    using that Cons.prems dot_dot_hd [of d] by (auto simp: dot_dot_start_def split: if_splits)
  then show ?case using IH hd_tl_segments [of d] by (cases "segments d") (auto simp: no_dot_dot_def)
qed (simp add: no_dot_dot_def)

lemma decoded_safe:
  assumes "decoded_scan d" and "\<not> dot_dot_start d"
  shows "NUL \<notin> set d \<and> no_dot_dot (segments d)"
  using decoded_scan_segments [OF assms(1)] assms(2)
  unfolding no_dot_dot_def dot_dot_hd by (cases "segments d") auto

lemma usual_bytes: "\<not> is_usual (CHR ''/'')" "\<not> is_usual NUL" "\<not> is_usual (CHR ''?'')"
  by code_simp+

lemma dot_dot_length: "dot_dot_start s \<Longrightarrow> 2 \<le> length s"
  by (cases s; cases "tl s") (auto simp: dot_dot_start_def)

text \<open>The first pass sees the arguments too: a last segment of the path in front of them escapes it.\<close>

lemma unsafe_scan_splits:
  "unsafe_scan quoted s = Some (q, u, query) \<Longrightarrow>
    NUL \<notin> set u \<and> CHR ''?'' \<notin> set u \<and> q = (quoted \<or> CHR ''%'' \<in> set u) \<and> s = u @ (case query of None \<Rightarrow> [] | Some a \<Rightarrow> CHR ''?'' # a)"
proof (induction s arbitrary: quoted q u query)
  case (Cons c s)
  show ?case
  proof (cases "c = CHR ''%'' \<or> is_usual c \<or> c \<noteq> CHR ''?''")
    case True
    then obtain u' where u': "u = c # u'" "unsafe_scan (quoted \<or> c = CHR ''%'') s = Some (q, u', query)"
        "c \<noteq> NUL" "c \<noteq> CHR ''?''"
      using Cons.prems usual_bytes(2,3) by (auto simp: Let_def split: if_splits)
    then show ?thesis using Cons.IH [OF u'(2)] by auto
  next
    case False
    then show ?thesis using Cons.prems by (auto simp: Let_def)
  qed
qed simp

definition path_segments :: "bytes option \<Rightarrow> bytes \<Rightarrow> bytes list" where
  "path_segments query u = (if query = None then segments u else butlast (segments u))"

lemma path_segments_cons:
  "path_segments query (c # u) =
     (if c = CHR ''/'' then [] # path_segments query u
      else case path_segments query u of [] \<Rightarrow> [] | x # xs \<Rightarrow> (c # x) # xs)"
  by (cases "segments u"; cases "tl (segments u)") (auto simp: path_segments_def)

lemma path_segments_hd:
  "path_segments query u = x # xs \<Longrightarrow>
    s = u @ (case query of None \<Rightarrow> [] | Some a \<Rightarrow> CHR ''?'' # a) \<Longrightarrow> hd (segments s) = x"
proof (induction u arbitrary: x s)
  case (Cons c u)
  then show ?case by (auto simp: path_segments_cons split: if_splits list.splits)
qed (auto simp: path_segments_def split: if_splits)

lemma path_segments_start:
  assumes "s = u @ (case query of None \<Rightarrow> [] | Some a \<Rightarrow> CHR ''?'' # a)" and "\<not> dot_dot_start s"
    and "no_dot_dot (tl (path_segments query u))"
  shows "no_dot_dot (path_segments query u)"
  using path_segments_hd [OF _ assms(1)] assms(2,3)
  by (cases "path_segments query u") (auto simp: no_dot_dot_def dot_dot_hd)

lemma unsafe_scan_segments:
  "unsafe_scan quoted s = Some (q, u, query) \<Longrightarrow> no_dot_dot (tl (path_segments query u))"
proof (induction s arbitrary: quoted q u query)
  case (Cons c s)
  show ?case
  proof (cases "c = CHR ''%'' \<or> is_usual c \<or> c \<noteq> CHR ''?''")
    case True
    then obtain u' where u': "u = c # u'" "unsafe_scan (quoted \<or> c = CHR ''%'') s = Some (q, u', query)"
        "c = CHR ''/'' \<Longrightarrow> \<not> dot_dot_start s"
      using Cons.prems usual_bytes(1) dot_dot_length [of s] by (auto simp: Let_def split: if_splits)
    have "no_dot_dot (tl (path_segments query u'))" using Cons.IH [OF u'(2)] .
    moreover have "s = u' @ (case query of None \<Rightarrow> [] | Some a \<Rightarrow> CHR ''?'' # a)"
      using unsafe_scan_splits [OF u'(2)] by simp
    ultimately show ?thesis
      using path_segments_start u'(1,3) by (auto simp: path_segments_cons no_dot_dot_def split: list.split)
  next
    case False
    then show ?thesis using Cons.prems by (auto simp: Let_def no_dot_dot_def path_segments_def)
  qed
qed (simp add: no_dot_dot_def path_segments_def)

text \<open>A URI that passes the check has no zero byte and no segment \<open>..\<close>, with its escapes read or without any,
  but for its last segment when arguments follow it and it has no escape: there the check compares with
  what follows the path.\<close>

theorem unsafe_uri_no_traversal:
  "case ngx_http_parse_unsafe_uri alloc src of
     None \<Rightarrow> True
   | Some (path, query) \<Rightarrow>
       NUL \<notin> set path
       \<and> no_dot_dot (if CHR ''%'' \<in> set (takeWhile (\<lambda>c. c \<noteq> CHR ''?'') src) then segments path
                     else path_segments query path)"
proof (cases "ngx_http_parse_unsafe_uri alloc src")
  case (Some r)
  obtain path query where r: "r = (path, query)" by (cases r)
  have start: "src \<noteq> []" "\<not> dot_dot_start src" using Some by (auto simp: ngx_http_parse_unsafe_uri_def split: if_splits)
  obtain q u where u: "unsafe_scan False src = Some (q, u, query)"
    and path: "if q then path = fst (ngx_unescape_uri 0 u) \<and> \<not> dot_dot_start path \<and> decoded_scan path else path = u"
    using Some by (auto simp: ngx_http_parse_unsafe_uri_def r Let_def split: if_splits option.splits)
  note split = unsafe_scan_splits [OF u]
  show ?thesis
  proof (cases q)
    case True
    then show ?thesis using path decoded_safe Some r by (auto simp: no_dot_dot_def simp: path_segments_def list_all_iff dest: in_set_butlastD)
  next
    case False
    then have plain: "CHR ''%'' \<notin> set u" "path = u" using split path by auto
    have "takeWhile (\<lambda>c. c \<noteq> CHR ''?'') src = u"
      using split by (cases query) (auto simp: takeWhile_append takeWhile_eq_all_conv)
    moreover have "no_dot_dot (path_segments query u)"
      using path_segments_start [of src u query] split start(2) unsafe_scan_segments [OF u] by blast
    ultimately show ?thesis using plain split Some r by simp
  qed
qed simp

text \<open>The exception is reached.\<close>

lemma unsafe_uri_misses: "ngx_http_parse_unsafe_uri True ''/..?x'' = Some (''/..'', Some ''x'')"
  by code_simp

end
