(* ===== verification/NgxPrint.thy ===== *)
theory NgxPrint
  imports NgxNumber
begin

text \<open>
  The formatter of nginx, \<open>ngx_vslprintf\<close> of \<open>src/core/ngx_string.c\<close>, with \<open>ngx_sprintf\<close>
  and \<open>ngx_snprintf\<close> on top of it.

  The destination is the list of the bytes written so far and the number of bytes that fit between the
  start of the buffer and \<open>last\<close> (\<open>None\<close> for \<open>last = (void *) -1\<close>).  The variable arguments are a list of
  tagged values.  \<open>None\<close> as a result is a format that reads an argument that was not passed or was
  passed with another type, or that ends inside a conversion, which C leaves undefined.
\<close>

section \<open>Writing into a bounded buffer\<close>

definition has_room :: "nat option \<Rightarrow> nat \<Rightarrow> bytes \<Rightarrow> bool" where
  "has_room limit k buf \<longleftrightarrow> (case limit of None \<Rightarrow> True | Some n \<Rightarrow> length buf + k \<le> n)"

text \<open>Copying until the buffer is full.\<close>

definition put_bytes :: "nat option \<Rightarrow> bytes \<Rightarrow> bytes \<Rightarrow> bytes" where
  "put_bytes limit buf s =
     (case limit of None \<Rightarrow> buf @ s | Some n \<Rightarrow> buf @ take (n - length buf) s)"

section \<open>Numbers and strings\<close>

definition hex_digits_lower :: bytes where "hex_digits_lower = ''0123456789abcdef''"
definition hex_digits_upper :: bytes where "hex_digits_upper = ''0123456789ABCDEF''"

text \<open>The digits stored downwards from the end of \<open>temp\<close>; the 32-bit loop of the code is the same loop.\<close>

fun dec_digits :: "nat \<Rightarrow> bytes \<Rightarrow> bytes" where
  "dec_digits ui64 p =
     (let p = char_of (ui64 mod 10 + 48) # p
      in if ui64 div 10 = 0 then p else dec_digits (ui64 div 10) p)"

function hex_digits :: "bytes \<Rightarrow> nat \<Rightarrow> bytes \<Rightarrow> bytes" where
  "hex_digits alphabet ui64 p =
     (let p = alphabet ! (and ui64 0xf) # p
      in if drop_bit 4 ui64 = 0 then p else hex_digits alphabet (drop_bit 4 ui64) p)"
  by pat_completeness auto
termination
  by (relation "measure (\<lambda>(alphabet, ui64, p). ui64)") (auto simp: drop_bit_eq_div)

declare dec_digits.simps [simp del] hex_digits.simps [simp del]

definition ngx_sprintf_num :: "nat option \<Rightarrow> bytes \<Rightarrow> nat \<Rightarrow> char \<Rightarrow> nat \<Rightarrow> nat \<Rightarrow> bytes" where
  "ngx_sprintf_num limit buf ui64 zero hexadecimal width =
     (let p = (if hexadecimal = 0 then dec_digits ui64 []
               else if hexadecimal = 1 then hex_digits hex_digits_lower ui64 []
               else hex_digits hex_digits_upper ui64 [])
      in put_bytes limit (put_bytes limit buf (replicate (width - length p) zero)) p)"

text \<open>The loops of \<open>ngx_sprintf_str\<close> that write two digits for a byte, while two fit.\<close>

fun put_hex_string :: "nat option \<Rightarrow> bytes \<Rightarrow> bytes \<Rightarrow> bytes \<Rightarrow> bytes" where
  "put_hex_string limit alphabet buf [] = buf"
| "put_hex_string limit alphabet buf (c # src) =
     (if has_room limit 2 buf
      then put_hex_string limit alphabet
        (buf @ [alphabet ! drop_bit 4 (ord c), alphabet ! and (ord c) 0xf]) src
      else buf)"

text \<open>\<open>len = None\<close> is \<open>(size_t) -1\<close>: up to the zero byte.\<close>

definition ngx_sprintf_str :: "nat option \<Rightarrow> bytes \<Rightarrow> bytes \<Rightarrow> nat option \<Rightarrow> nat \<Rightarrow> bytes" where
  "ngx_sprintf_str limit buf src len hexadecimal =
     (let src = (case len of None \<Rightarrow> takeWhile (\<lambda>c. c \<noteq> NUL) src | Some n \<Rightarrow> take n src)
      in if hexadecimal = 0 then put_bytes limit buf src
         else if hexadecimal = 1 then put_hex_string limit hex_digits_lower buf src
         else put_hex_string limit hex_digits_upper buf src)"

section \<open>Formats\<close>

text \<open>The arguments: an integer of any type, a \<open>u_char *\<close> with the bytes it points to, an \<open>ngx_str_t *\<close>
  or \<open>ngx_variable_value_t *\<close>, the \<open>size_t\<close> of \<open>*\<close>, and a \<open>double\<close>, given by its sign, its integer part
  and the function from \<open>scale\<close> to \<open>(uint64_t) ((f - (double) ui64) * scale + 0.5)\<close>.\<close>

datatype va_arg =
  IntArg int | CharsArg bytes | StrArg bytes | SizeArg nat | DoubleArg bool nat "nat \<Rightarrow> nat"

text \<open>The digits of a width.\<close>

fun fmt_number :: "nat \<Rightarrow> bytes \<Rightarrow> nat \<times> bytes" where
  "fmt_number width [] = (width, [])"
| "fmt_number width (c # fmt) =
     (if c \<ge> CHR ''0'' \<and> c \<le> CHR ''9'' then fmt_number (width * 10 + (ord c - 48)) fmt
      else (width, c # fmt))"

record fspec =
  f_sign :: bool
  f_hex :: nat
  f_max_width :: bool
  f_frac_width :: nat
  f_slen :: "nat option"

definition fspec_init :: fspec where
  "fspec_init =
     \<lparr>f_sign = True, f_hex = 0, f_max_width = False, f_frac_width = 0, f_slen = None\<rparr>"

text \<open>The loop over the modifiers; \<open>.\<close> ends it.\<close>

fun fmt_flags :: "fspec \<Rightarrow> bytes \<Rightarrow> va_arg list \<Rightarrow> (fspec \<times> bytes \<times> va_arg list) option" where
  "fmt_flags sp [] args = Some (sp, [], args)"
| "fmt_flags sp (c # fmt) args =
     (if c = CHR ''u'' then fmt_flags (sp\<lparr>f_sign := False\<rparr>) fmt args
      else if c = CHR ''m'' then fmt_flags (sp\<lparr>f_max_width := True\<rparr>) fmt args
      else if c = CHR ''X'' then fmt_flags (sp\<lparr>f_hex := 2, f_sign := False\<rparr>) fmt args
      else if c = CHR ''x'' then fmt_flags (sp\<lparr>f_hex := 1, f_sign := False\<rparr>) fmt args
      else if c = CHR ''.'' then
        (case fmt_number 0 fmt of (n, fmt') \<Rightarrow> Some (sp\<lparr>f_frac_width := n\<rparr>, fmt', args))
      else if c = CHR ''*'' then
        (case args of
           SizeArg n # args' \<Rightarrow> fmt_flags (sp\<lparr>f_slen := Some n\<rparr>) fmt args'
         | _ \<Rightarrow> None)
      else Some (sp, c # fmt, args))"

definition s32 :: "int \<Rightarrow> int" where
  "s32 x = (x + 2147483648) mod 4294967296 - 2147483648"

text \<open>The integer conversions: whether the value is signed, and the value.\<close>

definition fmt_integer :: "char \<Rightarrow> bool \<Rightarrow> int \<Rightarrow> (bool \<times> int) option" where
  "fmt_integer c sign v =
     (if c \<in> {CHR ''O'', CHR ''T'', CHR ''r''} then Some (True, s64 v)
      else if c = CHR ''P'' then Some (True, s32 v)
      else if c = CHR ''M'' then
        (if s64 v = -1 then Some (True, -1) else Some (False, u64 v))
      else if c \<in> {CHR ''z'', CHR ''i'', CHR ''l'', CHR ''L'', CHR ''A''} then
        (if sign then Some (True, s64 v) else Some (False, u64 v))
      else if c \<in> {CHR ''d'', CHR ''D''} then
        (if sign then Some (True, s32 v) else Some (False, u32 v))
      else None)"

definition NGX_INT_T_LEN :: nat where "NGX_INT_T_LEN = 20"
definition NGX_ATOMIC_T_LEN :: nat where "NGX_ATOMIC_T_LEN = 20"

text \<open>The end of the loop body: the minus sign and the digits.\<close>

definition put_integer ::
  "nat option \<Rightarrow> bytes \<Rightarrow> char \<Rightarrow> nat \<Rightarrow> nat \<Rightarrow> bool \<times> int \<Rightarrow> bytes" where
  "put_integer limit buf zero hex width sv =
     (case sv of
        (sign, v) \<Rightarrow>
          if sign \<and> v < 0
          then ngx_sprintf_num limit (buf @ ''-'') (nat (u64 (- v))) zero hex width
          else ngx_sprintf_num limit buf (nat (u64 v)) zero hex width)"

definition put_double ::
  "nat option \<Rightarrow> bytes \<Rightarrow> char \<Rightarrow> nat \<Rightarrow> nat \<Rightarrow> bool \<Rightarrow> nat \<Rightarrow> (nat \<Rightarrow> nat) \<Rightarrow> bytes" where
  "put_double limit buf zero width frac_width negative ui64 frac_of =
     (let buf = (if negative then buf @ ''-'' else buf);
          scale = 10 ^ frac_width;
          round_up = (frac_width \<noteq> 0 \<and> frac_of scale = scale);
          ui64 = (if round_up then Suc ui64 else ui64);
          frac = (if round_up then 0 else frac_of scale);
          buf = ngx_sprintf_num limit buf ui64 zero 0 width
      in if frac_width \<noteq> 0
         then ngx_sprintf_num limit (if has_room limit 1 buf then buf @ ''.'' else buf)
           frac (CHR ''0'') 0 frac_width
         else buf)"

definition is_str_conversion :: "char \<Rightarrow> bool" where
  "is_str_conversion c \<longleftrightarrow> c \<in> {CHR ''V'', CHR ''v''}"

definition is_integer_conversion :: "char \<Rightarrow> bool" where
  "is_integer_conversion c \<longleftrightarrow> fmt_integer c True 0 \<noteq> None"

text \<open>One conversion, \<open>switch (*fmt)\<close> on the character \<open>c\<close>.\<close>

definition convert ::
  "nat option \<Rightarrow> bytes \<Rightarrow> char \<Rightarrow> nat \<Rightarrow> fspec \<Rightarrow> char \<Rightarrow> va_arg list \<Rightarrow> (bytes \<times> va_arg list) option" where
  "convert limit buf zero width sp c args =
     (if is_str_conversion c then
        (case args of
           StrArg s # args' \<Rightarrow> Some (ngx_sprintf_str limit buf s (Some (length s)) (f_hex sp), args')
         | _ \<Rightarrow> None)
      else if c = CHR ''s'' then
        (case args of
           CharsArg s # args' \<Rightarrow> Some (ngx_sprintf_str limit buf s (f_slen sp) (f_hex sp), args')
         | _ \<Rightarrow> None)
      else if c = CHR ''f'' then
        (case args of
           DoubleArg neg n frac # args' \<Rightarrow>
             Some (put_double limit buf zero width (f_frac_width sp) neg n frac, args')
         | _ \<Rightarrow> None)
      else if c = CHR ''p'' then
        (case args of
           IntArg v # args' \<Rightarrow> Some (put_integer limit buf (CHR ''0'') 2 16 (False, u64 v), args')
         | _ \<Rightarrow> None)
      else if c = CHR ''c'' then
        (case args of
           IntArg v # args' \<Rightarrow> Some (buf @ [char_of v], args')
         | _ \<Rightarrow> None)
      else if c = CHR ''Z'' then Some (buf @ [NUL], args)
      else if c = CHR ''N'' then Some (buf @ [LF], args)
      else if is_integer_conversion c then
        (case args of
           IntArg v # args' \<Rightarrow>
             let width = (if f_max_width sp \<and> c = CHR ''i'' then NGX_INT_T_LEN
                          else if f_max_width sp \<and> c = CHR ''A'' then NGX_ATOMIC_T_LEN else width)
             in Some (put_integer limit buf zero (f_hex sp) width
               (the (fmt_integer c (f_sign sp) v)), args')
         | _ \<Rightarrow> None)
      else Some (buf @ [c], args))"

lemma fmt_number_shorter: "length (snd (fmt_number n fmt)) \<le> length fmt"
  by (induction fmt arbitrary: n) (auto simp: le_Suc_eq)

lemma fmt_flags_shorter: "fmt_flags sp fmt args = Some (sp', fmt', args') \<Longrightarrow> length fmt' \<le> length fmt"
proof (induction sp fmt args rule: fmt_flags.induct)
  case (2 sp c fmt args)
  then show ?case
    using fmt_number_shorter [of 0 fmt]
    by (auto simp: le_Suc_eq split: if_splits prod.splits list.splits va_arg.splits)
qed simp

text \<open>What follows a percent sign: the padding, the width, the modifiers and the conversion character, with the
  rest of the format and of the arguments.\<close>

definition read_spec ::
  "bytes \<Rightarrow> va_arg list \<Rightarrow> (char \<times> nat \<times> fspec \<times> char \<times> bytes \<times> va_arg list) option" where
  "read_spec fmt args =
     (let zero = (if fmt \<noteq> [] \<and> hd fmt = CHR ''0'' then CHR ''0'' else CHR '' '')
      in case fmt_number 0 fmt of
           (width, fmt1) \<Rightarrow>
             (case fmt_flags fspec_init fmt1 args of
                Some (sp, k # fmt2, args1) \<Rightarrow> Some (zero, width, sp, k, fmt2, args1)
              | _ \<Rightarrow> None))"

lemma read_spec_shorter:
  "read_spec fmt args = Some (zero, width, sp, k, fmt2, args1) \<Longrightarrow> length fmt2 < length fmt"
  using fmt_flags_shorter [of fspec_init _ args] fmt_number_shorter [of 0 fmt]
  by (fastforce simp: read_spec_def Let_def split: option.splits prod.splits list.splits)

function ngx_vslprintf :: "nat option \<Rightarrow> bytes \<Rightarrow> bytes \<Rightarrow> va_arg list \<Rightarrow> bytes option" where
  "ngx_vslprintf limit buf [] args = Some buf"
| "ngx_vslprintf limit buf (c # fmt) args =
     (if \<not> has_room limit 1 buf then Some buf
      else if c \<noteq> CHR ''%'' then ngx_vslprintf limit (buf @ [c]) fmt args
      else
        case read_spec fmt args of
          None \<Rightarrow> None
        | Some (zero, width, sp, k, fmt', args1) \<Rightarrow>
            (case convert limit buf zero width sp k args1 of
               None \<Rightarrow> None
             | Some (buf', args2) \<Rightarrow> ngx_vslprintf limit buf' fmt' args2))"
  by pat_completeness auto
termination
  by (relation "measure (\<lambda>(limit, buf, fmt, args). length fmt)") (auto dest!: read_spec_shorter)

definition ngx_sprintf :: "bytes \<Rightarrow> va_arg list \<Rightarrow> bytes option" where
  "ngx_sprintf fmt args = ngx_vslprintf None [] fmt args"

definition ngx_snprintf :: "nat \<Rightarrow> bytes \<Rightarrow> va_arg list \<Rightarrow> bytes option" where
  "ngx_snprintf n fmt args = ngx_vslprintf (Some n) [] fmt args"

declare ngx_vslprintf.simps(2) [simp del]

section \<open>The buffer is never overrun\<close>

definition within :: "nat option \<Rightarrow> bytes \<Rightarrow> bool" where
  "within limit buf \<longleftrightarrow> (case limit of None \<Rightarrow> True | Some n \<Rightarrow> length buf \<le> n)"

named_theorems within_intro "operations that stay inside the buffer"

lemma within_put [within_intro]: "within limit buf \<Longrightarrow> within limit (put_bytes limit buf s)"
  by (auto simp: within_def put_bytes_def split: option.splits)

lemma within_room [within_intro]: "has_room limit 1 buf \<Longrightarrow> within limit (buf @ [c])"
  by (auto simp: within_def has_room_def split: option.splits)

lemma has_room_within [within_intro]: "has_room limit k buf \<Longrightarrow> within limit buf"
  by (auto simp: within_def has_room_def split: option.splits)

lemma within_num [within_intro]:
  "within limit buf \<Longrightarrow> within limit (ngx_sprintf_num limit buf n zero hex width)"
  unfolding ngx_sprintf_num_def Let_def by (intro within_put)

lemma within_hex_string [within_intro]:
  "within limit buf \<Longrightarrow> within limit (put_hex_string limit alphabet buf src)"
  by (induction src arbitrary: buf)
    (auto simp: within_def has_room_def split: option.splits)

lemma within_str [within_intro]: "within limit buf \<Longrightarrow> within limit (ngx_sprintf_str limit buf src len hex)"
  unfolding ngx_sprintf_str_def Let_def by (auto intro: within_intro)

lemma within_integer [within_intro]:
  "has_room limit 1 buf \<Longrightarrow> within limit (put_integer limit buf zero hex width sv)"
  unfolding put_integer_def by (auto intro!: within_num within_room intro: has_room_within split: prod.split)

lemma within_double [within_intro]:
  "has_room limit 1 buf \<Longrightarrow> within limit (put_double limit buf zero width fw neg n frac)"
  unfolding put_double_def Let_def
  by (auto intro!: within_num within_room intro: has_room_within)

lemma within_convert:
  "has_room limit 1 buf \<Longrightarrow> convert limit buf zero width sp c args = Some (buf', args') \<Longrightarrow> within limit buf'"
  unfolding convert_def
  by (auto simp: Let_def intro!: within_str within_integer within_double within_room
      intro: has_room_within split: if_splits list.splits va_arg.splits)

lemma vslprintf_within:
  "within limit buf \<Longrightarrow> ngx_vslprintf limit buf fmt args = Some s \<Longrightarrow> within limit s"
proof (induction limit buf fmt args rule: ngx_vslprintf.induct)
  case (2 limit buf c fmt args)
  show ?case
  proof (cases "has_room limit 1 buf")
    case False
    then show ?thesis using 2 by (simp add: ngx_vslprintf.simps)
  next
    case room: True
    show ?thesis
    proof (cases "c = CHR ''%''")
      case False
      then show ?thesis
        using "2.IH"(1) room "2.prems"(2) within_room [OF room] by (simp add: ngx_vslprintf.simps)
    next
      case True
      then obtain zero width sp k fmt' args1 buf' args2
        where r: "read_spec fmt args = Some (zero, width, sp, k, fmt', args1)"
          and c: "convert limit buf zero width sp k args1 = Some (buf', args2)"
          and s: "ngx_vslprintf limit buf' fmt' args2 = Some s"
        using "2.prems"(2) room by (auto simp: ngx_vslprintf.simps split: option.splits)
      show ?thesis
        by (rule "2.IH"(2) [OF _ _ r refl refl refl refl refl c refl _ s])
          (use room True within_convert [OF room c] in auto)
    qed
  qed
qed simp

text \<open>C26: whatever the format and its arguments, \<open>ngx_snprintf\<close> writes at most as many bytes as the buffer
  has: the unchecked writes of a plain character, \<open>%c\<close>, \<open>%%\<close> and the minus sign are covered by the test
  of the loop.\<close>

theorem snprintf_bounded:
  "case ngx_snprintf n fmt args of None \<Rightarrow> True | Some s \<Rightarrow> length s \<le> n"
  using vslprintf_within [of "Some n" "[]" fmt args]
  by (auto simp: ngx_snprintf_def within_def split: option.split)

section \<open>Bounded printing is truncated printing\<close>

lemma put_take: "put_bytes (Some n) (take n b) s = take n (put_bytes None b s)"
  by (cases "length b \<le> n") (auto simp: put_bytes_def)

lemma num_take:
  "ngx_sprintf_num (Some n) (take n b) v zero hex width = take n (ngx_sprintf_num None b v zero hex width)"
  by (simp add: ngx_sprintf_num_def Let_def put_take)

lemma str_take:
  "ngx_sprintf_str (Some n) (take n b) src len 0 = take n (ngx_sprintf_str None b src len 0)"
  by (simp add: ngx_sprintf_str_def Let_def put_take)

lemma fmt_flags_hex:
  "fmt_flags sp fmt args = Some (sp', fmt', args') \<Longrightarrow> CHR ''x'' \<notin> set fmt \<Longrightarrow> CHR ''X'' \<notin> set fmt
    \<Longrightarrow> f_hex sp' = f_hex sp"
  by (induction sp fmt args rule: fmt_flags.induct)
    (auto split: if_splits list.splits va_arg.splits prod.splits)

lemma integer_take:
  assumes "length b < n"
  shows "put_integer (Some n) b zero hex width sv = take n (put_integer None b zero hex width sv)"
proof -
  have "b = take n b" and "b @ ''-'' = take n (b @ ''-'')" using assms by auto
  then have "ngx_sprintf_num (Some n) b v zero hex width = take n (ngx_sprintf_num None b v zero hex width)"
    "ngx_sprintf_num (Some n) (b @ ''-'') v zero hex width
      = take n (ngx_sprintf_num None (b @ ''-'') v zero hex width)" for v
    using num_take [of n b] num_take [of n "b @ ''-''"] by simp_all
  then show ?thesis by (simp add: put_integer_def split: prod.split)
qed

lemma double_take:
  assumes "length b < n"
  shows "put_double (Some n) b zero width fw neg v frac = take n (put_double None b zero width fw neg v frac)"
proof -
  define b1 where "b1 = (if neg then b @ ''-'' else b)"
  have b: "b1 = take n b1" using assms by (auto simp: b1_def)
  have num: "ngx_sprintf_num (Some n) b1 x zero 0 width = take n (ngx_sprintf_num None b1 x zero 0 width)" for x
    using num_take [of n b1] b by simp
  have dot: "(if has_room (Some n) 1 (take n x) then take n x @ ''.'' else take n x) = take n (x @ ''.'')"
    for x using assms by (auto simp: has_room_def)
  show ?thesis
    unfolding put_double_def Let_def b1_def [symmetric] num dot by (simp add: num_take has_room_def del: take_append)
qed

lemma convert_take:
  assumes "length b < n" and "f_hex sp = 0" and "convert None b zero width sp c args = Some (b', args')"
  shows "convert (Some n) b zero width sp c args = Some (take n b', args')"
proof -
  have s: "ngx_sprintf_str (Some n) b src len 0 = take n (ngx_sprintf_str None b src len 0)" for src len
    using str_take [of n b src len] assms(1) by simp
  have t: "take n (b @ [x]) = b @ [x]" for x using assms(1) by simp
  note i = integer_take [OF assms(1)] and d = double_take [OF assms(1)]
  consider "is_str_conversion c"
    | "\<not> is_str_conversion c" "c = CHR ''s''"
    | "\<not> is_str_conversion c" "c = CHR ''f''"
    | "\<not> is_str_conversion c" "c = CHR ''p''"
    | "\<not> is_str_conversion c" "c = CHR ''c''"
    | "\<not> is_str_conversion c" "c \<notin> set ''sfpc''" "c = CHR ''Z'' \<or> c = CHR ''N''"
    | "\<not> is_str_conversion c" "c \<notin> set ''sfpcZN''" "is_integer_conversion c"
    | "\<not> is_str_conversion c" "c \<notin> set ''sfpcZN''" "\<not> is_integer_conversion c"
    by auto
  then show ?thesis
  proof cases
    case 1
    then show ?thesis
      using assms(2,3) unfolding convert_def by (cases args) (auto simp: s split: va_arg.splits)
  next
    case 2
    then show ?thesis
      using assms(2,3) unfolding convert_def by (cases args) (auto simp: s split: va_arg.splits)
  next
    case 3
    then show ?thesis
      using assms(2,3) unfolding convert_def by (cases args) (auto simp: d split: va_arg.splits)
  next
    case 4
    then show ?thesis
      using assms(2,3) unfolding convert_def by (cases args) (auto simp: i split: va_arg.splits)
  next
    case 5
    then show ?thesis
      using assms(2,3) t unfolding convert_def
      by (cases args) (auto simp del: take_append split: va_arg.splits)
  next
    case 6
    then show ?thesis
      using assms(3) unfolding convert_def by (elim disjE) (clarsimp simp: t simp del: take_append)+
  next
    case 7
    then have ne: "c \<noteq> CHR ''s''" "c \<noteq> CHR ''f''" "c \<noteq> CHR ''p''" "c \<noteq> CHR ''c''" "c \<noteq> CHR ''Z''" "c \<noteq> CHR ''N''"
      by auto
    then obtain v where "args = IntArg v # args'"
      using 7 assms(3) unfolding convert_def by (auto simp: Let_def split: list.splits va_arg.splits)
    then show ?thesis
      using 7 ne assms(3) by (simp only: convert_def if_False list.case va_arg.case Let_def i) simp
  next
    case 8
    then show ?thesis
      using assms(3) unfolding convert_def by (clarsimp simp: t simp del: take_append)
  qed
qed

text \<open>Nothing that has been written is changed.\<close>

definition extends :: "bytes \<Rightarrow> bytes \<Rightarrow> bool" where
  "extends b b' \<longleftrightarrow> take (length b) b' = b \<and> length b \<le> length b'"

lemma extends_self: "extends b b"
  by (simp add: extends_def)

lemma extends_append: "extends b b' \<Longrightarrow> extends b (b' @ t)"
  by (auto simp: extends_def)

lemma extends_num: "extends b b' \<Longrightarrow> extends b (ngx_sprintf_num None b' v zero hex width)"
  by (auto simp: ngx_sprintf_num_def put_bytes_def Let_def intro!: extends_append)

lemma extends_hex_string: "extends b b' \<Longrightarrow> extends b (put_hex_string None alphabet b' src)"
  by (induction src arbitrary: b') (auto simp: extends_append)

lemma extends_str: "extends b b' \<Longrightarrow> extends b (ngx_sprintf_str None b' src len hex)"
  by (auto simp: ngx_sprintf_str_def put_bytes_def Let_def intro!: extends_append extends_hex_string)

lemma extends_integer: "extends b b' \<Longrightarrow> extends b (put_integer None b' zero hex width sv)"
  by (auto simp: put_integer_def intro!: extends_append extends_num split: prod.split)

lemma extends_double: "extends b b' \<Longrightarrow> extends b (put_double None b' zero width fw neg v frac)"
  by (auto simp: put_double_def Let_def intro!: extends_append extends_num)

lemma convert_extends: "convert None b zero width sp c args = Some (b', args') \<Longrightarrow> extends b b'"
  unfolding convert_def
  by (auto simp: Let_def
      intro!: extends_str extends_integer extends_double extends_append extends_self
      split: if_splits list.splits va_arg.splits)

lemma extends_trans: "extends a b \<Longrightarrow> extends b c \<Longrightarrow> extends a c"
  by (metis extends_def le_trans min_absorb1 take_take)

lemma vslprintf_extends: "ngx_vslprintf None b fmt args = Some s \<Longrightarrow> extends b s"
proof (induction "None :: nat option" b fmt args rule: ngx_vslprintf.induct)
  case (1 b args)
  then show ?case by (simp add: extends_self)
next
  case (2 b c fmt args)
  have room: "has_room None 1 b" by (simp add: has_room_def)
  show ?case
  proof (cases "c = CHR ''%''")
    case False
    then have "ngx_vslprintf None (b @ [c]) fmt args = Some s"
      using "2.prems" room by (simp add: ngx_vslprintf.simps)
    then have "extends (b @ [c]) s" by (rule "2.hyps"(1) [rotated 2]) (use room False in auto)
    then show ?thesis using extends_trans extends_append extends_self by blast
  next
    case True
    then obtain zero width sp k fmt' args1 buf' args2
      where r: "read_spec fmt args = Some (zero, width, sp, k, fmt', args1)"
        and c: "convert None b zero width sp k args1 = Some (buf', args2)"
        and s: "ngx_vslprintf None buf' fmt' args2 = Some s"
      using "2.prems" room by (auto simp: ngx_vslprintf.simps split: option.splits)
    have "extends buf' s"
      by (rule "2.hyps"(2) [OF _ _ r refl refl refl refl refl c refl s]) (use room True in auto)
    then show ?thesis using convert_extends [OF c] extends_trans by blast
  qed
qed

definition no_hex :: "bytes \<Rightarrow> bool" where
  "no_hex fmt \<longleftrightarrow> CHR ''x'' \<notin> set fmt \<and> CHR ''X'' \<notin> set fmt"

lemma fmt_number_suffix: "set (snd (fmt_number n fmt)) \<subseteq> set fmt"
  by (induction fmt arbitrary: n) auto

lemma fmt_flags_suffix:
  "fmt_flags sp fmt args = Some (sp', fmt', args') \<Longrightarrow> set fmt' \<subseteq> set fmt"
proof (induction sp fmt args rule: fmt_flags.induct)
  case (2 sp c fmt args)
  then show ?case
    using fmt_number_suffix [of 0 fmt]
    by (auto split: if_splits prod.splits list.splits va_arg.splits)
qed simp

lemma read_spec_no_hex:
  assumes "read_spec fmt args = Some (zero, width, sp, k, fmt', args1)" and "no_hex fmt"
  shows "f_hex sp = 0 \<and> no_hex fmt'"
proof -
  obtain n fmt1 where n: "fmt_number 0 fmt = (n, fmt1)" by fastforce
  then have s: "set fmt1 \<subseteq> set fmt" using fmt_number_suffix [of 0 fmt] by simp
  have f: "fmt_flags fspec_init fmt1 args = Some (sp, k # fmt', args1)"
    using assms(1) n by (auto simp: read_spec_def Let_def split: option.splits list.splits)
  have "f_hex sp = f_hex fspec_init"
    using fmt_flags_hex [OF f] s assms(2) by (auto simp: no_hex_def)
  moreover have "set fmt' \<subseteq> set fmt" using fmt_flags_suffix [OF f] s by auto
  ultimately show ?thesis using assms(2) by (auto simp: no_hex_def fspec_init_def)
qed

lemma vslprintf_take:
  "ngx_vslprintf None b fmt args = Some s \<Longrightarrow> no_hex fmt
    \<Longrightarrow> ngx_vslprintf (Some n) (take n b) fmt args = Some (take n s)"
proof (induction "None :: nat option" b fmt args rule: ngx_vslprintf.induct)
  case (1 b args)
  then show ?case by simp
next
  case (2 b c fmt args)
  have room: "has_room None 1 b" by (simp add: has_room_def)
  show ?case
  proof (cases "length b < n")
    case False
    then have "take n s = take n b"
      using vslprintf_extends [OF "2.prems"(1)] by (metis extends_def min_absorb1 not_less take_take)
    then show ?thesis using False by (simp add: ngx_vslprintf.simps has_room_def)
  next
    case len: True
    then have room': "has_room (Some n) 1 b" and b: "take n b = b" by (auto simp: has_room_def)
    show ?thesis
    proof (cases "c = CHR ''%''")
      case False
      have s: "ngx_vslprintf None (b @ [c]) fmt args = Some s"
        using "2.prems"(1) room False by (simp add: ngx_vslprintf.simps)
      have "ngx_vslprintf (Some n) (take n (b @ [c])) fmt args = Some (take n s)"
        by (rule "2.hyps"(1) [OF _ _ s]) (use room False "2.prems"(2) in \<open>auto simp: no_hex_def\<close>)
      moreover have "take n (b @ [c]) = b @ [c]" using len by simp
      ultimately show ?thesis using room' False b by (simp add: ngx_vslprintf.simps del: take_append)
    next
      case True
      then obtain zero width sp k fmt' args1 buf' args2
        where r: "read_spec fmt args = Some (zero, width, sp, k, fmt', args1)"
          and c: "convert None b zero width sp k args1 = Some (buf', args2)"
          and s: "ngx_vslprintf None buf' fmt' args2 = Some s"
        using "2.prems" room by (auto simp: ngx_vslprintf.simps split: option.splits)
      have h: "f_hex sp = 0" "no_hex fmt'"
        using read_spec_no_hex [OF r] "2.prems"(2) by (auto simp: no_hex_def)
      have "ngx_vslprintf (Some n) (take n buf') fmt' args2 = Some (take n s)"
        by (rule "2.hyps"(2) [OF _ _ r refl refl refl refl refl c refl s h(2)]) (use room True in auto)
      then show ?thesis
        using convert_take [OF len h(1) c] room' True r b by (simp add: ngx_vslprintf.simps)
    qed
  qed
qed

text \<open>A bounded print is the unbounded one cut at the end of the buffer, for every format without
  hexadecimal conversions (a hexadecimal string stops before a byte that does not fit as a whole).\<close>

lemma snprintf_truncates:
  assumes "ngx_sprintf fmt args = Some s" and "no_hex fmt"
  shows "ngx_snprintf n fmt args = Some (take n s)"
  using vslprintf_take [of "[]" fmt args s n] assms by (simp add: ngx_sprintf_def ngx_snprintf_def)

theorem snprintf_truncates_witness:
  "ngx_snprintf 6 ''%s=%03d'' [CharsArg ''max'', IntArg 7] = Some ''max=00''"
proof -
  have s: "ngx_sprintf ''%s=%03d'' [CharsArg ''max'', IntArg 7] = Some ''max=007''" by code_simp
  show ?thesis using snprintf_truncates [OF s, of 6] by (simp add: no_hex_def)
qed

section \<open>Numbers read back\<close>

lemma dec_digits_spec:
  "\<exists>s. (\<forall>p. dec_digits n p = s @ p) \<and> s \<noteq> [] \<and> all_digits s \<and> dec_value s = int n
     \<and> (\<forall>k. n < 10 ^ Suc k \<longrightarrow> length s \<le> Suc k)"
proof (induction n rule: less_induct)
  case (less n)
  let ?c = "char_of (n mod 10 + 48) :: char"
  have o: "ord ?c = n mod 10 + 48" by (rule ord_char_of_small) simp
  then have c: "is_digit ?c" "digit_of ?c = int (n mod 10)"
    by (auto simp: is_digit_ord digit_of_def simp del: ord_char_of_small)
  show ?case
  proof (cases "n div 10 = 0")
    case True
    then have "dec_digits n p = [?c] @ p" for p by (subst dec_digits.simps) (simp add: Let_def)
    moreover have "n mod 10 = n" using True by (simp add: div_eq_0_iff)
    ultimately show ?thesis using c by (intro exI [of _ "[?c]"]) (simp add: dec_value_def)
  next
    case False
    then have "n div 10 < n" by auto
    from less [OF this] obtain s where s: "\<And>p. dec_digits (n div 10) p = s @ p" "s \<noteq> []" "all_digits s"
      "dec_value s = int (n div 10)" "\<And>k. n div 10 < 10 ^ Suc k \<Longrightarrow> length s \<le> Suc k"
      by blast
    have "dec_digits n p = (s @ [?c]) @ p" for p
      using False s(1) by (subst dec_digits.simps) (simp add: Let_def)
    moreover have "dec_value (s @ [?c]) = int n"
      using s(4) c(2) by (simp add: dec_value_def horner_append) presburger
    moreover have "length (s @ [?c]) \<le> Suc k" if "n < 10 ^ Suc k" for k
    proof (cases k)
      case 0
      then show ?thesis using that False by simp
    next
      case (Suc j)
      then have "n div 10 < 10 ^ Suc j" using that by (simp add: less_mult_imp_div_less mult.commute)
      then show ?thesis using s(5) [of j] Suc by simp
    qed
    ultimately show ?thesis using s(2,3) c(1) by (intro exI [of _ "s @ [?c]"]) simp
  qed
qed

definition hex_alphabet :: "bytes \<Rightarrow> bool" where
  "hex_alphabet t \<longleftrightarrow> list_all (\<lambda>i. is_hex (t ! i) \<and> hex_digit (t ! i) = int i) [0..<16]"

lemma hex_alphabets: "hex_alphabet hex_digits_lower" "hex_alphabet hex_digits_upper"
  by code_simp+

lemma hex_digits_spec:
  assumes "hex_alphabet t"
  shows "\<exists>s. (\<forall>p. hex_digits t n p = s @ p) \<and> s \<noteq> [] \<and> (\<forall>c\<in>set s. is_hex c) \<and> hex_value s = int n"
proof (induction n rule: less_induct)
  case (less n)
  let ?c = "t ! (n mod 16)"
  have c: "is_hex ?c" "hex_digit ?c = int (n mod 16)"
    using assms by (auto simp: hex_alphabet_def list_all_iff)
  have step: "hex_digits t n p = (if n div 16 = 0 then ?c # p else hex_digits t (n div 16) (?c # p))" for p
    by (subst hex_digits.simps) (simp add: Let_def drop_bit_eq_div and_masks)
  show ?case
  proof (cases "n div 16 = 0")
    case True
    then have "n mod 16 = n" by (simp add: div_eq_0_iff)
    then show ?thesis using True step c by (intro exI [of _ "[?c]"]) (simp add: hex_value_def)
  next
    case False
    then have "n div 16 < n" by auto
    from less [OF this] obtain s where s: "\<And>p. hex_digits t (n div 16) p = s @ p" "s \<noteq> []"
      "\<forall>c\<in>set s. is_hex c" "hex_value s = int (n div 16)" by blast
    have "hex_digits t n p = (s @ [?c]) @ p" for p using False s(1) step by simp
    moreover have "hex_value (s @ [?c]) = int n"
      using s(4) c(2) by (simp add: hex_value_def horner_append) presburger
    ultimately show ?thesis using s(2,3) c(1) by (intro exI [of _ "s @ [?c]"]) simp
  qed
qed

text \<open>The digits always fit into \<open>temp[NGX_INT64_LEN + 1]\<close> from its end.\<close>

lemma dec_digits_fit_temp: "n < 18446744073709551616 \<Longrightarrow> length (dec_digits n []) \<le> 20"
proof -
  assume n: "n < 18446744073709551616"
  obtain s where "dec_digits n [] = s" "\<And>k. n < 10 ^ Suc k \<Longrightarrow> length s \<le> Suc k"
    using dec_digits_spec [of n] by auto
  from this(2) [of 19] this(1) n show ?thesis by simp
qed

lemma read_spec_simple:
  "read_spec ''i'' args = Some (CHR '' '', 0, fspec_init, CHR ''i'', [], args)"
  "read_spec ''xL'' args = Some (CHR '' '', 0, fspec_init\<lparr>f_hex := 1, f_sign := False\<rparr>, CHR ''L'', [], args)"
  "read_spec ''XL'' args = Some (CHR '' '', 0, fspec_init\<lparr>f_hex := 2, f_sign := False\<rparr>, CHR ''L'', [], args)"
  by (simp_all add: read_spec_def Let_def fspec_init_def)

lemma sprintf_integer:
  assumes "0 \<le> v" and "v \<le> NGX_MAX_INT_T_VALUE"
  shows "ngx_sprintf ''%i'' [IntArg v] = Some (dec_digits (nat v) [])"
    and "ngx_sprintf ''%xL'' [IntArg v] = Some (hex_digits hex_digits_lower (nat v) [])"
    and "ngx_sprintf ''%XL'' [IntArg v] = Some (hex_digits hex_digits_upper (nat v) [])"
proof -
  have v: "s64 v = v" "u64 v = v" using assms by (simp_all add: s64_id u64_id code_const)
  have i: "fmt_integer (CHR ''i'') True v = Some (True, v)" "fmt_integer (CHR ''L'') False v = Some (False, v)"
    using v by (simp_all add: fmt_integer_def)
  have k: "is_integer_conversion (CHR ''i'')" "is_integer_conversion (CHR ''L'')"
    "\<not> is_str_conversion (CHR ''i'')" "\<not> is_str_conversion (CHR ''L'')"
    by (simp_all add: is_integer_conversion_def is_str_conversion_def fmt_integer_def)
  show "ngx_sprintf ''%i'' [IntArg v] = Some (dec_digits (nat v) [])"
    and "ngx_sprintf ''%xL'' [IntArg v] = Some (hex_digits hex_digits_lower (nat v) [])"
    and "ngx_sprintf ''%XL'' [IntArg v] = Some (hex_digits hex_digits_upper (nat v) [])"
    using assms(1) v i k
    by (simp_all add: ngx_sprintf_def ngx_vslprintf.simps has_room_def read_spec_simple convert_def
        fspec_init_def put_integer_def ngx_sprintf_num_def put_bytes_def Let_def)
qed

text \<open>\<open>ngx_atoi\<close> reads back what \<open>%i\<close> prints, and \<open>ngx_hextoi\<close> what \<open>%xL\<close> and \<open>%XL\<close> print.\<close>

lemma sprintf_number_roundtrip:
  assumes "0 \<le> v" and "v \<le> NGX_MAX_INT_T_VALUE"
  shows "map_option ngx_atoi (ngx_sprintf ''%i'' [IntArg v]) = Some v
    \<and> map_option ngx_hextoi (ngx_sprintf ''%xL'' [IntArg v]) = Some v
    \<and> map_option ngx_hextoi (ngx_sprintf ''%XL'' [IntArg v]) = Some v"
proof -
  obtain s where s: "dec_digits (nat v) [] = s" "s \<noteq> []" "all_digits s" "dec_value s = v"
    using dec_digits_spec [of "nat v"] assms(1) by auto
  have h: "ngx_hextoi (hex_digits t (nat v) []) = v" if "hex_alphabet t" for t
    using hex_digits_spec [OF that, of "nat v"] assms by (auto simp: hextoi_exact)
  show ?thesis
    using sprintf_integer [OF assms] s assms(2) h [OF hex_alphabets(1)] h [OF hex_alphabets(2)]
    by (simp add: atoi.exact)
qed

theorem sprintf_number_roundtrip_witness:
  "map_option ngx_atoi (ngx_sprintf ''%i'' [IntArg 4096]) = Some 4096
   \<and> map_option ngx_hextoi (ngx_sprintf ''%xL'' [IntArg 4096]) = Some 4096"
  using sprintf_number_roundtrip [of 4096] by (simp add: code_const)

end
