(* ===== verification/RunAV.thy ===== *)
theory RunAV
  imports NgxPrint
begin

text \<open>
  The antivirus helper of BunkerWeb's ModSecurity rules, under
  \<open>src/common/core/modsecurity/files/coreruleset-v3/util/av-scanning/runAV\<close>: \<open>runAV.c\<close> and
  \<open>runAV-clamd.c\<close> run a scanner on an uploaded file and tell ModSecurity with a leading \<open>0\<close> or
  \<open>1\<close> whether to refuse it; \<open>common.c\<close> is their library (requests, configuration files, block lists).

  A C string is the list of the bytes before its zero byte.  What the operating system delivers (the
  output of a command, the lines of a file, the environment) is an argument.
\<close>

section \<open>The C library\<close>

text \<open>\<open>strstr(s, n)\<close>: the rest of \<open>s\<close> from the first occurrence of \<open>n\<close>.\<close>

fun strstr :: "bytes \<Rightarrow> bytes \<Rightarrow> bytes option" where
  "strstr [] n = (if n = [] then Some [] else None)"
| "strstr (c # s) n = (if take (length n) (c # s) = n then Some (c # s) else strstr s n)"

definition contains :: "bytes \<Rightarrow> bytes \<Rightarrow> bool" where
  "contains s n \<longleftrightarrow> (\<exists>a b. s = a @ n @ b)"

lemma strstr_Some: "strstr s n = Some r \<Longrightarrow> (\<exists>a. s = a @ r) \<and> (\<exists>b. r = n @ b)"
proof (induction s)
  case (Cons c s)
  show ?case
  proof (cases "take (length n) (c # s) = n")
    case True
    then have "r = c # s" using Cons.prems by simp
    moreover have "c # s = n @ drop (length n) (c # s)" using True by (metis append_take_drop_id)
    ultimately show ?thesis by blast
  next
    case False
    then obtain a b where "s = a @ r" "r = n @ b" using Cons by auto
    then have "c # s = (c # a) @ r" by simp
    then show ?thesis using \<open>r = n @ b\<close> by blast
  qed
qed (simp split: if_splits)

lemma strstr_None: "strstr s n = None \<longleftrightarrow> \<not> contains s n"
proof (induction s)
  case Nil
  show ?case by (auto simp: contains_def)
next
  case (Cons c s)
  have "contains (c # s) n \<longleftrightarrow> take (length n) (c # s) = n \<or> contains s n"
  proof
    assume "contains (c # s) n"
    then obtain a b where ab: "c # s = a @ n @ b" by (auto simp: contains_def)
    show "take (length n) (c # s) = n \<or> contains s n"
    proof (cases a)
      case Nil
      then show ?thesis using ab by simp
    next
      case (Cons x a')
      then show ?thesis using ab by (auto simp: contains_def)
    qed
  next
    assume "take (length n) (c # s) = n \<or> contains s n"
    then show "contains (c # s) n"
    proof
      assume "take (length n) (c # s) = n"
      then have "c # s = [] @ n @ drop (length n) (c # s)" by (metis append_Nil append_take_drop_id)
      then show ?thesis unfolding contains_def by blast
    next
      assume "contains s n"
      then obtain a b where "s = a @ n @ b" by (auto simp: contains_def)
      then have "c # s = (c # a) @ n @ b" by simp
      then show ?thesis unfolding contains_def by blast
    qed
  qed
  with Cons show ?case by simp
qed

text \<open>\<open>fgets(line, n, fp)\<close>: at most \<open>n - 1\<close> bytes, up to and with the line feed; \<open>None\<close> at the end of the
  input.  With \<open>n = 1\<close> there is room for no byte: it stores the empty string and succeeds.  The input is
  what is still to be read.\<close>

definition fgets :: "nat \<Rightarrow> bytes \<Rightarrow> (bytes \<times> bytes) option" where
  "fgets n s =
     (if n = 1 then Some ([], s)
      else if s = [] then None
      else
        let to_lf = takeWhile (\<lambda>c. c \<noteq> LF) s @ (if LF \<in> set s then [LF] else []);
            line = take (n - 1) to_lf
        in Some (line, drop (length line) s))"

text \<open>A buffer read as a C string.\<close>

definition cstr :: "bytes \<Rightarrow> bytes" where
  "cstr s = takeWhile (\<lambda>c. c \<noteq> NUL) s"

definition is_space :: "char \<Rightarrow> bool" where
  "is_space c \<longleftrightarrow> c = CHR '' '' \<or> 9 \<le> ord c \<and> ord c \<le> 13"

text \<open>\<open>strtol(num, NULL, 16)\<close> on a string of two bytes.\<close>

definition strtol16 :: "char \<Rightarrow> char \<Rightarrow> int" where
  "strtol16 a b =
     (if is_hex a then (if is_hex b then hex_digit a * 16 + hex_digit b else hex_digit a)
      else if is_space a \<or> a = CHR ''+'' then (if is_hex b then hex_digit b else 0)
      else if a = CHR ''-'' then (if is_hex b then - hex_digit b else 0)
      else 0)"

section \<open>Running a command\<close>

text \<open>The loop of \<open>run_cmd\<close>: the output collected so far, the room left and the command's remaining
  output.  \<open>None\<close> when the fuel runs out.\<close>

fun run_cmd_loop :: "nat \<Rightarrow> bytes \<Rightarrow> nat \<Rightarrow> bytes \<Rightarrow> bytes option" where
  "run_cmd_loop 0 output output_size input = None"
| "run_cmd_loop (Suc fuel) output output_size input =
     (if output_size = 0 then Some output
      else
        case fgets (if output_size > 1024 then 1024 else output_size) input of
          None \<Rightarrow> Some output
        | Some (line, input') \<Rightarrow>
            run_cmd_loop fuel (output @ cstr line) (output_size - length (cstr line)) input')"

text \<open>\<open>popened\<close> is the output of the command, or \<open>None\<close> when \<open>popen\<close> fails.  Draining what is left
  when the room is used up has no effect on the result.\<close>

definition run_cmd :: "nat \<Rightarrow> bytes option \<Rightarrow> nat \<Rightarrow> (int \<times> bytes) option" where
  "run_cmd fuel popened output_size =
     (case popened of
        None \<Rightarrow> Some (-1, [])
      | Some input \<Rightarrow> map_option (\<lambda>output. (0, output)) (run_cmd_loop fuel [] output_size input))"

section \<open>The verdict\<close>

text \<open>\<open>%d\<close> of \<open>printf\<close>.\<close>

definition print_int :: "int \<Rightarrow> bytes" where
  "print_int v = (if v < 0 then ''-'' @ dec_digits (nat (- v)) [] else dec_digits (nat v) [])"

text \<open>\<open>main\<close> of \<open>runAV.c\<close> with an argument, from the result of \<open>run_cmd\<close>; the text it prints.  \<open>None\<close>
  is a read behind the end of the output, when the only colon is its last byte.\<close>

definition verdict :: "bytes \<Rightarrow> bytes \<Rightarrow> int \<Rightarrow> bytes \<Rightarrow> bytes option" where
  "verdict tool cmd error output =
     (if error \<noteq> 0 then Some (''1 exec error '' @ print_int error @ '': OK'')
      else if output = [] then Some ''1 exec empty: OK''
      else
        case strstr output '':'' of
          None \<Rightarrow> Some (''0 unable to parse '' @ tool @ '' output ['' @ output @ ''] for cmd ['' @ cmd @ '']'')
        | Some at_colon \<Rightarrow>
            if length at_colon < 2 then None
            else
              let colon = drop 2 at_colon
              in case strstr colon '' FOUND'' of
                   Some keyword \<Rightarrow>
                     Some (''0 '' @ tool @ '': '' @ take (length colon - length keyword) colon)
                 | None \<Rightarrow>
                   (case strstr colon '' ERROR'' of
                      Some keyword \<Rightarrow>
                        Some (''0 '' @ tool @ '': '' @ take (length colon - length keyword) colon)
                    | None \<Rightarrow>
                      (case strstr colon ''OK'' of
                         Some keyword \<Rightarrow> Some (''1 '' @ tool @ '': OK'')
                       | None \<Rightarrow>
                         (case strstr colon ''Empty file'' of
                            Some keyword \<Rightarrow> Some ''1 empty file''
                          | None \<Rightarrow>
                            (case strstr colon (''Can'' @ [CHR 0x27] @ ''t access file '') of
                               Some keyword \<Rightarrow> Some (''0 invalid file '' @ drop 18 keyword)
                             | None \<Rightarrow>
                                 Some (''0 unable to parse '' @ tool @ '' output ['' @ output
                                   @ ''] for cmd ['' @ cmd @ '']''))))))"

definition MAX_OUTPUT_SIZE :: nat where "MAX_OUTPUT_SIZE = 1024 * 1024"

definition runAV_main :: "nat \<Rightarrow> bytes \<Rightarrow> (bytes \<Rightarrow> bytes option) \<Rightarrow> bytes option" where
  "runAV_main fuel argv1 popen_cmd =
     (let cmd = ''/usr/bin/clamscan --no-summary '' @ argv1
      in case run_cmd fuel (popen_cmd cmd) MAX_OUTPUT_SIZE of
           None \<Rightarrow> None
         | Some (error, output) \<Rightarrow> verdict ''clamscan'' cmd error output)"

definition runAV_clamd_main :: "nat \<Rightarrow> bytes \<Rightarrow> (bytes \<Rightarrow> bytes option) \<Rightarrow> bytes option" where
  "runAV_clamd_main fuel argv1 popen_cmd =
     (let cmd = ''/usr/bin/clamdscan --no-summary '' @ argv1
      in case run_cmd fuel (popen_cmd cmd) MAX_OUTPUT_SIZE of
           None \<Rightarrow> None
         | Some (error, output) \<Rightarrow> verdict ''clamdscan'' cmd error output)"

section \<open>Request parameters\<close>

definition MAX_NAME_LENGTH :: nat where "MAX_NAME_LENGTH = 256"
definition MAX_VALUE_LENGTH :: nat where "MAX_VALUE_LENGTH = 1024"
definition MAX_PARAMS :: nat where "MAX_PARAMS = 256"

text \<open>\<open>parameter_t\<close>; the fields are the bytes the code stores before the zero byte that ends them.\<close>

record parameter =
  param_name :: bytes
  param_value :: bytes

text \<open>One of the two copying loops of \<open>parse_query\<close>: up to the delimiter, at most \<open>limit\<close> turns,
  decoding \<open>%xx\<close>; a decoded zero byte is not stored.  Gives the rest of the query, the stored bytes and
  \<open>len\<close>, which has been incremented by the test that failed when the limit was reached.\<close>

function pq_copy :: "char \<Rightarrow> nat \<Rightarrow> nat \<Rightarrow> bytes \<Rightarrow> bytes \<Rightarrow> bytes \<times> bytes \<times> nat" where
  "pq_copy delim limit len dst [] = ([], dst, len)"
| "pq_copy delim limit len dst (c # ptr) =
     (if c = delim then (c # ptr, dst, len)
      else if \<not> len < limit then (c # ptr, dst, Suc len)
      else if c = CHR ''%'' \<and> 2 \<le> length ptr then
        (let d = char_of (strtol16 (ptr ! 0) (ptr ! 1))
         in pq_copy delim limit (Suc len) (if d \<noteq> NUL then dst @ [d] else dst) (drop 2 ptr))
      else pq_copy delim limit (Suc len) (dst @ [c]) ptr)"
  by pat_completeness auto
termination
  by (relation "measure (\<lambda>(delim, limit, len, dst, ptr). length ptr)") auto

text \<open>One field: copy, skip to the delimiter when the limit was reached, and step over the delimiter.\<close>

definition pq_field :: "char \<Rightarrow> nat \<Rightarrow> bytes \<Rightarrow> bytes \<times> bytes" where
  "pq_field delim limit ptr =
     (case pq_copy delim limit 0 [] ptr of
        (ptr, dst, len) \<Rightarrow>
          (tl (if len \<ge> limit then dropWhile (\<lambda>c. c \<noteq> delim) ptr else ptr), dst))"

text \<open>The loop over the parameters.\<close>

function pq_loop :: "nat \<Rightarrow> bytes \<Rightarrow> parameter list" where
  "pq_loop max_parameters ptr =
     (if max_parameters = 0 \<or> ptr = [] then []
      else
        case pq_field (CHR ''='') MAX_NAME_LENGTH ptr of
          (ptr1, name) \<Rightarrow>
            (case pq_field (CHR ''&'') MAX_VALUE_LENGTH ptr1 of
               (ptr2, val) \<Rightarrow>
                 \<lparr>param_name = name, param_value = val\<rparr> # pq_loop (max_parameters - 1) ptr2))"
  by pat_completeness auto
termination
  by (relation "measure (\<lambda>(max_parameters, ptr). max_parameters)") auto

declare pq_loop.simps [simp del]

definition parse_query :: "bytes option \<Rightarrow> nat \<Rightarrow> parameter list" where
  "parse_query query max_parameters =
     (if max_parameters = 0 then []
      else case query of None \<Rightarrow> [] | Some q \<Rightarrow> pq_loop max_parameters q)"

text \<open>\<open>parse_query_and_body\<close>: the query string, or \<open>CONTENT_LENGTH\<close> bytes of the standard input, which
  \<open>read\<close> delivers in pieces (\<open>reads\<close>, none longer than asked for, an empty one at the end).  The
  length is the 32-bit \<open>int\<close> that \<open>atol\<close> gives; \<open>malloc\<close> refuses a negative size.\<close>

fun read_body :: "int \<Rightarrow> bytes \<Rightarrow> bytes list \<Rightarrow> bytes" where
  "read_body content_length body [] = body"
| "read_body content_length body (piece # reads) =
     (if int (length body) < content_length \<and> piece \<noteq> []
      then read_body content_length
        (body @ take (nat (min (content_length - int (length body)) 1024)) piece) reads
      else body)"

definition parse_query_and_body ::
  "bytes option \<Rightarrow> int option \<Rightarrow> bytes list \<Rightarrow> nat \<Rightarrow> parameter list" where
  "parse_query_and_body query_string content_length reads max_parameters =
     (if query_string \<noteq> None \<and> query_string \<noteq> Some []
      then parse_query query_string max_parameters
      else
        case content_length of
          None \<Rightarrow> []
        | Some n \<Rightarrow>
            if n + 1 < 0 \<or> n + 1 > 2147483647 then []
            else parse_query (Some (cstr (read_body n [] reads))) max_parameters)"

text \<open>\<open>sscanf(line, "%[^=]=%s", name, value)\<close> when it converts both.\<close>

definition scan_pair :: "bytes \<Rightarrow> (bytes \<times> bytes) option" where
  "scan_pair line =
     (let name = takeWhile (\<lambda>c. c \<noteq> CHR ''='') line;
          rest = dropWhile (\<lambda>c. c \<noteq> CHR ''='') line;
          val = takeWhile (\<lambda>c. \<not> is_space c) (dropWhile is_space (tl rest))
      in if name = [] \<or> rest = [] \<or> val = [] then None else Some (name, val))"

fun parse_cli_loop :: "bytes list \<Rightarrow> parameter list" where
  "parse_cli_loop [] = []"
| "parse_cli_loop (arg # args) =
     (case scan_pair arg of
        None \<Rightarrow> parse_cli_loop args
      | Some (name, val) \<Rightarrow>
          if \<not> length name < MAX_NAME_LENGTH then parse_cli_loop args
          else if length val < MAX_VALUE_LENGTH
          then \<lparr>param_name = name, param_value = val\<rparr> # parse_cli_loop args
          else parse_cli_loop args)"

definition parse_cli :: "nat \<Rightarrow> bytes list \<Rightarrow> parameter list" where
  "parse_cli max_parameters args = parse_cli_loop (take max_parameters args)"

section \<open>Configuration files\<close>

lemma fgets_Some:
  assumes "fgets n s = Some (line, rest)" and "2 \<le> n"
  shows "s = line @ rest \<and> line \<noteq> [] \<and> length line \<le> n - 1"
proof -
  define l where "l = takeWhile (\<lambda>c. c \<noteq> LF) s @ (if LF \<in> set s then [LF] else [])"
  have s: "s \<noteq> []" using assms by (auto simp: fgets_def)
  have "fgets n s = Some (take (n - 1) l, drop (length (take (n - 1) l)) s)"
    using s assms(2) unfolding fgets_def Let_def l_def by simp
  then have line: "line = take (n - 1) l" and rest: "rest = drop (length line) s"
    using assms(1) by auto
  have "\<exists>b. s = l @ b"
  proof (cases "LF \<in> set s")
    case True
    then obtain a b where ab: "s = a @ LF # b" "LF \<notin> set a" by (meson split_list_first)
    then have "takeWhile (\<lambda>c. c \<noteq> LF) s = a" by (simp add: takeWhile_append takeWhile_all)
    then show ?thesis using ab by (simp add: l_def)
  next
    case False
    then have tw: "takeWhile (\<lambda>c. c \<noteq> LF) s = s" by (intro takeWhile_all) auto
    have "l = s" unfolding l_def tw using False by simp
    then show ?thesis by simp
  qed
  then obtain b where b: "s = l @ b" by blast
  have "l \<noteq> []" using s by (cases s) (auto simp: l_def)
  then have ne: "line \<noteq> []" using line assms(2) by simp
  have "s = line @ rest"
    using b line rest by (metis append_assoc append_eq_conv_conj append_take_drop_id)
  then show ?thesis using ne line by auto
qed

text \<open>\<open>parse_file\<close>: the lines of the file, without comments, that are assignments.\<close>

function parse_file_loop :: "nat \<Rightarrow> bytes \<Rightarrow> parameter list" where
  "parse_file_loop max_parameters input =
     (if max_parameters = 0 then []
      else
        case fgets 1024 input of
          None \<Rightarrow> []
        | Some (line, input') \<Rightarrow>
            (case scan_pair (takeWhile (\<lambda>c. c \<noteq> CHR ''#'') (cstr line)) of
               None \<Rightarrow> parse_file_loop max_parameters input'
             | Some (name, val) \<Rightarrow>
                 \<lparr>param_name = name, param_value = val\<rparr> # parse_file_loop (max_parameters - 1) input'))"
  by pat_completeness auto
termination
  by (relation "measure (\<lambda>(max_parameters, input). length input)")
    (auto dest!: fgets_Some)

declare parse_file_loop.simps [simp del]

definition parse_file :: "bytes option \<Rightarrow> nat \<Rightarrow> parameter list" where
  "parse_file content max_parameters =
     (if max_parameters = 0 then []
      else case content of None \<Rightarrow> [] | Some input \<Rightarrow> parse_file_loop max_parameters input)"

text \<open>The first parameter whose name contains \<open>parameter_name\<close>.\<close>

fun find_param_from :: "int \<Rightarrow> bytes \<Rightarrow> parameter list \<Rightarrow> int" where
  "find_param_from i parameter_name [] = -1"
| "find_param_from i parameter_name (p # ps) =
     (if strstr (param_name p) parameter_name \<noteq> None then i
      else find_param_from (i + 1) parameter_name ps)"

definition find_param_idx :: "bytes \<Rightarrow> parameter list \<Rightarrow> int" where
  "find_param_idx parameter_name parameters = find_param_from 0 parameter_name parameters"

text \<open>The global variables, by name, and the order in which \<open>read_conf_file\<close> looks for their values.\<close>

type_synonym conf = "bytes \<Rightarrow> bytes"

definition conf_table :: "(bytes \<times> bytes) list" where
  "conf_table =
     [(''MODSEC_CLI_HOME'', ''modsec_cli_home''),
      (''MODSEC_RPC_HOME'', ''modsec_rpc_home''),
      (''MODSEC_RPC_LOG_FILE'', ''modsec_rpc_log_file''),
      (''MODSEC_RPC_LOG_LEVEL'', ''modsec_rpc_log_level''),
      (''MODSEC_RPC_SSL_LOCKFILE'', ''modsec_rpc_ssl_lockfile''),
      (''MODSEC_RPC_SENSOR_LOCKFILE'', ''modsec_rpc_sensor_lockfile''),
      (''MODSEC_RPC_REVERSEPROXY_LOCKFILE'', ''modsec_rpc_reverseproxy_lockfile''),
      (''MODSEC_RPC_EXTERNALNIC_LOCKFILE'', ''modsec_rpc_externalnic_lockfile''),
      (''MODSEC_RPC_MUI_LOCKFILE'', ''modsec_rpc_mui_lockfile''),
      (''MODSEC_RPC_LOG_LEVEL'', ''modsec_rpc_log_level''),
      (''MODSEC_PROXY_HOME'', ''modsec_proxy_home''),
      (''MODSEC_PROXY_IP'', ''modsec_proxy_ip''),
      (''MODSEC_PROXY_PORT'', ''modsec_proxy_port''),
      (''MODSEC_PROXY_NETWORK_PREFIX'', ''modsec_proxy_network_prefix''),
      (''MODSEC_PROXY_BIN'', ''modsec_proxy_bin''),
      (''MODSEC_PROXY_CONF'', ''modsec_proxy_conf''),
      (''MODSEC_PROXY_EXT_NIC'', ''modsec_proxy_ext_nic''),
      (''MODSEC_PROXY_PID'', ''modsec_proxy_pid''),
      (''MODSEC_PROXY_WHITELIST'', ''modsec_proxy_whitelist''),
      (''MODSEC_PROXY_BLACKLIST'', ''modsec_proxy_blacklist''),
      (''MODSEC_PROXY_TIMEOUT'', ''modsec_proxy_timeout''),
      (''MODSEC_PROXY_EXCHANGE'', ''modsec_proxy_exchange''),
      (''MODSEC_PROXY_EXT_IPS'', ''modsec_proxy_ext_ips''),
      (''MODSEC_MUI_UI_ADMIN'', ''modsec_mui_ui_admin''),
      (''MODSEC_RPC_PASSWORD_FILE'', ''modsec_rpc_password_file''),
      (''MODSEC_MUI_UI_IPADDRESS'', ''modsec_mui_ui_ipaddress''),
      (''MODSEC_MUI_UI_PORT'', ''modsec_mui_ui_port''),
      (''SENSOR_ID'', ''sensor_id''),
      (''SERIAL'', ''serial''),
      (''VERSION_NUMBER'', ''version_number''),
      (''RELEASE_DATE'', ''release_date''),
      (''BRIDGE_MODE'', ''bridge_mode''),
      (''DATA_DISK_SPACE'', ''data_disk_space''),
      (''CONN_RATE'', ''conn_rate''),
      (''CONN_RATE_PER_ADDR'', ''conn_rate_per_addr''),
      (''CONNS'', ''conns''),
      (''CONNS_PER_ADDR'', ''conns_per_addr''),
      (''MODSEC_RPC'', ''modsec_rpc''),
      (''MODSEC_PROXY'', ''modsec_proxy''),
      (''MODSEC_PROXY_SCRIPT'', ''modsec_proxy_script'')]"

definition set_from :: "parameter list \<Rightarrow> conf \<Rightarrow> bytes \<times> bytes \<Rightarrow> conf" where
  "set_from parameters conf entry =
     (case entry of
        (key, var) \<Rightarrow>
          let idx = find_param_idx key parameters
          in if idx \<ge> 0 then conf(var := param_value (parameters ! nat idx)) else conf)"

definition read_conf_file :: "bytes option \<Rightarrow> conf \<Rightarrow> conf \<times> nat" where
  "read_conf_file content conf =
     (let parameters = parse_file content MAX_PARAMS
      in (foldl (set_from parameters) conf conf_table, length parameters))"

text \<open>The defaults that \<open>init_cgi\<close> sets.\<close>

definition conf_defaults :: "(bytes \<times> bytes) list" where
  "conf_defaults =
     [(''modsec_cli_home'', ''/opt/modsecurity-cli''),
      (''modsec_rpc_home'', ''/opt/modsecurity-rpc''),
      (''modsec_rpc_log_file'', ''/opt/modsecurity-rpc/var/logs/rpc.log''),
      (''modsec_rpc_log_level'', ''0''),
      (''modsec_rpc_ssl_lockfile'', ''/opt/modsecurity-rpc/var/run/ssl.lock''),
      (''modsec_rpc_sensor_lockfile'', ''/opt/modsecurity-rpc/var/run/sensor.lock''),
      (''modsec_rpc_externalnic_lockfile'', ''/opt/modsecurity-rpc/var/run/externalnic.lock''),
      (''modsec_rpc_reverseproxy_lockfile'', ''/opt/modsecurity-rpc/var/run/reverseproxy.lock''),
      (''modsec_rpc_mui_lockfile'', ''/opt/modsecurity-rpc/var/run/mui.lock''),
      (''modsec_proxy_home'', ''/opt/modsecurity-proxy''),
      (''modsec_proxy_ip'', ''127.0.0.2''),
      (''modsec_proxy_port'', ''80''),
      (''modsec_proxy_bin'', ''/bin/modsec-proxyd''),
      (''modsec_proxy_script'', ''/etc/init.d/modsec-proxy''),
      (''modsec_proxy_conf'', ''/etc/httpd.conf''),
      (''modsec_proxy_ext_nic'', ''eth0''),
      (''modsec_proxy_network_prefix'', ''172.16.0.0/12''),
      (''modsec_proxy_pid'', ''/opt/modsecurity-proxy/var/run/httpd.pid''),
      (''modsec_proxy_whitelist'', ''/opt/breach/etc/modsec_whitelist.conf''),
      (''modsec_proxy_blacklist'', ''/opt/breach/etc/modsec_blacklist.conf''),
      (''modsec_proxy_timeout'', ''120''),
      (''modsec_proxy_exchange'', ''/opt/modsecurity-proxy/var/exchange''),
      (''modsec_proxy_ext_ips'', ''/opt/breach/etc/modsec_ips.conf''),
      (''modsec_mui_ui_ipaddress'', ''127.0.0.1''),
      (''modsec_mui_ui_port'', ''443''),
      (''modsec_rpc_password_file'', ''/opt/modsecurity-rpc/etc/.htpasswd''),
      (''modsec_mui_ui_admin'', ''admin''),
      (''sensor_id'', ''1''),
      (''serial'', ''1''),
      (''version_number'', ''2.0''),
      (''bridge_mode'', ''off''),
      (''data_disk_space'', ''60''),
      (''release_date'', ''11-15-2006''),
      (''conn_rate'', ''0''),
      (''conn_rate_per_addr'', ''0''),
      (''conns'', ''0''),
      (''conns_per_addr'', ''0'')]"

text \<open>\<open>init_cgi\<close>: the defaults over the zeroed globals, then the configuration file; \<open>modsec\<close> is the
  variable \<open>MODSEC\<close> of the environment and \<open>files\<close> the contents of the files.\<close>

definition init_cgi :: "bytes option \<Rightarrow> (bytes \<Rightarrow> bytes option) \<Rightarrow> conf" where
  "init_cgi modsec files =
     (let conf = foldl (\<lambda>conf (var, val). conf(var := val)) (\<lambda>_. []) conf_defaults
      in case modsec of
           Some name \<Rightarrow> fst (read_conf_file (files name) conf)
         | None \<Rightarrow>
             (case read_conf_file (files ''/opt/breach/etc/modsec.conf'') conf of
                (conf', n) \<Rightarrow>
                  if n = 0 then fst (read_conf_file (files ''/etc/modsec.conf'') conf') else conf'))"

section \<open>Block lists\<close>

record blocklist =
  bl_ip :: bytes
  bl_start :: int
  bl_duration :: int
  bl_end :: int
  bl_token :: bytes

fun find_ip_from :: "int \<Rightarrow> bytes \<Rightarrow> blocklist list \<Rightarrow> int" where
  "find_ip_from i ip [] = -1"
| "find_ip_from i ip (b # bs) =
     (if strstr (bl_ip b) ip \<noteq> None then i else find_ip_from (i + 1) ip bs)"

definition find_ip_idx :: "bytes \<Rightarrow> blocklist list \<Rightarrow> nat \<Rightarrow> int" where
  "find_ip_idx ip blocklist num_of_ips = find_ip_from 0 ip (take num_of_ips blocklist)"

text \<open>The entries after \<open>i\<close> move down by one; the last of the \<open>num_of_ips\<close> entries stays where it is.\<close>

definition shift_down :: "nat \<Rightarrow> nat \<Rightarrow> blocklist list \<Rightarrow> blocklist list" where
  "shift_down i num_of_ips bl =
     take i bl @ take (num_of_ips - 1 - i) (drop (Suc i) bl) @ drop (num_of_ips - 1) bl"

definition to_remove :: "bytes option \<Rightarrow> int \<Rightarrow> blocklist \<Rightarrow> bool" where
  "to_remove ip t b =
     (case ip of Some a \<Rightarrow> strstr (bl_ip b) a \<noteq> None | None \<Rightarrow> t > bl_end b)"

function remove_ip_loop ::
  "bytes option \<Rightarrow> int \<Rightarrow> nat \<Rightarrow> blocklist list \<Rightarrow> nat \<Rightarrow> int \<Rightarrow> int \<times> blocklist list \<times> nat" where
  "remove_ip_loop ip t i bl num_of_ips idx =
     (if i < num_of_ips then
        (if to_remove ip t (bl ! i)
         then remove_ip_loop ip t (Suc i) (shift_down i num_of_ips bl) (num_of_ips - 1) (int i)
         else remove_ip_loop ip t (Suc i) bl num_of_ips idx)
      else (idx, bl, num_of_ips))"
  by pat_completeness auto
termination
  by (relation "measure (\<lambda>(ip, t, i, bl, num_of_ips, idx). num_of_ips - i)") auto

declare remove_ip_loop.simps [simp del]

text \<open>The result, the array, and the local count, which the caller does not see.\<close>

definition remove_ip_idx ::
  "bytes option \<Rightarrow> int \<Rightarrow> blocklist list \<Rightarrow> nat \<Rightarrow> int \<times> blocklist list \<times> nat" where
  "remove_ip_idx ip t bl num_of_ips = remove_ip_loop ip t 0 bl num_of_ips (-1)"

section \<open>Commands end, unless they fill the buffer\<close>

lemma run_cmd_loop_fits:
  assumes "NUL \<notin> set s" and "length s + 1 < room" and "length s < fuel"
  shows "run_cmd_loop fuel out room s = Some (out @ s)"
  using assms
proof (induction fuel arbitrary: out room s)
  case (Suc fuel)
  let ?n = "if room > 1024 then 1024 else room"
  have n: "2 \<le> ?n" using Suc.prems by simp
  show ?case
  proof (cases "s = []")
    case True
    then have "fgets ?n s = None" using n by (simp add: fgets_def)
    then show ?thesis using True by simp
  next
    case False
    then obtain line rest where f: "fgets ?n s = Some (line, rest)"
      using n by (auto simp: fgets_def Let_def)
    note l = fgets_Some [OF f n]
    have c: "cstr line = line" using l Suc.prems(1) by (auto simp: cstr_def takeWhile_all)
    have "run_cmd_loop fuel (out @ line) (room - length line) rest = Some ((out @ line) @ rest)"
      using l Suc.prems by (intro Suc.IH) (auto, cases line, auto)
    then show ?thesis using f c l Suc.prems by simp
  qed
qed simp

lemma run_cmd_loop_full:
  assumes "NUL \<notin> set s" and "0 < room" and "room \<le> length s + 1"
  shows "run_cmd_loop fuel out room s = None"
  using assms
proof (induction fuel arbitrary: out room s)
  case (Suc fuel)
  show ?case
  proof (cases "room = 1")
    case True
    then show ?thesis using Suc.IH [of s 1] Suc.prems by (simp add: fgets_def cstr_def)
  next
    case False
    let ?n = "if room > 1024 then 1024 else room"
    have n: "2 \<le> ?n" using False Suc.prems by simp
    have s: "s \<noteq> []" using False Suc.prems by auto
    then obtain line rest where f: "fgets ?n s = Some (line, rest)"
      using n by (auto simp: fgets_def Let_def)
    note l = fgets_Some [OF f n]
    have c: "cstr line = line" using l Suc.prems(1) by (auto simp: cstr_def takeWhile_all)
    have "length line \<le> room - 1" using l by (auto split: if_splits)
    then have "run_cmd_loop fuel (out @ line) (room - length line) rest = None"
      using l Suc.prems by (intro Suc.IH) auto
    then show ?thesis using f c Suc.prems by simp
  qed
qed simp

text \<open>C38: \<open>run_cmd\<close> collects the whole output of a command that leaves at least two bytes of the buffer
  free.  When the output fills the buffer up to its last byte, or would overfill it, the reading loop
  never ends: \<open>fgets\<close> with room for no byte keeps succeeding with the empty string.\<close>

theorem run_cmd_collects_or_hangs:
  assumes "NUL \<notin> set s" and "0 < room"
  shows "if length s + 1 < room then run_cmd (Suc (length s)) (Some s) room = Some (0, s)
    else \<forall>fuel. run_cmd fuel (Some s) room = None"
  using assms run_cmd_loop_fits [of s room "Suc (length s)" "[]"] run_cmd_loop_full [of s room _ "[]"]
  by (auto simp: run_cmd_def simp del: run_cmd_loop.simps)

theorem run_cmd_collects_or_hangs_witness:
  "run_cmd 6 (Some ''a: OK'') 6 = None \<and> run_cmd 6 (Some ''a: OK'') 7 = Some (0, ''a: OK'')"
  using run_cmd_collects_or_hangs [of "''a: OK''" 6] run_cmd_collects_or_hangs [of "''a: OK''" 7]
  by (simp add: eval_nat_numeral del: run_cmd_loop.simps)

section \<open>The verdicts\<close>

lemma strstr_colon:
  "strstr s '':'' = Some r \<longleftrightarrow> (\<exists>a. s = a @ r \<and> CHR '':'' \<notin> set a \<and> r \<noteq> [] \<and> hd r = CHR '':'')"
proof (induction s)
  case (Cons c s)
  show ?case
  proof (cases "c = CHR '':''")
    case True
    then show ?thesis by (auto simp: Cons_eq_append_conv)
  next
    case False
    then show ?thesis using Cons by (auto simp: Cons_eq_append_conv)
  qed
qed simp

definition accepts :: "int \<Rightarrow> bytes \<Rightarrow> bool" where
  "accepts error output \<longleftrightarrow>
     error \<noteq> 0 \<or> output = []
     \<or> (\<exists>a c b. output = a @ '':'' @ c # b \<and> CHR '':'' \<notin> set a
          \<and> (contains b ''OK'' \<or> contains b ''Empty file'')
          \<and> \<not> (contains b '' FOUND'' \<or> contains b '' ERROR''))"

lemma first_colon_unique:
  assumes "a @ CHR '':'' # s = a' @ CHR '':'' # s'" and "CHR '':'' \<notin> set a" and "CHR '':'' \<notin> set a'"
  shows "s = s'"
  using assms
proof (induction a arbitrary: a')
  case Nil
  then show ?case by (cases a') auto
next
  case (Cons x a)
  then show ?case by (cases a') auto
qed

lemma accepts_behind_colon:
  assumes "error = 0" and "output = a @ CHR '':'' # c # b" and "CHR '':'' \<notin> set a"
  shows "accepts error output \<longleftrightarrow>
    (contains b ''OK'' \<or> contains b ''Empty file'') \<and> \<not> (contains b '' FOUND'' \<or> contains b '' ERROR'')"
    (is "_ \<longleftrightarrow> ?P b")
proof
  assume "accepts error output"
  then obtain a' c' b' where "output = a' @ CHR '':'' # c' # b'" "CHR '':'' \<notin> set a'" "?P b'"
    using assms(1,2) by (auto simp: accepts_def)
  moreover from this assms have "c' # b' = c # b" by (metis first_colon_unique)
  ultimately show "?P b" by simp
next
  assume "?P b"
  then show "accepts error output"
    using assms unfolding accepts_def by (intro disjI2 exI [of _ a] exI [of _ c] exI [of _ b]) simp
qed

lemma verdict_behind_colon:
  assumes "error = 0" and "output \<noteq> []" and "strstr output '':'' = Some (ch # c # b)"
  shows "\<exists>msg. verdict tool cmd error output = Some msg \<and> hd msg =
    (if strstr b '' FOUND'' = None \<and> strstr b '' ERROR'' = None
        \<and> (strstr b ''OK'' \<noteq> None \<or> strstr b ''Empty file'' \<noteq> None)
     then CHR ''1'' else CHR ''0'')"
  using assms
  by (cases "strstr b '' FOUND''"; cases "strstr b '' ERROR''"; cases "strstr b ''OK''";
      cases "strstr b ''Empty file''"; cases "strstr b (''Can'' @ [CHR 0x27] @ ''t access file '')")
    (simp_all add: verdict_def del: strstr.simps)

text \<open>C21: what makes the helper accept a file.  It prints a verdict that begins with \<open>1\<close> exactly when the
  scanner could not be run, or printed nothing, or printed behind its first colon \<open>OK\<close> or
  \<open>Empty file\<close> and neither \<open> FOUND\<close> nor \<open> ERROR\<close>.  So a report of a virus behind the first colon
  is always refused, and a scanner that fails to run lets every file through.  When the output ends with
  its first colon the code reads behind the end of it.\<close>

theorem verdict_accepts:
  "case verdict tool cmd error output of
     None \<Rightarrow> error = 0 \<and> (\<exists>a. output = a @ '':'' \<and> CHR '':'' \<notin> set a)
   | Some msg \<Rightarrow> hd msg = (if accepts error output then CHR ''1'' else CHR ''0'')"
proof (cases "error \<noteq> 0 \<or> output = []")
  case True
  then show ?thesis by (auto simp: verdict_def accepts_def)
next
  case False
  then have f: "error = 0" "output \<noteq> []" by auto
  show ?thesis
  proof (cases "strstr output '':''")
    case None
    then have "\<not> contains output '':''" using strstr_None by blast
    then have "\<not> accepts error output" using f by (auto simp: accepts_def contains_def)
    then show ?thesis using f None by (simp add: verdict_def)
  next
    case (Some r)
    then obtain a s where a: "output = a @ CHR '':'' # s" "CHR '':'' \<notin> set a" and r: "r = CHR '':'' # s"
      using strstr_colon [where s = "output" and r = r] by (cases r) auto
    show ?thesis
    proof (cases s)
      case Nil
      then show ?thesis using f Some r a by (simp add: verdict_def)
    next
      case (Cons c b)
      obtain msg where "verdict tool cmd error output = Some msg" "hd msg =
          (if strstr b '' FOUND'' = None \<and> strstr b '' ERROR'' = None
              \<and> (strstr b ''OK'' \<noteq> None \<or> strstr b ''Empty file'' \<noteq> None) then CHR ''1'' else CHR ''0'')"
        using verdict_behind_colon [OF f Some [unfolded r Cons]] by blast
      then show ?thesis
        using accepts_behind_colon [OF f(1) a(1) [unfolded Cons] a(2)] by (simp add: strstr_None del: strstr.simps)
    qed
  qed
qed

section \<open>Queries\<close>

text \<open>How a client writes parameters: it escapes the bytes that \<open>esc\<close> selects.\<close>

definition hex_char :: "nat \<Rightarrow> char" where
  "hex_char n = char_of (if n < 10 then 48 + n else 87 + n)"

fun url_encode :: "(char \<Rightarrow> bool) \<Rightarrow> bytes \<Rightarrow> bytes" where
  "url_encode esc [] = []"
| "url_encode esc (c # s) =
     (if esc c then CHR ''%'' # hex_char (ord c div 16) # hex_char (ord c mod 16) # url_encode esc s
      else c # url_encode esc s)"

fun write_query :: "(char \<Rightarrow> bool) \<Rightarrow> parameter list \<Rightarrow> bytes" where
  "write_query esc [] = []"
| "write_query esc (p # ps) =
     url_encode esc (param_name p) @ ''='' @ url_encode esc (param_value p)
       @ (if ps = [] then [] else ''&'' @ write_query esc ps)"

definition fits_parameter :: "parameter \<Rightarrow> bool" where
  "fits_parameter p \<longleftrightarrow>
     NUL \<notin> set (param_name p) \<and> length (param_name p) \<le> MAX_NAME_LENGTH
     \<and> NUL \<notin> set (param_value p) \<and> length (param_value p) \<le> MAX_VALUE_LENGTH"

lemma hex_char: "n < 16 \<Longrightarrow> is_hex (hex_char n) \<and> hex_digit (hex_char n) = int n"
proof -
  assume "n < 16"
  moreover have "list_all (\<lambda>n. is_hex (hex_char n) \<and> hex_digit (hex_char n) = int n) [0..<16]"
    by code_simp
  ultimately show ?thesis by (simp add: list_all_iff)
qed

lemma strtol16_hex_char: "strtol16 (hex_char (ord c div 16)) (hex_char (ord c mod 16)) = int (ord c)"
proof -
  have "ord c div 16 < 16" using ord_less_256 [of c] by (simp add: less_mult_imp_div_less)
  moreover have "ord c mod 16 < 16" by simp
  moreover have "int (ord c div 16) * 16 + int (ord c mod 16) = int (ord c)"
    unfolding zdiv_int zmod_int by (simp only: of_nat_numeral div_mult_mod_eq)
  ultimately show ?thesis by (simp add: strtol16_def hex_char)
qed

lemma pq_copy_encoded:
  assumes "esc delim" and "esc (CHR ''%'')" and "NUL \<notin> set s" and "len + length s \<le> limit"
    and "hex_char ` {..<16} \<inter> {delim} = {}" and "delim \<noteq> CHR ''%''"
  shows "pq_copy delim limit len dst (url_encode esc s @ rest)
    = pq_copy delim limit (len + length s) (dst @ s) rest"
  using assms
proof (induction s arbitrary: len dst)
  case (Cons c s)
  have IH: "pq_copy delim limit (Suc len) (dst @ [c]) (url_encode esc s @ rest)
      = pq_copy delim limit (Suc len + length s) ((dst @ [c]) @ s) rest"
    by (rule Cons.IH) (use Cons.prems in auto)
  have ch: "char_of (int (ord c)) = c" "c \<noteq> NUL" using Cons.prems(3) by auto
  show ?case
  proof (cases "esc c")
    case True
    then show ?thesis using Cons.prems IH ch by (simp add: strtol16_hex_char)
  next
    case False
    then show ?thesis using Cons.prems(1,2,4) IH by auto
  qed
qed simp

lemma pq_field_encoded:
  assumes "esc delim" and "esc (CHR ''%'')" and "NUL \<notin> set s" and "length s \<le> limit"
    and "delim \<in> {CHR ''='', CHR ''&''}"
  shows "pq_field delim limit (url_encode esc s @ delim # rest) = (rest, s)"
    and "pq_field delim limit (url_encode esc s) = ([], s)"
proof -
  have "list_all (\<lambda>n. hex_char n \<notin> {CHR ''='', CHR ''&''}) [0..<16]" by code_simp
  then have d: "hex_char ` {..<16} \<inter> {delim} = {}" "delim \<noteq> CHR ''%''"
    using assms(5) by (auto simp: list_all_iff)
  show "pq_field delim limit (url_encode esc s @ delim # rest) = (rest, s)"
    using pq_copy_encoded [OF assms(1-3) _ d, of 0 limit "[]" "delim # rest"] assms(4)
    by (simp add: pq_field_def)
  show "pq_field delim limit (url_encode esc s) = ([], s)"
    using pq_copy_encoded [OF assms(1-3) _ d, of 0 limit "[]" "[]"] assms(4)
    by (simp add: pq_field_def)
qed

lemma pq_loop_write_query:
  assumes "esc (CHR ''='')" and "esc (CHR ''&'')" and "esc (CHR ''%'')"
    and "list_all fits_parameter ps" and "length ps \<le> max_parameters"
  shows "pq_loop max_parameters (write_query esc ps) = ps"
  using assms(4,5)
proof (induction ps arbitrary: max_parameters)
  case Nil
  show ?case by (subst pq_loop.simps) simp
next
  case (Cons p ps)
  let ?v = "url_encode esc (param_value p)"
  let ?rest = "?v @ (if ps = [] then [] else ''&'' @ write_query esc ps)"
  note f = Cons.prems(1) [simplified, unfolded fits_parameter_def]
  have n: "pq_field (CHR ''='') MAX_NAME_LENGTH (write_query esc (p # ps)) = (?rest, param_name p)"
    using pq_field_encoded(1) [OF assms(1,3), of "param_name p" MAX_NAME_LENGTH ?rest] f by simp
  have v: "pq_field (CHR ''&'') MAX_VALUE_LENGTH ?rest = (write_query esc ps, param_value p)"
    using pq_field_encoded [OF assms(2,3), of "param_value p" MAX_VALUE_LENGTH] f by simp
  have "write_query esc (p # ps) \<noteq> []" "max_parameters \<noteq> 0" using Cons.prems by auto
  then show ?case
    using n v Cons by (subst pq_loop.simps) (simp del: write_query.simps)
qed

text \<open>\<open>parse_query\<close> gets back the parameters of a query, whichever bytes the client has chosen to
  escape besides \<open>=\<close>, \<open>&\<close> and \<open>%\<close>, when there are at most as many as asked for and each fits.\<close>

lemma parse_query_roundtrip:
  assumes "esc (CHR ''='')" and "esc (CHR ''&'')" and "esc (CHR ''%'')"
    and "list_all fits_parameter ps" and "length ps \<le> max_parameters"
  shows "parse_query (Some (write_query esc ps)) max_parameters = ps"
  using pq_loop_write_query [OF assms] assms(5) by (auto simp: parse_query_def)

theorem parse_query_roundtrip_witness:
  "parse_query (Some (write_query (\<lambda>c. c \<in> set ''=&%'')
      [\<lparr>param_name = ''a=b'', param_value = ''100%''\<rparr>, \<lparr>param_name = ''c'', param_value = []\<rparr>])) 8
    = [\<lparr>param_name = ''a=b'', param_value = ''100%''\<rparr>, \<lparr>param_name = ''c'', param_value = []\<rparr>]"
  by (rule parse_query_roundtrip) (simp_all add: fits_parameter_def MAX_NAME_LENGTH_def MAX_VALUE_LENGTH_def)

lemma pq_copy_length:
  "pq_copy delim limit len dst ptr = (ptr', dst', len') \<Longrightarrow> len \<le> limit
    \<Longrightarrow> length dst \<le> len \<Longrightarrow> length dst' \<le> limit"
proof (induction delim limit len dst ptr arbitrary: ptr' dst' len' rule: pq_copy.induct)
  case (2 delim limit len dst c ptr)
  show ?case
  proof (cases "c \<noteq> delim \<and> len < limit")
    case True
    then show ?thesis
      using "2.prems" "2.IH" by (auto simp: Let_def split: if_splits)
  next
    case False
    then show ?thesis using "2.prems" by (auto split: if_splits)
  qed
qed simp

lemma pq_field_length: "length (snd (pq_field delim limit ptr)) \<le> limit"
  using pq_copy_length [of delim limit 0 "[]" ptr] by (simp add: pq_field_def split: prod.split)

lemma pq_loop_bounds:
  "length (pq_loop max_parameters ptr) \<le> max_parameters
   \<and> list_all (\<lambda>p. length (param_name p) \<le> MAX_NAME_LENGTH
       \<and> length (param_value p) \<le> MAX_VALUE_LENGTH) (pq_loop max_parameters ptr)"
proof (induction max_parameters ptr rule: pq_loop.induct)
  case (1 max_parameters ptr)
  show ?case
  proof (cases "max_parameters = 0 \<or> ptr = []")
    case True
    then show ?thesis by (subst (1 2) pq_loop.simps) auto
  next
    case False
    obtain ptr1 name where n: "pq_field (CHR ''='') MAX_NAME_LENGTH ptr = (ptr1, name)" by fastforce
    obtain ptr2 val where v: "pq_field (CHR ''&'') MAX_VALUE_LENGTH ptr1 = (ptr2, val)" by fastforce
    have "pq_loop max_parameters ptr
        = \<lparr>param_name = name, param_value = val\<rparr> # pq_loop (max_parameters - 1) ptr2"
      using False n v by (subst pq_loop.simps) simp
    moreover have "length name \<le> MAX_NAME_LENGTH" "length val \<le> MAX_VALUE_LENGTH"
      using pq_field_length n v by (metis snd_conv)+
    ultimately show ?thesis
      using "1.IH" [OF False n [symmetric] v [symmetric]] False by auto
  qed
qed

text \<open>How much \<open>parse_query\<close> stores: at most as many parameters as asked for, with names of at
  most 256 and values of at most 1024 bytes.  These lengths are reached, so the zero byte that ends a name
  goes to \<open>name[256]\<close> of an array of 256 bytes, and the one that ends a value to \<open>value[1024]\<close>.\<close>

lemma parse_query_bounds:
  "length (parse_query q max_parameters) \<le> max_parameters
   \<and> list_all (\<lambda>p. length (param_name p) \<le> MAX_NAME_LENGTH
       \<and> length (param_value p) \<le> MAX_VALUE_LENGTH) (parse_query q max_parameters)
   \<and> (\<exists>q'. \<exists>p\<in>set (parse_query (Some q') 1).
       length (param_name p) = MAX_NAME_LENGTH \<and> length (param_value p) = MAX_VALUE_LENGTH)"
proof (intro conjI)
  let ?p = "\<lparr>param_name = replicate MAX_NAME_LENGTH (CHR ''a''),
    param_value = replicate MAX_VALUE_LENGTH (CHR ''a'')\<rparr>"
  have "pq_loop 1 (write_query (\<lambda>c. c \<in> set ''=&%'') [?p]) = [?p]"
    by (rule pq_loop_write_query) (auto simp: fits_parameter_def)
  then show "\<exists>q'. \<exists>p\<in>set (parse_query (Some q') 1).
      length (param_name p) = MAX_NAME_LENGTH \<and> length (param_value p) = MAX_VALUE_LENGTH"
    by (intro exI [of _ "write_query (\<lambda>c. c \<in> set ''=&%'') [?p]"])
      (simp add: parse_query_def del: write_query.simps)
qed (use pq_loop_bounds in \<open>auto simp: parse_query_def split: option.split\<close>)

section \<open>Looking up settings\<close>

lemma find_param_from_spec:
  "find_param_from i k ps =
     (if list_ex (\<lambda>p. contains (param_name p) k) ps
      then i + int (length (takeWhile (\<lambda>p. \<not> contains (param_name p) k) ps)) else -1)"
  by (induction ps arbitrary: i) (auto simp: strstr_None)

text \<open>A setting is looked up by the first line of the file whose name contains the setting's name, so
  one whose name is a part of another's is given the other's value when that line comes first.\<close>

lemma find_param_idx_first_containing:
  "find_param_idx k ps =
     (if list_ex (\<lambda>p. contains (param_name p) k) ps
      then int (length (takeWhile (\<lambda>p. \<not> contains (param_name p) k) ps)) else -1)
   \<and> fst (read_conf_file (Some (''CONN_RATE_PER_ADDR=5'' @ [LF] @ ''CONN_RATE=1'' @ [LF])) (\<lambda>_. []))
       ''conn_rate'' = ''5''"
  unfolding find_param_idx_def find_param_from_spec by (rule conjI, simp, code_simp)

section \<open>Removing from a block list\<close>

text \<open>A sweep that goes on behind the entry that took the place of a removed one.\<close>

fun sweep :: "('a \<Rightarrow> bool) \<Rightarrow> 'a list \<Rightarrow> 'a list" where
  "sweep P [] = []"
| "sweep P [x] = (if P x then [] else [x])"
| "sweep P (x # y # xs) = (if P x then y # sweep P xs else x # sweep P (y # xs))"

lemma shift_down_take:
  assumes "i < n" and "n \<le> length bl"
  shows "length (shift_down i n bl) = length bl"
    and "take (n - 1) (shift_down i n bl) = take i bl @ drop (Suc i) (take n bl)"
proof -
  have e: "take (n - 1 - i) (drop (Suc i) bl) = drop (Suc i) (take n bl)"
    using assms by (simp add: drop_take)
  have l: "length (drop (Suc i) (take n bl)) = n - 1 - i" "length (take i bl) = i"
    using assms by auto
  show "length (shift_down i n bl) = length bl"
    using assms unfolding shift_down_def e length_append l by simp
  show "take (n - 1) (shift_down i n bl) = take i bl @ drop (Suc i) (take n bl)"
    using assms unfolding shift_down_def e take_append length_append l by simp
qed

lemma sweep_step:
  assumes "i < n" and "n \<le> length bl"
  shows "sweep P (drop i (take n bl)) =
    (if P (bl ! i)
     then take 1 (drop (Suc i) (take n bl)) @ sweep P (drop (Suc (Suc i)) (take n bl))
     else bl ! i # sweep P (drop (Suc i) (take n bl)))"
proof -
  have "drop i (take n bl) = bl ! i # drop (Suc i) (take n bl)"
    using assms by (metis Cons_nth_drop_Suc length_take min.absorb2 nth_take)
  moreover have "drop (Suc (Suc i)) (take n bl) = tl (drop (Suc i) (take n bl))"
    by (simp add: drop_Suc tl_drop)
  ultimately show ?thesis
    by (cases "drop (Suc i) (take n bl)") auto
qed

lemma remove_ip_loop_sweeps:
  assumes "n \<le> length bl" and "i \<le> n"
  shows "case remove_ip_loop ip t i bl n idx of (idx', bl', n') \<Rightarrow>
    take n' bl' = take i bl @ sweep (to_remove ip t) (drop i (take n bl))
    \<and> n' \<le> length bl' \<and> length bl' = length bl"
  using assms
proof (induction ip t i bl n idx rule: remove_ip_loop.induct)
  case (1 ip t i bl n idx)
  show ?case
  proof (cases "i < n")
    case False
    then show ?thesis using "1.prems" by (subst remove_ip_loop.simps) simp
  next
    case True
    note st = sweep_step [OF True "1.prems"(1), of "to_remove ip t"]
    show ?thesis
    proof (cases "to_remove ip t (bl ! i)")
      case r: True
      let ?b = "shift_down i n bl"
      let ?d = "drop (Suc i) (take n bl)"
      note sh = shift_down_take [OF True "1.prems"(1)]
      have loop: "remove_ip_loop ip t i bl n idx = remove_ip_loop ip t (Suc i) ?b (n - 1) (int i)"
        using True r by (subst remove_ip_loop.simps) simp
      show ?thesis
      proof (cases "Suc i < n")
        case True
        have "take (Suc i) ?b = take (Suc i) (take (n - 1) ?b)"
          using True by (simp add: min_absorb1)
        also have "\<dots> = take i bl @ take 1 ?d"
          using True "1.prems" unfolding sh(2) by (simp add: Suc_diff_le)
        finally have a: "take (Suc i) ?b = take i bl @ take 1 ?d" .
        have b: "drop (Suc i) (take (n - 1) ?b) = drop (Suc (Suc i)) (take n bl)"
          using True "1.prems" unfolding sh(2) by (simp add: Suc_diff_le)
        show ?thesis
          using "1.IH"(1) [OF \<open>i < n\<close> r] True "1.prems" st r a b sh(1) unfolding loop
          by (simp del: drop_take)
      next
        case False
        then have "n = Suc i" using True by simp
        then show ?thesis
          using sh r st "1.prems" unfolding loop by (subst remove_ip_loop.simps) simp
      qed
    next
      case False
      have "take (Suc i) bl = take i bl @ [bl ! i]"
        using True "1.prems" by (simp add: take_Suc_conv_app_nth)
      then show ?thesis
        using "1.IH"(2) [OF True False] True False "1.prems" st by (subst remove_ip_loop.simps) simp
    qed
  qed
qed

text \<open>What \<open>remove_ip_idx\<close> leaves of a block list.  The entry that moves into the place of a removed
  one is not looked at, so of two neighbours to be removed the second stays.\<close>

lemma remove_ip_idx_sweeps:
  "case remove_ip_idx ip t (bl @ unused) (length bl) of (idx, bl', n') \<Rightarrow>
    take n' bl' = sweep (to_remove ip t) bl \<and> n' = length (sweep (to_remove ip t) bl)
    \<and> length bl' = length (bl @ unused)"
  using remove_ip_loop_sweeps [of "length bl" "bl @ unused" 0 ip t "-1"]
  by (auto simp: remove_ip_idx_def split: prod.splits) (metis length_append length_take min_absorb2)

end
