(* ===== verification/HttpTime.thy ===== *)
theory HttpTime
  imports NgxPrint
begin

text \<open>
  Dates: \<open>ngx_gmtime\<close>, \<open>ngx_http_time\<close> and \<open>ngx_http_cookie_time\<close> of \<open>src/core/ngx_times.c\<close> and
  \<open>ngx_parse_http_time\<close> of \<open>src/core/ngx_parse_time.c\<close> of nginx.  They count days with a formula
  due to Gauss; the theorems relate it to the Gregorian calendar, defined below by adding up the lengths of
  years and months.
\<close>

section \<open>From seconds to dates\<close>

record ngx_tm =
  ngx_tm_sec :: int
  ngx_tm_min :: int
  ngx_tm_hour :: int
  ngx_tm_mday :: int
  ngx_tm_mon :: int
  ngx_tm_year :: int
  ngx_tm_wday :: int

text \<open>\<open>365 * year + year / 4 - year / 100 + year / 400\<close>.\<close>

definition gauss_years :: "int \<Rightarrow> int" where
  "gauss_years year = 365 * year + year div 4 - year div 100 + year div 400"

text \<open>Year and day of the year, both counted from March 1, of a number of days since March 1, 1 BC.\<close>

definition gm_year_yday :: "int \<Rightarrow> int \<times> int" where
  "gm_year_yday days =
     (let year = (days + 2) * 400 div (365 * 400 + 100 - 4 + 1);
          yday = days - gauss_years year
      in if yday < 0 then
           (let leap = (if year mod 4 = 0 \<and> (year mod 100 \<noteq> 0 \<or> year mod 400 = 0) then 1 else 0)
            in (year - 1, 365 + leap + yday))
         else (year, yday))"

definition ngx_gmtime :: "int \<Rightarrow> ngx_tm" where
  "ngx_gmtime t0 =
     (let t = (if t0 < 0 then 0 else t0);
          days0 = t div 86400;
          sec0 = t mod 86400;
          (days, sec) = (if days0 > 2932896 then (2932896, 86399) else (days0, sec0));
          wday = (4 + days) mod 7;
          (year, yday) = gm_year_yday (days - (31 + 28) + 719527);
          mon = (yday + 31) * 10 div 306;
          mday = yday - (367 * mon div 12 - 30) + 1
      in \<lparr>ngx_tm_sec = sec mod 3600 mod 60,
          ngx_tm_min = sec mod 3600 div 60,
          ngx_tm_hour = sec div 3600,
          ngx_tm_mday = mday,
          ngx_tm_mon = (if yday \<ge> 306 then mon - 10 else mon + 2),
          ngx_tm_year = (if yday \<ge> 306 then year + 1 else year),
          ngx_tm_wday = wday\<rparr>)"

definition week :: "bytes list" where
  "week = [''Sun'', ''Mon'', ''Tue'', ''Wed'', ''Thu'', ''Fri'', ''Sat'']"

definition months :: "bytes list" where
  "months = [''Jan'', ''Feb'', ''Mar'', ''Apr'', ''May'', ''Jun'',
             ''Jul'', ''Aug'', ''Sep'', ''Oct'', ''Nov'', ''Dec'']"

definition ngx_http_time :: "int \<Rightarrow> bytes option" where
  "ngx_http_time t =
     (let tm = ngx_gmtime t
      in ngx_sprintf ''%s, %02d %s %4d %02d:%02d:%02d GMT''
           [CharsArg (week ! nat (ngx_tm_wday tm)),
            IntArg (ngx_tm_mday tm),
            CharsArg (months ! nat (ngx_tm_mon tm - 1)),
            IntArg (ngx_tm_year tm),
            IntArg (ngx_tm_hour tm),
            IntArg (ngx_tm_min tm),
            IntArg (ngx_tm_sec tm)])"

definition ngx_http_cookie_time :: "int \<Rightarrow> bytes option" where
  "ngx_http_cookie_time t =
     (let tm = ngx_gmtime t
      in ngx_sprintf
           (if ngx_tm_year tm > 2037 then ''%s, %02d-%s-%d %02d:%02d:%02d GMT''
            else ''%s, %02d-%s-%02d %02d:%02d:%02d GMT'')
           [CharsArg (week ! nat (ngx_tm_wday tm)),
            IntArg (ngx_tm_mday tm),
            CharsArg (months ! nat (ngx_tm_mon tm - 1)),
            IntArg (if ngx_tm_year tm > 2037 then ngx_tm_year tm else ngx_tm_year tm mod 100),
            IntArg (ngx_tm_hour tm),
            IntArg (ngx_tm_min tm),
            IntArg (ngx_tm_sec tm)])"

section \<open>Reading a date\<close>

text \<open>Reading bytes of the value: \<open>Err\<close> is \<open>return NGX_ERROR\<close>, \<open>Overrun\<close> is a read behind its end.\<close>

datatype 'a reading = Got 'a | Err | Overrun

definition andthen :: "'a reading \<Rightarrow> ('a \<Rightarrow> 'b reading) \<Rightarrow> 'b reading" where
  "andthen m f = (case m of Got x \<Rightarrow> f x | Err \<Rightarrow> Err | Overrun \<Rightarrow> Overrun)"

definition byte_at :: "bytes \<Rightarrow> nat \<Rightarrow> char reading" where
  "byte_at s p = (if p < length s then Got (s ! p) else Overrun)"

text \<open>\<open>k\<close> digits from \<open>p\<close>; the first byte that is not a digit ends the test.\<close>

fun digits_at :: "bytes \<Rightarrow> nat \<Rightarrow> nat \<Rightarrow> int \<Rightarrow> int reading" where
  "digits_at s p 0 v = Got v"
| "digits_at s p (Suc k) v =
     andthen (byte_at s p) (\<lambda>c.
       if c < CHR ''0'' \<or> c > CHR ''9'' then Err else digits_at s (Suc p) k (v * 10 + digit_of c))"

definition expect :: "bytes \<Rightarrow> nat \<Rightarrow> char \<Rightarrow> unit reading" where
  "expect s p c = andthen (byte_at s p) (\<lambda>x. if x \<noteq> c then Err else Got ())"

datatype time_fmt = no_fmt | rfc822 | rfc850 | isoc

text \<open>The first comma or space.\<close>

fun pt_scan :: "nat \<Rightarrow> bytes \<Rightarrow> nat \<times> time_fmt" where
  "pt_scan p [] = (p, no_fmt)"
| "pt_scan p (c # s) =
     (if c = CHR '','' then (p, no_fmt)
      else if c = CHR '' '' then (p, isoc)
      else pt_scan (Suc p) s)"

definition pt_skip :: "bytes \<Rightarrow> nat \<Rightarrow> nat" where
  "pt_skip s p = p + length (takeWhile (\<lambda>c. c = CHR '' '') (drop p s))"

text \<open>\<open>end - p < n\<close>.\<close>

definition left_less :: "bytes \<Rightarrow> nat \<Rightarrow> int \<Rightarrow> bool" where
  "left_less s p n \<longleftrightarrow> int (length s) - int p < n"

text \<open>The day of the two formats that begin with it.\<close>

definition pt_day :: "bytes \<Rightarrow> nat \<Rightarrow> (time_fmt \<times> int \<times> nat) reading" where
  "pt_day s p =
     andthen (digits_at s p 2 0) (\<lambda>day.
       andthen (byte_at s (p + 2)) (\<lambda>c.
         if c = CHR '' '' then (if left_less s (p + 2) 18 then Err else Got (rfc822, day, p + 3))
         else if c = CHR ''-'' then Got (rfc850, day, p + 3)
         else Err))"

definition pt_month :: "bytes \<Rightarrow> nat \<Rightarrow> int reading" where
  "pt_month s p =
     andthen (byte_at s p) (\<lambda>c.
       if c = CHR ''J'' then
         andthen (byte_at s (p + 1)) (\<lambda>c1.
           if c1 = CHR ''a'' then Got 0
           else andthen (byte_at s (p + 2)) (\<lambda>c2. if c2 = CHR ''n'' then Got 5 else Got 6))
       else if c = CHR ''F'' then Got 1
       else if c = CHR ''M'' then
         andthen (byte_at s (p + 2)) (\<lambda>c2. if c2 = CHR ''r'' then Got 2 else Got 4)
       else if c = CHR ''A'' then
         andthen (byte_at s (p + 1)) (\<lambda>c1. if c1 = CHR ''p'' then Got 3 else Got 7)
       else if c = CHR ''S'' then Got 8
       else if c = CHR ''O'' then Got 9
       else if c = CHR ''N'' then Got 10
       else if c = CHR ''D'' then Got 11
       else Err)"

text \<open>Behind the month: the year, or the day in the third format.\<close>

definition pt_year :: "bytes \<Rightarrow> time_fmt \<Rightarrow> int \<Rightarrow> nat \<Rightarrow> (int \<times> int \<times> nat) reading" where
  "pt_year s fmt day p =
     (case fmt of
        rfc822 \<Rightarrow>
          andthen (expect s p (CHR '' '')) (\<lambda>_.
            andthen (digits_at s (p + 1) 4 0) (\<lambda>year. Got (year, day, p + 5)))
      | rfc850 \<Rightarrow>
          andthen (expect s p (CHR ''-'')) (\<lambda>_.
            andthen (digits_at s (p + 1) 2 0) (\<lambda>year.
              Got (year + (if year < 70 then 2000 else 1900), day, p + 3)))
      | _ \<Rightarrow>
          andthen (byte_at s (p + 1)) (\<lambda>c.
            let p = (if c = CHR '' '' then p + 2 else p + 1)
            in andthen (digits_at s p 1 0) (\<lambda>d.
                 andthen (byte_at s (p + 1)) (\<lambda>c1.
                   if c1 \<noteq> CHR '' '' then
                     andthen (digits_at s (p + 1) 1 d) (\<lambda>day.
                       if left_less s (p + 2) 14 then Err else Got (0, day, p + 2))
                   else if left_less s (p + 1) 14 then Err
                   else Got (0, d, p + 1)))))"

text \<open>The time of day, and the year of the third format.\<close>

definition pt_clock :: "bytes \<Rightarrow> time_fmt \<Rightarrow> int \<Rightarrow> nat \<Rightarrow> (int \<times> int \<times> int \<times> int) reading" where
  "pt_clock s fmt year p =
     andthen (expect s p (CHR '' '')) (\<lambda>_.
     andthen (digits_at s (p + 1) 2 0) (\<lambda>hour.
     andthen (expect s (p + 3) (CHR '':'')) (\<lambda>_.
     andthen (digits_at s (p + 4) 2 0) (\<lambda>minu.
     andthen (expect s (p + 6) (CHR '':'')) (\<lambda>_.
     andthen (digits_at s (p + 7) 2 0) (\<lambda>sec.
       if fmt = isoc then
         andthen (expect s (p + 9) (CHR '' '')) (\<lambda>_.
           andthen (digits_at s (p + 10) 4 0) (\<lambda>year. Got (hour, minu, sec, year)))
       else Got (hour, minu, sec, year)))))))"

definition mday :: "int list" where
  "mday = [31, 28, 31, 30, 31, 30, 31, 31, 30, 31, 30, 31]"

text \<open>The formula, in unsigned 64-bit arithmetic; \<open>month\<close> counts from 0.\<close>

definition gauss_time :: "int \<Rightarrow> int \<Rightarrow> int \<Rightarrow> int \<Rightarrow> int \<Rightarrow> int \<Rightarrow> int" where
  "gauss_time year month day hour minu sec =
     (let month' = (if month - 1 \<le> 0 then month - 1 + 12 else month - 1);
          year' = (if month - 1 \<le> 0 then u64 (year - 1) else year)
      in s64 (u64 ((gauss_years year' + 367 * month' div 12 - 30 + day - 1 - 719527 + 31 + 28)
           * 86400 + hour * 3600 + minu * 60 + sec)))"

definition pt_time :: "int \<Rightarrow> int \<Rightarrow> int \<Rightarrow> int \<Rightarrow> int \<Rightarrow> int \<Rightarrow> int reading" where
  "pt_time year month day hour minu sec =
     (if hour > 23 \<or> minu > 59 \<or> sec > 59 then Err
      else if (if day = 29 \<and> month = 1
               then year mod 4 \<noteq> 0 \<or> year mod 100 = 0 \<and> year mod 400 \<noteq> 0
               else day > mday ! nat month)
      then Err
      else Got (gauss_time year month day hour minu sec))"

definition ngx_parse_http_time :: "bytes \<Rightarrow> int reading" where
  "ngx_parse_http_time s =
     (case pt_scan 0 s of
        (p, fmt) \<Rightarrow>
          let p = pt_skip s (Suc p)
          in if left_less s p 18 then Err
             else
               andthen (if fmt \<noteq> isoc then pt_day s p else Got (isoc, 0, p)) (\<lambda>(fmt, day, p).
               andthen (pt_month s p) (\<lambda>month.
               andthen (pt_year s fmt day (p + 3)) (\<lambda>(year, day, p).
               andthen (pt_clock s fmt year p) (\<lambda>(hour, minu, sec, year).
                 pt_time year month day hour minu sec)))))"

section \<open>No read behind the end\<close>

lemma andthen_Got: "andthen m f = Got y \<longleftrightarrow> (\<exists>x. m = Got x \<and> f x = Got y)"
  by (cases m) (auto simp: andthen_def)

definition in_bounds :: "'a reading \<Rightarrow> bool" where
  "in_bounds m \<longleftrightarrow> m \<noteq> Overrun"

named_theorems reading_intro "readings that stay inside the value"

lemma in_bounds_result [reading_intro]: "in_bounds (Got x)" "in_bounds Err"
  by (simp_all add: in_bounds_def)

lemma in_bounds_andthen [reading_intro]:
  "in_bounds m \<Longrightarrow> (\<And>x. m = Got x \<Longrightarrow> in_bounds (f x)) \<Longrightarrow> in_bounds (andthen m f)"
  by (cases m) (auto simp: in_bounds_def andthen_def)

lemma in_bounds_if [reading_intro]:
  "(b \<Longrightarrow> in_bounds x) \<Longrightarrow> (\<not> b \<Longrightarrow> in_bounds y) \<Longrightarrow> in_bounds (if b then x else y)"
  by simp

lemma in_bounds_byte_at [reading_intro]: "p < length s \<Longrightarrow> in_bounds (byte_at s p)"
  by (simp add: in_bounds_def byte_at_def)

lemma in_bounds_expect [reading_intro]: "p < length s \<Longrightarrow> in_bounds (expect s p c)"
  unfolding expect_def by (intro reading_intro)

lemma in_bounds_digits_at [reading_intro]: "p + k \<le> length s \<Longrightarrow> in_bounds (digits_at s p k v)"
proof (induction k arbitrary: p v)
  case (Suc k)
  show ?case
    unfolding digits_at.simps by (intro reading_intro Suc.IH) (use Suc.prems in auto)
qed (simp add: reading_intro)

declare digits_at.simps [simp del]

lemma pt_day_safe: "p + 18 \<le> length s \<Longrightarrow> in_bounds (pt_day s p)"
  unfolding pt_day_def by (intro reading_intro) auto

lemma pt_month_safe: "p + 3 \<le> length s \<Longrightarrow> in_bounds (pt_month s p)"
  unfolding pt_month_def by (intro reading_intro) auto

lemma pt_time_safe [reading_intro]: "in_bounds (pt_time year month day hour minu sec)"
  unfolding pt_time_def by (intro reading_intro)

text \<open>Where the day leaves the reader: enough bytes are left for the rest of the format.\<close>

definition enough :: "bytes \<Rightarrow> time_fmt \<Rightarrow> nat \<Rightarrow> bool" where
  "enough s fmt q \<longleftrightarrow>
     fmt = rfc822 \<and> q + 17 \<le> length s \<or> fmt = rfc850 \<and> q + 15 \<le> length s
     \<or> fmt = isoc \<and> q + 18 \<le> length s"

lemma pt_day_left:
  assumes "p + 18 \<le> length s" and "pt_day s p = Got (fmt, day, q)"
  shows "enough s fmt q"
  using assms unfolding pt_day_def enough_def
  by (auto simp: andthen_Got left_less_def split: if_splits)

lemma pt_year_safe: "enough s fmt q \<Longrightarrow> in_bounds (pt_year s fmt day (q + 3))"
  unfolding pt_year_def Let_def enough_def
  by (elim disjE conjE; simp; intro reading_intro; simp)

lemma pt_year_left:
  assumes "enough s fmt q" and "pt_year s fmt day (q + 3) = Got (year, d, q')"
  shows "q' + 9 \<le> length s \<and> (fmt = isoc \<longrightarrow> q' + 14 \<le> length s)"
proof (cases fmt)
  case isoc
  then show ?thesis
    using assms(2) unfolding pt_year_def Let_def
    by (simp add: andthen_Got left_less_def split: if_splits) fastforce+
qed (use assms in \<open>auto simp: pt_year_def enough_def andthen_Got\<close>)

lemma pt_clock_safe:
  "q + 9 \<le> length s \<and> (fmt = isoc \<longrightarrow> q + 14 \<le> length s) \<Longrightarrow> in_bounds (pt_clock s fmt year q)"
  unfolding pt_clock_def by (intro reading_intro) auto

text \<open>\<open>ngx_parse_http_time\<close> never reads behind the end of the value: the two tests of the length (18 bytes
  behind the day's name, 14 behind the day of the third format) cover every later read.\<close>

lemma parse_http_time_no_overrun: "ngx_parse_http_time s \<noteq> Overrun"
proof -
  obtain p0 fmt0 where sc: "pt_scan 0 s = (p0, fmt0)" by fastforce
  define p where "p = pt_skip s (Suc p0)"
  have later: "in_bounds (andthen (pt_month s q) (\<lambda>month.
      andthen (pt_year s fmt day (q + 3)) (\<lambda>(year, day, q).
      andthen (pt_clock s fmt year q) (\<lambda>(hour, minu, sec, year).
        pt_time year month day hour minu sec))))" if q: "enough s fmt q" for fmt day q
  proof (intro in_bounds_andthen)
    show "in_bounds (pt_month s q)" using q by (intro pt_month_safe) (auto simp: enough_def)
    show "in_bounds (pt_year s fmt day (q + 3))" by (rule pt_year_safe [OF q])
    show "in_bounds (case x of (year, day, q) \<Rightarrow> andthen (pt_clock s fmt year q)
        (\<lambda>(hour, minu, sec, year). pt_time year month day hour minu sec))"
      if "pt_year s fmt day (q + 3) = Got x" for x month
      using that pt_clock_safe [OF pt_year_left [OF q]]
      by (auto intro!: in_bounds_andthen pt_time_safe split: prod.split)
  qed
  have "in_bounds (ngx_parse_http_time s)"
  proof (cases "left_less s p 18")
    case True
    then show ?thesis using sc by (simp add: ngx_parse_http_time_def p_def Let_def in_bounds_def)
  next
    case False
    then have len: "p + 18 \<le> length s" by (simp add: left_less_def)
    have "in_bounds (if fmt0 \<noteq> isoc then pt_day s p else Got (isoc, 0, p))"
      using len by (intro reading_intro pt_day_safe)
    moreover have "enough s fmt q"
      if "(if fmt0 \<noteq> isoc then pt_day s p else Got (isoc, 0, p)) = Got (fmt, day, q)" for fmt day q
      using that pt_day_left [OF len, of fmt day q] len by (auto simp: enough_def split: if_splits)
    ultimately have "in_bounds (andthen (if fmt0 \<noteq> isoc then pt_day s p else Got (isoc, 0, p))
        (\<lambda>(fmt, day, p). andthen (pt_month s p) (\<lambda>month.
          andthen (pt_year s fmt day (p + 3)) (\<lambda>(year, day, p).
          andthen (pt_clock s fmt year p) (\<lambda>(hour, minu, sec, year).
            pt_time year month day hour minu sec)))))"
      using later by (intro in_bounds_andthen) (auto split: prod.split)
    then show ?thesis
      using False sc unfolding ngx_parse_http_time_def p_def Let_def by simp
  qed
  then show ?thesis by (simp add: in_bounds_def)
qed

section \<open>The calendar\<close>

definition leap :: "int \<Rightarrow> bool" where
  "leap y \<longleftrightarrow> 4 dvd y \<and> (\<not> 100 dvd y \<or> 400 dvd y)"

definition days_in_month :: "int \<Rightarrow> nat \<Rightarrow> int" where
  "days_in_month y m =
     (if m = 1 then (if leap y then 29 else 28) else if m \<in> {3, 5, 8, 10} then 30 else 31)"

text \<open>The days from January 1 of the year 0 to January 1 of a year, and from there to a month (from 0).\<close>

fun days_to_year :: "nat \<Rightarrow> int" where
  "days_to_year 0 = 0"
| "days_to_year (Suc y) = days_to_year y + (if leap (int y) then 366 else 365)"

definition days_to_month :: "int \<Rightarrow> nat \<Rightarrow> int" where
  "days_to_month y m = sum_list (map (days_in_month y) [0..<m])"

text \<open>The days since January 1, 1970.\<close>

definition days_since_1970 :: "nat \<Rightarrow> nat \<Rightarrow> int \<Rightarrow> int" where
  "days_since_1970 y m d =
     days_to_year y + days_to_month (int y) m + (d - 1) - days_to_year 1970"

lemma div_round_up:
  fixes x k :: int
  assumes "0 < k"
  shows "(x + (k - 1)) div k + (if k dvd x then 1 else 0) = x div k + 1"
proof (cases "k dvd x")
  case True
  then obtain q where "x = k * q" by blast
  then show ?thesis using assms by simp
next
  case False
  have r: "0 < x mod k"
    using False pos_mod_sign [OF assms, of x] by (simp add: dvd_eq_mod_eq_0)
  have r': "x mod k < k" using assms by (rule pos_mod_bound)
  have "x + (k - 1) = (x mod k - 1) + (x div k + 1) * k"
    using div_mult_mod_eq [of x k] by (simp add: algebra_simps)
  then have "(x + (k - 1)) div k = (x mod k - 1) div k + (x div k + 1)"
    using assms by (metis div_mult_self1 add.commute less_numeral_extra(3))
  also have "(x mod k - 1) div k = 0" using r r' by (intro div_pos_pos_trivial) auto
  finally show ?thesis using False by simp
qed

lemma leap_dvd: "400 dvd x \<Longrightarrow> 100 dvd x" "100 dvd x \<Longrightarrow> 4 dvd x" for x :: int
  by (auto elim: dvd_trans [rotated])

lemma leap_count:
  "(x + 3) div 4 - (x + 99) div 100 + (x + 399) div 400 + (if leap x then 1 else 0)
    = x div 4 - x div 100 + x div 400 + 1" for x :: int
proof -
  define a b c a' b' c' where d: "a = (x + 3) div 4" "b = (x + 99) div 100" "c = (x + 399) div 400"
    "a' = x div 4" "b' = x div 100" "c' = x div 400"
  have "a + (if 4 dvd x then 1 else 0) = a' + 1" "b + (if 100 dvd x then 1 else 0) = b' + 1"
    "c + (if 400 dvd x then 1 else 0) = c' + 1"
    using div_round_up [of 4 x] div_round_up [of 100 x] div_round_up [of 400 x] by (simp_all add: d)
  then show ?thesis
    using leap_dvd [of x] unfolding d [symmetric] leap_def by (auto split: if_splits)
qed

lemma div_before: "0 < k \<Longrightarrow> (x - 1) div k = (x + (k - 1)) div k - 1" for x k :: int
proof -
  assume "0 < k"
  then have "(x - 1 + k) div k = (x - 1) div k + 1" by (intro div_add_self2) simp
  moreover have "x - 1 + k = x + (k - 1)" by simp
  ultimately show ?thesis by simp
qed

lemma days_to_year_closed:
  "days_to_year y = 365 * int y + (int y + 3) div 4 - (int y + 99) div 100 + (int y + 399) div 400"
proof (induction y)
  case (Suc y)
  define x where "x = int y"
  define a b c a' b' c' where d: "a = (x + 3) div 4" "b = (x + 99) div 100" "c = (x + 399) div 400"
    "a' = x div 4" "b' = x div 100" "c' = x div 400"
  have e: "int (Suc y) = x + 1" by (simp add: x_def)
  have p: "x + 1 + 3 = x + 4" "x + 1 + 99 = x + 100" "x + 1 + 399 = x + 400" by simp_all
  have q: "(x + 1 + 3) div 4 = a' + 1" "(x + 1 + 99) div 100 = b' + 1" "(x + 1 + 399) div 400 = c' + 1"
    unfolding p d by (rule div_add_self2, simp)+
  have "days_to_year y = 365 * x + a - b + c" using Suc by (simp only: x_def d)
  moreover have "a - b + c + (if leap x then 1 else 0) = a' - b' + c' + 1"
    using leap_count [of x] by (simp only: d)
  ultimately show ?case
    unfolding days_to_year.simps e q x_def [symmetric] by (simp split: if_splits)
qed simp

text \<open>The formula of the code, without the wrap-around.\<close>

definition gauss_days :: "int \<Rightarrow> int \<Rightarrow> int \<Rightarrow> int" where
  "gauss_days year month day =
     (let month' = (if month - 1 \<le> 0 then month - 1 + 12 else month - 1);
          year' = (if month - 1 \<le> 0 then year - 1 else year)
      in gauss_years year' + 367 * month' div 12 - 30 + day - 1 - 719527 + 31 + 28)"

lemma days_to_year_1970: "days_to_year 1970 = 719528"
  by (simp add: days_to_year_closed)

lemma prev_year: "gauss_years (int y - 1) = days_to_year y - 366"
proof -
  define x where "x = int y"
  define a b c where d: "a = (x + 3) div 4" "b = (x + 99) div 100" "c = (x + 399) div 400"
  have "(x - 1) div 4 = a - 1" "(x - 1) div 100 = b - 1" "(x - 1) div 400 = c - 1"
    using div_before [of 4 x] div_before [of 100 x] div_before [of 400 x] by (simp_all add: d)
  then show ?thesis
    unfolding gauss_years_def days_to_year_closed x_def [symmetric] d [symmetric] by simp
qed

lemma this_year: "gauss_years (int y) = days_to_year y + (if leap (int y) then 1 else 0) - 1"
proof -
  define x where "x = int y"
  define a b c a' b' c' where d: "a = (x + 3) div 4" "b = (x + 99) div 100" "c = (x + 399) div 400"
    "a' = x div 4" "b' = x div 100" "c' = x div 400"
  have "a - b + c + (if leap x then 1 else 0) = a' - b' + c' + 1"
    using leap_count [of x] by (simp only: d)
  then show ?thesis
    unfolding gauss_years_def days_to_year_closed x_def [symmetric] d [symmetric] by (simp split: if_splits)
qed

text \<open>The formula counts the days of the calendar.\<close>

lemma gauss_days_calendar:
  assumes "m < 12"
  shows "gauss_days (int y) (int m) d = days_since_1970 y m d"
proof -
  have m: "m = 0 \<or> m = 1 \<or> m = 2 \<or> m = 3 \<or> m = 4 \<or> m = 5 \<or> m = 6 \<or> m = 7 \<or> m = 8
      \<or> m = 9 \<or> m = 10 \<or> m = 11"
    using assms by presburger
  have u: "[0..<0] = []" "[0..<1] = [0]" "[0..<2] = [0, 1]" "[0..<3] = [0, 1, 2]"
    "[0..<4] = [0, 1, 2, 3]" "[0..<5] = [0, 1, 2, 3, 4]" "[0..<6] = [0, 1, 2, 3, 4, 5]"
    "[0..<7] = [0, 1, 2, 3, 4, 5, 6]" "[0..<8] = [0, 1, 2, 3, 4, 5, 6, 7]"
    "[0..<9] = [0, 1, 2, 3, 4, 5, 6, 7, 8]" "[0..<10] = [0, 1, 2, 3, 4, 5, 6, 7, 8, 9]"
    "[0..<11] = [0, 1, 2, 3, 4, 5, 6, 7, 8, 9, 10]"
    by (simp_all add: upt_rec)
  show ?thesis
    using m prev_year [of y] this_year [of y]
    by (auto simp: gauss_days_def days_since_1970_def days_to_month_def u days_in_month_def days_to_year_1970)
qed

section \<open>\<open>ngx_gmtime\<close> gives the date of the calendar\<close>

lemma div_range: "0 < k \<Longrightarrow> k * (x div k) \<le> x \<and> x < k * (x div k) + k" for x k :: int
proof -
  assume "0 < k"
  then have "0 \<le> x mod k" "x mod k < k" by simp_all
  then show ?thesis using mult_div_mod_eq [of k x] by (intro conjI; linarith)
qed

lemma gauss_years_bounds:
  "146097 * y - 699 \<le> 400 * gauss_years y" "400 * gauss_years y \<le> 146097 * y + 396"
proof -
  define a b c where d: "a = y div 4" "b = y div 100" "c = y div 400"
  have "4 * a \<le> y \<and> y < 4 * a + 4" "100 * b \<le> y \<and> y < 100 * b + 100" "400 * c \<le> y \<and> y < 400 * c + 400"
    unfolding d by (rule div_range, simp)+
  then show "146097 * y - 699 \<le> 400 * gauss_years y" "400 * gauss_years y \<le> 146097 * y + 396"
    unfolding gauss_years_def d [symmetric] by (simp_all add: algebra_simps)
qed

lemma div_next: "0 < k \<Longrightarrow> (x + 1) div k = x div k + (if k dvd x + 1 then 1 else 0)" for x k :: int
  using div_before [of k "x + 1"] div_round_up [of k "x + 1"] by simp

lemma gauss_years_next: "gauss_years (y + 1) = gauss_years y + 365 + (if leap (y + 1) then 1 else 0)"
proof -
  define b4 b100 b400 where b: "b4 \<longleftrightarrow> 4 dvd y + 1" "b100 \<longleftrightarrow> 100 dvd y + 1" "b400 \<longleftrightarrow> 400 dvd y + 1"
  define q4 q100 q400 where q: "q4 = y div 4" "q100 = y div 100" "q400 = y div 400"
  have "(y + 1) div 4 = q4 + (if b4 then 1 else 0)" "(y + 1) div 100 = q100 + (if b100 then 1 else 0)"
    "(y + 1) div 400 = q400 + (if b400 then 1 else 0)"
    unfolding b q by (rule div_next, simp)+
  then have "gauss_years (y + 1) = 365 * y + 365 + (q4 + (if b4 then 1 else 0))
      - (q100 + (if b100 then 1 else 0)) + (q400 + (if b400 then 1 else 0))"
    by (simp only: gauss_years_def distrib_left mult_1_right)
  moreover have "gauss_years y = 365 * y + q4 - q100 + q400" by (simp only: gauss_years_def q)
  moreover have "leap (y + 1) \<longleftrightarrow> b4 \<and> (\<not> b100 \<or> b400)" unfolding leap_def b ..
  moreover have "b400 \<longrightarrow> b100" and "b100 \<longrightarrow> b4" unfolding b by (rule impI, erule leap_dvd)+
  ultimately show ?thesis by (cases b4; cases b100; cases b400; simp)
qed

lemma leap_test: "(y mod 4 = 0 \<and> (y mod 100 \<noteq> 0 \<or> y mod 400 = 0)) \<longleftrightarrow> leap y" for y :: int
  by (simp add: leap_def dvd_eq_mod_eq_0)

lemma gm_year_yday_spec:
  assumes "gm_year_yday days = (year, yday)"
  shows "gauss_years year + yday = days \<and> 0 \<le> yday \<and> yday < 365 + (if leap (year + 1) then 1 else 0)"
proof -
  define y where "y = (days + 2) * 400 div 146097"
  have y: "146097 * y \<le> 400 * days + 800" "400 * days + 800 < 146097 * y + 146097"
    using div_range [of 146097 "(days + 2) * 400"] unfolding y_def by simp_all
  have up: "days < gauss_years (y + 1)" using gauss_years_bounds(1) [of "y + 1"] y(2) by (simp add: algebra_simps)
  have lo: "gauss_years (y - 1) \<le> days" using gauss_years_bounds(2) [of "y - 1"] y(1) by (simp add: algebra_simps)
  have nx: "gauss_years y = gauss_years (y - 1) + 365 + (if leap y then 1 else 0)"
    using gauss_years_next [of "y - 1"] by simp
  have g: "gm_year_yday days =
      (if days - gauss_years y < 0
       then (y - 1, 365 + (if leap y then 1 else 0) + (days - gauss_years y))
       else (y, days - gauss_years y))"
    unfolding gm_year_yday_def Let_def leap_test y_def by simp
  show ?thesis
  proof (cases "days - gauss_years y < 0")
    case True
    then show ?thesis using assms g nx lo by (auto split: if_splits)
  next
    case False
    then show ?thesis using assms g up gauss_years_next [of y] by (auto split: if_splits)
  qed
qed

text \<open>The months of a year that begins with March.\<close>

definition march_months :: "int list" where
  "march_months = [31, 30, 31, 30, 31, 31, 30, 31, 30, 31, 31, 29]"

lemma march_month:
  assumes "0 \<le> yday" and "yday < 366"
  shows "let mon = (yday + 31) * 10 div 306; md = yday - (367 * mon div 12 - 30) + 1
    in 1 \<le> mon \<and> mon \<le> 12 \<and> 1 \<le> md \<and> md \<le> march_months ! nat (mon - 1)
      \<and> (306 \<le> yday) = (11 \<le> mon) \<and> (mon = 12 \<and> md = 29 \<longrightarrow> yday = 365)"
proof -
  define mon where "mon = (yday + 31) * 10 div 306"
  have r: "306 * mon \<le> yday * 10 + 310" "yday * 10 + 310 < 306 * mon + 306"
    using div_range [of 306 "(yday + 31) * 10"] unfolding mon_def by (simp_all add: algebra_simps)
  then have "1 \<le> mon \<and> mon \<le> 12" using assms by (intro conjI; linarith)
  then have "mon = 1 \<or> mon = 2 \<or> mon = 3 \<or> mon = 4 \<or> mon = 5 \<or> mon = 6
      \<or> mon = 7 \<or> mon = 8 \<or> mon = 9 \<or> mon = 10 \<or> mon = 11 \<or> mon = 12"
    by presburger
  then show ?thesis
    unfolding mon_def [symmetric] Let_def using r assms
    by (elim disjE; force simp: march_months_def)
qed

lemma march_month_calendar:
  assumes "gm_year_yday days = (year, yday)"
  defines "mon \<equiv> (yday + 31) * 10 div 306"
  defines "md \<equiv> yday - (367 * mon div 12 - 30) + 1"
  defines "m \<equiv> (if yday \<ge> 306 then mon - 10 else mon + 2) - 1"
  defines "y \<equiv> (if yday \<ge> 306 then year + 1 else year)"
  shows "0 \<le> m \<and> m < 12 \<and> 1 \<le> md \<and> md \<le> days_in_month y (nat m) \<and> gauss_days y m md = days - 719527 + 59"
proof -
  note sp = gm_year_yday_spec [OF assms(1)]
  have yd: "0 \<le> yday" "yday < 366" using sp by (auto split: if_splits)
  note mm = march_month [OF yd, unfolded Let_def, folded mon_def, folded md_def]
  have g: "gauss_years year + (367 * mon div 12 - 30) + md - 1 = days" using sp by (simp add: md_def)
  show ?thesis
  proof (cases "306 \<le> yday")
    case True
    then have "mon = 11 \<or> mon = 12" using mm by auto
    then show ?thesis
    proof
      assume "mon = 11"
      then show ?thesis
        using True mm g by (auto simp: m_def y_def days_in_month_def gauss_days_def march_months_def)
    next
      assume 12: "mon = 12"
      have "md \<le> 28 \<or> md = 29 \<and> leap (year + 1)"
        using mm sp 12 by (auto simp: march_months_def split: if_splits)
      then show ?thesis
        using True mm g 12 by (auto simp: m_def y_def days_in_month_def gauss_days_def march_months_def)
    qed
  next
    case False
    then have "mon = 1 \<or> mon = 2 \<or> mon = 3 \<or> mon = 4 \<or> mon = 5 \<or> mon = 6
      \<or> mon = 7 \<or> mon = 8 \<or> mon = 9 \<or> mon = 10" using mm by presburger
    then show ?thesis
      using False mm g
      by (elim disjE) (simp_all add: m_def y_def days_in_month_def gauss_days_def march_months_def)
  qed
qed

lemma gm_year_range:
  assumes "gm_year_yday (d - 59 + 719527) = (year, yday)" and "0 \<le> d" and "d \<le> 2932896"
  shows "1969 \<le> year \<and> year \<le> 9999 \<and> (year = 1969 \<longrightarrow> 306 \<le> yday) \<and> (year = 9999 \<longrightarrow> yday < 306)"
proof -
  note sp = gm_year_yday_spec [OF assms(1)]
  have yd: "0 \<le> yday" "yday \<le> 365" using sp by (auto split: if_splits)
  have e: "400 * gauss_years year + 400 * yday = 400 * d + 287787200" using sp by simp
  have "1969 \<le> year" using e yd assms(2) gauss_years_bounds(2) [of year] by linarith
  moreover have "year \<le> 9999" using e yd assms(3) gauss_years_bounds(1) [of year] by linarith
  moreover have "gauss_years 1969 = 719162" "gauss_years 9999 = 3652059" by (simp_all add: gauss_years_def)
  ultimately show ?thesis using sp assms(2,3) by auto
qed

lemma clock_split:
  fixes s :: int
  assumes "0 \<le> s" and "s < 86400"
  shows "0 \<le> s div 3600 \<and> s div 3600 \<le> 23 \<and> 0 \<le> s mod 3600 div 60 \<and> s mod 3600 div 60 \<le> 59
    \<and> 0 \<le> s mod 3600 mod 60 \<and> s mod 3600 mod 60 \<le> 59
    \<and> s div 3600 * 3600 + s mod 3600 div 60 * 60 + s mod 3600 mod 60 = s"
proof -
  define h r where d: "h = s div 3600" "r = s mod 3600"
  have h: "3600 * h \<le> s \<and> s < 3600 * h + 3600" unfolding d by (rule div_range) simp
  have r: "h * 3600 + r = s" "0 \<le> r" "r < 3600" unfolding d by simp_all
  define m q where e: "m = r div 60" "q = r mod 60"
  have m: "60 * m \<le> r \<and> r < 60 * m + 60" unfolding e by (rule div_range) simp
  have q: "m * 60 + q = r" "0 \<le> q" "q < 60" unfolding e by simp_all
  show ?thesis unfolding d [symmetric] e [symmetric] using assms h r m q by auto
qed

lemma gmtime_fields:
  assumes "0 \<le> t" and "t \<le> 253402300799" and "gm_year_yday (t div 86400 - 59 + 719527) = (year, yday)"
  shows "ngx_gmtime t =
    (let mon = (yday + 31) * 10 div 306
     in \<lparr>ngx_tm_sec = t mod 86400 mod 3600 mod 60, ngx_tm_min = t mod 86400 mod 3600 div 60,
         ngx_tm_hour = t mod 86400 div 3600, ngx_tm_mday = yday - (367 * mon div 12 - 30) + 1,
         ngx_tm_mon = (if yday \<ge> 306 then mon - 10 else mon + 2),
         ngx_tm_year = (if yday \<ge> 306 then year + 1 else year),
         ngx_tm_wday = (4 + t div 86400) mod 7\<rparr>)"
proof -
  have "t div 86400 \<le> 253402300799 div 86400" using assms(2) by (intro zdiv_mono1) auto
  then have n: "\<not> t div 86400 > 2932896" by simp
  have e: "t div 86400 - (31 + 28) + 719527 = t div 86400 - 59 + 719527" by simp
  have p: "(if t < 0 then 0 else t) = t" using assms(1) by simp
  show ?thesis
    unfolding ngx_gmtime_def Let_def by (simp only: p n if_False prod.case e assms(3))
qed

lemma gmtime_fields_in_range:
  assumes "0 \<le> t" and "t \<le> 253402300799"
  shows "let tm = ngx_gmtime t; m = nat (ngx_tm_mon tm - 1); y = nat (ngx_tm_year tm)
    in 1970 \<le> ngx_tm_year tm \<and> ngx_tm_year tm \<le> 9999 \<and> 1 \<le> ngx_tm_mon tm \<and> ngx_tm_mon tm \<le> 12
      \<and> 1 \<le> ngx_tm_mday tm \<and> ngx_tm_mday tm \<le> days_in_month (ngx_tm_year tm) m
      \<and> 0 \<le> ngx_tm_hour tm \<and> ngx_tm_hour tm \<le> 23 \<and> 0 \<le> ngx_tm_min tm \<and> ngx_tm_min tm \<le> 59
      \<and> 0 \<le> ngx_tm_sec tm \<and> ngx_tm_sec tm \<le> 59
      \<and> ngx_tm_wday tm = (4 + days_since_1970 y m (ngx_tm_mday tm)) mod 7
      \<and> days_since_1970 y m (ngx_tm_mday tm) * 86400
          + ngx_tm_hour tm * 3600 + ngx_tm_min tm * 60 + ngx_tm_sec tm = t"
proof -
  obtain year yday where g: "gm_year_yday (t div 86400 - 59 + 719527) = (year, yday)" by fastforce
  define mon where "mon = (yday + 31) * 10 div 306"
  define md where "md = yday - (367 * mon div 12 - 30) + 1"
  define m where "m = (if yday \<ge> 306 then mon - 10 else mon + 2) - 1"
  define y where "y = (if yday \<ge> 306 then year + 1 else year)"
  define s where "s = t mod 86400"
  have d: "0 \<le> t div 86400" "t div 86400 \<le> 2932896"
    using assms zdiv_mono1 [of t 253402300799 86400] by (simp_all add: pos_imp_zdiv_nonneg_iff)
  have tm: "ngx_gmtime t = \<lparr>ngx_tm_sec = s mod 3600 mod 60, ngx_tm_min = s mod 3600 div 60,
      ngx_tm_hour = s div 3600, ngx_tm_mday = md, ngx_tm_mon = m + 1, ngx_tm_year = y,
      ngx_tm_wday = (4 + t div 86400) mod 7\<rparr>"
    unfolding gmtime_fields [OF assms g] Let_def mon_def [symmetric] md_def [symmetric] y_def [symmetric]
      s_def [symmetric] by (simp add: m_def)
  note cal = march_month_calendar [OF g, folded mon_def, folded md_def m_def y_def]
  have y: "1970 \<le> y" "y \<le> 9999" using gm_year_range [OF g d] by (auto simp: y_def)
  have "gauss_days (int (nat y)) (int (nat m)) md = days_since_1970 (nat y) (nat m) md"
    using cal by (intro gauss_days_calendar) auto
  then have days: "days_since_1970 (nat y) (nat m) md = t div 86400" using cal y by simp
  have s: "0 \<le> s" "s < 86400" "t div 86400 * 86400 + s = t" by (simp_all add: s_def)
  show ?thesis
    using cal y days s(3) clock_split [OF s(1,2)] unfolding tm Let_def by simp
qed

text \<open>C39: \<open>ngx_gmtime\<close> gives the date of the Gregorian calendar for every second up to the end of the year 9999:
  the fields are in range, the day exists in its month, and counting the days from January 1, 1970 and
  adding the time of day gives the second back.\<close>

theorem gmtime_calendar:
  assumes "0 \<le> t" and "t \<le> 253402300799"
  shows "let tm = ngx_gmtime t; m = nat (ngx_tm_mon tm - 1); y = nat (ngx_tm_year tm)
    in 1970 \<le> ngx_tm_year tm \<and> ngx_tm_year tm \<le> 9999 \<and> 1 \<le> ngx_tm_mon tm \<and> ngx_tm_mon tm \<le> 12
      \<and> 1 \<le> ngx_tm_mday tm \<and> ngx_tm_mday tm \<le> days_in_month (ngx_tm_year tm) m
      \<and> 0 \<le> ngx_tm_hour tm \<and> ngx_tm_hour tm \<le> 23 \<and> 0 \<le> ngx_tm_min tm \<and> ngx_tm_min tm \<le> 59
      \<and> 0 \<le> ngx_tm_sec tm \<and> ngx_tm_sec tm \<le> 59
      \<and> ngx_tm_wday tm = (4 + days_since_1970 y m (ngx_tm_mday tm)) mod 7
      \<and> days_since_1970 y m (ngx_tm_mday tm) * 86400
          + ngx_tm_hour tm * 3600 + ngx_tm_min tm * 60 + ngx_tm_sec tm = t"
  by (rule gmtime_fields_in_range [OF assms])

theorem gmtime_calendar_witness:
  "let tm = ngx_gmtime 951782400
   in days_since_1970 (nat (ngx_tm_year tm)) (nat (ngx_tm_mon tm - 1)) (ngx_tm_mday tm) * 86400
     + ngx_tm_hour tm * 3600 + ngx_tm_min tm * 60 + ngx_tm_sec tm = 951782400"
  using gmtime_calendar [of 951782400] by (simp add: Let_def)

section \<open>Printing dates\<close>

definition dec :: "nat \<Rightarrow> char" where
  "dec n = char_of (n mod 10 + 48)"

lemma dec_digit: "is_digit (dec n)" "digit_of (dec n) = int (n mod 10)"
proof -
  have "ord (dec n) = n mod 10 + 48" unfolding dec_def by (rule ord_char_of_small) simp
  then show "is_digit (dec n)" "digit_of (dec n) = int (n mod 10)"
    by (simp_all add: is_digit_ord digit_of_def)
qed

lemma dec_digits_step: "dec_digits n p = (if n < 10 then dec n # p else dec_digits (n div 10) (dec n # p))"
  by (subst dec_digits.simps) (simp add: Let_def dec_def div_eq_0_iff)

lemma dec_digits_2: "n < 100 \<Longrightarrow> 10 \<le> n \<Longrightarrow> dec_digits n [] = [dec (n div 10), dec n]"
proof -
  assume "n < 100" "10 \<le> n"
  then have "\<not> n < 10" "n div 10 < 10" by linarith+
  then show ?thesis by (subst dec_digits_step, subst dec_digits_step) simp
qed

lemma dec_digits_4:
  "n < 10000 \<Longrightarrow> 1000 \<le> n \<Longrightarrow> dec_digits n [] = [dec (n div 1000), dec (n div 100), dec (n div 10), dec n]"
proof -
  assume n: "n < 10000" "1000 \<le> n"
  then have "\<not> n < 10" "\<not> n div 10 < 10" "\<not> n div 10 div 10 < 10" "n div 10 div 10 div 10 < 10" by linarith+
  moreover have "n div 10 div 10 = n div 100" "n div 10 div 10 div 10 = n div 1000"
    by (simp_all add: div_mult2_eq [symmetric])
  ultimately show ?thesis
    by (subst dec_digits_step, subst dec_digits_step, subst dec_digits_step, subst dec_digits_step) simp
qed

lemma read_spec_02d: "read_spec (CHR ''0'' # CHR ''2'' # CHR ''d'' # fmt) args
    = Some (CHR ''0'', 2, fspec_init, CHR ''d'', fmt, args)"
  by (simp add: read_spec_def Let_def)

lemma read_spec_4d: "read_spec (CHR ''4'' # CHR ''d'' # fmt) args
    = Some (CHR '' '', 4, fspec_init, CHR ''d'', fmt, args)"
  by (simp add: read_spec_def Let_def)

lemma read_spec_s: "read_spec (CHR ''s'' # fmt) args = Some (CHR '' '', 0, fspec_init, CHR ''s'', fmt, args)"
  by (simp add: read_spec_def Let_def)

lemma convert_d:
  assumes "0 \<le> v" and "v < 2147483648"
  shows "convert None buf zero width fspec_init (CHR ''d'') (IntArg v # args)
    = Some (ngx_sprintf_num None buf (nat v) zero 0 width, args)"
proof -
  have "s32 v = v" "u64 v = v" using assms by (simp_all add: s32_def u64_def)
  then show ?thesis
    using assms by (simp add: convert_def is_str_conversion_def is_integer_conversion_def fmt_integer_def
        fspec_init_def put_integer_def)
qed

lemma print_02d:
  assumes "0 \<le> v" and "v < 100"
  shows "ngx_vslprintf None buf (CHR ''%'' # CHR ''0'' # CHR ''2'' # CHR ''d'' # fmt) (IntArg v # args)
    = ngx_vslprintf None (buf @ [dec (nat v div 10), dec (nat v)]) fmt args"
proof -
  have "ngx_sprintf_num None buf (nat v) (CHR ''0'') 0 2 = buf @ [dec (nat v div 10), dec (nat v)]"
  proof (cases "nat v < 10")
    case True
    then have "dec_digits (nat v) [] = [dec (nat v)]" by (subst dec_digits_step) simp
    moreover have "char_of (48 :: nat) = CHR ''0''" by code_simp
    then have "dec (nat v div 10) = CHR ''0''" using True by (simp add: dec_def)
    ultimately show ?thesis by (simp add: ngx_sprintf_num_def put_bytes_def)
  next
    case False
    then have "dec_digits (nat v) [] = [dec (nat v div 10), dec (nat v)]"
      using assms by (intro dec_digits_2) auto
    then show ?thesis by (simp add: ngx_sprintf_num_def put_bytes_def)
  qed
  then show ?thesis
    using convert_d [of v] assms by (simp add: ngx_vslprintf.simps has_room_def read_spec_02d)
qed

lemma print_4d:
  assumes "1000 \<le> v" and "v < 10000"
  shows "ngx_vslprintf None buf (CHR ''%'' # CHR ''4'' # CHR ''d'' # fmt) (IntArg v # args)
    = ngx_vslprintf None
        (buf @ [dec (nat v div 1000), dec (nat v div 100), dec (nat v div 10), dec (nat v)]) fmt args"
proof -
  have "dec_digits (nat v) [] = [dec (nat v div 1000), dec (nat v div 100), dec (nat v div 10), dec (nat v)]"
    using assms by (intro dec_digits_4) auto
  then show ?thesis
    using convert_d [of v] assms
    by (simp add: ngx_vslprintf.simps has_room_def read_spec_4d ngx_sprintf_num_def put_bytes_def)
qed

lemma print_s:
  "NUL \<notin> set s \<Longrightarrow> ngx_vslprintf None buf (CHR ''%'' # CHR ''s'' # fmt) (CharsArg s # args)
    = ngx_vslprintf None (buf @ s) fmt args"
proof -
  assume "NUL \<notin> set s"
  then have s: "takeWhile (\<lambda>c. c \<noteq> NUL) s = s" by (intro takeWhile_all) auto
  show ?thesis
    by (simp add: s ngx_vslprintf.simps has_room_def read_spec_s convert_def is_str_conversion_def
        ngx_sprintf_str_def fspec_init_def put_bytes_def)
qed

lemma print_plain:
  "c \<noteq> CHR ''%'' \<Longrightarrow> ngx_vslprintf None buf (c # fmt) args = ngx_vslprintf None (buf @ [c]) fmt args"
  by (simp add: ngx_vslprintf.simps has_room_def)

text \<open>A date in the first format.\<close>

definition two :: "int \<Rightarrow> bytes" where
  "two v = [dec (nat v div 10), dec (nat v)]"

definition four :: "int \<Rightarrow> bytes" where
  "four v = [dec (nat v div 1000), dec (nat v div 100), dec (nat v div 10), dec (nat v)]"

definition rfc822_date :: "bytes \<Rightarrow> int \<Rightarrow> nat \<Rightarrow> int \<Rightarrow> int \<Rightarrow> int \<Rightarrow> int \<Rightarrow> bytes" where
  "rfc822_date day_name day month year hour minu sec =
     day_name @ '', '' @ two day @ '' '' @ months ! month @ '' '' @ four year @ '' ''
       @ two hour @ '':'' @ two minu @ '':'' @ two sec @ '' GMT''"

lemma names: "i < 7 \<Longrightarrow> NUL \<notin> set (week ! i) \<and> length (week ! i) = 3
      \<and> CHR '','' \<notin> set (week ! i) \<and> CHR '' '' \<notin> set (week ! i)"
    "j < 12 \<Longrightarrow> NUL \<notin> set (months ! j) \<and> length (months ! j) = 3"
proof -
  have "list_all (\<lambda>i. NUL \<notin> set (week ! i) \<and> length (week ! i) = 3
      \<and> CHR '','' \<notin> set (week ! i) \<and> CHR '' '' \<notin> set (week ! i)) [0..<7]" by code_simp
  then show "i < 7 \<Longrightarrow> NUL \<notin> set (week ! i) \<and> length (week ! i) = 3
      \<and> CHR '','' \<notin> set (week ! i) \<and> CHR '' '' \<notin> set (week ! i)"
    by (simp add: list_all_iff)
  have "list_all (\<lambda>j. NUL \<notin> set (months ! j) \<and> length (months ! j) = 3) [0..<12]" by code_simp
  then show "j < 12 \<Longrightarrow> NUL \<notin> set (months ! j) \<and> length (months ! j) = 3"
    by (simp add: list_all_iff)
qed

lemma print_date:
  assumes "i < 7" and "m < 12" and "0 \<le> day \<and> day < 100" and "1000 \<le> year \<and> year < 10000"
    and "0 \<le> hour \<and> hour < 100" and "0 \<le> minu \<and> minu < 100" and "0 \<le> sec \<and> sec < 100"
  shows "ngx_sprintf ''%s, %02d %s %4d %02d:%02d:%02d GMT''
      [CharsArg (week ! i), IntArg day, CharsArg (months ! m), IntArg year,
       IntArg hour, IntArg minu, IntArg sec]
    = Some (rfc822_date (week ! i) day m year hour minu sec)"
  using assms names
  by (simp add: ngx_sprintf_def print_s print_plain print_02d print_4d rfc822_date_def two_def four_def)

section \<open>Reading dates back\<close>

lemma digits_at_step:
  "p < length s \<Longrightarrow> is_digit (s ! p) \<Longrightarrow>
    digits_at s p (Suc k) v = digits_at s (Suc p) k (v * 10 + digit_of (s ! p))"
  by (simp add: digits_at.simps andthen_def byte_at_def not_digit_test)

lemma expect_here: "p < length s \<Longrightarrow> s ! p = c \<Longrightarrow> expect s p c = Got ()"
  by (simp add: expect_def andthen_def byte_at_def)

lemma andthen_simps [simp]: "andthen (Got x) f = f x" "andthen Err f = Err"
  by (simp_all add: andthen_def)

lemma pt_month_name:
  assumes "j < 12" and "p + 2 < length s"
    and "s ! p = months ! j ! 0" and "s ! (p + 1) = months ! j ! 1" and "s ! (p + 2) = months ! j ! 2"
  shows "pt_month s p = Got (int j)"
proof -
  have "j = 0 \<or> j = 1 \<or> j = 2 \<or> j = 3 \<or> j = 4 \<or> j = 5 \<or> j = 6 \<or> j = 7 \<or> j = 8 \<or> j = 9 \<or> j = 10 \<or> j = 11"
    using assms(1) by presburger
  then show ?thesis
    using assms(2-) by (elim disjE) (simp_all add: pt_month_def byte_at_def months_def)
qed

text \<open>A date in the first format with any digits is read as the numbers they are.\<close>

lemma parse_rfc822:
  assumes "length w = 3" and "CHR '','' \<notin> set w" and "CHR '' '' \<notin> set w" and "m < 12"
    and "all_digits [d1, d2]" and "all_digits [y1, y2, y3, y4]" and "all_digits [h1, h2]"
    and "all_digits [n1, n2]" and "all_digits [s1, s2]"
  shows "ngx_parse_http_time (w @ '', '' @ [d1, d2] @ '' '' @ months ! m @ '' '' @ [y1, y2, y3, y4] @ '' ''
      @ [h1, h2] @ '':'' @ [n1, n2] @ '':'' @ [s1, s2] @ '' GMT'')
    = pt_time (dec_value [y1, y2, y3, y4]) (int m) (dec_value [d1, d2]) (dec_value [h1, h2])
        (dec_value [n1, n2]) (dec_value [s1, s2])" (is "ngx_parse_http_time ?s = _")
proof -
  obtain w1 w2 w3 where w: "w = [w1, w2, w3]"
    using assms(1) by (metis (no_types, opaque_lifting) length_0_conv length_Suc_conv numeral_3_eq_3)
  obtain m1 m2 m3 where mm: "months ! m = [m1, m2, m3]"
    using names(2) [OF assms(4)] by (metis (no_types, opaque_lifting) length_0_conv length_Suc_conv numeral_3_eq_3)
  define s where "s = ?s"
  have s: "s = [w1, w2, w3, CHR '','', CHR '' '', d1, d2, CHR '' '', m1, m2, m3, CHR '' '', y1, y2, y3, y4, CHR '' '',
      h1, h2, CHR '':'', n1, n2, CHR '':'', s1, s2, CHR '' '', CHR ''G'', CHR ''M'', CHR ''T'']"
    by (simp add: s_def w mm)
  have len: "length s = 29" by (simp add: s)
  have digit: "is_digit d1" "is_digit d2" "is_digit y1" "is_digit y2" "is_digit y3" "is_digit y4"
    "is_digit h1" "is_digit h2" "is_digit n1" "is_digit n2" "is_digit s1" "is_digit s2"
    using assms(5-) by simp_all
  have nsp: "d1 \<noteq> CHR '' ''" using digit(1) by (auto simp: is_digit_def less_eq_char_def)
  have sc: "pt_scan 0 s = (3, no_fmt)" using assms(2,3) by (auto simp: s w)
  have sk: "pt_skip s 4 = 5" using nsp by (simp add: pt_skip_def s)
  have two: "digits_at s p 2 0 = Got (dec_value [a, b])"
    if "p + 1 < 29" "s ! p = a" "s ! Suc p = b" "is_digit a" "is_digit b" for p a b
    using that len by (simp add: numeral_2_eq_2 digits_at_step dec_value_def digits_at.simps(1))
  have day: "pt_day s 5 = Got (rfc822, dec_value [d1, d2], 8)"
    using two [of 5 d1 d2] digit len by (simp add: pt_day_def byte_at_def left_less_def s)
  have month: "pt_month s 8 = Got (int m)"
    using assms(4) by (intro pt_month_name) (simp_all add: s mm)
  have "digits_at s 12 4 0 = Got (dec_value [y1, y2, y3, y4])"
    using digit len by (simp add: eval_nat_numeral digits_at_step dec_value_def digits_at.simps(1) s)
  then have year: "pt_year s rfc822 d 11 = Got (dec_value [y1, y2, y3, y4], d, 16)" for d
    by (simp add: pt_year_def expect_here s)
  have clock: "pt_clock s rfc822 y 16 = Got (dec_value [h1, h2], dec_value [n1, n2], dec_value [s1, s2], y)" for y
    using two [of 17 h1 h2] two [of 20 n1 n2] two [of 23 s1 s2] digit len
    by (simp add: pt_clock_def expect_here s)
  have "ngx_parse_http_time s = pt_time (dec_value [y1, y2, y3, y4]) (int m) (dec_value [d1, d2])
      (dec_value [h1, h2]) (dec_value [n1, n2]) (dec_value [s1, s2])"
    using sc sk day month year clock len by (simp add: ngx_parse_http_time_def left_less_def)
  then show ?thesis by (simp only: s_def)
qed

lemma s64_u64: "s64 (u64 x) = s64 x"
  unfolding s64_def u64_def by (simp add: mod_add_left_eq)

lemma gauss_time_exact:
  assumes "m < 12" and "1 \<le> year" and "year \<le> 9999" and "0 \<le> day" and "day \<le> 31"
    and "0 \<le> hour" and "hour \<le> 23" and "0 \<le> minu" and "minu \<le> 59" and "0 \<le> sec" and "sec \<le> 59"
  shows "gauss_time year (int m) day hour minu sec
    = days_since_1970 (nat year) m day * 86400 + hour * 3600 + minu * 60 + sec"
proof -
  define g where "g = gauss_days year (int m) day"
  have "u64 (year - 1) = year - 1" using assms(2,3) by (simp add: u64_id)
  then have t: "gauss_time year (int m) day hour minu sec = s64 (g * 86400 + hour * 3600 + minu * 60 + sec)"
    by (simp add: gauss_time_def gauss_days_def g_def Let_def s64_u64)
  define y where "y = (if int m - 1 \<le> 0 then year - 1 else year)"
  define mm where "mm = (if int m - 1 \<le> 0 then int m - 1 + 12 else int m - 1)"
  have y: "0 \<le> y" "y \<le> 9999" using assms(2,3) by (auto simp: y_def)
  have mm: "1 \<le> mm" "mm \<le> 12" using assms(1) by (auto simp: mm_def)
  define q where "q = 367 * mm div 12"
  have "12 * q \<le> 367 * mm \<and> 367 * mm < 12 * q + 12" unfolding q_def by (rule div_range) simp
  then have q: "0 \<le> q" "q \<le> 367" using mm by linarith+
  have g: "g = gauss_years y + q - 30 + day - 1 - 719527 + 31 + 28"
    unfolding g_def gauss_days_def Let_def y_def [symmetric] mm_def [symmetric] q_def ..
  have "-720000 \<le> g" "g \<le> 4000000"
    using gauss_years_bounds [of y] y q assms(4,5) unfolding g by linarith+
  then have "s64 (g * 86400 + hour * 3600 + minu * 60 + sec) = g * 86400 + hour * 3600 + minu * 60 + sec"
    using assms(6-) by (intro s64_id) linarith+
  moreover have "g = days_since_1970 (nat year) m day"
    using gauss_days_calendar [OF assms(1), of "nat year" day] assms(2) by (simp add: g_def)
  ultimately show ?thesis using t by simp
qed

lemma pt_time_exact:
  assumes "m < 12" and "1 \<le> year" and "year \<le> 9999" and "0 \<le> day" and "0 \<le> hour" and "0 \<le> minu" and "0 \<le> sec"
  shows "pt_time year (int m) day hour minu sec =
    (if hour \<le> 23 \<and> minu \<le> 59 \<and> sec \<le> 59 \<and> day \<le> days_in_month year m
     then Got (days_since_1970 (nat year) m day * 86400 + hour * 3600 + minu * 60 + sec) else Err)"
proof -
  have "m = 0 \<or> m = 1 \<or> m = 2 \<or> m = 3 \<or> m = 4 \<or> m = 5 \<or> m = 6 \<or> m = 7 \<or> m = 8 \<or> m = 9 \<or> m = 10 \<or> m = 11"
    using assms(1) by presburger
  then have dm: "days_in_month year m = (if m = 1 \<and> leap year then 29 else mday ! m)"
    by (elim disjE) (simp_all add: days_in_month_def mday_def)
  have d31: "days_in_month year m \<le> 31" by (simp add: days_in_month_def)
  have feb: "mday ! 1 = 28" by (simp add: mday_def)
  have lp: "(year mod 4 \<noteq> 0 \<or> year mod 100 = 0 \<and> year mod 400 \<noteq> 0) \<longleftrightarrow> \<not> leap year"
    unfolding leap_test [symmetric] by auto
  have "(if day = 29 \<and> int m = 1 then year mod 4 \<noteq> 0 \<or> year mod 100 = 0 \<and> year mod 400 \<noteq> 0
      else day > mday ! nat (int m)) \<longleftrightarrow> \<not> day \<le> days_in_month year m"
    unfolding lp dm using feb by auto
  then show ?thesis
    using gauss_time_exact [OF assms(1-4) _ assms(5) _ assms(6) _ assms(7)] d31
    by (simp only: pt_time_def) auto
qed

text \<open>A date in the first format, with any name of three bytes for the day of the week and any digits, is
  accepted exactly when the time of day is in range and the month has the day, and then read as the calendar
  says.  (The year 0 is left out: before March it makes the unsigned arithmetic wrap around.)  The day 0 is
  not refused; it is read as the last day of the month before.\<close>

lemma parse_rfc822_exact:
  assumes "length w = 3" and "CHR '','' \<notin> set w" and "CHR '' '' \<notin> set w" and "m < 12"
    and "all_digits [d1, d2, y1, y2, y3, y4, h1, h2, n1, n2, s1, s2]"
    and "1 \<le> dec_value [y1, y2, y3, y4]"
  shows "ngx_parse_http_time (w @ '', '' @ [d1, d2] @ '' '' @ months ! m @ '' '' @ [y1, y2, y3, y4] @ '' ''
      @ [h1, h2] @ '':'' @ [n1, n2] @ '':'' @ [s1, s2] @ '' GMT'') =
    (let day = dec_value [d1, d2]; year = dec_value [y1, y2, y3, y4]; hour = dec_value [h1, h2];
         minu = dec_value [n1, n2]; sec = dec_value [s1, s2]
     in if hour \<le> 23 \<and> minu \<le> 59 \<and> sec \<le> 59 \<and> day \<le> days_in_month year m
        then Got (days_since_1970 (nat year) m day * 86400 + hour * 3600 + minu * 60 + sec) else Err)"
proof -
  have y: "dec_value [y1, y2, y3, y4] \<le> 9999"
    using assms(5) by (auto simp: dec_value_def dest!: digit_of_range)
  have "ngx_parse_http_time (w @ '', '' @ [d1, d2] @ '' '' @ months ! m @ '' '' @ [y1, y2, y3, y4] @ '' ''
      @ [h1, h2] @ '':'' @ [n1, n2] @ '':'' @ [s1, s2] @ '' GMT'')
    = pt_time (dec_value [y1, y2, y3, y4]) (int m) (dec_value [d1, d2]) (dec_value [h1, h2])
        (dec_value [n1, n2]) (dec_value [s1, s2])"
    by (rule parse_rfc822 [OF assms(1-4)]) (use assms(5) in simp_all)
  also have "\<dots> = (if dec_value [h1, h2] \<le> 23 \<and> dec_value [n1, n2] \<le> 59 \<and> dec_value [s1, s2] \<le> 59
      \<and> dec_value [d1, d2] \<le> days_in_month (dec_value [y1, y2, y3, y4]) m
     then Got (days_since_1970 (nat (dec_value [y1, y2, y3, y4])) m (dec_value [d1, d2]) * 86400
       + dec_value [h1, h2] * 3600 + dec_value [n1, n2] * 60 + dec_value [s1, s2]) else Err)"
    by (rule pt_time_exact [OF assms(4,6) y]) (rule dec_value_nonneg, use assms(5) in simp)+
  finally show ?thesis unfolding Let_def .
qed

theorem parse_rfc822_exact_witness:
  "ngx_parse_http_time ''Tue, 30 Feb 2024 22:13:20 GMT'' = Err
   \<and> ngx_parse_http_time ''Thu, 29 Feb 2024 22:13:20 GMT''
     = Got (days_since_1970 2024 1 29 * 86400 + 80000)"
  using parse_rfc822_exact [of "''Tue''" 1 "CHR ''3''" "CHR ''0''" "CHR ''2''" "CHR ''0''" "CHR ''2''" "CHR ''4''"
      "CHR ''2''" "CHR ''2''" "CHR ''1''" "CHR ''3''" "CHR ''2''" "CHR ''0''"]
    parse_rfc822_exact [of "''Thu''" 1 "CHR ''2''" "CHR ''9''" "CHR ''2''" "CHR ''0''" "CHR ''2''" "CHR ''4''"
      "CHR ''2''" "CHR ''2''" "CHR ''1''" "CHR ''3''" "CHR ''2''" "CHR ''0''"]
  by (simp add: is_digit_def less_eq_char_def dec_value_def digit_of_def months_def days_in_month_def leap_def)

lemma two_digits:
  assumes "0 \<le> v" and "v < 100"
  shows "dec_value [dec (nat v div 10), dec (nat v)] = v" "all_digits [dec (nat v div 10), dec (nat v)]"
  using assms by (simp_all add: dec_value_def dec_digit) (simp add: zmod_int zdiv_int)

lemma four_digits:
  assumes "0 \<le> v" and "v < 10000"
  shows "dec_value [dec (nat v div 1000), dec (nat v div 100), dec (nat v div 10), dec (nat v)] = v"
    "all_digits [dec (nat v div 1000), dec (nat v div 100), dec (nat v div 10), dec (nat v)]"
proof -
  define a where "a = nat v"
  have e: "a div 100 = a div 10 div 10" "a div 1000 = a div 10 div 10 div 10"
    by (simp_all add: div_mult2_eq [symmetric])
  have "a < 10000" using assms by (simp add: a_def)
  then have "a div 10 div 10 div 10 < 10" by linarith
  then have "a div 10 div 10 div 10 mod 10 = a div 10 div 10 div 10" by (rule mod_less)
  then have "((a div 1000 mod 10 * 10 + a div 100 mod 10) * 10 + a div 10 mod 10) * 10 + a mod 10 = a"
    unfolding e by (simp only: div_mult_mod_eq)
  then have "int (((a div 1000 mod 10 * 10 + a div 100 mod 10) * 10 + a div 10 mod 10) * 10 + a mod 10) = v"
    using assms by (simp only: a_def) simp
  then show "dec_value [dec (nat v div 1000), dec (nat v div 100), dec (nat v div 10), dec (nat v)] = v"
    by (simp add: dec_value_def dec_digit a_def)
qed (simp add: dec_digit)

text \<open>C23: every second up to the end of the year 9999 is read back from the date that \<open>ngx_http_time\<close> prints.\<close>

theorem http_time_roundtrip:
  assumes "0 \<le> t" and "t \<le> 253402300799"
  shows "map_option ngx_parse_http_time (ngx_http_time t) = Some (Got t)"
proof -
  define tm where "tm = ngx_gmtime t"
  define m where "m = nat (ngx_tm_mon tm - 1)"
  have g: "1970 \<le> ngx_tm_year tm" "ngx_tm_year tm \<le> 9999" "m < 12" "1 \<le> ngx_tm_mday tm"
    "ngx_tm_mday tm \<le> days_in_month (ngx_tm_year tm) m" "0 \<le> ngx_tm_hour tm" "ngx_tm_hour tm \<le> 23"
    "0 \<le> ngx_tm_min tm" "ngx_tm_min tm \<le> 59" "0 \<le> ngx_tm_sec tm" "ngx_tm_sec tm \<le> 59"
    "days_since_1970 (nat (ngx_tm_year tm)) m (ngx_tm_mday tm) * 86400
      + ngx_tm_hour tm * 3600 + ngx_tm_min tm * 60 + ngx_tm_sec tm = t"
    using gmtime_fields_in_range [OF assms] by (auto simp: tm_def m_def Let_def)
  have d31: "ngx_tm_mday tm \<le> 31" using g(5) by (simp add: days_in_month_def split: if_splits)
  have wd: "nat (ngx_tm_wday tm) < 7"
    using gmtime_fields_in_range [OF assms] by (auto simp: tm_def Let_def)
  have pr: "ngx_http_time t = Some (rfc822_date (week ! nat (ngx_tm_wday tm)) (ngx_tm_mday tm) m (ngx_tm_year tm)
      (ngx_tm_hour tm) (ngx_tm_min tm) (ngx_tm_sec tm))"
    unfolding ngx_http_time_def Let_def tm_def [symmetric] m_def [symmetric]
    using g d31 wd by (intro print_date) auto
  note w = names(1) [OF wd]
  have "ngx_parse_http_time (rfc822_date (week ! nat (ngx_tm_wday tm)) (ngx_tm_mday tm) m (ngx_tm_year tm)
      (ngx_tm_hour tm) (ngx_tm_min tm) (ngx_tm_sec tm))
    = pt_time (ngx_tm_year tm) (int m) (ngx_tm_mday tm) (ngx_tm_hour tm) (ngx_tm_min tm) (ngx_tm_sec tm)"
    unfolding rfc822_date_def two_def four_def
    using g d31 w by (subst parse_rfc822) (simp_all add: two_digits four_digits del: all_digits_simps)
  also have "\<dots> = Got t"
    using pt_time_exact [of m "ngx_tm_year tm" "ngx_tm_mday tm" "ngx_tm_hour tm" "ngx_tm_min tm" "ngx_tm_sec tm"] g
    by simp
  finally show ?thesis using pr by simp
qed

theorem http_time_roundtrip_witness:
  "map_option ngx_parse_http_time (ngx_http_time 951782400) = Some (Got 951782400)"
  using http_time_roundtrip [of 951782400] by simp

end
