(* ===== verification/ModSecurity.thy ===== *)
theory ModSecurity
  imports HttpTime
begin

text \<open>
  The connector between nginx and the ModSecurity engine: \<open>ngx_http_modsecurity_module.c\<close>,
  \<open>_rewrite.c\<close>, \<open>_header_filter.c\<close>, \<open>_body_filter.c\<close> and \<open>_log.c\<close> of
  \<open>src/deps/src/modsecurity-nginx/src\<close>, and BunkerWeb's \<open>src/deps/misc/ngx_http_modsecurity_access.c\<close>,
  which its build installs as the access handler.

  A transaction of the engine is the list of the calls made on it, in order.  The engine itself is the
  parameter \<open>waf\<close>: what \<open>msc_intervention\<close> answers after these calls, that call being the last of them.
  So every claim holds for every set of rules.

  The results of allocations are the parameter \<open>alloc\<close>: whether the \<open>n\<close>-th allocation of the handler
  succeeds.  A handler's result \<open>None\<close> is the use of an invalid pointer.
\<close>

section \<open>The engine as it is called\<close>

text \<open>What \<open>ngx_str_to_char\<close> gives: \<open>NULL\<close> for the empty string, a C string, or \<open>(char *) -1\<close>.\<close>

datatype c_string = Null | Cstr bytes | AllocError

definition ngx_str_to_char :: "bool \<Rightarrow> bytes \<Rightarrow> c_string" where
  "ngx_str_to_char allocated a =
     (if length a = 0 then Null else if \<not> allocated then AllocError else Cstr a)"

datatype msc_call =
    New_transaction "bytes option"
  | Set_request_hostname c_string
  | Process_connection c_string int c_string int
  | Process_uri c_string c_string c_string
  | Add_request_header bytes bytes
  | Process_request_headers
  | Request_body_from_file c_string
  | Append_request_body bytes
  | Process_request_body
  | Add_response_header bytes bytes
  | Process_response_headers int bytes
  | Append_response_body bytes
  | Process_response_body
  | Update_status_code int
  | Process_logging
  | Intervention

text \<open>\<open>ModSecurityIntervention\<close> as far as the connector reads it.\<close>

record intervention =
  iv_status :: int
  iv_url :: "bytes option"

type_synonym waf = "msc_call list \<Rightarrow> intervention option"

section \<open>The request\<close>

text \<open>\<open>ngx_http_modsecurity_ctx_t\<close>.\<close>

record ms_ctx =
  calls :: "msc_call list"
  waiting_more_body :: bool
  body_requested :: bool
  processed :: bool
  logged :: bool
  intervention_triggered :: bool
  request_body_processed :: bool

text \<open>A header of the response, with its \<open>hash\<close>, and the request body that nginx has read: the buffers (bytes
  and \<open>last_buf\<close>) and the name of the temporary file.\<close>

record out_header =
  oh_key :: bytes
  oh_value :: bytes
  oh_hash :: bool

record request_body_t =
  rb_bufs :: "(bytes \<times> bool) list"
  rb_temp_file :: "bytes option"

text \<open>The fields of \<open>ngx_http_request_t\<close>, its connection and its configuration that the connector uses.  The
  context is in the pool: it is found through the array of module contexts (\<open>module_ctx\<close>) or through
  the cleanup handler of the pool (\<open>cleanup\<close>).\<close>

record ngx_request =
  ms_enable :: bool
  transaction_id :: "bytes option option"
  server_name :: bytes
  server_tokens :: bool
  conf_keepalive_header :: int
  conf_gzip_vary :: bool
  addr_text :: bytes
  client_port :: int
  server_port :: int
  local_addr :: "bytes option"
  http_version :: int
  http_protocol :: bytes
  method_name :: bytes
  unparsed_uri :: bytes
  in_host :: bool
  in_server :: bytes
  in_headers :: "(bytes \<times> bytes) list"
  error_page :: bool
  in_file_only :: bool
  in_single_buf :: bool
  in_persistent_file :: bool
  in_clean_file :: bool
  request_body :: "request_body_t option"
  main_count :: int
  runs_phases :: bool
  header_sent :: bool
  out_headers :: "out_header list"
  out_location :: "nat option"
  out_server :: "bytes option"
  out_date :: "bytes option"
  content_length_n :: int
  content_type :: bytes
  last_modified_time :: int
  out_status :: int
  err_status :: int
  keepalive :: bool
  chunked_out :: bool
  gzip_vary :: bool
  http2_stream :: bool
  filter_need_in_memory :: bool
  cached_http_time :: bytes
  module_ctx :: bool
  cleanup :: bool
  pool_ctx :: "ms_ctx option"

definition NGX_HTTP_SPECIAL_RESPONSE :: int where [code_const]: "NGX_HTTP_SPECIAL_RESPONSE = 300"
definition NGX_HTTP_INTERNAL_SERVER_ERROR :: int where [code_const]: "NGX_HTTP_INTERNAL_SERVER_ERROR = 500"
definition NGX_HTTP_SWITCHING_PROTOCOLS :: int where [code_const]: "NGX_HTTP_SWITCHING_PROTOCOLS = 101"

definition get_module_ctx :: "ngx_request \<Rightarrow> ms_ctx option" where
  "get_module_ctx r = (if module_ctx r \<or> cleanup r then pool_ctx r else None)"

text \<open>Writing through the pointer to the context.\<close>

definition upd_ctx :: "(ms_ctx \<Rightarrow> ms_ctx) \<Rightarrow> ngx_request \<Rightarrow> ngx_request" where
  "upd_ctx f r = r\<lparr>pool_ctx := map_option f (pool_ctx r)\<rparr>"

definition msc :: "msc_call \<Rightarrow> ngx_request \<Rightarrow> ngx_request" where
  "msc call = upd_ctx (\<lambda>c. c\<lparr>calls := calls c @ [call]\<rparr>)"

definition transaction :: "ngx_request \<Rightarrow> msc_call list" where
  "transaction r = (case pool_ctx r of None \<Rightarrow> [] | Some c \<Rightarrow> calls c)"

section \<open>Creating the context\<close>

datatype created = Ctx_null | Ctx_invalid | Ctx_ok

definition new_ctx :: "bytes option \<Rightarrow> ms_ctx" where
  "new_ctx tid =
     \<lparr>calls = [New_transaction tid], waiting_more_body = False, body_requested = False, processed = False,
      logged = False, intervention_triggered = False, request_body_processed = False\<rparr>"

text \<open>\<open>NGX_CONF_ERROR\<close> is a pointer, but not \<open>NULL\<close>: the caller takes it for a context.\<close>

definition create_ctx :: "(nat \<Rightarrow> bool) \<Rightarrow> ngx_request \<Rightarrow> created \<times> ngx_request" where
  "create_ctx alloc r =
     (if \<not> alloc 0 then (Ctx_null, r)
      else
        case transaction_id r of
          Some None \<Rightarrow> (Ctx_invalid, r)
        | tid \<Rightarrow>
            let r = r\<lparr>pool_ctx := Some (new_ctx (Option.bind tid id)), module_ctx := True\<rparr>
            in if \<not> alloc 1 then (Ctx_invalid, r) else (Ctx_ok, r\<lparr>cleanup := True\<rparr>))"

section \<open>Logging and interventions\<close>

definition log_handler :: "ngx_request \<Rightarrow> int \<times> ngx_request" where
  "log_handler r =
     (case get_module_ctx r of
        None \<Rightarrow> (NGX_OK, r)
      | Some c \<Rightarrow> if logged c then (NGX_OK, r) else (NGX_OK, msc Process_logging r))"

definition clear_location :: "ngx_request \<Rightarrow> ngx_request" where
  "clear_location r =
     (case out_location r of
        None \<Rightarrow> r
      | Some i \<Rightarrow> r\<lparr>out_headers := (out_headers r)[i := (out_headers r ! i)\<lparr>oh_hash := False\<rparr>],
                    out_location := None\<rparr>)"

definition set_location :: "bytes \<Rightarrow> ngx_request \<Rightarrow> ngx_request" where
  "set_location url r =
     (let r = clear_location r
      in r\<lparr>out_headers := out_headers r @ [\<lparr>oh_key = ''Location'', oh_value = url, oh_hash = True\<rparr>],
           out_location := Some (length (out_headers r))\<rparr>)"

definition process_intervention :: "waf \<Rightarrow> bool \<Rightarrow> ngx_request \<Rightarrow> int \<times> ngx_request" where
  "process_intervention waf early_log r =
     (case get_module_ctx r of
        None \<Rightarrow> (NGX_HTTP_INTERNAL_SERVER_ERROR, r)
      | Some c \<Rightarrow>
          let r = msc Intervention r
          in case waf (transaction r) of
               None \<Rightarrow> (0, r)
             | Some iv \<Rightarrow>
                 (case iv_url iv of
                    Some url \<Rightarrow>
                      if header_sent r then (-1, r) else (iv_status iv, set_location url r)
                  | None \<Rightarrow>
                      if iv_status iv \<noteq> 200 then
                        let r = msc (Update_status_code (iv_status iv)) r;
                            r = (if early_log then upd_ctx (\<lambda>c. c\<lparr>logged := True\<rparr>) (snd (log_handler r)) else r)
                        in (if header_sent r then -1 else iv_status iv, r)
                      else (0, r)))"

section \<open>The rewrite handler\<close>

text \<open>The steps of the handler either return (\<open>Inl\<close>) or go on (\<open>Inr\<close>).\<close>

definition go_on :: "('a + 'b) \<Rightarrow> ('b \<Rightarrow> 'a + 'c) \<Rightarrow> 'a + 'c" where
  "go_on m f = (case m of Inl a \<Rightarrow> Inl a | Inr b \<Rightarrow> f b)"

definition rw_hostname :: "(nat \<Rightarrow> bool) \<Rightarrow> ngx_request \<Rightarrow> (int \<times> ngx_request) + ngx_request" where
  "rw_hostname alloc r =
     (let hostname = (if length (in_server r) > 0 then in_server r else server_name r)
      in if length hostname > 0 then
           (case ngx_str_to_char (alloc 3) hostname of
              Cstr h \<Rightarrow> Inr (msc (Set_request_hostname (Cstr h)) r)
            | _ \<Rightarrow> Inl (NGX_HTTP_INTERNAL_SERVER_ERROR, r))
         else Inr r)"

definition rw_connection :: "(nat \<Rightarrow> bool) \<Rightarrow> ngx_request \<Rightarrow> (int \<times> ngx_request) + ngx_request" where
  "rw_connection alloc r =
     (let client_addr = ngx_str_to_char (alloc 2) (addr_text r)
      in if client_addr = AllocError then Inl (NGX_HTTP_INTERNAL_SERVER_ERROR, r)
         else
           go_on (rw_hostname alloc r) (\<lambda>r.
             case local_addr r of
               None \<Rightarrow> Inl (NGX_HTTP_INTERNAL_SERVER_ERROR, r)
             | Some s \<Rightarrow>
                 let server_addr = ngx_str_to_char (alloc 4) s
                 in if server_addr = AllocError then Inl (NGX_HTTP_INTERNAL_SERVER_ERROR, r)
                    else Inr (msc (Process_connection client_addr (client_port r) server_addr (server_port r)) r)))"

text \<open>The name of the version; \<open>None\<close> when the allocation fails.\<close>

definition rw_http_version :: "bool \<Rightarrow> ngx_request \<Rightarrow> bytes option" where
  "rw_http_version allocated r =
     (if http_version r = 9 then Some ''0.9''
      else if http_version r = 1000 then Some ''1.0''
      else if http_version r = 1001 then Some ''1.1''
      else if http_version r = 2000 then Some ''2.0''
      else if http_version r = 3000 then Some ''3.0''
      else
        case ngx_str_to_char allocated (http_protocol r) of
          AllocError \<Rightarrow> None
        | Null \<Rightarrow> Some ''1.0''
        | Cstr v \<Rightarrow> if length (takeWhile (\<lambda>c. c \<noteq> NUL) v) > 5 \<and> take 5 v = ''HTTP/'' then Some (drop 5 v) else Some ''1.0'')"

definition rw_uri :: "(nat \<Rightarrow> bool) \<Rightarrow> ngx_request \<Rightarrow> (int \<times> ngx_request) + ngx_request" where
  "rw_uri alloc r =
     (case rw_http_version (alloc 5) r of
        None \<Rightarrow> Inl (NGX_HTTP_INTERNAL_SERVER_ERROR, r)
      | Some version \<Rightarrow>
          let n_uri = ngx_str_to_char (alloc 6) (unparsed_uri r);
              n_method = ngx_str_to_char (alloc 7) (method_name r)
          in if n_uri = AllocError \<or> n_method = AllocError then Inl (NGX_HTTP_INTERNAL_SERVER_ERROR, r)
             else if n_uri = Null then Inl (NGX_HTTP_INTERNAL_SERVER_ERROR, r)
             else Inr (msc (Process_uri n_uri n_method (Cstr version)) r))"

definition rw_headers :: "ngx_request \<Rightarrow> ngx_request" where
  "rw_headers r =
     (let r = (if http_version r = 3000 \<and> \<not> in_host r \<and> length (in_server r) > 0
               then msc (Add_request_header ''Host'' (in_server r)) r else r);
          r = foldl (\<lambda>r (k, v). msc (Add_request_header k v) r) r (in_headers r)
      in msc Process_request_headers r)"

text \<open>\<open>ret = process_intervention; if (ret > 0) { intervention_triggered = 1; return ret; }\<close>\<close>

definition triggered :: "int \<times> ngx_request \<Rightarrow> (int \<times> ngx_request) + ngx_request" where
  "triggered result =
     (case result of
        (ret, r) \<Rightarrow> if ret > 0 then Inl (ret, upd_ctx (\<lambda>c. c\<lparr>intervention_triggered := True\<rparr>) r) else Inr r)"

definition rewrite_phases :: "waf \<Rightarrow> (nat \<Rightarrow> bool) \<Rightarrow> ngx_request \<Rightarrow> (int \<times> ngx_request) + ngx_request" where
  "rewrite_phases waf alloc r =
     go_on (rw_connection alloc r) (\<lambda>r.
     go_on (triggered (process_intervention waf True r)) (\<lambda>r.
     go_on (rw_uri alloc r) (\<lambda>r.
     go_on (triggered (process_intervention waf True r)) (\<lambda>r.
       let result = process_intervention waf True (rw_headers r)
       in if error_page (snd result) then Inl (NGX_DECLINED, snd result) else triggered result))))"

definition rewrite_handler :: "waf \<Rightarrow> (nat \<Rightarrow> bool) \<Rightarrow> ngx_request \<Rightarrow> (int \<times> ngx_request) option" where
  "rewrite_handler waf alloc r =
     (if \<not> ms_enable r then Some (NGX_DECLINED, r)
      else
        case get_module_ctx r of
          Some c \<Rightarrow> Some (NGX_DECLINED, r)
        | None \<Rightarrow>
            (case create_ctx alloc r of
               (Ctx_null, r) \<Rightarrow> Some (NGX_HTTP_INTERNAL_SERVER_ERROR, r)
             | (Ctx_invalid, r) \<Rightarrow> None
             | (Ctx_ok, r) \<Rightarrow>
                 Some (case rewrite_phases waf alloc r of Inl result \<Rightarrow> result | Inr r \<Rightarrow> (NGX_DECLINED, r))))"

section \<open>The access handler\<close>

text \<open>\<open>ngx_http_modsecurity_request_read\<close>, which nginx calls when it has the body.\<close>

definition request_read :: "ngx_request \<Rightarrow> ngx_request option" where
  "request_read r =
     (let r = r\<lparr>main_count := main_count r - 1\<rparr>
      in case get_module_ctx r of
           None \<Rightarrow> None
         | Some c \<Rightarrow>
             Some (if waiting_more_body c
                   then (upd_ctx (\<lambda>c. c\<lparr>waiting_more_body := False\<rparr>) r)\<lparr>runs_phases := True\<rparr> else r))"

text \<open>Asking for the body.  \<open>read_body\<close> is \<open>ngx_http_read_client_request_body\<close> with
  \<open>request_read\<close>: its code and the request it leaves.\<close>

definition request_the_body ::
  "(ngx_request \<Rightarrow> int \<times> ngx_request) \<Rightarrow> ngx_request \<Rightarrow> (int \<times> ngx_request) + ngx_request" where
  "request_the_body read_body r =
     (let r = upd_ctx (\<lambda>c. c\<lparr>body_requested := True\<rparr>) r;
          r = r\<lparr>in_single_buf := True, in_persistent_file := True\<rparr>;
          r = (if \<not> in_file_only r then r\<lparr>in_clean_file := True\<rparr> else r)
      in case read_body r of
           (rc, r) \<Rightarrow>
             if rc = NGX_ERROR \<or> rc \<ge> NGX_HTTP_SPECIAL_RESPONSE then Inl (rc, r)
             else if rc = NGX_AGAIN
             then Inl (NGX_DONE, upd_ctx (\<lambda>c. c\<lparr>waiting_more_body := True\<rparr>) r)
             else Inr r)"

fun append_chain :: "waf \<Rightarrow> (bytes \<times> bool) list \<Rightarrow> ngx_request \<Rightarrow> (int \<times> ngx_request) + ngx_request" where
  "append_chain waf [] r = Inr r"
| "append_chain waf ((data, last_buf) # chain) r =
     (let r = msc (Append_request_body data) r
      in if last_buf then Inr r
         else
           case process_intervention waf False r of
             (ret, r) \<Rightarrow> if ret > 0 then Inl (ret, r) else append_chain waf chain r)"

text \<open>The body is ready; \<open>None\<close> is \<open>r->request_body == NULL\<close>.\<close>

definition inspect_body ::
  "waf \<Rightarrow> (nat \<Rightarrow> bool) \<Rightarrow> ngx_request \<Rightarrow> ((int \<times> ngx_request) + ngx_request) option" where
  "inspect_body waf alloc r0 =
     (let r = r0\<lparr>runs_phases := True\<rparr>
      in case request_body r of
           None \<Rightarrow> None
         | Some body \<Rightarrow>
             Some (go_on
               (case rb_temp_file body of
                  Some path \<Rightarrow>
                    let file_name = ngx_str_to_char (alloc 0) path
                    in if file_name = AllocError then Inl (NGX_HTTP_INTERNAL_SERVER_ERROR, r)
                       else Inr (msc (Request_body_from_file file_name) r)
                | None \<Rightarrow> append_chain waf (rb_bufs body) r)
               (\<lambda>r.
                 let r = upd_ctx (\<lambda>c. c\<lparr>request_body_processed := True\<rparr>) (msc Process_request_body r);
                     (ret, r) = process_intervention waf False r
                 in if error_page r then Inl (NGX_DECLINED, r)
                    else if ret > 0 then Inl (ret, r)
                    else Inr r)))"

definition access_handler ::
  "waf \<Rightarrow> (nat \<Rightarrow> bool) \<Rightarrow> (ngx_request \<Rightarrow> int \<times> ngx_request) \<Rightarrow> ngx_request \<Rightarrow> (int \<times> ngx_request) option" where
  "access_handler waf alloc read_body r =
     (if \<not> ms_enable r then Some (NGX_DECLINED, r)
      else
        case get_module_ctx r of
          None \<Rightarrow> Some (NGX_HTTP_INTERNAL_SERVER_ERROR, r)
        | Some c \<Rightarrow>
            if request_body_processed c then Some (NGX_DECLINED, r)
            else if intervention_triggered c then Some (NGX_DECLINED, r)
            else if waiting_more_body c then Some (NGX_DONE, r)
            else
              case (if \<not> body_requested c then request_the_body read_body r else Inr r) of
                Inl result \<Rightarrow> Some result
              | Inr r \<Rightarrow>
                  if (case pool_ctx r of None \<Rightarrow> False | Some c \<Rightarrow> waiting_more_body c)
                  then Some (NGX_DECLINED, r)
                  else
                    (case inspect_body waf alloc r of
                       None \<Rightarrow> None
                     | Some (Inl result) \<Rightarrow> Some result
                     | Some (Inr r) \<Rightarrow> Some (NGX_DECLINED, r)))"

section \<open>The response filters\<close>

text \<open>What a filter does: hand on to the next one, finalize the request, or return a code.\<close>

datatype filtered = Next_filter | Finalize_request int | Filter_return int

text \<open>A formatted value as the C string it is read as.\<close>

definition printed :: "bytes option \<Rightarrow> bytes" where
  "printed s = (case s of None \<Rightarrow> [] | Some b \<Rightarrow> takeWhile (\<lambda>c. c \<noteq> NUL) b)"

text \<open>\<open>sizeof\<close> of the arrays counts their final zero byte.\<close>

definition resolv_header_server :: "ngx_request \<Rightarrow> ngx_request" where
  "resolv_header_server r =
     msc (Add_response_header ''Server''
       (case out_server r of
          None \<Rightarrow> if server_tokens r then ''nginx/1.30.4'' @ [NUL] else ''nginx'' @ [NUL]
        | Some v \<Rightarrow> v)) r"

definition resolv_header_date :: "ngx_request \<Rightarrow> ngx_request" where
  "resolv_header_date r =
     msc (Add_response_header ''Date''
       (case out_date r of None \<Rightarrow> cached_http_time r | Some v \<Rightarrow> v)) r"

definition resolv_header_content_length :: "ngx_request \<Rightarrow> ngx_request" where
  "resolv_header_content_length r =
     (if content_length_n r > 0
      then msc (Add_response_header ''Content-Length''
        (printed (ngx_sprintf ''%O%Z'' [IntArg (content_length_n r)]))) r
      else r)"

definition resolv_header_content_type :: "ngx_request \<Rightarrow> ngx_request" where
  "resolv_header_content_type r =
     (if length (content_type r) > 0 then msc (Add_response_header ''Content-Type'' (content_type r)) r else r)"

definition resolv_header_last_modified :: "ngx_request \<Rightarrow> ngx_request" where
  "resolv_header_last_modified r =
     (if last_modified_time r = -1 then r
      else
        case ngx_http_time (last_modified_time r) of
          None \<Rightarrow> r
        | Some v \<Rightarrow> msc (Add_response_header ''Last-Modified'' v) r)"

definition resolv_header_connection :: "ngx_request \<Rightarrow> ngx_request" where
  "resolv_header_connection r =
     (if out_status r = NGX_HTTP_SWITCHING_PROTOCOLS
      then msc (Add_response_header ''Connection'' ''upgrade'') r
      else if keepalive r then
        let r = (if conf_keepalive_header r \<noteq> 0
                 then msc (Add_response_header ''Keep-Alive''
                   (printed (ngx_sprintf ''timeout=%T%Z'' [IntArg (conf_keepalive_header r)]))) r
                 else r)
        in msc (Add_response_header ''Connection'' ''keep-alive'') r
      else msc (Add_response_header ''Connection'' ''close'') r)"

definition resolv_header_transfer_encoding :: "ngx_request \<Rightarrow> ngx_request" where
  "resolv_header_transfer_encoding r =
     (if chunked_out r then msc (Add_response_header ''Transfer-Encoding'' ''chunked'') r else r)"

definition resolv_header_vary :: "ngx_request \<Rightarrow> ngx_request" where
  "resolv_header_vary r =
     (if gzip_vary r \<and> conf_gzip_vary r then msc (Add_response_header ''Vary'' ''Accept-Encoding'') r else r)"

text \<open>The table of the headers that are not in the list.\<close>

definition headers_out_table :: "(ngx_request \<Rightarrow> ngx_request) list" where
  "headers_out_table =
     [resolv_header_server, resolv_header_date, resolv_header_content_length, resolv_header_content_type,
      resolv_header_last_modified, resolv_header_connection, resolv_header_transfer_encoding, resolv_header_vary]"

definition send_response_headers :: "ngx_request \<Rightarrow> ngx_request" where
  "send_response_headers r =
     (let r = foldl (\<lambda>r resolver. resolver r) r headers_out_table
      in foldl (\<lambda>r h. msc (Add_response_header (oh_key h) (oh_value h)) r) r (out_headers r))"

definition header_filter :: "waf \<Rightarrow> ngx_request \<Rightarrow> filtered \<times> ngx_request" where
  "header_filter waf r =
     (case get_module_ctx r of
        None \<Rightarrow> (Next_filter, r)
      | Some c \<Rightarrow>
          if intervention_triggered c then (Next_filter, r)
          else if processed c then (Next_filter, r)
          else
            let r = upd_ctx (\<lambda>c. c\<lparr>processed := True\<rparr>) (r\<lparr>filter_need_in_memory := True\<rparr>);
                r = send_response_headers r;
                status = (if err_status r \<noteq> 0 then err_status r else out_status r);
                version = (if http2_stream r then ''HTTP 2.0'' else ''HTTP 1.1'');
                (ret, r) = process_intervention waf False (msc (Process_response_headers status version) r)
            in if error_page r then (Next_filter, r)
               else if ret > 0 then (Finalize_request ret, r)
               else (Next_filter, r))"

fun body_chain :: "waf \<Rightarrow> (bytes \<times> bool) list \<Rightarrow> ngx_request \<Rightarrow> filtered \<times> ngx_request" where
  "body_chain waf [] r = (Next_filter, r)"
| "body_chain waf ((data, last_buf) # chain) r =
     (case process_intervention waf False (msc (Append_response_body data) r) of
        (ret, r) \<Rightarrow>
          if ret > 0 then (Finalize_request ret, r)
          else if last_buf then
            (case process_intervention waf False (msc Process_response_body r) of
               (ret, r) \<Rightarrow>
                 if ret > 0 then (Filter_return ret, r)
                 else if ret < 0 then (Finalize_request NGX_HTTP_INTERNAL_SERVER_ERROR, r)
                 else body_chain waf chain r)
          else body_chain waf chain r)"

definition body_filter :: "waf \<Rightarrow> (bytes \<times> bool) list \<Rightarrow> ngx_request \<Rightarrow> filtered \<times> ngx_request" where
  "body_filter waf chain r =
     (if chain = [] then (Next_filter, r)
      else
        case get_module_ctx r of
          None \<Rightarrow> (Next_filter, r)
        | Some c \<Rightarrow> if intervention_triggered c then (Next_filter, r) else body_chain waf chain r)"

section \<open>A request in nginx\<close>

text \<open>An internal redirection clears the array of contexts.\<close>

definition internal_redirect :: "ngx_request \<Rightarrow> ngx_request" where
  "internal_redirect r = r\<lparr>module_ctx := False\<rparr>"

text \<open>What can happen to a request before it is logged: the handlers and filters of the module, in any order
  and any number of times, redirections, and whatever nginx and other modules do to the rest of the
  request.  Reading the body leaves the module's context alone, apart from the call of \<open>request_read\<close>.\<close>

definition same_module_state :: "ngx_request \<Rightarrow> ngx_request \<Rightarrow> bool" where
  "same_module_state r r' \<longleftrightarrow>
     module_ctx r' = module_ctx r \<and> cleanup r' = cleanup r \<and> pool_ctx r' = pool_ctx r"

text \<open>The buffers of a chain that are marked as the last one of the response.\<close>

definition last_bufs :: "(bytes \<times> bool) list \<Rightarrow> nat" where
  "last_bufs chain = length (filter snd chain)"

text \<open>A step is labelled with the number of last buffers that the body filter is given in it, a request with the
  number of them so far.\<close>

inductive ms_step :: "waf \<Rightarrow> nat \<Rightarrow> ngx_request \<Rightarrow> ngx_request \<Rightarrow> bool" for waf where
  rewrite: "rewrite_handler waf alloc r = Some (rc, r') \<Longrightarrow> ms_step waf 0 r r'"
| access_phase: "\<forall>q. same_module_state q (snd (read_body q))
    \<Longrightarrow> access_handler waf alloc read_body r = Some (rc, r') \<Longrightarrow> ms_step waf 0 r r'"
| body_read: "request_read r = Some r' \<Longrightarrow> ms_step waf 0 r r'"
| headers: "header_filter waf r = (f, r') \<Longrightarrow> ms_step waf 0 r r'"
| body: "body_filter waf chain r = (f, r') \<Longrightarrow> ms_step waf (last_bufs chain) r r'"
| redirect: "ms_step waf 0 r (internal_redirect r)"
| environment: "same_module_state r r' \<Longrightarrow> ms_step waf 0 r r'"

inductive ms_reachable :: "waf \<Rightarrow> nat \<Rightarrow> ngx_request \<Rightarrow> bool" for waf where
  start: "pool_ctx r = None \<Longrightarrow> \<not> module_ctx r \<Longrightarrow> \<not> cleanup r \<Longrightarrow> ms_reachable waf 0 r"
| step: "ms_reachable waf n r \<Longrightarrow> ms_step waf k r r' \<Longrightarrow> ms_reachable waf (n + k) r'"

section \<open>What the steps leave alone\<close>

text \<open>The connector changes the context and the response headers only.\<close>

definition rest_of :: "ngx_request \<Rightarrow> ngx_request" where
  "rest_of r = r\<lparr>out_headers := [], out_location := None, pool_ctx := None\<rparr>"

definition only_module :: "ngx_request \<Rightarrow> ngx_request \<Rightarrow> bool" where
  "only_module r r' \<longleftrightarrow> rest_of r' = rest_of r"

lemma only_module_refl: "only_module r r"
  by (simp add: only_module_def)

lemma only_module_trans: "only_module r r' \<Longrightarrow> only_module r' r'' \<Longrightarrow> only_module r r''"
  by (simp add: only_module_def)

lemma rest_of_fields:
  "error_page (rest_of r) = error_page r" "header_sent (rest_of r) = header_sent r"
  "module_ctx (rest_of r) = module_ctx r" "cleanup (rest_of r) = cleanup r"
  "in_headers (rest_of r) = in_headers r" "in_server (rest_of r) = in_server r"
  "in_host (rest_of r) = in_host r" "http_version (rest_of r) = http_version r"
  "http_protocol (rest_of r) = http_protocol r" "unparsed_uri (rest_of r) = unparsed_uri r"
  "method_name (rest_of r) = method_name r" "request_body (rest_of r) = request_body r"
  "addr_text (rest_of r) = addr_text r" "local_addr (rest_of r) = local_addr r"
  "client_port (rest_of r) = client_port r" "server_port (rest_of r) = server_port r"
  "server_name (rest_of r) = server_name r"
  by (simp_all add: rest_of_def)

lemma only_module_fields:
  assumes "only_module r r'"
  shows "error_page r' = error_page r" "header_sent r' = header_sent r"
    "module_ctx r' = module_ctx r" "cleanup r' = cleanup r"
    "in_headers r' = in_headers r" "in_server r' = in_server r"
    "in_host r' = in_host r" "http_version r' = http_version r"
    "http_protocol r' = http_protocol r" "unparsed_uri r' = unparsed_uri r"
    "method_name r' = method_name r" "request_body r' = request_body r"
    "addr_text r' = addr_text r" "local_addr r' = local_addr r" "client_port r' = client_port r"
    "server_port r' = server_port r" "server_name r' = server_name r"
  using assms unfolding only_module_def by (metis rest_of_fields)+

lemma only_module_upd: "only_module r (upd_ctx f r)"
  by (simp add: only_module_def rest_of_def upd_ctx_def)

lemma only_module_msc: "only_module r (msc x r)"
  unfolding msc_def by (rule only_module_upd)

lemma only_module_location: "only_module r (set_location url r)"
  by (simp add: only_module_def rest_of_def set_location_def clear_location_def Let_def split: option.split)

text \<open>The marks of a transaction: its phases, its creation and its logging.\<close>

fun phase :: "msc_call \<Rightarrow> nat" where
  "phase (Process_connection _ _ _ _) = 1"
| "phase (Process_uri _ _ _) = 2"
| "phase Process_request_headers = 3"
| "phase Process_request_body = 4"
| "phase (Process_response_headers _ _) = 5"
| "phase (New_transaction _) = 6"
| "phase Process_logging = 7"
| "phase _ = 0"

definition marks :: "msc_call list \<Rightarrow> nat list" where
  "marks cs = filter (\<lambda>n. n \<noteq> 0) (map phase cs)"

lemma marks_simps [simp]:
  "marks [] = []" "marks (xs @ ys) = marks xs @ marks ys"
  "marks (x # xs) = (if phase x = 0 then marks xs else phase x # marks xs)"
  by (simp_all add: marks_def)

text \<open>A step that makes no call of a phase: the context keeps its flags, and a call of the log is remembered.\<close>

definition quiet_ctx :: "ms_ctx \<Rightarrow> ms_ctx \<Rightarrow> bool" where
  "quiet_ctx c c' \<longleftrightarrow>
     processed c' = processed c \<and> request_body_processed c' = request_body_processed c
     \<and> (logged c \<longrightarrow> logged c')
     \<and> (\<exists>xs. calls c' = calls c @ xs \<and> marks xs = (if logged c' \<and> \<not> logged c then [7] else []))"

definition quiet :: "ngx_request \<Rightarrow> ngx_request \<Rightarrow> bool" where
  "quiet r r' \<longleftrightarrow>
     cleanup r' = cleanup r \<and> (module_ctx r' \<longrightarrow> module_ctx r)
     \<and> (case pool_ctx r of None \<Rightarrow> pool_ctx r' = None
        | Some c \<Rightarrow> (\<exists>c'. pool_ctx r' = Some c' \<and> quiet_ctx c c'))"

lemma quiet_ctx_refl: "quiet_ctx c c"
  by (simp add: quiet_ctx_def)

lemma quiet_ctx_trans: "quiet_ctx a b \<Longrightarrow> quiet_ctx b c \<Longrightarrow> quiet_ctx a c"
proof -
  assume ab: "quiet_ctx a b" and bc: "quiet_ctx b c"
  obtain xs where xs: "calls b = calls a @ xs" "marks xs = (if logged b \<and> \<not> logged a then [7] else [])"
    using ab by (auto simp: quiet_ctx_def)
  obtain ys where ys: "calls c = calls b @ ys" "marks ys = (if logged c \<and> \<not> logged b then [7] else [])"
    using bc by (auto simp: quiet_ctx_def)
  have l: "logged a \<longrightarrow> logged b" "logged b \<longrightarrow> logged c" using ab bc by (auto simp: quiet_ctx_def)
  have "marks (xs @ ys) = (if logged c \<and> \<not> logged a then [7] else [])" 
    using xs(2) ys(2) l by (cases "logged a"; cases "logged b"; cases "logged c"; simp)
  moreover have "calls c = calls a @ (xs @ ys)" using xs(1) ys(1) by simp
  ultimately have "\<exists>zs. calls c = calls a @ zs \<and> marks zs = (if logged c \<and> \<not> logged a then [7] else [])"
    by blast
  then show ?thesis using ab bc l by (simp add: quiet_ctx_def)
qed

lemma quiet_refl: "quiet r r"
  by (auto simp: quiet_def quiet_ctx_refl split: option.split)

lemma quiet_trans: "quiet a b \<Longrightarrow> quiet b c \<Longrightarrow> quiet a c"
  by (cases "pool_ctx a"; cases "pool_ctx b") (auto simp: quiet_def intro: quiet_ctx_trans)

lemma quiet_same: "same_module_state r r' \<Longrightarrow> quiet r r'"
  by (auto simp: same_module_state_def quiet_def quiet_ctx_refl split: option.split)

lemma quiet_upd: "(\<And>c. quiet_ctx c (f c)) \<Longrightarrow> quiet r (upd_ctx f r)"
  by (auto simp: quiet_def upd_ctx_def split: option.split)

lemma quiet_msc: "phase x = 0 \<Longrightarrow> quiet r (msc x r)"
  unfolding msc_def by (intro quiet_upd) (auto simp: quiet_ctx_def)

lemma quiet_fields: "quiet r (r\<lparr>out_headers := h\<rparr>)" "quiet r (r\<lparr>out_headers := h, out_location := l\<rparr>)"
  by (intro quiet_same, simp add: same_module_state_def)+

lemma quiet_location: "quiet r (set_location url r)"
  by (intro quiet_same) (simp add: same_module_state_def set_location_def clear_location_def Let_def split: option.split)

lemma same_module_fields:
  "same_module_state r (r\<lparr>runs_phases := b\<rparr>)" "same_module_state r (r\<lparr>main_count := n\<rparr>)"
  "same_module_state r (r\<lparr>in_clean_file := b\<rparr>)" "same_module_state r (r\<lparr>filter_need_in_memory := b\<rparr>)"
  "same_module_state r (r\<lparr>in_single_buf := b, in_persistent_file := b'\<rparr>)"
  by (simp_all add: same_module_state_def)

lemma pool_msc: "pool_ctx (msc x r) = map_option (\<lambda>c. c\<lparr>calls := calls c @ [x]\<rparr>) (pool_ctx r)"
  by (simp add: msc_def upd_ctx_def)

lemma transaction_msc: "pool_ctx r \<noteq> None \<Longrightarrow> transaction (msc x r) = transaction r @ [x]"
  by (auto simp: transaction_def pool_msc)

lemma get_msc: "get_module_ctx (msc x r) = map_option (\<lambda>c. c\<lparr>calls := calls c @ [x]\<rparr>) (get_module_ctx r)"
  by (simp add: get_module_ctx_def msc_def upd_ctx_def)

lemma get_pool: "get_module_ctx r = Some c \<Longrightarrow> pool_ctx r = Some c"
  by (auto simp: get_module_ctx_def split: if_splits)

text \<open>The manual call of the log handler and the flag that it is followed by.\<close>

lemma quiet_early_log: "quiet r (upd_ctx (\<lambda>c. c\<lparr>logged := True\<rparr>) (snd (log_handler r)))"
  if "get_module_ctx r = Some c"
proof -
  have "pool_ctx r = Some c" using that by (rule get_pool)
  then show ?thesis
    using that by (cases "logged c") (auto simp: log_handler_def quiet_def upd_ctx_def pool_msc msc_def quiet_ctx_def)
qed

text \<open>Answers that let a request pass.\<close>

definition harmless :: "intervention option \<Rightarrow> bool" where
  "harmless answer \<longleftrightarrow>
     (case answer of
        None \<Rightarrow> True
      | Some iv \<Rightarrow> iv_url iv = None \<and> iv_status iv = 200 \<or> iv_status iv \<le> 0)"

text \<open>The calls that note what has happened; all others hand data to the engine or have it decide.\<close>

fun is_note :: "msc_call \<Rightarrow> bool" where
  "is_note Process_logging = True"
| "is_note (Update_status_code s) = True"
| "is_note _ = False"

lemma process_intervention_ctx:
  assumes "get_module_ctx r = Some c" and "process_intervention waf early r = (ret, r')"
  shows "quiet r r' \<and> only_module r r'"
proof -
  let ?r = "msc Intervention r"
  have g: "get_module_ctx ?r = Some (c\<lparr>calls := calls c @ [Intervention]\<rparr>)" using assms(1) by (simp add: get_msc)
  have q: "quiet r ?r" "only_module r ?r" by (auto intro: quiet_msc only_module_msc)
  show ?thesis
  proof (cases "waf (transaction ?r)")
    case None
    then show ?thesis using assms q by (simp add: process_intervention_def)
  next
    case (Some iv)
    show ?thesis
    proof (cases "iv_url iv")
      case url: (Some url)
      then show ?thesis
        using assms Some q quiet_trans [OF q(1) quiet_location] only_module_trans [OF q(2) only_module_location]
        by (auto simp: process_intervention_def Let_def split: if_splits)
    next
      case None
      let ?u = "msc (Update_status_code (iv_status iv)) ?r"
      let ?l = "upd_ctx (\<lambda>c. c\<lparr>logged := True\<rparr>) (snd (log_handler ?u))"
      have u: "quiet r ?u" "only_module r ?u"
        using q quiet_trans [OF q(1) quiet_msc] only_module_trans [OF q(2) only_module_msc] by auto
      have gu: "\<exists>c'. get_module_ctx ?u = Some c'" using assms(1) by (simp add: get_msc)
      have "quiet r ?l" using u(1) gu quiet_early_log quiet_trans by blast
      moreover have "only_module ?u (snd (log_handler ?u))"
        by (auto simp: log_handler_def only_module_refl only_module_msc split: option.split)
      then have "only_module r ?l" using u(2) only_module_upd only_module_trans by blast
      ultimately show ?thesis
        using assms Some None q u by (auto simp: process_intervention_def Let_def split: if_splits)
    qed
  qed
qed

lemma transaction_location: "transaction (set_location url r) = transaction r"
  by (simp add: transaction_def set_location_def clear_location_def Let_def split: option.split)

lemma transaction_logged: "transaction (upd_ctx (\<lambda>c. c\<lparr>logged := True\<rparr>) r) = transaction r"
  by (simp add: transaction_def upd_ctx_def split: option.split)

lemma transaction_log_handler:
  "\<exists>xs. transaction (snd (log_handler r)) = transaction r @ xs \<and> list_all is_note xs"
proof (cases "get_module_ctx r")
  case (Some c)
  then have "pool_ctx r \<noteq> None" using get_pool by auto
  then show ?thesis
    using Some by (cases "logged c") (auto simp: log_handler_def transaction_msc)
qed (simp add: log_handler_def)

lemma process_intervention_calls:
  assumes "get_module_ctx r = Some c" and "process_intervention waf early r = (ret, r')"
  shows "(\<exists>xs. transaction r' = transaction r @ Intervention # xs \<and> list_all is_note xs)
    \<and> (ret \<le> 0 \<longrightarrow> header_sent r \<or> harmless (waf (transaction r @ [Intervention])))
    \<and> (0 < ret \<longrightarrow> (\<exists>iv. waf (transaction r @ [Intervention]) = Some iv \<and> iv_status iv = ret))"
proof -
  let ?r = "msc Intervention r"
  have p: "pool_ctx r \<noteq> None" using assms(1) get_pool by auto
  then have t: "transaction ?r = transaction r @ [Intervention]" by (rule transaction_msc)
  have hs: "header_sent ?r = header_sent r" by (simp add: msc_def upd_ctx_def)
  show ?thesis
  proof (cases "waf (transaction ?r)")
    case None
    then show ?thesis using assms t by (auto simp: process_intervention_def harmless_def)
  next
    case (Some iv)
    show ?thesis
    proof (cases "iv_url iv")
      case url: (Some url)
      then show ?thesis
        using assms Some t hs
        by (auto simp: process_intervention_def Let_def harmless_def transaction_location split: if_splits)
    next
      case None
      let ?u = "msc (Update_status_code (iv_status iv)) ?r"
      have pu: "pool_ctx ?r \<noteq> None" using p by (simp add: pool_msc)
      then have tu: "transaction ?u = transaction r @ [Intervention, Update_status_code (iv_status iv)]"
        using t by (simp add: transaction_msc)
      obtain xs where xs: "transaction (snd (log_handler ?u)) = transaction ?u @ xs" "list_all is_note xs"
        using transaction_log_handler by blast
      show ?thesis
      proof (cases "iv_status iv = 200")
        case True
        then show ?thesis
          using assms Some None t by (auto simp: process_intervention_def harmless_def)
      next
        case False
        then have r': "r' = (if early then upd_ctx (\<lambda>c. c\<lparr>logged := True\<rparr>) (snd (log_handler ?u)) else ?u)"
          and ret: "ret = (if header_sent r' then -1 else iv_status iv)"
          using assms Some None by (auto simp: process_intervention_def Let_def)
        have "header_sent r' = header_sent r"
          using process_intervention_ctx [OF assms] only_module_fields by blast
        moreover have "transaction r' = transaction r @ Intervention # Update_status_code (iv_status iv)
            # (if early then xs else [])"
          using r' tu xs by (simp add: transaction_logged)
        ultimately show ?thesis
          using ret Some t xs(2) by (auto simp: harmless_def split: if_splits)
      qed
    qed
  qed
qed

section \<open>An example\<close>

text \<open>A request from \<open>10.0.0.1\<close>, and an engine that lets everything pass.\<close>

definition example_request :: ngx_request where
  "example_request =
     \<lparr>ms_enable = True, transaction_id = None, server_name = ''a'', server_tokens = False,
      conf_keepalive_header = 0, conf_gzip_vary = False, addr_text = ''10.0.0.1'', client_port = 999,
      server_port = 80, local_addr = Some ''10.0.0.2'', http_version = 1001, http_protocol = ''HTTP/1.1'',
      method_name = ''POST'', unparsed_uri = ''/x'', in_host = True, in_server = ''h'',
      in_headers = [(''Host'', ''h''), (''Content-Length'', ''2'')], error_page = False, in_file_only = False,
      in_single_buf = False, in_persistent_file = False, in_clean_file = False,
      request_body = Some \<lparr>rb_bufs = [(''a'', False), (''b'', True)], rb_temp_file = None\<rparr>, main_count = 1,
      runs_phases = False, header_sent = False,
      out_headers = [\<lparr>oh_key = ''X'', oh_value = ''y'', oh_hash = True\<rparr>], out_location = None, out_server = None,
      out_date = None, content_length_n = 0, content_type = ''text/html'', last_modified_time = -1,
      out_status = 200, err_status = 0, keepalive = True, chunked_out = False, gzip_vary = False,
      http2_stream = False, filter_need_in_memory = False, cached_http_time = ''now'', module_ctx = False,
      cleanup = False, pool_ctx = None\<rparr>"

definition example_waf :: waf where
  "example_waf cs = None"

definition example_rewritten :: ngx_request where
  "example_rewritten = snd (the (rewrite_handler example_waf (\<lambda>_. True) example_request))"

definition example_read :: "ngx_request \<Rightarrow> int \<times> ngx_request" where
  "example_read r = (NGX_OK, r\<lparr>main_count := main_count r + 1\<rparr>)"

lemma example_rewrite:
  "rewrite_handler example_waf (\<lambda>_. True) example_request = Some (NGX_DECLINED, example_rewritten)"
  by code_simp

end
