(* ===== verification/MsTransaction.thy ===== *)
theory MsTransaction
  imports ModSecurity
begin

text \<open>
  The order of a transaction of the ModSecurity connector: an invariant of every step that a request can
  take, and what it gives for the calls that the engine sees.
\<close>

section \<open>The discipline of a transaction\<close>

lemma quiet_intervention: "process_intervention waf early r = (ret, r') \<Longrightarrow> quiet r r'"
  using process_intervention_ctx [of r _ waf early ret r']
  by (cases "get_module_ctx r") (auto simp: process_intervention_def quiet_refl)

lemma quiet_flag: "quiet r (upd_ctx (\<lambda>c. c\<lparr>intervention_triggered := b\<rparr>) r)"
  "quiet r (upd_ctx (\<lambda>c. c\<lparr>waiting_more_body := b\<rparr>) r)" "quiet r (upd_ctx (\<lambda>c. c\<lparr>body_requested := b\<rparr>) r)"
  by (intro quiet_upd, simp add: quiet_ctx_def)+

lemma quiet_triggered:
  "triggered (ret, r) = Inl (ret', r') \<Longrightarrow> quiet r r'" "triggered (ret, r) = Inr r' \<Longrightarrow> r' = r"
  by (auto simp: triggered_def quiet_flag split: if_splits)

lemma quiet_foldl: "(\<And>x r. quiet r (f r x)) \<Longrightarrow> quiet r (foldl f r xs)"
proof (induction xs arbitrary: r)
  case (Cons x xs)
  then show ?case using quiet_trans [of r "f r x"] by simp
qed (simp add: quiet_refl)

lemma quiet_append_chain:
  "append_chain waf chain r = m \<Longrightarrow> (case m of Inl (rc, r') \<Rightarrow> quiet r r' | Inr r' \<Rightarrow> quiet r r')"
proof (induction waf chain r arbitrary: m rule: append_chain.induct)
  case (2 waf data last_buf chain r)
  obtain ret r1 where p: "process_intervention waf False (msc (Append_request_body data) r) = (ret, r1)"
    by fastforce
  have m: "quiet r (msc (Append_request_body data) r)" by (rule quiet_msc) simp
  then have q: "quiet r r1" using quiet_intervention [OF p] by (rule quiet_trans)
  show ?case
  proof (cases "last_buf \<or> 0 < ret")
    case True
    then show ?thesis using "2.prems" p m q by (cases last_buf) auto
  next
    case False
    then have "append_chain waf chain r1 = m" using "2.prems" p by simp
    then have "case m of Inl (rc, r') \<Rightarrow> quiet r1 r' | Inr r' \<Rightarrow> quiet r1 r'"
      using False "2.IH" [OF refl _ p [symmetric]] by simp
    then show ?thesis using quiet_trans [OF q] by (auto split: sum.splits)
  qed
qed (auto simp: quiet_refl)

lemma quiet_body_chain: "body_chain waf chain r = (f, r') \<Longrightarrow> quiet r r'"
proof (induction chain arbitrary: r)
  case (Cons b chain)
  obtain data last_buf where b: "b = (data, last_buf)" by fastforce
  obtain ret r1 where p1: "process_intervention waf False (msc (Append_response_body data) r) = (ret, r1)"
    by fastforce
  obtain ret2 r2 where p2: "process_intervention waf False (msc Process_response_body r1) = (ret2, r2)" by fastforce
  have q1: "quiet r r1" using quiet_trans [OF quiet_msc quiet_intervention [OF p1]] by simp
  have q2: "quiet r r2" using quiet_trans [OF q1 quiet_trans [OF quiet_msc quiet_intervention [OF p2]]] by simp
  consider "r' = r1" | "r' = r2" | "body_chain waf chain r1 = (f, r')" | "body_chain waf chain r2 = (f, r')"
    using Cons.prems b p1 p2 by (auto split: if_splits)
  then show ?case using q1 q2 Cons.IH quiet_trans by cases blast+
qed (simp add: quiet_refl)

lemma quiet_resolvers: "f \<in> set headers_out_table \<Longrightarrow> quiet r (f r)"
  unfolding headers_out_table_def
  by (auto simp: resolv_header_server_def resolv_header_date_def resolv_header_content_length_def
      resolv_header_content_type_def resolv_header_last_modified_def resolv_header_connection_def
      resolv_header_transfer_encoding_def resolv_header_vary_def Let_def quiet_refl
      intro!: quiet_msc quiet_trans [OF quiet_msc quiet_msc] split: option.split)

lemma quiet_table: "set fs \<subseteq> set headers_out_table \<Longrightarrow> quiet r (foldl (\<lambda>r f. f r) r fs)"
proof (induction fs arbitrary: r)
  case (Cons f fs)
  then show ?case using quiet_resolvers [of f r] quiet_trans [of r "f r"] by simp
qed (simp add: quiet_refl)

lemma quiet_send_response_headers: "quiet r (send_response_headers r)"
  unfolding send_response_headers_def Let_def
  by (rule quiet_trans [OF quiet_table quiet_foldl]) (simp_all add: quiet_msc)

text \<open>The invariant of the context; \<open>k\<close> of the three phases of the request have been run.\<close>

definition ctx_ok :: "nat \<Rightarrow> ms_ctx \<Rightarrow> bool" where
  "ctx_ok k c \<longleftrightarrow>
     (\<exists>m. marks (calls c) = 6 # m \<and> 6 \<notin> set m \<and> filter (\<lambda>n. n \<le> 3) m = take k [1, 2, 3]
        \<and> count_list m 4 = of_bool (request_body_processed c) \<and> count_list m 5 = of_bool (processed c)
        \<and> count_list m 7 = of_bool (logged c))"

definition ms_ok :: "nat \<Rightarrow> ngx_request \<Rightarrow> bool" where
  "ms_ok k r \<longleftrightarrow>
     (module_ctx r \<longrightarrow> cleanup r)
     \<and> (case pool_ctx r of None \<Rightarrow> \<not> cleanup r | Some c \<Rightarrow> cleanup r \<and> ctx_ok k c)"

lemma ctx_ok_quiet: "ctx_ok k c \<Longrightarrow> quiet_ctx c c' \<Longrightarrow> ctx_ok k c'"
  unfolding ctx_ok_def quiet_ctx_def by (auto split: if_splits)

lemma ms_ok_quiet: "ms_ok k r \<Longrightarrow> quiet r r' \<Longrightarrow> ms_ok k r'"
  by (cases "pool_ctx r") (auto simp: ms_ok_def quiet_def intro: ctx_ok_quiet)

lemma ms_ok_get: "ms_ok k r \<Longrightarrow> get_module_ctx r = pool_ctx r"
  by (auto simp: ms_ok_def get_module_ctx_def split: option.splits)

lemma ms_ok_phase:
  assumes "ms_ok k r" and "pool_ctx r \<noteq> None" and "phase x = Suc k" and "k < 3"
  shows "ms_ok (Suc k) (msc x r)"
proof -
  obtain c where c: "pool_ctx r = Some c" using assms(2) by blast
  have "k = 0 \<or> k = 1 \<or> k = 2" using assms(4) by linarith
  then have "ctx_ok (Suc k) (c\<lparr>calls := calls c @ [x]\<rparr>)"
    using assms(1,3) c by (elim disjE) (auto simp: ms_ok_def ctx_ok_def)
  then show ?thesis using assms(1) c by (simp add: ms_ok_def msc_def upd_ctx_def)
qed

definition has_ctx :: "nat \<Rightarrow> ngx_request \<Rightarrow> bool" where
  "has_ctx k r \<longleftrightarrow> ms_ok k r \<and> pool_ctx r \<noteq> None"

lemma has_ctx_quiet: "has_ctx k r \<Longrightarrow> quiet r r' \<Longrightarrow> has_ctx k r'"
  unfolding has_ctx_def using ms_ok_quiet by (auto simp: quiet_def split: option.splits)

lemma has_ctx_phase: "has_ctx k r \<Longrightarrow> phase x = Suc k \<Longrightarrow> k < 3 \<Longrightarrow> has_ctx (Suc k) (msc x r)"
  unfolding has_ctx_def using ms_ok_phase by (simp add: pool_msc)

text \<open>A step of the rewrite handler that begins with \<open>k\<close> phases run and goes on with \<open>k'\<close>.\<close>

definition leads :: "nat \<Rightarrow> nat \<Rightarrow> (int \<times> ngx_request) + ngx_request \<Rightarrow> bool" where
  "leads k k' m \<longleftrightarrow> (case m of Inl (rc, r) \<Rightarrow> has_ctx k r \<or> has_ctx k' r | Inr r \<Rightarrow> has_ctx k' r)"

lemma leads_connection: "has_ctx 0 r \<Longrightarrow> leads 0 1 (rw_connection alloc r)"
  by (auto simp: leads_def rw_connection_def rw_hostname_def go_on_def Let_def
      intro!: has_ctx_phase [of 0, simplified] intro: has_ctx_quiet [OF _ quiet_msc] split: c_string.split option.split)

lemma leads_uri: "has_ctx 1 r \<Longrightarrow> leads 1 2 (rw_uri alloc r)"
  by (auto simp: leads_def rw_uri_def Let_def intro!: has_ctx_phase [of 1, simplified Suc_1] split: option.split)

lemma quiet_headers:
  "quiet r (foldl (\<lambda>r (k, v). msc (Add_request_header k v) r) r hs)"
  by (rule quiet_foldl) (auto intro: quiet_msc)

lemma has_ctx_headers: "has_ctx 2 r \<Longrightarrow> has_ctx 3 (rw_headers r)"
proof -
  assume r: "has_ctx 2 r"
  define r1 where "r1 = (if http_version r = 3000 \<and> \<not> in_host r \<and> length (in_server r) > 0
    then msc (Add_request_header ''Host'' (in_server r)) r else r)"
  have "quiet r r1" by (auto simp: r1_def quiet_refl intro: quiet_msc)
  then have "has_ctx 2 (foldl (\<lambda>r (k, v). msc (Add_request_header k v) r) r1 (in_headers r1))"
    using r has_ctx_quiet quiet_headers by blast
  then have "has_ctx (Suc 2) (msc Process_request_headers
      (foldl (\<lambda>r (k, v). msc (Add_request_header k v) r) r1 (in_headers r1)))"
    by (rule has_ctx_phase) simp_all
  then show ?thesis unfolding rw_headers_def Let_def r1_def [symmetric] by simp
qed

lemma leads_triggered: "has_ctx k r \<Longrightarrow> leads k k (triggered (process_intervention waf True r))"
proof -
  assume r: "has_ctx k r"
  obtain ret r1 where p: "process_intervention waf True r = (ret, r1)" by fastforce
  have "has_ctx k r1" using r quiet_intervention [OF p] by (rule has_ctx_quiet)
  then have "has_ctx k r1" "has_ctx k (upd_ctx (\<lambda>c. c\<lparr>intervention_triggered := True\<rparr>) r1)"
    using has_ctx_quiet quiet_flag by blast+
  then show ?thesis by (simp add: p leads_def triggered_def)
qed

definition lands :: "(int \<times> ngx_request) + ngx_request \<Rightarrow> bool" where
  "lands m \<longleftrightarrow> (case m of Inl (rc, r) \<Rightarrow> \<exists>k. k \<le> 3 \<and> has_ctx k r | Inr r \<Rightarrow> has_ctx 3 r)"

lemma lands_go_on:
  assumes "leads i j m" and "\<And>r. has_ctx j r \<Longrightarrow> lands (f r)" and "i \<le> 3" and "j \<le> 3"
  shows "lands (go_on m f)"
  using assms by (cases m) (auto simp: go_on_def leads_def lands_def)

lemma rewrite_phases_ok:
  assumes "has_ctx 0 r"
  shows "lands (rewrite_phases waf alloc r)"
proof -
  have final: "lands (let result = process_intervention waf True (rw_headers r)
      in if error_page (snd result) then Inl (NGX_DECLINED, snd result) else triggered result)"
    if "has_ctx 2 r" for r
  proof -
    have h: "has_ctx 3 (rw_headers r)" using that by (rule has_ctx_headers)
    obtain ret r1 where p: "process_intervention waf True (rw_headers r) = (ret, r1)" by fastforce
    then have "has_ctx 3 r1" using h quiet_intervention has_ctx_quiet by blast
    moreover have "leads 3 3 (triggered (ret, r1))" using leads_triggered [OF h, of waf] p by simp
    ultimately show ?thesis by (auto simp: p Let_def leads_def lands_def split: sum.splits)
  qed
  have four: "lands (go_on (triggered (process_intervention waf True r)) (\<lambda>r.
       let result = process_intervention waf True (rw_headers r)
       in if error_page (snd result) then Inl (NGX_DECLINED, snd result) else triggered result))"
    if "has_ctx 2 r" for r
    using leads_triggered [OF that] final by (rule lands_go_on) simp_all
  have three: "lands (go_on (rw_uri alloc r) (\<lambda>r.
       go_on (triggered (process_intervention waf True r)) (\<lambda>r.
       let result = process_intervention waf True (rw_headers r)
       in if error_page (snd result) then Inl (NGX_DECLINED, snd result) else triggered result)))"
    if "has_ctx 1 r" for r
    using leads_uri [OF that] four by (rule lands_go_on) simp_all
  have two: "lands (go_on (triggered (process_intervention waf True r)) (\<lambda>r.
       go_on (rw_uri alloc r) (\<lambda>r.
       go_on (triggered (process_intervention waf True r)) (\<lambda>r.
       let result = process_intervention waf True (rw_headers r)
       in if error_page (snd result) then Inl (NGX_DECLINED, snd result) else triggered result))))"
    if "has_ctx 1 r" for r
    using leads_triggered [OF that] three by (rule lands_go_on) simp_all
  show ?thesis
    unfolding rewrite_phases_def using leads_connection [OF assms] two by (rule lands_go_on) simp_all
qed

section \<open>Every step keeps the discipline\<close>

lemma ms_ok_fresh:
  assumes "ms_ok k r" and "get_module_ctx r = None" and "create_ctx alloc r = (Ctx_ok, r')"
  shows "has_ctx 0 r'"
proof -
  have "pool_ctx r = None" using assms(1,2) ms_ok_get by simp
  then show ?thesis
    using assms(3) by (auto simp: create_ctx_def has_ctx_def ms_ok_def ctx_ok_def new_ctx_def Let_def
        split: if_splits option.splits)
qed

lemma rewrite_handler_ok:
  assumes "ms_ok k r" and "k \<le> 3" and "rewrite_handler waf alloc r = Some (rc, r')"
  shows "\<exists>k. k \<le> 3 \<and> ms_ok k r'"
proof (cases "ms_enable r \<and> get_module_ctx r = None")
  case False
  then have "r' = r" using assms(3) by (auto simp: rewrite_handler_def split: option.splits if_splits)
  then show ?thesis using assms by auto
next
  case True
  obtain created r1 where c: "create_ctx alloc r = (created, r1)" by fastforce
  show ?thesis
  proof (cases created)
    case Ctx_null
    then have "r' = r" using assms(3) True c
      by (auto simp: rewrite_handler_def create_ctx_def Let_def split: option.splits if_splits)
    then show ?thesis using assms by auto
  next
    case Ctx_invalid
    then show ?thesis using assms(3) True c by (simp add: rewrite_handler_def)
  next
    case Ctx_ok
    then have l: "lands (rewrite_phases waf alloc r1)"
      using assms(1) True c ms_ok_fresh rewrite_phases_ok by blast
    show ?thesis
      using assms(3) True c Ctx_ok l
      by (auto simp: rewrite_handler_def lands_def has_ctx_def split: sum.splits)
  qed
qed

lemma ms_ok_same: "ms_ok k r \<Longrightarrow> same_module_state r r' \<Longrightarrow> ms_ok k r'"
  by (rule ms_ok_quiet [OF _ quiet_same])

lemma request_the_body_quiet:
  assumes "\<forall>q. same_module_state q (snd (read_body q))"
  shows "case request_the_body read_body r of Inl (rc, r') \<Rightarrow> quiet r r' | Inr r' \<Rightarrow> quiet r r'"
proof -
  define r1 where "r1 = (upd_ctx (\<lambda>c. c\<lparr>body_requested := True\<rparr>) r)\<lparr>in_single_buf := True, in_persistent_file := True\<rparr>"
  define r2 where "r2 = (if \<not> in_file_only r1 then r1\<lparr>in_clean_file := True\<rparr> else r1)"
  obtain rc r3 where rb: "read_body r2 = (rc, r3)" by fastforce
  have "quiet r r1"
    unfolding r1_def by (rule quiet_trans [OF quiet_flag(3) quiet_same [OF same_module_fields(5)]])
  moreover have "quiet r1 r2" by (simp add: r2_def quiet_refl quiet_same [OF same_module_fields(3)])
  moreover have "quiet r2 r3" using assms [rule_format, of r2] rb quiet_same by simp
  ultimately have q: "quiet r r3" using quiet_trans by blast
  then have w: "quiet r (upd_ctx (\<lambda>c. c\<lparr>waiting_more_body := True\<rparr>) r3)"
    using quiet_flag(2) quiet_trans by blast
  show ?thesis
    unfolding request_the_body_def Let_def r1_def [symmetric] r2_def [symmetric] rb
    using q w by simp
qed

lemma ms_ok_body_mark:
  assumes "ms_ok k r" and "\<And>c. pool_ctx r = Some c \<Longrightarrow> \<not> request_body_processed c"
  shows "ms_ok k (upd_ctx (\<lambda>c. c\<lparr>request_body_processed := True\<rparr>) (msc Process_request_body r))"
  using assms by (cases "pool_ctx r") (auto simp: ms_ok_def ctx_ok_def msc_def upd_ctx_def)

lemma inspect_body_ok:
  assumes "ms_ok k r" and "\<And>c. pool_ctx r = Some c \<Longrightarrow> \<not> request_body_processed c"
    and "inspect_body waf alloc r = Some m"
  shows "case m of Inl (rc, r') \<Rightarrow> ms_ok k r' | Inr r' \<Rightarrow> ms_ok k r'"
proof -
  let ?r = "r\<lparr>runs_phases := True\<rparr>"
  obtain body where body: "request_body r = Some body"
    using assms(3) by (cases "request_body r") (auto simp: inspect_body_def)
  define m1 where "m1 = (case rb_temp_file body of
      Some path \<Rightarrow>
        let file_name = ngx_str_to_char (alloc 0) path
        in if file_name = AllocError then Inl (NGX_HTTP_INTERNAL_SERVER_ERROR, ?r)
           else Inr (msc (Request_body_from_file file_name) ?r)
    | None \<Rightarrow> append_chain waf (rb_bufs body) ?r)"
  have q0: "quiet r ?r" by (rule quiet_same) (rule same_module_fields)
  have q1: "case m1 of Inl (rc, r') \<Rightarrow> quiet ?r r' | Inr r' \<Rightarrow> quiet ?r r'"
    unfolding m1_def using quiet_append_chain [of waf "rb_bufs body" ?r]
    by (auto simp: Let_def quiet_refl intro: quiet_msc split: option.split)
  have m: "m = go_on m1 (\<lambda>r.
      let r = upd_ctx (\<lambda>c. c\<lparr>request_body_processed := True\<rparr>) (msc Process_request_body r);
          (ret, r) = process_intervention waf False r
      in if error_page r then Inl (NGX_DECLINED, r) else if ret > 0 then Inl (ret, r) else Inr r)"
    using assms(3) body unfolding inspect_body_def Let_def m1_def by simp
  show ?thesis
  proof (cases m1)
    case (Inl result)
    then show ?thesis using m q1 quiet_trans [OF q0] ms_ok_quiet [OF assms(1)] by (auto simp: go_on_def)
  next
    case (Inr r1)
    let ?r2 = "upd_ctx (\<lambda>c. c\<lparr>request_body_processed := True\<rparr>) (msc Process_request_body r1)"
    obtain ret r3 where p: "process_intervention waf False ?r2 = (ret, r3)" by fastforce
    have q: "quiet r r1" using q0 q1 Inr quiet_trans by auto
    then have "\<not> request_body_processed c" if "pool_ctx r1 = Some c" for c
      using that assms(2) by (cases "pool_ctx r") (auto simp: quiet_def quiet_ctx_def)
    then have "ms_ok k ?r2" using ms_ok_body_mark [OF ms_ok_quiet [OF assms(1) q]] by blast
    then have "ms_ok k r3" using quiet_intervention [OF p] by (rule ms_ok_quiet)
    then show ?thesis using m Inr p by (simp add: go_on_def)
  qed
qed

lemma access_handler_ok:
  assumes "ms_ok k r" and "\<forall>q. same_module_state q (snd (read_body q))"
    and "access_handler waf alloc read_body r = Some (rc, r')"
  shows "ms_ok k r'"
proof (cases "\<exists>c. ms_enable r \<and> get_module_ctx r = Some c \<and> \<not> request_body_processed c
    \<and> \<not> intervention_triggered c \<and> \<not> waiting_more_body c")
  case False
  then have "r' = r" using assms(3) by (auto simp: access_handler_def split: option.splits if_splits)
  then show ?thesis using assms(1) by simp
next
  case True
  then obtain c where c: "ms_enable r" "get_module_ctx r = Some c" "\<not> request_body_processed c"
    "\<not> intervention_triggered c" "\<not> waiting_more_body c" by blast
  define m where "m = (if \<not> body_requested c then request_the_body read_body r else Inr r)"
  have q: "case m of Inl (rc, r') \<Rightarrow> quiet r r' | Inr r' \<Rightarrow> quiet r r'"
    using request_the_body_quiet [OF assms(2), of r] by (simp add: m_def quiet_refl)
  show ?thesis
  proof (cases m)
    case (Inl result)
    then have "result = (rc, r')" using assms(3) c m_def by (simp add: access_handler_def)
    then show ?thesis using q Inl ms_ok_quiet [OF assms(1)] by simp
  next
    case (Inr r1)
    then have q1: "quiet r r1" using q by simp
    then have ok1: "ms_ok k r1" using assms(1) ms_ok_quiet by blast
    have fresh: "\<not> request_body_processed c'" if "pool_ctx r1 = Some c'" for c'
      using that q1 c(2,3) get_pool by (fastforce simp: quiet_def quiet_ctx_def)
    show ?thesis
    proof (cases "r' = r1")
      case False
      then obtain m2 where "inspect_body waf alloc r1 = Some m2" "m2 = Inl (rc, r') \<or> m2 = Inr r'"
        using assms(3) c m_def Inr
        by (auto simp: access_handler_def split: if_splits option.splits sum.splits)
      then show ?thesis using inspect_body_ok [OF ok1 fresh] by fastforce
    qed (use ok1 in simp)
  qed
qed

lemma request_read_quiet: "request_read r = Some r' \<Longrightarrow> quiet r r'"
proof -
  assume rr: "request_read r = Some r'"
  let ?r = "r\<lparr>main_count := main_count r - 1\<rparr>"
  have q: "quiet r ?r" by (rule quiet_same) (rule same_module_fields)
  consider "r' = ?r" | "r' = (upd_ctx (\<lambda>c. c\<lparr>waiting_more_body := False\<rparr>) ?r)\<lparr>runs_phases := True\<rparr>"
    using rr by (auto simp: request_read_def Let_def split: option.splits if_splits)
  then show ?thesis
    using q quiet_trans [OF quiet_trans [OF q quiet_flag(2)] quiet_same [OF same_module_fields(1)]] by cases simp_all
qed

lemma ctx_ok_response_mark:
  assumes "ctx_ok k c" and "\<not> processed c" and "quiet_ctx (c\<lparr>processed := True\<rparr>) c'"
  shows "ctx_ok k (c'\<lparr>calls := calls c' @ [Process_response_headers status version]\<rparr>)"
  using assms unfolding ctx_ok_def quiet_ctx_def by (auto split: if_splits)

lemma header_filter_ok:
  assumes "ms_ok k r" and "header_filter waf r = (f, r')"
  shows "ms_ok k r'"
proof (cases "\<exists>c. get_module_ctx r = Some c \<and> \<not> intervention_triggered c \<and> \<not> processed c")
  case False
  then have "r' = r" using assms(2) by (auto simp: header_filter_def split: option.splits if_splits)
  then show ?thesis using assms(1) by simp
next
  case True
  then obtain c where c: "get_module_ctx r = Some c" "\<not> intervention_triggered c" "\<not> processed c" by blast
  let ?r1 = "upd_ctx (\<lambda>c. c\<lparr>processed := True\<rparr>) (r\<lparr>filter_need_in_memory := True\<rparr>)"
  let ?r2 = "send_response_headers ?r1"
  let ?status = "if err_status ?r2 \<noteq> 0 then err_status ?r2 else out_status ?r2"
  let ?version = "if http2_stream ?r2 then ''HTTP 2.0'' else ''HTTP 1.1''"
  let ?r3 = "msc (Process_response_headers ?status ?version) ?r2"
  have pc: "pool_ctx ?r1 = Some (c\<lparr>processed := True\<rparr>)" using get_pool [OF c(1)] by (simp add: upd_ctx_def)
  have q: "quiet ?r1 ?r2" by (rule quiet_send_response_headers)
  then obtain c' where c': "pool_ctx ?r2 = Some c'" "quiet_ctx (c\<lparr>processed := True\<rparr>) c'"
    using pc by (auto simp: quiet_def)
  have fl: "cleanup ?r2 = cleanup r" "module_ctx ?r2 \<longrightarrow> module_ctx r"
    using q by (simp_all add: quiet_def upd_ctx_def)
  have "cleanup r" "module_ctx r \<longrightarrow> cleanup r" "ctx_ok k c"
    using assms(1) get_pool [OF c(1)] by (auto simp: ms_ok_def)
  then have "ms_ok k ?r3"
    using ctx_ok_response_mark [OF _ c(3) c'(2)] c'(1) fl by (simp add: ms_ok_def msc_def upd_ctx_def)
  moreover obtain ret r4 where p: "process_intervention waf False ?r3 = (ret, r4)" by fastforce
  ultimately have "ms_ok k r4" using quiet_intervention ms_ok_quiet by blast
  moreover have "r' = r4" using assms(2) c p by (simp add: header_filter_def Let_def split: if_splits)
  ultimately show ?thesis by simp
qed

lemma body_filter_quiet: "body_filter waf chain r = (f, r') \<Longrightarrow> quiet r r'"
  using quiet_body_chain [of waf chain r f r']
  by (auto simp: body_filter_def quiet_refl split: if_splits option.splits)

lemma ms_step_ok:
  assumes "ms_step waf n r r'" and "k \<le> 3" and "ms_ok k r"
  shows "\<exists>k. k \<le> 3 \<and> ms_ok k r'"
  using assms
proof (cases rule: ms_step.cases)
  case (rewrite alloc rc)
  then show ?thesis using rewrite_handler_ok assms by blast
next
  case (access_phase read_body alloc rc)
  then show ?thesis using access_handler_ok assms by blast
next
  case body_read
  then show ?thesis using ms_ok_quiet request_read_quiet assms by blast
next
  case (headers f)
  then show ?thesis using header_filter_ok assms by blast
next
  case (body chain f)
  then show ?thesis using ms_ok_quiet body_filter_quiet assms by blast
next
  case redirect
  then have "ms_ok k r'" using assms(3) by (simp add: ms_ok_def internal_redirect_def split: option.splits)
  then show ?thesis using assms(2) by blast
next
  case environment
  then show ?thesis using ms_ok_same assms by blast
qed

lemma reachable_ok: "ms_reachable waf n r \<Longrightarrow> \<exists>k. k \<le> 3 \<and> ms_ok k r"
proof (induction rule: ms_reachable.induct)
  case (start r)
  then have "ms_ok 0 r" by (simp add: ms_ok_def)
  then show ?case by blast
next
  case (step n r k r')
  then show ?case using ms_step_ok by blast
qed

section \<open>How often the body of the response is processed\<close>

text \<open>The steps of the connector that do not process the body of the response, and the filter that does so once for
  each last buffer at most.\<close>

definition bodies :: "ngx_request \<Rightarrow> nat" where
  "bodies r = count_list (transaction r) Process_response_body"

lemma bodies_upd: "(\<And>c. calls (f c) = calls c) \<Longrightarrow> bodies (upd_ctx f r) = bodies r"
  by (simp add: bodies_def transaction_def upd_ctx_def split: option.split)

lemma bodies_msc: "bodies (msc x r) \<le> bodies r + of_bool (x = Process_response_body)"
  "x \<noteq> Process_response_body \<Longrightarrow> bodies (msc x r) = bodies r"
proof -
  show "bodies (msc x r) \<le> bodies r + of_bool (x = Process_response_body)"
    by (cases "pool_ctx r") (simp_all add: bodies_def transaction_def pool_msc)
  show "x \<noteq> Process_response_body \<Longrightarrow> bodies (msc x r) = bodies r"
    by (cases "pool_ctx r") (simp_all add: bodies_def transaction_def pool_msc)
qed

lemma bodies_same: "same_module_state r r' \<Longrightarrow> bodies r' = bodies r"
  by (simp add: same_module_state_def bodies_def transaction_def)

lemma bodies_location [simp]: "bodies (set_location url r) = bodies r"
  by (rule bodies_same) (simp add: same_module_state_def set_location_def clear_location_def Let_def split: option.split)

lemma bodies_intervention: "process_intervention waf early r = (ret, r') \<Longrightarrow> bodies r' = bodies r"
proof -
  assume p: "process_intervention waf early r = (ret, r')"
  have "bodies (snd (log_handler q)) = bodies q" for q
    by (simp add: log_handler_def bodies_msc split: option.split)
  then show ?thesis
    using p by (auto simp: process_intervention_def Let_def bodies_msc bodies_upd split: option.splits if_splits)
qed

lemma bodies_foldl: "(\<And>x r. bodies (f r x) = bodies r) \<Longrightarrow> bodies (foldl f r xs) = bodies r"
  by (induction xs arbitrary: r) simp_all

text \<open>A step that keeps the count, whether it returns or goes on.\<close>

definition keeps_bodies :: "nat \<Rightarrow> (int \<times> ngx_request) + ngx_request \<Rightarrow> bool" where
  "keeps_bodies n m \<longleftrightarrow> (case m of Inl (rc, r) \<Rightarrow> bodies r = n | Inr r \<Rightarrow> bodies r = n)"

lemma keeps_go_on:
  assumes "keeps_bodies n m" and "\<And>r. bodies r = n \<Longrightarrow> keeps_bodies n (f r)"
  shows "keeps_bodies n (go_on m f)"
  using assms by (cases m) (auto simp: keeps_bodies_def go_on_def)

lemma keeps_triggered: "bodies r = n \<Longrightarrow> keeps_bodies n (triggered (process_intervention waf early r))"
  using bodies_intervention [of waf early r]
  by (auto simp: triggered_def keeps_bodies_def bodies_upd split: prod.splits)

lemma keeps_connection: "bodies r = n \<Longrightarrow> keeps_bodies n (rw_connection alloc r)"
  by (auto simp: keeps_bodies_def rw_connection_def rw_hostname_def go_on_def Let_def bodies_msc
      split: c_string.split option.split)

lemma keeps_uri: "bodies r = n \<Longrightarrow> keeps_bodies n (rw_uri alloc r)"
  by (auto simp: keeps_bodies_def rw_uri_def Let_def bodies_msc split: option.split)

lemma bodies_headers: "bodies (rw_headers r) = bodies r"
proof -
  have "bodies (foldl (\<lambda>r (k, v). msc (Add_request_header k v) r) q hs) = bodies q" for q hs
    by (rule bodies_foldl) (auto simp: bodies_msc)
  then show ?thesis by (simp add: rw_headers_def Let_def bodies_msc)
qed

lemma keeps_phases: "bodies r = n \<Longrightarrow> keeps_bodies n (rewrite_phases waf alloc r)"
proof -
  have final: "keeps_bodies n (let result = process_intervention waf True (rw_headers r)
      in if error_page (snd result) then Inl (NGX_DECLINED, snd result) else triggered result)"
    if "bodies r = n" for r
    using that keeps_triggered [of "rw_headers r" n waf True] bodies_intervention [of waf True "rw_headers r"]
    by (cases "process_intervention waf True (rw_headers r)") (simp add: bodies_headers keeps_bodies_def Let_def)
  then show "bodies r = n \<Longrightarrow> keeps_bodies n (rewrite_phases waf alloc r)"
    unfolding rewrite_phases_def by (intro keeps_go_on keeps_connection keeps_triggered keeps_uri final)
qed

lemma bodies_rewrite:
  assumes "rewrite_handler waf alloc r = Some (rc, r')"
  shows "bodies r' \<le> bodies r"
proof (cases "rewrite_handler waf alloc r = Some (rc, r)")
  case False
  then obtain r1 where c: "create_ctx alloc r = (Ctx_ok, r1)"
    and res: "(case rewrite_phases waf alloc r1 of Inl result \<Rightarrow> result | Inr r \<Rightarrow> (NGX_DECLINED, r)) = (rc, r')"
    using assms by (auto simp: rewrite_handler_def create_ctx_def Let_def split: if_splits option.splits)
  have "bodies r1 = 0"
    using c by (auto simp: create_ctx_def new_ctx_def bodies_def transaction_def Let_def split: if_splits option.splits)
  then have "keeps_bodies 0 (rewrite_phases waf alloc r1)" by (rule keeps_phases)
  then have "bodies r' = 0" using res by (auto simp: keeps_bodies_def split: sum.splits)
  then show ?thesis by simp
qed (use assms in simp)

lemma keeps_append_chain: "bodies r = n \<Longrightarrow> keeps_bodies n (append_chain waf chain r)"
proof (induction waf chain r rule: append_chain.induct)
  case (2 waf data last_buf chain r)
  obtain ret r1 where p: "process_intervention waf False (msc (Append_request_body data) r) = (ret, r1)"
    by fastforce
  then have "bodies r1 = n" using bodies_intervention [OF p] "2.prems" by (simp add: bodies_msc)
  then show ?case using "2.IH" [OF refl _ p [symmetric]] "2.prems" p by (auto simp: keeps_bodies_def bodies_msc Let_def)
qed (simp add: keeps_bodies_def)

lemma keeps_inspect:
  assumes "inspect_body waf alloc r = Some m" and "bodies r = n"
  shows "keeps_bodies n m"
proof -
  let ?r = "r\<lparr>runs_phases := True\<rparr>"
  have r: "bodies ?r = n" using assms(2) bodies_same [OF same_module_fields(1)] by simp
  have last_part: "keeps_bodies n (let r = upd_ctx (\<lambda>c. c\<lparr>request_body_processed := True\<rparr>) (msc Process_request_body q);
      (ret, r) = process_intervention waf False r
      in if error_page r then Inl (NGX_DECLINED, r) else if ret > 0 then Inl (ret, r) else Inr r)"
    if "bodies q = n" for q
    using that bodies_intervention [of waf False "upd_ctx (\<lambda>c. c\<lparr>request_body_processed := True\<rparr>) (msc Process_request_body q)"]
    by (auto simp: keeps_bodies_def bodies_msc bodies_upd split: prod.split)
  obtain body where "request_body r = Some body" using assms(1) by (cases "request_body r") (auto simp: inspect_body_def)
  then have "m = go_on (case rb_temp_file body of
        Some path \<Rightarrow>
          let file_name = ngx_str_to_char (alloc 0) path
          in if file_name = AllocError then Inl (NGX_HTTP_INTERNAL_SERVER_ERROR, ?r)
             else Inr (msc (Request_body_from_file file_name) ?r)
      | None \<Rightarrow> append_chain waf (rb_bufs body) ?r)
      (\<lambda>r. let r = upd_ctx (\<lambda>c. c\<lparr>request_body_processed := True\<rparr>) (msc Process_request_body r);
            (ret, r) = process_intervention waf False r
        in if error_page r then Inl (NGX_DECLINED, r) else if ret > 0 then Inl (ret, r) else Inr r)"
    using assms(1) by (simp add: inspect_body_def Let_def)
  also have "keeps_bodies n \<dots>"
  proof (rule keeps_go_on [OF _ last_part])
    show "keeps_bodies n (case rb_temp_file body of
        Some path \<Rightarrow>
          let file_name = ngx_str_to_char (alloc 0) path
          in if file_name = AllocError then Inl (NGX_HTTP_INTERNAL_SERVER_ERROR, ?r)
             else Inr (msc (Request_body_from_file file_name) ?r)
      | None \<Rightarrow> append_chain waf (rb_bufs body) ?r)"
      using keeps_append_chain [OF r] r by (auto simp: keeps_bodies_def bodies_msc Let_def split: option.split)
  qed
  finally show ?thesis .
qed

lemma keeps_request_the_body:
  assumes "\<forall>q. same_module_state q (snd (read_body q))"
  shows "keeps_bodies (bodies r) (request_the_body read_body r)"
proof -
  define r1 where "r1 = (upd_ctx (\<lambda>c. c\<lparr>body_requested := True\<rparr>) r)\<lparr>in_single_buf := True, in_persistent_file := True\<rparr>"
  define r2 where "r2 = (if \<not> in_file_only r1 then r1\<lparr>in_clean_file := True\<rparr> else r1)"
  obtain rc r3 where rb: "read_body r2 = (rc, r3)" by fastforce
  have "bodies r1 = bodies r" unfolding r1_def using bodies_same [OF same_module_fields(5)] bodies_upd by simp
  moreover have "bodies r2 = bodies r1" by (simp add: r2_def bodies_same [OF same_module_fields(3)])
  moreover have "bodies r3 = bodies r2" using assms [rule_format, of r2] rb bodies_same by simp
  ultimately show ?thesis
    unfolding request_the_body_def Let_def r1_def [symmetric] r2_def [symmetric] rb
    by (simp add: keeps_bodies_def bodies_upd)
qed

lemma bodies_access:
  assumes "\<forall>q. same_module_state q (snd (read_body q))" and "access_handler waf alloc read_body r = Some (rc, r')"
  shows "bodies r' = bodies r"
proof (cases "r' = r")
  case False
  then obtain c where c: "get_module_ctx r = Some c"
    and h: "access_handler waf alloc read_body r =
      (case (if \<not> body_requested c then request_the_body read_body r else Inr r) of
         Inl result \<Rightarrow> Some result
       | Inr r \<Rightarrow>
           if (case pool_ctx r of None \<Rightarrow> False | Some c \<Rightarrow> waiting_more_body c) then Some (NGX_DECLINED, r)
           else
             (case inspect_body waf alloc r of
                None \<Rightarrow> None
              | Some (Inl result) \<Rightarrow> Some result
              | Some (Inr r) \<Rightarrow> Some (NGX_DECLINED, r)))"
    using assms(2) by (auto simp: access_handler_def split: if_splits option.splits)
  define m where "m = (if \<not> body_requested c then request_the_body read_body r else Inr r)"
  have k: "keeps_bodies (bodies r) m" using keeps_request_the_body [OF assms(1)] by (simp add: m_def keeps_bodies_def)
  show ?thesis
  proof (cases m)
    case (Inl result)
    then show ?thesis using k h assms(2) by (auto simp: m_def [symmetric] keeps_bodies_def)
  next
    case (Inr r1)
    then have "bodies r1 = bodies r" using k by (simp add: keeps_bodies_def)
    then show ?thesis
      using Inr h assms(2) keeps_inspect [of waf alloc r1 _ "bodies r"]
      by (auto simp: m_def [symmetric] keeps_bodies_def split: if_splits option.splits sum.splits)
  qed
qed simp

lemma bodies_header_filter: "header_filter waf r = (f, r') \<Longrightarrow> bodies r' = bodies r"
proof -
  assume h: "header_filter waf r = (f, r')"
  have "bodies (g q) = bodies q" if "g \<in> set headers_out_table" for g q
    using that unfolding headers_out_table_def
    by (auto simp: resolv_header_server_def resolv_header_date_def resolv_header_content_length_def
        resolv_header_content_type_def resolv_header_last_modified_def resolv_header_connection_def
        resolv_header_transfer_encoding_def resolv_header_vary_def Let_def bodies_msc split: option.split)
  then have "set gs \<subseteq> set headers_out_table \<Longrightarrow> bodies (foldl (\<lambda>r g. g r) q gs) = bodies q" for q gs
    by (induction gs arbitrary: q) simp_all
  then have "bodies (send_response_headers q) = bodies q" for q
    by (simp add: send_response_headers_def Let_def bodies_foldl bodies_msc)
  moreover have "bodies (q\<lparr>filter_need_in_memory := b\<rparr>) = bodies q" for q b
    by (rule bodies_same) (rule same_module_fields)
  ultimately show ?thesis
    using h bodies_intervention
    by (fastforce simp: header_filter_def Let_def bodies_msc bodies_upd split: option.splits if_splits prod.splits)
qed

lemma bodies_chain: "body_chain waf chain r = (f, r') \<Longrightarrow> bodies r' \<le> bodies r + last_bufs chain"
proof (induction chain arbitrary: r)
  case (Cons b chain)
  obtain data last_buf where b: "b = (data, last_buf)" by fastforce
  obtain ret r1 where p1: "process_intervention waf False (msc (Append_response_body data) r) = (ret, r1)"
    by fastforce
  obtain ret2 r2 where p2: "process_intervention waf False (msc Process_response_body r1) = (ret2, r2)" by fastforce
  have n: "bodies r1 = bodies r" "bodies r2 \<le> Suc (bodies r)"
    using bodies_intervention [OF p1] bodies_intervention [OF p2] bodies_msc(1) [of Process_response_body r1]
    by (simp_all add: bodies_msc(2))
  consider "r' = r1" | "last_buf" "r' = r2" | "\<not> last_buf" "body_chain waf chain r1 = (f, r')"
    | "last_buf" "body_chain waf chain r2 = (f, r')"
    using Cons.prems b p1 p2 by (auto split: if_splits)
  then show ?case
    using n Cons.IH [of r1] Cons.IH [of r2] b by cases (auto simp: last_bufs_def)
qed simp

lemma bodies_step: "ms_step waf k r r' \<Longrightarrow> bodies r' \<le> bodies r + k"
proof (induction rule: ms_step.cases)
  case (rewrite alloc r rc r')
  then show ?case using bodies_rewrite by simp
next
  case (access_phase read_body alloc r rc r')
  then show ?case using bodies_access by simp
next
  case (body_read r r')
  then show ?case
    using bodies_same [OF same_module_fields(2)] bodies_same [OF same_module_fields(1)]
    by (auto simp: request_read_def Let_def bodies_upd split: option.splits if_splits)
next
  case (headers r f r')
  then show ?case using bodies_header_filter by simp
next
  case (body chain r f r')
  then show ?case using bodies_chain by (auto simp: body_filter_def split: if_splits option.splits)
next
  case (redirect r)
  then show ?case by (simp add: internal_redirect_def bodies_def transaction_def)
next
  case (environment r r')
  then show ?case using bodies_same by simp
qed

lemma reachable_bodies: "ms_reachable waf n r \<Longrightarrow> bodies r \<le> n"
proof (induction rule: ms_reachable.induct)
  case (step n r k r')
  then show ?case using bodies_step [of waf k r r'] by simp
qed (simp add: bodies_def transaction_def)

section \<open>The order of the calls\<close>

text \<open>The order of a transaction: it is created first and once, its phases of the request come in the order
  connection, URI, headers, and each of these, the request body, the response headers and the logging come at most once.
  (The response body is counted apart.)\<close>

definition orderly :: "msc_call list \<Rightarrow> bool" where
  "orderly cs \<longleftrightarrow>
     (case marks cs of
        [] \<Rightarrow> cs = []
      | n # m \<Rightarrow>
          n = 6 \<and> 6 \<notin> set m
          \<and> (let request = filter (\<lambda>n. n \<le> 3) m in request = take (length request) [1, 2, 3])
          \<and> count_list m 4 \<le> 1 \<and> count_list m 5 \<le> 1 \<and> count_list m 7 \<le> 1)"

lemma count_logging: "count_list (marks cs) 7 = count_list cs Process_logging"
proof (induction cs)
  case (Cons x cs)
  then show ?case by (cases x) simp_all
qed simp

lemma orderly_ok: "ctx_ok k c \<Longrightarrow> k \<le> 3 \<Longrightarrow> orderly (calls c)"
  by (auto simp: ctx_ok_def orderly_def Let_def)

lemma ms_ok_orderly:
  assumes "ms_ok k r" and "k \<le> 3"
  shows "orderly (transaction r)
    \<and> count_list (transaction (snd (log_handler r))) Process_logging = (if transaction r = [] then 0 else 1)"
proof (cases "pool_ctx r")
  case None
  then show ?thesis
    using ms_ok_get [OF assms(1)] by (simp add: transaction_def orderly_def log_handler_def)
next
  case (Some c)
  then have c: "ctx_ok k c" "get_module_ctx r = Some c" using assms(1) ms_ok_get by (auto simp: ms_ok_def)
  have "count_list (calls c) Process_logging = of_bool (logged c)" "calls c \<noteq> []"
    using c(1) by (auto simp: ctx_ok_def count_logging [symmetric])
  then show ?thesis
    using Some c orderly_ok [OF c(1) assms(2)] transaction_msc [of r Process_logging]
    by (simp add: log_handler_def transaction_def)
qed

text \<open>C15: In every request that the handlers and filters of the connector, redirections and the rest of nginx can
  make of a new one, the engine sees one transaction: it is created first and once; its connection, URI and
  headers are processed in this order, each at most once; the request body and the response headers are processed
  at most once; the response body is processed at most once for each buffer marked as the last one that the
  body filter has been given; and after the log handler the transaction has been logged exactly once.\<close>

theorem transaction_discipline:
  assumes "ms_reachable waf n r"
  shows "orderly (transaction r)
    \<and> count_list (transaction r) Process_response_body \<le> n
    \<and> count_list (transaction (snd (log_handler r))) Process_logging = (if transaction r = [] then 0 else 1)"
  using reachable_ok [OF assms] ms_ok_orderly reachable_bodies [OF assms] unfolding bodies_def by blast

lemma example_reachable:
  "ms_reachable example_waf 1 (snd (body_filter example_waf [(''a'', True)] (snd (header_filter example_waf example_rewritten))))"
proof -
  let ?r = "snd (header_filter example_waf example_rewritten)"
  have "ms_reachable example_waf 0 example_request" by (rule ms_reachable.start) (simp_all add: example_request_def)
  moreover have "ms_step example_waf 0 example_request example_rewritten" using example_rewrite by (rule ms_step.rewrite)
  moreover have "ms_step example_waf 0 example_rewritten ?r"
    by (rule ms_step.headers [of _ _ "fst (header_filter example_waf example_rewritten)"]) simp
  ultimately have "ms_reachable example_waf (0 + 0 + 0) ?r" by (intro ms_reachable.step)
  moreover have "ms_step example_waf (last_bufs [(''a'', True)]) ?r (snd (body_filter example_waf [(''a'', True)] ?r))"
    by (rule ms_step.body [of _ _ _ "fst (body_filter example_waf [(''a'', True)] ?r)"]) simp
  ultimately have "ms_reachable example_waf (0 + 0 + 0 + last_bufs [(''a'', True)]) (snd (body_filter example_waf [(''a'', True)] ?r))"
    by (rule ms_reachable.step)
  then show ?thesis by (simp add: last_bufs_def)
qed

lemma transaction_discipline_witness:
  "let r = snd (body_filter example_waf [(''a'', True)] (snd (header_filter example_waf example_rewritten)))
   in orderly (transaction r) \<and> count_list (transaction r) Process_response_body \<le> 1
      \<and> count_list (transaction (snd (log_handler r))) Process_logging = 1"
proof -
  have "transaction (snd (body_filter example_waf [(''a'', True)] (snd (header_filter example_waf example_rewritten)))) \<noteq> []"
    by code_simp
  then show ?thesis using transaction_discipline [OF example_reachable] by (simp add: Let_def)
qed

end
