(* ===== verification/MsInspection.thy ===== *)
theory MsInspection
  imports ModSecurity "HOL-Library.Sublist"
begin

text \<open>
  What the engine has been given when the ModSecurity connector lets a request or a response pass: the
  script of calls of every handler and filter, and that all the consultations in it let it pass.
\<close>

section \<open>What an accepted request has been through\<close>

text \<open>The calls without the notes, and the transactions in which the engine has let everything pass.\<close>

definition payload :: "msc_call list \<Rightarrow> msc_call list" where
  "payload cs = filter (\<lambda>x. \<not> is_note x) cs"

definition cleared :: "waf \<Rightarrow> msc_call list \<Rightarrow> bool" where
  "cleared waf cs = list_all (\<lambda>p. p \<noteq> [] \<and> last p = Intervention \<longrightarrow> harmless (waf p)) (prefixes cs)"

lemma payload_simps [simp]:
  "payload [] = []" "payload (xs @ ys) = payload xs @ payload ys"
  "payload (x # xs) = (if is_note x then payload xs else x # payload xs)"
  by (simp_all add: payload_def)

lemma payload_notes: "list_all is_note xs \<Longrightarrow> payload xs = []"
  by (induction xs) simp_all

lemma cleared_Nil [simp]: "cleared waf []"
  by (simp add: cleared_def)

lemma cleared_snoc [simp]:
  "cleared waf (xs @ [x]) \<longleftrightarrow> cleared waf xs \<and> (x = Intervention \<longrightarrow> harmless (waf (xs @ [x])))"
  by (simp add: cleared_def)

lemma cleared_notes: "list_all is_note ys \<Longrightarrow> cleared waf (xs @ ys) = cleared waf xs"
proof (induction ys rule: rev_induct)
  case (snoc y ys)
  have "cleared waf (xs @ ys @ [y]) = (cleared waf (xs @ ys) \<and> (y = Intervention \<longrightarrow> harmless (waf (xs @ ys @ [y]))))"
    using cleared_snoc [of waf "xs @ ys" y] by simp
  then show ?case using snoc by auto
qed simp

text \<open>A refusal: the connector's own error, or the status of an intervention of the engine.\<close>

definition blocked :: "waf \<Rightarrow> int \<Rightarrow> ngx_request \<Rightarrow> bool" where
  "blocked waf rc r \<longleftrightarrow>
     rc = NGX_HTTP_INTERNAL_SERVER_ERROR
     \<or> 0 < rc \<and> (\<exists>p \<in> set (prefixes (transaction r)). p \<noteq> [] \<and> last p = Intervention
                  \<and> (case waf p of None \<Rightarrow> False | Some iv \<Rightarrow> iv_status iv = rc))"

text \<open>Going on from \<open>r\<close> to \<open>r'\<close> with the calls \<open>xs\<close>.\<close>

definition goes :: "waf \<Rightarrow> ngx_request \<Rightarrow> msc_call list \<Rightarrow> ngx_request \<Rightarrow> bool" where
  "goes waf r xs r' \<longleftrightarrow>
     get_module_ctx r' \<noteq> None \<and> only_module r r'
     \<and> payload (transaction r') = payload (transaction r) @ xs
     \<and> (\<not> header_sent r \<longrightarrow> cleared waf (transaction r) \<longrightarrow> cleared waf (transaction r'))"

lemma goes_refl: "get_module_ctx r \<noteq> None \<Longrightarrow> goes waf r [] r"
  by (simp add: goes_def only_module_refl)

lemma goes_trans: "goes waf a xs b \<Longrightarrow> goes waf b ys c \<Longrightarrow> goes waf a (xs @ ys) c"
  unfolding goes_def using only_module_trans only_module_fields(2) by auto

lemma goes_ctx: "goes waf r xs r' \<Longrightarrow> get_module_ctx r' \<noteq> None"
  by (simp add: goes_def)

lemma goes_msc:
  assumes "get_module_ctx r \<noteq> None" and "\<not> is_note x" and "x \<noteq> Intervention"
  shows "goes waf r [x] (msc x r)"
proof -
  have "pool_ctx r \<noteq> None" using assms(1) get_pool by auto
  then show ?thesis using assms by (simp add: goes_def get_msc transaction_msc only_module_msc)
qed

lemma goes_upd:
  assumes "get_module_ctx r \<noteq> None" and "\<And>c. calls (f c) = calls c"
  shows "goes waf r [] (upd_ctx f r)"
proof -
  have "get_module_ctx (upd_ctx f r) \<noteq> None"
    using assms(1) by (auto simp: get_module_ctx_def upd_ctx_def split: if_splits)
  moreover have "transaction (upd_ctx f r) = transaction r"
    using assms(2) by (simp add: transaction_def upd_ctx_def split: option.split)
  ultimately show ?thesis by (simp add: goes_def only_module_upd)
qed

lemma consult:
  assumes "get_module_ctx r \<noteq> None" and "process_intervention waf early r = (ret, r')"
  shows "ret \<le> 0 \<Longrightarrow> goes waf r [Intervention] r'" and "0 < ret \<Longrightarrow> blocked waf ret r'"
    and "get_module_ctx r' \<noteq> None" and "only_module r r'"
proof -
  obtain c where c: "get_module_ctx r = Some c" using assms(1) by blast
  have q: "quiet r r'" "only_module r r'" using process_intervention_ctx [OF c assms(2)] by auto
  have pr: "pool_ctx r' \<noteq> None" using q(1) get_pool [OF c] by (auto simp: quiet_def)
  have g: "get_module_ctx r' \<noteq> None"
    using pr c only_module_fields(3,4) [OF q(2)] by (auto simp: get_module_ctx_def split: if_splits)
  obtain xs where xs: "transaction r' = (transaction r @ [Intervention]) @ xs" "list_all is_note xs"
    using process_intervention_calls [OF c assms(2)] by auto
  have h: "ret \<le> 0 \<longrightarrow> header_sent r \<or> harmless (waf (transaction r @ [Intervention]))"
    and b: "0 < ret \<longrightarrow> (\<exists>iv. waf (transaction r @ [Intervention]) = Some iv \<and> iv_status iv = ret)"
    using process_intervention_calls [OF c assms(2)] by auto
  show "ret \<le> 0 \<Longrightarrow> goes waf r [Intervention] r'"
    using g q(2) h xs by (auto simp: goes_def payload_notes cleared_notes simp del: append_assoc)
  have "transaction r @ [Intervention] \<in> set (prefixes (transaction r'))"
    using xs(1) by simp
  then show "0 < ret \<Longrightarrow> blocked waf ret r'" using b by (force simp: blocked_def)
  show "get_module_ctx r' \<noteq> None" "only_module r r'" using g q(2) by auto
qed

text \<open>A step with its calls: it goes on with them or refuses.\<close>

definition runs :: "waf \<Rightarrow> ngx_request \<Rightarrow> msc_call list \<Rightarrow> (int \<times> ngx_request) + ngx_request \<Rightarrow> bool" where
  "runs waf r xs m \<longleftrightarrow> (case m of Inl (rc, r') \<Rightarrow> blocked waf rc r' | Inr r' \<Rightarrow> goes waf r xs r')"


lemma runs_after: "goes waf r xs r1 \<Longrightarrow> runs waf r1 ys m \<Longrightarrow> runs waf r (xs @ ys) m"
  using goes_trans by (fastforce simp: runs_def split: sum.splits)



lemma goes_foldl:
  assumes "get_module_ctx r \<noteq> None" and "\<And>x. \<not> is_note (g x) \<and> g x \<noteq> Intervention"
  shows "goes waf r (map g xs) (foldl (\<lambda>r x. msc (g x) r) r xs)"
  using assms(1)
proof (induction xs arbitrary: r)
  case (Cons x xs)
  have m: "goes waf r [g x] (msc (g x) r)" using Cons.prems assms(2) goes_msc by blast
  then have "goes waf r ([g x] @ map g xs) (foldl (\<lambda>r x. msc (g x) r) (msc (g x) r) xs)"
    using Cons.IH [OF goes_ctx [OF m]] by (rule goes_trans)
  then show ?case by simp
qed (simp add: goes_refl)

text \<open>Letting a request pass after the calls \<open>xs\<close>.  While an error page is being served (\<open>r->error_page\<close>) the answer to the
  last consultation is not looked at, and once the response headers have been sent no answer can refuse any more.\<close>

definition before_last :: "msc_call \<Rightarrow> msc_call list \<Rightarrow> msc_call list" where
  "before_last x cs = rev (tl (dropWhile (\<lambda>y. y \<noteq> x) (rev cs)))"

definition passes :: "waf \<Rightarrow> ngx_request \<Rightarrow> msc_call list \<Rightarrow> ngx_request \<Rightarrow> bool" where
  "passes waf r xs r' \<longleftrightarrow>
     payload (transaction r') = payload (transaction r) @ xs
     \<and> (if header_sent r \<or> \<not> cleared waf (transaction r) then True
        else cleared waf (if error_page r then before_last Intervention (transaction r') else transaction r'))"

lemma before_last_prefix: "\<exists>ys. cs = before_last x cs @ ys"
proof -
  let ?d = "dropWhile (\<lambda>y. y \<noteq> x) (rev cs)" and ?t = "takeWhile (\<lambda>y. y \<noteq> x) (rev cs)"
  have "rev cs = ?t @ ?d" by simp
  then have "cs = rev ?d @ rev ?t" by (metis rev_append rev_rev_ident)
  then show ?thesis
  proof (cases ?d)
    case Nil
    then show ?thesis by (simp add: before_last_def del: dropWhile_eq_Nil_conv)
  next
    case (Cons y d)
    then show ?thesis using \<open>cs = rev ?d @ rev ?t\<close> by (simp add: before_last_def) metis
  qed
qed

lemma before_last_notes:
  assumes "list_all is_note ns"
  shows "before_last Intervention (cs @ Intervention # ns) = cs"
proof -
  have "y \<noteq> Intervention" if "y \<in> set (rev ns)" for y
    using assms that by (auto simp: list_all_iff)
  then have "dropWhile (\<lambda>y. y \<noteq> Intervention) (rev ns @ Intervention # rev cs) = Intervention # rev cs"
    by (subst dropWhile_append2) auto
  then show ?thesis by (simp add: before_last_def)
qed

lemma cleared_prefix: "cleared waf (xs @ ys) \<Longrightarrow> cleared waf xs"
  by (induction ys rule: rev_induct) (simp_all flip: append_assoc)

lemma goes_passes:
  assumes "goes waf r xs r'"
  shows "passes waf r xs r'"
proof -
  obtain ys where "transaction r' = before_last Intervention (transaction r') @ ys"
    using before_last_prefix [of "transaction r'" Intervention] by blast
  then have "cleared waf (transaction r') \<Longrightarrow> cleared waf (before_last Intervention (transaction r'))"
    using cleared_prefix by metis
  then show ?thesis using assms by (auto simp: goes_def passes_def)
qed

lemma passes_after:
  assumes "goes waf r xs q" and "passes waf q ys r'" and "only_module q r'"
  shows "passes waf r (xs @ ys) r' \<and> only_module r r'"
proof -
  have q: "only_module r q" using assms(1) by (simp add: goes_def)
  then show ?thesis
    using assms only_module_trans [OF q assms(3)] only_module_fields(1,2) [OF q]
    by (auto simp: goes_def passes_def split: if_splits)
qed

text \<open>On an error page a consultation lets pass whatever it answers.\<close>

lemma consult_passes:
  assumes "get_module_ctx r \<noteq> None" and "error_page r" and "process_intervention waf early r = (ret, r')"
  shows "passes waf r [Intervention] r' \<and> only_module r r'"
proof -
  obtain c where "get_module_ctx r = Some c" using assms(1) by blast
  from process_intervention_calls [OF this assms(3)] obtain ns where
    "transaction r' = transaction r @ Intervention # ns" "list_all is_note ns" by blast
  then show ?thesis
    using assms(2) consult(4) [OF assms(1,3)] by (simp add: passes_def before_last_notes payload_notes)
qed

text \<open>A step that goes on, lets the request pass at once, or refuses.\<close>

definition ends :: "waf \<Rightarrow> ngx_request \<Rightarrow> msc_call list \<Rightarrow> (int \<times> ngx_request) + ngx_request \<Rightarrow> bool" where
  "ends waf r xs m \<longleftrightarrow>
     (case m of
        Inl (rc, r') \<Rightarrow> blocked waf rc r' \<or> rc = NGX_DECLINED \<and> passes waf r xs r' \<and> only_module r r'
      | Inr r' \<Rightarrow> passes waf r xs r' \<and> only_module r r')"


lemma ends_go_on:
  assumes "runs waf r xs m" and "\<And>r'. goes waf r xs r' \<Longrightarrow> ends waf r' ys (f r')"
  shows "ends waf r (xs @ ys) (go_on m f)"
  using assms passes_after by (cases m) (fastforce simp: runs_def ends_def go_on_def split: sum.splits)+

lemma ends_after: "goes waf r xs r1 \<Longrightarrow> ends waf r1 ys m \<Longrightarrow> ends waf r (xs @ ys) m"
  using passes_after by (fastforce simp: ends_def split: sum.splits)

subsection \<open>The rewrite handler\<close>







lemma str_to_char_allocated:
  "ngx_str_to_char b s \<noteq> AllocError \<Longrightarrow> ngx_str_to_char b s = ngx_str_to_char True s"
  by (simp add: ngx_str_to_char_def split: if_splits)

lemma blocked_500: "blocked waf NGX_HTTP_INTERNAL_SERVER_ERROR r"
  by (simp add: blocked_def)








lemma blocked_not_declined: "blocked waf rc r \<Longrightarrow> rc \<noteq> NGX_DECLINED"
  by (auto simp: blocked_def code_const)


subsection \<open>The access handler\<close>

fun chain_calls :: "(bytes \<times> bool) list \<Rightarrow> msc_call list" where
  "chain_calls [] = []"
| "chain_calls ((data, last_buf) # chain) =
     Append_request_body data # (if last_buf then [] else Intervention # chain_calls chain)"

definition body_script :: "request_body_t \<Rightarrow> msc_call list" where
  "body_script body =
     (case rb_temp_file body of
        Some path \<Rightarrow> [Request_body_from_file (ngx_str_to_char True path)]
      | None \<Rightarrow> chain_calls (rb_bufs body))
     @ [Process_request_body, Intervention]"

lemma runs_append_chain: "get_module_ctx r \<noteq> None \<Longrightarrow> runs waf r (chain_calls chain) (append_chain waf chain r)"
proof (induction chain arbitrary: r)
  case (Cons b chain)
  obtain data last_buf where b: "b = (data, last_buf)" by fastforce
  have g: "goes waf r [Append_request_body data] (msc (Append_request_body data) r)"
    using Cons.prems by (rule goes_msc) simp_all
  obtain ret r1 where p: "process_intervention waf False (msc (Append_request_body data) r) = (ret, r1)" by fastforce
  show ?case
  proof (cases "last_buf \<or> 0 < ret")
    case True
    then show ?thesis using b p g consult(2) [OF goes_ctx [OF g] p] by (cases last_buf) (auto simp: runs_def)
  next
    case False
    then have "goes waf r ([Append_request_body data] @ [Intervention]) r1"
      using goes_trans [OF g consult(1) [OF goes_ctx [OF g] p]] by simp
    moreover from this have "runs waf r1 (chain_calls chain) (append_chain waf chain r1)"
      using Cons.IH goes_ctx by blast
    ultimately have "runs waf r (([Append_request_body data] @ [Intervention]) @ chain_calls chain) (append_chain waf chain r1)"
      by (rule runs_after)
    then show ?thesis using False b p by simp
  qed
qed (simp add: runs_def goes_refl)

text \<open>Where an inspected body leaves the request.\<close>

lemma ends_inspect_body:
  assumes "get_module_ctx r \<noteq> None" and "inspect_body waf alloc r = Some m"
  shows "\<exists>body. request_body r = Some body \<and> ends waf (r\<lparr>runs_phases := True\<rparr>) (body_script body) m"
proof -
  let ?r = "r\<lparr>runs_phases := True\<rparr>"
  obtain body where body: "request_body r = Some body"
    using assms(2) by (cases "request_body r") (auto simp: inspect_body_def)
  have g0: "get_module_ctx ?r \<noteq> None" using assms(1) by (simp add: get_module_ctx_def split: if_splits)
  define m1 where "m1 = (case rb_temp_file body of
      Some path \<Rightarrow>
        let file_name = ngx_str_to_char (alloc 0) path
        in if file_name = AllocError then Inl (NGX_HTTP_INTERNAL_SERVER_ERROR, ?r)
           else Inr (msc (Request_body_from_file file_name) ?r)
    | None \<Rightarrow> append_chain waf (rb_bufs body) ?r)"
  define xs where "xs = (case rb_temp_file body of
      Some path \<Rightarrow> [Request_body_from_file (ngx_str_to_char True path)] | None \<Rightarrow> chain_calls (rb_bufs body))"
  have r1: "runs waf ?r xs m1"
  proof (cases "rb_temp_file body")
    case None
    then show ?thesis using runs_append_chain [OF g0] by (simp add: m1_def xs_def)
  next
    case (Some path)
    then show ?thesis
      using g0 str_to_char_allocated [of "alloc 0" path]
      by (auto simp: m1_def xs_def Let_def runs_def blocked_500 intro!: goes_msc)
  qed
  let ?f = "\<lambda>r. let r = upd_ctx (\<lambda>c. c\<lparr>request_body_processed := True\<rparr>) (msc Process_request_body r);
      (ret, r) = process_intervention waf False r
    in if error_page r then Inl (NGX_DECLINED, r) else if ret > 0 then Inl (ret, r) else Inr r"
  have "ends waf q [Process_request_body, Intervention] (?f q)" if g: "goes waf ?r xs q" for q
  proof -
    let ?q = "upd_ctx (\<lambda>c. c\<lparr>request_body_processed := True\<rparr>) (msc Process_request_body q)"
    have "goes waf q [Process_request_body] (msc Process_request_body q)"
      using goes_ctx [OF g] by (rule goes_msc) simp_all
    from goes_trans [OF this goes_upd [OF goes_ctx [OF this]]]
    have g1: "goes waf q [Process_request_body] ?q" by simp
    obtain ret q2 where p: "process_intervention waf False ?q = (ret, q2)" by fastforce
    have "error_page q2 = error_page ?q"
      using consult(4) [OF goes_ctx [OF g1] p] by (rule only_module_fields)
    then have "ends waf ?q [Intervention]
        (let (ret, r) = process_intervention waf False ?q
         in if error_page r then Inl (NGX_DECLINED, r) else if ret > 0 then Inl (ret, r) else Inr r)"
      using consult_passes [OF goes_ctx [OF g1] _ p] consult [OF goes_ctx [OF g1] p] goes_passes
      by (auto simp: p ends_def)
    then show ?thesis using ends_after [OF g1] by (simp add: Let_def)
  qed
  then have "ends waf ?r (xs @ [Process_request_body, Intervention]) (go_on m1 ?f)"
    by (rule ends_go_on [OF r1])
  moreover have "m = go_on m1 ?f" using assms(2) body unfolding inspect_body_def Let_def m1_def by simp
  ultimately show ?thesis using body by (simp add: body_script_def xs_def)
qed

text \<open>What reading the body leaves alone.\<close>

definition keeps_module :: "(ngx_request \<Rightarrow> int \<times> ngx_request) \<Rightarrow> bool" where
  "keeps_module read_body \<longleftrightarrow>
     (\<forall>q. same_module_state q (snd (read_body q))
        \<and> error_page (snd (read_body q)) = error_page q \<and> header_sent (snd (read_body q)) = header_sent q)"

lemma request_the_body_keeps:
  assumes "keeps_module read_body" and "get_module_ctx r = Some c" and "\<not> waiting_more_body c"
  shows "case request_the_body read_body r of
      Inl (rc, r') \<Rightarrow> rc = NGX_DONE \<or> rc = NGX_ERROR \<or> NGX_HTTP_SPECIAL_RESPONSE \<le> rc
    | Inr r' \<Rightarrow> (\<exists>c'. get_module_ctx r' = Some c' \<and> \<not> waiting_more_body c' \<and> calls c' = calls c)
        \<and> error_page r' = error_page r \<and> header_sent r' = header_sent r"
proof -
  define r1 where "r1 = (upd_ctx (\<lambda>c. c\<lparr>body_requested := True\<rparr>) r)\<lparr>in_single_buf := True, in_persistent_file := True\<rparr>"
  define r2 where "r2 = (if \<not> in_file_only r1 then r1\<lparr>in_clean_file := True\<rparr> else r1)"
  obtain rc r3 where rb: "read_body r2 = (rc, r3)" by fastforce
  have r3: "same_module_state r2 r3" "error_page r3 = error_page r2" "header_sent r3 = header_sent r2"
    using assms(1) rb unfolding keeps_module_def by (metis snd_conv)+
  have "get_module_ctx r2 = Some (c\<lparr>body_requested := True\<rparr>)" "error_page r2 = error_page r" "header_sent r2 = header_sent r"
    using assms(2) by (auto simp: r2_def r1_def upd_ctx_def get_module_ctx_def split: if_splits)
  then have "get_module_ctx r3 = Some (c\<lparr>body_requested := True\<rparr>)" "error_page r3 = error_page r" "header_sent r3 = header_sent r"
    using r3 by (simp_all add: same_module_state_def get_module_ctx_def split: if_splits)
  then show ?thesis
    using assms(3) unfolding request_the_body_def Let_def r1_def [symmetric] r2_def [symmetric] rb by auto
qed

text \<open>The answer of the access handler when it has inspected the body or refused.\<close>

definition inspected :: "waf \<Rightarrow> ngx_request \<Rightarrow> ngx_request \<Rightarrow> bool" where
  "inspected waf r r' \<longleftrightarrow>
     (case request_body r' of None \<Rightarrow> False | Some body \<Rightarrow> passes waf r (body_script body) r')"

lemma passes_cong:
  "transaction q = transaction r \<Longrightarrow> error_page q = error_page r \<Longrightarrow> header_sent q = header_sent r
    \<Longrightarrow> passes waf q xs r' = passes waf r xs r'"
  by (simp add: passes_def)

lemma access_body:
  assumes "ms_enable r" and "get_module_ctx r = Some c" and "\<not> request_body_processed c"
    and "\<not> intervention_triggered c" and "\<not> waiting_more_body c"
    and "keeps_module read_body" and "access_handler waf alloc read_body r = Some (rc, r')"
  shows "rc = NGX_DECLINED \<and> inspected waf r r'
    \<or> rc = NGX_DONE \<or> rc = NGX_ERROR \<or> NGX_HTTP_SPECIAL_RESPONSE \<le> rc \<or> blocked waf rc r'"
proof -
  define m where "m = (if \<not> body_requested c then request_the_body read_body r else Inr r)"
  have k: "case m of
      Inl (rc, r') \<Rightarrow> rc = NGX_DONE \<or> rc = NGX_ERROR \<or> NGX_HTTP_SPECIAL_RESPONSE \<le> rc
    | Inr r' \<Rightarrow> (\<exists>c'. get_module_ctx r' = Some c' \<and> \<not> waiting_more_body c' \<and> calls c' = calls c)
        \<and> error_page r' = error_page r \<and> header_sent r' = header_sent r"
    using request_the_body_keeps [OF assms(6,2,5)] assms(2,5) by (simp add: m_def)
  show ?thesis
  proof (cases m)
    case (Inl result)
    then have "result = (rc, r')" using assms m_def by (simp add: access_handler_def)
    then show ?thesis using k Inl by auto
  next
    case (Inr r1)
    let ?r1 = "r1\<lparr>runs_phases := True\<rparr>"
    obtain c1 where c1: "get_module_ctx r1 = Some c1" "\<not> waiting_more_body c1" "calls c1 = calls c"
      and e: "error_page r1 = error_page r" "header_sent r1 = header_sent r" using k Inr by auto
    obtain m2 where m2: "inspect_body waf alloc r1 = Some m2"
      and res: "m2 = Inl (rc, r') \<or> m2 = Inr r' \<and> rc = NGX_DECLINED"
      using assms m_def Inr c1(2) get_pool [OF c1(1)]
      by (auto simp: access_handler_def split: option.splits sum.splits)
    obtain body where body: "request_body r1 = Some body" and r: "ends waf ?r1 (body_script body) m2"
      using ends_inspect_body [OF _ m2] c1(1) by auto
    have t: "transaction ?r1 = transaction r"
      using get_pool [OF assms(2)] get_pool [OF c1(1)] c1(3) by (simp add: transaction_def)
    have "inspected waf r r'" if p: "passes waf ?r1 (body_script body) r'" "only_module ?r1 r'"
    proof -
      have "request_body r' = Some body" using body only_module_fields(12) [OF p(2)] by simp
      moreover have "error_page ?r1 = error_page r" "header_sent ?r1 = header_sent r" using e by simp_all
      ultimately show ?thesis using p(1) passes_cong [OF t] by (simp add: inspected_def)
    qed
    then show ?thesis using r res by (auto simp: ends_def)
  qed
qed

subsection \<open>The response filters\<close>

fun is_response_header :: "msc_call \<Rightarrow> bool" where
  "is_response_header (Add_response_header k v) = True"
| "is_response_header _ = False"

definition adds_headers :: "waf \<Rightarrow> ngx_request \<Rightarrow> ngx_request \<Rightarrow> bool" where
  "adds_headers waf r r' \<longleftrightarrow> (\<exists>xs. list_all is_response_header xs \<and> goes waf r xs r')"

lemma adds_refl: "get_module_ctx r \<noteq> None \<Longrightarrow> adds_headers waf r r"
  unfolding adds_headers_def using goes_refl by (intro exI [of _ "[]"]) simp

lemma adds_trans: "adds_headers waf a b \<Longrightarrow> adds_headers waf b c \<Longrightarrow> adds_headers waf a c"
  unfolding adds_headers_def using goes_trans by (metis list_all_append)

lemma adds_msc: "get_module_ctx r \<noteq> None \<Longrightarrow> adds_headers waf r (msc (Add_response_header k v) r)"
  unfolding adds_headers_def using goes_msc [of r "Add_response_header k v" waf]
  by (intro exI [of _ "[Add_response_header k v]"]) simp

lemma adds_ctx: "adds_headers waf r r' \<Longrightarrow> get_module_ctx r' \<noteq> None"
  unfolding adds_headers_def using goes_ctx by blast

lemma adds_resolver:
  assumes "f \<in> set headers_out_table" and "get_module_ctx r \<noteq> None"
  shows "adds_headers waf r (f r)"
proof -
  have two: "adds_headers waf r (msc (Add_response_header k v) (msc (Add_response_header k' v') r))" for k v k' v'
    using adds_trans [OF adds_msc [OF assms(2)] adds_msc [OF adds_ctx [OF adds_msc [OF assms(2)]]]] .
  show ?thesis
    using assms adds_refl [OF assms(2)] adds_msc [OF assms(2)] two
    unfolding headers_out_table_def
    by (auto simp: resolv_header_server_def resolv_header_date_def resolv_header_content_length_def
        resolv_header_content_type_def resolv_header_last_modified_def resolv_header_connection_def
        resolv_header_transfer_encoding_def resolv_header_vary_def Let_def split: option.split)
qed

lemma adds_table:
  "set fs \<subseteq> set headers_out_table \<Longrightarrow> get_module_ctx r \<noteq> None \<Longrightarrow> adds_headers waf r (foldl (\<lambda>r f. f r) r fs)"
proof (induction fs arbitrary: r)
  case (Cons f fs)
  have "adds_headers waf r (f r)" using Cons.prems adds_resolver by simp
  then show ?case using Cons.IH [of "f r"] Cons.prems(1) adds_ctx adds_trans by fastforce
qed (simp add: adds_refl)

text \<open>The headers of the response that the engine is given last are the ones in the list.\<close>

definition out_header_calls :: "ngx_request \<Rightarrow> msc_call list" where
  "out_header_calls r = map (\<lambda>h. Add_response_header (oh_key h) (oh_value h)) (out_headers r)"

lemma out_headers_upd: "out_headers (upd_ctx f r) = out_headers r"
  by (simp add: upd_ctx_def)

lemma out_headers_resolver: "f \<in> set headers_out_table \<Longrightarrow> out_headers (f r) = out_headers r"
  unfolding headers_out_table_def
  by (auto simp: resolv_header_server_def resolv_header_date_def resolv_header_content_length_def
      resolv_header_content_type_def resolv_header_last_modified_def resolv_header_connection_def
      resolv_header_transfer_encoding_def resolv_header_vary_def Let_def msc_def out_headers_upd split: option.split)

lemma out_headers_table: "set fs \<subseteq> set headers_out_table \<Longrightarrow> out_headers (foldl (\<lambda>r f. f r) r fs) = out_headers r"
  by (induction fs arbitrary: r) (simp_all add: out_headers_resolver)

lemma send_response_headers_goes:
  assumes "get_module_ctx r \<noteq> None"
  shows "\<exists>xs. list_all is_response_header xs \<and> goes waf r (xs @ out_header_calls r) (send_response_headers r)"
proof -
  let ?r = "foldl (\<lambda>r f. f r) r headers_out_table"
  obtain xs where xs: "list_all is_response_header xs" "goes waf r xs ?r"
    using adds_table [OF subset_refl assms] unfolding adds_headers_def by blast
  have "goes waf ?r (out_header_calls r)
      (foldl (\<lambda>r h. msc (Add_response_header (oh_key h) (oh_value h)) r) ?r (out_headers ?r))"
    using goes_foldl [OF goes_ctx [OF xs(2)], of "\<lambda>h. Add_response_header (oh_key h) (oh_value h)"]
      out_headers_table [OF subset_refl, of r] by (simp add: out_header_calls_def)
  then show ?thesis using xs goes_trans by (auto simp: send_response_headers_def Let_def)
qed

fun response_calls :: "(bytes \<times> bool) list \<Rightarrow> msc_call list" where
  "response_calls [] = []"
| "response_calls ((data, last_buf) # chain) =
     Append_response_body data # Intervention
     # (if last_buf then [Process_response_body, Intervention] else []) @ response_calls chain"

text \<open>What a filter has done: refused, or handed on after the calls \<open>xs\<close>.\<close>

definition filters :: "waf \<Rightarrow> ngx_request \<Rightarrow> msc_call list \<Rightarrow> filtered \<Rightarrow> ngx_request \<Rightarrow> bool" where
  "filters waf r xs f r' \<longleftrightarrow>
     (case f of
        Next_filter \<Rightarrow>
          payload (transaction r') = payload (transaction r) @ xs
          \<and> (\<not> header_sent r \<longrightarrow> cleared waf (transaction r) \<longrightarrow> cleared waf (transaction r'))
      | Finalize_request rc \<Rightarrow> blocked waf rc r'
      | Filter_return rc \<Rightarrow> blocked waf rc r')"

lemma filters_after: "goes waf r xs r1 \<Longrightarrow> filters waf r1 ys f r' \<Longrightarrow> filters waf r (xs @ ys) f r'"
  using only_module_fields(2) by (cases f) (auto simp: filters_def goes_def)

lemma filters_body_chain:
  "get_module_ctx r \<noteq> None \<Longrightarrow> body_chain waf chain r = (f, r') \<Longrightarrow> filters waf r (response_calls chain) f r'"
proof (induction chain arbitrary: r)
  case (Cons b chain)
  obtain data last_buf where b: "b = (data, last_buf)" by fastforce
  let ?r0 = "msc (Append_response_body data) r"
  have g0: "goes waf r [Append_response_body data] ?r0"
    using Cons.prems(1) by (rule goes_msc) simp_all
  obtain ret r1 where p1: "process_intervention waf False ?r0 = (ret, r1)" by fastforce
  show ?case
  proof (cases "0 < ret")
    case True
    then show ?thesis
      using Cons.prems(2) b p1 consult(2) [OF goes_ctx [OF g0] p1] by (auto simp: filters_def)
  next
    case False
    then have g1: "goes waf r ([Append_response_body data] @ [Intervention]) r1"
      using goes_trans [OF g0 consult(1) [OF goes_ctx [OF g0] p1]] by simp
    show ?thesis
    proof (cases last_buf)
      case False
      then have "filters waf r1 (response_calls chain) f r'"
        using Cons b p1 \<open>\<not> 0 < ret\<close> goes_ctx [OF g1] by simp
      from filters_after [OF g1 this] show ?thesis using b False by simp
    next
      case True
      let ?r2 = "msc Process_response_body r1"
      have g2: "goes waf r1 [Process_response_body] ?r2"
        using goes_ctx [OF g1] by (rule goes_msc) simp_all
      obtain ret2 r3 where p2: "process_intervention waf False ?r2 = (ret2, r3)" by fastforce
      consider "0 < ret2" | "ret2 < 0" | "ret2 = 0" by linarith
      then show ?thesis
      proof cases
        case 1
        then show ?thesis
          using Cons.prems(2) b p1 p2 True \<open>\<not> 0 < ret\<close> consult(2) [OF goes_ctx [OF g2] p2]
          by (auto simp: filters_def)
      next
        case 2
        then show ?thesis
          using Cons.prems(2) b p1 p2 True \<open>\<not> 0 < ret\<close> by (auto simp: filters_def blocked_500)
      next
        case 3
        then have g3: "goes waf r1 ([Process_response_body] @ [Intervention]) r3"
          using goes_trans [OF g2 consult(1) [OF goes_ctx [OF g2] p2]] by simp
        have "filters waf r3 (response_calls chain) f r'"
          using Cons b p1 p2 3 True \<open>\<not> 0 < ret\<close> goes_ctx [OF g3] by simp
        from filters_after [OF goes_trans [OF g1 g3] this] show ?thesis using b True by simp
      qed
    qed
  qed
qed (simp add: filters_def)

section \<open>Failing closed\<close>


text \<open>C22: What the access handler does with every request, when reading the body leaves the module's state alone.  It
  crashes only where nginx has no request body; it lets a request through untouched when the module is disabled,
  when the body has been processed before or when an intervention has been triggered before, answers 500 without a
  context and waits while the body is being read.  Any other request it lets through only when the engine has
  been given the whole chain of the body, up to the last buffer, or the name of its temporary file, has processed
  it, and has let every consultation pass, with the two exceptions of \<open>passes\<close>: on an error page the answer to
  the last consultation is not looked at, and behind sent response headers no answer refuses.  Otherwise it waits,
  reports the error of reading the body, or refuses.\<close>

theorem access_fails_closed:
  assumes "keeps_module read_body"
  shows "case access_handler waf alloc read_body r of
      None \<Rightarrow> ms_enable r \<and> (case get_module_ctx r of None \<Rightarrow> False
        | Some c \<Rightarrow> \<not> request_body_processed c \<and> \<not> intervention_triggered c \<and> \<not> waiting_more_body c
            \<and> request_body (if body_requested c then r else projr (request_the_body read_body r)) = None)
    | Some (rc, r') \<Rightarrow>
        if \<not> ms_enable r then rc = NGX_DECLINED \<and> r' = r
        else
          case get_module_ctx r of
            None \<Rightarrow> rc = NGX_HTTP_INTERNAL_SERVER_ERROR \<and> r' = r
          | Some c \<Rightarrow>
              if request_body_processed c \<or> intervention_triggered c then rc = NGX_DECLINED \<and> r' = r
              else if waiting_more_body c then rc = NGX_DONE \<and> r' = r
              else if rc = NGX_DECLINED then inspected waf r r'
              else rc = NGX_DONE \<or> rc = NGX_ERROR \<or> NGX_HTTP_SPECIAL_RESPONSE \<le> rc \<or> blocked waf rc r'"
proof (cases "access_handler waf alloc read_body r")
  case None
  then obtain c where c: "ms_enable r" "get_module_ctx r = Some c" "\<not> request_body_processed c"
      "\<not> intervention_triggered c" "\<not> waiting_more_body c"
    by (auto simp: access_handler_def split: if_splits option.splits)
  have "request_body (if body_requested c then r else projr (request_the_body read_body r)) = None"
    using None c by (auto simp: access_handler_def inspect_body_def Let_def split: if_splits option.splits sum.splits)
  then show ?thesis using None c by simp
next
  case (Some result)
  obtain rc r' where result: "result = (rc, r')" by fastforce
  show ?thesis
  proof (cases "get_module_ctx r")
    case None
    then show ?thesis using Some result by (auto simp: access_handler_def)
  next
    case ctx: (Some c)
    show ?thesis
    proof (cases "ms_enable r \<and> \<not> request_body_processed c \<and> \<not> intervention_triggered c \<and> \<not> waiting_more_body c")
      case True
      then show ?thesis
        using access_body [OF _ ctx _ _ _ assms, of waf alloc rc r'] Some result ctx blocked_not_declined [of waf rc r']
        by (auto simp: code_const)
    next
      case False
      then consider "\<not> ms_enable r" | "ms_enable r" "request_body_processed c \<or> intervention_triggered c"
        | "ms_enable r" "\<not> (request_body_processed c \<or> intervention_triggered c)" "waiting_more_body c" by blast
      then show ?thesis
        by cases (use Some result ctx in \<open>simp_all add: access_handler_def split: if_splits\<close>)
    qed
  qed
qed

lemma access_fails_closed_witness:
  "case access_handler example_waf (\<lambda>_. True) example_read example_rewritten of
     None \<Rightarrow> False | Some (rc, r) \<Rightarrow> rc = NGX_DECLINED \<and> inspected example_waf example_rewritten r"
proof -
  let ?c = "the (get_module_ctx example_rewritten)"
  let ?a = "access_handler example_waf (\<lambda>_. True) example_read example_rewritten"
  have g: "get_module_ctx example_rewritten = Some ?c" by code_simp
  have f: "ms_enable example_rewritten" "\<not> request_body_processed ?c" "\<not> intervention_triggered ?c"
    "\<not> waiting_more_body ?c" by code_simp+
  have k: "keeps_module example_read" by (simp add: keeps_module_def same_module_state_def example_read_def)
  define x where "x = snd (the ?a)"
  have "?a = Some (NGX_DECLINED, snd (the ?a))" by code_simp
  then have a: "?a = Some (NGX_DECLINED, x)" by (simp only: x_def)
  have "inspected example_waf example_rewritten x"
    using access_fails_closed [OF k, where waf = example_waf and alloc = "\<lambda>_. True" and r = example_rewritten] f
    unfolding a by (subst (asm) g) simp
  then show ?thesis unfolding a by simp
qed

text \<open>The header filter hands a response on only when the engine has been given all its headers, those of the
  list last, and then the status and the version, and has let it pass.\<close>

lemma header_filter_hands_on:
  assumes "get_module_ctx r = Some c" and "\<not> intervention_triggered c" and "\<not> processed c" and "\<not> error_page r"
    and "header_filter waf r = (f, r')"
  shows "\<exists>xs status version. list_all is_response_header xs
    \<and> filters waf r (xs @ out_header_calls r @ [Process_response_headers status version, Intervention]) f r'"
proof -
  let ?r1 = "upd_ctx (\<lambda>c. c\<lparr>processed := True\<rparr>) (r\<lparr>filter_need_in_memory := True\<rparr>)"
  let ?r2 = "send_response_headers ?r1"
  define status where "status = (if err_status ?r2 \<noteq> 0 then err_status ?r2 else out_status ?r2)"
  define version where "version = (if http2_stream ?r2 then ''HTTP 2.0'' else ''HTTP 1.1'')"
  let ?r3 = "msc (Process_response_headers status version) ?r2"
  have g1: "get_module_ctx ?r1 \<noteq> None" using assms(1) by (auto simp: get_module_ctx_def upd_ctx_def split: if_splits)
  obtain xs where xs: "list_all is_response_header xs" "goes waf ?r1 (xs @ out_header_calls ?r1) ?r2"
    using send_response_headers_goes [OF g1] by blast
  have "goes waf ?r2 [Process_response_headers status version] ?r3"
    using goes_ctx [OF xs(2)] by (rule goes_msc) simp_all
  note g3 = goes_trans [OF xs(2) this]
  obtain ret r4 where p: "process_intervention waf False ?r3 = (ret, r4)" by fastforce
  note q = consult [OF goes_ctx [OF g3] p]
  have "error_page r4 = error_page ?r1"
    using q(4) g3 only_module_fields(1) unfolding goes_def by metis
  then have "\<not> error_page r4" using assms(4) by (simp add: upd_ctx_def)
  then have res: "(f, r') = (if ret > 0 then (Finalize_request ret, r4) else (Next_filter, r4))"
    using assms(1,2,3,5) p by (simp add: header_filter_def Let_def status_def version_def)
  have t: "transaction ?r1 = transaction r" "header_sent ?r1 = header_sent r" "out_header_calls ?r1 = out_header_calls r"
    by (simp_all add: transaction_def upd_ctx_def out_header_calls_def split: option.split)
  have "filters waf r (xs @ out_header_calls r @ [Process_response_headers status version, Intervention]) f r'"
  proof (cases "ret > 0")
    case True
    then show ?thesis using res q(2) by (simp add: filters_def)
  next
    case False
    then show ?thesis
      using res goes_trans [OF g3 q(1)] t by (simp add: filters_def goes_def)
  qed
  then show ?thesis using xs(1) by blast
qed

lemma header_filter_hands_on_witness:
  "\<exists>xs status version. list_all is_response_header xs
    \<and> filters example_waf example_rewritten
        (xs @ out_header_calls example_rewritten @ [Process_response_headers status version, Intervention])
        Next_filter (snd (header_filter example_waf example_rewritten))"
proof -
  let ?c = "the (get_module_ctx example_rewritten)"
  have g: "get_module_ctx example_rewritten = Some ?c" by code_simp
  have f: "\<not> intervention_triggered ?c" "\<not> processed ?c" "\<not> error_page example_rewritten" by code_simp+
  have h: "header_filter example_waf example_rewritten
      = (Next_filter, snd (header_filter example_waf example_rewritten))" by code_simp
  show ?thesis using header_filter_hands_on [OF g f h] .
qed

text \<open>C27: What the body filter does with every chain.  Without a context, after an intervention, or when the chain is
  empty, it hands the chain on as it is and tells the engine nothing.  Otherwise it hands the chain on only when the
  engine has been given every buffer of it in order, has been consulted after each, and has processed the body
  at the last one; with the headers not sent yet, only when it has let all of this pass.\<close>

theorem body_filter_hands_on:
  "case body_filter waf chain r of (f, r') \<Rightarrow>
     if chain = [] \<or> (case get_module_ctx r of None \<Rightarrow> True | Some c \<Rightarrow> intervention_triggered c)
     then f = Next_filter \<and> r' = r
     else filters waf r (response_calls chain) f r'"
  using filters_body_chain [of r waf chain]
  by (auto simp: body_filter_def split: option.splits prod.splits)

text \<open>The rewrite handler takes \<open>NGX_CONF_ERROR\<close> for a context and uses it as a pointer exactly when the
  configured transaction id cannot be evaluated or the second allocation of \<open>create_ctx\<close> fails.\<close>

lemma rewrite_invalid_pointer:
  "rewrite_handler waf alloc r = None \<longleftrightarrow>
     ms_enable r \<and> get_module_ctx r = None \<and> alloc 0 \<and> (if alloc 1 then transaction_id r = Some None else True)"
  by (auto simp: rewrite_handler_def create_ctx_def Let_def split: option.splits if_splits)

end
