(* ===== verification/Checked.thy ===== *)
theory Checked
  imports Prelude "HOL-Library.Monad_Syntax"
begin

text \<open>
  Reading a buffer that is given by a pointer and a length: the operations of C on it, each with the check that
  it stays inside.  \<open>None\<close> is a read outside the buffer, or a subtraction of sizes that wraps around.
\<close>

definition read_at :: "bytes \<Rightarrow> nat \<Rightarrow> char option" where
  "read_at s i = (if i < length s then Some (s ! i) else None)"

definition size_minus :: "nat \<Rightarrow> nat \<Rightarrow> nat option" where
  "size_minus a b = (if b \<le> a then Some (a - b) else None)"

text \<open>\<open>memchr(s + pos, c, len - pos)\<close> as an index.\<close>

definition memchr :: "bytes \<Rightarrow> nat \<Rightarrow> char \<Rightarrow> nat option option" where
  "memchr s pos c =
     do { n \<leftarrow> size_minus (length s) pos;
          let skipped = takeWhile (\<lambda>x. x \<noteq> c) (drop pos s);
          Some (if length skipped < n then Some (pos + length skipped) else None) }"

text \<open>A byte as \<open>char\<close> is signed where this code is built.\<close>

definition signed_char :: "char \<Rightarrow> int" where
  "signed_char c = (if ord c < 128 then int (ord c) else int (ord c) - 256)"

text \<open>An upper case letter for a lower case one, as \<open>cb -= 0x20\<close> in the comparisons of libinjection.\<close>

definition upper :: "char \<Rightarrow> char" where
  "upper c = (if CHR ''a'' \<le> c \<and> c \<le> CHR ''z'' then char_of (ord c - 32) else c)"

text \<open>\<open>n\<close> bytes from \<open>p\<close> on, as \<open>memcpy\<close> reads them.\<close>

definition read_bytes :: "bytes \<Rightarrow> nat \<Rightarrow> nat \<Rightarrow> bytes option" where
  "read_bytes s p n = (if p + n \<le> length s then Some (take n (drop p s)) else None)"

lemma read_at_some: "i < length s \<Longrightarrow> read_at s i = Some (s ! i)"
  by (simp add: read_at_def)

lemma read_bytes_some: "p + n \<le> length s \<Longrightarrow> read_bytes s p n = Some (take n (drop p s))"
  by (simp add: read_bytes_def)

lemma size_minus_some: "b \<le> a \<Longrightarrow> size_minus a b = Some (a - b)"
  by (simp add: size_minus_def)

lemma memchr_cases:
  assumes "pos \<le> length s"
  obtains "memchr s pos c = Some None"
  | i where "memchr s pos c = Some (Some i)" and "pos \<le> i" and "i < length s" and "s ! i = c"
proof -
  let ?b = "takeWhile (\<lambda>x. x \<noteq> c) (drop pos s)"
  show thesis
  proof (cases "length ?b < length s - pos")
    case True
    then have "drop pos s ! length ?b = c" using nth_length_takeWhile [of "\<lambda>x. x \<noteq> c" "drop pos s"] by simp
    then have "s ! (pos + length ?b) = c" using assms by simp
    then show thesis
      using True assms that(2) [of "pos + length ?b"] by (simp add: memchr_def size_minus_def Let_def)
  next
    case False
    then show thesis using assms that(1) by (simp add: memchr_def size_minus_def Let_def)
  qed
qed

lemma memchr_bound: "memchr s p c = Some r \<Longrightarrow> p \<le> length s \<and> (case r of None \<Rightarrow> True | Some i \<Rightarrow> p \<le> i \<and> i < length s \<and> s ! i = c)"
  by (cases "p \<le> length s") (erule memchr_cases [of p s c], auto simp: memchr_def size_minus_def split: if_splits)

end
