(* ===== verification/Html5.thy ===== *)
theory Html5
  imports Checked
begin

text \<open>
  The HTML 5 tokenizer of libinjection (\<open>src/deps/src/libinjection/src/libinjection_html5.c\<close>), which the
  XSS check of the web application firewall runs on every argument of a request.

  The C functions of the state machine end with \<open>return 0\<close>, \<open>return 1\<close> or a call of another
  of them, so a function is a definition that gives one of these ends (\<open>h5_act\<close>); \<open>h5_call\<close> follows
  the calls.  Every \<open>memchr\<close>, every subtraction of sizes and every read of the input that its own
  condition does not guard is checked: the value \<open>None\<close> is a read outside the input or a size that
  wraps around.
\<close>

section \<open>The state\<close>

datatype html5_type =
    DATA_TEXT | TAG_NAME_OPEN | TAG_NAME_CLOSE | TAG_NAME_SELFCLOSE | TAG_DATA | TAG_CLOSE
  | ATTR_NAME | ATTR_VALUE | TAG_COMMENT | DOCTYPE

datatype html5_flags =
    DATA_STATE | VALUE_NO_QUOTE | VALUE_SINGLE_QUOTE | VALUE_DOUBLE_QUOTE | VALUE_BACK_QUOTE

datatype injection_result = RESULT_FALSE | RESULT_TRUE | RESULT_ERROR

text \<open>The functions that \<open>state\<close> points to or that are called.\<close>

datatype h5_fn =
    St_eof | St_data | St_tag_open | St_end_tag_open | St_tag_name_close | St_tag_name
  | St_before_attribute_name | St_attribute_name | St_after_attribute_name | St_before_attribute_value
  | St_attribute_value_double_quote | St_attribute_value_single_quote | St_attribute_value_back_quote
  | St_attribute_value_no_quote | St_after_attribute_value_quoted | St_self_closing_start_tag
  | St_bogus_comment | St_bogus_comment2 | St_markup_declaration_open | St_comment | St_cdata | St_doctype

record h5 =
  h5_pos :: nat
  h5_is_close :: bool
  h5_state :: h5_fn
  token_start :: nat
  token_len :: nat
  token_type :: html5_type

text \<open>The end of a function.\<close>

datatype h5_act = Ret injection_result h5 | Tail h5_fn h5

definition libinjection_h5_init :: "html5_flags \<Rightarrow> h5" where
  "libinjection_h5_init flags =
     \<lparr>h5_pos = 0, h5_is_close = False,
      h5_state =
        (case flags of
           DATA_STATE \<Rightarrow> St_data
         | VALUE_NO_QUOTE \<Rightarrow> St_before_attribute_name
         | VALUE_SINGLE_QUOTE \<Rightarrow> St_attribute_value_single_quote
         | VALUE_DOUBLE_QUOTE \<Rightarrow> St_attribute_value_double_quote
         | VALUE_BACK_QUOTE \<Rightarrow> St_attribute_value_back_quote),
      token_start = 0, token_len = 0, token_type = DATA_TEXT\<rparr>"

text \<open>\<open>return 1\<close> with a token, the next state and the next position.\<close>

definition emit :: "html5_type \<Rightarrow> nat \<Rightarrow> nat \<Rightarrow> h5_fn \<Rightarrow> nat \<Rightarrow> h5 \<Rightarrow> h5_act option" where
  "emit ty start len st pos h =
     Some (Ret RESULT_TRUE
       (h\<lparr>token_type := ty, token_start := start, token_len := len, h5_state := st, h5_pos := pos\<rparr>))"

text \<open>\<open>strchr\<close> also finds the final zero byte of its string.\<close>

definition h5_is_white :: "char \<Rightarrow> bool" where
  "h5_is_white ch \<longleftrightarrow> ch \<in> set ('' '' @ [HT, LF, CHR 0x0B, CHR 0x0C, CR, NUL])"

definition CHAR_EOF :: int where "CHAR_EOF = -1"

function h5_skip_white :: "bytes \<Rightarrow> nat \<Rightarrow> int \<times> nat" where
  "h5_skip_white s pos =
     (if pos < length s then
        (if s ! pos \<in> {NUL, CHR '' '', HT, LF, CHR 0x0B, CHR 0x0C, CR} then h5_skip_white s (pos + 1)
         else (signed_char (s ! pos), pos))
      else (CHAR_EOF, pos))"
  by pat_completeness auto
termination by (relation "measure (\<lambda>(s, pos). length s - pos)") auto

declare h5_skip_white.simps [simp del]

section \<open>Text and tags\<close>

definition h5_state_data :: "bytes \<Rightarrow> h5 \<Rightarrow> h5_act option" where
  "h5_state_data s h =
     (if length s < h5_pos h then Some (Ret RESULT_ERROR h)
      else
        do { idx \<leftarrow> memchr s (h5_pos h) (CHR ''<'');
             n \<leftarrow> size_minus (length s) (h5_pos h);
             case idx of
               None \<Rightarrow>
                 let h = h\<lparr>token_start := h5_pos h, token_len := n, token_type := DATA_TEXT, h5_state := St_eof\<rparr>
                 in if n = 0 then Some (Ret RESULT_FALSE h) else Some (Ret RESULT_TRUE h)
             | Some i \<Rightarrow>
                 do { l \<leftarrow> size_minus i (h5_pos h);
                      let h' = h\<lparr>token_start := h5_pos h, token_type := DATA_TEXT, token_len := l,
                                 h5_pos := i + 1, h5_state := St_tag_open\<rparr>;
                      if l = 0 then Some (Tail St_tag_open h') else Some (Ret RESULT_TRUE h') } })"

definition is_alpha :: "char \<Rightarrow> bool" where
  "is_alpha ch \<longleftrightarrow>
     CHR ''a'' \<le> ch \<and> ch \<le> CHR ''z'' \<or> CHR ''A'' \<le> ch \<and> ch \<le> CHR ''Z''"

definition h5_state_tag_open :: "bytes \<Rightarrow> h5 \<Rightarrow> h5_act option" where
  "h5_state_tag_open s h =
     (if h5_pos h \<ge> length s then Some (Ret RESULT_FALSE h)
      else
        do { ch \<leftarrow> read_at s (h5_pos h);
             let h1 = h\<lparr>h5_pos := h5_pos h + 1\<rparr>;
             if ch = CHR ''!'' then Some (Tail St_markup_declaration_open h1)
             else if ch = CHR ''/'' then Some (Tail St_end_tag_open (h1\<lparr>h5_is_close := True\<rparr>))
             else if ch = CHR ''?'' then Some (Tail St_bogus_comment h1)
             else if ch = CHR ''%'' then Some (Tail St_bogus_comment2 h1)
             else if is_alpha ch then Some (Tail St_tag_name h)
             else if ch = NUL then Some (Tail St_tag_name h)
             else if h5_pos h = 0 then Some (Tail St_data h)
             else do { start \<leftarrow> size_minus (h5_pos h) 1;
                       emit DATA_TEXT start 1 St_data (h5_pos h) h } })"

definition h5_state_end_tag_open :: "bytes \<Rightarrow> h5 \<Rightarrow> h5_act option" where
  "h5_state_end_tag_open s h =
     (if h5_pos h \<ge> length s then Some (Ret RESULT_FALSE h)
      else
        do { ch \<leftarrow> read_at s (h5_pos h);
             if ch = CHR ''>'' then Some (Tail St_data h)
             else if is_alpha ch then Some (Tail St_tag_name h)
             else Some (Tail St_bogus_comment (h\<lparr>h5_is_close := False\<rparr>)) })"

definition h5_state_tag_name_close :: "bytes \<Rightarrow> h5 \<Rightarrow> h5_act option" where
  "h5_state_tag_name_close s h =
     (let h' = h\<lparr>h5_is_close := False\<rparr>
      in emit TAG_NAME_CLOSE (h5_pos h) 1
           (if h5_pos h + 1 < length s then St_data else St_eof) (h5_pos h + 1) h')"

text \<open>The loop of \<open>h5_state_tag_name\<close>: the first byte that ends the name.\<close>

function tag_name_end :: "bytes \<Rightarrow> nat \<Rightarrow> nat" where
  "tag_name_end s pos =
     (if pos < length s then
        (let ch = s ! pos
         in if ch = NUL then tag_name_end s (pos + 1)
            else if h5_is_white ch \<or> ch = CHR ''/'' \<or> ch = CHR ''>'' then pos
            else tag_name_end s (pos + 1))
      else pos)"
  by pat_completeness auto
termination by (relation "measure (\<lambda>(s, pos). length s - pos)") auto

declare tag_name_end.simps [simp del]

definition h5_state_tag_name :: "bytes \<Rightarrow> h5 \<Rightarrow> h5_act option" where
  "h5_state_tag_name s h =
     (let pos = tag_name_end s (h5_pos h)
      in if pos < length s then
           do { ch \<leftarrow> read_at s pos;
                l \<leftarrow> size_minus pos (h5_pos h);
                if h5_is_white ch then emit TAG_NAME_OPEN (h5_pos h) l St_before_attribute_name (pos + 1) h
                else if ch = CHR ''/'' then emit TAG_NAME_OPEN (h5_pos h) l St_self_closing_start_tag (pos + 1) h
                else if h5_is_close h
                then emit TAG_CLOSE (h5_pos h) l St_data (pos + 1) (h\<lparr>h5_is_close := False\<rparr>)
                else emit TAG_NAME_OPEN (h5_pos h) l St_tag_name_close pos h }
         else
           do { l \<leftarrow> size_minus (length s) (h5_pos h);
                emit TAG_NAME_OPEN (h5_pos h) l St_eof (h5_pos h) h })"

section \<open>Attributes\<close>

text \<open>The loop of \<open>goto tail_call\<close> is a call of the function itself.\<close>

definition h5_state_before_attribute_name :: "bytes \<Rightarrow> h5 \<Rightarrow> h5_act option" where
  "h5_state_before_attribute_name s h =
     (case h5_skip_white s (h5_pos h) of
        (ch, p) \<Rightarrow>
          let h = h\<lparr>h5_pos := p\<rparr>
          in if ch = CHAR_EOF then Some (Ret RESULT_FALSE h)
             else if ch = 47 then
               (let h = h\<lparr>h5_pos := p + 1\<rparr>
                in if p + 1 < length s \<and> s ! (p + 1) \<noteq> CHR ''>''
                   then Some (Tail St_before_attribute_name h)
                   else Some (Tail St_self_closing_start_tag h))
             else if ch = 62 then emit TAG_NAME_CLOSE p 1 St_data (p + 1) h
             else Some (Tail St_attribute_name h))"

function attribute_name_end :: "bytes \<Rightarrow> nat \<Rightarrow> nat" where
  "attribute_name_end s pos =
     (if pos < length s then
        (let ch = s ! pos
         in if h5_is_white ch \<or> ch = CHR ''/'' \<or> ch = CHR ''='' \<or> ch = CHR ''>'' then pos
            else attribute_name_end s (pos + 1))
      else pos)"
  by pat_completeness auto
termination by (relation "measure (\<lambda>(s, pos). length s - pos)") auto

declare attribute_name_end.simps [simp del]

definition h5_state_attribute_name :: "bytes \<Rightarrow> h5 \<Rightarrow> h5_act option" where
  "h5_state_attribute_name s h =
     (let pos = attribute_name_end s (h5_pos h + 1)
      in if pos < length s then
           do { ch \<leftarrow> read_at s pos;
                l \<leftarrow> size_minus pos (h5_pos h);
                if h5_is_white ch then emit ATTR_NAME (h5_pos h) l St_after_attribute_name (pos + 1) h
                else if ch = CHR ''/'' then emit ATTR_NAME (h5_pos h) l St_self_closing_start_tag (pos + 1) h
                else if ch = CHR ''='' then emit ATTR_NAME (h5_pos h) l St_before_attribute_value (pos + 1) h
                else emit ATTR_NAME (h5_pos h) l St_tag_name_close pos h }
         else
           do { l \<leftarrow> size_minus (length s) (h5_pos h);
                emit ATTR_NAME (h5_pos h) l St_eof (length s) h })"

definition h5_state_after_attribute_name :: "bytes \<Rightarrow> h5 \<Rightarrow> h5_act option" where
  "h5_state_after_attribute_name s h =
     (case h5_skip_white s (h5_pos h) of
        (c, p) \<Rightarrow>
          let h = h\<lparr>h5_pos := p\<rparr>
          in if c = CHAR_EOF then Some (Ret RESULT_FALSE h)
             else if c = 47 then Some (Tail St_self_closing_start_tag (h\<lparr>h5_pos := p + 1\<rparr>))
             else if c = 61 then Some (Tail St_before_attribute_value (h\<lparr>h5_pos := p + 1\<rparr>))
             else if c = 62 then Some (Tail St_tag_name_close h)
             else Some (Tail St_attribute_name h))"

definition h5_state_before_attribute_value :: "bytes \<Rightarrow> h5 \<Rightarrow> h5_act option" where
  "h5_state_before_attribute_value s h =
     (case h5_skip_white s (h5_pos h) of
        (c, p) \<Rightarrow>
          let h = h\<lparr>h5_pos := p\<rparr>
          in if c = CHAR_EOF then Some (Ret RESULT_FALSE (h\<lparr>h5_state := St_eof\<rparr>))
             else if c = 34 then Some (Tail St_attribute_value_double_quote h)
             else if c = 39 then Some (Tail St_attribute_value_single_quote h)
             else if c = 96 then Some (Tail St_attribute_value_back_quote h)
             else Some (Tail St_attribute_value_no_quote h))"

definition h5_state_attribute_value_quote :: "char \<Rightarrow> bytes \<Rightarrow> h5 \<Rightarrow> h5_act option" where
  "h5_state_attribute_value_quote qchar s h =
     (let pos = (if h5_pos h > 0 then h5_pos h + 1 else h5_pos h)
      in do { idx \<leftarrow> memchr s pos qchar;
              n \<leftarrow> size_minus (length s) pos;
              case idx of
                None \<Rightarrow> emit ATTR_VALUE pos n St_eof pos h
              | Some i \<Rightarrow>
                  do { l \<leftarrow> size_minus i pos;
                       emit ATTR_VALUE pos l St_after_attribute_value_quoted (pos + l + 1) h } })"

function no_quote_end :: "bytes \<Rightarrow> nat \<Rightarrow> nat" where
  "no_quote_end s pos =
     (if pos < length s then
        (if h5_is_white (s ! pos) \<or> s ! pos = CHR ''>'' then pos else no_quote_end s (pos + 1))
      else pos)"
  by pat_completeness auto
termination by (relation "measure (\<lambda>(s, pos). length s - pos)") auto

declare no_quote_end.simps [simp del]

definition h5_state_attribute_value_no_quote :: "bytes \<Rightarrow> h5 \<Rightarrow> h5_act option" where
  "h5_state_attribute_value_no_quote s h =
     (let pos = no_quote_end s (h5_pos h)
      in if pos < length s then
           do { ch \<leftarrow> read_at s pos;
                l \<leftarrow> size_minus pos (h5_pos h);
                if h5_is_white ch then emit ATTR_VALUE (h5_pos h) l St_before_attribute_name (pos + 1) h
                else emit ATTR_VALUE (h5_pos h) l St_tag_name_close pos h }
         else
           do { l \<leftarrow> size_minus (length s) (h5_pos h);
                emit ATTR_VALUE (h5_pos h) l St_eof (h5_pos h) h })"

definition h5_state_after_attribute_value_quoted :: "bytes \<Rightarrow> h5 \<Rightarrow> h5_act option" where
  "h5_state_after_attribute_value_quoted s h =
     (if h5_pos h \<ge> length s then Some (Ret RESULT_FALSE h)
      else
        do { ch \<leftarrow> read_at s (h5_pos h);
             let h1 = h\<lparr>h5_pos := h5_pos h + 1\<rparr>;
             if h5_is_white ch then Some (Tail St_before_attribute_name h1)
             else if ch = CHR ''/'' then Some (Tail St_self_closing_start_tag h1)
             else if ch = CHR ''>'' then emit TAG_NAME_CLOSE (h5_pos h) 1 St_data (h5_pos h + 1) h
             else Some (Tail St_before_attribute_name h) })"

definition h5_state_self_closing_start_tag :: "bytes \<Rightarrow> h5 \<Rightarrow> h5_act option" where
  "h5_state_self_closing_start_tag s h =
     (if h5_pos h \<ge> length s then Some (Ret RESULT_FALSE h)
      else
        do { ch \<leftarrow> read_at s (h5_pos h);
             if ch = CHR ''>'' then
               do { start \<leftarrow> size_minus (h5_pos h) 1;
                    emit TAG_NAME_SELFCLOSE start 2 St_data (h5_pos h + 1) h }
             else Some (Tail St_before_attribute_name h) })"

section \<open>Comments and declarations\<close>

definition h5_state_bogus_comment :: "bytes \<Rightarrow> h5 \<Rightarrow> h5_act option" where
  "h5_state_bogus_comment s h =
     do { idx \<leftarrow> memchr s (h5_pos h) (CHR ''>'');
          n \<leftarrow> size_minus (length s) (h5_pos h);
          case idx of
            None \<Rightarrow> emit TAG_COMMENT (h5_pos h) n St_eof (length s) h
          | Some i \<Rightarrow>
              do { l \<leftarrow> size_minus i (h5_pos h);
                   emit TAG_COMMENT (h5_pos h) l St_data (i + 1) h } }"

text \<open>The loops of the comments look for their end from \<open>pos\<close> on: \<open>None\<close> is a bad read,
  \<open>Some None\<close> the end of the input, and \<open>Some (Some (i, k))\<close> an end of \<open>k\<close> bytes at \<open>i\<close>.\<close>

function bogus_comment2_end :: "bytes \<Rightarrow> nat \<Rightarrow> (nat \<times> nat) option option" where
  "bogus_comment2_end s pos =
     (case memchr s pos (CHR ''%'') of
        None \<Rightarrow> None
      | Some None \<Rightarrow> Some None
      | Some (Some i) \<Rightarrow>
          if i + 1 \<ge> length s then Some None
          else
            (case read_at s (i + 1) of
               None \<Rightarrow> None
             | Some ch \<Rightarrow> if ch \<noteq> CHR ''>'' then bogus_comment2_end s (i + 1) else Some (Some (i, 2))))"
  by pat_completeness auto
termination
  by (relation "measure (\<lambda>(s, pos). length s - pos)")
    (auto simp: memchr_def size_minus_def Let_def split: if_splits option.splits bind_splits)

declare bogus_comment2_end.simps [simp del]

text \<open>\<open>skip all nulls\<close>.\<close>

function skip_nulls :: "bytes \<Rightarrow> nat \<Rightarrow> nat" where
  "skip_nulls s p = (if p < length s \<and> s ! p = NUL then skip_nulls s (p + 1) else p)"
  by pat_completeness auto
termination by (relation "measure (\<lambda>(s, p). length s - p)") auto

declare skip_nulls.simps [simp del]

function comment_end :: "bytes \<Rightarrow> nat \<Rightarrow> (nat \<times> nat) option option" where
  "comment_end s pos =
     (case memchr s pos (CHR ''-'') of
        None \<Rightarrow> None
      | Some None \<Rightarrow> Some None
      | Some (Some i) \<Rightarrow>
          if i + 3 > length s then Some None
          else
            let q = skip_nulls s (i + 1)
            in if q = length s then Some None
               else
                 (case read_at s q of
                    None \<Rightarrow> None
                  | Some ch \<Rightarrow>
                      if ch \<noteq> CHR ''-'' \<and> ch \<noteq> CHR ''!'' then comment_end s (i + 1)
                      else if q + 1 = length s then Some None
                      else
                        (case read_at s (q + 1) of
                           None \<Rightarrow> None
                         | Some ch \<Rightarrow>
                             if ch \<noteq> CHR ''>'' then comment_end s (i + 1) else Some (Some (i, q + 2 - i)))))"
  by pat_completeness auto
termination
  by (relation "measure (\<lambda>(s, pos). length s - pos)")
    (auto simp: memchr_def size_minus_def Let_def split: if_splits option.splits bind_splits)

declare comment_end.simps [simp del]

function cdata_end :: "bytes \<Rightarrow> nat \<Rightarrow> (nat \<times> nat) option option" where
  "cdata_end s pos =
     (case memchr s pos (CHR '']'') of
        None \<Rightarrow> None
      | Some None \<Rightarrow> Some None
      | Some (Some i) \<Rightarrow>
          if i + 3 > length s then Some None
          else
            (case read_at s (i + 1) of
               None \<Rightarrow> None
             | Some c1 \<Rightarrow>
                 if c1 = CHR '']'' then
                   (case read_at s (i + 2) of
                      None \<Rightarrow> None
                    | Some c2 \<Rightarrow> if c2 = CHR ''>'' then Some (Some (i, 3)) else cdata_end s (i + 1))
                 else cdata_end s (i + 1)))"
  by pat_completeness auto
termination
  by (relation "measure (\<lambda>(s, pos). length s - pos)")
    (auto simp: memchr_def size_minus_def Let_def split: if_splits option.splits bind_splits)

declare cdata_end.simps [simp del]

text \<open>The tokens that the loops end with; \<open>at_eof\<close> is the position that is left at the end of the input.\<close>

definition emit_comment ::
  "html5_type \<Rightarrow> nat \<Rightarrow> (nat \<times> nat) option \<Rightarrow> bytes \<Rightarrow> h5 \<Rightarrow> h5_act option" where
  "emit_comment ty at_eof found s h =
     (case found of
        None \<Rightarrow>
          do { l \<leftarrow> size_minus (length s) (h5_pos h);
               emit ty (h5_pos h) l St_eof at_eof h }
      | Some (i, k) \<Rightarrow>
          do { l \<leftarrow> size_minus i (h5_pos h);
               emit ty (h5_pos h) l St_data (i + k) h })"

definition h5_state_bogus_comment2 :: "bytes \<Rightarrow> h5 \<Rightarrow> h5_act option" where
  "h5_state_bogus_comment2 s h =
     do { found \<leftarrow> bogus_comment2_end s (h5_pos h);
          emit_comment TAG_COMMENT (length s) found s h }"

definition h5_state_comment :: "bytes \<Rightarrow> h5 \<Rightarrow> h5_act option" where
  "h5_state_comment s h =
     do { found \<leftarrow> comment_end s (h5_pos h);
          emit_comment TAG_COMMENT (h5_pos h) found s h }"

definition h5_state_cdata :: "bytes \<Rightarrow> h5 \<Rightarrow> h5_act option" where
  "h5_state_cdata s h =
     do { found \<leftarrow> cdata_end s (h5_pos h);
          emit_comment DATA_TEXT (h5_pos h) found s h }"

definition h5_state_doctype :: "bytes \<Rightarrow> h5 \<Rightarrow> h5_act option" where
  "h5_state_doctype s h =
     do { idx \<leftarrow> memchr s (h5_pos h) (CHR ''>'');
          n \<leftarrow> size_minus (length s) (h5_pos h);
          case idx of
            None \<Rightarrow> emit DOCTYPE (h5_pos h) n St_eof (h5_pos h) h
          | Some i \<Rightarrow>
              do { l \<leftarrow> size_minus i (h5_pos h);
                   emit DOCTYPE (h5_pos h) l St_data (i + 1) h } }"

definition lower :: "char \<Rightarrow> char" where
  "lower c = (if CHR ''A'' \<le> c \<and> c \<le> CHR ''Z'' then char_of (ord c + 32) else c)"

definition h5_state_markup_declaration_open :: "bytes \<Rightarrow> h5 \<Rightarrow> h5_act option" where
  "h5_state_markup_declaration_open s h =
     do { remaining \<leftarrow> size_minus (length s) (h5_pos h);
          let here = drop (h5_pos h) s;
          if remaining \<ge> 7 \<and> map lower (take 7 here) = ''doctype'' then Some (Tail St_doctype h)
          else if remaining \<ge> 7 \<and> take 7 here = ''[CDATA[''
          then Some (Tail St_cdata (h\<lparr>h5_pos := h5_pos h + 7\<rparr>))
          else if remaining \<ge> 2 \<and> take 2 here = ''--''
          then Some (Tail St_comment (h\<lparr>h5_pos := h5_pos h + 2\<rparr>))
          else Some (Tail St_bogus_comment h) }"

section \<open>The machine\<close>

fun h5_fn_body :: "h5_fn \<Rightarrow> bytes \<Rightarrow> h5 \<Rightarrow> h5_act option" where
  "h5_fn_body St_eof s h = Some (Ret RESULT_FALSE h)"
| "h5_fn_body St_data s h = h5_state_data s h"
| "h5_fn_body St_tag_open s h = h5_state_tag_open s h"
| "h5_fn_body St_end_tag_open s h = h5_state_end_tag_open s h"
| "h5_fn_body St_tag_name_close s h = h5_state_tag_name_close s h"
| "h5_fn_body St_tag_name s h = h5_state_tag_name s h"
| "h5_fn_body St_before_attribute_name s h = h5_state_before_attribute_name s h"
| "h5_fn_body St_attribute_name s h = h5_state_attribute_name s h"
| "h5_fn_body St_after_attribute_name s h = h5_state_after_attribute_name s h"
| "h5_fn_body St_before_attribute_value s h = h5_state_before_attribute_value s h"
| "h5_fn_body St_attribute_value_double_quote s h = h5_state_attribute_value_quote (CHR 0x22) s h"
| "h5_fn_body St_attribute_value_single_quote s h = h5_state_attribute_value_quote (CHR 0x27) s h"
| "h5_fn_body St_attribute_value_back_quote s h = h5_state_attribute_value_quote (CHR 0x60) s h"
| "h5_fn_body St_attribute_value_no_quote s h = h5_state_attribute_value_no_quote s h"
| "h5_fn_body St_after_attribute_value_quoted s h = h5_state_after_attribute_value_quoted s h"
| "h5_fn_body St_self_closing_start_tag s h = h5_state_self_closing_start_tag s h"
| "h5_fn_body St_bogus_comment s h = h5_state_bogus_comment s h"
| "h5_fn_body St_bogus_comment2 s h = h5_state_bogus_comment2 s h"
| "h5_fn_body St_markup_declaration_open s h = h5_state_markup_declaration_open s h"
| "h5_fn_body St_comment s h = h5_state_comment s h"
| "h5_fn_body St_cdata s h = h5_state_cdata s h"
| "h5_fn_body St_doctype s h = h5_state_doctype s h"

text \<open>Every call and every token makes progress: this number goes down.\<close>

fun rank :: "h5_fn \<Rightarrow> nat" where
  "rank St_eof = 0"
| "rank St_data = 1"
| "rank St_tag_name_close = 2"
| "rank St_bogus_comment = 2"
| "rank St_bogus_comment2 = 2"
| "rank St_comment = 2"
| "rank St_cdata = 2"
| "rank St_doctype = 2"
| "rank St_markup_declaration_open = 3"
| "rank St_tag_name = 3"
| "rank St_end_tag_open = 4"
| "rank St_tag_open = 4"
| "rank St_attribute_name = 3"
| "rank St_before_attribute_name = 4"
| "rank St_self_closing_start_tag = 5"
| "rank St_after_attribute_name = 4"
| "rank St_attribute_value_no_quote = 3"
| "rank St_attribute_value_double_quote = 3"
| "rank St_attribute_value_single_quote = 3"
| "rank St_attribute_value_back_quote = 3"
| "rank St_before_attribute_value = 4"
| "rank St_after_attribute_value_quoted = 5"

definition progress :: "bytes \<Rightarrow> h5_fn \<Rightarrow> h5 \<Rightarrow> nat" where
  "progress s fn h = 6 * (length s - h5_pos h) + rank fn"

lemma skip_white:
  "h5_skip_white s pos = (c, p) \<Longrightarrow>
     pos \<le> p \<and> (c = CHAR_EOF \<or> p < length s \<and> c = signed_char (s ! p)) \<and> (pos \<le> length s \<longrightarrow> p \<le> length s)"
proof (induction s pos rule: h5_skip_white.induct)
  case (1 s pos)
  from 1(2) show ?case
    using 1(1) unfolding h5_skip_white.simps [of s pos] by (auto split: if_splits)
qed

lemma body_calls:
  assumes "h5_fn_body fn s h = Some (Tail fn' h')"
  shows "progress s fn' h' < progress s fn h"
  using assms
  by (cases fn)
    (auto simp: CHAR_EOF_def progress_def h5_state_data_def h5_state_tag_open_def h5_state_end_tag_open_def
      h5_state_tag_name_close_def h5_state_tag_name_def h5_state_before_attribute_name_def
      h5_state_attribute_name_def h5_state_after_attribute_name_def h5_state_before_attribute_value_def
      h5_state_attribute_value_quote_def h5_state_attribute_value_no_quote_def
      h5_state_after_attribute_value_quoted_def h5_state_self_closing_start_tag_def h5_state_bogus_comment_def
      h5_state_bogus_comment2_def h5_state_comment_def h5_state_cdata_def h5_state_doctype_def
      h5_state_markup_declaration_open_def emit_def emit_comment_def Let_def memchr_def size_minus_def read_at_def
      split: if_splits option.splits bind_splits prod.splits
      dest!: skip_white)


function h5_call :: "bytes \<Rightarrow> h5_fn \<Rightarrow> h5 \<Rightarrow> (injection_result \<times> h5) option" where
  "h5_call s fn h =
     (case h5_fn_body fn s h of
        None \<Rightarrow> None
      | Some (Ret r h') \<Rightarrow> Some (r, h')
      | Some (Tail fn' h') \<Rightarrow> h5_call s fn' h')"
  by pat_completeness auto
termination
  by (relation "measure (\<lambda>(s, fn, h). progress s fn h)") (auto dest: body_calls)

declare h5_call.simps [simp del]

definition libinjection_h5_next :: "bytes \<Rightarrow> h5 \<Rightarrow> (injection_result \<times> h5) option" where
  "libinjection_h5_next s h = h5_call s (h5_state h) h"

section \<open>Every token lies in the input, behind the one before it\<close>

lemma tag_name_end: "pos \<le> length s \<Longrightarrow> pos \<le> tag_name_end s pos \<and> tag_name_end s pos \<le> length s"
proof (induction s pos rule: tag_name_end.induct)
  case (1 s pos)
  then show ?case unfolding tag_name_end.simps [of s pos] by (cases "s ! pos = NUL") (auto simp: Let_def)
qed

lemma attribute_name_end:
  "pos \<le> attribute_name_end s pos \<and> (pos \<le> length s \<longrightarrow> attribute_name_end s pos \<le> length s)"
proof (induction s pos rule: attribute_name_end.induct)
  case (1 s pos)
  then show ?case unfolding attribute_name_end.simps [of s pos] by (auto simp: Let_def)
qed

lemma no_quote_end: "pos \<le> length s \<Longrightarrow> pos \<le> no_quote_end s pos \<and> no_quote_end s pos \<le> length s"
proof (induction s pos rule: no_quote_end.induct)
  case (1 s pos)
  then show ?case unfolding no_quote_end.simps [of s pos] by auto
qed

lemma skip_nulls: "p \<le> length s \<Longrightarrow> p \<le> skip_nulls s p \<and> skip_nulls s p \<le> length s"
proof (induction s p rule: skip_nulls.induct)
  case (1 s p)
  then show ?case unfolding skip_nulls.simps [of s p] by auto
qed

text \<open>What the loops of the comments find.\<close>

definition found_end :: "bytes \<Rightarrow> nat \<Rightarrow> (nat \<times> nat) option option \<Rightarrow> bool" where
  "found_end s pos m \<longleftrightarrow>
     (case m of
        None \<Rightarrow> False
      | Some None \<Rightarrow> True
      | Some (Some (i, k)) \<Rightarrow> pos \<le> i \<and> 0 < k \<and> i + k \<le> length s)"

lemma found_end_earlier: "found_end s p m \<Longrightarrow> q \<le> p \<Longrightarrow> found_end s q m"
  by (auto simp: found_end_def split: option.splits)

lemma bogus_comment2_end: "pos \<le> length s \<Longrightarrow> found_end s pos (bogus_comment2_end s pos)"
proof (induction s pos rule: bogus_comment2_end.induct)
  case (1 s pos)
  show ?case
  proof (rule memchr_cases [OF 1(2), of "CHR ''%''"])
    fix i
    assume i: "memchr s pos (CHR ''%'') = Some (Some i)" "pos \<le> i" "i < length s" "s ! i = CHR ''%''"
    then show ?thesis
      using 1(1) [OF i(1) refl] found_end_earlier [of s "i + 1" _ pos]
      unfolding bogus_comment2_end.simps [of s pos] by (auto simp: read_at_def found_end_def [of s pos "Some _"])
  qed (simp add: bogus_comment2_end.simps [of s pos] found_end_def)
qed

lemma comment_end: "pos \<le> length s \<Longrightarrow> found_end s pos (comment_end s pos)"
proof (induction s pos rule: comment_end.induct)
  case (1 s pos)
  show ?case
  proof (rule memchr_cases [OF 1(3), of "CHR ''-''"])
    fix i
    assume i: "memchr s pos (CHR ''-'') = Some (Some i)" "pos \<le> i" "i < length s" "s ! i = CHR ''-''"
    let ?q = "skip_nulls s (i + 1)"
    have q: "i + 1 \<le> ?q" "?q \<le> length s" using skip_nulls [of "i + 1" s] i by auto
    show ?thesis
      using 1(1,2) [OF i(1) refl _ refl] found_end_earlier [of s "i + 1" _ pos] i q
      unfolding comment_end.simps [of s pos]
      by (auto simp: read_at_def found_end_def [of s pos "Some _"] Let_def)
  qed (simp add: comment_end.simps [of s pos] found_end_def)
qed

lemma cdata_end: "pos \<le> length s \<Longrightarrow> found_end s pos (cdata_end s pos)"
proof (induction s pos rule: cdata_end.induct)
  case (1 s pos)
  show ?case
  proof (rule memchr_cases [OF 1(3), of "CHR '']''"])
    fix i
    assume i: "memchr s pos (CHR '']'') = Some (Some i)" "pos \<le> i" "i < length s" "s ! i = CHR '']''"
    then show ?thesis
      using 1(1,2) [OF i(1) refl] found_end_earlier [of s "i + 1" _ pos]
      unfolding cdata_end.simps [of s pos] by (auto simp: read_at_def found_end_def [of s pos "Some _"])
  qed (simp add: cdata_end.simps [of s pos] found_end_def)
qed

fun lag :: "h5_fn \<Rightarrow> nat" where
  "lag St_tag_open = 1"
| "lag St_self_closing_start_tag = 1"
| "lag _ = 0"

definition quote_fn :: "h5_fn \<Rightarrow> bool" where
  "quote_fn fn \<longleftrightarrow>
     fn \<in> {St_attribute_value_double_quote, St_attribute_value_single_quote, St_attribute_value_back_quote}"

text \<open>The invariant at the entry of a function; \<open>end\<close> is where the last token ended.\<close>

definition h5_ok :: "bytes \<Rightarrow> nat \<Rightarrow> h5_fn \<Rightarrow> h5 \<Rightarrow> bool" where
  "h5_ok s last_end fn h \<longleftrightarrow>
     fn = St_eof
     \<or> h5_pos h \<le> length s \<and> last_end + lag fn \<le> h5_pos h
       \<and> (fn = St_tag_name_close \<longrightarrow> h5_pos h < length s)
       \<and> (quote_fn fn \<longrightarrow> h5_pos h = 0 \<or> h5_pos h < length s)"

definition token_end :: "h5 \<Rightarrow> nat" where
  "token_end h = token_start h + token_len h"

text \<open>What a function body may do: emit a token, stop, or call another function.\<close>

definition act_ok :: "bytes \<Rightarrow> nat \<Rightarrow> h5_fn \<Rightarrow> h5 \<Rightarrow> h5_act option \<Rightarrow> bool" where
  "act_ok s last_end fn h m \<longleftrightarrow>
     (case m of
        None \<Rightarrow> False
      | Some (Tail fn' h') \<Rightarrow> h5_ok s last_end fn' h'
      | Some (Ret r h') \<Rightarrow>
          r \<noteq> RESULT_ERROR
          \<and> (r = RESULT_TRUE \<longrightarrow>
               last_end \<le> token_start h' \<and> token_end h' \<le> length s
               \<and> h5_ok s (token_end h') (h5_state h') h'
               \<and> progress s (h5_state h') h' < progress s fn h))"

lemma act_ok_emit:
  assumes "last_end \<le> start" and "start + len \<le> length s"
    and "st = St_eof \<or> pos \<le> length s \<and> start + len + lag st \<le> pos \<and> (st = St_tag_name_close \<longrightarrow> pos < length s)"
    and "\<not> quote_fn st"
    and "6 * (length s - pos) + rank st < 6 * (length s - h5_pos h) + rank fn"
  shows "act_ok s last_end fn h (emit ty start len st pos h')"
  using assms by (auto simp: act_ok_def emit_def token_end_def h5_ok_def progress_def)


lemma act_ok_tail: "h5_ok s e fn' h' \<Longrightarrow> act_ok s e fn h (Some (Tail fn' h'))"
  by (simp add: act_ok_def)

lemma act_ok_stop: "act_ok s e fn h (Some (Ret RESULT_FALSE h'))"
  by (simp add: act_ok_def)

lemma data_ok: "h5_ok s e St_data h \<Longrightarrow> act_ok s e St_data h (h5_state_data s h)"
proof -
  assume "h5_ok s e St_data h"
  then have h: "h5_pos h \<le> length s" "e \<le> h5_pos h" by (simp_all add: h5_ok_def quote_fn_def)
  show ?thesis
  proof (rule memchr_cases [OF h(1), of "CHR ''<''"])
    fix i
    assume "memchr s (h5_pos h) (CHR ''<'') = Some (Some i)" "h5_pos h \<le> i" "i < length s"
    then show ?thesis
      using h by (auto simp: h5_state_data_def act_ok_def size_minus_def Let_def h5_ok_def token_end_def quote_fn_def progress_def)
  qed (use h in \<open>auto simp: h5_state_data_def act_ok_def size_minus_def h5_ok_def token_end_def progress_def Let_def\<close>)
qed

lemma tag_open_ok: "h5_ok s e St_tag_open h \<Longrightarrow> act_ok s e St_tag_open h (h5_state_tag_open s h)"
  by (auto simp: h5_state_tag_open_def h5_ok_def act_ok_stop read_at_def size_minus_def quote_fn_def Let_def
      intro!: act_ok_tail act_ok_emit)

lemma end_tag_open_ok: "h5_ok s e St_end_tag_open h \<Longrightarrow> act_ok s e St_end_tag_open h (h5_state_end_tag_open s h)"
  by (auto simp: h5_state_end_tag_open_def h5_ok_def act_ok_stop read_at_def quote_fn_def Let_def
      intro!: act_ok_tail)

lemma tag_name_close_ok: "h5_ok s e St_tag_name_close h \<Longrightarrow> act_ok s e St_tag_name_close h (h5_state_tag_name_close s h)"
  by (auto simp: h5_state_tag_name_close_def h5_ok_def quote_fn_def Let_def intro!: act_ok_emit)

lemma tag_name_ok: "h5_ok s e St_tag_name h \<Longrightarrow> act_ok s e St_tag_name h (h5_state_tag_name s h)"
  using tag_name_end [of "h5_pos h" s]
  by (auto simp: h5_state_tag_name_def h5_ok_def read_at_def size_minus_def quote_fn_def Let_def intro!: act_ok_emit)

lemma before_attribute_name_ok:
  "h5_ok s e St_before_attribute_name h \<Longrightarrow>
     act_ok s e St_before_attribute_name h (h5_state_before_attribute_name s h)"
  using skip_white [of s "h5_pos h"]
  by (auto simp: h5_state_before_attribute_name_def h5_ok_def act_ok_stop quote_fn_def CHAR_EOF_def Let_def
      intro!: act_ok_emit act_ok_tail split: prod.splits)

lemma attribute_name_ok: "h5_ok s e St_attribute_name h \<Longrightarrow> act_ok s e St_attribute_name h (h5_state_attribute_name s h)"
  using attribute_name_end [of "h5_pos h + 1" s]
  by (auto simp: h5_state_attribute_name_def h5_ok_def read_at_def size_minus_def quote_fn_def Let_def intro!: act_ok_emit)

lemma after_attribute_name_ok:
  "h5_ok s e St_after_attribute_name h \<Longrightarrow> act_ok s e St_after_attribute_name h (h5_state_after_attribute_name s h)"
  using skip_white [of s "h5_pos h"]
  by (auto simp: h5_state_after_attribute_name_def h5_ok_def act_ok_stop quote_fn_def CHAR_EOF_def Let_def
      intro!: act_ok_tail split: prod.splits)

lemma before_attribute_value_ok:
  "h5_ok s e St_before_attribute_value h \<Longrightarrow>
     act_ok s e St_before_attribute_value h (h5_state_before_attribute_value s h)"
  using skip_white [of s "h5_pos h"]
  by (auto simp: h5_state_before_attribute_value_def h5_ok_def act_ok_stop quote_fn_def CHAR_EOF_def Let_def
      intro!: act_ok_tail split: prod.splits)

lemma quote_ok:
  assumes "quote_fn fn" and "h5_ok s e fn h"
  shows "act_ok s e fn h (h5_state_attribute_value_quote q s h)"
proof -
  have h: "h5_pos h \<le> length s" "e \<le> h5_pos h" "h5_pos h = 0 \<or> h5_pos h < length s"
    using assms by (auto simp: h5_ok_def quote_fn_def)
  define pos where "pos = (if h5_pos h > 0 then h5_pos h + 1 else h5_pos h)"
  have p: "pos \<le> length s" "h5_pos h \<le> pos" using h(1,3) by (auto simp: pos_def)
  have r: "rank fn = 3" using assms(1) by (auto simp: quote_fn_def)
  show ?thesis
  proof (rule memchr_cases [OF p(1), of q])
    fix i
    assume "memchr s pos q = Some (Some i)" "pos \<le> i" "i < length s"
    then show ?thesis
      using h p r by (auto simp: h5_state_attribute_value_quote_def pos_def [symmetric] size_minus_def quote_fn_def Let_def
          intro!: act_ok_emit)
  qed (use h p r in \<open>auto simp: h5_state_attribute_value_quote_def pos_def [symmetric] size_minus_def quote_fn_def Let_def
      intro!: act_ok_emit\<close>)
qed

lemma no_quote_ok:
  "h5_ok s e St_attribute_value_no_quote h \<Longrightarrow>
     act_ok s e St_attribute_value_no_quote h (h5_state_attribute_value_no_quote s h)"
  using no_quote_end [of "h5_pos h" s]
  by (auto simp: h5_state_attribute_value_no_quote_def h5_ok_def read_at_def size_minus_def quote_fn_def Let_def intro!: act_ok_emit)

lemma after_quoted_ok:
  "h5_ok s e St_after_attribute_value_quoted h \<Longrightarrow>
     act_ok s e St_after_attribute_value_quoted h (h5_state_after_attribute_value_quoted s h)"
  by (auto simp: h5_state_after_attribute_value_quoted_def h5_ok_def act_ok_stop read_at_def quote_fn_def Let_def
      intro!: act_ok_emit act_ok_tail)

lemma self_closing_ok:
  "h5_ok s e St_self_closing_start_tag h \<Longrightarrow>
     act_ok s e St_self_closing_start_tag h (h5_state_self_closing_start_tag s h)"
  by (auto simp: h5_state_self_closing_start_tag_def h5_ok_def act_ok_stop read_at_def size_minus_def quote_fn_def Let_def
      intro!: act_ok_emit act_ok_tail)

lemma bogus_comment_ok:
  assumes "h5_ok s e St_bogus_comment h"
  shows "act_ok s e St_bogus_comment h (h5_state_bogus_comment s h)"
proof -
  have h: "h5_pos h \<le> length s" "e \<le> h5_pos h" using assms by (simp_all add: h5_ok_def quote_fn_def)
  show ?thesis
    by (rule memchr_cases [OF h(1), of "CHR ''>''"])
      (use h in \<open>auto simp: h5_state_bogus_comment_def size_minus_def quote_fn_def intro!: act_ok_emit\<close>)
qed

lemma doctype_ok:
  assumes "h5_ok s e St_doctype h"
  shows "act_ok s e St_doctype h (h5_state_doctype s h)"
proof -
  have h: "h5_pos h \<le> length s" "e \<le> h5_pos h" using assms by (simp_all add: h5_ok_def quote_fn_def)
  show ?thesis
    by (rule memchr_cases [OF h(1), of "CHR ''>''"])
      (use h in \<open>auto simp: h5_state_doctype_def size_minus_def quote_fn_def intro!: act_ok_emit\<close>)
qed

lemma emit_comment_ok:
  assumes "h5_pos h \<le> length s" and "e \<le> h5_pos h" and "rank fn = 2"
    and "found_end s (h5_pos h) (Some found)" and "h5_pos h \<le> at_eof"
  shows "act_ok s e fn h (emit_comment ty at_eof found s h)"
  using assms
  by (auto simp: emit_comment_def found_end_def size_minus_def quote_fn_def intro!: act_ok_emit split: option.split)

lemma comment_ok:
  assumes "h5_ok s e fn h" and "fn \<in> {St_comment, St_cdata, St_bogus_comment2}"
  shows "act_ok s e fn h (h5_fn_body fn s h)"
proof -
  have h: "h5_pos h \<le> length s" "e \<le> h5_pos h" using assms by (auto simp: h5_ok_def quote_fn_def)
  obtain f1 f2 f3 where "comment_end s (h5_pos h) = Some f1" "cdata_end s (h5_pos h) = Some f2"
    "bogus_comment2_end s (h5_pos h) = Some f3"
    using comment_end [OF h(1)] cdata_end [OF h(1)] bogus_comment2_end [OF h(1)]
    by (auto simp: found_end_def split: option.splits)
  then show ?thesis
    using assms(2) h comment_end [OF h(1)] cdata_end [OF h(1)] bogus_comment2_end [OF h(1)]
    by (auto simp: h5_state_comment_def h5_state_cdata_def h5_state_bogus_comment2_def intro!: emit_comment_ok)
qed

lemma markup_ok:
  "h5_ok s e St_markup_declaration_open h \<Longrightarrow>
     act_ok s e St_markup_declaration_open h (h5_state_markup_declaration_open s h)"
  by (auto simp: h5_state_markup_declaration_open_def h5_ok_def size_minus_def quote_fn_def Let_def intro!: act_ok_tail)

lemma body_ok: "h5_ok s e fn h \<Longrightarrow> act_ok s e fn h (h5_fn_body fn s h)"
  by (cases fn)
    (simp_all add: act_ok_stop data_ok tag_open_ok end_tag_open_ok tag_name_close_ok tag_name_ok
      before_attribute_name_ok attribute_name_ok after_attribute_name_ok before_attribute_value_ok quote_ok
      no_quote_ok after_quoted_ok self_closing_ok bogus_comment_ok doctype_ok markup_ok quote_fn_def
      comment_ok [of s e St_comment, simplified] comment_ok [of s e St_cdata, simplified]
      comment_ok [of s e St_bogus_comment2, simplified])

lemma call_ok:
  "h5_ok s e fn h \<Longrightarrow>
     (case h5_call s fn h of
        None \<Rightarrow> False
      | Some (r, h') \<Rightarrow>
          r \<noteq> RESULT_ERROR
          \<and> (r = RESULT_TRUE \<longrightarrow>
               e \<le> token_start h' \<and> token_end h' \<le> length s \<and> h5_ok s (token_end h') (h5_state h') h'
               \<and> progress s (h5_state h') h' < progress s fn h))"
proof (induction s fn h rule: h5_call.induct)
  case (1 s fn h)
  note b = body_ok [OF 1(2)]
  show ?case
  proof (cases "h5_fn_body fn s h")
    case (Some a)
    show ?thesis
    proof (cases a)
      case (Tail fn' h')
      then have "h5_ok s e fn' h'" using b Some by (simp add: act_ok_def)
      moreover have "progress s fn' h' < progress s fn h" using body_calls Some Tail by blast
      ultimately show ?thesis
        using 1(1) [OF Some Tail] Some Tail
        by (fastforce simp: h5_call.simps [of s fn h] split: option.splits)
    qed (use b Some in \<open>simp add: act_ok_def h5_call.simps [of s fn h]\<close>)
  qed (use b in \<open>simp add: act_ok_def\<close>)
qed

section \<open>All tokens of an input\<close>

text \<open>The tokens that a caller's loop sees.  The fuel counts calls of \<open>libinjection_h5_next\<close>.\<close>

fun h5_tokens :: "nat \<Rightarrow> bytes \<Rightarrow> h5 \<Rightarrow> h5 list option" where
  "h5_tokens 0 s h = None"
| "h5_tokens (Suc fuel) s h =
     (case libinjection_h5_next s h of
        None \<Rightarrow> None
      | Some (r, h') \<Rightarrow> if r = RESULT_TRUE then map_option (Cons h') (h5_tokens fuel s h') else Some [])"

fun in_order :: "nat \<Rightarrow> nat \<Rightarrow> h5 list \<Rightarrow> bool" where
  "in_order n e [] = True"
| "in_order n e (h # hs) \<longleftrightarrow> e \<le> token_start h \<and> token_end h \<le> n \<and> in_order n (token_end h) hs"

lemma init_ok: "h5_ok s 0 (h5_state (libinjection_h5_init flags)) (libinjection_h5_init flags)"
  by (cases flags) (simp_all add: libinjection_h5_init_def h5_ok_def quote_fn_def)

lemma tokens_ok:
  "h5_ok s e (h5_state h) h \<Longrightarrow> progress s (h5_state h) h < fuel \<Longrightarrow>
     \<exists>ts. h5_tokens fuel s h = Some ts \<and> in_order (length s) e ts \<and> length ts < fuel"
proof (induction fuel arbitrary: e h)
  case (Suc fuel)
  obtain r h' where n: "libinjection_h5_next s h = Some (r, h')"
    using call_ok [OF Suc.prems(1)] by (fastforce simp: libinjection_h5_next_def split: option.splits)
  note c = call_ok [OF Suc.prems(1), folded libinjection_h5_next_def, unfolded n, simplified]
  show ?case
  proof (cases "r = RESULT_TRUE")
    case True
    then obtain ts where "h5_tokens fuel s h' = Some ts" "in_order (length s) (token_end h') ts" "length ts < fuel"
      using Suc.IH [of "token_end h'" h'] c Suc.prems(2) by auto
    then show ?thesis using n True c by simp
  qed (use n in simp)
qed simp

text \<open>C31: The tokens of every input, in every context, are finitely many, at most six for each byte and five more; they lie
  inside the input and do not overlap: each begins where the one before it has ended or later.\<close>

theorem tokens_in_order:
  "\<exists>ts. h5_tokens (6 * length s + 6) s (libinjection_h5_init flags) = Some ts
     \<and> in_order (length s) 0 ts \<and> length ts < 6 * length s + 6"
proof (rule tokens_ok [OF init_ok])
  show "progress s (h5_state (libinjection_h5_init flags)) (libinjection_h5_init flags) < 6 * length s + 6"
    by (cases flags) (simp_all add: progress_def libinjection_h5_init_def)
qed

end
