(* ===== verification/XssCheck.thy ===== *)
theory XssCheck
  imports Html5
begin

text \<open>
  The XSS check of libinjection (\<open>src/deps/src/libinjection/src/libinjection_xss.c\<close>): the tokens of
  theory \<open>Html5\<close> in the five contexts a value may be put into, against lists of tags, attributes and
  URL schemes.  As there, \<open>None\<close> is a read outside the string that a function is given; for the loops it
  is also not returning.
\<close>

section \<open>The lists\<close>

datatype attribute_t = TYPE_NONE | TYPE_BLACK | TYPE_ATTR_URL | TYPE_STYLE | TYPE_ATTR_INDIRECT

text \<open>The names of event handlers behind \<open>on\<close>.\<close>

definition events_1 :: "bytes list" where
  "events_1 =
     [''ABORT'', ''ACCESSKEYNOTFOUND'', ''ACTIVATE'', ''ACTIVE'', ''ADDSOURCEBUFFER'', ''ADDSTREAM'',
      ''ADDTRACK'', ''AFTERPAINT'', ''AFTERPRINT'', ''AFTERSCRIPTEXECUTE'', ''ANIMATIONCANCEL'',
      ''ANIMATIONEND'', ''ANIMATIONITERATION'', ''ANIMATIONSTART'', ''AUDIOEND'', ''AUDIOCOMPLETE'',
      ''AUDIOPROCESS'', ''AUDIOSTART'', ''AUTOCOMPLETE'', ''AUTOCOMPLETEERROR'', ''AUXCLICK'',
      ''BACKGROUNDFETCHABORT'', ''BACKGROUNDFETCHCLICK'', ''BACKGROUNDFETCHFAIL'',
      ''BACKGROUNDFETCHSUCCESS'', ''BEFOREACTIVATE'', ''BEFORECOPY'', ''BEFORECUT'', ''BEFOREINPUT'',
      ''BEFORELOAD'', ''BEFOREMATCH'', ''BEFOREPASTE'', ''BEFOREPRINT'', ''BEFORESCRIPTEXECUTE'',
      ''BEFORETOGGLE'', ''BEFOREUNLOAD'', ''BEGINEVENT'', ''BLOCKED'', ''BLUR'', ''BOUNDARY'',
      ''BUFFEREDAMOUNTLOW'', ''BUFFEREDCHANGE'', ''CACHED'', ''CANCEL'', ''CANPLAY'', ''CANPLAYTHROUGH'',
      ''CHANGE'', ''CHARGINGCHANGE'', ''CHARGINGTIMECHANGE'', ''CHECKING'', ''CLICK'', ''CLOSE'',
      ''CLOSING'', ''COMPLETE'', ''COMPOSITIONEND'', ''COMPOSITIONSTART'', ''COMPOSITIONCHANGE'',
      ''COMPOSITIONUPDATE'', ''COMMAND'', ''CONFIGURATIONCHANGE'', ''CONNECT'', ''CONNECTING'',
      ''CONNECTIONSTATECHANGE'', ''CONTENTVISIBILITYAUTOSTATECHANGE'', ''CONTEXTLOST'', ''CONTEXTMENU'',
      ''CONTEXTRESTORED'', ''CONTROLLERCHANGE'', ''COOKIECHANGE'', ''COORDINATORSTATECHANGE'', ''COPY'',
      ''COUPONCODECHANGED'', ''CUECHANGE'', ''CURRENTENTRYCHANGE'', ''CUT'', ''DATAAVAILABLE'',
      ''DATACHANNEL'', ''DBLCLICK'', ''DEQUEUE'', ''DEVICECHANGE'', ''DEVICELIGHT'', ''DEVICEMOTION'',
      ''DEVICEORIENTATION'', ''DEVICEORIENTATIONABSOLUTE'', ''DISCHARGINGTIMECHANGE'', ''DISCONNECT'',
      ''DISPOSE'', ''DOMACTIVATE'', ''DOMCHARACTERDATAMODIFIED'', ''DOMCONTENTLOADED'', ''DOMNODEINSERTED'',
      ''DOMNODEINSERTEDINTODOCUMENT'', ''DOMNODEREMOVED'', ''DOMNODEREMOVEDFROMDOCUMENT'',
      ''DOMSUBTREEMODIFIED'', ''DOWNLOADING'', ''DRAG'', ''DRAGEND'', ''DRAGENTER'', ''DRAGLEAVE'',
      ''DRAGEXIT'']"

definition events_2 :: "bytes list" where
  "events_2 =
     [''DRAGOVER'', ''DRAGSTART'', ''DROP'', ''DURATIONCHANGE'', ''EMPTIED'', ''ENCRYPTED'',
      ''EDGEUICANCELED'', ''EDGEUICOMPLETED'', ''EDGEUISTARTED'', ''EDITORBEFOREINPUT'', ''EDITORINPUT'',
      ''END'', ''ENDED'', ''ENDEVENT'', ''ENDSTREAMING'', ''ENTER'', ''ENTERPICTUREINPICTURE'', ''ERROR'',
      ''EXIT'', ''FENCEDTREECLICK'', ''FETCH'', ''FINISH'', ''FOCUS'', ''FOCUSIN'', ''FOCUSOUT'',
      ''FORMCHANGE'', ''FORMCHECKBOXSTATECHANGE'', ''FORMDATA'', ''FORMINVALID'', ''FORMRADIOSTATECHANGE'',
      ''FORMRESET'', ''FORMSELECT'', ''FORMSUBMIT'', ''FULLSCREENCHANGE'', ''FULLSCREENERROR'',
      ''GAMEPADAXISMOVE'', ''GAMEPADBUTTONDOWN'', ''GAMEPADBUTTONUP'', ''GAMEPADCONNECTED'',
      ''GAMEPADDISCONNECTED'', ''GATHERINGSTATECHANGE'', ''GESTURECHANGE'', ''GESTUREEND'',
      ''GESTURESCROLLEND'', ''GESTURESCROLLSTART'', ''GESTURESCROLLUPDATE'', ''GESTURESTART'',
      ''GESTURETAP'', ''GESTURETAPDOWN'', ''GOTPOINTERCAPTURE'', ''HASHCHANGE'', ''ICECANDIDATE'',
      ''ICECANDIDATEERROR'', ''ICECONNECTIONSTATECHANGE'', ''ICEGATHERINGSTATECHANGE'', ''IMAGEABORT'',
      ''INACTIVE'', ''INPUT'', ''INPUTSOURCESCHANGE'', ''INSTALL'', ''INVALID'', ''INVOKE'', ''KEYDOWN'',
      ''KEYPRESS'', ''KEYSTATUSESCHANGE'', ''KEYUP'', ''LANGUAGECHANGE'', ''LEAVEPICTUREINPICTURE'',
      ''LEGACYATTRMODIFIED'', ''LEGACYCHARACTERDATAMODIFIED'', ''LEGACYDOMACTIVATE'', ''LEGACYDOMFOCUSIN'',
      ''LEGACYDOMFOCUSOUT'', ''LEGACYMOUSELINEORPAGESCROLL'', ''LEGACYMOUSEPIXELSCROLL'',
      ''LEGACYNODEINSERTED'']"

definition events_3 :: "bytes list" where
  "events_3 =
     [''LEGACYNODEINSERTEDINTODOCUMENT'', ''LEGACYNODEREMOVED'', ''LEGACYNODEREMOVEDFROMDOCUMENT'',
      ''LEGACYSUBTREEMODIFIED'', ''LEGACYTEXTINPUT'', ''LEVELCHANGE'', ''LOAD'', ''LOADEDDATA'',
      ''LOADEDMETADATA'', ''LOADEND'', ''LOADING'', ''LOADINGDONE'', ''LOADINGERROR'', ''LOADSTART'',
      ''LOSTPOINTERCAPTURE'', ''MAGNIFYGESTURE'', ''MAGNIFYGESTURESTART'', ''MAGNIFYGESTUREUPDATE'',
      ''MARK'', ''MEDIARECORDERDATAAVAILABLE'', ''MEDIARECORDERSTOP'', ''MEDIARECORDERWARNING'',
      ''MERCHANTVALIDATION'', ''MESSAGE'', ''MESSAGEERROR'', ''MOUSEDOUBLECLICK'', ''MOUSEDOWN'',
      ''MOUSEENTER'', ''MOUSEEXPLOREBYTOUCH'', ''MOUSEHITTEST'', ''MOUSELEAVE'', ''MOUSELONGTAP'',
      ''MOUSEMOVE'', ''MOUSEOUT'', ''MOUSEOVER'', ''MOUSEUP'', ''MOUSEWHEEL'', ''MOZFULLSCREENCHANGE'',
      ''MOZFULLSCREENERROR'', ''MOZPOINTERLOCKCHANGE'', ''MOZPOINTERLOCKERROR'', ''MOZVISUALRESIZE'',
      ''MOZVISUALSCROLL'', ''MUTE'', ''NAVIGATE'', ''NAVIGATEERROR'', ''NAVIGATESUCCESS'',
      ''NEGOTIATIONNEEDED'', ''NEXTTRACK'', ''NOMATCH'', ''NOTIFICATIONCLICK'', ''NOTIFICATIONCLOSE'',
      ''NOUPDATE'', ''OBSOLETE'', ''OFFLINE'', ''ONLINE'', ''OPEN'', ''ORIENTATIONCHANGE'',
      ''OVERFLOWCHANGED'', ''OVERSCROLL'', ''PAGEHIDE'', ''PAGEREVEAL'', ''PAGESHOW'', ''PAGESWAP'',
      ''PASTE'', ''PAUSE'', ''PAYERDETAILCHANGE'', ''PAYMENTAUTHORIZED'', ''PAYMENTMETHODCHANGE'',
      ''PAYMENTMETHODSELECTED'', ''PLAY'', ''PLAYING'', ''POINTERAUXCLICK'', ''POINTERCANCEL'',
      ''POINTERCLICK'', ''POINTERDOWN'', ''POINTERENTER'', ''POINTERGOTCAPTURE'']"

definition events_4 :: "bytes list" where
  "events_4 =
     [''POINTERLEAVE'', ''POINTERLOCKCHANGE'', ''POINTERLOCKERROR'', ''POINTERLOSTCAPTURE'', ''POINTERMOVE'',
      ''POINTEROUT'', ''POINTEROVER'', ''POINTERRAWUPDATE'', ''POINTERUP'', ''POPSTATE'',
      ''PRESSTAPGESTURE'', ''PREVIOUSTRACK'', ''PROPERTYCHANGE'', ''PROCESSORERROR'', ''PROGRESS'', ''PUSH'',
      ''PUSHNOTIFICATION'', ''PUSHSUBSCRIPTIONCHANGE'', ''QUALITYCHANGE'', ''RATECHANGE'',
      ''READYSTATECHANGE'', ''REDRAW'', ''REJECTIONHANDLED'', ''RELEASE'', ''REMOVE'',
      ''REMOVESOURCEBUFFER'', ''REMOVESTREAM'', ''REMOVETRACK'', ''REPEAT'', ''REPEATEVENT'', ''RESET'',
      ''RESIZE'', ''RESOURCETIMINGBUFFERFULL'', ''RESULT'', ''RESUME'', ''ROTATEGESTURE'',
      ''ROTATEGESTURESTART'', ''ROTATEGESTUREUPDATE'', ''RTCTRANSFORM'', ''SCROLL'', ''SCROLLEDAREACHANGED'',
      ''SCROLLEND'', ''SCROLLPORTOVERFLOW'', ''SCROLLPORTUNDERFLOW'', ''SCROLLSNAPCHANGE'',
      ''SCROLLSNAPCHANGING'', ''SEARCH'', ''SECURITYPOLICYVIOLATION'', ''SEEKED'', ''SEEKING'', ''SELECT'',
      ''SELECTEDCANDIDATEPAIRCHANGE'', ''SELECTEND'', ''SELECTIONCHANGE'', ''SELECTSTART'',
      ''SHIPPINGADDRESSCHANGE'', ''SHIPPINGCONTACTSELECTED'', ''SHIPPINGMETHODSELECTED'',
      ''SHIPPINGOPTIONCHANGE'', ''SHOW'', ''SIGNALINGSTATECHANGE'', ''SLOTCHANGE'', ''SMILBEGINEVENT'',
      ''SMILENDEVENT'', ''SMILREPEATEVENT'', ''SORT'', ''SOUNDEND'', ''SOUNDSTART'', ''SOURCECLOSE'',
      ''SOURCEENDED'', ''SOURCEOPEN'', ''SPEECHEND'', ''SPEECHSTART'', ''SQUEEZE'', ''SQUEEZEEND'',
      ''SQUEEZESTART'', ''STALLED'', ''START'', ''STARTED'', ''STARTSTREAMING'', ''STATECHANGE'', ''STOP'',
      ''STORAGE'', ''SUBMIT'', ''SVGLOAD'', ''SVGSCROLL'', ''SWIPEGESTURE'', ''SWIPEGESTUREEND'',
      ''SWIPEGESTUREMAYSTART'']"

definition events_5 :: "bytes list" where
  "events_5 =
     [''SWIPEGESTURESTART'', ''SWIPEGESTUREUPDATE'', ''SUCCESS'', ''SUSPEND'', ''TAPGESTURE'', ''TEXTINPUT'',
      ''TIMEOUT'', ''TIMEUPDATE'', ''TOGGLE'', ''TONECHANGE'', ''TOUCHCANCEL'', ''TOUCHEND'',
      ''TOUCHFORCECHANGE'', ''TOUCHMOVE'', ''TOUCHSTART'', ''TRACK'', ''TRANSITIONCANCEL'',
      ''TRANSITIONEND'', ''TRANSITIONRUN'', ''TRANSITIONSTART'', ''UNCAPTUREDERROR'', ''UNHANDLEDREJECTION'',
      ''UNIDENTIFIEDEVENT'', ''UNLOAD'', ''UNMUTE'', ''USERPROXIMITY'', ''UPDATE'', ''UPDATEEND'',
      ''UPDATEFOUND'', ''UPDATEREADY'', ''UPDATESTART'', ''UPGRADENEEDED'', ''VALIDATEMERCHANT'',
      ''VERSIONCHANGE'', ''VISIBILITYCHANGE'', ''VOICESCHANGED'', ''VOLUMECHANGE'', ''VRDISPLAYACTIVATE'',
      ''VRDISPLAYCONNECT'', ''VRDISPLAYDEACTIVATE'', ''VRDISPLAYDISCONNECT'', ''VRDISPLAYPRESENTCHANGE'',
      ''WAITING'', ''WAITINGFORKEY'', ''WEBGLCONTEXTCREATIONERROR'', ''WEBGLCONTEXTLOST'',
      ''WEBGLCONTEXTRESTORED'', ''WEBKITANIMATIONEND'', ''WEBKITANIMATIONITERATION'',
      ''WEBKITANIMATIONSTART'', ''WEBKITASSOCIATEFORMCONTROLS'', ''WEBKITAUTOFILLREQUEST'',
      ''WEBKITBEFORETEXTINSERTED'', ''WEBKITBEGINFULLSCREEN'',
      ''WEBKITCURRENTPLAYBACKTARGETISWIRELESSCHANGED'', ''WEBKITENDFULLSCREEN'', ''WEBKITFULLSCREENCHANGE'',
      ''WEBKITFULLSCREENERROR'', ''WEBKITKEYADDED'', ''WEBKITKEYERROR'', ''WEBKITKEYMESSAGE'',
      ''WEBKITMEDIASESSIONMETADATACHANGED'', ''WEBKITMOUSEFORCECHANGED'', ''WEBKITMOUSEFORCEDOWN'',
      ''WEBKITMOUSEFORCEUP'', ''WEBKITMOUSEFORCEWILLBEGIN'', ''WEBKITNEEDKEY'', ''WEBKITNETWORKINFOCHANGE'',
      ''WEBKITPLAYBACKTARGETAVAILABILITYCHANGED'', ''WEBKITPRESENTATIONMODECHANGED'',
      ''WEBKITREMOVESOURCEBUFFER'', ''WEBKITSHADOWROOTATTACHED'', ''WEBKITSOURCECLOSE'',
      ''WEBKITSOURCEENDED'', ''WEBKITSOURCEOPEN'', ''WEBKITTRANSITIONEND'', ''WHEEL'', ''WRITE'',
      ''WRITEEND'', ''WRITESTART'', ''XULBROADCAST'', ''XULCOMMANDUPDATE'', ''XULPOPUPHIDDEN'',
      ''XULPOPUPHIDING'', ''XULPOPUPSHOWING'', ''XULPOPUPSHOWN'', ''XULSYSTEMSTATUSBARCLICK'', ''ZOOM'']"

definition event_names :: "bytes list" where
  "event_names = events_1 @ events_2 @ events_3 @ events_4 @ events_5"

definition BLACKATTREVENT :: "(bytes \<times> attribute_t) list" where
  "BLACKATTREVENT = map (\<lambda>name. (name, TYPE_BLACK)) event_names"

definition BLACKATTR :: "(bytes \<times> attribute_t) list" where
  "BLACKATTR =
     [(''ACTION'', TYPE_ATTR_URL),
      (''ATTRIBUTENAME'', TYPE_ATTR_INDIRECT),
      (''BY'', TYPE_ATTR_URL),
      (''BACKGROUND'', TYPE_ATTR_URL),
      (''DATAFORMATAS'', TYPE_BLACK),
      (''DATASRC'', TYPE_BLACK),
      (''DYNSRC'', TYPE_ATTR_URL),
      (''FILTER'', TYPE_STYLE),
      (''FORMACTION'', TYPE_ATTR_URL),
      (''FOLDER'', TYPE_ATTR_URL),
      (''FROM'', TYPE_ATTR_URL),
      (''HANDLER'', TYPE_ATTR_URL),
      (''HREF'', TYPE_ATTR_URL),
      (''LOWSRC'', TYPE_ATTR_URL),
      (''POSTER'', TYPE_ATTR_URL),
      (''SRC'', TYPE_ATTR_URL),
      (''STYLE'', TYPE_STYLE),
      (''TO'', TYPE_ATTR_URL),
      (''VALUES'', TYPE_ATTR_URL),
      (''XLINK:HREF'', TYPE_ATTR_URL)]"

definition BLACKTAG :: "bytes list" where
  "BLACKTAG =
     [''APPLET'', ''BASE'', ''COMMENT'', ''EMBED'', ''FRAME'', ''FRAMESET'', ''HANDLER'', ''IFRAME'',
      ''IMPORT'', ''ISINDEX'', ''LINK'', ''LISTENER'', ''META'', ''NOSCRIPT'', ''OBJECT'',
      ''SCRIPT'', ''STYLE'', ''VMLFRAME'', ''XML'', ''XSS'']"

section \<open>Comparing names\<close>

text \<open>\<open>cstrcasecmp_with_null(a, b, n)\<close>: whether the C string \<open>a\<close> differs from the first \<open>n\<close> bytes of
  \<open>b\<close>.\<close>

fun cstrcasecmp_with_null :: "bytes \<Rightarrow> bytes \<Rightarrow> nat \<Rightarrow> bool option" where
  "cstrcasecmp_with_null a b 0 = Some (a \<noteq> [])"
| "cstrcasecmp_with_null a [] (Suc n) = None"
| "cstrcasecmp_with_null a (cb # b) (Suc n) =
     (if cb = NUL then cstrcasecmp_with_null a b n
      else
        case a of
          [] \<Rightarrow> Some True
        | ca # a' \<Rightarrow> if ca \<noteq> upper cb then Some True else cstrcasecmp_with_null a' b n)"

text \<open>The first entry of a table that \<open>f\<close> finds equal.\<close>

fun first_equal :: "('a \<Rightarrow> bool option) \<Rightarrow> 'a list \<Rightarrow> 'a option option" where
  "first_equal f [] = Some None"
| "first_equal f (x # xs) =
     do { differs \<leftarrow> f x;
          if \<not> differs then Some (Some x) else first_equal f xs }"

text \<open>Whether the three bytes at the start are these, in either case.\<close>

definition three_are :: "bytes \<Rightarrow> bytes \<Rightarrow> bool option" where
  "three_are name s =
     do { c0 \<leftarrow> read_at s 0;
          if lower c0 \<noteq> name ! 0 then Some False
          else
            do { c1 \<leftarrow> read_at s 1;
                 if lower c1 \<noteq> name ! 1 then Some False
                 else
                   do { c2 \<leftarrow> read_at s 2;
                        Some (lower c2 = name ! 2) } } }"

definition is_black_tag :: "bytes \<Rightarrow> bool option" where
  "is_black_tag s =
     (if length s < 3 then Some False
      else
        do { found \<leftarrow> first_equal (\<lambda>black. cstrcasecmp_with_null black s (length s)) BLACKTAG;
             if found \<noteq> None then Some True
             else
               do { svg \<leftarrow> three_are ''svg'' s;
                    if svg then Some True else three_are ''xsl'' s } })"

definition is_black_attr :: "bytes \<Rightarrow> attribute_t option" where
  "is_black_attr s =
     (if length s < 2 then Some TYPE_NONE
      else
        do { special \<leftarrow>
               (if length s \<ge> 5 then
                  do { c0 \<leftarrow> read_at s 0;
                       c1 \<leftarrow> read_at s 1;
                       event \<leftarrow>
                         (if lower c0 = CHR ''o'' \<and> lower c1 = CHR ''n''
                          then first_equal (\<lambda>(name, ty).
                                 cstrcasecmp_with_null name (drop 2 s) (min (length s - 2) (length name))) BLACKATTREVENT
                          else Some None);
                       case event of
                         Some (name, ty) \<Rightarrow> Some (Some ty)
                       | None \<Rightarrow>
                           do { xmlns \<leftarrow> cstrcasecmp_with_null ''XMLNS'' s 5;
                                if \<not> xmlns then Some (Some TYPE_BLACK)
                                else
                                  do { xlink \<leftarrow> cstrcasecmp_with_null ''XLINK'' s 5;
                                       Some (if \<not> xlink then Some TYPE_BLACK else None) } } }
                else Some None);
             case special of
               Some ty \<Rightarrow> Some ty
             | None \<Rightarrow>
                 do { found \<leftarrow> first_equal (\<lambda>(name, ty). cstrcasecmp_with_null name s (length s)) BLACKATTR;
                      Some (case found of None \<Rightarrow> TYPE_NONE | Some (name, ty) \<Rightarrow> ty) } })"

section \<open>Decoding entities\<close>

definition gsHexDecodeMap :: "char \<Rightarrow> int" where
  "gsHexDecodeMap c =
     (if CHR ''0'' \<le> c \<and> c \<le> CHR ''9'' then int (ord c) - 48
      else if CHR ''A'' \<le> c \<and> c \<le> CHR ''F'' then int (ord c) - 55
      else if CHR ''a'' \<le> c \<and> c \<le> CHR ''f'' then int (ord c) - 87
      else 256)"

text \<open>The loops over the digits from index \<open>i\<close> on: the value and the number of bytes consumed.\<close>

fun hex_entity :: "bytes \<Rightarrow> nat \<Rightarrow> int \<Rightarrow> int \<times> nat" where
  "hex_entity [] i val = (val, i)"
| "hex_entity (c # src) i val =
     (if c = CHR '';'' then (val, i + 1)
      else
        let ch = gsHexDecodeMap c
        in if ch = 256 then (val, i)
           else
             let val = val * 16 + ch
             in if val > 0x1000FF then (int (ord (CHR ''&'')), 1) else hex_entity src (i + 1) val)"

fun dec_entity :: "bytes \<Rightarrow> nat \<Rightarrow> int \<Rightarrow> int \<times> nat" where
  "dec_entity [] i val = (val, i)"
| "dec_entity (c # src) i val =
     (if c = CHR '';'' then (val, i + 1)
      else if c < CHR ''0'' \<or> c > CHR ''9'' then (val, i)
      else
        let val = val * 10 + (int (ord c) - 48)
        in if val > 0x1000FF then (int (ord (CHR ''&'')), 1) else dec_entity src (i + 1) val)"

definition html_decode_char_at :: "bytes \<Rightarrow> (int \<times> nat) option" where
  "html_decode_char_at src =
     (if length src = 0 then Some (-1, 0)
      else
        do { c0 \<leftarrow> read_at src 0;
             if c0 \<noteq> CHR ''&'' \<or> length src < 3 then Some (int (ord c0), 1)
             else
               do { c2 \<leftarrow> read_at src 2;
                    let hex = (c2 = CHR ''x'' \<or> c2 = CHR ''X'');
                    if hex \<and> length src < 4 then Some (int (ord c0), 1)
                    else
                      do { c1 \<leftarrow> read_at src 1;
                           if c1 \<noteq> CHR ''#'' then Some (int (ord (CHR ''&'')), 1)
                           else if hex then
                             do { c3 \<leftarrow> read_at src 3;
                                  let ch = gsHexDecodeMap c3;
                                  if ch = 256 then Some (int (ord (CHR ''&'')), 1)
                                  else Some (hex_entity (drop 4 src) 4 ch) }
                           else if c2 < CHR ''0'' \<or> c2 > CHR ''9'' then Some (int (ord (CHR ''&'')), 1)
                           else Some (dec_entity (drop 3 src) 3 (int (ord c2) - 48)) } } })"

text \<open>\<open>htmlencode_startswith(a, b, n)\<close>: the loop takes off what has been consumed, in the size of \<open>n\<close>.\<close>

partial_function (option) startswith_loop :: "bytes \<Rightarrow> bytes \<Rightarrow> bool \<Rightarrow> bool option" where
  "startswith_loop a b first =
     (if b = [] then Some (a = [])
      else
        case a of
          [] \<Rightarrow> Some True
        | ca # a' \<Rightarrow>
            (case html_decode_char_at b of
               None \<Rightarrow> None
             | Some (cb, consumed) \<Rightarrow>
                 if consumed > length b then None
                 else
                   let b = drop consumed b
                   in if first \<and> cb \<le> 32 then startswith_loop a b first
                      else if cb = 0 \<or> cb = 10 then startswith_loop a b False
                      else
                        let cb = (if 97 \<le> cb \<and> cb \<le> 122 then cb - 32 else cb)
                        in if ca \<noteq> char_of (nat (cb mod 256)) then Some False
                           else startswith_loop a' b False))"

declare startswith_loop.simps [code]

definition htmlencode_startswith :: "bytes \<Rightarrow> bytes \<Rightarrow> bool option" where
  "htmlencode_startswith a b = startswith_loop a b True"

text \<open>White space, control characters and, the comparison being signed, the bytes from 128 on.\<close>

definition is_black_url :: "bytes \<Rightarrow> bool option" where
  "is_black_url s =
     (let s = dropWhile (\<lambda>c. signed_char c \<le> 32 \<or> signed_char c \<ge> 127) s
      in do { data_url \<leftarrow> htmlencode_startswith ''DATA'' s;
              if data_url then Some True
              else
                do { viewsource \<leftarrow> htmlencode_startswith ''VIEW-SOURCE'' s;
                     if viewsource then Some True
                     else
                       do { javascript \<leftarrow> htmlencode_startswith ''JAVA'' s;
                            if javascript then Some True else htmlencode_startswith ''VBSCRIPT'' s } } })"

section \<open>The check\<close>

text \<open>The \<open>token_len\<close> bytes from \<open>token_start\<close> on.\<close>

definition token_text :: "bytes \<Rightarrow> h5 \<Rightarrow> bytes option" where
  "token_text s h =
     (if token_start h + token_len h \<le> length s then Some (take (token_len h) (drop (token_start h) s)) else None)"

definition black_comment :: "bytes \<Rightarrow> bool option" where
  "black_comment t =
     (if CHR 0x60 \<in> set t then Some True
      else
        do { conditional \<leftarrow>
               (if length t > 3 then
                  do { c0 \<leftarrow> read_at t 0;
                       if_comment \<leftarrow> (if c0 = CHR ''['' then
                         do { c1 \<leftarrow> read_at t 1;
                              c2 \<leftarrow> read_at t 2;
                              Some (lower c1 = CHR ''i'' \<and> lower c2 = CHR ''f'') }
                         else Some False);
                       if if_comment then Some True else three_are ''xml'' t }
                else Some False);
             if conditional then Some True
             else if length t > 5 then
               do { import_differs \<leftarrow> cstrcasecmp_with_null ''IMPORT'' t 6;
                    if \<not> import_differs then Some True
                    else
                      do { entity_differs \<leftarrow> cstrcasecmp_with_null ''ENTITY'' t 6;
                           Some (\<not> entity_differs) } }
             else Some False })"

text \<open>One token: whether it is reported, and the type of the attribute whose value may follow.\<close>

definition check_token :: "bytes \<Rightarrow> h5 \<Rightarrow> attribute_t \<Rightarrow> (bool \<times> attribute_t) option" where
  "check_token s h attr =
     do { t \<leftarrow> token_text s h;
          let attr = (if token_type h \<noteq> ATTR_VALUE then TYPE_NONE else attr);
          case token_type h of
            DOCTYPE \<Rightarrow> Some (True, attr)
          | TAG_NAME_OPEN \<Rightarrow> do { black \<leftarrow> is_black_tag t; Some (black, attr) }
          | ATTR_NAME \<Rightarrow> do { attr \<leftarrow> is_black_attr t; Some (False, attr) }
          | ATTR_VALUE \<Rightarrow>
              (case attr of
                 TYPE_NONE \<Rightarrow> Some (False, TYPE_NONE)
               | TYPE_BLACK \<Rightarrow> Some (True, attr)
               | TYPE_ATTR_URL \<Rightarrow> do { black \<leftarrow> is_black_url t; Some (black, TYPE_NONE) }
               | TYPE_STYLE \<Rightarrow> Some (True, attr)
               | TYPE_ATTR_INDIRECT \<Rightarrow> do { ty \<leftarrow> is_black_attr t; Some (ty \<noteq> TYPE_NONE, TYPE_NONE) })
          | TAG_COMMENT \<Rightarrow> do { black \<leftarrow> black_comment t; Some (black, attr) }
          | _ \<Rightarrow> Some (False, attr) }"

partial_function (option) xss_loop :: "bytes \<Rightarrow> h5 \<Rightarrow> attribute_t \<Rightarrow> injection_result option" where
  "xss_loop s h attr =
     (case libinjection_h5_next s h of
        None \<Rightarrow> None
      | Some (r, h') \<Rightarrow>
          if r = RESULT_TRUE then
            (case check_token s h' attr of
               None \<Rightarrow> None
             | Some (reported, attr') \<Rightarrow> if reported then Some RESULT_TRUE else xss_loop s h' attr')
          else Some r)"

declare xss_loop.simps [code]

definition libinjection_is_xss :: "bytes \<Rightarrow> html5_flags \<Rightarrow> injection_result option" where
  "libinjection_is_xss s flags = xss_loop s (libinjection_h5_init flags) TYPE_NONE"

text \<open>The contexts in order, up to the first result that is not \<open>LIBINJECTION_RESULT_FALSE\<close>.\<close>

fun in_contexts :: "bytes \<Rightarrow> html5_flags list \<Rightarrow> injection_result option" where
  "in_contexts s [] = Some RESULT_FALSE"
| "in_contexts s (flags # rest) =
     (case libinjection_is_xss s flags of
        None \<Rightarrow> None
      | Some r \<Rightarrow> if r \<noteq> RESULT_FALSE then Some r else in_contexts s rest)"

definition libinjection_xss :: "bytes \<Rightarrow> injection_result option" where
  "libinjection_xss s =
     in_contexts s [DATA_STATE, VALUE_NO_QUOTE, VALUE_SINGLE_QUOTE, VALUE_DOUBLE_QUOTE, VALUE_BACK_QUOTE]"

section \<open>No read outside the string\<close>

lemma cmp_total: "n \<le> length b \<Longrightarrow> \<exists>differs. cstrcasecmp_with_null a b n = Some differs"
proof (induction a b n rule: cstrcasecmp_with_null.induct)
  case (3 a cb b n)
  then show ?case by (cases a) auto
qed simp_all

lemma first_equal_total: "(\<And>x. x \<in> set xs \<Longrightarrow> f x \<noteq> None) \<Longrightarrow> first_equal f xs \<noteq> None"
proof (induction xs)
  case (Cons x xs)
  have "f x \<noteq> None" using Cons.prems by simp
  then show ?case using Cons by (auto split: bind_splits)
qed simp

lemma three_are_total: "3 \<le> length s \<Longrightarrow> three_are name s \<noteq> None"
  by (cases s) (auto simp: three_are_def read_at_def)

lemma black_tag_total: "is_black_tag s \<noteq> None"
proof (cases "length s < 3")
  case False
  have "first_equal (\<lambda>black. cstrcasecmp_with_null black s (length s)) BLACKTAG \<noteq> None"
    using cmp_total by (intro first_equal_total) auto
  then obtain found where "first_equal (\<lambda>black. cstrcasecmp_with_null black s (length s)) BLACKTAG = Some found"
    by blast
  moreover obtain svg xsl where "three_are ''svg'' s = Some svg" "three_are ''xsl'' s = Some xsl"
    using three_are_total [of s] False by (metis not_less option.exhaust)
  ultimately show ?thesis using False by (simp add: is_black_tag_def del: not_None_eq)
qed (simp add: is_black_tag_def)

lemma black_attr_total: "is_black_attr s \<noteq> None"
proof (cases "length s < 2")
  case False
  let ?special = "if length s \<ge> 5 then
      do { c0 \<leftarrow> read_at s 0;
           c1 \<leftarrow> read_at s 1;
           event \<leftarrow>
             (if lower c0 = CHR ''o'' \<and> lower c1 = CHR ''n''
              then first_equal (\<lambda>(name, ty).
                     cstrcasecmp_with_null name (drop 2 s) (min (length s - 2) (length name))) BLACKATTREVENT
              else Some None);
           case event of
             Some (name, ty) \<Rightarrow> Some (Some ty)
           | None \<Rightarrow>
               do { xmlns \<leftarrow> cstrcasecmp_with_null ''XMLNS'' s 5;
                    if \<not> xmlns then Some (Some TYPE_BLACK)
                    else
                      do { xlink \<leftarrow> cstrcasecmp_with_null ''XLINK'' s 5;
                           Some (if \<not> xlink then Some TYPE_BLACK else None) } } }
    else Some None"
  have "first_equal (\<lambda>(name, ty).
      cstrcasecmp_with_null name (drop 2 s) (min (length s - 2) (length name))) BLACKATTREVENT \<noteq> None"
    using cmp_total [of _ "drop 2 s"] by (intro first_equal_total) (auto simp: split_def)
  then obtain event where event: "first_equal (\<lambda>(name, ty).
      cstrcasecmp_with_null name (drop 2 s) (min (length s - 2) (length name))) BLACKATTREVENT = Some event" by blast
  have "first_equal (\<lambda>(name, ty). cstrcasecmp_with_null name s (length s)) BLACKATTR \<noteq> None"
    using cmp_total by (intro first_equal_total) (auto simp: split_def)
  then obtain found where found:
    "first_equal (\<lambda>(name, ty). cstrcasecmp_with_null name s (length s)) BLACKATTR = Some found" by blast
  have "\<exists>sp. ?special = Some sp"
  proof (cases "length s \<ge> 5")
    case True
    then obtain xmlns xlink where "cstrcasecmp_with_null ''XMLNS'' s 5 = Some xmlns"
      "cstrcasecmp_with_null ''XLINK'' s 5 = Some xlink" using cmp_total by metis
    moreover have "read_at s 0 = Some (s ! 0)" "read_at s 1 = Some (s ! 1)"
      using True by (auto simp: read_at_def)
    ultimately show ?thesis using event True by (simp split: option.split)
  qed simp
  then obtain sp where sp: "?special = Some sp" by blast
  show ?thesis
    unfolding is_black_attr_def sp using False found by (auto split: option.split)
qed (simp add: is_black_attr_def)

lemma hex_entity_consumed: "hex_entity src i val = (v, n) \<Longrightarrow> 1 \<le> i \<Longrightarrow> 1 \<le> n \<and> n \<le> i + length src"
proof (induction src i val rule: hex_entity.induct)
  case (2 c src i val)
  from 2(2) show ?case
    using 2(1,3) by (auto simp: Let_def split: if_splits)
qed simp

lemma dec_entity_consumed: "dec_entity src i val = (v, n) \<Longrightarrow> 1 \<le> i \<Longrightarrow> 1 \<le> n \<and> n \<le> i + length src"
proof (induction src i val rule: dec_entity.induct)
  case (2 c src i val)
  from 2(2) show ?case
    using 2(1,3) by (auto simp: Let_def split: if_splits)
qed simp

lemma decode_total:
  assumes "src \<noteq> []"
  shows "\<exists>cb n. html_decode_char_at src = Some (cb, n) \<and> 1 \<le> n \<and> n \<le> length src"
proof -
  have len: "1 \<le> length src" using assms by (cases src) auto
  consider "src ! 0 \<noteq> CHR ''&'' \<or> length src < 3" | "src ! 0 = CHR ''&''" "length src \<ge> 3" by linarith
  then show ?thesis
  proof cases
    case 1
    then show ?thesis using assms len by (auto simp: html_decode_char_at_def read_at_def)
  next
    case 2
    obtain v n where h: "hex_entity (drop 4 src) 4 (gsHexDecodeMap (src ! 3)) = (v, n)" by fastforce
    obtain v' n' where d: "dec_entity (drop 3 src) 3 (int (ord (src ! 2)) - 48) = (v', n')" by fastforce
    show ?thesis
      using assms 2 h d hex_entity_consumed [OF h] dec_entity_consumed [OF d] len
      by (auto simp: html_decode_char_at_def read_at_def Let_def)
  qed
qed

lemma startswith_total: "startswith_loop a b first \<noteq> None"
proof (induction "length b" arbitrary: a b first rule: less_induct)
  case less
  show ?case
  proof (cases "b = [] \<or> a = []")
    case True
    then show ?thesis by (subst startswith_loop.simps) auto
  next
    case False
    then obtain ca a' where a: "a = ca # a'" by (cases a) auto
    obtain cb n where d: "html_decode_char_at b = Some (cb, n)" "1 \<le> n" "n \<le> length b"
      using decode_total False by blast
    then have "length (drop n b) < length b" using False by simp
    then have "startswith_loop x (drop n b) f \<noteq> None" for x f using less by blast
    then show ?thesis using False a d by (subst startswith_loop.simps) (auto simp: Let_def)
  qed
qed

lemma black_url_total: "is_black_url s \<noteq> None"
proof -
  define t where "t = dropWhile (\<lambda>c. signed_char c \<le> 32 \<or> signed_char c \<ge> 127) s"
  obtain b1 b2 b3 b4 where "startswith_loop ''DATA'' t True = Some b1" "startswith_loop ''VIEW-SOURCE'' t True = Some b2"
    "startswith_loop ''JAVA'' t True = Some b3" "startswith_loop ''VBSCRIPT'' t True = Some b4"
    using startswith_total by (metis not_None_eq)
  then show ?thesis by (simp add: is_black_url_def t_def [symmetric] Let_def htmlencode_startswith_def del: not_None_eq)
qed

lemma black_comment_total: "black_comment t \<noteq> None"
proof -
  have "\<exists>b. cstrcasecmp_with_null ''IMPORT'' t 6 = Some b" "\<exists>b. cstrcasecmp_with_null ''ENTITY'' t 6 = Some b"
    if "length t > 5" using that cmp_total by simp_all
  moreover have "three_are ''xml'' t \<noteq> None" if "length t > 3" using that three_are_total [of t] by auto
  ultimately show ?thesis by (auto simp: black_comment_def read_at_def split: bind_splits if_splits)
qed

lemma check_token_total:
  assumes "token_end h \<le> length s"
  shows "\<exists>reported attr'. check_token s h attr = Some (reported, attr')"
proof -
  obtain t where t: "token_text s h = Some t" using assms by (simp add: token_text_def token_end_def)
  obtain b1 b2 b3 b4 where "is_black_tag t = Some b1" "is_black_attr t = Some b2" "is_black_url t = Some b3"
    "black_comment t = Some b4"
    using black_tag_total black_attr_total black_url_total black_comment_total by (metis not_None_eq)
  then have "check_token s h attr \<noteq> None"
    using t by (cases "token_type h"; cases attr) (simp_all add: check_token_def)
  then show ?thesis by auto
qed

section \<open>The check ends\<close>

lemma xss_loop_total:
  "h5_ok s e (h5_state h) h \<Longrightarrow>
     xss_loop s h attr = Some RESULT_FALSE \<or> xss_loop s h attr = Some RESULT_TRUE"
proof (induction "progress s (h5_state h) h" arbitrary: h e attr rule: less_induct)
  case less
  obtain r h' where n: "libinjection_h5_next s h = Some (r, h')"
    using call_ok [OF less.prems] by (fastforce simp: libinjection_h5_next_def split: option.splits)
  note c = call_ok [OF less.prems, folded libinjection_h5_next_def, unfolded n, simplified]
  show ?case
  proof (cases "r = RESULT_TRUE")
    case True
    then obtain reported attr' where k: "check_token s h' attr = Some (reported, attr')"
      using c check_token_total by blast
    have "xss_loop s h' attr' = Some RESULT_FALSE \<or> xss_loop s h' attr' = Some RESULT_TRUE"
      using less.hyps c True by blast
    then show ?thesis using n True k by (subst (1 2) xss_loop.simps) simp
  next
    case False
    then have "r = RESULT_FALSE" using c by (cases r) auto
    then show ?thesis using n by (subst (1 2) xss_loop.simps) simp
  qed
qed

text \<open>C4: Whatever bytes it is given, the XSS check reads nothing outside them, wraps around no size, ends, and
  says yes or no.\<close>

theorem xss_check_decides: "libinjection_xss s = Some RESULT_FALSE \<or> libinjection_xss s = Some RESULT_TRUE"
proof -
  have c: "libinjection_is_xss s flags = Some RESULT_FALSE \<or> libinjection_is_xss s flags = Some RESULT_TRUE" for flags
    unfolding libinjection_is_xss_def by (rule xss_loop_total [OF init_ok])
  have "in_contexts s fs = Some RESULT_FALSE \<or> in_contexts s fs = Some RESULT_TRUE" for fs
  proof (induction fs)
    case (Cons f fs)
    then show ?case using c [of f] by auto
  qed simp
  then show ?thesis unfolding libinjection_xss_def by blast
qed

end
