(* ===== verification/XssDetect.thy ===== *)
theory XssDetect
  imports XssCheck NgxNumber
begin

text \<open>
  What the XSS check of libinjection finds and what it misses: entities are decoded to the character they
  stand for, script URLs are found under every encoding of their letters, black tags are found behind any
  text; and a tag behind an empty end tag is not found at all.
\<close>

section \<open>Entities\<close>

lemma hex_map_value: "gsHexDecodeMap c = (if is_hex c then hex_digit c else 256)"
  using ord_less_256 [of c] odd_div_32 [of "ord c"]
  by (auto simp: gsHexDecodeMap_def is_hex_def hex_digit_def digit_of_def hex_letter_of_def byte_simps ord_or_0x20)

lemma dec_entity_value:
  assumes "all_digits ds" and "0 \<le> v" and "horner 10 v (map digit_of ds) \<le> 0x1000FF"
  shows "dec_entity (ds @ CHR '';'' # rest) i v = (horner 10 v (map digit_of ds), i + length ds + 1)"
  using assms
proof (induction ds arbitrary: i v)
  case (Cons d ds)
  have d: "is_digit d" using Cons.prems by simp
  then have "0 \<le> digit_of d" using digit_of_range by blast
  then have p: "0 \<le> v * 10 + digit_of d" using Cons.prems(2) by simp
  have "v * 10 + digit_of d \<le> horner 10 (v * 10 + digit_of d) (map digit_of ds)"
    using p digit_of_nonneg Cons.prems(1) by (intro horner_ge) auto
  then have le: "v * 10 + digit_of d \<le> 0x1000FF" using Cons.prems(3) by simp
  have "d \<noteq> CHR '';''" "\<not> (d < CHR ''0'' \<or> d > CHR ''9'')" using d by (auto simp: is_digit_def)
  then show ?case
    using Cons.IH [of "v * 10 + digit_of d" "i + 1"] Cons.prems p le by (simp add: digit_of_def Let_def)
qed simp

lemma hex_entity_value:
  assumes "\<forall>c\<in>set ds. is_hex c" and "0 \<le> v" and "horner 16 v (map hex_digit ds) \<le> 0x1000FF"
  shows "hex_entity (ds @ CHR '';'' # rest) i v = (horner 16 v (map hex_digit ds), i + length ds + 1)"
  using assms
proof (induction ds arbitrary: i v)
  case (Cons d ds)
  have d: "is_hex d" using Cons.prems by simp
  then have r: "0 \<le> hex_digit d \<and> hex_digit d \<le> 15" by (rule hex_digit_range)
  then have p: "0 \<le> v * 16 + hex_digit d" using Cons.prems(2) by simp
  have "v * 16 + hex_digit d \<le> horner 16 (v * 16 + hex_digit d) (map hex_digit ds)"
    using p hex_digit_nonneg [of ds] Cons.prems(1) by (intro horner_ge) auto
  then have le: "v * 16 + hex_digit d \<le> 0x1000FF" using Cons.prems(3) by simp
  have "d \<noteq> CHR '';''" using d by (auto simp: is_hex_def byte_simps)
  then show ?case
    using Cons.IH [of "v * 16 + hex_digit d" "i + 1"] Cons.prems p le d r by (simp add: hex_map_value Let_def)
qed simp

lemma decode_dec:
  assumes "ds \<noteq> []" and "all_digits ds" and "dec_value ds \<le> 0x1000FF"
  shows "html_decode_char_at (''&#'' @ ds @ CHR '';'' # rest) = Some (dec_value ds, length ds + 3)"
proof -
  obtain d ds' where ds: "ds = d # ds'" using assms(1) by (cases ds) auto
  then have d: "is_digit d" using assms(2) by simp
  then have n: "d \<noteq> CHR ''x''" "d \<noteq> CHR ''X''" "\<not> (d < CHR ''0'' \<or> d > CHR ''9'')"
    by (auto simp: is_digit_def)
  have "dec_entity (ds' @ CHR '';'' # rest) 3 (digit_of d) = (dec_value ds, 3 + length ds' + 1)"
    using dec_entity_value [of ds' "digit_of d" rest 3] assms(2,3) ds digit_of_range [OF d]
    by (simp add: dec_value_def)
  then show ?thesis
    using n ds by (simp add: html_decode_char_at_def read_at_def Let_def digit_of_def)
qed

lemma decode_hex:
  assumes "ds \<noteq> []" and "\<forall>c\<in>set ds. is_hex c" and "hex_value ds \<le> 0x1000FF" and "x = CHR ''x'' \<or> x = CHR ''X''"
  shows "html_decode_char_at (''&#'' @ x # ds @ CHR '';'' # rest) = Some (hex_value ds, length ds + 4)"
proof -
  obtain d ds' where ds: "ds = d # ds'" using assms(1) by (cases ds) auto
  then have d: "is_hex d" using assms(2) by simp
  have "hex_entity (ds' @ CHR '';'' # rest) 4 (hex_digit d) = (hex_value ds, 4 + length ds' + 1)"
    using hex_entity_value [of ds' "hex_digit d" rest 4] assms(2,3) ds hex_digit_range [OF d]
    by (simp add: hex_value_def)
  then show ?thesis
    using assms(4) ds d hex_digit_range [OF d] by (auto simp: html_decode_char_at_def read_at_def Let_def hex_map_value)
qed

lemma decode_plain: "c \<noteq> CHR ''&'' \<Longrightarrow> html_decode_char_at (c # rest) = Some (int (ord c), 1)"
  by (simp add: html_decode_char_at_def read_at_def)

text \<open>The ways to write one character in an attribute's value.\<close>

definition written_as :: "bytes \<Rightarrow> char \<Rightarrow> bool" where
  "written_as e c \<longleftrightarrow>
     e = [c] \<and> c \<noteq> CHR ''&''
     \<or> (\<exists>ds. e = ''&#'' @ ds @ '';'' \<and> ds \<noteq> [] \<and> all_digits ds \<and> dec_value ds = int (ord c))
     \<or> (\<exists>x ds. e = ''&#'' @ x # ds @ '';'' \<and> (x = CHR ''x'' \<or> x = CHR ''X'') \<and> ds \<noteq> []
          \<and> (\<forall>d\<in>set ds. is_hex d) \<and> hex_value ds = int (ord c))"

lemma decode_written: "written_as e c \<Longrightarrow> html_decode_char_at (e @ rest) = Some (int (ord c), length e)"
  using decode_dec [of _ rest] decode_hex [of _ _ rest] decode_plain [of c rest] ord_le_255 [of c]
  by (auto simp: written_as_def)

text \<open>The decoder reads every character, written plainly or as a decimal or hexadecimal entity with any number of
  leading zeros, back and takes exactly the bytes that write it.\<close>

lemma entity_decoded:
  assumes "written_as e c"
  shows "html_decode_char_at (e @ rest) = Some (int (ord c), length e)"
  using assms by (rule decode_written)

lemma entity_decoded_witness: "html_decode_char_at (''&#x003c;'' @ ''b'') = Some (60, 8)"
proof -
  have "(\<forall>d\<in>set ''003c''. is_hex d) \<and> hex_value ''003c'' = int (ord (CHR ''<''))" by code_simp
  then have "written_as ''&#x003c;'' (CHR ''<'')"
    unfolding written_as_def by (intro disjI2 exI [of _ "CHR ''x''"] exI [of _ "''003c''"]) simp
  from entity_decoded [OF this, of "''b''"] show ?thesis by simp
qed

lemma written_nonempty: "written_as e c \<Longrightarrow> e \<noteq> []"
  by (auto simp: written_as_def)

lemma written_head: "written_as e c \<Longrightarrow> \<exists>h t. e = h # t \<and> (h = c \<or> h = CHR ''&'')"
  by (auto simp: written_as_def)

section \<open>Script URLs\<close>

text \<open>A letter of the scheme in either case.\<close>

definition written_letter :: "bytes \<Rightarrow> char \<Rightarrow> bool" where
  "written_letter e c \<longleftrightarrow> (\<exists>c'. written_as e c' \<and> upper c' = c)"

lemma upper_step:
  assumes "CHR ''A'' \<le> upper c" and "upper c \<le> CHR ''Z''"
  shows "(if 97 \<le> int (ord c) \<and> int (ord c) \<le> 122 then int (ord c) - 32 else int (ord c)) = int (ord (upper c))"
    and "33 \<le> ord c"
  using assms by (auto simp: upper_def byte_simps split: if_splits)

lemma startswith_letters:
  assumes "list_all2 written_letter es name" and "list_all (\<lambda>c. CHR ''A'' \<le> c \<and> c \<le> CHR ''Z'') name"
  shows "startswith_loop name (concat es @ rest) first = Some True"
  using assms
proof (induction es name arbitrary: first rule: list_all2_induct)
  case Nil
  then show ?case by (subst startswith_loop.simps) simp
next
  case (Cons e es c name)
  then obtain c' where c': "written_as e c'" "upper c' = c" by (auto simp: written_letter_def)
  have u: "CHR ''A'' \<le> upper c'" "upper c' \<le> CHR ''Z''" using Cons.prems c' by auto
  note us = upper_step [OF u]
  have d: "html_decode_char_at (e @ concat es @ rest) = Some (int (ord c'), length e)"
    using c'(1) by (rule decode_written)
  have "startswith_loop name (concat es @ rest) False = Some True" using Cons by simp
  moreover have "int (ord c') \<noteq> 0" "int (ord c') \<noteq> 10" "\<not> int (ord c') \<le> 32" using us(2) by auto
  moreover have "char_of (nat (int (ord c) mod 256)) = c" by simp
  ultimately show ?case
    using d us(1) c'(2) written_nonempty [OF c'(1)]
    by (subst startswith_loop.simps) (simp add: Let_def)
qed

text \<open>C24: A URL that begins, behind any number of blanks, control characters and bytes outside ASCII, with a script
  scheme is black, whichever of its letters are upper case or written as decimal or hexadecimal entities.\<close>

theorem script_url_found:
  assumes "list_all (\<lambda>c. ord c \<le> 32 \<or> ord c \<ge> 127) blanks"
    and "scheme \<in> {''DATA'', ''JAVA'', ''VBSCRIPT''}" and "list_all2 written_letter es scheme"
  shows "is_black_url (blanks @ concat es @ rest) = Some True"
proof -
  have sc: "signed_char c \<le> 32 \<or> signed_char c \<ge> 127 \<longleftrightarrow> ord c \<le> 32 \<or> ord c \<ge> 127" for c
    using ord_le_255 [of c] unfolding signed_char_def
    by (cases "ord c < 128") (simp_all only: if_True if_False, linarith+)
  obtain ch name where name: "scheme = ch # name" and ch: "CHR ''A'' \<le> ch" "ch \<le> CHR ''Z''"
    using assms(2) by (elim insertE emptyE) simp_all
  obtain e es' where es: "es = e # es'" and e: "written_letter e ch"
    using assms(3) unfolding name by (cases es) auto
  have "\<exists>c r. e = c # r \<and> \<not> (ord c \<le> 32 \<or> ord c \<ge> 127)"
  proof -
    obtain c' where c': "written_as e c'" "upper c' = ch" using e by (auto simp: written_letter_def)
    then have r: "33 \<le> ord c'" "ord c' < 127" using ch by (auto simp: upper_def byte_simps split: if_splits)
    obtain h t where "e = h # t" "h = c' \<or> h = CHR ''&''" using written_head [OF c'(1)] by blast
    moreover have "ord (CHR ''&'') = 38" by simp
    ultimately show ?thesis using r by (intro exI [of _ h] exI [of _ t]) auto
  qed
  then obtain c r where cr: "e = c # r" "\<not> (ord c \<le> 32 \<or> ord c \<ge> 127)" by blast
  let ?t = "concat es @ rest"
  have "dropWhile (\<lambda>c. ord c \<le> 32 \<or> ord c \<ge> 127) (blanks @ ?t) = dropWhile (\<lambda>c. ord c \<le> 32 \<or> ord c \<ge> 127) ?t"
    using assms(1) by (intro dropWhile_append2) (simp add: list_all_iff)
  also have "\<dots> = ?t" using es cr by simp
  finally have dw: "dropWhile (\<lambda>c. signed_char c \<le> 32 \<or> signed_char c \<ge> 127) (blanks @ ?t) = ?t"
    by (simp only: sc)
  have sw: "startswith_loop scheme ?t True = Some True"
    using assms(2) by (intro startswith_letters assms(3)) auto
  obtain b1 b2 b3 b4 where b: "startswith_loop ''DATA'' ?t True = Some b1"
    "startswith_loop ''VIEW-SOURCE'' ?t True = Some b2" "startswith_loop ''JAVA'' ?t True = Some b3"
    "startswith_loop ''VBSCRIPT'' ?t True = Some b4"
    using startswith_total by (metis not_None_eq)
  have "b1 \<or> b3 \<or> b4" using assms(2) sw b by (elim insertE emptyE) simp_all
  then show ?thesis
    unfolding is_black_url_def htmlencode_startswith_def dw Let_def b by (cases b1; cases b2; cases b3; simp)
qed

lemma script_url_found_witness:
  "is_black_url (''  '' @ ''j&#x61;V&#65;script:alert(1)'') = Some True"
proof -
  have "list_all2 written_letter [''j'', ''&#x61;'', ''V'', ''&#65;''] ''JAVA''"
  proof -
    have "written_as ''j'' (CHR ''j'')" "written_as ''V'' (CHR ''V'')" by (simp_all add: written_as_def)
    moreover have "written_as ''&#x61;'' (CHR ''a'')"
      unfolding written_as_def
      by (intro disjI2 exI [of _ "CHR ''x''"] exI [of _ "''61''"]) code_simp
    moreover have "written_as ''&#65;'' (CHR ''A'')"
      unfolding written_as_def by (rule disjI2, rule disjI1, intro exI [of _ "''65''"]) code_simp
    moreover have "upper (CHR ''j'') = CHR ''J''" "upper (CHR ''a'') = CHR ''A''" "upper (CHR ''V'') = CHR ''V''"
      "upper (CHR ''A'') = CHR ''A''" by code_simp+
    ultimately have "written_letter ''j'' (CHR ''J'')" "written_letter ''&#x61;'' (CHR ''A'')"
      "written_letter ''V'' (CHR ''V'')" "written_letter ''&#65;'' (CHR ''A'')"
      unfolding written_letter_def by metis+
    then show ?thesis by simp
  qed
  from script_url_found [of "''  ''" _ _ "''script:alert(1)''", OF _ _ this] show ?thesis by simp
qed

section \<open>Black tags\<close>

text \<open>A tag name: letters, with zero bytes anywhere in between.\<close>

definition tag_word :: "bytes \<Rightarrow> bool" where
  "tag_word name \<longleftrightarrow> name \<noteq> [] \<and> list_all (\<lambda>c. is_alpha c \<or> c = NUL) name"

lemma alpha_no_end:
  "is_alpha c \<Longrightarrow> c \<noteq> NUL \<and> \<not> h5_is_white c \<and> c \<noteq> CHR ''/'' \<and> c \<noteq> CHR ''>'' \<and> c \<noteq> CHR ''<'' \<and> c \<noteq> CHR ''!''
     \<and> c \<noteq> CHR ''?'' \<and> c \<noteq> CHR ''%''"
  by (auto simp: is_alpha_def h5_is_white_def)

lemma tag_name_end_word:
  assumes "list_all (\<lambda>c. is_alpha c \<or> c = NUL) name" and "sep \<noteq> NUL"
    and "h5_is_white sep \<or> sep = CHR ''/'' \<or> sep = CHR ''>''"
  shows "tag_name_end (pre @ name @ sep # rest) (length pre) = length pre + length name"
  using assms(1)
proof (induction name arbitrary: pre)
  case Nil
  then show ?case using assms(2,3) by (subst tag_name_end.simps) simp
next
  case (Cons c name)
  have "tag_name_end ((pre @ [c]) @ name @ sep # rest) (length (pre @ [c])) = length (pre @ [c]) + length name"
    using Cons.prems by (intro Cons.IH) simp
  then have "tag_name_end (pre @ (c # name) @ sep # rest) (length pre + 1) = length pre + length (c # name)" by simp
  then show ?case
    using Cons.prems alpha_no_end [of c] by (subst tag_name_end.simps) (auto simp: Let_def nth_append)
qed

text \<open>Reading a tag name, from the state behind \<open><\<close>.\<close>

lemma tag_token:
  assumes "tag_word name" and "sep \<noteq> NUL" and "h5_is_white sep \<or> sep = CHR ''/'' \<or> sep = CHR ''>''"
    and "s = pre @ name @ sep # rest" and "h5_pos h = length pre"
  shows "\<exists>h'. h5_call s St_tag_open h = Some (RESULT_TRUE, h') \<and> token_text s h' = Some name
    \<and> token_type h' = (if sep = CHR ''>'' \<and> h5_is_close h then TAG_CLOSE else TAG_NAME_OPEN)
    \<and> (sep = CHR ''>'' \<longrightarrow>
         h5_state h' = (if h5_is_close h then St_data else St_tag_name_close)
         \<and> h5_pos h' = length pre + length name + (if h5_is_close h then 1 else 0)
         \<and> \<not> h5_is_close h')"
proof -
  obtain c n where name: "name = c # n" and c: "is_alpha c \<or> c = NUL" using assms(1) by (cases name) (auto simp: tag_word_def)
  have e: "tag_name_end s (h5_pos h) = length pre + length name"
    using tag_name_end_word [of name sep pre rest] assms by (simp add: tag_word_def)
  have o: "h5_fn_body St_tag_open s h = Some (Tail St_tag_name h)"
    using assms(4,5) name c alpha_no_end [of c]
    by (auto simp: h5_state_tag_open_def read_at_def Let_def nth_append)
  have "s ! (length pre + length name) = sep" "length pre + length name < length s" using assms(4) by (simp_all add: nth_append)
  then have n: "h5_state_tag_name s h =
      (if h5_is_white sep then emit TAG_NAME_OPEN (length pre) (length name) St_before_attribute_name (length pre + length name + 1) h
       else if sep = CHR ''/''
       then emit TAG_NAME_OPEN (length pre) (length name) St_self_closing_start_tag (length pre + length name + 1) h
       else if h5_is_close h
       then emit TAG_CLOSE (length pre) (length name) St_data (length pre + length name + 1) (h\<lparr>h5_is_close := False\<rparr>)
       else emit TAG_NAME_OPEN (length pre) (length name) St_tag_name_close (length pre + length name) h)"
    using e assms(5) by (simp add: h5_state_tag_name_def read_at_def size_minus_def Let_def)
  have t: "token_text s h' = Some name" if "token_start h' = length pre" "token_len h' = length name" for h'
    using that assms(4) by (simp add: token_text_def)
  have o': "h5_call s St_tag_open h = h5_call s St_tag_name h" using o by (subst h5_call.simps) simp
  have gt: "\<not> h5_is_white (CHR ''>'')" by (simp add: h5_is_white_def)
  consider "h5_is_white sep" | "sep = CHR ''/''" "\<not> h5_is_white sep" | "sep = CHR ''>''" "h5_is_close h" | "sep = CHR ''>''" "\<not> h5_is_close h"
    using assms(3) by blast
  then show ?thesis
    unfolding o' using gt
    by cases (subst h5_call.simps, auto simp: n emit_def t)+
qed

lemma cmp_equal:
  "cstrcasecmp_with_null (map upper (filter (\<lambda>c. c \<noteq> NUL) b)) b (length b) = Some False"
  by (induction b) auto

lemma first_equal_finds:
  "x \<in> set xs \<Longrightarrow> f x = Some False \<Longrightarrow> (\<And>y. y \<in> set xs \<Longrightarrow> f y \<noteq> None) \<Longrightarrow> \<exists>y. first_equal f xs = Some (Some y)"
proof (induction xs)
  case (Cons z xs)
  obtain d where "f z = Some d" using Cons.prems(3) [of z] by auto
  then show ?case using Cons by (cases d) auto
qed simp

definition black_word :: "bytes \<Rightarrow> bool" where
  "black_word name \<longleftrightarrow> tag_word name \<and> map upper (filter (\<lambda>c. c \<noteq> NUL) name) \<in> set BLACKTAG"

lemma black_word_tag: "black_word name \<Longrightarrow> is_black_tag name = Some True"
proof -
  assume b: "black_word name"
  let ?f = "\<lambda>black. cstrcasecmp_with_null black name (length name)"
  have "list_all (\<lambda>t. 3 \<le> length t) BLACKTAG" by code_simp
  then have "3 \<le> length (filter (\<lambda>c. c \<noteq> NUL) name)" using b by (auto simp: black_word_def list_all_iff)
  then have "3 \<le> length name" using length_filter_le le_trans by blast
  moreover have "\<exists>y. first_equal ?f BLACKTAG = Some (Some y)"
    using b cmp_equal [of name] cmp_total [of "length name" name]
    by (intro first_equal_finds [of "map upper (filter (\<lambda>c. c \<noteq> NUL) name)"]) (auto simp: black_word_def)
  ultimately show ?thesis by (auto simp: is_black_tag_def)
qed

lemma memchr_behind:
  assumes "c \<notin> set xs"
  shows "memchr (pre @ xs @ c # rest) (length pre) c = Some (Some (length pre + length xs))"
proof -
  have "takeWhile (\<lambda>x. x \<noteq> c) (xs @ c # rest) = xs" using assms by (induction xs) auto
  then show ?thesis by (simp add: memchr_def size_minus_def Let_def)
qed

lemma memchr_none: "c \<notin> set xs \<Longrightarrow> memchr (pre @ xs) (length pre) c = Some None"
proof -
  assume "c \<notin> set xs"
  then have tw: "takeWhile (\<lambda>x. x \<noteq> c) xs = xs" by (induction xs) auto
  show ?thesis by (simp add: memchr_def size_minus_def Let_def tw)
qed

text \<open>C20: A tag of the list is found behind any text without \<open><\<close>, in any case, with any zero bytes in its name,
  whatever follows it.\<close>

theorem black_tag_found:
  assumes "CHR ''<'' \<notin> set text" and "black_word name" and "sep \<in> {CHR '' '', HT, LF, CR, CHR ''/'', CHR ''>''}"
  shows "libinjection_xss (text @ CHR ''<'' # name @ sep # rest) = Some RESULT_TRUE"
proof -
  let ?s = "text @ CHR ''<'' # name @ sep # rest"
  let ?h = "libinjection_h5_init DATA_STATE"
  let ?h1 = "?h\<lparr>token_start := 0, token_type := DATA_TEXT, token_len := length text, h5_pos := length text + 1,
      h5_state := St_tag_open\<rparr>"
  have m: "memchr ?s 0 (CHR ''<'') = Some (Some (length text))"
    using memchr_behind [OF assms(1), of "[]" "name @ sep # rest"] by simp
  have d: "h5_state_data ?s ?h = Some (if text = [] then Tail St_tag_open ?h1 else Ret RESULT_TRUE ?h1)"
    using m by (simp add: h5_state_data_def libinjection_h5_init_def size_minus_def Let_def)
  have w: "tag_word name" using assms(2) by (simp add: black_word_def)
  obtain h2 where h2: "h5_call ?s St_tag_open ?h1 = Some (RESULT_TRUE, h2)" "token_text ?s h2 = Some name"
    "token_type h2 = TAG_NAME_OPEN"
    using tag_token [OF w, of sep ?s "text @ ''<''" rest ?h1] assms(3)
    by (auto simp: h5_is_white_def libinjection_h5_init_def)
  have found: "xss_loop ?s h attr = Some RESULT_TRUE" if "libinjection_h5_next ?s h = Some (RESULT_TRUE, h2)" for h attr
    using that h2 black_word_tag [OF assms(2)] by (subst xss_loop.simps) (simp add: check_token_def)
  have "xss_loop ?s ?h TYPE_NONE = Some RESULT_TRUE"
  proof (cases "text = []")
    case True
    then have "libinjection_h5_next ?s ?h = Some (RESULT_TRUE, h2)"
      using d h2(1) unfolding libinjection_h5_next_def
      by (subst h5_call.simps) (simp add: libinjection_h5_init_def)
    then show ?thesis by (rule found)
  next
    case False
    then have n: "libinjection_h5_next ?s ?h = Some (RESULT_TRUE, ?h1)"
      using d unfolding libinjection_h5_next_def
      by (subst h5_call.simps) (simp add: libinjection_h5_init_def)
    have "check_token ?s ?h1 TYPE_NONE = Some (False, TYPE_NONE)"
      by (simp add: check_token_def token_text_def)
    moreover have "libinjection_h5_next ?s ?h1 = Some (RESULT_TRUE, h2)"
      using h2(1) by (simp add: libinjection_h5_next_def)
    ultimately show ?thesis using n found by (subst xss_loop.simps) simp
  qed
  then show ?thesis by (simp add: libinjection_xss_def libinjection_is_xss_def)
qed

lemma black_tag_found_witness: "libinjection_xss (''hello '' @ CHR ''<'' # ''ScRiPt'' @ CHR ''>'' # ''x'') = Some RESULT_TRUE"
  by (rule black_tag_found) code_simp+

section \<open>What is missed\<close>

lemma xss_step:
  assumes "libinjection_h5_next s h = Some (RESULT_TRUE, h')" and "check_token s h' attr = Some (False, attr')"
  shows "xss_loop s h attr = xss_loop s h' attr'"
  using assms by (subst xss_loop.simps) simp

lemma xss_stop: "libinjection_h5_next s h = Some (RESULT_FALSE, h') \<Longrightarrow> xss_loop s h attr = Some RESULT_FALSE"
  by (subst xss_loop.simps) simp

lemma plain_token:
  assumes "token_type h \<in> {DATA_TEXT, TAG_NAME_CLOSE, TAG_CLOSE}" and "token_end h \<le> length s"
  shows "check_token s h attr = Some (False, TYPE_NONE)"
  using assms by (auto simp: check_token_def token_text_def token_end_def)

lemma next_call: "libinjection_h5_next s h = h5_call s (h5_state h) h"
  by (simp add: libinjection_h5_next_def)

lemma token_text_bounds: "token_text s h = Some t \<Longrightarrow> token_end h \<le> length s"
  by (simp add: token_text_def token_end_def split: if_splits)

text \<open>The first steps of the functions that read a tag.\<close>

lemma data_step:
  assumes "memchr s (h5_pos h) (CHR ''<'') = Some (Some i)" and "h5_pos h \<le> i" and "i < length s"
    and "h' = h\<lparr>token_start := h5_pos h, token_type := DATA_TEXT, token_len := i - h5_pos h, h5_pos := i + 1,
      h5_state := St_tag_open\<rparr>"
  shows "h5_call s St_data h = (if i = h5_pos h then h5_call s St_tag_open h' else Some (RESULT_TRUE, h'))"
  using assms by (subst h5_call.simps) (simp add: h5_state_data_def size_minus_def Let_def)

lemma end_tag_step:
  "h5_pos h < length s \<Longrightarrow> s ! h5_pos h = CHR ''/'' \<Longrightarrow>
     h5_call s St_tag_open h = h5_call s St_end_tag_open (h\<lparr>h5_pos := h5_pos h + 1, h5_is_close := True\<rparr>)"
  by (subst h5_call.simps) (simp add: h5_state_tag_open_def read_at_def Let_def)

lemma end_name_step:
  "h5_pos h < length s \<Longrightarrow> is_alpha (s ! h5_pos h) \<Longrightarrow> h5_call s St_end_tag_open h = h5_call s St_tag_name h"
  using alpha_no_end [of "s ! h5_pos h"]
  by (subst h5_call.simps) (simp add: h5_state_end_tag_open_def read_at_def)

lemma tag_name_step:
  "h5_pos h < length s \<Longrightarrow> is_alpha (s ! h5_pos h) \<Longrightarrow> h5_call s St_tag_open h = h5_call s St_tag_name h"
  using alpha_no_end [of "s ! h5_pos h"]
  by (subst h5_call.simps) (simp add: h5_state_tag_open_def read_at_def Let_def)

lemma end_empty_step:
  "h5_pos h < length s \<Longrightarrow> s ! h5_pos h = CHR ''>'' \<Longrightarrow>
     h5_call s St_end_tag_open h = h5_call s St_data h"
  by (subst h5_call.simps) (simp add: h5_state_end_tag_open_def read_at_def)

lemma close_step:
  assumes "h5_skip_white s (h5_pos h) = (62, p)"
    and "h' = h\<lparr>token_type := TAG_NAME_CLOSE, token_start := p, token_len := 1, h5_state := St_data, h5_pos := p + 1\<rparr>"
  shows "h5_call s St_before_attribute_name h = Some (RESULT_TRUE, h')"
  using assms by (subst h5_call.simps) (simp add: h5_state_before_attribute_name_def CHAR_EOF_def emit_def Let_def)

text \<open>Text and an end tag up to the end of the input.\<close>

lemma end_tag_passes:
  assumes "CHR ''<'' \<notin> set body" and "tag_word name" and "is_alpha (hd name)"
    and s: "s = pre @ body @ ''</'' @ name @ ''>''" and h: "h5_state h = St_data" "h5_pos h = length pre"
  shows "xss_loop s h attr = Some RESULT_FALSE"
proof -
  let ?h1 = "h\<lparr>token_start := length pre, token_type := DATA_TEXT, token_len := length body,
      h5_pos := length pre + length body + 1, h5_state := St_tag_open\<rparr>"
  let ?h2 = "?h1\<lparr>h5_pos := length pre + length body + 2, h5_is_close := True\<rparr>"
  have m: "memchr s (length pre) (CHR ''<'') = Some (Some (length pre + length body))"
    using memchr_behind [OF assms(1), of pre "''/'' @ name @ ''>''"] s by simp
  have d: "h5_call s St_data h = (if body = [] then h5_call s St_tag_open ?h1 else Some (RESULT_TRUE, ?h1))"
    using data_step [of s h "length pre + length body" ?h1] m h s by simp
  obtain c n where name: "name = c # n" "is_alpha c" using assms(2,3) by (cases name) (auto simp: tag_word_def)
  have at: "s ! (length pre + length body + 1) = CHR ''/''" "s ! (length pre + length body + 2) = c"
    "length pre + length body + 2 < length s"
    using s name by (simp_all add: nth_append)
  have o: "h5_call s St_tag_open ?h1 = h5_call s St_tag_open ?h2"
    using end_tag_step [of ?h1 s] end_name_step [of ?h2 s] tag_name_step [of ?h2 s] at name(2) by simp
  obtain h3 where h3: "h5_call s St_tag_open ?h1 = Some (RESULT_TRUE, h3)" "token_text s h3 = Some name"
    "token_type h3 = TAG_CLOSE" "h5_state h3 = St_data" "h5_pos h3 = length s"
    using tag_token [OF assms(2), of "CHR ''>''" s "pre @ body @ ''</''" "[]" ?h2] s o by auto
  have "libinjection_h5_next s h3 = Some (RESULT_FALSE, h3\<lparr>token_start := length s, token_len := 0,
      token_type := DATA_TEXT, h5_state := St_eof\<rparr>)"
    using h3(4,5) memchr_none [of "CHR ''<''" "[]" s]
    by (simp add: next_call h5_call.simps [of s St_data] h5_state_data_def size_minus_def Let_def)
  then have end3: "xss_loop s h3 attr = Some RESULT_FALSE" for attr by (rule xss_stop)
  have pass3: "xss_loop s q attr = Some RESULT_FALSE" if "libinjection_h5_next s q = Some (RESULT_TRUE, h3)" for q attr
    using that h3(2,3) end3 token_text_bounds plain_token xss_step by auto
  show ?thesis
  proof (cases "body = []")
    case True
    then show ?thesis
      using d h h3(1) by (intro pass3) (simp add: next_call)
  next
    case False
    then have "libinjection_h5_next s h = Some (RESULT_TRUE, ?h1)"
      using d h by (simp add: next_call)
    moreover have "check_token s ?h1 attr = Some (False, TYPE_NONE)"
      using s by (intro plain_token) (simp_all add: token_end_def)
    moreover have "xss_loop s ?h1 TYPE_NONE = Some RESULT_FALSE" using h3(1) by (intro pass3) (simp add: next_call)
    ultimately show ?thesis using xss_step [of s h ?h1 attr TYPE_NONE] by simp
  qed
qed

text \<open>An empty end tag leaves \<open>is_close\<close> set, so the tag behind it is taken for an end tag.\<close>

lemma empty_end_tag_hides:
  assumes "CHR ''<'' \<notin> set body" and "tag_word name" and "is_alpha (hd name)"
    and s: "s = ''></><'' @ name @ ''>'' @ body @ ''</'' @ name @ ''>''"
    and h: "h5_state h = St_tag_open" "h5_pos h = 2" and next_h: "libinjection_h5_next s q = libinjection_h5_next s h"
  shows "xss_loop s q attr = Some RESULT_FALSE"
proof -
  let ?h1 = "h\<lparr>h5_pos := 3, h5_is_close := True\<rparr>"
  let ?h2 = "?h1\<lparr>token_start := 3, token_type := DATA_TEXT, token_len := 1, h5_pos := 5, h5_state := St_tag_open\<rparr>"
  have m: "memchr s 3 (CHR ''<'') = Some (Some 4)"
    using memchr_behind [of "CHR ''<''" "''>''" "''></''" "name @ ''>'' @ body @ ''</'' @ name @ ''>''"]
    by (simp add: s eval_nat_numeral)
  have at: "s ! 2 = CHR ''/''" "s ! 3 = CHR ''>''" "5 < length s" by (simp_all add: s)
  have "h5_call s St_tag_open h = h5_call s St_data ?h1"
    using end_tag_step [of h s] end_empty_step [of ?h1 s] at h by simp
  also have "\<dots> = Some (RESULT_TRUE, ?h2)"
    using data_step [of s ?h1 4 ?h2] m at by simp
  finally have "h5_call s St_tag_open h = Some (RESULT_TRUE, ?h2)" .
  then have n1: "libinjection_h5_next s q = Some (RESULT_TRUE, ?h2)" using next_h h by (simp add: next_call)
  have k1: "check_token s ?h2 attr = Some (False, TYPE_NONE)"
    using s by (intro plain_token) (simp_all add: token_end_def)
  obtain h3 where h3: "h5_call s St_tag_open ?h2 = Some (RESULT_TRUE, h3)" "token_text s h3 = Some name"
    "token_type h3 = TAG_CLOSE" "h5_state h3 = St_data" "h5_pos h3 = 5 + length name + 1"
    using tag_token [OF assms(2), of "CHR ''>''" s "''></><''" "body @ ''</'' @ name @ ''>''" ?h2] s by auto
  have n2: "libinjection_h5_next s ?h2 = Some (RESULT_TRUE, h3)" using h3(1) by (simp add: next_call)
  have k2: "check_token s h3 attr = Some (False, TYPE_NONE)" for attr
    using h3(2,3) token_text_bounds plain_token by auto
  have "xss_loop s h3 attr = Some RESULT_FALSE" for attr
    using end_tag_passes [OF assms(1-3), of s "''></><'' @ name @ ''>''" h3] s h3(4,5) by simp
  then show ?thesis using xss_step [OF n1 k1] xss_step [OF n2 k2] by simp
qed

text \<open>A value without quotes is one harmless token in the contexts of quoted values.\<close>

lemma quoted_context_passes:
  assumes "qf \<in> {VALUE_SINGLE_QUOTE, VALUE_DOUBLE_QUOTE, VALUE_BACK_QUOTE}"
    and "CHR 0x22 \<notin> set s" and "CHR 0x27 \<notin> set s" and "CHR 0x60 \<notin> set s"
  shows "libinjection_is_xss s qf = Some RESULT_FALSE"
proof -
  let ?h = "libinjection_h5_init qf"
  let ?h1 = "?h\<lparr>token_type := ATTR_VALUE, token_start := 0, token_len := length s, h5_state := St_eof, h5_pos := 0\<rparr>"
  have m: "memchr s 0 c = Some None" if "c \<in> {CHR 0x22, CHR 0x27, CHR 0x60}" for c
    using memchr_none [of c s "[]"] that assms(2-4) by auto
  have n: "libinjection_h5_next s ?h = Some (RESULT_TRUE, ?h1)"
    using assms(1) m
    by (elim insertE emptyE)
      (simp_all add: next_call libinjection_h5_init_def h5_call.simps [of s St_attribute_value_double_quote]
        h5_call.simps [of s St_attribute_value_single_quote] h5_call.simps [of s St_attribute_value_back_quote]
        h5_state_attribute_value_quote_def size_minus_def emit_def Let_def)
  have k: "check_token s ?h1 TYPE_NONE = Some (False, TYPE_NONE)" by (simp add: check_token_def token_text_def)
  have "xss_loop s ?h1 TYPE_NONE = Some RESULT_FALSE"
    by (rule xss_stop [of _ _ ?h1]) (simp add: next_call h5_call.simps [of s St_eof])
  then show ?thesis by (simp only: libinjection_is_xss_def xss_step [OF n k])
qed

lemma all_contexts:
  assumes "CHR 0x22 \<notin> set s" and "CHR 0x27 \<notin> set s" and "CHR 0x60 \<notin> set s"
    and "libinjection_is_xss s DATA_STATE = Some RESULT_FALSE"
    and "libinjection_is_xss s VALUE_NO_QUOTE = Some RESULT_FALSE"
  shows "libinjection_xss s = Some RESULT_FALSE"
  using assms quoted_context_passes [OF _ assms(1-3)] by (simp add: libinjection_xss_def)

text \<open>C32: An element without attributes and without a space or slash in its tag, of any name (\<open>script\<close> included) and
  with any text without \<open><\<close> and quotes in it, is not reported when it stands behind the bytes \<open>></>\<close>: the empty end tag
  leaves the flag of an end tag set, so that the opening tag behind it, ended by \<open>>\<close>, is taken for a closing one.
  (A space or a slash behind the name ends it in another state, which does not look at the flag: such tags are found,
  as the lemma below shows.)\<close>

theorem xss_check_misses_element:
  assumes "tag_word name" and "is_alpha (hd name)" and "CHR ''<'' \<notin> set body"
    and "list_all (\<lambda>q. q \<notin> set body) [CHR 0x22, CHR 0x27, CHR 0x60]"
  shows "libinjection_xss (''></><'' @ name @ ''>'' @ body @ ''</'' @ name @ ''>'') = Some RESULT_FALSE"
proof -
  let ?s = "''></><'' @ name @ ''>'' @ body @ ''</'' @ name @ ''>''"
  have nq: "q \<notin> set name" if "q \<in> {CHR 0x22, CHR 0x27, CHR 0x60}" for q
    using that assms(1) by (auto simp: tag_word_def list_all_iff is_alpha_def)
  note hides = empty_end_tag_hides [OF assms(3,1,2) refl]
  show ?thesis
  proof (rule all_contexts)
    let ?h = "libinjection_h5_init DATA_STATE"
    let ?h1 = "?h\<lparr>token_start := 0, token_type := DATA_TEXT, token_len := 1, h5_pos := 2, h5_state := St_tag_open\<rparr>"
    have "memchr ?s 0 (CHR ''<'') = Some (Some 1)"
      using memchr_behind [of "CHR ''<''" "''>''" "[]" "''/><'' @ name @ ''>'' @ body @ ''</'' @ name @ ''>''"] by simp
    then have n: "libinjection_h5_next ?s ?h = Some (RESULT_TRUE, ?h1)"
      using data_step [of ?s ?h 1 ?h1] by (simp add: next_call libinjection_h5_init_def)
    have k: "check_token ?s ?h1 TYPE_NONE = Some (False, TYPE_NONE)"
      by (intro plain_token) (simp_all add: token_end_def)
    have "xss_loop ?s ?h1 TYPE_NONE = Some RESULT_FALSE" by (rule hides [of ?h1]) simp_all
    then show "libinjection_is_xss ?s DATA_STATE = Some RESULT_FALSE"
      by (simp only: libinjection_is_xss_def xss_step [OF n k])
  next
    let ?h = "libinjection_h5_init VALUE_NO_QUOTE"
    let ?h1 = "?h\<lparr>token_type := TAG_NAME_CLOSE, token_start := 0, token_len := 1, h5_state := St_data, h5_pos := 1\<rparr>"
    let ?h2 = "?h1\<lparr>token_start := 1, token_type := DATA_TEXT, token_len := 0, h5_pos := 2, h5_state := St_tag_open\<rparr>"
    have "h5_skip_white ?s 0 = (62, 0)"
      by (subst h5_skip_white.simps) (simp add: signed_char_def)
    then have n: "libinjection_h5_next ?s ?h = Some (RESULT_TRUE, ?h1)"
      using close_step [of ?s ?h 0 ?h1] by (simp add: next_call libinjection_h5_init_def)
    have k: "check_token ?s ?h1 TYPE_NONE = Some (False, TYPE_NONE)"
      by (intro plain_token) (simp_all add: token_end_def)
    have "xss_loop ?s ?h1 TYPE_NONE = Some RESULT_FALSE"
    proof (rule hides [of ?h2])
      have "memchr ?s 1 (CHR ''<'') = Some (Some 1)"
        using memchr_behind [of "CHR ''<''" "[]" "''>''" "''/><'' @ name @ ''>'' @ body @ ''</'' @ name @ ''>''"] by simp
      then show "libinjection_h5_next ?s ?h1 = libinjection_h5_next ?s ?h2"
        using data_step [of ?s ?h1 1 ?h2] by (simp add: next_call)
    qed simp_all
    then show "libinjection_is_xss ?s VALUE_NO_QUOTE = Some RESULT_FALSE"
      by (simp only: libinjection_is_xss_def xss_step [OF n k])
  qed (use nq assms(4) in auto)
qed

lemma xss_check_misses_element_witness:
  "libinjection_xss (''></><'' @ ''script'' @ ''>'' @ ''alert(1)'' @ ''</'' @ ''script'' @ ''>'') = Some RESULT_FALSE"
  by (rule xss_check_misses_element) code_simp+

lemma empty_end_tag_space_found:
  "libinjection_xss ''></><script >alert(1)</script>'' = Some RESULT_TRUE"
  "libinjection_xss ''></><script src=x></script>'' = Some RESULT_TRUE"
  by code_simp+

text \<open>Other inputs that pass: the byte 255, which as a signed character is \<open>CHAR_EOF\<close>, ends the analysis in front of
  the attributes; a tab in the scheme of a URL and a zero byte in the name of an event handler hide them.\<close>

lemma xss_check_stops_at_255:
  "libinjection_xss (''<img '' @ [CHR 0xFF] @ '' src=x onerror=alert(1)>'') = Some RESULT_FALSE"
  by code_simp

lemma xss_check_misses_tab:
  "libinjection_xss (''<a href=ja'' @ [HT] @ ''vascript:alert(1)>'') = Some RESULT_FALSE"
  by code_simp

lemma xss_check_misses_nul:
  "libinjection_xss (''<img src=x on'' @ [NUL] @ ''error=alert(1)>'') = Some RESULT_FALSE"
  by code_simp

end
