(* ===== verification/NgxInet.thy ===== *)
theory NgxInet
  imports NgxPrint
begin

text \<open>
  Internet addresses, \<open>src/core/ngx_inet.c\<close> of nginx: reading and printing addresses, networks in CIDR
  notation, and the match of an address against a list of them, by which every address rule is decided.

  A number in network byte order is represented by its value, so that \<open>htonl\<close>, \<open>ntohl\<close>, \<open>htons\<close> and
  \<open>ntohs\<close> do not show; the \<open>i\<close>-th byte of an \<open>in_addr\<close> in memory is then its \<open>i\<close>-th most significant byte.
  An \<open>in6_addr\<close> is the list of its 16 bytes.
\<close>

unbundle bit_operations_syntax

section \<open>Addresses\<close>

type_synonym in_addr = "32 word"

definition INADDR_NONE :: in_addr where "INADDR_NONE = 0xffffffff"

definition addr_bytes :: "in_addr \<Rightarrow> bytes" where
  "addr_bytes a = map (\<lambda>k. char_of (unat (drop_bit k a))) [24, 16, 8, 0]"

text \<open>\<open>Sockaddr_un\<close> has the bytes of \<open>sun_path\<close> inside \<open>socklen\<close>; \<open>Sockaddr_other\<close> is any other family.\<close>

datatype sockaddr =
    Sockaddr_in in_addr nat
  | Sockaddr_in6 bytes nat
  | Sockaddr_un bytes
  | Sockaddr_other nat

definition ngx_inet_get_port :: "sockaddr \<Rightarrow> nat" where
  "ngx_inet_get_port sa =
     (case sa of Sockaddr_in a port \<Rightarrow> port | Sockaddr_in6 a port \<Rightarrow> port | _ \<Rightarrow> 0)"

definition ngx_inet_set_port :: "sockaddr \<Rightarrow> nat \<Rightarrow> sockaddr" where
  "ngx_inet_set_port sa port =
     (case sa of Sockaddr_in a _ \<Rightarrow> Sockaddr_in a port | Sockaddr_in6 a _ \<Rightarrow> Sockaddr_in6 a port | _ \<Rightarrow> sa)"

definition ngx_inet_wildcard :: "sockaddr \<Rightarrow> bool" where
  "ngx_inet_wildcard sa =
     (case sa of
        Sockaddr_in a _ \<Rightarrow> a = 0
      | Sockaddr_in6 a _ \<Rightarrow> list_all (\<lambda>c. c = NUL) a
      | _ \<Rightarrow> False)"

section \<open>Reading\<close>

fun ngx_inet_addr_loop :: "in_addr \<Rightarrow> nat \<Rightarrow> nat \<Rightarrow> bytes \<Rightarrow> in_addr" where
  "ngx_inet_addr_loop addr octet n [] =
     (if n = 3 then push_bit 8 addr + of_nat octet else INADDR_NONE)"
| "ngx_inet_addr_loop addr octet n (c # p) =
     (if CHR ''0'' \<le> c \<and> c \<le> CHR ''9'' then
        let octet = octet * 10 + (ord c - 48)
        in if octet > 255 then INADDR_NONE else ngx_inet_addr_loop addr octet n p
      else if c = CHR ''.'' then ngx_inet_addr_loop (push_bit 8 addr + of_nat octet) 0 (n + 1) p
      else INADDR_NONE)"

definition ngx_inet_addr :: "bytes \<Rightarrow> in_addr" where
  "ngx_inet_addr text = ngx_inet_addr_loop 0 0 0 text"

text \<open>The variables of \<open>ngx_inet6_addr\<close>: \<open>addr\<close> is what has been written, \<open>zero\<close> an index into it, and \<open>digit\<close>
  the text behind the last colon up to the end (\<open>len4 - 1\<close> bytes).\<close>

record inet6_vars =
  i6_addr :: bytes
  i6_zero :: "nat option"
  i6_digit :: "bytes option"
  i6_nibbles :: nat
  i6_word :: nat
  i6_n :: nat

definition put_word :: "nat \<Rightarrow> bytes" where
  "put_word word = [char_of (drop_bit 8 word), char_of (word AND 0xff)]"

fun ngx_inet6_loop :: "bytes \<Rightarrow> inet6_vars \<Rightarrow> inet6_vars option" where
  "ngx_inet6_loop [] v = Some v"
| "ngx_inet6_loop (c # p) v =
     (if c = CHR '':'' then
        if i6_nibbles v \<noteq> 0 then
          let v = v\<lparr>i6_digit := Some p, i6_addr := i6_addr v @ put_word (i6_word v), i6_n := i6_n v - 1\<rparr>
          in if i6_n v \<noteq> 0 then ngx_inet6_loop p (v\<lparr>i6_nibbles := 0, i6_word := 0\<rparr>) else None
        else if i6_zero v = None then
          ngx_inet6_loop p (v\<lparr>i6_digit := Some p, i6_zero := Some (length (i6_addr v))\<rparr>)
        else None
      else if c = CHR ''.'' \<and> i6_nibbles v \<noteq> 0 then
        case i6_digit v of
          None \<Rightarrow> None
        | Some digit \<Rightarrow>
            if i6_n v < 2 then None
            else
              let word = ngx_inet_addr digit
              in if word = INADDR_NONE then None
                 else Some (v\<lparr>i6_word := unat word,
                   i6_addr := i6_addr v @ [char_of (unat (drop_bit 24 word AND 0xff)),
                                           char_of (unat (drop_bit 16 word AND 0xff))],
                   i6_n := i6_n v - 1\<rparr>)
      else
        let v = v\<lparr>i6_nibbles := i6_nibbles v + 1\<rparr>
        in if i6_nibbles v > 4 then None
           else if CHR ''0'' \<le> c \<and> c \<le> CHR ''9'' then
             ngx_inet6_loop p (v\<lparr>i6_word := i6_word v * 16 + (ord c - 48)\<rparr>)
           else if is_hex_letter c then
             ngx_inet6_loop p (v\<lparr>i6_word := i6_word v * 16 + (ord (or_0x20 c) - 97) + 10\<rparr>)
           else None)"

text \<open>The end of the function: the last word, and the move of what follows \<open>zero\<close> to the end of the address.
  \<open>None\<close> is \<open>NGX_ERROR\<close>.\<close>

definition ngx_inet6_finish :: "inet6_vars \<Rightarrow> bytes option" where
  "ngx_inet6_finish v =
     (if i6_nibbles v = 0 \<and> i6_zero v = None then None
      else
        let addr = i6_addr v @ put_word (i6_word v);
            n = i6_n v - 1
        in if n \<noteq> 0 then
             case i6_zero v of
               Some zero \<Rightarrow> Some (take zero addr @ replicate (2 * n) NUL @ drop zero addr)
             | None \<Rightarrow> None
           else if i6_zero v = None then Some addr else None)"

definition inet6_init :: inet6_vars where
  "inet6_init =
     \<lparr>i6_addr = [], i6_zero = None, i6_digit = None, i6_nibbles = 0, i6_word = 0, i6_n = 8\<rparr>"

definition ngx_inet6_addr :: "bytes \<Rightarrow> bytes option" where
  "ngx_inet6_addr text =
     (if text = [] then None
      else
        let p = (if hd text = CHR '':'' then tl text else text)
        in Option.bind (ngx_inet6_loop p inet6_init) ngx_inet6_finish)"

section \<open>Printing\<close>

definition NGX_INET6_ADDRSTRLEN :: nat where "NGX_INET6_ADDRSTRLEN = 45"
definition NGX_SOCKADDR_STRLEN :: nat where "NGX_SOCKADDR_STRLEN = 113"

abbreviation byte_arg :: "char \<Rightarrow> va_arg" where "byte_arg c \<equiv> IntArg (int (ord c))"

text \<open>The search for the longest run of zero words: \<open>zero\<close>, \<open>last\<close>, \<open>max\<close> and \<open>n\<close> of the code.\<close>

record zero_run =
  zr_zero :: "nat option"
  zr_last :: "nat option"
  zr_max :: nat
  zr_n :: nat

definition zr_close :: "zero_run \<Rightarrow> zero_run" where
  "zr_close z = (if zr_max z < zr_n z then z\<lparr>zr_zero := zr_last z, zr_max := zr_n z\<rparr> else z)"

definition zr_step :: "bytes \<Rightarrow> zero_run \<Rightarrow> nat \<Rightarrow> zero_run" where
  "zr_step p z i =
     (if p ! i \<noteq> NUL \<or> p ! (i + 1) \<noteq> NUL then (zr_close z)\<lparr>zr_n := 0\<rparr>
      else if zr_n z = 0 then z\<lparr>zr_n := 1, zr_last := Some i\<rparr>
      else z\<lparr>zr_n := zr_n z + 1\<rparr>)"

definition find_zero_run :: "bytes \<Rightarrow> zero_run" where
  "find_zero_run p =
     zr_close (foldl (zr_step p) \<lparr>zr_zero = None, zr_last = None, zr_max = 1, zr_n = 0\<rparr>
       [0, 2, 4, 6, 8, 10, 12, 14])"

function ntop_loop :: "bytes \<Rightarrow> nat \<Rightarrow> nat option \<Rightarrow> nat \<Rightarrow> nat \<Rightarrow> bytes \<Rightarrow> bytes option" where
  "ntop_loop p n zero maxrun i dst =
     (if n \<le> i then Some dst
      else if zero = Some i then ntop_loop p n zero maxrun (i + (maxrun - 1) * 2 + 2) (dst @ '':'')
      else
        case ngx_sprintf ''%xd'' [IntArg (int (ord (p ! i) * 256 + ord (p ! (i + 1))))] of
          None \<Rightarrow> None
        | Some s \<Rightarrow> ntop_loop p n zero maxrun (i + 2) (dst @ s @ (if i < 14 then '':'' else [])))"
  by pat_completeness auto
termination
  by (relation "measure (\<lambda>(p, n, zero, max, i, dst). n - i)") auto

declare ntop_loop.simps [simp del]

text \<open>Whether the last four bytes are printed as an IPv4 address.\<close>

definition prints_v4 :: "bytes \<Rightarrow> nat \<Rightarrow> bool" where
  "prints_v4 p maxrun \<longleftrightarrow>
     (maxrun = 5 \<and> ord (p ! 10) = 0xff \<and> ord (p ! 11) = 0xff) \<or> maxrun = 6
     \<or> (maxrun = 7 \<and> ord (p ! 14) \<noteq> 0 \<and> ord (p ! 15) \<noteq> 1)"

definition dotted_quad :: "bytes \<Rightarrow> bytes option" where
  "dotted_quad p = ngx_sprintf ''%ud.%ud.%ud.%ud'' (map byte_arg p)"

definition ngx_inet6_ntop :: "bytes \<Rightarrow> nat \<Rightarrow> bytes option" where
  "ngx_inet6_ntop p len =
     (if len < NGX_INET6_ADDRSTRLEN then Some []
      else
        let z = find_zero_run p;
            first = (zr_zero z = Some 0);
            n = (if first \<and> prints_v4 p (zr_max z) then 12 else 16)
        in case ntop_loop p n (zr_zero z) (zr_max z) 0 (if first then '':'' else []) of
             None \<Rightarrow> None
           | Some dst \<Rightarrow>
               if n = 12 then map_option (\<lambda>s. dst @ s) (dotted_quad (drop 12 p)) else Some dst)"

definition ngx_sock_ntop :: "sockaddr \<Rightarrow> nat \<Rightarrow> bool \<Rightarrow> bytes option" where
  "ngx_sock_ntop sa len port =
     (case sa of
        Sockaddr_in a p \<Rightarrow>
          if port
          then ngx_snprintf len ''%ud.%ud.%ud.%ud:%d'' (map byte_arg (addr_bytes a) @ [IntArg (int p)])
          else ngx_snprintf len ''%ud.%ud.%ud.%ud'' (map byte_arg (addr_bytes a))
      | Sockaddr_in6 a p \<Rightarrow>
          (case ngx_inet6_ntop a len of
             None \<Rightarrow> None
           | Some t \<Rightarrow>
               if port then map_option (\<lambda>s. ''['' @ t @ s) (ngx_sprintf '']:%d'' [IntArg (int p)])
               else Some t)
      | Sockaddr_un path \<Rightarrow>
          let n = length (takeWhile (\<lambda>c. c \<noteq> NUL) path);
              text = (if path = [] then ngx_snprintf len ''unix:%Z'' []
                      else ngx_snprintf len ''unix:%*s%Z'' [SizeArg n, CharsArg path])
          in (case text of Some t \<Rightarrow> if t = [] then None else Some (butlast t) | None \<Rightarrow> None)
      | Sockaddr_other _ \<Rightarrow> Some [])"

section \<open>Networks\<close>

definition strlchr :: "bytes \<Rightarrow> char \<Rightarrow> nat option" where
  "strlchr s c = (let i = length (takeWhile (\<lambda>x. x \<noteq> c) s) in if i < length s then Some i else None)"

datatype cidr =
    Cidr_in in_addr in_addr
  | Cidr_in6 bytes bytes
  | Cidr_un
  | Cidr_other nat

definition and_byte :: "char \<Rightarrow> char \<Rightarrow> char" where
  "and_byte a m = char_of (ord a AND ord m)"

fun mask_loop :: "int \<Rightarrow> bytes \<Rightarrow> int \<times> bytes \<times> bytes" where
  "mask_loop shift [] = (NGX_OK, [], [])"
| "mask_loop shift (a # addr) =
     (let s = (if shift > 8 then 8 else nat shift);
          m = char_of (push_bit (8 - s) (0xff :: nat));
          (rc, addr', mask) = mask_loop (shift - int s) addr
      in if a \<noteq> and_byte a m then (NGX_DONE, and_byte a m # addr', m # mask) else (rc, a # addr', m # mask))"

definition in_cidr :: "in_addr \<Rightarrow> nat \<Rightarrow> int \<times> cidr" where
  "in_cidr addr shift =
     (let netmask = (if shift \<noteq> 0 then push_bit (32 - shift) 0xffffffff else 0)
      in if addr = addr AND netmask then (NGX_OK, Cidr_in addr netmask)
         else (NGX_DONE, Cidr_in (addr AND netmask) netmask))"

text \<open>The return code and the network that is stored.\<close>

definition ngx_ptocidr :: "bytes \<Rightarrow> int \<times> cidr option" where
  "ngx_ptocidr text =
     (let netmask = strlchr text (CHR ''/'');
          addr = (case netmask of Some i \<Rightarrow> take i text | None \<Rightarrow> text);
          inaddr = ngx_inet_addr addr;
          shift = (case netmask of Some i \<Rightarrow> ngx_atoi (drop (i + 1) text) | None \<Rightarrow> 0)
      in if inaddr \<noteq> INADDR_NONE then
           if netmask = None then (NGX_OK, Some (Cidr_in inaddr 0xffffffff))
           else if shift = NGX_ERROR then (NGX_ERROR, None)
           else if shift > 32 then (NGX_ERROR, None)
           else map_prod id Some (in_cidr inaddr (nat shift))
         else
           case ngx_inet6_addr addr of
             None \<Rightarrow> (NGX_ERROR, None)
           | Some addr6 \<Rightarrow>
               if netmask = None then (NGX_OK, Some (Cidr_in6 addr6 (replicate 16 (CHR 0xFF))))
               else if shift = NGX_ERROR then (NGX_ERROR, None)
               else if shift > 128 then (NGX_ERROR, None)
               else case mask_loop shift addr6 of (rc, addr', m) \<Rightarrow> (rc, Some (Cidr_in6 addr' m)))"

definition IN6_IS_ADDR_V4MAPPED :: "bytes \<Rightarrow> bool" where
  "IN6_IS_ADDR_V4MAPPED a \<longleftrightarrow> take 12 a = replicate 10 NUL @ replicate 2 (CHR 0xFF)"

definition v4_of_mapped :: "bytes \<Rightarrow> in_addr" where
  "v4_of_mapped p =
     push_bit 24 (of_nat (ord (p ! 12))) + push_bit 16 (of_nat (ord (p ! 13)))
     + push_bit 8 (of_nat (ord (p ! 14))) + of_nat (ord (p ! 15))"

text \<open>One entry of the list, for an address that is not a mapped one.\<close>

definition cidr_entry :: "sockaddr \<Rightarrow> cidr \<Rightarrow> bool" where
  "cidr_entry sa c =
     (case (sa, c) of
        (Sockaddr_in inaddr _, Cidr_in addr netmask) \<Rightarrow> inaddr AND netmask = addr
      | (Sockaddr_in6 inaddr6 _, Cidr_in6 addr netmask) \<Rightarrow>
          list_all (\<lambda>n. and_byte (inaddr6 ! n) (netmask ! n) = addr ! n) [0..<16]
      | (Sockaddr_un _, Cidr_un) \<Rightarrow> True
      | _ \<Rightarrow> False)"

definition ngx_cidr_match :: "sockaddr \<Rightarrow> cidr list \<Rightarrow> int" where
  "ngx_cidr_match sa cidrs =
     (let sa = (case sa of
                  Sockaddr_in6 a port \<Rightarrow>
                    if IN6_IS_ADDR_V4MAPPED a then Sockaddr_in (v4_of_mapped a) port else sa
                | _ \<Rightarrow> sa)
      in if list_ex (cidr_entry sa) cidrs then NGX_OK else NGX_DECLINED)"

section \<open>Addresses with ports\<close>

text \<open>\<open>alloc\<close> says whether the allocation of the address succeeds.\<close>

definition ngx_parse_addr :: "bool \<Rightarrow> bytes \<Rightarrow> int + sockaddr" where
  "ngx_parse_addr alloc text =
     (let inaddr = ngx_inet_addr text
      in if inaddr \<noteq> INADDR_NONE then
           if alloc then Inr (Sockaddr_in inaddr 0) else Inl NGX_ERROR
         else
           case ngx_inet6_addr text of
             Some a \<Rightarrow> if alloc then Inr (Sockaddr_in6 a 0) else Inl NGX_ERROR
           | None \<Rightarrow> Inl NGX_DECLINED)"

text \<open>The port behind index \<open>p\<close>, and the address of the bytes that are left of \<open>len\<close> from \<open>text\<close> on.\<close>

definition parse_port_of :: "bool \<Rightarrow> bytes \<Rightarrow> nat \<Rightarrow> nat \<Rightarrow> nat \<Rightarrow> int + sockaddr" where
  "parse_port_of alloc s text len p =
     (let plen = length s - p;
          port = ngx_atoi (drop p s)
      in if port < 1 \<or> port > 65535 then Inl NGX_DECLINED
         else
           case ngx_parse_addr alloc (take (len - (plen + 1)) (drop text s)) of
             Inl rc \<Rightarrow> Inl rc
           | Inr sa \<Rightarrow> Inr (ngx_inet_set_port sa (nat port)))"

definition ngx_parse_addr_port :: "bool \<Rightarrow> bytes \<Rightarrow> int + sockaddr" where
  "ngx_parse_addr_port alloc s =
     (if ngx_parse_addr alloc s \<noteq> Inl NGX_DECLINED then ngx_parse_addr alloc s
      else if s \<noteq> [] \<and> hd s = CHR ''['' then
        case strlchr s (CHR '']'') of
          None \<Rightarrow> Inl NGX_DECLINED
        | Some p \<Rightarrow>
            if p = length s - 1 then ngx_parse_addr alloc (take (length s - 2) (drop 1 s))
            else if s ! (p + 1) \<noteq> CHR '':'' then Inl NGX_DECLINED
            else parse_port_of alloc s 1 (length s - 2) (p + 2)
      else
        case strlchr s (CHR '':'') of
          None \<Rightarrow> Inl NGX_DECLINED
        | Some p \<Rightarrow> parse_port_of alloc s 0 (length s) (p + 1))"

end
