(* ===== verification/InetText.thy ===== *)
theory InetText
  imports NgxInet
begin

text \<open>
  What \<open>ngx_sock_ntop\<close> prints is read back by \<open>ngx_parse_addr_port\<close>: the texts of IPv6 addresses with their run
  of zeros and their IPv4 tail, the dotted quads of IPv4, and the ports.
\<close>

section \<open>IPv6 addresses are read back\<close>

abbreviation hex_text :: "nat \<Rightarrow> bytes" where "hex_text w \<equiv> hex_digits hex_digits_lower w []"

lemma read_spec_xd: "read_spec ''xd'' args = Some (CHR '' '', 0, fspec_init\<lparr>f_hex := 1, f_sign := False\<rparr>, CHR ''d'', [], args)"
  by (simp add: read_spec_def Let_def fspec_init_def)

lemma sprintf_xd:
  assumes "w < 65536"
  shows "ngx_sprintf ''%xd'' [IntArg (int w)] = Some (hex_text w)"
proof -
  have "u32 (int w) = int w" "u64 (int w) = int w" using assms by (simp_all add: u32_id u64_id)
  then show ?thesis
    by (simp add: ngx_sprintf_def ngx_vslprintf.simps has_room_def read_spec_xd convert_def is_integer_conversion_def
        is_str_conversion_def fmt_integer_def fspec_init_def put_integer_def ngx_sprintf_num_def put_bytes_def Let_def)
qed

lemma hex_text_digits: "hex_digits t n p = hex_digits t n [] @ p"
proof (induction n arbitrary: p rule: less_induct)
  case (less n)
  have s: "hex_digits t n p = (if n div 16 = 0 then t ! (n mod 16) # p else hex_digits t (n div 16) (t ! (n mod 16) # p))" for p
    by (subst hex_digits.simps) (simp add: Let_def drop_bit_eq_div and_masks)
  show ?case
  proof (cases "n div 16 = 0")
    case False
    then have lt: "n div 16 < n" by (cases n) auto
    show ?thesis
      unfolding s [of p] s [of "[]"] using False less [OF lt, of "t ! (n mod 16) # p"] less [OF lt, of "[t ! (n mod 16)]"] by simp
  qed (simp add: s)
qed

lemma hex_text_length: "n < 16 ^ Suc k \<Longrightarrow> length (hex_digits t n []) \<le> Suc k"
proof (induction k arbitrary: n)
  case 0
  then show ?case by (subst hex_digits.simps) (simp add: Let_def drop_bit_eq_div)
next
  case (Suc k)
  then have "length (hex_digits t (n div 16) []) \<le> Suc k" by (intro Suc.IH) simp
  then show ?case
    using hex_text_digits [of t "n div 16" "[t ! (n mod 16)]"]
    by (subst hex_digits.simps) (simp add: Let_def drop_bit_eq_div and_masks)
qed

lemma hex_text_spec:
  assumes "w < 65536"
  shows "list_all is_hex (hex_text w)" and "hex_value (hex_text w) = int w"
    and "1 \<le> length (hex_text w)" and "length (hex_text w) \<le> 4"
proof -
  obtain s where s: "\<forall>p. hex_digits hex_digits_lower w p = s @ p" "s \<noteq> []" "\<forall>c\<in>set s. is_hex c" "hex_value s = int w"
    using hex_digits_spec [OF hex_alphabets(1), of w] by blast
  from s(1) have h: "hex_text w = s" by simp
  show "list_all is_hex (hex_text w)" "hex_value (hex_text w) = int w" using s h by (simp_all add: list_all_iff)
  show "1 \<le> length (hex_text w)" using s(2) h by (cases s) auto
  show "length (hex_text w) \<le> 4"
    using hex_text_length [of w 3] assms by simp
qed

text \<open>Reading: one digit, one word, several words.\<close>

lemma read_digit:
  assumes "is_hex c" and "i6_nibbles v < 4"
  shows "ngx_inet6_loop (c # p) v = ngx_inet6_loop p
    (v\<lparr>i6_nibbles := i6_nibbles v + 1, i6_word := nat (int (i6_word v) * 16 + hex_digit c)\<rparr>)"
proof (cases "is_digit c")
  case True
  then have "nat (int (i6_word v) * 16 + hex_digit c) = i6_word v * 16 + (ord c - 48)"
    by (auto simp: hex_digit_def digit_of_def is_digit_ord nat_add_distrib)
  moreover have "c \<noteq> CHR '':''" "c \<noteq> CHR ''.''" using True by (auto simp: is_digit_def less_eq_char_def)
  ultimately show ?thesis using True assms(2) by (simp add: is_digit_def Let_def)
next
  case False
  then have l: "is_hex_letter c" using assms(1) by (simp add: is_hex_def)
  then have "97 \<le> ord (or_0x20 c)" by (simp add: is_hex_letter_def less_eq_char_def)
  then have "nat (int (i6_word v) * 16 + hex_digit c) = i6_word v * 16 + (ord (or_0x20 c) - 97) + 10"
    using False by (simp add: hex_digit_def hex_letter_of_def)
  moreover have "c \<noteq> CHR '':''" "c \<noteq> CHR ''.''" using l by (auto simp: is_hex_letter_ord)
  ultimately show ?thesis using False l assms(2) by (auto simp: is_digit_def Let_def)
qed

lemma read_digits:
  "list_all is_hex s \<Longrightarrow> i6_nibbles v + length s \<le> 4 \<Longrightarrow>
   ngx_inet6_loop (s @ p) v = ngx_inet6_loop p
    (v\<lparr>i6_nibbles := i6_nibbles v + length s, i6_word := nat (horner 16 (int (i6_word v)) (map hex_digit s))\<rparr>)"
proof (induction s arbitrary: v)
  case (Cons c s)
  have "0 \<le> int (i6_word v) * 16 + hex_digit c" using hex_digit_range [of c] Cons.prems(1) by simp
  with Cons show ?case using read_digit [of c v "s @ p"] by simp
qed simp

definition fresh_word :: "inet6_vars \<Rightarrow> bool" where
  "fresh_word v \<longleftrightarrow> i6_nibbles v = 0 \<and> i6_word v = 0"

lemma read_hex_text:
  assumes "w < 65536" and "fresh_word v"
  shows "ngx_inet6_loop (hex_text w @ p) v =
    ngx_inet6_loop p (v\<lparr>i6_nibbles := length (hex_text w), i6_word := w\<rparr>)"
  using read_digits [OF hex_text_spec(1) [OF assms(1)], of v p] hex_text_spec [OF assms(1)] assms(2)
  by (simp add: fresh_word_def hex_value_def)

definition colons :: "nat list \<Rightarrow> bytes" where
  "colons ws = concat (map (\<lambda>w. hex_text w @ '':'') ws)"

lemma colons_simps [simp]:
  "colons [] = []" "colons (w # ws) = hex_text w @ CHR '':'' # colons ws" "colons (ws @ vs) = colons ws @ colons vs"
  by (simp_all add: colons_def)

lemma read_colons:
  "list_all (\<lambda>w. w < 65536) ws \<Longrightarrow> fresh_word v \<Longrightarrow> length ws < i6_n v \<Longrightarrow>
   ngx_inet6_loop (colons ws @ p) v = ngx_inet6_loop p
     (v\<lparr>i6_addr := i6_addr v @ concat (map put_word ws), i6_n := i6_n v - length ws,
        i6_digit := if ws = [] then i6_digit v else Some p\<rparr>)"
proof (induction ws arbitrary: v)
  case (Cons w ws)
  let ?v = "v\<lparr>i6_digit := Some (colons ws @ p), i6_addr := i6_addr v @ put_word w, i6_n := i6_n v - 1\<rparr>"
  have "ngx_inet6_loop (colons (w # ws) @ p) v = ngx_inet6_loop (colons ws @ p) ?v"
  proof -
    have "?v\<lparr>i6_nibbles := 0, i6_word := 0\<rparr> = ?v" using Cons.prems(2) by (cases v) (simp add: fresh_word_def)
    moreover have "hex_text w \<noteq> []" using hex_text_spec(3) [of w] Cons.prems(1) by auto
    ultimately show ?thesis
      using Cons.prems read_hex_text [of w v "CHR '':'' # colons ws @ p"] by (simp add: Let_def)
  qed
  also have "\<dots> = ngx_inet6_loop p
     (?v\<lparr>i6_addr := i6_addr ?v @ concat (map put_word ws), i6_n := i6_n ?v - length ws,
        i6_digit := if ws = [] then i6_digit ?v else Some p\<rparr>)"
    using Cons.prems by (intro Cons.IH) (auto simp: fresh_word_def)
  finally show ?case by (cases ws) simp_all
qed simp

text \<open>The words of an address, and their texts.\<close>

definition word_at :: "bytes \<Rightarrow> nat \<Rightarrow> nat" where
  "word_at p k = ord (p ! (2 * k)) * 256 + ord (p ! (2 * k + 1))"

lemma word_at_less: "word_at p k < 65536"
  using ord_le_255 [of "p ! (2 * k)"] ord_le_255 [of "p ! (2 * k + 1)"] by (simp add: word_at_def)

lemma put_word_at: "put_word (word_at p k) = [p ! (2 * k), p ! (2 * k + 1)]"
proof -
  have "word_at p k div 256 = ord (p ! (2 * k))" "word_at p k mod 256 = ord (p ! (2 * k + 1))"
    using ord_less_256 [of "p ! (2 * k + 1)"] by (simp_all add: word_at_def)
  then show ?thesis by (simp add: put_word_def drop_bit_eq_div and_masks)
qed

definition words :: "bytes \<Rightarrow> nat \<Rightarrow> nat \<Rightarrow> nat list" where
  "words p a b = map (word_at p) [a..<b]"

lemma words_less: "list_all (\<lambda>w. w < 65536) (words p a b)"
  by (simp add: words_def list_all_iff word_at_less)

lemma length_words [simp]: "length (words p a b) = b - a"
  by (simp add: words_def)

lemma words_step: "a < b \<Longrightarrow> words p a b = word_at p a # words p (Suc a) b"
  by (simp add: words_def upt_conv_Cons)

lemma words_empty [simp]: "b \<le> a \<Longrightarrow> words p a b = []"
  by (simp add: words_def)

lemma put_words: "2 * b \<le> length p \<Longrightarrow> concat (map put_word (words p a b)) = take (2 * b - 2 * a) (drop (2 * a) p)"
proof (induction "b - a" arbitrary: a)
  case (Suc n)
  then have ab: "a < b" by simp
  have d: "drop (2 * a) p = p ! (2 * a) # p ! (2 * a + 1) # drop (2 * Suc a) p"
    using ab Suc.prems by (simp add: Cons_nth_drop_Suc)
  have "2 * b - 2 * a = Suc (Suc (2 * b - 2 * Suc a))" using ab by simp
  then show ?case
    using Suc.hyps(1) [of "Suc a"] Suc.hyps(2) Suc.prems ab by (simp add: words_step put_word_at d)
qed simp

fun joined :: "nat list \<Rightarrow> bytes" where
  "joined [] = []"
| "joined [w] = hex_text w"
| "joined (w # ws) = hex_text w @ CHR '':'' # joined ws"

lemma joined_colons: "ws \<noteq> [] \<Longrightarrow> joined ws = colons (butlast ws) @ hex_text (last ws)"
  by (induction ws rule: joined.induct) simp_all

lemma ntop_step:
  assumes "2 * k < n" and "zero \<noteq> Some (2 * k)"
  shows "ntop_loop p n zero m (2 * k) dst =
    ntop_loop p n zero m (2 * Suc k) (dst @ hex_text (word_at p k) @ (if k < 7 then '':'' else []))"
proof -
  have "ngx_sprintf ''%xd'' [IntArg (int (ord (p ! (2 * k)) * 256 + ord (p ! (2 * k + 1))))] = Some (hex_text (word_at p k))"
    using sprintf_xd [OF word_at_less, of p k] unfolding word_at_def .
  then show ?thesis
    using assms by (subst ntop_loop.simps) simp
qed

lemma ntop_rest:
  assumes "k \<le> 8" and "case zero of None \<Rightarrow> True | Some z \<Rightarrow> z < 2 * k"
  shows "ntop_loop p 16 zero m (2 * k) dst = Some (dst @ joined (words p k 8))"
  using assms
proof (induction "8 - k" arbitrary: k dst)
  case 0
  then have k: "k = 8" by simp
  show ?case unfolding k by (subst ntop_loop.simps) simp
next
  case (Suc n)
  then have k: "k < 8" by simp
  have "zero \<noteq> Some (2 * k)" using Suc.prems(2) by auto
  then have "ntop_loop p 16 zero m (2 * k) dst =
      Some (dst @ hex_text (word_at p k) @ (if k < 7 then '':'' else []) @ joined (words p (Suc k) 8))"
    using ntop_step [of k 16 zero p m dst] Suc.hyps(1) [of "Suc k"] Suc.hyps(2) Suc.prems k
    by (auto split: option.splits)
  moreover have "joined (words p k 8) = hex_text (word_at p k) @ (if k < 7 then '':'' else []) @ joined (words p (Suc k) 8)"
    using k words_step [of k 8 p] words_step [of "Suc k" 8 p] by (cases "k < 7") simp_all
  ultimately show ?case by simp
qed

lemma ntop_before:
  assumes "k \<le> z" and "z < 8"
  shows "ntop_loop p 16 (Some (2 * z)) m (2 * k) dst =
    ntop_loop p 16 (Some (2 * z)) m (2 * z) (dst @ colons (words p k z))"
  using assms
proof (induction "z - k" arbitrary: k dst)
  case (Suc n)
  then have "k < z" by simp
  then show ?case
    using ntop_step [of k 16 "Some (2 * z)" p m dst] Suc.hyps(1) [of "Suc k"] Suc.hyps(2) Suc.prems
    by (simp add: words_step)
qed simp

lemma ntop_gap:
  assumes "2 * z < n" and "1 \<le> m"
  shows "ntop_loop p n (Some (2 * z)) m (2 * z) dst = ntop_loop p n (Some (2 * z)) m (2 * (z + m)) (dst @ '':'')"
proof -
  obtain m' where m: "m = Suc m'" using assms(2) by (cases m) simp_all
  show ?thesis unfolding m using assms(1) by (subst ntop_loop.simps) (simp add: algebra_simps)
qed

text \<open>What is written for an address with the run of zeros at \<open>z\<close>, without an IPv4 tail.\<close>

lemma ntop_with_gap:
  assumes "z + m \<le> 8" and "2 \<le> m"
  shows "ntop_loop p 16 (Some (2 * z)) m 0 dst =
    Some (dst @ colons (words p 0 z) @ '':'' @ joined (words p (z + m) 8))"
  using assms ntop_before [of 0 z p m dst] ntop_gap [of z 16 m p "dst @ colons (words p 0 z)"]
    ntop_rest [of "z + m" "Some (2 * z)" p m "dst @ colons (words p 0 z) @ '':''"]
  by simp

text \<open>Reading from the second colon on.\<close>

lemma read_joined:
  assumes "list_all (\<lambda>w. w < 65536) ws" and "ws \<noteq> []" and "fresh_word v" and "length ws \<le> i6_n v"
  shows "\<exists>d k. ngx_inet6_loop (joined ws) v = Some (v\<lparr>i6_addr := i6_addr v @ concat (map put_word (butlast ws)),
      i6_n := i6_n v - (length ws - 1), i6_digit := d, i6_nibbles := Suc k, i6_word := last ws\<rparr>)"
proof -
  have all: "list_all (\<lambda>w. w < 65536) (butlast ws)" "last ws < 65536"
    using assms(1,2) by (auto simp: list_all_iff dest: in_set_butlastD)
  obtain k where k: "length (hex_text (last ws)) = Suc k"
    using hex_text_spec(3) [OF all(2)] by (cases "length (hex_text (last ws))") auto
  have lt: "length (butlast ws) < i6_n v" using assms(2,4) by (cases ws) auto
  show ?thesis
    unfolding joined_colons [OF assms(2)] read_colons [OF all(1) assms(3) lt]
    using read_hex_text [OF all(2), where p = "[]"] assms(3) k by (fastforce simp: fresh_word_def)
qed

lemma put_butlast: "ws \<noteq> [] \<Longrightarrow> concat (map put_word ws) = concat (map put_word (butlast ws)) @ put_word (last ws)"
  by (cases ws rule: rev_cases) simp_all

lemma read_tail:
  assumes "list_all (\<lambda>w. w < 65536) ws" and "fresh_word v" and "i6_zero v = None" and "length ws + 2 \<le> i6_n v"
  shows "Option.bind (ngx_inet6_loop ('':'' @ joined ws) v) ngx_inet6_finish =
    Some (i6_addr v @ replicate (2 * (i6_n v - length ws)) NUL @ concat (map put_word ws))"
proof -
  let ?v = "v\<lparr>i6_digit := Some (joined ws), i6_zero := Some (length (i6_addr v))\<rparr>"
  have s: "ngx_inet6_loop ('':'' @ joined ws) v = ngx_inet6_loop (joined ws) ?v"
    using assms(2,3) by (simp add: fresh_word_def)
  show ?thesis
  proof (cases "ws = []")
    case True
    have "put_word 0 = [NUL, NUL]" by code_simp
    moreover obtain n where "i6_n v = Suc (Suc n)" using assms(4) that [of "i6_n v - 2"] True by simp
    moreover have "replicate (2 * Suc (Suc n)) NUL = replicate (2 * Suc n) NUL @ [NUL, NUL]"
    proof -
      have "2 * Suc (Suc n) = 2 * Suc n + 2" by simp
      then have "replicate (2 * Suc (Suc n)) NUL = replicate (2 * Suc n) NUL @ replicate 2 NUL"
        by (simp only: replicate_add)
      also have "replicate 2 NUL = [NUL, NUL]" by code_simp
      finally show ?thesis .
    qed
    ultimately show ?thesis
      using True s assms(2,3) by (simp add: fresh_word_def ngx_inet6_finish_def del: replicate_Suc mult_Suc_right)
  next
    case False
    have "fresh_word ?v" using assms(2) by (simp add: fresh_word_def)
    then obtain d k where l: "ngx_inet6_loop (joined ws) ?v = Some (?v\<lparr>i6_addr := i6_addr v @ concat (map put_word (butlast ws)),
      i6_n := i6_n v - (length ws - 1), i6_digit := d, i6_nibbles := Suc k, i6_word := last ws\<rparr>)"
      using read_joined [OF assms(1) False, of ?v] assms(4) by auto
    have "i6_n v - (length ws - 1) - 1 = i6_n v - length ws" using False by (cases ws) simp_all
    then show ?thesis
      using l s put_butlast [OF False] assms(4) by (simp add: ngx_inet6_finish_def Let_def)
  qed
qed

text \<open>The search finds a run of at least two zero words.\<close>

definition zero_words :: "bytes \<Rightarrow> nat \<Rightarrow> nat \<Rightarrow> bool" where
  "zero_words p a b \<longleftrightarrow> (\<forall>k. a \<le> k \<and> k < b \<longrightarrow> word_at p k = 0)"

definition run_found :: "bytes \<Rightarrow> nat \<Rightarrow> nat option \<Rightarrow> nat \<Rightarrow> bool" where
  "run_found p k zero m \<longleftrightarrow>
     (case zero of
        None \<Rightarrow> m = 1
      | Some i \<Rightarrow> \<exists>z. i = 2 * z \<and> 2 \<le> m \<and> z + m \<le> k \<and> zero_words p z (z + m))"

definition run_inv :: "bytes \<Rightarrow> nat \<Rightarrow> zero_run \<Rightarrow> bool" where
  "run_inv p k z \<longleftrightarrow> run_found p k (zr_zero z) (zr_max z) \<and> zr_n z \<le> k \<and> zero_words p (k - zr_n z) k
     \<and> (0 < zr_n z \<longrightarrow> zr_last z = Some (2 * (k - zr_n z)))"

lemma run_found_more: "run_found p k zero m \<Longrightarrow> k \<le> k' \<Longrightarrow> run_found p k' zero m"
  by (fastforce simp: run_found_def split: option.splits)

lemma word_at_zero: "word_at p k = 0 \<longleftrightarrow> p ! (2 * k) = NUL \<and> p ! (2 * k + 1) = NUL"
  by (simp add: word_at_def char_eq_ord [where d = NUL])

lemma run_close:
  assumes "run_inv p k z"
  shows "run_found p k (zr_zero (zr_close z)) (zr_max (zr_close z))"
proof (cases "zr_max z < zr_n z")
  case True
  moreover have "1 \<le> zr_max z" using assms by (auto simp: run_inv_def run_found_def split: option.splits)
  ultimately show ?thesis
    using assms by (auto simp: zr_close_def run_inv_def run_found_def)
next
  case False
  then show ?thesis using assms by (simp add: zr_close_def run_inv_def)
qed

lemma run_step:
  assumes "run_inv p k z"
  shows "run_inv p (Suc k) (zr_step p z (2 * k))"
proof (cases "word_at p k = 0")
  case False
  then have "zr_step p z (2 * k) = (zr_close z)\<lparr>zr_n := 0\<rparr>" by (auto simp: zr_step_def word_at_zero)
  then show ?thesis
    using run_found_more [OF run_close [OF assms], of "Suc k"] by (simp add: run_inv_def zero_words_def)
next
  case True
  then have s: "zr_step p z (2 * k) = (if zr_n z = 0 then z\<lparr>zr_n := 1, zr_last := Some (2 * k)\<rparr> else z\<lparr>zr_n := zr_n z + 1\<rparr>)"
    by (auto simp: zr_step_def word_at_zero)
  have "zero_words p (k - zr_n z) (Suc k)"
    using assms True by (auto simp: run_inv_def zero_words_def less_Suc_eq)
  moreover have "zero_words p k (Suc k)" using True by (auto simp: zero_words_def less_Suc_eq)
  ultimately show ?thesis
    unfolding s using assms run_found_more [of p k "zr_zero z" "zr_max z" "Suc k"]
    by (auto simp: run_inv_def)
qed

lemma zero_run_found: "run_found p 8 (zr_zero (find_zero_run p)) (zr_max (find_zero_run p))"
proof -
  let ?z = "\<lambda>k. foldl (zr_step p) \<lparr>zr_zero = None, zr_last = None, zr_max = 1, zr_n = 0\<rparr> (map (\<lambda>k. 2 * k) [0..<k])"
  have "run_inv p k (?z k)" for k
  proof (induction k)
    case 0
    show ?case by (simp add: run_inv_def run_found_def zero_words_def)
  next
    case (Suc k)
    then show ?case using run_step by simp
  qed
  from run_close [OF this [of 8]] show ?thesis by (simp add: find_zero_run_def upt_rec)
qed

section \<open>IPv4 addresses\<close>

definition dots :: "bytes \<Rightarrow> bytes" where
  "dots q = concat (map (\<lambda>c. dec_digits (ord c) [] @ ''.'') (butlast q)) @ dec_digits (ord (last q)) []"

definition v4_number :: "bytes \<Rightarrow> nat" where
  "v4_number q = ((ord (q ! 0) * 256 + ord (q ! 1)) * 256 + ord (q ! 2)) * 256 + ord (q ! 3)"

lemma list_of_four: "length q = 4 \<Longrightarrow> \<exists>a b c d. q = [a, b, c, d]"
  by (cases q; cases "tl q"; cases "tl (tl q)"; cases "tl (tl (tl q))") auto

lemma read_spec_ud:
  "read_spec (''ud'' @ fmt) args = Some (CHR '' '', 0, fspec_init\<lparr>f_sign := False\<rparr>, CHR ''d'', fmt, args)"
  "read_spec (''d'' @ fmt) args = Some (CHR '' '', 0, fspec_init, CHR ''d'', fmt, args)"
  by (simp_all add: read_spec_def Let_def fspec_init_def)

lemma print_ud:
  assumes "0 \<le> v" "v < 2147483648"
  shows "ngx_vslprintf None buf (CHR ''%'' # ''ud'' @ fmt) (IntArg v # args)
      = ngx_vslprintf None (buf @ dec_digits (nat v) []) fmt args"
    and "ngx_vslprintf None buf (CHR ''%'' # ''d'' @ fmt) (IntArg v # args)
      = ngx_vslprintf None (buf @ dec_digits (nat v) []) fmt args"
proof -
  have "u32 v = v" "s32 v = v" "u64 v = v" using assms by (simp_all add: u32_id u64_id s32_def)
  then show "ngx_vslprintf None buf (CHR ''%'' # ''ud'' @ fmt) (IntArg v # args)
      = ngx_vslprintf None (buf @ dec_digits (nat v) []) fmt args"
    and "ngx_vslprintf None buf (CHR ''%'' # ''d'' @ fmt) (IntArg v # args)
      = ngx_vslprintf None (buf @ dec_digits (nat v) []) fmt args"
    using assms(1)
    by (simp_all add: ngx_vslprintf.simps(2) has_room_def read_spec_ud [simplified] convert_def is_integer_conversion_def
        is_str_conversion_def fmt_integer_def fspec_init_def put_integer_def ngx_sprintf_num_def put_bytes_def Let_def)
qed

lemma print_char: "c \<noteq> CHR ''%'' \<Longrightarrow> ngx_vslprintf None buf (c # fmt) args = ngx_vslprintf None (buf @ [c]) fmt args"
  by (simp add: ngx_vslprintf.simps(2) has_room_def)

lemma dotted_quad_text: "length q = 4 \<Longrightarrow> dotted_quad q = Some (dots q)"
  using list_of_four [of q]
  by (auto simp: dotted_quad_def ngx_sprintf_def dots_def print_char
      print_ud(1) [simplified, OF _ order.strict_trans1 [OF of_nat_mono [OF ord_le_255]]])

lemma unat_byte: "unat (drop_bit k w AND 0xff) = (unat w div 2 ^ k) mod 256" for w :: in_addr
proof -
  have "drop_bit k w AND 0xff = take_bit 8 (drop_bit k w)"
    by (simp add: take_bit_eq_mask mask_eq_exp_minus_1)
  then have "unat (drop_bit k w AND 0xff) = take_bit 8 (drop_bit k (unat w))"
    using take_bit_nat_eq_self [OF unsigned_less [of w]] by (simp only: unsigned_take_bit_eq unsigned_drop_bit_eq)
  then show ?thesis by (simp only: take_bit_eq_mod drop_bit_eq_div) simp
qed

lemma char_of_mod_256: "char_of (n mod 256) = (char_of n :: char)" for n :: nat
  by (metis char_of_mod_256 char_of_nat)

lemma horner_digits_le: "all_digits s \<Longrightarrow> 0 \<le> v \<Longrightarrow> v \<le> horner 10 v (map digit_of s)"
  using horner_ge [of 10 v "map digit_of s"] digit_of_nonneg [of s] by simp

lemma inet_digits:
  "all_digits s \<Longrightarrow> horner 10 (int oct) (map digit_of s) \<le> 255 \<Longrightarrow>
   ngx_inet_addr_loop addr oct n (s @ p) = ngx_inet_addr_loop addr (nat (horner 10 (int oct) (map digit_of s))) n p"
proof (induction s arbitrary: oct)
  case (Cons c s)
  have d: "int oct * 10 + int (ord c - 48) = int oct * 10 + digit_of c"
    using Cons.prems(1) by (auto simp: digit_of_def is_digit_ord)
  have c: "CHR ''0'' \<le> c" "c \<le> CHR ''9''" using Cons.prems(1) by (auto simp: is_digit_def)
  have "0 \<le> int oct * 10 + digit_of c" using digit_of_range [of c] Cons.prems(1) by simp
  then have "int oct * 10 + digit_of c \<le> 255"
    using horner_digits_le [of s "int oct * 10 + digit_of c"] Cons.prems by simp
  then have "oct * 10 + (ord c - 48) \<le> 255" using d by linarith
  then show ?case
    using Cons.IH [of "oct * 10 + (ord c - 48)"] Cons.prems c by (simp add: Let_def d)
qed simp

lemma inet_octet: "ngx_inet_addr_loop addr 0 n (dec_digits (ord c) [] @ p) = ngx_inet_addr_loop addr (ord c) n p"
proof -
  obtain s where s: "dec_digits (ord c) [] = s" "all_digits s" "dec_value s = int (ord c)"
    using dec_digits_spec [of "ord c"] by auto
  show ?thesis
    using inet_digits [OF s(2), of 0 addr n p] s ord_le_255 [of c] by (simp add: dec_value_def)
qed

lemma inet_octet_end: "ngx_inet_addr_loop addr 0 n (dec_digits (ord c) []) = ngx_inet_addr_loop addr (ord c) n []"
  using inet_octet [of addr n c "[]"] by simp

lemma inet_addr_dots:
  assumes "length q = 4"
  shows "ngx_inet_addr (dots q) = of_nat (v4_number q)"
proof -
  obtain a b c d where "q = [a, b, c, d]" using list_of_four [OF assms] by blast
  then show ?thesis
    by (simp add: ngx_inet_addr_def dots_def inet_octet inet_octet_end push_bit_eq_mult v4_number_def algebra_simps)
qed

lemma v4_number_less: "v4_number q < 4294967296"
  using ord_le_255 [of "q ! 0"] ord_le_255 [of "q ! 1"] ord_le_255 [of "q ! 2"] ord_le_255 [of "q ! 3"]
  by (simp add: v4_number_def)

lemma unat_v4: "unat (of_nat (v4_number q) :: in_addr) = v4_number q"
  using v4_number_less [of q] by (simp add: unat_of_nat)

lemma v4_byte:
  fixes a b c d :: char
  defines "N \<equiv> v4_number [a, b, c, d]"
  shows "N div 2 ^ 24 mod 256 = ord a" and "N div 2 ^ 16 mod 256 = ord b" and "N div 256 mod 256 = ord c"
    and "N mod 256 = ord d"
proof -
  define y z where "y = ord a * 256 + ord b" and "z = y * 256 + ord c"
  then have n: "N = z * 256 + ord d" by (simp add: N_def v4_number_def)
  have g: "(x * 256 + v) div 256 = x" "(x * 256 + v) mod 256 = v" if "v \<le> 255" for x v :: nat
    using that by simp_all
  have low: "N div 256 = z" "N mod 256 = ord d" "z div 256 = y" "z mod 256 = ord c" "y div 256 = ord a" "y mod 256 = ord b"
    unfolding n z_def y_def by (rule g, rule ord_le_255)+
  have "N div 2 ^ 24 = N div 256 div 256 div 256" "N div 2 ^ 16 = N div 256 div 256"
    by (simp_all add: div_mult2_eq [symmetric])
  then show "N div 2 ^ 24 mod 256 = ord a" "N div 2 ^ 16 mod 256 = ord b" "N div 256 mod 256 = ord c" "N mod 256 = ord d"
    unfolding low using ord_less_256 [of a] by (simp_all add: low(6))
qed

lemma put_word_v4: "put_word (v4_number [a, b, c, d]) = [c, d]"
  unfolding put_word_def drop_bit_eq_div and_masks v4_byte
  using v4_byte(3) [of a b c d] char_of_mod_256 [of "v4_number [a, b, c, d] div 256"] by simp

definition all_ones :: bytes where "all_ones = [CHR 0xFF, CHR 0xFF, CHR 0xFF, CHR 0xFF]"

lemma v4_none:
  assumes "length q = 4"
  shows "(of_nat (v4_number q) :: in_addr) = INADDR_NONE \<longleftrightarrow> q = all_ones"
proof -
  have "(of_nat (v4_number q) :: in_addr) = INADDR_NONE \<longleftrightarrow> unat (of_nat (v4_number q) :: in_addr) = unat INADDR_NONE"
    by (simp only: word_unat_eq_iff)
  also have "\<dots> \<longleftrightarrow> v4_number q = 4294967295" unfolding unat_v4 by (simp add: INADDR_NONE_def)
  also have "\<dots> \<longleftrightarrow> q = all_ones"
  proof
    assume "v4_number q = 4294967295"
    moreover obtain a b c d where q: "q = [a, b, c, d]" using list_of_four [OF assms] by blast
    ultimately have n: "v4_number [a, b, c, d] = 4294967295" by simp
    have "ord a = 255" "ord b = 255" "ord c = 255" "ord d = 255"
      using v4_byte [of a b c d] unfolding n by simp_all
    then show "q = all_ones" by (simp add: q all_ones_def char_eq_ord)
  qed (simp add: v4_number_def all_ones_def)
  finally show ?thesis .
qed

section \<open>The IPv4 tail of an IPv6 address\<close>

lemma read_dots:
  assumes "length q = 4" and "fresh_word v" and "i6_digit v = Some (dots q)" and "2 \<le> i6_n v"
  shows "\<exists>k. ngx_inet6_loop (dots q) v =
    (if q = all_ones then None
     else Some (v\<lparr>i6_nibbles := Suc k, i6_word := v4_number q, i6_addr := i6_addr v @ take 2 q, i6_n := i6_n v - 1\<rparr>))"
proof -
  obtain a b c d where q: "q = [a, b, c, d]" using list_of_four [OF assms(1)] by blast
  obtain s where s: "dec_digits (ord a) [] = s" "s \<noteq> []" "all_digits s" "\<And>k. ord a < 10 ^ Suc k \<Longrightarrow> length s \<le> Suc k"
    using dec_digits_spec [of "ord a"] by auto
  have len: "length s \<le> 4" using s(4) [of 2] ord_le_255 [of a] by simp
  have hex: "list_all is_hex s" using s(3) by (auto simp: all_digits_def list_all_iff is_hex_def)
  obtain rest where rest: "dots q = s @ CHR ''.'' # rest" using s(1) by (auto simp: dots_def q)
  obtain k where k: "length s = Suc k" using s(2) by (cases s) auto
  let ?w = "of_nat (v4_number q) :: in_addr"
  have bytes: "char_of (unat (drop_bit 24 ?w AND 0xff)) = q ! 0" "char_of (unat (drop_bit 16 ?w AND 0xff)) = q ! 1"
    unfolding unat_byte unat_v4 unfolding q v4_byte by simp_all
  have "ngx_inet6_loop (dots q) v =
      ngx_inet6_loop (CHR ''.'' # rest) (v\<lparr>i6_nibbles := Suc k, i6_word := nat (horner 16 (int (i6_word v)) (map hex_digit s))\<rparr>)"
  proof -
    have "i6_nibbles v = 0" using assms(2) by (simp add: fresh_word_def)
    then show ?thesis using read_digits [OF hex, of v "CHR ''.'' # rest"] len unfolding rest k by simp
  qed
  also have "\<dots> = (if q = all_ones then None
     else Some (v\<lparr>i6_nibbles := Suc k, i6_word := v4_number q, i6_addr := i6_addr v @ take 2 q, i6_n := i6_n v - 1\<rparr>))"
    using assms(3,4) bytes v4_none [OF assms(1)] inet_addr_dots [OF assms(1)] unat_v4 [of q]
    by (simp add: Let_def q)
  finally show ?thesis by blast
qed

lemma read_v4_tail:
  assumes "length q = 4" and "list_all (\<lambda>w. w < 65536) ws" and "fresh_word v" and "i6_zero v = None"
    and "length ws + 3 \<le> i6_n v"
  shows "Option.bind (ngx_inet6_loop ('':'' @ colons ws @ dots q) v) ngx_inet6_finish =
    (if q = all_ones then None
     else Some (i6_addr v @ replicate (2 * (i6_n v - length ws - 2)) NUL @ concat (map put_word ws) @ q))"
proof -
  let ?v = "v\<lparr>i6_digit := Some (colons ws @ dots q), i6_zero := Some (length (i6_addr v))\<rparr>"
  let ?u = "?v\<lparr>i6_addr := i6_addr v @ concat (map put_word ws), i6_n := i6_n v - length ws, i6_digit := Some (dots q)\<rparr>"
  have "ngx_inet6_loop ('':'' @ colons ws @ dots q) v = ngx_inet6_loop (colons ws @ dots q) ?v"
    using assms(3,4) by (simp add: fresh_word_def)
  also have "\<dots> = ngx_inet6_loop (dots q) ?u"
    using read_colons [OF assms(2), of ?v "dots q"] assms(3,5) by (cases ws) (simp_all add: fresh_word_def)
  finally have l: "ngx_inet6_loop ('':'' @ colons ws @ dots q) v = ngx_inet6_loop (dots q) ?u" .
  have "fresh_word ?u" using assms(3) by (simp add: fresh_word_def)
  from read_dots [OF assms(1) this] obtain k where k: "ngx_inet6_loop (dots q) ?u = (if q = all_ones then None
     else Some (?u\<lparr>i6_nibbles := Suc k, i6_word := v4_number q, i6_addr := i6_addr ?u @ take 2 q, i6_n := i6_n ?u - 1\<rparr>))"
    using assms(5) by fastforce
  have p: "put_word (v4_number q) = drop 2 q" using list_of_four [OF assms(1)] by (auto simp: put_word_v4)
  show ?thesis
    unfolding l k using assms(5) p by (simp add: ngx_inet6_finish_def Let_def)
qed

section \<open>The round trip\<close>

lemma hd_hex_text: "w < 65536 \<Longrightarrow> hex_text w \<noteq> [] \<and> hd (hex_text w) \<noteq> CHR '':''"
  using hex_text_spec(1,3) [of w] by (cases "hex_text w") (auto simp: is_hex_def is_digit_ord is_hex_letter_ord)

lemma length_colons: "list_all (\<lambda>w. w < 65536) ws \<Longrightarrow> length (colons ws) \<le> 5 * length ws"
proof (induction ws)
  case (Cons w ws)
  then show ?case using hex_text_spec(4) [of w] by simp
qed simp

lemma length_joined: "list_all (\<lambda>w. w < 65536) ws \<Longrightarrow> length (joined ws) \<le> 5 * length ws - 1"
proof (induction ws rule: joined.induct)
  case (2 w)
  then show ?case using hex_text_spec(4) [of w] by simp
next
  case (3 w v ws)
  then show ?case using hex_text_spec(4) [of w] by simp
qed simp

lemma length_dots: "length q = 4 \<Longrightarrow> length (dots q) \<le> 15"
proof -
  assume "length q = 4"
  then obtain a b c d where q: "q = [a, b, c, d]" using list_of_four by blast
  have l: "length (dec_digits (ord x) []) \<le> 3" for x
  proof -
    obtain s where "dec_digits (ord x) [] = s" "\<And>k. ord x < 10 ^ Suc k \<Longrightarrow> length s \<le> Suc k"
      using dec_digits_spec [of "ord x"] by auto
    from this(2) [of 2] this(1) show ?thesis using ord_le_255 [of x] by simp
  qed
  show ?thesis using l [of a] l [of b] l [of c] l [of d] by (simp add: q dots_def)
qed

lemma fresh_init: "fresh_word inet6_init" "i6_zero inet6_init = None" "i6_n inet6_init = 8" "i6_addr inet6_init = []"
  by (simp_all add: fresh_word_def inet6_init_def)

lemma zero_words_bytes:
  assumes "zero_words p a b" and "2 * b \<le> length p"
  shows "take (2 * b - 2 * a) (drop (2 * a) p) = replicate (2 * b - 2 * a) NUL"
proof -
  have "concat (map put_word (words p a b)) = replicate (2 * b - 2 * a) NUL"
    using assms(1)
  proof (induction "b - a" arbitrary: a)
    case (Suc n)
    then have ab: "a < b" by simp
    have "2 * b - 2 * a = Suc (Suc (2 * b - 2 * Suc a))" using ab by simp
    moreover have "word_at p a = 0" "zero_words p (Suc a) b" using Suc.prems ab by (auto simp: zero_words_def)
    moreover have "put_word 0 = [NUL, NUL]" by code_simp
    ultimately show ?case using Suc.hyps(1) [of "Suc a"] Suc.hyps(2) ab by (simp add: words_step)
  qed simp
  then show ?thesis using put_words [OF assms(2), of a] by simp
qed

text \<open>An address with a run of zeros at \<open>z\<close>, cut there.\<close>

lemma cut_at_gap:
  assumes "length p = 16" and "zero_words p z (z + m)" and "z + m \<le> 8"
  shows "concat (map put_word (words p 0 z)) @ replicate (2 * m) NUL @ concat (map put_word (words p (z + m) 8)) = p"
proof -
  have "concat (map put_word (words p 0 z)) = take (2 * z) p" "concat (map put_word (words p (z + m) 8)) = drop (2 * (z + m)) p"
    using put_words [of z p 0] put_words [of 8 p "z + m"] assms(1,3) by simp_all
  moreover have "replicate (2 * m) NUL = take (2 * m) (drop (2 * z) p)"
    using zero_words_bytes [OF assms(2)] assms(1,3) by simp
  moreover have "drop (2 * (z + m)) p = drop (2 * m) (drop (2 * z) p)" by (simp add: add.commute)
  ultimately show ?thesis by (metis append_take_drop_id)
qed

lemma ntop_plain_read:
  assumes "length p = 16"
  shows "ngx_inet6_addr (joined (words p 0 8)) = Some p"
proof -
  have w: "words p 0 8 = word_at p 0 # words p 1 8" "words p 1 8 = word_at p 1 # words p 2 8"
    by (simp_all add: words_step numeral_2_eq_2)
  have "hd (joined (words p 0 8)) \<noteq> CHR '':''" "joined (words p 0 8) \<noteq> []"
    unfolding w using hd_hex_text [OF word_at_less, of p 0] by simp_all
  moreover obtain d k where "ngx_inet6_loop (joined (words p 0 8)) inet6_init = Some (inet6_init\<lparr>i6_addr := concat (map put_word (butlast (words p 0 8))),
      i6_n := 1, i6_digit := d, i6_nibbles := Suc k, i6_word := last (words p 0 8)\<rparr>)"
    using read_joined [OF words_less _ fresh_init(1), of p 0 8] fresh_init w(1) by auto
  moreover have "concat (map put_word (butlast (words p 0 8))) @ put_word (last (words p 0 8)) = p"
    using put_butlast [of "words p 0 8"] put_words [of 8 p 0] assms w(1) by simp
  ultimately show ?thesis by (simp add: ngx_inet6_addr_def ngx_inet6_finish_def fresh_init)
qed

lemma ntop_gap_read:
  assumes "length p = 16" and "zero_words p z (z + m)" and "z + m \<le> 8" and "2 \<le> m"
  shows "ngx_inet6_addr ((if z = 0 then '':'' else []) @ colons (words p 0 z) @ '':'' @ joined (words p (z + m) 8)) = Some p"
    (is "ngx_inet6_addr ?t = _")
proof -
  let ?v = "inet6_init\<lparr>i6_addr := concat (map put_word (words p 0 z)), i6_n := 8 - z,
        i6_digit := if words p 0 z = [] then i6_digit inet6_init else Some ('':'' @ joined (words p (z + m) 8))\<rparr>"
  have "(if hd ?t = CHR '':'' then tl ?t else ?t) = colons (words p 0 z) @ '':'' @ joined (words p (z + m) 8)"
  proof (cases "z = 0")
    case False
    then have "words p 0 z = word_at p 0 # words p 1 z" by (simp add: words_step)
    then show ?thesis using False hd_hex_text [OF word_at_less, of p 0] by simp
  qed simp
  moreover have "?t \<noteq> []" by simp
  ultimately have "ngx_inet6_addr ?t =
      Option.bind (ngx_inet6_loop (colons (words p 0 z) @ '':'' @ joined (words p (z + m) 8)) inet6_init) ngx_inet6_finish"
    by (simp only: ngx_inet6_addr_def Let_def if_False)
  also have "\<dots> = Option.bind (ngx_inet6_loop ('':'' @ joined (words p (z + m) 8)) ?v) ngx_inet6_finish"
    using read_colons [OF words_less fresh_init(1), of p 0 z] fresh_init assms(3,4) by simp
  also have "\<dots> = Some p"
    using read_tail [OF words_less, of ?v p "z + m" 8] fresh_init cut_at_gap [OF assms(1-3)] assms(3,4)
    by (simp add: fresh_word_def)
  finally show ?thesis .
qed

lemma ntop_v4_read:
  assumes "length p = 16" and "zero_words p 0 m" and "5 \<le> m" and "m \<le> 7"
  shows "ngx_inet6_addr (''::'' @ colons (words p m 6) @ dots (drop 12 p)) = (if drop 12 p = all_ones then None else Some p)"
proof -
  have "ngx_inet6_addr (''::'' @ colons (words p m 6) @ dots (drop 12 p)) =
      Option.bind (ngx_inet6_loop ('':'' @ colons (words p m 6) @ dots (drop 12 p)) inet6_init) ngx_inet6_finish"
    by (simp add: ngx_inet6_addr_def)
  also have "\<dots> = (if drop 12 p = all_ones then None
      else Some (replicate (2 * (8 - (6 - m) - 2)) NUL @ concat (map put_word (words p m 6)) @ drop 12 p))"
    using read_v4_tail [OF _ words_less fresh_init(1,2), of "drop 12 p" p m 6] fresh_init assms by simp
  also have "replicate (2 * (8 - (6 - m) - 2)) NUL @ concat (map put_word (words p m 6)) @ drop 12 p = p"
  proof -
    define k where "k = (if m < 6 then m else 6)"
    have k: "k \<le> 6" "8 - (6 - m) - 2 = k" "words p m 6 = words p k 6" "zero_words p 0 k"
      using assms(2-4) by (auto simp: k_def zero_words_def)
    have "take (2 * k) p = replicate (2 * k) NUL" using zero_words_bytes [OF k(4)] k(1) assms(1) by simp
    moreover have "concat (map put_word (words p k 6)) = take (12 - 2 * k) (drop (2 * k) p)"
      using put_words [of 6 p k] assms(1) by simp
    moreover have "drop 12 p = drop (12 - 2 * k) (drop (2 * k) p)" using k(1) by simp
    ultimately show ?thesis unfolding k(2,3) by (metis append_take_drop_id)
  qed
  finally show ?thesis .
qed

text \<open>The two addresses whose text is not read back: the reader of IPv4 addresses has no other value for
  255.255.255.255 than \<open>INADDR_NONE\<close>.\<close>

definition unreadable6 :: "bytes \<Rightarrow> bool" where
  "unreadable6 p \<longleftrightarrow>
     p = replicate 12 NUL @ all_ones \<or> p = replicate 10 NUL @ [CHR 0xFF, CHR 0xFF] @ all_ones"

lemma ntop_v4_text:
  assumes "length p = 16" and "5 \<le> m" and "m \<le> 7"
  shows "ntop_loop p 12 (Some 0) m 0 '':'' = Some (''::'' @ colons (words p m 6))"
proof -
  have "ntop_loop p 12 (Some 0) m 0 '':'' = ntop_loop p 12 (Some 0) m (2 * m) ''::''"
    using ntop_gap [of 0 12 m p "'':''"] assms(2) by simp
  also have "\<dots> = Some (''::'' @ colons (words p m 6))"
  proof (cases "m = 5")
    case True
    then show ?thesis
      using ntop_step [of 5 12 "Some 0" p 5 "''::''"] by (simp add: words_step ntop_loop.simps [of p 12 "Some 0" 5 12])
  next
    case False
    then show ?thesis using assms(2) by (subst ntop_loop.simps) simp
  qed
  finally show ?thesis .
qed

lemma unreadable6_v4:
  assumes "length p = 16" and "zero_words p 0 m" and "prints_v4 p m"
  shows "drop 12 p = all_ones \<longleftrightarrow> unreadable6 p"
proof
  assume d: "drop 12 p = all_ones"
  have p: "p = take 12 p @ all_ones" using d by (metis append_take_drop_id)
  have t: "take (2 * k) p = replicate (2 * k) NUL" if "k \<le> m" "k \<le> 8" for k
    using zero_words_bytes [of p 0 k] assms(1,2) that by (simp add: zero_words_def)
  show "unreadable6 p"
  proof (cases "m = 5")
    case True
    then have "ord (p ! 10) = 255" "ord (p ! 11) = 255" using assms(3) by (simp_all add: prints_v4_def)
    then have "p ! 10 = CHR 0xFF" "p ! 11 = CHR 0xFF" by (simp_all add: char_eq_ord)
    moreover have "take 12 p = take 10 p @ [p ! 10, p ! 11]"
      using assms(1) take_Suc_conv_app_nth [of 10 p] take_Suc_conv_app_nth [of 11 p] by simp
    ultimately show ?thesis using p t [of 5] True unfolding unreadable6_def by simp
  next
    case False
    then have "6 \<le> m" using assms(3) by (auto simp: prints_v4_def)
    then show ?thesis using p t [of 6] unfolding unreadable6_def by simp
  qed
next
  assume "unreadable6 p"
  then show "drop 12 p = all_ones" by (auto simp: unreadable6_def)
qed

lemma unreadable6_run: "unreadable6 p \<Longrightarrow> zr_zero (find_zero_run p) = Some 0 \<and> prints_v4 p (zr_max (find_zero_run p))"
proof -
  have 1: "find_zero_run (replicate 12 NUL @ all_ones) = \<lparr>zr_zero = Some 0, zr_last = Some 0, zr_max = 6, zr_n = 0\<rparr>"
    by code_simp
  have 2: "find_zero_run (replicate 10 NUL @ [CHR 0xFF, CHR 0xFF] @ all_ones) = \<lparr>zr_zero = Some 0, zr_last = Some 0, zr_max = 5, zr_n = 0\<rparr>"
    by code_simp
  have 3: "prints_v4 (replicate 12 NUL @ all_ones) 6" "prints_v4 (replicate 10 NUL @ [CHR 0xFF, CHR 0xFF] @ all_ones) 5"
    by code_simp+
  assume "unreadable6 p"
  then consider "p = replicate 12 NUL @ all_ones" | "p = replicate 10 NUL @ [CHR 0xFF, CHR 0xFF] @ all_ones"
    unfolding unreadable6_def by blast
  then show ?thesis using 1 2 3 by cases (simp_all only: zero_run.simps)
qed

text \<open>The characters of these texts.\<close>

definition addr_char :: "char \<Rightarrow> bool" where
  "addr_char c \<longleftrightarrow> is_hex c \<or> c = CHR '':'' \<or> c = CHR ''.''"

lemma hex_text_chars: "w < 65536 \<Longrightarrow> list_all addr_char (hex_text w)"
  using hex_text_spec(1) [of w] by (auto simp: list_all_iff addr_char_def)

lemma colons_chars: "list_all (\<lambda>w. w < 65536) ws \<Longrightarrow> list_all addr_char (colons ws)"
  by (induction ws) (use hex_text_chars in \<open>auto simp: addr_char_def\<close>)

lemma joined_chars: "list_all (\<lambda>w. w < 65536) ws \<Longrightarrow> list_all addr_char (joined ws)"
  by (induction ws rule: joined.induct) (use hex_text_chars in \<open>auto simp: addr_char_def\<close>)

lemma dots_chars: "list_all (\<lambda>c. is_digit c \<or> c = CHR ''.'') (dots q)"
proof -
  have "all_digits (dec_digits n [])" for n using dec_digits_spec [of n] by auto
  then show ?thesis unfolding dots_def by (auto simp: list_all_iff all_digits_def)
qed

lemma dots_addr_chars: "list_all addr_char (dots q)"
  using dots_chars [of q] by (auto simp: list_all_iff addr_char_def is_hex_def)

lemma inet6_text:
  assumes "length p = 16" and "NGX_INET6_ADDRSTRLEN \<le> len"
  shows "\<exists>t. ngx_inet6_ntop p len = Some t \<and> length t \<le> 39 \<and> CHR '':'' \<in> set t
    \<and> list_all addr_char t \<and> (unreadable6 p \<longrightarrow> take 2 t = ''::'') \<and> ngx_inet6_addr t = (if unreadable6 p then None else Some p)"
proof -
  obtain zero m where z: "zr_zero (find_zero_run p) = zero" "zr_max (find_zero_run p) = m" by blast
  have found: "run_found p 8 zero m" using zero_run_found [of p] z by simp
  have len: "\<not> len < 45" using assms(2) by (simp add: NGX_INET6_ADDRSTRLEN_def)
  have un: "unreadable6 p \<Longrightarrow> zero = Some 0 \<and> prints_v4 p m" using unreadable6_run [of p] z by simp
  show ?thesis
  proof (cases zero)
    case None
    then have "ngx_inet6_ntop p len = Some (joined (words p 0 8))"
      using ntop_rest [of 0 None p m "[]"] z len by (simp add: ngx_inet6_ntop_def Let_def NGX_INET6_ADDRSTRLEN_def)
    then show ?thesis
      using ntop_plain_read [OF assms(1)] length_joined [OF words_less, of p 0 8] joined_chars [OF words_less, of p 0 8] un None
      by (auto simp: NGX_INET6_ADDRSTRLEN_def addr_char_def words_step [of 0 8] words_step [of "Suc 0" 8])
  next
    case (Some i)
    then obtain k where k: "i = 2 * k" "2 \<le> m" "k + m \<le> 8" "zero_words p k (k + m)"
      using found by (auto simp: run_found_def)
    show ?thesis
    proof (cases "k = 0 \<and> prints_v4 p m")
      case True
      then have m: "5 \<le> m" "m \<le> 7" by (auto simp: prints_v4_def)
      have zw: "zero_words p 0 m" using k(4) True by simp
      have t: "ngx_inet6_ntop p len = Some (''::'' @ colons (words p m 6) @ dots (drop 12 p))"
        using ntop_v4_text [OF assms(1) m] dotted_quad_text [of "drop 12 p"] z len True Some k(1) assms(1)
        by (simp add: ngx_inet6_ntop_def Let_def NGX_INET6_ADDRSTRLEN_def)
      show ?thesis
        using t ntop_v4_read [OF assms(1) zw m] unreadable6_v4 [OF assms(1) zw] True
          length_colons [OF words_less, of p m 6] colons_chars [OF words_less, of p m 6] dots_addr_chars [of "drop 12 p"] length_dots [of "drop 12 p"] assms(1) m
        by (auto simp: NGX_INET6_ADDRSTRLEN_def addr_char_def)
    next
      case False
      then have n: "\<not> (zero = Some 0 \<and> prints_v4 p m)" using Some k(1) by auto
      have t: "ngx_inet6_ntop p len =
          Some ((if k = 0 then '':'' else []) @ colons (words p 0 k) @ '':'' @ joined (words p (k + m) 8))"
        using ntop_with_gap [OF k(3,2), of p "if k = 0 then '':'' else []"] z len Some k(1) n
        by (cases "k = 0"; cases "prints_v4 p m") (simp_all add: ngx_inet6_ntop_def Let_def NGX_INET6_ADDRSTRLEN_def)
      have "\<not> unreadable6 p" using un n by blast
      then show ?thesis
        using t ntop_gap_read [OF assms(1) k(4,3,2)] k(2,3)
          colons_chars [OF words_less, of p 0 k] joined_chars [OF words_less, of p "k + m" 8]
          length_colons [OF words_less, of p 0 k] length_joined [OF words_less, of p "k + m" 8]
        by (auto simp: NGX_INET6_ADDRSTRLEN_def addr_char_def)
    qed
  qed
qed


section \<open>Addresses as texts\<close>

lemma inet_addr_colon: "CHR '':'' \<in> set s \<Longrightarrow> ngx_inet_addr s = INADDR_NONE"
proof -
  assume "CHR '':'' \<in> set s"
  then have "ngx_inet_addr_loop addr octet n s = INADDR_NONE" for addr octet n
    by (induction s arbitrary: addr octet n) (auto simp: Let_def less_eq_char_def)
  then show ?thesis by (simp add: ngx_inet_addr_def)
qed

lemma addr_bytes_number:
  "length (addr_bytes a) = 4" "of_nat (v4_number (addr_bytes a)) = a"
proof -
  show l: "length (addr_bytes a) = 4" by (simp add: addr_bytes_def)
  have u: "unat (drop_bit k a) = unat a div 2 ^ k" for k
    using take_bit_nat_eq_self [OF unsigned_less [of a]]
    by (simp only: unsigned_drop_bit_eq drop_bit_eq_div [where 'a = nat])
  define N where "N = unat a"
  have N: "N < 4294967296" using unsigned_less [of a] by (simp add: N_def)
  have "v4_number (addr_bytes a) = ((N div 2 ^ 24 mod 256 * 256 + N div 2 ^ 16 mod 256) * 256 + N div 2 ^ 8 mod 256) * 256 + N mod 256"
    by (simp add: v4_number_def addr_bytes_def u N_def numeral_2_eq_2 numeral_3_eq_3 del: One_nat_def power_Suc)
  also have "\<dots> = N"
  proof -
    have e: "N div 2 ^ 24 = N div 256 div 256 div 256" "N div 2 ^ 16 = N div 256 div 256" "N div 2 ^ 8 = N div 256"
      by (simp_all add: div_mult2_eq [symmetric])
    have "N div 256 div 256 div 256 < 256" using N by (simp add: div_mult2_eq [symmetric] less_mult_imp_div_less)
    then show ?thesis unfolding e by (simp add: div_mult_mod_eq)
  qed
  finally show "of_nat (v4_number (addr_bytes a)) = a" by (simp add: N_def)
qed

lemma sprintf_byte: "0 \<le> int (ord c)" "int (ord c) < 2147483648"
  using ord_le_255 [of c] by simp_all

lemma in_texts:
  assumes "length q = 4" and "port < 65536"
  shows "ngx_sprintf ''%ud.%ud.%ud.%ud:%d'' (map byte_arg q @ [IntArg (int port)]) = Some (dots q @ '':'' @ dec_digits port [])"
  using list_of_four [OF assms(1)] assms(2)
  by (auto simp: ngx_sprintf_def dots_def print_char print_ud(1) [simplified, OF sprintf_byte]
      print_ud(2) [where fmt = "[]", simplified])

lemma dec_port:
  assumes "port < 65536"
  shows "length (dec_digits port []) \<le> 5" and "ngx_atoi (dec_digits port []) = int port"
    and "list_all is_digit (dec_digits port [])"
proof -
  obtain s where s: "dec_digits port [] = s" "s \<noteq> []" "all_digits s" "dec_value s = int port" "\<And>k. port < 10 ^ Suc k \<Longrightarrow> length s \<le> Suc k"
    using dec_digits_spec [of port] by auto
  show "length (dec_digits port []) \<le> 5" using s(1) s(5) [of 4] assms by simp
  show "list_all is_digit (dec_digits port [])" using s(1,3) by (simp add: all_digits_def list_all_iff)
  show "ngx_atoi (dec_digits port []) = int port" using s(1-4) assms by (simp add: atoi.exact code_const)
qed

lemma print_in:
  assumes "port < 65536"
  shows "ngx_sock_ntop (Sockaddr_in a port) NGX_SOCKADDR_STRLEN with_port =
    Some (dots (addr_bytes a) @ (if with_port then '':'' @ dec_digits port [] else []))"
proof -
  note l = addr_bytes_number(1) [of a]
  have "length (dots (addr_bytes a)) \<le> 15" by (rule length_dots [OF l])
  moreover have "length (dec_digits port []) \<le> 5" by (rule dec_port(1) [OF assms])
  moreover have "ngx_sprintf ''%ud.%ud.%ud.%ud'' (map byte_arg (addr_bytes a)) = Some (dots (addr_bytes a))"
    using dotted_quad_text [OF l] by (simp add: dotted_quad_def)
  ultimately show ?thesis
    using in_texts [OF l assms] vslprintf_take [of "[]" _ _ _ NGX_SOCKADDR_STRLEN]
    by (simp add: ngx_sock_ntop_def ngx_snprintf_def ngx_sprintf_def no_hex_def NGX_SOCKADDR_STRLEN_def)
qed

lemma print_in6:
  assumes "length a = 16" and "port < 65536"
  obtains t where "ngx_sock_ntop (Sockaddr_in6 a port) NGX_SOCKADDR_STRLEN with_port =
      Some (if with_port then ''['' @ t @ '']:'' @ dec_digits port [] else t)"
    and "length t \<le> 39" and "CHR '':'' \<in> set t" and "list_all addr_char t"
    and "unreadable6 a \<longrightarrow> take 2 t = ''::''" and "ngx_inet6_addr t = (if unreadable6 a then None else Some a)"
proof -
  obtain t where t: "ngx_inet6_ntop a NGX_SOCKADDR_STRLEN = Some t" "length t \<le> 39" "CHR '':'' \<in> set t"
    "list_all addr_char t" "unreadable6 a \<longrightarrow> take 2 t = ''::''" "ngx_inet6_addr t = (if unreadable6 a then None else Some a)"
    using inet6_text [OF assms(1), of NGX_SOCKADDR_STRLEN] by (auto simp: NGX_SOCKADDR_STRLEN_def NGX_INET6_ADDRSTRLEN_def)
  have "ngx_sprintf '']:%d'' [IntArg (int port)] = Some ('']:'' @ dec_digits port [])"
    using print_ud(2) [where fmt = "[]", simplified] assms(2) by (simp add: ngx_sprintf_def print_char)
  then show thesis using that [of t] t by (simp add: ngx_sock_ntop_def)
qed

text \<open>\<open>ngx_parse_addr\<close> on these texts and on what surrounds them.\<close>

definition unreadable :: "sockaddr \<Rightarrow> bool" where
  "unreadable sa \<longleftrightarrow>
     (case sa of Sockaddr_in a _ \<Rightarrow> a = INADDR_NONE | Sockaddr_in6 a _ \<Rightarrow> unreadable6 a | _ \<Rightarrow> True)"

lemma inet6_needs_colon: "hd s \<noteq> CHR '':'' \<Longrightarrow> CHR '':'' \<notin> set s \<Longrightarrow> ngx_inet6_addr s = None"
proof -
  assume c: "CHR '':'' \<notin> set s" "hd s \<noteq> CHR '':''"
  have "i6_zero v = None \<Longrightarrow> i6_digit v = None \<Longrightarrow> i6_n v = 8 \<Longrightarrow> CHR '':'' \<notin> set s \<Longrightarrow>
      Option.bind (ngx_inet6_loop s v) ngx_inet6_finish = None" for v
    by (induction s arbitrary: v) (auto simp: ngx_inet6_finish_def Let_def)
  from this [of inet6_init] show ?thesis using c by (simp add: ngx_inet6_addr_def inet6_init_def)
qed

lemma dots_head: "dots q \<noteq> [] \<and> is_digit (hd (dots q)) \<or> length q \<noteq> 4"
proof (cases "length q = 4")
  case True
  then obtain a b c d where q: "q = [a, b, c, d]" using list_of_four by blast
  obtain s where "dec_digits (ord a) [] = s" "s \<noteq> []" "all_digits s" using dec_digits_spec [of "ord a"] by auto
  then show ?thesis by (cases s) (auto simp: q dots_def)
qed simp

lemma dots_no_colon: "CHR '':'' \<notin> set (dots q)"
  using dots_chars [of q] by (auto simp: list_all_iff addr_char_def is_digit_def less_eq_char_def)

lemma parse_dots:
  "ngx_parse_addr True (dots (addr_bytes a)) = (if a = INADDR_NONE then Inl NGX_DECLINED else Inr (Sockaddr_in a 0))"
proof -
  have "hd (dots (addr_bytes a)) \<noteq> CHR '':''"
    using dots_head [of "addr_bytes a"] addr_bytes_number(1) [of a] by (auto simp: is_digit_def less_eq_char_def)
  then have "ngx_inet6_addr (dots (addr_bytes a)) = None" using inet6_needs_colon dots_no_colon by blast
  then show ?thesis
    using inet_addr_dots [OF addr_bytes_number(1)] addr_bytes_number(2) by (auto simp: ngx_parse_addr_def Let_def)
qed

lemma parse_in6:
  "CHR '':'' \<in> set t \<Longrightarrow> ngx_inet6_addr t = (if u then None else Some a) \<Longrightarrow>
   ngx_parse_addr True t = (if u then Inl NGX_DECLINED else Inr (Sockaddr_in6 a 0))"
  by (simp add: ngx_parse_addr_def inet_addr_colon)


lemma strlchr_append: "c \<notin> set s \<Longrightarrow> strlchr (s @ c # p) c = Some (length s)"
proof -
  assume "c \<notin> set s"
  then have "takeWhile (\<lambda>x. x \<noteq> c) (s @ c # p) = s" by (subst takeWhile_append2) auto
  then show ?thesis by (simp add: strlchr_def Let_def)
qed

lemma inet6_no_dot: "CHR '':'' \<notin> set s \<Longrightarrow> s \<noteq> [] \<Longrightarrow> ngx_inet6_addr (s @ CHR ''.'' # p) = None"
proof -
  assume c: "CHR '':'' \<notin> set s" "s \<noteq> []"
  have "i6_digit v = None \<Longrightarrow> CHR '':'' \<notin> set s \<Longrightarrow> ngx_inet6_loop (s @ CHR ''.'' # p) v = None" for v
    by (induction s arbitrary: v) (auto simp: Let_def is_hex_letter_ord less_eq_char_def)
  from this [of inet6_init] show ?thesis using c by (cases s) (auto simp: ngx_inet6_addr_def inet6_init_def)
qed

lemma parse_in_port:
  assumes "0 < port" and "port < 65536"
  shows "ngx_parse_addr_port True (dots (addr_bytes a) @ '':'' @ dec_digits port []) =
    (if a = INADDR_NONE then Inl NGX_DECLINED else Inr (Sockaddr_in a port))"
proof -
  let ?s = "dots (addr_bytes a) @ '':'' @ dec_digits port []"
  obtain x y z w where q: "addr_bytes a = [x, y, z, w]" using list_of_four [OF addr_bytes_number(1)] by blast
  obtain s where s: "dec_digits (ord x) [] = s" "s \<noteq> []" "all_digits s" using dec_digits_spec [of "ord x"] by auto
  obtain p where d: "dots (addr_bytes a) = s @ CHR ''.'' # p" using s(1) by (auto simp: q dots_def)
  have c: "CHR '':'' \<notin> set s" using dots_no_colon [of "addr_bytes a"] by (simp add: d)
  have "ngx_parse_addr True ?s = Inl NGX_DECLINED"
    using inet6_no_dot [OF c s(2), of "p @ '':'' @ dec_digits port []"] inet_addr_colon [of ?s]
    by (simp add: ngx_parse_addr_def d)
  moreover have "hd ?s \<noteq> CHR ''[''" using s(2,3) by (cases s) (auto simp: d is_digit_def less_eq_char_def)
  moreover have "strlchr ?s (CHR '':'') = Some (length (dots (addr_bytes a)))"
    using strlchr_append [OF dots_no_colon] by simp
  ultimately show ?thesis
    using dec_port [OF assms(2)] assms parse_dots [of a]
    by (simp add: ngx_parse_addr_port_def parse_port_of_def Let_def ngx_inet_set_port_def)
qed

lemma bracket_declined: "ngx_parse_addr True (CHR ''['' # s) = Inl NGX_DECLINED"
  by (simp add: ngx_parse_addr_def ngx_inet_addr_def ngx_inet6_addr_def Let_def is_hex_letter_ord less_eq_char_def
      NGX_DECLINED_def inet6_init_def)

lemma parse_in6_port:
  assumes "0 < port" and "port < 65536" and "CHR '':'' \<in> set t" and "CHR '']'' \<notin> set t"
    and "ngx_inet6_addr t = (if u then None else Some a)"
  shows "ngx_parse_addr_port True (''['' @ t @ '']:'' @ dec_digits port []) =
    (if u then Inl NGX_DECLINED else Inr (Sockaddr_in6 a port))"
proof -
  have c: "strlchr (CHR ''['' # t @ '']:'' @ dec_digits port []) (CHR '']'') = Some (Suc (length t))"
    using strlchr_append [of "CHR '']''" "CHR ''['' # t" "CHR '':'' # dec_digits port []"] assms(4) by simp
  have n: "dec_digits port [] \<noteq> []" using dec_digits_spec [of port] by auto
  have "(CHR ''['' # t @ '']:'' @ dec_digits port []) ! (Suc (length t) + 1) = CHR '':''" by (simp add: nth_append)
  then show ?thesis
    using dec_port [OF assms(2)] assms(1,2) parse_in6 [OF assms(3,5)] bracket_declined c n
    by (simp add: ngx_parse_addr_port_def parse_port_of_def Let_def ngx_inet_set_port_def)
qed

lemma parse_dots_port:
  "ngx_parse_addr_port True (dots (addr_bytes a)) = (if a = INADDR_NONE then Inl NGX_DECLINED else Inr (Sockaddr_in a 0))"
proof -
  have tw: "takeWhile (\<lambda>c. c \<noteq> CHR '':'') (dots (addr_bytes a)) = dots (addr_bytes a)"
    using dots_no_colon [of "addr_bytes a"] by (intro takeWhile_all) blast
  have c: "strlchr (dots (addr_bytes a)) (CHR '':'') = None" by (simp add: strlchr_def Let_def tw)
  have h: "hd (dots (addr_bytes a)) \<noteq> CHR ''[''"
    using dots_head [of "addr_bytes a"] addr_bytes_number(1) [of a] by (auto simp: is_digit_def less_eq_char_def)
  show ?thesis using parse_dots [of a] c h by (cases "a = INADDR_NONE") (auto simp: ngx_parse_addr_port_def)
qed

lemma double_colon_declined:
  assumes "take 2 t = ''::''" and "ngx_parse_addr True t = Inl NGX_DECLINED"
  shows "ngx_parse_addr_port True t = Inl NGX_DECLINED"
proof -
  obtain r where t: "t = CHR '':'' # CHR '':'' # r" using assms(1) by (cases t; cases "tl t") (auto simp: numeral_2_eq_2)
  have "strlchr t (CHR '':'') = Some 0" unfolding t by (simp add: strlchr_def)
  moreover have "ngx_atoi (drop 1 t) = NGX_ERROR" unfolding t by (simp add: atoi.error_iff is_digit_def less_eq_char_def)
  ultimately show ?thesis
    using assms(2) by (simp add: ngx_parse_addr_port_def parse_port_of_def t NGX_ERROR_def)
qed

lemma readable_port:
  "ngx_parse_addr True t = Inr sa \<Longrightarrow> ngx_parse_addr_port True t = Inr sa"
  by (simp add: ngx_parse_addr_port_def)

definition printable :: "sockaddr \<Rightarrow> bool" where
  "printable sa \<longleftrightarrow>
     (case sa of
        Sockaddr_in _ port \<Rightarrow> 0 < port \<and> port < 65536
      | Sockaddr_in6 a port \<Rightarrow> length a = 16 \<and> 0 < port \<and> port < 65536
      | _ \<Rightarrow> False)"

text \<open>C28: Every IPv4 or IPv6 address, without its port or with a port other than zero, is read back as itself, except the three
  whose text ends with 255.255.255.255, for which the reader has no value: \<open>255.255.255.255\<close>,
  \<open>::255.255.255.255\<close> and \<open>::ffff:255.255.255.255\<close> are refused.  No text is longer than its buffer.\<close>

theorem address_roundtrip:
  assumes "printable sa"
  shows "case ngx_sock_ntop sa NGX_SOCKADDR_STRLEN with_port of
      None \<Rightarrow> False
    | Some t \<Rightarrow>
        length t \<le> NGX_SOCKADDR_STRLEN
        \<and> ngx_parse_addr_port True t =
            (if unreadable sa then Inl NGX_DECLINED else Inr (if with_port then sa else ngx_inet_set_port sa 0))"
proof (cases sa)
  case (Sockaddr_in a port)
  then have port: "0 < port" "port < 65536" using assms by (simp_all add: printable_def)
  have "length (dots (addr_bytes a)) \<le> 15" "length (dec_digits port []) \<le> 5"
    using length_dots [OF addr_bytes_number(1)] dec_port(1) [OF port(2)] by simp_all
  then show ?thesis
    using print_in [OF port(2), of a with_port] parse_in_port [OF port, of a] parse_dots [of a] parse_dots_port [of a]
    by (cases with_port; cases "a = INADDR_NONE") (simp_all add: Sockaddr_in unreadable_def ngx_inet_set_port_def NGX_SOCKADDR_STRLEN_def)
next
  case (Sockaddr_in6 a port)
  then have port: "length a = 16" "0 < port" "port < 65536" using assms by (simp_all add: printable_def)
  obtain t where t: "ngx_sock_ntop (Sockaddr_in6 a port) NGX_SOCKADDR_STRLEN with_port =
      Some (if with_port then ''['' @ t @ '']:'' @ dec_digits port [] else t)"
    "length t \<le> 39" "CHR '':'' \<in> set t" "list_all addr_char t" "unreadable6 a \<longrightarrow> take 2 t = ''::''"
    "ngx_inet6_addr t = (if unreadable6 a then None else Some a)"
    by (rule print_in6 [OF port(1,3)])
  have "CHR '']'' \<notin> set t" using t(4) by (auto simp: list_all_iff addr_char_def is_hex_def is_digit_ord is_hex_letter_ord)
  then show ?thesis
    using t parse_in6_port [OF port(2,3) t(3) _ t(6)] readable_port [of t] parse_in6 [OF t(3,6)]
      double_colon_declined [of t] dec_port(1) [OF port(3)]
    by (cases with_port; cases "unreadable6 a") (simp_all add: Sockaddr_in6 unreadable_def ngx_inet_set_port_def NGX_SOCKADDR_STRLEN_def NGX_INET6_ADDRSTRLEN_def)
qed (use assms in \<open>simp_all add: printable_def\<close>)

theorem address_roundtrip_witness:
  "\<exists>t. ngx_sock_ntop (Sockaddr_in6 (CHR 0x20 # replicate 15 NUL) 8080) NGX_SOCKADDR_STRLEN True = Some t
     \<and> ngx_parse_addr_port True t = Inr (Sockaddr_in6 (CHR 0x20 # replicate 15 NUL) 8080)"
proof -
  let ?sa = "Sockaddr_in6 (CHR 0x20 # replicate 15 NUL) 8080"
  have p: "printable ?sa" by (simp add: printable_def)
  have "\<not> unreadable ?sa"
    by (auto simp: unreadable_def unreadable6_def dest!: arg_cong [where f = hd])
  then show ?thesis
    using address_roundtrip [OF p, of True] by (simp split: option.splits)
qed

end
