(* ===== verification/InetCidr.thy ===== *)
theory InetCidr
  imports InetText
begin

text \<open>
  Networks: \<open>ngx_ptocidr\<close> and \<open>ngx_cidr_match\<close> decide whether an address begins with the bits of a prefix.
\<close>

section \<open>Networks are prefixes\<close>

text \<open>The bits of an address, the most significant one first.\<close>

definition byte_bits :: "char \<Rightarrow> bool list" where
  "byte_bits c = map (\<lambda>i. bit (ord c) (7 - i)) [0..<8]"

definition bits :: "bytes \<Rightarrow> bool list" where
  "bits s = concat (map byte_bits s)"

lemma length_byte_bits [simp]: "length (byte_bits c) = 8"
  by (simp add: byte_bits_def)

lemma bits_simps [simp]: "bits [] = []" "bits (c # s) = byte_bits c @ bits s"
  by (simp_all add: bits_def)

lemma length_bits [simp]: "length (bits s) = 8 * length s"
  by (induction s) simp_all

definition prefix_mask :: "nat \<Rightarrow> char" where
  "prefix_mask s = char_of (push_bit (8 - s) (0xff :: nat))"

lemma bit_255: "bit (255 :: nat) i \<longleftrightarrow> i < 8"
proof -
  have "bit (mask 8 :: nat) i \<longleftrightarrow> i < 8" by (simp add: bit_mask_iff)
  then show ?thesis by (simp add: mask_eq_exp_minus_1)
qed

lemma bit_byte_high: "8 \<le> i \<Longrightarrow> \<not> bit (ord c) i"
proof -
  assume "8 \<le> i"
  then have "256 \<le> (2 :: nat) ^ i" using power_increasing [of 8 i "2 :: nat"] by simp
  then have "ord c < 2 ^ i" by (rule order.strict_trans2 [OF ord_less_256])
  then show ?thesis by (simp add: bit_iff_odd)
qed

lemma bit_and_mask: "s \<le> 8 \<Longrightarrow> bit (ord (and_byte x (prefix_mask s))) i \<longleftrightarrow> bit (ord x) i \<and> 8 - s \<le> i"
proof -
  assume s: "s \<le> 8"
  have o: "ord (char_of n) = take_bit 8 n" for n :: nat by (simp add: take_bit_eq_mod)
  show ?thesis
    using bit_byte_high [of i x]
    by (cases "i < 8") (auto simp: and_byte_def prefix_mask_def o bit_simps bit_255 simp del: of_char_of)
qed

lemma byte_eq_bits: "c = d \<longleftrightarrow> (\<forall>i<8. bit (ord c) i = bit (ord d) i)"
proof -
  have "c = d \<longleftrightarrow> (\<forall>i. bit (ord c) i = bit (ord d) i)" by (simp add: char_eq_ord bit_eq_iff)
  then show ?thesis using bit_byte_high [of _ c] bit_byte_high [of _ d] by (metis not_le)
qed

lemma masked_byte_eq:
  assumes "s \<le> 8"
  shows "and_byte x (prefix_mask s) = and_byte y (prefix_mask s) \<longleftrightarrow> take s (byte_bits x) = take s (byte_bits y)"
proof -
  have "and_byte x (prefix_mask s) = and_byte y (prefix_mask s) \<longleftrightarrow> (\<forall>i<8. 8 - s \<le> i \<longrightarrow> bit (ord x) i = bit (ord y) i)"
    unfolding byte_eq_bits [of "and_byte x (prefix_mask s)"] bit_and_mask [OF assms] by blast
  also have "\<dots> \<longleftrightarrow> (\<forall>i. i < s \<longrightarrow> bit (ord x) (7 - i) = bit (ord y) (7 - i))"
  proof
    assume h: "\<forall>i<8. 8 - s \<le> i \<longrightarrow> bit (ord x) i = bit (ord y) i"
    show "\<forall>i. i < s \<longrightarrow> bit (ord x) (7 - i) = bit (ord y) (7 - i)" using h assms by auto
  next
    assume h: "\<forall>i. i < s \<longrightarrow> bit (ord x) (7 - i) = bit (ord y) (7 - i)"
    show "\<forall>i<8. 8 - s \<le> i \<longrightarrow> bit (ord x) i = bit (ord y) i"
    proof (intro allI impI)
      fix i :: nat assume i: "i < 8" "8 - s \<le> i"
      have "7 - i < s" "7 - (7 - i) = i" using i assms by linarith+
      then show "bit (ord x) i = bit (ord y) i" using h by metis
    qed
  qed
  also have "\<dots> \<longleftrightarrow> take s (byte_bits x) = take s (byte_bits y)"
    using assms by (auto simp: list_eq_iff_nth_eq byte_bits_def)
  finally show ?thesis .
qed

lemma masked_byte_same:
  assumes "s \<le> 8"
  shows "x = and_byte x (prefix_mask s) \<longleftrightarrow> list_all Not (drop s (byte_bits x))"
proof -
  have "x = and_byte x (prefix_mask s) \<longleftrightarrow> (\<forall>i<8. bit (ord x) i \<longrightarrow> 8 - s \<le> i)"
    unfolding byte_eq_bits [of x] bit_and_mask [OF assms] by blast
  also have "\<dots> \<longleftrightarrow> (\<forall>i<8 - s. \<not> bit (ord x) (7 - (s + i)))"
  proof
    assume h: "\<forall>i<8. bit (ord x) i \<longrightarrow> 8 - s \<le> i"
    show "\<forall>i<8 - s. \<not> bit (ord x) (7 - (s + i))"
    proof (intro allI impI notI)
      fix i assume i: "i < 8 - s" "bit (ord x) (7 - (s + i))"
      then have "8 - s \<le> 7 - (s + i)" using h by auto
      then show False using i(1) by linarith
    qed
  next
    assume h: "\<forall>i<8 - s. \<not> bit (ord x) (7 - (s + i))"
    show "\<forall>i<8. bit (ord x) i \<longrightarrow> 8 - s \<le> i"
    proof (intro allI impI)
      fix i :: nat assume i: "i < 8" "bit (ord x) i"
      show "8 - s \<le> i"
      proof (rule ccontr)
        assume "\<not> 8 - s \<le> i"
        then have "7 - s - i < 8 - s" "7 - (s + (7 - s - i)) = i" using assms by linarith+
        then show False using h i(2) by metis
      qed
    qed
  qed
  also have "\<dots> \<longleftrightarrow> list_all Not (drop s (byte_bits x))"
    using assms by (auto simp: list_all_length byte_bits_def)
  finally show ?thesis .
qed

lemma take_byte_bits: "take k (bits (x # xs)) = take (min 8 k) (byte_bits x) @ take (k - min 8 k) (bits xs)"
  by (cases "k \<le> 8") simp_all

lemma drop_byte_bits: "drop k (bits (x # xs)) = drop (min 8 k) (byte_bits x) @ drop (k - min 8 k) (bits xs)"
  by (cases "k \<le> 8") simp_all

text \<open>What \<open>mask_loop\<close> stores: the match is a match of prefixes, and \<open>NGX_DONE\<close> says that bits behind the prefix were
  set.\<close>

lemma mask_loop_prefix:
  assumes "mask_loop (int k) addr = (rc, addr', m)"
  shows "length addr' = length addr \<and> length m = length addr
    \<and> (rc = NGX_OK \<or> rc = NGX_DONE) \<and> (rc = NGX_OK \<longleftrightarrow> list_all Not (drop k (bits addr)))
    \<and> (\<forall>xs. length xs = length addr \<longrightarrow>
         ((\<forall>n<length xs. and_byte (xs ! n) (m ! n) = addr' ! n) \<longleftrightarrow> take k (bits xs) = take k (bits addr)))"
  using assms
proof (induction addr arbitrary: k rc addr' m)
  case Nil
  then show ?case by (auto simp: code_const)
next
  case (Cons a addr)
  let ?s = "min 8 k"
  have s: "?s \<le> 8" "(if int k > 8 then 8 else nat (int k)) = ?s" "int k - int ?s = int (k - ?s)" by auto
  obtain rc1 addr1 m1 where l: "mask_loop (int (k - ?s)) addr = (rc1, addr1, m1)" by (cases "mask_loop (int (k - ?s)) addr")
  have "mask_loop (int k) (a # addr) =
      (if a \<noteq> and_byte a (prefix_mask ?s) then (NGX_DONE, and_byte a (prefix_mask ?s) # addr1, prefix_mask ?s # m1)
       else (rc1, a # addr1, prefix_mask ?s # m1))"
    by (simp only: mask_loop.simps Let_def s(2,3) l prod.case prefix_mask_def)
  then have e: "addr' = and_byte a (prefix_mask ?s) # addr1" "m = prefix_mask ?s # m1"
    "rc = (if a = and_byte a (prefix_mask ?s) then rc1 else NGX_DONE)"
    using Cons.prems by (auto split: if_splits)
  note IH = Cons.IH [OF l]
  have m: "(\<forall>n<length xs. and_byte (xs ! n) (m ! n) = addr' ! n) \<longleftrightarrow> take k (bits xs) = take k (bits (a # addr))"
    if xs: "length xs = length (a # addr)" for xs
  proof -
    obtain y ys where y: "xs = y # ys" "length ys = length addr" using xs by (cases xs) auto
    have "(\<forall>n<length xs. and_byte (xs ! n) (m ! n) = addr' ! n) \<longleftrightarrow>
        and_byte y (prefix_mask ?s) = and_byte a (prefix_mask ?s)
        \<and> (\<forall>n<length ys. and_byte (ys ! n) (m1 ! n) = addr1 ! n)"
      unfolding y(1) e by (auto simp: less_Suc_eq_0_disj)
    also have "\<dots> \<longleftrightarrow> take ?s (byte_bits y) = take ?s (byte_bits a) \<and> take (k - ?s) (bits ys) = take (k - ?s) (bits addr)"
      using IH y(2) masked_byte_eq [OF s(1)] by simp
    also have "\<dots> \<longleftrightarrow> take k (bits xs) = take k (bits (a # addr))"
      unfolding y(1) take_byte_bits by simp
    finally show ?thesis .
  qed
  have "rc = NGX_OK \<longleftrightarrow> list_all Not (drop k (bits (a # addr)))"
    unfolding drop_byte_bits using e(3) IH masked_byte_same [OF s(1), of a] by (auto simp: code_const)
  then show ?case using IH e m by auto
qed

lemma byte_bits_word: "i < 8 \<Longrightarrow> byte_bits (char_of (unat (drop_bit k a))) ! i = bit (a :: in_addr) (k + 7 - i)"
proof -
  assume i: "i < 8"
  have "bit (ord (char_of (unat (drop_bit k a)))) (7 - i) = bit (unat (drop_bit k a)) (7 - i)"
  proof -
    have "ord (char_of (unat (drop_bit k a))) = take_bit 8 (unat (drop_bit k a))" by (simp add: take_bit_eq_mod)
    moreover have "7 - i < 8" by simp
    ultimately show ?thesis by (simp add: bit_take_bit_iff)
  qed
  also have "\<dots> = bit a (k + (7 - i))" by (simp add: bit_unsigned_iff bit_drop_bit_eq)
  also have "k + (7 - i) = k + 7 - i" using i by simp
  finally show ?thesis using i by (simp add: byte_bits_def)
qed

lemma bits_addr: "bits (addr_bytes a) = map (\<lambda>j. bit a (31 - j)) [0..<32]"
proof -
  have b: "byte_bits (char_of (unat (drop_bit k a))) = map (\<lambda>i. bit a (k + 7 - i)) [0..<8]" for k
    by (rule nth_equalityI) (simp_all add: byte_bits_word)
  have "bits (addr_bytes a) = map (\<lambda>i. bit a (24 + 7 - i)) [0..<8] @ map (\<lambda>i. bit a (16 + 7 - i)) [0..<8]
      @ map (\<lambda>i. bit a (8 + 7 - i)) [0..<8] @ map (\<lambda>i. bit a (0 + 7 - i)) [0..<8]"
    unfolding addr_bytes_def using b [of 24] b [of 16] b [of 8] b [of 0] by simp
  also have "\<dots> = map (\<lambda>j. bit a (31 - j)) [0..<32]" by (simp add: upt_rec)
  finally show ?thesis .
qed

definition v4_mask :: "nat \<Rightarrow> in_addr" where
  "v4_mask k = (if k \<noteq> 0 then push_bit (32 - k) 0xffffffff else 0)"

lemma bit_v4_mask: "k \<le> 32 \<Longrightarrow> bit (v4_mask k) i \<longleftrightarrow> 32 - k \<le> i \<and> i < 32"
proof -
  have "(0xffffffff :: in_addr) = mask 32" by (simp add: mask_eq_exp_minus_1)
  then have m: "bit (0xffffffff :: in_addr) i \<longleftrightarrow> i < 32" for i by (simp only: bit_mask_iff) auto
  assume "k \<le> 32"
  then show ?thesis
    unfolding v4_mask_def
    by (cases "k = 0") (simp_all only: simp_thms if_True if_False bit_push_bit_iff m, auto)
qed

lemma word_eq_bits: "a = b \<longleftrightarrow> (\<forall>i<32. bit a i = bit b i)" for a b :: in_addr
  by (auto simp: bit_word_eqI intro!: bit_word_eqI)

lemma v4_masked_eq:
  assumes "k \<le> 32"
  shows "a AND v4_mask k = b AND v4_mask k \<longleftrightarrow> take k (bits (addr_bytes a)) = take k (bits (addr_bytes b))"
proof -
  have "a AND v4_mask k = b AND v4_mask k \<longleftrightarrow> (\<forall>i<32. 32 - k \<le> i \<longrightarrow> bit a i = bit b i)"
    unfolding word_eq_bits by (auto simp: bit_and_iff bit_v4_mask [OF assms])
  also have "\<dots> \<longleftrightarrow> (\<forall>j<k. bit a (31 - j) = bit b (31 - j))"
  proof
    assume h: "\<forall>j<k. bit a (31 - j) = bit b (31 - j)"
    show "\<forall>i<32. 32 - k \<le> i \<longrightarrow> bit a i = bit b i"
    proof (intro allI impI)
      fix i :: nat assume i: "i < 32" "32 - k \<le> i"
      have "31 - i < k" "31 - (31 - i) = i" using i assms by linarith+
      then show "bit a i = bit b i" using h by metis
    qed
  qed (use assms in auto)
  also have "\<dots> \<longleftrightarrow> take k (bits (addr_bytes a)) = take k (bits (addr_bytes b))"
    using assms by (auto simp: bits_addr list_eq_iff_nth_eq)
  finally show ?thesis .
qed

lemma v4_masked_same:
  assumes "k \<le> 32"
  shows "a = a AND v4_mask k \<longleftrightarrow> list_all Not (drop k (bits (addr_bytes a)))"
proof -
  have "a = a AND v4_mask k \<longleftrightarrow> (\<forall>i<32. bit a i \<longrightarrow> 32 - k \<le> i)"
    unfolding word_eq_bits [of a] by (auto simp: bit_and_iff bit_v4_mask [OF assms])
  also have "\<dots> \<longleftrightarrow> (\<forall>j<32 - k. \<not> bit a (31 - (k + j)))"
  proof
    assume h: "\<forall>i<32. bit a i \<longrightarrow> 32 - k \<le> i"
    show "\<forall>j<32 - k. \<not> bit a (31 - (k + j))"
    proof (intro allI impI notI)
      fix j assume j: "j < 32 - k" "bit a (31 - (k + j))"
      then have "32 - k \<le> 31 - (k + j)" using h by auto
      then show False using j(1) by linarith
    qed
  next
    assume h: "\<forall>j<32 - k. \<not> bit a (31 - (k + j))"
    show "\<forall>i<32. bit a i \<longrightarrow> 32 - k \<le> i"
    proof (intro allI impI)
      fix i :: nat assume i: "i < 32" "bit a i"
      show "32 - k \<le> i"
      proof (rule ccontr)
        assume "\<not> 32 - k \<le> i"
        then have "31 - k - i < 32 - k" "31 - (k + (31 - k - i)) = i" using assms by linarith+
        then show False using h i(2) by metis
      qed
    qed
  qed
  also have "\<dots> \<longleftrightarrow> list_all Not (drop k (bits (addr_bytes a)))"
    using assms by (auto simp: list_all_length bits_addr)
  finally show ?thesis .
qed

text \<open>What a network is: the addresses of its family with the same first bits; an IPv4 address written as an
  IPv6 address counts as IPv4.\<close>

definition unmapped :: "sockaddr \<Rightarrow> sockaddr" where
  "unmapped sa =
     (case sa of
        Sockaddr_in6 a port \<Rightarrow> if IN6_IS_ADDR_V4MAPPED a then Sockaddr_in (of_nat (v4_number (drop 12 a))) port else sa
      | _ \<Rightarrow> sa)"

definition sock_bits :: "sockaddr \<Rightarrow> bool list" where
  "sock_bits sa = (case sa of Sockaddr_in a _ \<Rightarrow> bits (addr_bytes a) | Sockaddr_in6 a _ \<Rightarrow> bits a | _ \<Rightarrow> [])"

definition in_network :: "sockaddr \<Rightarrow> nat \<Rightarrow> sockaddr \<Rightarrow> bool" where
  "in_network net k sa \<longleftrightarrow>
     length (sock_bits (unmapped sa)) = length (sock_bits net)
     \<and> take k (sock_bits (unmapped sa)) = take k (sock_bits net)"

definition inet_address :: "sockaddr \<Rightarrow> bool" where
  "inet_address sa \<longleftrightarrow> (case sa of Sockaddr_in _ _ \<Rightarrow> True | Sockaddr_in6 a _ \<Rightarrow> length a = 16 | _ \<Rightarrow> False)"

lemma v4_of_mapped_number: "length a = 16 \<Longrightarrow> v4_of_mapped a = of_nat (v4_number (drop 12 a))"
  by (simp add: v4_of_mapped_def v4_number_def push_bit_eq_mult algebra_simps)

lemma cidr_match_unmapped:
  assumes "inet_address sa"
  shows "ngx_cidr_match sa cs = (if list_ex (cidr_entry (unmapped sa)) cs then NGX_OK else NGX_DECLINED)"
  using assms v4_of_mapped_number
  by (auto simp: ngx_cidr_match_def unmapped_def inet_address_def Let_def split: sockaddr.splits)

lemma inet_unmapped: "inet_address sa \<Longrightarrow> inet_address (unmapped sa)"
  by (auto simp: unmapped_def inet_address_def split: sockaddr.splits)

lemma v4_entry:
  assumes "k \<le> 32" and "inet_address sa"
  shows "cidr_entry (unmapped sa) (Cidr_in (a AND v4_mask k) (v4_mask k)) \<longleftrightarrow> in_network (Sockaddr_in a port) k sa"
  using inet_unmapped [OF assms(2)] v4_masked_eq [OF assms(1)] addr_bytes_number(1)
  by (auto simp: cidr_entry_def in_network_def sock_bits_def inet_address_def split: sockaddr.splits)

lemma v6_entry:
  assumes "mask_loop (int k) a = (rc, a', m)" and "length a = 16" and "inet_address sa"
  shows "cidr_entry (unmapped sa) (Cidr_in6 a' m) \<longleftrightarrow> in_network (Sockaddr_in6 a port) k sa"
proof -
  have "list_all (\<lambda>n. and_byte (x ! n) (m ! n) = a' ! n) [0..<16] \<longleftrightarrow> take k (bits x) = take k (bits a)" if "length x = 16" for x
  proof -
    have l: "list_all P [0..<16] \<longleftrightarrow> (\<forall>n<length x. P n)" for P :: "nat \<Rightarrow> bool"
      unfolding list_all_iff set_upt that by auto
    show ?thesis unfolding l using mask_loop_prefix [OF assms(1)] assms(2) that by simp
  qed
  note match = this
  show ?thesis
    using inet_unmapped [OF assms(3)] assms(2) addr_bytes_number(1)
    by (cases "unmapped sa")
      (simp_all add: cidr_entry_def in_network_def sock_bits_def inet_address_def match del: upt_rec_numeral)
qed

lemma ptocidr_text:
  assumes "list_all addr_char t" and "k < 65536"
  shows "strlchr (t @ CHR ''/'' # dec_digits k []) (CHR ''/'') = Some (length t)"
    and "ngx_atoi (drop (length t + 1) (t @ CHR ''/'' # dec_digits k [])) = int k"
proof -
  have "CHR ''/'' \<notin> set t" using assms(1) by (auto simp: list_all_iff addr_char_def is_hex_def is_digit_ord is_hex_letter_ord)
  then show "strlchr (t @ CHR ''/'' # dec_digits k []) (CHR ''/'') = Some (length t)" by (rule strlchr_append)
  show "ngx_atoi (drop (length t + 1) (t @ CHR ''/'' # dec_digits k [])) = int k" using dec_port(2) [OF assms(2)] by simp
qed

text \<open>C16: A network written as an address and a number of bits is the set of the addresses that agree with it in
  these first bits, of the same family, where an IPv4-mapped IPv6 address counts as IPv4; the return code says
  whether bits behind the prefix were set.\<close>

theorem cidr_match_prefix:
  assumes "inet_address net" and "\<not> unreadable net" and "k \<le> length (sock_bits net)"
    and "ngx_sock_ntop (ngx_inet_set_port net 0) NGX_SOCKADDR_STRLEN False = Some t"
  shows "case ngx_ptocidr (t @ ''/'' @ dec_digits k []) of
      (rc, None) \<Rightarrow> False
    | (rc, Some c) \<Rightarrow>
        rc = (if list_all Not (drop k (sock_bits net)) then NGX_OK else NGX_DONE)
        \<and> (\<forall>sa. inet_address sa \<longrightarrow> ngx_cidr_match sa [c] = (if in_network net k sa then NGX_OK else NGX_DECLINED))"
proof (cases net)
  case (Sockaddr_in a port)
  then have a: "a \<noteq> INADDR_NONE" "k \<le> 32" and t: "t = dots (addr_bytes a)"
    using assms(2-4) print_in [of 0 a False] by (simp_all add: unreadable_def sock_bits_def addr_bytes_def ngx_inet_set_port_def)
  have i: "in_cidr a k = ((if a = a AND v4_mask k then NGX_OK else NGX_DONE), Cidr_in (a AND v4_mask k) (v4_mask k))"
    by (simp add: in_cidr_def Let_def v4_mask_def)
  have p: "ngx_ptocidr (t @ ''/'' @ dec_digits k []) = map_prod id Some (in_cidr a k)"
    using ptocidr_text [OF dots_addr_chars, of k "addr_bytes a"] a inet_addr_dots [OF addr_bytes_number(1), of a] addr_bytes_number(2) [of a]
    by (simp add: ngx_ptocidr_def Let_def t NGX_ERROR_def)
  show ?thesis
    unfolding p i using v4_entry [OF a(2), of _ a port] v4_masked_same [OF a(2), of a]
    by (simp add: cidr_match_unmapped Sockaddr_in sock_bits_def)
next
  case (Sockaddr_in6 a port)
  then have a: "length a = 16" "k \<le> 128" "\<not> unreadable6 a"
    using assms(1-3) by (simp_all add: unreadable_def sock_bits_def inet_address_def)
  obtain t' where t': "ngx_sock_ntop (Sockaddr_in6 a 0) NGX_SOCKADDR_STRLEN False = Some t'" "CHR '':'' \<in> set t'" "list_all addr_char t'"
    "ngx_inet6_addr t' = Some a"
    using print_in6 [OF a(1), of 0 False] a(3) by (metis zero_less_numeral)
  then have t: "t = t'" using assms(4) by (simp add: Sockaddr_in6 ngx_inet_set_port_def)
  obtain rc a' m where l: "mask_loop (int k) a = (rc, a', m)" by (cases "mask_loop (int k) a")
  have p: "ngx_ptocidr (t @ ''/'' @ dec_digits k []) = (rc, Some (Cidr_in6 a' m))"
    using ptocidr_text [OF t'(3), of k] a(2) inet_addr_colon [OF t'(2)] t'(4) l
    by (simp add: ngx_ptocidr_def Let_def t NGX_ERROR_def)
  show ?thesis
    unfolding p using v6_entry [OF l a(1), of _ port] mask_loop_prefix [OF l]
    by (auto simp: cidr_match_unmapped Sockaddr_in6 sock_bits_def)
qed (use assms(1) in \<open>simp_all add: inet_address_def\<close>)

theorem cidr_match_prefix_witness:
  "\<exists>t. ngx_sock_ntop (Sockaddr_in6 ([CHR 0x20, CHR 0x01, CHR 0x0D, CHR 0xB8] @ replicate 12 NUL) 0) NGX_SOCKADDR_STRLEN False = Some t
     \<and> (case ngx_ptocidr (t @ ''/'' @ dec_digits 29 []) of
          (rc, Some c) \<Rightarrow>
            rc = NGX_OK
            \<and> ngx_cidr_match (Sockaddr_in6 ([CHR 0x20, CHR 0x01, CHR 0x0D, CHR 0xBF] @ replicate 12 (CHR 0x07)) 80) [c] = NGX_OK
        | _ \<Rightarrow> False)"
proof -
  let ?a = "[CHR 0x20, CHR 0x01, CHR 0x0D, CHR 0xB8] @ replicate 12 NUL"
  let ?net = "Sockaddr_in6 ?a 0"
  let ?sa = "Sockaddr_in6 ([CHR 0x20, CHR 0x01, CHR 0x0D, CHR 0xBF] @ replicate 12 (CHR 0x07)) 80"
  obtain t where t: "ngx_sock_ntop ?net NGX_SOCKADDR_STRLEN False = Some t"
    using print_in6 [of ?a 0 False] by fastforce
  then have t': "ngx_sock_ntop (ngx_inet_set_port ?net 0) NGX_SOCKADDR_STRLEN False = Some t"
    by (simp add: ngx_inet_set_port_def)
  have n: "inet_address ?net" "29 \<le> length (sock_bits ?net)" "list_all Not (drop 29 (sock_bits ?net))"
    "in_network ?net 29 ?sa" "inet_address ?sa"
    by code_simp+
  have "\<not> unreadable ?net" by (auto simp: unreadable_def unreadable6_def dest!: arg_cong [where f = hd])
  from cidr_match_prefix [OF n(1) this n(2) t'] show ?thesis
    using n(3-5) t by (auto split: prod.splits option.splits)
qed

end
