(* ===== verification/ClientAddr.thy ===== *)
theory ClientAddr
  imports InetCidr
begin

text \<open>
  Whose request it is: \<open>ngx_http_get_forwarded_addr\<close> of \<open>src/http/ngx_http_core_module.c\<close>, which follows the
  addresses that proxies have added to a header, and \<open>src/http/modules/ngx_http_realip_module.c\<close>, which puts the
  address found into the connection, where every access rule, limit and list of BunkerWeb takes it from.
\<close>

section \<open>One header\<close>

definition is_sep :: "char \<Rightarrow> bool" where
  "is_sep c \<longleftrightarrow> c = CHR '' '' \<or> c = CHR '',''"

text \<open>The first loop leaves \<open>xfflen\<close> and \<open>p = xff + xfflen - 1\<close>; the second leaves the start of the address.\<close>

fun skip_separators :: "bytes \<Rightarrow> nat \<Rightarrow> nat" where
  "skip_separators xff n =
     (if n > 1 \<and> is_sep (xff ! (n - 1)) then skip_separators xff (n - 1) else n)"

fun address_start :: "bytes \<Rightarrow> nat \<Rightarrow> nat" where
  "address_start xff 0 = 0"
| "address_start xff (Suc p) = (if is_sep (xff ! Suc p) then Suc (Suc p) else address_start xff p)"

declare skip_separators.simps [simp del]

lemma skip_separators_le: "skip_separators xff n \<le> n"
  by (induction xff n rule: skip_separators.induct) (subst skip_separators.simps, auto)

lemma address_start_le: "address_start xff p \<le> Suc p"
  by (induction p) auto

definition not_found :: "bool \<Rightarrow> int" where
  "not_found found = (if found then NGX_DONE else NGX_DECLINED)"

text \<open>\<open>prev\<close> is the byte in front of the value: with an empty value \<open>p\<close> is \<open>xff - 1\<close> and that byte is read.
  \<open>alloc k\<close> says whether the allocation of the \<open>k\<close>-th round succeeds.\<close>

function get_forwarded_addr_internal ::
  "(nat \<Rightarrow> bool) \<Rightarrow> cidr list \<Rightarrow> bool \<Rightarrow> char \<Rightarrow> bytes \<Rightarrow> nat \<Rightarrow> nat \<Rightarrow> bool \<Rightarrow> sockaddr \<Rightarrow> int \<times> sockaddr" where
  "get_forwarded_addr_internal alloc proxies recursive prev xff n k found addr =
     (if ngx_cidr_match addr proxies \<noteq> NGX_OK then (not_found found, addr)
      else if n = 0 then
        (case ngx_parse_addr_port (alloc k) [prev] of
           Inl _ \<Rightarrow> (not_found found, addr)
         | Inr paddr \<Rightarrow> (NGX_OK, paddr))
      else
        let n' = skip_separators xff n;
            p = address_start xff (n' - 1)
        in case ngx_parse_addr_port (alloc k) (take (n' - p) (drop p xff)) of
             Inl _ \<Rightarrow> (not_found found, addr)
           | Inr paddr \<Rightarrow>
               if recursive \<and> p > 0
               then get_forwarded_addr_internal alloc proxies recursive prev xff (p - 1) (k + 1) True paddr
               else (NGX_OK, paddr))"
  by pat_completeness auto
termination
proof (relation "measure (\<lambda>(_, _, _, _, _, n, _). n)", goal_cases)
  case (2 alloc proxies recursive prev xff n k found addr n' p paddr)
  then show ?case
    using skip_separators_le [of xff n] address_start_le [of xff "n' - 1"] by auto
qed simp

declare get_forwarded_addr_internal.simps [simp del]

section \<open>All headers of the name\<close>

text \<open>The headers come in the order in which the loop visits them: the last one first.  Each has its value and the
  byte in front of it.\<close>

fun forwarded_loop ::
  "(nat \<Rightarrow> nat \<Rightarrow> bool) \<Rightarrow> cidr list \<Rightarrow> bool \<Rightarrow> (char \<times> bytes) list \<Rightarrow> nat \<Rightarrow> bool \<Rightarrow> int \<Rightarrow> sockaddr \<Rightarrow> int \<times> sockaddr" where
  "forwarded_loop alloc proxies recursive [] i found rc addr = (rc, addr)"
| "forwarded_loop alloc proxies recursive ((prev, v) # hs) i found rc addr =
     (case get_forwarded_addr_internal (alloc i) proxies recursive prev v (length v) 0 False addr of
        (rc, addr) \<Rightarrow>
          if \<not> recursive then (rc, addr)
          else if rc = NGX_DECLINED \<and> found then (NGX_DONE, addr)
          else if rc \<noteq> NGX_OK then (rc, addr)
          else forwarded_loop alloc proxies recursive hs (i + 1) True rc addr)"

datatype forwarded = Headers "(char \<times> bytes) list" | Value char bytes

definition ngx_http_get_forwarded_addr ::
  "(nat \<Rightarrow> nat \<Rightarrow> bool) \<Rightarrow> cidr list \<Rightarrow> bool \<Rightarrow> forwarded \<Rightarrow> sockaddr \<Rightarrow> int \<times> sockaddr" where
  "ngx_http_get_forwarded_addr alloc proxies recursive src addr =
     (case src of
        Value prev v \<Rightarrow> get_forwarded_addr_internal (alloc 0) proxies recursive prev v (length v) 0 False addr
      | Headers hs \<Rightarrow> forwarded_loop alloc proxies recursive (rev hs) 0 False NGX_DECLINED addr)"

section \<open>The module\<close>

datatype realip_type = REALIP_XREALIP | REALIP_XFWD | REALIP_HEADER | REALIP_PROXY

record realip_conf =
  rc_from :: "cidr list option"
  rc_type :: realip_type
  rc_header :: bytes
  rc_recursive :: bool

record proxy_protocol =
  pp_src_addr :: bytes
  pp_dst_addr :: bytes
  pp_src_port :: nat
  pp_dst_port :: nat
  pp_tlvs :: bytes

record connection =
  c_sockaddr :: sockaddr
  c_addr_text :: bytes
  c_proxy_protocol :: "proxy_protocol option"

text \<open>The module's context: the address the connection had.\<close>

record realip_ctx =
  rx_sockaddr :: sockaddr
  rx_addr_text :: bytes

text \<open>The headers of a request: the lower-case name, the value, and the byte in front of the value.  The cleanup
  handlers of the pool are the contexts that the module has registered.\<close>

record http_request =
  r_connection :: connection
  r_headers :: "(bytes \<times> char \<times> bytes) list"
  r_ctx :: "realip_ctx option"
  r_internal :: bool
  r_filter_finalize :: bool
  r_cleanups :: "realip_ctx list"

definition header_values :: "bytes \<Rightarrow> http_request \<Rightarrow> (char \<times> bytes) list" where
  "header_values name r = map snd (filter (\<lambda>h. fst h = name) (r_headers r))"

definition realip_get_module_ctx :: "http_request \<Rightarrow> realip_ctx option" where
  "realip_get_module_ctx r =
     (if r_ctx r = None \<and> (r_internal r \<or> r_filter_finalize r)
      then (case r_cleanups r of [] \<Rightarrow> None | ctx # _ \<Rightarrow> Some ctx)
      else r_ctx r)"

text \<open>The value that the type of the configuration selects.\<close>

definition realip_source :: "realip_conf \<Rightarrow> http_request \<Rightarrow> forwarded option" where
  "realip_source conf r =
     (case rc_type conf of
        REALIP_XREALIP \<Rightarrow>
          (case header_values ''x-real-ip'' r of [] \<Rightarrow> None | (prev, v) # _ \<Rightarrow> Some (Value prev v))
      | REALIP_XFWD \<Rightarrow>
          (case header_values ''x-forwarded-for'' r of [] \<Rightarrow> None | hs \<Rightarrow> Some (Headers hs))
      | REALIP_PROXY \<Rightarrow>
          (case c_proxy_protocol (r_connection r) of
             None \<Rightarrow> None
           | Some pp \<Rightarrow> Some (Value NUL (pp_src_addr pp)))
      | REALIP_HEADER \<Rightarrow>
          (case header_values (rc_header conf) r of [] \<Rightarrow> None | (prev, v) # _ \<Rightarrow> Some (Value prev v)))"

abbreviation SERVER_ERROR :: int where "SERVER_ERROR \<equiv> 500"

text \<open>\<open>mem1\<close> and \<open>mem2\<close> say whether the two allocations succeed.  A failing one after the first leaves the cleanup
  entry without a handler.\<close>

definition realip_set_addr :: "bool \<Rightarrow> bool \<Rightarrow> http_request \<Rightarrow> sockaddr \<Rightarrow> int \<times> http_request" where
  "realip_set_addr mem1 mem2 r addr =
     (if \<not> mem1 then (SERVER_ERROR, r)
      else
        case ngx_sock_ntop addr NGX_SOCKADDR_STRLEN False of
          None \<Rightarrow> (SERVER_ERROR, r)
        | Some text \<Rightarrow>
            if text = [] then (SERVER_ERROR, r)
            else if \<not> mem2 then (SERVER_ERROR, r)
            else
              let c = r_connection r;
                  ctx = \<lparr>rx_sockaddr = c_sockaddr c, rx_addr_text = c_addr_text c\<rparr>
              in (NGX_DECLINED,
                  r\<lparr>r_cleanups := ctx # r_cleanups r, r_ctx := Some ctx,
                    r_connection := c\<lparr>c_sockaddr := addr, c_addr_text := text\<rparr>\<rparr>))"

definition realip_handler ::
  "(nat \<Rightarrow> nat \<Rightarrow> bool) \<Rightarrow> bool \<Rightarrow> bool \<Rightarrow> realip_conf \<Rightarrow> http_request \<Rightarrow> int \<times> http_request" where
  "realip_handler alloc mem1 mem2 conf r =
     (case rc_from conf of
        None \<Rightarrow> (NGX_DECLINED, r)
      | Some from \<Rightarrow>
          if realip_get_module_ctx r \<noteq> None then (NGX_DECLINED, r)
          else
            case realip_source conf r of
              None \<Rightarrow> (NGX_DECLINED, r)
            | Some src \<Rightarrow>
                (case ngx_http_get_forwarded_addr alloc from (rc_recursive conf) src (c_sockaddr (r_connection r)) of
                   (rc, addr) \<Rightarrow>
                     if rc \<noteq> NGX_DECLINED then
                       let addr = (case (rc_type conf, c_proxy_protocol (r_connection r)) of
                                     (REALIP_PROXY, Some pp) \<Rightarrow> ngx_inet_set_port addr (pp_src_port pp)
                                   | _ \<Rightarrow> addr)
                       in realip_set_addr mem1 mem2 r addr
                     else (NGX_DECLINED, r)))"

definition realip_cleanup :: "realip_ctx \<Rightarrow> connection \<Rightarrow> connection" where
  "realip_cleanup ctx c = c\<lparr>c_sockaddr := rx_sockaddr ctx, c_addr_text := rx_addr_text ctx\<rparr>"

definition realip_remote_addr_variable :: "http_request \<Rightarrow> bytes" where
  "realip_remote_addr_variable r =
     (case realip_get_module_ctx r of
        Some ctx \<Rightarrow> rx_addr_text ctx
      | None \<Rightarrow> c_addr_text (r_connection r))"

definition realip_remote_port_variable :: "http_request \<Rightarrow> bytes option" where
  "realip_remote_port_variable r =
     (let sa = (case realip_get_module_ctx r of Some ctx \<Rightarrow> rx_sockaddr ctx | None \<Rightarrow> c_sockaddr (r_connection r));
          port = ngx_inet_get_port sa
      in if port > 0 \<and> port < 65536 then ngx_sprintf ''%ui'' [IntArg (int port)] else Some [])"


section \<open>Whose address is found\<close>

text \<open>\<open>client_of\<close> walks from the peer towards the client and stops at the first address that is not a trusted
  proxy.\<close>

fun client_of :: "(sockaddr \<Rightarrow> bool) \<Rightarrow> sockaddr \<Rightarrow> sockaddr list \<Rightarrow> sockaddr" where
  "client_of trusted addr [] = addr"
| "client_of trusted addr (hop # hops) = (if trusted addr then client_of trusted hop hops else addr)"

lemma client_of_append:
  "client_of trusted addr (hops @ h # rest) =
     (if list_all trusted (addr # hops) then client_of trusted h rest else client_of trusted addr hops)"
  by (induction hops arbitrary: addr) auto

lemma client_of_trusted: "list_all trusted (addr # hops) \<Longrightarrow> trusted (client_of trusted addr hops)"
  by (induction hops arbitrary: addr) auto

definition trusts :: "cidr list \<Rightarrow> sockaddr \<Rightarrow> bool" where
  "trusts proxies sa \<longleftrightarrow> ngx_cidr_match sa proxies = NGX_OK"

text \<open>An address as a proxy writes it, and one with the separators in front of it.\<close>

definition hop_text :: "bytes \<Rightarrow> sockaddr \<Rightarrow> bool" where
  "hop_text t a \<longleftrightarrow> t \<noteq> [] \<and> list_all (\<lambda>c. \<not> is_sep c) t \<and> ngx_parse_addr_port True t = Inr a"

definition hop :: "bytes \<times> bytes \<times> sockaddr \<Rightarrow> bool" where
  "hop h \<longleftrightarrow> (case h of (s, t, a) \<Rightarrow> s \<noteq> [] \<and> list_all is_sep s \<and> hop_text t a)"

definition hops_text :: "(bytes \<times> bytes \<times> sockaddr) list \<Rightarrow> bytes" where
  "hops_text hs = concat (map (\<lambda>(s, t, a). s @ t) hs)"

definition hop_addrs :: "(bytes \<times> bytes \<times> sockaddr) list \<Rightarrow> sockaddr list" where
  "hop_addrs hs = map (\<lambda>(s, t, a). a) hs"

lemma skip_to:
  assumes "u \<noteq> []" and "\<not> is_sep (last u)" and "list_all is_sep s"
  shows "skip_separators (u @ s @ x) (length u + length s) = length u"
  using assms(3)
proof (induction s arbitrary: x rule: rev_induct)
  case Nil
  have "u ! (length u - 1) = last u" using assms(1) by (simp add: last_conv_nth)
  then show ?case using assms(1,2) by (subst skip_separators.simps) (simp add: nth_append)
next
  case (snoc c s)
  have "skip_separators (u @ (s @ [c]) @ x) (length u + length (s @ [c])) = skip_separators (u @ s @ c # x) (length u + length s)"
    using assms(1) snoc.prems by (subst skip_separators.simps) (simp add: nth_append)
  then show ?case using snoc by simp
qed

lemma start_at:
  assumes "list_all (\<lambda>c. \<not> is_sep c) t" and "q \<le> length t"
  shows "address_start (A @ [c] @ t @ x) (length A + q) = address_start (A @ [c] @ t @ x) (length A)"
  using assms(2)
proof (induction q)
  case (Suc q)
  then have "\<not> is_sep ((A @ [c] @ t @ x) ! Suc (length A + q))"
    using assms(1) by (auto simp: nth_append list_all_length)
  then show ?case using Suc by simp
qed simp

lemma start_behind_sep:
  assumes "A \<noteq> []" and "is_sep c" and "list_all (\<lambda>c. \<not> is_sep c) t" and "q \<le> length t"
  shows "address_start (A @ [c] @ t @ x) (length A + q) = Suc (length A)"
proof -
  obtain k where k: "length A = Suc k" using assms(1) by (cases A) auto
  have "(A @ [c] @ t @ x) ! length A = c" by (simp add: nth_append)
  then have "address_start (A @ [c] @ t @ x) (length A) = Suc (length A)" using assms(2) unfolding k by simp
  then show ?thesis using start_at [OF assms(3,4), of A c x] by (simp only:)
qed

lemma start_at_front:
  assumes "list_all (\<lambda>c. \<not> is_sep c) t" and "q < length t"
  shows "address_start (t @ x) q = 0"
  using assms(2)
proof (induction q)
  case (Suc q)
  then show ?case using assms(1) by (auto simp: nth_append list_all_length)
qed simp

abbreviation walk :: "cidr list \<Rightarrow> char \<Rightarrow> bytes \<Rightarrow> nat \<Rightarrow> nat \<Rightarrow> bool \<Rightarrow> sockaddr \<Rightarrow> int \<times> sockaddr" where
  "walk proxies \<equiv> get_forwarded_addr_internal (\<lambda>_. True) proxies True"

lemma walk_untrusted: "\<not> trusts proxies addr \<Longrightarrow> walk proxies prev xff n k found addr = (not_found found, addr)"
  by (subst get_forwarded_addr_internal.simps) (simp add: trusts_def)

lemma walk_hop:
  assumes "trusts proxies addr" and "A @ butlast s \<noteq> []" and "hop (s, t, a)" and "list_all is_sep s'"
  shows "get_forwarded_addr_internal (\<lambda>_. True) proxies recursive prev (A @ s @ t @ s' @ x)
      (length A + length s + length t + length s') k found addr
    = (if recursive then walk proxies prev (A @ s @ t @ s' @ x) (length A + (length s - 1)) (k + 1) True a else (NGX_OK, a))"
proof -
  have h: "s \<noteq> []" "list_all is_sep s" "t \<noteq> []" "list_all (\<lambda>c. \<not> is_sep c) t" "ngx_parse_addr_port True t = Inr a"
    using assms(3) by (auto simp: hop_def hop_text_def)
  obtain s0 c where s: "s = s0 @ [c]" using h(1) by (cases s rule: rev_cases) auto
  have A: "A @ s0 \<noteq> []" using assms(2) by (simp add: s)
  have last: "\<not> is_sep (last t)" "is_sep c" using h s by (auto simp: list_all_iff)
  let ?v = "A @ s @ t @ s' @ x" and ?n = "length A + length s + length t + length s'"
  have n: "skip_separators ?v ?n = length A + length s + length t"
    using skip_to [of "A @ s @ t" s' x] last(1) h(3) assms(4) by (simp add: add.assoc)
  obtain m where m: "length t = Suc m" using h(3) by (cases t) auto
  have p: "address_start ?v (length A + length s + length t - 1) = length A + length s"
    using start_behind_sep [of "A @ s0" c t "Suc m" "s' @ x"] A last(2) h(4) m by (simp add: s)
  have "take (length A + length s + length t - (length A + length s)) (drop (length A + length s) ?v) = t"
    using m by simp
  moreover have "0 < length A + length s" "length A + length s - 1 = length A + (length s - 1)" using h(1) by (cases s; simp)+
  moreover have "?n \<noteq> 0" using m by simp
  ultimately show ?thesis
    using assms(1) h(5) by (subst get_forwarded_addr_internal.simps) (simp only: trusts_def n p Let_def; simp)
qed

lemma walk_front:
  assumes "trusts proxies addr" and "hop_text t a" and "list_all is_sep s'"
  shows "get_forwarded_addr_internal (\<lambda>_. True) proxies recursive prev (t @ s' @ x) (length t + length s') k found addr = (NGX_OK, a)"
proof -
  have h: "t \<noteq> []" "list_all (\<lambda>c. \<not> is_sep c) t" "ngx_parse_addr_port True t = Inr a" "\<not> is_sep (last t)"
    using assms(2) by (auto simp: hop_text_def list_all_iff)
  obtain m where m: "length t = Suc m" using h(1) by (cases t) auto
  have n: "skip_separators (t @ s' @ x) (length t + length s') = length t" using skip_to [OF h(1,4) assms(3)] .
  have p: "address_start (t @ s' @ x) (length t - 1) = 0" using start_at_front [OF h(2), of m "s' @ x"] m by simp
  have "length t + length s' \<noteq> 0" using m by simp
  then show ?thesis
    using assms(1) h(3) by (subst get_forwarded_addr_internal.simps) (simp only: trusts_def n p Let_def; simp)
qed


text \<open>Along the hops of a header, from its end.\<close>

lemma hops_text_snoc [simp]:
  "hops_text (hs @ [(s, t, a)]) = hops_text hs @ s @ t" "hops_text [] = []" "hops_text ((s, t, a) # hs) = s @ t @ hops_text hs"
  by (simp_all add: hops_text_def)

lemma hop_addrs_snoc [simp]:
  "hop_addrs (hs @ [(s, t, a)]) = hop_addrs hs @ [a]" "hop_addrs [] = []" "hop_addrs ((s, t, a) # hs) = a # hop_addrs hs"
  by (simp_all add: hop_addrs_def)

text \<open>In front of a value's first byte no separator is looked for: what is not behind something needs two of them.\<close>

definition behind :: "bytes \<Rightarrow> (bytes \<times> bytes \<times> sockaddr) list \<Rightarrow> bool" where
  "behind front hs \<longleftrightarrow> front \<noteq> [] \<or> (case hs of [] \<Rightarrow> True | (s, _) # _ \<Rightarrow> 2 \<le> length s)"

lemma behind_snoc:
  assumes "behind front (hs @ [(s, t, a)])" and "list_all hop hs"
  shows "behind front hs" and "(front @ hops_text hs) @ butlast s \<noteq> []"
proof -
  show "behind front hs" using assms(1) by (cases hs) (auto simp: behind_def)
  show "(front @ hops_text hs) @ butlast s \<noteq> []"
  proof (cases hs)
    case Nil
    then show ?thesis using assms(1) by (cases s; cases "tl s") (auto simp: behind_def)
  next
    case (Cons h hs')
    then show ?thesis using assms(2) by (cases h) (auto simp: hop_def)
  qed
qed

lemma walk_hops:
  assumes "behind front hs" and "list_all hop hs" and "list_all is_sep s'"
  shows "walk proxies prev (front @ hops_text hs @ s' @ x) (length front + length (hops_text hs) + length s') k found addr =
    (if list_all (trusts proxies) (addr # rev (hop_addrs hs))
     then walk proxies prev (front @ hops_text hs @ s' @ x) (length front + length (if hs = [] then s' else butlast (fst (hd hs))))
       (k + length hs) (found \<or> hs \<noteq> []) (client_of (trusts proxies) addr (rev (hop_addrs hs)))
     else (if trusts proxies addr then NGX_DONE else not_found found, client_of (trusts proxies) addr (rev (hop_addrs hs))))"
  using assms
proof (induction hs arbitrary: s' x k found addr rule: rev_induct)
  case Nil
  then show ?case by (simp add: walk_untrusted)
next
  case (snoc h hs)
  obtain s t a where h: "h = (s, t, a)" by (cases h)
  show ?case
  proof (cases "trusts proxies addr")
    case False
    then show ?thesis by (simp add: walk_untrusted h)
  next
    case True
    have hop: "hop (s, t, a)" "s \<noteq> []" "list_all is_sep s" "list_all hop hs"
      using snoc.prems(2) by (simp_all add: h, simp_all add: hop_def)
    note before_hop = behind_snoc [OF snoc.prems(1) [unfolded h] hop(4)]
    let ?b = "butlast s"
    have b: "list_all is_sep ?b" "s = ?b @ [last s]" "length s - 1 = length ?b"
      using hop(2,3) by (auto simp: list_all_iff dest: in_set_butlastD)
    have bs: "butlast s @ last s # y = s @ y" for y using hop(2) by (metis append_Cons append_Nil append_assoc append_butlast_last_id)
    have "walk proxies prev (front @ hops_text (hs @ [h]) @ s' @ x) (length front + length (hops_text (hs @ [h])) + length s') k found addr
      = walk proxies prev (front @ hops_text hs @ ?b @ [last s] @ t @ s' @ x) (length front + length (hops_text hs) + length ?b) (k + 1) True a"
      using walk_hop [OF True before_hop(2) hop(1) snoc.prems(3), of True prev x k found] b(3)
      by (simp add: h add.assoc bs)
    also note snoc.IH [OF before_hop(1) hop(4) b(1), of "[last s] @ t @ s' @ x" "k + 1" True a]
    finally show ?thesis
      using True by (cases "hs = []") (simp_all add: h not_found_def bs)
  qed
qed


text \<open>A header all of whose addresses were written by proxies: the first address and the hops behind it.  Its
  addresses from the end.\<close>

type_synonym chain = "char \<times> (bytes \<times> sockaddr) \<times> (bytes \<times> bytes \<times> sockaddr) list"

definition chain_ok :: "chain \<Rightarrow> bool" where
  "chain_ok w \<longleftrightarrow> (case w of (prev, (t, a), hs) \<Rightarrow> hop_text t a \<and> list_all hop hs)"

definition chain_header :: "chain \<Rightarrow> char \<times> bytes" where
  "chain_header w = (case w of (prev, (t, a), hs) \<Rightarrow> (prev, t @ hops_text hs))"

definition chain_addrs :: "chain \<Rightarrow> sockaddr list" where
  "chain_addrs w = (case w of (prev, (t, a), hs) \<Rightarrow> rev (hop_addrs hs) @ [a])"

lemma walk_chain:
  assumes "hop_text t a" and "list_all hop hs"
  shows "walk proxies prev (t @ hops_text hs) (length (t @ hops_text hs)) k found addr =
    (if list_all (trusts proxies) (addr # rev (hop_addrs hs)) then (NGX_OK, a)
     else (if trusts proxies addr then NGX_DONE else not_found found, client_of (trusts proxies) addr (rev (hop_addrs hs))))"
proof -
  have t: "t \<noteq> []" using assms(1) by (simp add: hop_text_def)
  let ?a = "client_of (trusts proxies) addr (rev (hop_addrs hs))"
  let ?s = "if hs = [] then [] else butlast (fst (hd hs))"
  have s: "list_all is_sep ?s" using assms(2) by (cases hs) (auto simp: hop_def list_all_iff dest: in_set_butlastD)
  obtain x where x: "hops_text hs = ?s @ x"
  proof (cases hs)
    case (Cons h hs')
    obtain s t a where "h = (s, t, a)" by (cases h)
    moreover from this have "s = butlast s @ [last s]" using assms(2) Cons by (simp add: hop_def)
    ultimately have "hops_text hs = butlast (fst (hd hs)) @ [last s] @ t @ hops_text hs'"
      using Cons by (simp add: hops_text_def)
    then show ?thesis using that Cons by simp
  qed (use that in simp)
  have "walk proxies prev (t @ hops_text hs) (length t + length ?s) k' found' ?a = (NGX_OK, a)"
    if "trusts proxies ?a" for k' found'
    using walk_front [OF that assms(1) s, of True prev x k' found'] x by simp
  moreover have "trusts proxies ?a" if "list_all (trusts proxies) (addr # rev (hop_addrs hs))"
    by (rule client_of_trusted [OF that])
  ultimately show ?thesis
    using walk_hops [OF _ assms(2), of t "[]" proxies prev "[]" k found addr] t by (auto simp: behind_def split: if_splits)
qed

abbreviation headers_walk :: "cidr list \<Rightarrow> (char \<times> bytes) list \<Rightarrow> nat \<Rightarrow> bool \<Rightarrow> int \<Rightarrow> sockaddr \<Rightarrow> int \<times> sockaddr" where
  "headers_walk proxies \<equiv> forwarded_loop (\<lambda>_ _. True) proxies True"

definition stopped :: "bool \<Rightarrow> bool \<Rightarrow> int" where
  "stopped found trusted = (if trusted \<or> found then NGX_DONE else NGX_DECLINED)"

lemma headers_walk_chain:
  assumes "chain_ok w"
  shows "headers_walk proxies (chain_header w # hs) i found rc addr =
    (if list_all (trusts proxies) (butlast (addr # chain_addrs w))
     then headers_walk proxies hs (i + 1) True NGX_OK (last (chain_addrs w))
     else (stopped found (trusts proxies addr), client_of (trusts proxies) addr (chain_addrs w)))"
proof -
  obtain prev t a ts where w: "w = (prev, (t, a), ts)" by (cases w) auto
  have ok: "hop_text t a" "list_all hop ts" using assms by (auto simp: chain_ok_def w)
  have b: "butlast (addr # chain_addrs w) = addr # rev (hop_addrs ts)" by (simp add: chain_addrs_def w butlast_append)
  show ?thesis
    unfolding b using walk_chain [OF ok, of proxies prev 0 False addr]
    by (auto simp: chain_header_def chain_addrs_def w client_of_append stopped_def not_found_def code_const)
qed

lemma headers_walk_front:
  assumes "behind front hs" and "list_all hop hs" and "\<not> list_all (trusts proxies) (addr # rev (hop_addrs hs))"
  shows "headers_walk proxies ((prev, front @ hops_text hs) # evil) i found rc addr =
    (stopped found (trusts proxies addr), client_of (trusts proxies) addr (rev (hop_addrs hs)))"
  using walk_hops [OF assms(1,2), of "[]" proxies prev "[]" 0 False addr] assms(3)
  by (auto simp: stopped_def not_found_def code_const)

lemma headers_walk_chains:
  assumes "list_all chain_ok ws" and "behind front hs" and "list_all hop hs"
    and "\<not> list_all (trusts proxies) (addr # concat (map chain_addrs ws) @ rev (hop_addrs hs))"
  shows "headers_walk proxies (map chain_header ws @ (prev, front @ hops_text hs) # evil) i found rc addr =
    (stopped found (trusts proxies addr),
     client_of (trusts proxies) addr (concat (map chain_addrs ws) @ rev (hop_addrs hs)))"
  using assms(1,4)
proof (induction ws arbitrary: i found rc addr)
  case Nil
  then show ?case using headers_walk_front [OF assms(2,3)] by simp
next
  case (Cons w ws)
  have ok: "chain_ok w" using Cons.prems(1) by simp
  obtain prev' t a ts where "w = (prev', (t, a), ts)" by (cases w) auto
  then obtain front_addrs l where w: "chain_addrs w = front_addrs @ [l]" by (simp add: chain_addrs_def)
  let ?rest = "concat (map chain_addrs ws) @ rev (hop_addrs hs)"
  have c: "client_of (trusts proxies) addr (chain_addrs w @ ?rest) =
    (if list_all (trusts proxies) (addr # front_addrs)
     then client_of (trusts proxies) l ?rest else client_of (trusts proxies) addr front_addrs)"
    "client_of (trusts proxies) addr (chain_addrs w) =
    (if list_all (trusts proxies) (addr # front_addrs) then l else client_of (trusts proxies) addr front_addrs)"
    unfolding w by (simp_all add: client_of_append)
  have b: "butlast (addr # chain_addrs w) = addr # front_addrs" "last (chain_addrs w) = l" by (simp_all add: w butlast_append)
  show ?case
  proof (cases "list_all (trusts proxies) (addr # front_addrs)")
    case False
    then show ?thesis using headers_walk_chain [OF ok, where addr = addr] c unfolding b by auto
  next
    case True
    then have "\<not> list_all (trusts proxies) (l # ?rest)" using Cons.prems(2) by (simp add: w)
    then show ?thesis
      using headers_walk_chain [OF ok, where addr = addr] True c(1) Cons.IH [of l] Cons.prems(1) unfolding b
      by (simp add: stopped_def)
  qed
qed

text \<open>Without the recursive search only the last address of the last header is looked at.\<close>

lemma peer_untrusted:
  assumes "\<not> trusts proxies peer" and "hs \<noteq> []"
  shows "forwarded_loop (\<lambda>_ _. True) proxies recursive hs 0 False rc peer = (NGX_DECLINED, peer)"
proof -
  have "get_forwarded_addr_internal alloc proxies recursive prev xff n k found peer = (not_found found, peer)"
    for alloc prev xff n k found
    using assms(1) by (subst get_forwarded_addr_internal.simps) (simp add: trusts_def)
  then show ?thesis using assms(2) by (cases hs) (auto simp: not_found_def code_const)
qed

lemma once_header:
  assumes "behind front hs" and "list_all hop hs"
  shows "hs \<noteq> [] \<Longrightarrow> trusts proxies addr \<Longrightarrow>
    get_forwarded_addr_internal (\<lambda>_. True) proxies False prev (front @ hops_text hs) (length (front @ hops_text hs)) k found addr
      = (NGX_OK, last (hop_addrs hs))"
proof (cases hs rule: rev_cases)
  case (snoc hs' h)
  assume tr: "trusts proxies addr"
  obtain s t a where h: "h = (s, t, a)" by (cases h)
  have "hop (s, t, a)" "list_all hop hs'" using assms(2) snoc h by simp_all
  then show ?thesis
    using walk_hop [OF tr, of "front @ hops_text hs'" s t a "[]" False prev "[]" k found] behind_snoc(2) [of front hs' s t a]
      assms(1) snoc h by (simp add: add.assoc)
qed simp

lemma once_chain:
  assumes "chain_ok w" and "trusts proxies addr"
  shows "case chain_header w of (prev, v) \<Rightarrow>
    get_forwarded_addr_internal (\<lambda>_. True) proxies False prev v (length v) 0 False addr = (NGX_OK, hd (chain_addrs w))"
proof -
  obtain prev t a hs where w: "w = (prev, (t, a), hs)" by (cases w) auto
  have ok: "hop_text t a" "list_all hop hs" using assms(1) by (simp_all add: w chain_ok_def)
  show ?thesis
  proof (cases hs)
    case Nil
    then show ?thesis
      using walk_front [OF assms(2) ok(1), where s' = "[]" and x = "[]" and recursive = False and prev = prev and k = 0 and found = False] by (simp add: w chain_header_def chain_addrs_def)
  next
    case (Cons h hs')
    have "behind t hs" using ok(1) by (simp add: behind_def hop_text_def)
    moreover have "hop_addrs hs \<noteq> []" using Cons by (simp add: hop_addrs_def)
    ultimately show ?thesis
      using once_header [OF _ ok(2) _ assms(2), where front = t and prev = prev and k = 0 and found = False] Cons
      by (simp add: w chain_header_def chain_addrs_def hd_append hd_rev)
  qed
qed

text \<open>C5: Nobody can speak for a client that a trusted proxy has seen, when the search is recursive (the default).  Let
  trusted proxies have appended addresses to a header, or added headers of their own, behind whatever was sent
  before, which may also be an empty value if two separators follow it: if one of the addresses that they wrote, or
  the peer itself, is not a trusted proxy, the address found is the first such one, walking from the peer
  towards the client (from the right end of the headers to the left), and nothing in front of it, in the same header
  or in headers before it, has any influence.  Without the recursive search it is the address that the proxy next to
  the peer wrote, trusted or not, and the peer itself when it is not trusted.  The allocations succeed.\<close>

theorem forwarded_client:
  assumes "behind front hops" and "list_all hop hops" and "list_all chain_ok later"
    and "\<not> list_all (trusts proxies) (peer # concat (map chain_addrs later) @ rev (hop_addrs hops))"
  shows "ngx_http_get_forwarded_addr (\<lambda>_ _. True) proxies recursive
      (Headers (evil @ [(prev, front @ hops_text hops)] @ map chain_header (rev later))) peer =
    (if \<not> trusts proxies peer then (NGX_DECLINED, peer)
     else if recursive then
       (NGX_DONE, client_of (trusts proxies) peer (concat (map chain_addrs later) @ rev (hop_addrs hops)))
     else (NGX_OK, hd (concat (map chain_addrs later) @ rev (hop_addrs hops))))"
proof -
  let ?hs = "map chain_header later @ (prev, front @ hops_text hops) # rev evil"
  have run: "ngx_http_get_forwarded_addr (\<lambda>_ _. True) proxies recursive
      (Headers (evil @ [(prev, front @ hops_text hops)] @ map chain_header (rev later))) peer =
    forwarded_loop (\<lambda>_ _. True) proxies recursive ?hs 0 False NGX_DECLINED peer" for recursive
    by (simp add: ngx_http_get_forwarded_addr_def rev_map)
  consider "\<not> trusts proxies peer" | "trusts proxies peer" recursive | "trusts proxies peer" "\<not> recursive" by blast
  then show ?thesis
  proof cases
    case 1
    then show ?thesis unfolding run by (subst peer_untrusted) simp_all
  next
    case 2
    then show ?thesis
      using headers_walk_chains [OF assms(3,1,2,4), of prev "rev evil" 0 False NGX_DECLINED] run
      by (simp add: stopped_def)
  next
    case 3
    show ?thesis
    proof (cases later)
      case Nil
      then have "hops \<noteq> []" using 3(1) assms(4) by auto
      then show ?thesis
        using 3 Nil run once_header [OF assms(1,2) _ 3(1), where prev = prev and k = 0 and found = False]
        by (simp add: hop_addrs_def hd_rev)
    next
      case (Cons w ws)
      then have "chain_addrs w \<noteq> []" "chain_ok w" using assms(3) by (auto simp: chain_addrs_def split: prod.split)
      then show ?thesis using 3 Cons run once_chain [OF _ 3(1), of w] by (cases "chain_header w") simp
    qed
  qed
qed

theorem forwarded_client_witness:
  "let hops = [('', '', ''::2'', Sockaddr_in6 (replicate 15 NUL @ [CHR 0x02]) 0)];
       headers = Headers ([(NUL, ''127.0.0.1'')] @ [(NUL, [] @ hops_text hops)] @ map chain_header (rev []));
       find = \<lambda>recursive. ngx_http_get_forwarded_addr (\<lambda>_ _. True) [Cidr_in 0 0] recursive headers (Sockaddr_in 1 80)
   in find True = (NGX_DONE, Sockaddr_in6 (replicate 15 NUL @ [CHR 0x02]) 0)
      \<and> find False = (NGX_OK, Sockaddr_in6 (replicate 15 NUL @ [CHR 0x02]) 0)"
proof -
  let ?a = "Sockaddr_in6 (replicate 15 NUL @ [CHR 0x02]) 0"
  have "list_all hop [('', '', ''::2'', ?a)]" by code_simp
  moreover have "\<not> list_all (trusts [Cidr_in 0 0]) (Sockaddr_in 1 80 # concat (map chain_addrs []) @ rev (hop_addrs [('', '', ''::2'', ?a)]))"
    by code_simp
  moreover have "trusts [Cidr_in 0 0] (Sockaddr_in 1 80)" by code_simp
  ultimately show ?thesis
    using forwarded_client [of "[]" "[('', '', ''::2'', ?a)]" "[]" "[Cidr_in 0 0]" "Sockaddr_in 1 80" _ "[(NUL, ''127.0.0.1'')]" NUL]
    by (simp add: hop_addrs_def behind_def Let_def)
qed

text \<open>With an empty value the byte in front of it is read, but whatever it is, the address stays.\<close>

lemma single_byte_declined: "ngx_parse_addr_port alloc [c] = Inl NGX_DECLINED"
proof -
  have "ngx_inet_addr [c] = INADDR_NONE" by (simp add: ngx_inet_addr_def Let_def)
  moreover have "ngx_inet6_addr [c] = None"
    by (auto simp: ngx_inet6_addr_def ngx_inet6_finish_def inet6_init_def Let_def)
  moreover have "strlchr [c] (CHR '']'') = None" if "c = CHR ''[''" using that by (simp add: strlchr_def)
  moreover have "ngx_atoi [] = NGX_ERROR" by (simp add: ngx_atoi_def)
  ultimately show ?thesis
    by (simp add: ngx_parse_addr_port_def ngx_parse_addr_def parse_port_of_def strlchr_def Let_def NGX_ERROR_def)
qed

lemma empty_value_ignored:
  "get_forwarded_addr_internal alloc proxies recursive prev [] 0 k found addr = (not_found found, addr)"
  by (subst get_forwarded_addr_internal.simps) (simp add: single_byte_declined)

section \<open>The original address is kept\<close>

text \<open>What can happen to a request: the module's handler in any location, an internal redirection or a named location,
  a rewriting that marks the request as internal, the finalisation by a filter, and everything that leaves the connection's address alone.\<close>

inductive realip_step :: "http_request \<Rightarrow> http_request \<Rightarrow> bool" where
  handler: "realip_step r (snd (realip_handler alloc mem1 mem2 conf r))"
| redirect: "realip_step r (r\<lparr>r_ctx := None, r_internal := True\<rparr>)"
| internal: "realip_step r (r\<lparr>r_internal := True\<rparr>)"
| finalize: "realip_step r (r\<lparr>r_ctx := None, r_filter_finalize := True\<rparr>)"
| other: "c_sockaddr c = c_sockaddr (r_connection r) \<Longrightarrow> c_addr_text c = c_addr_text (r_connection r)
    \<Longrightarrow> realip_step r (r\<lparr>r_headers := hs, r_connection := c\<rparr>)"

text \<open>The pool runs its cleanup handlers, the last one first.\<close>

definition after_cleanup :: "http_request \<Rightarrow> connection" where
  "after_cleanup r = fold realip_cleanup (r_cleanups r) (r_connection r)"

definition realip_inv :: "connection \<Rightarrow> http_request \<Rightarrow> bool" where
  "realip_inv c0 r \<longleftrightarrow>
     (case r_cleanups r of
        [] \<Rightarrow> r_ctx r = None \<and> c_sockaddr (r_connection r) = c_sockaddr c0 \<and> c_addr_text (r_connection r) = c_addr_text c0
      | [ctx] \<Rightarrow>
          rx_sockaddr ctx = c_sockaddr c0 \<and> rx_addr_text ctx = c_addr_text c0
          \<and> (r_ctx r = Some ctx \<or> r_ctx r = None \<and> (r_internal r \<or> r_filter_finalize r))
      | _ \<Rightarrow> False)"

definition saved :: "http_request \<Rightarrow> realip_ctx" where
  "saved r = \<lparr>rx_sockaddr = c_sockaddr (r_connection r), rx_addr_text = c_addr_text (r_connection r)\<rparr>"

definition changed :: "http_request \<Rightarrow> connection \<Rightarrow> http_request" where
  "changed r c = r\<lparr>r_cleanups := saved r # r_cleanups r, r_ctx := Some (saved r), r_connection := c\<rparr>"

lemma realip_set_addr_cases:
  "snd (realip_set_addr mem1 mem2 r addr) = r \<or> (\<exists>c. snd (realip_set_addr mem1 mem2 r addr) = changed r c)"
  unfolding realip_set_addr_def Let_def saved_def [symmetric] changed_def by (auto split: option.split)

lemma realip_handler_cases:
  "snd (realip_handler alloc mem1 mem2 conf r) = r \<or>
   realip_get_module_ctx r = None \<and> (\<exists>c. snd (realip_handler alloc mem1 mem2 conf r) = changed r c)"
proof (cases "realip_get_module_ctx r = None")
  case True
  show ?thesis
    using True realip_set_addr_cases [of mem1 mem2 r]
    by (auto simp: realip_handler_def Let_def split: option.splits prod.splits)
next
  case False
  then show ?thesis by (auto simp: realip_handler_def split: option.splits)
qed

lemma realip_inv_step: "realip_step r r' \<Longrightarrow> realip_inv c0 r \<Longrightarrow> realip_inv c0 r'"
proof (induction rule: realip_step.induct)
  case (handler r alloc mem1 mem2 conf)
  show ?case
  proof (cases "snd (realip_handler alloc mem1 mem2 conf r) = r")
    case False
    then have none: "realip_get_module_ctx r = None" using realip_handler_cases by blast
    then have "r_cleanups r = []"
      using handler by (auto simp: realip_inv_def realip_get_module_ctx_def split: list.splits if_splits)
    then show ?thesis
      using realip_handler_cases [of alloc mem1 mem2 conf r] False handler
      by (auto simp: realip_inv_def changed_def saved_def)
  qed (use handler in simp)
qed (auto simp: realip_inv_def split: list.splits)

text \<open>C19: However often the module runs, in whatever locations and through whatever redirections, it changes the
  address of a connection at most once; its two variables, the address and the port, always give those of the
  original connection, and when the request ends the connection has the original address again.\<close>

theorem realip_keeps_original:
  assumes "r_ctx r0 = None" and "r_cleanups r0 = []" and "realip_step\<^sup>*\<^sup>* r0 r"
  shows "realip_remote_addr_variable r = c_addr_text (r_connection r0)
    \<and> realip_remote_port_variable r =
        (let port = ngx_inet_get_port (c_sockaddr (r_connection r0))
         in if port > 0 \<and> port < 65536 then ngx_sprintf ''%ui'' [IntArg (int port)] else Some [])
    \<and> length (r_cleanups r) \<le> 1
    \<and> c_sockaddr (after_cleanup r) = c_sockaddr (r_connection r0)
    \<and> c_addr_text (after_cleanup r) = c_addr_text (r_connection r0)"
proof -
  have "realip_inv (r_connection r0) r0" using assms(1,2) by (simp add: realip_inv_def)
  with assms(3) have "realip_inv (r_connection r0) r" by (induction rule: rtranclp_induct) (auto intro: realip_inv_step)
  then show ?thesis
    by (auto simp: realip_inv_def realip_remote_addr_variable_def realip_remote_port_variable_def
        realip_get_module_ctx_def after_cleanup_def realip_cleanup_def Let_def split: list.splits)
qed

definition example_conf :: realip_conf where
  "example_conf = \<lparr>rc_from = Some [Cidr_in 0 0], rc_type = REALIP_XFWD, rc_header = [], rc_recursive = True\<rparr>"

definition example_request :: http_request where
  "example_request =
     \<lparr>r_connection = \<lparr>c_sockaddr = Sockaddr_in 1 80, c_addr_text = ''0.0.0.1'', c_proxy_protocol = None\<rparr>,
      r_headers = [(''x-forwarded-for'', CHR '' '', ''::5, ::2'')], r_ctx = None, r_internal = False,
      r_filter_finalize = False, r_cleanups = []\<rparr>"

theorem realip_keeps_original_witness:
  "case snd (realip_handler (\<lambda>_ _. True) True True example_conf example_request) of r \<Rightarrow>
     c_addr_text (r_connection r) = ''::2''
     \<and> realip_remote_addr_variable (r\<lparr>r_ctx := None, r_internal := True\<rparr>) = ''0.0.0.1''
     \<and> realip_remote_port_variable (r\<lparr>r_ctx := None, r_internal := True\<rparr>) = ngx_sprintf ''%ui'' [IntArg 80]
     \<and> c_addr_text (after_cleanup (r\<lparr>r_ctx := None, r_internal := True\<rparr>)) = ''0.0.0.1''"
proof -
  let ?r = "snd (realip_handler (\<lambda>_ _. True) True True example_conf example_request)"
  have "c_addr_text (r_connection ?r) = ''::2''" by code_simp
  moreover have "realip_step\<^sup>*\<^sup>* example_request (?r\<lparr>r_ctx := None, r_internal := True\<rparr>)"
    by (rule converse_rtranclp_into_rtranclp [OF _ r_into_rtranclp [where r = realip_step]])
      (rule realip_step.handler, rule realip_step.redirect)
  moreover have "r_ctx example_request = None" "r_cleanups example_request = []"
    "c_addr_text (r_connection example_request) = ''0.0.0.1''"
    by (simp_all add: example_request_def)
  moreover have "ngx_inet_get_port (c_sockaddr (r_connection example_request)) = 80"
    by (simp add: example_request_def ngx_inet_get_port_def)
  ultimately show ?thesis using realip_keeps_original [of example_request] by (simp add: Let_def)
qed

end
