(* ===== verification/ProxyProtocol.thy ===== *)
theory ProxyProtocol
  imports ClientAddr Checked
begin

text \<open>
  The PROXY protocol, \<open>src/core/ngx_proxy_protocol.c\<close> of nginx: a load balancer in front of BunkerWeb names the
  client in a header before the first byte of the connection, as a line of text (version 1) or in binary
  (version 2, with a list of typed values).

  The buffer from \<open>buf\<close> to \<open>last\<close> is a list, and a pointer into it an index.  Every read is checked: \<open>None\<close> is
  a read outside the buffer.  \<open>alloc k\<close> says whether the \<open>k\<close>-th allocation succeeds.
\<close>

section \<open>Reading bytes\<close>

text \<open>\<open>ngx_strncmp(p, lit, n) == 0\<close> for a literal of \<open>n\<close> bytes; it stops at the first difference.\<close>

fun begins :: "bytes \<Rightarrow> nat \<Rightarrow> bytes \<Rightarrow> bool option" where
  "begins s p [] = Some True"
| "begins s p (c # lit) = do { x \<leftarrow> read_at s p; if x = c then begins s (p + 1) lit else Some False }"

definition parse_uint16 :: "bytes \<Rightarrow> nat \<Rightarrow> nat option" where
  "parse_uint16 s p = do { a \<leftarrow> read_at s p; b \<leftarrow> read_at s (p + 1); Some (ord a * 256 + ord b) }"

definition parse_uint32 :: "bytes \<Rightarrow> nat \<Rightarrow> nat option" where
  "parse_uint32 s p =
     do { a \<leftarrow> read_at s p; b \<leftarrow> read_at s (p + 1); c \<leftarrow> read_at s (p + 2); d \<leftarrow> read_at s (p + 3);
          Some (((ord a * 256 + ord b) * 256 + ord c) * 256 + ord d) }"

text \<open>What a reader returns: \<open>NULL\<close>, or the position behind the header and what it has put into the
  connection.\<close>

datatype pp_result = PP_null | PP_at nat "proxy_protocol option"

section \<open>Version 1\<close>

definition v1_addr_char :: "char \<Rightarrow> bool" where
  "v1_addr_char ch \<longleftrightarrow>
     ch = CHR '':'' \<or> ch = CHR ''.'' \<or> (CHR ''a'' \<le> ch \<and> ch \<le> CHR ''f'')
     \<or> (CHR ''A'' \<le> ch \<and> ch \<le> CHR ''F'') \<or> (CHR ''0'' \<le> ch \<and> ch \<le> CHR ''9'')"

text \<open>The loops of \<open>ngx_proxy_protocol_read_addr\<close> and \<open>ngx_proxy_protocol_read_port\<close>: the position behind the
  separator, or \<open>Some None\<close> for \<open>NULL\<close>.\<close>

function addr_end :: "bytes \<Rightarrow> nat \<Rightarrow> nat option option" where
  "addr_end s p =
     (if p = length s then Some None
      else
        case read_at s p of
          None \<Rightarrow> None
        | Some ch \<Rightarrow>
            if ch = CHR '' '' then Some (Some (p + 1))
            else if \<not> v1_addr_char ch then Some None
            else addr_end s (p + 1))"
  by pat_completeness auto
termination
  by (relation "measure (\<lambda>(s, p). length s - p)") (auto simp: read_at_def split: if_splits)

function port_end :: "bytes \<Rightarrow> nat \<Rightarrow> char \<Rightarrow> nat option option" where
  "port_end s p sep =
     (if p = length s then Some None
      else
        case read_at s p of
          None \<Rightarrow> None
        | Some ch \<Rightarrow> if ch = sep then Some (Some (p + 1)) else port_end s (p + 1) sep)"
  by pat_completeness auto
termination
  by (relation "measure (\<lambda>(s, p, sep). length s - p)") (auto simp: read_at_def split: if_splits)

declare addr_end.simps [simp del] port_end.simps [simp del]

definition read_addr :: "bool \<Rightarrow> bytes \<Rightarrow> nat \<Rightarrow> (nat \<times> bytes) option option" where
  "read_addr alloc s pos =
     do { r \<leftarrow> addr_end s pos;
          case r of
            None \<Rightarrow> Some None
          | Some p \<Rightarrow>
              if \<not> alloc then Some None
              else do { text \<leftarrow> read_bytes s pos (p - pos - 1); Some (Some (p, text)) } }"

definition read_port :: "bytes \<Rightarrow> nat \<Rightarrow> char \<Rightarrow> (nat \<times> nat) option option" where
  "read_port s pos sep =
     do { r \<leftarrow> port_end s pos sep;
          case r of
            None \<Rightarrow> Some None
          | Some p \<Rightarrow>
              do { text \<leftarrow> read_bytes s pos (p - pos - 1);
                   let n = ngx_atoi text;
                   Some (if n < 0 \<or> n > 65535 then None else Some (p, nat n)) } }"

text \<open>The loop at \<open>skip:\<close>.\<close>

function skip_line :: "bytes \<Rightarrow> nat \<Rightarrow> pp_result option" where
  "skip_line s p =
     (if p + 1 < length s then
        case (read_at s p, read_at s (p + 1)) of
          (Some a, Some b) \<Rightarrow> if a = CR \<and> b = LF then Some (PP_at (p + 2) None) else skip_line s (p + 1)
        | _ \<Rightarrow> None
      else Some PP_null)"
  by pat_completeness auto
termination
  by (relation "measure (\<lambda>(s, p). length s - p)") auto

declare skip_line.simps [simp del]

text \<open>The rest of the line behind \<open>PROXY TCP4 \<close>; \<open>None\<close> inside is \<open>goto invalid\<close>.\<close>

definition read_v1_fields :: "(nat \<Rightarrow> bool) \<Rightarrow> bytes \<Rightarrow> nat \<Rightarrow> pp_result option" where
  "read_v1_fields alloc s p =
     do { src \<leftarrow> read_addr (alloc 1) s p;
          case src of None \<Rightarrow> Some PP_null | Some (p, src_addr) \<Rightarrow>
     do { dst \<leftarrow> read_addr (alloc 2) s p;
          case dst of None \<Rightarrow> Some PP_null | Some (p, dst_addr) \<Rightarrow>
     do { sport \<leftarrow> read_port s p (CHR '' '');
          case sport of None \<Rightarrow> Some PP_null | Some (p, src_port) \<Rightarrow>
     do { dport \<leftarrow> read_port s p CR;
          case dport of None \<Rightarrow> Some PP_null | Some (p, dst_port) \<Rightarrow>
            if p = length s then Some PP_null
            else do { ch \<leftarrow> read_at s p;
                      Some (if ch \<noteq> LF then PP_null
                            else PP_at (p + 1)
                              (Some \<lparr>pp_src_addr = src_addr, pp_dst_addr = dst_addr, pp_src_port = src_port,
                                    pp_dst_port = dst_port, pp_tlvs = []\<rparr>)) } } } } }"

definition read_v1 :: "(nat \<Rightarrow> bool) \<Rightarrow> bytes \<Rightarrow> pp_result option" where
  "read_v1 alloc s =
     (if length s < 8 then Some PP_null
      else
        do { proxy \<leftarrow> begins s 0 ''PROXY '';
             if \<not> proxy then Some PP_null
             else
        do { unknown \<leftarrow> (if length s - 6 \<ge> 7 then begins s 6 ''UNKNOWN'' else Some False);
             if unknown then skip_line s 13
             else if length s - 6 < 5 then Some PP_null
             else
        do { tcp \<leftarrow> begins s 6 ''TCP'';
             if \<not> tcp then Some PP_null
             else
        do { v \<leftarrow> read_at s 9;
             if v \<noteq> CHR ''4'' \<and> v \<noteq> CHR ''6'' then Some PP_null
             else
        do { sp \<leftarrow> read_at s 10;
             if sp \<noteq> CHR '' '' then Some PP_null
             else if \<not> alloc 0 then Some PP_null
             else read_v1_fields alloc s 11 } } } } })"

section \<open>Version 2\<close>

text \<open>The two addresses of a family at \<open>p\<close>, each of \<open>n\<close> bytes, the ports behind them, and what follows up to
  \<open>end_of\<close>.\<close>

definition read_v2_addrs ::
  "(nat \<Rightarrow> bool) \<Rightarrow> (bytes \<Rightarrow> sockaddr) \<Rightarrow> nat \<Rightarrow> bytes \<Rightarrow> nat \<Rightarrow> nat \<Rightarrow> pp_result option" where
  "read_v2_addrs alloc mk n s p end_of =
     (if end_of - p < 2 * n + 4 then Some PP_null
      else
        do { src \<leftarrow> read_bytes s p n;
             dst \<leftarrow> read_bytes s (p + n) n;
             src_port \<leftarrow> parse_uint16 s (p + 2 * n);
             dst_port \<leftarrow> parse_uint16 s (p + 2 * n + 2);
             let p' = p + 2 * n + 4;
             if \<not> alloc 1 then Some PP_null
             else
        do { src_text \<leftarrow> ngx_sock_ntop (mk src) NGX_SOCKADDR_STRLEN False;
             if \<not> alloc 2 then Some PP_null
             else
        do { dst_text \<leftarrow> ngx_sock_ntop (mk dst) NGX_SOCKADDR_STRLEN False;
             if p' < end_of \<and> \<not> alloc 3 then Some PP_null
             else
        do { tlvs \<leftarrow> (if p' < end_of then read_bytes s p' (end_of - p') else Some []);
             Some (PP_at end_of
               (Some \<lparr>pp_src_addr = src_text, pp_dst_addr = dst_text, pp_src_port = src_port,
                     pp_dst_port = dst_port, pp_tlvs = tlvs\<rparr>)) } } } })"

definition in_of_bytes :: "bytes \<Rightarrow> sockaddr" where
  "in_of_bytes q = Sockaddr_in (of_nat (v4_number q)) 0"

definition in6_of_bytes :: "bytes \<Rightarrow> sockaddr" where
  "in6_of_bytes q = Sockaddr_in6 q 0"

definition read_v2 :: "(nat \<Rightarrow> bool) \<Rightarrow> bytes \<Rightarrow> pp_result option" where
  "read_v2 alloc s =
     do { version_command \<leftarrow> read_at s 12;
          family_transport \<leftarrow> read_at s 13;
          if ord version_command div 16 \<noteq> 2 then Some PP_null
          else
     do { len \<leftarrow> parse_uint16 s 14;
          if length s - 16 < len then Some PP_null
          else
            let end_of = 16 + len;
                family = ord family_transport div 16
            in if ord version_command mod 16 \<noteq> 1 then Some (PP_at end_of None)
               else if ord family_transport mod 16 \<noteq> 1 then Some (PP_at end_of None)
               else if \<not> alloc 0 then Some PP_null
               else if family = 1 then read_v2_addrs alloc in_of_bytes 4 s 16 end_of
               else if family = 2 then read_v2_addrs alloc in6_of_bytes 16 s 16 end_of
               else Some (PP_at end_of None) } }"

definition signature :: bytes where
  "signature = [CR, LF, CR, LF, NUL, CR, LF] @ ''QUIT'' @ [LF]"

definition ngx_proxy_protocol_read :: "(nat \<Rightarrow> bool) \<Rightarrow> bytes \<Rightarrow> pp_result option" where
  "ngx_proxy_protocol_read alloc s =
     (if length s \<ge> 16 then
        do { first \<leftarrow> read_bytes s 0 12;
             if first = signature then read_v2 alloc s else read_v1 alloc s }
      else read_v1 alloc s)"

section \<open>Writing version 1\<close>

definition NGX_PROXY_PROTOCOL_V1_MAX_HEADER :: nat where "NGX_PROXY_PROTOCOL_V1_MAX_HEADER = 107"

text \<open>\<open>size\<close> is \<open>last - buf\<close>; the result is what has been written.  \<open>has_local\<close> is the result of
  \<open>ngx_connection_local_sockaddr\<close>.\<close>

definition ngx_proxy_protocol_write :: "nat \<Rightarrow> bool \<Rightarrow> sockaddr \<Rightarrow> sockaddr \<Rightarrow> bytes option" where
  "ngx_proxy_protocol_write room has_local peer local_addr =
     (if room < NGX_PROXY_PROTOCOL_V1_MAX_HEADER then None
      else if \<not> has_local then None
      else
        let family = (case peer of Sockaddr_in _ _ \<Rightarrow> Some ''PROXY TCP4 '' | Sockaddr_in6 _ _ \<Rightarrow> Some ''PROXY TCP6 '' | _ \<Rightarrow> None)
        in case family of
             None \<Rightarrow> Some (''PROXY UNKNOWN'' @ [CR, LF])
           | Some start \<Rightarrow>
               do { src \<leftarrow> ngx_sock_ntop peer (room - length start) False;
                    dst \<leftarrow> ngx_sock_ntop local_addr (room - length start - length src - 1) False;
                    let buf = start @ src @ '' '' @ dst;
                    tail \<leftarrow> ngx_snprintf (room - length buf) ('' %ui %ui'' @ [CR, LF])
                      [IntArg (int (ngx_inet_get_port peer)), IntArg (int (ngx_inet_get_port local_addr))];
                    Some (buf @ tail) })"

section \<open>Typed values\<close>

text \<open>The loop of \<open>ngx_proxy_protocol_lookup_tlv\<close> with \<open>p\<close> and \<open>n\<close>: the return code and the value.\<close>

function lookup_tlv :: "bytes \<Rightarrow> nat \<Rightarrow> nat \<Rightarrow> nat \<Rightarrow> (int \<times> bytes) option" where
  "lookup_tlv s p n ty =
     (if n = 0 then Some (NGX_DECLINED, [])
      else if n < 3 then Some (NGX_ERROR, [])
      else
        case (read_at s p, parse_uint16 s (p + 1)) of
          (Some t, Some len) \<Rightarrow>
            if n - 3 < len then Some (NGX_ERROR, [])
            else if ord t = ty then map_option (\<lambda>v. (NGX_OK, v)) (read_bytes s (p + 3) len)
            else lookup_tlv s (p + 3 + len) (n - 3 - len) ty
        | _ \<Rightarrow> None)"
  by pat_completeness auto
termination
  by (relation "measure (\<lambda>(s, p, n, ty). n)") auto

declare lookup_tlv.simps [simp del]

definition tlv_entries :: "(bytes \<times> nat) list" where
  "tlv_entries = [(''alpn'', 0x01), (''authority'', 0x02), (''unique_id'', 0x05), (''ssl'', 0x20), (''netns'', 0x30)]"

definition tlv_ssl_entries :: "(bytes \<times> nat) list" where
  "tlv_ssl_entries = [(''version'', 0x21), (''cn'', 0x22), (''cipher'', 0x23), (''sig_alg'', 0x24), (''key_alg'', 0x25)]"

text \<open>The part behind the \<open>ssl_\<close> prefix: a number \<open>0x...\<close> or a name of the table.\<close>

definition get_tlv_named :: "(bytes \<times> nat) list \<Rightarrow> bytes \<Rightarrow> bytes \<Rightarrow> (int \<times> bytes) option" where
  "get_tlv_named te tlvs name =
     (if length name \<ge> 2 \<and> take 2 name = ''0x'' then
        let ty = ngx_hextoi (drop 2 name)
        in if ty = NGX_ERROR then Some (NGX_ERROR, []) else lookup_tlv tlvs 0 (length tlvs) (nat ty)
      else
        case map_of te name of
          Some ty \<Rightarrow> lookup_tlv tlvs 0 (length tlvs) ty
        | None \<Rightarrow> Some (NGX_DECLINED, []))"

definition ngx_proxy_protocol_get_tlv :: "bool \<Rightarrow> connection \<Rightarrow> bytes \<Rightarrow> (int \<times> bytes) option" where
  "ngx_proxy_protocol_get_tlv alloc c name =
     (case c_proxy_protocol c of
        None \<Rightarrow> Some (NGX_DECLINED, [])
      | Some pp \<Rightarrow>
          if length name \<ge> 4 \<and> take 4 name = ''ssl_'' then
            do { (rc, ssl) \<leftarrow> lookup_tlv (pp_tlvs pp) 0 (length (pp_tlvs pp)) 0x20;
                 if rc \<noteq> NGX_OK then Some (rc, [])
                 else if length ssl < 5 then Some (NGX_ERROR, [])
                 else
                   let name = drop 4 name
                   in if name = ''verify'' then
                        do { verify \<leftarrow> parse_uint32 ssl 1;
                             if \<not> alloc then Some (NGX_ERROR, [])
                             else map_option (\<lambda>t. (NGX_OK, t)) (ngx_sprintf ''%uD'' [IntArg (int verify)]) }
                      else get_tlv_named tlv_ssl_entries (drop 5 ssl) name }
          else get_tlv_named tlv_entries (pp_tlvs pp) name)"


section \<open>Nothing is read outside the buffer\<close>

lemma begins_some: "p + length lit \<le> length s \<Longrightarrow> begins s p lit = Some (take (length lit) (drop p s) = lit)"
proof (induction lit arbitrary: p)
  case (Cons c lit)
  then have "drop p s = s ! p # drop (Suc p) s" by (simp add: Cons_nth_drop_Suc)
  then show ?case using Cons by (auto simp: read_at_some)
qed simp

lemma uint16_some: "p + 2 \<le> length s \<Longrightarrow> parse_uint16 s p = Some (ord (s ! p) * 256 + ord (s ! (p + 1)))"
  by (simp add: parse_uint16_def read_at_some)

lemma uint16_less: "ord a * 256 + ord b < 65536"
  using ord_le_255 [of a] ord_le_255 [of b] by simp

lemma addr_end_some:
  assumes "p \<le> length s"
  shows "\<exists>r. addr_end s p = Some r \<and> (case r of None \<Rightarrow> True | Some q \<Rightarrow>
    p < q \<and> q \<le> length s \<and> list_all v1_addr_char (take (q - p - 1) (drop p s)))"
  using assms
proof (induction s p rule: addr_end.induct)
  case (1 s p)
  show ?case
  proof (cases "p = length s")
    case False
    then have p: "p < length s" "read_at s p = Some (s ! p)" using "1.prems" by (simp_all add: read_at_some)
    have d: "drop p s = s ! p # drop (Suc p) s" using p(1) by (simp add: Cons_nth_drop_Suc)
    show ?thesis
    proof (cases "s ! p = CHR '' '' \<or> \<not> v1_addr_char (s ! p)")
      case True
      then show ?thesis using False p by (subst addr_end.simps) auto
    next
      case go: False
      then obtain r where r: "addr_end s (p + 1) = Some r" "case r of None \<Rightarrow> True | Some q \<Rightarrow>
          p + 1 < q \<and> q \<le> length s \<and> list_all v1_addr_char (take (q - (p + 1) - 1) (drop (p + 1) s))"
        using "1.IH" [OF False p(2)] p(1) by auto
      have "addr_end s p = Some r" using False p go r(1) by (subst addr_end.simps) simp
      moreover have "take (q - p - 1) (drop p s) = s ! p # take (q - (p + 1) - 1) (drop (p + 1) s)" if "p + 1 < q" for q
      proof -
        have "q - p - 1 = Suc (q - (p + 1) - 1)" using that by simp
        then show ?thesis by (simp only: d take_Suc_Cons) simp
      qed
      ultimately show ?thesis using r(2) go by (auto split: option.splits)
    qed
  qed (subst addr_end.simps, simp)
qed

lemma port_end_some:
  assumes "p \<le> length s"
  shows "\<exists>r. port_end s p sep = Some r \<and> (case r of None \<Rightarrow> True | Some q \<Rightarrow> p < q \<and> q \<le> length s)"
  using assms
proof (induction s p sep rule: port_end.induct)
  case (1 s p sep)
  show ?case
  proof (cases "p = length s")
    case False
    then have p: "p < length s" "read_at s p = Some (s ! p)" using "1.prems" by (simp_all add: read_at_some)
    show ?thesis
    proof (cases "s ! p = sep")
      case True
      then show ?thesis using False p by (subst port_end.simps) auto
    next
      case go: False
      then obtain r where "port_end s (p + 1) sep = Some r" "case r of None \<Rightarrow> True | Some q \<Rightarrow> p + 1 < q \<and> q \<le> length s"
        using "1.IH" [OF False p(2)] p(1) by auto
      then show ?thesis using False p go by (subst port_end.simps) (auto split: option.splits)
    qed
  qed (subst port_end.simps, simp)
qed

lemma read_addr_some:
  assumes "p \<le> length s"
  shows "\<exists>r. read_addr a s p = Some r \<and> (case r of None \<Rightarrow> True | Some (q, t) \<Rightarrow>
    p < q \<and> q \<le> length s \<and> list_all v1_addr_char t)"
proof -
  obtain r where r: "addr_end s p = Some r" "case r of None \<Rightarrow> True | Some q \<Rightarrow>
    p < q \<and> q \<le> length s \<and> list_all v1_addr_char (take (q - p - 1) (drop p s))"
    using addr_end_some [OF assms] by blast
  then show ?thesis by (cases r) (auto simp: read_addr_def read_bytes_some)
qed

lemma read_port_some:
  assumes "p \<le> length s"
  shows "\<exists>r. read_port s p sep = Some r \<and> (case r of None \<Rightarrow> True | Some (q, n) \<Rightarrow>
    p < q \<and> q \<le> length s \<and> n < 65536)"
proof -
  obtain r where r: "port_end s p sep = Some r" "case r of None \<Rightarrow> True | Some q \<Rightarrow> p < q \<and> q \<le> length s"
    using port_end_some [OF assms] by blast
  then show ?thesis by (cases r) (auto simp: read_port_def read_bytes_some Let_def)
qed

lemma skip_line_some: "\<exists>r. skip_line s p = Some r \<and> (case r of PP_null \<Rightarrow> True | PP_at q pp \<Rightarrow> p < q \<and> q \<le> length s \<and> pp = None)"
proof (induction s p rule: skip_line.induct)
  case (1 s p)
  show ?case
  proof (cases "p + 1 < length s")
    case True
    then have g: "read_at s p = Some (s ! p)" "read_at s (p + 1) = Some (s ! (p + 1))" by (simp_all add: read_at_some)
    show ?thesis
    proof (cases "s ! p = CR \<and> s ! (p + 1) = LF")
      case True
      then show ?thesis using \<open>p + 1 < length s\<close> g by (subst skip_line.simps) simp
    next
      case False
      then obtain r where "skip_line s (p + 1) = Some r"
        "case r of PP_null \<Rightarrow> True | PP_at q pp \<Rightarrow> p + 1 < q \<and> q \<le> length s \<and> pp = None"
        using "1.IH" [OF True refl g] False by auto
      then show ?thesis using True False g by (subst skip_line.simps) (auto split: pp_result.splits)
    qed
  qed (subst skip_line.simps, simp)
qed

lemma begins_lit: "n = length lit \<Longrightarrow> p + n \<le> length s \<Longrightarrow> begins s p lit = Some (take n (drop p s) = lit)"
  using begins_some by blast

text \<open>What holds of every result.\<close>

definition pp_ok :: "bytes \<Rightarrow> pp_result option \<Rightarrow> bool" where
  "pp_ok s r \<longleftrightarrow>
     (case r of
        None \<Rightarrow> False
      | Some PP_null \<Rightarrow> True
      | Some (PP_at p None) \<Rightarrow> 13 \<le> p \<and> p \<le> length s
      | Some (PP_at p (Some pp)) \<Rightarrow>
          13 \<le> p \<and> p \<le> length s \<and> list_all addr_char (pp_src_addr pp) \<and> list_all addr_char (pp_dst_addr pp)
          \<and> pp_src_port pp < 65536 \<and> pp_dst_port pp < 65536 \<and> length (pp_tlvs pp) < 65536)"

lemma v1_addr_chars: "list_all v1_addr_char t \<Longrightarrow> list_all addr_char t"
  by (auto simp: list_all_iff v1_addr_char_def addr_char_def is_hex_def is_digit_ord is_hex_letter_ord less_eq_char_def)

lemma v1_fields_ok:
  assumes "11 \<le> p" and "p \<le> length s"
  shows "pp_ok s (read_v1_fields alloc s p)"
proof -
  obtain src where src: "read_addr (alloc 1) s p = Some src"
    "case src of None \<Rightarrow> True | Some (q, t) \<Rightarrow> p < q \<and> q \<le> length s \<and> list_all v1_addr_char t"
    using read_addr_some [OF assms(2)] by blast
  show ?thesis
  proof (cases src)
    case (Some qt)
    then obtain q t where q: "src = Some (q, t)" "p < q" "q \<le> length s" "list_all v1_addr_char t" using src(2) by (cases qt) auto
    obtain dst where dst: "read_addr (alloc 2) s q = Some dst"
      "case dst of None \<Rightarrow> True | Some (q', t) \<Rightarrow> q < q' \<and> q' \<le> length s \<and> list_all v1_addr_char t"
      using read_addr_some [OF q(3)] by blast
    show ?thesis
    proof (cases dst)
      case (Some qt')
      then obtain q' t' where q': "dst = Some (q', t')" "q < q'" "q' \<le> length s" "list_all v1_addr_char t'"
        using dst(2) by (cases qt') auto
      obtain sp where sp: "read_port s q' (CHR '' '') = Some sp"
        "case sp of None \<Rightarrow> True | Some (r, n) \<Rightarrow> q' < r \<and> r \<le> length s \<and> n < 65536"
        using read_port_some [OF q'(3)] by blast
      show ?thesis
      proof (cases sp)
        case (Some rn)
        then obtain r n where r: "sp = Some (r, n)" "q' < r" "r \<le> length s" "n < 65536" using sp(2) by (cases rn) auto
        obtain dp where dp: "read_port s r CR = Some dp"
          "case dp of None \<Rightarrow> True | Some (r', n) \<Rightarrow> r < r' \<and> r' \<le> length s \<and> n < 65536"
          using read_port_some [OF r(3)] by blast
        then show ?thesis
          using src(1) q dst(1) q' sp(1) r assms(1)
          by (cases dp) (auto simp: read_v1_fields_def pp_ok_def read_at_def v1_addr_chars)
      qed (use src(1) q dst(1) q' sp(1) in \<open>simp add: read_v1_fields_def pp_ok_def\<close>)
    qed (use src(1) q dst(1) in \<open>simp add: read_v1_fields_def pp_ok_def\<close>)
  qed (use src(1) in \<open>simp add: read_v1_fields_def pp_ok_def\<close>)
qed

lemma read_v1_ok: "pp_ok s (read_v1 alloc s)"
proof (cases "length s < 8")
  case False
  have 1: "begins s 0 ''PROXY '' = Some (take 6 s = ''PROXY '')" using begins_lit [of 6 "''PROXY ''" 0 s] False by (simp del: begins.simps)
  show ?thesis
  proof (cases "13 \<le> length s \<and> take 7 (drop 6 s) = ''UNKNOWN''")
    case True
    then have "begins s 6 ''UNKNOWN'' = Some True" using begins_lit [of 7 "''UNKNOWN''" 6 s] by (simp del: begins.simps)
    moreover have "7 \<le> length s - 6" using True by linarith
    moreover obtain r where "skip_line s 13 = Some r" "case r of PP_null \<Rightarrow> True | PP_at q pp \<Rightarrow> 13 < q \<and> q \<le> length s \<and> pp = None"
      using skip_line_some by blast
    ultimately show ?thesis using 1 False by (cases r) (auto simp: read_v1_def pp_ok_def simp del: begins.simps)
  next
    case unknown: False
    have u: "(if length s - 6 \<ge> 7 then begins s 6 ''UNKNOWN'' else Some False) = Some False"
      using begins_lit [of 7 "''UNKNOWN''" 6 s] unknown by (auto simp del: begins.simps)
    show ?thesis
    proof (cases "length s < 11")
      case True
      then have "length s - 6 < 5" by simp
      then show ?thesis using 1 u False by (simp add: read_v1_def pp_ok_def del: begins.simps)
    next
      case long: False
      then have "\<not> length s - 6 < 5" "begins s 6 ''TCP'' = Some (take 3 (drop 6 s) = ''TCP'')" "read_at s 9 = Some (s ! 9)" "read_at s 10 = Some (s ! 10)"
        using begins_lit [of 3 "''TCP''" 6 s] by (simp_all add: read_at_some del: begins.simps)
      then show ?thesis
        using 1 u False v1_fields_ok [of 11 s alloc] long by (simp add: read_v1_def pp_ok_def del: begins.simps)
    qed
  qed
qed (simp add: read_v1_def pp_ok_def)

lemma v2_addrs_ok:
  assumes "13 \<le> p" and "p \<le> end_of" and "end_of \<le> length s" and "end_of < p + 65536"
    and "\<And>q. length q = n \<Longrightarrow> \<exists>t. ngx_sock_ntop (mk q) NGX_SOCKADDR_STRLEN False = Some t \<and> list_all addr_char t"
  shows "pp_ok s (read_v2_addrs alloc mk n s p end_of)"
proof (cases "end_of - p < 2 * n + 4")
  case False
  then have le: "p + 2 * n + 4 \<le> end_of" by simp
  let ?src = "take n (drop p s)" and ?dst = "take n (drop (p + n) s)"
  obtain t where t: "ngx_sock_ntop (mk ?src) NGX_SOCKADDR_STRLEN False = Some t" "list_all addr_char t"
    using assms(5) [of ?src] le assms(3) by auto
  obtain t' where t': "ngx_sock_ntop (mk ?dst) NGX_SOCKADDR_STRLEN False = Some t'" "list_all addr_char t'"
    using assms(5) [of ?dst] le assms(3) by auto
  have g: "read_bytes s p n = Some ?src" "read_bytes s (p + n) n = Some ?dst"
    "read_bytes s (p + 2 * n + 4) (end_of - (p + 2 * n + 4)) = Some (take (end_of - (p + 2 * n + 4)) (drop (p + 2 * n + 4) s))"
    using le assms(3) by (simp_all add: read_bytes_some)
  show ?thesis
    using False g t t' uint16_some [of "p + 2 * n" s] uint16_some [of "p + 2 * n + 2" s] uint16_less assms(1-4) le
    by (auto simp: read_v2_addrs_def pp_ok_def Let_def)
qed (simp add: read_v2_addrs_def pp_ok_def)

lemma sock_texts:
  "length q = 4 \<Longrightarrow> \<exists>t. ngx_sock_ntop (in_of_bytes q) NGX_SOCKADDR_STRLEN False = Some t \<and> list_all addr_char t"
  "length q = 16 \<Longrightarrow> \<exists>t. ngx_sock_ntop (in6_of_bytes q) NGX_SOCKADDR_STRLEN False = Some t \<and> list_all addr_char t"
  subgoal using print_in [of 0 _ False] dots_addr_chars by (simp add: in_of_bytes_def)
  subgoal using print_in6 [of q 0 False] by (metis in6_of_bytes_def zero_less_numeral)
  done

lemma read_v2_ok:
  assumes "16 \<le> length s"
  shows "pp_ok s (read_v2 alloc s)"
proof -
  have g: "read_at s 12 = Some (s ! 12)" "read_at s 13 = Some (s ! 13)" "parse_uint16 s 14 = Some (ord (s ! 14) * 256 + ord (s ! 15))"
    using assms uint16_some [of 14 s] by (simp_all add: read_at_some)
  let ?len = "ord (s ! 14) * 256 + ord (s ! 15)"
  show ?thesis
  proof (cases "length s - 16 < ?len")
    case False
    then have e: "16 \<le> 16 + ?len" "16 + ?len \<le> length s" "16 + ?len < 16 + 65536" using assms uint16_less by auto
    have p: "pp_ok s (Some PP_null)" "pp_ok s (Some (PP_at (16 + ?len) None))" using e by (simp_all add: pp_ok_def)
    show ?thesis
      using p v2_addrs_ok [OF _ e, of 4 in_of_bytes alloc] v2_addrs_ok [OF _ e, of 16 in6_of_bytes alloc] sock_texts False
      by (simp add: read_v2_def g Let_def)
  qed (simp add: read_v2_def g pp_ok_def)
qed

text \<open>C29: Whatever a peer sends in place of a PROXY protocol header, of either version, nothing outside the received
  bytes is read; an accepted header ends inside them, its addresses consist of hexadecimal digits, dots and colons,
  and its ports have 16 bits.\<close>

theorem proxy_header_safe: "pp_ok s (ngx_proxy_protocol_read alloc s)"
  using read_v1_ok [of s alloc] read_v2_ok [of s alloc]
  by (simp add: ngx_proxy_protocol_read_def read_bytes_some)


section \<open>What is written is read back\<close>

lemma inet6_ntop_len: "NGX_INET6_ADDRSTRLEN \<le> len \<Longrightarrow> NGX_INET6_ADDRSTRLEN \<le> len' \<Longrightarrow> ngx_inet6_ntop a len = ngx_inet6_ntop a len'"
  by (simp add: ngx_inet6_ntop_def)

text \<open>The text of an address is the same in every buffer that is large enough.\<close>

lemma plain_text:
  assumes "inet_address sa"
  shows "\<exists>t. (\<forall>len. NGX_INET6_ADDRSTRLEN \<le> len \<longrightarrow> ngx_sock_ntop sa len False = Some t)
    \<and> length t \<le> 39 \<and> list_all addr_char t"
proof (cases sa)
  case (Sockaddr_in a port)
  have d: "ngx_sprintf ''%ud.%ud.%ud.%ud'' (map byte_arg (addr_bytes a)) = Some (dots (addr_bytes a))"
    using dotted_quad_text [OF addr_bytes_number(1)] by (simp add: dotted_quad_def)
  have l: "length (dots (addr_bytes a)) \<le> 15" by (rule length_dots [OF addr_bytes_number(1)])
  have "ngx_sock_ntop sa len False = Some (dots (addr_bytes a))" if "NGX_INET6_ADDRSTRLEN \<le> len" for len
    using that l vslprintf_take [OF d [unfolded ngx_sprintf_def], of len]
    by (simp add: Sockaddr_in ngx_sock_ntop_def ngx_snprintf_def no_hex_def NGX_INET6_ADDRSTRLEN_def)
  then show ?thesis using l dots_addr_chars by fastforce
next
  case (Sockaddr_in6 a port)
  then have "length a = 16" using assms by (simp add: inet_address_def)
  then obtain t where "ngx_inet6_ntop a NGX_INET6_ADDRSTRLEN = Some t" "length t \<le> 39" "list_all addr_char t"
    using inet6_text by blast
  moreover from this(1) have "\<forall>len. NGX_INET6_ADDRSTRLEN \<le> len \<longrightarrow> ngx_inet6_ntop a len = Some t"
    using inet6_ntop_len [of NGX_INET6_ADDRSTRLEN _ a] by simp
  ultimately show ?thesis by (intro exI [of _ t]) (simp add: Sockaddr_in6 ngx_sock_ntop_def)
qed (use assms in \<open>simp_all add: inet_address_def\<close>)

lemma read_spec_ui: "read_spec (''ui'' @ fmt) args = Some (CHR '' '', 0, fspec_init\<lparr>f_sign := False\<rparr>, CHR ''i'', fmt, args)"
  by (simp add: read_spec_def Let_def fspec_init_def)

lemma print_ui:
  assumes "0 \<le> v" "v < 2147483648"
  shows "ngx_vslprintf None buf (CHR ''%'' # ''ui'' @ fmt) (IntArg v # args)
      = ngx_vslprintf None (buf @ dec_digits (nat v) []) fmt args"
proof -
  have "u64 v = v" using assms by (simp add: u64_id)
  then show ?thesis
    using assms(1)
    by (simp add: ngx_vslprintf.simps(2) has_room_def read_spec_ui [simplified] convert_def is_integer_conversion_def
        is_str_conversion_def fmt_integer_def fspec_init_def put_integer_def ngx_sprintf_num_def put_bytes_def Let_def)
qed

lemma print_ports:
  assumes "p < 65536" and "q < 65536" and "14 \<le> n"
  shows "ngx_snprintf n ('' %ui %ui'' @ [CR, LF]) [IntArg (int p), IntArg (int q)] =
    Some ('' '' @ dec_digits p [] @ '' '' @ dec_digits q [] @ [CR, LF])"
proof -
  have "ngx_vslprintf None [] ('' %ui %ui'' @ [CR, LF]) [IntArg (int p), IntArg (int q)] =
      Some ('' '' @ dec_digits p [] @ '' '' @ dec_digits q [] @ [CR, LF])" (is "_ = Some ?t")
    using assms(1,2) print_ui [simplified] by (simp add: print_char)
  moreover have "length ?t \<le> 14" using dec_port(1) [OF assms(1)] dec_port(1) [OF assms(2)] by simp
  ultimately show ?thesis
    using vslprintf_take [of "[]" "'' %ui %ui'' @ [CR, LF]" "[IntArg (int p), IntArg (int q)]" ?t n] assms(3)
    by (simp add: ngx_snprintf_def no_hex_def)
qed

definition v1_line :: "sockaddr \<Rightarrow> bytes \<Rightarrow> bytes \<Rightarrow> nat \<Rightarrow> nat \<Rightarrow> bytes" where
  "v1_line peer src dst sport dport =
     ''PROXY TCP'' @ (case peer of Sockaddr_in _ _ \<Rightarrow> ''4'' | _ \<Rightarrow> ''6'') @ '' '' @ src @ '' '' @ dst @ '' ''
     @ dec_digits sport [] @ '' '' @ dec_digits dport [] @ [CR, LF]"

definition port_ok :: "sockaddr \<Rightarrow> bool" where
  "port_ok sa \<longleftrightarrow> ngx_inet_get_port sa < 65536"

lemma write_line:
  assumes "NGX_PROXY_PROTOCOL_V1_MAX_HEADER \<le> room" and "inet_address peer" and "inet_address local_addr"
    and "port_ok peer" and "port_ok local_addr"
    and "ngx_sock_ntop peer NGX_SOCKADDR_STRLEN False = Some src"
    and "ngx_sock_ntop local_addr NGX_SOCKADDR_STRLEN False = Some dst"
  shows "ngx_proxy_protocol_write room True peer local_addr =
      Some (v1_line peer src dst (ngx_inet_get_port peer) (ngx_inet_get_port local_addr))"
    and "length (v1_line peer src dst (ngx_inet_get_port peer) (ngx_inet_get_port local_addr)) \<le> room"
proof -
  have big: "NGX_INET6_ADDRSTRLEN \<le> NGX_SOCKADDR_STRLEN" by (simp add: NGX_INET6_ADDRSTRLEN_def NGX_SOCKADDR_STRLEN_def)
  obtain t where t: "\<forall>len. NGX_INET6_ADDRSTRLEN \<le> len \<longrightarrow> ngx_sock_ntop peer len False = Some t" "length t \<le> 39"
    "list_all addr_char t"
    using plain_text [OF assms(2)] by blast
  then have src: "t = src" using assms(6) big by simp
  obtain t' where t': "\<forall>len. NGX_INET6_ADDRSTRLEN \<le> len \<longrightarrow> ngx_sock_ntop local_addr len False = Some t'" "length t' \<le> 39"
    "list_all addr_char t'"
    using plain_text [OF assms(3)] by blast
  then have dst: "t' = dst" using assms(7) big by simp
  note l = assms(1) [unfolded NGX_PROXY_PROTOCOL_V1_MAX_HEADER_def] t(2) t'(2)
  obtain start where start: "(case peer of Sockaddr_in _ _ \<Rightarrow> Some ''PROXY TCP4 '' | Sockaddr_in6 _ _ \<Rightarrow> Some ''PROXY TCP6 '' | _ \<Rightarrow> None) = Some start"
    "start = ''PROXY TCP'' @ (case peer of Sockaddr_in _ _ \<Rightarrow> ''4'' | _ \<Rightarrow> ''6'') @ '' ''" "length start = 11"
    using assms(2) by (cases peer) (simp_all add: inet_address_def)
  have s: "ngx_sock_ntop peer (room - length start) False = Some src"
    "ngx_sock_ntop local_addr (room - length start - length src - 1) False = Some dst"
    using t(1) t'(1) l start(3) src dst
    by (simp_all add: NGX_INET6_ADDRSTRLEN_def)
  have p: "ngx_snprintf (room - length (start @ src @ '' '' @ dst)) ('' %ui %ui'' @ [CR, LF])
      [IntArg (int (ngx_inet_get_port peer)), IntArg (int (ngx_inet_get_port local_addr))] =
      Some ('' '' @ dec_digits (ngx_inet_get_port peer) [] @ '' '' @ dec_digits (ngx_inet_get_port local_addr) [] @ [CR, LF])"
    using assms(4,5) l start(3) src dst by (intro print_ports) (simp_all add: port_ok_def)
  have "ngx_proxy_protocol_write room True peer local_addr =
      Some ((start @ src @ '' '' @ dst) @ '' '' @ dec_digits (ngx_inet_get_port peer) [] @ '' '' @ dec_digits (ngx_inet_get_port local_addr) [] @ [CR, LF])"
    unfolding ngx_proxy_protocol_write_def Let_def start(1) option.case using l(1)
    by (simp only: NGX_PROXY_PROTOCOL_V1_MAX_HEADER_def s Option.bind.simps Let_def p if_True if_False not_less not_True_eq_False) simp
  then show "ngx_proxy_protocol_write room True peer local_addr =
      Some (v1_line peer src dst (ngx_inet_get_port peer) (ngx_inet_get_port local_addr))"
    using start(2) by (simp add: v1_line_def)
  have "length (dec_digits (ngx_inet_get_port peer) []) \<le> 5" "length (dec_digits (ngx_inet_get_port local_addr) []) \<le> 5"
    using dec_port(1) assms(4,5) by (simp_all add: port_ok_def)
  then show "length (v1_line peer src dst (ngx_inet_get_port peer) (ngx_inet_get_port local_addr)) \<le> room"
    using l src dst by (cases peer) (simp_all add: v1_line_def)
qed

lemma addr_end_at:
  assumes "list_all v1_addr_char t"
  shows "addr_end (A @ t @ CHR '' '' # B) (length A) = Some (Some (length A + length t + 1))"
  using assms
proof (induction t arbitrary: A)
  case Nil
  show ?case by (subst addr_end.simps) (simp add: read_at_def nth_append)
next
  case (Cons c t)
  have "c \<noteq> CHR '' ''" using Cons.prems by (auto simp: v1_addr_char_def less_eq_char_def)
  then show ?case using Cons.IH [of "A @ [c]"] Cons.prems by (subst addr_end.simps) (simp add: read_at_def nth_append)
qed

lemma port_end_at:
  assumes "sep \<notin> set t"
  shows "port_end (A @ t @ sep # B) (length A) sep = Some (Some (length A + length t + 1))"
  using assms
proof (induction t arbitrary: A)
  case Nil
  show ?case by (subst port_end.simps) (simp add: read_at_def nth_append)
next
  case (Cons c t)
  then show ?case using Cons.IH [of "A @ [c]"] by (subst port_end.simps) (auto simp: read_at_def nth_append)
qed

lemma read_addr_at:
  "list_all addr_char t \<Longrightarrow> read_addr True (A @ t @ CHR '' '' # B) (length A) = Some (Some (length A + length t + 1, t))"
proof -
  assume "list_all addr_char t"
  then have "list_all v1_addr_char t"
    by (auto simp: list_all_iff v1_addr_char_def addr_char_def is_hex_def is_digit_ord is_hex_letter_ord less_eq_char_def)
  then show ?thesis by (simp add: read_addr_def addr_end_at read_bytes_def)
qed

lemma read_port_at:
  assumes "port < 65536" and "\<not> is_digit sep"
  shows "read_port (A @ dec_digits port [] @ sep # B) (length A) sep = Some (Some (length A + length (dec_digits port []) + 1, port))"
proof -
  have "sep \<notin> set (dec_digits port [])" using dec_port(3) [OF assms(1)] assms(2) by (auto simp: list_all_iff)
  then show ?thesis using dec_port(2) [OF assms(1)] assms(1) by (simp add: read_port_def port_end_at read_bytes_def)
qed

lemma read_line:
  assumes "list_all addr_char src" and "list_all addr_char dst" and "sport < 65536" and "dport < 65536"
  shows "ngx_proxy_protocol_read (\<lambda>_. True) (v1_line peer src dst sport dport @ rest) =
    Some (PP_at (length (v1_line peer src dst sport dport))
      (Some \<lparr>pp_src_addr = src, pp_dst_addr = dst, pp_src_port = sport, pp_dst_port = dport, pp_tlvs = []\<rparr>))"
proof -
  define v where "v = (case peer of Sockaddr_in _ _ \<Rightarrow> CHR ''4'' | _ \<Rightarrow> CHR ''6'')"
  have v: "v = CHR ''4'' \<or> v = CHR ''6''" by (simp add: v_def split: sockaddr.split)
  define start where "start = ''PROXY TCP'' @ v # '' ''"
  have l: "length start = 11" by (simp add: start_def)
  let ?s = "v1_line peer src dst sport dport @ rest"
  let ?d = "dec_digits sport []" and ?e = "dec_digits dport []"
  have s: "?s = start @ src @ CHR '' '' # dst @ CHR '' '' # ?d @ CHR '' '' # ?e @ CR # LF # rest"
    by (simp add: v1_line_def v_def start_def split: sockaddr.split)
  have f: "read_v1_fields (\<lambda>_. True) ?s 11 =
    Some (PP_at (length (v1_line peer src dst sport dport))
      (Some \<lparr>pp_src_addr = src, pp_dst_addr = dst, pp_src_port = sport, pp_dst_port = dport, pp_tlvs = []\<rparr>))"
  proof -
    let ?A = "start @ src @ '' ''" let ?B = "?A @ dst @ '' ''" let ?C = "?B @ ?d @ '' ''" let ?D = "?C @ ?e @ [CR]"
    have "read_addr True ?s 11 = Some (Some (length ?A, src))"
      using read_addr_at [OF assms(1), of start "dst @ CHR '' '' # ?d @ CHR '' '' # ?e @ CR # LF # rest"]
      unfolding s by (simp add: l)
    moreover have "read_addr True ?s (length ?A) = Some (Some (length ?B, dst))"
      using read_addr_at [OF assms(2), of ?A "?d @ CHR '' '' # ?e @ CR # LF # rest"] unfolding s by simp
    moreover have "read_port ?s (length ?B) (CHR '' '') = Some (Some (length ?C, sport))"
      using read_port_at [OF assms(3), of "CHR '' ''" ?B "?e @ CR # LF # rest"] unfolding s
      by (simp add: is_digit_def less_eq_char_def)
    moreover have "read_port ?s (length ?C) CR = Some (Some (length ?D, dport))"
      using read_port_at [OF assms(4), of CR ?C "LF # rest"] unfolding s by (simp add: is_digit_def less_eq_char_def)
    moreover have "read_at ?s (length ?D) = Some LF" "length ?D \<noteq> length ?s" unfolding s by (simp_all add: read_at_def nth_append)
    moreover have "length ?D + 1 = length (v1_line peer src dst sport dport)"
      by (simp add: v1_line_def l split: sockaddr.split)
    ultimately show ?thesis by (simp only: read_v1_fields_def Option.bind.simps option.case prod.case if_False) simp
  qed
  have len: "13 \<le> length ?s" unfolding s by (simp add: l)
  have "begins ?s 0 ''PROXY '' = Some True" "begins ?s 6 ''TCP'' = Some True" "begins ?s 6 ''UNKNOWN'' = Some False"
    "read_at ?s 9 = Some v" "read_at ?s 10 = Some (CHR '' '')"
    unfolding s by (simp_all add: read_at_def start_def)
  then have "read_v1 (\<lambda>_. True) ?s = read_v1_fields (\<lambda>_. True) ?s 11"
    using v len by (auto simp: read_v1_def simp del: begins.simps)
  moreover have "ngx_proxy_protocol_read (\<lambda>_. True) ?s = read_v1 (\<lambda>_. True) ?s"
  proof -
    have "take 12 ?s \<noteq> signature" unfolding s signature_def start_def by simp
    then show ?thesis by (simp add: ngx_proxy_protocol_read_def read_bytes_def)
  qed
  ultimately show ?thesis using f by simp
qed

text \<open>The line that nginx writes for a connection, into a buffer of any admissible size, is read back by the
  server behind it: the addresses as texts, the ports, and not a byte more, whatever follows.\<close>

lemma proxy_line_roundtrip:
  assumes "NGX_PROXY_PROTOCOL_V1_MAX_HEADER \<le> room" and "inet_address peer" and "inet_address local_addr"
    and "port_ok peer" and "port_ok local_addr"
  shows "\<exists>line. ngx_proxy_protocol_write room True peer local_addr = Some line \<and> length line \<le> room
    \<and> ngx_proxy_protocol_read (\<lambda>_. True) (line @ rest) =
        Some (PP_at (length line)
          (Some \<lparr>pp_src_addr = the (ngx_sock_ntop peer NGX_SOCKADDR_STRLEN False),
                pp_dst_addr = the (ngx_sock_ntop local_addr NGX_SOCKADDR_STRLEN False),
                pp_src_port = ngx_inet_get_port peer, pp_dst_port = ngx_inet_get_port local_addr, pp_tlvs = []\<rparr>))"
proof -
  have big: "NGX_INET6_ADDRSTRLEN \<le> NGX_SOCKADDR_STRLEN" by (simp add: NGX_INET6_ADDRSTRLEN_def NGX_SOCKADDR_STRLEN_def)
  obtain src where src: "\<forall>len. NGX_INET6_ADDRSTRLEN \<le> len \<longrightarrow> ngx_sock_ntop peer len False = Some src" "length src \<le> 39"
    "list_all addr_char src"
    using plain_text [OF assms(2)] by blast
  obtain dst where dst: "\<forall>len. NGX_INET6_ADDRSTRLEN \<le> len \<longrightarrow> ngx_sock_ntop local_addr len False = Some dst" "length dst \<le> 39"
    "list_all addr_char dst"
    using plain_text [OF assms(3)] by blast
  show ?thesis
    using write_line [OF assms] read_line [OF src(3) dst(3) assms(4,5) [unfolded port_ok_def], of peer rest] src(1) dst(1) big
    by simp
qed

theorem proxy_line_roundtrip_witness:
  "\<exists>line. ngx_proxy_protocol_write 107 True (Sockaddr_in 1 80) (Sockaddr_in6 (replicate 16 NUL) 443) = Some line
     \<and> (case ngx_proxy_protocol_read (\<lambda>_. True) (line @ ''GET'') of
          Some (PP_at p (Some pp)) \<Rightarrow> p = length line \<and> pp_src_port pp = 80 \<and> pp_dst_port pp = 443
        | _ \<Rightarrow> False)"
  using proxy_line_roundtrip [of 107 "Sockaddr_in 1 80" "Sockaddr_in6 (replicate 16 NUL) 443" "''GET''"]
  by (auto simp: NGX_PROXY_PROTOCOL_V1_MAX_HEADER_def inet_address_def port_ok_def ngx_inet_get_port_def)


section \<open>The client behind a balancer\<close>

lemma text_parses:
  assumes "inet_address sa" and "\<not> unreadable sa" and "port_ok sa" and "ngx_sock_ntop sa NGX_SOCKADDR_STRLEN False = Some t"
  shows "ngx_parse_addr_port True t = Inr (ngx_inet_set_port sa 0)"
proof (cases sa)
  case (Sockaddr_in a port)
  then show ?thesis
    using assms print_in [of port a False] parse_dots_port [of a]
    by (simp add: port_ok_def ngx_inet_get_port_def unreadable_def ngx_inet_set_port_def)
next
  case (Sockaddr_in6 a port)
  then have p: "length a = 16" "port < 65536" "\<not> unreadable6 a"
    using assms by (simp_all add: port_ok_def ngx_inet_get_port_def unreadable_def inet_address_def)
  obtain t' where "ngx_sock_ntop (Sockaddr_in6 a port) NGX_SOCKADDR_STRLEN False = Some t'" "CHR '':'' \<in> set t'" "ngx_inet6_addr t' = Some a"
    using print_in6 [OF p(1,2), of False] p(3) by metis
  then show ?thesis
    using assms(4) parse_in6 [of t False a] readable_port [of t] by (simp add: Sockaddr_in6 ngx_inet_set_port_def)
qed (use assms in \<open>simp_all add: inet_address_def\<close>)

lemma text_hop:
  assumes "inet_address sa" and "\<not> unreadable sa" and "port_ok sa" and "ngx_sock_ntop sa NGX_SOCKADDR_STRLEN False = Some t"
  shows "hop_text t (ngx_inet_set_port sa 0)"
proof -
  have "list_all addr_char t"
    using plain_text [OF assms(1)] assms(4) by (auto simp: NGX_INET6_ADDRSTRLEN_def NGX_SOCKADDR_STRLEN_def)
  then have "list_all (\<lambda>c. \<not> is_sep c) t"
    by (auto simp: list_all_iff addr_char_def is_sep_def is_hex_def is_digit_ord is_hex_letter_ord)
  moreover have "t \<noteq> []"
    using text_parses [OF assms] by (auto simp: ngx_parse_addr_port_def ngx_parse_addr_def ngx_inet_addr_def ngx_inet6_addr_def strlchr_def)
  ultimately show ?thesis using text_parses [OF assms] by (simp add: hop_text_def)
qed

text \<open>C18: A trusted balancer is believed to the bit: when it announces a client in a version 1 header and the
  real-IP module of the server takes addresses from that header, trusts the balancer and has not run for the request
  before, the connection's address becomes exactly the client's, port included, and its text is the client's.  The
  three addresses with 255.255.255.255, which the reader refuses, are excepted.\<close>

theorem proxy_client_address:
  assumes "NGX_PROXY_PROTOCOL_V1_MAX_HEADER \<le> room" and "inet_address client" and "port_ok client" and "\<not> unreadable client"
    and "inet_address balancer" and "port_ok balancer"
    and "rc_type conf = REALIP_PROXY" and "rc_from conf = Some proxies" and "trusts proxies (c_sockaddr (r_connection r))"
    and "realip_get_module_ctx r = None"
  shows "case ngx_proxy_protocol_write room True client balancer of
      None \<Rightarrow> False
    | Some line \<Rightarrow>
        (case ngx_proxy_protocol_read (\<lambda>_. True) (line @ rest) of
           Some (PP_at p (Some pp)) \<Rightarrow>
             (case realip_handler (\<lambda>_ _. True) True True conf
                 (r\<lparr>r_connection := (r_connection r)\<lparr>c_proxy_protocol := Some pp\<rparr>\<rparr>) of
                (rc, r') \<Rightarrow>
                  rc = NGX_DECLINED \<and> c_sockaddr (r_connection r') = client
                  \<and> ngx_sock_ntop client NGX_SOCKADDR_STRLEN False = Some (c_addr_text (r_connection r')))
         | _ \<Rightarrow> False)"
proof -
  obtain t where t: "ngx_sock_ntop client NGX_SOCKADDR_STRLEN False = Some t"
    using plain_text [OF assms(2)] by (auto simp: NGX_INET6_ADDRSTRLEN_def NGX_SOCKADDR_STRLEN_def)
  note hop = text_hop [OF assms(2,4,3) t]
  obtain d where d: "ngx_sock_ntop balancer NGX_SOCKADDR_STRLEN False = Some d" "list_all addr_char d"
    using plain_text [OF assms(5)] by (auto simp: NGX_INET6_ADDRSTRLEN_def NGX_SOCKADDR_STRLEN_def)
  have tc: "list_all addr_char t" 
    using plain_text [OF assms(2)] t by (auto simp: NGX_INET6_ADDRSTRLEN_def NGX_SOCKADDR_STRLEN_def)
  let ?pp = "\<lparr>pp_src_addr = t, pp_dst_addr = d, pp_src_port = ngx_inet_get_port client, pp_dst_port = ngx_inet_get_port balancer, pp_tlvs = []\<rparr>"
  let ?r = "r\<lparr>r_connection := (r_connection r)\<lparr>c_proxy_protocol := Some ?pp\<rparr>\<rparr>"
  have f: "ngx_http_get_forwarded_addr (\<lambda>_ _. True) proxies (rc_recursive conf) (Value NUL t) (c_sockaddr (r_connection r)) =
      (NGX_OK, ngx_inet_set_port client 0)"
    using walk_front [OF assms(9) hop, of "[]" "rc_recursive conf" NUL "[]" 0 False] by (simp add: ngx_http_get_forwarded_addr_def)
  have s: "ngx_inet_set_port (ngx_inet_set_port client 0) (ngx_inet_get_port client) = client"
    using assms(2) by (cases client) (simp_all add: ngx_inet_set_port_def ngx_inet_get_port_def inet_address_def)
  have "realip_get_module_ctx ?r = realip_get_module_ctx r" by (simp add: realip_get_module_ctx_def)
  then have "realip_get_module_ctx ?r = None" using assms(10) by simp
  then have "realip_handler (\<lambda>_ _. True) True True conf ?r = realip_set_addr True True ?r client"
    using assms(7,8) f s by (simp add: realip_handler_def realip_source_def Let_def code_const)
  moreover have "t \<noteq> []" using hop by (simp add: hop_text_def)
  ultimately have h: "case realip_handler (\<lambda>_ _. True) True True conf ?r of
                (rc, r') \<Rightarrow> rc = NGX_DECLINED \<and> c_sockaddr (r_connection r') = client \<and> c_addr_text (r_connection r') = t"
    using t by (simp add: realip_set_addr_def Let_def)
  show ?thesis
    using write_line(1) [OF assms(1,2,5,3,6) t d(1)] read_line [OF tc d(2) assms(3,6) [unfolded port_ok_def], of client rest] h t
    by (simp split: prod.splits)
qed

theorem proxy_client_address_witness:
  "case ngx_proxy_protocol_write 107 True (Sockaddr_in6 (replicate 15 NUL @ [CHR ''A'']) 40000) (Sockaddr_in 2 443) of
      None \<Rightarrow> False
    | Some line \<Rightarrow>
        (case ngx_proxy_protocol_read (\<lambda>_. True) (line @ ''GET'') of
           Some (PP_at p (Some pp)) \<Rightarrow>
             (case realip_handler (\<lambda>_ _. True) True True (example_conf\<lparr>rc_type := REALIP_PROXY\<rparr>)
                 (example_request\<lparr>r_connection := (r_connection example_request)\<lparr>c_proxy_protocol := Some pp\<rparr>\<rparr>) of
                (rc, r') \<Rightarrow>
                  rc = NGX_DECLINED \<and> c_sockaddr (r_connection r') = Sockaddr_in6 (replicate 15 NUL @ [CHR ''A'']) 40000
                  \<and> ngx_sock_ntop (Sockaddr_in6 (replicate 15 NUL @ [CHR ''A'']) 40000) NGX_SOCKADDR_STRLEN False
                      = Some (c_addr_text (r_connection r')))
         | _ \<Rightarrow> False)"
proof (rule proxy_client_address)
  show "trusts [Cidr_in 0 0] (c_sockaddr (r_connection example_request))" by code_simp
  show "\<not> unreadable (Sockaddr_in6 (replicate 15 NUL @ [CHR ''A'']) 40000)" by (simp add: unreadable_def) code_simp
qed (simp_all add: NGX_PROXY_PROTOCOL_V1_MAX_HEADER_def inet_address_def port_ok_def ngx_inet_get_port_def example_conf_def
    example_request_def realip_get_module_ctx_def)

section \<open>Typed values\<close>

definition tlv_text :: "(nat \<times> bytes) list \<Rightarrow> bytes" where
  "tlv_text vs = concat (map (\<lambda>(ty, v). char_of ty # char_of (length v div 256) # char_of (length v mod 256) # v) vs)"

definition tlv_ok :: "nat \<times> bytes \<Rightarrow> bool" where
  "tlv_ok tv \<longleftrightarrow> fst tv < 256 \<and> length (snd tv) < 65536"

lemma tlv_text_simps [simp]:
  "tlv_text [] = []"
  "tlv_text ((ty, v) # vs) = char_of ty # char_of (length v div 256) # char_of (length v mod 256) # v @ tlv_text vs"
  by (simp_all add: tlv_text_def)

lemma lookup_tlv_at:
  assumes "list_all tlv_ok vs"
  shows "lookup_tlv (A @ tlv_text vs) (length A) (length (tlv_text vs)) ty =
    Some (case map_of vs ty of Some v \<Rightarrow> (NGX_OK, v) | None \<Rightarrow> (NGX_DECLINED, []))"
  using assms
proof (induction vs arbitrary: A)
  case Nil
  show ?case by (subst lookup_tlv.simps) simp
next
  case (Cons tv vs)
  obtain t v where tv: "tv = (t, v)" by (cases tv)
  have ok: "t < 256" "length v < 65536" "list_all tlv_ok vs" using Cons.prems by (simp_all add: tv, simp_all add: tlv_ok_def)
  let ?h = "[char_of t, char_of (length v div 256), char_of (length v mod 256)] :: bytes"
  let ?s = "A @ tlv_text (tv # vs)"
  have s: "?s = (A @ ?h @ v) @ tlv_text vs" by (simp add: tv)
  have "length v div 256 < 256" using ok(2) by simp
  then have g: "read_at ?s (length A) = Some (char_of t)" "parse_uint16 ?s (length A + 1) = Some (length v)"
    by (simp_all add: parse_uint16_def read_at_def nth_append tv)
  have "lookup_tlv ?s (length A) (length (tlv_text (tv # vs))) ty =
      (if t = ty then map_option (\<lambda>v. (NGX_OK, v)) (read_bytes ?s (length A + 3) (length v))
       else lookup_tlv ?s (length A + 3 + length v) (length (tlv_text vs)) ty)"
    using g ok(1) by (subst lookup_tlv.simps) (simp add: tv)
  moreover have "read_bytes ?s (length A + 3) (length v) = Some v" by (simp add: read_bytes_def tv)
  moreover have "lookup_tlv ?s (length A + 3 + length v) (length (tlv_text vs)) ty =
      Some (case map_of vs ty of Some v \<Rightarrow> (NGX_OK, v) | None \<Rightarrow> (NGX_DECLINED, []))"
  proof -
    have len: "length A + 3 + length v = length (A @ ?h @ v)" by simp
    show ?thesis using Cons.IH [OF ok(3), of "A @ ?h @ v"] by (simp only: s len)
  qed
  ultimately have "lookup_tlv ?s (length A) (length (tlv_text (tv # vs))) ty =
      (if t = ty then Some (NGX_OK, v) else Some (case map_of vs ty of Some v \<Rightarrow> (NGX_OK, v) | None \<Rightarrow> (NGX_DECLINED, [])))"
    by (simp only: option.map)
  then show ?case unfolding tv by (simp only: map_of_Cons_code) (simp split: if_splits)
qed

text \<open>Whatever bytes follow the addresses, nothing outside them is read.\<close>

lemma lookup_tlv_safe: "p + n \<le> length s \<Longrightarrow> lookup_tlv s p n ty \<noteq> None"
proof (induction s p n ty rule: lookup_tlv.induct)
  case (1 s p n ty)
  show ?case
  proof (cases "n = 0 \<or> n < 3")
    case True
    then show ?thesis by (subst lookup_tlv.simps) auto
  next
    case False
    then have g: "read_at s p = Some (s ! p)" "parse_uint16 s (p + 1) = Some (ord (s ! (p + 1)) * 256 + ord (s ! (p + 2)))"
      using "1.prems" uint16_some [of "p + 1" s] by (simp_all add: read_at_some)
    let ?len = "ord (s ! (p + 1)) * 256 + ord (s ! (p + 2))"
    show ?thesis
    proof (cases "n - 3 < ?len \<or> ord (s ! p) = ty")
      case True
      then show ?thesis using False g "1.prems" by (subst lookup_tlv.simps) (auto simp: read_bytes_def)
    next
      case go: False
      have bound: "p + 3 + ?len + (n - 3 - ?len) \<le> length s" using go False "1.prems" by arith
      have "lookup_tlv s (p + 3 + ?len) (n - 3 - ?len) ty \<noteq> None"
        using "1.IH" [OF _ _ refl g _ _ bound] False go by simp
      then show ?thesis using False go g by (subst lookup_tlv.simps) simp
    qed
  qed
qed

text \<open>A value that a balancer has sent with its header is found by its type: of a list of typed values, the first
  of that type, and none when there is none.\<close>

lemma tlv_lookup_exact:
  assumes "list_all tlv_ok vs"
  shows "lookup_tlv (tlv_text vs) 0 (length (tlv_text vs)) ty =
    Some (case map_of vs ty of Some v \<Rightarrow> (NGX_OK, v) | None \<Rightarrow> (NGX_DECLINED, []))"
  using lookup_tlv_at [OF assms, of "[]"] by simp

theorem tlv_lookup_exact_witness:
  "let s = tlv_text [(1, ''h2''), (2, ''example.org'')] in
     lookup_tlv s 0 (length s) 2 = Some (NGX_OK, ''example.org'') \<and> lookup_tlv s 0 (length s) 5 = Some (NGX_DECLINED, [])"
proof -
  have ok: "list_all tlv_ok [(1, ''h2''), (2, ''example.org'')]" by (simp add: tlv_ok_def)
  show ?thesis unfolding Let_def by (simp only: tlv_lookup_exact [OF ok]) simp
qed

end
