(* ===== verification/SqliData.thy ===== *)
theory SqliData
  imports Checked
begin

text \<open>
  The table of \<open>libinjection_sqli_data.h\<close>: the words and operators of SQL with the types of their tokens, and
  the fingerprints of attacks as words that begin with 0.  It is generated there; here it is written out in the
  order of the file, in pieces of 150 rows.
\<close>

type_synonym keyword = "bytes \<times> char"

definition sql_keywords_1 :: "keyword list" where
  "sql_keywords_1 =
     [(''!!'', CHR ''o''), (''!<'', CHR ''o''), (''!='', CHR ''o''), (''!>'', CHR ''o''),
      (''%='', CHR ''o''), (''&&'', CHR ''&''), (''&='', CHR ''o''), (''*='', CHR ''o''),
      (''+='', CHR ''o''), (''-='', CHR ''o''), (''/='', CHR ''o''), (''0&(1)O'', CHR ''F''),
      (''0&(1)U'', CHR ''F''), (''0&(1O('', CHR ''F''), (''0&(1OF'', CHR ''F''), (''0&(1OS'', CHR ''F''),
      (''0&(1OV'', CHR ''F''), (''0&(F()'', CHR ''F''), (''0&(F(1'', CHR ''F''), (''0&(F(F'', CHR ''F''),
      (''0&(F(N'', CHR ''F''), (''0&(F(S'', CHR ''F''), (''0&(F(V'', CHR ''F''), (''0&(N)O'', CHR ''F''),
      (''0&(N)U'', CHR ''F''), (''0&(NO('', CHR ''F''), (''0&(NOF'', CHR ''F''), (''0&(NOS'', CHR ''F''),
      (''0&(NOV'', CHR ''F''), (''0&(S)O'', CHR ''F''), (''0&(S)U'', CHR ''F''), (''0&(SO('', CHR ''F''),
      (''0&(SO1'', CHR ''F''), (''0&(SOF'', CHR ''F''), (''0&(SON'', CHR ''F''), (''0&(SOS'', CHR ''F''),
      (''0&(SOV'', CHR ''F''), (''0&(V)O'', CHR ''F''), (''0&(V)U'', CHR ''F''), (''0&(VO('', CHR ''F''),
      (''0&(VOF'', CHR ''F''), (''0&(VOS'', CHR ''F''), (''0&1O(1'', CHR ''F''), (''0&1O(F'', CHR ''F''),
      (''0&1O(N'', CHR ''F''), (''0&1O(S'', CHR ''F''), (''0&1O(V'', CHR ''F''), (''0&1OF('', CHR ''F''),
      (''0&1OS('', CHR ''F''), (''0&1OS1'', CHR ''F''), (''0&1OSF'', CHR ''F''), (''0&1OSU'', CHR ''F''),
      (''0&1OSV'', CHR ''F''), (''0&1OV('', CHR ''F''), (''0&1OVF'', CHR ''F''), (''0&1OVO'', CHR ''F''),
      (''0&1OVS'', CHR ''F''), (''0&1OVU'', CHR ''F''), (''0&1UE('', CHR ''F''), (''0&1UE1'', CHR ''F''),
      (''0&1UEF'', CHR ''F''), (''0&1UEK'', CHR ''F''), (''0&1UEN'', CHR ''F''), (''0&1UES'', CHR ''F''),
      (''0&1UEV'', CHR ''F''), (''0&F()O'', CHR ''F''), (''0&F()U'', CHR ''F''), (''0&F(1)'', CHR ''F''),
      (''0&F(1O'', CHR ''F''), (''0&F(F('', CHR ''F''), (''0&F(N)'', CHR ''F''), (''0&F(NO'', CHR ''F''),
      (''0&F(S)'', CHR ''F''), (''0&F(SO'', CHR ''F''), (''0&F(V)'', CHR ''F''), (''0&F(VO'', CHR ''F''),
      (''0&NO(1'', CHR ''F''), (''0&NO(F'', CHR ''F''), (''0&NO(N'', CHR ''F''), (''0&NO(S'', CHR ''F''),
      (''0&NO(V'', CHR ''F''), (''0&NOF('', CHR ''F''), (''0&NOS('', CHR ''F''), (''0&NOS1'', CHR ''F''),
      (''0&NOSF'', CHR ''F''), (''0&NOSU'', CHR ''F''), (''0&NOSV'', CHR ''F''), (''0&NOV('', CHR ''F''),
      (''0&NOVF'', CHR ''F''), (''0&NOVO'', CHR ''F''), (''0&NOVS'', CHR ''F''), (''0&NOVU'', CHR ''F''),
      (''0&NUE('', CHR ''F''), (''0&NUE1'', CHR ''F''), (''0&NUEF'', CHR ''F''), (''0&NUEK'', CHR ''F''),
      (''0&NUEN'', CHR ''F''), (''0&NUES'', CHR ''F''), (''0&NUEV'', CHR ''F''), (''0&SO(1'', CHR ''F''),
      (''0&SO(F'', CHR ''F''), (''0&SO(N'', CHR ''F''), (''0&SO(S'', CHR ''F''), (''0&SO(V'', CHR ''F''),
      (''0&SO1('', CHR ''F''), (''0&SO1F'', CHR ''F''), (''0&SO1N'', CHR ''F''), (''0&SO1S'', CHR ''F''),
      (''0&SO1U'', CHR ''F''), (''0&SO1V'', CHR ''F''), (''0&SOF('', CHR ''F''), (''0&SON('', CHR ''F''),
      (''0&SON1'', CHR ''F''), (''0&SONF'', CHR ''F''), (''0&SONU'', CHR ''F''), (''0&SOS('', CHR ''F''),
      (''0&SOS1'', CHR ''F''), (''0&SOSF'', CHR ''F''), (''0&SOSU'', CHR ''F''), (''0&SOSV'', CHR ''F''),
      (''0&SOV('', CHR ''F''), (''0&SOVF'', CHR ''F''), (''0&SOVO'', CHR ''F''), (''0&SOVS'', CHR ''F''),
      (''0&SOVU'', CHR ''F''), (''0&SUE('', CHR ''F''), (''0&SUE1'', CHR ''F''), (''0&SUEF'', CHR ''F''),
      (''0&SUEK'', CHR ''F''), (''0&SUEN'', CHR ''F''), (''0&SUES'', CHR ''F''), (''0&SUEV'', CHR ''F''),
      (''0&VO(1'', CHR ''F''), (''0&VO(F'', CHR ''F''), (''0&VO(N'', CHR ''F''), (''0&VO(S'', CHR ''F''),
      (''0&VO(V'', CHR ''F''), (''0&VOF('', CHR ''F''), (''0&VOS('', CHR ''F''), (''0&VOS1'', CHR ''F''),
      (''0&VOSF'', CHR ''F''), (''0&VOSU'', CHR ''F''), (''0&VOSV'', CHR ''F''), (''0&VUE('', CHR ''F''),
      (''0&VUE1'', CHR ''F''), (''0&VUEF'', CHR ''F''), (''0&VUEK'', CHR ''F''), (''0&VUEN'', CHR ''F''),
      (''0&VUES'', CHR ''F''), (''0&VUEV'', CHR ''F'')]"

definition sql_keywords_2 :: "keyword list" where
  "sql_keywords_2 =
     [(''0)&(EK'', CHR ''F''), (''0)&(EN'', CHR ''F''), (''0)UE(1'', CHR ''F''), (''0)UE(F'', CHR ''F''),
      (''0)UE(N'', CHR ''F''), (''0)UE(S'', CHR ''F''), (''0)UE(V'', CHR ''F''), (''0)UE1K'', CHR ''F''),
      (''0)UE1O'', CHR ''F''), (''0)UEF('', CHR ''F''), (''0)UEK('', CHR ''F''), (''0)UEK1'', CHR ''F''),
      (''0)UEKF'', CHR ''F''), (''0)UEKN'', CHR ''F''), (''0)UEKS'', CHR ''F''), (''0)UEKV'', CHR ''F''),
      (''0)UENK'', CHR ''F''), (''0)UENO'', CHR ''F''), (''0)UESK'', CHR ''F''), (''0)UESO'', CHR ''F''),
      (''0)UEVK'', CHR ''F''), (''0)UEVO'', CHR ''F''), (''01&(1&'', CHR ''F''), (''01&(1)'', CHR ''F''),
      (''01&(1,'', CHR ''F''), (''01&(1O'', CHR ''F''), (''01&(E('', CHR ''F''), (''01&(E1'', CHR ''F''),
      (''01&(EF'', CHR ''F''), (''01&(EK'', CHR ''F''), (''01&(EN'', CHR ''F''), (''01&(EO'', CHR ''F''),
      (''01&(ES'', CHR ''F''), (''01&(EV'', CHR ''F''), (''01&(F('', CHR ''F''), (''01&(N&'', CHR ''F''),
      (''01&(N)'', CHR ''F''), (''01&(N,'', CHR ''F''), (''01&(NO'', CHR ''F''), (''01&(S&'', CHR ''F''),
      (''01&(S)'', CHR ''F''), (''01&(S,'', CHR ''F''), (''01&(SO'', CHR ''F''), (''01&(V&'', CHR ''F''),
      (''01&(V)'', CHR ''F''), (''01&(V,'', CHR ''F''), (''01&(VO'', CHR ''F''), (''01&1'', CHR ''F''),
      (''01&1&('', CHR ''F''), (''01&1&1'', CHR ''F''), (''01&1&F'', CHR ''F''), (''01&1&N'', CHR ''F''),
      (''01&1&S'', CHR ''F''), (''01&1&V'', CHR ''F''), (''01&1)&'', CHR ''F''), (''01&1)C'', CHR ''F''),
      (''01&1)O'', CHR ''F''), (''01&1)U'', CHR ''F''), (''01&1;'', CHR ''F''), (''01&1;C'', CHR ''F''),
      (''01&1;E'', CHR ''F''), (''01&1;T'', CHR ''F''), (''01&1B('', CHR ''F''), (''01&1B1'', CHR ''F''),
      (''01&1BF'', CHR ''F''), (''01&1BN'', CHR ''F''), (''01&1BS'', CHR ''F''), (''01&1BV'', CHR ''F''),
      (''01&1C'', CHR ''F''), (''01&1EK'', CHR ''F''), (''01&1EN'', CHR ''F''), (''01&1F('', CHR ''F''),
      (''01&1K('', CHR ''F''), (''01&1K1'', CHR ''F''), (''01&1KF'', CHR ''F''), (''01&1KN'', CHR ''F''),
      (''01&1KS'', CHR ''F''), (''01&1KV'', CHR ''F''), (''01&1O('', CHR ''F''), (''01&1OF'', CHR ''F''),
      (''01&1OS'', CHR ''F''), (''01&1OV'', CHR ''F''), (''01&1TN'', CHR ''F''), (''01&1U'', CHR ''F''),
      (''01&1U('', CHR ''F''), (''01&1U;'', CHR ''F''), (''01&1UC'', CHR ''F''), (''01&1UE'', CHR ''F''),
      (''01&E(1'', CHR ''F''), (''01&E(F'', CHR ''F''), (''01&E(N'', CHR ''F''), (''01&E(O'', CHR ''F''),
      (''01&E(S'', CHR ''F''), (''01&E(V'', CHR ''F''), (''01&E1'', CHR ''F''), (''01&E1;'', CHR ''F''),
      (''01&E1C'', CHR ''F''), (''01&E1K'', CHR ''F''), (''01&E1O'', CHR ''F''), (''01&EF('', CHR ''F''),
      (''01&EK('', CHR ''F''), (''01&EK1'', CHR ''F''), (''01&EKF'', CHR ''F''), (''01&EKN'', CHR ''F''),
      (''01&EKS'', CHR ''F''), (''01&EKU'', CHR ''F''), (''01&EKV'', CHR ''F''), (''01&EN'', CHR ''F''),
      (''01&EN;'', CHR ''F''), (''01&ENC'', CHR ''F''), (''01&ENK'', CHR ''F''), (''01&ENO'', CHR ''F''),
      (''01&ES'', CHR ''F''), (''01&ES;'', CHR ''F''), (''01&ESC'', CHR ''F''), (''01&ESK'', CHR ''F''),
      (''01&ESO'', CHR ''F''), (''01&EUE'', CHR ''F''), (''01&EV'', CHR ''F''), (''01&EV;'', CHR ''F''),
      (''01&EVC'', CHR ''F''), (''01&EVK'', CHR ''F''), (''01&EVO'', CHR ''F''), (''01&F()'', CHR ''F''),
      (''01&F(1'', CHR ''F''), (''01&F(E'', CHR ''F''), (''01&F(F'', CHR ''F''), (''01&F(N'', CHR ''F''),
      (''01&F(S'', CHR ''F''), (''01&F(V'', CHR ''F''), (''01&K&('', CHR ''F''), (''01&K&1'', CHR ''F''),
      (''01&K&F'', CHR ''F''), (''01&K&N'', CHR ''F''), (''01&K&S'', CHR ''F''), (''01&K&V'', CHR ''F''),
      (''01&K(1'', CHR ''F''), (''01&K(F'', CHR ''F''), (''01&K(N'', CHR ''F''), (''01&K(S'', CHR ''F''),
      (''01&K(V'', CHR ''F''), (''01&K1O'', CHR ''F''), (''01&KC'', CHR ''F''), (''01&KF('', CHR ''F''),
      (''01&KNK'', CHR ''F''), (''01&KO('', CHR ''F''), (''01&KO1'', CHR ''F''), (''01&KOF'', CHR ''F''),
      (''01&KOK'', CHR ''F''), (''01&KON'', CHR ''F'')]"

definition sql_keywords_3 :: "keyword list" where
  "sql_keywords_3 =
     [(''01&KOS'', CHR ''F''), (''01&KOV'', CHR ''F''), (''01&KSO'', CHR ''F''), (''01&KVO'', CHR ''F''),
      (''01&N&('', CHR ''F''), (''01&N&1'', CHR ''F''), (''01&N&F'', CHR ''F''), (''01&N&N'', CHR ''F''),
      (''01&N&S'', CHR ''F''), (''01&N&V'', CHR ''F''), (''01&N)&'', CHR ''F''), (''01&N)C'', CHR ''F''),
      (''01&N)O'', CHR ''F''), (''01&N)U'', CHR ''F''), (''01&N;'', CHR ''F''), (''01&N;C'', CHR ''F''),
      (''01&N;E'', CHR ''F''), (''01&N;T'', CHR ''F''), (''01&NB('', CHR ''F''), (''01&NB1'', CHR ''F''),
      (''01&NBF'', CHR ''F''), (''01&NBN'', CHR ''F''), (''01&NBS'', CHR ''F''), (''01&NBV'', CHR ''F''),
      (''01&NC'', CHR ''F''), (''01&NEN'', CHR ''F''), (''01&NF('', CHR ''F''), (''01&NK('', CHR ''F''),
      (''01&NK1'', CHR ''F''), (''01&NKF'', CHR ''F''), (''01&NKN'', CHR ''F''), (''01&NKS'', CHR ''F''),
      (''01&NKV'', CHR ''F''), (''01&NO('', CHR ''F''), (''01&NOF'', CHR ''F''), (''01&NOS'', CHR ''F''),
      (''01&NOV'', CHR ''F''), (''01&NTN'', CHR ''F''), (''01&NU'', CHR ''F''), (''01&NU('', CHR ''F''),
      (''01&NU;'', CHR ''F''), (''01&NUC'', CHR ''F''), (''01&NUE'', CHR ''F''), (''01&S'', CHR ''F''),
      (''01&S&('', CHR ''F''), (''01&S&1'', CHR ''F''), (''01&S&F'', CHR ''F''), (''01&S&N'', CHR ''F''),
      (''01&S&S'', CHR ''F''), (''01&S&V'', CHR ''F''), (''01&S)&'', CHR ''F''), (''01&S)C'', CHR ''F''),
      (''01&S)O'', CHR ''F''), (''01&S)U'', CHR ''F''), (''01&S1'', CHR ''F''), (''01&S1;'', CHR ''F''),
      (''01&S1C'', CHR ''F''), (''01&S;'', CHR ''F''), (''01&S;C'', CHR ''F''), (''01&S;E'', CHR ''F''),
      (''01&S;T'', CHR ''F''), (''01&SB('', CHR ''F''), (''01&SB1'', CHR ''F''), (''01&SBF'', CHR ''F''),
      (''01&SBN'', CHR ''F''), (''01&SBS'', CHR ''F''), (''01&SBV'', CHR ''F''), (''01&SC'', CHR ''F''),
      (''01&SEK'', CHR ''F''), (''01&SEN'', CHR ''F''), (''01&SF('', CHR ''F''), (''01&SK('', CHR ''F''),
      (''01&SK1'', CHR ''F''), (''01&SKF'', CHR ''F''), (''01&SKN'', CHR ''F''), (''01&SKS'', CHR ''F''),
      (''01&SKV'', CHR ''F''), (''01&SO('', CHR ''F''), (''01&SO1'', CHR ''F''), (''01&SOF'', CHR ''F''),
      (''01&SON'', CHR ''F''), (''01&SOS'', CHR ''F''), (''01&SOV'', CHR ''F''), (''01&STN'', CHR ''F''),
      (''01&SU'', CHR ''F''), (''01&SU('', CHR ''F''), (''01&SU;'', CHR ''F''), (''01&SUC'', CHR ''F''),
      (''01&SUE'', CHR ''F''), (''01&SV'', CHR ''F''), (''01&SV;'', CHR ''F''), (''01&SVC'', CHR ''F''),
      (''01&SVO'', CHR ''F''), (''01&V'', CHR ''F''), (''01&V&('', CHR ''F''), (''01&V&1'', CHR ''F''),
      (''01&V&F'', CHR ''F''), (''01&V&N'', CHR ''F''), (''01&V&S'', CHR ''F''), (''01&V&V'', CHR ''F''),
      (''01&V)&'', CHR ''F''), (''01&V)C'', CHR ''F''), (''01&V)O'', CHR ''F''), (''01&V)U'', CHR ''F''),
      (''01&V;'', CHR ''F''), (''01&V;C'', CHR ''F''), (''01&V;E'', CHR ''F''), (''01&V;T'', CHR ''F''),
      (''01&VB('', CHR ''F''), (''01&VB1'', CHR ''F''), (''01&VBF'', CHR ''F''), (''01&VBN'', CHR ''F''),
      (''01&VBS'', CHR ''F''), (''01&VBV'', CHR ''F''), (''01&VC'', CHR ''F''), (''01&VEK'', CHR ''F''),
      (''01&VEN'', CHR ''F''), (''01&VF('', CHR ''F''), (''01&VK('', CHR ''F''), (''01&VK1'', CHR ''F''),
      (''01&VKF'', CHR ''F''), (''01&VKN'', CHR ''F''), (''01&VKS'', CHR ''F''), (''01&VKV'', CHR ''F''),
      (''01&VO('', CHR ''F''), (''01&VOF'', CHR ''F''), (''01&VOS'', CHR ''F''), (''01&VS'', CHR ''F''),
      (''01&VS;'', CHR ''F''), (''01&VSC'', CHR ''F''), (''01&VSO'', CHR ''F''), (''01&VTN'', CHR ''F''),
      (''01&VU'', CHR ''F''), (''01&VU('', CHR ''F''), (''01&VU;'', CHR ''F''), (''01&VUC'', CHR ''F''),
      (''01&VUE'', CHR ''F''), (''01(EF('', CHR ''F''), (''01(EKF'', CHR ''F''), (''01(EKN'', CHR ''F''),
      (''01(ENK'', CHR ''F''), (''01(U(E'', CHR ''F''), (''01)&(1'', CHR ''F''), (''01)&(E'', CHR ''F''),
      (''01)&(F'', CHR ''F''), (''01)&(N'', CHR ''F''), (''01)&(S'', CHR ''F''), (''01)&(V'', CHR ''F''),
      (''01)&1'', CHR ''F''), (''01)&1&'', CHR ''F'')]"

definition sql_keywords_4 :: "keyword list" where
  "sql_keywords_4 =
     [(''01)&1)'', CHR ''F''), (''01)&1;'', CHR ''F''), (''01)&1B'', CHR ''F''), (''01)&1C'', CHR ''F''),
      (''01)&1F'', CHR ''F''), (''01)&1O'', CHR ''F''), (''01)&1U'', CHR ''F''), (''01)&F('', CHR ''F''),
      (''01)&N'', CHR ''F''), (''01)&N&'', CHR ''F''), (''01)&N)'', CHR ''F''), (''01)&N;'', CHR ''F''),
      (''01)&NB'', CHR ''F''), (''01)&NC'', CHR ''F''), (''01)&NF'', CHR ''F''), (''01)&NO'', CHR ''F''),
      (''01)&NU'', CHR ''F''), (''01)&S'', CHR ''F''), (''01)&S&'', CHR ''F''), (''01)&S)'', CHR ''F''),
      (''01)&S;'', CHR ''F''), (''01)&SB'', CHR ''F''), (''01)&SC'', CHR ''F''), (''01)&SF'', CHR ''F''),
      (''01)&SO'', CHR ''F''), (''01)&SU'', CHR ''F''), (''01)&V'', CHR ''F''), (''01)&V&'', CHR ''F''),
      (''01)&V)'', CHR ''F''), (''01)&V;'', CHR ''F''), (''01)&VB'', CHR ''F''), (''01)&VC'', CHR ''F''),
      (''01)&VF'', CHR ''F''), (''01)&VO'', CHR ''F''), (''01)&VU'', CHR ''F''), (''01),(1'', CHR ''F''),
      (''01),(F'', CHR ''F''), (''01),(N'', CHR ''F''), (''01),(S'', CHR ''F''), (''01),(V'', CHR ''F''),
      (''01);E('', CHR ''F''), (''01);E1'', CHR ''F''), (''01);EF'', CHR ''F''), (''01);EK'', CHR ''F''),
      (''01);EN'', CHR ''F''), (''01);EO'', CHR ''F''), (''01);ES'', CHR ''F''), (''01);EV'', CHR ''F''),
      (''01);T('', CHR ''F''), (''01);T1'', CHR ''F''), (''01);TF'', CHR ''F''), (''01);TK'', CHR ''F''),
      (''01);TN'', CHR ''F''), (''01);TO'', CHR ''F''), (''01);TS'', CHR ''F''), (''01);TV'', CHR ''F''),
      (''01)B(1'', CHR ''F''), (''01)B(F'', CHR ''F''), (''01)B(N'', CHR ''F''), (''01)B(S'', CHR ''F''),
      (''01)B(V'', CHR ''F''), (''01)B1'', CHR ''F''), (''01)B1&'', CHR ''F''), (''01)B1;'', CHR ''F''),
      (''01)B1C'', CHR ''F''), (''01)B1K'', CHR ''F''), (''01)B1N'', CHR ''F''), (''01)B1O'', CHR ''F''),
      (''01)B1U'', CHR ''F''), (''01)BF('', CHR ''F''), (''01)BN'', CHR ''F''), (''01)BN&'', CHR ''F''),
      (''01)BN;'', CHR ''F''), (''01)BNC'', CHR ''F''), (''01)BNK'', CHR ''F''), (''01)BNO'', CHR ''F''),
      (''01)BNU'', CHR ''F''), (''01)BS'', CHR ''F''), (''01)BS&'', CHR ''F''), (''01)BS;'', CHR ''F''),
      (''01)BSC'', CHR ''F''), (''01)BSK'', CHR ''F''), (''01)BSO'', CHR ''F''), (''01)BSU'', CHR ''F''),
      (''01)BV'', CHR ''F''), (''01)BV&'', CHR ''F''), (''01)BV;'', CHR ''F''), (''01)BVC'', CHR ''F''),
      (''01)BVK'', CHR ''F''), (''01)BVO'', CHR ''F''), (''01)BVU'', CHR ''F''), (''01)C'', CHR ''F''),
      (''01)E(1'', CHR ''F''), (''01)E(F'', CHR ''F''), (''01)E(N'', CHR ''F''), (''01)E(S'', CHR ''F''),
      (''01)E(V'', CHR ''F''), (''01)E1C'', CHR ''F''), (''01)E1O'', CHR ''F''), (''01)EF('', CHR ''F''),
      (''01)EK('', CHR ''F''), (''01)EK1'', CHR ''F''), (''01)EKF'', CHR ''F''), (''01)EKN'', CHR ''F''),
      (''01)EKS'', CHR ''F''), (''01)EKV'', CHR ''F''), (''01)ENC'', CHR ''F''), (''01)ENO'', CHR ''F''),
      (''01)ESC'', CHR ''F''), (''01)ESO'', CHR ''F''), (''01)EVC'', CHR ''F''), (''01)EVO'', CHR ''F''),
      (''01)F(F'', CHR ''F''), (''01)K(1'', CHR ''F''), (''01)K(F'', CHR ''F''), (''01)K(N'', CHR ''F''),
      (''01)K(S'', CHR ''F''), (''01)K(V'', CHR ''F''), (''01)K1&'', CHR ''F''), (''01)K1;'', CHR ''F''),
      (''01)K1B'', CHR ''F''), (''01)K1E'', CHR ''F''), (''01)K1O'', CHR ''F''), (''01)K1U'', CHR ''F''),
      (''01)KB('', CHR ''F''), (''01)KB1'', CHR ''F''), (''01)KBF'', CHR ''F''), (''01)KBN'', CHR ''F''),
      (''01)KBS'', CHR ''F''), (''01)KBV'', CHR ''F''), (''01)KF('', CHR ''F''), (''01)KN&'', CHR ''F''),
      (''01)KN;'', CHR ''F''), (''01)KNB'', CHR ''F''), (''01)KNC'', CHR ''F''), (''01)KNE'', CHR ''F''),
      (''01)KNK'', CHR ''F''), (''01)KNU'', CHR ''F''), (''01)KS&'', CHR ''F''), (''01)KS;'', CHR ''F''),
      (''01)KSB'', CHR ''F''), (''01)KSE'', CHR ''F''), (''01)KSO'', CHR ''F''), (''01)KSU'', CHR ''F''),
      (''01)KUE'', CHR ''F''), (''01)KV&'', CHR ''F''), (''01)KV;'', CHR ''F''), (''01)KVB'', CHR ''F''),
      (''01)KVE'', CHR ''F''), (''01)KVO'', CHR ''F'')]"

definition sql_keywords_5 :: "keyword list" where
  "sql_keywords_5 =
     [(''01)KVU'', CHR ''F''), (''01)O(1'', CHR ''F''), (''01)O(E'', CHR ''F''), (''01)O(F'', CHR ''F''),
      (''01)O(N'', CHR ''F''), (''01)O(S'', CHR ''F''), (''01)O(V'', CHR ''F''), (''01)O1'', CHR ''F''),
      (''01)O1&'', CHR ''F''), (''01)O1)'', CHR ''F''), (''01)O1;'', CHR ''F''), (''01)O1B'', CHR ''F''),
      (''01)O1C'', CHR ''F''), (''01)O1K'', CHR ''F''), (''01)O1U'', CHR ''F''), (''01)OF('', CHR ''F''),
      (''01)ON&'', CHR ''F''), (''01)ON)'', CHR ''F''), (''01)ON;'', CHR ''F''), (''01)ONB'', CHR ''F''),
      (''01)ONC'', CHR ''F''), (''01)ONK'', CHR ''F''), (''01)ONU'', CHR ''F''), (''01)OS'', CHR ''F''),
      (''01)OS&'', CHR ''F''), (''01)OS)'', CHR ''F''), (''01)OS;'', CHR ''F''), (''01)OSB'', CHR ''F''),
      (''01)OSC'', CHR ''F''), (''01)OSK'', CHR ''F''), (''01)OSU'', CHR ''F''), (''01)OV'', CHR ''F''),
      (''01)OV&'', CHR ''F''), (''01)OV)'', CHR ''F''), (''01)OV;'', CHR ''F''), (''01)OVB'', CHR ''F''),
      (''01)OVC'', CHR ''F''), (''01)OVK'', CHR ''F''), (''01)OVO'', CHR ''F''), (''01)OVU'', CHR ''F''),
      (''01)U(E'', CHR ''F''), (''01)UE('', CHR ''F''), (''01)UE1'', CHR ''F''), (''01)UEF'', CHR ''F''),
      (''01)UEK'', CHR ''F''), (''01)UEN'', CHR ''F''), (''01)UES'', CHR ''F''), (''01)UEV'', CHR ''F''),
      (''01,(1)'', CHR ''F''), (''01,(1O'', CHR ''F''), (''01,(E('', CHR ''F''), (''01,(E1'', CHR ''F''),
      (''01,(EF'', CHR ''F''), (''01,(EK'', CHR ''F''), (''01,(EN'', CHR ''F''), (''01,(ES'', CHR ''F''),
      (''01,(EV'', CHR ''F''), (''01,(F('', CHR ''F''), (''01,(N)'', CHR ''F''), (''01,(NO'', CHR ''F''),
      (''01,(S)'', CHR ''F''), (''01,(SO'', CHR ''F''), (''01,(V)'', CHR ''F''), (''01,(VO'', CHR ''F''),
      (''01,F()'', CHR ''F''), (''01,F(1'', CHR ''F''), (''01,F(F'', CHR ''F''), (''01,F(N'', CHR ''F''),
      (''01,F(S'', CHR ''F''), (''01,F(V'', CHR ''F''), (''01;E(1'', CHR ''F''), (''01;E(E'', CHR ''F''),
      (''01;E(F'', CHR ''F''), (''01;E(N'', CHR ''F''), (''01;E(S'', CHR ''F''), (''01;E(V'', CHR ''F''),
      (''01;E1,'', CHR ''F''), (''01;E1;'', CHR ''F''), (''01;E1C'', CHR ''F''), (''01;E1K'', CHR ''F''),
      (''01;E1O'', CHR ''F''), (''01;E1T'', CHR ''F''), (''01;EF('', CHR ''F''), (''01;EK('', CHR ''F''),
      (''01;EK1'', CHR ''F''), (''01;EKF'', CHR ''F''), (''01;EKN'', CHR ''F''), (''01;EKO'', CHR ''F''),
      (''01;EKS'', CHR ''F''), (''01;EKV'', CHR ''F''), (''01;EN,'', CHR ''F''), (''01;EN;'', CHR ''F''),
      (''01;ENC'', CHR ''F''), (''01;ENE'', CHR ''F''), (''01;ENK'', CHR ''F''), (''01;ENO'', CHR ''F''),
      (''01;ENT'', CHR ''F''), (''01;ES,'', CHR ''F''), (''01;ES;'', CHR ''F''), (''01;ESC'', CHR ''F''),
      (''01;ESK'', CHR ''F''), (''01;ESO'', CHR ''F''), (''01;EST'', CHR ''F''), (''01;EV,'', CHR ''F''),
      (''01;EV;'', CHR ''F''), (''01;EVC'', CHR ''F''), (''01;EVK'', CHR ''F''), (''01;EVO'', CHR ''F''),
      (''01;EVT'', CHR ''F''), (''01;N:T'', CHR ''F''), (''01;T(1'', CHR ''F''), (''01;T(C'', CHR ''F''),
      (''01;T(E'', CHR ''F''), (''01;T(F'', CHR ''F''), (''01;T(N'', CHR ''F''), (''01;T(S'', CHR ''F''),
      (''01;T(V'', CHR ''F''), (''01;T1('', CHR ''F''), (''01;T1,'', CHR ''F''), (''01;T1;'', CHR ''F''),
      (''01;T1C'', CHR ''F''), (''01;T1F'', CHR ''F''), (''01;T1K'', CHR ''F''), (''01;T1O'', CHR ''F''),
      (''01;T1T'', CHR ''F''), (''01;T;'', CHR ''F''), (''01;T;C'', CHR ''F''), (''01;TF('', CHR ''F''),
      (''01;TK('', CHR ''F''), (''01;TK1'', CHR ''F''), (''01;TKF'', CHR ''F''), (''01;TKK'', CHR ''F''),
      (''01;TKN'', CHR ''F''), (''01;TKO'', CHR ''F''), (''01;TKS'', CHR ''F''), (''01;TKV'', CHR ''F''),
      (''01;TN('', CHR ''F''), (''01;TN,'', CHR ''F''), (''01;TN1'', CHR ''F''), (''01;TN;'', CHR ''F''),
      (''01;TNC'', CHR ''F''), (''01;TNF'', CHR ''F''), (''01;TNK'', CHR ''F''), (''01;TNN'', CHR ''F''),
      (''01;TNO'', CHR ''F''), (''01;TNS'', CHR ''F''), (''01;TNT'', CHR ''F''), (''01;TNV'', CHR ''F''),
      (''01;TO('', CHR ''F''), (''01;TS('', CHR ''F'')]"

definition sql_keywords_6 :: "keyword list" where
  "sql_keywords_6 =
     [(''01;TS,'', CHR ''F''), (''01;TS;'', CHR ''F''), (''01;TSC'', CHR ''F''), (''01;TSF'', CHR ''F''),
      (''01;TSK'', CHR ''F''), (''01;TSO'', CHR ''F''), (''01;TST'', CHR ''F''), (''01;TTN'', CHR ''F''),
      (''01;TV('', CHR ''F''), (''01;TV,'', CHR ''F''), (''01;TV;'', CHR ''F''), (''01;TVC'', CHR ''F''),
      (''01;TVF'', CHR ''F''), (''01;TVK'', CHR ''F''), (''01;TVO'', CHR ''F''), (''01;TVT'', CHR ''F''),
      (''01A(F('', CHR ''F''), (''01A(N)'', CHR ''F''), (''01A(NO'', CHR ''F''), (''01A(S)'', CHR ''F''),
      (''01A(SO'', CHR ''F''), (''01A(V)'', CHR ''F''), (''01A(VO'', CHR ''F''), (''01AF()'', CHR ''F''),
      (''01AF(1'', CHR ''F''), (''01AF(F'', CHR ''F''), (''01AF(N'', CHR ''F''), (''01AF(S'', CHR ''F''),
      (''01AF(V'', CHR ''F''), (''01ASO('', CHR ''F''), (''01ASO1'', CHR ''F''), (''01ASOF'', CHR ''F''),
      (''01ASON'', CHR ''F''), (''01ASOS'', CHR ''F''), (''01ASOV'', CHR ''F''), (''01ASUE'', CHR ''F''),
      (''01ATO('', CHR ''F''), (''01ATO1'', CHR ''F''), (''01ATOF'', CHR ''F''), (''01ATON'', CHR ''F''),
      (''01ATOS'', CHR ''F''), (''01ATOV'', CHR ''F''), (''01ATUE'', CHR ''F''), (''01AVO('', CHR ''F''),
      (''01AVOF'', CHR ''F''), (''01AVOS'', CHR ''F''), (''01AVUE'', CHR ''F''), (''01B(1)'', CHR ''F''),
      (''01B(1O'', CHR ''F''), (''01B(F('', CHR ''F''), (''01B(NO'', CHR ''F''), (''01B(S)'', CHR ''F''),
      (''01B(SO'', CHR ''F''), (''01B(V)'', CHR ''F''), (''01B(VO'', CHR ''F''), (''01B1'', CHR ''F''),
      (''01B1&('', CHR ''F''), (''01B1&1'', CHR ''F''), (''01B1&F'', CHR ''F''), (''01B1&N'', CHR ''F''),
      (''01B1&S'', CHR ''F''), (''01B1&V'', CHR ''F''), (''01B1,('', CHR ''F''), (''01B1,F'', CHR ''F''),
      (''01B1;'', CHR ''F''), (''01B1;C'', CHR ''F''), (''01B1B('', CHR ''F''), (''01B1B1'', CHR ''F''),
      (''01B1BF'', CHR ''F''), (''01B1BN'', CHR ''F''), (''01B1BS'', CHR ''F''), (''01B1BV'', CHR ''F''),
      (''01B1C'', CHR ''F''), (''01B1K('', CHR ''F''), (''01B1K1'', CHR ''F''), (''01B1KF'', CHR ''F''),
      (''01B1KN'', CHR ''F''), (''01B1KS'', CHR ''F''), (''01B1KV'', CHR ''F''), (''01B1O('', CHR ''F''),
      (''01B1OF'', CHR ''F''), (''01B1OS'', CHR ''F''), (''01B1OV'', CHR ''F''), (''01B1U('', CHR ''F''),
      (''01B1UE'', CHR ''F''), (''01BE(1'', CHR ''F''), (''01BE(F'', CHR ''F''), (''01BE(N'', CHR ''F''),
      (''01BE(S'', CHR ''F''), (''01BE(V'', CHR ''F''), (''01BEK('', CHR ''F''), (''01BF()'', CHR ''F''),
      (''01BF(1'', CHR ''F''), (''01BF(F'', CHR ''F''), (''01BF(N'', CHR ''F''), (''01BF(S'', CHR ''F''),
      (''01BF(V'', CHR ''F''), (''01BN'', CHR ''F''), (''01BN&('', CHR ''F''), (''01BN&1'', CHR ''F''),
      (''01BN&F'', CHR ''F''), (''01BN&N'', CHR ''F''), (''01BN&S'', CHR ''F''), (''01BN&V'', CHR ''F''),
      (''01BN,('', CHR ''F''), (''01BN,F'', CHR ''F''), (''01BN;'', CHR ''F''), (''01BN;C'', CHR ''F''),
      (''01BNB('', CHR ''F''), (''01BNB1'', CHR ''F''), (''01BNBF'', CHR ''F''), (''01BNBN'', CHR ''F''),
      (''01BNBS'', CHR ''F''), (''01BNBV'', CHR ''F''), (''01BNC'', CHR ''F''), (''01BNK('', CHR ''F''),
      (''01BNK1'', CHR ''F''), (''01BNKF'', CHR ''F''), (''01BNKN'', CHR ''F''), (''01BNKS'', CHR ''F''),
      (''01BNKV'', CHR ''F''), (''01BNO('', CHR ''F''), (''01BNOF'', CHR ''F''), (''01BNOS'', CHR ''F''),
      (''01BNOV'', CHR ''F''), (''01BNU('', CHR ''F''), (''01BNUE'', CHR ''F''), (''01BS'', CHR ''F''),
      (''01BS&('', CHR ''F''), (''01BS&1'', CHR ''F''), (''01BS&F'', CHR ''F''), (''01BS&N'', CHR ''F''),
      (''01BS&S'', CHR ''F''), (''01BS&V'', CHR ''F''), (''01BS,('', CHR ''F''), (''01BS,F'', CHR ''F''),
      (''01BS;'', CHR ''F''), (''01BS;C'', CHR ''F''), (''01BSB('', CHR ''F''), (''01BSB1'', CHR ''F''),
      (''01BSBF'', CHR ''F''), (''01BSBN'', CHR ''F''), (''01BSBS'', CHR ''F''), (''01BSBV'', CHR ''F''),
      (''01BSC'', CHR ''F''), (''01BSK('', CHR ''F''), (''01BSK1'', CHR ''F''), (''01BSKF'', CHR ''F''),
      (''01BSKN'', CHR ''F''), (''01BSKS'', CHR ''F'')]"

definition sql_keywords_7 :: "keyword list" where
  "sql_keywords_7 =
     [(''01BSKV'', CHR ''F''), (''01BSO('', CHR ''F''), (''01BSO1'', CHR ''F''), (''01BSOF'', CHR ''F''),
      (''01BSON'', CHR ''F''), (''01BSOS'', CHR ''F''), (''01BSOV'', CHR ''F''), (''01BSU('', CHR ''F''),
      (''01BSUE'', CHR ''F''), (''01BV'', CHR ''F''), (''01BV&('', CHR ''F''), (''01BV&1'', CHR ''F''),
      (''01BV&F'', CHR ''F''), (''01BV&N'', CHR ''F''), (''01BV&S'', CHR ''F''), (''01BV&V'', CHR ''F''),
      (''01BV,('', CHR ''F''), (''01BV,F'', CHR ''F''), (''01BV;'', CHR ''F''), (''01BV;C'', CHR ''F''),
      (''01BVB('', CHR ''F''), (''01BVB1'', CHR ''F''), (''01BVBF'', CHR ''F''), (''01BVBN'', CHR ''F''),
      (''01BVBS'', CHR ''F''), (''01BVBV'', CHR ''F''), (''01BVC'', CHR ''F''), (''01BVK('', CHR ''F''),
      (''01BVK1'', CHR ''F''), (''01BVKF'', CHR ''F''), (''01BVKN'', CHR ''F''), (''01BVKS'', CHR ''F''),
      (''01BVKV'', CHR ''F''), (''01BVO('', CHR ''F''), (''01BVOF'', CHR ''F''), (''01BVOS'', CHR ''F''),
      (''01BVU('', CHR ''F''), (''01BVUE'', CHR ''F''), (''01C'', CHR ''F''), (''01E(1)'', CHR ''F''),
      (''01E(1O'', CHR ''F''), (''01E(F('', CHR ''F''), (''01E(N)'', CHR ''F''), (''01E(NO'', CHR ''F''),
      (''01E(S)'', CHR ''F''), (''01E(SO'', CHR ''F''), (''01E(V)'', CHR ''F''), (''01E(VO'', CHR ''F''),
      (''01E1;T'', CHR ''F''), (''01E1C'', CHR ''F''), (''01E1O('', CHR ''F''), (''01E1OF'', CHR ''F''),
      (''01E1OS'', CHR ''F''), (''01E1OV'', CHR ''F''), (''01E1T('', CHR ''F''), (''01E1T1'', CHR ''F''),
      (''01E1TF'', CHR ''F''), (''01E1TN'', CHR ''F''), (''01E1TS'', CHR ''F''), (''01E1TV'', CHR ''F''),
      (''01E1UE'', CHR ''F''), (''01EF()'', CHR ''F''), (''01EF(1'', CHR ''F''), (''01EF(F'', CHR ''F''),
      (''01EF(N'', CHR ''F''), (''01EF(S'', CHR ''F''), (''01EF(V'', CHR ''F''), (''01EK(1'', CHR ''F''),
      (''01EK(E'', CHR ''F''), (''01EK(F'', CHR ''F''), (''01EK(N'', CHR ''F''), (''01EK(S'', CHR ''F''),
      (''01EK(V'', CHR ''F''), (''01EK1;'', CHR ''F''), (''01EK1C'', CHR ''F''), (''01EK1O'', CHR ''F''),
      (''01EK1T'', CHR ''F''), (''01EK1U'', CHR ''F''), (''01EKF('', CHR ''F''), (''01EKN;'', CHR ''F''),
      (''01EKNC'', CHR ''F''), (''01EKNE'', CHR ''F''), (''01EKNT'', CHR ''F''), (''01EKNU'', CHR ''F''),
      (''01EKOK'', CHR ''F''), (''01EKS;'', CHR ''F''), (''01EKSC'', CHR ''F''), (''01EKSO'', CHR ''F''),
      (''01EKST'', CHR ''F''), (''01EKSU'', CHR ''F''), (''01EKU('', CHR ''F''), (''01EKU1'', CHR ''F''),
      (''01EKUE'', CHR ''F''), (''01EKUF'', CHR ''F''), (''01EKUS'', CHR ''F''), (''01EKUV'', CHR ''F''),
      (''01EKV;'', CHR ''F''), (''01EKVC'', CHR ''F''), (''01EKVO'', CHR ''F''), (''01EKVT'', CHR ''F''),
      (''01EKVU'', CHR ''F''), (''01EN;T'', CHR ''F''), (''01ENC'', CHR ''F''), (''01ENEN'', CHR ''F''),
      (''01ENO('', CHR ''F''), (''01ENOF'', CHR ''F''), (''01ENOS'', CHR ''F''), (''01ENOV'', CHR ''F''),
      (''01ENT('', CHR ''F''), (''01ENT1'', CHR ''F''), (''01ENTF'', CHR ''F''), (''01ENTN'', CHR ''F''),
      (''01ENTS'', CHR ''F''), (''01ENTV'', CHR ''F''), (''01ENUE'', CHR ''F''), (''01EOKN'', CHR ''F''),
      (''01ES;T'', CHR ''F''), (''01ESC'', CHR ''F''), (''01ESO('', CHR ''F''), (''01ESO1'', CHR ''F''),
      (''01ESOF'', CHR ''F''), (''01ESON'', CHR ''F''), (''01ESOS'', CHR ''F''), (''01ESOV'', CHR ''F''),
      (''01EST('', CHR ''F''), (''01EST1'', CHR ''F''), (''01ESTF'', CHR ''F''), (''01ESTN'', CHR ''F''),
      (''01ESTS'', CHR ''F''), (''01ESTV'', CHR ''F''), (''01ESUE'', CHR ''F''), (''01EU(1'', CHR ''F''),
      (''01EU(F'', CHR ''F''), (''01EU(N'', CHR ''F''), (''01EU(S'', CHR ''F''), (''01EU(V'', CHR ''F''),
      (''01EU1,'', CHR ''F''), (''01EU1C'', CHR ''F''), (''01EU1O'', CHR ''F''), (''01EUEF'', CHR ''F''),
      (''01EUEK'', CHR ''F''), (''01EUF('', CHR ''F''), (''01EUS,'', CHR ''F''), (''01EUSC'', CHR ''F''),
      (''01EUSO'', CHR ''F''), (''01EUV,'', CHR ''F''), (''01EUVC'', CHR ''F''), (''01EUVO'', CHR ''F''),
      (''01EV;T'', CHR ''F''), (''01EVC'', CHR ''F'')]"

definition sql_keywords_8 :: "keyword list" where
  "sql_keywords_8 =
     [(''01EVO('', CHR ''F''), (''01EVOF'', CHR ''F''), (''01EVOS'', CHR ''F''), (''01EVT('', CHR ''F''),
      (''01EVT1'', CHR ''F''), (''01EVTF'', CHR ''F''), (''01EVTN'', CHR ''F''), (''01EVTS'', CHR ''F''),
      (''01EVTV'', CHR ''F''), (''01EVUE'', CHR ''F''), (''01F()1'', CHR ''F''), (''01F()F'', CHR ''F''),
      (''01F()K'', CHR ''F''), (''01F()N'', CHR ''F''), (''01F()O'', CHR ''F''), (''01F()S'', CHR ''F''),
      (''01F()U'', CHR ''F''), (''01F()V'', CHR ''F''), (''01F(1)'', CHR ''F''), (''01F(1N'', CHR ''F''),
      (''01F(1O'', CHR ''F''), (''01F(E('', CHR ''F''), (''01F(E1'', CHR ''F''), (''01F(EF'', CHR ''F''),
      (''01F(EK'', CHR ''F''), (''01F(EN'', CHR ''F''), (''01F(ES'', CHR ''F''), (''01F(EV'', CHR ''F''),
      (''01F(F('', CHR ''F''), (''01F(N)'', CHR ''F''), (''01F(N,'', CHR ''F''), (''01F(NO'', CHR ''F''),
      (''01F(S)'', CHR ''F''), (''01F(SO'', CHR ''F''), (''01F(V)'', CHR ''F''), (''01F(VO'', CHR ''F''),
      (''01K(1O'', CHR ''F''), (''01K(F('', CHR ''F''), (''01K(N)'', CHR ''F''), (''01K(NO'', CHR ''F''),
      (''01K(S)'', CHR ''F''), (''01K(SO'', CHR ''F''), (''01K(V)'', CHR ''F''), (''01K(VO'', CHR ''F''),
      (''01K)&('', CHR ''F''), (''01K)&1'', CHR ''F''), (''01K)&F'', CHR ''F''), (''01K)&N'', CHR ''F''),
      (''01K)&S'', CHR ''F''), (''01K)&V'', CHR ''F''), (''01K);E'', CHR ''F''), (''01K);T'', CHR ''F''),
      (''01K)B('', CHR ''F''), (''01K)B1'', CHR ''F''), (''01K)BF'', CHR ''F''), (''01K)BN'', CHR ''F''),
      (''01K)BS'', CHR ''F''), (''01K)BV'', CHR ''F''), (''01K)E('', CHR ''F''), (''01K)E1'', CHR ''F''),
      (''01K)EF'', CHR ''F''), (''01K)EK'', CHR ''F''), (''01K)EN'', CHR ''F''), (''01K)ES'', CHR ''F''),
      (''01K)EV'', CHR ''F''), (''01K)F('', CHR ''F''), (''01K)O('', CHR ''F''), (''01K)OF'', CHR ''F''),
      (''01K)UE'', CHR ''F''), (''01K1'', CHR ''F''), (''01K1&('', CHR ''F''), (''01K1&1'', CHR ''F''),
      (''01K1&F'', CHR ''F''), (''01K1&N'', CHR ''F''), (''01K1&S'', CHR ''F''), (''01K1&V'', CHR ''F''),
      (''01K1;'', CHR ''F''), (''01K1;C'', CHR ''F''), (''01K1;E'', CHR ''F''), (''01K1;T'', CHR ''F''),
      (''01K1B('', CHR ''F''), (''01K1B1'', CHR ''F''), (''01K1BF'', CHR ''F''), (''01K1BN'', CHR ''F''),
      (''01K1BS'', CHR ''F''), (''01K1BV'', CHR ''F''), (''01K1C'', CHR ''F''), (''01K1E('', CHR ''F''),
      (''01K1E1'', CHR ''F''), (''01K1EF'', CHR ''F''), (''01K1EK'', CHR ''F''), (''01K1EN'', CHR ''F''),
      (''01K1ES'', CHR ''F''), (''01K1EV'', CHR ''F''), (''01K1O('', CHR ''F''), (''01K1OF'', CHR ''F''),
      (''01K1OS'', CHR ''F''), (''01K1OV'', CHR ''F''), (''01K1U('', CHR ''F''), (''01K1UE'', CHR ''F''),
      (''01KF()'', CHR ''F''), (''01KF(1'', CHR ''F''), (''01KF(F'', CHR ''F''), (''01KF(N'', CHR ''F''),
      (''01KF(S'', CHR ''F''), (''01KF(V'', CHR ''F''), (''01KN'', CHR ''F''), (''01KN&('', CHR ''F''),
      (''01KN&1'', CHR ''F''), (''01KN&F'', CHR ''F''), (''01KN&N'', CHR ''F''), (''01KN&S'', CHR ''F''),
      (''01KN&V'', CHR ''F''), (''01KN;'', CHR ''F''), (''01KN;C'', CHR ''F''), (''01KN;E'', CHR ''F''),
      (''01KN;T'', CHR ''F''), (''01KNB('', CHR ''F''), (''01KNB1'', CHR ''F''), (''01KNBF'', CHR ''F''),
      (''01KNBN'', CHR ''F''), (''01KNBS'', CHR ''F''), (''01KNBV'', CHR ''F''), (''01KNC'', CHR ''F''),
      (''01KNE('', CHR ''F''), (''01KNE1'', CHR ''F''), (''01KNEF'', CHR ''F''), (''01KNEN'', CHR ''F''),
      (''01KNES'', CHR ''F''), (''01KNEV'', CHR ''F''), (''01KNU('', CHR ''F''), (''01KNUE'', CHR ''F''),
      (''01KS'', CHR ''F''), (''01KS&('', CHR ''F''), (''01KS&1'', CHR ''F''), (''01KS&F'', CHR ''F''),
      (''01KS&N'', CHR ''F''), (''01KS&S'', CHR ''F''), (''01KS&V'', CHR ''F''), (''01KS;'', CHR ''F''),
      (''01KS;C'', CHR ''F''), (''01KS;E'', CHR ''F''), (''01KS;T'', CHR ''F''), (''01KSB('', CHR ''F''),
      (''01KSB1'', CHR ''F''), (''01KSBF'', CHR ''F''), (''01KSBN'', CHR ''F''), (''01KSBS'', CHR ''F''),
      (''01KSBV'', CHR ''F''), (''01KSC'', CHR ''F'')]"

definition sql_keywords_9 :: "keyword list" where
  "sql_keywords_9 =
     [(''01KSE('', CHR ''F''), (''01KSE1'', CHR ''F''), (''01KSEF'', CHR ''F''), (''01KSEK'', CHR ''F''),
      (''01KSEN'', CHR ''F''), (''01KSES'', CHR ''F''), (''01KSEV'', CHR ''F''), (''01KSO('', CHR ''F''),
      (''01KSO1'', CHR ''F''), (''01KSOF'', CHR ''F''), (''01KSON'', CHR ''F''), (''01KSOS'', CHR ''F''),
      (''01KSOV'', CHR ''F''), (''01KSU('', CHR ''F''), (''01KSUE'', CHR ''F''), (''01KUE('', CHR ''F''),
      (''01KUE1'', CHR ''F''), (''01KUEF'', CHR ''F''), (''01KUEK'', CHR ''F''), (''01KUEN'', CHR ''F''),
      (''01KUES'', CHR ''F''), (''01KUEV'', CHR ''F''), (''01KV'', CHR ''F''), (''01KV&('', CHR ''F''),
      (''01KV&1'', CHR ''F''), (''01KV&F'', CHR ''F''), (''01KV&N'', CHR ''F''), (''01KV&S'', CHR ''F''),
      (''01KV&V'', CHR ''F''), (''01KV;'', CHR ''F''), (''01KV;C'', CHR ''F''), (''01KV;E'', CHR ''F''),
      (''01KV;T'', CHR ''F''), (''01KVB('', CHR ''F''), (''01KVB1'', CHR ''F''), (''01KVBF'', CHR ''F''),
      (''01KVBN'', CHR ''F''), (''01KVBS'', CHR ''F''), (''01KVBV'', CHR ''F''), (''01KVC'', CHR ''F''),
      (''01KVE('', CHR ''F''), (''01KVE1'', CHR ''F''), (''01KVEF'', CHR ''F''), (''01KVEK'', CHR ''F''),
      (''01KVEN'', CHR ''F''), (''01KVES'', CHR ''F''), (''01KVEV'', CHR ''F''), (''01KVO('', CHR ''F''),
      (''01KVOF'', CHR ''F''), (''01KVOS'', CHR ''F''), (''01KVU('', CHR ''F''), (''01KVUE'', CHR ''F''),
      (''01N&F('', CHR ''F''), (''01N(1O'', CHR ''F''), (''01N(F('', CHR ''F''), (''01N(S)'', CHR ''F''),
      (''01N(SO'', CHR ''F''), (''01N(V)'', CHR ''F''), (''01N(VO'', CHR ''F''), (''01N)UE'', CHR ''F''),
      (''01N,F('', CHR ''F''), (''01NE(1'', CHR ''F''), (''01NE(F'', CHR ''F''), (''01NE(N'', CHR ''F''),
      (''01NE(S'', CHR ''F''), (''01NE(V'', CHR ''F''), (''01NE1C'', CHR ''F''), (''01NE1O'', CHR ''F''),
      (''01NEF('', CHR ''F''), (''01NENC'', CHR ''F''), (''01NENO'', CHR ''F''), (''01NESC'', CHR ''F''),
      (''01NESO'', CHR ''F''), (''01NEVC'', CHR ''F''), (''01NEVO'', CHR ''F''), (''01NU(E'', CHR ''F''),
      (''01NUE'', CHR ''F''), (''01NUE('', CHR ''F''), (''01NUE1'', CHR ''F''), (''01NUE;'', CHR ''F''),
      (''01NUEC'', CHR ''F''), (''01NUEF'', CHR ''F''), (''01NUEK'', CHR ''F''), (''01NUEN'', CHR ''F''),
      (''01NUES'', CHR ''F''), (''01NUEV'', CHR ''F''), (''01O(1&'', CHR ''F''), (''01O(1)'', CHR ''F''),
      (''01O(1,'', CHR ''F''), (''01O(1O'', CHR ''F''), (''01O(E('', CHR ''F''), (''01O(E1'', CHR ''F''),
      (''01O(EE'', CHR ''F''), (''01O(EF'', CHR ''F''), (''01O(EK'', CHR ''F''), (''01O(EN'', CHR ''F''),
      (''01O(EO'', CHR ''F''), (''01O(ES'', CHR ''F''), (''01O(EV'', CHR ''F''), (''01O(F('', CHR ''F''),
      (''01O(N&'', CHR ''F''), (''01O(N)'', CHR ''F''), (''01O(N,'', CHR ''F''), (''01O(NO'', CHR ''F''),
      (''01O(S&'', CHR ''F''), (''01O(S)'', CHR ''F''), (''01O(S,'', CHR ''F''), (''01O(SO'', CHR ''F''),
      (''01O(V&'', CHR ''F''), (''01O(V)'', CHR ''F''), (''01O(V,'', CHR ''F''), (''01O(VO'', CHR ''F''),
      (''01OF()'', CHR ''F''), (''01OF(1'', CHR ''F''), (''01OF(E'', CHR ''F''), (''01OF(F'', CHR ''F''),
      (''01OF(N'', CHR ''F''), (''01OF(S'', CHR ''F''), (''01OF(V'', CHR ''F''), (''01OK&('', CHR ''F''),
      (''01OK&1'', CHR ''F''), (''01OK&F'', CHR ''F''), (''01OK&N'', CHR ''F''), (''01OK&S'', CHR ''F''),
      (''01OK&V'', CHR ''F''), (''01OK(1'', CHR ''F''), (''01OK(F'', CHR ''F''), (''01OK(N'', CHR ''F''),
      (''01OK(S'', CHR ''F''), (''01OK(V'', CHR ''F''), (''01OK1C'', CHR ''F''), (''01OK1O'', CHR ''F''),
      (''01OKF('', CHR ''F''), (''01OKNC'', CHR ''F''), (''01OKO('', CHR ''F''), (''01OKO1'', CHR ''F''),
      (''01OKOF'', CHR ''F''), (''01OKON'', CHR ''F''), (''01OKOS'', CHR ''F''), (''01OKOV'', CHR ''F''),
      (''01OKSC'', CHR ''F''), (''01OKSO'', CHR ''F''), (''01OKVC'', CHR ''F''), (''01OKVO'', CHR ''F''),
      (''01ONSU'', CHR ''F''), (''01OS&('', CHR ''F''), (''01OS&1'', CHR ''F''), (''01OS&E'', CHR ''F''),
      (''01OS&F'', CHR ''F''), (''01OS&K'', CHR ''F'')]"

definition sql_keywords_10 :: "keyword list" where
  "sql_keywords_10 =
     [(''01OS&N'', CHR ''F''), (''01OS&S'', CHR ''F''), (''01OS&U'', CHR ''F''), (''01OS&V'', CHR ''F''),
      (''01OS(E'', CHR ''F''), (''01OS(U'', CHR ''F''), (''01OS)&'', CHR ''F''), (''01OS),'', CHR ''F''),
      (''01OS);'', CHR ''F''), (''01OS)B'', CHR ''F''), (''01OS)C'', CHR ''F''), (''01OS)E'', CHR ''F''),
      (''01OS)F'', CHR ''F''), (''01OS)K'', CHR ''F''), (''01OS)O'', CHR ''F''), (''01OS)U'', CHR ''F''),
      (''01OS,('', CHR ''F''), (''01OS,F'', CHR ''F''), (''01OS1('', CHR ''F''), (''01OS1F'', CHR ''F''),
      (''01OS1N'', CHR ''F''), (''01OS1S'', CHR ''F''), (''01OS1U'', CHR ''F''), (''01OS1V'', CHR ''F''),
      (''01OS;'', CHR ''F''), (''01OS;C'', CHR ''F''), (''01OS;E'', CHR ''F''), (''01OS;N'', CHR ''F''),
      (''01OS;T'', CHR ''F''), (''01OSA('', CHR ''F''), (''01OSAF'', CHR ''F''), (''01OSAS'', CHR ''F''),
      (''01OSAT'', CHR ''F''), (''01OSAV'', CHR ''F''), (''01OSB('', CHR ''F''), (''01OSB1'', CHR ''F''),
      (''01OSBE'', CHR ''F''), (''01OSBF'', CHR ''F''), (''01OSBN'', CHR ''F''), (''01OSBS'', CHR ''F''),
      (''01OSBV'', CHR ''F''), (''01OSC'', CHR ''F''), (''01OSE('', CHR ''F''), (''01OSE1'', CHR ''F''),
      (''01OSEF'', CHR ''F''), (''01OSEK'', CHR ''F''), (''01OSEN'', CHR ''F''), (''01OSEO'', CHR ''F''),
      (''01OSES'', CHR ''F''), (''01OSEU'', CHR ''F''), (''01OSEV'', CHR ''F''), (''01OSF('', CHR ''F''),
      (''01OSK('', CHR ''F''), (''01OSK)'', CHR ''F''), (''01OSK1'', CHR ''F''), (''01OSKB'', CHR ''F''),
      (''01OSKF'', CHR ''F''), (''01OSKN'', CHR ''F''), (''01OSKS'', CHR ''F''), (''01OSKU'', CHR ''F''),
      (''01OSKV'', CHR ''F''), (''01OST('', CHR ''F''), (''01OST1'', CHR ''F''), (''01OSTE'', CHR ''F''),
      (''01OSTF'', CHR ''F''), (''01OSTN'', CHR ''F''), (''01OSTS'', CHR ''F''), (''01OSTT'', CHR ''F''),
      (''01OSTV'', CHR ''F''), (''01OSU'', CHR ''F''), (''01OSU('', CHR ''F''), (''01OSU1'', CHR ''F''),
      (''01OSU;'', CHR ''F''), (''01OSUC'', CHR ''F''), (''01OSUE'', CHR ''F''), (''01OSUF'', CHR ''F''),
      (''01OSUK'', CHR ''F''), (''01OSUO'', CHR ''F''), (''01OSUS'', CHR ''F''), (''01OSUT'', CHR ''F''),
      (''01OSUV'', CHR ''F''), (''01OSV('', CHR ''F''), (''01OSVF'', CHR ''F''), (''01OSVO'', CHR ''F''),
      (''01OSVS'', CHR ''F''), (''01OSVU'', CHR ''F''), (''01OU(E'', CHR ''F''), (''01OUEK'', CHR ''F''),
      (''01OUEN'', CHR ''F''), (''01OV'', CHR ''F''), (''01OV&('', CHR ''F''), (''01OV&1'', CHR ''F''),
      (''01OV&E'', CHR ''F''), (''01OV&F'', CHR ''F''), (''01OV&K'', CHR ''F''), (''01OV&N'', CHR ''F''),
      (''01OV&S'', CHR ''F''), (''01OV&U'', CHR ''F''), (''01OV&V'', CHR ''F''), (''01OV(E'', CHR ''F''),
      (''01OV(U'', CHR ''F''), (''01OV)&'', CHR ''F''), (''01OV),'', CHR ''F''), (''01OV);'', CHR ''F''),
      (''01OV)B'', CHR ''F''), (''01OV)C'', CHR ''F''), (''01OV)E'', CHR ''F''), (''01OV)F'', CHR ''F''),
      (''01OV)K'', CHR ''F''), (''01OV)O'', CHR ''F''), (''01OV)U'', CHR ''F''), (''01OV,('', CHR ''F''),
      (''01OV,F'', CHR ''F''), (''01OV;'', CHR ''F''), (''01OV;C'', CHR ''F''), (''01OV;E'', CHR ''F''),
      (''01OV;N'', CHR ''F''), (''01OV;T'', CHR ''F''), (''01OVA('', CHR ''F''), (''01OVAF'', CHR ''F''),
      (''01OVAS'', CHR ''F''), (''01OVAT'', CHR ''F''), (''01OVAV'', CHR ''F''), (''01OVB('', CHR ''F''),
      (''01OVB1'', CHR ''F''), (''01OVBE'', CHR ''F''), (''01OVBF'', CHR ''F''), (''01OVBN'', CHR ''F''),
      (''01OVBS'', CHR ''F''), (''01OVBV'', CHR ''F''), (''01OVC'', CHR ''F''), (''01OVE('', CHR ''F''),
      (''01OVE1'', CHR ''F''), (''01OVEF'', CHR ''F''), (''01OVEK'', CHR ''F''), (''01OVEN'', CHR ''F''),
      (''01OVEO'', CHR ''F''), (''01OVES'', CHR ''F''), (''01OVEU'', CHR ''F''), (''01OVEV'', CHR ''F''),
      (''01OVF('', CHR ''F''), (''01OVK('', CHR ''F''), (''01OVK)'', CHR ''F''), (''01OVK1'', CHR ''F''),
      (''01OVKB'', CHR ''F''), (''01OVKF'', CHR ''F''), (''01OVKN'', CHR ''F''), (''01OVKS'', CHR ''F''),
      (''01OVKU'', CHR ''F''), (''01OVKV'', CHR ''F'')]"

definition sql_keywords_11 :: "keyword list" where
  "sql_keywords_11 =
     [(''01OVO('', CHR ''F''), (''01OVOF'', CHR ''F''), (''01OVOK'', CHR ''F''), (''01OVOS'', CHR ''F''),
      (''01OVOU'', CHR ''F''), (''01OVS('', CHR ''F''), (''01OVS1'', CHR ''F''), (''01OVSF'', CHR ''F''),
      (''01OVSO'', CHR ''F''), (''01OVSU'', CHR ''F''), (''01OVSV'', CHR ''F''), (''01OVT('', CHR ''F''),
      (''01OVT1'', CHR ''F''), (''01OVTE'', CHR ''F''), (''01OVTF'', CHR ''F''), (''01OVTN'', CHR ''F''),
      (''01OVTS'', CHR ''F''), (''01OVTT'', CHR ''F''), (''01OVTV'', CHR ''F''), (''01OVU'', CHR ''F''),
      (''01OVU('', CHR ''F''), (''01OVU1'', CHR ''F''), (''01OVU;'', CHR ''F''), (''01OVUC'', CHR ''F''),
      (''01OVUE'', CHR ''F''), (''01OVUF'', CHR ''F''), (''01OVUK'', CHR ''F''), (''01OVUO'', CHR ''F''),
      (''01OVUS'', CHR ''F''), (''01OVUT'', CHR ''F''), (''01OVUV'', CHR ''F''), (''01SF()'', CHR ''F''),
      (''01SF(1'', CHR ''F''), (''01SF(F'', CHR ''F''), (''01SF(N'', CHR ''F''), (''01SF(S'', CHR ''F''),
      (''01SF(V'', CHR ''F''), (''01SUE'', CHR ''F''), (''01SUE;'', CHR ''F''), (''01SUEC'', CHR ''F''),
      (''01SUEK'', CHR ''F''), (''01SV'', CHR ''F''), (''01SV;'', CHR ''F''), (''01SV;C'', CHR ''F''),
      (''01SVC'', CHR ''F''), (''01SVO('', CHR ''F''), (''01SVOF'', CHR ''F''), (''01SVOS'', CHR ''F''),
      (''01T(1)'', CHR ''F''), (''01T(1O'', CHR ''F''), (''01T(F('', CHR ''F''), (''01T(N)'', CHR ''F''),
      (''01T(NO'', CHR ''F''), (''01T(S)'', CHR ''F''), (''01T(SO'', CHR ''F''), (''01T(V)'', CHR ''F''),
      (''01T(VO'', CHR ''F''), (''01T1(F'', CHR ''F''), (''01T1O('', CHR ''F''), (''01T1OF'', CHR ''F''),
      (''01T1OS'', CHR ''F''), (''01T1OV'', CHR ''F''), (''01TE(1'', CHR ''F''), (''01TE(F'', CHR ''F''),
      (''01TE(N'', CHR ''F''), (''01TE(S'', CHR ''F''), (''01TE(V'', CHR ''F''), (''01TE1N'', CHR ''F''),
      (''01TE1O'', CHR ''F''), (''01TEF('', CHR ''F''), (''01TEK('', CHR ''F''), (''01TEK1'', CHR ''F''),
      (''01TEKF'', CHR ''F''), (''01TEKN'', CHR ''F''), (''01TEKS'', CHR ''F''), (''01TEKV'', CHR ''F''),
      (''01TENN'', CHR ''F''), (''01TENO'', CHR ''F''), (''01TESN'', CHR ''F''), (''01TESO'', CHR ''F''),
      (''01TEVN'', CHR ''F''), (''01TEVO'', CHR ''F''), (''01TF()'', CHR ''F''), (''01TF(1'', CHR ''F''),
      (''01TF(F'', CHR ''F''), (''01TF(N'', CHR ''F''), (''01TF(S'', CHR ''F''), (''01TF(V'', CHR ''F''),
      (''01TN(1'', CHR ''F''), (''01TN(F'', CHR ''F''), (''01TN(S'', CHR ''F''), (''01TN(V'', CHR ''F''),
      (''01TN1C'', CHR ''F''), (''01TN1O'', CHR ''F''), (''01TN;E'', CHR ''F''), (''01TN;N'', CHR ''F''),
      (''01TN;T'', CHR ''F''), (''01TNE('', CHR ''F''), (''01TNE1'', CHR ''F''), (''01TNEF'', CHR ''F''),
      (''01TNEN'', CHR ''F''), (''01TNES'', CHR ''F''), (''01TNEV'', CHR ''F''), (''01TNF('', CHR ''F''),
      (''01TNKN'', CHR ''F''), (''01TNN:'', CHR ''F''), (''01TNNC'', CHR ''F''), (''01TNNO'', CHR ''F''),
      (''01TNO('', CHR ''F''), (''01TNOF'', CHR ''F''), (''01TNOS'', CHR ''F''), (''01TNOV'', CHR ''F''),
      (''01TNSC'', CHR ''F''), (''01TNSO'', CHR ''F''), (''01TNT('', CHR ''F''), (''01TNT1'', CHR ''F''),
      (''01TNTF'', CHR ''F''), (''01TNTN'', CHR ''F''), (''01TNTS'', CHR ''F''), (''01TNTV'', CHR ''F''),
      (''01TNVC'', CHR ''F''), (''01TNVO'', CHR ''F''), (''01TS(F'', CHR ''F''), (''01TSO('', CHR ''F''),
      (''01TSO1'', CHR ''F''), (''01TSOF'', CHR ''F''), (''01TSON'', CHR ''F''), (''01TSOS'', CHR ''F''),
      (''01TSOV'', CHR ''F''), (''01TTNE'', CHR ''F''), (''01TTNK'', CHR ''F''), (''01TTNN'', CHR ''F''),
      (''01TTNT'', CHR ''F''), (''01TV(1'', CHR ''F''), (''01TV(F'', CHR ''F''), (''01TVO('', CHR ''F''),
      (''01TVOF'', CHR ''F''), (''01TVOS'', CHR ''F''), (''01U'', CHR ''F''), (''01U(1)'', CHR ''F''),
      (''01U(1O'', CHR ''F''), (''01U(E('', CHR ''F''), (''01U(E1'', CHR ''F''), (''01U(EF'', CHR ''F''),
      (''01U(EK'', CHR ''F''), (''01U(EN'', CHR ''F''), (''01U(ES'', CHR ''F''), (''01U(EV'', CHR ''F''),
      (''01U(F('', CHR ''F''), (''01U(N)'', CHR ''F'')]"

definition sql_keywords_12 :: "keyword list" where
  "sql_keywords_12 =
     [(''01U(NO'', CHR ''F''), (''01U(S)'', CHR ''F''), (''01U(SO'', CHR ''F''), (''01U(V)'', CHR ''F''),
      (''01U(VO'', CHR ''F''), (''01U1,('', CHR ''F''), (''01U1,F'', CHR ''F''), (''01U1C'', CHR ''F''),
      (''01U1O('', CHR ''F''), (''01U1OF'', CHR ''F''), (''01U1OS'', CHR ''F''), (''01U1OV'', CHR ''F''),
      (''01U;'', CHR ''F''), (''01U;C'', CHR ''F''), (''01UC'', CHR ''F''), (''01UE'', CHR ''F''),
      (''01UE(1'', CHR ''F''), (''01UE(E'', CHR ''F''), (''01UE(F'', CHR ''F''), (''01UE(N'', CHR ''F''),
      (''01UE(O'', CHR ''F''), (''01UE(S'', CHR ''F''), (''01UE(V'', CHR ''F''), (''01UE1'', CHR ''F''),
      (''01UE1&'', CHR ''F''), (''01UE1('', CHR ''F''), (''01UE1)'', CHR ''F''), (''01UE1,'', CHR ''F''),
      (''01UE1;'', CHR ''F''), (''01UE1B'', CHR ''F''), (''01UE1C'', CHR ''F''), (''01UE1F'', CHR ''F''),
      (''01UE1K'', CHR ''F''), (''01UE1N'', CHR ''F''), (''01UE1O'', CHR ''F''), (''01UE1S'', CHR ''F''),
      (''01UE1U'', CHR ''F''), (''01UE1V'', CHR ''F''), (''01UE;'', CHR ''F''), (''01UE;C'', CHR ''F''),
      (''01UEC'', CHR ''F''), (''01UEF'', CHR ''F''), (''01UEF('', CHR ''F''), (''01UEF,'', CHR ''F''),
      (''01UEF;'', CHR ''F''), (''01UEFC'', CHR ''F''), (''01UEK'', CHR ''F''), (''01UEK('', CHR ''F''),
      (''01UEK1'', CHR ''F''), (''01UEK;'', CHR ''F''), (''01UEKC'', CHR ''F''), (''01UEKF'', CHR ''F''),
      (''01UEKN'', CHR ''F''), (''01UEKO'', CHR ''F''), (''01UEKS'', CHR ''F''), (''01UEKV'', CHR ''F''),
      (''01UEN'', CHR ''F''), (''01UEN&'', CHR ''F''), (''01UEN('', CHR ''F''), (''01UEN)'', CHR ''F''),
      (''01UEN,'', CHR ''F''), (''01UEN1'', CHR ''F''), (''01UEN;'', CHR ''F''), (''01UENB'', CHR ''F''),
      (''01UENC'', CHR ''F''), (''01UENF'', CHR ''F''), (''01UENK'', CHR ''F''), (''01UENN'', CHR ''F''),
      (''01UENO'', CHR ''F''), (''01UENS'', CHR ''F''), (''01UENU'', CHR ''F''), (''01UEOK'', CHR ''F''),
      (''01UEON'', CHR ''F''), (''01UES'', CHR ''F''), (''01UES&'', CHR ''F''), (''01UES('', CHR ''F''),
      (''01UES)'', CHR ''F''), (''01UES,'', CHR ''F''), (''01UES1'', CHR ''F''), (''01UES;'', CHR ''F''),
      (''01UESB'', CHR ''F''), (''01UESC'', CHR ''F''), (''01UESF'', CHR ''F''), (''01UESK'', CHR ''F''),
      (''01UESO'', CHR ''F''), (''01UESU'', CHR ''F''), (''01UESV'', CHR ''F''), (''01UEV'', CHR ''F''),
      (''01UEV&'', CHR ''F''), (''01UEV('', CHR ''F''), (''01UEV)'', CHR ''F''), (''01UEV,'', CHR ''F''),
      (''01UEV;'', CHR ''F''), (''01UEVB'', CHR ''F''), (''01UEVC'', CHR ''F''), (''01UEVF'', CHR ''F''),
      (''01UEVK'', CHR ''F''), (''01UEVN'', CHR ''F''), (''01UEVO'', CHR ''F''), (''01UEVS'', CHR ''F''),
      (''01UEVU'', CHR ''F''), (''01UF()'', CHR ''F''), (''01UF(1'', CHR ''F''), (''01UF(F'', CHR ''F''),
      (''01UF(N'', CHR ''F''), (''01UF(S'', CHR ''F''), (''01UF(V'', CHR ''F''), (''01UK(E'', CHR ''F''),
      (''01UO(E'', CHR ''F''), (''01UON('', CHR ''F''), (''01UON1'', CHR ''F''), (''01UONF'', CHR ''F''),
      (''01UONS'', CHR ''F''), (''01US,('', CHR ''F''), (''01US,F'', CHR ''F''), (''01USC'', CHR ''F''),
      (''01USO('', CHR ''F''), (''01USO1'', CHR ''F''), (''01USOF'', CHR ''F''), (''01USON'', CHR ''F''),
      (''01USOS'', CHR ''F''), (''01USOV'', CHR ''F''), (''01UTN('', CHR ''F''), (''01UTN1'', CHR ''F''),
      (''01UTNF'', CHR ''F''), (''01UTNN'', CHR ''F''), (''01UTNS'', CHR ''F''), (''01UTNV'', CHR ''F''),
      (''01UV,('', CHR ''F''), (''01UV,F'', CHR ''F''), (''01UVC'', CHR ''F''), (''01UVO('', CHR ''F''),
      (''01UVOF'', CHR ''F''), (''01UVOS'', CHR ''F''), (''01VF()'', CHR ''F''), (''01VF(1'', CHR ''F''),
      (''01VF(F'', CHR ''F''), (''01VF(N'', CHR ''F''), (''01VF(S'', CHR ''F''), (''01VF(V'', CHR ''F''),
      (''01VO(1'', CHR ''F''), (''01VO(F'', CHR ''F''), (''01VO(N'', CHR ''F''), (''01VO(S'', CHR ''F''),
      (''01VO(V'', CHR ''F''), (''01VOF('', CHR ''F''), (''01VOS('', CHR ''F''), (''01VOS1'', CHR ''F''),
      (''01VOSF'', CHR ''F''), (''01VOSU'', CHR ''F'')]"

definition sql_keywords_13 :: "keyword list" where
  "sql_keywords_13 =
     [(''01VOSV'', CHR ''F''), (''01VS'', CHR ''F''), (''01VS;'', CHR ''F''), (''01VS;C'', CHR ''F''),
      (''01VSC'', CHR ''F''), (''01VSO('', CHR ''F''), (''01VSO1'', CHR ''F''), (''01VSOF'', CHR ''F''),
      (''01VSON'', CHR ''F''), (''01VSOS'', CHR ''F''), (''01VSOV'', CHR ''F''), (''01VUE'', CHR ''F''),
      (''01VUE;'', CHR ''F''), (''01VUEC'', CHR ''F''), (''01VUEK'', CHR ''F''), (''0;T(EF'', CHR ''F''),
      (''0;T(EK'', CHR ''F''), (''0;TKNC'', CHR ''F''), (''0E(1&('', CHR ''F''), (''0E(1&1'', CHR ''F''),
      (''0E(1&F'', CHR ''F''), (''0E(1&N'', CHR ''F''), (''0E(1&S'', CHR ''F''), (''0E(1&V'', CHR ''F''),
      (''0E(1)&'', CHR ''F''), (''0E(1),'', CHR ''F''), (''0E(1)1'', CHR ''F''), (''0E(1);'', CHR ''F''),
      (''0E(1)B'', CHR ''F''), (''0E(1)C'', CHR ''F''), (''0E(1)F'', CHR ''F''), (''0E(1)K'', CHR ''F''),
      (''0E(1)N'', CHR ''F''), (''0E(1)O'', CHR ''F''), (''0E(1)S'', CHR ''F''), (''0E(1)U'', CHR ''F''),
      (''0E(1)V'', CHR ''F''), (''0E(1,F'', CHR ''F''), (''0E(1F('', CHR ''F''), (''0E(1N)'', CHR ''F''),
      (''0E(1O('', CHR ''F''), (''0E(1OF'', CHR ''F''), (''0E(1OS'', CHR ''F''), (''0E(1OV'', CHR ''F''),
      (''0E(1S)'', CHR ''F''), (''0E(1V)'', CHR ''F''), (''0E(1VO'', CHR ''F''), (''0E(E(1'', CHR ''F''),
      (''0E(E(E'', CHR ''F''), (''0E(E(F'', CHR ''F''), (''0E(E(N'', CHR ''F''), (''0E(E(S'', CHR ''F''),
      (''0E(E(V'', CHR ''F''), (''0E(E1&'', CHR ''F''), (''0E(E1)'', CHR ''F''), (''0E(E1O'', CHR ''F''),
      (''0E(EF('', CHR ''F''), (''0E(EK('', CHR ''F''), (''0E(EK1'', CHR ''F''), (''0E(EKF'', CHR ''F''),
      (''0E(EKN'', CHR ''F''), (''0E(EKS'', CHR ''F''), (''0E(EKV'', CHR ''F''), (''0E(EN&'', CHR ''F''),
      (''0E(EN)'', CHR ''F''), (''0E(ENO'', CHR ''F''), (''0E(ES&'', CHR ''F''), (''0E(ES)'', CHR ''F''),
      (''0E(ESO'', CHR ''F''), (''0E(EV&'', CHR ''F''), (''0E(EV)'', CHR ''F''), (''0E(EVO'', CHR ''F''),
      (''0E(F()'', CHR ''F''), (''0E(F(1'', CHR ''F''), (''0E(F(E'', CHR ''F''), (''0E(F(F'', CHR ''F''),
      (''0E(F(N'', CHR ''F''), (''0E(F(S'', CHR ''F''), (''0E(F(V'', CHR ''F''), (''0E(N&('', CHR ''F''),
      (''0E(N&1'', CHR ''F''), (''0E(N&F'', CHR ''F''), (''0E(N&N'', CHR ''F''), (''0E(N&S'', CHR ''F''),
      (''0E(N&V'', CHR ''F''), (''0E(N(1'', CHR ''F''), (''0E(N(F'', CHR ''F''), (''0E(N(S'', CHR ''F''),
      (''0E(N(V'', CHR ''F''), (''0E(N)&'', CHR ''F''), (''0E(N),'', CHR ''F''), (''0E(N)1'', CHR ''F''),
      (''0E(N);'', CHR ''F''), (''0E(N)B'', CHR ''F''), (''0E(N)C'', CHR ''F''), (''0E(N)F'', CHR ''F''),
      (''0E(N)K'', CHR ''F''), (''0E(N)N'', CHR ''F''), (''0E(N)O'', CHR ''F''), (''0E(N)S'', CHR ''F''),
      (''0E(N)U'', CHR ''F''), (''0E(N)V'', CHR ''F''), (''0E(N,F'', CHR ''F''), (''0E(N1)'', CHR ''F''),
      (''0E(N1O'', CHR ''F''), (''0E(NF('', CHR ''F''), (''0E(NO('', CHR ''F''), (''0E(NOF'', CHR ''F''),
      (''0E(NOS'', CHR ''F''), (''0E(NOV'', CHR ''F''), (''0E(S&('', CHR ''F''), (''0E(S&1'', CHR ''F''),
      (''0E(S&F'', CHR ''F''), (''0E(S&N'', CHR ''F''), (''0E(S&S'', CHR ''F''), (''0E(S&V'', CHR ''F''),
      (''0E(S)&'', CHR ''F''), (''0E(S),'', CHR ''F''), (''0E(S)1'', CHR ''F''), (''0E(S);'', CHR ''F''),
      (''0E(S)B'', CHR ''F''), (''0E(S)C'', CHR ''F''), (''0E(S)F'', CHR ''F''), (''0E(S)K'', CHR ''F''),
      (''0E(S)N'', CHR ''F''), (''0E(S)O'', CHR ''F''), (''0E(S)S'', CHR ''F''), (''0E(S)U'', CHR ''F''),
      (''0E(S)V'', CHR ''F''), (''0E(S,F'', CHR ''F''), (''0E(S1)'', CHR ''F''), (''0E(SF('', CHR ''F''),
      (''0E(SO('', CHR ''F''), (''0E(SO1'', CHR ''F''), (''0E(SOF'', CHR ''F''), (''0E(SON'', CHR ''F''),
      (''0E(SOS'', CHR ''F''), (''0E(SOV'', CHR ''F''), (''0E(SV)'', CHR ''F''), (''0E(SVO'', CHR ''F''),
      (''0E(V&('', CHR ''F''), (''0E(V&1'', CHR ''F''), (''0E(V&F'', CHR ''F''), (''0E(V&N'', CHR ''F''),
      (''0E(V&S'', CHR ''F''), (''0E(V&V'', CHR ''F''), (''0E(V)&'', CHR ''F''), (''0E(V),'', CHR ''F''),
      (''0E(V)1'', CHR ''F''), (''0E(V);'', CHR ''F'')]"

definition sql_keywords_14 :: "keyword list" where
  "sql_keywords_14 =
     [(''0E(V)B'', CHR ''F''), (''0E(V)C'', CHR ''F''), (''0E(V)F'', CHR ''F''), (''0E(V)K'', CHR ''F''),
      (''0E(V)N'', CHR ''F''), (''0E(V)O'', CHR ''F''), (''0E(V)S'', CHR ''F''), (''0E(V)U'', CHR ''F''),
      (''0E(V)V'', CHR ''F''), (''0E(V,F'', CHR ''F''), (''0E(VF('', CHR ''F''), (''0E(VO('', CHR ''F''),
      (''0E(VOF'', CHR ''F''), (''0E(VOS'', CHR ''F''), (''0E(VS)'', CHR ''F''), (''0E(VSO'', CHR ''F''),
      (''0E1&(1'', CHR ''F''), (''0E1&(E'', CHR ''F''), (''0E1&(F'', CHR ''F''), (''0E1&(N'', CHR ''F''),
      (''0E1&(S'', CHR ''F''), (''0E1&(V'', CHR ''F''), (''0E1&1)'', CHR ''F''), (''0E1&1O'', CHR ''F''),
      (''0E1&F('', CHR ''F''), (''0E1&N)'', CHR ''F''), (''0E1&NO'', CHR ''F''), (''0E1&S)'', CHR ''F''),
      (''0E1&SO'', CHR ''F''), (''0E1&V)'', CHR ''F''), (''0E1&VO'', CHR ''F''), (''0E1)'', CHR ''F''),
      (''0E1)&('', CHR ''F''), (''0E1)&1'', CHR ''F''), (''0E1)&F'', CHR ''F''), (''0E1)&N'', CHR ''F''),
      (''0E1)&S'', CHR ''F''), (''0E1)&V'', CHR ''F''), (''0E1);'', CHR ''F''), (''0E1);('', CHR ''F''),
      (''0E1);C'', CHR ''F''), (''0E1);E'', CHR ''F''), (''0E1);T'', CHR ''F''), (''0E1)C'', CHR ''F''),
      (''0E1)KN'', CHR ''F''), (''0E1)O('', CHR ''F''), (''0E1)O1'', CHR ''F''), (''0E1)OF'', CHR ''F''),
      (''0E1)ON'', CHR ''F''), (''0E1)OS'', CHR ''F''), (''0E1)OV'', CHR ''F''), (''0E1)UE'', CHR ''F''),
      (''0E1,(1'', CHR ''F''), (''0E1,(F'', CHR ''F''), (''0E1,(N'', CHR ''F''), (''0E1,(S'', CHR ''F''),
      (''0E1,(V'', CHR ''F''), (''0E1,F('', CHR ''F''), (''0E1;(E'', CHR ''F''), (''0E1B(1'', CHR ''F''),
      (''0E1B(F'', CHR ''F''), (''0E1B(N'', CHR ''F''), (''0E1B(S'', CHR ''F''), (''0E1B(V'', CHR ''F''),
      (''0E1B1)'', CHR ''F''), (''0E1B1O'', CHR ''F''), (''0E1BF('', CHR ''F''), (''0E1BN)'', CHR ''F''),
      (''0E1BNO'', CHR ''F''), (''0E1BS)'', CHR ''F''), (''0E1BSO'', CHR ''F''), (''0E1BV)'', CHR ''F''),
      (''0E1BVO'', CHR ''F''), (''0E1F()'', CHR ''F''), (''0E1F(1'', CHR ''F''), (''0E1F(F'', CHR ''F''),
      (''0E1F(N'', CHR ''F''), (''0E1F(S'', CHR ''F''), (''0E1F(V'', CHR ''F''), (''0E1K(1'', CHR ''F''),
      (''0E1K(E'', CHR ''F''), (''0E1K(F'', CHR ''F''), (''0E1K(N'', CHR ''F''), (''0E1K(S'', CHR ''F''),
      (''0E1K(V'', CHR ''F''), (''0E1K1)'', CHR ''F''), (''0E1K1K'', CHR ''F''), (''0E1K1O'', CHR ''F''),
      (''0E1KF('', CHR ''F''), (''0E1KN'', CHR ''F''), (''0E1KN)'', CHR ''F''), (''0E1KN;'', CHR ''F''),
      (''0E1KNC'', CHR ''F''), (''0E1KNK'', CHR ''F''), (''0E1KNU'', CHR ''F''), (''0E1KS)'', CHR ''F''),
      (''0E1KSK'', CHR ''F''), (''0E1KSO'', CHR ''F''), (''0E1KV)'', CHR ''F''), (''0E1KVK'', CHR ''F''),
      (''0E1KVO'', CHR ''F''), (''0E1N)U'', CHR ''F''), (''0E1N;'', CHR ''F''), (''0E1N;C'', CHR ''F''),
      (''0E1NC'', CHR ''F''), (''0E1NKN'', CHR ''F''), (''0E1O(1'', CHR ''F''), (''0E1O(E'', CHR ''F''),
      (''0E1O(F'', CHR ''F''), (''0E1O(N'', CHR ''F''), (''0E1O(S'', CHR ''F''), (''0E1O(V'', CHR ''F''),
      (''0E1OF('', CHR ''F''), (''0E1OS&'', CHR ''F''), (''0E1OS('', CHR ''F''), (''0E1OS)'', CHR ''F''),
      (''0E1OS,'', CHR ''F''), (''0E1OS1'', CHR ''F''), (''0E1OS;'', CHR ''F''), (''0E1OSB'', CHR ''F''),
      (''0E1OSF'', CHR ''F''), (''0E1OSK'', CHR ''F''), (''0E1OSU'', CHR ''F''), (''0E1OSV'', CHR ''F''),
      (''0E1OV&'', CHR ''F''), (''0E1OV('', CHR ''F''), (''0E1OV)'', CHR ''F''), (''0E1OV,'', CHR ''F''),
      (''0E1OV;'', CHR ''F''), (''0E1OVB'', CHR ''F''), (''0E1OVF'', CHR ''F''), (''0E1OVK'', CHR ''F''),
      (''0E1OVO'', CHR ''F''), (''0E1OVS'', CHR ''F''), (''0E1OVU'', CHR ''F''), (''0E1S;'', CHR ''F''),
      (''0E1S;C'', CHR ''F''), (''0E1SC'', CHR ''F''), (''0E1U(E'', CHR ''F''), (''0E1UE('', CHR ''F''),
      (''0E1UE1'', CHR ''F''), (''0E1UEF'', CHR ''F''), (''0E1UEK'', CHR ''F''), (''0E1UEN'', CHR ''F''),
      (''0E1UES'', CHR ''F''), (''0E1UEV'', CHR ''F''), (''0E1V'', CHR ''F''), (''0E1V;'', CHR ''F''),
      (''0E1V;C'', CHR ''F''), (''0E1VC'', CHR ''F'')]"

definition sql_keywords_15 :: "keyword list" where
  "sql_keywords_15 =
     [(''0E1VO('', CHR ''F''), (''0E1VOF'', CHR ''F''), (''0E1VOS'', CHR ''F''), (''0EE(F('', CHR ''F''),
      (''0EEK(F'', CHR ''F''), (''0EF()&'', CHR ''F''), (''0EF(),'', CHR ''F''), (''0EF()1'', CHR ''F''),
      (''0EF();'', CHR ''F''), (''0EF()B'', CHR ''F''), (''0EF()F'', CHR ''F''), (''0EF()K'', CHR ''F''),
      (''0EF()N'', CHR ''F''), (''0EF()O'', CHR ''F''), (''0EF()S'', CHR ''F''), (''0EF()U'', CHR ''F''),
      (''0EF()V'', CHR ''F''), (''0EF(1&'', CHR ''F''), (''0EF(1)'', CHR ''F''), (''0EF(1,'', CHR ''F''),
      (''0EF(1O'', CHR ''F''), (''0EF(E('', CHR ''F''), (''0EF(E1'', CHR ''F''), (''0EF(EF'', CHR ''F''),
      (''0EF(EK'', CHR ''F''), (''0EF(EN'', CHR ''F''), (''0EF(ES'', CHR ''F''), (''0EF(EV'', CHR ''F''),
      (''0EF(F('', CHR ''F''), (''0EF(N&'', CHR ''F''), (''0EF(N)'', CHR ''F''), (''0EF(N,'', CHR ''F''),
      (''0EF(NO'', CHR ''F''), (''0EF(O)'', CHR ''F''), (''0EF(S&'', CHR ''F''), (''0EF(S)'', CHR ''F''),
      (''0EF(S,'', CHR ''F''), (''0EF(SO'', CHR ''F''), (''0EF(V&'', CHR ''F''), (''0EF(V)'', CHR ''F''),
      (''0EF(V,'', CHR ''F''), (''0EF(VO'', CHR ''F''), (''0EK(1&'', CHR ''F''), (''0EK(1('', CHR ''F''),
      (''0EK(1)'', CHR ''F''), (''0EK(1,'', CHR ''F''), (''0EK(1F'', CHR ''F''), (''0EK(1N'', CHR ''F''),
      (''0EK(1O'', CHR ''F''), (''0EK(1S'', CHR ''F''), (''0EK(1V'', CHR ''F''), (''0EK(E('', CHR ''F''),
      (''0EK(E1'', CHR ''F''), (''0EK(EF'', CHR ''F''), (''0EK(EK'', CHR ''F''), (''0EK(EN'', CHR ''F''),
      (''0EK(ES'', CHR ''F''), (''0EK(EV'', CHR ''F''), (''0EK(F('', CHR ''F''), (''0EK(N&'', CHR ''F''),
      (''0EK(N('', CHR ''F''), (''0EK(N)'', CHR ''F''), (''0EK(N,'', CHR ''F''), (''0EK(N1'', CHR ''F''),
      (''0EK(NF'', CHR ''F''), (''0EK(NO'', CHR ''F''), (''0EK(S&'', CHR ''F''), (''0EK(S('', CHR ''F''),
      (''0EK(S)'', CHR ''F''), (''0EK(S,'', CHR ''F''), (''0EK(S1'', CHR ''F''), (''0EK(SF'', CHR ''F''),
      (''0EK(SO'', CHR ''F''), (''0EK(SV'', CHR ''F''), (''0EK(V&'', CHR ''F''), (''0EK(V('', CHR ''F''),
      (''0EK(V)'', CHR ''F''), (''0EK(V,'', CHR ''F''), (''0EK(VF'', CHR ''F''), (''0EK(VO'', CHR ''F''),
      (''0EK(VS'', CHR ''F''), (''0EK1&('', CHR ''F''), (''0EK1&1'', CHR ''F''), (''0EK1&F'', CHR ''F''),
      (''0EK1&N'', CHR ''F''), (''0EK1&S'', CHR ''F''), (''0EK1&V'', CHR ''F''), (''0EK1)'', CHR ''F''),
      (''0EK1)&'', CHR ''F''), (''0EK1);'', CHR ''F''), (''0EK1)C'', CHR ''F''), (''0EK1)K'', CHR ''F''),
      (''0EK1)O'', CHR ''F''), (''0EK1)U'', CHR ''F''), (''0EK1,('', CHR ''F''), (''0EK1,F'', CHR ''F''),
      (''0EK1;('', CHR ''F''), (''0EK1B('', CHR ''F''), (''0EK1B1'', CHR ''F''), (''0EK1BF'', CHR ''F''),
      (''0EK1BN'', CHR ''F''), (''0EK1BS'', CHR ''F''), (''0EK1BV'', CHR ''F''), (''0EK1F('', CHR ''F''),
      (''0EK1K('', CHR ''F''), (''0EK1K1'', CHR ''F''), (''0EK1KF'', CHR ''F''), (''0EK1KN'', CHR ''F''),
      (''0EK1KS'', CHR ''F''), (''0EK1KV'', CHR ''F''), (''0EK1N'', CHR ''F''), (''0EK1N)'', CHR ''F''),
      (''0EK1N;'', CHR ''F''), (''0EK1NC'', CHR ''F''), (''0EK1NK'', CHR ''F''), (''0EK1O('', CHR ''F''),
      (''0EK1OF'', CHR ''F''), (''0EK1OS'', CHR ''F''), (''0EK1OV'', CHR ''F''), (''0EK1S'', CHR ''F''),
      (''0EK1S;'', CHR ''F''), (''0EK1SC'', CHR ''F''), (''0EK1SF'', CHR ''F''), (''0EK1SK'', CHR ''F''),
      (''0EK1U('', CHR ''F''), (''0EK1UE'', CHR ''F''), (''0EK1V'', CHR ''F''), (''0EK1V;'', CHR ''F''),
      (''0EK1VC'', CHR ''F''), (''0EK1VF'', CHR ''F''), (''0EK1VK'', CHR ''F''), (''0EK1VO'', CHR ''F''),
      (''0EKE(F'', CHR ''F''), (''0EKEK('', CHR ''F''), (''0EKF()'', CHR ''F''), (''0EKF(1'', CHR ''F''),
      (''0EKF(E'', CHR ''F''), (''0EKF(F'', CHR ''F''), (''0EKF(N'', CHR ''F''), (''0EKF(O'', CHR ''F''),
      (''0EKF(S'', CHR ''F''), (''0EKF(V'', CHR ''F''), (''0EKN&('', CHR ''F''), (''0EKN&1'', CHR ''F''),
      (''0EKN&F'', CHR ''F''), (''0EKN&N'', CHR ''F''), (''0EKN&S'', CHR ''F''), (''0EKN&V'', CHR ''F''),
      (''0EKN(1'', CHR ''F''), (''0EKN(F'', CHR ''F'')]"

definition sql_keywords_16 :: "keyword list" where
  "sql_keywords_16 =
     [(''0EKN(S'', CHR ''F''), (''0EKN(V'', CHR ''F''), (''0EKN)'', CHR ''F''), (''0EKN)&'', CHR ''F''),
      (''0EKN);'', CHR ''F''), (''0EKN)C'', CHR ''F''), (''0EKN)K'', CHR ''F''), (''0EKN)O'', CHR ''F''),
      (''0EKN)U'', CHR ''F''), (''0EKN,('', CHR ''F''), (''0EKN,F'', CHR ''F''), (''0EKN1'', CHR ''F''),
      (''0EKN1;'', CHR ''F''), (''0EKN1C'', CHR ''F''), (''0EKN1K'', CHR ''F''), (''0EKN1O'', CHR ''F''),
      (''0EKN;('', CHR ''F''), (''0EKNB('', CHR ''F''), (''0EKNB1'', CHR ''F''), (''0EKNBF'', CHR ''F''),
      (''0EKNBN'', CHR ''F''), (''0EKNBS'', CHR ''F''), (''0EKNBV'', CHR ''F''), (''0EKNF('', CHR ''F''),
      (''0EKNK('', CHR ''F''), (''0EKNK1'', CHR ''F''), (''0EKNKF'', CHR ''F''), (''0EKNKN'', CHR ''F''),
      (''0EKNKS'', CHR ''F''), (''0EKNKV'', CHR ''F''), (''0EKNU('', CHR ''F''), (''0EKNUE'', CHR ''F''),
      (''0EKO(1'', CHR ''F''), (''0EKO(F'', CHR ''F''), (''0EKO(N'', CHR ''F''), (''0EKO(S'', CHR ''F''),
      (''0EKO(V'', CHR ''F''), (''0EKOK('', CHR ''F''), (''0EKOKN'', CHR ''F''), (''0EKS&('', CHR ''F''),
      (''0EKS&1'', CHR ''F''), (''0EKS&F'', CHR ''F''), (''0EKS&N'', CHR ''F''), (''0EKS&S'', CHR ''F''),
      (''0EKS&V'', CHR ''F''), (''0EKS)'', CHR ''F''), (''0EKS)&'', CHR ''F''), (''0EKS);'', CHR ''F''),
      (''0EKS)C'', CHR ''F''), (''0EKS)K'', CHR ''F''), (''0EKS)O'', CHR ''F''), (''0EKS)U'', CHR ''F''),
      (''0EKS,('', CHR ''F''), (''0EKS,F'', CHR ''F''), (''0EKS1'', CHR ''F''), (''0EKS1;'', CHR ''F''),
      (''0EKS1C'', CHR ''F''), (''0EKS1F'', CHR ''F''), (''0EKS1K'', CHR ''F''), (''0EKS;('', CHR ''F''),
      (''0EKSB('', CHR ''F''), (''0EKSB1'', CHR ''F''), (''0EKSBF'', CHR ''F''), (''0EKSBN'', CHR ''F''),
      (''0EKSBS'', CHR ''F''), (''0EKSBV'', CHR ''F''), (''0EKSF('', CHR ''F''), (''0EKSK('', CHR ''F''),
      (''0EKSK1'', CHR ''F''), (''0EKSKF'', CHR ''F''), (''0EKSKN'', CHR ''F''), (''0EKSKS'', CHR ''F''),
      (''0EKSKV'', CHR ''F''), (''0EKSO('', CHR ''F''), (''0EKSO1'', CHR ''F''), (''0EKSOF'', CHR ''F''),
      (''0EKSON'', CHR ''F''), (''0EKSOS'', CHR ''F''), (''0EKSOV'', CHR ''F''), (''0EKSU('', CHR ''F''),
      (''0EKSUE'', CHR ''F''), (''0EKSV'', CHR ''F''), (''0EKSV;'', CHR ''F''), (''0EKSVC'', CHR ''F''),
      (''0EKSVF'', CHR ''F''), (''0EKSVK'', CHR ''F''), (''0EKSVO'', CHR ''F''), (''0EKV&('', CHR ''F''),
      (''0EKV&1'', CHR ''F''), (''0EKV&F'', CHR ''F''), (''0EKV&N'', CHR ''F''), (''0EKV&S'', CHR ''F''),
      (''0EKV&V'', CHR ''F''), (''0EKV)'', CHR ''F''), (''0EKV)&'', CHR ''F''), (''0EKV);'', CHR ''F''),
      (''0EKV)C'', CHR ''F''), (''0EKV)K'', CHR ''F''), (''0EKV)O'', CHR ''F''), (''0EKV)U'', CHR ''F''),
      (''0EKV,('', CHR ''F''), (''0EKV,F'', CHR ''F''), (''0EKV;('', CHR ''F''), (''0EKVB('', CHR ''F''),
      (''0EKVB1'', CHR ''F''), (''0EKVBF'', CHR ''F''), (''0EKVBN'', CHR ''F''), (''0EKVBS'', CHR ''F''),
      (''0EKVBV'', CHR ''F''), (''0EKVF('', CHR ''F''), (''0EKVK('', CHR ''F''), (''0EKVK1'', CHR ''F''),
      (''0EKVKF'', CHR ''F''), (''0EKVKN'', CHR ''F''), (''0EKVKS'', CHR ''F''), (''0EKVKV'', CHR ''F''),
      (''0EKVO('', CHR ''F''), (''0EKVOF'', CHR ''F''), (''0EKVOS'', CHR ''F''), (''0EKVS'', CHR ''F''),
      (''0EKVS;'', CHR ''F''), (''0EKVSC'', CHR ''F''), (''0EKVSF'', CHR ''F''), (''0EKVSK'', CHR ''F''),
      (''0EKVSO'', CHR ''F''), (''0EKVU('', CHR ''F''), (''0EKVUE'', CHR ''F''), (''0EN&(1'', CHR ''F''),
      (''0EN&(E'', CHR ''F''), (''0EN&(F'', CHR ''F''), (''0EN&(N'', CHR ''F''), (''0EN&(S'', CHR ''F''),
      (''0EN&(V'', CHR ''F''), (''0EN&1)'', CHR ''F''), (''0EN&1O'', CHR ''F''), (''0EN&F('', CHR ''F''),
      (''0EN&N)'', CHR ''F''), (''0EN&NO'', CHR ''F''), (''0EN&S)'', CHR ''F''), (''0EN&SO'', CHR ''F''),
      (''0EN&V)'', CHR ''F''), (''0EN&VO'', CHR ''F''), (''0EN(1O'', CHR ''F''), (''0EN(F('', CHR ''F''),
      (''0EN(S)'', CHR ''F''), (''0EN(SO'', CHR ''F''), (''0EN(V)'', CHR ''F''), (''0EN(VO'', CHR ''F''),
      (''0EN)'', CHR ''F''), (''0EN)&('', CHR ''F'')]"

definition sql_keywords_17 :: "keyword list" where
  "sql_keywords_17 =
     [(''0EN)&1'', CHR ''F''), (''0EN)&F'', CHR ''F''), (''0EN)&N'', CHR ''F''), (''0EN)&S'', CHR ''F''),
      (''0EN)&V'', CHR ''F''), (''0EN);'', CHR ''F''), (''0EN);('', CHR ''F''), (''0EN);C'', CHR ''F''),
      (''0EN);E'', CHR ''F''), (''0EN);T'', CHR ''F''), (''0EN)C'', CHR ''F''), (''0EN)KN'', CHR ''F''),
      (''0EN)O('', CHR ''F''), (''0EN)O1'', CHR ''F''), (''0EN)OF'', CHR ''F''), (''0EN)ON'', CHR ''F''),
      (''0EN)OS'', CHR ''F''), (''0EN)OV'', CHR ''F''), (''0EN)UE'', CHR ''F''), (''0EN,(1'', CHR ''F''),
      (''0EN,(F'', CHR ''F''), (''0EN,(N'', CHR ''F''), (''0EN,(S'', CHR ''F''), (''0EN,(V'', CHR ''F''),
      (''0EN,F('', CHR ''F''), (''0EN1;'', CHR ''F''), (''0EN1;C'', CHR ''F''), (''0EN1O('', CHR ''F''),
      (''0EN1OF'', CHR ''F''), (''0EN1OS'', CHR ''F''), (''0EN1OV'', CHR ''F''), (''0EN;(E'', CHR ''F''),
      (''0ENB(1'', CHR ''F''), (''0ENB(F'', CHR ''F''), (''0ENB(N'', CHR ''F''), (''0ENB(S'', CHR ''F''),
      (''0ENB(V'', CHR ''F''), (''0ENB1)'', CHR ''F''), (''0ENB1O'', CHR ''F''), (''0ENBF('', CHR ''F''),
      (''0ENBN)'', CHR ''F''), (''0ENBNO'', CHR ''F''), (''0ENBS)'', CHR ''F''), (''0ENBSO'', CHR ''F''),
      (''0ENBV)'', CHR ''F''), (''0ENBVO'', CHR ''F''), (''0ENF()'', CHR ''F''), (''0ENF(1'', CHR ''F''),
      (''0ENF(F'', CHR ''F''), (''0ENF(N'', CHR ''F''), (''0ENF(S'', CHR ''F''), (''0ENF(V'', CHR ''F''),
      (''0ENK(1'', CHR ''F''), (''0ENK(E'', CHR ''F''), (''0ENK(F'', CHR ''F''), (''0ENK(N'', CHR ''F''),
      (''0ENK(S'', CHR ''F''), (''0ENK(V'', CHR ''F''), (''0ENK1)'', CHR ''F''), (''0ENK1K'', CHR ''F''),
      (''0ENK1O'', CHR ''F''), (''0ENKF('', CHR ''F''), (''0ENKN)'', CHR ''F''), (''0ENKN,'', CHR ''F''),
      (''0ENKN;'', CHR ''F''), (''0ENKNB'', CHR ''F''), (''0ENKNC'', CHR ''F''), (''0ENKNK'', CHR ''F''),
      (''0ENKNU'', CHR ''F''), (''0ENKS)'', CHR ''F''), (''0ENKSK'', CHR ''F''), (''0ENKSO'', CHR ''F''),
      (''0ENKV)'', CHR ''F''), (''0ENKVK'', CHR ''F''), (''0ENKVO'', CHR ''F''), (''0ENO(1'', CHR ''F''),
      (''0ENO(E'', CHR ''F''), (''0ENO(F'', CHR ''F''), (''0ENO(N'', CHR ''F''), (''0ENO(S'', CHR ''F''),
      (''0ENO(V'', CHR ''F''), (''0ENOF('', CHR ''F''), (''0ENOS&'', CHR ''F''), (''0ENOS('', CHR ''F''),
      (''0ENOS)'', CHR ''F''), (''0ENOS,'', CHR ''F''), (''0ENOS1'', CHR ''F''), (''0ENOS;'', CHR ''F''),
      (''0ENOSB'', CHR ''F''), (''0ENOSF'', CHR ''F''), (''0ENOSK'', CHR ''F''), (''0ENOSU'', CHR ''F''),
      (''0ENOSV'', CHR ''F''), (''0ENOV&'', CHR ''F''), (''0ENOV('', CHR ''F''), (''0ENOV)'', CHR ''F''),
      (''0ENOV,'', CHR ''F''), (''0ENOV;'', CHR ''F''), (''0ENOVB'', CHR ''F''), (''0ENOVF'', CHR ''F''),
      (''0ENOVK'', CHR ''F''), (''0ENOVO'', CHR ''F''), (''0ENOVS'', CHR ''F''), (''0ENOVU'', CHR ''F''),
      (''0ENU(E'', CHR ''F''), (''0ENUE('', CHR ''F''), (''0ENUE1'', CHR ''F''), (''0ENUEF'', CHR ''F''),
      (''0ENUEK'', CHR ''F''), (''0ENUEN'', CHR ''F''), (''0ENUES'', CHR ''F''), (''0ENUEV'', CHR ''F''),
      (''0EOK(E'', CHR ''F''), (''0EOKNK'', CHR ''F''), (''0ES&(1'', CHR ''F''), (''0ES&(E'', CHR ''F''),
      (''0ES&(F'', CHR ''F''), (''0ES&(N'', CHR ''F''), (''0ES&(S'', CHR ''F''), (''0ES&(V'', CHR ''F''),
      (''0ES&1)'', CHR ''F''), (''0ES&1O'', CHR ''F''), (''0ES&F('', CHR ''F''), (''0ES&N)'', CHR ''F''),
      (''0ES&NO'', CHR ''F''), (''0ES&S)'', CHR ''F''), (''0ES&SO'', CHR ''F''), (''0ES&V)'', CHR ''F''),
      (''0ES&VO'', CHR ''F''), (''0ES)'', CHR ''F''), (''0ES)&('', CHR ''F''), (''0ES)&1'', CHR ''F''),
      (''0ES)&F'', CHR ''F''), (''0ES)&N'', CHR ''F''), (''0ES)&S'', CHR ''F''), (''0ES)&V'', CHR ''F''),
      (''0ES);'', CHR ''F''), (''0ES);('', CHR ''F''), (''0ES);C'', CHR ''F''), (''0ES);E'', CHR ''F''),
      (''0ES);T'', CHR ''F''), (''0ES)C'', CHR ''F''), (''0ES)KN'', CHR ''F''), (''0ES)O('', CHR ''F''),
      (''0ES)O1'', CHR ''F''), (''0ES)OF'', CHR ''F''), (''0ES)ON'', CHR ''F''), (''0ES)OS'', CHR ''F''),
      (''0ES)OV'', CHR ''F''), (''0ES)UE'', CHR ''F'')]"

definition sql_keywords_18 :: "keyword list" where
  "sql_keywords_18 =
     [(''0ES,(1'', CHR ''F''), (''0ES,(F'', CHR ''F''), (''0ES,(N'', CHR ''F''), (''0ES,(S'', CHR ''F''),
      (''0ES,(V'', CHR ''F''), (''0ES,F('', CHR ''F''), (''0ES1'', CHR ''F''), (''0ES1;'', CHR ''F''),
      (''0ES1;C'', CHR ''F''), (''0ES1C'', CHR ''F''), (''0ES;(E'', CHR ''F''), (''0ESB(1'', CHR ''F''),
      (''0ESB(F'', CHR ''F''), (''0ESB(N'', CHR ''F''), (''0ESB(S'', CHR ''F''), (''0ESB(V'', CHR ''F''),
      (''0ESB1)'', CHR ''F''), (''0ESB1O'', CHR ''F''), (''0ESBF('', CHR ''F''), (''0ESBN)'', CHR ''F''),
      (''0ESBNO'', CHR ''F''), (''0ESBS)'', CHR ''F''), (''0ESBSO'', CHR ''F''), (''0ESBV)'', CHR ''F''),
      (''0ESBVO'', CHR ''F''), (''0ESF()'', CHR ''F''), (''0ESF(1'', CHR ''F''), (''0ESF(F'', CHR ''F''),
      (''0ESF(N'', CHR ''F''), (''0ESF(S'', CHR ''F''), (''0ESF(V'', CHR ''F''), (''0ESK(1'', CHR ''F''),
      (''0ESK(E'', CHR ''F''), (''0ESK(F'', CHR ''F''), (''0ESK(N'', CHR ''F''), (''0ESK(S'', CHR ''F''),
      (''0ESK(V'', CHR ''F''), (''0ESK1)'', CHR ''F''), (''0ESK1K'', CHR ''F''), (''0ESK1O'', CHR ''F''),
      (''0ESKF('', CHR ''F''), (''0ESKN'', CHR ''F''), (''0ESKN)'', CHR ''F''), (''0ESKN;'', CHR ''F''),
      (''0ESKNC'', CHR ''F''), (''0ESKNK'', CHR ''F''), (''0ESKNU'', CHR ''F''), (''0ESKS)'', CHR ''F''),
      (''0ESKSK'', CHR ''F''), (''0ESKSO'', CHR ''F''), (''0ESKV)'', CHR ''F''), (''0ESKVK'', CHR ''F''),
      (''0ESKVO'', CHR ''F''), (''0ESO(1'', CHR ''F''), (''0ESO(E'', CHR ''F''), (''0ESO(F'', CHR ''F''),
      (''0ESO(N'', CHR ''F''), (''0ESO(S'', CHR ''F''), (''0ESO(V'', CHR ''F''), (''0ESO1&'', CHR ''F''),
      (''0ESO1('', CHR ''F''), (''0ESO1)'', CHR ''F''), (''0ESO1,'', CHR ''F''), (''0ESO1;'', CHR ''F''),
      (''0ESO1B'', CHR ''F''), (''0ESO1F'', CHR ''F''), (''0ESO1K'', CHR ''F''), (''0ESO1N'', CHR ''F''),
      (''0ESO1S'', CHR ''F''), (''0ESO1U'', CHR ''F''), (''0ESO1V'', CHR ''F''), (''0ESOF('', CHR ''F''),
      (''0ESON&'', CHR ''F''), (''0ESON('', CHR ''F''), (''0ESON)'', CHR ''F''), (''0ESON,'', CHR ''F''),
      (''0ESON1'', CHR ''F''), (''0ESON;'', CHR ''F''), (''0ESONB'', CHR ''F''), (''0ESONF'', CHR ''F''),
      (''0ESONK'', CHR ''F''), (''0ESONU'', CHR ''F''), (''0ESOS&'', CHR ''F''), (''0ESOS('', CHR ''F''),
      (''0ESOS)'', CHR ''F''), (''0ESOS,'', CHR ''F''), (''0ESOS1'', CHR ''F''), (''0ESOS;'', CHR ''F''),
      (''0ESOSB'', CHR ''F''), (''0ESOSF'', CHR ''F''), (''0ESOSK'', CHR ''F''), (''0ESOSU'', CHR ''F''),
      (''0ESOSV'', CHR ''F''), (''0ESOV&'', CHR ''F''), (''0ESOV('', CHR ''F''), (''0ESOV)'', CHR ''F''),
      (''0ESOV,'', CHR ''F''), (''0ESOV;'', CHR ''F''), (''0ESOVB'', CHR ''F''), (''0ESOVF'', CHR ''F''),
      (''0ESOVK'', CHR ''F''), (''0ESOVO'', CHR ''F''), (''0ESOVS'', CHR ''F''), (''0ESOVU'', CHR ''F''),
      (''0ESU(E'', CHR ''F''), (''0ESUE('', CHR ''F''), (''0ESUE1'', CHR ''F''), (''0ESUEF'', CHR ''F''),
      (''0ESUEK'', CHR ''F''), (''0ESUEN'', CHR ''F''), (''0ESUES'', CHR ''F''), (''0ESUEV'', CHR ''F''),
      (''0ESV'', CHR ''F''), (''0ESV;'', CHR ''F''), (''0ESV;C'', CHR ''F''), (''0ESVC'', CHR ''F''),
      (''0ESVO('', CHR ''F''), (''0ESVOF'', CHR ''F''), (''0ESVOS'', CHR ''F''), (''0EV&(1'', CHR ''F''),
      (''0EV&(E'', CHR ''F''), (''0EV&(F'', CHR ''F''), (''0EV&(N'', CHR ''F''), (''0EV&(S'', CHR ''F''),
      (''0EV&(V'', CHR ''F''), (''0EV&1)'', CHR ''F''), (''0EV&1O'', CHR ''F''), (''0EV&F('', CHR ''F''),
      (''0EV&N)'', CHR ''F''), (''0EV&NO'', CHR ''F''), (''0EV&S)'', CHR ''F''), (''0EV&SO'', CHR ''F''),
      (''0EV&V)'', CHR ''F''), (''0EV&VO'', CHR ''F''), (''0EV)'', CHR ''F''), (''0EV)&('', CHR ''F''),
      (''0EV)&1'', CHR ''F''), (''0EV)&F'', CHR ''F''), (''0EV)&N'', CHR ''F''), (''0EV)&S'', CHR ''F''),
      (''0EV)&V'', CHR ''F''), (''0EV);'', CHR ''F''), (''0EV);('', CHR ''F''), (''0EV);C'', CHR ''F''),
      (''0EV);E'', CHR ''F''), (''0EV);T'', CHR ''F''), (''0EV)C'', CHR ''F''), (''0EV)KN'', CHR ''F''),
      (''0EV)O('', CHR ''F''), (''0EV)O1'', CHR ''F'')]"

definition sql_keywords_19 :: "keyword list" where
  "sql_keywords_19 =
     [(''0EV)OF'', CHR ''F''), (''0EV)ON'', CHR ''F''), (''0EV)OS'', CHR ''F''), (''0EV)OV'', CHR ''F''),
      (''0EV)UE'', CHR ''F''), (''0EV,(1'', CHR ''F''), (''0EV,(F'', CHR ''F''), (''0EV,(N'', CHR ''F''),
      (''0EV,(S'', CHR ''F''), (''0EV,(V'', CHR ''F''), (''0EV,F('', CHR ''F''), (''0EV;(E'', CHR ''F''),
      (''0EVB(1'', CHR ''F''), (''0EVB(F'', CHR ''F''), (''0EVB(N'', CHR ''F''), (''0EVB(S'', CHR ''F''),
      (''0EVB(V'', CHR ''F''), (''0EVB1)'', CHR ''F''), (''0EVB1O'', CHR ''F''), (''0EVBF('', CHR ''F''),
      (''0EVBN)'', CHR ''F''), (''0EVBNO'', CHR ''F''), (''0EVBS)'', CHR ''F''), (''0EVBSO'', CHR ''F''),
      (''0EVBV)'', CHR ''F''), (''0EVBVO'', CHR ''F''), (''0EVF()'', CHR ''F''), (''0EVF(1'', CHR ''F''),
      (''0EVF(F'', CHR ''F''), (''0EVF(N'', CHR ''F''), (''0EVF(S'', CHR ''F''), (''0EVF(V'', CHR ''F''),
      (''0EVK(1'', CHR ''F''), (''0EVK(E'', CHR ''F''), (''0EVK(F'', CHR ''F''), (''0EVK(N'', CHR ''F''),
      (''0EVK(S'', CHR ''F''), (''0EVK(V'', CHR ''F''), (''0EVK1)'', CHR ''F''), (''0EVK1K'', CHR ''F''),
      (''0EVK1O'', CHR ''F''), (''0EVKF('', CHR ''F''), (''0EVKN'', CHR ''F''), (''0EVKN)'', CHR ''F''),
      (''0EVKN;'', CHR ''F''), (''0EVKNC'', CHR ''F''), (''0EVKNK'', CHR ''F''), (''0EVKNU'', CHR ''F''),
      (''0EVKS)'', CHR ''F''), (''0EVKSK'', CHR ''F''), (''0EVKSO'', CHR ''F''), (''0EVKV)'', CHR ''F''),
      (''0EVKVK'', CHR ''F''), (''0EVKVO'', CHR ''F''), (''0EVN'', CHR ''F''), (''0EVN)U'', CHR ''F''),
      (''0EVN;'', CHR ''F''), (''0EVN;C'', CHR ''F''), (''0EVNC'', CHR ''F''), (''0EVNKN'', CHR ''F''),
      (''0EVNO('', CHR ''F''), (''0EVNOF'', CHR ''F''), (''0EVNOS'', CHR ''F''), (''0EVNOV'', CHR ''F''),
      (''0EVO(1'', CHR ''F''), (''0EVO(E'', CHR ''F''), (''0EVO(F'', CHR ''F''), (''0EVO(N'', CHR ''F''),
      (''0EVO(S'', CHR ''F''), (''0EVO(V'', CHR ''F''), (''0EVOF('', CHR ''F''), (''0EVOS&'', CHR ''F''),
      (''0EVOS('', CHR ''F''), (''0EVOS)'', CHR ''F''), (''0EVOS,'', CHR ''F''), (''0EVOS1'', CHR ''F''),
      (''0EVOS;'', CHR ''F''), (''0EVOSB'', CHR ''F''), (''0EVOSF'', CHR ''F''), (''0EVOSK'', CHR ''F''),
      (''0EVOSU'', CHR ''F''), (''0EVOSV'', CHR ''F''), (''0EVS'', CHR ''F''), (''0EVS;'', CHR ''F''),
      (''0EVS;C'', CHR ''F''), (''0EVSC'', CHR ''F''), (''0EVSO('', CHR ''F''), (''0EVSO1'', CHR ''F''),
      (''0EVSOF'', CHR ''F''), (''0EVSON'', CHR ''F''), (''0EVSOS'', CHR ''F''), (''0EVSOV'', CHR ''F''),
      (''0EVU(E'', CHR ''F''), (''0EVUE('', CHR ''F''), (''0EVUE1'', CHR ''F''), (''0EVUEF'', CHR ''F''),
      (''0EVUEK'', CHR ''F''), (''0EVUEN'', CHR ''F''), (''0EVUES'', CHR ''F''), (''0EVUEV'', CHR ''F''),
      (''0F()&('', CHR ''F''), (''0F()&1'', CHR ''F''), (''0F()&E'', CHR ''F''), (''0F()&F'', CHR ''F''),
      (''0F()&K'', CHR ''F''), (''0F()&N'', CHR ''F''), (''0F()&S'', CHR ''F''), (''0F()&V'', CHR ''F''),
      (''0F(),('', CHR ''F''), (''0F(),1'', CHR ''F''), (''0F(),F'', CHR ''F''), (''0F(),N'', CHR ''F''),
      (''0F(),S'', CHR ''F''), (''0F(),V'', CHR ''F''), (''0F()1('', CHR ''F''), (''0F()1F'', CHR ''F''),
      (''0F()1N'', CHR ''F''), (''0F()1O'', CHR ''F''), (''0F()1S'', CHR ''F''), (''0F()1U'', CHR ''F''),
      (''0F()1V'', CHR ''F''), (''0F();E'', CHR ''F''), (''0F();N'', CHR ''F''), (''0F();T'', CHR ''F''),
      (''0F()A('', CHR ''F''), (''0F()AF'', CHR ''F''), (''0F()AS'', CHR ''F''), (''0F()AT'', CHR ''F''),
      (''0F()AV'', CHR ''F''), (''0F()B('', CHR ''F''), (''0F()B1'', CHR ''F''), (''0F()BE'', CHR ''F''),
      (''0F()BF'', CHR ''F''), (''0F()BN'', CHR ''F''), (''0F()BS'', CHR ''F''), (''0F()BV'', CHR ''F''),
      (''0F()C'', CHR ''F''), (''0F()E('', CHR ''F''), (''0F()E1'', CHR ''F''), (''0F()EF'', CHR ''F''),
      (''0F()EK'', CHR ''F''), (''0F()EN'', CHR ''F''), (''0F()EO'', CHR ''F''), (''0F()ES'', CHR ''F''),
      (''0F()EU'', CHR ''F''), (''0F()EV'', CHR ''F''), (''0F()F('', CHR ''F''), (''0F()K('', CHR ''F''),
      (''0F()K)'', CHR ''F''), (''0F()K1'', CHR ''F'')]"

definition sql_keywords_20 :: "keyword list" where
  "sql_keywords_20 =
     [(''0F()KF'', CHR ''F''), (''0F()KN'', CHR ''F''), (''0F()KS'', CHR ''F''), (''0F()KU'', CHR ''F''),
      (''0F()KV'', CHR ''F''), (''0F()N&'', CHR ''F''), (''0F()N('', CHR ''F''), (''0F()N)'', CHR ''F''),
      (''0F()N,'', CHR ''F''), (''0F()N1'', CHR ''F''), (''0F()NE'', CHR ''F''), (''0F()NF'', CHR ''F''),
      (''0F()NO'', CHR ''F''), (''0F()NU'', CHR ''F''), (''0F()O('', CHR ''F''), (''0F()O1'', CHR ''F''),
      (''0F()OF'', CHR ''F''), (''0F()OK'', CHR ''F''), (''0F()ON'', CHR ''F''), (''0F()OS'', CHR ''F''),
      (''0F()OU'', CHR ''F''), (''0F()OV'', CHR ''F''), (''0F()S('', CHR ''F''), (''0F()S1'', CHR ''F''),
      (''0F()SF'', CHR ''F''), (''0F()SO'', CHR ''F''), (''0F()SU'', CHR ''F''), (''0F()SV'', CHR ''F''),
      (''0F()T('', CHR ''F''), (''0F()T1'', CHR ''F''), (''0F()TE'', CHR ''F''), (''0F()TF'', CHR ''F''),
      (''0F()TN'', CHR ''F''), (''0F()TS'', CHR ''F''), (''0F()TT'', CHR ''F''), (''0F()TV'', CHR ''F''),
      (''0F()U'', CHR ''F''), (''0F()U('', CHR ''F''), (''0F()U1'', CHR ''F''), (''0F()U;'', CHR ''F''),
      (''0F()UC'', CHR ''F''), (''0F()UE'', CHR ''F''), (''0F()UF'', CHR ''F''), (''0F()UK'', CHR ''F''),
      (''0F()UO'', CHR ''F''), (''0F()US'', CHR ''F''), (''0F()UT'', CHR ''F''), (''0F()UV'', CHR ''F''),
      (''0F()V('', CHR ''F''), (''0F()VF'', CHR ''F''), (''0F()VO'', CHR ''F''), (''0F()VS'', CHR ''F''),
      (''0F()VU'', CHR ''F''), (''0F(1&('', CHR ''F''), (''0F(1&1'', CHR ''F''), (''0F(1&F'', CHR ''F''),
      (''0F(1&N'', CHR ''F''), (''0F(1&S'', CHR ''F''), (''0F(1&V'', CHR ''F''), (''0F(1)'', CHR ''F''),
      (''0F(1)&'', CHR ''F''), (''0F(1),'', CHR ''F''), (''0F(1)1'', CHR ''F''), (''0F(1);'', CHR ''F''),
      (''0F(1)A'', CHR ''F''), (''0F(1)B'', CHR ''F''), (''0F(1)C'', CHR ''F''), (''0F(1)E'', CHR ''F''),
      (''0F(1)F'', CHR ''F''), (''0F(1)K'', CHR ''F''), (''0F(1)N'', CHR ''F''), (''0F(1)O'', CHR ''F''),
      (''0F(1)S'', CHR ''F''), (''0F(1)T'', CHR ''F''), (''0F(1)U'', CHR ''F''), (''0F(1)V'', CHR ''F''),
      (''0F(1,('', CHR ''F''), (''0F(1,F'', CHR ''F''), (''0F(1O('', CHR ''F''), (''0F(1OF'', CHR ''F''),
      (''0F(1OS'', CHR ''F''), (''0F(1OV'', CHR ''F''), (''0F(E(1'', CHR ''F''), (''0F(E(E'', CHR ''F''),
      (''0F(E(F'', CHR ''F''), (''0F(E(N'', CHR ''F''), (''0F(E(S'', CHR ''F''), (''0F(E(V'', CHR ''F''),
      (''0F(E1&'', CHR ''F''), (''0F(E1)'', CHR ''F''), (''0F(E1K'', CHR ''F''), (''0F(E1O'', CHR ''F''),
      (''0F(EF('', CHR ''F''), (''0F(EK('', CHR ''F''), (''0F(EK1'', CHR ''F''), (''0F(EKF'', CHR ''F''),
      (''0F(EKN'', CHR ''F''), (''0F(EKO'', CHR ''F''), (''0F(EKS'', CHR ''F''), (''0F(EKV'', CHR ''F''),
      (''0F(EN&'', CHR ''F''), (''0F(EN)'', CHR ''F''), (''0F(ENK'', CHR ''F''), (''0F(ENO'', CHR ''F''),
      (''0F(EOK'', CHR ''F''), (''0F(ES&'', CHR ''F''), (''0F(ES)'', CHR ''F''), (''0F(ESK'', CHR ''F''),
      (''0F(ESO'', CHR ''F''), (''0F(EV&'', CHR ''F''), (''0F(EV)'', CHR ''F''), (''0F(EVK'', CHR ''F''),
      (''0F(EVO'', CHR ''F''), (''0F(F()'', CHR ''F''), (''0F(F(1'', CHR ''F''), (''0F(F(E'', CHR ''F''),
      (''0F(F(F'', CHR ''F''), (''0F(F(N'', CHR ''F''), (''0F(F(S'', CHR ''F''), (''0F(F(V'', CHR ''F''),
      (''0F(K()'', CHR ''F''), (''0F(K,('', CHR ''F''), (''0F(K,F'', CHR ''F''), (''0F(N&('', CHR ''F''),
      (''0F(N&1'', CHR ''F''), (''0F(N&F'', CHR ''F''), (''0F(N&N'', CHR ''F''), (''0F(N&S'', CHR ''F''),
      (''0F(N&V'', CHR ''F''), (''0F(N)'', CHR ''F''), (''0F(N)&'', CHR ''F''), (''0F(N),'', CHR ''F''),
      (''0F(N)1'', CHR ''F''), (''0F(N);'', CHR ''F''), (''0F(N)A'', CHR ''F''), (''0F(N)B'', CHR ''F''),
      (''0F(N)C'', CHR ''F''), (''0F(N)E'', CHR ''F''), (''0F(N)F'', CHR ''F''), (''0F(N)K'', CHR ''F''),
      (''0F(N)N'', CHR ''F''), (''0F(N)O'', CHR ''F''), (''0F(N)S'', CHR ''F''), (''0F(N)T'', CHR ''F''),
      (''0F(N)U'', CHR ''F''), (''0F(N)V'', CHR ''F''), (''0F(N,('', CHR ''F''), (''0F(N,F'', CHR ''F''),
      (''0F(NO('', CHR ''F''), (''0F(NOF'', CHR ''F'')]"

definition sql_keywords_21 :: "keyword list" where
  "sql_keywords_21 =
     [(''0F(NOS'', CHR ''F''), (''0F(NOV'', CHR ''F''), (''0F(S&('', CHR ''F''), (''0F(S&1'', CHR ''F''),
      (''0F(S&F'', CHR ''F''), (''0F(S&N'', CHR ''F''), (''0F(S&S'', CHR ''F''), (''0F(S&V'', CHR ''F''),
      (''0F(S)'', CHR ''F''), (''0F(S)&'', CHR ''F''), (''0F(S),'', CHR ''F''), (''0F(S)1'', CHR ''F''),
      (''0F(S);'', CHR ''F''), (''0F(S)A'', CHR ''F''), (''0F(S)B'', CHR ''F''), (''0F(S)C'', CHR ''F''),
      (''0F(S)E'', CHR ''F''), (''0F(S)F'', CHR ''F''), (''0F(S)K'', CHR ''F''), (''0F(S)N'', CHR ''F''),
      (''0F(S)O'', CHR ''F''), (''0F(S)S'', CHR ''F''), (''0F(S)T'', CHR ''F''), (''0F(S)U'', CHR ''F''),
      (''0F(S)V'', CHR ''F''), (''0F(S,('', CHR ''F''), (''0F(S,F'', CHR ''F''), (''0F(SO('', CHR ''F''),
      (''0F(SO1'', CHR ''F''), (''0F(SOF'', CHR ''F''), (''0F(SON'', CHR ''F''), (''0F(SOS'', CHR ''F''),
      (''0F(SOV'', CHR ''F''), (''0F(T,('', CHR ''F''), (''0F(T,F'', CHR ''F''), (''0F(V&('', CHR ''F''),
      (''0F(V&1'', CHR ''F''), (''0F(V&F'', CHR ''F''), (''0F(V&N'', CHR ''F''), (''0F(V&S'', CHR ''F''),
      (''0F(V&V'', CHR ''F''), (''0F(V)'', CHR ''F''), (''0F(V)&'', CHR ''F''), (''0F(V),'', CHR ''F''),
      (''0F(V)1'', CHR ''F''), (''0F(V);'', CHR ''F''), (''0F(V)A'', CHR ''F''), (''0F(V)B'', CHR ''F''),
      (''0F(V)C'', CHR ''F''), (''0F(V)E'', CHR ''F''), (''0F(V)F'', CHR ''F''), (''0F(V)K'', CHR ''F''),
      (''0F(V)N'', CHR ''F''), (''0F(V)O'', CHR ''F''), (''0F(V)S'', CHR ''F''), (''0F(V)T'', CHR ''F''),
      (''0F(V)U'', CHR ''F''), (''0F(V)V'', CHR ''F''), (''0F(V,('', CHR ''F''), (''0F(V,F'', CHR ''F''),
      (''0F(VO('', CHR ''F''), (''0F(VOF'', CHR ''F''), (''0F(VOS'', CHR ''F''), (''0K(1),'', CHR ''F''),
      (''0K(1)A'', CHR ''F''), (''0K(1)K'', CHR ''F''), (''0K(1)O'', CHR ''F''), (''0K(1O('', CHR ''F''),
      (''0K(1OF'', CHR ''F''), (''0K(1OS'', CHR ''F''), (''0K(1OV'', CHR ''F''), (''0K(F()'', CHR ''F''),
      (''0K(F(1'', CHR ''F''), (''0K(F(F'', CHR ''F''), (''0K(F(N'', CHR ''F''), (''0K(F(S'', CHR ''F''),
      (''0K(F(V'', CHR ''F''), (''0K(N),'', CHR ''F''), (''0K(N)A'', CHR ''F''), (''0K(N)K'', CHR ''F''),
      (''0K(N)O'', CHR ''F''), (''0K(NO('', CHR ''F''), (''0K(NOF'', CHR ''F''), (''0K(NOS'', CHR ''F''),
      (''0K(NOV'', CHR ''F''), (''0K(S),'', CHR ''F''), (''0K(S)A'', CHR ''F''), (''0K(S)K'', CHR ''F''),
      (''0K(S)O'', CHR ''F''), (''0K(SO('', CHR ''F''), (''0K(SO1'', CHR ''F''), (''0K(SOF'', CHR ''F''),
      (''0K(SON'', CHR ''F''), (''0K(SOS'', CHR ''F''), (''0K(SOV'', CHR ''F''), (''0K(V),'', CHR ''F''),
      (''0K(V)A'', CHR ''F''), (''0K(V)K'', CHR ''F''), (''0K(V)O'', CHR ''F''), (''0K(VO('', CHR ''F''),
      (''0K(VOF'', CHR ''F''), (''0K(VOS'', CHR ''F''), (''0K1,(1'', CHR ''F''), (''0K1,(F'', CHR ''F''),
      (''0K1,(N'', CHR ''F''), (''0K1,(S'', CHR ''F''), (''0K1,(V'', CHR ''F''), (''0K1,F('', CHR ''F''),
      (''0K1A(F'', CHR ''F''), (''0K1A(N'', CHR ''F''), (''0K1A(S'', CHR ''F''), (''0K1A(V'', CHR ''F''),
      (''0K1AF('', CHR ''F''), (''0K1ASO'', CHR ''F''), (''0K1AVO'', CHR ''F''), (''0K1K(1'', CHR ''F''),
      (''0K1K(F'', CHR ''F''), (''0K1K(N'', CHR ''F''), (''0K1K(S'', CHR ''F''), (''0K1K(V'', CHR ''F''),
      (''0K1K1O'', CHR ''F''), (''0K1K1U'', CHR ''F''), (''0K1KF('', CHR ''F''), (''0K1KNU'', CHR ''F''),
      (''0K1KSO'', CHR ''F''), (''0K1KSU'', CHR ''F''), (''0K1KVO'', CHR ''F''), (''0K1KVU'', CHR ''F''),
      (''0K1O(1'', CHR ''F''), (''0K1O(F'', CHR ''F''), (''0K1O(N'', CHR ''F''), (''0K1O(S'', CHR ''F''),
      (''0K1O(V'', CHR ''F''), (''0K1OF('', CHR ''F''), (''0K1OS('', CHR ''F''), (''0K1OS,'', CHR ''F''),
      (''0K1OS1'', CHR ''F''), (''0K1OSA'', CHR ''F''), (''0K1OSF'', CHR ''F''), (''0K1OSK'', CHR ''F''),
      (''0K1OSV'', CHR ''F''), (''0K1OV('', CHR ''F''), (''0K1OV,'', CHR ''F''), (''0K1OVA'', CHR ''F''),
      (''0K1OVF'', CHR ''F''), (''0K1OVK'', CHR ''F''), (''0K1OVO'', CHR ''F''), (''0K1OVS'', CHR ''F''),
      (''0KF(),'', CHR ''F''), (''0KF()A'', CHR ''F'')]"

definition sql_keywords_22 :: "keyword list" where
  "sql_keywords_22 =
     [(''0KF()K'', CHR ''F''), (''0KF()O'', CHR ''F''), (''0KF(1)'', CHR ''F''), (''0KF(1O'', CHR ''F''),
      (''0KF(F('', CHR ''F''), (''0KF(N)'', CHR ''F''), (''0KF(NO'', CHR ''F''), (''0KF(S)'', CHR ''F''),
      (''0KF(SO'', CHR ''F''), (''0KF(V)'', CHR ''F''), (''0KF(VO'', CHR ''F''), (''0KN,(1'', CHR ''F''),
      (''0KN,(F'', CHR ''F''), (''0KN,(N'', CHR ''F''), (''0KN,(S'', CHR ''F''), (''0KN,(V'', CHR ''F''),
      (''0KN,F('', CHR ''F''), (''0KNA(F'', CHR ''F''), (''0KNA(N'', CHR ''F''), (''0KNA(S'', CHR ''F''),
      (''0KNA(V'', CHR ''F''), (''0KNAF('', CHR ''F''), (''0KNASO'', CHR ''F''), (''0KNAVO'', CHR ''F''),
      (''0KNK(1'', CHR ''F''), (''0KNK(F'', CHR ''F''), (''0KNK(N'', CHR ''F''), (''0KNK(S'', CHR ''F''),
      (''0KNK(V'', CHR ''F''), (''0KNK1O'', CHR ''F''), (''0KNK1U'', CHR ''F''), (''0KNKF('', CHR ''F''),
      (''0KNKNU'', CHR ''F''), (''0KNKSO'', CHR ''F''), (''0KNKSU'', CHR ''F''), (''0KNKVO'', CHR ''F''),
      (''0KNKVU'', CHR ''F''), (''0KS,(1'', CHR ''F''), (''0KS,(F'', CHR ''F''), (''0KS,(N'', CHR ''F''),
      (''0KS,(S'', CHR ''F''), (''0KS,(V'', CHR ''F''), (''0KS,F('', CHR ''F''), (''0KSA(F'', CHR ''F''),
      (''0KSA(N'', CHR ''F''), (''0KSA(S'', CHR ''F''), (''0KSA(V'', CHR ''F''), (''0KSAF('', CHR ''F''),
      (''0KSASO'', CHR ''F''), (''0KSAVO'', CHR ''F''), (''0KSK(1'', CHR ''F''), (''0KSK(F'', CHR ''F''),
      (''0KSK(N'', CHR ''F''), (''0KSK(S'', CHR ''F''), (''0KSK(V'', CHR ''F''), (''0KSK1O'', CHR ''F''),
      (''0KSK1U'', CHR ''F''), (''0KSKF('', CHR ''F''), (''0KSKNU'', CHR ''F''), (''0KSKSO'', CHR ''F''),
      (''0KSKSU'', CHR ''F''), (''0KSKVO'', CHR ''F''), (''0KSKVU'', CHR ''F''), (''0KSO(1'', CHR ''F''),
      (''0KSO(F'', CHR ''F''), (''0KSO(N'', CHR ''F''), (''0KSO(S'', CHR ''F''), (''0KSO(V'', CHR ''F''),
      (''0KSO1('', CHR ''F''), (''0KSO1,'', CHR ''F''), (''0KSO1A'', CHR ''F''), (''0KSO1F'', CHR ''F''),
      (''0KSO1K'', CHR ''F''), (''0KSO1N'', CHR ''F''), (''0KSO1S'', CHR ''F''), (''0KSO1V'', CHR ''F''),
      (''0KSOF('', CHR ''F''), (''0KSON('', CHR ''F''), (''0KSON,'', CHR ''F''), (''0KSON1'', CHR ''F''),
      (''0KSONA'', CHR ''F''), (''0KSONF'', CHR ''F''), (''0KSONK'', CHR ''F''), (''0KSOS('', CHR ''F''),
      (''0KSOS,'', CHR ''F''), (''0KSOS1'', CHR ''F''), (''0KSOSA'', CHR ''F''), (''0KSOSF'', CHR ''F''),
      (''0KSOSK'', CHR ''F''), (''0KSOSV'', CHR ''F''), (''0KSOV('', CHR ''F''), (''0KSOV,'', CHR ''F''),
      (''0KSOVA'', CHR ''F''), (''0KSOVF'', CHR ''F''), (''0KSOVK'', CHR ''F''), (''0KSOVO'', CHR ''F''),
      (''0KSOVS'', CHR ''F''), (''0KV,(1'', CHR ''F''), (''0KV,(F'', CHR ''F''), (''0KV,(N'', CHR ''F''),
      (''0KV,(S'', CHR ''F''), (''0KV,(V'', CHR ''F''), (''0KV,F('', CHR ''F''), (''0KVA(F'', CHR ''F''),
      (''0KVA(N'', CHR ''F''), (''0KVA(S'', CHR ''F''), (''0KVA(V'', CHR ''F''), (''0KVAF('', CHR ''F''),
      (''0KVASO'', CHR ''F''), (''0KVAVO'', CHR ''F''), (''0KVK(1'', CHR ''F''), (''0KVK(F'', CHR ''F''),
      (''0KVK(N'', CHR ''F''), (''0KVK(S'', CHR ''F''), (''0KVK(V'', CHR ''F''), (''0KVK1O'', CHR ''F''),
      (''0KVK1U'', CHR ''F''), (''0KVKF('', CHR ''F''), (''0KVKNU'', CHR ''F''), (''0KVKSO'', CHR ''F''),
      (''0KVKSU'', CHR ''F''), (''0KVKVO'', CHR ''F''), (''0KVKVU'', CHR ''F''), (''0KVO(1'', CHR ''F''),
      (''0KVO(F'', CHR ''F''), (''0KVO(N'', CHR ''F''), (''0KVO(S'', CHR ''F''), (''0KVO(V'', CHR ''F''),
      (''0KVOF('', CHR ''F''), (''0KVOS('', CHR ''F''), (''0KVOS,'', CHR ''F''), (''0KVOS1'', CHR ''F''),
      (''0KVOSA'', CHR ''F''), (''0KVOSF'', CHR ''F''), (''0KVOSK'', CHR ''F''), (''0KVOSV'', CHR ''F''),
      (''0N&(1&'', CHR ''F''), (''0N&(1)'', CHR ''F''), (''0N&(1,'', CHR ''F''), (''0N&(1O'', CHR ''F''),
      (''0N&(E('', CHR ''F''), (''0N&(E1'', CHR ''F''), (''0N&(EF'', CHR ''F''), (''0N&(EK'', CHR ''F''),
      (''0N&(EN'', CHR ''F''), (''0N&(EO'', CHR ''F''), (''0N&(ES'', CHR ''F''), (''0N&(EV'', CHR ''F''),
      (''0N&(F('', CHR ''F''), (''0N&(N&'', CHR ''F'')]"

definition sql_keywords_23 :: "keyword list" where
  "sql_keywords_23 =
     [(''0N&(N)'', CHR ''F''), (''0N&(N,'', CHR ''F''), (''0N&(NO'', CHR ''F''), (''0N&(S&'', CHR ''F''),
      (''0N&(S)'', CHR ''F''), (''0N&(S,'', CHR ''F''), (''0N&(SO'', CHR ''F''), (''0N&(V&'', CHR ''F''),
      (''0N&(V)'', CHR ''F''), (''0N&(V,'', CHR ''F''), (''0N&(VO'', CHR ''F''), (''0N&1'', CHR ''F''),
      (''0N&1&('', CHR ''F''), (''0N&1&1'', CHR ''F''), (''0N&1&F'', CHR ''F''), (''0N&1&N'', CHR ''F''),
      (''0N&1&S'', CHR ''F''), (''0N&1&V'', CHR ''F''), (''0N&1)&'', CHR ''F''), (''0N&1)C'', CHR ''F''),
      (''0N&1)O'', CHR ''F''), (''0N&1)U'', CHR ''F''), (''0N&1;'', CHR ''F''), (''0N&1;C'', CHR ''F''),
      (''0N&1;E'', CHR ''F''), (''0N&1;T'', CHR ''F''), (''0N&1B('', CHR ''F''), (''0N&1B1'', CHR ''F''),
      (''0N&1BF'', CHR ''F''), (''0N&1BN'', CHR ''F''), (''0N&1BS'', CHR ''F''), (''0N&1BV'', CHR ''F''),
      (''0N&1C'', CHR ''F''), (''0N&1EK'', CHR ''F''), (''0N&1EN'', CHR ''F''), (''0N&1F('', CHR ''F''),
      (''0N&1K('', CHR ''F''), (''0N&1K1'', CHR ''F''), (''0N&1KF'', CHR ''F''), (''0N&1KN'', CHR ''F''),
      (''0N&1KS'', CHR ''F''), (''0N&1KV'', CHR ''F''), (''0N&1O('', CHR ''F''), (''0N&1OF'', CHR ''F''),
      (''0N&1OS'', CHR ''F''), (''0N&1OV'', CHR ''F''), (''0N&1TN'', CHR ''F''), (''0N&1U'', CHR ''F''),
      (''0N&1U('', CHR ''F''), (''0N&1U;'', CHR ''F''), (''0N&1UC'', CHR ''F''), (''0N&1UE'', CHR ''F''),
      (''0N&E(1'', CHR ''F''), (''0N&E(F'', CHR ''F''), (''0N&E(N'', CHR ''F''), (''0N&E(O'', CHR ''F''),
      (''0N&E(S'', CHR ''F''), (''0N&E(V'', CHR ''F''), (''0N&E1'', CHR ''F''), (''0N&E1;'', CHR ''F''),
      (''0N&E1C'', CHR ''F''), (''0N&E1K'', CHR ''F''), (''0N&E1O'', CHR ''F''), (''0N&EF('', CHR ''F''),
      (''0N&EK('', CHR ''F''), (''0N&EK1'', CHR ''F''), (''0N&EKF'', CHR ''F''), (''0N&EKN'', CHR ''F''),
      (''0N&EKS'', CHR ''F''), (''0N&EKV'', CHR ''F''), (''0N&EN;'', CHR ''F''), (''0N&ENC'', CHR ''F''),
      (''0N&ENK'', CHR ''F''), (''0N&ENO'', CHR ''F''), (''0N&ES'', CHR ''F''), (''0N&ES;'', CHR ''F''),
      (''0N&ESC'', CHR ''F''), (''0N&ESK'', CHR ''F''), (''0N&ESO'', CHR ''F''), (''0N&EV'', CHR ''F''),
      (''0N&EV;'', CHR ''F''), (''0N&EVC'', CHR ''F''), (''0N&EVK'', CHR ''F''), (''0N&EVO'', CHR ''F''),
      (''0N&F()'', CHR ''F''), (''0N&F(1'', CHR ''F''), (''0N&F(E'', CHR ''F''), (''0N&F(F'', CHR ''F''),
      (''0N&F(N'', CHR ''F''), (''0N&F(S'', CHR ''F''), (''0N&F(V'', CHR ''F''), (''0N&K&('', CHR ''F''),
      (''0N&K&1'', CHR ''F''), (''0N&K&F'', CHR ''F''), (''0N&K&N'', CHR ''F''), (''0N&K&S'', CHR ''F''),
      (''0N&K&V'', CHR ''F''), (''0N&K(1'', CHR ''F''), (''0N&K(F'', CHR ''F''), (''0N&K(N'', CHR ''F''),
      (''0N&K(S'', CHR ''F''), (''0N&K(V'', CHR ''F''), (''0N&K1O'', CHR ''F''), (''0N&KC'', CHR ''F''),
      (''0N&KF('', CHR ''F''), (''0N&KNK'', CHR ''F''), (''0N&KO('', CHR ''F''), (''0N&KO1'', CHR ''F''),
      (''0N&KOF'', CHR ''F''), (''0N&KOK'', CHR ''F''), (''0N&KON'', CHR ''F''), (''0N&KOS'', CHR ''F''),
      (''0N&KOV'', CHR ''F''), (''0N&KSO'', CHR ''F''), (''0N&KVO'', CHR ''F''), (''0N&N&('', CHR ''F''),
      (''0N&N&1'', CHR ''F''), (''0N&N&F'', CHR ''F''), (''0N&N&S'', CHR ''F''), (''0N&N&V'', CHR ''F''),
      (''0N&N)&'', CHR ''F''), (''0N&N)C'', CHR ''F''), (''0N&N)O'', CHR ''F''), (''0N&N)U'', CHR ''F''),
      (''0N&N;C'', CHR ''F''), (''0N&N;E'', CHR ''F''), (''0N&N;T'', CHR ''F''), (''0N&NB('', CHR ''F''),
      (''0N&NB1'', CHR ''F''), (''0N&NBF'', CHR ''F''), (''0N&NBS'', CHR ''F''), (''0N&NBV'', CHR ''F''),
      (''0N&NF('', CHR ''F''), (''0N&NK('', CHR ''F''), (''0N&NK1'', CHR ''F''), (''0N&NKF'', CHR ''F''),
      (''0N&NKS'', CHR ''F''), (''0N&NKV'', CHR ''F''), (''0N&NO('', CHR ''F''), (''0N&NOF'', CHR ''F''),
      (''0N&NOS'', CHR ''F''), (''0N&NOV'', CHR ''F''), (''0N&NU'', CHR ''F''), (''0N&NU('', CHR ''F''),
      (''0N&NU;'', CHR ''F''), (''0N&NUC'', CHR ''F''), (''0N&NUE'', CHR ''F''), (''0N&S&('', CHR ''F''),
      (''0N&S&1'', CHR ''F''), (''0N&S&F'', CHR ''F'')]"

definition sql_keywords_24 :: "keyword list" where
  "sql_keywords_24 =
     [(''0N&S&N'', CHR ''F''), (''0N&S&S'', CHR ''F''), (''0N&S&V'', CHR ''F''), (''0N&S)&'', CHR ''F''),
      (''0N&S)C'', CHR ''F''), (''0N&S)O'', CHR ''F''), (''0N&S)U'', CHR ''F''), (''0N&S1'', CHR ''F''),
      (''0N&S1;'', CHR ''F''), (''0N&S1C'', CHR ''F''), (''0N&S;'', CHR ''F''), (''0N&S;C'', CHR ''F''),
      (''0N&S;E'', CHR ''F''), (''0N&S;T'', CHR ''F''), (''0N&SB('', CHR ''F''), (''0N&SB1'', CHR ''F''),
      (''0N&SBF'', CHR ''F''), (''0N&SBN'', CHR ''F''), (''0N&SBS'', CHR ''F''), (''0N&SBV'', CHR ''F''),
      (''0N&SC'', CHR ''F''), (''0N&SEK'', CHR ''F''), (''0N&SEN'', CHR ''F''), (''0N&SF('', CHR ''F''),
      (''0N&SK('', CHR ''F''), (''0N&SK1'', CHR ''F''), (''0N&SKF'', CHR ''F''), (''0N&SKN'', CHR ''F''),
      (''0N&SKS'', CHR ''F''), (''0N&SKV'', CHR ''F''), (''0N&SO('', CHR ''F''), (''0N&SO1'', CHR ''F''),
      (''0N&SOF'', CHR ''F''), (''0N&SON'', CHR ''F''), (''0N&SOS'', CHR ''F''), (''0N&SOV'', CHR ''F''),
      (''0N&STN'', CHR ''F''), (''0N&SU'', CHR ''F''), (''0N&SU('', CHR ''F''), (''0N&SU;'', CHR ''F''),
      (''0N&SUC'', CHR ''F''), (''0N&SUE'', CHR ''F''), (''0N&SV'', CHR ''F''), (''0N&SV;'', CHR ''F''),
      (''0N&SVC'', CHR ''F''), (''0N&SVO'', CHR ''F''), (''0N&V'', CHR ''F''), (''0N&V&('', CHR ''F''),
      (''0N&V&1'', CHR ''F''), (''0N&V&F'', CHR ''F''), (''0N&V&N'', CHR ''F''), (''0N&V&S'', CHR ''F''),
      (''0N&V&V'', CHR ''F''), (''0N&V)&'', CHR ''F''), (''0N&V)C'', CHR ''F''), (''0N&V)O'', CHR ''F''),
      (''0N&V)U'', CHR ''F''), (''0N&V;'', CHR ''F''), (''0N&V;C'', CHR ''F''), (''0N&V;E'', CHR ''F''),
      (''0N&V;T'', CHR ''F''), (''0N&VB('', CHR ''F''), (''0N&VB1'', CHR ''F''), (''0N&VBF'', CHR ''F''),
      (''0N&VBN'', CHR ''F''), (''0N&VBS'', CHR ''F''), (''0N&VBV'', CHR ''F''), (''0N&VC'', CHR ''F''),
      (''0N&VEK'', CHR ''F''), (''0N&VEN'', CHR ''F''), (''0N&VF('', CHR ''F''), (''0N&VK('', CHR ''F''),
      (''0N&VK1'', CHR ''F''), (''0N&VKF'', CHR ''F''), (''0N&VKN'', CHR ''F''), (''0N&VKS'', CHR ''F''),
      (''0N&VKV'', CHR ''F''), (''0N&VO('', CHR ''F''), (''0N&VOF'', CHR ''F''), (''0N&VOS'', CHR ''F''),
      (''0N&VS'', CHR ''F''), (''0N&VS;'', CHR ''F''), (''0N&VSC'', CHR ''F''), (''0N&VSO'', CHR ''F''),
      (''0N&VTN'', CHR ''F''), (''0N&VU'', CHR ''F''), (''0N&VU('', CHR ''F''), (''0N&VU;'', CHR ''F''),
      (''0N&VUC'', CHR ''F''), (''0N&VUE'', CHR ''F''), (''0N)&(1'', CHR ''F''), (''0N)&(E'', CHR ''F''),
      (''0N)&(F'', CHR ''F''), (''0N)&(N'', CHR ''F''), (''0N)&(S'', CHR ''F''), (''0N)&(V'', CHR ''F''),
      (''0N)&1'', CHR ''F''), (''0N)&1&'', CHR ''F''), (''0N)&1)'', CHR ''F''), (''0N)&1;'', CHR ''F''),
      (''0N)&1B'', CHR ''F''), (''0N)&1C'', CHR ''F''), (''0N)&1F'', CHR ''F''), (''0N)&1O'', CHR ''F''),
      (''0N)&1U'', CHR ''F''), (''0N)&F('', CHR ''F''), (''0N)&N'', CHR ''F''), (''0N)&N&'', CHR ''F''),
      (''0N)&N)'', CHR ''F''), (''0N)&N;'', CHR ''F''), (''0N)&NB'', CHR ''F''), (''0N)&NC'', CHR ''F''),
      (''0N)&NF'', CHR ''F''), (''0N)&NO'', CHR ''F''), (''0N)&NU'', CHR ''F''), (''0N)&S'', CHR ''F''),
      (''0N)&S&'', CHR ''F''), (''0N)&S)'', CHR ''F''), (''0N)&S;'', CHR ''F''), (''0N)&SB'', CHR ''F''),
      (''0N)&SC'', CHR ''F''), (''0N)&SF'', CHR ''F''), (''0N)&SO'', CHR ''F''), (''0N)&SU'', CHR ''F''),
      (''0N)&V'', CHR ''F''), (''0N)&V&'', CHR ''F''), (''0N)&V)'', CHR ''F''), (''0N)&V;'', CHR ''F''),
      (''0N)&VB'', CHR ''F''), (''0N)&VC'', CHR ''F''), (''0N)&VF'', CHR ''F''), (''0N)&VO'', CHR ''F''),
      (''0N)&VU'', CHR ''F''), (''0N),(1'', CHR ''F''), (''0N),(F'', CHR ''F''), (''0N),(N'', CHR ''F''),
      (''0N),(S'', CHR ''F''), (''0N),(V'', CHR ''F''), (''0N);E('', CHR ''F''), (''0N);E1'', CHR ''F''),
      (''0N);EF'', CHR ''F''), (''0N);EK'', CHR ''F''), (''0N);EN'', CHR ''F''), (''0N);EO'', CHR ''F''),
      (''0N);ES'', CHR ''F''), (''0N);EV'', CHR ''F''), (''0N);T('', CHR ''F''), (''0N);T1'', CHR ''F''),
      (''0N);TF'', CHR ''F''), (''0N);TK'', CHR ''F'')]"

definition sql_keywords_25 :: "keyword list" where
  "sql_keywords_25 =
     [(''0N);TN'', CHR ''F''), (''0N);TO'', CHR ''F''), (''0N);TS'', CHR ''F''), (''0N);TV'', CHR ''F''),
      (''0N)B(1'', CHR ''F''), (''0N)B(F'', CHR ''F''), (''0N)B(N'', CHR ''F''), (''0N)B(S'', CHR ''F''),
      (''0N)B(V'', CHR ''F''), (''0N)B1'', CHR ''F''), (''0N)B1&'', CHR ''F''), (''0N)B1;'', CHR ''F''),
      (''0N)B1C'', CHR ''F''), (''0N)B1K'', CHR ''F''), (''0N)B1N'', CHR ''F''), (''0N)B1O'', CHR ''F''),
      (''0N)B1U'', CHR ''F''), (''0N)BF('', CHR ''F''), (''0N)BN'', CHR ''F''), (''0N)BN&'', CHR ''F''),
      (''0N)BN;'', CHR ''F''), (''0N)BNC'', CHR ''F''), (''0N)BNK'', CHR ''F''), (''0N)BNO'', CHR ''F''),
      (''0N)BNU'', CHR ''F''), (''0N)BS'', CHR ''F''), (''0N)BS&'', CHR ''F''), (''0N)BS;'', CHR ''F''),
      (''0N)BSC'', CHR ''F''), (''0N)BSK'', CHR ''F''), (''0N)BSO'', CHR ''F''), (''0N)BSU'', CHR ''F''),
      (''0N)BV'', CHR ''F''), (''0N)BV&'', CHR ''F''), (''0N)BV;'', CHR ''F''), (''0N)BVC'', CHR ''F''),
      (''0N)BVK'', CHR ''F''), (''0N)BVO'', CHR ''F''), (''0N)BVU'', CHR ''F''), (''0N)E(1'', CHR ''F''),
      (''0N)E(F'', CHR ''F''), (''0N)E(N'', CHR ''F''), (''0N)E(S'', CHR ''F''), (''0N)E(V'', CHR ''F''),
      (''0N)E1C'', CHR ''F''), (''0N)E1O'', CHR ''F''), (''0N)EF('', CHR ''F''), (''0N)EK('', CHR ''F''),
      (''0N)EK1'', CHR ''F''), (''0N)EKF'', CHR ''F''), (''0N)EKN'', CHR ''F''), (''0N)EKS'', CHR ''F''),
      (''0N)EKV'', CHR ''F''), (''0N)ENC'', CHR ''F''), (''0N)ENO'', CHR ''F''), (''0N)ESC'', CHR ''F''),
      (''0N)ESO'', CHR ''F''), (''0N)EVC'', CHR ''F''), (''0N)EVO'', CHR ''F''), (''0N)F(F'', CHR ''F''),
      (''0N)K(1'', CHR ''F''), (''0N)K(F'', CHR ''F''), (''0N)K(N'', CHR ''F''), (''0N)K(S'', CHR ''F''),
      (''0N)K(V'', CHR ''F''), (''0N)K1&'', CHR ''F''), (''0N)K1;'', CHR ''F''), (''0N)K1B'', CHR ''F''),
      (''0N)K1E'', CHR ''F''), (''0N)K1O'', CHR ''F''), (''0N)K1U'', CHR ''F''), (''0N)KB('', CHR ''F''),
      (''0N)KB1'', CHR ''F''), (''0N)KBF'', CHR ''F''), (''0N)KBN'', CHR ''F''), (''0N)KBS'', CHR ''F''),
      (''0N)KBV'', CHR ''F''), (''0N)KF('', CHR ''F''), (''0N)KN&'', CHR ''F''), (''0N)KN;'', CHR ''F''),
      (''0N)KNB'', CHR ''F''), (''0N)KNC'', CHR ''F''), (''0N)KNE'', CHR ''F''), (''0N)KNK'', CHR ''F''),
      (''0N)KNU'', CHR ''F''), (''0N)KS&'', CHR ''F''), (''0N)KS;'', CHR ''F''), (''0N)KSB'', CHR ''F''),
      (''0N)KSE'', CHR ''F''), (''0N)KSO'', CHR ''F''), (''0N)KSU'', CHR ''F''), (''0N)KUE'', CHR ''F''),
      (''0N)KV&'', CHR ''F''), (''0N)KV;'', CHR ''F''), (''0N)KVB'', CHR ''F''), (''0N)KVE'', CHR ''F''),
      (''0N)KVO'', CHR ''F''), (''0N)KVU'', CHR ''F''), (''0N)O(1'', CHR ''F''), (''0N)O(E'', CHR ''F''),
      (''0N)O(F'', CHR ''F''), (''0N)O(N'', CHR ''F''), (''0N)O(S'', CHR ''F''), (''0N)O(V'', CHR ''F''),
      (''0N)O1&'', CHR ''F''), (''0N)O1)'', CHR ''F''), (''0N)O1;'', CHR ''F''), (''0N)O1B'', CHR ''F''),
      (''0N)O1C'', CHR ''F''), (''0N)O1K'', CHR ''F''), (''0N)O1U'', CHR ''F''), (''0N)OF('', CHR ''F''),
      (''0N)ON&'', CHR ''F''), (''0N)ON)'', CHR ''F''), (''0N)ON;'', CHR ''F''), (''0N)ONB'', CHR ''F''),
      (''0N)ONC'', CHR ''F''), (''0N)ONK'', CHR ''F''), (''0N)ONU'', CHR ''F''), (''0N)OS'', CHR ''F''),
      (''0N)OS&'', CHR ''F''), (''0N)OS)'', CHR ''F''), (''0N)OS;'', CHR ''F''), (''0N)OSB'', CHR ''F''),
      (''0N)OSC'', CHR ''F''), (''0N)OSK'', CHR ''F''), (''0N)OSU'', CHR ''F''), (''0N)OV'', CHR ''F''),
      (''0N)OV&'', CHR ''F''), (''0N)OV)'', CHR ''F''), (''0N)OV;'', CHR ''F''), (''0N)OVB'', CHR ''F''),
      (''0N)OVC'', CHR ''F''), (''0N)OVK'', CHR ''F''), (''0N)OVO'', CHR ''F''), (''0N)OVU'', CHR ''F''),
      (''0N)U(E'', CHR ''F''), (''0N)UE('', CHR ''F''), (''0N)UE1'', CHR ''F''), (''0N)UEF'', CHR ''F''),
      (''0N)UEK'', CHR ''F''), (''0N)UEN'', CHR ''F''), (''0N)UES'', CHR ''F''), (''0N)UEV'', CHR ''F''),
      (''0N,(1)'', CHR ''F''), (''0N,(1O'', CHR ''F''), (''0N,(E('', CHR ''F''), (''0N,(E1'', CHR ''F''),
      (''0N,(EF'', CHR ''F''), (''0N,(EK'', CHR ''F'')]"

definition sql_keywords_26 :: "keyword list" where
  "sql_keywords_26 =
     [(''0N,(EN'', CHR ''F''), (''0N,(ES'', CHR ''F''), (''0N,(EV'', CHR ''F''), (''0N,(F('', CHR ''F''),
      (''0N,(NO'', CHR ''F''), (''0N,(S)'', CHR ''F''), (''0N,(SO'', CHR ''F''), (''0N,(V)'', CHR ''F''),
      (''0N,(VO'', CHR ''F''), (''0N,F()'', CHR ''F''), (''0N,F(1'', CHR ''F''), (''0N,F(F'', CHR ''F''),
      (''0N,F(N'', CHR ''F''), (''0N,F(S'', CHR ''F''), (''0N,F(V'', CHR ''F''), (''0N1O(1'', CHR ''F''),
      (''0N1O(F'', CHR ''F''), (''0N1O(N'', CHR ''F''), (''0N1O(S'', CHR ''F''), (''0N1O(V'', CHR ''F''),
      (''0N1OF('', CHR ''F''), (''0N1OS('', CHR ''F''), (''0N1OS1'', CHR ''F''), (''0N1OSF'', CHR ''F''),
      (''0N1OSU'', CHR ''F''), (''0N1OSV'', CHR ''F''), (''0N1OV('', CHR ''F''), (''0N1OVF'', CHR ''F''),
      (''0N1OVO'', CHR ''F''), (''0N1OVS'', CHR ''F''), (''0N1OVU'', CHR ''F''), (''0N1S;'', CHR ''F''),
      (''0N1S;C'', CHR ''F''), (''0N1SC'', CHR ''F''), (''0N1UE'', CHR ''F''), (''0N1UE;'', CHR ''F''),
      (''0N1UEC'', CHR ''F''), (''0N1UEK'', CHR ''F''), (''0N1V;'', CHR ''F''), (''0N1V;C'', CHR ''F''),
      (''0N1VC'', CHR ''F''), (''0N1VO('', CHR ''F''), (''0N1VOF'', CHR ''F''), (''0N1VOS'', CHR ''F''),
      (''0N;E(1'', CHR ''F''), (''0N;E(E'', CHR ''F''), (''0N;E(F'', CHR ''F''), (''0N;E(N'', CHR ''F''),
      (''0N;E(S'', CHR ''F''), (''0N;E(V'', CHR ''F''), (''0N;E1,'', CHR ''F''), (''0N;E1;'', CHR ''F''),
      (''0N;E1C'', CHR ''F''), (''0N;E1K'', CHR ''F''), (''0N;E1O'', CHR ''F''), (''0N;E1T'', CHR ''F''),
      (''0N;EF('', CHR ''F''), (''0N;EK('', CHR ''F''), (''0N;EK1'', CHR ''F''), (''0N;EKF'', CHR ''F''),
      (''0N;EKN'', CHR ''F''), (''0N;EKO'', CHR ''F''), (''0N;EKS'', CHR ''F''), (''0N;EKV'', CHR ''F''),
      (''0N;EN,'', CHR ''F''), (''0N;EN;'', CHR ''F''), (''0N;ENC'', CHR ''F''), (''0N;ENE'', CHR ''F''),
      (''0N;ENK'', CHR ''F''), (''0N;ENO'', CHR ''F''), (''0N;ENT'', CHR ''F''), (''0N;ES,'', CHR ''F''),
      (''0N;ES;'', CHR ''F''), (''0N;ESC'', CHR ''F''), (''0N;ESK'', CHR ''F''), (''0N;ESO'', CHR ''F''),
      (''0N;EST'', CHR ''F''), (''0N;EV,'', CHR ''F''), (''0N;EV;'', CHR ''F''), (''0N;EVC'', CHR ''F''),
      (''0N;EVK'', CHR ''F''), (''0N;EVO'', CHR ''F''), (''0N;EVT'', CHR ''F''), (''0N;N:T'', CHR ''F''),
      (''0N;T(1'', CHR ''F''), (''0N;T(C'', CHR ''F''), (''0N;T(E'', CHR ''F''), (''0N;T(F'', CHR ''F''),
      (''0N;T(N'', CHR ''F''), (''0N;T(S'', CHR ''F''), (''0N;T(V'', CHR ''F''), (''0N;T1('', CHR ''F''),
      (''0N;T1,'', CHR ''F''), (''0N;T1;'', CHR ''F''), (''0N;T1C'', CHR ''F''), (''0N;T1F'', CHR ''F''),
      (''0N;T1K'', CHR ''F''), (''0N;T1O'', CHR ''F''), (''0N;T1T'', CHR ''F''), (''0N;T;'', CHR ''F''),
      (''0N;T;C'', CHR ''F''), (''0N;TF('', CHR ''F''), (''0N;TK('', CHR ''F''), (''0N;TK1'', CHR ''F''),
      (''0N;TKF'', CHR ''F''), (''0N;TKK'', CHR ''F''), (''0N;TKO'', CHR ''F''), (''0N;TKS'', CHR ''F''),
      (''0N;TKV'', CHR ''F''), (''0N;TN('', CHR ''F''), (''0N;TN,'', CHR ''F''), (''0N;TN1'', CHR ''F''),
      (''0N;TN;'', CHR ''F''), (''0N;TNC'', CHR ''F''), (''0N;TNE'', CHR ''F''), (''0N;TNF'', CHR ''F''),
      (''0N;TNK'', CHR ''F''), (''0N;TNN'', CHR ''F''), (''0N;TNO'', CHR ''F''), (''0N;TNS'', CHR ''F''),
      (''0N;TNT'', CHR ''F''), (''0N;TNV'', CHR ''F''), (''0N;TO('', CHR ''F''), (''0N;TS('', CHR ''F''),
      (''0N;TS,'', CHR ''F''), (''0N;TS;'', CHR ''F''), (''0N;TSC'', CHR ''F''), (''0N;TSF'', CHR ''F''),
      (''0N;TSK'', CHR ''F''), (''0N;TSO'', CHR ''F''), (''0N;TST'', CHR ''F''), (''0N;TTN'', CHR ''F''),
      (''0N;TV('', CHR ''F''), (''0N;TV,'', CHR ''F''), (''0N;TV;'', CHR ''F''), (''0N;TVC'', CHR ''F''),
      (''0N;TVF'', CHR ''F''), (''0N;TVK'', CHR ''F''), (''0N;TVO'', CHR ''F''), (''0N;TVT'', CHR ''F''),
      (''0NA(F('', CHR ''F''), (''0NA(N)'', CHR ''F''), (''0NA(NO'', CHR ''F''), (''0NA(S)'', CHR ''F''),
      (''0NA(SO'', CHR ''F''), (''0NA(V)'', CHR ''F''), (''0NA(VO'', CHR ''F''), (''0NAF()'', CHR ''F''),
      (''0NAF(1'', CHR ''F''), (''0NAF(F'', CHR ''F'')]"

definition sql_keywords_27 :: "keyword list" where
  "sql_keywords_27 =
     [(''0NAF(N'', CHR ''F''), (''0NAF(S'', CHR ''F''), (''0NAF(V'', CHR ''F''), (''0NASO('', CHR ''F''),
      (''0NASO1'', CHR ''F''), (''0NASOF'', CHR ''F''), (''0NASON'', CHR ''F''), (''0NASOS'', CHR ''F''),
      (''0NASOV'', CHR ''F''), (''0NASUE'', CHR ''F''), (''0NATO('', CHR ''F''), (''0NATO1'', CHR ''F''),
      (''0NATOF'', CHR ''F''), (''0NATON'', CHR ''F''), (''0NATOS'', CHR ''F''), (''0NATOV'', CHR ''F''),
      (''0NATUE'', CHR ''F''), (''0NAVO('', CHR ''F''), (''0NAVOF'', CHR ''F''), (''0NAVOS'', CHR ''F''),
      (''0NAVUE'', CHR ''F''), (''0NB(1&'', CHR ''F''), (''0NB(1)'', CHR ''F''), (''0NB(1O'', CHR ''F''),
      (''0NB(F('', CHR ''F''), (''0NB(N&'', CHR ''F''), (''0NB(NO'', CHR ''F''), (''0NB(S&'', CHR ''F''),
      (''0NB(S)'', CHR ''F''), (''0NB(SO'', CHR ''F''), (''0NB(V&'', CHR ''F''), (''0NB(V)'', CHR ''F''),
      (''0NB(VO'', CHR ''F''), (''0NB1'', CHR ''F''), (''0NB1&('', CHR ''F''), (''0NB1&1'', CHR ''F''),
      (''0NB1&F'', CHR ''F''), (''0NB1&N'', CHR ''F''), (''0NB1&S'', CHR ''F''), (''0NB1&V'', CHR ''F''),
      (''0NB1,('', CHR ''F''), (''0NB1,F'', CHR ''F''), (''0NB1;'', CHR ''F''), (''0NB1;C'', CHR ''F''),
      (''0NB1B('', CHR ''F''), (''0NB1B1'', CHR ''F''), (''0NB1BF'', CHR ''F''), (''0NB1BN'', CHR ''F''),
      (''0NB1BS'', CHR ''F''), (''0NB1BV'', CHR ''F''), (''0NB1C'', CHR ''F''), (''0NB1K('', CHR ''F''),
      (''0NB1K1'', CHR ''F''), (''0NB1KF'', CHR ''F''), (''0NB1KN'', CHR ''F''), (''0NB1KS'', CHR ''F''),
      (''0NB1KV'', CHR ''F''), (''0NB1O('', CHR ''F''), (''0NB1OF'', CHR ''F''), (''0NB1OS'', CHR ''F''),
      (''0NB1OV'', CHR ''F''), (''0NB1U('', CHR ''F''), (''0NB1UE'', CHR ''F''), (''0NBE(1'', CHR ''F''),
      (''0NBE(F'', CHR ''F''), (''0NBE(N'', CHR ''F''), (''0NBE(S'', CHR ''F''), (''0NBE(V'', CHR ''F''),
      (''0NBEK('', CHR ''F''), (''0NBF()'', CHR ''F''), (''0NBF(1'', CHR ''F''), (''0NBF(F'', CHR ''F''),
      (''0NBF(N'', CHR ''F''), (''0NBF(S'', CHR ''F''), (''0NBF(V'', CHR ''F''), (''0NBN&('', CHR ''F''),
      (''0NBN&1'', CHR ''F''), (''0NBN&F'', CHR ''F''), (''0NBN&N'', CHR ''F''), (''0NBN&S'', CHR ''F''),
      (''0NBN&V'', CHR ''F''), (''0NBN,('', CHR ''F''), (''0NBN,F'', CHR ''F''), (''0NBN;'', CHR ''F''),
      (''0NBN;C'', CHR ''F''), (''0NBNB('', CHR ''F''), (''0NBNB1'', CHR ''F''), (''0NBNBF'', CHR ''F''),
      (''0NBNBN'', CHR ''F''), (''0NBNBS'', CHR ''F''), (''0NBNBV'', CHR ''F''), (''0NBNC'', CHR ''F''),
      (''0NBNK('', CHR ''F''), (''0NBNK1'', CHR ''F''), (''0NBNKF'', CHR ''F''), (''0NBNKN'', CHR ''F''),
      (''0NBNKS'', CHR ''F''), (''0NBNKV'', CHR ''F''), (''0NBNO('', CHR ''F''), (''0NBNOF'', CHR ''F''),
      (''0NBNOS'', CHR ''F''), (''0NBNOV'', CHR ''F''), (''0NBNU('', CHR ''F''), (''0NBNUE'', CHR ''F''),
      (''0NBS'', CHR ''F''), (''0NBS&('', CHR ''F''), (''0NBS&1'', CHR ''F''), (''0NBS&F'', CHR ''F''),
      (''0NBS&N'', CHR ''F''), (''0NBS&S'', CHR ''F''), (''0NBS&V'', CHR ''F''), (''0NBS,('', CHR ''F''),
      (''0NBS,F'', CHR ''F''), (''0NBS;'', CHR ''F''), (''0NBS;C'', CHR ''F''), (''0NBSB('', CHR ''F''),
      (''0NBSB1'', CHR ''F''), (''0NBSBF'', CHR ''F''), (''0NBSBN'', CHR ''F''), (''0NBSBS'', CHR ''F''),
      (''0NBSBV'', CHR ''F''), (''0NBSC'', CHR ''F''), (''0NBSK('', CHR ''F''), (''0NBSK1'', CHR ''F''),
      (''0NBSKF'', CHR ''F''), (''0NBSKN'', CHR ''F''), (''0NBSKS'', CHR ''F''), (''0NBSKV'', CHR ''F''),
      (''0NBSO('', CHR ''F''), (''0NBSO1'', CHR ''F''), (''0NBSOF'', CHR ''F''), (''0NBSON'', CHR ''F''),
      (''0NBSOS'', CHR ''F''), (''0NBSOV'', CHR ''F''), (''0NBSU('', CHR ''F''), (''0NBSUE'', CHR ''F''),
      (''0NBV'', CHR ''F''), (''0NBV&('', CHR ''F''), (''0NBV&1'', CHR ''F''), (''0NBV&F'', CHR ''F''),
      (''0NBV&N'', CHR ''F''), (''0NBV&S'', CHR ''F''), (''0NBV&V'', CHR ''F''), (''0NBV,('', CHR ''F''),
      (''0NBV,F'', CHR ''F''), (''0NBV;'', CHR ''F''), (''0NBV;C'', CHR ''F''), (''0NBVB('', CHR ''F''),
      (''0NBVB1'', CHR ''F''), (''0NBVBF'', CHR ''F'')]"

definition sql_keywords_28 :: "keyword list" where
  "sql_keywords_28 =
     [(''0NBVBN'', CHR ''F''), (''0NBVBS'', CHR ''F''), (''0NBVBV'', CHR ''F''), (''0NBVC'', CHR ''F''),
      (''0NBVK('', CHR ''F''), (''0NBVK1'', CHR ''F''), (''0NBVKF'', CHR ''F''), (''0NBVKN'', CHR ''F''),
      (''0NBVKS'', CHR ''F''), (''0NBVKV'', CHR ''F''), (''0NBVO('', CHR ''F''), (''0NBVOF'', CHR ''F''),
      (''0NBVOS'', CHR ''F''), (''0NBVU('', CHR ''F''), (''0NBVUE'', CHR ''F''), (''0NC'', CHR ''F''),
      (''0NE(1)'', CHR ''F''), (''0NE(1O'', CHR ''F''), (''0NE(F('', CHR ''F''), (''0NE(N)'', CHR ''F''),
      (''0NE(NO'', CHR ''F''), (''0NE(S)'', CHR ''F''), (''0NE(SO'', CHR ''F''), (''0NE(V)'', CHR ''F''),
      (''0NE(VO'', CHR ''F''), (''0NE1;T'', CHR ''F''), (''0NE1C'', CHR ''F''), (''0NE1O('', CHR ''F''),
      (''0NE1OF'', CHR ''F''), (''0NE1OS'', CHR ''F''), (''0NE1OV'', CHR ''F''), (''0NE1T('', CHR ''F''),
      (''0NE1T1'', CHR ''F''), (''0NE1TF'', CHR ''F''), (''0NE1TN'', CHR ''F''), (''0NE1TS'', CHR ''F''),
      (''0NE1TV'', CHR ''F''), (''0NE1UE'', CHR ''F''), (''0NEF()'', CHR ''F''), (''0NEF(1'', CHR ''F''),
      (''0NEF(F'', CHR ''F''), (''0NEF(N'', CHR ''F''), (''0NEF(S'', CHR ''F''), (''0NEF(V'', CHR ''F''),
      (''0NEN;T'', CHR ''F''), (''0NENO('', CHR ''F''), (''0NENOF'', CHR ''F''), (''0NENOS'', CHR ''F''),
      (''0NENOV'', CHR ''F''), (''0NENT('', CHR ''F''), (''0NENT1'', CHR ''F''), (''0NENTF'', CHR ''F''),
      (''0NENTN'', CHR ''F''), (''0NENTS'', CHR ''F''), (''0NENTV'', CHR ''F''), (''0NENUE'', CHR ''F''),
      (''0NEOKN'', CHR ''F''), (''0NES;T'', CHR ''F''), (''0NESC'', CHR ''F''), (''0NESO('', CHR ''F''),
      (''0NESO1'', CHR ''F''), (''0NESOF'', CHR ''F''), (''0NESON'', CHR ''F''), (''0NESOS'', CHR ''F''),
      (''0NESOV'', CHR ''F''), (''0NEST('', CHR ''F''), (''0NEST1'', CHR ''F''), (''0NESTF'', CHR ''F''),
      (''0NESTN'', CHR ''F''), (''0NESTS'', CHR ''F''), (''0NESTV'', CHR ''F''), (''0NESUE'', CHR ''F''),
      (''0NEU(1'', CHR ''F''), (''0NEU(F'', CHR ''F''), (''0NEU(N'', CHR ''F''), (''0NEU(S'', CHR ''F''),
      (''0NEU(V'', CHR ''F''), (''0NEU1,'', CHR ''F''), (''0NEU1C'', CHR ''F''), (''0NEU1O'', CHR ''F''),
      (''0NEUEF'', CHR ''F''), (''0NEUEK'', CHR ''F''), (''0NEUF('', CHR ''F''), (''0NEUS,'', CHR ''F''),
      (''0NEUSC'', CHR ''F''), (''0NEUSO'', CHR ''F''), (''0NEUV,'', CHR ''F''), (''0NEUVC'', CHR ''F''),
      (''0NEUVO'', CHR ''F''), (''0NEV;T'', CHR ''F''), (''0NEVC'', CHR ''F''), (''0NEVO('', CHR ''F''),
      (''0NEVOF'', CHR ''F''), (''0NEVOS'', CHR ''F''), (''0NEVT('', CHR ''F''), (''0NEVT1'', CHR ''F''),
      (''0NEVTF'', CHR ''F''), (''0NEVTN'', CHR ''F''), (''0NEVTS'', CHR ''F''), (''0NEVTV'', CHR ''F''),
      (''0NEVUE'', CHR ''F''), (''0NF()1'', CHR ''F''), (''0NF()F'', CHR ''F''), (''0NF()K'', CHR ''F''),
      (''0NF()N'', CHR ''F''), (''0NF()O'', CHR ''F''), (''0NF()S'', CHR ''F''), (''0NF()U'', CHR ''F''),
      (''0NF()V'', CHR ''F''), (''0NF(1)'', CHR ''F''), (''0NF(1O'', CHR ''F''), (''0NF(E('', CHR ''F''),
      (''0NF(E1'', CHR ''F''), (''0NF(EF'', CHR ''F''), (''0NF(EK'', CHR ''F''), (''0NF(EN'', CHR ''F''),
      (''0NF(ES'', CHR ''F''), (''0NF(EV'', CHR ''F''), (''0NF(F('', CHR ''F''), (''0NF(N,'', CHR ''F''),
      (''0NF(NO'', CHR ''F''), (''0NF(S)'', CHR ''F''), (''0NF(SO'', CHR ''F''), (''0NF(V)'', CHR ''F''),
      (''0NF(VO'', CHR ''F''), (''0NK(1)'', CHR ''F''), (''0NK(1O'', CHR ''F''), (''0NK(F('', CHR ''F''),
      (''0NK(NO'', CHR ''F''), (''0NK(S)'', CHR ''F''), (''0NK(SO'', CHR ''F''), (''0NK(V)'', CHR ''F''),
      (''0NK(VO'', CHR ''F''), (''0NK)&('', CHR ''F''), (''0NK)&1'', CHR ''F''), (''0NK)&F'', CHR ''F''),
      (''0NK)&N'', CHR ''F''), (''0NK)&S'', CHR ''F''), (''0NK)&V'', CHR ''F''), (''0NK);E'', CHR ''F''),
      (''0NK);T'', CHR ''F''), (''0NK)B('', CHR ''F''), (''0NK)B1'', CHR ''F''), (''0NK)BF'', CHR ''F''),
      (''0NK)BN'', CHR ''F''), (''0NK)BS'', CHR ''F''), (''0NK)BV'', CHR ''F''), (''0NK)E('', CHR ''F''),
      (''0NK)E1'', CHR ''F''), (''0NK)EF'', CHR ''F'')]"

definition sql_keywords_29 :: "keyword list" where
  "sql_keywords_29 =
     [(''0NK)EK'', CHR ''F''), (''0NK)EN'', CHR ''F''), (''0NK)ES'', CHR ''F''), (''0NK)EV'', CHR ''F''),
      (''0NK)F('', CHR ''F''), (''0NK)O('', CHR ''F''), (''0NK)OF'', CHR ''F''), (''0NK)UE'', CHR ''F''),
      (''0NK1'', CHR ''F''), (''0NK1&('', CHR ''F''), (''0NK1&1'', CHR ''F''), (''0NK1&F'', CHR ''F''),
      (''0NK1&N'', CHR ''F''), (''0NK1&S'', CHR ''F''), (''0NK1&V'', CHR ''F''), (''0NK1;C'', CHR ''F''),
      (''0NK1;E'', CHR ''F''), (''0NK1;T'', CHR ''F''), (''0NK1B('', CHR ''F''), (''0NK1B1'', CHR ''F''),
      (''0NK1BF'', CHR ''F''), (''0NK1BN'', CHR ''F''), (''0NK1BS'', CHR ''F''), (''0NK1BV'', CHR ''F''),
      (''0NK1C'', CHR ''F''), (''0NK1E('', CHR ''F''), (''0NK1E1'', CHR ''F''), (''0NK1EF'', CHR ''F''),
      (''0NK1EK'', CHR ''F''), (''0NK1EN'', CHR ''F''), (''0NK1ES'', CHR ''F''), (''0NK1EV'', CHR ''F''),
      (''0NK1O('', CHR ''F''), (''0NK1OF'', CHR ''F''), (''0NK1OS'', CHR ''F''), (''0NK1OV'', CHR ''F''),
      (''0NK1U('', CHR ''F''), (''0NK1UE'', CHR ''F''), (''0NKF()'', CHR ''F''), (''0NKF(1'', CHR ''F''),
      (''0NKF(F'', CHR ''F''), (''0NKF(N'', CHR ''F''), (''0NKF(S'', CHR ''F''), (''0NKF(V'', CHR ''F''),
      (''0NKN'', CHR ''F''), (''0NKN&('', CHR ''F''), (''0NKN&1'', CHR ''F''), (''0NKN&F'', CHR ''F''),
      (''0NKN&S'', CHR ''F''), (''0NKN&V'', CHR ''F''), (''0NKN;C'', CHR ''F''), (''0NKN;E'', CHR ''F''),
      (''0NKN;T'', CHR ''F''), (''0NKNB('', CHR ''F''), (''0NKNB1'', CHR ''F''), (''0NKNBF'', CHR ''F''),
      (''0NKNBN'', CHR ''F''), (''0NKNBS'', CHR ''F''), (''0NKNBV'', CHR ''F''), (''0NKNE('', CHR ''F''),
      (''0NKNE1'', CHR ''F''), (''0NKNEF'', CHR ''F''), (''0NKNES'', CHR ''F''), (''0NKNEV'', CHR ''F''),
      (''0NKNU('', CHR ''F''), (''0NKNUE'', CHR ''F''), (''0NKS'', CHR ''F''), (''0NKS&('', CHR ''F''),
      (''0NKS&1'', CHR ''F''), (''0NKS&F'', CHR ''F''), (''0NKS&N'', CHR ''F''), (''0NKS&S'', CHR ''F''),
      (''0NKS&V'', CHR ''F''), (''0NKS;'', CHR ''F''), (''0NKS;C'', CHR ''F''), (''0NKS;E'', CHR ''F''),
      (''0NKS;T'', CHR ''F''), (''0NKSB('', CHR ''F''), (''0NKSB1'', CHR ''F''), (''0NKSBF'', CHR ''F''),
      (''0NKSBN'', CHR ''F''), (''0NKSBS'', CHR ''F''), (''0NKSBV'', CHR ''F''), (''0NKSC'', CHR ''F''),
      (''0NKSE('', CHR ''F''), (''0NKSE1'', CHR ''F''), (''0NKSEF'', CHR ''F''), (''0NKSEK'', CHR ''F''),
      (''0NKSEN'', CHR ''F''), (''0NKSES'', CHR ''F''), (''0NKSEV'', CHR ''F''), (''0NKSO('', CHR ''F''),
      (''0NKSO1'', CHR ''F''), (''0NKSOF'', CHR ''F''), (''0NKSON'', CHR ''F''), (''0NKSOS'', CHR ''F''),
      (''0NKSOV'', CHR ''F''), (''0NKSU('', CHR ''F''), (''0NKSUE'', CHR ''F''), (''0NKUE('', CHR ''F''),
      (''0NKUE1'', CHR ''F''), (''0NKUEF'', CHR ''F''), (''0NKUEK'', CHR ''F''), (''0NKUEN'', CHR ''F''),
      (''0NKUES'', CHR ''F''), (''0NKUEV'', CHR ''F''), (''0NKV'', CHR ''F''), (''0NKV&('', CHR ''F''),
      (''0NKV&1'', CHR ''F''), (''0NKV&F'', CHR ''F''), (''0NKV&N'', CHR ''F''), (''0NKV&S'', CHR ''F''),
      (''0NKV&V'', CHR ''F''), (''0NKV;'', CHR ''F''), (''0NKV;C'', CHR ''F''), (''0NKV;E'', CHR ''F''),
      (''0NKV;T'', CHR ''F''), (''0NKVB('', CHR ''F''), (''0NKVB1'', CHR ''F''), (''0NKVBF'', CHR ''F''),
      (''0NKVBN'', CHR ''F''), (''0NKVBS'', CHR ''F''), (''0NKVBV'', CHR ''F''), (''0NKVC'', CHR ''F''),
      (''0NKVE('', CHR ''F''), (''0NKVE1'', CHR ''F''), (''0NKVEF'', CHR ''F''), (''0NKVEK'', CHR ''F''),
      (''0NKVEN'', CHR ''F''), (''0NKVES'', CHR ''F''), (''0NKVEV'', CHR ''F''), (''0NKVO('', CHR ''F''),
      (''0NKVOF'', CHR ''F''), (''0NKVOS'', CHR ''F''), (''0NKVU('', CHR ''F''), (''0NKVUE'', CHR ''F''),
      (''0NO(1&'', CHR ''F''), (''0NO(1)'', CHR ''F''), (''0NO(1,'', CHR ''F''), (''0NO(1O'', CHR ''F''),
      (''0NO(E('', CHR ''F''), (''0NO(E1'', CHR ''F''), (''0NO(EE'', CHR ''F''), (''0NO(EF'', CHR ''F''),
      (''0NO(EK'', CHR ''F''), (''0NO(EN'', CHR ''F''), (''0NO(EO'', CHR ''F''), (''0NO(ES'', CHR ''F''),
      (''0NO(EV'', CHR ''F''), (''0NO(F('', CHR ''F'')]"

definition sql_keywords_30 :: "keyword list" where
  "sql_keywords_30 =
     [(''0NO(N&'', CHR ''F''), (''0NO(N)'', CHR ''F''), (''0NO(N,'', CHR ''F''), (''0NO(NO'', CHR ''F''),
      (''0NO(S&'', CHR ''F''), (''0NO(S)'', CHR ''F''), (''0NO(S,'', CHR ''F''), (''0NO(SO'', CHR ''F''),
      (''0NO(V&'', CHR ''F''), (''0NO(V)'', CHR ''F''), (''0NO(V,'', CHR ''F''), (''0NO(VO'', CHR ''F''),
      (''0NOF()'', CHR ''F''), (''0NOF(1'', CHR ''F''), (''0NOF(E'', CHR ''F''), (''0NOF(F'', CHR ''F''),
      (''0NOF(N'', CHR ''F''), (''0NOF(S'', CHR ''F''), (''0NOF(V'', CHR ''F''), (''0NOK&('', CHR ''F''),
      (''0NOK(1'', CHR ''F''), (''0NOK(F'', CHR ''F''), (''0NOK(N'', CHR ''F''), (''0NOK(S'', CHR ''F''),
      (''0NOK(V'', CHR ''F''), (''0NOK1C'', CHR ''F''), (''0NOK1O'', CHR ''F''), (''0NOKF('', CHR ''F''),
      (''0NOKNC'', CHR ''F''), (''0NOKO('', CHR ''F''), (''0NOKO1'', CHR ''F''), (''0NOKOF'', CHR ''F''),
      (''0NOKON'', CHR ''F''), (''0NOKOS'', CHR ''F''), (''0NOKOV'', CHR ''F''), (''0NOKSC'', CHR ''F''),
      (''0NOKSO'', CHR ''F''), (''0NOKVC'', CHR ''F''), (''0NOKVO'', CHR ''F''), (''0NONSU'', CHR ''F''),
      (''0NOS&('', CHR ''F''), (''0NOS&1'', CHR ''F''), (''0NOS&E'', CHR ''F''), (''0NOS&F'', CHR ''F''),
      (''0NOS&K'', CHR ''F''), (''0NOS&N'', CHR ''F''), (''0NOS&S'', CHR ''F''), (''0NOS&U'', CHR ''F''),
      (''0NOS&V'', CHR ''F''), (''0NOS(E'', CHR ''F''), (''0NOS(U'', CHR ''F''), (''0NOS)&'', CHR ''F''),
      (''0NOS),'', CHR ''F''), (''0NOS);'', CHR ''F''), (''0NOS)B'', CHR ''F''), (''0NOS)C'', CHR ''F''),
      (''0NOS)E'', CHR ''F''), (''0NOS)F'', CHR ''F''), (''0NOS)K'', CHR ''F''), (''0NOS)O'', CHR ''F''),
      (''0NOS)U'', CHR ''F''), (''0NOS,('', CHR ''F''), (''0NOS,F'', CHR ''F''), (''0NOS1('', CHR ''F''),
      (''0NOS1F'', CHR ''F''), (''0NOS1N'', CHR ''F''), (''0NOS1S'', CHR ''F''), (''0NOS1U'', CHR ''F''),
      (''0NOS1V'', CHR ''F''), (''0NOS;'', CHR ''F''), (''0NOS;C'', CHR ''F''), (''0NOS;E'', CHR ''F''),
      (''0NOS;T'', CHR ''F''), (''0NOSA('', CHR ''F''), (''0NOSAF'', CHR ''F''), (''0NOSAS'', CHR ''F''),
      (''0NOSAT'', CHR ''F''), (''0NOSAV'', CHR ''F''), (''0NOSB('', CHR ''F''), (''0NOSB1'', CHR ''F''),
      (''0NOSBE'', CHR ''F''), (''0NOSBF'', CHR ''F''), (''0NOSBN'', CHR ''F''), (''0NOSBS'', CHR ''F''),
      (''0NOSBV'', CHR ''F''), (''0NOSC'', CHR ''F''), (''0NOSE('', CHR ''F''), (''0NOSE1'', CHR ''F''),
      (''0NOSEF'', CHR ''F''), (''0NOSEK'', CHR ''F''), (''0NOSEN'', CHR ''F''), (''0NOSEO'', CHR ''F''),
      (''0NOSES'', CHR ''F''), (''0NOSEU'', CHR ''F''), (''0NOSEV'', CHR ''F''), (''0NOSF('', CHR ''F''),
      (''0NOSK('', CHR ''F''), (''0NOSK)'', CHR ''F''), (''0NOSK1'', CHR ''F''), (''0NOSKB'', CHR ''F''),
      (''0NOSKF'', CHR ''F''), (''0NOSKN'', CHR ''F''), (''0NOSKS'', CHR ''F''), (''0NOSKU'', CHR ''F''),
      (''0NOSKV'', CHR ''F''), (''0NOST('', CHR ''F''), (''0NOST1'', CHR ''F''), (''0NOSTE'', CHR ''F''),
      (''0NOSTF'', CHR ''F''), (''0NOSTN'', CHR ''F''), (''0NOSTS'', CHR ''F''), (''0NOSTT'', CHR ''F''),
      (''0NOSTV'', CHR ''F''), (''0NOSU'', CHR ''F''), (''0NOSU('', CHR ''F''), (''0NOSU1'', CHR ''F''),
      (''0NOSU;'', CHR ''F''), (''0NOSUC'', CHR ''F''), (''0NOSUE'', CHR ''F''), (''0NOSUF'', CHR ''F''),
      (''0NOSUK'', CHR ''F''), (''0NOSUO'', CHR ''F''), (''0NOSUS'', CHR ''F''), (''0NOSUT'', CHR ''F''),
      (''0NOSUV'', CHR ''F''), (''0NOSV('', CHR ''F''), (''0NOSVF'', CHR ''F''), (''0NOSVO'', CHR ''F''),
      (''0NOSVS'', CHR ''F''), (''0NOSVU'', CHR ''F''), (''0NOU(E'', CHR ''F''), (''0NOUEK'', CHR ''F''),
      (''0NOUEN'', CHR ''F''), (''0NOV&('', CHR ''F''), (''0NOV&1'', CHR ''F''), (''0NOV&E'', CHR ''F''),
      (''0NOV&F'', CHR ''F''), (''0NOV&K'', CHR ''F''), (''0NOV&N'', CHR ''F''), (''0NOV&S'', CHR ''F''),
      (''0NOV&U'', CHR ''F''), (''0NOV&V'', CHR ''F''), (''0NOV(E'', CHR ''F''), (''0NOV(U'', CHR ''F''),
      (''0NOV)&'', CHR ''F''), (''0NOV),'', CHR ''F''), (''0NOV);'', CHR ''F''), (''0NOV)B'', CHR ''F''),
      (''0NOV)C'', CHR ''F''), (''0NOV)E'', CHR ''F'')]"

definition sql_keywords_31 :: "keyword list" where
  "sql_keywords_31 =
     [(''0NOV)F'', CHR ''F''), (''0NOV)K'', CHR ''F''), (''0NOV)O'', CHR ''F''), (''0NOV)U'', CHR ''F''),
      (''0NOV,('', CHR ''F''), (''0NOV,F'', CHR ''F''), (''0NOV;'', CHR ''F''), (''0NOV;C'', CHR ''F''),
      (''0NOV;E'', CHR ''F''), (''0NOV;N'', CHR ''F''), (''0NOV;T'', CHR ''F''), (''0NOVA('', CHR ''F''),
      (''0NOVAF'', CHR ''F''), (''0NOVAS'', CHR ''F''), (''0NOVAT'', CHR ''F''), (''0NOVAV'', CHR ''F''),
      (''0NOVB('', CHR ''F''), (''0NOVB1'', CHR ''F''), (''0NOVBE'', CHR ''F''), (''0NOVBF'', CHR ''F''),
      (''0NOVBN'', CHR ''F''), (''0NOVBS'', CHR ''F''), (''0NOVBV'', CHR ''F''), (''0NOVC'', CHR ''F''),
      (''0NOVE('', CHR ''F''), (''0NOVE1'', CHR ''F''), (''0NOVEF'', CHR ''F''), (''0NOVEK'', CHR ''F''),
      (''0NOVEN'', CHR ''F''), (''0NOVEO'', CHR ''F''), (''0NOVES'', CHR ''F''), (''0NOVEU'', CHR ''F''),
      (''0NOVEV'', CHR ''F''), (''0NOVF('', CHR ''F''), (''0NOVK('', CHR ''F''), (''0NOVK)'', CHR ''F''),
      (''0NOVK1'', CHR ''F''), (''0NOVKB'', CHR ''F''), (''0NOVKF'', CHR ''F''), (''0NOVKN'', CHR ''F''),
      (''0NOVKS'', CHR ''F''), (''0NOVKU'', CHR ''F''), (''0NOVKV'', CHR ''F''), (''0NOVO('', CHR ''F''),
      (''0NOVOF'', CHR ''F''), (''0NOVOK'', CHR ''F''), (''0NOVOS'', CHR ''F''), (''0NOVOU'', CHR ''F''),
      (''0NOVS('', CHR ''F''), (''0NOVS1'', CHR ''F''), (''0NOVSF'', CHR ''F''), (''0NOVSO'', CHR ''F''),
      (''0NOVSU'', CHR ''F''), (''0NOVSV'', CHR ''F''), (''0NOVT('', CHR ''F''), (''0NOVT1'', CHR ''F''),
      (''0NOVTE'', CHR ''F''), (''0NOVTF'', CHR ''F''), (''0NOVTN'', CHR ''F''), (''0NOVTS'', CHR ''F''),
      (''0NOVTT'', CHR ''F''), (''0NOVTV'', CHR ''F''), (''0NOVU'', CHR ''F''), (''0NOVU('', CHR ''F''),
      (''0NOVU1'', CHR ''F''), (''0NOVU;'', CHR ''F''), (''0NOVUC'', CHR ''F''), (''0NOVUE'', CHR ''F''),
      (''0NOVUF'', CHR ''F''), (''0NOVUK'', CHR ''F''), (''0NOVUO'', CHR ''F''), (''0NOVUS'', CHR ''F''),
      (''0NOVUT'', CHR ''F''), (''0NOVUV'', CHR ''F''), (''0NSO1U'', CHR ''F''), (''0NSONU'', CHR ''F''),
      (''0NSOSU'', CHR ''F''), (''0NSOVU'', CHR ''F''), (''0NSUE'', CHR ''F''), (''0NSUE;'', CHR ''F''),
      (''0NSUEC'', CHR ''F''), (''0NSUEK'', CHR ''F''), (''0NT(1)'', CHR ''F''), (''0NT(1O'', CHR ''F''),
      (''0NT(F('', CHR ''F''), (''0NT(N)'', CHR ''F''), (''0NT(NO'', CHR ''F''), (''0NT(S)'', CHR ''F''),
      (''0NT(SO'', CHR ''F''), (''0NT(V)'', CHR ''F''), (''0NT(VO'', CHR ''F''), (''0NT1(F'', CHR ''F''),
      (''0NT1O('', CHR ''F''), (''0NT1OF'', CHR ''F''), (''0NT1OS'', CHR ''F''), (''0NT1OV'', CHR ''F''),
      (''0NTE(1'', CHR ''F''), (''0NTE(F'', CHR ''F''), (''0NTE(N'', CHR ''F''), (''0NTE(S'', CHR ''F''),
      (''0NTE(V'', CHR ''F''), (''0NTE1N'', CHR ''F''), (''0NTE1O'', CHR ''F''), (''0NTEF('', CHR ''F''),
      (''0NTEK('', CHR ''F''), (''0NTEK1'', CHR ''F''), (''0NTEKF'', CHR ''F''), (''0NTEKN'', CHR ''F''),
      (''0NTEKS'', CHR ''F''), (''0NTEKV'', CHR ''F''), (''0NTENN'', CHR ''F''), (''0NTENO'', CHR ''F''),
      (''0NTESN'', CHR ''F''), (''0NTESO'', CHR ''F''), (''0NTEVN'', CHR ''F''), (''0NTEVO'', CHR ''F''),
      (''0NTF()'', CHR ''F''), (''0NTF(1'', CHR ''F''), (''0NTF(F'', CHR ''F''), (''0NTF(N'', CHR ''F''),
      (''0NTF(S'', CHR ''F''), (''0NTF(V'', CHR ''F''), (''0NTN(1'', CHR ''F''), (''0NTN(F'', CHR ''F''),
      (''0NTN(S'', CHR ''F''), (''0NTN(V'', CHR ''F''), (''0NTN1C'', CHR ''F''), (''0NTN1O'', CHR ''F''),
      (''0NTN;E'', CHR ''F''), (''0NTN;N'', CHR ''F''), (''0NTN;T'', CHR ''F''), (''0NTNE('', CHR ''F''),
      (''0NTNE1'', CHR ''F''), (''0NTNEF'', CHR ''F''), (''0NTNEN'', CHR ''F''), (''0NTNES'', CHR ''F''),
      (''0NTNEV'', CHR ''F''), (''0NTNF('', CHR ''F''), (''0NTNKN'', CHR ''F''), (''0NTNN:'', CHR ''F''),
      (''0NTNNC'', CHR ''F''), (''0NTNNO'', CHR ''F''), (''0NTNO('', CHR ''F''), (''0NTNOF'', CHR ''F''),
      (''0NTNOS'', CHR ''F''), (''0NTNOV'', CHR ''F''), (''0NTNSC'', CHR ''F''), (''0NTNSO'', CHR ''F''),
      (''0NTNT('', CHR ''F''), (''0NTNT1'', CHR ''F'')]"

definition sql_keywords_32 :: "keyword list" where
  "sql_keywords_32 =
     [(''0NTNTF'', CHR ''F''), (''0NTNTN'', CHR ''F''), (''0NTNTS'', CHR ''F''), (''0NTNTV'', CHR ''F''),
      (''0NTNVC'', CHR ''F''), (''0NTNVO'', CHR ''F''), (''0NTS(F'', CHR ''F''), (''0NTSO('', CHR ''F''),
      (''0NTSO1'', CHR ''F''), (''0NTSOF'', CHR ''F''), (''0NTSON'', CHR ''F''), (''0NTSOS'', CHR ''F''),
      (''0NTSOV'', CHR ''F''), (''0NTTNE'', CHR ''F''), (''0NTTNK'', CHR ''F''), (''0NTTNN'', CHR ''F''),
      (''0NTTNT'', CHR ''F''), (''0NTV(1'', CHR ''F''), (''0NTV(F'', CHR ''F''), (''0NTVO('', CHR ''F''),
      (''0NTVOF'', CHR ''F''), (''0NTVOS'', CHR ''F''), (''0NU(1)'', CHR ''F''), (''0NU(1O'', CHR ''F''),
      (''0NU(E('', CHR ''F''), (''0NU(E1'', CHR ''F''), (''0NU(EF'', CHR ''F''), (''0NU(EK'', CHR ''F''),
      (''0NU(EN'', CHR ''F''), (''0NU(ES'', CHR ''F''), (''0NU(EV'', CHR ''F''), (''0NU(F('', CHR ''F''),
      (''0NU(N)'', CHR ''F''), (''0NU(NO'', CHR ''F''), (''0NU(S)'', CHR ''F''), (''0NU(SO'', CHR ''F''),
      (''0NU(V)'', CHR ''F''), (''0NU(VO'', CHR ''F''), (''0NU1,('', CHR ''F''), (''0NU1,F'', CHR ''F''),
      (''0NU1C'', CHR ''F''), (''0NU1O('', CHR ''F''), (''0NU1OF'', CHR ''F''), (''0NU1OS'', CHR ''F''),
      (''0NU1OV'', CHR ''F''), (''0NU;'', CHR ''F''), (''0NU;C'', CHR ''F''), (''0NUC'', CHR ''F''),
      (''0NUE'', CHR ''F''), (''0NUE(1'', CHR ''F''), (''0NUE(E'', CHR ''F''), (''0NUE(F'', CHR ''F''),
      (''0NUE(N'', CHR ''F''), (''0NUE(O'', CHR ''F''), (''0NUE(S'', CHR ''F''), (''0NUE(V'', CHR ''F''),
      (''0NUE1'', CHR ''F''), (''0NUE1&'', CHR ''F''), (''0NUE1('', CHR ''F''), (''0NUE1)'', CHR ''F''),
      (''0NUE1,'', CHR ''F''), (''0NUE1;'', CHR ''F''), (''0NUE1B'', CHR ''F''), (''0NUE1C'', CHR ''F''),
      (''0NUE1F'', CHR ''F''), (''0NUE1K'', CHR ''F''), (''0NUE1N'', CHR ''F''), (''0NUE1O'', CHR ''F''),
      (''0NUE1S'', CHR ''F''), (''0NUE1U'', CHR ''F''), (''0NUE1V'', CHR ''F''), (''0NUE;'', CHR ''F''),
      (''0NUE;C'', CHR ''F''), (''0NUEC'', CHR ''F''), (''0NUEF'', CHR ''F''), (''0NUEF('', CHR ''F''),
      (''0NUEF,'', CHR ''F''), (''0NUEF;'', CHR ''F''), (''0NUEFC'', CHR ''F''), (''0NUEK'', CHR ''F''),
      (''0NUEK('', CHR ''F''), (''0NUEK1'', CHR ''F''), (''0NUEK;'', CHR ''F''), (''0NUEKC'', CHR ''F''),
      (''0NUEKF'', CHR ''F''), (''0NUEKN'', CHR ''F''), (''0NUEKO'', CHR ''F''), (''0NUEKS'', CHR ''F''),
      (''0NUEKV'', CHR ''F''), (''0NUEN'', CHR ''F''), (''0NUEN&'', CHR ''F''), (''0NUEN('', CHR ''F''),
      (''0NUEN)'', CHR ''F''), (''0NUEN,'', CHR ''F''), (''0NUEN1'', CHR ''F''), (''0NUEN;'', CHR ''F''),
      (''0NUENB'', CHR ''F''), (''0NUENC'', CHR ''F''), (''0NUENF'', CHR ''F''), (''0NUENK'', CHR ''F''),
      (''0NUENO'', CHR ''F''), (''0NUENS'', CHR ''F''), (''0NUENU'', CHR ''F''), (''0NUEOK'', CHR ''F''),
      (''0NUEON'', CHR ''F''), (''0NUES'', CHR ''F''), (''0NUES&'', CHR ''F''), (''0NUES('', CHR ''F''),
      (''0NUES)'', CHR ''F''), (''0NUES,'', CHR ''F''), (''0NUES1'', CHR ''F''), (''0NUES;'', CHR ''F''),
      (''0NUESB'', CHR ''F''), (''0NUESC'', CHR ''F''), (''0NUESF'', CHR ''F''), (''0NUESK'', CHR ''F''),
      (''0NUESO'', CHR ''F''), (''0NUESU'', CHR ''F''), (''0NUESV'', CHR ''F''), (''0NUEV'', CHR ''F''),
      (''0NUEV&'', CHR ''F''), (''0NUEV('', CHR ''F''), (''0NUEV)'', CHR ''F''), (''0NUEV,'', CHR ''F''),
      (''0NUEV;'', CHR ''F''), (''0NUEVB'', CHR ''F''), (''0NUEVC'', CHR ''F''), (''0NUEVF'', CHR ''F''),
      (''0NUEVK'', CHR ''F''), (''0NUEVN'', CHR ''F''), (''0NUEVO'', CHR ''F''), (''0NUEVS'', CHR ''F''),
      (''0NUEVU'', CHR ''F''), (''0NUF()'', CHR ''F''), (''0NUF(1'', CHR ''F''), (''0NUF(F'', CHR ''F''),
      (''0NUF(N'', CHR ''F''), (''0NUF(S'', CHR ''F''), (''0NUF(V'', CHR ''F''), (''0NUK(E'', CHR ''F''),
      (''0NUO(E'', CHR ''F''), (''0NUON('', CHR ''F''), (''0NUON1'', CHR ''F''), (''0NUONF'', CHR ''F''),
      (''0NUONS'', CHR ''F''), (''0NUS,('', CHR ''F''), (''0NUS,F'', CHR ''F''), (''0NUSC'', CHR ''F''),
      (''0NUSO('', CHR ''F''), (''0NUSO1'', CHR ''F'')]"

definition sql_keywords_33 :: "keyword list" where
  "sql_keywords_33 =
     [(''0NUSOF'', CHR ''F''), (''0NUSON'', CHR ''F''), (''0NUSOS'', CHR ''F''), (''0NUSOV'', CHR ''F''),
      (''0NUTN('', CHR ''F''), (''0NUTN1'', CHR ''F''), (''0NUTNF'', CHR ''F''), (''0NUTNN'', CHR ''F''),
      (''0NUTNS'', CHR ''F''), (''0NUTNV'', CHR ''F''), (''0NUV,('', CHR ''F''), (''0NUV,F'', CHR ''F''),
      (''0NUVC'', CHR ''F''), (''0NUVO('', CHR ''F''), (''0NUVOF'', CHR ''F''), (''0NUVOS'', CHR ''F''),
      (''0S&(1&'', CHR ''F''), (''0S&(1)'', CHR ''F''), (''0S&(1,'', CHR ''F''), (''0S&(1O'', CHR ''F''),
      (''0S&(E('', CHR ''F''), (''0S&(E1'', CHR ''F''), (''0S&(EF'', CHR ''F''), (''0S&(EK'', CHR ''F''),
      (''0S&(EN'', CHR ''F''), (''0S&(EO'', CHR ''F''), (''0S&(ES'', CHR ''F''), (''0S&(EV'', CHR ''F''),
      (''0S&(F('', CHR ''F''), (''0S&(N&'', CHR ''F''), (''0S&(N)'', CHR ''F''), (''0S&(N,'', CHR ''F''),
      (''0S&(NO'', CHR ''F''), (''0S&(S&'', CHR ''F''), (''0S&(S)'', CHR ''F''), (''0S&(S,'', CHR ''F''),
      (''0S&(SO'', CHR ''F''), (''0S&(V&'', CHR ''F''), (''0S&(V)'', CHR ''F''), (''0S&(V,'', CHR ''F''),
      (''0S&(VO'', CHR ''F''), (''0S&1'', CHR ''F''), (''0S&1&('', CHR ''F''), (''0S&1&1'', CHR ''F''),
      (''0S&1&F'', CHR ''F''), (''0S&1&N'', CHR ''F''), (''0S&1&S'', CHR ''F''), (''0S&1&V'', CHR ''F''),
      (''0S&1)&'', CHR ''F''), (''0S&1)C'', CHR ''F''), (''0S&1)O'', CHR ''F''), (''0S&1)U'', CHR ''F''),
      (''0S&1;'', CHR ''F''), (''0S&1;C'', CHR ''F''), (''0S&1;E'', CHR ''F''), (''0S&1;T'', CHR ''F''),
      (''0S&1B('', CHR ''F''), (''0S&1B1'', CHR ''F''), (''0S&1BF'', CHR ''F''), (''0S&1BN'', CHR ''F''),
      (''0S&1BS'', CHR ''F''), (''0S&1BV'', CHR ''F''), (''0S&1C'', CHR ''F''), (''0S&1EK'', CHR ''F''),
      (''0S&1EN'', CHR ''F''), (''0S&1F('', CHR ''F''), (''0S&1K('', CHR ''F''), (''0S&1K1'', CHR ''F''),
      (''0S&1KF'', CHR ''F''), (''0S&1KN'', CHR ''F''), (''0S&1KS'', CHR ''F''), (''0S&1KV'', CHR ''F''),
      (''0S&1O('', CHR ''F''), (''0S&1OF'', CHR ''F''), (''0S&1OS'', CHR ''F''), (''0S&1OV'', CHR ''F''),
      (''0S&1TN'', CHR ''F''), (''0S&1U'', CHR ''F''), (''0S&1U('', CHR ''F''), (''0S&1U;'', CHR ''F''),
      (''0S&1UC'', CHR ''F''), (''0S&1UE'', CHR ''F''), (''0S&E(1'', CHR ''F''), (''0S&E(F'', CHR ''F''),
      (''0S&E(N'', CHR ''F''), (''0S&E(O'', CHR ''F''), (''0S&E(S'', CHR ''F''), (''0S&E(V'', CHR ''F''),
      (''0S&E1'', CHR ''F''), (''0S&E1;'', CHR ''F''), (''0S&E1C'', CHR ''F''), (''0S&E1K'', CHR ''F''),
      (''0S&E1O'', CHR ''F''), (''0S&EF('', CHR ''F''), (''0S&EK('', CHR ''F''), (''0S&EK1'', CHR ''F''),
      (''0S&EKF'', CHR ''F''), (''0S&EKN'', CHR ''F''), (''0S&EKS'', CHR ''F''), (''0S&EKV'', CHR ''F''),
      (''0S&EN'', CHR ''F''), (''0S&EN;'', CHR ''F''), (''0S&ENC'', CHR ''F''), (''0S&ENK'', CHR ''F''),
      (''0S&ENO'', CHR ''F''), (''0S&ES'', CHR ''F''), (''0S&ES;'', CHR ''F''), (''0S&ESC'', CHR ''F''),
      (''0S&ESK'', CHR ''F''), (''0S&ESO'', CHR ''F''), (''0S&EV'', CHR ''F''), (''0S&EV;'', CHR ''F''),
      (''0S&EVC'', CHR ''F''), (''0S&EVK'', CHR ''F''), (''0S&EVO'', CHR ''F''), (''0S&F()'', CHR ''F''),
      (''0S&F(1'', CHR ''F''), (''0S&F(E'', CHR ''F''), (''0S&F(F'', CHR ''F''), (''0S&F(N'', CHR ''F''),
      (''0S&F(S'', CHR ''F''), (''0S&F(V'', CHR ''F''), (''0S&K&('', CHR ''F''), (''0S&K&1'', CHR ''F''),
      (''0S&K&F'', CHR ''F''), (''0S&K&N'', CHR ''F''), (''0S&K&S'', CHR ''F''), (''0S&K&V'', CHR ''F''),
      (''0S&K(1'', CHR ''F''), (''0S&K(F'', CHR ''F''), (''0S&K(N'', CHR ''F''), (''0S&K(S'', CHR ''F''),
      (''0S&K(V'', CHR ''F''), (''0S&K1O'', CHR ''F''), (''0S&KC'', CHR ''F''), (''0S&KF('', CHR ''F''),
      (''0S&KNK'', CHR ''F''), (''0S&KO('', CHR ''F''), (''0S&KO1'', CHR ''F''), (''0S&KOF'', CHR ''F''),
      (''0S&KOK'', CHR ''F''), (''0S&KON'', CHR ''F''), (''0S&KOS'', CHR ''F''), (''0S&KOV'', CHR ''F''),
      (''0S&KSO'', CHR ''F''), (''0S&KVO'', CHR ''F''), (''0S&N'', CHR ''F''), (''0S&N&('', CHR ''F''),
      (''0S&N&1'', CHR ''F''), (''0S&N&F'', CHR ''F'')]"

definition sql_keywords_34 :: "keyword list" where
  "sql_keywords_34 =
     [(''0S&N&N'', CHR ''F''), (''0S&N&S'', CHR ''F''), (''0S&N&V'', CHR ''F''), (''0S&N)&'', CHR ''F''),
      (''0S&N)C'', CHR ''F''), (''0S&N)O'', CHR ''F''), (''0S&N)U'', CHR ''F''), (''0S&N;'', CHR ''F''),
      (''0S&N;C'', CHR ''F''), (''0S&N;E'', CHR ''F''), (''0S&N;T'', CHR ''F''), (''0S&NB('', CHR ''F''),
      (''0S&NB1'', CHR ''F''), (''0S&NBF'', CHR ''F''), (''0S&NBN'', CHR ''F''), (''0S&NBS'', CHR ''F''),
      (''0S&NBV'', CHR ''F''), (''0S&NC'', CHR ''F''), (''0S&NEN'', CHR ''F''), (''0S&NF('', CHR ''F''),
      (''0S&NK('', CHR ''F''), (''0S&NK1'', CHR ''F''), (''0S&NKF'', CHR ''F''), (''0S&NKN'', CHR ''F''),
      (''0S&NKS'', CHR ''F''), (''0S&NKV'', CHR ''F''), (''0S&NO('', CHR ''F''), (''0S&NOF'', CHR ''F''),
      (''0S&NOS'', CHR ''F''), (''0S&NOV'', CHR ''F''), (''0S&NTN'', CHR ''F''), (''0S&NU'', CHR ''F''),
      (''0S&NU('', CHR ''F''), (''0S&NU;'', CHR ''F''), (''0S&NUC'', CHR ''F''), (''0S&NUE'', CHR ''F''),
      (''0S&S'', CHR ''F''), (''0S&S&('', CHR ''F''), (''0S&S&1'', CHR ''F''), (''0S&S&F'', CHR ''F''),
      (''0S&S&N'', CHR ''F''), (''0S&S&S'', CHR ''F''), (''0S&S&V'', CHR ''F''), (''0S&S)&'', CHR ''F''),
      (''0S&S)C'', CHR ''F''), (''0S&S)O'', CHR ''F''), (''0S&S)U'', CHR ''F''), (''0S&S1'', CHR ''F''),
      (''0S&S1;'', CHR ''F''), (''0S&S1C'', CHR ''F''), (''0S&S;'', CHR ''F''), (''0S&S;C'', CHR ''F''),
      (''0S&S;E'', CHR ''F''), (''0S&S;T'', CHR ''F''), (''0S&SB('', CHR ''F''), (''0S&SB1'', CHR ''F''),
      (''0S&SBF'', CHR ''F''), (''0S&SBN'', CHR ''F''), (''0S&SBS'', CHR ''F''), (''0S&SBV'', CHR ''F''),
      (''0S&SC'', CHR ''F''), (''0S&SEK'', CHR ''F''), (''0S&SEN'', CHR ''F''), (''0S&SF('', CHR ''F''),
      (''0S&SK('', CHR ''F''), (''0S&SK1'', CHR ''F''), (''0S&SKF'', CHR ''F''), (''0S&SKN'', CHR ''F''),
      (''0S&SKS'', CHR ''F''), (''0S&SKV'', CHR ''F''), (''0S&SO('', CHR ''F''), (''0S&SO1'', CHR ''F''),
      (''0S&SOF'', CHR ''F''), (''0S&SON'', CHR ''F''), (''0S&SOS'', CHR ''F''), (''0S&SOV'', CHR ''F''),
      (''0S&STN'', CHR ''F''), (''0S&SU'', CHR ''F''), (''0S&SU('', CHR ''F''), (''0S&SU;'', CHR ''F''),
      (''0S&SUC'', CHR ''F''), (''0S&SUE'', CHR ''F''), (''0S&SV'', CHR ''F''), (''0S&SV;'', CHR ''F''),
      (''0S&SVC'', CHR ''F''), (''0S&SVO'', CHR ''F''), (''0S&V'', CHR ''F''), (''0S&V&('', CHR ''F''),
      (''0S&V&1'', CHR ''F''), (''0S&V&F'', CHR ''F''), (''0S&V&N'', CHR ''F''), (''0S&V&S'', CHR ''F''),
      (''0S&V&V'', CHR ''F''), (''0S&V)&'', CHR ''F''), (''0S&V)C'', CHR ''F''), (''0S&V)O'', CHR ''F''),
      (''0S&V)U'', CHR ''F''), (''0S&V;'', CHR ''F''), (''0S&V;C'', CHR ''F''), (''0S&V;E'', CHR ''F''),
      (''0S&V;T'', CHR ''F''), (''0S&VB('', CHR ''F''), (''0S&VB1'', CHR ''F''), (''0S&VBF'', CHR ''F''),
      (''0S&VBN'', CHR ''F''), (''0S&VBS'', CHR ''F''), (''0S&VBV'', CHR ''F''), (''0S&VC'', CHR ''F''),
      (''0S&VEK'', CHR ''F''), (''0S&VEN'', CHR ''F''), (''0S&VF('', CHR ''F''), (''0S&VK('', CHR ''F''),
      (''0S&VK1'', CHR ''F''), (''0S&VKF'', CHR ''F''), (''0S&VKN'', CHR ''F''), (''0S&VKS'', CHR ''F''),
      (''0S&VKV'', CHR ''F''), (''0S&VO('', CHR ''F''), (''0S&VOF'', CHR ''F''), (''0S&VOS'', CHR ''F''),
      (''0S&VS'', CHR ''F''), (''0S&VS;'', CHR ''F''), (''0S&VSC'', CHR ''F''), (''0S&VSO'', CHR ''F''),
      (''0S&VTN'', CHR ''F''), (''0S&VU'', CHR ''F''), (''0S&VU('', CHR ''F''), (''0S&VU;'', CHR ''F''),
      (''0S&VUC'', CHR ''F''), (''0S&VUE'', CHR ''F''), (''0S(EF('', CHR ''F''), (''0S(EKF'', CHR ''F''),
      (''0S(EKN'', CHR ''F''), (''0S(ENK'', CHR ''F''), (''0S(U(E'', CHR ''F''), (''0S)&(1'', CHR ''F''),
      (''0S)&(E'', CHR ''F''), (''0S)&(F'', CHR ''F''), (''0S)&(N'', CHR ''F''), (''0S)&(S'', CHR ''F''),
      (''0S)&(V'', CHR ''F''), (''0S)&1'', CHR ''F''), (''0S)&1&'', CHR ''F''), (''0S)&1)'', CHR ''F''),
      (''0S)&1;'', CHR ''F''), (''0S)&1B'', CHR ''F''), (''0S)&1C'', CHR ''F''), (''0S)&1F'', CHR ''F''),
      (''0S)&1O'', CHR ''F''), (''0S)&1U'', CHR ''F'')]"

definition sql_keywords_35 :: "keyword list" where
  "sql_keywords_35 =
     [(''0S)&F('', CHR ''F''), (''0S)&N'', CHR ''F''), (''0S)&N&'', CHR ''F''), (''0S)&N)'', CHR ''F''),
      (''0S)&N;'', CHR ''F''), (''0S)&NB'', CHR ''F''), (''0S)&NC'', CHR ''F''), (''0S)&NF'', CHR ''F''),
      (''0S)&NO'', CHR ''F''), (''0S)&NU'', CHR ''F''), (''0S)&S'', CHR ''F''), (''0S)&S&'', CHR ''F''),
      (''0S)&S)'', CHR ''F''), (''0S)&S;'', CHR ''F''), (''0S)&SB'', CHR ''F''), (''0S)&SC'', CHR ''F''),
      (''0S)&SF'', CHR ''F''), (''0S)&SO'', CHR ''F''), (''0S)&SU'', CHR ''F''), (''0S)&V'', CHR ''F''),
      (''0S)&V&'', CHR ''F''), (''0S)&V)'', CHR ''F''), (''0S)&V;'', CHR ''F''), (''0S)&VB'', CHR ''F''),
      (''0S)&VC'', CHR ''F''), (''0S)&VF'', CHR ''F''), (''0S)&VO'', CHR ''F''), (''0S)&VU'', CHR ''F''),
      (''0S),(1'', CHR ''F''), (''0S),(F'', CHR ''F''), (''0S),(N'', CHR ''F''), (''0S),(S'', CHR ''F''),
      (''0S),(V'', CHR ''F''), (''0S);E('', CHR ''F''), (''0S);E1'', CHR ''F''), (''0S);EF'', CHR ''F''),
      (''0S);EK'', CHR ''F''), (''0S);EN'', CHR ''F''), (''0S);EO'', CHR ''F''), (''0S);ES'', CHR ''F''),
      (''0S);EV'', CHR ''F''), (''0S);T('', CHR ''F''), (''0S);T1'', CHR ''F''), (''0S);TF'', CHR ''F''),
      (''0S);TK'', CHR ''F''), (''0S);TN'', CHR ''F''), (''0S);TO'', CHR ''F''), (''0S);TS'', CHR ''F''),
      (''0S);TV'', CHR ''F''), (''0S)B(1'', CHR ''F''), (''0S)B(F'', CHR ''F''), (''0S)B(N'', CHR ''F''),
      (''0S)B(S'', CHR ''F''), (''0S)B(V'', CHR ''F''), (''0S)B1'', CHR ''F''), (''0S)B1&'', CHR ''F''),
      (''0S)B1;'', CHR ''F''), (''0S)B1C'', CHR ''F''), (''0S)B1K'', CHR ''F''), (''0S)B1N'', CHR ''F''),
      (''0S)B1O'', CHR ''F''), (''0S)B1U'', CHR ''F''), (''0S)BF('', CHR ''F''), (''0S)BN'', CHR ''F''),
      (''0S)BN&'', CHR ''F''), (''0S)BN;'', CHR ''F''), (''0S)BNC'', CHR ''F''), (''0S)BNK'', CHR ''F''),
      (''0S)BNO'', CHR ''F''), (''0S)BNU'', CHR ''F''), (''0S)BS'', CHR ''F''), (''0S)BS&'', CHR ''F''),
      (''0S)BS;'', CHR ''F''), (''0S)BSC'', CHR ''F''), (''0S)BSK'', CHR ''F''), (''0S)BSO'', CHR ''F''),
      (''0S)BSU'', CHR ''F''), (''0S)BV'', CHR ''F''), (''0S)BV&'', CHR ''F''), (''0S)BV;'', CHR ''F''),
      (''0S)BVC'', CHR ''F''), (''0S)BVK'', CHR ''F''), (''0S)BVO'', CHR ''F''), (''0S)BVU'', CHR ''F''),
      (''0S)C'', CHR ''F''), (''0S)E(1'', CHR ''F''), (''0S)E(F'', CHR ''F''), (''0S)E(N'', CHR ''F''),
      (''0S)E(S'', CHR ''F''), (''0S)E(V'', CHR ''F''), (''0S)E1C'', CHR ''F''), (''0S)E1O'', CHR ''F''),
      (''0S)EF('', CHR ''F''), (''0S)EK('', CHR ''F''), (''0S)EK1'', CHR ''F''), (''0S)EKF'', CHR ''F''),
      (''0S)EKN'', CHR ''F''), (''0S)EKS'', CHR ''F''), (''0S)EKV'', CHR ''F''), (''0S)ENC'', CHR ''F''),
      (''0S)ENO'', CHR ''F''), (''0S)ESC'', CHR ''F''), (''0S)ESO'', CHR ''F''), (''0S)EVC'', CHR ''F''),
      (''0S)EVO'', CHR ''F''), (''0S)F(F'', CHR ''F''), (''0S)K(1'', CHR ''F''), (''0S)K(F'', CHR ''F''),
      (''0S)K(N'', CHR ''F''), (''0S)K(S'', CHR ''F''), (''0S)K(V'', CHR ''F''), (''0S)K1&'', CHR ''F''),
      (''0S)K1;'', CHR ''F''), (''0S)K1B'', CHR ''F''), (''0S)K1E'', CHR ''F''), (''0S)K1O'', CHR ''F''),
      (''0S)K1U'', CHR ''F''), (''0S)KB('', CHR ''F''), (''0S)KB1'', CHR ''F''), (''0S)KBF'', CHR ''F''),
      (''0S)KBN'', CHR ''F''), (''0S)KBS'', CHR ''F''), (''0S)KBV'', CHR ''F''), (''0S)KF('', CHR ''F''),
      (''0S)KN&'', CHR ''F''), (''0S)KN;'', CHR ''F''), (''0S)KNB'', CHR ''F''), (''0S)KNC'', CHR ''F''),
      (''0S)KNE'', CHR ''F''), (''0S)KNK'', CHR ''F''), (''0S)KNU'', CHR ''F''), (''0S)KS&'', CHR ''F''),
      (''0S)KS;'', CHR ''F''), (''0S)KSB'', CHR ''F''), (''0S)KSE'', CHR ''F''), (''0S)KSO'', CHR ''F''),
      (''0S)KSU'', CHR ''F''), (''0S)KUE'', CHR ''F''), (''0S)KV&'', CHR ''F''), (''0S)KV;'', CHR ''F''),
      (''0S)KVB'', CHR ''F''), (''0S)KVE'', CHR ''F''), (''0S)KVO'', CHR ''F''), (''0S)KVU'', CHR ''F''),
      (''0S)O(1'', CHR ''F''), (''0S)O(E'', CHR ''F''), (''0S)O(F'', CHR ''F''), (''0S)O(N'', CHR ''F''),
      (''0S)O(S'', CHR ''F''), (''0S)O(V'', CHR ''F'')]"

definition sql_keywords_36 :: "keyword list" where
  "sql_keywords_36 =
     [(''0S)O1'', CHR ''F''), (''0S)O1&'', CHR ''F''), (''0S)O1)'', CHR ''F''), (''0S)O1;'', CHR ''F''),
      (''0S)O1B'', CHR ''F''), (''0S)O1C'', CHR ''F''), (''0S)O1K'', CHR ''F''), (''0S)O1U'', CHR ''F''),
      (''0S)OF('', CHR ''F''), (''0S)ON&'', CHR ''F''), (''0S)ON)'', CHR ''F''), (''0S)ON;'', CHR ''F''),
      (''0S)ONB'', CHR ''F''), (''0S)ONC'', CHR ''F''), (''0S)ONK'', CHR ''F''), (''0S)ONU'', CHR ''F''),
      (''0S)OS'', CHR ''F''), (''0S)OS&'', CHR ''F''), (''0S)OS)'', CHR ''F''), (''0S)OS;'', CHR ''F''),
      (''0S)OSB'', CHR ''F''), (''0S)OSC'', CHR ''F''), (''0S)OSK'', CHR ''F''), (''0S)OSU'', CHR ''F''),
      (''0S)OV'', CHR ''F''), (''0S)OV&'', CHR ''F''), (''0S)OV)'', CHR ''F''), (''0S)OV;'', CHR ''F''),
      (''0S)OVB'', CHR ''F''), (''0S)OVC'', CHR ''F''), (''0S)OVK'', CHR ''F''), (''0S)OVO'', CHR ''F''),
      (''0S)OVU'', CHR ''F''), (''0S)U(E'', CHR ''F''), (''0S)UE('', CHR ''F''), (''0S)UE1'', CHR ''F''),
      (''0S)UEF'', CHR ''F''), (''0S)UEK'', CHR ''F''), (''0S)UEN'', CHR ''F''), (''0S)UES'', CHR ''F''),
      (''0S)UEV'', CHR ''F''), (''0S,(1)'', CHR ''F''), (''0S,(1O'', CHR ''F''), (''0S,(E('', CHR ''F''),
      (''0S,(E1'', CHR ''F''), (''0S,(EF'', CHR ''F''), (''0S,(EK'', CHR ''F''), (''0S,(EN'', CHR ''F''),
      (''0S,(ES'', CHR ''F''), (''0S,(EV'', CHR ''F''), (''0S,(F('', CHR ''F''), (''0S,(N)'', CHR ''F''),
      (''0S,(NO'', CHR ''F''), (''0S,(S)'', CHR ''F''), (''0S,(SO'', CHR ''F''), (''0S,(V)'', CHR ''F''),
      (''0S,(VO'', CHR ''F''), (''0S,F()'', CHR ''F''), (''0S,F(1'', CHR ''F''), (''0S,F(F'', CHR ''F''),
      (''0S,F(N'', CHR ''F''), (''0S,F(S'', CHR ''F''), (''0S,F(V'', CHR ''F''), (''0S1F()'', CHR ''F''),
      (''0S1F(1'', CHR ''F''), (''0S1F(F'', CHR ''F''), (''0S1F(N'', CHR ''F''), (''0S1F(S'', CHR ''F''),
      (''0S1F(V'', CHR ''F''), (''0S1NC'', CHR ''F''), (''0S1S;'', CHR ''F''), (''0S1S;C'', CHR ''F''),
      (''0S1SC'', CHR ''F''), (''0S1UE'', CHR ''F''), (''0S1UE;'', CHR ''F''), (''0S1UEC'', CHR ''F''),
      (''0S1UEK'', CHR ''F''), (''0S1V'', CHR ''F''), (''0S1V;'', CHR ''F''), (''0S1V;C'', CHR ''F''),
      (''0S1VC'', CHR ''F''), (''0S1VO('', CHR ''F''), (''0S1VOF'', CHR ''F''), (''0S1VOS'', CHR ''F''),
      (''0S;E(1'', CHR ''F''), (''0S;E(E'', CHR ''F''), (''0S;E(F'', CHR ''F''), (''0S;E(N'', CHR ''F''),
      (''0S;E(S'', CHR ''F''), (''0S;E(V'', CHR ''F''), (''0S;E1,'', CHR ''F''), (''0S;E1;'', CHR ''F''),
      (''0S;E1C'', CHR ''F''), (''0S;E1K'', CHR ''F''), (''0S;E1O'', CHR ''F''), (''0S;E1T'', CHR ''F''),
      (''0S;EF('', CHR ''F''), (''0S;EK('', CHR ''F''), (''0S;EK1'', CHR ''F''), (''0S;EKF'', CHR ''F''),
      (''0S;EKN'', CHR ''F''), (''0S;EKO'', CHR ''F''), (''0S;EKS'', CHR ''F''), (''0S;EKV'', CHR ''F''),
      (''0S;EN,'', CHR ''F''), (''0S;EN;'', CHR ''F''), (''0S;ENC'', CHR ''F''), (''0S;ENE'', CHR ''F''),
      (''0S;ENK'', CHR ''F''), (''0S;ENO'', CHR ''F''), (''0S;ENT'', CHR ''F''), (''0S;ES,'', CHR ''F''),
      (''0S;ES;'', CHR ''F''), (''0S;ESC'', CHR ''F''), (''0S;ESK'', CHR ''F''), (''0S;ESO'', CHR ''F''),
      (''0S;EST'', CHR ''F''), (''0S;EV,'', CHR ''F''), (''0S;EV;'', CHR ''F''), (''0S;EVC'', CHR ''F''),
      (''0S;EVK'', CHR ''F''), (''0S;EVO'', CHR ''F''), (''0S;EVT'', CHR ''F''), (''0S;N:T'', CHR ''F''),
      (''0S;T(1'', CHR ''F''), (''0S;T(C'', CHR ''F''), (''0S;T(E'', CHR ''F''), (''0S;T(F'', CHR ''F''),
      (''0S;T(N'', CHR ''F''), (''0S;T(S'', CHR ''F''), (''0S;T(V'', CHR ''F''), (''0S;T1('', CHR ''F''),
      (''0S;T1,'', CHR ''F''), (''0S;T1;'', CHR ''F''), (''0S;T1C'', CHR ''F''), (''0S;T1F'', CHR ''F''),
      (''0S;T1K'', CHR ''F''), (''0S;T1O'', CHR ''F''), (''0S;T1T'', CHR ''F''), (''0S;T;'', CHR ''F''),
      (''0S;T;C'', CHR ''F''), (''0S;TF('', CHR ''F''), (''0S;TK('', CHR ''F''), (''0S;TK1'', CHR ''F''),
      (''0S;TKF'', CHR ''F''), (''0S;TKK'', CHR ''F''), (''0S;TKN'', CHR ''F''), (''0S;TKO'', CHR ''F''),
      (''0S;TKS'', CHR ''F''), (''0S;TKV'', CHR ''F'')]"

definition sql_keywords_37 :: "keyword list" where
  "sql_keywords_37 =
     [(''0S;TN('', CHR ''F''), (''0S;TN,'', CHR ''F''), (''0S;TN1'', CHR ''F''), (''0S;TN;'', CHR ''F''),
      (''0S;TNC'', CHR ''F''), (''0S;TNE'', CHR ''F''), (''0S;TNF'', CHR ''F''), (''0S;TNK'', CHR ''F''),
      (''0S;TNN'', CHR ''F''), (''0S;TNO'', CHR ''F''), (''0S;TNS'', CHR ''F''), (''0S;TNT'', CHR ''F''),
      (''0S;TNV'', CHR ''F''), (''0S;TO('', CHR ''F''), (''0S;TS('', CHR ''F''), (''0S;TS,'', CHR ''F''),
      (''0S;TS;'', CHR ''F''), (''0S;TSC'', CHR ''F''), (''0S;TSF'', CHR ''F''), (''0S;TSK'', CHR ''F''),
      (''0S;TSO'', CHR ''F''), (''0S;TST'', CHR ''F''), (''0S;TTN'', CHR ''F''), (''0S;TV('', CHR ''F''),
      (''0S;TV,'', CHR ''F''), (''0S;TV;'', CHR ''F''), (''0S;TVC'', CHR ''F''), (''0S;TVF'', CHR ''F''),
      (''0S;TVK'', CHR ''F''), (''0S;TVO'', CHR ''F''), (''0S;TVT'', CHR ''F''), (''0SA(F('', CHR ''F''),
      (''0SA(N)'', CHR ''F''), (''0SA(NO'', CHR ''F''), (''0SA(S)'', CHR ''F''), (''0SA(SO'', CHR ''F''),
      (''0SA(V)'', CHR ''F''), (''0SA(VO'', CHR ''F''), (''0SAF()'', CHR ''F''), (''0SAF(1'', CHR ''F''),
      (''0SAF(F'', CHR ''F''), (''0SAF(N'', CHR ''F''), (''0SAF(S'', CHR ''F''), (''0SAF(V'', CHR ''F''),
      (''0SASO('', CHR ''F''), (''0SASO1'', CHR ''F''), (''0SASOF'', CHR ''F''), (''0SASON'', CHR ''F''),
      (''0SASOS'', CHR ''F''), (''0SASOV'', CHR ''F''), (''0SASUE'', CHR ''F''), (''0SATO('', CHR ''F''),
      (''0SATO1'', CHR ''F''), (''0SATOF'', CHR ''F''), (''0SATON'', CHR ''F''), (''0SATOS'', CHR ''F''),
      (''0SATOV'', CHR ''F''), (''0SATUE'', CHR ''F''), (''0SAVO('', CHR ''F''), (''0SAVOF'', CHR ''F''),
      (''0SAVOS'', CHR ''F''), (''0SAVUE'', CHR ''F''), (''0SB(1)'', CHR ''F''), (''0SB(1O'', CHR ''F''),
      (''0SB(F('', CHR ''F''), (''0SB(NO'', CHR ''F''), (''0SB(S)'', CHR ''F''), (''0SB(SO'', CHR ''F''),
      (''0SB(V)'', CHR ''F''), (''0SB(VO'', CHR ''F''), (''0SB1'', CHR ''F''), (''0SB1&('', CHR ''F''),
      (''0SB1&1'', CHR ''F''), (''0SB1&F'', CHR ''F''), (''0SB1&N'', CHR ''F''), (''0SB1&S'', CHR ''F''),
      (''0SB1&V'', CHR ''F''), (''0SB1,('', CHR ''F''), (''0SB1,F'', CHR ''F''), (''0SB1;'', CHR ''F''),
      (''0SB1;C'', CHR ''F''), (''0SB1B('', CHR ''F''), (''0SB1B1'', CHR ''F''), (''0SB1BF'', CHR ''F''),
      (''0SB1BN'', CHR ''F''), (''0SB1BS'', CHR ''F''), (''0SB1BV'', CHR ''F''), (''0SB1C'', CHR ''F''),
      (''0SB1K('', CHR ''F''), (''0SB1K1'', CHR ''F''), (''0SB1KF'', CHR ''F''), (''0SB1KN'', CHR ''F''),
      (''0SB1KS'', CHR ''F''), (''0SB1KV'', CHR ''F''), (''0SB1O('', CHR ''F''), (''0SB1OF'', CHR ''F''),
      (''0SB1OS'', CHR ''F''), (''0SB1OV'', CHR ''F''), (''0SB1U('', CHR ''F''), (''0SB1UE'', CHR ''F''),
      (''0SBE(1'', CHR ''F''), (''0SBE(F'', CHR ''F''), (''0SBE(N'', CHR ''F''), (''0SBE(S'', CHR ''F''),
      (''0SBE(V'', CHR ''F''), (''0SBEK('', CHR ''F''), (''0SBF()'', CHR ''F''), (''0SBF(1'', CHR ''F''),
      (''0SBF(F'', CHR ''F''), (''0SBF(N'', CHR ''F''), (''0SBF(S'', CHR ''F''), (''0SBF(V'', CHR ''F''),
      (''0SBN'', CHR ''F''), (''0SBN&('', CHR ''F''), (''0SBN&1'', CHR ''F''), (''0SBN&F'', CHR ''F''),
      (''0SBN&N'', CHR ''F''), (''0SBN&S'', CHR ''F''), (''0SBN&V'', CHR ''F''), (''0SBN,('', CHR ''F''),
      (''0SBN,F'', CHR ''F''), (''0SBN;'', CHR ''F''), (''0SBN;C'', CHR ''F''), (''0SBNB('', CHR ''F''),
      (''0SBNB1'', CHR ''F''), (''0SBNBF'', CHR ''F''), (''0SBNBN'', CHR ''F''), (''0SBNBS'', CHR ''F''),
      (''0SBNBV'', CHR ''F''), (''0SBNC'', CHR ''F''), (''0SBNK('', CHR ''F''), (''0SBNK1'', CHR ''F''),
      (''0SBNKF'', CHR ''F''), (''0SBNKN'', CHR ''F''), (''0SBNKS'', CHR ''F''), (''0SBNKV'', CHR ''F''),
      (''0SBNO('', CHR ''F''), (''0SBNOF'', CHR ''F''), (''0SBNOS'', CHR ''F''), (''0SBNOV'', CHR ''F''),
      (''0SBNU('', CHR ''F''), (''0SBNUE'', CHR ''F''), (''0SBS'', CHR ''F''), (''0SBS&('', CHR ''F''),
      (''0SBS&1'', CHR ''F''), (''0SBS&F'', CHR ''F''), (''0SBS&N'', CHR ''F''), (''0SBS&S'', CHR ''F''),
      (''0SBS&V'', CHR ''F''), (''0SBS,('', CHR ''F'')]"

definition sql_keywords_38 :: "keyword list" where
  "sql_keywords_38 =
     [(''0SBS,F'', CHR ''F''), (''0SBS;'', CHR ''F''), (''0SBS;C'', CHR ''F''), (''0SBSB('', CHR ''F''),
      (''0SBSB1'', CHR ''F''), (''0SBSBF'', CHR ''F''), (''0SBSBN'', CHR ''F''), (''0SBSBS'', CHR ''F''),
      (''0SBSBV'', CHR ''F''), (''0SBSC'', CHR ''F''), (''0SBSK('', CHR ''F''), (''0SBSK1'', CHR ''F''),
      (''0SBSKF'', CHR ''F''), (''0SBSKN'', CHR ''F''), (''0SBSKS'', CHR ''F''), (''0SBSKV'', CHR ''F''),
      (''0SBSO('', CHR ''F''), (''0SBSO1'', CHR ''F''), (''0SBSOF'', CHR ''F''), (''0SBSON'', CHR ''F''),
      (''0SBSOS'', CHR ''F''), (''0SBSOV'', CHR ''F''), (''0SBSU('', CHR ''F''), (''0SBSUE'', CHR ''F''),
      (''0SBV'', CHR ''F''), (''0SBV&('', CHR ''F''), (''0SBV&1'', CHR ''F''), (''0SBV&F'', CHR ''F''),
      (''0SBV&N'', CHR ''F''), (''0SBV&S'', CHR ''F''), (''0SBV&V'', CHR ''F''), (''0SBV,('', CHR ''F''),
      (''0SBV,F'', CHR ''F''), (''0SBV;'', CHR ''F''), (''0SBV;C'', CHR ''F''), (''0SBVB('', CHR ''F''),
      (''0SBVB1'', CHR ''F''), (''0SBVBF'', CHR ''F''), (''0SBVBN'', CHR ''F''), (''0SBVBS'', CHR ''F''),
      (''0SBVBV'', CHR ''F''), (''0SBVC'', CHR ''F''), (''0SBVK('', CHR ''F''), (''0SBVK1'', CHR ''F''),
      (''0SBVKF'', CHR ''F''), (''0SBVKN'', CHR ''F''), (''0SBVKS'', CHR ''F''), (''0SBVKV'', CHR ''F''),
      (''0SBVO('', CHR ''F''), (''0SBVOF'', CHR ''F''), (''0SBVOS'', CHR ''F''), (''0SBVU('', CHR ''F''),
      (''0SBVUE'', CHR ''F''), (''0SC'', CHR ''F''), (''0SE(1)'', CHR ''F''), (''0SE(1O'', CHR ''F''),
      (''0SE(F('', CHR ''F''), (''0SE(N)'', CHR ''F''), (''0SE(NO'', CHR ''F''), (''0SE(S)'', CHR ''F''),
      (''0SE(SO'', CHR ''F''), (''0SE(V)'', CHR ''F''), (''0SE(VO'', CHR ''F''), (''0SE1;T'', CHR ''F''),
      (''0SE1C'', CHR ''F''), (''0SE1O('', CHR ''F''), (''0SE1OF'', CHR ''F''), (''0SE1OS'', CHR ''F''),
      (''0SE1OV'', CHR ''F''), (''0SE1T('', CHR ''F''), (''0SE1T1'', CHR ''F''), (''0SE1TF'', CHR ''F''),
      (''0SE1TN'', CHR ''F''), (''0SE1TS'', CHR ''F''), (''0SE1TV'', CHR ''F''), (''0SE1UE'', CHR ''F''),
      (''0SEF()'', CHR ''F''), (''0SEF(1'', CHR ''F''), (''0SEF(F'', CHR ''F''), (''0SEF(N'', CHR ''F''),
      (''0SEF(S'', CHR ''F''), (''0SEF(V'', CHR ''F''), (''0SEK(1'', CHR ''F''), (''0SEK(E'', CHR ''F''),
      (''0SEK(F'', CHR ''F''), (''0SEK(N'', CHR ''F''), (''0SEK(S'', CHR ''F''), (''0SEK(V'', CHR ''F''),
      (''0SEK1;'', CHR ''F''), (''0SEK1C'', CHR ''F''), (''0SEK1O'', CHR ''F''), (''0SEK1T'', CHR ''F''),
      (''0SEK1U'', CHR ''F''), (''0SEKF('', CHR ''F''), (''0SEKN;'', CHR ''F''), (''0SEKNC'', CHR ''F''),
      (''0SEKNE'', CHR ''F''), (''0SEKNT'', CHR ''F''), (''0SEKNU'', CHR ''F''), (''0SEKOK'', CHR ''F''),
      (''0SEKS;'', CHR ''F''), (''0SEKSC'', CHR ''F''), (''0SEKSO'', CHR ''F''), (''0SEKST'', CHR ''F''),
      (''0SEKSU'', CHR ''F''), (''0SEKU('', CHR ''F''), (''0SEKU1'', CHR ''F''), (''0SEKUE'', CHR ''F''),
      (''0SEKUF'', CHR ''F''), (''0SEKUS'', CHR ''F''), (''0SEKUV'', CHR ''F''), (''0SEKV;'', CHR ''F''),
      (''0SEKVC'', CHR ''F''), (''0SEKVO'', CHR ''F''), (''0SEKVT'', CHR ''F''), (''0SEKVU'', CHR ''F''),
      (''0SEN;T'', CHR ''F''), (''0SENC'', CHR ''F''), (''0SENEN'', CHR ''F''), (''0SENO('', CHR ''F''),
      (''0SENOF'', CHR ''F''), (''0SENOS'', CHR ''F''), (''0SENOV'', CHR ''F''), (''0SENT('', CHR ''F''),
      (''0SENT1'', CHR ''F''), (''0SENTF'', CHR ''F''), (''0SENTN'', CHR ''F''), (''0SENTS'', CHR ''F''),
      (''0SENTV'', CHR ''F''), (''0SENUE'', CHR ''F''), (''0SEOKN'', CHR ''F''), (''0SES;T'', CHR ''F''),
      (''0SESC'', CHR ''F''), (''0SESO('', CHR ''F''), (''0SESO1'', CHR ''F''), (''0SESOF'', CHR ''F''),
      (''0SESON'', CHR ''F''), (''0SESOS'', CHR ''F''), (''0SESOV'', CHR ''F''), (''0SEST('', CHR ''F''),
      (''0SEST1'', CHR ''F''), (''0SESTF'', CHR ''F''), (''0SESTN'', CHR ''F''), (''0SESTS'', CHR ''F''),
      (''0SESTV'', CHR ''F''), (''0SESUE'', CHR ''F''), (''0SEU(1'', CHR ''F''), (''0SEU(F'', CHR ''F''),
      (''0SEU(N'', CHR ''F''), (''0SEU(S'', CHR ''F'')]"

definition sql_keywords_39 :: "keyword list" where
  "sql_keywords_39 =
     [(''0SEU(V'', CHR ''F''), (''0SEU1,'', CHR ''F''), (''0SEU1C'', CHR ''F''), (''0SEU1O'', CHR ''F''),
      (''0SEUEF'', CHR ''F''), (''0SEUEK'', CHR ''F''), (''0SEUF('', CHR ''F''), (''0SEUS,'', CHR ''F''),
      (''0SEUSC'', CHR ''F''), (''0SEUSO'', CHR ''F''), (''0SEUV,'', CHR ''F''), (''0SEUVC'', CHR ''F''),
      (''0SEUVO'', CHR ''F''), (''0SEV;T'', CHR ''F''), (''0SEVC'', CHR ''F''), (''0SEVO('', CHR ''F''),
      (''0SEVOF'', CHR ''F''), (''0SEVOS'', CHR ''F''), (''0SEVT('', CHR ''F''), (''0SEVT1'', CHR ''F''),
      (''0SEVTF'', CHR ''F''), (''0SEVTN'', CHR ''F''), (''0SEVTS'', CHR ''F''), (''0SEVTV'', CHR ''F''),
      (''0SEVUE'', CHR ''F''), (''0SF()1'', CHR ''F''), (''0SF()F'', CHR ''F''), (''0SF()K'', CHR ''F''),
      (''0SF()N'', CHR ''F''), (''0SF()O'', CHR ''F''), (''0SF()S'', CHR ''F''), (''0SF()U'', CHR ''F''),
      (''0SF()V'', CHR ''F''), (''0SF(1)'', CHR ''F''), (''0SF(1N'', CHR ''F''), (''0SF(1O'', CHR ''F''),
      (''0SF(E('', CHR ''F''), (''0SF(E1'', CHR ''F''), (''0SF(EF'', CHR ''F''), (''0SF(EK'', CHR ''F''),
      (''0SF(EN'', CHR ''F''), (''0SF(ES'', CHR ''F''), (''0SF(EV'', CHR ''F''), (''0SF(F('', CHR ''F''),
      (''0SF(N)'', CHR ''F''), (''0SF(N,'', CHR ''F''), (''0SF(NO'', CHR ''F''), (''0SF(S)'', CHR ''F''),
      (''0SF(SO'', CHR ''F''), (''0SF(V)'', CHR ''F''), (''0SF(VO'', CHR ''F''), (''0SK(1)'', CHR ''F''),
      (''0SK(1O'', CHR ''F''), (''0SK(F('', CHR ''F''), (''0SK(N)'', CHR ''F''), (''0SK(NO'', CHR ''F''),
      (''0SK(S)'', CHR ''F''), (''0SK(SO'', CHR ''F''), (''0SK(V)'', CHR ''F''), (''0SK(VO'', CHR ''F''),
      (''0SK)&('', CHR ''F''), (''0SK)&1'', CHR ''F''), (''0SK)&F'', CHR ''F''), (''0SK)&N'', CHR ''F''),
      (''0SK)&S'', CHR ''F''), (''0SK)&V'', CHR ''F''), (''0SK);E'', CHR ''F''), (''0SK);T'', CHR ''F''),
      (''0SK)B('', CHR ''F''), (''0SK)B1'', CHR ''F''), (''0SK)BF'', CHR ''F''), (''0SK)BN'', CHR ''F''),
      (''0SK)BS'', CHR ''F''), (''0SK)BV'', CHR ''F''), (''0SK)E('', CHR ''F''), (''0SK)E1'', CHR ''F''),
      (''0SK)EF'', CHR ''F''), (''0SK)EK'', CHR ''F''), (''0SK)EN'', CHR ''F''), (''0SK)ES'', CHR ''F''),
      (''0SK)EV'', CHR ''F''), (''0SK)F('', CHR ''F''), (''0SK)O('', CHR ''F''), (''0SK)OF'', CHR ''F''),
      (''0SK)UE'', CHR ''F''), (''0SK1'', CHR ''F''), (''0SK1&('', CHR ''F''), (''0SK1&1'', CHR ''F''),
      (''0SK1&F'', CHR ''F''), (''0SK1&N'', CHR ''F''), (''0SK1&S'', CHR ''F''), (''0SK1&V'', CHR ''F''),
      (''0SK1;'', CHR ''F''), (''0SK1;C'', CHR ''F''), (''0SK1;E'', CHR ''F''), (''0SK1;T'', CHR ''F''),
      (''0SK1B('', CHR ''F''), (''0SK1B1'', CHR ''F''), (''0SK1BF'', CHR ''F''), (''0SK1BN'', CHR ''F''),
      (''0SK1BS'', CHR ''F''), (''0SK1BV'', CHR ''F''), (''0SK1C'', CHR ''F''), (''0SK1E('', CHR ''F''),
      (''0SK1E1'', CHR ''F''), (''0SK1EF'', CHR ''F''), (''0SK1EK'', CHR ''F''), (''0SK1EN'', CHR ''F''),
      (''0SK1ES'', CHR ''F''), (''0SK1EV'', CHR ''F''), (''0SK1O('', CHR ''F''), (''0SK1OF'', CHR ''F''),
      (''0SK1OS'', CHR ''F''), (''0SK1OV'', CHR ''F''), (''0SK1U('', CHR ''F''), (''0SK1UE'', CHR ''F''),
      (''0SKF()'', CHR ''F''), (''0SKF(1'', CHR ''F''), (''0SKF(F'', CHR ''F''), (''0SKF(N'', CHR ''F''),
      (''0SKF(S'', CHR ''F''), (''0SKF(V'', CHR ''F''), (''0SKN'', CHR ''F''), (''0SKN&('', CHR ''F''),
      (''0SKN&1'', CHR ''F''), (''0SKN&F'', CHR ''F''), (''0SKN&N'', CHR ''F''), (''0SKN&S'', CHR ''F''),
      (''0SKN&V'', CHR ''F''), (''0SKN;'', CHR ''F''), (''0SKN;C'', CHR ''F''), (''0SKN;E'', CHR ''F''),
      (''0SKN;T'', CHR ''F''), (''0SKNB('', CHR ''F''), (''0SKNB1'', CHR ''F''), (''0SKNBF'', CHR ''F''),
      (''0SKNBN'', CHR ''F''), (''0SKNBS'', CHR ''F''), (''0SKNBV'', CHR ''F''), (''0SKNC'', CHR ''F''),
      (''0SKNE('', CHR ''F''), (''0SKNE1'', CHR ''F''), (''0SKNEF'', CHR ''F''), (''0SKNEN'', CHR ''F''),
      (''0SKNES'', CHR ''F''), (''0SKNEV'', CHR ''F''), (''0SKNU('', CHR ''F''), (''0SKNUE'', CHR ''F''),
      (''0SKS'', CHR ''F''), (''0SKS&('', CHR ''F'')]"

definition sql_keywords_40 :: "keyword list" where
  "sql_keywords_40 =
     [(''0SKS&1'', CHR ''F''), (''0SKS&F'', CHR ''F''), (''0SKS&N'', CHR ''F''), (''0SKS&S'', CHR ''F''),
      (''0SKS&V'', CHR ''F''), (''0SKS;'', CHR ''F''), (''0SKS;C'', CHR ''F''), (''0SKS;E'', CHR ''F''),
      (''0SKS;T'', CHR ''F''), (''0SKSB('', CHR ''F''), (''0SKSB1'', CHR ''F''), (''0SKSBF'', CHR ''F''),
      (''0SKSBN'', CHR ''F''), (''0SKSBS'', CHR ''F''), (''0SKSBV'', CHR ''F''), (''0SKSC'', CHR ''F''),
      (''0SKSE('', CHR ''F''), (''0SKSE1'', CHR ''F''), (''0SKSEF'', CHR ''F''), (''0SKSEK'', CHR ''F''),
      (''0SKSEN'', CHR ''F''), (''0SKSES'', CHR ''F''), (''0SKSEV'', CHR ''F''), (''0SKSO('', CHR ''F''),
      (''0SKSO1'', CHR ''F''), (''0SKSOF'', CHR ''F''), (''0SKSON'', CHR ''F''), (''0SKSOS'', CHR ''F''),
      (''0SKSOV'', CHR ''F''), (''0SKSU('', CHR ''F''), (''0SKSUE'', CHR ''F''), (''0SKUE('', CHR ''F''),
      (''0SKUE1'', CHR ''F''), (''0SKUEF'', CHR ''F''), (''0SKUEK'', CHR ''F''), (''0SKUEN'', CHR ''F''),
      (''0SKUES'', CHR ''F''), (''0SKUEV'', CHR ''F''), (''0SKV'', CHR ''F''), (''0SKV&('', CHR ''F''),
      (''0SKV&1'', CHR ''F''), (''0SKV&F'', CHR ''F''), (''0SKV&N'', CHR ''F''), (''0SKV&S'', CHR ''F''),
      (''0SKV&V'', CHR ''F''), (''0SKV;'', CHR ''F''), (''0SKV;C'', CHR ''F''), (''0SKV;E'', CHR ''F''),
      (''0SKV;T'', CHR ''F''), (''0SKVB('', CHR ''F''), (''0SKVB1'', CHR ''F''), (''0SKVBF'', CHR ''F''),
      (''0SKVBN'', CHR ''F''), (''0SKVBS'', CHR ''F''), (''0SKVBV'', CHR ''F''), (''0SKVC'', CHR ''F''),
      (''0SKVE('', CHR ''F''), (''0SKVE1'', CHR ''F''), (''0SKVEF'', CHR ''F''), (''0SKVEK'', CHR ''F''),
      (''0SKVEN'', CHR ''F''), (''0SKVES'', CHR ''F''), (''0SKVEV'', CHR ''F''), (''0SKVO('', CHR ''F''),
      (''0SKVOF'', CHR ''F''), (''0SKVOS'', CHR ''F''), (''0SKVU('', CHR ''F''), (''0SKVUE'', CHR ''F''),
      (''0SO(1&'', CHR ''F''), (''0SO(1)'', CHR ''F''), (''0SO(1,'', CHR ''F''), (''0SO(1O'', CHR ''F''),
      (''0SO(E('', CHR ''F''), (''0SO(E1'', CHR ''F''), (''0SO(EE'', CHR ''F''), (''0SO(EF'', CHR ''F''),
      (''0SO(EK'', CHR ''F''), (''0SO(EN'', CHR ''F''), (''0SO(EO'', CHR ''F''), (''0SO(ES'', CHR ''F''),
      (''0SO(EV'', CHR ''F''), (''0SO(F('', CHR ''F''), (''0SO(N&'', CHR ''F''), (''0SO(N)'', CHR ''F''),
      (''0SO(N,'', CHR ''F''), (''0SO(NO'', CHR ''F''), (''0SO(S&'', CHR ''F''), (''0SO(S)'', CHR ''F''),
      (''0SO(S,'', CHR ''F''), (''0SO(SO'', CHR ''F''), (''0SO(V&'', CHR ''F''), (''0SO(V)'', CHR ''F''),
      (''0SO(V,'', CHR ''F''), (''0SO(VO'', CHR ''F''), (''0SO1&('', CHR ''F''), (''0SO1&1'', CHR ''F''),
      (''0SO1&E'', CHR ''F''), (''0SO1&F'', CHR ''F''), (''0SO1&K'', CHR ''F''), (''0SO1&N'', CHR ''F''),
      (''0SO1&S'', CHR ''F''), (''0SO1&U'', CHR ''F''), (''0SO1&V'', CHR ''F''), (''0SO1(E'', CHR ''F''),
      (''0SO1(U'', CHR ''F''), (''0SO1)&'', CHR ''F''), (''0SO1),'', CHR ''F''), (''0SO1);'', CHR ''F''),
      (''0SO1)B'', CHR ''F''), (''0SO1)C'', CHR ''F''), (''0SO1)E'', CHR ''F''), (''0SO1)F'', CHR ''F''),
      (''0SO1)K'', CHR ''F''), (''0SO1)O'', CHR ''F''), (''0SO1)U'', CHR ''F''), (''0SO1,('', CHR ''F''),
      (''0SO1,F'', CHR ''F''), (''0SO1;'', CHR ''F''), (''0SO1;C'', CHR ''F''), (''0SO1;E'', CHR ''F''),
      (''0SO1;N'', CHR ''F''), (''0SO1;T'', CHR ''F''), (''0SO1A('', CHR ''F''), (''0SO1AF'', CHR ''F''),
      (''0SO1AS'', CHR ''F''), (''0SO1AT'', CHR ''F''), (''0SO1AV'', CHR ''F''), (''0SO1B('', CHR ''F''),
      (''0SO1B1'', CHR ''F''), (''0SO1BE'', CHR ''F''), (''0SO1BF'', CHR ''F''), (''0SO1BN'', CHR ''F''),
      (''0SO1BS'', CHR ''F''), (''0SO1BV'', CHR ''F''), (''0SO1C'', CHR ''F''), (''0SO1E('', CHR ''F''),
      (''0SO1E1'', CHR ''F''), (''0SO1EF'', CHR ''F''), (''0SO1EK'', CHR ''F''), (''0SO1EN'', CHR ''F''),
      (''0SO1EO'', CHR ''F''), (''0SO1ES'', CHR ''F''), (''0SO1EU'', CHR ''F''), (''0SO1EV'', CHR ''F''),
      (''0SO1F('', CHR ''F''), (''0SO1K('', CHR ''F''), (''0SO1K)'', CHR ''F''), (''0SO1K1'', CHR ''F''),
      (''0SO1KB'', CHR ''F''), (''0SO1KF'', CHR ''F'')]"

definition sql_keywords_41 :: "keyword list" where
  "sql_keywords_41 =
     [(''0SO1KN'', CHR ''F''), (''0SO1KS'', CHR ''F''), (''0SO1KU'', CHR ''F''), (''0SO1KV'', CHR ''F''),
      (''0SO1N&'', CHR ''F''), (''0SO1N('', CHR ''F''), (''0SO1N,'', CHR ''F''), (''0SO1NE'', CHR ''F''),
      (''0SO1NU'', CHR ''F''), (''0SO1SU'', CHR ''F''), (''0SO1SV'', CHR ''F''), (''0SO1T('', CHR ''F''),
      (''0SO1T1'', CHR ''F''), (''0SO1TE'', CHR ''F''), (''0SO1TF'', CHR ''F''), (''0SO1TN'', CHR ''F''),
      (''0SO1TS'', CHR ''F''), (''0SO1TT'', CHR ''F''), (''0SO1TV'', CHR ''F''), (''0SO1U'', CHR ''F''),
      (''0SO1U('', CHR ''F''), (''0SO1U1'', CHR ''F''), (''0SO1U;'', CHR ''F''), (''0SO1UC'', CHR ''F''),
      (''0SO1UE'', CHR ''F''), (''0SO1UF'', CHR ''F''), (''0SO1UK'', CHR ''F''), (''0SO1UO'', CHR ''F''),
      (''0SO1US'', CHR ''F''), (''0SO1UT'', CHR ''F''), (''0SO1UV'', CHR ''F''), (''0SO1V('', CHR ''F''),
      (''0SO1VF'', CHR ''F''), (''0SO1VO'', CHR ''F''), (''0SO1VS'', CHR ''F''), (''0SO1VU'', CHR ''F''),
      (''0SOF()'', CHR ''F''), (''0SOF(1'', CHR ''F''), (''0SOF(E'', CHR ''F''), (''0SOF(F'', CHR ''F''),
      (''0SOF(N'', CHR ''F''), (''0SOF(S'', CHR ''F''), (''0SOF(V'', CHR ''F''), (''0SOK&('', CHR ''F''),
      (''0SOK&1'', CHR ''F''), (''0SOK&F'', CHR ''F''), (''0SOK&N'', CHR ''F''), (''0SOK&S'', CHR ''F''),
      (''0SOK&V'', CHR ''F''), (''0SOK(1'', CHR ''F''), (''0SOK(F'', CHR ''F''), (''0SOK(N'', CHR ''F''),
      (''0SOK(S'', CHR ''F''), (''0SOK(V'', CHR ''F''), (''0SOK1C'', CHR ''F''), (''0SOK1O'', CHR ''F''),
      (''0SOKF('', CHR ''F''), (''0SOKNC'', CHR ''F''), (''0SOKO('', CHR ''F''), (''0SOKO1'', CHR ''F''),
      (''0SOKOF'', CHR ''F''), (''0SOKON'', CHR ''F''), (''0SOKOS'', CHR ''F''), (''0SOKOV'', CHR ''F''),
      (''0SOKSC'', CHR ''F''), (''0SOKSO'', CHR ''F''), (''0SOKVC'', CHR ''F''), (''0SOKVO'', CHR ''F''),
      (''0SON&('', CHR ''F''), (''0SON&1'', CHR ''F''), (''0SON&E'', CHR ''F''), (''0SON&F'', CHR ''F''),
      (''0SON&K'', CHR ''F''), (''0SON&N'', CHR ''F''), (''0SON&S'', CHR ''F''), (''0SON&U'', CHR ''F''),
      (''0SON&V'', CHR ''F''), (''0SON(1'', CHR ''F''), (''0SON(E'', CHR ''F''), (''0SON(F'', CHR ''F''),
      (''0SON(S'', CHR ''F''), (''0SON(U'', CHR ''F''), (''0SON(V'', CHR ''F''), (''0SON)&'', CHR ''F''),
      (''0SON),'', CHR ''F''), (''0SON);'', CHR ''F''), (''0SON)B'', CHR ''F''), (''0SON)C'', CHR ''F''),
      (''0SON)E'', CHR ''F''), (''0SON)F'', CHR ''F''), (''0SON)K'', CHR ''F''), (''0SON)O'', CHR ''F''),
      (''0SON)U'', CHR ''F''), (''0SON,('', CHR ''F''), (''0SON,F'', CHR ''F''), (''0SON1('', CHR ''F''),
      (''0SON1O'', CHR ''F''), (''0SON1U'', CHR ''F''), (''0SON1V'', CHR ''F''), (''0SON;'', CHR ''F''),
      (''0SON;C'', CHR ''F''), (''0SON;E'', CHR ''F''), (''0SON;N'', CHR ''F''), (''0SON;T'', CHR ''F''),
      (''0SONA('', CHR ''F''), (''0SONAF'', CHR ''F''), (''0SONAS'', CHR ''F''), (''0SONAT'', CHR ''F''),
      (''0SONAV'', CHR ''F''), (''0SONB('', CHR ''F''), (''0SONB1'', CHR ''F''), (''0SONBE'', CHR ''F''),
      (''0SONBF'', CHR ''F''), (''0SONBN'', CHR ''F''), (''0SONBS'', CHR ''F''), (''0SONBV'', CHR ''F''),
      (''0SONE('', CHR ''F''), (''0SONE1'', CHR ''F''), (''0SONEF'', CHR ''F''), (''0SONEN'', CHR ''F''),
      (''0SONEO'', CHR ''F''), (''0SONES'', CHR ''F''), (''0SONEU'', CHR ''F''), (''0SONEV'', CHR ''F''),
      (''0SONF('', CHR ''F''), (''0SONK('', CHR ''F''), (''0SONK)'', CHR ''F''), (''0SONK1'', CHR ''F''),
      (''0SONKB'', CHR ''F''), (''0SONKF'', CHR ''F''), (''0SONKS'', CHR ''F''), (''0SONKU'', CHR ''F''),
      (''0SONKV'', CHR ''F''), (''0SONSU'', CHR ''F''), (''0SONT('', CHR ''F''), (''0SONT1'', CHR ''F''),
      (''0SONTE'', CHR ''F''), (''0SONTF'', CHR ''F''), (''0SONTN'', CHR ''F''), (''0SONTS'', CHR ''F''),
      (''0SONTT'', CHR ''F''), (''0SONTV'', CHR ''F''), (''0SONU'', CHR ''F''), (''0SONU('', CHR ''F''),
      (''0SONU1'', CHR ''F''), (''0SONU;'', CHR ''F''), (''0SONUC'', CHR ''F''), (''0SONUE'', CHR ''F''),
      (''0SONUF'', CHR ''F''), (''0SONUK'', CHR ''F'')]"

definition sql_keywords_42 :: "keyword list" where
  "sql_keywords_42 =
     [(''0SONUO'', CHR ''F''), (''0SONUS'', CHR ''F''), (''0SONUT'', CHR ''F''), (''0SONUV'', CHR ''F''),
      (''0SOS'', CHR ''F''), (''0SOS&('', CHR ''F''), (''0SOS&1'', CHR ''F''), (''0SOS&E'', CHR ''F''),
      (''0SOS&F'', CHR ''F''), (''0SOS&K'', CHR ''F''), (''0SOS&N'', CHR ''F''), (''0SOS&S'', CHR ''F''),
      (''0SOS&U'', CHR ''F''), (''0SOS&V'', CHR ''F''), (''0SOS(E'', CHR ''F''), (''0SOS(U'', CHR ''F''),
      (''0SOS)&'', CHR ''F''), (''0SOS),'', CHR ''F''), (''0SOS);'', CHR ''F''), (''0SOS)B'', CHR ''F''),
      (''0SOS)C'', CHR ''F''), (''0SOS)E'', CHR ''F''), (''0SOS)F'', CHR ''F''), (''0SOS)K'', CHR ''F''),
      (''0SOS)O'', CHR ''F''), (''0SOS)U'', CHR ''F''), (''0SOS,('', CHR ''F''), (''0SOS,F'', CHR ''F''),
      (''0SOS1('', CHR ''F''), (''0SOS1F'', CHR ''F''), (''0SOS1N'', CHR ''F''), (''0SOS1S'', CHR ''F''),
      (''0SOS1U'', CHR ''F''), (''0SOS1V'', CHR ''F''), (''0SOS;'', CHR ''F''), (''0SOS;C'', CHR ''F''),
      (''0SOS;E'', CHR ''F''), (''0SOS;N'', CHR ''F''), (''0SOS;T'', CHR ''F''), (''0SOSA('', CHR ''F''),
      (''0SOSAF'', CHR ''F''), (''0SOSAS'', CHR ''F''), (''0SOSAT'', CHR ''F''), (''0SOSAV'', CHR ''F''),
      (''0SOSB('', CHR ''F''), (''0SOSB1'', CHR ''F''), (''0SOSBE'', CHR ''F''), (''0SOSBF'', CHR ''F''),
      (''0SOSBN'', CHR ''F''), (''0SOSBS'', CHR ''F''), (''0SOSBV'', CHR ''F''), (''0SOSC'', CHR ''F''),
      (''0SOSE('', CHR ''F''), (''0SOSE1'', CHR ''F''), (''0SOSEF'', CHR ''F''), (''0SOSEK'', CHR ''F''),
      (''0SOSEN'', CHR ''F''), (''0SOSEO'', CHR ''F''), (''0SOSES'', CHR ''F''), (''0SOSEU'', CHR ''F''),
      (''0SOSEV'', CHR ''F''), (''0SOSF('', CHR ''F''), (''0SOSK('', CHR ''F''), (''0SOSK)'', CHR ''F''),
      (''0SOSK1'', CHR ''F''), (''0SOSKB'', CHR ''F''), (''0SOSKF'', CHR ''F''), (''0SOSKN'', CHR ''F''),
      (''0SOSKS'', CHR ''F''), (''0SOSKU'', CHR ''F''), (''0SOSKV'', CHR ''F''), (''0SOST('', CHR ''F''),
      (''0SOST1'', CHR ''F''), (''0SOSTE'', CHR ''F''), (''0SOSTF'', CHR ''F''), (''0SOSTN'', CHR ''F''),
      (''0SOSTS'', CHR ''F''), (''0SOSTT'', CHR ''F''), (''0SOSTV'', CHR ''F''), (''0SOSU'', CHR ''F''),
      (''0SOSU('', CHR ''F''), (''0SOSU1'', CHR ''F''), (''0SOSU;'', CHR ''F''), (''0SOSUC'', CHR ''F''),
      (''0SOSUE'', CHR ''F''), (''0SOSUF'', CHR ''F''), (''0SOSUK'', CHR ''F''), (''0SOSUO'', CHR ''F''),
      (''0SOSUS'', CHR ''F''), (''0SOSUT'', CHR ''F''), (''0SOSUV'', CHR ''F''), (''0SOSV('', CHR ''F''),
      (''0SOSVF'', CHR ''F''), (''0SOSVO'', CHR ''F''), (''0SOSVS'', CHR ''F''), (''0SOSVU'', CHR ''F''),
      (''0SOU(E'', CHR ''F''), (''0SOUEK'', CHR ''F''), (''0SOUEN'', CHR ''F''), (''0SOV'', CHR ''F''),
      (''0SOV&('', CHR ''F''), (''0SOV&1'', CHR ''F''), (''0SOV&E'', CHR ''F''), (''0SOV&F'', CHR ''F''),
      (''0SOV&K'', CHR ''F''), (''0SOV&N'', CHR ''F''), (''0SOV&S'', CHR ''F''), (''0SOV&U'', CHR ''F''),
      (''0SOV&V'', CHR ''F''), (''0SOV(E'', CHR ''F''), (''0SOV(U'', CHR ''F''), (''0SOV)&'', CHR ''F''),
      (''0SOV),'', CHR ''F''), (''0SOV);'', CHR ''F''), (''0SOV)B'', CHR ''F''), (''0SOV)C'', CHR ''F''),
      (''0SOV)E'', CHR ''F''), (''0SOV)F'', CHR ''F''), (''0SOV)K'', CHR ''F''), (''0SOV)O'', CHR ''F''),
      (''0SOV)U'', CHR ''F''), (''0SOV,('', CHR ''F''), (''0SOV,F'', CHR ''F''), (''0SOV;'', CHR ''F''),
      (''0SOV;C'', CHR ''F''), (''0SOV;E'', CHR ''F''), (''0SOV;N'', CHR ''F''), (''0SOV;T'', CHR ''F''),
      (''0SOVA('', CHR ''F''), (''0SOVAF'', CHR ''F''), (''0SOVAS'', CHR ''F''), (''0SOVAT'', CHR ''F''),
      (''0SOVAV'', CHR ''F''), (''0SOVB('', CHR ''F''), (''0SOVB1'', CHR ''F''), (''0SOVBE'', CHR ''F''),
      (''0SOVBF'', CHR ''F''), (''0SOVBN'', CHR ''F''), (''0SOVBS'', CHR ''F''), (''0SOVBV'', CHR ''F''),
      (''0SOVC'', CHR ''F''), (''0SOVE('', CHR ''F''), (''0SOVE1'', CHR ''F''), (''0SOVEF'', CHR ''F''),
      (''0SOVEK'', CHR ''F''), (''0SOVEN'', CHR ''F''), (''0SOVEO'', CHR ''F''), (''0SOVES'', CHR ''F''),
      (''0SOVEU'', CHR ''F''), (''0SOVEV'', CHR ''F'')]"

definition sql_keywords_43 :: "keyword list" where
  "sql_keywords_43 =
     [(''0SOVF('', CHR ''F''), (''0SOVK('', CHR ''F''), (''0SOVK)'', CHR ''F''), (''0SOVK1'', CHR ''F''),
      (''0SOVKB'', CHR ''F''), (''0SOVKF'', CHR ''F''), (''0SOVKN'', CHR ''F''), (''0SOVKS'', CHR ''F''),
      (''0SOVKU'', CHR ''F''), (''0SOVKV'', CHR ''F''), (''0SOVO('', CHR ''F''), (''0SOVOF'', CHR ''F''),
      (''0SOVOK'', CHR ''F''), (''0SOVOS'', CHR ''F''), (''0SOVOU'', CHR ''F''), (''0SOVS('', CHR ''F''),
      (''0SOVS1'', CHR ''F''), (''0SOVSF'', CHR ''F''), (''0SOVSO'', CHR ''F''), (''0SOVSU'', CHR ''F''),
      (''0SOVSV'', CHR ''F''), (''0SOVT('', CHR ''F''), (''0SOVT1'', CHR ''F''), (''0SOVTE'', CHR ''F''),
      (''0SOVTF'', CHR ''F''), (''0SOVTN'', CHR ''F''), (''0SOVTS'', CHR ''F''), (''0SOVTT'', CHR ''F''),
      (''0SOVTV'', CHR ''F''), (''0SOVU'', CHR ''F''), (''0SOVU('', CHR ''F''), (''0SOVU1'', CHR ''F''),
      (''0SOVU;'', CHR ''F''), (''0SOVUC'', CHR ''F''), (''0SOVUE'', CHR ''F''), (''0SOVUF'', CHR ''F''),
      (''0SOVUK'', CHR ''F''), (''0SOVUO'', CHR ''F''), (''0SOVUS'', CHR ''F''), (''0SOVUT'', CHR ''F''),
      (''0SOVUV'', CHR ''F''), (''0ST(1)'', CHR ''F''), (''0ST(1O'', CHR ''F''), (''0ST(F('', CHR ''F''),
      (''0ST(N)'', CHR ''F''), (''0ST(NO'', CHR ''F''), (''0ST(S)'', CHR ''F''), (''0ST(SO'', CHR ''F''),
      (''0ST(V)'', CHR ''F''), (''0ST(VO'', CHR ''F''), (''0ST1(F'', CHR ''F''), (''0ST1O('', CHR ''F''),
      (''0ST1OF'', CHR ''F''), (''0ST1OS'', CHR ''F''), (''0ST1OV'', CHR ''F''), (''0STE(1'', CHR ''F''),
      (''0STE(F'', CHR ''F''), (''0STE(N'', CHR ''F''), (''0STE(S'', CHR ''F''), (''0STE(V'', CHR ''F''),
      (''0STE1N'', CHR ''F''), (''0STE1O'', CHR ''F''), (''0STEF('', CHR ''F''), (''0STEK('', CHR ''F''),
      (''0STEK1'', CHR ''F''), (''0STEKF'', CHR ''F''), (''0STEKN'', CHR ''F''), (''0STEKS'', CHR ''F''),
      (''0STEKV'', CHR ''F''), (''0STENN'', CHR ''F''), (''0STENO'', CHR ''F''), (''0STESN'', CHR ''F''),
      (''0STESO'', CHR ''F''), (''0STEVN'', CHR ''F''), (''0STEVO'', CHR ''F''), (''0STF()'', CHR ''F''),
      (''0STF(1'', CHR ''F''), (''0STF(F'', CHR ''F''), (''0STF(N'', CHR ''F''), (''0STF(S'', CHR ''F''),
      (''0STF(V'', CHR ''F''), (''0STN(1'', CHR ''F''), (''0STN(F'', CHR ''F''), (''0STN(S'', CHR ''F''),
      (''0STN(V'', CHR ''F''), (''0STN1C'', CHR ''F''), (''0STN1O'', CHR ''F''), (''0STN;E'', CHR ''F''),
      (''0STN;N'', CHR ''F''), (''0STN;T'', CHR ''F''), (''0STNE('', CHR ''F''), (''0STNE1'', CHR ''F''),
      (''0STNEF'', CHR ''F''), (''0STNEN'', CHR ''F''), (''0STNES'', CHR ''F''), (''0STNEV'', CHR ''F''),
      (''0STNF('', CHR ''F''), (''0STNKN'', CHR ''F''), (''0STNN:'', CHR ''F''), (''0STNNC'', CHR ''F''),
      (''0STNNO'', CHR ''F''), (''0STNO('', CHR ''F''), (''0STNOF'', CHR ''F''), (''0STNOS'', CHR ''F''),
      (''0STNOV'', CHR ''F''), (''0STNSC'', CHR ''F''), (''0STNSO'', CHR ''F''), (''0STNT('', CHR ''F''),
      (''0STNT1'', CHR ''F''), (''0STNTF'', CHR ''F''), (''0STNTN'', CHR ''F''), (''0STNTS'', CHR ''F''),
      (''0STNTV'', CHR ''F''), (''0STNVC'', CHR ''F''), (''0STNVO'', CHR ''F''), (''0STS(F'', CHR ''F''),
      (''0STSO('', CHR ''F''), (''0STSO1'', CHR ''F''), (''0STSOF'', CHR ''F''), (''0STSON'', CHR ''F''),
      (''0STSOS'', CHR ''F''), (''0STSOV'', CHR ''F''), (''0STTNE'', CHR ''F''), (''0STTNK'', CHR ''F''),
      (''0STTNN'', CHR ''F''), (''0STTNT'', CHR ''F''), (''0STV(1'', CHR ''F''), (''0STV(F'', CHR ''F''),
      (''0STVO('', CHR ''F''), (''0STVOF'', CHR ''F''), (''0STVOS'', CHR ''F''), (''0SU(1)'', CHR ''F''),
      (''0SU(1O'', CHR ''F''), (''0SU(E('', CHR ''F''), (''0SU(E1'', CHR ''F''), (''0SU(EF'', CHR ''F''),
      (''0SU(EK'', CHR ''F''), (''0SU(EN'', CHR ''F''), (''0SU(ES'', CHR ''F''), (''0SU(EV'', CHR ''F''),
      (''0SU(F('', CHR ''F''), (''0SU(N)'', CHR ''F''), (''0SU(NO'', CHR ''F''), (''0SU(S)'', CHR ''F''),
      (''0SU(SO'', CHR ''F''), (''0SU(V)'', CHR ''F''), (''0SU(VO'', CHR ''F''), (''0SU1,('', CHR ''F''),
      (''0SU1,F'', CHR ''F''), (''0SU1C'', CHR ''F'')]"

definition sql_keywords_44 :: "keyword list" where
  "sql_keywords_44 =
     [(''0SU1O('', CHR ''F''), (''0SU1OF'', CHR ''F''), (''0SU1OS'', CHR ''F''), (''0SU1OV'', CHR ''F''),
      (''0SU;'', CHR ''F''), (''0SU;C'', CHR ''F''), (''0SUC'', CHR ''F''), (''0SUE'', CHR ''F''),
      (''0SUE(1'', CHR ''F''), (''0SUE(E'', CHR ''F''), (''0SUE(F'', CHR ''F''), (''0SUE(N'', CHR ''F''),
      (''0SUE(O'', CHR ''F''), (''0SUE(S'', CHR ''F''), (''0SUE(V'', CHR ''F''), (''0SUE1'', CHR ''F''),
      (''0SUE1&'', CHR ''F''), (''0SUE1('', CHR ''F''), (''0SUE1)'', CHR ''F''), (''0SUE1,'', CHR ''F''),
      (''0SUE1;'', CHR ''F''), (''0SUE1B'', CHR ''F''), (''0SUE1C'', CHR ''F''), (''0SUE1F'', CHR ''F''),
      (''0SUE1K'', CHR ''F''), (''0SUE1N'', CHR ''F''), (''0SUE1O'', CHR ''F''), (''0SUE1S'', CHR ''F''),
      (''0SUE1U'', CHR ''F''), (''0SUE1V'', CHR ''F''), (''0SUE;'', CHR ''F''), (''0SUE;C'', CHR ''F''),
      (''0SUEC'', CHR ''F''), (''0SUEF'', CHR ''F''), (''0SUEF('', CHR ''F''), (''0SUEF,'', CHR ''F''),
      (''0SUEF;'', CHR ''F''), (''0SUEFC'', CHR ''F''), (''0SUEK'', CHR ''F''), (''0SUEK('', CHR ''F''),
      (''0SUEK1'', CHR ''F''), (''0SUEK;'', CHR ''F''), (''0SUEKC'', CHR ''F''), (''0SUEKF'', CHR ''F''),
      (''0SUEKN'', CHR ''F''), (''0SUEKO'', CHR ''F''), (''0SUEKS'', CHR ''F''), (''0SUEKV'', CHR ''F''),
      (''0SUEN'', CHR ''F''), (''0SUEN&'', CHR ''F''), (''0SUEN('', CHR ''F''), (''0SUEN)'', CHR ''F''),
      (''0SUEN,'', CHR ''F''), (''0SUEN1'', CHR ''F''), (''0SUEN;'', CHR ''F''), (''0SUENB'', CHR ''F''),
      (''0SUENC'', CHR ''F''), (''0SUENF'', CHR ''F''), (''0SUENK'', CHR ''F''), (''0SUENO'', CHR ''F''),
      (''0SUENS'', CHR ''F''), (''0SUENU'', CHR ''F''), (''0SUEOK'', CHR ''F''), (''0SUEON'', CHR ''F''),
      (''0SUES'', CHR ''F''), (''0SUES&'', CHR ''F''), (''0SUES('', CHR ''F''), (''0SUES)'', CHR ''F''),
      (''0SUES,'', CHR ''F''), (''0SUES1'', CHR ''F''), (''0SUES;'', CHR ''F''), (''0SUESB'', CHR ''F''),
      (''0SUESC'', CHR ''F''), (''0SUESF'', CHR ''F''), (''0SUESK'', CHR ''F''), (''0SUESO'', CHR ''F''),
      (''0SUESU'', CHR ''F''), (''0SUESV'', CHR ''F''), (''0SUEV'', CHR ''F''), (''0SUEV&'', CHR ''F''),
      (''0SUEV('', CHR ''F''), (''0SUEV)'', CHR ''F''), (''0SUEV,'', CHR ''F''), (''0SUEV;'', CHR ''F''),
      (''0SUEVB'', CHR ''F''), (''0SUEVC'', CHR ''F''), (''0SUEVF'', CHR ''F''), (''0SUEVK'', CHR ''F''),
      (''0SUEVN'', CHR ''F''), (''0SUEVO'', CHR ''F''), (''0SUEVS'', CHR ''F''), (''0SUEVU'', CHR ''F''),
      (''0SUF()'', CHR ''F''), (''0SUF(1'', CHR ''F''), (''0SUF(F'', CHR ''F''), (''0SUF(N'', CHR ''F''),
      (''0SUF(S'', CHR ''F''), (''0SUF(V'', CHR ''F''), (''0SUK(E'', CHR ''F''), (''0SUO(E'', CHR ''F''),
      (''0SUON('', CHR ''F''), (''0SUON1'', CHR ''F''), (''0SUONF'', CHR ''F''), (''0SUONS'', CHR ''F''),
      (''0SUS,('', CHR ''F''), (''0SUS,F'', CHR ''F''), (''0SUSC'', CHR ''F''), (''0SUSO('', CHR ''F''),
      (''0SUSO1'', CHR ''F''), (''0SUSOF'', CHR ''F''), (''0SUSON'', CHR ''F''), (''0SUSOS'', CHR ''F''),
      (''0SUSOV'', CHR ''F''), (''0SUTN('', CHR ''F''), (''0SUTN1'', CHR ''F''), (''0SUTNF'', CHR ''F''),
      (''0SUTNN'', CHR ''F''), (''0SUTNS'', CHR ''F''), (''0SUTNV'', CHR ''F''), (''0SUV,('', CHR ''F''),
      (''0SUV,F'', CHR ''F''), (''0SUVC'', CHR ''F''), (''0SUVO('', CHR ''F''), (''0SUVOF'', CHR ''F''),
      (''0SUVOS'', CHR ''F''), (''0SVF()'', CHR ''F''), (''0SVF(1'', CHR ''F''), (''0SVF(F'', CHR ''F''),
      (''0SVF(N'', CHR ''F''), (''0SVF(S'', CHR ''F''), (''0SVF(V'', CHR ''F''), (''0SVO(1'', CHR ''F''),
      (''0SVO(F'', CHR ''F''), (''0SVO(N'', CHR ''F''), (''0SVO(S'', CHR ''F''), (''0SVO(V'', CHR ''F''),
      (''0SVOF('', CHR ''F''), (''0SVOS('', CHR ''F''), (''0SVOS1'', CHR ''F''), (''0SVOSF'', CHR ''F''),
      (''0SVOSU'', CHR ''F''), (''0SVOSV'', CHR ''F''), (''0SVS;'', CHR ''F''), (''0SVS;C'', CHR ''F''),
      (''0SVSC'', CHR ''F''), (''0SVSO('', CHR ''F''), (''0SVSO1'', CHR ''F''), (''0SVSOF'', CHR ''F''),
      (''0SVSON'', CHR ''F''), (''0SVSOS'', CHR ''F'')]"

definition sql_keywords_45 :: "keyword list" where
  "sql_keywords_45 =
     [(''0SVSOV'', CHR ''F''), (''0SVUE'', CHR ''F''), (''0SVUE;'', CHR ''F''), (''0SVUEC'', CHR ''F''),
      (''0SVUEK'', CHR ''F''), (''0T(1)F'', CHR ''F''), (''0T(1)O'', CHR ''F''), (''0T(1F('', CHR ''F''),
      (''0T(1N)'', CHR ''F''), (''0T(1O('', CHR ''F''), (''0T(1OF'', CHR ''F''), (''0T(1OS'', CHR ''F''),
      (''0T(1OV'', CHR ''F''), (''0T(1S)'', CHR ''F''), (''0T(1V)'', CHR ''F''), (''0T(1VO'', CHR ''F''),
      (''0T(F()'', CHR ''F''), (''0T(F(1'', CHR ''F''), (''0T(F(F'', CHR ''F''), (''0T(F(N'', CHR ''F''),
      (''0T(F(S'', CHR ''F''), (''0T(F(V'', CHR ''F''), (''0T(N(1'', CHR ''F''), (''0T(N(F'', CHR ''F''),
      (''0T(N(S'', CHR ''F''), (''0T(N(V'', CHR ''F''), (''0T(N)F'', CHR ''F''), (''0T(N)O'', CHR ''F''),
      (''0T(N1)'', CHR ''F''), (''0T(N1O'', CHR ''F''), (''0T(NF('', CHR ''F''), (''0T(NN)'', CHR ''F''),
      (''0T(NNO'', CHR ''F''), (''0T(NO('', CHR ''F''), (''0T(NOF'', CHR ''F''), (''0T(NOS'', CHR ''F''),
      (''0T(NOV'', CHR ''F''), (''0T(NS)'', CHR ''F''), (''0T(NSO'', CHR ''F''), (''0T(NV)'', CHR ''F''),
      (''0T(NVO'', CHR ''F''), (''0T(S)F'', CHR ''F''), (''0T(S)O'', CHR ''F''), (''0T(S1)'', CHR ''F''),
      (''0T(SF('', CHR ''F''), (''0T(SN)'', CHR ''F''), (''0T(SNO'', CHR ''F''), (''0T(SO('', CHR ''F''),
      (''0T(SO1'', CHR ''F''), (''0T(SOF'', CHR ''F''), (''0T(SON'', CHR ''F''), (''0T(SOS'', CHR ''F''),
      (''0T(SOV'', CHR ''F''), (''0T(SV)'', CHR ''F''), (''0T(SVO'', CHR ''F''), (''0T(V)F'', CHR ''F''),
      (''0T(V)O'', CHR ''F''), (''0T(VF('', CHR ''F''), (''0T(VO('', CHR ''F''), (''0T(VOF'', CHR ''F''),
      (''0T(VOS'', CHR ''F''), (''0T(VS)'', CHR ''F''), (''0T(VSO'', CHR ''F''), (''0T(VV)'', CHR ''F''),
      (''0T1F(1'', CHR ''F''), (''0T1F(F'', CHR ''F''), (''0T1F(N'', CHR ''F''), (''0T1F(S'', CHR ''F''),
      (''0T1F(V'', CHR ''F''), (''0T1O(1'', CHR ''F''), (''0T1O(F'', CHR ''F''), (''0T1O(N'', CHR ''F''),
      (''0T1O(S'', CHR ''F''), (''0T1O(V'', CHR ''F''), (''0T1OF('', CHR ''F''), (''0T1OSF'', CHR ''F''),
      (''0T1OVF'', CHR ''F''), (''0T1OVO'', CHR ''F''), (''0TF()F'', CHR ''F''), (''0TF()O'', CHR ''F''),
      (''0TF(1)'', CHR ''F''), (''0TF(1O'', CHR ''F''), (''0TF(F('', CHR ''F''), (''0TF(N)'', CHR ''F''),
      (''0TF(NO'', CHR ''F''), (''0TF(S)'', CHR ''F''), (''0TF(SO'', CHR ''F''), (''0TF(V)'', CHR ''F''),
      (''0TF(VO'', CHR ''F''), (''0TN(1)'', CHR ''F''), (''0TN(1O'', CHR ''F''), (''0TN(F('', CHR ''F''),
      (''0TN(S)'', CHR ''F''), (''0TN(SO'', CHR ''F''), (''0TN(V)'', CHR ''F''), (''0TN(VO'', CHR ''F''),
      (''0TN1;'', CHR ''F''), (''0TN1;C'', CHR ''F''), (''0TN1O('', CHR ''F''), (''0TN1OF'', CHR ''F''),
      (''0TN1OS'', CHR ''F''), (''0TN1OV'', CHR ''F''), (''0TNF()'', CHR ''F''), (''0TNF(1'', CHR ''F''),
      (''0TNF(F'', CHR ''F''), (''0TNF(N'', CHR ''F''), (''0TNF(S'', CHR ''F''), (''0TNF(V'', CHR ''F''),
      (''0TNN;'', CHR ''F''), (''0TNN;C'', CHR ''F''), (''0TNNO('', CHR ''F''), (''0TNNOF'', CHR ''F''),
      (''0TNNOS'', CHR ''F''), (''0TNNOV'', CHR ''F''), (''0TNO(1'', CHR ''F''), (''0TNO(F'', CHR ''F''),
      (''0TNO(N'', CHR ''F''), (''0TNO(S'', CHR ''F''), (''0TNO(V'', CHR ''F''), (''0TNOF('', CHR ''F''),
      (''0TNOSF'', CHR ''F''), (''0TNOVF'', CHR ''F''), (''0TNOVO'', CHR ''F''), (''0TNS;'', CHR ''F''),
      (''0TNS;C'', CHR ''F''), (''0TNSO('', CHR ''F''), (''0TNSO1'', CHR ''F''), (''0TNSOF'', CHR ''F''),
      (''0TNSON'', CHR ''F''), (''0TNSOS'', CHR ''F''), (''0TNSOV'', CHR ''F''), (''0TNV;'', CHR ''F''),
      (''0TNV;C'', CHR ''F''), (''0TNVO('', CHR ''F''), (''0TNVOF'', CHR ''F''), (''0TNVOS'', CHR ''F''),
      (''0TSF(1'', CHR ''F''), (''0TSF(F'', CHR ''F''), (''0TSF(N'', CHR ''F''), (''0TSF(S'', CHR ''F''),
      (''0TSF(V'', CHR ''F''), (''0TSO(1'', CHR ''F''), (''0TSO(F'', CHR ''F''), (''0TSO(N'', CHR ''F''),
      (''0TSO(S'', CHR ''F''), (''0TSO(V'', CHR ''F''), (''0TSO1F'', CHR ''F''), (''0TSOF('', CHR ''F''),
      (''0TSONF'', CHR ''F''), (''0TSOSF'', CHR ''F'')]"

definition sql_keywords_46 :: "keyword list" where
  "sql_keywords_46 =
     [(''0TSOVF'', CHR ''F''), (''0TSOVO'', CHR ''F''), (''0TVF(1'', CHR ''F''), (''0TVF(F'', CHR ''F''),
      (''0TVF(N'', CHR ''F''), (''0TVF(S'', CHR ''F''), (''0TVF(V'', CHR ''F''), (''0TVO(1'', CHR ''F''),
      (''0TVO(F'', CHR ''F''), (''0TVO(N'', CHR ''F''), (''0TVO(S'', CHR ''F''), (''0TVO(V'', CHR ''F''),
      (''0TVOF('', CHR ''F''), (''0TVOSF'', CHR ''F''), (''0U(E(1'', CHR ''F''), (''0U(E(F'', CHR ''F''),
      (''0U(E(K'', CHR ''F''), (''0U(E(N'', CHR ''F''), (''0U(E(S'', CHR ''F''), (''0U(E(V'', CHR ''F''),
      (''0U(E1)'', CHR ''F''), (''0U(E1O'', CHR ''F''), (''0U(EF('', CHR ''F''), (''0U(EK('', CHR ''F''),
      (''0U(EK1'', CHR ''F''), (''0U(EKF'', CHR ''F''), (''0U(EKN'', CHR ''F''), (''0U(EKO'', CHR ''F''),
      (''0U(EKS'', CHR ''F''), (''0U(EKV'', CHR ''F''), (''0U(EN)'', CHR ''F''), (''0U(ENK'', CHR ''F''),
      (''0U(ENO'', CHR ''F''), (''0U(EOK'', CHR ''F''), (''0U(ES)'', CHR ''F''), (''0U(ESO'', CHR ''F''),
      (''0U(EV)'', CHR ''F''), (''0U(EVO'', CHR ''F''), (''0UE(1)'', CHR ''F''), (''0UE(1,'', CHR ''F''),
      (''0UE(1O'', CHR ''F''), (''0UE(F('', CHR ''F''), (''0UE(N)'', CHR ''F''), (''0UE(N,'', CHR ''F''),
      (''0UE(NO'', CHR ''F''), (''0UE(S)'', CHR ''F''), (''0UE(S,'', CHR ''F''), (''0UE(SO'', CHR ''F''),
      (''0UE(V)'', CHR ''F''), (''0UE(V,'', CHR ''F''), (''0UE(VO'', CHR ''F''), (''0UE1'', CHR ''F''),
      (''0UE1,('', CHR ''F''), (''0UE1,F'', CHR ''F''), (''0UE1;'', CHR ''F''), (''0UE1;C'', CHR ''F''),
      (''0UE1C'', CHR ''F''), (''0UE1K('', CHR ''F''), (''0UE1K1'', CHR ''F''), (''0UE1KF'', CHR ''F''),
      (''0UE1KN'', CHR ''F''), (''0UE1KS'', CHR ''F''), (''0UE1KV'', CHR ''F''), (''0UE1O('', CHR ''F''),
      (''0UE1OF'', CHR ''F''), (''0UE1OS'', CHR ''F''), (''0UE1OV'', CHR ''F''), (''0UEF()'', CHR ''F''),
      (''0UEF(1'', CHR ''F''), (''0UEF(F'', CHR ''F''), (''0UEF(N'', CHR ''F''), (''0UEF(S'', CHR ''F''),
      (''0UEF(V'', CHR ''F''), (''0UEK(1'', CHR ''F''), (''0UEK(F'', CHR ''F''), (''0UEK(N'', CHR ''F''),
      (''0UEK(S'', CHR ''F''), (''0UEK(V'', CHR ''F''), (''0UEK1'', CHR ''F''), (''0UEK1,'', CHR ''F''),
      (''0UEK1;'', CHR ''F''), (''0UEK1C'', CHR ''F''), (''0UEK1K'', CHR ''F''), (''0UEK1O'', CHR ''F''),
      (''0UEKF('', CHR ''F''), (''0UEKN'', CHR ''F''), (''0UEKN('', CHR ''F''), (''0UEKN,'', CHR ''F''),
      (''0UEKN;'', CHR ''F''), (''0UEKNC'', CHR ''F''), (''0UEKNK'', CHR ''F''), (''0UEKS'', CHR ''F''),
      (''0UEKS,'', CHR ''F''), (''0UEKS;'', CHR ''F''), (''0UEKSC'', CHR ''F''), (''0UEKSK'', CHR ''F''),
      (''0UEKSO'', CHR ''F''), (''0UEKV'', CHR ''F''), (''0UEKV,'', CHR ''F''), (''0UEKV;'', CHR ''F''),
      (''0UEKVC'', CHR ''F''), (''0UEKVK'', CHR ''F''), (''0UEKVO'', CHR ''F''), (''0UEN()'', CHR ''F''),
      (''0UEN,('', CHR ''F''), (''0UEN,F'', CHR ''F''), (''0UEN;'', CHR ''F''), (''0UEN;C'', CHR ''F''),
      (''0UENC'', CHR ''F''), (''0UENK('', CHR ''F''), (''0UENK1'', CHR ''F''), (''0UENKF'', CHR ''F''),
      (''0UENKN'', CHR ''F''), (''0UENKS'', CHR ''F''), (''0UENKV'', CHR ''F''), (''0UENO('', CHR ''F''),
      (''0UENOF'', CHR ''F''), (''0UENOS'', CHR ''F''), (''0UENOV'', CHR ''F''), (''0UES'', CHR ''F''),
      (''0UES,('', CHR ''F''), (''0UES,F'', CHR ''F''), (''0UES;'', CHR ''F''), (''0UES;C'', CHR ''F''),
      (''0UESC'', CHR ''F''), (''0UESK('', CHR ''F''), (''0UESK1'', CHR ''F''), (''0UESKF'', CHR ''F''),
      (''0UESKN'', CHR ''F''), (''0UESKS'', CHR ''F''), (''0UESKV'', CHR ''F''), (''0UESO('', CHR ''F''),
      (''0UESO1'', CHR ''F''), (''0UESOF'', CHR ''F''), (''0UESON'', CHR ''F''), (''0UESOS'', CHR ''F''),
      (''0UESOV'', CHR ''F''), (''0UEV'', CHR ''F''), (''0UEV,('', CHR ''F''), (''0UEV,F'', CHR ''F''),
      (''0UEV;'', CHR ''F''), (''0UEV;C'', CHR ''F''), (''0UEVC'', CHR ''F''), (''0UEVK('', CHR ''F''),
      (''0UEVK1'', CHR ''F''), (''0UEVKF'', CHR ''F''), (''0UEVKN'', CHR ''F''), (''0UEVKS'', CHR ''F''),
      (''0UEVKV'', CHR ''F''), (''0UEVO('', CHR ''F'')]"

definition sql_keywords_47 :: "keyword list" where
  "sql_keywords_47 =
     [(''0UEVOF'', CHR ''F''), (''0UEVOS'', CHR ''F''), (''0UF(1O'', CHR ''F''), (''0UF(F('', CHR ''F''),
      (''0UF(NO'', CHR ''F''), (''0UF(SO'', CHR ''F''), (''0UF(VO'', CHR ''F''), (''0V&(1&'', CHR ''F''),
      (''0V&(1)'', CHR ''F''), (''0V&(1,'', CHR ''F''), (''0V&(1O'', CHR ''F''), (''0V&(E('', CHR ''F''),
      (''0V&(E1'', CHR ''F''), (''0V&(EF'', CHR ''F''), (''0V&(EK'', CHR ''F''), (''0V&(EN'', CHR ''F''),
      (''0V&(EO'', CHR ''F''), (''0V&(ES'', CHR ''F''), (''0V&(EV'', CHR ''F''), (''0V&(F('', CHR ''F''),
      (''0V&(N&'', CHR ''F''), (''0V&(N)'', CHR ''F''), (''0V&(N,'', CHR ''F''), (''0V&(NO'', CHR ''F''),
      (''0V&(S&'', CHR ''F''), (''0V&(S)'', CHR ''F''), (''0V&(S,'', CHR ''F''), (''0V&(SO'', CHR ''F''),
      (''0V&(V&'', CHR ''F''), (''0V&(V)'', CHR ''F''), (''0V&(V,'', CHR ''F''), (''0V&(VO'', CHR ''F''),
      (''0V&1'', CHR ''F''), (''0V&1&('', CHR ''F''), (''0V&1&1'', CHR ''F''), (''0V&1&F'', CHR ''F''),
      (''0V&1&N'', CHR ''F''), (''0V&1&S'', CHR ''F''), (''0V&1&V'', CHR ''F''), (''0V&1)&'', CHR ''F''),
      (''0V&1)C'', CHR ''F''), (''0V&1)O'', CHR ''F''), (''0V&1)U'', CHR ''F''), (''0V&1;'', CHR ''F''),
      (''0V&1;C'', CHR ''F''), (''0V&1;E'', CHR ''F''), (''0V&1;T'', CHR ''F''), (''0V&1B('', CHR ''F''),
      (''0V&1B1'', CHR ''F''), (''0V&1BF'', CHR ''F''), (''0V&1BN'', CHR ''F''), (''0V&1BS'', CHR ''F''),
      (''0V&1BV'', CHR ''F''), (''0V&1C'', CHR ''F''), (''0V&1EK'', CHR ''F''), (''0V&1EN'', CHR ''F''),
      (''0V&1F('', CHR ''F''), (''0V&1K('', CHR ''F''), (''0V&1K1'', CHR ''F''), (''0V&1KF'', CHR ''F''),
      (''0V&1KN'', CHR ''F''), (''0V&1KS'', CHR ''F''), (''0V&1KV'', CHR ''F''), (''0V&1O('', CHR ''F''),
      (''0V&1OF'', CHR ''F''), (''0V&1OS'', CHR ''F''), (''0V&1OV'', CHR ''F''), (''0V&1TN'', CHR ''F''),
      (''0V&1U'', CHR ''F''), (''0V&1U('', CHR ''F''), (''0V&1U;'', CHR ''F''), (''0V&1UC'', CHR ''F''),
      (''0V&1UE'', CHR ''F''), (''0V&E(1'', CHR ''F''), (''0V&E(F'', CHR ''F''), (''0V&E(N'', CHR ''F''),
      (''0V&E(O'', CHR ''F''), (''0V&E(S'', CHR ''F''), (''0V&E(V'', CHR ''F''), (''0V&E1'', CHR ''F''),
      (''0V&E1;'', CHR ''F''), (''0V&E1C'', CHR ''F''), (''0V&E1K'', CHR ''F''), (''0V&E1O'', CHR ''F''),
      (''0V&EF('', CHR ''F''), (''0V&EK('', CHR ''F''), (''0V&EK1'', CHR ''F''), (''0V&EKF'', CHR ''F''),
      (''0V&EKN'', CHR ''F''), (''0V&EKS'', CHR ''F''), (''0V&EKV'', CHR ''F''), (''0V&EN'', CHR ''F''),
      (''0V&EN;'', CHR ''F''), (''0V&ENC'', CHR ''F''), (''0V&ENK'', CHR ''F''), (''0V&ENO'', CHR ''F''),
      (''0V&ES'', CHR ''F''), (''0V&ES;'', CHR ''F''), (''0V&ESC'', CHR ''F''), (''0V&ESK'', CHR ''F''),
      (''0V&ESO'', CHR ''F''), (''0V&EV'', CHR ''F''), (''0V&EV;'', CHR ''F''), (''0V&EVC'', CHR ''F''),
      (''0V&EVK'', CHR ''F''), (''0V&EVO'', CHR ''F''), (''0V&F()'', CHR ''F''), (''0V&F(1'', CHR ''F''),
      (''0V&F(E'', CHR ''F''), (''0V&F(F'', CHR ''F''), (''0V&F(N'', CHR ''F''), (''0V&F(S'', CHR ''F''),
      (''0V&F(V'', CHR ''F''), (''0V&K&('', CHR ''F''), (''0V&K&1'', CHR ''F''), (''0V&K&F'', CHR ''F''),
      (''0V&K&N'', CHR ''F''), (''0V&K&S'', CHR ''F''), (''0V&K&V'', CHR ''F''), (''0V&K(1'', CHR ''F''),
      (''0V&K(F'', CHR ''F''), (''0V&K(N'', CHR ''F''), (''0V&K(S'', CHR ''F''), (''0V&K(V'', CHR ''F''),
      (''0V&K1O'', CHR ''F''), (''0V&KC'', CHR ''F''), (''0V&KF('', CHR ''F''), (''0V&KNK'', CHR ''F''),
      (''0V&KO('', CHR ''F''), (''0V&KO1'', CHR ''F''), (''0V&KOF'', CHR ''F''), (''0V&KOK'', CHR ''F''),
      (''0V&KON'', CHR ''F''), (''0V&KOS'', CHR ''F''), (''0V&KOV'', CHR ''F''), (''0V&KSO'', CHR ''F''),
      (''0V&KVO'', CHR ''F''), (''0V&N'', CHR ''F''), (''0V&N&('', CHR ''F''), (''0V&N&1'', CHR ''F''),
      (''0V&N&F'', CHR ''F''), (''0V&N&N'', CHR ''F''), (''0V&N&S'', CHR ''F''), (''0V&N&V'', CHR ''F''),
      (''0V&N)&'', CHR ''F''), (''0V&N)C'', CHR ''F''), (''0V&N)O'', CHR ''F''), (''0V&N)U'', CHR ''F''),
      (''0V&N;'', CHR ''F''), (''0V&N;C'', CHR ''F'')]"

definition sql_keywords_48 :: "keyword list" where
  "sql_keywords_48 =
     [(''0V&N;E'', CHR ''F''), (''0V&N;T'', CHR ''F''), (''0V&NB('', CHR ''F''), (''0V&NB1'', CHR ''F''),
      (''0V&NBF'', CHR ''F''), (''0V&NBN'', CHR ''F''), (''0V&NBS'', CHR ''F''), (''0V&NBV'', CHR ''F''),
      (''0V&NC'', CHR ''F''), (''0V&NEN'', CHR ''F''), (''0V&NF('', CHR ''F''), (''0V&NK('', CHR ''F''),
      (''0V&NK1'', CHR ''F''), (''0V&NKF'', CHR ''F''), (''0V&NKN'', CHR ''F''), (''0V&NKS'', CHR ''F''),
      (''0V&NKV'', CHR ''F''), (''0V&NO('', CHR ''F''), (''0V&NOF'', CHR ''F''), (''0V&NOS'', CHR ''F''),
      (''0V&NOV'', CHR ''F''), (''0V&NTN'', CHR ''F''), (''0V&NU'', CHR ''F''), (''0V&NU('', CHR ''F''),
      (''0V&NU;'', CHR ''F''), (''0V&NUC'', CHR ''F''), (''0V&NUE'', CHR ''F''), (''0V&S'', CHR ''F''),
      (''0V&S&('', CHR ''F''), (''0V&S&1'', CHR ''F''), (''0V&S&F'', CHR ''F''), (''0V&S&N'', CHR ''F''),
      (''0V&S&S'', CHR ''F''), (''0V&S&V'', CHR ''F''), (''0V&S)&'', CHR ''F''), (''0V&S)C'', CHR ''F''),
      (''0V&S)O'', CHR ''F''), (''0V&S)U'', CHR ''F''), (''0V&S1'', CHR ''F''), (''0V&S1;'', CHR ''F''),
      (''0V&S1C'', CHR ''F''), (''0V&S;'', CHR ''F''), (''0V&S;C'', CHR ''F''), (''0V&S;E'', CHR ''F''),
      (''0V&S;T'', CHR ''F''), (''0V&SB('', CHR ''F''), (''0V&SB1'', CHR ''F''), (''0V&SBF'', CHR ''F''),
      (''0V&SBN'', CHR ''F''), (''0V&SBS'', CHR ''F''), (''0V&SBV'', CHR ''F''), (''0V&SC'', CHR ''F''),
      (''0V&SEK'', CHR ''F''), (''0V&SEN'', CHR ''F''), (''0V&SF('', CHR ''F''), (''0V&SK('', CHR ''F''),
      (''0V&SK1'', CHR ''F''), (''0V&SKF'', CHR ''F''), (''0V&SKN'', CHR ''F''), (''0V&SKS'', CHR ''F''),
      (''0V&SKV'', CHR ''F''), (''0V&SO('', CHR ''F''), (''0V&SO1'', CHR ''F''), (''0V&SOF'', CHR ''F''),
      (''0V&SON'', CHR ''F''), (''0V&SOS'', CHR ''F''), (''0V&SOV'', CHR ''F''), (''0V&STN'', CHR ''F''),
      (''0V&SU'', CHR ''F''), (''0V&SU('', CHR ''F''), (''0V&SU;'', CHR ''F''), (''0V&SUC'', CHR ''F''),
      (''0V&SUE'', CHR ''F''), (''0V&SV'', CHR ''F''), (''0V&SV;'', CHR ''F''), (''0V&SVC'', CHR ''F''),
      (''0V&SVO'', CHR ''F''), (''0V&V'', CHR ''F''), (''0V&V&('', CHR ''F''), (''0V&V&1'', CHR ''F''),
      (''0V&V&F'', CHR ''F''), (''0V&V&N'', CHR ''F''), (''0V&V&S'', CHR ''F''), (''0V&V&V'', CHR ''F''),
      (''0V&V)&'', CHR ''F''), (''0V&V)C'', CHR ''F''), (''0V&V)O'', CHR ''F''), (''0V&V)U'', CHR ''F''),
      (''0V&V;'', CHR ''F''), (''0V&V;C'', CHR ''F''), (''0V&V;E'', CHR ''F''), (''0V&V;T'', CHR ''F''),
      (''0V&VB('', CHR ''F''), (''0V&VB1'', CHR ''F''), (''0V&VBF'', CHR ''F''), (''0V&VBN'', CHR ''F''),
      (''0V&VBS'', CHR ''F''), (''0V&VBV'', CHR ''F''), (''0V&VC'', CHR ''F''), (''0V&VEK'', CHR ''F''),
      (''0V&VEN'', CHR ''F''), (''0V&VF('', CHR ''F''), (''0V&VK('', CHR ''F''), (''0V&VK1'', CHR ''F''),
      (''0V&VKF'', CHR ''F''), (''0V&VKN'', CHR ''F''), (''0V&VKS'', CHR ''F''), (''0V&VKV'', CHR ''F''),
      (''0V&VO('', CHR ''F''), (''0V&VOF'', CHR ''F''), (''0V&VOS'', CHR ''F''), (''0V&VS'', CHR ''F''),
      (''0V&VS;'', CHR ''F''), (''0V&VSC'', CHR ''F''), (''0V&VSO'', CHR ''F''), (''0V&VTN'', CHR ''F''),
      (''0V&VU'', CHR ''F''), (''0V&VU('', CHR ''F''), (''0V&VU;'', CHR ''F''), (''0V&VUC'', CHR ''F''),
      (''0V&VUE'', CHR ''F''), (''0V(EF('', CHR ''F''), (''0V(EKF'', CHR ''F''), (''0V(EKN'', CHR ''F''),
      (''0V(ENK'', CHR ''F''), (''0V(U(E'', CHR ''F''), (''0V)&(1'', CHR ''F''), (''0V)&(E'', CHR ''F''),
      (''0V)&(F'', CHR ''F''), (''0V)&(N'', CHR ''F''), (''0V)&(S'', CHR ''F''), (''0V)&(V'', CHR ''F''),
      (''0V)&1'', CHR ''F''), (''0V)&1&'', CHR ''F''), (''0V)&1)'', CHR ''F''), (''0V)&1;'', CHR ''F''),
      (''0V)&1B'', CHR ''F''), (''0V)&1C'', CHR ''F''), (''0V)&1F'', CHR ''F''), (''0V)&1O'', CHR ''F''),
      (''0V)&1U'', CHR ''F''), (''0V)&F('', CHR ''F''), (''0V)&N'', CHR ''F''), (''0V)&N&'', CHR ''F''),
      (''0V)&N)'', CHR ''F''), (''0V)&N;'', CHR ''F''), (''0V)&NB'', CHR ''F''), (''0V)&NC'', CHR ''F''),
      (''0V)&NF'', CHR ''F''), (''0V)&NO'', CHR ''F'')]"

definition sql_keywords_49 :: "keyword list" where
  "sql_keywords_49 =
     [(''0V)&NU'', CHR ''F''), (''0V)&S'', CHR ''F''), (''0V)&S&'', CHR ''F''), (''0V)&S)'', CHR ''F''),
      (''0V)&S;'', CHR ''F''), (''0V)&SB'', CHR ''F''), (''0V)&SC'', CHR ''F''), (''0V)&SF'', CHR ''F''),
      (''0V)&SO'', CHR ''F''), (''0V)&SU'', CHR ''F''), (''0V)&V'', CHR ''F''), (''0V)&V&'', CHR ''F''),
      (''0V)&V)'', CHR ''F''), (''0V)&V;'', CHR ''F''), (''0V)&VB'', CHR ''F''), (''0V)&VC'', CHR ''F''),
      (''0V)&VF'', CHR ''F''), (''0V)&VO'', CHR ''F''), (''0V)&VU'', CHR ''F''), (''0V),(1'', CHR ''F''),
      (''0V),(F'', CHR ''F''), (''0V),(N'', CHR ''F''), (''0V),(S'', CHR ''F''), (''0V),(V'', CHR ''F''),
      (''0V);E('', CHR ''F''), (''0V);E1'', CHR ''F''), (''0V);EF'', CHR ''F''), (''0V);EK'', CHR ''F''),
      (''0V);EN'', CHR ''F''), (''0V);EO'', CHR ''F''), (''0V);ES'', CHR ''F''), (''0V);EV'', CHR ''F''),
      (''0V);T('', CHR ''F''), (''0V);T1'', CHR ''F''), (''0V);TF'', CHR ''F''), (''0V);TK'', CHR ''F''),
      (''0V);TN'', CHR ''F''), (''0V);TO'', CHR ''F''), (''0V);TS'', CHR ''F''), (''0V);TV'', CHR ''F''),
      (''0V)B(1'', CHR ''F''), (''0V)B(F'', CHR ''F''), (''0V)B(N'', CHR ''F''), (''0V)B(S'', CHR ''F''),
      (''0V)B(V'', CHR ''F''), (''0V)B1'', CHR ''F''), (''0V)B1&'', CHR ''F''), (''0V)B1;'', CHR ''F''),
      (''0V)B1C'', CHR ''F''), (''0V)B1K'', CHR ''F''), (''0V)B1N'', CHR ''F''), (''0V)B1O'', CHR ''F''),
      (''0V)B1U'', CHR ''F''), (''0V)BF('', CHR ''F''), (''0V)BN'', CHR ''F''), (''0V)BN&'', CHR ''F''),
      (''0V)BN;'', CHR ''F''), (''0V)BNC'', CHR ''F''), (''0V)BNK'', CHR ''F''), (''0V)BNO'', CHR ''F''),
      (''0V)BNU'', CHR ''F''), (''0V)BS'', CHR ''F''), (''0V)BS&'', CHR ''F''), (''0V)BS;'', CHR ''F''),
      (''0V)BSC'', CHR ''F''), (''0V)BSK'', CHR ''F''), (''0V)BSO'', CHR ''F''), (''0V)BSU'', CHR ''F''),
      (''0V)BV'', CHR ''F''), (''0V)BV&'', CHR ''F''), (''0V)BV;'', CHR ''F''), (''0V)BVC'', CHR ''F''),
      (''0V)BVK'', CHR ''F''), (''0V)BVO'', CHR ''F''), (''0V)BVU'', CHR ''F''), (''0V)C'', CHR ''F''),
      (''0V)E(1'', CHR ''F''), (''0V)E(F'', CHR ''F''), (''0V)E(N'', CHR ''F''), (''0V)E(S'', CHR ''F''),
      (''0V)E(V'', CHR ''F''), (''0V)E1C'', CHR ''F''), (''0V)E1O'', CHR ''F''), (''0V)EF('', CHR ''F''),
      (''0V)EK('', CHR ''F''), (''0V)EK1'', CHR ''F''), (''0V)EKF'', CHR ''F''), (''0V)EKN'', CHR ''F''),
      (''0V)EKS'', CHR ''F''), (''0V)EKV'', CHR ''F''), (''0V)ENC'', CHR ''F''), (''0V)ENO'', CHR ''F''),
      (''0V)ESC'', CHR ''F''), (''0V)ESO'', CHR ''F''), (''0V)EVC'', CHR ''F''), (''0V)EVO'', CHR ''F''),
      (''0V)F(F'', CHR ''F''), (''0V)K(1'', CHR ''F''), (''0V)K(F'', CHR ''F''), (''0V)K(N'', CHR ''F''),
      (''0V)K(S'', CHR ''F''), (''0V)K(V'', CHR ''F''), (''0V)K1&'', CHR ''F''), (''0V)K1;'', CHR ''F''),
      (''0V)K1B'', CHR ''F''), (''0V)K1E'', CHR ''F''), (''0V)K1O'', CHR ''F''), (''0V)K1U'', CHR ''F''),
      (''0V)KB('', CHR ''F''), (''0V)KB1'', CHR ''F''), (''0V)KBF'', CHR ''F''), (''0V)KBN'', CHR ''F''),
      (''0V)KBS'', CHR ''F''), (''0V)KBV'', CHR ''F''), (''0V)KF('', CHR ''F''), (''0V)KN&'', CHR ''F''),
      (''0V)KN;'', CHR ''F''), (''0V)KNB'', CHR ''F''), (''0V)KNC'', CHR ''F''), (''0V)KNE'', CHR ''F''),
      (''0V)KNK'', CHR ''F''), (''0V)KNU'', CHR ''F''), (''0V)KS&'', CHR ''F''), (''0V)KS;'', CHR ''F''),
      (''0V)KSB'', CHR ''F''), (''0V)KSE'', CHR ''F''), (''0V)KSO'', CHR ''F''), (''0V)KSU'', CHR ''F''),
      (''0V)KUE'', CHR ''F''), (''0V)KV&'', CHR ''F''), (''0V)KV;'', CHR ''F''), (''0V)KVB'', CHR ''F''),
      (''0V)KVE'', CHR ''F''), (''0V)KVO'', CHR ''F''), (''0V)KVU'', CHR ''F''), (''0V)O(1'', CHR ''F''),
      (''0V)O(E'', CHR ''F''), (''0V)O(F'', CHR ''F''), (''0V)O(N'', CHR ''F''), (''0V)O(S'', CHR ''F''),
      (''0V)O(V'', CHR ''F''), (''0V)O1'', CHR ''F''), (''0V)O1&'', CHR ''F''), (''0V)O1)'', CHR ''F''),
      (''0V)O1;'', CHR ''F''), (''0V)O1B'', CHR ''F''), (''0V)O1C'', CHR ''F''), (''0V)O1K'', CHR ''F''),
      (''0V)O1U'', CHR ''F''), (''0V)OF('', CHR ''F'')]"

definition sql_keywords_50 :: "keyword list" where
  "sql_keywords_50 =
     [(''0V)ON'', CHR ''F''), (''0V)ON&'', CHR ''F''), (''0V)ON)'', CHR ''F''), (''0V)ON;'', CHR ''F''),
      (''0V)ONB'', CHR ''F''), (''0V)ONC'', CHR ''F''), (''0V)ONK'', CHR ''F''), (''0V)ONU'', CHR ''F''),
      (''0V)OS'', CHR ''F''), (''0V)OS&'', CHR ''F''), (''0V)OS)'', CHR ''F''), (''0V)OS;'', CHR ''F''),
      (''0V)OSB'', CHR ''F''), (''0V)OSC'', CHR ''F''), (''0V)OSK'', CHR ''F''), (''0V)OSU'', CHR ''F''),
      (''0V)OV'', CHR ''F''), (''0V)OV&'', CHR ''F''), (''0V)OV)'', CHR ''F''), (''0V)OV;'', CHR ''F''),
      (''0V)OVB'', CHR ''F''), (''0V)OVC'', CHR ''F''), (''0V)OVK'', CHR ''F''), (''0V)OVO'', CHR ''F''),
      (''0V)OVU'', CHR ''F''), (''0V)U(E'', CHR ''F''), (''0V)UE('', CHR ''F''), (''0V)UE1'', CHR ''F''),
      (''0V)UEF'', CHR ''F''), (''0V)UEK'', CHR ''F''), (''0V)UEN'', CHR ''F''), (''0V)UES'', CHR ''F''),
      (''0V)UEV'', CHR ''F''), (''0V,(1)'', CHR ''F''), (''0V,(1O'', CHR ''F''), (''0V,(E('', CHR ''F''),
      (''0V,(E1'', CHR ''F''), (''0V,(EF'', CHR ''F''), (''0V,(EK'', CHR ''F''), (''0V,(EN'', CHR ''F''),
      (''0V,(ES'', CHR ''F''), (''0V,(EV'', CHR ''F''), (''0V,(F('', CHR ''F''), (''0V,(N)'', CHR ''F''),
      (''0V,(NO'', CHR ''F''), (''0V,(S)'', CHR ''F''), (''0V,(SO'', CHR ''F''), (''0V,(V)'', CHR ''F''),
      (''0V,(VO'', CHR ''F''), (''0V,F()'', CHR ''F''), (''0V,F(1'', CHR ''F''), (''0V,F(F'', CHR ''F''),
      (''0V,F(N'', CHR ''F''), (''0V,F(S'', CHR ''F''), (''0V,F(V'', CHR ''F''), (''0V;E(1'', CHR ''F''),
      (''0V;E(E'', CHR ''F''), (''0V;E(F'', CHR ''F''), (''0V;E(N'', CHR ''F''), (''0V;E(S'', CHR ''F''),
      (''0V;E(V'', CHR ''F''), (''0V;E1,'', CHR ''F''), (''0V;E1;'', CHR ''F''), (''0V;E1C'', CHR ''F''),
      (''0V;E1K'', CHR ''F''), (''0V;E1O'', CHR ''F''), (''0V;E1T'', CHR ''F''), (''0V;EF('', CHR ''F''),
      (''0V;EK('', CHR ''F''), (''0V;EK1'', CHR ''F''), (''0V;EKF'', CHR ''F''), (''0V;EKN'', CHR ''F''),
      (''0V;EKO'', CHR ''F''), (''0V;EKS'', CHR ''F''), (''0V;EKV'', CHR ''F''), (''0V;EN,'', CHR ''F''),
      (''0V;EN;'', CHR ''F''), (''0V;ENC'', CHR ''F''), (''0V;ENE'', CHR ''F''), (''0V;ENK'', CHR ''F''),
      (''0V;ENO'', CHR ''F''), (''0V;ENT'', CHR ''F''), (''0V;ES,'', CHR ''F''), (''0V;ES;'', CHR ''F''),
      (''0V;ESC'', CHR ''F''), (''0V;ESK'', CHR ''F''), (''0V;ESO'', CHR ''F''), (''0V;EST'', CHR ''F''),
      (''0V;EV,'', CHR ''F''), (''0V;EV;'', CHR ''F''), (''0V;EVC'', CHR ''F''), (''0V;EVK'', CHR ''F''),
      (''0V;EVO'', CHR ''F''), (''0V;EVT'', CHR ''F''), (''0V;N:T'', CHR ''F''), (''0V;T(1'', CHR ''F''),
      (''0V;T(C'', CHR ''F''), (''0V;T(E'', CHR ''F''), (''0V;T(F'', CHR ''F''), (''0V;T(N'', CHR ''F''),
      (''0V;T(S'', CHR ''F''), (''0V;T(V'', CHR ''F''), (''0V;T1('', CHR ''F''), (''0V;T1,'', CHR ''F''),
      (''0V;T1;'', CHR ''F''), (''0V;T1C'', CHR ''F''), (''0V;T1F'', CHR ''F''), (''0V;T1K'', CHR ''F''),
      (''0V;T1O'', CHR ''F''), (''0V;T1T'', CHR ''F''), (''0V;T;'', CHR ''F''), (''0V;T;C'', CHR ''F''),
      (''0V;TF('', CHR ''F''), (''0V;TK('', CHR ''F''), (''0V;TK1'', CHR ''F''), (''0V;TKF'', CHR ''F''),
      (''0V;TKK'', CHR ''F''), (''0V;TKN'', CHR ''F''), (''0V;TKO'', CHR ''F''), (''0V;TKS'', CHR ''F''),
      (''0V;TKV'', CHR ''F''), (''0V;TN('', CHR ''F''), (''0V;TN,'', CHR ''F''), (''0V;TN1'', CHR ''F''),
      (''0V;TN;'', CHR ''F''), (''0V;TNC'', CHR ''F''), (''0V;TNE'', CHR ''F''), (''0V;TNF'', CHR ''F''),
      (''0V;TNK'', CHR ''F''), (''0V;TNN'', CHR ''F''), (''0V;TNO'', CHR ''F''), (''0V;TNS'', CHR ''F''),
      (''0V;TNT'', CHR ''F''), (''0V;TNV'', CHR ''F''), (''0V;TO('', CHR ''F''), (''0V;TS('', CHR ''F''),
      (''0V;TS,'', CHR ''F''), (''0V;TS;'', CHR ''F''), (''0V;TSC'', CHR ''F''), (''0V;TSF'', CHR ''F''),
      (''0V;TSK'', CHR ''F''), (''0V;TSO'', CHR ''F''), (''0V;TST'', CHR ''F''), (''0V;TTN'', CHR ''F''),
      (''0V;TV('', CHR ''F''), (''0V;TV,'', CHR ''F''), (''0V;TV;'', CHR ''F''), (''0V;TVC'', CHR ''F''),
      (''0V;TVF'', CHR ''F''), (''0V;TVK'', CHR ''F'')]"

definition sql_keywords_51 :: "keyword list" where
  "sql_keywords_51 =
     [(''0V;TVO'', CHR ''F''), (''0V;TVT'', CHR ''F''), (''0VA(F('', CHR ''F''), (''0VA(N)'', CHR ''F''),
      (''0VA(NO'', CHR ''F''), (''0VA(S)'', CHR ''F''), (''0VA(SO'', CHR ''F''), (''0VA(V)'', CHR ''F''),
      (''0VA(VO'', CHR ''F''), (''0VAF()'', CHR ''F''), (''0VAF(1'', CHR ''F''), (''0VAF(F'', CHR ''F''),
      (''0VAF(N'', CHR ''F''), (''0VAF(S'', CHR ''F''), (''0VAF(V'', CHR ''F''), (''0VASO('', CHR ''F''),
      (''0VASO1'', CHR ''F''), (''0VASOF'', CHR ''F''), (''0VASON'', CHR ''F''), (''0VASOS'', CHR ''F''),
      (''0VASOV'', CHR ''F''), (''0VASUE'', CHR ''F''), (''0VATO('', CHR ''F''), (''0VATO1'', CHR ''F''),
      (''0VATOF'', CHR ''F''), (''0VATON'', CHR ''F''), (''0VATOS'', CHR ''F''), (''0VATOV'', CHR ''F''),
      (''0VATUE'', CHR ''F''), (''0VAVO('', CHR ''F''), (''0VAVOF'', CHR ''F''), (''0VAVOS'', CHR ''F''),
      (''0VAVUE'', CHR ''F''), (''0VB(1)'', CHR ''F''), (''0VB(1O'', CHR ''F''), (''0VB(F('', CHR ''F''),
      (''0VB(NO'', CHR ''F''), (''0VB(S)'', CHR ''F''), (''0VB(SO'', CHR ''F''), (''0VB(V)'', CHR ''F''),
      (''0VB(VO'', CHR ''F''), (''0VB1'', CHR ''F''), (''0VB1&('', CHR ''F''), (''0VB1&1'', CHR ''F''),
      (''0VB1&F'', CHR ''F''), (''0VB1&N'', CHR ''F''), (''0VB1&S'', CHR ''F''), (''0VB1&V'', CHR ''F''),
      (''0VB1,('', CHR ''F''), (''0VB1,F'', CHR ''F''), (''0VB1;'', CHR ''F''), (''0VB1;C'', CHR ''F''),
      (''0VB1B('', CHR ''F''), (''0VB1B1'', CHR ''F''), (''0VB1BF'', CHR ''F''), (''0VB1BN'', CHR ''F''),
      (''0VB1BS'', CHR ''F''), (''0VB1BV'', CHR ''F''), (''0VB1C'', CHR ''F''), (''0VB1K('', CHR ''F''),
      (''0VB1K1'', CHR ''F''), (''0VB1KF'', CHR ''F''), (''0VB1KN'', CHR ''F''), (''0VB1KS'', CHR ''F''),
      (''0VB1KV'', CHR ''F''), (''0VB1O('', CHR ''F''), (''0VB1OF'', CHR ''F''), (''0VB1OS'', CHR ''F''),
      (''0VB1OV'', CHR ''F''), (''0VB1U('', CHR ''F''), (''0VB1UE'', CHR ''F''), (''0VBE(1'', CHR ''F''),
      (''0VBE(F'', CHR ''F''), (''0VBE(N'', CHR ''F''), (''0VBE(S'', CHR ''F''), (''0VBE(V'', CHR ''F''),
      (''0VBEK('', CHR ''F''), (''0VBF()'', CHR ''F''), (''0VBF(1'', CHR ''F''), (''0VBF(F'', CHR ''F''),
      (''0VBF(N'', CHR ''F''), (''0VBF(S'', CHR ''F''), (''0VBF(V'', CHR ''F''), (''0VBN'', CHR ''F''),
      (''0VBN&('', CHR ''F''), (''0VBN&1'', CHR ''F''), (''0VBN&F'', CHR ''F''), (''0VBN&N'', CHR ''F''),
      (''0VBN&S'', CHR ''F''), (''0VBN&V'', CHR ''F''), (''0VBN,('', CHR ''F''), (''0VBN,F'', CHR ''F''),
      (''0VBN;'', CHR ''F''), (''0VBN;C'', CHR ''F''), (''0VBNB('', CHR ''F''), (''0VBNB1'', CHR ''F''),
      (''0VBNBF'', CHR ''F''), (''0VBNBN'', CHR ''F''), (''0VBNBS'', CHR ''F''), (''0VBNBV'', CHR ''F''),
      (''0VBNC'', CHR ''F''), (''0VBNK('', CHR ''F''), (''0VBNK1'', CHR ''F''), (''0VBNKF'', CHR ''F''),
      (''0VBNKN'', CHR ''F''), (''0VBNKS'', CHR ''F''), (''0VBNKV'', CHR ''F''), (''0VBNO('', CHR ''F''),
      (''0VBNOF'', CHR ''F''), (''0VBNOS'', CHR ''F''), (''0VBNOV'', CHR ''F''), (''0VBNU('', CHR ''F''),
      (''0VBNUE'', CHR ''F''), (''0VBS'', CHR ''F''), (''0VBS&('', CHR ''F''), (''0VBS&1'', CHR ''F''),
      (''0VBS&F'', CHR ''F''), (''0VBS&N'', CHR ''F''), (''0VBS&S'', CHR ''F''), (''0VBS&V'', CHR ''F''),
      (''0VBS,('', CHR ''F''), (''0VBS,F'', CHR ''F''), (''0VBS;'', CHR ''F''), (''0VBS;C'', CHR ''F''),
      (''0VBSB('', CHR ''F''), (''0VBSB1'', CHR ''F''), (''0VBSBF'', CHR ''F''), (''0VBSBN'', CHR ''F''),
      (''0VBSBS'', CHR ''F''), (''0VBSBV'', CHR ''F''), (''0VBSC'', CHR ''F''), (''0VBSK('', CHR ''F''),
      (''0VBSK1'', CHR ''F''), (''0VBSKF'', CHR ''F''), (''0VBSKN'', CHR ''F''), (''0VBSKS'', CHR ''F''),
      (''0VBSKV'', CHR ''F''), (''0VBSO('', CHR ''F''), (''0VBSO1'', CHR ''F''), (''0VBSOF'', CHR ''F''),
      (''0VBSON'', CHR ''F''), (''0VBSOS'', CHR ''F''), (''0VBSOV'', CHR ''F''), (''0VBSU('', CHR ''F''),
      (''0VBSUE'', CHR ''F''), (''0VBV'', CHR ''F''), (''0VBV&('', CHR ''F''), (''0VBV&1'', CHR ''F''),
      (''0VBV&F'', CHR ''F''), (''0VBV&N'', CHR ''F'')]"

definition sql_keywords_52 :: "keyword list" where
  "sql_keywords_52 =
     [(''0VBV&S'', CHR ''F''), (''0VBV&V'', CHR ''F''), (''0VBV,('', CHR ''F''), (''0VBV,F'', CHR ''F''),
      (''0VBV;'', CHR ''F''), (''0VBV;C'', CHR ''F''), (''0VBVB('', CHR ''F''), (''0VBVB1'', CHR ''F''),
      (''0VBVBF'', CHR ''F''), (''0VBVBN'', CHR ''F''), (''0VBVBS'', CHR ''F''), (''0VBVBV'', CHR ''F''),
      (''0VBVC'', CHR ''F''), (''0VBVK('', CHR ''F''), (''0VBVK1'', CHR ''F''), (''0VBVKF'', CHR ''F''),
      (''0VBVKN'', CHR ''F''), (''0VBVKS'', CHR ''F''), (''0VBVKV'', CHR ''F''), (''0VBVO('', CHR ''F''),
      (''0VBVOF'', CHR ''F''), (''0VBVOS'', CHR ''F''), (''0VBVU('', CHR ''F''), (''0VBVUE'', CHR ''F''),
      (''0VC'', CHR ''F''), (''0VE(1)'', CHR ''F''), (''0VE(1O'', CHR ''F''), (''0VE(F('', CHR ''F''),
      (''0VE(N)'', CHR ''F''), (''0VE(NO'', CHR ''F''), (''0VE(S)'', CHR ''F''), (''0VE(SO'', CHR ''F''),
      (''0VE(V)'', CHR ''F''), (''0VE(VO'', CHR ''F''), (''0VE1;T'', CHR ''F''), (''0VE1C'', CHR ''F''),
      (''0VE1O('', CHR ''F''), (''0VE1OF'', CHR ''F''), (''0VE1OS'', CHR ''F''), (''0VE1OV'', CHR ''F''),
      (''0VE1T('', CHR ''F''), (''0VE1T1'', CHR ''F''), (''0VE1TF'', CHR ''F''), (''0VE1TN'', CHR ''F''),
      (''0VE1TS'', CHR ''F''), (''0VE1TV'', CHR ''F''), (''0VE1UE'', CHR ''F''), (''0VEF()'', CHR ''F''),
      (''0VEF(1'', CHR ''F''), (''0VEF(F'', CHR ''F''), (''0VEF(N'', CHR ''F''), (''0VEF(S'', CHR ''F''),
      (''0VEF(V'', CHR ''F''), (''0VEK(1'', CHR ''F''), (''0VEK(E'', CHR ''F''), (''0VEK(F'', CHR ''F''),
      (''0VEK(N'', CHR ''F''), (''0VEK(S'', CHR ''F''), (''0VEK(V'', CHR ''F''), (''0VEK1;'', CHR ''F''),
      (''0VEK1C'', CHR ''F''), (''0VEK1O'', CHR ''F''), (''0VEK1T'', CHR ''F''), (''0VEK1U'', CHR ''F''),
      (''0VEKF('', CHR ''F''), (''0VEKN;'', CHR ''F''), (''0VEKNC'', CHR ''F''), (''0VEKNE'', CHR ''F''),
      (''0VEKNT'', CHR ''F''), (''0VEKNU'', CHR ''F''), (''0VEKOK'', CHR ''F''), (''0VEKS;'', CHR ''F''),
      (''0VEKSC'', CHR ''F''), (''0VEKSO'', CHR ''F''), (''0VEKST'', CHR ''F''), (''0VEKSU'', CHR ''F''),
      (''0VEKU('', CHR ''F''), (''0VEKU1'', CHR ''F''), (''0VEKUE'', CHR ''F''), (''0VEKUF'', CHR ''F''),
      (''0VEKUS'', CHR ''F''), (''0VEKUV'', CHR ''F''), (''0VEKV;'', CHR ''F''), (''0VEKVC'', CHR ''F''),
      (''0VEKVO'', CHR ''F''), (''0VEKVT'', CHR ''F''), (''0VEKVU'', CHR ''F''), (''0VEN;T'', CHR ''F''),
      (''0VENC'', CHR ''F''), (''0VENEN'', CHR ''F''), (''0VENO('', CHR ''F''), (''0VENOF'', CHR ''F''),
      (''0VENOS'', CHR ''F''), (''0VENOV'', CHR ''F''), (''0VENT('', CHR ''F''), (''0VENT1'', CHR ''F''),
      (''0VENTF'', CHR ''F''), (''0VENTN'', CHR ''F''), (''0VENTS'', CHR ''F''), (''0VENTV'', CHR ''F''),
      (''0VENUE'', CHR ''F''), (''0VEOKN'', CHR ''F''), (''0VES;T'', CHR ''F''), (''0VESC'', CHR ''F''),
      (''0VESO('', CHR ''F''), (''0VESO1'', CHR ''F''), (''0VESOF'', CHR ''F''), (''0VESON'', CHR ''F''),
      (''0VESOS'', CHR ''F''), (''0VESOV'', CHR ''F''), (''0VEST('', CHR ''F''), (''0VEST1'', CHR ''F''),
      (''0VESTF'', CHR ''F''), (''0VESTN'', CHR ''F''), (''0VESTS'', CHR ''F''), (''0VESTV'', CHR ''F''),
      (''0VESUE'', CHR ''F''), (''0VEU(1'', CHR ''F''), (''0VEU(F'', CHR ''F''), (''0VEU(N'', CHR ''F''),
      (''0VEU(S'', CHR ''F''), (''0VEU(V'', CHR ''F''), (''0VEU1,'', CHR ''F''), (''0VEU1C'', CHR ''F''),
      (''0VEU1O'', CHR ''F''), (''0VEUEF'', CHR ''F''), (''0VEUEK'', CHR ''F''), (''0VEUF('', CHR ''F''),
      (''0VEUS,'', CHR ''F''), (''0VEUSC'', CHR ''F''), (''0VEUSO'', CHR ''F''), (''0VEUV,'', CHR ''F''),
      (''0VEUVC'', CHR ''F''), (''0VEUVO'', CHR ''F''), (''0VEV;T'', CHR ''F''), (''0VEVC'', CHR ''F''),
      (''0VEVO('', CHR ''F''), (''0VEVOF'', CHR ''F''), (''0VEVOS'', CHR ''F''), (''0VEVT('', CHR ''F''),
      (''0VEVT1'', CHR ''F''), (''0VEVTF'', CHR ''F''), (''0VEVTN'', CHR ''F''), (''0VEVTS'', CHR ''F''),
      (''0VEVTV'', CHR ''F''), (''0VEVUE'', CHR ''F''), (''0VF()1'', CHR ''F''), (''0VF()F'', CHR ''F''),
      (''0VF()K'', CHR ''F''), (''0VF()N'', CHR ''F'')]"

definition sql_keywords_53 :: "keyword list" where
  "sql_keywords_53 =
     [(''0VF()O'', CHR ''F''), (''0VF()S'', CHR ''F''), (''0VF()U'', CHR ''F''), (''0VF()V'', CHR ''F''),
      (''0VF(1)'', CHR ''F''), (''0VF(1N'', CHR ''F''), (''0VF(1O'', CHR ''F''), (''0VF(E('', CHR ''F''),
      (''0VF(E1'', CHR ''F''), (''0VF(EF'', CHR ''F''), (''0VF(EK'', CHR ''F''), (''0VF(EN'', CHR ''F''),
      (''0VF(ES'', CHR ''F''), (''0VF(EV'', CHR ''F''), (''0VF(F('', CHR ''F''), (''0VF(N)'', CHR ''F''),
      (''0VF(N,'', CHR ''F''), (''0VF(NO'', CHR ''F''), (''0VF(S)'', CHR ''F''), (''0VF(SO'', CHR ''F''),
      (''0VF(V)'', CHR ''F''), (''0VF(VO'', CHR ''F''), (''0VK(1)'', CHR ''F''), (''0VK(1O'', CHR ''F''),
      (''0VK(F('', CHR ''F''), (''0VK(N)'', CHR ''F''), (''0VK(NO'', CHR ''F''), (''0VK(S)'', CHR ''F''),
      (''0VK(SO'', CHR ''F''), (''0VK(V)'', CHR ''F''), (''0VK(VO'', CHR ''F''), (''0VK)&('', CHR ''F''),
      (''0VK)&1'', CHR ''F''), (''0VK)&F'', CHR ''F''), (''0VK)&N'', CHR ''F''), (''0VK)&S'', CHR ''F''),
      (''0VK)&V'', CHR ''F''), (''0VK);E'', CHR ''F''), (''0VK);T'', CHR ''F''), (''0VK)B('', CHR ''F''),
      (''0VK)B1'', CHR ''F''), (''0VK)BF'', CHR ''F''), (''0VK)BN'', CHR ''F''), (''0VK)BS'', CHR ''F''),
      (''0VK)BV'', CHR ''F''), (''0VK)E('', CHR ''F''), (''0VK)E1'', CHR ''F''), (''0VK)EF'', CHR ''F''),
      (''0VK)EK'', CHR ''F''), (''0VK)EN'', CHR ''F''), (''0VK)ES'', CHR ''F''), (''0VK)EV'', CHR ''F''),
      (''0VK)F('', CHR ''F''), (''0VK)O('', CHR ''F''), (''0VK)OF'', CHR ''F''), (''0VK)UE'', CHR ''F''),
      (''0VK1'', CHR ''F''), (''0VK1&('', CHR ''F''), (''0VK1&1'', CHR ''F''), (''0VK1&F'', CHR ''F''),
      (''0VK1&N'', CHR ''F''), (''0VK1&S'', CHR ''F''), (''0VK1&V'', CHR ''F''), (''0VK1;'', CHR ''F''),
      (''0VK1;C'', CHR ''F''), (''0VK1;E'', CHR ''F''), (''0VK1;T'', CHR ''F''), (''0VK1B('', CHR ''F''),
      (''0VK1B1'', CHR ''F''), (''0VK1BF'', CHR ''F''), (''0VK1BN'', CHR ''F''), (''0VK1BS'', CHR ''F''),
      (''0VK1BV'', CHR ''F''), (''0VK1C'', CHR ''F''), (''0VK1E('', CHR ''F''), (''0VK1E1'', CHR ''F''),
      (''0VK1EF'', CHR ''F''), (''0VK1EK'', CHR ''F''), (''0VK1EN'', CHR ''F''), (''0VK1ES'', CHR ''F''),
      (''0VK1EV'', CHR ''F''), (''0VK1O('', CHR ''F''), (''0VK1OF'', CHR ''F''), (''0VK1OS'', CHR ''F''),
      (''0VK1OV'', CHR ''F''), (''0VK1U('', CHR ''F''), (''0VK1UE'', CHR ''F''), (''0VKF()'', CHR ''F''),
      (''0VKF(1'', CHR ''F''), (''0VKF(F'', CHR ''F''), (''0VKF(N'', CHR ''F''), (''0VKF(S'', CHR ''F''),
      (''0VKF(V'', CHR ''F''), (''0VKN'', CHR ''F''), (''0VKN&('', CHR ''F''), (''0VKN&1'', CHR ''F''),
      (''0VKN&F'', CHR ''F''), (''0VKN&N'', CHR ''F''), (''0VKN&S'', CHR ''F''), (''0VKN&V'', CHR ''F''),
      (''0VKN;'', CHR ''F''), (''0VKN;C'', CHR ''F''), (''0VKN;E'', CHR ''F''), (''0VKN;T'', CHR ''F''),
      (''0VKNB('', CHR ''F''), (''0VKNB1'', CHR ''F''), (''0VKNBF'', CHR ''F''), (''0VKNBN'', CHR ''F''),
      (''0VKNBS'', CHR ''F''), (''0VKNBV'', CHR ''F''), (''0VKNC'', CHR ''F''), (''0VKNE('', CHR ''F''),
      (''0VKNE1'', CHR ''F''), (''0VKNEF'', CHR ''F''), (''0VKNEN'', CHR ''F''), (''0VKNES'', CHR ''F''),
      (''0VKNEV'', CHR ''F''), (''0VKNU('', CHR ''F''), (''0VKNUE'', CHR ''F''), (''0VKS'', CHR ''F''),
      (''0VKS&('', CHR ''F''), (''0VKS&1'', CHR ''F''), (''0VKS&F'', CHR ''F''), (''0VKS&N'', CHR ''F''),
      (''0VKS&S'', CHR ''F''), (''0VKS&V'', CHR ''F''), (''0VKS;'', CHR ''F''), (''0VKS;C'', CHR ''F''),
      (''0VKS;E'', CHR ''F''), (''0VKS;T'', CHR ''F''), (''0VKSB('', CHR ''F''), (''0VKSB1'', CHR ''F''),
      (''0VKSBF'', CHR ''F''), (''0VKSBN'', CHR ''F''), (''0VKSBS'', CHR ''F''), (''0VKSBV'', CHR ''F''),
      (''0VKSC'', CHR ''F''), (''0VKSE('', CHR ''F''), (''0VKSE1'', CHR ''F''), (''0VKSEF'', CHR ''F''),
      (''0VKSEK'', CHR ''F''), (''0VKSEN'', CHR ''F''), (''0VKSES'', CHR ''F''), (''0VKSEV'', CHR ''F''),
      (''0VKSO('', CHR ''F''), (''0VKSO1'', CHR ''F''), (''0VKSOF'', CHR ''F''), (''0VKSON'', CHR ''F''),
      (''0VKSOS'', CHR ''F''), (''0VKSOV'', CHR ''F'')]"

definition sql_keywords_54 :: "keyword list" where
  "sql_keywords_54 =
     [(''0VKSU('', CHR ''F''), (''0VKSUE'', CHR ''F''), (''0VKUE('', CHR ''F''), (''0VKUE1'', CHR ''F''),
      (''0VKUEF'', CHR ''F''), (''0VKUEK'', CHR ''F''), (''0VKUEN'', CHR ''F''), (''0VKUES'', CHR ''F''),
      (''0VKUEV'', CHR ''F''), (''0VKV'', CHR ''F''), (''0VKV&('', CHR ''F''), (''0VKV&1'', CHR ''F''),
      (''0VKV&F'', CHR ''F''), (''0VKV&N'', CHR ''F''), (''0VKV&S'', CHR ''F''), (''0VKV&V'', CHR ''F''),
      (''0VKV;'', CHR ''F''), (''0VKV;C'', CHR ''F''), (''0VKV;E'', CHR ''F''), (''0VKV;T'', CHR ''F''),
      (''0VKVB('', CHR ''F''), (''0VKVB1'', CHR ''F''), (''0VKVBF'', CHR ''F''), (''0VKVBN'', CHR ''F''),
      (''0VKVBS'', CHR ''F''), (''0VKVBV'', CHR ''F''), (''0VKVC'', CHR ''F''), (''0VKVE('', CHR ''F''),
      (''0VKVE1'', CHR ''F''), (''0VKVEF'', CHR ''F''), (''0VKVEK'', CHR ''F''), (''0VKVEN'', CHR ''F''),
      (''0VKVES'', CHR ''F''), (''0VKVEV'', CHR ''F''), (''0VKVO('', CHR ''F''), (''0VKVOF'', CHR ''F''),
      (''0VKVOS'', CHR ''F''), (''0VKVU('', CHR ''F''), (''0VKVUE'', CHR ''F''), (''0VO(1&'', CHR ''F''),
      (''0VO(1)'', CHR ''F''), (''0VO(1,'', CHR ''F''), (''0VO(1O'', CHR ''F''), (''0VO(E('', CHR ''F''),
      (''0VO(E1'', CHR ''F''), (''0VO(EE'', CHR ''F''), (''0VO(EF'', CHR ''F''), (''0VO(EK'', CHR ''F''),
      (''0VO(EN'', CHR ''F''), (''0VO(EO'', CHR ''F''), (''0VO(ES'', CHR ''F''), (''0VO(EV'', CHR ''F''),
      (''0VO(F('', CHR ''F''), (''0VO(N&'', CHR ''F''), (''0VO(N)'', CHR ''F''), (''0VO(N,'', CHR ''F''),
      (''0VO(NO'', CHR ''F''), (''0VO(S&'', CHR ''F''), (''0VO(S)'', CHR ''F''), (''0VO(S,'', CHR ''F''),
      (''0VO(SO'', CHR ''F''), (''0VO(V&'', CHR ''F''), (''0VO(V)'', CHR ''F''), (''0VO(V,'', CHR ''F''),
      (''0VO(VO'', CHR ''F''), (''0VOF()'', CHR ''F''), (''0VOF(1'', CHR ''F''), (''0VOF(E'', CHR ''F''),
      (''0VOF(F'', CHR ''F''), (''0VOF(N'', CHR ''F''), (''0VOF(S'', CHR ''F''), (''0VOF(V'', CHR ''F''),
      (''0VOK&('', CHR ''F''), (''0VOK&1'', CHR ''F''), (''0VOK&F'', CHR ''F''), (''0VOK&N'', CHR ''F''),
      (''0VOK&S'', CHR ''F''), (''0VOK&V'', CHR ''F''), (''0VOK(1'', CHR ''F''), (''0VOK(F'', CHR ''F''),
      (''0VOK(N'', CHR ''F''), (''0VOK(S'', CHR ''F''), (''0VOK(V'', CHR ''F''), (''0VOK1C'', CHR ''F''),
      (''0VOK1O'', CHR ''F''), (''0VOKF('', CHR ''F''), (''0VOKNC'', CHR ''F''), (''0VOKO('', CHR ''F''),
      (''0VOKO1'', CHR ''F''), (''0VOKOF'', CHR ''F''), (''0VOKON'', CHR ''F''), (''0VOKOS'', CHR ''F''),
      (''0VOKOV'', CHR ''F''), (''0VOKSC'', CHR ''F''), (''0VOKSO'', CHR ''F''), (''0VOKVC'', CHR ''F''),
      (''0VOKVO'', CHR ''F''), (''0VOS'', CHR ''F''), (''0VOS&('', CHR ''F''), (''0VOS&1'', CHR ''F''),
      (''0VOS&E'', CHR ''F''), (''0VOS&F'', CHR ''F''), (''0VOS&K'', CHR ''F''), (''0VOS&N'', CHR ''F''),
      (''0VOS&S'', CHR ''F''), (''0VOS&U'', CHR ''F''), (''0VOS&V'', CHR ''F''), (''0VOS(E'', CHR ''F''),
      (''0VOS(U'', CHR ''F''), (''0VOS)&'', CHR ''F''), (''0VOS),'', CHR ''F''), (''0VOS);'', CHR ''F''),
      (''0VOS)B'', CHR ''F''), (''0VOS)C'', CHR ''F''), (''0VOS)E'', CHR ''F''), (''0VOS)F'', CHR ''F''),
      (''0VOS)K'', CHR ''F''), (''0VOS)O'', CHR ''F''), (''0VOS)U'', CHR ''F''), (''0VOS,('', CHR ''F''),
      (''0VOS,F'', CHR ''F''), (''0VOS1('', CHR ''F''), (''0VOS1F'', CHR ''F''), (''0VOS1N'', CHR ''F''),
      (''0VOS1S'', CHR ''F''), (''0VOS1U'', CHR ''F''), (''0VOS1V'', CHR ''F''), (''0VOS;'', CHR ''F''),
      (''0VOS;C'', CHR ''F''), (''0VOS;E'', CHR ''F''), (''0VOS;N'', CHR ''F''), (''0VOS;T'', CHR ''F''),
      (''0VOSA('', CHR ''F''), (''0VOSAF'', CHR ''F''), (''0VOSAS'', CHR ''F''), (''0VOSAT'', CHR ''F''),
      (''0VOSAV'', CHR ''F''), (''0VOSB('', CHR ''F''), (''0VOSB1'', CHR ''F''), (''0VOSBE'', CHR ''F''),
      (''0VOSBF'', CHR ''F''), (''0VOSBN'', CHR ''F''), (''0VOSBS'', CHR ''F''), (''0VOSBV'', CHR ''F''),
      (''0VOSC'', CHR ''F''), (''0VOSE('', CHR ''F''), (''0VOSE1'', CHR ''F''), (''0VOSEF'', CHR ''F''),
      (''0VOSEK'', CHR ''F''), (''0VOSEN'', CHR ''F'')]"

definition sql_keywords_55 :: "keyword list" where
  "sql_keywords_55 =
     [(''0VOSEO'', CHR ''F''), (''0VOSES'', CHR ''F''), (''0VOSEU'', CHR ''F''), (''0VOSEV'', CHR ''F''),
      (''0VOSF('', CHR ''F''), (''0VOSK('', CHR ''F''), (''0VOSK)'', CHR ''F''), (''0VOSK1'', CHR ''F''),
      (''0VOSKB'', CHR ''F''), (''0VOSKF'', CHR ''F''), (''0VOSKN'', CHR ''F''), (''0VOSKS'', CHR ''F''),
      (''0VOSKU'', CHR ''F''), (''0VOSKV'', CHR ''F''), (''0VOST('', CHR ''F''), (''0VOST1'', CHR ''F''),
      (''0VOSTE'', CHR ''F''), (''0VOSTF'', CHR ''F''), (''0VOSTN'', CHR ''F''), (''0VOSTS'', CHR ''F''),
      (''0VOSTT'', CHR ''F''), (''0VOSTV'', CHR ''F''), (''0VOSU'', CHR ''F''), (''0VOSU('', CHR ''F''),
      (''0VOSU1'', CHR ''F''), (''0VOSU;'', CHR ''F''), (''0VOSUC'', CHR ''F''), (''0VOSUE'', CHR ''F''),
      (''0VOSUF'', CHR ''F''), (''0VOSUK'', CHR ''F''), (''0VOSUO'', CHR ''F''), (''0VOSUS'', CHR ''F''),
      (''0VOSUT'', CHR ''F''), (''0VOSUV'', CHR ''F''), (''0VOSV('', CHR ''F''), (''0VOSVF'', CHR ''F''),
      (''0VOSVO'', CHR ''F''), (''0VOSVS'', CHR ''F''), (''0VOSVU'', CHR ''F''), (''0VOU(E'', CHR ''F''),
      (''0VOUEK'', CHR ''F''), (''0VOUEN'', CHR ''F''), (''0VT(1)'', CHR ''F''), (''0VT(1O'', CHR ''F''),
      (''0VT(F('', CHR ''F''), (''0VT(N)'', CHR ''F''), (''0VT(NO'', CHR ''F''), (''0VT(S)'', CHR ''F''),
      (''0VT(SO'', CHR ''F''), (''0VT(V)'', CHR ''F''), (''0VT(VO'', CHR ''F''), (''0VT1(F'', CHR ''F''),
      (''0VT1O('', CHR ''F''), (''0VT1OF'', CHR ''F''), (''0VT1OS'', CHR ''F''), (''0VT1OV'', CHR ''F''),
      (''0VTE(1'', CHR ''F''), (''0VTE(F'', CHR ''F''), (''0VTE(N'', CHR ''F''), (''0VTE(S'', CHR ''F''),
      (''0VTE(V'', CHR ''F''), (''0VTE1N'', CHR ''F''), (''0VTE1O'', CHR ''F''), (''0VTEF('', CHR ''F''),
      (''0VTEK('', CHR ''F''), (''0VTEK1'', CHR ''F''), (''0VTEKF'', CHR ''F''), (''0VTEKN'', CHR ''F''),
      (''0VTEKS'', CHR ''F''), (''0VTEKV'', CHR ''F''), (''0VTENN'', CHR ''F''), (''0VTENO'', CHR ''F''),
      (''0VTESN'', CHR ''F''), (''0VTESO'', CHR ''F''), (''0VTEVN'', CHR ''F''), (''0VTEVO'', CHR ''F''),
      (''0VTF()'', CHR ''F''), (''0VTF(1'', CHR ''F''), (''0VTF(F'', CHR ''F''), (''0VTF(N'', CHR ''F''),
      (''0VTF(S'', CHR ''F''), (''0VTF(V'', CHR ''F''), (''0VTN(1'', CHR ''F''), (''0VTN(F'', CHR ''F''),
      (''0VTN(S'', CHR ''F''), (''0VTN(V'', CHR ''F''), (''0VTN1C'', CHR ''F''), (''0VTN1O'', CHR ''F''),
      (''0VTN;E'', CHR ''F''), (''0VTN;N'', CHR ''F''), (''0VTN;T'', CHR ''F''), (''0VTNE('', CHR ''F''),
      (''0VTNE1'', CHR ''F''), (''0VTNEF'', CHR ''F''), (''0VTNEN'', CHR ''F''), (''0VTNES'', CHR ''F''),
      (''0VTNEV'', CHR ''F''), (''0VTNF('', CHR ''F''), (''0VTNKN'', CHR ''F''), (''0VTNN:'', CHR ''F''),
      (''0VTNNC'', CHR ''F''), (''0VTNNO'', CHR ''F''), (''0VTNO('', CHR ''F''), (''0VTNOF'', CHR ''F''),
      (''0VTNOS'', CHR ''F''), (''0VTNOV'', CHR ''F''), (''0VTNSC'', CHR ''F''), (''0VTNSO'', CHR ''F''),
      (''0VTNT('', CHR ''F''), (''0VTNT1'', CHR ''F''), (''0VTNTF'', CHR ''F''), (''0VTNTN'', CHR ''F''),
      (''0VTNTS'', CHR ''F''), (''0VTNTV'', CHR ''F''), (''0VTNVC'', CHR ''F''), (''0VTNVO'', CHR ''F''),
      (''0VTS(F'', CHR ''F''), (''0VTSO('', CHR ''F''), (''0VTSO1'', CHR ''F''), (''0VTSOF'', CHR ''F''),
      (''0VTSON'', CHR ''F''), (''0VTSOS'', CHR ''F''), (''0VTSOV'', CHR ''F''), (''0VTTNE'', CHR ''F''),
      (''0VTTNK'', CHR ''F''), (''0VTTNN'', CHR ''F''), (''0VTTNT'', CHR ''F''), (''0VTV(1'', CHR ''F''),
      (''0VTV(F'', CHR ''F''), (''0VTVO('', CHR ''F''), (''0VTVOF'', CHR ''F''), (''0VTVOS'', CHR ''F''),
      (''0VU'', CHR ''F''), (''0VU(1)'', CHR ''F''), (''0VU(1O'', CHR ''F''), (''0VU(E('', CHR ''F''),
      (''0VU(E1'', CHR ''F''), (''0VU(EF'', CHR ''F''), (''0VU(EK'', CHR ''F''), (''0VU(EN'', CHR ''F''),
      (''0VU(ES'', CHR ''F''), (''0VU(EV'', CHR ''F''), (''0VU(F('', CHR ''F''), (''0VU(N)'', CHR ''F''),
      (''0VU(NO'', CHR ''F''), (''0VU(S)'', CHR ''F''), (''0VU(SO'', CHR ''F''), (''0VU(V)'', CHR ''F''),
      (''0VU(VO'', CHR ''F''), (''0VU1,('', CHR ''F'')]"

definition sql_keywords_56 :: "keyword list" where
  "sql_keywords_56 =
     [(''0VU1,F'', CHR ''F''), (''0VU1C'', CHR ''F''), (''0VU1O('', CHR ''F''), (''0VU1OF'', CHR ''F''),
      (''0VU1OS'', CHR ''F''), (''0VU1OV'', CHR ''F''), (''0VU;'', CHR ''F''), (''0VU;C'', CHR ''F''),
      (''0VUC'', CHR ''F''), (''0VUE'', CHR ''F''), (''0VUE(1'', CHR ''F''), (''0VUE(E'', CHR ''F''),
      (''0VUE(F'', CHR ''F''), (''0VUE(N'', CHR ''F''), (''0VUE(O'', CHR ''F''), (''0VUE(S'', CHR ''F''),
      (''0VUE(V'', CHR ''F''), (''0VUE1'', CHR ''F''), (''0VUE1&'', CHR ''F''), (''0VUE1('', CHR ''F''),
      (''0VUE1)'', CHR ''F''), (''0VUE1,'', CHR ''F''), (''0VUE1;'', CHR ''F''), (''0VUE1B'', CHR ''F''),
      (''0VUE1C'', CHR ''F''), (''0VUE1F'', CHR ''F''), (''0VUE1K'', CHR ''F''), (''0VUE1N'', CHR ''F''),
      (''0VUE1O'', CHR ''F''), (''0VUE1S'', CHR ''F''), (''0VUE1U'', CHR ''F''), (''0VUE1V'', CHR ''F''),
      (''0VUE;'', CHR ''F''), (''0VUE;C'', CHR ''F''), (''0VUEC'', CHR ''F''), (''0VUEF'', CHR ''F''),
      (''0VUEF('', CHR ''F''), (''0VUEF,'', CHR ''F''), (''0VUEF;'', CHR ''F''), (''0VUEFC'', CHR ''F''),
      (''0VUEK'', CHR ''F''), (''0VUEK('', CHR ''F''), (''0VUEK1'', CHR ''F''), (''0VUEK;'', CHR ''F''),
      (''0VUEKC'', CHR ''F''), (''0VUEKF'', CHR ''F''), (''0VUEKN'', CHR ''F''), (''0VUEKO'', CHR ''F''),
      (''0VUEKS'', CHR ''F''), (''0VUEKV'', CHR ''F''), (''0VUEN'', CHR ''F''), (''0VUEN&'', CHR ''F''),
      (''0VUEN('', CHR ''F''), (''0VUEN)'', CHR ''F''), (''0VUEN,'', CHR ''F''), (''0VUEN1'', CHR ''F''),
      (''0VUEN;'', CHR ''F''), (''0VUENB'', CHR ''F''), (''0VUENC'', CHR ''F''), (''0VUENF'', CHR ''F''),
      (''0VUENK'', CHR ''F''), (''0VUENO'', CHR ''F''), (''0VUENS'', CHR ''F''), (''0VUENU'', CHR ''F''),
      (''0VUEOK'', CHR ''F''), (''0VUEON'', CHR ''F''), (''0VUES'', CHR ''F''), (''0VUES&'', CHR ''F''),
      (''0VUES('', CHR ''F''), (''0VUES)'', CHR ''F''), (''0VUES,'', CHR ''F''), (''0VUES1'', CHR ''F''),
      (''0VUES;'', CHR ''F''), (''0VUESB'', CHR ''F''), (''0VUESC'', CHR ''F''), (''0VUESF'', CHR ''F''),
      (''0VUESK'', CHR ''F''), (''0VUESO'', CHR ''F''), (''0VUESU'', CHR ''F''), (''0VUESV'', CHR ''F''),
      (''0VUEV'', CHR ''F''), (''0VUEV&'', CHR ''F''), (''0VUEV('', CHR ''F''), (''0VUEV)'', CHR ''F''),
      (''0VUEV,'', CHR ''F''), (''0VUEV;'', CHR ''F''), (''0VUEVB'', CHR ''F''), (''0VUEVC'', CHR ''F''),
      (''0VUEVF'', CHR ''F''), (''0VUEVK'', CHR ''F''), (''0VUEVN'', CHR ''F''), (''0VUEVO'', CHR ''F''),
      (''0VUEVS'', CHR ''F''), (''0VUEVU'', CHR ''F''), (''0VUF()'', CHR ''F''), (''0VUF(1'', CHR ''F''),
      (''0VUF(F'', CHR ''F''), (''0VUF(N'', CHR ''F''), (''0VUF(S'', CHR ''F''), (''0VUF(V'', CHR ''F''),
      (''0VUK(E'', CHR ''F''), (''0VUO(E'', CHR ''F''), (''0VUON('', CHR ''F''), (''0VUON1'', CHR ''F''),
      (''0VUONF'', CHR ''F''), (''0VUONS'', CHR ''F''), (''0VUS,('', CHR ''F''), (''0VUS,F'', CHR ''F''),
      (''0VUSC'', CHR ''F''), (''0VUSO('', CHR ''F''), (''0VUSO1'', CHR ''F''), (''0VUSOF'', CHR ''F''),
      (''0VUSON'', CHR ''F''), (''0VUSOS'', CHR ''F''), (''0VUSOV'', CHR ''F''), (''0VUTN('', CHR ''F''),
      (''0VUTN1'', CHR ''F''), (''0VUTNF'', CHR ''F''), (''0VUTNN'', CHR ''F''), (''0VUTNS'', CHR ''F''),
      (''0VUTNV'', CHR ''F''), (''0VUV,('', CHR ''F''), (''0VUV,F'', CHR ''F''), (''0VUVC'', CHR ''F''),
      (''0VUVO('', CHR ''F''), (''0VUVOF'', CHR ''F''), (''0VUVOS'', CHR ''F''), (''0X'', CHR ''F''),
      (''::'', CHR ''o''), ('':='', CHR ''o''), (''<<'', CHR ''o''), (''<='', CHR ''o''),
      (''<>'', CHR ''o''), (''<@'', CHR ''o''), (''>='', CHR ''o''), (''>>'', CHR ''o''),
      (''@>'', CHR ''o''), (''ABORT'', CHR ''k''), (''ABS'', CHR ''f''), (''ACCESSIBLE'', CHR ''k''),
      (''ACOS'', CHR ''f''), (''ADDDATE'', CHR ''f''), (''ADDTIME'', CHR ''f''),
      (''AES_DECRYPT'', CHR ''f''), (''AES_ENCRYPT'', CHR ''f''), (''AGAINST'', CHR ''k''),
      (''AGE'', CHR ''f''), (''ALL_USERS'', CHR ''k''), (''ALTER'', CHR ''k''),
      (''ALTER DOMAIN'', CHR ''k'')]"

definition sql_keywords_57 :: "keyword list" where
  "sql_keywords_57 =
     [(''ALTER TABLE'', CHR ''k''), (''ANALYZE'', CHR ''k''), (''AND'', CHR ''&''), (''ANY'', CHR ''f''),
      (''ANYARRAY'', CHR ''t''), (''ANYELEMENT'', CHR ''t''), (''ANYNONARRY'', CHR ''t''),
      (''APPLOCK_MODE'', CHR ''f''), (''APPLOCK_TEST'', CHR ''f''), (''APP_NAME'', CHR ''f''),
      (''ARRAY_AGG'', CHR ''f''), (''ARRAY_CAT'', CHR ''f''), (''ARRAY_DIM'', CHR ''f''),
      (''ARRAY_FILL'', CHR ''f''), (''ARRAY_LENGTH'', CHR ''f''), (''ARRAY_LOWER'', CHR ''f''),
      (''ARRAY_NDIMS'', CHR ''f''), (''ARRAY_PREPEND'', CHR ''f''), (''ARRAY_TO_JSON'', CHR ''f''),
      (''ARRAY_TO_STRING'', CHR ''f''), (''ARRAY_UPPER'', CHR ''f''), (''AS'', CHR ''k''),
      (''ASC'', CHR ''k''), (''ASCII'', CHR ''f''), (''ASENSITIVE'', CHR ''k''), (''ASIN'', CHR ''f''),
      (''ASSEMBLYPROPERTY'', CHR ''f''), (''ASYMKEY_ID'', CHR ''f''), (''AT TIME'', CHR ''n''),
      (''AT TIME ZONE'', CHR ''k''), (''ATAN'', CHR ''f''), (''ATAN2'', CHR ''f''),
      (''AUTOINCREMENT'', CHR ''k''), (''AVG'', CHR ''f''), (''BEFORE'', CHR ''k''),
      (''BEGIN'', CHR ''T''), (''BEGIN DECLARE'', CHR ''T''), (''BEGIN GOTO'', CHR ''T''),
      (''BEGIN TRY'', CHR ''T''), (''BEGIN TRY DECLARE'', CHR ''T''), (''BENCHMARK'', CHR ''f''),
      (''BETWEEN'', CHR ''o''), (''BIGINT'', CHR ''t''), (''BIGSERIAL'', CHR ''t''),
      (''BIN'', CHR ''f''), (''BINARY'', CHR ''t''), (''BINARY_DOUBLE_INFINITY'', CHR ''1''),
      (''BINARY_DOUBLE_NAN'', CHR ''1''), (''BINARY_FLOAT_INFINITY'', CHR ''1''),
      (''BINARY_FLOAT_NAN'', CHR ''1''), (''BINBINARY'', CHR ''f''), (''BIT_AND'', CHR ''f''),
      (''BIT_COUNT'', CHR ''f''), (''BIT_LENGTH'', CHR ''f''), (''BIT_OR'', CHR ''f''),
      (''BIT_XOR'', CHR ''f''), (''BLOB'', CHR ''k''), (''BOOLEAN'', CHR ''t''),
      (''BOOL_AND'', CHR ''f''), (''BOOL_OR'', CHR ''f''), (''BOTH'', CHR ''k''), (''BTRIM'', CHR ''f''),
      (''BY'', CHR ''n''), (''BYTEA'', CHR ''t''), (''CALL'', CHR ''T''), (''CASCADE'', CHR ''k''),
      (''CASE'', CHR ''E''), (''CAST'', CHR ''f''), (''CBOOL'', CHR ''f''), (''CBRT'', CHR ''f''),
      (''CBYTE'', CHR ''f''), (''CCUR'', CHR ''f''), (''CDATE'', CHR ''f''), (''CDBL'', CHR ''f''),
      (''CEIL'', CHR ''f''), (''CEILING'', CHR ''f''), (''CERTENCODED'', CHR ''f''),
      (''CERTPRIVATEKEY'', CHR ''f''), (''CERT_ID'', CHR ''f''), (''CERT_PROPERTY'', CHR ''f''),
      (''CHANGE'', CHR ''k''), (''CHANGES'', CHR ''f''), (''CHAR'', CHR ''f''),
      (''CHARACTER'', CHR ''t''), (''CHARACTER VARYING'', CHR ''t''), (''CHARACTER_LENGTH'', CHR ''f''),
      (''CHARINDEX'', CHR ''f''), (''CHARSET'', CHR ''f''), (''CHAR_LENGTH'', CHR ''f''),
      (''CHDIR'', CHR ''f''), (''CHDRIVE'', CHR ''f''), (''CHECK'', CHR ''n''),
      (''CHECKSUM_AGG'', CHR ''f''), (''CHOOSE'', CHR ''f''), (''CHR'', CHR ''f''),
      (''CINT'', CHR ''f''), (''CLNG'', CHR ''f''), (''CLOCK_TIMESTAMP'', CHR ''f''),
      (''COALESCE'', CHR ''f''), (''COERCIBILITY'', CHR ''f''), (''COLLATE'', CHR ''A''),
      (''COLLATION'', CHR ''f''), (''COLLATIONPROPERTY'', CHR ''f''), (''COLUMN'', CHR ''k''),
      (''COLUMNPROPERTY'', CHR ''f''), (''COLUMNS_UPDATED'', CHR ''f''), (''COL_LENGTH'', CHR ''f''),
      (''COL_NAME'', CHR ''f''), (''COMPRESS'', CHR ''f''), (''CONCAT'', CHR ''f''),
      (''CONCAT_WS'', CHR ''f''), (''CONDITION'', CHR ''k''), (''CONNECTION_ID'', CHR ''f''),
      (''CONSTRAINT'', CHR ''k''), (''CONTINUE'', CHR ''k''), (''CONV'', CHR ''f''),
      (''CONVERT'', CHR ''f''), (''CONVERT_FROM'', CHR ''f''), (''CONVERT_TO'', CHR ''f''),
      (''CONVERT_TZ'', CHR ''f''), (''COS'', CHR ''f''), (''COT'', CHR ''f''), (''COUNT'', CHR ''f''),
      (''COUNT_BIG'', CHR ''k''), (''CRC32'', CHR ''f''), (''CREATE'', CHR ''E''),
      (''CREATE OR'', CHR ''n''), (''CREATE OR REPLACE'', CHR ''T''), (''CROSS'', CHR ''n''),
      (''CROSS JOIN'', CHR ''k''), (''CSNG'', CHR ''f''), (''CSTRING'', CHR ''t''),
      (''CTXSYS.DRITHSX.SN'', CHR ''f''), (''CUME_DIST'', CHR ''f''), (''CURDATE'', CHR ''f''),
      (''CURDIR'', CHR ''f''), (''CURRENT DATE'', CHR ''v''), (''CURRENT DEGREE'', CHR ''v''),
      (''CURRENT FUNCTION'', CHR ''v''), (''CURRENT FUNCTION PATH'', CHR ''v''),
      (''CURRENT PATH'', CHR ''v''), (''CURRENT SCHEMA'', CHR ''v''), (''CURRENT SERVER'', CHR ''v''),
      (''CURRENT TIME'', CHR ''v''), (''CURRENT TIMEZONE'', CHR ''v''), (''CURRENTUSER'', CHR ''f''),
      (''CURRENT_DATABASE'', CHR ''f''), (''CURRENT_DATE'', CHR ''v''), (''CURRENT_PATH'', CHR ''v''),
      (''CURRENT_QUERY'', CHR ''f'')]"

definition sql_keywords_58 :: "keyword list" where
  "sql_keywords_58 =
     [(''CURRENT_SCHEMA'', CHR ''f''), (''CURRENT_SCHEMAS'', CHR ''f''), (''CURRENT_SERVER'', CHR ''v''),
      (''CURRENT_SETTING'', CHR ''f''), (''CURRENT_TIME'', CHR ''v''),
      (''CURRENT_TIMESTAMP'', CHR ''v''), (''CURRENT_TIMEZONE'', CHR ''v''),
      (''CURRENT_USER'', CHR ''v''), (''CURRVAL'', CHR ''f''), (''CURSOR'', CHR ''k''),
      (''CURSOR_STATUS'', CHR ''f''), (''CURTIME'', CHR ''f''), (''CVAR'', CHR ''f''),
      (''DATABASE'', CHR ''n''), (''DATABASEPROPERTYEX'', CHR ''f''), (''DATABASES'', CHR ''k''),
      (''DATABASE_PRINCIPAL_ID'', CHR ''f''), (''DATALENGTH'', CHR ''f''), (''DATE'', CHR ''f''),
      (''DATEADD'', CHR ''f''), (''DATEDIFF'', CHR ''f''), (''DATEFROMPARTS'', CHR ''f''),
      (''DATENAME'', CHR ''f''), (''DATEPART'', CHR ''f''), (''DATESERIAL'', CHR ''f''),
      (''DATETIME2FROMPARTS'', CHR ''f''), (''DATETIMEFROMPARTS'', CHR ''f''),
      (''DATETIMEOFFSETFROMPARTS'', CHR ''f''), (''DATEVALUE'', CHR ''f''), (''DATE_ADD'', CHR ''f''),
      (''DATE_FORMAT'', CHR ''f''), (''DATE_PART'', CHR ''f''), (''DATE_SUB'', CHR ''f''),
      (''DATE_TRUNC'', CHR ''f''), (''DAVG'', CHR ''f''), (''DAY'', CHR ''f''), (''DAYNAME'', CHR ''f''),
      (''DAYOFMONTH'', CHR ''f''), (''DAYOFWEEK'', CHR ''f''), (''DAYOFYEAR'', CHR ''f''),
      (''DAY_HOUR'', CHR ''k''), (''DAY_MICROSECOND'', CHR ''k''), (''DAY_MINUTE'', CHR ''k''),
      (''DAY_SECOND'', CHR ''k''), (''DBMS_LOCK.SLEEP'', CHR ''f''),
      (''DBMS_PIPE.RECEIVE_MESSAGE'', CHR ''f''), (''DBMS_UTILITY.SQLID_TO_SQLHASH'', CHR ''f''),
      (''DB_ID'', CHR ''f''), (''DB_NAME'', CHR ''f''), (''DCOUNT'', CHR ''f''), (''DEC'', CHR ''k''),
      (''DECIMAL'', CHR ''t''), (''DECLARE'', CHR ''T''), (''DECODE'', CHR ''f''),
      (''DECRYPTBYASMKEY'', CHR ''f''), (''DECRYPTBYCERT'', CHR ''f''), (''DECRYPTBYKEY'', CHR ''f''),
      (''DECRYPTBYKEYAUTOCERT'', CHR ''f''), (''DECRYPTBYPASSPHRASE'', CHR ''f''),
      (''DEFAULT'', CHR ''k''), (''DEGREES'', CHR ''f''), (''DELAY'', CHR ''k''),
      (''DELAYED'', CHR ''k''), (''DELETE'', CHR ''T''), (''DENSE_RANK'', CHR ''f''),
      (''DESC'', CHR ''k''), (''DESCRIBE'', CHR ''k''), (''DES_DECRYPT'', CHR ''f''),
      (''DES_ENCRYPT'', CHR ''f''), (''DETERMINISTIC'', CHR ''k''), (''DFIRST'', CHR ''f''),
      (''DIFFERENCE'', CHR ''f''), (''DISTINCT'', CHR ''k''), (''DISTINCTROW'', CHR ''k''),
      (''DIV'', CHR ''o''), (''DLAST'', CHR ''f''), (''DLOOKUP'', CHR ''f''), (''DMAX'', CHR ''f''),
      (''DMIN'', CHR ''f''), (''DO'', CHR ''n''), (''DOUBLE'', CHR ''t''),
      (''DOUBLE PRECISION'', CHR ''t''), (''DROP'', CHR ''T''), (''DSUM'', CHR ''f''),
      (''DUAL'', CHR ''n''), (''EACH'', CHR ''k''), (''ELSE'', CHR ''k''), (''ELSEIF'', CHR ''k''),
      (''ELT'', CHR ''f''), (''ENCLOSED'', CHR ''k''), (''ENCODE'', CHR ''f''), (''ENCRYPT'', CHR ''f''),
      (''ENCRYPTBYASMKEY'', CHR ''f''), (''ENCRYPTBYCERT'', CHR ''f''), (''ENCRYPTBYKEY'', CHR ''f''),
      (''ENCRYPTBYPASSPHRASE'', CHR ''f''), (''ENUM_FIRST'', CHR ''f''), (''ENUM_LAST'', CHR ''f''),
      (''ENUM_RANGE'', CHR ''f''), (''EOMONTH'', CHR ''f''), (''EQV'', CHR ''o''),
      (''ESCAPED'', CHR ''k''), (''EVENTDATA'', CHR ''f''), (''EXCEPT'', CHR ''U''),
      (''EXEC'', CHR ''T''), (''EXECUTE'', CHR ''T''), (''EXECUTE AS'', CHR ''E''),
      (''EXECUTE AS LOGIN'', CHR ''E''), (''EXISTS'', CHR ''f''), (''EXIT'', CHR ''k''),
      (''EXP'', CHR ''f''), (''EXPLAIN'', CHR ''k''), (''EXPORT_SET'', CHR ''f''),
      (''EXTRACT'', CHR ''f''), (''EXTRACTVALUE'', CHR ''f''), (''EXTRACT_VALUE'', CHR ''f''),
      (''FALSE'', CHR ''1''), (''FETCH'', CHR ''k''), (''FIELD'', CHR ''f''),
      (''FILEDATETIME'', CHR ''f''), (''FILEGROUPPROPERTY'', CHR ''f''), (''FILEGROUP_ID'', CHR ''f''),
      (''FILEGROUP_NAME'', CHR ''f''), (''FILELEN'', CHR ''f''), (''FILEPROPERTY'', CHR ''f''),
      (''FILETOBLOB'', CHR ''f''), (''FILETOCLOB'', CHR ''f''), (''FILE_ID'', CHR ''f''),
      (''FILE_IDEX'', CHR ''f''), (''FILE_NAME'', CHR ''f''), (''FIND_IN_SET'', CHR ''f''),
      (''FIRST_VALUE'', CHR ''f''), (''FLOAT'', CHR ''t''), (''FLOAT4'', CHR ''t''),
      (''FLOAT8'', CHR ''t''), (''FLOOR'', CHR ''f''), (''FN_VIRTUALFILESTATS'', CHR ''f''),
      (''FOR'', CHR ''n''), (''FOR UPDATE'', CHR ''k''), (''FOR UPDATE NOWAIT'', CHR ''k''),
      (''FOR UPDATE OF'', CHR ''k''), (''FOR UPDATE SKIP'', CHR ''k''),
      (''FOR UPDATE SKIP LOCKED'', CHR ''k''), (''FOR UPDATE WAIT'', CHR ''k''), (''FORCE'', CHR ''k''),
      (''FOREIGN'', CHR ''k''), (''FORMAT'', CHR ''f''), (''FOUND_ROWS'', CHR ''f''),
      (''FROM'', CHR ''k''), (''FROM_BASE64'', CHR ''f'')]"

definition sql_keywords_59 :: "keyword list" where
  "sql_keywords_59 =
     [(''FROM_DAYS'', CHR ''f''), (''FROM_UNIXTIME'', CHR ''f''), (''FULL JOIN'', CHR ''k''),
      (''FULL OUTER'', CHR ''k''), (''FULL OUTER JOIN'', CHR ''k''), (''FULLTEXT'', CHR ''k''),
      (''FULLTEXTCATALOGPROPERTY'', CHR ''f''), (''FULLTEXTSERVICEPROPERTY'', CHR ''f''),
      (''FUNCTION'', CHR ''k''), (''GENERATE_SERIES'', CHR ''f''), (''GENERATE_SUBSCRIPTS'', CHR ''f''),
      (''GETATTR'', CHR ''f''), (''GETDATE'', CHR ''f''), (''GETUTCDATE'', CHR ''f''),
      (''GET_BIT'', CHR ''f''), (''GET_BYTE'', CHR ''f''), (''GET_FORMAT'', CHR ''f''),
      (''GET_LOCK'', CHR ''f''), (''GO'', CHR ''T''), (''GOTO'', CHR ''T''), (''GRANT'', CHR ''k''),
      (''GREATEST'', CHR ''f''), (''GROUP'', CHR ''n''), (''GROUP BY'', CHR ''B''),
      (''GROUPING'', CHR ''f''), (''GROUPING_ID'', CHR ''f''), (''GROUP_CONCAT'', CHR ''f''),
      (''HANDLER'', CHR ''T''), (''HASHBYTES'', CHR ''f''), (''HAS_PERMS_BY_NAME'', CHR ''f''),
      (''HAVING'', CHR ''B''), (''HEX'', CHR ''f''), (''HIGH_PRIORITY'', CHR ''k''),
      (''HOST_NAME'', CHR ''f''), (''HOUR'', CHR ''f''), (''HOUR_MICROSECOND'', CHR ''k''),
      (''HOUR_MINUTE'', CHR ''k''), (''HOUR_SECOND'', CHR ''k''), (''IDENTIFY'', CHR ''f''),
      (''IDENT_CURRENT'', CHR ''f''), (''IDENT_INCR'', CHR ''f''), (''IDENT_SEED'', CHR ''f''),
      (''IF'', CHR ''f''), (''IF EXISTS'', CHR ''f''), (''IF NOT'', CHR ''f''),
      (''IF NOT EXISTS'', CHR ''f''), (''IFF'', CHR ''f''), (''IFNULL'', CHR ''f''),
      (''IGNORE'', CHR ''k''), (''IIF'', CHR ''f''), (''IN'', CHR ''k''), (''IN BOOLEAN'', CHR ''n''),
      (''IN BOOLEAN MODE'', CHR ''k''), (''INDEX'', CHR ''k''), (''INDEXKEY_PROPERTY'', CHR ''f''),
      (''INDEXPROPERTY'', CHR ''f''), (''INDEX_COL'', CHR ''f''), (''INET_ATON'', CHR ''f''),
      (''INET_NTOA'', CHR ''f''), (''INFILE'', CHR ''k''), (''INITCAP'', CHR ''f''),
      (''INNER'', CHR ''k''), (''INNER JOIN'', CHR ''k''), (''INOUT'', CHR ''k''),
      (''INSENSITIVE'', CHR ''k''), (''INSERT'', CHR ''E''), (''INSERT DELAYED'', CHR ''E''),
      (''INSERT DELAYED INTO'', CHR ''T''), (''INSERT HIGH_PRIORITY'', CHR ''E''),
      (''INSERT HIGH_PRIORITY INTO'', CHR ''T''), (''INSERT IGNORE'', CHR ''E''),
      (''INSERT IGNORE INTO'', CHR ''T''), (''INSERT INTO'', CHR ''T''),
      (''INSERT LOW_PRIORITY'', CHR ''E''), (''INSERT LOW_PRIORITY INTO'', CHR ''T''),
      (''INSTR'', CHR ''f''), (''INSTRREV'', CHR ''f''), (''INT'', CHR ''t''), (''INT1'', CHR ''t''),
      (''INT2'', CHR ''t''), (''INT3'', CHR ''t''), (''INT4'', CHR ''t''), (''INT8'', CHR ''t''),
      (''INTEGER'', CHR ''t''), (''INTERSECT'', CHR ''U''), (''INTERSECT ALL'', CHR ''U''),
      (''INTERVAL'', CHR ''k''), (''INTO'', CHR ''k''), (''INTO DUMPFILE'', CHR ''k''),
      (''INTO OUTFILE'', CHR ''k''), (''IS'', CHR ''o''), (''IS DISTINCT'', CHR ''n''),
      (''IS DISTINCT FROM'', CHR ''o''), (''IS NOT'', CHR ''o''), (''IS NOT DISTINCT'', CHR ''n''),
      (''IS NOT DISTINCT FROM'', CHR ''o''), (''ISDATE'', CHR ''f''), (''ISEMPTY'', CHR ''f''),
      (''ISFINITE'', CHR ''f''), (''ISNULL'', CHR ''f''), (''ISNUMERIC'', CHR ''f''),
      (''IS_FREE_LOCK'', CHR ''f''), (''IS_MEMBER'', CHR ''f''), (''IS_OBJECTSIGNED'', CHR ''f''),
      (''IS_ROLEMEMBER'', CHR ''f''), (''IS_SRVROLEMEMBER'', CHR ''f''), (''IS_USED_LOCK'', CHR ''f''),
      (''ITERATE'', CHR ''k''), (''JOIN'', CHR ''k''), (''JSON_KEYS'', CHR ''f''),
      (''JULIANDAY'', CHR ''f''), (''JUSTIFY_DAYS'', CHR ''f''), (''JUSTIFY_HOURS'', CHR ''f''),
      (''JUSTIFY_INTERVAL'', CHR ''f''), (''KEYS'', CHR ''k''), (''KEY_GUID'', CHR ''f''),
      (''KEY_ID'', CHR ''f''), (''KILL'', CHR ''k''), (''LAG'', CHR ''f''), (''LASTVAL'', CHR ''f''),
      (''LAST_INSERT_ID'', CHR ''f''), (''LAST_INSERT_ROWID'', CHR ''f''), (''LAST_VALUE'', CHR ''f''),
      (''LCASE'', CHR ''f''), (''LEAD'', CHR ''f''), (''LEADING'', CHR ''k''), (''LEAST'', CHR ''f''),
      (''LEAVE'', CHR ''k''), (''LEFT'', CHR ''f''), (''LEFT JOIN'', CHR ''k''),
      (''LEFT OUTER'', CHR ''k''), (''LEFT OUTER JOIN'', CHR ''k''), (''LENGTH'', CHR ''f''),
      (''LIKE'', CHR ''o''), (''LIMIT'', CHR ''B''), (''LINEAR'', CHR ''k''), (''LINES'', CHR ''k''),
      (''LN'', CHR ''f''), (''LOAD'', CHR ''k''), (''LOAD DATA'', CHR ''T''), (''LOAD XML'', CHR ''T''),
      (''LOAD_EXTENSION'', CHR ''f''), (''LOAD_FILE'', CHR ''f''), (''LOCALTIME'', CHR ''v''),
      (''LOCALTIMESTAMP'', CHR ''v''), (''LOCATE'', CHR ''f''), (''LOCK'', CHR ''n''),
      (''LOCK IN'', CHR ''n''), (''LOCK IN SHARE'', CHR ''n''), (''LOCK IN SHARE MODE'', CHR ''k'')]"

definition sql_keywords_60 :: "keyword list" where
  "sql_keywords_60 =
     [(''LOCK TABLE'', CHR ''k''), (''LOCK TABLES'', CHR ''k''), (''LOG'', CHR ''f''),
      (''LOG10'', CHR ''f''), (''LOG2'', CHR ''f''), (''LONGBLOB'', CHR ''k''),
      (''LONGTEXT'', CHR ''k''), (''LOOP'', CHR ''k''), (''LOWER'', CHR ''f''),
      (''LOWER_INC'', CHR ''f''), (''LOWER_INF'', CHR ''f''), (''LOW_PRIORITY'', CHR ''k''),
      (''LPAD'', CHR ''f''), (''LTRIM'', CHR ''f''), (''MAKEDATE'', CHR ''f''),
      (''MAKE_SET'', CHR ''f''), (''MASKLEN'', CHR ''f''), (''MASTER_BIND'', CHR ''k''),
      (''MASTER_POS_WAIT'', CHR ''f''), (''MASTER_SSL_VERIFY_SERVER_CERT'', CHR ''k''),
      (''MATCH'', CHR ''k''), (''MAX'', CHR ''f''), (''MAXVALUE'', CHR ''k''), (''MD5'', CHR ''f''),
      (''MEDIUMBLOB'', CHR ''k''), (''MEDIUMINT'', CHR ''k''), (''MEDIUMTEXT'', CHR ''k''),
      (''MERGE'', CHR ''k''), (''MICROSECOND'', CHR ''f''), (''MID'', CHR ''f''),
      (''MIDDLEINT'', CHR ''k''), (''MIN'', CHR ''f''), (''MINUTE'', CHR ''f''),
      (''MINUTE_MICROSECOND'', CHR ''k''), (''MINUTE_SECOND'', CHR ''k''), (''MKDIR'', CHR ''f''),
      (''MOD'', CHR ''o''), (''MODE'', CHR ''n''), (''MODIFIES'', CHR ''k''), (''MONEY'', CHR ''t''),
      (''MONTH'', CHR ''f''), (''MONTHNAME'', CHR ''f''), (''NAME_CONST'', CHR ''f''),
      (''NATURAL'', CHR ''n''), (''NATURAL FULL'', CHR ''k''), (''NATURAL FULL OUTER JOIN'', CHR ''k''),
      (''NATURAL INNER'', CHR ''k''), (''NATURAL JOIN'', CHR ''k''), (''NATURAL LEFT'', CHR ''k''),
      (''NATURAL LEFT OUTER'', CHR ''k''), (''NATURAL LEFT OUTER JOIN'', CHR ''k''),
      (''NATURAL OUTER'', CHR ''k''), (''NATURAL RIGHT'', CHR ''k''),
      (''NATURAL RIGHT OUTER JOIN'', CHR ''k''), (''NETMASK'', CHR ''f''), (''NEXT VALUE'', CHR ''n''),
      (''NEXT VALUE FOR'', CHR ''k''), (''NEXTVAL'', CHR ''f''), (''NOT'', CHR ''o''),
      (''NOT BETWEEN'', CHR ''o''), (''NOT IN'', CHR ''k''), (''NOT LIKE'', CHR ''o''),
      (''NOT REGEXP'', CHR ''o''), (''NOT RLIKE'', CHR ''o''), (''NOT SIMILAR'', CHR ''o''),
      (''NOT SIMILAR TO'', CHR ''o''), (''NOTNULL'', CHR ''k''), (''NOW'', CHR ''f''),
      (''NOWAIT'', CHR ''k''), (''NO_WRITE_TO_BINLOG'', CHR ''k''), (''NTH_VALUE'', CHR ''f''),
      (''NTILE'', CHR ''f''), (''NULL'', CHR ''v''), (''NULLIF'', CHR ''f''), (''NUMERIC'', CHR ''t''),
      (''NZ'', CHR ''f''), (''OBJECTPROPERTY'', CHR ''f''), (''OBJECTPROPERTYEX'', CHR ''f''),
      (''OBJECT_DEFINITION'', CHR ''f''), (''OBJECT_ID'', CHR ''f''), (''OBJECT_NAME'', CHR ''f''),
      (''OBJECT_SCHEMA_NAME'', CHR ''f''), (''OCT'', CHR ''f''), (''OCTET_LENGTH'', CHR ''f''),
      (''OFFSET'', CHR ''k''), (''OID'', CHR ''t''), (''OLD_PASSWORD'', CHR ''f''),
      (''ONE_SHOT'', CHR ''k''), (''OPEN'', CHR ''k''), (''OPENDATASOURCE'', CHR ''f''),
      (''OPENQUERY'', CHR ''f''), (''OPENROWSET'', CHR ''f''), (''OPENXML'', CHR ''f''),
      (''OPTIMIZE'', CHR ''k''), (''OPTION'', CHR ''k''), (''OPTIONALLY'', CHR ''k''),
      (''OR'', CHR ''&''), (''ORD'', CHR ''f''), (''ORDER'', CHR ''n''), (''ORDER BY'', CHR ''B''),
      (''ORIGINAL_DB_NAME'', CHR ''f''), (''ORIGINAL_LOGIN'', CHR ''f''), (''OUT'', CHR ''n''),
      (''OUTER'', CHR ''n''), (''OUTFILE'', CHR ''k''), (''OVERLAPS'', CHR ''f''),
      (''OVERLAY'', CHR ''f''), (''OWN3D'', CHR ''k''), (''OWN3D BY'', CHR ''B''),
      (''PARSENAME'', CHR ''f''), (''PARTITION'', CHR ''k''), (''PARTITION BY'', CHR ''B''),
      (''PASSWORD'', CHR ''n''), (''PATHINDEX'', CHR ''f''), (''PATINDEX'', CHR ''f''),
      (''PERCENTILE_COUNT'', CHR ''f''), (''PERCENTILE_DISC'', CHR ''f''),
      (''PERCENTILE_RANK'', CHR ''f''), (''PERCENT_RANK'', CHR ''f''), (''PERIOD_ADD'', CHR ''f''),
      (''PERIOD_DIFF'', CHR ''f''), (''PERMISSIONS'', CHR ''f''), (''PG_ADVISORY_LOCK'', CHR ''f''),
      (''PG_BACKEND_PID'', CHR ''f''), (''PG_CANCEL_BACKEND'', CHR ''f''),
      (''PG_CLIENT_ENCODING'', CHR ''f''), (''PG_CONF_LOAD_TIME'', CHR ''f''),
      (''PG_CREATE_RESTORE_POINT'', CHR ''f''), (''PG_HAS_ROLE'', CHR ''f''),
      (''PG_IS_IN_RECOVERY'', CHR ''f''), (''PG_IS_OTHER_TEMP_SCHEMA'', CHR ''f''),
      (''PG_LISTENING_CHANNELS'', CHR ''f''), (''PG_LS_DIR'', CHR ''f''),
      (''PG_MY_TEMP_SCHEMA'', CHR ''f''), (''PG_POSTMASTER_START_TIME'', CHR ''f''),
      (''PG_READ_BINARY_FILE'', CHR ''f''), (''PG_READ_FILE'', CHR ''f''),
      (''PG_RELOAD_CONF'', CHR ''f''), (''PG_ROTATE_LOGFILE'', CHR ''f''), (''PG_SLEEP'', CHR ''f''),
      (''PG_START_BACKUP'', CHR ''f''), (''PG_STAT_FILE'', CHR ''f''), (''PG_STOP_BACKUP'', CHR ''f''),
      (''PG_SWITCH_XLOG'', CHR ''f''), (''PG_TERMINATE_BACKEND'', CHR ''f''),
      (''PG_TRIGGER_DEPTH'', CHR ''f''), (''PI'', CHR ''f''), (''POSITION'', CHR ''f''),
      (''POW'', CHR ''f''), (''POWER'', CHR ''f'')]"

definition sql_keywords_61 :: "keyword list" where
  "sql_keywords_61 =
     [(''PRECISION'', CHR ''k''), (''PREVIOUS VALUE'', CHR ''n''), (''PREVIOUS VALUE FOR'', CHR ''k''),
      (''PRIMARY'', CHR ''k''), (''PRINT'', CHR ''T''), (''PROCEDURE'', CHR ''k''),
      (''PROCEDURE ANALYSE'', CHR ''f''), (''PUBLISHINGSERVERNAME'', CHR ''f''), (''PURGE'', CHR ''k''),
      (''PWDCOMPARE'', CHR ''f''), (''PWDENCRYPT'', CHR ''f''), (''QUARTER'', CHR ''f''),
      (''QUOTE'', CHR ''f''), (''QUOTENAME'', CHR ''f''), (''QUOTE_IDENT'', CHR ''f''),
      (''QUOTE_LITERAL'', CHR ''f''), (''QUOTE_NULLABLE'', CHR ''f''), (''RADIANS'', CHR ''f''),
      (''RAISEERROR'', CHR ''E''), (''RAND'', CHR ''f''), (''RANDOM'', CHR ''f''),
      (''RANDOMBLOB'', CHR ''f''), (''RANGE'', CHR ''k''), (''RANK'', CHR ''f''), (''READ'', CHR ''k''),
      (''READ WRITE'', CHR ''k''), (''READS'', CHR ''k''), (''READ_WRITE'', CHR ''k''),
      (''REAL'', CHR ''t''), (''REFERENCES'', CHR ''k''), (''REGCLASS'', CHR ''t''),
      (''REGCONFIG'', CHR ''t''), (''REGDICTIONARY'', CHR ''t''), (''REGEXP'', CHR ''o''),
      (''REGEXP_INSTR'', CHR ''f''), (''REGEXP_MATCHES'', CHR ''f''), (''REGEXP_REPLACE'', CHR ''f''),
      (''REGEXP_SPLIT_TO_ARRAY'', CHR ''f''), (''REGEXP_SPLIT_TO_TABLE'', CHR ''f''),
      (''REGEXP_SUBSTR'', CHR ''f''), (''REGOPER'', CHR ''t''), (''REGOPERATOR'', CHR ''t''),
      (''REGPROC'', CHR ''t''), (''REGPROCEDURE'', CHR ''t''), (''REGTYPE'', CHR ''t''),
      (''RELEASE'', CHR ''k''), (''RELEASE_LOCK'', CHR ''f''), (''RENAME'', CHR ''k''),
      (''REPEAT'', CHR ''k''), (''REPLACE'', CHR ''k''), (''REPLICATE'', CHR ''f''),
      (''REQUIRE'', CHR ''k''), (''RESIGNAL'', CHR ''k''), (''RESTRICT'', CHR ''k''),
      (''RETURN'', CHR ''k''), (''REVERSE'', CHR ''f''), (''REVOKE'', CHR ''k''), (''RIGHT'', CHR ''n''),
      (''RIGHT JOIN'', CHR ''k''), (''RIGHT OUTER'', CHR ''k''), (''RIGHT OUTER JOIN'', CHR ''k''),
      (''RLIKE'', CHR ''o''), (''ROUND'', CHR ''f''), (''ROW'', CHR ''f''), (''ROW_COUNT'', CHR ''f''),
      (''ROW_NUMBER'', CHR ''f''), (''ROW_TO_JSON'', CHR ''f''), (''RPAD'', CHR ''f''),
      (''RTRIM'', CHR ''f''), (''SCHAMA_NAME'', CHR ''f''), (''SCHEMA'', CHR ''k''),
      (''SCHEMAS'', CHR ''k''), (''SCHEMA_ID'', CHR ''f''), (''SCOPE_IDENTITY'', CHR ''f''),
      (''SECOND_MICROSECOND'', CHR ''k''), (''SEC_TO_TIME'', CHR ''f''), (''SELECT'', CHR ''E''),
      (''SELECT ALL'', CHR ''E''), (''SELECT DISTINCT'', CHR ''E''), (''SENSITIVE'', CHR ''k''),
      (''SEPARATOR'', CHR ''k''), (''SERIAL'', CHR ''t''), (''SERIAL2'', CHR ''t''),
      (''SERIAL4'', CHR ''t''), (''SERIAL8'', CHR ''t''), (''SERVERPROPERTY'', CHR ''f''),
      (''SESSION_USER'', CHR ''f''), (''SET'', CHR ''E''), (''SETATTR'', CHR ''f''),
      (''SETSEED'', CHR ''f''), (''SETVAL'', CHR ''f''), (''SET_BIT'', CHR ''f''),
      (''SET_BYTE'', CHR ''f''), (''SET_CONFIG'', CHR ''f''), (''SET_MASKLEN'', CHR ''f''),
      (''SHA'', CHR ''f''), (''SHA1'', CHR ''f''), (''SHA2'', CHR ''f''), (''SHOW'', CHR ''n''),
      (''SHUTDOWN'', CHR ''T''), (''SIGN'', CHR ''f''), (''SIGNAL'', CHR ''k''),
      (''SIGNBYASMKEY'', CHR ''f''), (''SIGNBYCERT'', CHR ''f''), (''SIMILAR'', CHR ''k''),
      (''SIMILAR TO'', CHR ''o''), (''SIN'', CHR ''f''), (''SLEEP'', CHR ''f''),
      (''SMALLDATETIMEFROMPARTS'', CHR ''f''), (''SMALLINT'', CHR ''t''), (''SMALLSERIAL'', CHR ''t''),
      (''SOME'', CHR ''f''), (''SOUNDEX'', CHR ''f''), (''SOUNDS'', CHR ''o''),
      (''SOUNDS LIKE'', CHR ''o''), (''SPACE'', CHR ''f''), (''SPATIAL'', CHR ''k''),
      (''SPECIFIC'', CHR ''k''), (''SPLIT_PART'', CHR ''f''), (''SQL'', CHR ''k''),
      (''SQLEXCEPTION'', CHR ''k''), (''SQLITE_VERSION'', CHR ''f''), (''SQLSTATE'', CHR ''k''),
      (''SQLWARNING'', CHR ''k''), (''SQL_BIG_RESULT'', CHR ''k''), (''SQL_BUFFER_RESULT'', CHR ''k''),
      (''SQL_CACHE'', CHR ''k''), (''SQL_CALC_FOUND_ROWS'', CHR ''k''), (''SQL_NO_CACHE'', CHR ''k''),
      (''SQL_SMALL_RESULT'', CHR ''k''), (''SQL_VARIANT_PROPERTY'', CHR ''f''), (''SQRT'', CHR ''f''),
      (''SSL'', CHR ''k''), (''STARTING'', CHR ''k''), (''STATEMENT_TIMESTAMP'', CHR ''f''),
      (''STATS_DATE'', CHR ''f''), (''STDDEV'', CHR ''f''), (''STDDEV_POP'', CHR ''f''),
      (''STDDEV_SAMP'', CHR ''f''), (''STRAIGHT_JOIN'', CHR ''k''), (''STRCMP'', CHR ''f''),
      (''STRCOMP'', CHR ''f''), (''STRCONV'', CHR ''f''), (''STRING_AGG'', CHR ''f''),
      (''STRING_TO_ARRAY'', CHR ''f''), (''STRPOS'', CHR ''f''), (''STR_TO_DATE'', CHR ''f''),
      (''STUFF'', CHR ''f''), (''SUBDATE'', CHR ''f''), (''SUBSTR'', CHR ''f'')]"

definition sql_keywords_62 :: "keyword list" where
  "sql_keywords_62 =
     [(''SUBSTRING'', CHR ''f''), (''SUBSTRING_INDEX'', CHR ''f''), (''SUBTIME'', CHR ''f''),
      (''SUM'', CHR ''f''), (''SUSER_ID'', CHR ''f''), (''SUSER_NAME'', CHR ''f''),
      (''SUSER_SID'', CHR ''f''), (''SUSER_SNAME'', CHR ''f''), (''SWITCHOFFET'', CHR ''f''),
      (''SYS.DATABASE_NAME'', CHR ''n''), (''SYS.FN_BUILTIN_PERMISSIONS'', CHR ''f''),
      (''SYS.FN_GET_AUDIT_FILE'', CHR ''f''), (''SYS.FN_MY_PERMISSIONS'', CHR ''f''),
      (''SYS.STRAGG'', CHR ''f''), (''SYSCOLUMNS'', CHR ''k''), (''SYSDATE'', CHR ''f''),
      (''SYSDATETIME'', CHR ''f''), (''SYSDATETIMEOFFSET'', CHR ''f''), (''SYSOBJECTS'', CHR ''k''),
      (''SYSTEM_USER'', CHR ''f''), (''SYSUSERS'', CHR ''k''), (''SYSUTCDATETME'', CHR ''f''),
      (''TABLE'', CHR ''n''), (''TAN'', CHR ''f''), (''TERMINATED'', CHR ''k''),
      (''TERTIARY_WEIGHTS'', CHR ''f''), (''TEXT'', CHR ''t''), (''TEXTPOS'', CHR ''f''),
      (''TEXTPTR'', CHR ''f''), (''TEXTVALID'', CHR ''f''), (''THEN'', CHR ''k''), (''TIME'', CHR ''k''),
      (''TIMEDIFF'', CHR ''f''), (''TIMEFROMPARTS'', CHR ''f''), (''TIMEOFDAY'', CHR ''f''),
      (''TIMESERIAL'', CHR ''f''), (''TIMESTAMP'', CHR ''t''), (''TIMESTAMPADD'', CHR ''f''),
      (''TIMEVALUE'', CHR ''f''), (''TIME_FORMAT'', CHR ''f''), (''TIME_TO_SEC'', CHR ''f''),
      (''TINYBLOB'', CHR ''k''), (''TINYINT'', CHR ''k''), (''TINYTEXT'', CHR ''k''),
      (''TODATETIMEOFFSET'', CHR ''f''), (''TOP'', CHR ''k''), (''TOTAL'', CHR ''f''),
      (''TOTAL_CHANGES'', CHR ''f''), (''TO_ASCII'', CHR ''f''), (''TO_BASE64'', CHR ''f''),
      (''TO_CHAR'', CHR ''f''), (''TO_DATE'', CHR ''f''), (''TO_DAYS'', CHR ''f''),
      (''TO_HEX'', CHR ''f''), (''TO_NUMBER'', CHR ''f''), (''TO_SECONDS'', CHR ''f''),
      (''TO_TIMESTAMP'', CHR ''f''), (''TRAILING'', CHR ''n''), (''TRANSACTION_TIMESTAMP'', CHR ''f''),
      (''TRANSLATE'', CHR ''f''), (''TRIGGER'', CHR ''k''), (''TRIGGER_NESTLEVEL'', CHR ''f''),
      (''TRIM'', CHR ''f''), (''TRUE'', CHR ''1''), (''TRUNC'', CHR ''f''), (''TRUNCATE'', CHR ''f''),
      (''TRY'', CHR ''T''), (''TRY_CAST'', CHR ''f''), (''TRY_CONVERT'', CHR ''f''),
      (''TRY_PARSE'', CHR ''f''), (''TYPEOF'', CHR ''f''), (''TYPEPROPERTY'', CHR ''f''),
      (''TYPE_ID'', CHR ''f''), (''TYPE_NAME'', CHR ''f''), (''UCASE'', CHR ''f''),
      (''UESCAPE'', CHR ''o''), (''UNCOMPRESS'', CHR ''f''), (''UNCOMPRESS_LENGTH'', CHR ''f''),
      (''UNDO'', CHR ''k''), (''UNHEX'', CHR ''f''), (''UNICODE'', CHR ''f''), (''UNION'', CHR ''U''),
      (''UNION ALL'', CHR ''U''), (''UNION ALL DISTINCT'', CHR ''U''), (''UNION DISTINCT'', CHR ''U''),
      (''UNION DISTINCT ALL'', CHR ''U''), (''UNIQUE'', CHR ''n''), (''UNIX_TIMESTAMP'', CHR ''f''),
      (''UNI_ON'', CHR ''U''), (''UNKNOWN'', CHR ''v''), (''UNLOCK'', CHR ''k''),
      (''UNNEST'', CHR ''f''), (''UNSIGNED'', CHR ''k''), (''UPDATE'', CHR ''E''),
      (''UPDATEXML'', CHR ''f''), (''UPPER'', CHR ''f''), (''UPPER_INC'', CHR ''f''),
      (''UPPER_INF'', CHR ''f''), (''USAGE'', CHR ''k''), (''USE'', CHR ''T''), (''USER'', CHR ''n''),
      (''USER_ID'', CHR ''n''), (''USER_LOCK.SLEEP'', CHR ''f''), (''USER_NAME'', CHR ''n''),
      (''USING'', CHR ''f''), (''UTC_DATE'', CHR ''k''), (''UTC_TIME'', CHR ''k''),
      (''UTC_TIMESTAMP'', CHR ''k''), (''UTL_HTTP.REQUEST'', CHR ''f''),
      (''UTL_INADDR.GET_HOST_ADDRESS'', CHR ''f''), (''UTL_INADDR.GET_HOST_NAME'', CHR ''f''),
      (''UUID'', CHR ''f''), (''UUID_SHORT'', CHR ''f''), (''VALUES'', CHR ''k''), (''VAR'', CHR ''f''),
      (''VARBINARY'', CHR ''k''), (''VARCHAR'', CHR ''t''), (''VARCHARACTER'', CHR ''k''),
      (''VARIANCE'', CHR ''f''), (''VARP'', CHR ''f''), (''VARYING'', CHR ''k''),
      (''VAR_POP'', CHR ''f''), (''VAR_SAMP'', CHR ''f''), (''VERIFYSIGNEDBYASMKEY'', CHR ''f''),
      (''VERIFYSIGNEDBYCERT'', CHR ''f''), (''VERSION'', CHR ''f''), (''VOID'', CHR ''t''),
      (''WAIT'', CHR ''k''), (''WAITFOR'', CHR ''n''), (''WAITFOR DELAY'', CHR ''E''),
      (''WAITFOR RECEIVE'', CHR ''E''), (''WAITFOR TIME'', CHR ''E''), (''WEEK'', CHR ''f''),
      (''WEEKDAY'', CHR ''f''), (''WEEKDAYNAME'', CHR ''f''), (''WEEKOFYEAR'', CHR ''f''),
      (''WHEN'', CHR ''k''), (''WHERE'', CHR ''k''), (''WHILE'', CHR ''T''),
      (''WIDTH_BUCKET'', CHR ''f''), (''WITH'', CHR ''n''), (''WITH ROLLUP'', CHR ''k''),
      (''XMLAGG'', CHR ''f''), (''XMLCOMMENT'', CHR ''f''), (''XMLCONCAT'', CHR ''f''),
      (''XMLELEMENT'', CHR ''f''), (''XMLEXISTS'', CHR ''f''), (''XMLFOREST'', CHR ''f''),
      (''XMLFORMAT'', CHR ''f''), (''XMLPI'', CHR ''f'')]"

definition sql_keywords_63 :: "keyword list" where
  "sql_keywords_63 =
     [(''XMLROOT'', CHR ''f''), (''XMLTYPE'', CHR ''f''), (''XML_IS_WELL_FORMED'', CHR ''f''),
      (''XOR'', CHR ''&''), (''XPATH'', CHR ''f''), (''XPATH_EXISTS'', CHR ''f''),
      (''XP_EXECRESULTSET'', CHR ''k''), (''YEAR'', CHR ''f''), (''YEARWEEK'', CHR ''f''),
      (''YEAR_MONTH'', CHR ''k''), (''ZEROBLOB'', CHR ''f''), (''ZEROFILL'', CHR ''k''),
      (''^='', CHR ''o''), (''_ARMSCII8'', CHR ''t''), (''_ASCII'', CHR ''t''), (''_BIG5'', CHR ''t''),
      (''_BINARY'', CHR ''t''), (''_CP1250'', CHR ''t''), (''_CP1251'', CHR ''t''),
      (''_CP1257'', CHR ''t''), (''_CP850'', CHR ''t''), (''_CP852'', CHR ''t''),
      (''_CP866'', CHR ''t''), (''_CP932'', CHR ''t''), (''_DEC8'', CHR ''t''),
      (''_EUCJPMS'', CHR ''t''), (''_EUCKR'', CHR ''t''), (''_GB2312'', CHR ''t''),
      (''_GBK'', CHR ''t''), (''_GEOSTD8'', CHR ''t''), (''_GREEK'', CHR ''t''),
      (''_HEBREW'', CHR ''t''), (''_HP8'', CHR ''t''), (''_KEYBCS2'', CHR ''t''),
      (''_KOI8R'', CHR ''t''), (''_KOI8U'', CHR ''t''), (''_LATIN1'', CHR ''t''),
      (''_LATIN2'', CHR ''t''), (''_LATIN5'', CHR ''t''), (''_LATIN7'', CHR ''t''),
      (''_MACCE'', CHR ''t''), (''_MACROMAN'', CHR ''t''), (''_SJIS'', CHR ''t''),
      (''_SWE7'', CHR ''t''), (''_TIS620'', CHR ''t''), (''_UJIS'', CHR ''t''), (''_USC2'', CHR ''t''),
      (''_UTF8'', CHR ''t''), (''|/'', CHR ''o''), (''|='', CHR ''o''), (''||'', CHR ''&''),
      (''~*'', CHR ''o'')]"

definition sql_keywords :: "keyword list" where
  "sql_keywords = concat [sql_keywords_1, sql_keywords_2, sql_keywords_3, sql_keywords_4, sql_keywords_5,
     sql_keywords_6, sql_keywords_7, sql_keywords_8, sql_keywords_9, sql_keywords_10,
     sql_keywords_11, sql_keywords_12, sql_keywords_13, sql_keywords_14, sql_keywords_15,
     sql_keywords_16, sql_keywords_17, sql_keywords_18, sql_keywords_19, sql_keywords_20,
     sql_keywords_21, sql_keywords_22, sql_keywords_23, sql_keywords_24, sql_keywords_25,
     sql_keywords_26, sql_keywords_27, sql_keywords_28, sql_keywords_29, sql_keywords_30,
     sql_keywords_31, sql_keywords_32, sql_keywords_33, sql_keywords_34, sql_keywords_35,
     sql_keywords_36, sql_keywords_37, sql_keywords_38, sql_keywords_39, sql_keywords_40,
     sql_keywords_41, sql_keywords_42, sql_keywords_43, sql_keywords_44, sql_keywords_45,
     sql_keywords_46, sql_keywords_47, sql_keywords_48, sql_keywords_49, sql_keywords_50,
     sql_keywords_51, sql_keywords_52, sql_keywords_53, sql_keywords_54, sql_keywords_55,
     sql_keywords_56, sql_keywords_57, sql_keywords_58, sql_keywords_59, sql_keywords_60,
     sql_keywords_61, sql_keywords_62, sql_keywords_63]"

end
