(* ===== verification/SqliTokens.thy ===== *)
theory SqliTokens
  imports Checked
begin

text \<open>
  The tokenizer of the SQL injection check of libinjection, \<open>src/deps/src/libinjection/src/libinjection_sqli.c\<close>:
  one definition for each of the functions that \<open>char_parse_map\<close> chooses by the first byte of a token, and
  \<open>libinjection_sqli_tokenize\<close>.  \<open>lookup\<close> is the function behind \<open>sf->lookup\<close>, which gives the type of a word or
  an operator.

  The input is a list, a pointer into it an index; \<open>None\<close> is a read outside the input, a size that wraps
  around, or a loop that does not end.  The array \<open>val\<close> of a token is the list of the bytes that have been put
  into it, without the zero byte behind them.  Counters are unbounded, a token is at least one byte of input.
\<close>

unbundle bit_operations_syntax

section \<open>Tokens and the state\<close>

abbreviation TYPE_KEYWORD :: char where "TYPE_KEYWORD \<equiv> CHR ''k''"
abbreviation TYPE_UNION :: char where "TYPE_UNION \<equiv> CHR ''U''"
abbreviation TYPE_GROUP :: char where "TYPE_GROUP \<equiv> CHR ''B''"
abbreviation TYPE_EXPRESSION :: char where "TYPE_EXPRESSION \<equiv> CHR ''E''"
abbreviation TYPE_SQLTYPE :: char where "TYPE_SQLTYPE \<equiv> CHR ''t''"
abbreviation TYPE_FUNCTION :: char where "TYPE_FUNCTION \<equiv> CHR ''f''"
abbreviation TYPE_BAREWORD :: char where "TYPE_BAREWORD \<equiv> CHR ''n''"
abbreviation TYPE_NUMBER :: char where "TYPE_NUMBER \<equiv> CHR ''1''"
abbreviation TYPE_VARIABLE :: char where "TYPE_VARIABLE \<equiv> CHR ''v''"
abbreviation TYPE_STRING :: char where "TYPE_STRING \<equiv> CHR ''s''"
abbreviation TYPE_OPERATOR :: char where "TYPE_OPERATOR \<equiv> CHR ''o''"
abbreviation TYPE_LOGIC_OPERATOR :: char where "TYPE_LOGIC_OPERATOR \<equiv> CHR ''&''"
abbreviation TYPE_COMMENT :: char where "TYPE_COMMENT \<equiv> CHR ''c''"
abbreviation TYPE_COLLATE :: char where "TYPE_COLLATE \<equiv> CHR ''A''"
abbreviation TYPE_LEFTPARENS :: char where "TYPE_LEFTPARENS \<equiv> CHR ''(''"
abbreviation TYPE_RIGHTPARENS :: char where "TYPE_RIGHTPARENS \<equiv> CHR '')''"
abbreviation TYPE_LEFTBRACE :: char where "TYPE_LEFTBRACE \<equiv> CHR ''{''"
abbreviation TYPE_RIGHTBRACE :: char where "TYPE_RIGHTBRACE \<equiv> CHR ''}''"
abbreviation TYPE_DOT :: char where "TYPE_DOT \<equiv> CHR ''.''"
abbreviation TYPE_COMMA :: char where "TYPE_COMMA \<equiv> CHR '',''"
abbreviation TYPE_COLON :: char where "TYPE_COLON \<equiv> CHR '':''"
abbreviation TYPE_SEMICOLON :: char where "TYPE_SEMICOLON \<equiv> CHR '';''"
abbreviation TYPE_TSQL :: char where "TYPE_TSQL \<equiv> CHR ''T''"
abbreviation TYPE_UNKNOWN :: char where "TYPE_UNKNOWN \<equiv> CHR ''?''"
abbreviation TYPE_EVIL :: char where "TYPE_EVIL \<equiv> CHR ''X''"
abbreviation TYPE_FINGERPRINT :: char where "TYPE_FINGERPRINT \<equiv> CHR ''F''"
abbreviation TYPE_BACKSLASH :: char where "TYPE_BACKSLASH \<equiv> CHR 0x5C"
abbreviation CHAR_SINGLE :: char where "CHAR_SINGLE \<equiv> CHR 0x27"
abbreviation CHAR_DOUBLE :: char where "CHAR_DOUBLE \<equiv> CHR 0x22"
abbreviation CHAR_TICK :: char where "CHAR_TICK \<equiv> CHR 0x60"

definition TOKEN_SIZE :: nat where "TOKEN_SIZE = 32"

record stoken =
  st_pos :: nat
  st_len :: nat
  st_count :: nat
  st_type :: char
  st_str_open :: char
  st_str_close :: char
  st_val :: bytes

definition FLAG_QUOTE_NONE :: nat where "FLAG_QUOTE_NONE = 1"
definition FLAG_QUOTE_SINGLE :: nat where "FLAG_QUOTE_SINGLE = 2"
definition FLAG_QUOTE_DOUBLE :: nat where "FLAG_QUOTE_DOUBLE = 4"
definition FLAG_SQL_ANSI :: nat where "FLAG_SQL_ANSI = 8"
definition FLAG_SQL_MYSQL :: nat where "FLAG_SQL_MYSQL = 16"

text \<open>\<open>current\<close> is the index of the token that it points to.\<close>

record sqli_state =
  sf_flags :: nat
  sf_pos :: nat
  sf_tokenvec :: "stoken list"
  sf_current :: nat
  sf_fingerprint :: bytes
  sf_comment_ddx :: nat
  sf_comment_hash :: nat
  sf_folds :: nat
  sf_tokens :: nat

type_synonym lookup = "bytes \<Rightarrow> char"

definition st_clear :: stoken where
  "st_clear = \<lparr>st_pos = 0, st_len = 0, st_count = 0, st_type = NUL, st_str_open = NUL, st_str_close = NUL, st_val = []\<rparr>"

definition st_assign_char :: "char \<Rightarrow> nat \<Rightarrow> char \<Rightarrow> stoken \<Rightarrow> stoken" where
  "st_assign_char stype pos value st = st\<lparr>st_type := stype, st_pos := pos, st_len := 1, st_val := [value]\<rparr>"

text \<open>\<open>src\<close> and \<open>from\<close> are the buffer and the index behind \<open>value\<close>.\<close>

definition st_assign :: "char \<Rightarrow> nat \<Rightarrow> nat \<Rightarrow> bytes \<Rightarrow> nat \<Rightarrow> stoken \<Rightarrow> stoken option" where
  "st_assign stype pos len src from st =
     (let m = (if len < TOKEN_SIZE then len else TOKEN_SIZE - 1)
      in do { value \<leftarrow> read_bytes src from m;
              Some (st\<lparr>st_type := stype, st_pos := pos, st_len := m, st_val := value\<rparr>) })"

definition cur :: "sqli_state \<Rightarrow> stoken" where
  "cur sf = sf_tokenvec sf ! sf_current sf"

definition set_cur :: "stoken \<Rightarrow> sqli_state \<Rightarrow> sqli_state" where
  "set_cur t sf = sf\<lparr>sf_tokenvec := (sf_tokenvec sf)[sf_current sf := t]\<rparr>"

definition upd_cur :: "(stoken \<Rightarrow> stoken) \<Rightarrow> sqli_state \<Rightarrow> sqli_state" where
  "upd_cur f sf = set_cur (f (cur sf)) sf"

definition assign_char :: "char \<Rightarrow> nat \<Rightarrow> char \<Rightarrow> sqli_state \<Rightarrow> sqli_state" where
  "assign_char stype pos value sf = upd_cur (st_assign_char stype pos value) sf"

definition assign :: "char \<Rightarrow> nat \<Rightarrow> nat \<Rightarrow> bytes \<Rightarrow> sqli_state \<Rightarrow> sqli_state option" where
  "assign stype pos len s sf = do { t \<leftarrow> st_assign stype pos len s pos (cur sf); Some (set_cur t sf) }"

section \<open>Strings of C\<close>

text \<open>\<open>memchr2(s + from, n, c0, c1)\<close> as an index.\<close>

fun find2 :: "char \<Rightarrow> char \<Rightarrow> bytes \<Rightarrow> nat option" where
  "find2 c0 c1 (a # b # xs) = (if a = c0 \<and> b = c1 then Some 0 else map_option Suc (find2 c0 c1 (b # xs)))"
| "find2 c0 c1 _ = None"

definition memchr2 :: "bytes \<Rightarrow> nat \<Rightarrow> nat \<Rightarrow> char \<Rightarrow> char \<Rightarrow> nat option option" where
  "memchr2 s from n c0 c1 =
     do { h \<leftarrow> read_bytes s from n; Some (map_option ((+) from) (find2 c0 c1 h)) }"

text \<open>With a haystack shorter than the needle, \<open>last\<close> is in front of it and the loop does not run.\<close>

fun find_sub :: "bytes \<Rightarrow> bytes \<Rightarrow> nat option" where
  "find_sub needle xs =
     (if length xs < length needle then None
      else if take (length needle) xs = needle then Some 0
      else case xs of [] \<Rightarrow> None | _ # ys \<Rightarrow> map_option Suc (find_sub needle ys))"

declare find_sub.simps [simp del]

definition my_memmem :: "bytes \<Rightarrow> nat \<Rightarrow> nat \<Rightarrow> bytes \<Rightarrow> nat option option" where
  "my_memmem s from n needle =
     do { h \<leftarrow> read_bytes s from n; Some (map_option ((+) from) (find_sub needle h)) }"

text \<open>\<open>strchr(accept, c) != NULL\<close>, which also finds the zero byte at the end of \<open>accept\<close>.\<close>

definition in_cstring :: "bytes \<Rightarrow> char \<Rightarrow> bool" where
  "in_cstring accept c \<longleftrightarrow> c = NUL \<or> c \<in> set accept"

definition strlenspn :: "bytes \<Rightarrow> nat \<Rightarrow> nat \<Rightarrow> bytes \<Rightarrow> nat option" where
  "strlenspn s from n accept = do { h \<leftarrow> read_bytes s from n; Some (length (takeWhile (in_cstring accept) h)) }"

definition strlencspn :: "bytes \<Rightarrow> nat \<Rightarrow> nat \<Rightarrow> bytes \<Rightarrow> nat option" where
  "strlencspn s from n accept =
     do { h \<leftarrow> read_bytes s from n; Some (length (takeWhile (\<lambda>c. \<not> in_cstring accept c) h)) }"

definition char_is_white :: "char \<Rightarrow> bool" where
  "char_is_white ch = in_cstring ('' '' @ [HT, LF, CHR 0x0B, CHR 0x0C, CR, CHR 0xA0]) ch"

text \<open>\<open>a\<close> is a C string, \<open>b\<close> the \<open>n\<close> bytes it is compared with.\<close>

fun cstrcasecmp :: "bytes \<Rightarrow> bytes \<Rightarrow> int" where
  "cstrcasecmp a [] = (if a = [] then 0 else 1)"
| "cstrcasecmp [] (b # bs) = (if upper b \<noteq> NUL then 0 - signed_char (upper b) else -1)"
| "cstrcasecmp (a # as) (b # bs) =
     (if a \<noteq> upper b then signed_char a - signed_char (upper b)
      else if a = NUL then -1 else cstrcasecmp as bs)"

section \<open>Operators and comments\<close>

definition parse_white :: "bytes \<Rightarrow> sqli_state \<Rightarrow> (nat \<times> sqli_state) option" where
  "parse_white s sf = Some (sf_pos sf + 1, sf)"

definition parse_operator1 :: "bytes \<Rightarrow> sqli_state \<Rightarrow> (nat \<times> sqli_state) option" where
  "parse_operator1 s sf =
     (let pos = sf_pos sf
      in do { c \<leftarrow> read_at s pos; Some (pos + 1, assign_char TYPE_OPERATOR pos c sf) })"

definition parse_other :: "bytes \<Rightarrow> sqli_state \<Rightarrow> (nat \<times> sqli_state) option" where
  "parse_other s sf =
     (let pos = sf_pos sf
      in do { c \<leftarrow> read_at s pos; Some (pos + 1, assign_char TYPE_UNKNOWN pos c sf) })"

definition parse_char :: "bytes \<Rightarrow> sqli_state \<Rightarrow> (nat \<times> sqli_state) option" where
  "parse_char s sf =
     (let pos = sf_pos sf
      in do { c \<leftarrow> read_at s pos; Some (pos + 1, assign_char c pos c sf) })"

definition parse_eol_comment :: "bytes \<Rightarrow> sqli_state \<Rightarrow> (nat \<times> sqli_state) option" where
  "parse_eol_comment s sf =
     (let pos = sf_pos sf
      in do { endpos \<leftarrow> memchr s pos LF;
              case endpos of
                None \<Rightarrow>
                  do { n \<leftarrow> size_minus (length s) pos;
                       sf \<leftarrow> assign TYPE_COMMENT pos n s sf;
                       Some (length s, sf) }
              | Some e \<Rightarrow>
                  do { n \<leftarrow> size_minus e pos;
                       sf \<leftarrow> assign TYPE_COMMENT pos n s sf;
                       Some (e + 1, sf) } })"

definition parse_hash :: "bytes \<Rightarrow> sqli_state \<Rightarrow> (nat \<times> sqli_state) option" where
  "parse_hash s sf =
     (let sf = sf\<lparr>sf_comment_hash := sf_comment_hash sf + 1\<rparr>
      in if sf_flags sf AND FLAG_SQL_MYSQL \<noteq> 0 then
           parse_eol_comment s (sf\<lparr>sf_comment_hash := sf_comment_hash sf + 1\<rparr>)
         else Some (sf_pos sf + 1, assign_char TYPE_OPERATOR (sf_pos sf) (CHR ''#'') sf))"

text \<open>The conditions of \<open>parse_dash\<close> from left to right; \<open>cs[pos + 1]\<close> and \<open>cs[pos + 2]\<close> are read only behind their
  bounds.\<close>

definition dash_at :: "bytes \<Rightarrow> nat \<Rightarrow> bool option" where
  "dash_at s i = do { c \<leftarrow> read_at s i; Some (c = CHR ''-'') }"

definition parse_dash :: "bytes \<Rightarrow> sqli_state \<Rightarrow> (nat \<times> sqli_state) option" where
  "parse_dash s sf =
     (let pos = sf_pos sf
      in do { white \<leftarrow> (if pos + 2 < length s then
                 do { d \<leftarrow> dash_at s (pos + 1); w \<leftarrow> read_at s (pos + 2); Some (d \<and> char_is_white w) }
               else Some False);
              if white then parse_eol_comment s sf
              else
         do { at_end \<leftarrow> (if pos + 2 = length s then dash_at s (pos + 1) else Some False);
              if at_end then parse_eol_comment s sf
              else
         do { d \<leftarrow> (if pos + 1 < length s then dash_at s (pos + 1) else Some False);
              if d \<and> sf_flags sf AND FLAG_SQL_ANSI \<noteq> 0 then
                parse_eol_comment s (sf\<lparr>sf_comment_ddx := sf_comment_ddx sf + 1\<rparr>)
              else Some (pos + 1, assign_char TYPE_OPERATOR pos (CHR ''-'') sf) } } })"

definition is_mysql_comment :: "bytes \<Rightarrow> nat \<Rightarrow> bool option" where
  "is_mysql_comment s pos =
     (if pos + 2 \<ge> length s then Some False else do { c \<leftarrow> read_at s (pos + 2); Some (c = CHR ''!'') })"

definition parse_slash :: "bytes \<Rightarrow> sqli_state \<Rightarrow> (nat \<times> sqli_state) option" where
  "parse_slash s sf =
     (let pos = sf_pos sf; pos1 = pos + 1
      in if pos1 = length s then parse_operator1 s sf
         else
           do { c \<leftarrow> read_at s pos1;
                if c \<noteq> CHR ''*'' then parse_operator1 s sf
                else
           do { n \<leftarrow> size_minus (length s) (pos + 2);
                ptr \<leftarrow> memchr2 s (pos + 2) n (CHR ''*'') (CHR ''/'');
                let clen = (case ptr of None \<Rightarrow> length s - pos | Some p \<Rightarrow> p + 2 - pos);
                nested \<leftarrow> (case ptr of
                   None \<Rightarrow> Some False
                 | Some p \<Rightarrow>
                     do { n \<leftarrow> size_minus p (pos + 1);
                          q \<leftarrow> memchr2 s (pos + 2) n (CHR ''/'') (CHR ''*'');
                          Some (q \<noteq> None) });
                evil \<leftarrow> (if nested then Some True else is_mysql_comment s pos);
                sf \<leftarrow> assign (if evil then TYPE_EVIL else TYPE_COMMENT) pos clen s sf;
                Some (pos + clen, sf) } })"

definition parse_backslash :: "bytes \<Rightarrow> sqli_state \<Rightarrow> (nat \<times> sqli_state) option" where
  "parse_backslash s sf =
     (let pos = sf_pos sf
      in do { n \<leftarrow> (if pos + 1 < length s then do { c \<leftarrow> read_at s (pos + 1); Some (c = CHR ''N'') } else Some False);
              if n then do { sf \<leftarrow> assign TYPE_NUMBER pos 2 s sf; Some (pos + 2, sf) }
              else do { c \<leftarrow> read_at s pos; Some (pos + 1, assign_char TYPE_BACKSLASH pos c sf) } })"

definition parse_operator2 :: "lookup \<Rightarrow> bytes \<Rightarrow> sqli_state \<Rightarrow> (nat \<times> sqli_state) option" where
  "parse_operator2 lookup s sf =
     (let pos = sf_pos sf
      in if pos + 1 \<ge> length s then parse_operator1 s sf
         else
           do { three \<leftarrow> (if pos + 2 < length s then
                   do { b \<leftarrow> read_bytes s pos 3; Some (b = ''<=>'') } else Some False);
                if three then do { sf \<leftarrow> assign TYPE_OPERATOR pos 3 s sf; Some (pos + 3, sf) }
                else
           do { two \<leftarrow> read_bytes s pos 2;
                let ch = lookup two;
                if ch \<noteq> NUL then do { sf \<leftarrow> assign ch pos 2 s sf; Some (pos + 2, sf) }
                else
           do { c \<leftarrow> read_at s pos;
                if c = CHR '':'' then do { sf \<leftarrow> assign TYPE_COLON pos 1 s sf; Some (pos + 1, sf) }
                else parse_operator1 s sf } } })"

section \<open>Strings\<close>

text \<open>Whether the number of backslashes in front of \<open>q\<close>, back to \<open>start\<close>, is odd.\<close>

definition is_backslash_escaped :: "bytes \<Rightarrow> nat \<Rightarrow> nat \<Rightarrow> bool" where
  "is_backslash_escaped s start q =
     odd (length (takeWhile (\<lambda>c. c = TYPE_BACKSLASH) (rev (drop start (take q s)))))"

definition is_double_delim_escaped :: "bytes \<Rightarrow> nat \<Rightarrow> bool option" where
  "is_double_delim_escaped s q =
     (if q + 1 < length s then do { a \<leftarrow> read_at s (q + 1); b \<leftarrow> read_at s q; Some (a = b) } else Some False)"

text \<open>The loop of \<open>parse_string_core\<close>, with \<open>qpos\<close>: where the closing delimiter is, if there is one.\<close>

function string_end :: "bytes \<Rightarrow> nat \<Rightarrow> char \<Rightarrow> nat option \<Rightarrow> nat option option" where
  "string_end s start delim None = Some None"
| "string_end s start delim (Some q) =
     (if is_backslash_escaped s start q then
        case memchr s (q + 1) delim of None \<Rightarrow> None | Some qpos \<Rightarrow> string_end s start delim qpos
      else
        case is_double_delim_escaped s q of
          None \<Rightarrow> None
        | Some double \<Rightarrow>
            if double then
              case memchr s (q + 2) delim of None \<Rightarrow> None | Some qpos \<Rightarrow> string_end s start delim qpos
            else Some (Some q))"
  by pat_completeness auto
termination
  by (relation "measure (\<lambda>(s, start, delim, qpos). case qpos of None \<Rightarrow> 0 | Some q \<Rightarrow> Suc (length s) - q)")
    (auto dest!: memchr_bound split: option.splits)

declare string_end.simps(2) [simp del]

definition parse_string_core :: "bytes \<Rightarrow> nat \<Rightarrow> char \<Rightarrow> nat \<Rightarrow> sqli_state \<Rightarrow> (nat \<times> sqli_state) option" where
  "parse_string_core s pos delim offset sf =
     do { qpos \<leftarrow> memchr s (pos + offset) delim;
          let sf = upd_cur (\<lambda>t. t\<lparr>st_str_open := if offset > 0 then delim else NUL\<rparr>) sf;
          closing \<leftarrow> string_end s (pos + offset) delim qpos;
          case closing of
            None \<Rightarrow>
              do { n \<leftarrow> size_minus (length s) (pos + offset);
                   sf \<leftarrow> assign TYPE_STRING (pos + offset) n s sf;
                   Some (length s, upd_cur (\<lambda>t. t\<lparr>st_str_close := NUL\<rparr>) sf) }
          | Some q \<Rightarrow>
              do { n \<leftarrow> size_minus q (pos + offset);
                   sf \<leftarrow> assign TYPE_STRING (pos + offset) n s sf;
                   Some (q + 1, upd_cur (\<lambda>t. t\<lparr>st_str_close := delim\<rparr>) sf) } }"

definition parse_string :: "bytes \<Rightarrow> sqli_state \<Rightarrow> (nat \<times> sqli_state) option" where
  "parse_string s sf =
     do { delim \<leftarrow> read_at s (sf_pos sf); parse_string_core s (sf_pos sf) delim 1 sf }"

section \<open>Words\<close>

definition word_stops :: bytes where
  "word_stops =
     '' []{}<>:'' @ [TYPE_BACKSLASH] @ ''?=@!#~+-*/&|^%(),'' @ [CHAR_SINGLE] @ '';''
     @ [HT, LF, CHR 0x0B, CHR 0x0C, CR, CHAR_DOUBLE, CHR 0xA0]"

text \<open>The loop of \<open>parse_word\<close> from \<open>i\<close> on: where the word is cut, and the type of what is in front.\<close>

function word_cut :: "lookup \<Rightarrow> bytes \<Rightarrow> nat \<Rightarrow> (nat \<times> char) option" where
  "word_cut lookup val i =
     (if i < length val then
        let ch = lookup (take i val)
        in if (val ! i = CHR ''.'' \<or> val ! i = CHAR_TICK) \<and> ch \<noteq> NUL \<and> ch \<noteq> TYPE_BAREWORD then Some (i, ch)
           else word_cut lookup val (i + 1)
      else None)"
  by pat_completeness auto
termination by (relation "measure (\<lambda>(lookup, val, i). length val - i)") auto

declare word_cut.simps [simp del]

definition parse_word :: "lookup \<Rightarrow> bytes \<Rightarrow> sqli_state \<Rightarrow> (nat \<times> sqli_state) option" where
  "parse_word lookup s sf =
     (let pos = sf_pos sf
      in do { n \<leftarrow> size_minus (length s) pos;
              wlen \<leftarrow> strlencspn s pos n word_stops;
              sf \<leftarrow> assign TYPE_BAREWORD pos wlen s sf;
              case word_cut lookup (st_val (cur sf)) 0 of
                Some (i, ch) \<Rightarrow>
                  do { sf \<leftarrow> assign ch pos i s (set_cur st_clear sf); Some (pos + i, sf) }
              | None \<Rightarrow>
                  if wlen < TOKEN_SIZE then
                    let ch = lookup (st_val (cur sf));
                        ch = (if ch = NUL then TYPE_BAREWORD else ch)
                    in Some (pos + wlen, upd_cur (\<lambda>t. t\<lparr>st_type := ch\<rparr>) sf)
                  else Some (pos + wlen, sf) })"

definition parse_estring :: "lookup \<Rightarrow> bytes \<Rightarrow> sqli_state \<Rightarrow> (nat \<times> sqli_state) option" where
  "parse_estring lookup s sf =
     (let pos = sf_pos sf
      in if pos + 2 \<ge> length s then parse_word lookup s sf
         else
           do { c \<leftarrow> read_at s (pos + 1);
                if c \<noteq> CHAR_SINGLE then parse_word lookup s sf
                else parse_string_core s pos CHAR_SINGLE 2 sf })"

definition parse_ustring :: "lookup \<Rightarrow> bytes \<Rightarrow> sqli_state \<Rightarrow> (nat \<times> sqli_state) option" where
  "parse_ustring lookup s sf =
     (let pos = sf_pos sf
      in do { quoted \<leftarrow> (if pos + 2 < length s then
                 do { b \<leftarrow> read_bytes s (pos + 1) 2; Some (b = [CHR ''&'', CHAR_SINGLE]) } else Some False);
              if quoted then
                do { (p, sf) \<leftarrow> parse_string s (sf\<lparr>sf_pos := pos + 2\<rparr>);
                     Some (p, upd_cur (\<lambda>t. t\<lparr>st_str_open := CHR ''u'',
                       st_str_close := if st_str_close t = CHAR_SINGLE then CHR ''u'' else st_str_close t\<rparr>) sf) }
              else parse_word lookup s sf })"

definition closing_of :: "char \<Rightarrow> char" where
  "closing_of ch =
     (if ch = CHR ''('' then CHR '')'' else if ch = CHR ''['' then CHR '']''
      else if ch = CHR ''{'' then CHR ''}'' else if ch = CHR ''<'' then CHR ''>'' else ch)"

text \<open>A string token from \<open>start\<close> that ends at \<open>strend\<close>, with a closing delimiter of \<open>n\<close> bytes, or at the end of
  the input.\<close>

definition quoted_token ::
  "char \<Rightarrow> nat \<Rightarrow> nat option \<Rightarrow> nat \<Rightarrow> bytes \<Rightarrow> sqli_state \<Rightarrow> (nat \<times> sqli_state) option" where
  "quoted_token q start strend n s sf =
     (case strend of
        None \<Rightarrow>
          do { len \<leftarrow> size_minus (length s) start;
               sf \<leftarrow> assign TYPE_STRING start len s sf;
               Some (length s, upd_cur (\<lambda>t. t\<lparr>st_str_open := q, st_str_close := NUL\<rparr>) sf) }
      | Some e \<Rightarrow>
          do { len \<leftarrow> size_minus e start;
               sf \<leftarrow> assign TYPE_STRING start len s sf;
               Some (e + n, upd_cur (\<lambda>t. t\<lparr>st_str_open := q, st_str_close := q\<rparr>) sf) })"

definition parse_qstring_core :: "lookup \<Rightarrow> nat \<Rightarrow> bytes \<Rightarrow> sqli_state \<Rightarrow> (nat \<times> sqli_state) option" where
  "parse_qstring_core lookup offset s sf =
     (let pos = sf_pos sf + offset
      in if pos \<ge> length s then parse_word lookup s sf
         else
           do { q \<leftarrow> read_at s pos;
                if (q \<noteq> CHR ''q'' \<and> q \<noteq> CHR ''Q'') \<or> pos + 2 \<ge> length s then parse_word lookup s sf
                else
           do { c \<leftarrow> read_at s (pos + 1);
                if c \<noteq> CHAR_SINGLE then parse_word lookup s sf
                else
           do { ch \<leftarrow> read_at s (pos + 2);
                if signed_char ch < 33 then parse_word lookup s sf
                else
                  do { n \<leftarrow> size_minus (length s) (pos + 3);
                       strend \<leftarrow> memchr2 s (pos + 3) n (closing_of ch) CHAR_SINGLE;
                       quoted_token (CHR ''q'') (pos + 3) strend 2 s sf } } } })"

definition parse_qstring :: "lookup \<Rightarrow> bytes \<Rightarrow> sqli_state \<Rightarrow> (nat \<times> sqli_state) option" where
  "parse_qstring lookup s sf = parse_qstring_core lookup 0 s sf"

definition parse_nqstring :: "lookup \<Rightarrow> bytes \<Rightarrow> sqli_state \<Rightarrow> (nat \<times> sqli_state) option" where
  "parse_nqstring lookup s sf =
     (let pos = sf_pos sf
      in do { quoted \<leftarrow> (if pos + 2 < length s then
                 do { c \<leftarrow> read_at s (pos + 1); Some (c = CHAR_SINGLE) } else Some False);
              if quoted then parse_estring lookup s sf else parse_qstring_core lookup 1 s sf })"

text \<open>\<open>parse_bstring\<close> and \<open>parse_xstring\<close> differ in the digits.\<close>

definition digits_token ::
  "bytes \<Rightarrow> lookup \<Rightarrow> bytes \<Rightarrow> sqli_state \<Rightarrow> (nat \<times> sqli_state) option" where
  "digits_token digits lookup s sf =
     (let pos = sf_pos sf
      in if pos + 2 \<ge> length s then parse_word lookup s sf
         else
           do { c \<leftarrow> read_at s (pos + 1);
                if c \<noteq> CHAR_SINGLE then parse_word lookup s sf
                else
           do { n \<leftarrow> size_minus (length s) (pos + 2);
                wlen \<leftarrow> strlenspn s (pos + 2) n digits;
                if pos + 2 + wlen \<ge> length s then parse_word lookup s sf
                else
           do { e \<leftarrow> read_at s (pos + 2 + wlen);
                if e \<noteq> CHAR_SINGLE then parse_word lookup s sf
                else
           do { sf \<leftarrow> assign TYPE_NUMBER pos (wlen + 3) s sf;
                Some (pos + 2 + wlen + 1, sf) } } } })"

definition hex_digit_chars :: bytes where "hex_digit_chars = ''0123456789ABCDEFabcdef''"

definition parse_bstring :: "lookup \<Rightarrow> bytes \<Rightarrow> sqli_state \<Rightarrow> (nat \<times> sqli_state) option" where
  "parse_bstring = digits_token ''01''"

definition parse_xstring :: "lookup \<Rightarrow> bytes \<Rightarrow> sqli_state \<Rightarrow> (nat \<times> sqli_state) option" where
  "parse_xstring = digits_token hex_digit_chars"

definition parse_bword :: "bytes \<Rightarrow> sqli_state \<Rightarrow> (nat \<times> sqli_state) option" where
  "parse_bword s sf =
     (let pos = sf_pos sf
      in do { endptr \<leftarrow> memchr s pos (CHR '']'');
              case endptr of
                None \<Rightarrow>
                  do { n \<leftarrow> size_minus (length s) pos;
                       sf \<leftarrow> assign TYPE_BAREWORD pos n s sf;
                       Some (length s, sf) }
              | Some e \<Rightarrow>
                  do { n \<leftarrow> size_minus e pos;
                       sf \<leftarrow> assign TYPE_BAREWORD pos (n + 1) s sf;
                       Some (e + 1, sf) } })"

definition parse_tick :: "lookup \<Rightarrow> bytes \<Rightarrow> sqli_state \<Rightarrow> (nat \<times> sqli_state) option" where
  "parse_tick lookup s sf =
     do { (pos, sf) \<leftarrow> parse_string_core s (sf_pos sf) CHAR_TICK 1 sf;
          let ty = (if lookup (st_val (cur sf)) = TYPE_FUNCTION then TYPE_FUNCTION else TYPE_BAREWORD);
          Some (pos, upd_cur (\<lambda>t. t\<lparr>st_type := ty\<rparr>) sf) }"

section \<open>Variables, money, numbers\<close>

definition var_stops :: bytes where
  "var_stops =
     '' <>:'' @ [TYPE_BACKSLASH] @ ''?=@!#~+-*/&|^%(),'' @ [CHAR_SINGLE] @ '';''
     @ [HT, LF, CHR 0x0B, CHR 0x0C, CR, CHAR_SINGLE, CHAR_TICK, CHAR_DOUBLE]"

text \<open>Behind the name's \<open>@\<close>: a quoted name or a word.\<close>

definition var_name :: "lookup \<Rightarrow> bytes \<Rightarrow> nat \<Rightarrow> sqli_state \<Rightarrow> (nat \<times> sqli_state) option" where
  "var_name lookup s pos sf =
     do { quote \<leftarrow> (if pos < length s then map_option Some (read_at s pos) else Some None);
          if quote = Some CHAR_TICK then
            do { (pos, sf) \<leftarrow> parse_tick lookup s (sf\<lparr>sf_pos := pos\<rparr>);
                 Some (pos, upd_cur (\<lambda>t. t\<lparr>st_type := TYPE_VARIABLE\<rparr>) sf) }
          else if quote = Some CHAR_SINGLE \<or> quote = Some CHAR_DOUBLE then
            do { (pos, sf) \<leftarrow> parse_string s (sf\<lparr>sf_pos := pos\<rparr>);
                 Some (pos, upd_cur (\<lambda>t. t\<lparr>st_type := TYPE_VARIABLE\<rparr>) sf) }
          else
            do { n \<leftarrow> size_minus (length s) pos;
                 xlen \<leftarrow> strlencspn s pos n var_stops;
                 sf \<leftarrow> assign TYPE_VARIABLE pos xlen s sf;
                 Some (pos + xlen, sf) } }"

definition parse_var :: "lookup \<Rightarrow> bytes \<Rightarrow> sqli_state \<Rightarrow> (nat \<times> sqli_state) option" where
  "parse_var lookup s sf =
     (let pos = sf_pos sf + 1
      in do { two \<leftarrow> (if pos < length s then do { c \<leftarrow> read_at s pos; Some (c = CHR ''@'') } else Some False);
              if two then var_name lookup s (pos + 1) (upd_cur (\<lambda>t. t\<lparr>st_count := 2\<rparr>) sf)
              else var_name lookup s pos (upd_cur (\<lambda>t. t\<lparr>st_count := 1\<rparr>) sf) })"

definition money_letters :: bytes where
  "money_letters = ''abcdefghjiklmnopqrstuvwxyzABCDEFGHIJKLMNOPQRSTUVWXYZ''"

text \<open>What follows a dollar that is not a price: \<open>$$\<close> and \<open>$name$\<close> open strings.\<close>

definition money_string :: "bytes \<Rightarrow> sqli_state \<Rightarrow> (nat \<times> sqli_state) option" where
  "money_string s sf =
     (let pos = sf_pos sf; dollar = Some (pos + 1, assign_char TYPE_BAREWORD pos (CHR ''$'') sf)
      in do { c \<leftarrow> read_at s (pos + 1);
              if c = CHR ''$'' then
                do { n \<leftarrow> size_minus (length s) (pos + 2);
                     strend \<leftarrow> memchr2 s (pos + 2) n (CHR ''$'') (CHR ''$'');
                     quoted_token (CHR ''$'') (pos + 2) strend 2 s sf }
              else
                do { n \<leftarrow> size_minus (length s) (pos + 1);
                     xlen \<leftarrow> strlenspn s (pos + 1) n money_letters;
                     if xlen = 0 \<or> pos + xlen + 1 = length s then dollar
                     else
                       do { d \<leftarrow> read_at s (pos + xlen + 1);
                            if d \<noteq> CHR ''$'' then dollar
                            else
                              do { n \<leftarrow> size_minus (length s) (pos + xlen + 2);
                                   needle \<leftarrow> read_bytes s pos (xlen + 2);
                                   strend \<leftarrow> my_memmem s (pos + xlen + 2) n needle;
                                   quoted_token (CHR ''$'') (pos + xlen + 2) strend (xlen + 2) s sf } } } })"

definition parse_money :: "lookup \<Rightarrow> bytes \<Rightarrow> sqli_state \<Rightarrow> (nat \<times> sqli_state) option" where
  "parse_money lookup s sf =
     (let pos = sf_pos sf
      in if pos + 1 = length s then Some (length s, assign_char TYPE_BAREWORD pos (CHR ''$'') sf)
         else
           do { n \<leftarrow> size_minus (length s) (pos + 1);
                xlen \<leftarrow> strlenspn s (pos + 1) n ''0123456789.,'';
                if xlen = 0 then money_string s sf
                else
                  do { c \<leftarrow> read_at s (pos + 1);
                       if xlen = 1 \<and> c = CHR ''.'' then parse_word lookup s sf
                       else do { sf \<leftarrow> assign TYPE_NUMBER pos (1 + xlen) s sf; Some (pos + 1 + xlen, sf) } } })"

text \<open>\<open>while (pos < slen && ISDIGIT(cs[pos])) pos += 1;\<close>\<close>

definition digits_end :: "bytes \<Rightarrow> nat \<Rightarrow> nat" where
  "digits_end s pos = pos + length (takeWhile is_digit (drop pos s))"

text \<open>Whether \<open>pos\<close> is inside and holds one of the bytes.\<close>

definition one_of :: "bytes \<Rightarrow> nat \<Rightarrow> bytes \<Rightarrow> bool" where
  "one_of s pos cs \<longleftrightarrow> pos < length s \<and> s ! pos \<in> set cs"

text \<open>The exponent: the position behind it, \<open>have_e\<close> and \<open>have_exp\<close>.\<close>

definition exponent :: "bytes \<Rightarrow> nat \<Rightarrow> nat \<times> bool \<times> bool" where
  "exponent s pos =
     (if one_of s pos ''Ee'' then
        let p = pos + 1;
            p = (if one_of s p ''+-'' then p + 1 else p);
            q = digits_end s p
        in (q, True, p < q)
      else (pos, False, False))"

text \<open>Oracle's suffix.\<close>

definition float_suffix :: "bytes \<Rightarrow> nat \<Rightarrow> nat" where
  "float_suffix s pos =
     (if one_of s pos ''dDfF'' then
        if pos + 1 = length s then pos + 1
        else if char_is_white (s ! (pos + 1)) \<or> s ! (pos + 1) = CHR '';'' then pos + 1
        else if s ! (pos + 1) = CHR ''u'' \<or> s ! (pos + 1) = CHR ''U'' then pos + 1
        else pos
      else pos)"

definition radix_digits :: "bytes \<Rightarrow> nat \<Rightarrow> bytes option" where
  "radix_digits s pos =
     (if one_of s pos ''0'' \<and> one_of s (pos + 1) ''Xx'' then Some hex_digit_chars
      else if one_of s pos ''0'' \<and> one_of s (pos + 1) ''Bb'' then Some ''01''
      else None)"

text \<open>The digits with the point: whether there is one, and the position behind.\<close>

definition mantissa :: "bytes \<Rightarrow> nat \<Rightarrow> bool \<times> nat" where
  "mantissa s start =
     (let pos = digits_end s start
      in if one_of s pos ''.'' then (True, digits_end s (pos + 1)) else (False, pos))"

definition parse_decimal :: "bytes \<Rightarrow> sqli_state \<Rightarrow> (nat \<times> sqli_state) option" where
  "parse_decimal s sf =
     (let start = sf_pos sf
      in case mantissa s start of
           (dot, pos) \<Rightarrow>
             if dot \<and> pos - start = 1 then Some (pos, assign_char TYPE_DOT start (CHR ''.'') sf)
             else
               case exponent s pos of
                 (pos, have_e, have_exp) \<Rightarrow>
                   let pos = float_suffix s pos
                   in if \<not> (have_e \<and> \<not> have_exp) then
                        do { n \<leftarrow> size_minus pos start; sf \<leftarrow> assign TYPE_NUMBER start n s sf; Some (pos, sf) }
                      else Some (pos, sf))"

definition parse_number :: "bytes \<Rightarrow> sqli_state \<Rightarrow> (nat \<times> sqli_state) option" where
  "parse_number s sf =
     (let pos = sf_pos sf
      in case radix_digits s pos of
           Some digits \<Rightarrow>
             do { n \<leftarrow> size_minus (length s) (pos + 2);
                  xlen \<leftarrow> strlenspn s (pos + 2) n digits;
                  if xlen = 0 then do { sf \<leftarrow> assign TYPE_BAREWORD pos 2 s sf; Some (pos + 2, sf) }
                  else do { sf \<leftarrow> assign TYPE_NUMBER pos (2 + xlen) s sf; Some (pos + 2 + xlen, sf) } }
         | None \<Rightarrow> parse_decimal s sf)"

section \<open>The tokenizer\<close>

datatype parse_fn =
    Parse_white | Parse_operator1 | Parse_operator2 | Parse_other | Parse_char | Parse_hash | Parse_dash
  | Parse_slash | Parse_backslash | Parse_string | Parse_word | Parse_var | Parse_number | Parse_tick
  | Parse_ustring | Parse_qstring | Parse_nqstring | Parse_xstring | Parse_bstring | Parse_estring
  | Parse_bword | Parse_money

definition sqli_parser :: "parse_fn \<Rightarrow> lookup \<Rightarrow> bytes \<Rightarrow> sqli_state \<Rightarrow> (nat \<times> sqli_state) option" where
  "sqli_parser f lookup s sf =
     (case f of
        Parse_white \<Rightarrow> parse_white s sf | Parse_operator1 \<Rightarrow> parse_operator1 s sf
      | Parse_operator2 \<Rightarrow> parse_operator2 lookup s sf | Parse_other \<Rightarrow> parse_other s sf
      | Parse_char \<Rightarrow> parse_char s sf | Parse_hash \<Rightarrow> parse_hash s sf | Parse_dash \<Rightarrow> parse_dash s sf
      | Parse_slash \<Rightarrow> parse_slash s sf | Parse_backslash \<Rightarrow> parse_backslash s sf
      | Parse_string \<Rightarrow> parse_string s sf | Parse_word \<Rightarrow> parse_word lookup s sf
      | Parse_var \<Rightarrow> parse_var lookup s sf | Parse_number \<Rightarrow> parse_number s sf
      | Parse_tick \<Rightarrow> parse_tick lookup s sf | Parse_ustring \<Rightarrow> parse_ustring lookup s sf
      | Parse_qstring \<Rightarrow> parse_qstring lookup s sf | Parse_nqstring \<Rightarrow> parse_nqstring lookup s sf
      | Parse_xstring \<Rightarrow> parse_xstring lookup s sf | Parse_bstring \<Rightarrow> parse_bstring lookup s sf
      | Parse_estring \<Rightarrow> parse_estring lookup s sf | Parse_bword \<Rightarrow> parse_bword s sf
      | Parse_money \<Rightarrow> parse_money lookup s sf)"

text \<open>The table, with table_runs of an equal function written as \<open>replicate\<close>.\<close>

definition char_parse_map :: "parse_fn list" where
  "char_parse_map =
     replicate 33 Parse_white @ [Parse_operator2, Parse_string, Parse_hash, Parse_money, Parse_operator1,
     Parse_operator2, Parse_string, Parse_char, Parse_char, Parse_operator2, Parse_operator1, Parse_char,
     Parse_dash, Parse_number, Parse_slash] @ replicate 10 Parse_number @ [Parse_operator2, Parse_char,
     Parse_operator2, Parse_operator2, Parse_operator2, Parse_other, Parse_var, Parse_word,
     Parse_bstring, Parse_word, Parse_word, Parse_estring] @ replicate 8 Parse_word @ [Parse_nqstring,
     Parse_word, Parse_word, Parse_qstring, Parse_word, Parse_word, Parse_word, Parse_ustring,
     Parse_word, Parse_word, Parse_xstring, Parse_word, Parse_word, Parse_bword, Parse_backslash,
     Parse_other, Parse_operator1, Parse_word, Parse_tick, Parse_word, Parse_bstring, Parse_word,
     Parse_word, Parse_estring] @ replicate 8 Parse_word @ [Parse_nqstring, Parse_word, Parse_word,
     Parse_qstring, Parse_word, Parse_word, Parse_word, Parse_ustring, Parse_word, Parse_word,
     Parse_xstring, Parse_word, Parse_word, Parse_char, Parse_operator2, Parse_char, Parse_operator1,
     Parse_white] @ replicate 32 Parse_word @ [Parse_white] @ replicate 95 Parse_word"

definition flag2delim :: "nat \<Rightarrow> char" where
  "flag2delim flag =
     (if flag AND FLAG_QUOTE_SINGLE \<noteq> 0 then CHAR_SINGLE
      else if flag AND FLAG_QUOTE_DOUBLE \<noteq> 0 then CHAR_DOUBLE else NUL)"

text \<open>The loop table_runs until a parser has set the type of the current token or the input ends.\<close>

partial_function (option) tokenize_loop :: "lookup \<Rightarrow> bytes \<Rightarrow> sqli_state \<Rightarrow> (bool \<times> sqli_state) option" where
  "tokenize_loop lookup s sf =
     (if sf_pos sf < length s then
        do { (pos, sf) \<leftarrow> sqli_parser (char_parse_map ! ord (s ! sf_pos sf)) lookup s sf;
             let sf = sf\<lparr>sf_pos := pos\<rparr>;
             if st_type (cur sf) \<noteq> NUL then Some (True, sf\<lparr>sf_tokens := sf_tokens sf + 1\<rparr>)
             else tokenize_loop lookup s sf }
      else Some (False, sf))"

definition libinjection_sqli_tokenize :: "lookup \<Rightarrow> bytes \<Rightarrow> sqli_state \<Rightarrow> (bool \<times> sqli_state) option" where
  "libinjection_sqli_tokenize lookup s sf =
     (if s = [] then Some (False, sf)
      else
        let sf = set_cur st_clear sf
        in if sf_pos sf = 0 \<and> sf_flags sf AND (FLAG_QUOTE_SINGLE OR FLAG_QUOTE_DOUBLE) \<noteq> 0 then
             do { (pos, sf) \<leftarrow> parse_string_core s 0 (flag2delim (sf_flags sf)) 0 sf;
                  Some (True, sf\<lparr>sf_pos := pos, sf_tokens := sf_tokens sf + 1\<rparr>) }
           else tokenize_loop lookup s sf)"

end
