(* ===== verification/SqliFold.thy ===== *)
theory SqliFold
  imports SqliTokens
begin

text \<open>
  The folding of tokens, \<open>libinjection_sqli_fold\<close>: up to five tokens are kept, and sequences of tokens that mean
  nothing for the decision are replaced by shorter ones.  The loop is cut at its comments into the rules for five,
  two and three tokens; each of them ends with \<open>continue\<close>, with \<open>return\<close>, or goes on.

  Every index into \<open>tokenvec\<close> is checked, and so is every subtraction of \<open>size_t\<close> and every \<open>assert\<close>.
\<close>

definition MAX_TOKENS :: nat where "MAX_TOKENS = 5"

definition tok :: "sqli_state \<Rightarrow> nat \<Rightarrow> stoken option" where
  "tok sf i = (if i < length (sf_tokenvec sf) then Some (sf_tokenvec sf ! i) else None)"

definition set_tok :: "nat \<Rightarrow> stoken \<Rightarrow> sqli_state \<Rightarrow> sqli_state" where
  "set_tok i t sf = sf\<lparr>sf_tokenvec := (sf_tokenvec sf)[i := t]\<rparr>"

abbreviation set_type :: "nat \<Rightarrow> char \<Rightarrow> stoken \<Rightarrow> sqli_state \<Rightarrow> sqli_state" where
  "set_type i ty t sf \<equiv> set_tok i (t\<lparr>st_type := ty\<rparr>) sf"

definition folded :: "nat \<Rightarrow> sqli_state \<Rightarrow> sqli_state" where
  "folded n sf = sf\<lparr>sf_folds := sf_folds sf + n\<rparr>"

section \<open>Questions about a token\<close>

text \<open>\<open>val[0]\<close> and \<open>val[1]\<close>; the second is read only when the first is not the zero byte.\<close>

definition val0 :: "stoken \<Rightarrow> char" where
  "val0 t = (case st_val t of [] \<Rightarrow> NUL | c # _ \<Rightarrow> c)"

definition val1 :: "stoken \<Rightarrow> char" where
  "val1 t = (case st_val t of _ # c # _ \<Rightarrow> c | _ \<Rightarrow> NUL)"

definition is_word :: "bytes \<Rightarrow> stoken \<Rightarrow> bool" where
  "is_word w t \<longleftrightarrow> cstrcasecmp w (take (st_len t) (st_val t)) = 0"

definition cstring :: "bytes \<Rightarrow> bytes" where
  "cstring val = takeWhile (\<lambda>c. c \<noteq> NUL) val"

definition st_is_arithmetic_op :: "stoken \<Rightarrow> bool" where
  "st_is_arithmetic_op st \<longleftrightarrow> st_type st = TYPE_OPERATOR \<and> st_len st = 1 \<and> val0 st \<in> set ''*/-+%''"

definition st_is_unary_op :: "stoken \<Rightarrow> bool" where
  "st_is_unary_op st \<longleftrightarrow>
     st_type st = TYPE_OPERATOR
     \<and> (if st_len st = 1 then val0 st \<in> set ''+-!~''
        else if st_len st = 2 then take 2 (st_val st) = ''!!''
        else if st_len st = 3 then cstrcasecmp ''NOT'' (take 3 (st_val st)) = 0
        else False)"

definition type_in :: "stoken \<Rightarrow> bytes \<Rightarrow> bool" where
  "type_in t tys \<longleftrightarrow> st_type t \<in> set tys"

section \<open>Words that belong together\<close>

text \<open>The merged token that replaces \<open>a\<close>, if there is one.\<close>

definition syntax_merge_words :: "lookup \<Rightarrow> stoken \<Rightarrow> stoken \<Rightarrow> stoken option option" where
  "syntax_merge_words lookup a b =
     (if \<not> type_in a ''knoUfETt'' then Some None
      else if \<not> type_in b ''knoUfETt&'' then Some None
      else
        let sz3 = st_len a + st_len b + 1
        in if sz3 \<ge> TOKEN_SIZE then Some None
           else
             do { v \<leftarrow> read_bytes (st_val a) 0 (st_len a);
                  w \<leftarrow> read_bytes (st_val b) 0 (st_len b);
                  let tmp = v @ '' '' @ w;
                  let ch = lookup tmp;
                  if ch \<noteq> NUL then map_option Some (st_assign ch (st_pos a) sz3 tmp 0 a) else Some None })"

section \<open>The rules\<close>

datatype fold_act = Continue sqli_state nat nat | Through sqli_state nat nat | Return sqli_state nat

text \<open>Five tokens.\<close>

definition five_pattern :: "stoken list \<Rightarrow> bool" where
  "five_pattern ts \<longleftrightarrow>
     (let t = (\<lambda>i. st_type (ts ! i))
      in (t 0 = TYPE_NUMBER \<and> (t 1 = TYPE_OPERATOR \<or> t 1 = TYPE_COMMA) \<and> t 2 = TYPE_LEFTPARENS
            \<and> t 3 = TYPE_NUMBER \<and> t 4 = TYPE_RIGHTPARENS)
         \<or> (t 0 = TYPE_BAREWORD \<and> t 1 = TYPE_OPERATOR \<and> t 2 = TYPE_LEFTPARENS
            \<and> (t 3 = TYPE_BAREWORD \<or> t 3 = TYPE_NUMBER) \<and> t 4 = TYPE_RIGHTPARENS)
         \<or> (t 0 = TYPE_NUMBER \<and> t 1 = TYPE_RIGHTPARENS \<and> t 2 = TYPE_COMMA \<and> t 3 = TYPE_LEFTPARENS
            \<and> t 4 = TYPE_NUMBER)
         \<or> (t 0 = TYPE_BAREWORD \<and> t 1 = TYPE_RIGHTPARENS \<and> t 2 = TYPE_OPERATOR
            \<and> t 3 = TYPE_LEFTPARENS \<and> t 4 = TYPE_BAREWORD))"

definition fold_five :: "sqli_state \<Rightarrow> nat \<Rightarrow> nat \<Rightarrow> (sqli_state \<times> nat \<times> nat) option" where
  "fold_five sf pos left =
     (if pos < MAX_TOKENS then Some (sf, pos, left)
      else if length (sf_tokenvec sf) < MAX_TOKENS then None
      else if five_pattern (sf_tokenvec sf) then
        if pos > MAX_TOKENS then do { t \<leftarrow> tok sf MAX_TOKENS; Some (set_tok 1 t sf, 2, 0) }
        else Some (sf, 1, 0)
      else Some (sf, pos, left))"

definition function_words :: "bytes list" where
  "function_words =
     [''USER_ID'', ''USER_NAME'', ''DATABASE'', ''PASSWORD'', ''USER'', ''CURRENT_USER'', ''CURRENT_DATE'',
      ''CURRENT_TIME'', ''CURRENT_TIMESTAMP'', ''LOCALTIME'', ''LOCALTIMESTAMP'']"

text \<open>Two tokens.\<close>

definition fold_two :: "lookup \<Rightarrow> sqli_state \<Rightarrow> nat \<Rightarrow> nat \<Rightarrow> fold_act option" where
  "fold_two lookup sf pos left =
     do { a \<leftarrow> tok sf left;
          b \<leftarrow> tok sf (left + 1);
          pos1 \<leftarrow> size_minus pos 1;
          merged \<leftarrow> syntax_merge_words lookup a b;
          if st_type a = TYPE_STRING \<and> st_type b = TYPE_STRING then Some (Continue (folded 1 sf) pos1 left)
          else if st_type a = TYPE_SEMICOLON \<and> st_type b = TYPE_SEMICOLON then Some (Continue (folded 1 sf) pos1 left)
          else if type_in a ''o&'' \<and> (st_is_unary_op b \<or> st_type b = TYPE_SQLTYPE) then
            Some (Continue (folded 1 sf) pos1 0)
          else if st_type a = TYPE_LEFTPARENS \<and> st_is_unary_op b then
            Some (Continue (folded 1 sf) pos1 (left - 1))
          else if merged \<noteq> None then
            Some (Continue (folded 1 (set_tok left (the merged) sf)) pos1 (left - 1))
          else if st_type a = TYPE_SEMICOLON \<and> st_type b = TYPE_FUNCTION \<and> val0 b \<in> set ''Ii'' \<and> val1 b \<in> set ''Ff'' then
            Some (Continue (set_type (left + 1) TYPE_TSQL b sf) pos left)
          else if type_in a ''nv'' \<and> st_type b = TYPE_LEFTPARENS \<and> list_ex (\<lambda>w. is_word w a) function_words then
            Some (Continue (set_type left TYPE_FUNCTION a sf) pos left)
          else if st_type a = TYPE_KEYWORD \<and> (is_word ''IN'' a \<or> is_word ''NOT IN'' a) then
            Some (Continue
              (set_type left (if st_type b = TYPE_LEFTPARENS then TYPE_OPERATOR else TYPE_BAREWORD) a sf) pos left)
          else if st_type a = TYPE_OPERATOR \<and> (is_word ''LIKE'' a \<or> is_word ''NOT LIKE'' a) then
            Some (Through (if st_type b = TYPE_LEFTPARENS then set_type left TYPE_FUNCTION a sf else sf) pos left)
          else if st_type a = TYPE_SQLTYPE \<and> type_in b ''n1t(fvs'' then
            Some (Continue (folded 1 (set_tok left b sf)) pos1 0)
          else if st_type a = TYPE_COLLATE \<and> st_type b = TYPE_BAREWORD then
            (if CHR ''_'' \<in> set (cstring (st_val b)) then Some (Through (set_type (left + 1) TYPE_SQLTYPE b sf) pos 0)
             else Some (Through sf pos left))
          else if st_type a = TYPE_BACKSLASH then
            (if st_is_arithmetic_op b then Some (Continue (set_type left TYPE_NUMBER a sf) pos 0)
             else Some (Continue (folded 1 (set_tok left b sf)) pos1 0))
          else if st_type a = TYPE_LEFTPARENS \<and> st_type b = TYPE_LEFTPARENS then
            Some (Continue (folded 1 sf) pos1 0)
          else if st_type a = TYPE_RIGHTPARENS \<and> st_type b = TYPE_RIGHTPARENS then
            Some (Continue (folded 1 sf) pos1 0)
          else if st_type a = TYPE_LEFTBRACE \<and> st_type b = TYPE_BAREWORD then
            (if st_len b = 0 then Some (Return (set_type (left + 1) TYPE_EVIL b sf) (left + 2))
             else do { pos2 \<leftarrow> size_minus pos 2; Some (Continue (folded 2 sf) pos2 0) })
          else if st_type b = TYPE_RIGHTBRACE then Some (Continue (folded 1 sf) pos1 0)
          else Some (Through sf pos left) }"

text \<open>Three tokens.\<close>

definition fold_three :: "sqli_state \<Rightarrow> nat \<Rightarrow> nat \<Rightarrow> fold_act option" where
  "fold_three sf pos left =
     do { a \<leftarrow> tok sf left;
          b \<leftarrow> tok sf (left + 1);
          c \<leftarrow> tok sf (left + 2);
          pos1 \<leftarrow> size_minus pos 1;
          pos2 \<leftarrow> size_minus pos 2;
          if st_type a = TYPE_NUMBER \<and> st_type b = TYPE_OPERATOR \<and> st_type c = TYPE_NUMBER then
            Some (Continue sf pos2 0)
          else if st_type a = TYPE_OPERATOR \<and> st_type b \<noteq> TYPE_LEFTPARENS \<and> st_type c = TYPE_OPERATOR then
            Some (Continue sf pos2 0)
          else if st_type a = TYPE_LOGIC_OPERATOR \<and> st_type c = TYPE_LOGIC_OPERATOR then
            Some (Continue sf pos2 0)
          else if st_type a = TYPE_VARIABLE \<and> st_type b = TYPE_OPERATOR \<and> type_in c ''v1n'' then
            Some (Continue sf pos2 0)
          else if type_in a ''n1'' \<and> st_type b = TYPE_OPERATOR \<and> type_in c ''1n'' then
            Some (Continue sf pos2 0)
          else if type_in a ''n1vs'' \<and> st_type b = TYPE_OPERATOR \<and> cstring (st_val b) = ''::'' \<and> st_type c = TYPE_SQLTYPE then
            Some (Continue (folded 2 sf) pos2 0)
          else if type_in a ''n1sv'' \<and> st_type b = TYPE_COMMA \<and> type_in c ''1nsv'' then
            Some (Continue sf pos2 0)
          else if type_in a ''EB,'' \<and> st_is_unary_op b \<and> st_type c = TYPE_LEFTPARENS then
            Some (Continue (set_tok (left + 1) c sf) pos1 0)
          else if type_in a ''kEB'' \<and> st_is_unary_op b \<and> type_in c ''1nvsf'' then
            Some (Continue (set_tok (left + 1) c sf) pos1 0)
          else if st_type a = TYPE_COMMA \<and> st_is_unary_op b \<and> type_in c ''1nvs'' then
            do { pos3 \<leftarrow> size_minus pos 3; Some (Continue (set_tok (left + 1) c sf) pos3 0) }
          else if st_type a = TYPE_COMMA \<and> st_is_unary_op b \<and> st_type c = TYPE_FUNCTION then
            Some (Continue (set_tok (left + 1) c sf) pos1 0)
          else if st_type a = TYPE_BAREWORD \<and> st_type b = TYPE_DOT \<and> st_type c = TYPE_BAREWORD then
            (if pos \<ge> 3 then Some (Continue sf pos2 0) else None)
          else if st_type a = TYPE_EXPRESSION \<and> st_type b = TYPE_DOT \<and> st_type c = TYPE_BAREWORD then
            Some (Continue (set_tok (left + 1) c sf) pos1 0)
          else if st_type a = TYPE_FUNCTION \<and> st_type b = TYPE_LEFTPARENS \<and> st_type c \<noteq> TYPE_RIGHTPARENS \<and> is_word ''USER'' a then
            Some (Through (set_type left TYPE_BAREWORD a sf) pos (left + 1))
          else Some (Through sf pos (left + 1)) }"

section \<open>The loops\<close>

text \<open>The tokens that are skipped at the start.\<close>

partial_function (option) skip_initial :: "lookup \<Rightarrow> bytes \<Rightarrow> sqli_state \<Rightarrow> (bool \<times> sqli_state) option" where
  "skip_initial lookup s sf =
     do { (m, sf) \<leftarrow> libinjection_sqli_tokenize lookup s sf;
          if m \<and> (type_in (cur sf) ''c(t'' \<or> st_is_unary_op (cur sf)) then skip_initial lookup s sf
          else Some (m, sf) }"

text \<open>Tokens are read until there are \<open>n\<close> from \<open>left\<close> on; a comment is only remembered.\<close>

partial_function (option) get_tokens ::
  "lookup \<Rightarrow> bytes \<Rightarrow> nat \<Rightarrow> nat \<Rightarrow> bool \<Rightarrow> nat \<Rightarrow> stoken \<Rightarrow> sqli_state \<Rightarrow> (bool \<times> nat \<times> stoken \<times> sqli_state) option" where
  "get_tokens lookup s n left m pos last_comment sf =
     (if \<not> m \<or> pos > MAX_TOKENS then Some (m, pos, last_comment, sf)
      else
        do { d \<leftarrow> size_minus pos left;
             if \<not> d < n then Some (m, pos, last_comment, sf)
             else
        do { (m, sf) \<leftarrow> libinjection_sqli_tokenize lookup s (sf\<lparr>sf_current := pos\<rparr>);
             if \<not> m then Some (m, pos, last_comment, sf)
             else if st_type (cur sf) = TYPE_COMMENT then get_tokens lookup s n left m pos (cur sf) sf
             else get_tokens lookup s n left m (pos + 1) (last_comment\<lparr>st_type := NUL\<rparr>) sf } })"

text \<open>Behind the loop.\<close>

definition fold_end :: "sqli_state \<Rightarrow> nat \<Rightarrow> stoken \<Rightarrow> nat \<times> sqli_state" where
  "fold_end sf left last_comment =
     (let (left, sf) = (if left < MAX_TOKENS \<and> st_type last_comment = TYPE_COMMENT
                        then (left + 1, set_tok left last_comment sf) else (left, sf))
      in (if left > MAX_TOKENS then MAX_TOKENS else left, sf))"

partial_function (option) fold_loop ::
  "lookup \<Rightarrow> bytes \<Rightarrow> bool \<Rightarrow> nat \<Rightarrow> nat \<Rightarrow> stoken \<Rightarrow> sqli_state \<Rightarrow> (nat \<times> sqli_state) option" where
  "fold_loop lookup s m pos left lc sf =
     do { (sf, pos, left) \<leftarrow> fold_five sf pos left;
          if \<not> m \<or> left \<ge> MAX_TOKENS then Some (fold_end sf pos lc)
          else
     do { (m, pos, lc, sf) \<leftarrow> get_tokens lookup s 2 left m pos lc sf;
          d \<leftarrow> size_minus pos left;
          if d < 2 then fold_loop lookup s m pos pos lc sf
          else
     do { act \<leftarrow> fold_two lookup sf pos left;
          case act of
            Continue sf pos left \<Rightarrow> fold_loop lookup s m pos left lc sf
          | Return sf n \<Rightarrow> Some (n, sf)
          | Through sf pos left \<Rightarrow>
     do { (m, pos, lc, sf) \<leftarrow> get_tokens lookup s 3 left m pos lc sf;
          d \<leftarrow> size_minus pos left;
          if d < 3 then fold_loop lookup s m pos pos lc sf
          else
     do { act \<leftarrow> fold_three sf pos left;
          case act of
            Continue sf pos left \<Rightarrow> fold_loop lookup s m pos left lc sf
          | Return sf n \<Rightarrow> Some (n, sf)
          | Through sf pos left \<Rightarrow> fold_loop lookup s m pos left lc sf } } } } }"

definition libinjection_sqli_fold :: "lookup \<Rightarrow> bytes \<Rightarrow> sqli_state \<Rightarrow> (nat \<times> sqli_state) option" where
  "libinjection_sqli_fold lookup s sf =
     do { (m, sf) \<leftarrow> skip_initial lookup s (sf\<lparr>sf_current := 0\<rparr>);
          if \<not> m then Some (0, sf) else fold_loop lookup s m 1 0 st_clear sf }"

end
