(* ===== verification/SqliCheck.thy ===== *)
theory SqliCheck
  imports SqliFold
begin

text \<open>
  The decision of the SQL injection check: the fingerprint of an input in a context, the list of fingerprints of
  attacks, what is let pass in spite of its fingerprint, and \<open>libinjection_is_sqli\<close>, which tries the contexts.

  \<open>lookup\<close> is the search in the table of the words, which is also \<open>is_keyword\<close>; that another function can be
  put in its place (\<open>libinjection_sqli_callback\<close>) is not modelled, and neither is \<open>reason\<close>, which only serves
  debugging.
\<close>

section \<open>The search in the table\<close>

function bsearch_loop :: "(bytes \<times> char) list \<Rightarrow> bytes \<Rightarrow> nat \<Rightarrow> nat \<Rightarrow> nat" where
  "bsearch_loop keywords key left right =
     (if left < right then
        let pos = drop_bit 1 (left + right)
        in if cstrcasecmp (fst (keywords ! pos)) key < 0 then bsearch_loop keywords key (pos + 1) right
           else bsearch_loop keywords key left pos
      else left)"
  by pat_completeness auto
termination by (relation "measure (\<lambda>(_, _, left, right). right - left)") (auto simp: drop_bit_eq_div)

declare bsearch_loop.simps [simp del]

definition bsearch_keyword_type :: "(bytes \<times> char) list \<Rightarrow> bytes \<Rightarrow> char" where
  "bsearch_keyword_type keywords key =
     (let left = bsearch_loop keywords key 0 (length keywords - 1)
      in if cstrcasecmp (fst (keywords ! left)) key = 0 then snd (keywords ! left) else NUL)"

section \<open>Fingerprints\<close>

definition libinjection_sqli_init :: "nat \<Rightarrow> sqli_state" where
  "libinjection_sqli_init flags =
     \<lparr>sf_flags = (if flags = 0 then FLAG_QUOTE_NONE OR FLAG_SQL_ANSI else flags), sf_pos = 0,
      sf_tokenvec = replicate 8 st_clear, sf_current = 0, sf_fingerprint = [], sf_comment_ddx = 0,
      sf_comment_hash = 0, sf_folds = 0, sf_tokens = 0\<rparr>"

text \<open>An open backtick with nothing behind it is a comment of PHP.\<close>

definition php_comment :: "nat \<Rightarrow> sqli_state \<Rightarrow> sqli_state option" where
  "php_comment tlen sf =
     (if tlen > 2 then
        do { t \<leftarrow> tok sf (tlen - 1);
             Some (if st_type t = TYPE_BAREWORD \<and> st_str_open t = CHAR_TICK \<and> st_len t = 0 \<and> st_str_close t = NUL
                   then set_type (tlen - 1) TYPE_COMMENT t sf else sf) }
      else Some sf)"

text \<open>With an evil token, the fingerprint is \<open>X\<close> and the tokens are cleared.\<close>

definition evil_fingerprint :: "sqli_state \<Rightarrow> sqli_state option" where
  "evil_fingerprint sf =
     do { t \<leftarrow> tok sf 0;
          u \<leftarrow> tok sf 1;
          Some (set_type 1 NUL u
            (set_tok 0 (t\<lparr>st_type := TYPE_EVIL, st_val := [TYPE_EVIL]\<rparr>) (sf\<lparr>sf_fingerprint := [TYPE_EVIL]\<rparr>))) }"

definition libinjection_sqli_fingerprint :: "lookup \<Rightarrow> bytes \<Rightarrow> nat \<Rightarrow> sqli_state option" where
  "libinjection_sqli_fingerprint lookup s flags =
     do { (tlen, sf) \<leftarrow> libinjection_sqli_fold lookup s (libinjection_sqli_init flags);
          sf \<leftarrow> php_comment tlen sf;
          if tlen \<ge> 8 \<or> length (sf_tokenvec sf) < tlen then None
          else
            let fp = map st_type (take tlen (sf_tokenvec sf))
            in if TYPE_EVIL \<in> set (cstring fp) then evil_fingerprint sf
               else Some (sf\<lparr>sf_fingerprint := cstring fp\<rparr>) }"

section \<open>The decision\<close>

text \<open>\<open>fp2\<close> has eight bytes.\<close>

definition libinjection_sqli_blacklist :: "lookup \<Rightarrow> sqli_state \<Rightarrow> bool option" where
  "libinjection_sqli_blacklist lookup sf =
     (if length (sf_fingerprint sf) < 1 then Some False
      else if length (sf_fingerprint sf) + 2 > 8 then None
      else Some (lookup (CHR ''0'' # map upper (sf_fingerprint sf)) = TYPE_FINGERPRINT))"

text \<open>The case of two tokens.\<close>

definition whitelist_two :: "bytes \<Rightarrow> sqli_state \<Rightarrow> bool option" where
  "whitelist_two s sf =
     do { t0 \<leftarrow> tok sf 0;
          t1 \<leftarrow> tok sf 1;
          if sf_fingerprint sf ! 1 = TYPE_UNION then Some (sf_tokens sf \<noteq> 2)
          else if val0 t1 = CHR ''#'' then Some False
          else if st_type t0 = TYPE_BAREWORD \<and> st_type t1 = TYPE_COMMENT \<and> val0 t1 \<noteq> CHR ''/'' then Some False
          else if st_type t0 = TYPE_NUMBER \<and> st_type t1 = TYPE_COMMENT \<and> val0 t1 = CHR ''/'' then Some True
          else if st_type t0 = TYPE_NUMBER \<and> st_type t1 = TYPE_COMMENT then
            if sf_tokens sf > 2 then Some True
            else
              do { ch \<leftarrow> read_at s (st_len t0);
                   if signed_char ch \<le> 32 then Some True
                   else if ch = CHR ''/'' then
                     do { d \<leftarrow> read_at s (st_len t0 + 1); Some (d = CHR ''*'') }
                   else if ch = CHR ''-'' then
                     do { d \<leftarrow> read_at s (st_len t0 + 1); Some (d = CHR ''-'') }
                   else Some False }
          else Some (\<not> (st_len t1 > 2 \<and> val0 t1 = CHR ''-'')) }"

text \<open>The case of three tokens.\<close>

definition whitelist_three :: "sqli_state \<Rightarrow> bool option" where
  "whitelist_three sf =
     do { t0 \<leftarrow> tok sf 0;
          t1 \<leftarrow> tok sf 1;
          t2 \<leftarrow> tok sf 2;
          let fp = sf_fingerprint sf;
          if fp = ''sos'' \<or> fp = ''s&s'' then
            Some (st_str_open t0 = NUL \<and> st_str_close t2 = NUL \<and> st_str_close t0 = st_str_open t2)
          else if fp \<in> set [''s&n'', ''n&1'', ''1&1'', ''1&v'', ''1&s''] then Some (sf_tokens sf \<noteq> 3)
          else if st_type t1 = TYPE_KEYWORD then
            Some (\<not> (st_len t1 < 5 \<or> cstrcasecmp ''INTO'' (take 4 (st_val t1)) \<noteq> 0))
          else Some True }"

definition libinjection_sqli_not_whitelist :: "bytes \<Rightarrow> sqli_state \<Rightarrow> bool option" where
  "libinjection_sqli_not_whitelist s sf =
     (let tlen = length (sf_fingerprint sf)
      in do { password \<leftarrow> (if tlen > 1 \<and> sf_fingerprint sf ! (tlen - 1) = TYPE_COMMENT then
                 do { r \<leftarrow> my_memmem s 0 (length s) ''sp_password''; Some (r \<noteq> None) }
               else Some False);
              if password then Some True
              else if tlen = 2 then whitelist_two s sf
              else if tlen = 3 then whitelist_three sf
              else Some True })"

definition libinjection_sqli_check_fingerprint :: "lookup \<Rightarrow> bytes \<Rightarrow> sqli_state \<Rightarrow> bool option" where
  "libinjection_sqli_check_fingerprint lookup s sf =
     do { black \<leftarrow> libinjection_sqli_blacklist lookup sf;
          if black then libinjection_sqli_not_whitelist s sf else Some False }"

text \<open>The fingerprint in one context and its decision.\<close>

definition sqli_in_context :: "lookup \<Rightarrow> bytes \<Rightarrow> nat \<Rightarrow> (bool \<times> sqli_state) option" where
  "sqli_in_context lookup s flags =
     do { sf \<leftarrow> libinjection_sqli_fingerprint lookup s flags;
          found \<leftarrow> libinjection_sqli_check_fingerprint lookup s sf;
          Some (found, sf) }"

definition reparse_as_mysql :: "sqli_state \<Rightarrow> bool" where
  "reparse_as_mysql sf \<longleftrightarrow> sf_comment_ddx sf \<noteq> 0 \<or> sf_comment_hash sf \<noteq> 0"

text \<open>The context with the comments of ANSI, and, if the input has a comment on which they differ, of MySQL.\<close>

definition sqli_ansi_mysql :: "lookup \<Rightarrow> bytes \<Rightarrow> nat \<Rightarrow> (bool \<times> sqli_state) option" where
  "sqli_ansi_mysql lookup s quote =
     do { (found, sf) \<leftarrow> sqli_in_context lookup s (quote OR FLAG_SQL_ANSI);
          if found then Some (True, sf)
          else if reparse_as_mysql sf then sqli_in_context lookup s (quote OR FLAG_SQL_MYSQL)
          else Some (False, sf) }"

text \<open>The result is the state when an attack has been found.\<close>

definition libinjection_is_sqli :: "lookup \<Rightarrow> bytes \<Rightarrow> sqli_state option option" where
  "libinjection_is_sqli lookup s =
     (if s = [] then Some None
      else
        do { (found, sf) \<leftarrow> sqli_ansi_mysql lookup s FLAG_QUOTE_NONE;
             if found then Some (Some sf)
             else
        do { (found, sf) \<leftarrow> (if CHAR_SINGLE \<in> set s then sqli_ansi_mysql lookup s FLAG_QUOTE_SINGLE else Some (False, sf));
             if found then Some (Some sf)
             else
        do { (found, sf) \<leftarrow> (if CHAR_DOUBLE \<in> set s
                then sqli_in_context lookup s (FLAG_QUOTE_DOUBLE OR FLAG_SQL_MYSQL) else Some (False, sf));
             if found then Some (Some sf) else Some None } } })"

text \<open>The result and what is written into \<open>fingerprint\<close>.\<close>

definition libinjection_sqli :: "(bytes \<times> char) list \<Rightarrow> bytes \<Rightarrow> (bool \<times> bytes) option" where
  "libinjection_sqli keywords s =
     do { r \<leftarrow> libinjection_is_sqli (bsearch_keyword_type keywords) s;
          Some (case r of Some sf \<Rightarrow> (True, sf_fingerprint sf) | None \<Rightarrow> (False, [])) }"

end
