(* ===== verification/SqliSorted.thy ===== *)
theory SqliSorted
  imports SqliCheck "HOL-Library.List_Lexorder"
begin

text \<open>
  The binary search of \<open>bsearch_keyword_type\<close> in any table that is sorted: it finds the type that the table gives
  the word in upper case.
\<close>

section \<open>A table that is sorted\<close>

text \<open>The order of bytes and words, in a form that evaluates fast.\<close>

fun bits_less :: "char \<Rightarrow> char \<Rightarrow> bool" where
  "bits_less (Char a0 a1 a2 a3 a4 a5 a6 a7) (Char b0 b1 b2 b3 b4 b5 b6 b7) =
    (if a7 \<noteq> b7 then b7 else if a6 \<noteq> b6 then b6 else if a5 \<noteq> b5 then b5 else if a4 \<noteq> b4 then b4
     else if a3 \<noteq> b3 then b3 else if a2 \<noteq> b2 then b2 else if a1 \<noteq> b1 then b1 else \<not> a0 \<and> b0)"

fun plain_byte :: "char \<Rightarrow> bool" where
  "plain_byte (Char a0 a1 a2 a3 a4 a5 a6 a7) = (\<not> a7 \<and> (a0 \<or> a1 \<or> a2 \<or> a3 \<or> a4 \<or> a5 \<or> a6))"

fun word_less :: "bytes \<Rightarrow> bytes \<Rightarrow> bool" where
  "word_less [] b = (b \<noteq> [])"
| "word_less (x # a) [] = False"
| "word_less (x # a) (y # b) = (if x = y then word_less a b else bits_less x y)"

text \<open>Behind the word \<open>w\<close>, the words go up, consist of plain bytes, and none has the type of a comment; the result
  is the last of them.\<close>

fun table_run :: "bytes \<Rightarrow> (bytes \<times> char) list \<Rightarrow> bytes option" where
  "table_run w [] = Some w"
| "table_run w ((v, t) # r) =
     (if word_less w v \<and> list_all plain_byte v \<and> t \<noteq> TYPE_COMMENT then table_run v r else None)"

lemma table_run_append: "table_run w (xs @ ys) = table_run w xs \<bind> (\<lambda>v. table_run v ys)"
  by (induction w xs rule: table_run.induct) auto

lemma ord_Char:
  "ord (Char a0 a1 a2 a3 a4 a5 a6 a7) =
    of_bool a0 + 2 * of_bool a1 + 4 * of_bool a2 + 8 * of_bool a3 + 16 * of_bool a4 + 32 * of_bool a5
    + 64 * of_bool a6 + 128 * of_bool a7"
  by simp

lemma of_bool_le: "(of_bool b :: nat) \<le> 1"
  by simp

lemma bits_less_ord: "bits_less c d \<Longrightarrow> ord c < ord d"
proof (cases c; cases d)
  fix a0 a1 a2 a3 a4 a5 a6 a7 b0 b1 b2 b3 b4 b5 b6 b7
  assume "bits_less c d" "c = Char a0 a1 a2 a3 a4 a5 a6 a7" "d = Char b0 b1 b2 b3 b4 b5 b6 b7"
  then show ?thesis
    using of_bool_le [of a0] of_bool_le [of a1] of_bool_le [of a2] of_bool_le [of a3] of_bool_le [of a4]
      of_bool_le [of a5] of_bool_le [of a6]
    by (simp add: ord_Char del: of_char_Char split: if_splits)
qed

lemma plain_ord: "plain_byte c \<Longrightarrow> 0 < ord c \<and> ord c < 128"
proof (cases c)
  fix a0 a1 a2 a3 a4 a5 a6 a7
  assume "plain_byte c" "c = Char a0 a1 a2 a3 a4 a5 a6 a7"
  then show ?thesis
    using of_bool_le [of a0] of_bool_le [of a1] of_bool_le [of a2] of_bool_le [of a3] of_bool_le [of a4]
      of_bool_le [of a5] of_bool_le [of a6]
    by (simp only: ord_Char plain_byte.simps; elim disjE conjE; simp)
qed

lemma word_less_ord: "word_less v w \<Longrightarrow> map ord v < map ord w"
proof (induction v w rule: word_less.induct)
  case (1 b)
  then show ?case by (cases b) simp_all
qed (auto simp: bits_less_ord split: if_splits)

lemma table_run_sorted:
  "table_run w xs = Some l \<Longrightarrow>
    sorted_wrt (<) (map (map ord) (w # map fst xs)) \<and> (\<forall>(v, t) \<in> set xs. list_all plain_byte v \<and> t \<noteq> TYPE_COMMENT)"
proof (induction w xs rule: table_run.induct)
  case (2 w v t r)
  then have *: "word_less w v" "list_all plain_byte v" "t \<noteq> TYPE_COMMENT" "table_run v r = Some l"
    by (auto split: if_splits)
  then have "sorted_wrt (<) (map (map ord) (v # map fst r)) \<and> (\<forall>(v, t) \<in> set r. list_all plain_byte v \<and> t \<noteq> TYPE_COMMENT)"
    using "2.IH" by blast
  then show ?case using *(1-3) word_less_ord [OF *(1)] by (auto intro: less_trans)
qed simp

section \<open>The comparison\<close>

lemma signed_inject: "signed_char a = signed_char b \<Longrightarrow> a = b"
  using ord_less_256 [of a] ord_less_256 [of b] by (auto simp: signed_char_def simp del: of_nat_diff split: if_splits; linarith)

lemma signed_plain: "plain_byte a \<Longrightarrow> 0 < signed_char a"
  by (auto simp: signed_char_def dest: plain_ord)

lemma signed_less: "ord a < ord b \<Longrightarrow> plain_byte b \<Longrightarrow> signed_char a < signed_char b"
  by (auto simp: signed_char_def dest: plain_ord)

lemma plain_nul: "\<not> plain_byte NUL"
  using plain_ord by fastforce

lemma signed_zero: "signed_char c = 0 \<longleftrightarrow> c = NUL"
  using signed_inject [of c NUL] by (auto simp: signed_char_def)

lemma cmp_zero: "list_all plain_byte w \<Longrightarrow> cstrcasecmp w k = 0 \<longleftrightarrow> w = map upper k"
proof (induction w k rule: cstrcasecmp.induct)
  case (3 a as b bs)
  then have "a \<noteq> NUL" using plain_nul by auto
  then show ?case using 3 signed_inject [of a "upper b"] by auto
next
  case (2 b bs)
  then show ?case by (simp add: signed_zero)
qed simp

lemma cmp_mono:
  "map ord w < map ord w' \<Longrightarrow> list_all plain_byte w' \<Longrightarrow> cstrcasecmp w' k \<le> 0 \<Longrightarrow> cstrcasecmp w k < 0"
proof (induction w k arbitrary: w' rule: cstrcasecmp.induct)
  case (1 a)
  then show ?case by (cases w') auto
next
  case (2 b bs)
  then obtain c cs where "w' = c # cs" by (cases w') auto
  then show ?case using 2 plain_nul signed_plain [of c] by (auto split: if_splits)
next
  case (3 a as b bs)
  then obtain c cs where w': "w' = c # cs" by (cases w') auto
  then have c: "plain_byte c" "c \<noteq> NUL" "list_all plain_byte cs" using 3 plain_nul by auto
  then show ?case
    using 3 w' signed_less [of a c] signed_inject [of c "upper b"] by (auto simp: order_le_less split: if_splits)
qed

section \<open>The search\<close>

locale sorted_table =
  fixes tab :: "(bytes \<times> char) list"
  assumes increasing: "\<exists>w. table_run [] tab = Some w"
    and nonempty: "tab \<noteq> []"

context sorted_table
begin

lemma sorted: "i < j \<Longrightarrow> j < length tab \<Longrightarrow> map ord (fst (tab ! i)) < map ord (fst (tab ! j))"
proof -
  assume ij: "i < j" "j < length tab"
  have "sorted_wrt (<) (map (map ord) (map fst tab))"
    using increasing table_run_sorted [of "[]" tab] by auto
  then show ?thesis
    using ij sorted_wrt_nth_less [of "(<)" "map (map ord) (map fst tab)" i j] by simp
qed

lemma row: "(w, t) \<in> set tab \<Longrightarrow> list_all plain_byte w \<and> t \<noteq> TYPE_COMMENT"
  using increasing table_run_sorted [of "[]" tab] by auto

lemma plain_nth: "i < length tab \<Longrightarrow> list_all plain_byte (fst (tab ! i))"
  using row [of "fst (tab ! i)" "snd (tab ! i)"] by simp

lemma distinct_words: "distinct (map fst tab)"
  unfolding distinct_conv_nth
proof (intro allI impI)
  fix i j
  assume "i < length (map fst tab)" "j < length (map fst tab)" "i \<noteq> j"
  then show "map fst tab ! i \<noteq> map fst tab ! j"
    using sorted [of i j] sorted [of j i] by (cases "i < j") auto
qed

lemma bsearch_loop_range: "l \<le> r \<Longrightarrow> l \<le> bsearch_loop tab key l r \<and> bsearch_loop tab key l r \<le> r"
proof (induction "r - l" arbitrary: l r rule: less_induct)
  case less
  let ?m = "(l + r) div 2"
  show ?case
  proof (cases "l < r")
    case True
    then have m: "l \<le> ?m" "?m < r" by simp_all
    have "l \<le> bsearch_loop tab key (?m + 1) r \<and> bsearch_loop tab key (?m + 1) r \<le> r"
      using less.hyps [of r "?m + 1"] m True by linarith
    moreover have "l \<le> bsearch_loop tab key l ?m \<and> bsearch_loop tab key l ?m \<le> r"
      using less.hyps [of ?m l] m by linarith
    ultimately show ?thesis
      using True by (simp add: bsearch_loop.simps [of tab key l r] drop_bit_eq_div Let_def)
  qed (use less.prems in \<open>simp add: bsearch_loop.simps\<close>)
qed

lemma bsearch_loop_finds:
  "l \<le> i \<Longrightarrow> i \<le> r \<Longrightarrow> r < length tab \<Longrightarrow> fst (tab ! i) = map upper key \<Longrightarrow> bsearch_loop tab key l r = i"
proof (induction "r - l" arbitrary: l r rule: less_induct)
  case less
  let ?m = "(l + r) div 2"
  show ?case
  proof (cases "l < r")
    case True
    have zero: "cstrcasecmp (fst (tab ! i)) key = 0"
      using cmp_zero [OF plain_nth, of i key] less.prems by simp
    have "?m < r" using True by simp
    have "cstrcasecmp (fst (tab ! ?m)) key < 0" if "?m < i"
      using cmp_mono [OF sorted plain_nth, of ?m i key] that less.prems zero by simp
    moreover have "\<not> cstrcasecmp (fst (tab ! ?m)) key < 0" if "i \<le> ?m"
      using cmp_mono [OF sorted plain_nth, of i ?m key] that less.prems zero \<open>?m < r\<close> by (cases "i = ?m") auto
    ultimately show ?thesis
      using less.hyps [of r "?m + 1"] less.hyps [of ?m l] less.prems True
      by (subst bsearch_loop.simps) (cases "?m < i"; simp add: drop_bit_eq_div Let_def)
  qed (use less.prems in \<open>simp add: bsearch_loop.simps\<close>)
qed

theorem search: "bsearch_keyword_type tab key = (case map_of tab (map upper key) of None \<Rightarrow> NUL | Some t \<Rightarrow> t)"
proof (cases "map_of tab (map upper key)")
  case None
  let ?l = "bsearch_loop tab key 0 (length tab - 1)"
  have "?l < length tab" using bsearch_loop_range [of 0 "length tab - 1" key] nonempty by (cases tab) auto
  then have "fst (tab ! ?l) \<in> fst ` set tab" by simp
  then have "fst (tab ! ?l) \<noteq> map upper key" using None by (metis map_of_eq_None_iff)
  then show ?thesis
    using None cmp_zero [OF plain_nth [OF \<open>?l < length tab\<close>]] by (simp add: bsearch_keyword_type_def Let_def)
next
  case (Some t)
  then have "(map upper key, t) \<in> set tab" by (rule map_of_SomeD)
  then obtain i where i: "i < length tab" "tab ! i = (map upper key, t)" by (auto simp: in_set_conv_nth)
  then have "bsearch_loop tab key 0 (length tab - 1) = i" by (intro bsearch_loop_finds) auto
  moreover have "cstrcasecmp (map upper key) key = 0" using cmp_zero [OF plain_nth [OF i(1)]] i(2) by simp
  ultimately show ?thesis using i(2) Some by (simp add: bsearch_keyword_type_def Let_def)
qed

lemma found: "(map upper key, t) \<in> set tab \<Longrightarrow> bsearch_keyword_type tab key = t"
  using search map_of_is_SomeI [OF distinct_words] by simp

lemma result: "bsearch_keyword_type tab key = NUL \<or> (map upper key, bsearch_keyword_type tab key) \<in> set tab"
  by (auto simp: search split: option.split dest: map_of_SomeD)

lemma no_comment: "bsearch_keyword_type tab key \<noteq> TYPE_COMMENT"
  using result [of key] row by auto

end

end
