(* ===== verification/SqliParse.thy ===== *)
theory SqliParse
  imports SqliTokens
begin

text \<open>
  Every parser of the tokenizer reads only the input, moves forward, and leaves a token that is a part of the
  input between where it began and where it ended.
\<close>

section \<open>Tokens that lie in the input\<close>

definition tok_wf :: "stoken \<Rightarrow> bool" where
  "tok_wf t \<longleftrightarrow> st_len t = length (st_val t) \<and> st_len t < TOKEN_SIZE"

text \<open>A comment is longer than one byte, unless it begins with \<open>#\<close>.\<close>

definition raw_at :: "bytes \<Rightarrow> nat \<Rightarrow> nat \<Rightarrow> stoken \<Rightarrow> bool" where
  "raw_at s p q t \<longleftrightarrow>
     tok_wf t \<and> p \<le> st_pos t \<and> st_pos t + st_len t \<le> q \<and> q \<le> length s
     \<and> take (st_len t) (drop (st_pos t) s) = st_val t
     \<and> (st_type t = TYPE_COMMENT \<and> st_len t < 2 \<longrightarrow> st_val t = ''#'')"

definition same_but_cur :: "sqli_state \<Rightarrow> sqli_state \<Rightarrow> bool" where
  "same_but_cur sf sf' \<longleftrightarrow>
     sf_flags sf' = sf_flags sf \<and> sf_current sf' = sf_current sf \<and> sf_folds sf' = sf_folds sf
     \<and> sf_tokens sf' = sf_tokens sf \<and> sf_tokenvec sf' = (sf_tokenvec sf)[sf_current sf := cur sf']"

text \<open>The parser has returned, with a token.\<close>

definition gives :: "bytes \<Rightarrow> nat \<Rightarrow> sqli_state \<Rightarrow> (nat \<times> sqli_state) option \<Rightarrow> bool" where
  "gives s p sf r \<longleftrightarrow>
     (\<exists>q sf'. r = Some (q, sf') \<and> p < q \<and> q \<le> length s \<and> same_but_cur sf sf' \<and> raw_at s p q (cur sf')
        \<and> st_type (cur sf') \<noteq> NUL)"

text \<open>The state in which the tokenizer calls a parser.\<close>

definition at_token :: "bytes \<Rightarrow> sqli_state \<Rightarrow> bool" where
  "at_token s sf \<longleftrightarrow> sf_pos sf < length s \<and> sf_current sf < length (sf_tokenvec sf)"

abbreviation has_cur :: "sqli_state \<Rightarrow> bool" where
  "has_cur sf \<equiv> sf_current sf < length (sf_tokenvec sf)"

lemma cur_set_cur [simp]: "has_cur sf \<Longrightarrow> cur (set_cur t sf) = t"
  by (simp add: cur_def set_cur_def)

lemma cur_upd_cur [simp]: "has_cur sf \<Longrightarrow> cur (upd_cur f sf) = f (cur sf)"
  by (simp add: upd_cur_def)

lemma cur_fields [simp]:
  "cur (sf\<lparr>sf_pos := p\<rparr>) = cur sf" "cur (sf\<lparr>sf_comment_ddx := d\<rparr>) = cur sf"
  "cur (sf\<lparr>sf_comment_hash := d\<rparr>) = cur sf" "cur (sf\<lparr>sf_tokens := d\<rparr>) = cur sf"
  by (simp_all add: cur_def)

lemma set_cur_fields [simp]:
  "sf_flags (set_cur t sf) = sf_flags sf" "sf_pos (set_cur t sf) = sf_pos sf"
  "sf_current (set_cur t sf) = sf_current sf" "length (sf_tokenvec (set_cur t sf)) = length (sf_tokenvec sf)"
  "sf_folds (set_cur t sf) = sf_folds sf" "sf_tokens (set_cur t sf) = sf_tokens sf"
  by (simp_all add: set_cur_def)

lemma upd_cur_fields [simp]:
  "sf_flags (upd_cur f sf) = sf_flags sf" "sf_pos (upd_cur f sf) = sf_pos sf"
  "sf_current (upd_cur f sf) = sf_current sf" "length (sf_tokenvec (upd_cur f sf)) = length (sf_tokenvec sf)"
  "sf_tokens (upd_cur f sf) = sf_tokens sf"
  by (simp_all add: upd_cur_def)

lemma same_refl [simp]: "same_but_cur sf sf"
  by (simp add: same_but_cur_def cur_def)

lemma same_has_cur: "same_but_cur sf sf' \<Longrightarrow> has_cur sf \<Longrightarrow> has_cur sf'"
  by (simp add: same_but_cur_def)

lemma same_set_cur [simp]: "same_but_cur sf sf' \<Longrightarrow> has_cur sf \<Longrightarrow> same_but_cur sf (set_cur t sf')"
proof -
  assume a: "same_but_cur sf sf'" "has_cur sf"
  then have "sf_tokenvec (set_cur t sf') = (sf_tokenvec sf)[sf_current sf := t]"
    using list_update_overwrite [of "sf_tokenvec sf" "sf_current sf" "cur sf'" t] by (simp add: set_cur_def same_but_cur_def)
  moreover have "cur (set_cur t sf') = t" using same_has_cur [OF a] by simp
  ultimately show ?thesis using a(1) by (simp add: same_but_cur_def)
qed

lemma same_upd_cur [simp]: "same_but_cur sf sf' \<Longrightarrow> has_cur sf \<Longrightarrow> same_but_cur sf (upd_cur f sf')"
  by (simp add: upd_cur_def)

lemma same_fields [simp]:
  "same_but_cur sf sf' \<Longrightarrow> same_but_cur sf (sf'\<lparr>sf_pos := p\<rparr>)"
  "same_but_cur sf sf' \<Longrightarrow> same_but_cur sf (sf'\<lparr>sf_comment_ddx := d\<rparr>)"
  "same_but_cur sf sf' \<Longrightarrow> same_but_cur sf (sf'\<lparr>sf_comment_hash := d\<rparr>)"
  by (simp_all add: same_but_cur_def)

lemma same_trans: "same_but_cur sf sf' \<Longrightarrow> same_but_cur sf' sf'' \<Longrightarrow> same_but_cur sf sf''"
  by (simp add: same_but_cur_def)

definition assigned :: "char \<Rightarrow> nat \<Rightarrow> nat \<Rightarrow> bytes \<Rightarrow> stoken \<Rightarrow> stoken" where
  "assigned ty pos len s t =
     t\<lparr>st_type := ty, st_pos := pos, st_len := min len 31, st_val := take (min len 31) (drop pos s)\<rparr>"

lemma assigned_fields [simp]:
  "st_type (assigned ty pos len s t) = ty" "st_pos (assigned ty pos len s t) = pos"
  "st_len (assigned ty pos len s t) = min len 31" "st_val (assigned ty pos len s t) = take (min len 31) (drop pos s)"
  by (simp_all add: assigned_def)

lemma assign_some: "pos + len \<le> length s \<Longrightarrow> assign ty pos len s sf = Some (set_cur (assigned ty pos len s (cur sf)) sf)"
  by (auto simp: assign_def st_assign_def assigned_def read_bytes_def TOKEN_SIZE_def Let_def min_def)

lemma raw_assigned:
  assumes "p \<le> pos" and "pos + len \<le> q" and "q \<le> length s"
    and "ty = TYPE_COMMENT \<longrightarrow> 2 \<le> len \<or> 0 < len \<and> s ! pos = CHR ''#''"
  shows "raw_at s p q (assigned ty pos len s t)"
proof -
  define m where "m = min len 31"
  have m: "m \<le> len" "pos + m \<le> q" "pos + m \<le> length s" "m < 32" using assms(2,3) by (simp_all add: m_def)
  have "take m (drop pos s) = ''#''" if "ty = TYPE_COMMENT" and "m < 2"
  proof -
    have "len = 1" "s ! pos = CHR ''#''" using assms(4) that by (auto simp: m_def)
    then show ?thesis using assms(2,3) by (simp add: m_def take_Suc hd_drop_conv_nth)
  qed
  then show ?thesis using assms(1,3) m unfolding raw_at_def tok_wf_def TOKEN_SIZE_def by (simp flip: m_def)
qed

lemma raw_char:
  assumes "p \<le> pos" and "pos < q" and "q \<le> length s" and "c = s ! pos" and "ty \<noteq> TYPE_COMMENT"
  shows "raw_at s p q (st_assign_char ty pos c t)"
proof -
  have "take 1 (drop pos s) = [s ! pos]" using assms(2,3) by (simp add: take_Suc hd_drop_conv_nth)
  then show ?thesis using assms by (simp add: raw_at_def tok_wf_def TOKEN_SIZE_def st_assign_char_def)
qed

lemma raw_strings [simp]:
  "raw_at s p q (t\<lparr>st_str_open := c\<rparr>) = raw_at s p q t"
  "raw_at s p q (t\<lparr>st_str_close := c\<rparr>) = raw_at s p q t"
  by (simp_all add: raw_at_def tok_wf_def)

lemma raw_type: "raw_at s p q t \<Longrightarrow> ty \<noteq> TYPE_COMMENT \<Longrightarrow> raw_at s p q (t\<lparr>st_type := ty\<rparr>)"
  by (auto simp: raw_at_def tok_wf_def)

lemma raw_mono: "raw_at s p q t \<Longrightarrow> p' \<le> p \<Longrightarrow> q \<le> q' \<Longrightarrow> q' \<le> length s \<Longrightarrow> raw_at s p' q' t"
  by (auto simp: raw_at_def)

lemma givesI:
  assumes "p < q" and "q \<le> length s" and "same_but_cur sf sf'" and "raw_at s p q (cur sf')" and "st_type (cur sf') \<noteq> NUL"
  shows "gives s p sf (Some (q, sf'))"
  using assms by (auto simp: gives_def)

lemma gives_assigned:
  assumes "same_but_cur sf sf'" and "has_cur sf" and "p \<le> pos" and "pos + len \<le> q" and "p < q" and "q \<le> length s"
    and "ty \<noteq> NUL" and "ty = TYPE_COMMENT \<longrightarrow> 2 \<le> len \<or> 0 < len \<and> s ! pos = CHR ''#''"
  shows "gives s p sf (Some (q, set_cur (assigned ty pos len s t) sf'))"
  using assms same_has_cur [OF assms(1,2)] by (intro givesI) (auto intro!: raw_assigned)

lemma gives_char:
  assumes "has_cur sf" and "p < length s" and "ty \<noteq> NUL" and "ty \<noteq> TYPE_COMMENT" and "c = s ! p"
  shows "gives s p sf (Some (p + 1, assign_char ty p c sf))"
proof (rule givesI)
  show "raw_at s p (p + 1) (cur (assign_char ty p c sf))"
    using assms raw_char [of p p "p + 1" s c ty] by (simp add: assign_char_def)
  show "st_type (cur (assign_char ty p c sf)) \<noteq> NUL" using assms by (simp add: assign_char_def st_assign_char_def)
qed (use assms in \<open>simp_all add: assign_char_def\<close>)

lemma gives_same: "same_but_cur sf sf' \<Longrightarrow> gives s p sf' r \<Longrightarrow> gives s p sf r"
  by (auto simp: gives_def intro: same_trans)

lemma gives_later: "gives s p' sf r \<Longrightarrow> p \<le> p' \<Longrightarrow> gives s p sf r"
  by (fastforce simp: gives_def intro: raw_mono)

lemma map_option_bind_prod:
  "do { (q, sf) \<leftarrow> r; Some (q, f sf) } = map_option (\<lambda>(q, sf). (q, f sf)) r"
  by (cases r) auto

section \<open>Searching\<close>

lemma memchr_some: "p \<le> length s \<Longrightarrow> \<exists>r. memchr s p c = Some r \<and> (case r of None \<Rightarrow> True | Some i \<Rightarrow> p \<le> i \<and> i < length s \<and> s ! i = c)"
  by (erule memchr_cases [of p s c]) auto

lemma find2_bound: "find2 c0 c1 h = Some i \<Longrightarrow> i + 1 < length h \<and> h ! i = c0 \<and> h ! (i + 1) = c1"
  by (induction c0 c1 h arbitrary: i rule: find2.induct) (auto split: if_splits)

lemma memchr2_cases:
  assumes "from + n \<le> length s"
  obtains "memchr2 s from n c0 c1 = Some None"
  | i where "memchr2 s from n c0 c1 = Some (Some i)" and "from \<le> i" and "i + 2 \<le> from + n"
  using assms find2_bound [of c0 c1 "take n (drop from s)"]
  by (cases "find2 c0 c1 (take n (drop from s))") (auto simp: memchr2_def read_bytes_some)

lemma find_sub_bound: "find_sub needle h = Some i \<Longrightarrow> i + length needle \<le> length h"
proof (induction needle h arbitrary: i rule: find_sub.induct)
  case (1 needle h)
  then show ?case by (subst (asm) find_sub.simps) (fastforce split: if_splits list.splits)
qed

lemma memmem_cases:
  assumes "from + n \<le> length s"
  obtains "my_memmem s from n needle = Some None"
  | i where "my_memmem s from n needle = Some (Some i)" and "from \<le> i" and "i + length needle \<le> from + n"
  using assms find_sub_bound [of needle "take n (drop from s)"]
  by (cases "find_sub needle (take n (drop from s))") (auto simp: my_memmem_def read_bytes_some)

lemma strlenspn_some:
  "from \<le> length s \<Longrightarrow> \<exists>k. strlenspn s from (length s - from) accept = Some k \<and> from + k \<le> length s"
  using length_takeWhile_le [of "in_cstring accept" "drop from s"] by (simp add: strlenspn_def read_bytes_some)

lemma strlencspn_some:
  assumes "from \<le> length s"
  shows "\<exists>k. strlencspn s from (length s - from) accept = Some k \<and> from + k \<le> length s
    \<and> (from < length s \<and> \<not> in_cstring accept (s ! from) \<longrightarrow> 0 < k)"
proof -
  let ?k = "length (takeWhile (\<lambda>c. \<not> in_cstring accept c) (drop from s))"
  have "?k \<le> length s - from"
    using length_takeWhile_le [of "\<lambda>c. \<not> in_cstring accept c" "drop from s"] by simp
  moreover have "0 < ?k" if "from < length s" and "\<not> in_cstring accept (s ! from)"
    using that by (simp add: Cons_nth_drop_Suc [symmetric])
  ultimately show ?thesis using assms by (simp add: strlencspn_def read_bytes_some)
qed

section \<open>The parsers\<close>

lemma operator1_gives: "at_token s sf \<Longrightarrow> gives s (sf_pos sf) sf (parse_operator1 s sf)"
  by (simp add: parse_operator1_def Let_def at_token_def read_at_some gives_char [simplified])

lemma other_gives: "at_token s sf \<Longrightarrow> gives s (sf_pos sf) sf (parse_other s sf)"
  by (simp add: parse_other_def Let_def at_token_def read_at_some gives_char [simplified])

lemma char_gives: "at_token s sf \<Longrightarrow> s ! sf_pos sf \<noteq> NUL \<Longrightarrow> s ! sf_pos sf \<noteq> TYPE_COMMENT \<Longrightarrow> gives s (sf_pos sf) sf (parse_char s sf)"
  by (simp add: parse_char_def Let_def at_token_def read_at_some gives_char [simplified])

lemma eol_comment_gives:
  assumes "at_token s sf" and "s ! sf_pos sf = CHR ''#'' \<or> sf_pos sf + 2 \<le> length s \<and> s ! sf_pos sf \<noteq> LF \<and> s ! (sf_pos sf + 1) \<noteq> LF"
  shows "gives s (sf_pos sf) sf (parse_eol_comment s sf)"
proof -
  let ?p = "sf_pos sf"
  have p: "?p < length s" "has_cur sf" using assms(1) by (simp_all add: at_token_def)
  show ?thesis
  proof (rule memchr_cases [of ?p s LF])
    assume "memchr s ?p LF = Some None"
    then show ?thesis
      using p assms(2) by (auto simp: parse_eol_comment_def Let_def size_minus_some assign_some intro!: gives_assigned)
  next
    fix e
    assume e: "memchr s ?p LF = Some (Some e)" "?p \<le> e" "e < length s" "s ! e = LF"
    have "e \<noteq> ?p" using e(4) assms(2) by auto
    moreover have "e \<noteq> ?p + 1" if "s ! ?p \<noteq> CHR ''#''" using e(4) assms(2) that by auto
    ultimately have "?p < e" "2 \<le> e - ?p \<or> s ! ?p = CHR ''#''" using e(2) by auto
    then show ?thesis
      using e p by (auto simp: parse_eol_comment_def Let_def size_minus_some assign_some intro!: gives_assigned)
  qed (use p in simp)
qed

lemma hash_gives: "at_token s sf \<Longrightarrow> s ! sf_pos sf = CHR ''#'' \<Longrightarrow> gives s (sf_pos sf) sf (parse_hash s sf)"
  using eol_comment_gives [of s "sf\<lparr>sf_comment_hash := sf_comment_hash sf + 1 + 1\<rparr>"]
    gives_char [of "sf\<lparr>sf_comment_hash := sf_comment_hash sf + 1\<rparr>" "sf_pos sf" s TYPE_OPERATOR "CHR ''#''"]
    gives_same [of sf "sf\<lparr>sf_comment_hash := sf_comment_hash sf + 1\<rparr>"]
    gives_same [of sf "sf\<lparr>sf_comment_hash := sf_comment_hash sf + 1 + 1\<rparr>"]
  by (simp add: parse_hash_def Let_def at_token_def)

lemma dash_gives: "at_token s sf \<Longrightarrow> s ! sf_pos sf = CHR ''-'' \<Longrightarrow> gives s (sf_pos sf) sf (parse_dash s sf)"
  using eol_comment_gives [of s sf] eol_comment_gives [of s "sf\<lparr>sf_comment_ddx := sf_comment_ddx sf + 1\<rparr>"]
    gives_char [of sf "sf_pos sf" s TYPE_OPERATOR "CHR ''-''"]
    gives_same [of sf "sf\<lparr>sf_comment_ddx := sf_comment_ddx sf + 1\<rparr>"]
  by (auto simp: parse_dash_def dash_at_def at_token_def read_at_some Let_def)

lemma slash_gives: "at_token s sf \<Longrightarrow> gives s (sf_pos sf) sf (parse_slash s sf)"
proof -
  assume a: "at_token s sf"
  let ?p = "sf_pos sf"
  have p: "?p < length s" "has_cur sf" using a by (simp_all add: at_token_def)
  show ?thesis
  proof (cases "?p + 1 = length s \<or> s ! (?p + 1) \<noteq> CHR ''*''")
    case True
    then show ?thesis using operator1_gives [OF a] p by (auto simp: parse_slash_def read_at_some Let_def)
  next
    case False
    then have two: "?p + 2 \<le> length s" using p by simp
    obtain b where b: "is_mysql_comment s ?p = Some b" by (cases "length s \<le> ?p + 2") (auto simp: is_mysql_comment_def read_at_some)
    show ?thesis
    proof (rule memchr2_cases [of "?p + 2" "length s - (?p + 2)" s "CHR ''*''" "CHR ''/''"])
      assume "memchr2 s (?p + 2) (length s - (?p + 2)) (CHR ''*'') (CHR ''/'') = Some None"
      then show ?thesis
        using False two p b by (auto simp: parse_slash_def read_at_some size_minus_some assign_some Let_def intro!: gives_assigned)
    next
      fix i
      assume i: "memchr2 s (?p + 2) (length s - (?p + 2)) (CHR ''*'') (CHR ''/'') = Some (Some i)" "?p + 2 \<le> i"
        "i + 2 \<le> ?p + 2 + (length s - (?p + 2))"
      then have i2: "i + 2 \<le> length s" using two by simp
      obtain q where "memchr2 s (?p + 2) (i - (?p + 1)) (CHR ''/'') (CHR ''*'') = Some q"
        using i(2) i2 by (rule_tac memchr2_cases [of "?p + 2" "i - (?p + 1)" s "CHR ''/''" "CHR ''*''"]) auto
      then show ?thesis
        using False two p b i i2
        by (auto simp: parse_slash_def read_at_some size_minus_some assign_some Let_def intro!: gives_assigned)
    qed (use two in simp)
  qed
qed

lemma backslash_gives:
  assumes "at_token s sf" and "s ! sf_pos sf = TYPE_BACKSLASH"
  shows "gives s (sf_pos sf) sf (parse_backslash s sf)"
proof -
  have p: "sf_pos sf < length s" "has_cur sf" using assms(1) by (simp_all add: at_token_def)
  have b: "parse_backslash s sf =
      (if sf_pos sf + 1 < length s \<and> s ! (sf_pos sf + 1) = CHR ''N''
       then Some (sf_pos sf + 2, set_cur (assigned TYPE_NUMBER (sf_pos sf) 2 s (cur sf)) sf)
       else Some (sf_pos sf + 1, assign_char TYPE_BACKSLASH (sf_pos sf) TYPE_BACKSLASH sf))"
    using p assms(2) by (simp add: parse_backslash_def read_at_some Let_def assign_some)
  have "gives s (sf_pos sf) sf (Some (sf_pos sf + 1, assign_char TYPE_BACKSLASH (sf_pos sf) TYPE_BACKSLASH sf))"
    by (rule gives_char) (use p assms(2) in simp_all)
  then show ?thesis unfolding b using p(2) by (auto intro!: gives_assigned)
qed

lemma string_end_some:
  "case qpos of None \<Rightarrow> True | Some q \<Rightarrow> start \<le> q \<and> q < length s \<Longrightarrow>
    \<exists>r. string_end s start delim qpos = Some r \<and> (case r of None \<Rightarrow> True | Some e \<Rightarrow> start \<le> e \<and> e < length s)"
proof (induction s start delim qpos rule: string_end.induct)
  case (2 s start delim q)
  have q: "start \<le> q" "q < length s" using "2.prems" by simp_all
  obtain d where d: "is_double_delim_escaped s q = Some d" "d \<longrightarrow> q + 1 < length s"
    using q by (cases "q + 1 < length s") (simp_all add: is_double_delim_escaped_def read_at_some)
  show ?case
  proof (cases "is_backslash_escaped s start q")
    case True
    obtain r where r: "memchr s (q + 1) delim = Some r" "case r of None \<Rightarrow> True | Some i \<Rightarrow> q + 1 \<le> i \<and> i < length s"
      using memchr_some [of "q + 1" s delim] q(2) by (auto split: option.splits)
    have "case r of None \<Rightarrow> True | Some i \<Rightarrow> start \<le> i \<and> i < length s" using r(2) q(1) by (auto split: option.splits)
    then show ?thesis using "2.IH"(1) [OF True r(1)] True r(1) by (subst string_end.simps) simp
  next
    case False
    show ?thesis
    proof (cases d)
      case True
      obtain r where r: "memchr s (q + 2) delim = Some r" "case r of None \<Rightarrow> True | Some i \<Rightarrow> q + 2 \<le> i \<and> i < length s"
        using memchr_some [of "q + 2" s delim] d(2) True by (auto split: option.splits)
      have "case r of None \<Rightarrow> True | Some i \<Rightarrow> start \<le> i \<and> i < length s" using r(2) q(1) by (auto split: option.splits)
      then show ?thesis using "2.IH"(2) [OF False d(1) True r(1)] True False d(1) r(1) by (subst string_end.simps) simp
    next
      assume nd: "\<not> d"
      then show ?thesis using False d(1) q by (subst string_end.simps) simp
    qed
  qed
qed simp

lemma core_gives:
  assumes "has_cur sf" and "p \<le> pos" and "p < length s" and "pos + offset \<le> length s"
  shows "gives s p sf (parse_string_core s pos delim offset sf)"
proof -
  obtain r where r: "memchr s (pos + offset) delim = Some r"
    "case r of None \<Rightarrow> True | Some q \<Rightarrow> pos + offset \<le> q \<and> q < length s"
    using memchr_some [OF assms(4), of delim] by (auto split: option.splits)
  obtain e where e: "string_end s (pos + offset) delim r = Some e"
    "case e of None \<Rightarrow> True | Some q \<Rightarrow> pos + offset \<le> q \<and> q < length s"
    using string_end_some [OF r(2)] by blast
  show ?thesis
    using assms r(1) e
    by (cases e) (auto simp: parse_string_core_def Let_def size_minus_some assign_some intro!: givesI raw_assigned)
qed

lemma string_gives: "at_token s sf \<Longrightarrow> gives s (sf_pos sf) sf (parse_string s sf)"
  by (simp add: parse_string_def at_token_def read_at_some core_gives)

lemma quoted_token_gives:
  assumes "has_cur sf" and "p \<le> start" and "p < length s" and "start \<le> length s" and "0 < n"
    and "case strend of None \<Rightarrow> True | Some e \<Rightarrow> start \<le> e \<and> e + n \<le> length s"
  shows "gives s p sf (quoted_token q start strend n s sf)"
  using assms
  by (cases strend) (auto simp: quoted_token_def size_minus_some assign_some intro!: givesI raw_assigned)

lemma bword_gives:
  assumes "at_token s sf"
  shows "gives s (sf_pos sf) sf (parse_bword s sf)"
proof -
  have p: "sf_pos sf < length s" "has_cur sf" using assms by (simp_all add: at_token_def)
  obtain r where "memchr s (sf_pos sf) (CHR '']'') = Some r" "case r of None \<Rightarrow> True | Some i \<Rightarrow> sf_pos sf \<le> i \<and> i < length s"
    using memchr_some [of "sf_pos sf" s "CHR '']''"] p(1) by (auto split: option.splits)
  then show ?thesis
    using p by (cases r) (auto simp: parse_bword_def Let_def size_minus_some assign_some intro!: gives_assigned)
qed

lemma tick_gives:
  assumes "has_cur sf" and "p \<le> sf_pos sf" and "sf_pos sf < length s"
  shows "gives s p sf (parse_tick lookup s sf)"
proof -
  obtain q sf' where r: "parse_string_core s (sf_pos sf) CHAR_TICK 1 sf = Some (q, sf')"
    "p < q" "q \<le> length s" "same_but_cur sf sf'" "raw_at s p q (cur sf')"
    using core_gives [of sf p "sf_pos sf" s 1 CHAR_TICK] assms by (auto simp: gives_def)
  then show ?thesis
    using same_has_cur [OF r(4) assms(1)] assms(1) by (auto simp: parse_tick_def Let_def intro!: givesI raw_type)
qed

section \<open>Parsers that look words up\<close>

lemma word_cut_some:
  "(\<And>w. lookup w \<noteq> TYPE_COMMENT) \<Longrightarrow> word_cut lookup v i = Some (j, ch) \<Longrightarrow>
    i \<le> j \<and> j < length v \<and> (v ! j = CHR ''.'' \<or> v ! j = CHAR_TICK) \<and> ch \<noteq> NUL \<and> ch \<noteq> TYPE_COMMENT"
proof (induction lookup v i rule: word_cut.induct)
  case (1 lookup' v i)
  show ?case
  proof (cases "i < length v \<and> \<not> ((v ! i = CHR ''.'' \<or> v ! i = CHAR_TICK) \<and> lookup' (take i v) \<noteq> NUL \<and> lookup' (take i v) \<noteq> TYPE_BAREWORD)")
    case True
    then have "word_cut lookup' v (i + 1) = Some (j, ch)" using "1.prems" word_cut.simps [of lookup' v i] by (auto simp: Let_def split: if_splits)
    then show ?thesis using "1.IH" [of "lookup' (take i v)"] "1.prems"(1) True by simp
  next
    case False
    then show ?thesis using "1.prems" word_cut.simps [of lookup' v i] by (auto simp: Let_def split: if_splits)
  qed
qed

text \<open>The first byte of a word.\<close>

definition word_byte :: "char \<Rightarrow> bool" where
  "word_byte c \<longleftrightarrow> \<not> in_cstring word_stops c \<and> c \<noteq> CHR ''.'' \<and> c \<noteq> CHAR_TICK"

text \<open>All that the tokenizer and the decision need of the table: no word is a comment.\<close>

locale word_lookup =
  fixes lookup :: lookup
  assumes no_comment: "lookup w \<noteq> TYPE_COMMENT"
begin

lemma operator2_gives:
  assumes "at_token s sf"
  shows "gives s (sf_pos sf) sf (parse_operator2 lookup s sf)"
proof (cases "sf_pos sf + 1 \<ge> length s")
  case True
  then show ?thesis using operator1_gives [OF assms] by (simp add: parse_operator2_def Let_def)
next
  case False
  obtain b where "(if sf_pos sf + 2 < length s then do { b \<leftarrow> read_bytes s (sf_pos sf) 3; Some (b = ''<=>'') } else Some False) = Some b"
    "b \<longrightarrow> sf_pos sf + 2 < length s"
    by (cases "sf_pos sf + 2 < length s") (auto simp: read_bytes_some)
  then show ?thesis
    using assms False operator1_gives [OF assms] no_comment
    by (auto simp: parse_operator2_def Let_def at_token_def read_bytes_some read_at_some assign_some intro!: gives_assigned)
qed

lemma word_gives:
  assumes "at_token s sf" and "word_byte (s ! sf_pos sf)"
  shows "gives s (sf_pos sf) sf (parse_word lookup s sf)"
proof -
  let ?p = "sf_pos sf"
  have p: "?p < length s" "has_cur sf" using assms(1) by (simp_all add: at_token_def)
  obtain k where k: "strlencspn s ?p (length s - ?p) word_stops = Some k" "0 < k" "?p + k \<le> length s"
    using strlencspn_some [of ?p s word_stops] p(1) assms(2) by (auto simp: word_byte_def)
  let ?t = "assigned TYPE_BAREWORD ?p k s (cur sf)"
  let ?sf = "set_cur ?t sf"
  show ?thesis
  proof (cases "word_cut lookup (st_val ?t) 0")
    case None
    have "gives s ?p sf (Some (?p + k, upd_cur (\<lambda>t. t\<lparr>st_type := ty\<rparr>) ?sf))" if "ty \<noteq> NUL" and "ty \<noteq> TYPE_COMMENT" for ty
      using p k that by (intro givesI) (auto intro!: raw_type raw_assigned)
    moreover have "gives s ?p sf (Some (?p + k, ?sf))"
      using p k by (intro gives_assigned) auto
    moreover have "parse_word lookup s sf =
        (if k < TOKEN_SIZE
         then Some (?p + k, upd_cur (\<lambda>t. t\<lparr>st_type := if lookup (st_val ?t) = NUL then TYPE_BAREWORD else lookup (st_val ?t)\<rparr>) ?sf)
         else Some (?p + k, ?sf))"
      using p k None by (simp add: parse_word_def Let_def size_minus_some assign_some)
    ultimately show ?thesis using no_comment by simp
  next
    case (Some r)
    obtain i ch where r: "r = (i, ch)" by (cases r)
    note c = word_cut_some [OF no_comment Some [unfolded r]]
    have i: "i < k" "?p + i \<le> length s" using c k by auto
    have "st_val ?t ! 0 = s ! ?p" using p k(2) by (simp del: take_all_iff)
    then have "0 < i" using c assms(2) by (auto simp: word_byte_def intro: gr0I)
    moreover have "parse_word lookup s sf =
        Some (?p + i, set_cur (assigned ch ?p i s st_clear) (set_cur st_clear ?sf))"
      using p k i Some r by (simp add: parse_word_def Let_def size_minus_some assign_some)
    ultimately show ?thesis using p i c by (auto intro!: gives_assigned)
  qed
qed

lemma estring_gives:
  assumes "at_token s sf" and "word_byte (s ! sf_pos sf)"
  shows "gives s (sf_pos sf) sf (parse_estring lookup s sf)"
  using assms word_gives [OF assms] core_gives [of sf "sf_pos sf" "sf_pos sf" s 2 CHAR_SINGLE]
  by (auto simp: parse_estring_def Let_def at_token_def read_at_some)

lemma ustring_gives:
  assumes "at_token s sf" and "word_byte (s ! sf_pos sf)"
  shows "gives s (sf_pos sf) sf (parse_ustring lookup s sf)"
proof (cases "sf_pos sf + 2 < length s \<and> take 2 (drop (sf_pos sf + 1) s) = [CHR ''&'', CHAR_SINGLE]")
  case True
  let ?sf = "sf\<lparr>sf_pos := sf_pos sf + 2\<rparr>"
  have a: "at_token s ?sf" "has_cur sf" using True assms(1) by (simp_all add: at_token_def)
  obtain q sf' where r: "parse_string s ?sf = Some (q, sf')" "sf_pos sf < q" "q \<le> length s" "same_but_cur sf sf'"
    "raw_at s (sf_pos sf) q (cur sf')" "st_type (cur sf') \<noteq> NUL"
    using gives_same [OF _ gives_later [OF string_gives [OF a(1)], of "sf_pos sf"], of sf] by (auto simp: gives_def)
  then show ?thesis
    using True same_has_cur [OF r(4) a(2)] a(2)
    by (auto simp: parse_ustring_def Let_def read_bytes_some raw_at_def tok_wf_def intro!: givesI)
next
  case False
  then have "parse_ustring lookup s sf = parse_word lookup s sf"
    by (cases "sf_pos sf + 2 < length s") (auto simp: parse_ustring_def Let_def read_bytes_some)
  then show ?thesis using word_gives [OF assms] by simp
qed

lemma qstring_core_gives:
  assumes "at_token s sf" and "word_byte (s ! sf_pos sf)"
  shows "gives s (sf_pos sf) sf (parse_qstring_core lookup offset s sf)"
proof -
  let ?p = "sf_pos sf + offset"
  have p: "sf_pos sf < length s" "has_cur sf" using assms(1) by (simp_all add: at_token_def)
  show ?thesis
  proof (cases "?p + 2 < length s")
    case True
    let ?c = "closing_of (s ! (?p + 2))"
    obtain r where "memchr2 s (?p + 3) (length s - (?p + 3)) ?c CHAR_SINGLE = Some r"
      "case r of None \<Rightarrow> True | Some e \<Rightarrow> ?p + 3 \<le> e \<and> e + 2 \<le> length s"
      using True by (rule_tac memchr2_cases [of "?p + 3" "length s - (?p + 3)" s ?c CHAR_SINGLE]) auto
    then have "gives s (sf_pos sf) sf (quoted_token (CHR ''q'') (?p + 3) r 2 s sf)"
      using True p by (intro quoted_token_gives) auto
    then show ?thesis
      using True word_gives [OF assms] \<open>memchr2 s _ _ _ _ = _\<close>
      by (simp add: parse_qstring_core_def Let_def read_at_some size_minus_some)
  qed (use word_gives [OF assms] in \<open>auto simp: parse_qstring_core_def Let_def read_at_some\<close>)
qed

lemma nqstring_gives:
  assumes "at_token s sf" and "word_byte (s ! sf_pos sf)"
  shows "gives s (sf_pos sf) sf (parse_nqstring lookup s sf)"
  using estring_gives [OF assms] qstring_core_gives [OF assms, of 1]
  by (auto simp: parse_nqstring_def Let_def read_at_some)

lemma digits_token_gives:
  assumes "at_token s sf" and "word_byte (s ! sf_pos sf)"
  shows "gives s (sf_pos sf) sf (digits_token digits lookup s sf)"
proof -
  let ?p = "sf_pos sf"
  have p: "?p < length s" "has_cur sf" using assms(1) by (simp_all add: at_token_def)
  show ?thesis
  proof (cases "?p + 2 < length s")
    case True
    obtain k where k: "strlenspn s (?p + 2) (length s - (?p + 2)) digits = Some k"
      using strlenspn_some [of "?p + 2" s digits] True by auto
    have "gives s ?p sf (Some (?p + 2 + k + 1, set_cur (assigned TYPE_NUMBER ?p (k + 3) s (cur sf)) sf))"
      if "?p + 2 + k < length s"
      using p that by (intro gives_assigned) auto
    then show ?thesis
      using True word_gives [OF assms] k
      by (simp add: digits_token_def Let_def read_at_some size_minus_some assign_some)
  qed (use word_gives [OF assms] in \<open>simp add: digits_token_def Let_def\<close>)
qed

lemma var_name_gives:
  assumes "has_cur sf" and "p < pos" and "pos \<le> length s"
  shows "gives s p sf (var_name lookup s pos sf)"
proof -
  obtain k where k: "strlencspn s pos (length s - pos) var_stops = Some k" "pos + k \<le> length s"
    using strlencspn_some [of pos s var_stops] assms by auto
  have typed: "gives s p sf (map_option (\<lambda>(q, sf). (q, upd_cur (\<lambda>t. t\<lparr>st_type := TYPE_VARIABLE\<rparr>) sf)) r)"
    if "gives s p (sf\<lparr>sf_pos := pos\<rparr>) r" for r
  proof -
    have "gives s p sf r" using gives_same [OF _ that] by simp
    then obtain q sf'' where "r = Some (q, sf'')" "p < q" "q \<le> length s" "same_but_cur sf sf''" "raw_at s p q (cur sf'')"
      by (auto simp: gives_def)
    then show ?thesis using assms same_has_cur by (auto intro!: givesI raw_type)
  qed
  have "gives s p sf (Some (pos + k, set_cur (assigned TYPE_VARIABLE pos k s (cur sf)) sf))"
    using assms k by (intro gives_assigned) auto
  moreover have "gives s p (sf\<lparr>sf_pos := pos\<rparr>) (parse_tick lookup s (sf\<lparr>sf_pos := pos\<rparr>))"
    and "gives s p (sf\<lparr>sf_pos := pos\<rparr>) (parse_string s (sf\<lparr>sf_pos := pos\<rparr>))" if "pos < length s"
    using that assms tick_gives [of "sf\<lparr>sf_pos := pos\<rparr>" p s lookup]
      gives_later [OF string_gives [of s "sf\<lparr>sf_pos := pos\<rparr>"], of p]
    by (simp_all add: at_token_def)
  ultimately show ?thesis
    using typed assms(3) k
    by (cases "pos < length s")
      (simp_all add: var_name_def map_option_bind_prod read_at_some size_minus_some assign_some)
qed

lemma var_gives:
  assumes "at_token s sf"
  shows "gives s (sf_pos sf) sf (parse_var lookup s sf)"
proof -
  have p: "sf_pos sf < length s" "has_cur sf" using assms by (simp_all add: at_token_def)
  have "gives s (sf_pos sf) sf (var_name lookup s pos (upd_cur f sf))" if "sf_pos sf < pos" and "pos \<le> length s" for pos f
    using p(2) that by (intro gives_same [OF _ var_name_gives]) simp_all
  then show ?thesis using p by (auto simp: parse_var_def Let_def read_at_some)
qed

end

lemma money_string_gives:
  assumes "at_token s sf" and "sf_pos sf + 1 < length s" and "s ! sf_pos sf = CHR ''$''"
  shows "gives s (sf_pos sf) sf (money_string s sf)"
proof -
  let ?p = "sf_pos sf"
  have p: "?p < length s" "has_cur sf" using assms(1) by (simp_all add: at_token_def)
  have dollar: "gives s ?p sf (Some (?p + 1, assign_char TYPE_BAREWORD ?p (CHR ''$'') sf))"
    by (rule gives_char) (use p assms(3) in simp_all)
  obtain r where r: "memchr2 s (?p + 2) (length s - (?p + 2)) (CHR ''$'') (CHR ''$'') = Some r"
    "case r of None \<Rightarrow> True | Some e \<Rightarrow> ?p + 2 \<le> e \<and> e + 2 \<le> length s"
    using assms(2) by (rule_tac memchr2_cases [of "?p + 2" "length s - (?p + 2)" s "CHR ''$''" "CHR ''$''"]) auto
  have two: "gives s ?p sf (quoted_token (CHR ''$'') (?p + 2) r 2 s sf)"
    using p r assms(2) by (intro quoted_token_gives) auto
  obtain k where k: "strlenspn s (?p + 1) (length s - (?p + 1)) money_letters = Some k" "?p + 1 + k \<le> length s"
    using strlenspn_some [of "?p + 1" s money_letters] assms(2) by auto
  have name: "gives s ?p sf (do { needle \<leftarrow> read_bytes s ?p (k + 2);
      strend \<leftarrow> my_memmem s (?p + k + 2) (length s - (?p + k + 2)) needle;
      quoted_token (CHR ''$'') (?p + k + 2) strend (k + 2) s sf })" if "?p + k + 1 \<noteq> length s"
  proof -
    have b: "?p + k + 2 \<le> length s" using k(2) that by simp
    let ?n = "take (k + 2) (drop ?p s)"
    have l: "length ?n = k + 2" using b by simp
    obtain e where e: "my_memmem s (?p + k + 2) (length s - (?p + k + 2)) ?n = Some e"
      "case e of None \<Rightarrow> True | Some e \<Rightarrow> ?p + k + 2 \<le> e \<and> e + (k + 2) \<le> length s"
      using b l by (rule_tac memmem_cases [of "?p + k + 2" "length s - (?p + k + 2)" s ?n]) auto
    have "gives s ?p sf (quoted_token (CHR ''$'') (?p + k + 2) e (k + 2) s sf)"
      using p e(2) b by (intro quoted_token_gives) auto
    then show ?thesis using e(1) b by (simp add: read_bytes_some)
  qed
  show ?thesis
    using dollar two r(1) k assms(2) name
    by (auto simp: money_string_def Let_def read_at_some size_minus_some)
qed

lemma digits_end_bound: "pos \<le> length s \<Longrightarrow> pos \<le> digits_end s pos \<and> digits_end s pos \<le> length s"
  using length_takeWhile_le [of is_digit "drop pos s"] by (simp add: digits_end_def)

lemma exponent_bound:
  assumes "pos \<le> length s" and "exponent s pos = (q, have_e, have_exp)"
  shows "pos \<le> q \<and> q \<le> length s \<and> (have_e \<longrightarrow> pos < q)"
proof (cases "one_of s pos ''Ee''")
  case True
  let ?p = "if one_of s (pos + 1) ''+-'' then pos + 1 + 1 else pos + 1"
  have "pos + 1 \<le> ?p" "?p \<le> length s" using True by (auto simp: one_of_def)
  then show ?thesis using assms(2) True digits_end_bound [of ?p s] by (auto simp: exponent_def Let_def)
qed (use assms in \<open>simp add: exponent_def\<close>)

lemma float_suffix_bound: "pos \<le> length s \<Longrightarrow> pos \<le> float_suffix s pos \<and> float_suffix s pos \<le> length s"
  by (auto simp: float_suffix_def one_of_def)

text \<open>A parser that may also leave the current token as it is.\<close>

definition parsed :: "bytes \<Rightarrow> sqli_state \<Rightarrow> (nat \<times> sqli_state) option \<Rightarrow> bool" where
  "parsed s sf r \<longleftrightarrow>
     gives s (sf_pos sf) sf r \<or> (\<exists>q. r = Some (q, sf) \<and> sf_pos sf < q \<and> q \<le> length s)"

lemma decimal_goes:
  assumes "at_token s sf" and "is_digit (s ! sf_pos sf) \<or> s ! sf_pos sf = CHR ''.''"
  shows "parsed s sf (parse_decimal s sf)"
proof -
  let ?start = "sf_pos sf"
  have p: "?start < length s" "has_cur sf" using assms(1) by (simp_all add: at_token_def)
  let ?i = "digits_end s ?start"
  have i: "?start \<le> ?i" "?i \<le> length s" using digits_end_bound [of ?start s] p by simp_all
  have digit: "?start < ?i" if "is_digit (s ! ?start)"
    using that p(1) by (simp add: digits_end_def Cons_nth_drop_Suc [symmetric])
  obtain dot pos where m: "mantissa s ?start = (dot, pos)" by (cases "mantissa s ?start")
  have pos: "?start < pos" "pos \<le> length s" "dot \<Longrightarrow> pos - ?start = 1 \<Longrightarrow> s ! ?start = CHR ''.''"
  proof -
    have d: "dot = one_of s ?i ''.''" "pos = (if dot then digits_end s (?i + 1) else ?i)"
      using m by (auto simp: mantissa_def Let_def split: if_splits)
    have behind: "?i + 1 \<le> pos \<and> pos \<le> length s" if dot
      using that d digits_end_bound [of "?i + 1" s] by (auto simp: one_of_def)
    have first: "?i = ?start \<Longrightarrow> dot"
      using digit assms(2) p(1) by (auto simp: d(1) one_of_def)
    show "?start < pos" using behind first i d(2) by (cases "?i = ?start") auto
    show "pos \<le> length s" using behind i(2) d(2) by auto
    assume "dot" "pos - ?start = 1"
    then have "?i = ?start" using behind i by arith
    then show "s ! ?start = CHR ''.''" using \<open>dot\<close> d(1) by (simp add: one_of_def)
  qed
  show ?thesis
  proof (cases "dot \<and> pos - ?start = 1")
    case True
    then have "pos = ?start + 1" using pos(1) by arith
    moreover have "gives s ?start sf (Some (?start + 1, assign_char TYPE_DOT ?start (CHR ''.'') sf))"
      by (rule gives_char) (use p pos(3) True in simp_all)
    ultimately show ?thesis using True m by (simp add: parsed_def parse_decimal_def Let_def)
  next
    case False
    obtain q have_e have_exp where e: "exponent s pos = (q, have_e, have_exp)" by (cases "exponent s pos") auto
    let ?q = "float_suffix s q"
    have q: "pos \<le> ?q" "?q \<le> length s"
      using exponent_bound [OF pos(2) e] float_suffix_bound [of q s] by auto
    have "gives s ?start sf (Some (?q, set_cur (assigned TYPE_NUMBER ?start (?q - ?start) s (cur sf)) sf))"
      using p q pos(1) by (intro gives_assigned) auto
    moreover have "parse_decimal s sf =
        (if have_e \<and> \<not> have_exp then Some (?q, sf)
         else Some (?q, set_cur (assigned TYPE_NUMBER ?start (?q - ?start) s (cur sf)) sf))"
      using False e m q pos(1) by (auto simp: parse_decimal_def Let_def size_minus_some assign_some)
    ultimately show ?thesis using q pos(1) by (auto simp: parsed_def)
  qed
qed

lemma number_goes:
  assumes "at_token s sf" and "is_digit (s ! sf_pos sf) \<or> s ! sf_pos sf = CHR ''.''"
  shows "parsed s sf (parse_number s sf)"
proof (cases "radix_digits s (sf_pos sf)")
  case None
  then show ?thesis using decimal_goes [OF assms] by (simp add: parse_number_def Let_def)
next
  case (Some digits)
  then have two: "sf_pos sf + 2 \<le> length s" by (auto simp: radix_digits_def one_of_def split: if_splits)
  obtain k where k: "strlenspn s (sf_pos sf + 2) (length s - (sf_pos sf + 2)) digits = Some k" "sf_pos sf + 2 + k \<le> length s"
    using strlenspn_some [OF two] by blast
  have "has_cur sf" using assms(1) by (simp add: at_token_def)
  then show ?thesis
    using Some two k
    by (auto simp: parsed_def parse_number_def Let_def size_minus_some assign_some intro!: gives_assigned)
qed

context word_lookup
begin

lemma money_gives:
  assumes "at_token s sf" and "s ! sf_pos sf = CHR ''$''"
  shows "gives s (sf_pos sf) sf (parse_money lookup s sf)"
proof (cases "sf_pos sf + 1 = length s")
  case True
  have "gives s (sf_pos sf) sf (Some (sf_pos sf + 1, assign_char TYPE_BAREWORD (sf_pos sf) (CHR ''$'') sf))"
    by (rule gives_char) (use assms in \<open>simp_all add: at_token_def\<close>)
  then show ?thesis using True by (simp add: parse_money_def Let_def)
next
  case False
  then have two: "sf_pos sf + 1 < length s" "has_cur sf" using assms(1) by (simp_all add: at_token_def)
  obtain k where k: "strlenspn s (sf_pos sf + 1) (length s - (sf_pos sf + 1)) ''0123456789.,'' = Some k" "sf_pos sf + 1 + k \<le> length s"
    using strlenspn_some [of "sf_pos sf + 1" s] two by auto
  have "word_byte (s ! sf_pos sf)" using assms(2) by (simp add: word_byte_def in_cstring_def word_stops_def)
  then have "gives s (sf_pos sf) sf (parse_word lookup s sf)" by (rule word_gives [OF assms(1)])
  moreover have "gives s (sf_pos sf) sf (Some (sf_pos sf + 1 + k, set_cur (assigned TYPE_NUMBER (sf_pos sf) (1 + k) s (cur sf)) sf))"
    using two k by (intro gives_assigned) auto
  ultimately show ?thesis
    using False two k money_string_gives [OF assms(1) two(1) assms(2)]
    by (simp add: parse_money_def Let_def read_at_some size_minus_some assign_some)
qed

end

section \<open>The table of the parsers\<close>

text \<open>What a parser needs of the byte it is called at.\<close>

definition fits :: "parse_fn \<Rightarrow> char \<Rightarrow> bool" where
  "fits f c =
     (case f of
        Parse_word \<Rightarrow> word_byte c | Parse_ustring \<Rightarrow> word_byte c | Parse_qstring \<Rightarrow> word_byte c
      | Parse_nqstring \<Rightarrow> word_byte c | Parse_xstring \<Rightarrow> word_byte c | Parse_bstring \<Rightarrow> word_byte c
      | Parse_estring \<Rightarrow> word_byte c | Parse_money \<Rightarrow> c = CHR ''$'' | Parse_hash \<Rightarrow> c = CHR ''#''
      | Parse_dash \<Rightarrow> c = CHR ''-'' | Parse_backslash \<Rightarrow> c = TYPE_BACKSLASH
      | Parse_number \<Rightarrow> is_digit c \<or> c = CHR ''.''
      | Parse_char \<Rightarrow> c \<noteq> NUL \<and> c \<noteq> TYPE_COMMENT
      | _ \<Rightarrow> True)"

lemma map_fits_all: "list_all (\<lambda>(f, c). fits f c) (zip char_parse_map Enum.enum)"
  by code_simp

lemma length_map: "length char_parse_map = 256"
  by (simp add: char_parse_map_def)

lemma map_fits: "fits (char_parse_map ! ord c) c"
proof -
  have c: "ord c < 256" "(Enum.enum :: char list) ! ord c = c" "length (Enum.enum :: char list) = 256"
    using ord_less_256 [of c] by (simp_all add: enum_char_unfold del: upt_rec_numeral)
  then have "(char_parse_map ! ord c, c) \<in> set (zip char_parse_map Enum.enum)"
    using length_map by (auto simp: set_zip intro!: exI [of _ "ord c"])
  then show ?thesis using map_fits_all by (force simp: list_all_iff)
qed

context word_lookup
begin

lemma parser_goes:
  assumes "at_token s sf"
  shows "parsed s sf (sqli_parser (char_parse_map ! ord (s ! sf_pos sf)) lookup s sf)"
proof -
  have p: "sf_pos sf < length s" "has_cur sf" using assms by (simp_all add: at_token_def)
  show ?thesis
    using map_fits [of "s ! sf_pos sf"] operator1_gives [OF assms] operator2_gives [OF assms] other_gives [OF assms]
      char_gives [OF assms] hash_gives [OF assms] dash_gives [OF assms] slash_gives [OF assms]
      backslash_gives [OF assms] string_gives [OF assms] word_gives [OF assms] var_gives [OF assms]
      number_goes [OF assms] tick_gives [of sf "sf_pos sf" s lookup] ustring_gives [OF assms]
      qstring_core_gives [OF assms] nqstring_gives [OF assms] digits_token_gives [OF assms]
      estring_gives [OF assms] bword_gives [OF assms] money_gives [OF assms] p
    by (cases "char_parse_map ! ord (s ! sf_pos sf)")
      (simp_all add: sqli_parser_def fits_def parsed_def parse_white_def parse_qstring_def parse_bstring_def parse_xstring_def)
qed

end

end
