(* ===== verification/SqliSafe.thy ===== *)
theory SqliSafe
  imports SqliParse SqliCheck
begin

text \<open>
  The tokenizer and the folding end on every input, without a read outside the input or the array of the tokens:
  the invariant of the loop of \<open>libinjection_sqli_fold\<close> and the measure by which it ends.
\<close>

section \<open>The tokenizer\<close>

text \<open>What a call of the tokenizer promises: a token of the input behind the old position, or none.\<close>

definition tokenized :: "bytes \<Rightarrow> sqli_state \<Rightarrow> (bool \<times> sqli_state) option \<Rightarrow> bool" where
  "tokenized s sf r \<longleftrightarrow>
     (\<exists>m sf'. r = Some (m, sf')
        \<and> sf_flags sf' = sf_flags sf \<and> sf_current sf' = sf_current sf
        \<and> sf_tokenvec sf' = (sf_tokenvec sf)[sf_current sf := cur sf']
        \<and> sf_pos sf \<le> sf_pos sf' \<and> sf_pos sf' \<le> length s
        \<and> (if m then sf_pos sf < sf_pos sf' \<and> raw_at s (sf_pos sf) (sf_pos sf') (cur sf')
             \<and> st_type (cur sf') \<noteq> NUL \<and> sf_tokens sf' = sf_tokens sf + 1
           else sf_tokens sf' = sf_tokens sf))"

lemma tokenized_same:
  assumes "same_but_cur sf sf'" and "has_cur sf" and "sf_pos sf \<le> sf_pos sf'" and "tokenized s sf' r"
  shows "tokenized s sf r"
proof -
  obtain m t where t: "r = Some (m, t)" "sf_flags t = sf_flags sf'" "sf_current t = sf_current sf'"
    "sf_tokenvec t = (sf_tokenvec sf')[sf_current sf' := cur t]" "sf_pos sf' \<le> sf_pos t" "sf_pos t \<le> length s"
    "if m then sf_pos sf' < sf_pos t \<and> raw_at s (sf_pos sf') (sf_pos t) (cur t) \<and> st_type (cur t) \<noteq> NUL
       \<and> sf_tokens t = sf_tokens sf' + 1 else sf_tokens t = sf_tokens sf'"
    using assms(4) by (auto simp: tokenized_def)
  have s: "sf_flags sf' = sf_flags sf" "sf_current sf' = sf_current sf" "sf_tokens sf' = sf_tokens sf"
    "sf_tokenvec sf' = (sf_tokenvec sf)[sf_current sf := cur sf']"
    using assms(1) by (simp_all add: same_but_cur_def)
  have "sf_tokenvec t = (sf_tokenvec sf)[sf_current sf := cur t]"
    by (metis t(4) s(2,4) list_update_overwrite)
  then show ?thesis
    using t s assms(3) raw_mono [of s "sf_pos sf'" "sf_pos t" "cur t" "sf_pos sf" "sf_pos t"]
    unfolding tokenized_def by (intro exI [of _ m] exI [of _ t]) auto
qed

lemma tokenized_none: "has_cur sf \<Longrightarrow> sf_pos sf \<le> length s \<Longrightarrow> tokenized s sf (Some (False, sf))"
  unfolding tokenized_def by (intro exI [of _ False] exI [of _ sf]) (simp add: cur_def)

lemma tokenized_token:
  assumes "gives s (sf_pos sf) sf (Some (q, sf'))"
  shows "tokenized s sf (Some (True, sf'\<lparr>sf_pos := q, sf_tokens := Suc (sf_tokens sf')\<rparr>))"
  using assms unfolding tokenized_def gives_def same_but_cur_def
  by (intro exI [of _ True] exI [of _ "sf'\<lparr>sf_pos := q, sf_tokens := Suc (sf_tokens sf')\<rparr>"]) simp

context word_lookup
begin

lemma tokenize_loop_tokenized:
  "has_cur sf \<Longrightarrow> sf_pos sf \<le> length s \<Longrightarrow> st_type (cur sf) = NUL \<Longrightarrow> tokenized s sf (tokenize_loop lookup s sf)"
proof (induction "length s - sf_pos sf" arbitrary: sf rule: less_induct)
  case less
  show ?case
  proof (cases "sf_pos sf < length s")
    case False
    then show ?thesis
      using less.prems by (subst tokenize_loop.simps) (simp add: tokenized_none)
  next
    case True
    then have "parsed s sf (sqli_parser (char_parse_map ! ord (s ! sf_pos sf)) lookup s sf)"
      using parser_goes less.prems by (simp add: at_token_def)
    then obtain q sf' where r: "sqli_parser (char_parse_map ! ord (s ! sf_pos sf)) lookup s sf = Some (q, sf')"
      "sf_pos sf < q" "q \<le> length s" "same_but_cur sf sf'"
      "raw_at s (sf_pos sf) q (cur sf') \<and> st_type (cur sf') \<noteq> NUL \<or> sf' = sf"
      by (fastforce simp: parsed_def gives_def)
    let ?sf = "sf'\<lparr>sf_pos := q\<rparr>"
    show ?thesis
    proof (cases "st_type (cur sf') = NUL")
      case none: True
      have "has_cur ?sf" using same_has_cur [OF r(4)] less.prems by simp
      then have "tokenized s ?sf (tokenize_loop lookup s ?sf)"
        using less.hyps [of ?sf] r(2,3) none True by simp
      then have "tokenized s sf (tokenize_loop lookup s ?sf)"
        by (rule tokenized_same [rotated 3]) (use r less.prems in simp_all)
      then show ?thesis
        using True r(1) none by (subst tokenize_loop.simps) simp
    next
      case False
      then have "gives s (sf_pos sf) sf (Some (q, sf'))" using r less.prems(3) by (auto simp: gives_def)
      then show ?thesis
        using True r(1) False tokenized_token by (subst tokenize_loop.simps) simp
    qed
  qed
qed

lemma tokenize_tokenized:
  assumes "has_cur sf" and "sf_pos sf \<le> length s"
  shows "tokenized s sf (libinjection_sqli_tokenize lookup s sf)"
proof (cases "s = []")
  case True
  then show ?thesis using assms by (simp add: libinjection_sqli_tokenize_def tokenized_none)
next
  case False
  let ?sf = "set_cur st_clear sf"
  have same: "same_but_cur sf ?sf" "has_cur ?sf" using assms by simp_all
  show ?thesis
  proof (cases "sf_pos sf = 0 \<and> sf_flags sf AND (FLAG_QUOTE_SINGLE OR FLAG_QUOTE_DOUBLE) \<noteq> 0")
    case True
    have "gives s 0 sf (parse_string_core s 0 (flag2delim (sf_flags sf)) 0 ?sf)"
      by (rule gives_same [OF same(1)], rule core_gives) (use False same in simp_all)
    then obtain q sf' where "parse_string_core s 0 (flag2delim (sf_flags sf)) 0 ?sf = Some (q, sf')"
      "gives s (sf_pos sf) sf (Some (q, sf'))"
      using True by (auto simp: gives_def)
    then show ?thesis
      using False True tokenized_token [of s sf q sf'] by (simp add: libinjection_sqli_tokenize_def Let_def)
  next
    case no_quote: False
    have "tokenized s ?sf (tokenize_loop lookup s ?sf)"
      by (rule tokenize_loop_tokenized) (use assms in \<open>simp_all add: st_clear_def\<close>)
    then have "tokenized s sf (tokenize_loop lookup s ?sf)"
      by (rule tokenized_same [rotated 3]) (use assms in simp_all)
    then show ?thesis using False no_quote by (auto simp: libinjection_sqli_tokenize_def Let_def)
  qed
qed

end

section \<open>The invariant of the folding\<close>

text \<open>A token that counts.\<close>

definition kept :: "stoken \<Rightarrow> bool" where
  "kept t \<longleftrightarrow> tok_wf t \<and> st_type t \<noteq> NUL \<and> st_type t \<noteq> TYPE_COMMENT"

text \<open>\<open>counted\<close>: the kept tokens and the remembered comment are not more than the tokens read, and if they are all
  of them and only one is kept, they are parts of the input in this order.\<close>

definition counted :: "bytes \<Rightarrow> sqli_state \<Rightarrow> nat \<Rightarrow> stoken \<Rightarrow> bool" where
  "counted s sf pos lc \<longleftrightarrow>
     (if st_type lc = TYPE_COMMENT then
        pos + 1 < sf_tokens sf
        \<or> pos + 1 = sf_tokens sf
          \<and> (pos = 1 \<longrightarrow> (\<exists>q. raw_at s 0 q (sf_tokenvec sf ! 0) \<and> raw_at s q (sf_pos sf) lc)) \<and> pos \<noteq> 0
      else
        pos < sf_tokens sf
        \<or> pos = sf_tokens sf \<and> (pos = 1 \<longrightarrow> raw_at s 0 (sf_pos sf) (sf_tokenvec sf ! 0)) \<and> pos \<noteq> 0)"

definition fold_inv :: "bytes \<Rightarrow> sqli_state \<Rightarrow> nat \<Rightarrow> nat \<Rightarrow> stoken \<Rightarrow> bool" where
  "fold_inv s sf pos left lc \<longleftrightarrow>
     length (sf_tokenvec sf) = 8 \<and> pos \<le> 6 \<and> left \<le> pos \<and> sf_pos sf \<le> length s
     \<and> (\<forall>i<pos. kept (sf_tokenvec sf ! i)) \<and> counted s sf pos lc"

text \<open>What is left to do: the rest of the input counts most, then the tokens, of which a backslash and an
  SQL type may still change.\<close>

definition weight :: "stoken \<Rightarrow> nat" where
  "weight t = (if st_type t = TYPE_BACKSLASH then 5 else if st_type t = TYPE_SQLTYPE then 3 else 4)"

definition load :: "bytes \<Rightarrow> sqli_state \<Rightarrow> nat \<Rightarrow> nat" where
  "load s sf pos = 10 * (length s - sf_pos sf) + sum_list (map weight (take pos (sf_tokenvec sf)))"

text \<open>Rules that only change the type of the token at \<open>left\<close> or behind it.\<close>

definition urge :: "sqli_state \<Rightarrow> nat \<Rightarrow> nat" where
  "urge sf left =
     (let a = st_type (sf_tokenvec sf ! left); b = st_type (sf_tokenvec sf ! (left + 1))
      in (if a = TYPE_KEYWORD then 2 else if a = TYPE_BAREWORD \<or> a = TYPE_VARIABLE then 1 else 0)
         + (if b = TYPE_FUNCTION then 1 else 0))"

definition todo :: "bytes \<Rightarrow> bool \<Rightarrow> nat \<Rightarrow> nat \<Rightarrow> sqli_state \<Rightarrow> nat" where
  "todo s m pos left sf =
     100 * load s sf pos + (if m \<and> left < MAX_TOKENS then 50 else 0) + 5 * (6 - left) + urge sf left"

lemma weight_bounds: "3 \<le> weight t" "weight t \<le> 5"
  by (simp_all add: weight_def)

lemma urge_bound: "urge sf left \<le> 3"
  by (simp add: urge_def Let_def)

lemma todo_load: "load s sf' pos' < load s sf pos \<Longrightarrow> todo s m' pos' left' sf' < todo s m pos left sf"
proof -
  assume l: "load s sf' pos' < load s sf pos"
  have "todo s m' pos' left' sf' \<le> 100 * load s sf' pos' + 50 + 30 + 3"
    using urge_bound [of sf' left'] by (auto simp: todo_def)
  also have "\<dots> < 100 * load s sf pos" using l by simp
  also have "\<dots> \<le> todo s m pos left sf" by (simp add: todo_def)
  finally show ?thesis .
qed

lemma sum_take_update:
  "i < p \<Longrightarrow> p \<le> length xs \<Longrightarrow>
    sum_list (map weight (take p (xs[i := t]))) + weight (xs ! i) = sum_list (map weight (take p xs)) + weight t"
  using sum_list_update [of i "map weight (take p xs)" "weight t"] elem_le_sum_list [of i "map weight (take p xs)"]
  by (simp add: take_update_swap map_update)

lemma sum_take_less: "q < p \<Longrightarrow> p \<le> length xs \<Longrightarrow> sum_list (map weight (take q xs)) + 3 \<le> sum_list (map weight (take p xs))"
proof (induction p)
  case (Suc p)
  have "sum_list (map weight (take (Suc p) xs)) = sum_list (map weight (take p xs)) + weight (xs ! p)"
    using Suc.prems by (simp add: take_Suc_conv_app_nth)
  then show ?case using Suc weight_bounds(1) [of "xs ! p"] by (cases "q = p") auto
qed simp

subsection \<open>What a rule does to the invariant and to the measure\<close>

lemma set_tok_fields [simp]:
  "sf_pos (set_tok i t sf) = sf_pos sf" "sf_tokens (set_tok i t sf) = sf_tokens sf"
  "sf_tokenvec (set_tok i t sf) = (sf_tokenvec sf)[i := t]"
  by (simp_all add: set_tok_def)

lemma folded_simps [simp]:
  "fold_inv s (folded n sf) pos left lc = fold_inv s sf pos left lc"
  "load s (folded n sf) pos = load s sf pos"
  "todo s m pos left (folded n sf) = todo s m pos left sf"
  by (simp_all add: folded_def fold_inv_def counted_def load_def todo_def urge_def Let_def)

lemma inv_step:
  assumes "fold_inv s sf pos left lc" and "2 \<le> pos" and "pos' \<le> pos" and "left' \<le> pos'"
    and "sf_pos sf' = sf_pos sf" and "sf_tokens sf' = sf_tokens sf" and "length (sf_tokenvec sf') = 8"
    and "\<forall>i<pos'. kept (sf_tokenvec sf' ! i)"
  shows "fold_inv s sf' pos' left' lc"
  using assms by (auto simp: fold_inv_def counted_def split: if_splits)

lemma inv_fewer: "fold_inv s sf pos left lc \<Longrightarrow> 2 \<le> pos \<Longrightarrow> pos' \<le> pos \<Longrightarrow> left' \<le> pos' \<Longrightarrow> fold_inv s sf pos' left' lc"
  by (rule inv_step) (auto simp: fold_inv_def)

lemma kept_update: "\<forall>i<p. kept (xs ! i) \<Longrightarrow> kept t \<Longrightarrow> p \<le> length xs \<Longrightarrow> j < p \<Longrightarrow> kept (xs[i := t] ! j)"
  by (cases "i = j") auto

lemma inv_set_tok:
  "fold_inv s sf pos left lc \<Longrightarrow> 2 \<le> pos \<Longrightarrow> kept t \<Longrightarrow> fold_inv s (set_tok i t sf) pos left lc"
  by (rule inv_step, assumption) (auto simp: fold_inv_def intro: kept_update)

lemma load_fewer: "fold_inv s sf pos left lc \<Longrightarrow> pos' < pos \<Longrightarrow> load s sf pos' + 3 \<le> load s sf pos"
  using sum_take_less [of pos' pos "sf_tokenvec sf"] by (simp add: load_def fold_inv_def)

lemma load_set_tok:
  "fold_inv s sf pos left lc \<Longrightarrow> i < pos \<Longrightarrow>
    load s (set_tok i t sf) pos + weight (sf_tokenvec sf ! i) = load s sf pos + weight t"
  using sum_take_update [of i pos "sf_tokenvec sf" t] by (simp add: load_def fold_inv_def)

lemma load_set_le: "fold_inv s sf pos left lc \<Longrightarrow> i < pos \<Longrightarrow> load s (set_tok i t sf) pos \<le> load s sf pos + 2"
  using load_set_tok [of s sf pos left lc i t] weight_bounds(1) [of "sf_tokenvec sf ! i"] weight_bounds(2) [of t] by simp

text \<open>The end of a rule that goes on with the loop.\<close>

definition continues :: "bytes \<Rightarrow> bool \<Rightarrow> stoken \<Rightarrow> sqli_state \<Rightarrow> nat \<Rightarrow> nat \<Rightarrow> sqli_state \<Rightarrow> nat \<Rightarrow> nat \<Rightarrow> bool" where
  "continues s m lc sf pos left sf' pos' left' \<longleftrightarrow>
     fold_inv s sf' pos' left' lc \<and> todo s m pos' left' sf' < todo s m pos left sf"

lemma continues_folded [simp]:
  "continues s m lc sf pos left (folded n sf') pos' left' = continues s m lc sf pos left sf' pos' left'"
  by (simp add: continues_def)

lemma continues_fewer:
  "fold_inv s sf pos left lc \<Longrightarrow> 2 \<le> pos \<Longrightarrow> pos' < pos \<Longrightarrow> left' \<le> pos' \<Longrightarrow> continues s m lc sf pos left sf pos' left'"
  using inv_fewer [of s sf pos left lc pos' left'] load_fewer [of s sf pos left lc pos']
  by (simp add: continues_def todo_load)

lemma set_fewer:
  assumes "fold_inv s sf pos left lc" and "2 \<le> pos" and "pos' < pos" and "left' \<le> pos'" and "i < pos" and "kept t"
  shows "fold_inv s (set_tok i t sf) pos' left' lc" and "load s (set_tok i t sf) pos' < load s sf pos"
proof -
  have inv: "fold_inv s (set_tok i t sf) pos left lc" by (rule inv_set_tok) (use assms in simp_all)
  then have "load s (set_tok i t sf) pos' + 3 \<le> load s (set_tok i t sf) pos" using assms(3) by (rule load_fewer)
  also have "\<dots> \<le> load s sf pos + 2" by (rule load_set_le) (use assms in simp_all)
  finally show "load s (set_tok i t sf) pos' < load s sf pos" by simp
  show "fold_inv s (set_tok i t sf) pos' left' lc" using inv_fewer [OF inv] assms by simp
qed

lemma continues_set:
  "fold_inv s sf pos left lc \<Longrightarrow> 2 \<le> pos \<Longrightarrow> pos' < pos \<Longrightarrow> left' \<le> pos' \<Longrightarrow> i < pos \<Longrightarrow> kept t \<Longrightarrow>
    continues s m lc sf pos left (set_tok i t sf) pos' left'"
  using set_fewer by (simp add: continues_def todo_load)

lemma continues_lighter:
  assumes "fold_inv s sf pos left lc" and "2 \<le> pos" and "left' \<le> pos" and "i < pos" and "kept t"
    and "weight t < weight (sf_tokenvec sf ! i)"
  shows "continues s m lc sf pos left (set_tok i t sf) pos left'"
proof -
  have "load s (set_tok i t sf) pos < load s sf pos" using load_set_tok [OF assms(1,4), of t] assms(6) by simp
  moreover have "fold_inv s (set_tok i t sf) pos left' lc"
    using inv_fewer [OF inv_set_tok [OF assms(1,2,5)] assms(2) _ assms(3)] by simp
  ultimately show ?thesis by (simp add: continues_def todo_load)
qed

lemma continues_urge:
  assumes "fold_inv s sf pos left lc" and "2 \<le> pos" and "i < pos" and "kept t"
    and "weight t = weight (sf_tokenvec sf ! i)" and "urge (set_tok i t sf) left < urge sf left"
  shows "continues s m lc sf pos left (set_tok i t sf) pos left"
  using load_set_tok [OF assms(1,3), of t] inv_set_tok [OF assms(1,2,4), of i] assms(5,6)
  by (simp add: continues_def todo_def)

lemma kept_type [simp]: "kept t \<Longrightarrow> ty \<noteq> NUL \<Longrightarrow> ty \<noteq> TYPE_COMMENT \<Longrightarrow> kept (t\<lparr>st_type := ty\<rparr>)"
  by (simp add: kept_def tok_wf_def)

lemma weight_type: "weight (t\<lparr>st_type := ty\<rparr>) = (if ty = TYPE_BACKSLASH then 5 else if ty = TYPE_SQLTYPE then 3 else 4)"
  by (simp add: weight_def)

lemma kept_nth: "fold_inv s sf pos left lc \<Longrightarrow> i < pos \<Longrightarrow> kept (sf_tokenvec sf ! i)"
  by (simp add: fold_inv_def)

lemma tok_some: "fold_inv s sf pos left lc \<Longrightarrow> i < 8 \<Longrightarrow> tok sf i = Some (sf_tokenvec sf ! i)"
  by (simp add: tok_def fold_inv_def)

section \<open>The rules\<close>

text \<open>How a rule may end.\<close>

definition fold_post :: "bytes \<Rightarrow> nat \<Rightarrow> sqli_state \<Rightarrow> bool" where
  "fold_post s n sf \<longleftrightarrow>
     length (sf_tokenvec sf) = 8 \<and> n \<le> 6 \<and> (\<forall>i<n. st_type (sf_tokenvec sf ! i) \<noteq> NUL)
     \<and> (n = 6 \<longrightarrow> st_type (sf_tokenvec sf ! 5) = TYPE_EVIL)
     \<and> (2 \<le> n \<and> sf_tokens sf \<le> 2 \<and> st_type (sf_tokenvec sf ! 1) = TYPE_COMMENT \<longrightarrow>
         (\<exists>q r. raw_at s 0 q (sf_tokenvec sf ! 0) \<and> raw_at s q r (sf_tokenvec sf ! 1)))"

definition rule_ok :: "bytes \<Rightarrow> bool \<Rightarrow> stoken \<Rightarrow> sqli_state \<Rightarrow> nat \<Rightarrow> nat \<Rightarrow> fold_act option \<Rightarrow> bool" where
  "rule_ok s m lc sf pos left r \<longleftrightarrow>
     (case r of
        None \<Rightarrow> False
      | Some (Continue sf' pos' left') \<Rightarrow> continues s m lc sf pos left sf' pos' left'
      | Some (Return sf' n) \<Rightarrow> fold_post s n sf'
      | Some (Through sf' pos' left') \<Rightarrow>
          fold_inv s sf' pos' left' lc \<and> left' \<le> left
          \<and> load s sf' pos' \<le> load s sf pos \<and> todo s m pos' left' sf' \<le> todo s m pos left sf)"

definition act3_ok :: "bytes \<Rightarrow> bool \<Rightarrow> stoken \<Rightarrow> sqli_state \<Rightarrow> nat \<Rightarrow> nat \<Rightarrow> fold_act option \<Rightarrow> bool" where
  "act3_ok s m lc sf pos left r \<longleftrightarrow>
     (case r of
        Some (Continue sf' pos' left') \<Rightarrow> continues s m lc sf pos left sf' pos' left'
      | Some (Through sf' pos' left') \<Rightarrow> continues s m lc sf pos left sf' pos' left'
      | _ \<Rightarrow> False)"

lemma rule_ok_simps:
  "rule_ok s m lc sf pos left (Some (Continue sf' pos' left')) = continues s m lc sf pos left sf' pos' left'"
  "rule_ok s m lc sf pos left (Some (Return sf' n)) = fold_post s n sf'"
  "rule_ok s m lc sf pos left (Some (Through sf' pos' left')) =
    (fold_inv s sf' pos' left' lc \<and> left' \<le> left
     \<and> load s sf' pos' \<le> load s sf pos \<and> todo s m pos' left' sf' \<le> todo s m pos left sf)"
  by (simp_all add: rule_ok_def)

lemma act3_ok_simps:
  "act3_ok s m lc sf pos left (Some (Continue sf' pos' left')) = continues s m lc sf pos left sf' pos' left'"
  "act3_ok s m lc sf pos left (Some (Through sf' pos' left')) = continues s m lc sf pos left sf' pos' left'"
  by (simp_all add: act3_ok_def)

text \<open>The rules are tried in turn; that the ones in front do not apply is never needed.\<close>

lemma if_rules:
  "(c \<Longrightarrow> rule_ok s m lc sf pos left x) \<Longrightarrow> rule_ok s m lc sf pos left y \<Longrightarrow> rule_ok s m lc sf pos left (if c then x else y)"
  "(c \<Longrightarrow> act3_ok s m lc sf pos left x) \<Longrightarrow> act3_ok s m lc sf pos left y \<Longrightarrow> act3_ok s m lc sf pos left (if c then x else y)"
  by simp_all

context word_lookup
begin

lemma merge_some:
  assumes "kept a" and "kept b"
  shows "\<exists>r. syntax_merge_words lookup a b = Some r \<and> (case r of None \<Rightarrow> True | Some t \<Rightarrow> kept t)"
proof -
  let ?tmp = "st_val a @ '' '' @ st_val b"
  have len: "st_len a = length (st_val a)" "st_len b = length (st_val b)" using assms by (simp_all add: kept_def tok_wf_def)
  have r: "read_bytes (st_val a) 0 (st_len a) = Some (st_val a)" "read_bytes (st_val b) 0 (st_len b) = Some (st_val b)"
    using len by (simp_all add: read_bytes_some)
  have t: "st_assign (lookup ?tmp) (st_pos a) (st_len a + st_len b + 1) ?tmp 0 a
      = Some (a\<lparr>st_type := lookup ?tmp, st_pos := st_pos a, st_len := length ?tmp, st_val := ?tmp\<rparr>)"
    if "st_len a + st_len b + 1 < TOKEN_SIZE"
    using that len by (simp add: st_assign_def read_bytes_some Let_def)
  show ?thesis
    using r t len no_comment [of ?tmp]
    by (auto simp: syntax_merge_words_def Let_def kept_def tok_wf_def)
qed

lemma fold_two_ok:
  assumes inv: "fold_inv s sf pos left lc" and left: "left < 5" and two: "2 \<le> pos - left"
  shows "rule_ok s m lc sf pos left (fold_two lookup sf pos left)"
proof -
  let ?a = "sf_tokenvec sf ! left" and ?b = "sf_tokenvec sf ! (left + 1)"
  have bounds: "left + 2 \<le> pos" "pos \<le> 6" "2 \<le> pos" "length (sf_tokenvec sf) = 8" using inv two by (auto simp: fold_inv_def)
  have toks: "tok sf left = Some ?a" "tok sf (left + 1) = Some ?b" using tok_some [OF inv] left by simp_all
  have kept: "kept ?a" "kept ?b" using kept_nth [OF inv] bounds by simp_all
  obtain merged where merged: "syntax_merge_words lookup ?a ?b = Some merged" "case merged of None \<Rightarrow> True | Some t \<Rightarrow> kept t"
    using merge_some [OF kept] by blast
  have fewer: "continues s m lc sf pos left sf (pos - 1) l" if "l \<le> left" for l
    using continues_fewer [OF inv bounds(3)] that bounds by simp
  have fewer2: "continues s m lc sf pos left sf (pos - 2) 0"
    using continues_fewer [OF inv bounds(3)] bounds by simp
  have set: "continues s m lc sf pos left (set_tok left t sf) (pos - 1) l" if "l \<le> left" and "kept t" for l t
    using continues_set [OF inv bounds(3), of "pos - 1" l left t] that bounds by simp
  have urge: "continues s m lc sf pos left (set_tok left (?a\<lparr>st_type := ty\<rparr>) sf) pos left"
    if "st_type ?a = TYPE_KEYWORD \<and> ty \<in> {TYPE_OPERATOR, TYPE_BAREWORD} \<or> type_in ?a ''nv'' \<and> ty = TYPE_FUNCTION" for ty
    using that bounds kept
    by (intro continues_urge [OF inv bounds(3)]) (auto simp: weight_type weight_def urge_def type_in_def)
  have tsql: "continues s m lc sf pos left (set_tok (left + 1) (?b\<lparr>st_type := TYPE_TSQL\<rparr>) sf) pos left"
    if "st_type ?a = TYPE_SEMICOLON" and "st_type ?b = TYPE_FUNCTION"
    using that bounds kept
    by (intro continues_urge [OF inv bounds(3)]) (auto simp: weight_type weight_def urge_def)
  have number: "continues s m lc sf pos left (set_tok left (?a\<lparr>st_type := TYPE_NUMBER\<rparr>) sf) pos 0"
    if "st_type ?a = TYPE_BACKSLASH"
    using that bounds kept by (intro continues_lighter [OF inv bounds(3)]) (auto simp: weight_type weight_def)
  have like: "fold_inv s (set_tok left (?a\<lparr>st_type := TYPE_FUNCTION\<rparr>) sf) pos left lc"
    "load s (set_tok left (?a\<lparr>st_type := TYPE_FUNCTION\<rparr>) sf) pos = load s sf pos"
    "todo s m pos left (set_tok left (?a\<lparr>st_type := TYPE_FUNCTION\<rparr>) sf) \<le> todo s m pos left sf" if "st_type ?a = TYPE_OPERATOR"
  proof -
    let ?f = "?a\<lparr>st_type := TYPE_FUNCTION\<rparr>"
    show "fold_inv s (set_tok left ?f sf) pos left lc" using inv_set_tok [OF inv bounds(3)] kept by simp
    have "load s (set_tok left ?f sf) pos + 4 = load s sf pos + 4"
      using load_set_tok [OF inv, of left ?f] bounds(1) that by (simp add: weight_type weight_def)
    then show l: "load s (set_tok left ?f sf) pos = load s sf pos" by simp
    show "todo s m pos left (set_tok left ?f sf) \<le> todo s m pos left sf"
      using l that bounds by (simp add: todo_def urge_def)
  qed
  have collate: "fold_inv s (set_tok (left + 1) (?b\<lparr>st_type := TYPE_SQLTYPE\<rparr>) sf) pos 0 lc"
    "load s (set_tok (left + 1) (?b\<lparr>st_type := TYPE_SQLTYPE\<rparr>) sf) pos \<le> load s sf pos"
    "todo s m pos 0 (set_tok (left + 1) (?b\<lparr>st_type := TYPE_SQLTYPE\<rparr>) sf) \<le> todo s m pos left sf"
    if "st_type ?b = TYPE_BAREWORD"
    using continues_lighter [OF inv bounds(3), of 0 "left + 1" "?b\<lparr>st_type := TYPE_SQLTYPE\<rparr>" m] kept
      load_set_tok [OF inv, of "left + 1" "?b\<lparr>st_type := TYPE_SQLTYPE\<rparr>"] bounds that
    by (simp_all add: weight_type weight_def continues_def)
  have evil: "fold_post s (Suc (Suc left)) (set_tok (left + 1) (?b\<lparr>st_type := TYPE_EVIL\<rparr>) sf)"
  proof -
    have "kept ((sf_tokenvec sf)[left + 1 := ?b\<lparr>st_type := TYPE_EVIL\<rparr>] ! i)" if "i < left + 2" for i
      by (rule kept_update [of "left + 2"]) (use inv kept bounds that in \<open>auto simp: fold_inv_def\<close>)
    then show ?thesis using bounds left by (auto simp: fold_post_def kept_def)
  qed
  have minus: "size_minus pos 1 = Some (pos - 1)" "size_minus pos 2 = Some (pos - 2)"
    using bounds by (simp_all add: size_minus_some)
  have merge: "kept t" if "merged = Some t" for t
    using merged(2) that by auto
  show ?thesis
    unfolding fold_two_def toks minus merged(1) bind.bind_lunit
    by (intro if_rules; clarify?;
        simp add: rule_ok_simps fewer fewer2 set urge tsql number like collate evil merge inv kept del: One_nat_def)
qed

end

text \<open>The rules for three tokens never return.\<close>

lemma fold_three_ok:
  assumes inv: "fold_inv s sf pos left lc" and left: "left < 5" and three: "3 \<le> pos - left"
  shows "act3_ok s m lc sf pos left (fold_three sf pos left)"
proof -
  let ?a = "sf_tokenvec sf ! left" and ?b = "sf_tokenvec sf ! (left + 1)" and ?c = "sf_tokenvec sf ! (left + 2)"
  have bounds: "left + 3 \<le> pos" "pos \<le> 6" "2 \<le> pos" "3 \<le> pos" using inv three by (auto simp: fold_inv_def)
  have toks: "tok sf left = Some ?a" "tok sf (left + 1) = Some ?b" "tok sf (left + 2) = Some ?c"
    using tok_some [OF inv] left by simp_all
  have kept: "kept ?a" "kept ?b" "kept ?c" using kept_nth [OF inv] bounds by simp_all
  have minus: "size_minus pos 1 = Some (pos - 1)" "size_minus pos 2 = Some (pos - 2)" "size_minus pos 3 = Some (pos - 3)"
    using bounds by (simp_all add: size_minus_some)
  have fewer: "continues s m lc sf pos left sf (pos - 2) 0" using continues_fewer [OF inv bounds(3)] bounds by simp
  have set: "continues s m lc sf pos left (set_tok (left + 1) ?c sf) (pos - 1) 0"
    "continues s m lc sf pos left (set_tok (left + 1) ?c sf) (pos - 3) 0"
    using continues_set [OF inv bounds(3), of _ 0 "left + 1" ?c] kept(3) bounds by simp_all
  have stays: "continues s m lc sf pos left sf' pos (left + 1)"
    if "fold_inv s sf' pos left lc" and "load s sf' pos = load s sf pos" for sf'
    using inv_fewer [OF that(1) bounds(3), of pos "left + 1"] that(2) bounds left urge_bound [of sf' "left + 1"]
    by (auto simp: continues_def todo_def)
  have user: "continues s m lc sf pos left (set_tok left (?a\<lparr>st_type := TYPE_BAREWORD\<rparr>) sf) pos (left + 1)"
    if "st_type ?a = TYPE_FUNCTION"
    using inv_set_tok [OF inv bounds(3), of "?a\<lparr>st_type := TYPE_BAREWORD\<rparr>" left] kept
      load_set_tok [OF inv, of left "?a\<lparr>st_type := TYPE_BAREWORD\<rparr>"] bounds that
    by (intro stays) (simp_all add: weight_type weight_def)
  show ?thesis
    unfolding fold_three_def toks minus bind.bind_lunit if_P [OF bounds(4)]
    by (intro if_rules; clarify?; simp add: act3_ok_simps fewer set user stays inv del: One_nat_def add_2_eq_Suc')
qed

lemma fold_five_ok:
  assumes inv: "fold_inv s sf pos left lc"
  shows "\<exists>sf' pos' left'. fold_five sf pos left = Some (sf', pos', left') \<and> fold_inv s sf' pos' left' lc
    \<and> (sf' = sf \<and> pos' = pos \<and> left' = left \<or> load s sf' pos' < load s sf pos)"
proof (cases "MAX_TOKENS \<le> pos \<and> five_pattern (sf_tokenvec sf)")
  case False
  then show ?thesis using inv by (auto simp: fold_five_def fold_inv_def MAX_TOKENS_def)
next
  case True
  then have pos: "5 \<le> pos" "2 \<le> pos" by (simp_all add: MAX_TOKENS_def)
  show ?thesis
  proof (cases "pos = 5")
    case five: True
    then show ?thesis
      using True inv_fewer [OF inv pos(2), of 1 0] load_fewer [OF inv, of 1] inv
      by (auto simp: fold_five_def MAX_TOKENS_def fold_inv_def)
  next
    case False
    let ?sf = "set_tok 1 (sf_tokenvec sf ! 5) sf"
    have "fold_inv s ?sf 2 0 lc" "load s ?sf 2 < load s sf pos"
      using set_fewer [OF inv pos(2), of 2 0 1] kept_nth [OF inv, of 5] False pos by simp_all
    then show ?thesis
      using True False pos inv tok_some [OF inv, of 5]
      by (auto simp: fold_five_def MAX_TOKENS_def fold_inv_def)
  qed
qed

text \<open>Reading tokens keeps the invariant; each of them costs more of the input than it adds.\<close>

definition reads :: "bytes \<Rightarrow> nat \<Rightarrow> bool \<Rightarrow> sqli_state \<Rightarrow> nat \<Rightarrow> nat \<Rightarrow> (bool \<times> nat \<times> stoken \<times> sqli_state) option \<Rightarrow> bool" where
  "reads s n m sf pos left r \<longleftrightarrow>
     (\<exists>m' pos' lc' sf'. r = Some (m', pos', lc', sf') \<and> fold_inv s sf' pos' left lc' \<and> (m' \<longrightarrow> m) \<and> pos \<le> pos'
        \<and> take pos (sf_tokenvec sf') = take pos (sf_tokenvec sf)
        \<and> (load s sf' pos' < load s sf pos \<or> pos' = pos \<and> load s sf' pos' \<le> load s sf pos)
        \<and> (m' \<and> pos' \<le> 5 \<longrightarrow> n \<le> pos' - left))"

lemma reads_token:
  assumes inv: "fold_inv s sf pos left lc" and pos: "pos \<le> 5"
    and tok: "tokenized s (sf\<lparr>sf_current := pos\<rparr>) (Some (True, sf'))"
  shows "st_type (cur sf') = TYPE_COMMENT \<Longrightarrow> fold_inv s sf' pos left (cur sf') \<and> load s sf' pos < load s sf pos"
    and "st_type (cur sf') \<noteq> TYPE_COMMENT \<Longrightarrow>
      fold_inv s sf' (pos + 1) left (lc\<lparr>st_type := NUL\<rparr>) \<and> load s sf' (pos + 1) < load s sf pos"
    and "take pos (sf_tokenvec sf') = take pos (sf_tokenvec sf)"
proof -
  have vec: "sf_tokenvec sf' = (sf_tokenvec sf)[pos := cur sf']" "length (sf_tokenvec sf) = 8"
    and p: "sf_pos sf < sf_pos sf'" "sf_pos sf' \<le> length s"
    and raw: "raw_at s (sf_pos sf) (sf_pos sf') (cur sf')" "st_type (cur sf') \<noteq> NUL"
    and n: "sf_tokens sf' = sf_tokens sf + 1"
    using tok inv by (auto simp: tokenized_def fold_inv_def)
  show "take pos (sf_tokenvec sf') = take pos (sf_tokenvec sf)" by (simp add: vec)
  have old: "\<forall>i<pos. kept (sf_tokenvec sf' ! i)" using inv by (simp add: fold_inv_def vec(1))
  have l: "load s sf' pos + 10 \<le> load s sf pos"
    using p by (simp add: load_def vec(1))
  have new: "sf_tokenvec sf' ! pos = cur sf'" using vec pos by simp
  have l1: "load s sf' (pos + 1) = load s sf' pos + weight (cur sf')"
    using vec pos new by (simp add: load_def take_Suc_conv_app_nth)
  have first: "raw_at s 0 (sf_pos sf) (sf_tokenvec sf' ! 0)"
    if "pos = 1" and "raw_at s 0 (sf_pos sf) (sf_tokenvec sf ! 0)"
    using that by (simp add: vec(1))
  show "fold_inv s sf' pos left (cur sf') \<and> load s sf' pos < load s sf pos" if "st_type (cur sf') = TYPE_COMMENT"
  proof -
    have "counted s sf' pos (cur sf')"
      using inv that n raw(1) first by (auto simp: fold_inv_def counted_def split: if_splits)
    then show ?thesis using inv old l p(2) vec by (auto simp: fold_inv_def)
  qed
  show "fold_inv s sf' (pos + 1) left (lc\<lparr>st_type := NUL\<rparr>) \<and> load s sf' (pos + 1) < load s sf pos"
    if "st_type (cur sf') \<noteq> TYPE_COMMENT"
  proof -
    have "counted s sf' (pos + 1) (lc\<lparr>st_type := NUL\<rparr>)"
      using inv n by (auto simp: fold_inv_def counted_def split: if_splits)
    moreover have "kept (cur sf')" using raw that by (simp add: kept_def raw_at_def)
    then have "\<forall>i<pos + 1. kept (sf_tokenvec sf' ! i)" using old new by (auto simp: less_Suc_eq)
    ultimately show ?thesis using inv l l1 weight_bounds(2) [of "cur sf'"] p(2) vec pos by (auto simp: fold_inv_def)
  qed
qed

lemma reads_end:
  assumes inv: "fold_inv s sf pos left lc" and pos: "pos \<le> 5"
    and tok: "tokenized s (sf\<lparr>sf_current := pos\<rparr>) (Some (False, sf'))"
  shows "reads s n m sf pos left (Some (False, pos, lc, sf'))"
proof -
  have vec: "sf_tokenvec sf' = (sf_tokenvec sf)[pos := cur sf']" "length (sf_tokenvec sf) = 8"
    and p: "sf_pos sf \<le> sf_pos sf'" "sf_pos sf' \<le> length s" "sf_tokens sf' = sf_tokens sf"
    using tok inv by (auto simp: tokenized_def fold_inv_def)
  have old: "\<forall>i<pos. kept (sf_tokenvec sf' ! i)" using inv by (simp add: fold_inv_def vec(1))
  have raw: "raw_at s q (sf_pos sf) t \<Longrightarrow> raw_at s q (sf_pos sf') t" for q t
    using raw_mono [of s q "sf_pos sf" t q "sf_pos sf'"] p by simp
  have "counted s sf' pos lc"
    using inv raw p(3) by (auto simp: fold_inv_def counted_def vec(1) split: if_splits)
  then have "fold_inv s sf' pos left lc" using inv old vec p(2) by (auto simp: fold_inv_def)
  moreover have "load s sf' pos \<le> load s sf pos" using p by (simp add: load_def vec(1))
  ultimately show ?thesis
    unfolding reads_def
    by (intro exI [of _ False] exI [of _ pos] exI [of _ lc] exI [of _ sf']) (simp add: vec(1))
qed

lemma reads_on:
  assumes "reads s n m' sf' q left r" and "load s sf' q < load s sf pos" and "pos \<le> q" and m
    and "take pos (sf_tokenvec sf') = take pos (sf_tokenvec sf)"
  shows "reads s n m sf pos left r"
proof -
  obtain m'' pos'' lc'' sf'' where r: "r = Some (m'', pos'', lc'', sf'')" "fold_inv s sf'' pos'' left lc''" "q \<le> pos''"
    "take q (sf_tokenvec sf'') = take q (sf_tokenvec sf')" "load s sf'' pos'' < load s sf' q \<or> pos'' = q \<and> load s sf'' pos'' \<le> load s sf' q"
    "m'' \<and> pos'' \<le> 5 \<longrightarrow> n \<le> pos'' - left"
    using assms(1) unfolding reads_def by (elim exE conjE) (rule that)
  have "take pos (sf_tokenvec sf'') = take pos (take q (sf_tokenvec sf''))" using assms(3) by (simp add: min_absorb1)
  also have "\<dots> = take pos (sf_tokenvec sf)" using r(4) assms(3,5) by (simp add: min_absorb1)
  finally show ?thesis
    unfolding reads_def using r assms(2-4)
    by (intro exI [of _ m''] exI [of _ pos''] exI [of _ lc''] exI [of _ sf'']) auto
qed

context word_lookup
begin

lemma get_tokens_reads: "fold_inv s sf pos left lc \<Longrightarrow> reads s n m sf pos left (get_tokens lookup s n left m pos lc sf)"
proof (induction "length s - sf_pos sf" arbitrary: m pos lc sf rule: less_induct)
  case less
  have le: "left \<le> pos" "length (sf_tokenvec sf) = 8" "sf_pos sf \<le> length s" using less.prems by (simp_all add: fold_inv_def)
  show ?case
  proof (cases "m \<and> pos \<le> 5 \<and> pos - left < n")
    case False
    then have "get_tokens lookup s n left m pos lc sf = Some (m, pos, lc, sf)"
      using le by (subst get_tokens.simps) (simp add: size_minus_some MAX_TOKENS_def)
    then show ?thesis
      unfolding reads_def using less.prems False
      by (intro exI [of _ m] exI [of _ pos] exI [of _ lc] exI [of _ sf]) auto
  next
    case True
    let ?sf = "sf\<lparr>sf_current := pos\<rparr>"
    have "tokenized s ?sf (libinjection_sqli_tokenize lookup s ?sf)"
      by (rule tokenize_tokenized) (use le True in simp_all)
    moreover from this obtain m' sf' where r: "libinjection_sqli_tokenize lookup s ?sf = Some (m', sf')"
      by (auto simp: tokenized_def)
    ultimately have t: "tokenized s ?sf (Some (m', sf'))" by simp
    have step: "get_tokens lookup s n left m pos lc sf =
        (if \<not> m' then Some (m', pos, lc, sf')
         else if st_type (cur sf') = TYPE_COMMENT then get_tokens lookup s n left m' pos (cur sf') sf'
         else get_tokens lookup s n left m' (pos + 1) (lc\<lparr>st_type := NUL\<rparr>) sf')"
      using True le r by (subst get_tokens.simps) (simp add: size_minus_some MAX_TOKENS_def)
    show ?thesis
    proof (cases m')
      case False
      then show ?thesis using reads_end [OF less.prems] True t step by simp
    next
      case m': True
      then have t: "tokenized s ?sf (Some (True, sf'))" using t by simp
      then have shorter: "length s - sf_pos sf' < length s - sf_pos sf" by (auto simp: tokenized_def)
      note tok = reads_token [OF less.prems _ t]
      show ?thesis
      proof (cases "st_type (cur sf') = TYPE_COMMENT")
        case comment: True
        then have "reads s n m' sf' pos left (get_tokens lookup s n left m' pos (cur sf') sf')"
          using tok(1) True by (intro less.hyps [OF shorter]) auto
        then show ?thesis
          using comment tok(1,3) True m' step by (auto intro: reads_on)
      next
        case False
        then have "reads s n m' sf' (pos + 1) left (get_tokens lookup s n left m' (pos + 1) (lc\<lparr>st_type := NUL\<rparr>) sf')"
          using tok(2) True by (intro less.hyps [OF shorter]) auto
        then show ?thesis
          using False tok(2,3) True m' step by (auto intro: reads_on)
      qed
    qed
  qed
qed

end

section \<open>The loop ends\<close>

lemma fold_end_post:
  assumes inv: "fold_inv s sf pos left lc" and "pos < MAX_TOKENS \<or> pos \<le> 6"
  shows "(\<lambda>(n, sf'). fold_post s n sf') (fold_end sf pos lc)"
proof -
  have len: "length (sf_tokenvec sf) = 8" and kept: "\<forall>i<pos. kept (sf_tokenvec sf ! i)" and c: "counted s sf pos lc"
    using inv by (simp_all add: fold_inv_def)
  show ?thesis
  proof (cases "pos < MAX_TOKENS \<and> st_type lc = TYPE_COMMENT")
    case True
    have types: "st_type ((sf_tokenvec sf)[pos := lc] ! i) \<noteq> NUL" if "i < pos + 1" for i
      using that kept True len by (cases "i = pos") (auto simp: kept_def MAX_TOKENS_def)
    have "\<exists>q r. raw_at s 0 q ((sf_tokenvec sf)[pos := lc] ! 0) \<and> raw_at s q r ((sf_tokenvec sf)[pos := lc] ! 1)"
      if "1 \<le> pos" and "sf_tokens sf \<le> 2"
    proof -
      have "pos = 1" "\<exists>q. raw_at s 0 q (sf_tokenvec sf ! 0) \<and> raw_at s q (sf_pos sf) lc"
        using c True that by (auto simp: counted_def)
      then show ?thesis using len by auto
    qed
    then show ?thesis
      using True len types by (auto simp: fold_end_def fold_post_def MAX_TOKENS_def)
  next
    case False
    let ?n = "if pos > MAX_TOKENS then MAX_TOKENS else pos"
    have "fold_end sf pos lc = (?n, sf)" using False by (auto simp: fold_end_def)
    moreover have "?n \<le> pos" "?n \<le> 5" by (simp_all add: MAX_TOKENS_def)
    ultimately show ?thesis using len kept by (auto simp: fold_post_def kept_def)
  qed
qed

definition ends_well :: "bytes \<Rightarrow> (nat \<times> sqli_state) option \<Rightarrow> bool" where
  "ends_well s r \<longleftrightarrow> (case r of None \<Rightarrow> False | Some (n, sf) \<Rightarrow> fold_post s n sf)"

lemma todo_reads:
  assumes "fold_inv s sf' pos' left lc'" and "m' \<longrightarrow> m" and "left < pos'" "left + 1 < pos'"
    and "take pos (sf_tokenvec sf') = take pos (sf_tokenvec sf)"
    and "load s sf' pos' < load s sf pos \<or> pos' = pos \<and> load s sf' pos' \<le> load s sf pos"
  shows "todo s m' pos' left sf' \<le> todo s m pos left sf"
proof (cases "load s sf' pos' < load s sf pos")
  case True
  then show ?thesis using todo_load less_imp_le by blast
next
  case False
  then have "pos' = pos" "load s sf' pos' \<le> load s sf pos" using assms(6) by auto
  moreover have "sf_tokenvec sf' ! i = sf_tokenvec sf ! i" if "i < pos" for i
    using assms(5) that by (metis nth_take)
  ultimately have "urge sf' left = urge sf left" using assms(3,4) by (simp add: urge_def)
  then show ?thesis using assms(2) \<open>load s sf' pos' \<le> load s sf pos\<close> by (auto simp: todo_def)
qed

lemma todo_exhausted:
  assumes "reads s n m sf pos left (Some (m', pos', lc', sf'))" and "pos' - left < n"
    and "load s sf pos \<le> load s sf0 pos0" and m0 and "left0 < MAX_TOKENS"
  shows "todo s m' pos' pos' sf' < todo s m0 pos0 left0 sf0"
proof (cases "load s sf' pos' < load s sf0 pos0")
  case True
  then show ?thesis by (rule todo_load)
next
  case False
  then have l: "load s sf' pos' \<le> load s sf0 pos0" "\<not> (m' \<and> pos' < MAX_TOKENS)"
    using assms(1-3) by (auto simp: reads_def MAX_TOKENS_def)
  then have "todo s m' pos' pos' sf' \<le> 100 * load s sf0 pos0 + 33"
    using urge_bound [of sf' pos'] by (auto simp: todo_def)
  also have "\<dots> < todo s m0 pos0 left0 sf0" using assms(4,5) by (simp add: todo_def)
  finally show ?thesis .
qed

lemma inv_all: "fold_inv s sf pos left lc \<Longrightarrow> fold_inv s sf pos pos lc"
  by (simp add: fold_inv_def)

context word_lookup
begin

lemma fold_loop_ends: "fold_inv s sf pos left lc \<Longrightarrow> ends_well s (fold_loop lookup s m pos left lc sf)"
proof (induction "todo s m pos left sf" arbitrary: m pos left lc sf rule: less_induct)
  case less
  obtain sf1 pos1 left1 where f: "fold_five sf pos left = Some (sf1, pos1, left1)" "fold_inv s sf1 pos1 left1 lc"
    "sf1 = sf \<and> pos1 = pos \<and> left1 = left \<or> load s sf1 pos1 < load s sf pos"
    using fold_five_ok [OF less.prems] by blast
  have t1: "todo s m pos1 left1 sf1 \<le> todo s m pos left sf"
    using f(3) todo_load [of s sf1 pos1 sf pos m left1 m left] by auto
  show ?case
  proof (cases "m \<and> left1 < MAX_TOKENS")
    case False
    then have "fold_loop lookup s m pos left lc sf = Some (fold_end sf1 pos1 lc)"
      using f(1) by (subst fold_loop.simps) auto
    then show ?thesis
      using fold_end_post [OF f(2)] f(2) by (auto simp: ends_well_def fold_inv_def split: prod.splits)
  next
    case True
    then have m: m "left1 < 5" by (simp_all add: MAX_TOKENS_def)
    have IH: "ends_well s (fold_loop lookup s m' pos' left' lc' sf')"
      if "fold_inv s sf' pos' left' lc'" and "todo s m' pos' left' sf' < todo s m pos1 left1 sf1" for m' pos' left' lc' sf'
      using less.hyps [OF _ that(1)] that(2) t1 by simp
    obtain m2 pos2 lc2 sf2 where g: "get_tokens lookup s 2 left1 m pos1 lc sf1 = Some (m2, pos2, lc2, sf2)"
      using get_tokens_reads [OF f(2), of 2 m] by (auto simp: reads_def)
    then have r: "reads s 2 m sf1 pos1 left1 (Some (m2, pos2, lc2, sf2))" using get_tokens_reads [OF f(2), of 2 m] by simp
    then have inv2: "fold_inv s sf2 pos2 left1 lc2" "load s sf2 pos2 \<le> load s sf1 pos1" "left1 \<le> pos2"
      by (auto simp: reads_def fold_inv_def)
    show ?thesis
    proof (cases "pos2 - left1 < 2")
      case few: True
      have "ends_well s (fold_loop lookup s m2 pos2 pos2 lc2 sf2)"
        using IH [OF inv_all [OF inv2(1)]] todo_exhausted [OF r few _ m(1)] True by simp
      then show ?thesis
        using f(1) True g few inv2(3) by (subst fold_loop.simps) (simp add: size_minus_some)
    next
      case two: False
      have t2: "todo s m2 pos2 left1 sf2 \<le> todo s m pos1 left1 sf1"
        using todo_reads [OF inv2(1)] r two by (auto simp: reads_def)
      have ok: "rule_ok s m2 lc2 sf2 pos2 left1 (fold_two lookup sf2 pos2 left1)"
        using fold_two_ok [OF inv2(1) m(2)] two by simp
      then obtain act where act: "fold_two lookup sf2 pos2 left1 = Some act" by (auto simp: rule_ok_def split: option.splits)
      show ?thesis
      proof (cases act)
        case (Continue sf3 pos3 left3)
        then have "ends_well s (fold_loop lookup s m2 pos3 left3 lc2 sf3)"
          using ok act t2 by (intro IH) (auto simp: rule_ok_simps continues_def)
        then show ?thesis
          using f(1) True g two inv2(3) act Continue by (subst fold_loop.simps) (simp add: size_minus_some)
      next
        case (Return sf3 n)
        then have "fold_post s n sf3" using ok act by (simp add: rule_ok_simps)
        then show ?thesis
          using f(1) True g two inv2(3) act Return by (subst fold_loop.simps) (simp add: size_minus_some ends_well_def)
      next
        case (Through sf3 pos3 left3)
        then have inv3: "fold_inv s sf3 pos3 left3 lc2" "left3 < 5" "load s sf3 pos3 \<le> load s sf1 pos1"
          and t3: "todo s m2 pos3 left3 sf3 \<le> todo s m pos1 left1 sf1"
          using ok act t2 m(2) inv2(2) by (auto simp: rule_ok_simps)
        obtain m4 pos4 lc4 sf4 where g4: "get_tokens lookup s 3 left3 m2 pos3 lc2 sf3 = Some (m4, pos4, lc4, sf4)"
          using get_tokens_reads [OF inv3(1), of 3 m2] by (auto simp: reads_def)
        then have r4: "reads s 3 m2 sf3 pos3 left3 (Some (m4, pos4, lc4, sf4))"
          using get_tokens_reads [OF inv3(1), of 3 m2] by simp
        then have inv4: "fold_inv s sf4 pos4 left3 lc4" "left3 \<le> pos4"
          by (auto simp: reads_def fold_inv_def)
        have "ends_well s (if pos4 - left3 < 3 then fold_loop lookup s m4 pos4 pos4 lc4 sf4
          else
            case fold_three sf4 pos4 left3 of
              Some (Continue sf' pos' left') \<Rightarrow> fold_loop lookup s m4 pos' left' lc4 sf'
            | Some (Through sf' pos' left') \<Rightarrow> fold_loop lookup s m4 pos' left' lc4 sf'
            | _ \<Rightarrow> None)"
        proof (cases "pos4 - left3 < 3")
          case few: True
          then show ?thesis
            using IH [OF inv_all [OF inv4(1)] todo_exhausted [OF r4 few inv3(3) m(1)]] True by simp
        next
          case three: False
          have "todo s m4 pos4 left3 sf4 \<le> todo s m2 pos3 left3 sf3"
            using todo_reads [OF inv4(1)] r4 three by (auto simp: reads_def)
          moreover have "act3_ok s m4 lc4 sf4 pos4 left3 (fold_three sf4 pos4 left3)"
            using fold_three_ok [OF inv4(1) inv3(2)] three by simp
          ultimately show ?thesis
            using t3 three by (auto simp: act3_ok_def continues_def intro!: IH split: option.splits fold_act.splits)
        qed
        moreover have "fold_loop lookup s m pos left lc sf = (if pos4 - left3 < 3 then fold_loop lookup s m4 pos4 pos4 lc4 sf4
          else
            case fold_three sf4 pos4 left3 of
              Some (Continue sf' pos' left') \<Rightarrow> fold_loop lookup s m4 pos' left' lc4 sf'
            | Some (Through sf' pos' left') \<Rightarrow> fold_loop lookup s m4 pos' left' lc4 sf'
            | Some (Return sf' n) \<Rightarrow> Some (n, sf')
            | None \<Rightarrow> None)"
          using f(1) True g two inv2(3) act Through g4 inv4(2)
          by (subst fold_loop.simps) (simp add: size_minus_some split: option.split fold_act.split)
        ultimately show ?thesis by (auto simp: ends_well_def split: option.splits fold_act.splits if_splits)
      qed
    qed
  qed
qed

section \<open>The start\<close>

lemma skip_initial_ends:
  assumes "length (sf_tokenvec sf) = 8" and "sf_current sf = 0" and "sf_pos sf \<le> length s"
  shows "\<exists>m sf'. skip_initial lookup s sf = Some (m, sf') \<and> length (sf_tokenvec sf') = 8
    \<and> (m \<longrightarrow> fold_inv s sf' 1 0 st_clear)"
  using assms
proof (induction "length s - sf_pos sf" arbitrary: sf rule: less_induct)
  case less
  have "tokenized s sf (libinjection_sqli_tokenize lookup s sf)" by (rule tokenize_tokenized) (use less.prems in simp_all)
  moreover from this obtain m sf' where r: "libinjection_sqli_tokenize lookup s sf = Some (m, sf')"
    by (auto simp: tokenized_def)
  ultimately have t: "tokenized s sf (Some (m, sf'))" by simp
  have sf': "length (sf_tokenvec sf') = 8" "sf_current sf' = 0" "sf_pos sf' \<le> length s"
    using t less.prems by (auto simp: tokenized_def)
  show ?case
  proof (cases "m \<and> (type_in (cur sf') ''c(t'' \<or> st_is_unary_op (cur sf'))")
    case True
    then have "length s - sf_pos sf' < length s - sf_pos sf" using t by (auto simp: tokenized_def)
    then have "\<exists>m sf''. skip_initial lookup s sf' = Some (m, sf'') \<and> length (sf_tokenvec sf'') = 8
        \<and> (m \<longrightarrow> fold_inv s sf'' 1 0 st_clear)"
      using less.hyps sf' by blast
    moreover have "skip_initial lookup s sf = skip_initial lookup s sf'" using r True by (subst skip_initial.simps) simp
    ultimately show ?thesis by simp
  next
    case False
    then have "skip_initial lookup s sf = Some (m, sf')" using r by (subst skip_initial.simps) auto
    moreover have "fold_inv s sf' 1 0 st_clear" if m
    proof -
      have "raw_at s (sf_pos sf) (sf_pos sf') (cur sf')" "st_type (cur sf') \<noteq> NUL" "sf_tokens sf' = sf_tokens sf + 1"
        using t that by (auto simp: tokenized_def)
      moreover from this have "raw_at s 0 (sf_pos sf') (cur sf')" using raw_mono sf'(3) by blast
      moreover have "st_type (cur sf') \<noteq> TYPE_COMMENT" using False that by (simp add: type_in_def)
      moreover have "sf_tokenvec sf' ! 0 = cur sf'" using sf'(2) by (simp add: cur_def)
      ultimately show ?thesis
        using sf' by (auto simp: fold_inv_def counted_def kept_def raw_at_def st_clear_def)
    qed
    ultimately show ?thesis using sf'(1) by simp
  qed
qed

lemma fold_ends:
  assumes "length (sf_tokenvec sf) = 8" and "sf_pos sf \<le> length s"
  shows "ends_well s (libinjection_sqli_fold lookup s sf)"
proof -
  obtain m sf' where "skip_initial lookup s (sf\<lparr>sf_current := 0\<rparr>) = Some (m, sf')" "length (sf_tokenvec sf') = 8"
    "m \<longrightarrow> fold_inv s sf' 1 0 st_clear"
    using skip_initial_ends [of "sf\<lparr>sf_current := 0\<rparr>" s] assms by auto
  then show ?thesis
    using fold_loop_ends by (auto simp: libinjection_sqli_fold_def ends_well_def fold_post_def)
qed

section \<open>The fingerprint and the decision\<close>

end

definition fp_post :: "bytes \<Rightarrow> sqli_state \<Rightarrow> bool" where
  "fp_post s sf \<longleftrightarrow>
     length (sf_tokenvec sf) = 8 \<and> length (sf_fingerprint sf) \<le> 5
     \<and> (length (sf_fingerprint sf) = 2 \<and> sf_tokens sf \<le> 2 \<and> st_type (sf_tokenvec sf ! 1) = TYPE_COMMENT \<longrightarrow>
         (\<exists>q r. raw_at s 0 q (sf_tokenvec sf ! 0) \<and> raw_at s q r (sf_tokenvec sf ! 1)))"

lemma php_comment_some:
  assumes "fold_post s n sf"
  shows "\<exists>sf'. php_comment n sf = Some sf' \<and> fold_post s n sf'"
proof (cases "n > 2")
  case True
  let ?t = "sf_tokenvec sf ! (n - 1)"
  have t: "tok sf (n - 1) = Some ?t" using assms by (auto simp: tok_def fold_post_def)
  have "fold_post s n (set_tok (n - 1) (?t\<lparr>st_type := TYPE_COMMENT\<rparr>) sf)" if "st_type ?t = TYPE_BAREWORD"
    using assms that True by (auto simp: fold_post_def nth_list_update split: if_splits)
  then show ?thesis using assms t True by (simp add: php_comment_def)
qed (use assms in \<open>simp add: php_comment_def\<close>)

lemma cstring_all: "\<forall>x \<in> set xs. x \<noteq> NUL \<Longrightarrow> cstring xs = xs"
  by (simp add: cstring_def takeWhile_eq_all_conv)

context word_lookup
begin

lemma fingerprint_some:
  assumes "s \<noteq> []"
  shows "\<exists>sf. libinjection_sqli_fingerprint lookup s flags = Some sf \<and> fp_post s sf"
proof -
  have "ends_well s (libinjection_sqli_fold lookup s (libinjection_sqli_init flags))"
    by (rule fold_ends) (simp_all add: libinjection_sqli_init_def)
  then obtain n sf where f: "libinjection_sqli_fold lookup s (libinjection_sqli_init flags) = Some (n, sf)" "fold_post s n sf"
    by (auto simp: ends_well_def split: option.splits)
  obtain sf' where p: "php_comment n sf = Some sf'" "fold_post s n sf'" using php_comment_some [OF f(2)] by blast
  let ?fp = "map st_type (take n (sf_tokenvec sf'))"
  have len: "length (sf_tokenvec sf') = 8" "n \<le> 6" "length ?fp = n" using p(2) by (auto simp: fold_post_def)
  have fp: "cstring ?fp = ?fp" using p(2) by (intro cstring_all) (auto simp: fold_post_def in_set_conv_nth)
  show ?thesis
  proof (cases "TYPE_EVIL \<in> set ?fp")
    case True
    then show ?thesis
      using f(1) p(1) fp len
      by (auto simp: libinjection_sqli_fingerprint_def evil_fingerprint_def tok_def fp_post_def Let_def set_tok_def)
  next
    case False
    have "n \<noteq> 6"
    proof
      assume "n = 6"
      then have "?fp ! 5 = TYPE_EVIL" using p(2) len by (simp add: fold_post_def)
      moreover have "?fp ! 5 \<in> set ?fp" using len(3) \<open>n = 6\<close> by (intro nth_mem) simp
      ultimately show False using False by simp
    qed
    then have n: "n \<le> 5" using len by simp
    let ?sf = "sf'\<lparr>sf_fingerprint := ?fp\<rparr>"
    have "libinjection_sqli_fingerprint lookup s flags = Some ?sf"
      using f(1) p(1) fp len n False by (simp add: libinjection_sqli_fingerprint_def Let_def)
    moreover have "fp_post s ?sf"
      using p(2) len n unfolding fold_post_def fp_post_def by simp
    ultimately show ?thesis by blast
  qed
qed

lemma whitelist_two_some:
  assumes "fp_post s sf" and "length (sf_fingerprint sf) = 2"
  shows "\<exists>b. whitelist_two s sf = Some b"
proof -
  let ?t0 = "sf_tokenvec sf ! 0" and ?t1 = "sf_tokenvec sf ! 1"
  have t: "tok sf 0 = Some ?t0" "tok sf 1 = Some ?t1" using assms(1) by (simp_all add: tok_def fp_post_def)
  have "st_len ?t0 + 1 < length s"
    if "sf_tokens sf \<le> 2" and "st_type ?t1 = TYPE_COMMENT" and "val0 ?t1 \<noteq> CHR ''#''"
  proof -
    have "\<exists>q r. raw_at s 0 q ?t0 \<and> raw_at s q r ?t1" using assms that(1,2) unfolding fp_post_def by blast
    then obtain q r where raw: "raw_at s 0 q ?t0" "raw_at s q r ?t1" by blast
    have "2 \<le> st_len ?t1" using raw(2) that by (auto simp: raw_at_def val0_def)
    then show ?thesis using raw by (auto simp: raw_at_def)
  qed
  then show ?thesis using t by (auto simp: whitelist_two_def read_at_some)
qed

lemma check_fingerprint_some:
  assumes "fp_post s sf"
  shows "\<exists>b. libinjection_sqli_check_fingerprint lookup s sf = Some b"
proof -
  have len: "length (sf_fingerprint sf) \<le> 5" "length (sf_tokenvec sf) = 8" using assms by (simp_all add: fp_post_def)
  have "libinjection_sqli_blacklist lookup sf =
      Some (sf_fingerprint sf \<noteq> [] \<and> lookup (CHR ''0'' # map upper (sf_fingerprint sf)) = TYPE_FINGERPRINT)"
    using len by (auto simp: libinjection_sqli_blacklist_def)
  moreover have "\<exists>r. my_memmem s 0 (length s) ''sp_password'' = Some r"
    by (rule memmem_cases [of 0 "length s" s "''sp_password''"]) auto
  moreover have "\<exists>b. whitelist_three sf = Some b"
    using len(2) by (auto simp: whitelist_three_def tok_def Let_def)
  ultimately show ?thesis
    using whitelist_two_some [OF assms]
    by (auto simp: libinjection_sqli_check_fingerprint_def libinjection_sqli_not_whitelist_def Let_def)
qed

lemma in_context_some: "s \<noteq> [] \<Longrightarrow> \<exists>b sf. sqli_in_context lookup s flags = Some (b, sf) \<and> fp_post s sf"
  using fingerprint_some [of s flags] check_fingerprint_some [of s] by (fastforce simp: sqli_in_context_def)

lemma ansi_mysql_some: "s \<noteq> [] \<Longrightarrow> \<exists>b sf. sqli_ansi_mysql lookup s quote = Some (b, sf) \<and> fp_post s sf"
  using in_context_some [of s "quote OR FLAG_SQL_ANSI"] in_context_some [of s "quote OR FLAG_SQL_MYSQL"]
  by (auto simp: sqli_ansi_mysql_def)

lemma is_sqli_some:
  "\<exists>r. libinjection_is_sqli lookup s = Some r \<and> (case r of None \<Rightarrow> True | Some sf \<Rightarrow> fp_post s sf)"
proof (cases "s = []")
  case False
  then show ?thesis
    using ansi_mysql_some [of s FLAG_QUOTE_NONE] ansi_mysql_some [of s FLAG_QUOTE_SINGLE]
      in_context_some [of s "FLAG_QUOTE_DOUBLE OR FLAG_SQL_MYSQL"]
    by (auto simp: libinjection_is_sqli_def)
qed (simp add: libinjection_is_sqli_def)

end

end
