(* ===== verification/SqliTable.thy ===== *)
theory SqliTable
  imports SqliData SqliSorted SqliSafe
begin

text \<open>
  The table of \<open>libinjection_sqli_data.h\<close> is sorted, piece by piece, so that the search in it finds every word; and
  no word has the type of a comment, which is what the tokenizer relies on.
\<close>

lemma run_1: "table_run [] sql_keywords_1 = Some ''0&VUEV''"
  by code_simp

lemma run_2: "table_run ''0&VUEV'' sql_keywords_2 = Some ''01&KON''"
  by code_simp

lemma run_3: "table_run ''01&KON'' sql_keywords_3 = Some ''01)&1&''"
  by code_simp

lemma run_4: "table_run ''01)&1&'' sql_keywords_4 = Some ''01)KVO''"
  by code_simp

lemma run_5: "table_run ''01)KVO'' sql_keywords_5 = Some ''01;TS(''"
  by code_simp

lemma run_6: "table_run ''01;TS('' sql_keywords_6 = Some ''01BSKS''"
  by code_simp

lemma run_7: "table_run ''01BSKS'' sql_keywords_7 = Some ''01EVC''"
  by code_simp

lemma run_8: "table_run ''01EVC'' sql_keywords_8 = Some ''01KSC''"
  by code_simp

lemma run_9: "table_run ''01KSC'' sql_keywords_9 = Some ''01OS&K''"
  by code_simp

lemma run_10: "table_run ''01OS&K'' sql_keywords_10 = Some ''01OVKV''"
  by code_simp

lemma run_11: "table_run ''01OVKV'' sql_keywords_11 = Some ''01U(N)''"
  by code_simp

lemma run_12: "table_run ''01U(N)'' sql_keywords_12 = Some ''01VOSU''"
  by code_simp

lemma run_13: "table_run ''01VOSU'' sql_keywords_13 = Some ''0E(V);''"
  by code_simp

lemma run_14: "table_run ''0E(V);'' sql_keywords_14 = Some ''0E1VC''"
  by code_simp

lemma run_15: "table_run ''0E1VC'' sql_keywords_15 = Some ''0EKN(F''"
  by code_simp

lemma run_16: "table_run ''0EKN(F'' sql_keywords_16 = Some ''0EN)&(''"
  by code_simp

lemma run_17: "table_run ''0EN)&('' sql_keywords_17 = Some ''0ES)UE''"
  by code_simp

lemma run_18: "table_run ''0ES)UE'' sql_keywords_18 = Some ''0EV)O1''"
  by code_simp

lemma run_19: "table_run ''0EV)O1'' sql_keywords_19 = Some ''0F()K1''"
  by code_simp

lemma run_20: "table_run ''0F()K1'' sql_keywords_20 = Some ''0F(NOF''"
  by code_simp

lemma run_21: "table_run ''0F(NOF'' sql_keywords_21 = Some ''0KF()A''"
  by code_simp

lemma run_22: "table_run ''0KF()A'' sql_keywords_22 = Some ''0N&(N&''"
  by code_simp

lemma run_23: "table_run ''0N&(N&'' sql_keywords_23 = Some ''0N&S&F''"
  by code_simp

lemma run_24: "table_run ''0N&S&F'' sql_keywords_24 = Some ''0N);TK''"
  by code_simp

lemma run_25: "table_run ''0N);TK'' sql_keywords_25 = Some ''0N,(EK''"
  by code_simp

lemma run_26: "table_run ''0N,(EK'' sql_keywords_26 = Some ''0NAF(F''"
  by code_simp

lemma run_27: "table_run ''0NAF(F'' sql_keywords_27 = Some ''0NBVBF''"
  by code_simp

lemma run_28: "table_run ''0NBVBF'' sql_keywords_28 = Some ''0NK)EF''"
  by code_simp

lemma run_29: "table_run ''0NK)EF'' sql_keywords_29 = Some ''0NO(F(''"
  by code_simp

lemma run_30: "table_run ''0NO(F('' sql_keywords_30 = Some ''0NOV)E''"
  by code_simp

lemma run_31: "table_run ''0NOV)E'' sql_keywords_31 = Some ''0NTNT1''"
  by code_simp

lemma run_32: "table_run ''0NTNT1'' sql_keywords_32 = Some ''0NUSO1''"
  by code_simp

lemma run_33: "table_run ''0NUSO1'' sql_keywords_33 = Some ''0S&N&F''"
  by code_simp

lemma run_34: "table_run ''0S&N&F'' sql_keywords_34 = Some ''0S)&1U''"
  by code_simp

lemma run_35: "table_run ''0S)&1U'' sql_keywords_35 = Some ''0S)O(V''"
  by code_simp

lemma run_36: "table_run ''0S)O(V'' sql_keywords_36 = Some ''0S;TKV''"
  by code_simp

lemma run_37: "table_run ''0S;TKV'' sql_keywords_37 = Some ''0SBS,(''"
  by code_simp

lemma run_38: "table_run ''0SBS,('' sql_keywords_38 = Some ''0SEU(S''"
  by code_simp

lemma run_39: "table_run ''0SEU(S'' sql_keywords_39 = Some ''0SKS&(''"
  by code_simp

lemma run_40: "table_run ''0SKS&('' sql_keywords_40 = Some ''0SO1KF''"
  by code_simp

lemma run_41: "table_run ''0SO1KF'' sql_keywords_41 = Some ''0SONUK''"
  by code_simp

lemma run_42: "table_run ''0SONUK'' sql_keywords_42 = Some ''0SOVEV''"
  by code_simp

lemma run_43: "table_run ''0SOVEV'' sql_keywords_43 = Some ''0SU1C''"
  by code_simp

lemma run_44: "table_run ''0SU1C'' sql_keywords_44 = Some ''0SVSOS''"
  by code_simp

lemma run_45: "table_run ''0SVSOS'' sql_keywords_45 = Some ''0TSOSF''"
  by code_simp

lemma run_46: "table_run ''0TSOSF'' sql_keywords_46 = Some ''0UEVO(''"
  by code_simp

lemma run_47: "table_run ''0UEVO('' sql_keywords_47 = Some ''0V&N;C''"
  by code_simp

lemma run_48: "table_run ''0V&N;C'' sql_keywords_48 = Some ''0V)&NO''"
  by code_simp

lemma run_49: "table_run ''0V)&NO'' sql_keywords_49 = Some ''0V)OF(''"
  by code_simp

lemma run_50: "table_run ''0V)OF('' sql_keywords_50 = Some ''0V;TVK''"
  by code_simp

lemma run_51: "table_run ''0V;TVK'' sql_keywords_51 = Some ''0VBV&N''"
  by code_simp

lemma run_52: "table_run ''0VBV&N'' sql_keywords_52 = Some ''0VF()N''"
  by code_simp

lemma run_53: "table_run ''0VF()N'' sql_keywords_53 = Some ''0VKSOV''"
  by code_simp

lemma run_54: "table_run ''0VKSOV'' sql_keywords_54 = Some ''0VOSEN''"
  by code_simp

lemma run_55: "table_run ''0VOSEN'' sql_keywords_55 = Some ''0VU1,(''"
  by code_simp

lemma run_56: "table_run ''0VU1,('' sql_keywords_56 = Some ''ALTER DOMAIN''"
  by code_simp

lemma run_57: "table_run ''ALTER DOMAIN'' sql_keywords_57 = Some ''CURRENT_QUERY''"
  by code_simp

lemma run_58: "table_run ''CURRENT_QUERY'' sql_keywords_58 = Some ''FROM_BASE64''"
  by code_simp

lemma run_59: "table_run ''FROM_BASE64'' sql_keywords_59 = Some ''LOCK IN SHARE MODE''"
  by code_simp

lemma run_60: "table_run ''LOCK IN SHARE MODE'' sql_keywords_60 = Some ''POWER''"
  by code_simp

lemma run_61: "table_run ''POWER'' sql_keywords_61 = Some ''SUBSTR''"
  by code_simp

lemma run_62: "table_run ''SUBSTR'' sql_keywords_62 = Some ''XMLPI''"
  by code_simp

lemma run_63: "table_run ''XMLPI'' sql_keywords_63 = Some ''~*''"
  by code_simp

lemmas table_runs =
    run_1 run_2 run_3 run_4 run_5 run_6 run_7 run_8 run_9 run_10 run_11 run_12 run_13 run_14 run_15
    run_16 run_17 run_18 run_19 run_20 run_21 run_22 run_23 run_24 run_25 run_26 run_27 run_28 run_29
    run_30 run_31 run_32 run_33 run_34 run_35 run_36 run_37 run_38 run_39 run_40 run_41 run_42 run_43
    run_44 run_45 run_46 run_47 run_48 run_49 run_50 run_51 run_52 run_53 run_54 run_55 run_56 run_57
    run_58 run_59 run_60 run_61 run_62 run_63

lemma table_increasing: "\<exists>w. table_run [] sql_keywords = Some w"
  by (simp add: sql_keywords_def table_run_append table_runs)

interpretation sql_table: sorted_table sql_keywords
proof
  show "\<exists>w. table_run [] sql_keywords = Some w" by (rule table_increasing)
  show "sql_keywords \<noteq> []" by (simp add: sql_keywords_def sql_keywords_1_def)
qed

interpretation sql_words: word_lookup "bsearch_keyword_type sql_keywords"
  by unfold_locales (rule sql_table.no_comment)

end
