(* ===== verification/SqliQuote.thy ===== *)
theory SqliQuote
  imports SqliTokens
begin

text \<open>
  The end of a string: \<open>string_end\<close>, which jumps from one delimiter to the next and looks back for backslashes,
  is one pass over the bytes.
\<close>

text \<open>\<open>esc\<close>: the byte in front was a backslash that counts.\<close>

fun string_scan :: "char \<Rightarrow> bool \<Rightarrow> bytes \<Rightarrow> nat option" where
  "string_scan delim esc [] = None"
| "string_scan delim esc [c] = (if c = delim \<and> \<not> esc then Some 0 else None)"
| "string_scan delim esc (c # d # xs) =
     (if c = delim \<and> \<not> esc then
        if d = delim then map_option (\<lambda>n. n + 2) (string_scan delim False xs) else Some 0
      else map_option Suc (string_scan delim (c = TYPE_BACKSLASH \<and> \<not> esc) (d # xs)))"

lemma escaped_start: "is_backslash_escaped s start start = False"
  by (simp add: is_backslash_escaped_def)

lemma escaped_next:
  assumes "start \<le> i" and "i < length s"
  shows "is_backslash_escaped s start (i + 1) = (s ! i = TYPE_BACKSLASH \<and> \<not> is_backslash_escaped s start i)"
proof -
  have "drop start (take (i + 1) s) = drop start (take i s) @ [s ! i]"
    using assms by (simp add: take_Suc_conv_app_nth)
  then show ?thesis by (simp add: is_backslash_escaped_def)
qed

lemma memchr_step:
  assumes "i < length s"
  shows "memchr s i c = (if s ! i = c then Some (Some i) else memchr s (i + 1) c)"
  using assms Cons_nth_drop_Suc [OF assms, symmetric] by (auto simp: memchr_def size_minus_def Let_def)

lemma string_scan_Cons:
  "string_scan delim esc (c # xs) =
    (if c = delim \<and> \<not> esc then
       if xs \<noteq> [] \<and> hd xs = delim then map_option (\<lambda>n. n + 2) (string_scan delim False (tl xs)) else Some 0
     else map_option Suc (string_scan delim (c = TYPE_BACKSLASH \<and> \<not> esc) xs))"
  by (cases xs) auto

lemma shifts:
  "map_option ((+) i) (map_option Suc r) = map_option ((+) (Suc i)) r"
  "map_option ((+) i) (map_option (\<lambda>n. Suc (Suc n)) r) = map_option ((+) (Suc (Suc i))) r"
  by (cases r; simp)+

lemma string_end_scan:
  assumes "delim \<noteq> TYPE_BACKSLASH" and "start \<le> i" and "i \<le> length s"
  shows "memchr s i delim \<bind> string_end s start delim =
    Some (map_option ((+) i) (string_scan delim (is_backslash_escaped s start i) (drop i s)))"
  using assms
proof (induction "length s - i" arbitrary: i rule: less_induct)
  case less
  let ?e = "is_backslash_escaped s start i"
  show ?case
  proof (cases "i < length s")
    case False
    then show ?thesis using less.prems by (simp add: memchr_def size_minus_def)
  next
    case True
    have esc: "is_backslash_escaped s start (i + 1) = (s ! i = TYPE_BACKSLASH \<and> \<not> ?e)"
      using escaped_next True less.prems by simp
    have IH1: "memchr s (i + 1) delim \<bind> string_end s start delim =
        Some (map_option ((+) (i + 1)) (string_scan delim (s ! i = TYPE_BACKSLASH \<and> \<not> ?e) (drop (i + 1) s)))"
      using less.hyps [of "i + 1"] less.prems True esc by simp
    have drop: "drop i s = s ! i # drop (i + 1) s" using Cons_nth_drop_Suc [OF True] by simp
    show ?thesis
    proof (cases "s ! i = delim \<and> \<not> ?e")
      case False
      have "memchr s i delim \<bind> string_end s start delim = memchr s (i + 1) delim \<bind> string_end s start delim"
      proof (cases "s ! i = delim")
        case here: True
        then have "string_end s start delim (Some i) = memchr s (i + 1) delim \<bind> string_end s start delim"
          using False by (subst string_end.simps) (simp split: option.split)
        then show ?thesis using memchr_step [OF True] here by simp
      qed (simp add: memchr_step [OF True])
      then show ?thesis
        using IH1 False by (auto simp: drop string_scan_Cons shifts)
    next
      case here: True
      let ?double = "i + 1 < length s \<and> s ! (i + 1) = delim"
      have d: "is_double_delim_escaped s i = Some ?double"
        using here True by (auto simp: is_double_delim_escaped_def read_at_some)
      have "string_end s start delim (Some i) = (if ?double then memchr s (i + 2) delim \<bind> string_end s start delim else Some (Some i))"
        using here by (subst string_end.simps) (simp add: d split: option.split)
      moreover have "memchr s (i + 2) delim \<bind> string_end s start delim =
          Some (map_option ((+) (i + 2)) (string_scan delim False (drop (i + 2) s)))" if ?double
        using less.hyps [of "i + 2"] less.prems that escaped_next [of start "i + 1" s] by (auto simp: Suc_le_eq)
      moreover have "drop (i + 1) s = [] \<or> hd (drop (i + 1) s) = s ! (i + 1)" "tl (drop (i + 1) s) = drop (i + 2) s"
        using hd_drop_conv_nth [of "i + 1" s] drop_Suc [of "i + 1" s] tl_drop [of "i + 1" s]
        by (cases "i + 1 < length s"; simp)+
      ultimately show ?thesis
        using here by (auto simp: drop string_scan_Cons memchr_step [OF True] shifts)
    qed
  qed
qed

end
