(* ===== verification/SqliDecide.thy ===== *)
theory SqliDecide
  imports SqliTable SqliQuote
begin

text \<open>
  What the SQL injection check promises with the table it is built with.
\<close>

section \<open>The check decides every input\<close>

text \<open>C3: The check of libinjection decides every input: no parser reads outside it, the tokenizer and the loop of the
  folding end, no index leaves the array of the tokens and no assertion fails.  The fingerprint it reports has at
  most five tokens.\<close>

theorem sqli_check_decides:
  "case libinjection_sqli sql_keywords s of None \<Rightarrow> False | Some (found, fp) \<Rightarrow> length fp \<le> 5"
  using sql_words.is_sqli_some [of s]
  by (auto simp: libinjection_sqli_def fp_post_def split: option.splits)

lemma upper_idem: "upper (upper c) = upper c"
proof (cases "CHR ''a'' \<le> c \<and> c \<le> CHR ''z''")
  case True
  then have c: "97 \<le> ord c" "ord c \<le> 122" by (simp_all add: less_eq_char_def)
  then have "ord (char_of (ord c - 32)) = ord c - 32" by (simp add: of_char_of take_bit_eq_mod)
  then show ?thesis using c by (auto simp: upper_def less_eq_char_def)
next
  case False
  then have "upper c = c" by (auto simp: upper_def)
  then show ?thesis by simp
qed

lemma context_listed:
  assumes "sqli_in_context (bsearch_keyword_type sql_keywords) s flags = Some (True, sf)"
  shows "(CHR ''0'' # map upper (sf_fingerprint sf), TYPE_FINGERPRINT) \<in> set sql_keywords"
proof -
  have "libinjection_sqli_blacklist (bsearch_keyword_type sql_keywords) sf = Some True"
    using assms by (auto simp: sqli_in_context_def libinjection_sqli_check_fingerprint_def split: bind_splits if_splits)
  then have "bsearch_keyword_type sql_keywords (CHR ''0'' # map upper (sf_fingerprint sf)) = TYPE_FINGERPRINT"
    by (auto simp: libinjection_sqli_blacklist_def split: if_splits)
  moreover have "upper \<circ> upper = upper" "upper (CHR ''0'') = CHR ''0''"
    by (auto simp: upper_idem) (simp add: upper_def)
  ultimately show ?thesis using sql_table.result [of "CHR ''0'' # map upper (sf_fingerprint sf)"] by simp
qed

lemma ansi_mysql_listed:
  assumes "sqli_ansi_mysql (bsearch_keyword_type sql_keywords) s quote = Some (True, sf)"
  shows "(CHR ''0'' # map upper (sf_fingerprint sf), TYPE_FINGERPRINT) \<in> set sql_keywords"
  using assms context_listed by (auto simp: sqli_ansi_mysql_def split: bind_splits if_splits)

lemma is_sqli_listed:
  assumes "libinjection_is_sqli (bsearch_keyword_type sql_keywords) s = Some (Some sf)"
  shows "(CHR ''0'' # map upper (sf_fingerprint sf), TYPE_FINGERPRINT) \<in> set sql_keywords"
  using assms ansi_mysql_listed context_listed
  by (auto simp: libinjection_is_sqli_def split: bind_splits if_splits)

text \<open>C7: Only an input whose fingerprint is in the list of the attacks is reported.\<close>

theorem sqli_reported_listed:
  "case libinjection_sqli sql_keywords s of
     None \<Rightarrow> False
   | Some (found, fp) \<Rightarrow>
       if found then (CHR ''0'' # map upper fp, TYPE_FINGERPRINT) \<in> set sql_keywords else fp = []"
  using sql_words.is_sqli_some [of s] is_sqli_listed
  by (auto simp: libinjection_sqli_def split: option.splits)

section \<open>The search, the tokenizer and the folding\<close>

text \<open>C8: The binary search gives a word the type of its row in the table, in any case of its letters, and a word
  that has no row the type 0.\<close>

theorem sqli_keyword_search:
  "bsearch_keyword_type sql_keywords key =
    (case map_of sql_keywords (map upper key) of None \<Rightarrow> NUL | Some t \<Rightarrow> t)"
  by (rule sql_table.search)

text \<open>C11: A call of the tokenizer returns.  When it has a token, it has moved forward, and the token is a part of the
  input between the old position and the new one, of at most 31 bytes; else only the current token has
  changed and the input has ended.\<close>

theorem sqli_tokens_in_input:
  assumes "sf_current sf < length (sf_tokenvec sf)" and "sf_pos sf \<le> length s"
  shows "case libinjection_sqli_tokenize (bsearch_keyword_type sql_keywords) s sf of
      None \<Rightarrow> False
    | Some (found, sf') \<Rightarrow>
        sf_current sf' = sf_current sf \<and> sf_tokenvec sf' = (sf_tokenvec sf)[sf_current sf := cur sf']
        \<and> sf_pos sf \<le> sf_pos sf' \<and> sf_pos sf' \<le> length s
        \<and> (if found then
             sf_pos sf < sf_pos sf' \<and> st_type (cur sf') \<noteq> NUL \<and> sf_tokens sf' = sf_tokens sf + 1
             \<and> sf_pos sf \<le> st_pos (cur sf') \<and> st_pos (cur sf') + st_len (cur sf') \<le> sf_pos sf'
             \<and> st_val (cur sf') = take (st_len (cur sf')) (drop (st_pos (cur sf')) s) \<and> st_len (cur sf') < TOKEN_SIZE
           else sf_tokens sf' = sf_tokens sf)"
  using sql_words.tokenize_tokenized [OF assms] by (auto simp: tokenized_def raw_at_def tok_wf_def)

theorem sqli_tokens_in_input_witness:
  "case libinjection_sqli_tokenize (bsearch_keyword_type sql_keywords) ''1'' (libinjection_sqli_init 0) of
     None \<Rightarrow> False
   | Some (found, sf') \<Rightarrow> sf_pos sf' \<le> 1"
  using sqli_tokens_in_input [of "libinjection_sqli_init 0" "''1''"]
  by (auto simp: libinjection_sqli_init_def split: option.splits)

text \<open>C9: The folding of any input in any context returns, with at most six tokens in the array of eight, each with a
  type; six only when the last of them is the one that makes the input evil.\<close>

theorem sqli_fold_returns:
  "case libinjection_sqli_fold (bsearch_keyword_type sql_keywords) s (libinjection_sqli_init flags) of
     None \<Rightarrow> False
   | Some (n, sf) \<Rightarrow>
       length (sf_tokenvec sf) = 8 \<and> n \<le> (if st_type (sf_tokenvec sf ! 5) = TYPE_EVIL then 6 else 5)
       \<and> list_all (\<lambda>t. st_type t \<noteq> NUL) (take n (sf_tokenvec sf))"
proof -
  have "ends_well s (libinjection_sqli_fold (bsearch_keyword_type sql_keywords) s (libinjection_sqli_init flags))"
    by (rule sql_words.fold_ends) (simp_all add: libinjection_sqli_init_def)
  then show ?thesis
    by (force simp: ends_well_def fold_post_def list_all_length split: option.splits)
qed

text \<open>C17: Where a string ends: the loop that jumps from delimiter to delimiter and counts the backslashes in front
  finds the same end as one pass over the bytes in which a backslash hides the next byte and two
  delimiters in a row stand for one.\<close>

theorem sqli_string_end_one_pass:
  assumes "delim \<noteq> TYPE_BACKSLASH" and "start \<le> length s"
  shows "memchr s start delim \<bind> string_end s start delim =
    Some (map_option ((+) start) (string_scan delim False (drop start s)))"
  using string_end_scan [OF assms(1) order_refl assms(2)] by (simp add: escaped_start)

theorem sqli_string_end_one_pass_witness:
  "memchr ''a--b-c'' 1 (CHR ''-'') \<bind> string_end ''a--b-c'' 1 (CHR ''-'') = Some (Some 4)"
  by (subst sqli_string_end_one_pass) simp_all

end
