(* ===== verification/SqliRuns.thy ===== *)
theory SqliRuns
  imports SqliDecide
begin

text \<open>
  Whole runs of the check on inputs with a number.
\<close>

lemma table_run_last: "table_run u xs = Some l \<Longrightarrow> map ord u \<le> map ord l \<and> (\<forall>x \<in> set xs. map ord (fst x) \<le> map ord l)"
proof (induction u xs rule: table_run.induct)
  case (2 w v t r)
  then have "table_run v r = Some l" "word_less w v" by (auto split: if_splits)
  then show ?case using 2 word_less_ord [of w v] by (auto split: if_splits)
qed simp

text \<open>A word that lies inside the range of a piece and is not in it is not in the table.\<close>

lemma table_absent:
  assumes "table_run [] a = Some v" and "table_run v c = Some z" and "table_run [] (a @ c @ b) = Some l"
    and "word_less v w" and "word_less w z" and "list_all (\<lambda>x. fst x \<noteq> w) c"
  shows "map_of (a @ c @ b) w = None"
proof -
  have b: "table_run z b = Some l" using assms(1-3) by (simp add: table_run_append)
  have "fst x \<noteq> w" if "x \<in> set a" for x
    using table_run_last [OF assms(1)] that word_less_ord [OF assms(4)] by (metis leD)
  moreover have "fst x \<noteq> w" if "x \<in> set b" for x
    using table_run_sorted [OF b] that word_less_ord [OF assms(5)] by (auto dest: less_trans)
  ultimately show ?thesis using assms(6) by (auto simp: map_of_eq_None_iff list_all_iff)
qed

lemma no_01: "bsearch_keyword_type sql_keywords ''01'' = NUL"
proof -
  have "map_of sql_keywords ''01'' = None"
  proof -
    obtain l where l: "table_run [] sql_keywords = Some l" using table_increasing by blast
    obtain b where b: "sql_keywords = sql_keywords_1 @ sql_keywords_2 @ b" by (simp add: sql_keywords_def)
    have "list_all (\<lambda>x. fst x \<noteq> ''01'') sql_keywords_2" by code_simp
    then show ?thesis
      unfolding b using table_absent [OF run_1 run_2 l [unfolded b], of "''01''"] by (simp add: bits_less_ord)
  qed
  moreover have "map upper ''01'' = ''01''" by code_simp
  ultimately show ?thesis by (simp add: sql_table.search)
qed

definition digit_run :: "bytes \<Rightarrow> bool" where
  "digit_run d \<longleftrightarrow> d \<noteq> [] \<and> list_all is_digit d"

text \<open>What may follow a number without changing how it is read.\<close>

definition number_ends :: "bytes \<Rightarrow> bool" where
  "number_ends r \<longleftrightarrow> r = [] \<or> \<not> is_digit (hd r) \<and> hd r \<notin> set ''.EeDdFfXxBb''"

lemma digit_parser: "is_digit c \<Longrightarrow> char_parse_map ! ord c = Parse_number"
proof -
  assume "is_digit c"
  then have "ord c \<in> set [48..<58]" by (simp only: set_upt is_digit_ord atLeastLessThan_iff) simp
  moreover have "list_all (\<lambda>i. char_parse_map ! i = Parse_number) [48..<58]" by code_simp
  ultimately show ?thesis by (simp only: list_all_iff)
qed

lemma digits_end_number:
  assumes "digit_run d" and "number_ends r"
  shows "digits_end (u @ d @ r) (length u) = length u + length d"
proof -
  have "takeWhile is_digit (d @ r) = d"
    using assms by (cases r) (auto simp: digit_run_def number_ends_def list_all_iff)
  then show ?thesis by (simp add: digits_end_def)
qed

lemma one_of_end: "number_ends r \<Longrightarrow> set cs \<subseteq> set ''.EeDdFfXxBb'' \<Longrightarrow> \<not> one_of (u @ d @ r) (length u + length d) cs"
proof (cases r)
  case (Cons c r')
  assume "number_ends r" "set cs \<subseteq> set ''.EeDdFfXxBb''"
  then have "c \<notin> set ''.EeDdFfXxBb''" by (simp only: number_ends_def Cons list.distinct list.sel simp_thms)
  then have "c \<notin> set cs" by (rule contra_subsetD [OF \<open>set cs \<subseteq> set ''.EeDdFfXxBb''\<close>])
  then show ?thesis by (simp add: one_of_def Cons nth_append)
qed (simp add: one_of_def)

lemma parse_number_digits:
  assumes "digit_run d" and "number_ends r" and "sf_pos sf = length u"
  shows "parse_number (u @ d @ r) sf =
    Some (length u + length d, set_cur (assigned TYPE_NUMBER (length u) (length d) (u @ d @ r) (cur sf)) sf)"
proof -
  let ?s = "u @ d @ r" and ?p = "length u" and ?q = "length u + length d"
  have e: "digits_end ?s ?p = ?q" by (rule digits_end_number) fact+
  have q: "?p < ?q" "?q \<le> length ?s" using assms(1) by (simp_all add: digit_run_def)
  have ends: "\<not> one_of ?s ?q cs" if "set cs \<subseteq> set ''.EeDdFfXxBb''" for cs
    by (rule one_of_end) (use assms(2) that in auto)
  have "radix_digits ?s ?p = None"
  proof (cases "length d = 1")
    case True
    then show ?thesis using ends by (simp add: radix_digits_def)
  next
    case False
    then have "1 < length d" using assms(1) by (cases d) (auto simp: digit_run_def)
    then have "is_digit (?s ! (?p + 1))" using assms(1) by (auto simp: digit_run_def list_all_length nth_append)
    then show ?thesis by (auto simp: radix_digits_def one_of_def is_digit_ord)
  qed
  moreover have "mantissa ?s ?p = (False, ?q)" using e ends by (simp add: mantissa_def)
  moreover have "exponent ?s ?q = (?q, False, False)" using ends by (simp add: exponent_def)
  moreover have "float_suffix ?s ?q = ?q" using ends by (simp add: float_suffix_def)
  ultimately show ?thesis
    using assms(3) q by (simp add: parse_number_def parse_decimal_def size_minus_some assign_some Let_def)
qed

text \<open>A decimal number in parts: digits, a fraction, an exponent and Oracle's suffix.\<close>

definition fraction_text :: "bytes \<Rightarrow> bytes \<Rightarrow> bool" where
  "fraction_text i frac \<longleftrightarrow>
     (case frac of
        [] \<Rightarrow> i \<noteq> []
      | c # f \<Rightarrow> c = CHR ''.'' \<and> list_all is_digit f \<and> (i \<noteq> [] \<or> f \<noteq> []))"

definition exponent_text :: "bytes \<Rightarrow> bool" where
  "exponent_text ex \<longleftrightarrow>
     (case ex of
        [] \<Rightarrow> True
      | c # t \<Rightarrow> c \<in> set ''Ee'' \<and> digit_run (if t \<noteq> [] \<and> hd t \<in> set ''+-'' then tl t else t))"

definition decimal_number :: "bytes \<Rightarrow> bytes \<Rightarrow> bytes \<Rightarrow> bytes \<Rightarrow> bool" where
  "decimal_number i frac ex suf \<longleftrightarrow>
     list_all is_digit i \<and> fraction_text i frac \<and> exponent_text ex
     \<and> (suf = [] \<or> length suf = 1 \<and> hd suf \<in> set ''dDfF'')"

lemma digits_end_span:
  assumes "list_all is_digit d" and "r = [] \<or> \<not> is_digit (hd r)"
  shows "digits_end (u @ d @ r) (length u) = length u + length d"
proof -
  have "takeWhile is_digit (d @ r) = d" using assms by (cases r) (auto simp: list_all_iff)
  then show ?thesis by (simp add: digits_end_def)
qed

lemma one_of_at: "one_of (u @ r) (length u) cs \<longleftrightarrow> r \<noteq> [] \<and> hd r \<in> set cs"
  by (cases r) (auto simp: one_of_def)

lemma exponent_whole:
  assumes "exponent_text ex" and "suf = [] \<or> length suf = 1 \<and> hd suf \<in> set ''dDfF''"
  shows "\<exists>have_e have_exp. exponent (u @ ex @ suf) (length u) = (length (u @ ex), have_e, have_exp) \<and> \<not> (have_e \<and> \<not> have_exp)"
proof (cases ex)
  case Nil
  then have "\<not> one_of (u @ suf) (length u) ''Ee''" using assms(2) by (auto simp: one_of_at)
  then show ?thesis using Nil by (intro exI [of _ False]) (simp add: exponent_def)
next
  case (Cons c t)
  have suf: "suf = [] \<or> \<not> is_digit (hd suf)" using assms(2) by (auto simp: is_digit_ord)
  let ?s = "u @ ex @ suf"
  define sg where "sg = (if t \<noteq> [] \<and> hd t \<in> set ''+-'' then [hd t] else [])"
  define d where "d = (if t \<noteq> [] \<and> hd t \<in> set ''+-'' then tl t else t)"
  have c: "c \<in> set ''Ee''" "digit_run d" and t: "t = sg @ d"
    using assms(1) Cons by (auto simp: exponent_text_def d_def sg_def)
  have "one_of ?s (length u) ''Ee''" using c(1) Cons one_of_at [of u "ex @ suf"] by simp
  moreover have "one_of ?s (length u + 1) ''+-'' \<longleftrightarrow> sg \<noteq> []"
  proof -
    have ne: "t \<noteq> []" using c(2) t by (simp add: digit_run_def)
    then have "one_of ?s (length u + 1) ''+-'' \<longleftrightarrow> hd t \<in> set ''+-''"
      using one_of_at [of "u @ [c]" "t @ suf" "''+-''"] Cons by simp
    then show ?thesis using ne by (simp add: sg_def)
  qed
  moreover have "digits_end ?s (length u + 1 + length sg) = length u + 1 + length sg + length d"
    using digits_end_span [of d suf "u @ [c] @ sg"] c(2) suf Cons t by (simp add: digit_run_def)
  moreover have "length sg \<le> 1" "0 < length d" using c(2) by (simp_all add: sg_def digit_run_def)
  ultimately show ?thesis
    using Cons t by (cases sg) (auto simp: exponent_def Let_def)
qed

lemma parse_number_whole:
  assumes n: "decimal_number i frac ex suf" and pos: "sf_pos sf = 0" and s: "s = i @ frac @ ex @ suf"
  shows "s \<noteq> [] \<and> char_parse_map ! ord (s ! 0) = Parse_number
    \<and> parse_number s sf = Some (length s, set_cur (assigned TYPE_NUMBER 0 (length s) s (cur sf)) sf)"
proof -
  have parts: "list_all is_digit i" "fraction_text i frac" "exponent_text ex" "suf = [] \<or> length suf = 1 \<and> hd suf \<in> set ''dDfF''"
    using n by (auto simp: decimal_number_def)
  have "ex @ suf = [] \<or> hd (ex @ suf) \<in> set ''EedDfF''"
    using parts(3,4) by (cases ex; cases suf) (auto simp: exponent_text_def)
  then have tail: "ex @ suf = [] \<or> \<not> is_digit (hd (ex @ suf)) \<and> hd (ex @ suf) \<notin> set ''.XxBb''"
    by (auto simp: is_digit_ord)
  let ?q = "length (i @ frac)"
  have mant: "mantissa s 0 = (frac \<noteq> [], ?q) \<and> \<not> (frac \<noteq> [] \<and> ?q = 1)"
  proof (cases frac)
    case Nil
    then show ?thesis
      using digits_end_span [of i "ex @ suf" "[]"] one_of_at [of i "ex @ suf" "''.''"] parts(1) tail
      by (auto simp: mantissa_def Let_def s)
  next
    case (Cons c f)
    then have f: "c = CHR ''.''" "list_all is_digit f" "i \<noteq> [] \<or> f \<noteq> []" using parts(2) by (simp_all add: fraction_text_def)
    then show ?thesis
      using digits_end_span [of i "frac @ ex @ suf" "[]"] one_of_at [of i "frac @ ex @ suf" "''.''"] parts(1) tail Cons
        digits_end_span [of f "ex @ suf" "i @ ''.''"]
      by (auto simp: mantissa_def Let_def s is_digit_ord)
  qed
  obtain have_e have_exp where ex: "exponent s ?q = (length (i @ frac @ ex), have_e, have_exp)" "\<not> (have_e \<and> \<not> have_exp)"
    using exponent_whole [OF parts(3,4), of "i @ frac"] by (auto simp: s)
  have suffix: "float_suffix s (length (i @ frac @ ex)) = length s"
  proof (cases suf)
    case Nil
    then show ?thesis by (simp add: float_suffix_def one_of_def s)
  next
    case (Cons c t)
    then have "t = []" "c \<in> set ''dDfF''" using parts(4) by auto
    then show ?thesis using one_of_at [of "i @ frac @ ex" suf "''dDfF''"] Cons by (simp add: float_suffix_def s)
  qed
  have first: "s \<noteq> [] \<and> (is_digit (s ! 0) \<or> s ! 0 = CHR ''.'')"
    using parts(1,2) by (cases i; cases frac) (auto simp: fraction_text_def s)
  have "radix_digits s 0 = None"
  proof (cases i)
    case Nil
    then have "s ! 0 = CHR ''.''" using parts(2) by (cases frac) (auto simp: fraction_text_def s)
    then show ?thesis by (simp add: radix_digits_def one_of_def)
  next
    case (Cons a i')
    have "(i' @ frac @ ex @ suf) ! 0 \<notin> set ''XxBb''" if "i' @ frac @ ex @ suf \<noteq> []"
    proof (cases i')
      case Nil
      then show ?thesis using that parts(2) tail by (cases frac) (auto simp: fraction_text_def hd_conv_nth)
    next
      case (Cons b i'')
      then have "is_digit b" using parts(1) \<open>i = a # i'\<close> by simp
      then show ?thesis using Cons by (auto simp: is_digit_ord)
    qed
    then show ?thesis using Cons by (auto simp: radix_digits_def one_of_def s)
  qed
  then have "parse_number s sf = Some (length s, set_cur (assigned TYPE_NUMBER 0 (length s) s (cur sf)) sf)"
    using mant ex suffix pos by (cases "frac = []") (simp_all add: parse_number_def parse_decimal_def size_minus_some assign_some Let_def)
  moreover have "char_parse_map ! 46 = Parse_number" by code_simp
  then have "char_parse_map ! ord (s ! 0) = Parse_number" using first digit_parser by auto
  ultimately show ?thesis using first by blast
qed

section \<open>Calls of the tokenizer\<close>

lemma tokenize_loop_number:
  assumes "digit_run d" and "number_ends r" and "sf_pos sf = length u" and "has_cur sf" and "s = u @ d @ r"
  shows "tokenize_loop lookup s sf =
    Some (True, (set_cur (assigned TYPE_NUMBER (length u) (length d) s (cur sf)) sf)
      \<lparr>sf_pos := length u + length d, sf_tokens := sf_tokens sf + 1\<rparr>)"
proof -
  have p: "sf_pos sf < length s" using assms by (simp add: digit_run_def)
  have "is_digit (s ! sf_pos sf)" using assms(1,3,5) by (cases d) (auto simp: digit_run_def)
  then have "char_parse_map ! ord (s ! sf_pos sf) = Parse_number" by (rule digit_parser)
  then show ?thesis
    using p assms by (subst tokenize_loop.simps) (simp add: sqli_parser_def parse_number_digits)
qed

lemma tokenize_loop_end: "length s \<le> sf_pos sf \<Longrightarrow> tokenize_loop lookup s sf = Some (False, sf)"
  by (subst tokenize_loop.simps) simp

lemma tokenize_loop_space:
  "sf_pos sf < length s \<Longrightarrow> s ! sf_pos sf = CHR '' '' \<Longrightarrow> st_type (cur sf) = NUL \<Longrightarrow>
    tokenize_loop lookup s sf = tokenize_loop lookup s (sf\<lparr>sf_pos := sf_pos sf + 1\<rparr>)"
proof -
  have "char_parse_map ! 32 = Parse_white" by code_simp
  moreover assume "sf_pos sf < length s" "s ! sf_pos sf = CHR '' ''" "st_type (cur sf) = NUL"
  ultimately show ?thesis by (subst tokenize_loop.simps) (simp add: sqli_parser_def parse_white_def)
qed

lemma tokenize_loop_dashes:
  assumes "sf_pos sf = length u" and "has_cur sf" and "s = u @ ''--''"
  shows "tokenize_loop lookup s sf =
    Some (True, (set_cur (assigned TYPE_COMMENT (length u) 2 s (cur sf)) sf)
      \<lparr>sf_pos := length u + 2, sf_tokens := sf_tokens sf + 1\<rparr>)"
proof -
  have "char_parse_map ! 45 = Parse_dash" by code_simp
  moreover have "memchr s (length u) LF = Some None" using assms(3) by (simp add: memchr_def size_minus_def)
  ultimately show ?thesis
    using assms
    by (subst tokenize_loop.simps)
      (simp add: sqli_parser_def parse_dash_def dash_at_def read_at_some nth_append parse_eol_comment_def size_minus_some
        assign_some Let_def)
qed

lemma tokenize_plain:
  assumes "s \<noteq> []" and "sf_pos sf \<noteq> 0 \<or> sf_flags sf AND (FLAG_QUOTE_SINGLE OR FLAG_QUOTE_DOUBLE) = 0"
  shows "libinjection_sqli_tokenize lookup s sf = tokenize_loop lookup s (set_cur st_clear sf)"
  using assms by (auto simp: libinjection_sqli_tokenize_def Let_def)

section \<open>A number, with a comment behind it or nothing\<close>

text \<open>The state in the context without quotes.\<close>

definition plain_state :: "stoken list \<Rightarrow> nat \<Rightarrow> nat \<Rightarrow> nat \<Rightarrow> sqli_state" where
  "plain_state vec pos current tokens =
     \<lparr>sf_flags = 9, sf_pos = pos, sf_tokenvec = vec, sf_current = current, sf_fingerprint = [], sf_comment_ddx = 0,
      sf_comment_hash = 0, sf_folds = 0, sf_tokens = tokens\<rparr>"

lemma plain_state_fields [simp]:
  "sf_flags (plain_state v p c t) = 9" "sf_pos (plain_state v p c t) = p" "sf_tokenvec (plain_state v p c t) = v"
  "sf_current (plain_state v p c t) = c" "sf_tokens (plain_state v p c t) = t"
  "sf_comment_ddx (plain_state v p c t) = 0" "sf_comment_hash (plain_state v p c t) = 0"
  "cur (plain_state v p c t) = v ! c" "set_cur x (plain_state v p c t) = plain_state (v[c := x]) p c t"
  "set_tok i x (plain_state v p c t) = plain_state (v[i := x]) p c t"
  "plain_state v p c t\<lparr>sf_pos := p'\<rparr> = plain_state v p' c t"
  "plain_state v p c t\<lparr>sf_current := c'\<rparr> = plain_state v p c' t"
  "plain_state v p c t\<lparr>sf_tokens := t'\<rparr> = plain_state v p c t'"
  by (simp_all add: plain_state_def cur_def set_cur_def set_tok_def)

lemma plain_flags: "(9 :: nat) AND (FLAG_QUOTE_SINGLE OR FLAG_QUOTE_DOUBLE) = 0"
  by (simp add: FLAG_QUOTE_SINGLE_def FLAG_QUOTE_DOUBLE_def)

lemma init_plain: "libinjection_sqli_init (FLAG_QUOTE_NONE OR FLAG_SQL_ANSI) = plain_state (replicate 8 st_clear) 0 0 0"
  by (simp add: libinjection_sqli_init_def plain_state_def FLAG_QUOTE_NONE_def FLAG_SQL_ANSI_def)

lemma tokenize_state:
  "s \<noteq> [] \<Longrightarrow> libinjection_sqli_tokenize lookup s (plain_state v p c t) = tokenize_loop lookup s (plain_state (v[c := st_clear]) p c t)"
  by (simp add: tokenize_plain plain_flags)

text \<open>The first token is the number.\<close>

lemma first_number:
  assumes "digit_run d" and "number_ends r" and "u = [] \<or> u = '' ''" and "s = u @ d @ r"
  shows "skip_initial lookup s (plain_state (replicate 8 st_clear) 0 0 0) =
    Some (True, plain_state (assigned TYPE_NUMBER (length u) (length d) s st_clear # replicate 7 st_clear)
      (length u + length d) 0 1)"
proof -
  let ?z = "plain_state (replicate 8 st_clear) 0 0 0"
  let ?n = "plain_state (assigned TYPE_NUMBER (length u) (length d) s st_clear # replicate 7 st_clear) (length u + length d) 0 1"
  have s: "s \<noteq> []" using assms(1,4) by (simp add: digit_run_def)
  have number: "tokenize_loop lookup s (plain_state (replicate 8 st_clear) (length u) 0 0) = Some (True, ?n)"
    using tokenize_loop_number [OF assms(1,2), of "plain_state (replicate 8 st_clear) (length u) 0 0" u s lookup] assms(4)
    by (simp add: numeral_eq_Suc)
  have "tokenize_loop lookup s ?z = Some (True, ?n)"
  proof (cases "u = []")
    case False
    then have "u = '' ''" using assms(3) by simp
    then have "tokenize_loop lookup s ?z = tokenize_loop lookup s (plain_state (replicate 8 st_clear) (length u) 0 0)"
      using tokenize_loop_space [of ?z s lookup] assms(4) by (simp add: st_clear_def)
    then show ?thesis using number by simp
  qed (use number in simp)
  moreover have "(replicate 8 st_clear)[0 := st_clear] = replicate 8 st_clear" by (simp add: numeral_eq_Suc)
  ultimately show ?thesis
    using s by (subst skip_initial.simps) (simp add: tokenize_state type_in_def st_is_unary_op_def)
qed

lemma fold_number:
  assumes n: "decimal_number i frac ex suf" and s: "d = i @ frac @ ex @ suf"
  shows "libinjection_sqli_fold lookup d (plain_state (replicate 8 st_clear) 0 0 0) =
    Some (1, plain_state (assigned TYPE_NUMBER 0 (length d) d st_clear # replicate 7 st_clear) (length d) 1 1)"
proof -
  let ?v = "assigned TYPE_NUMBER 0 (length d) d st_clear # replicate 7 st_clear"
  let ?z = "plain_state (replicate 8 st_clear) 0 0 0"
  have p: "d \<noteq> []" "char_parse_map ! ord (d ! 0) = Parse_number"
    "parse_number d ?z = Some (length d, set_cur (assigned TYPE_NUMBER 0 (length d) d (cur ?z)) ?z)"
    using parse_number_whole [OF n _ s, of ?z] by simp_all
  have v: "?v[1 := st_clear] = ?v" "(replicate 8 st_clear)[0 := st_clear] = replicate 8 st_clear"
    by (simp_all add: numeral_eq_Suc)
  have "tokenize_loop lookup d ?z = Some (True, plain_state ?v (length d) 0 1)"
    using p by (subst tokenize_loop.simps) (simp add: sqli_parser_def numeral_eq_Suc)
  then have first: "skip_initial lookup d ?z = Some (True, plain_state ?v (length d) 0 1)"
    using p(1) v(2) by (subst skip_initial.simps) (simp add: tokenize_state type_in_def st_is_unary_op_def)
  have "get_tokens lookup d 2 0 True 1 st_clear (plain_state ?v (length d) 0 1) =
      Some (False, 1, st_clear, plain_state ?v (length d) 1 1)"
    using p(1) v(1) by (subst get_tokens.simps) (simp add: MAX_TOKENS_def size_minus_some tokenize_state tokenize_loop_end del: list_update.simps)
  moreover have "fold_loop lookup d False 1 1 st_clear (plain_state ?v (length d) 1 1) = Some (1, plain_state ?v (length d) 1 1)"
    by (subst fold_loop.simps) (simp add: fold_five_def MAX_TOKENS_def fold_end_def st_clear_def)
  ultimately have "fold_loop lookup d True 1 0 st_clear (plain_state ?v (length d) 0 1) = Some (1, plain_state ?v (length d) 1 1)"
    by (subst fold_loop.simps) (simp add: fold_five_def MAX_TOKENS_def size_minus_some)
  then show ?thesis using first by (simp add: libinjection_sqli_fold_def)
qed

lemma fold_number_comment:
  assumes "digit_run d" and "u = [] \<or> u = '' ''" and "s = u @ d @ ''--''"
  shows "libinjection_sqli_fold lookup s (plain_state (replicate 8 st_clear) 0 0 0) =
    Some (2, plain_state (assigned TYPE_NUMBER (length u) (length d) s st_clear
      # assigned TYPE_COMMENT (length u + length d) 2 s st_clear # replicate 6 st_clear) (length s) 1 2)"
proof -
  let ?n = "assigned TYPE_NUMBER (length u) (length d) s st_clear" and ?c = "assigned TYPE_COMMENT (length u + length d) 2 s st_clear"
  let ?v = "?n # replicate 7 st_clear" and ?w = "?n # ?c # replicate 6 st_clear" and ?p = "length u + length d"
  have s: "s \<noteq> []" "length s = ?p + 2" using assms(3) by auto
  have v: "?v[1 := st_clear] = ?v" "?v[1 := ?c] = ?w" "?w[1 := st_clear] = ?v" "?w ! 1 = ?c" "?v ! 1 = st_clear"
    by (simp_all add: numeral_eq_Suc)
  have first: "skip_initial lookup s (plain_state (replicate 8 st_clear) 0 0 0) = Some (True, plain_state ?v ?p 0 1)"
    by (rule first_number) (use assms in \<open>simp_all add: number_ends_def is_digit_ord\<close>)
  have comment: "tokenize_loop lookup s (plain_state ?v ?p 1 1) = Some (True, plain_state ?w (length s) 1 2)"
    using tokenize_loop_dashes [of "plain_state ?v ?p 1 1" "u @ d" s lookup] assms(3) s v
    by (simp del: list_update.simps nth_Cons_numeral add: numeral_2_eq_2)
  have last: "get_tokens lookup s 2 0 True 1 ?c (plain_state ?w (length s) 1 2) = Some (False, 1, ?c, plain_state ?v (length s) 1 2)"
    using s v(3) by (subst get_tokens.simps) (simp add: MAX_TOKENS_def size_minus_some tokenize_state tokenize_loop_end del: list_update.simps)
  have "get_tokens lookup s 2 0 True 1 st_clear (plain_state ?v ?p 0 1) = get_tokens lookup s 2 0 True 1 ?c (plain_state ?w (length s) 1 2)"
    using s v comment by (subst get_tokens.simps) (simp add: MAX_TOKENS_def size_minus_some tokenize_state del: list_update.simps)
  moreover have "fold_loop lookup s False 1 1 ?c (plain_state ?v (length s) 1 2) = Some (2, plain_state ?w (length s) 1 2)"
    using v(2) by (subst fold_loop.simps) (simp add: fold_five_def MAX_TOKENS_def fold_end_def del: list_update.simps)
  ultimately have "fold_loop lookup s True 1 0 st_clear (plain_state ?v ?p 0 1) = Some (2, plain_state ?w (length s) 1 2)"
    using last by (subst fold_loop.simps) (simp add: fold_five_def MAX_TOKENS_def size_minus_some)
  then show ?thesis using first by (simp add: libinjection_sqli_fold_def)
qed

lemma has_01C: "bsearch_keyword_type sql_keywords ''01C'' = TYPE_FINGERPRINT"
proof -
  have "(''01C'', CHR ''F'') \<in> set sql_keywords_7" by (simp add: sql_keywords_7_def)
  then have "(''01C'', CHR ''F'') \<in> set sql_keywords" by (simp add: sql_keywords_def)
  moreover have "map upper ''01C'' = ''01C''" by code_simp
  ultimately show ?thesis by (simp add: sql_table.found)
qed

lemma digit_bytes:
  assumes "digit_run d"
  shows "CHAR_SINGLE \<notin> set d" and "CHAR_DOUBLE \<notin> set d" and "CHR ''s'' \<notin> set d"
  using assms by (auto simp: digit_run_def list_all_iff is_digit_ord)

lemma decimal_bytes:
  assumes "decimal_number i frac ex suf" and "c \<in> set (i @ frac @ ex @ suf)"
  shows "c \<noteq> CHAR_SINGLE" and "c \<noteq> CHAR_DOUBLE"
proof -
  have "list_all (\<lambda>c. is_digit c \<or> c \<in> set ''.Ee+-dDfF'') (i @ frac @ ex @ suf)"
  proof -
    have i: "list_all (\<lambda>c. is_digit c \<or> c \<in> set ''.Ee+-dDfF'') i"
      using assms(1) by (auto simp: decimal_number_def list_all_iff)
    moreover have "list_all (\<lambda>c. is_digit c \<or> c \<in> set ''.Ee+-dDfF'') frac"
      using assms(1) by (cases frac) (auto simp: decimal_number_def fraction_text_def list_all_iff)
    moreover have "list_all (\<lambda>c. is_digit c \<or> c \<in> set ''.Ee+-dDfF'') ex"
    proof (cases ex)
      case (Cons e t)
      then have e: "e \<in> set ''Ee''" "digit_run (if t \<noteq> [] \<and> hd t \<in> set ''+-'' then tl t else t)"
        using assms(1) by (simp_all add: decimal_number_def exponent_text_def)
      then show ?thesis using Cons by (cases t) (auto simp: digit_run_def list_all_iff split: if_splits)
    qed simp
    moreover have "list_all (\<lambda>c. is_digit c \<or> c \<in> set ''.Ee+-dDfF'') suf"
      using assms(1) by (cases suf) (auto simp: decimal_number_def)
    ultimately show ?thesis by simp
  qed
  then have "is_digit c \<or> c \<in> set ''.Ee+-dDfF''" using assms(2) by (simp only: list_all_iff)
  then show "c \<noteq> CHAR_SINGLE" "c \<noteq> CHAR_DOUBLE" by (auto simp: is_digit_ord)
qed

text \<open>C25: A decimal number alone is not reported: digits with or without a fraction (a point, digits in front of it or
  behind it or both), an exponent with or without sign, and one of the suffixes d, D, f and F.\<close>

theorem sqli_number_passes:
  assumes "decimal_number i frac ex suf"
  shows "libinjection_sqli sql_keywords (i @ frac @ ex @ suf) = Some (False, [])"
proof -
  let ?d = "i @ frac @ ex @ suf"
  let ?L = "bsearch_keyword_type sql_keywords" and ?f = "FLAG_QUOTE_NONE OR FLAG_SQL_ANSI"
  let ?v = "assigned TYPE_NUMBER 0 (length ?d) ?d st_clear # replicate 7 st_clear"
  let ?sf = "plain_state ?v (length ?d) 1 1\<lparr>sf_fingerprint := ''1''\<rparr>"
  have upper: "upper (CHR ''1'') = CHR ''1''" by code_simp
  have "libinjection_sqli_fingerprint ?L ?d ?f = Some ?sf"
    unfolding libinjection_sqli_fingerprint_def init_plain fold_number [OF assms refl]
    by (simp add: php_comment_def cstring_def Let_def)
  then have "sqli_in_context ?L ?d ?f = Some (False, ?sf)"
    by (simp add: sqli_in_context_def libinjection_sqli_check_fingerprint_def libinjection_sqli_blacklist_def upper no_01)
  moreover have "\<not> reparse_as_mysql ?sf" by (simp add: reparse_as_mysql_def plain_state_def)
  ultimately have "sqli_ansi_mysql ?L ?d FLAG_QUOTE_NONE = Some (False, ?sf)" by (simp add: sqli_ansi_mysql_def)
  moreover have "CHAR_SINGLE \<notin> set ?d" "CHAR_DOUBLE \<notin> set ?d" using decimal_bytes [OF assms] by blast+
  ultimately show ?thesis unfolding libinjection_sqli_def libinjection_is_sqli_def by (simp del: set_append)
qed

theorem sqli_number_passes_witness:
  "libinjection_sqli sql_keywords (''42'' @ ''.5'' @ ''e-1'' @ ''f'') = Some (False, [])"
proof (rule sqli_number_passes)
  show "decimal_number ''42'' ''.5'' ''e-1'' ''f''" by code_simp
qed

lemma no_password: "CHR ''s'' \<notin> set h \<Longrightarrow> find_sub (CHR ''s'' # n) h = None"
proof (induction h)
  case (Cons c h)
  then show ?case by (subst find_sub.simps) auto
qed (simp add: find_sub.simps)

text \<open>The byte of the input that decides: the one at the length of the number, wherever the number is.\<close>

lemma comment_context:
  assumes "digit_run d" and u: "u = [] \<or> u = '' ''" and s: "s = u @ d @ ''--''"
  shows "\<exists>sf. sqli_in_context (bsearch_keyword_type sql_keywords) s (FLAG_QUOTE_NONE OR FLAG_SQL_ANSI) =
      Some (u = [] \<and> length d < TOKEN_SIZE, sf)
    \<and> sf_fingerprint sf = ''1c'' \<and> \<not> reparse_as_mysql sf"
proof -
  let ?L = "bsearch_keyword_type sql_keywords" and ?f = "FLAG_QUOTE_NONE OR FLAG_SQL_ANSI"
  let ?n = "assigned TYPE_NUMBER (length u) (length d) s st_clear" and ?c = "assigned TYPE_COMMENT (length u + length d) 2 s st_clear"
  let ?sf = "plain_state (?n # ?c # replicate 6 st_clear) (length s) 1 2\<lparr>sf_fingerprint := ''1c''\<rparr>"
  let ?k = "min (length d) 31"
  have print: "libinjection_sqli_fingerprint ?L s ?f = Some ?sf"
    by (simp add: libinjection_sqli_fingerprint_def init_plain fold_number_comment [OF assms] php_comment_def cstring_def Let_def
        numeral_2_eq_2)
  have upper: "map upper ''1c'' = ''1C''" by code_simp
  have black: "libinjection_sqli_blacklist ?L ?sf = Some True"
    using upper by (simp add: libinjection_sqli_blacklist_def has_01C)
  have password: "my_memmem s 0 (length s) ''sp_password'' = Some None"
  proof -
    have "CHR ''s'' \<notin> set s" using digit_bytes(3) [OF assms(1)] u by (auto simp: s)
    then show ?thesis by (simp add: my_memmem_def read_bytes_some no_password)
  qed
  have digits: "is_digit (d ! i)" if "i < length d" for i using assms(1) that by (simp add: digit_run_def list_all_length)
  have k: "?k + 1 < length s" by (simp add: s)
  have byte: "if u = [] \<and> length d < TOKEN_SIZE then s ! ?k = CHR ''-'' \<and> s ! (?k + 1) = CHR ''-'' else is_digit (s ! ?k)"
  proof (cases "u = [] \<and> length d < TOKEN_SIZE")
    case True
    then show ?thesis by (simp add: s nth_append TOKEN_SIZE_def min_def)
  next
    case False
    obtain k where k: "?k = k" "0 < k" "k - 1 < length d" "TOKEN_SIZE \<le> length d \<longrightarrow> k < length d"
      using assms(1) by (auto simp: digit_run_def TOKEN_SIZE_def min_def neq_Nil_conv)
    have "s ! k = d ! (k - length u)" "k - length u < length d"
      using False u k(2-4) by (auto simp: s nth_append nth_Cons')
    then have "is_digit (s ! ?k)" using digits k(1) by simp
    then show ?thesis using False by auto
  qed
  have "drop (length u + length d) s = ''--''" by (simp add: s)
  then have val: "val0 ?c = CHR ''-''" by (simp add: val0_def)
  have "libinjection_sqli_not_whitelist s ?sf = Some (u = [] \<and> length d < TOKEN_SIZE)"
    using password k byte val
    by (cases "u = [] \<and> length d < TOKEN_SIZE") (auto simp: libinjection_sqli_not_whitelist_def whitelist_two_def tok_def read_at_some signed_char_def is_digit_ord)
  then show ?thesis
    using print black
    by (intro exI [of _ ?sf])
      (auto simp: sqli_in_context_def libinjection_sqli_check_fingerprint_def reparse_as_mysql_def plain_state_def)
qed

text \<open>C13: A number with the comment \<open>--\<close> behind it is reported with the fingerprint \<open>1c\<close>, unless the number has more
  than 31 digits, the size at which the copy in the token is cut; then the byte that is looked at is a
  digit.\<close>

theorem sqli_number_comment:
  assumes "digit_run d"
  shows "libinjection_sqli sql_keywords (d @ ''--'') = Some (if length d < TOKEN_SIZE then (True, ''1c'') else (False, []))"
proof -
  obtain sf where "sqli_in_context (bsearch_keyword_type sql_keywords) (d @ ''--'') (FLAG_QUOTE_NONE OR FLAG_SQL_ANSI) =
      Some (length d < TOKEN_SIZE, sf)" "sf_fingerprint sf = ''1c''" "\<not> reparse_as_mysql sf"
    using comment_context [OF assms, of "[]" "d @ ''--''"] by auto
  then show ?thesis
    using digit_bytes [OF assms] by (simp add: libinjection_sqli_def libinjection_is_sqli_def sqli_ansi_mysql_def)
qed

theorem sqli_number_comment_witness: "libinjection_sqli sql_keywords ''7--'' = Some (True, ''1c'')"
  using sqli_number_comment [of "''7''"] by (simp add: digit_run_def is_digit_ord TOKEN_SIZE_def)

text \<open>C14: With a space in front the same attack passes: the check looks at the byte at the length of the number from
  the start of the input, not behind the number.\<close>

theorem sqli_space_hides_comment:
  assumes "digit_run d"
  shows "libinjection_sqli sql_keywords ('' '' @ d @ ''--'') = Some (False, [])"
proof -
  obtain sf where "sqli_in_context (bsearch_keyword_type sql_keywords) ('' '' @ d @ ''--'') (FLAG_QUOTE_NONE OR FLAG_SQL_ANSI) =
      Some (False, sf)" "\<not> reparse_as_mysql sf"
    using comment_context [OF assms, of "'' ''" "'' '' @ d @ ''--''"] by auto
  then show ?thesis
    using digit_bytes [OF assms] by (simp add: libinjection_sqli_def libinjection_is_sqli_def sqli_ansi_mysql_def)
qed

theorem sqli_space_hides_comment_witness: "libinjection_sqli sql_keywords '' 7--'' = Some (False, [])"
  using sqli_space_hides_comment [of "''7''"] by (simp add: digit_run_def is_digit_ord)

end
