(* ===== verification/Spec2Isabelle.thy ===== *)
theory Spec2Isabelle
  imports NgxBase64 NgxParse HttpChunked HttpHeaderLine HttpUri UnsafeUri RunAV MsTransaction MsInspection XssDetect ProxyProtocol SqliRuns
begin

text \<open>
  A verification library for the C core of BunkerWeb.

  BunkerWeb is a web application firewall: nginx (\<open>src/deps/src/nginx\<close>) as the reverse proxy, the
  ModSecurity connector (\<open>src/deps/src/modsecurity-nginx\<close>, with BunkerWeb's own access handler in
  \<open>src/deps/misc\<close>) in front of the rule engine, libinjection (\<open>src/deps/src/libinjection\<close>) behind the
  rules against script and SQL injection, and an antivirus helper that the rules run on uploaded files
  (\<open>src/common/core/modsecurity/files/coreruleset-v3/util/av-scanning/runAV\<close>).  What a client sends goes
  through these parts in this order: the request line, its URI, the header lines and the body are parsed,
  the connector gives them to the engine and refuses what the engine refuses, the engine asks libinjection
  and the helper, and the response goes back through the connector's filters.

  \<^bold>\<open>Conventions.\<close>  Theory \<open>Prelude\<close> says how C is read: a byte is a \<^typ>\<open>char\<close>, a buffer the list of its
  bytes, a pointer into a buffer an index, a signed 64-bit integer an \<^typ>\<open>int\<close> with \<open>s64\<close> behind every
  operation; \<open>Checked\<close> adds reads, copies and subtractions of sizes that give \<open>None\<close> when C would read
  outside a buffer or wrap around.  A definition has the name of the C function it models wherever it models a whole function;
  the body of a \<open>case\<close> or of a loop has a name of its own.  What is not C code of the repository is an
  argument: the answers of the rule engine (\<open>waf\<close>), the results of allocations (\<open>alloc\<close>), the output of a
  command, the environment.

  \<^bold>\<open>Numbers and texts of nginx\<close> (\<open>src/core\<close>).
  \<open>NgxNumber\<close>: \<open>ngx_atoi\<close> and its relatives, each with its overflow guard; every reader returns the exact
  value when it fits and \<open>NGX_ERROR\<close> otherwise.  The locale \<open>decimal_reader\<close> is what the four decimal
  readers share.  \<open>NgxParse\<close>: sizes, offsets and times of the configuration, built on them.
  \<open>NgxBase64\<close>: the base64 codecs and \<open>ngx_hex_dump\<close>; the locale \<open>base64_tables\<close> is what the decoder relies
  on in the encoder's alphabet, and the round trip is proved once inside it.  \<open>NgxPrint\<close>: \<open>ngx_vslprintf\<close>
  and what is built on it, with the bound of the buffer; a bounded print never writes behind its end and is
  the unbounded print cut there, and the readers read back the numbers it prints.  \<open>HttpTime\<close>: the dates of
  the headers in both directions, related to a Gregorian calendar that is defined by adding up years and
  months.

  \<^bold>\<open>Whose connection it is.\<close>
  \<open>NgxInet\<close>: \<open>src/core/ngx_inet.c\<close>, addresses, networks and their texts.  \<open>InetText\<close>: every address that
  can be printed is read back, but for the three whose last bytes are 255.255.255.255, which the reader
  takes for an error; the compression of the longest run of zero words is shown to be undone by the reader.
  \<open>InetCidr\<close>: a network in its notation is the set of addresses that agree in the first bits, the abstract
  view being lists of bits.  \<open>ClientAddr\<close>: \<open>ngx_http_get_forwarded_addr\<close> and the real-IP module; the walk
  over the headers is related to \<open>client_of\<close>, which stops at the first address that is not trusted, and a
  step relation of a request shows that the original address is never lost.  \<open>ProxyProtocol\<close>:
  \<open>src/core/ngx_proxy_protocol.c\<close> with every read of the buffer checked; what one nginx writes another reads, and
  through the real-IP module becomes the address of the connection.

  \<^bold>\<open>What the client sends\<close> (\<open>src/http\<close>).
  \<open>ParseLoop\<close> is the loop of nginx's incremental parsers: a \<open>step\<close> for each byte that goes on, is done or
  returns, and a record that keeps the state between buffers.  The locale \<open>incremental_parser\<close> shows that the
  bytes may arrive in any pieces, and \<open>parser_with_invariant\<close> that an invariant of the step holds of whatever
  the loop returns; \<open>HttpRequestLine\<close>, \<open>HttpHeaderLine\<close> interpret both on their steps.
  \<open>HttpRequestLine\<close>: \<open>ngx_http_parse_request_line\<close>, one definition for each \<open>case\<close>; where the parts of an
  accepted line are and what they contain, and that every line of the grammar is accepted.  \<open>HttpUri\<close>:
  \<open>ngx_http_parse_uri\<close> and \<open>ngx_http_parse_complex_uri\<close>; no traversal survives the rewriting, the
  extension is exactly that of \<open>path_extension\<close>, the result fits the buffer that is allocated for it, and a URI the
  check calls plain is rewritten to itself.  \<open>NgxEscape\<close>: the escaping functions of \<open>src/core/ngx_string.c\<close> and the
  reader of escapes; \<open>UnsafeUri\<close>: \<open>ngx_http_parse_unsafe_uri\<close>, with the one form of \<open>/..\<close> that it lets through.
  \<open>HttpHeaderLine\<close>: \<open>ngx_http_parse_header_line\<close>; what the names and values of accepted lines contain, and
  their hash.  \<open>HttpChunked\<close>: \<open>ngx_http_parse_chunked\<close> and the body filter's loop with
  \<open>client_max_body_size\<close>; the limit holds however the body is cut, and what a client encodes is decoded.

  \<^bold>\<open>The ModSecurity connector.\<close>
  \<open>ModSecurity\<close>: the handlers of the rewrite, access and log phases and the header and body filters, on a
  record of the request with the connector's context; a transaction of the engine is the list of the calls
  made on it.  \<open>MsTransaction\<close>: a step relation of everything a request can go through (the handlers, the
  filters, internal redirections, changes by the rest of nginx), each step labelled with the last
  buffers that the body filter is given in it, and the invariant that the engine sees one transaction with its phases
  in order.  \<open>MsInspection\<close>: what each handler and filter does on every path; where it inspects, the calls that
  the engine has been given when it lets a request or a response pass, and that the engine has let every one of them
  pass, but for the last answer on an error page and for answers behind sent headers (\<open>passes\<close>).

  \<^bold>\<open>libinjection.\<close>
  \<open>Html5\<close>: the tokenizer of \<open>libinjection_html5.c\<close>, one definition for each state function and \<open>h5_call\<close> for
  the chain of their tail calls, with every read, every \<open>memchr\<close> and every subtraction of sizes checked
  (\<open>None\<close> is a bad one).  A measure that every call decreases bounds the calls: \<open>h5_call\<close> has fuel that is
  shown to be enough for every input, so that all theorems are about runs that end.  \<open>XssCheck\<close>: the
  check of \<open>libinjection_xss.c\<close> with its tables; it decides every input.  \<open>XssDetect\<close>: what it finds and what
  it misses.  \<open>SqliTokens\<close>: the tokenizer of \<open>libinjection_sqli.c\<close>, a definition for each parser of its table;
  \<open>SqliFold\<close>: \<open>libinjection_sqli_fold\<close>, the rules for five, two and three tokens as definitions that end with
  \<open>continue\<close>, \<open>return\<close> or go on; \<open>SqliCheck\<close>: the fingerprint and the decision.  Their loops are
  \<open>partial_function (option)\<close>, so that a loop that does not end is \<open>None\<close> as well, and \<open>None\<close> is shown never to
  happen.  \<open>SqliParse\<close>: each parser stays inside the input, moves forward and leaves a token that is part of
  it; the locale \<open>word_lookup\<close> is what they rely on in the lookup of words.  \<open>SqliSafe\<close>: the invariant of the
  folding and the measure by which it ends (the rest of the input, then the kept tokens with a weight for
  the types that rules may still change, then how far the loop has come).  \<open>SqliData\<close> is the table of the words and
  fingerprints, \<open>SqliSorted\<close> the binary search in any table that is sorted (locale \<open>sorted_table\<close>), and
  \<open>SqliTable\<close> evaluates that the table is, in pieces of 150 rows, and interprets both locales on it.
  \<open>SqliQuote\<close>: the search for the end of a string is one pass over it.  \<open>SqliDecide\<close> and \<open>SqliRuns\<close>: what the
  check promises of every input, and what it reports of a number with a comment behind it.

  \<^bold>\<open>The antivirus helper.\<close>
  \<open>RunAV\<close>: its verdicts, \<open>run_cmd\<close> with the buffer it fills, queries and bodies, configuration and block lists.
  The loop of \<open>run_cmd\<close> may run for ever, so it has fuel; the theorem says for which outputs no fuel is enough.

  \<^bold>\<open>Not modelled.\<close>
  LuaJIT, Lua and its libraries, mbedtls, zlib and brotli are third-party libraries that the program only
  calls; libmodsecurity (C++) is the parameter \<open>waf\<close>; of libinjection, the lookup that another program may
  install in its place and the field \<open>reason\<close>, which only serves debugging, are left out; the rest of nginx is its event
  loop, memory pools, upstreams and modules.  Each component of the manifest says what it leaves out.
\<close>

end
